(* ===== verification/Prelude.thy ===== *)
theory Prelude
  imports Main "HOL-Library.Finite_Map" "HOL-Library.Char_ord" "HOL-Library.List_Lexorder"
    "HOL-Library.Sublist" "HOL-Library.Multiset"
begin

text \<open>
  What every component of the model shares: the Go values the operator computes with (strings,
  maps and slices that may be nil, errors and panics), the effectful computations that a
  reconcile handler is, and the generic lemmas on both.

  A handler is a function from the state of the world (the cluster behind the API server) to an
  outcome and the world it leaves: \<open>Ok\<close> a value, \<open>Err\<close> a returned error, or \<open>Panic\<close> where the Go
  code would panic. \<open>handle m h k\<close> is the shape \<open>v, err := m; if err != nil { h } else { k }\<close>, which
  lets a panic through; \<open>bindG\<close> is the \<open>if err != nil { return err }\<close> special case.
\<close>

section \<open>Theorem collections\<close>

named_theorems go_eval \<open>evaluation rules for outcomes, maps, slices and strings\<close>
named_theorems act_intro \<open>closure rules for relations between the worlds before and after\<close>

section \<open>Errors, panics, outcomes\<close>

datatype api_error = NotFound | AlreadyExists | ApiFailure string

text \<open>\<open>Wrapped\<close> is \<open>fmt.Errorf\<close> with \<open>%w\<close>, whose cause \<open>errors.As\<close> still finds; \<open>Formatted\<close> is \<open>%v\<close>,
  which keeps only the text; \<open>Joined\<close> is \<open>errors.Join\<close>.\<close>

datatype go_error =
    ApiErr api_error
  | ErrorText string
  | Wrapped string go_error
  | Formatted string go_error
  | Joined "go_error list"

datatype panic = IndexOutOfRange | NilDereference | NilMapWrite | BadCast

datatype 'a outcome = Ok 'a | Err go_error | Panic panic

fun api_cause :: "go_error \<Rightarrow> api_error option" where
  "api_cause (ApiErr e) = Some e"
| "api_cause (Wrapped _ e) = api_cause e"
| "api_cause _ = None"

definition IsNotFound :: "go_error \<Rightarrow> bool" where
  "IsNotFound e = (api_cause e = Some NotFound)"

definition IsAlreadyExists :: "go_error \<Rightarrow> bool" where
  "IsAlreadyExists e = (api_cause e = Some AlreadyExists)"

section \<open>Computations over a world\<close>

type_synonym ('w, 'a) act = "'w \<Rightarrow> 'a outcome \<times> 'w"

definition ret :: "'a \<Rightarrow> ('w, 'a) act" where
  "ret a = (\<lambda>w. (Ok a, w))"

definition fail :: "go_error \<Rightarrow> ('w, 'a) act" where
  "fail e = (\<lambda>w. (Err e, w))"

definition panic :: "panic \<Rightarrow> ('w, 'a) act" where
  "panic p = (\<lambda>w. (Panic p, w))"

definition handle ::
  "('w, 'a) act \<Rightarrow> (go_error \<Rightarrow> ('w, 'b) act) \<Rightarrow> ('a \<Rightarrow> ('w, 'b) act) \<Rightarrow> ('w, 'b) act" where
  "handle m h k = (\<lambda>w. case m w of
      (Ok a, w') \<Rightarrow> k a w'
    | (Err e, w') \<Rightarrow> h e w'
    | (Panic p, w') \<Rightarrow> (Panic p, w'))"

definition bindG :: "('w, 'a) act \<Rightarrow> ('a \<Rightarrow> ('w, 'b) act) \<Rightarrow> ('w, 'b) act" where
  "bindG m k = handle m fail k"

definition thenG :: "('w, 'a) act \<Rightarrow> ('w, 'b) act \<Rightarrow> ('w, 'b) act" where
  "thenG m n = bindG m (\<lambda>_. n)"

text \<open>Run a computation and go on whatever error it returned (the code logs it).\<close>

definition logged :: "('w, 'a) act \<Rightarrow> ('w, unit) act" where
  "logged m = handle m (\<lambda>_. ret ()) (\<lambda>_. ret ())"

text \<open>Replace the returned error by another, as the \<open>fmt.Errorf\<close> returns do.\<close>

definition mapErr :: "(go_error \<Rightarrow> go_error) \<Rightarrow> ('w, 'a) act \<Rightarrow> ('w, 'a) act" where
  "mapErr f m = handle m (\<lambda>e. fail (f e)) ret"

definition liftE :: "go_error + 'a \<Rightarrow> ('w, 'a) act" where
  "liftE r = (case r of Inl e \<Rightarrow> fail e | Inr a \<Rightarrow> ret a)"

definition liftO :: "'a outcome \<Rightarrow> ('w, 'a) act" where
  "liftO r = (\<lambda>w. (r, w))"

definition derefG :: "'a option \<Rightarrow> ('w, 'a) act" where
  "derefG p = (case p of None \<Rightarrow> panic NilDereference | Some a \<Rightarrow> ret a)"

text \<open>A \<open>for\<close> loop over a slice whose body may return an error.\<close>

fun forG :: "('a \<Rightarrow> ('w, unit) act) \<Rightarrow> 'a list \<Rightarrow> ('w, unit) act" where
  "forG f [] = ret ()"
| "forG f (x # xs) = thenG (f x) (forG f xs)"

text \<open>
  \<open>if !reflect.DeepEqual(x.F, d) { x.F = d; changed = true }\<close>: bring one field of an object found in
  the cluster to its desired value.
\<close>

definition syncField :: "('s \<Rightarrow> 'f) \<Rightarrow> ('f \<Rightarrow> 's \<Rightarrow> 's) \<Rightarrow> 'f \<Rightarrow> bool \<times> 's \<Rightarrow> bool \<times> 's" where
  "syncField get put d cx = (case cx of (changed, x) \<Rightarrow>
     if get x \<noteq> d then (True, put d x) else (changed, x))"

section \<open>Maps and slices that may be nil\<close>

type_synonym gomap = "(string, string) fmap option"

type_synonym 'a slice = "'a list option"

definition gmap :: "(string \<times> string) list \<Rightarrow> gomap" where
  "gmap xs = Some (fmap_of_list xs)"

definition gget :: "gomap \<Rightarrow> string \<Rightarrow> string option" where
  "gget m k = (case m of None \<Rightarrow> None | Some f \<Rightarrow> fmlookup f k)"

text \<open>\<open>m[k]\<close>: the zero value when the key is absent or the map is nil.\<close>

definition gindex :: "gomap \<Rightarrow> string \<Rightarrow> string" where
  "gindex m k = (case gget m k of None \<Rightarrow> '''' | Some v \<Rightarrow> v)"

text \<open>\<open>if m == nil { m = make(...) }; m[k] = v\<close>\<close>

definition gput :: "gomap \<Rightarrow> string \<Rightarrow> string \<Rightarrow> gomap" where
  "gput m k v = (case m of None \<Rightarrow> Some (fmupd k v fmempty) | Some f \<Rightarrow> Some (fmupd k v f))"

text \<open>\<open>delete(m, k)\<close>, which does nothing on a nil map.\<close>

definition gdelete :: "gomap \<Rightarrow> string \<Rightarrow> gomap" where
  "gdelete m k = map_option (fmdrop k) m"

definition gmake :: "gomap \<Rightarrow> gomap" where
  "gmake m = (case m of None \<Rightarrow> Some fmempty | Some f \<Rightarrow> Some f)"

definition glen :: "gomap \<Rightarrow> nat" where
  "glen m = (case m of None \<Rightarrow> 0 | Some f \<Rightarrow> fcard (fmdom f))"

definition elems :: "'a slice \<Rightarrow> 'a list" where
  "elems s = (case s of None \<Rightarrow> [] | Some xs \<Rightarrow> xs)"

section \<open>Strings\<close>

definition HasPrefix :: "string \<Rightarrow> string \<Rightarrow> bool" where
  "HasPrefix s p = prefix p s"

fun joinStr :: "string \<Rightarrow> string list \<Rightarrow> string" where
  "joinStr sep [] = ''''"
| "joinStr sep [x] = x"
| "joinStr sep (x # y # xs) = x @ sep @ joinStr sep (y # xs)"

text \<open>\<open>strings.Split\<close> on a one character separator: always at least one element.\<close>

fun splitOn :: "char \<Rightarrow> string \<Rightarrow> string list" where
  "splitOn c [] = [[]]"
| "splitOn c (x # xs) =
     (if x = c then [] # splitOn c xs
      else (case splitOn c xs of [] \<Rightarrow> [[x]] | y # ys \<Rightarrow> (x # y) # ys))"

definition isSpace :: "char \<Rightarrow> bool" where
  "isSpace c = (c \<in> {CHR 0x20, CHR 0x09, CHR 0x0A, CHR 0x0B, CHR 0x0C, CHR 0x0D})"

definition TrimSpace :: "string \<Rightarrow> string" where
  "TrimSpace s = rev (dropWhile isSpace (rev (dropWhile isSpace s)))"

definition lowerChar :: "char \<Rightarrow> char" where
  "lowerChar c = (let n = of_char c :: nat in
     if 65 \<le> n \<and> n \<le> 90 then char_of (n + 32) else c)"

definition ToLower :: "string \<Rightarrow> string" where
  "ToLower s = map lowerChar s"

definition newline :: string where
  "newline = [CHR 0x0A]"

definition tab :: string where
  "tab = [CHR 0x09]"

section \<open>Lemmas on errors and computations\<close>

lemma IsNotFound_simps [simp, go_eval]:
  "IsNotFound (ApiErr e) = (e = NotFound)"
  "IsNotFound (Wrapped s x) = IsNotFound x"
  "IsNotFound (Formatted s x) = False"
  "IsNotFound (ErrorText s) = False"
  by (simp_all add: IsNotFound_def)

lemma IsAlreadyExists_simps [simp, go_eval]:
  "IsAlreadyExists (ApiErr e) = (e = AlreadyExists)"
  "IsAlreadyExists (Wrapped s x) = IsAlreadyExists x"
  by (simp_all add: IsAlreadyExists_def)

lemma ret_apply [simp, go_eval]: "ret a w = (Ok a, w)"
  by (simp add: ret_def)

lemma fail_apply [simp, go_eval]: "fail e w = (Err e, w)"
  by (simp add: fail_def)

lemma panic_apply [simp, go_eval]: "panic p w = (Panic p, w)"
  by (simp add: panic_def)

lemma handle_apply [go_eval]:
  "m w = (Ok a, w') \<Longrightarrow> handle m h k w = k a w'"
  "m w = (Err e, w') \<Longrightarrow> handle m h k w = h e w'"
  "m w = (Panic p, w') \<Longrightarrow> handle m h k w = (Panic p, w')"
  by (simp_all add: handle_def)

lemma handle_simps [simp]:
  "handle (ret a) h k = k a"
  "handle (fail e) h k = h e"
  "handle (panic p) h k = panic p"
  by (simp_all add: handle_def fun_eq_iff)

lemma handle_Ok_iff:
  "handle m h k w = (Ok b, w') \<longleftrightarrow>
     (\<exists>a w1. m w = (Ok a, w1) \<and> k a w1 = (Ok b, w')) \<or>
     (\<exists>e w1. m w = (Err e, w1) \<and> h e w1 = (Ok b, w'))"
  by (auto simp: handle_def split: prod.splits outcome.splits)

lemma bindG_Ok_iff:
  "bindG m k w = (Ok b, w') \<longleftrightarrow> (\<exists>a w1. m w = (Ok a, w1) \<and> k a w1 = (Ok b, w'))"
  by (auto simp: bindG_def handle_Ok_iff)

lemma thenG_Ok_iff:
  "thenG m n w = (Ok b, w') \<longleftrightarrow> (\<exists>a w1. m w = (Ok a, w1) \<and> n w1 = (Ok b, w'))"
  by (simp add: thenG_def bindG_Ok_iff)

lemma mapErr_Ok_iff: "mapErr f m w = (Ok b, w') \<longleftrightarrow> m w = (Ok b, w')"
  by (auto simp: mapErr_def handle_Ok_iff)

lemma logged_Ok_iff:
  "logged m w = (Ok b, w') \<longleftrightarrow> (\<exists>r. m w = (r, w') \<and> (\<forall>p. r \<noteq> Panic p))"
  by (auto simp: logged_def handle_Ok_iff) (metis outcome.exhaust)

lemma liftE_Ok_iff: "liftE r w = (Ok a, w') \<longleftrightarrow> r = Inr a \<and> w' = w"
  by (auto simp: liftE_def split: sum.splits)

lemma derefG_Ok_iff: "derefG p w = (Ok a, w') \<longleftrightarrow> p = Some a \<and> w' = w"
  by (auto simp: derefG_def split: option.splits)

lemma liftO_Ok_iff: "liftO r w = (Ok a, w') \<longleftrightarrow> r = Ok a \<and> w' = w"
  by (auto simp: liftO_def)

lemma liftO_simps [simp]: "liftO (Ok a) = ret a" "liftO (Err e) = fail e" "liftO (Panic p) = panic p"
  by (simp_all add: liftO_def fun_eq_iff)

lemma bindG_simps [simp]:
  "bindG (ret a) k = k a" "bindG (fail e) k = fail e" "bindG (panic p) k = panic p"
  by (simp_all add: bindG_def handle_def fun_eq_iff)

lemma bindG_apply [go_eval]:
  "m w = (Ok a, w') \<Longrightarrow> bindG m k w = k a w'"
  "m w = (Err e, w') \<Longrightarrow> bindG m k w = (Err e, w')"
  "m w = (Panic p, w') \<Longrightarrow> bindG m k w = (Panic p, w')"
  by (simp_all add: bindG_def handle_apply)

lemma thenG_apply [go_eval]:
  "m w = (Ok a, w') \<Longrightarrow> thenG m n w = n w'"
  "m w = (Err e, w') \<Longrightarrow> thenG m n w = (Err e, w')"
  "m w = (Panic p, w') \<Longrightarrow> thenG m n w = (Panic p, w')"
  by (simp_all add: thenG_def bindG_apply)

lemmas ok_iff = handle_Ok_iff bindG_Ok_iff thenG_Ok_iff mapErr_Ok_iff liftE_Ok_iff derefG_Ok_iff
  liftO_Ok_iff

text \<open>A run whose outcome is known, with the world it leaves.\<close>

lemma run_result: "fst x = r \<Longrightarrow> x = (r, snd x)"
  by (cases x) simp

lemma forG_append_Ok_iff:
  "forG f (xs @ ys) w = (Ok u, w') \<longleftrightarrow>
     (\<exists>w1. forG f xs w = (Ok (), w1) \<and> forG f ys w1 = (Ok (), w'))"
  by (induction xs arbitrary: w) (auto simp: thenG_Ok_iff)

section \<open>Relations between the worlds before and after\<close>

text \<open>
  A property of everything a handler does to the world, whatever its outcome, is a reflexive and
  transitive relation between the world it starts from and the one it leaves. Such a relation is
  closed under the combinators, so it is proved once per API call and once per composition.
\<close>

definition act_rel :: "('w \<Rightarrow> 'w \<Rightarrow> bool) \<Rightarrow> ('w, 'a) act \<Rightarrow> bool" where
  "act_rel R m \<longleftrightarrow> (\<forall>w. R w (snd (m w)))"

lemma act_relD: "act_rel R m \<Longrightarrow> m w = (r, w') \<Longrightarrow> R w w'"
  unfolding act_rel_def by (metis snd_conv)

locale world_relation =
  fixes R :: "'w \<Rightarrow> 'w \<Rightarrow> bool"
  assumes R_refl: "R w w"
    and R_trans: "R u v \<Longrightarrow> R v w \<Longrightarrow> R u w"
begin

lemma rel_ret: "act_rel R (ret a)"
  by (simp add: act_rel_def R_refl)

lemma rel_fail: "act_rel R (fail e)"
  by (simp add: act_rel_def R_refl)

lemma rel_panic: "act_rel R (panic p)"
  by (simp add: act_rel_def R_refl)

lemma rel_handle:
  assumes "act_rel R m" and "\<And>e. act_rel R (h e)"
    and "\<And>a w w1. m w = (Ok a, w1) \<Longrightarrow> act_rel R (k a)"
  shows "act_rel R (handle m h k)"
proof (unfold act_rel_def, intro allI)
  fix w
  obtain r w' where m: "m w = (r, w')" by force
  with assms(1) have "R w w'" by (metis act_rel_def snd_conv)
  moreover have "R w' (snd (handle m h k w)) \<or> snd (handle m h k w) = w'"
    using m assms(2) assms(3)[of w _ w'] by (cases r) (simp_all add: handle_def act_rel_def)
  ultimately show "R w (snd (handle m h k w))" by (metis R_trans)
qed

lemma rel_bindG:
  "act_rel R m \<Longrightarrow> (\<And>a w w1. m w = (Ok a, w1) \<Longrightarrow> act_rel R (k a)) \<Longrightarrow> act_rel R (bindG m k)"
  unfolding bindG_def by (rule rel_handle) (simp_all add: rel_fail)

lemma rel_thenG: "act_rel R m \<Longrightarrow> act_rel R n \<Longrightarrow> act_rel R (thenG m n)"
  unfolding thenG_def by (rule rel_bindG)

lemma rel_logged: "act_rel R m \<Longrightarrow> act_rel R (logged m)"
  unfolding logged_def by (rule rel_handle) (simp_all add: rel_ret)

lemma rel_mapErr: "act_rel R m \<Longrightarrow> act_rel R (mapErr f m)"
  unfolding mapErr_def by (rule rel_handle) (simp_all add: rel_ret rel_fail)

lemma rel_liftE: "act_rel R (liftE r)"
  by (simp add: liftE_def rel_ret rel_fail split: sum.split)

lemma rel_derefG: "act_rel R (derefG p)"
  by (simp add: derefG_def rel_ret rel_panic split: option.split)

lemma rel_liftO: "act_rel R (liftO r)"
  by (simp add: act_rel_def liftO_def R_refl)

lemma rel_forG: "(\<And>x. x \<in> set xs \<Longrightarrow> act_rel R (f x)) \<Longrightarrow> act_rel R (forG f xs)"
  by (induction xs) (simp_all add: rel_ret rel_thenG)

lemma rel_if: "(b \<Longrightarrow> act_rel R m) \<Longrightarrow> (\<not> b \<Longrightarrow> act_rel R n) \<Longrightarrow> act_rel R (if b then m else n)"
  by simp

lemmas rel_intros = rel_ret rel_fail rel_panic rel_handle rel_bindG rel_thenG rel_logged
  rel_mapErr rel_liftE rel_liftO rel_derefG rel_forG rel_if

end

section \<open>Fields of an object, and bringing them to a desired value\<close>

text \<open>What makes a pair of functions a field: reading after writing, writing what is there. Then
  \<open>syncField\<close> always ends with the desired value, and reports a change exactly when there was one.\<close>

locale field =
  fixes get :: "'s \<Rightarrow> 'f" and put :: "'f \<Rightarrow> 's \<Rightarrow> 's"
  assumes get_put: "get (put v x) = v"
    and put_get: "put (get x) x = x"
begin

lemma sync_eq: "syncField get put d (changed, x) = (changed \<or> get x \<noteq> d, put d x)"
  using put_get[of x] by (auto simp: syncField_def)

lemma sync_get: "get (snd (syncField get put d cx)) = d"
  by (cases cx) (simp add: sync_eq get_put)

lemma sync_stable: "get x = d \<Longrightarrow> syncField get put d (changed, x) = (changed, x)"
  by (simp add: syncField_def)

end

section \<open>Lemmas on maps, slices and strings\<close>

lemma gget_simps [simp, go_eval]:
  "gget None k = None"
  "gget (Some f) k = fmlookup f k"
  "gget (gput m k' v) k = (if k = k' then Some v else gget m k)"
  "gget (gdelete m k') k = (if k = k' then None else gget m k)"
  "gget (gmake m) k = gget m k"
  by (auto simp: gget_def gput_def gdelete_def gmake_def split: option.splits)

lemma gget_gmap [simp, go_eval]: "gget (gmap xs) k = map_of xs k"
  by (simp add: gmap_def fmlookup_of_list)

lemma gindex_gput [simp]: "gindex (gput m k' v) k = (if k = k' then v else gindex m k)"
  by (simp add: gindex_def)

lemma gindex_gmake [simp]: "gindex (gmake m) k = gindex m k"
  by (simp add: gindex_def)

lemma gmake_gput [simp]: "gmake (gput m k v) = gput m k v"
  by (simp add: gmake_def gput_def split: option.split)

lemma gput_neq_None [simp]: "gput m k v \<noteq> None"
  by (simp add: gput_def split: option.split)

lemma gput_same: "gget m k = Some v \<Longrightarrow> gput m k v = m"
  by (cases m) (auto simp: gput_def intro!: fmap_ext)

lemma elems_simps [simp, go_eval]: "elems None = []" "elems (Some xs) = xs"
  by (simp_all add: elems_def)

lemma splitOn_ne [simp]: "splitOn c s \<noteq> []"
  by (induction s) (auto split: list.splits)

lemma splitOn_no_sep: "x \<in> set (splitOn c s) \<Longrightarrow> c \<notin> set x"
  by (induction s arbitrary: x) (auto split: if_splits list.splits)

lemma joinStr_Cons: "ys \<noteq> [] \<Longrightarrow> joinStr sep (y # ys) = y @ sep @ joinStr sep ys"
  by (cases ys) simp_all

lemma joinStr_Cons_head: "joinStr sep ((x # y) # ys) = x # joinStr sep (y # ys)"
  by (cases ys) simp_all

lemma joinStr_splitOn: "joinStr [c] (splitOn c s) = s"
proof (induction s)
  case (Cons x xs)
  then show ?case
    by (cases "splitOn c xs") (auto simp: joinStr_Cons joinStr_Cons_head)
qed simp

lemma joinStr_append_last:
  "xs \<noteq> [] \<Longrightarrow> joinStr sep (xs @ [y]) = joinStr sep xs @ sep @ y"
  by (induction sep xs rule: joinStr.induct) simp_all

lemma splitOn_append_sep:
  "c \<notin> set e \<Longrightarrow> splitOn c (s @ c # e) = splitOn c s @ [e]"
proof (induction s)
  case Nil
  then have "splitOn c e = [e]" by (induction e) auto
  then show ?case by simp
next
  case (Cons x xs)
  then show ?case
    by (cases "splitOn c xs") (auto simp: neq_Nil_conv)
qed

end
