(* ===== verification/K8s_Objects.thy ===== *)
theory K8s_Objects
  imports Prelude
begin

text \<open>
  The Kubernetes, OpenShift and Argo CD objects the operator reads and writes, as records with
  the fields the modelled code names. Pointers are options, slices and maps may be nil. A record
  that the code compares as a whole carries one more field (\<open>...Other\<close>) for the fields the
  operator never sets, empty when they are all unset, so that a comparison is not blind to them.
  A quantity is kept as the text given to \<open>resource.MustParse\<close>; two quantities are
  \<open>reflect.DeepEqual\<close> here when their texts agree.
\<close>

section \<open>Metadata\<close>

record owner_ref =
  ownerKind :: string
  ownerName :: string

record object_meta =
  metaName :: string
  metaNamespace :: string
  metaLabels :: gomap
  metaAnnotations :: gomap
  metaOwners :: "owner_ref list"
  metaFinalizers :: "string list"
  metaDeleting :: bool

definition mkMeta :: "string \<Rightarrow> string \<Rightarrow> object_meta" where
  "mkMeta n ns = \<lparr>metaName = n, metaNamespace = ns, metaLabels = None, metaAnnotations = None,
     metaOwners = [], metaFinalizers = [], metaDeleting = False\<rparr>"

section \<open>Pods\<close>

datatype quantity = MustParse string

record resource_requirements =
  rrRequests :: "(string, quantity) fmap option"
  rrLimits :: "(string, quantity) fmap option"
  rrOther :: string

record env_var =
  evName :: string
  evValue :: string
  evOther :: string

record container_port =
  cpName :: string
  cpProtocol :: string
  cpContainerPort :: int
  cpOther :: string

record volume_mount =
  vmName :: string
  vmReadOnly :: bool
  vmMountPath :: string
  vmSubPath :: string
  vmOther :: string

record seccomp_profile =
  seccompType :: string
  seccompOther :: string

record capabilities =
  capAdd :: "string slice"
  capDrop :: "string slice"

record security_context =
  scCapabilities :: "capabilities option"
  scRunAsNonRoot :: "bool option"
  scAllowPrivilegeEscalation :: "bool option"
  scReadOnlyRootFilesystem :: "bool option"
  scSeccompProfile :: "seccomp_profile option"
  scOther :: string

record container =
  cName :: string
  cImage :: string
  cImagePullPolicy :: string
  cCommand :: "string slice"
  cArgs :: "string slice"
  cPorts :: "container_port slice"
  cEnv :: "env_var slice"
  cVolumeMounts :: "volume_mount slice"
  cResources :: resource_requirements
  cSecurityContext :: "security_context option"
  cTerminationMessagePath :: string
  cTerminationMessagePolicy :: string
  cOther :: string

datatype volume_source =
    SecretVolume string "int option"
  | ConfigMapVolume string "int option"
  | EmptyDirVolume
  | OtherVolume string

record volume =
  vName :: string
  vSource :: volume_source

record toleration =
  tolKey :: string
  tolOperator :: string
  tolValue :: string
  tolEffect :: string
  tolSeconds :: "int option"

record pod_security_context =
  pscSeccompProfile :: "seccomp_profile option"
  pscOther :: string

record pod_spec =
  psContainers :: "container list"
  psInitContainers :: "container list"
  psVolumes :: "volume slice"
  psServiceAccountName :: string
  psNodeSelector :: gomap
  psTolerations :: "toleration slice"
  psSecurityContext :: "pod_security_context option"
  psRestartPolicy :: string
  psDNSPolicy :: string

record pod_template =
  ptLabels :: gomap
  ptAnnotations :: gomap
  ptSpec :: pod_spec

record label_selector =
  lsMatchLabels :: gomap
  lsOther :: string

text \<open>A condition of a status, of which the code reads the type and the status.\<close>

record type_status =
  tsType :: string
  tsStatus :: string

record deployment =
  depMeta :: object_meta
  depReplicas :: "int option"
  depSelector :: "label_selector option"
  depTemplate :: pod_template
  depReadyReplicas :: int
  depConditions :: "type_status slice"

record stateful_set =
  stsMeta :: object_meta
  stsReplicas :: "int option"
  stsTemplate :: pod_template
  stsReadyReplicas :: int

definition noResources :: resource_requirements where
  "noResources = \<lparr>rrRequests = None, rrLimits = None, rrOther = ''''\<rparr>"

text \<open>The container, mount and port a composite literal leaves: every field it does not name is zero.\<close>

definition zeroContainer :: container where
  "zeroContainer = \<lparr>cName = '''', cImage = '''', cImagePullPolicy = '''', cCommand = None,
     cArgs = None, cPorts = None, cEnv = None, cVolumeMounts = None, cResources = noResources,
     cSecurityContext = None, cTerminationMessagePath = '''', cTerminationMessagePolicy = '''',
     cOther = ''''\<rparr>"

definition zeroMount :: volume_mount where
  "zeroMount = \<lparr>vmName = '''', vmReadOnly = False, vmMountPath = '''', vmSubPath = '''', vmOther = ''''\<rparr>"

definition zeroPodSpec :: pod_spec where
  "zeroPodSpec = \<lparr>psContainers = [], psInitContainers = [], psVolumes = None,
     psServiceAccountName = '''', psNodeSelector = None, psTolerations = None,
     psSecurityContext = None, psRestartPolicy = '''', psDNSPolicy = ''''\<rparr>"

definition envVar :: "string \<Rightarrow> string \<Rightarrow> env_var" where
  "envVar n v = \<lparr>evName = n, evValue = v, evOther = ''''\<rparr>"

text \<open>The requests and limits on memory and cpu that every default of the operator is made of.\<close>

definition memCpu :: "string \<Rightarrow> string \<Rightarrow> string \<Rightarrow> string \<Rightarrow> resource_requirements" where
  "memCpu reqMem reqCpu limMem limCpu =
     \<lparr>rrRequests = Some (fmap_of_list [(''memory'', MustParse reqMem), (''cpu'', MustParse reqCpu)]),
      rrLimits = Some (fmap_of_list [(''memory'', MustParse limMem), (''cpu'', MustParse limCpu)]),
      rrOther = ''''\<rparr>"

section \<open>Services, RBAC, configuration, monitoring\<close>

datatype int_or_string = IntPort int | NamedPort string

record service_port =
  spName :: string
  spProtocol :: string
  spPort :: int
  spTargetPort :: int_or_string
  spPortOther :: string

record service =
  svcMeta :: object_meta
  svcPorts :: "service_port slice"
  svcSelector :: gomap
  svcType :: string
  svcPublishNotReady :: bool

text \<open>The references a service account holds are names.\<close>

record service_account =
  saMeta :: object_meta
  saImagePullSecrets :: "string slice"
  saSecrets :: "string slice"

record policy_rule =
  prAPIGroups :: "string slice"
  prResources :: "string slice"
  prResourceNames :: "string slice"
  prVerbs :: "string slice"
  prNonResourceURLs :: "string slice"

record cluster_role =
  crMeta :: object_meta
  crRules :: "policy_rule slice"
  crAggregation :: "label_selector slice option"

record role =
  roleMeta :: object_meta
  roleRules :: "policy_rule slice"

record subject =
  subjKind :: string
  subjName :: string
  subjNamespace :: string

record role_ref =
  refAPIGroup :: string
  refKind :: string
  refName :: string

record role_binding =
  rbMeta :: object_meta
  rbSubjects :: "subject slice"
  rbRoleRef :: role_ref

record config_map =
  cmMeta :: object_meta
  cmData :: gomap
  cmBinaryData :: gomap

record secret =
  secMeta :: object_meta
  secType :: string
  secData :: gomap
  secStringData :: gomap

record namespace_obj =
  nsMeta :: object_meta

record resource_quota =
  rqMeta :: object_meta

record route_tls =
  rtlsTermination :: string
  rtlsCertificate :: string
  rtlsKey :: string
  rtlsCACertificate :: string
  rtlsDestinationCACertificate :: string
  rtlsInsecureEdgeTerminationPolicy :: string
  rtlsExternalCertificate :: "string option"

record route_ingress =
  riHost :: string
  riConditions :: "type_status slice"

record route =
  rtMeta :: object_meta
  rtHost :: string
  rtPath :: string
  rtPort :: "string option"
  rtTLS :: "route_tls option"
  rtToKind :: string
  rtToName :: string
  rtWildcardPolicy :: string
  rtIngress :: "route_ingress slice"

record ingress_tls =
  itHosts :: "string slice"
  itSecretName :: string

record ingress_path =
  ipPath :: string
  ipServiceName :: string
  ipPortName :: string
  ipPathType :: "string option"

record ingress_rule =
  irHost :: string
  irPaths :: "ingress_path list"

record load_balancer =
  lbHostname :: string
  lbIP :: string

record ingress =
  ingMeta :: object_meta
  ingClassName :: "string option"
  ingRules :: "ingress_rule slice"
  ingTLS :: "ingress_tls slice"
  ingLoadBalancers :: "load_balancer slice"

record hpa_spec =
  hsMinReplicas :: "int option"
  hsMaxReplicas :: int
  hsTargetCPU :: "int option"
  hsTargetAPIVersion :: string
  hsTargetKind :: string
  hsTargetName :: string

record horizontal_pod_autoscaler =
  hpaMeta :: object_meta
  hpaSpec :: hpa_spec

record ingress_config =
  icMeta :: object_meta
  icDomain :: string

record event =
  evMeta :: object_meta
  evType :: string
  evAction :: string
  evMessage :: string
  evReason :: string
  evInvolvedNamespace :: string
  evInvolvedName :: string

text \<open>A peer selects pods of the policy's namespace, pods of the namespaces a selector chooses, or what
  the last field encodes; a rule without peers admits every peer, one without ports every port.\<close>

record network_peer =
  peerPods :: "label_selector option"
  peerNamespaces :: "label_selector option"
  peerOther :: string

record network_port =
  portProtocol :: "string option"
  portNumber :: "int_or_string option"

record network_rule =
  ruleFrom :: "network_peer slice"
  rulePorts :: "network_port slice"

record network_policy =
  npMeta :: object_meta
  npPodSelector :: label_selector
  npPolicyTypes :: "string slice"
  npIngress :: "network_rule slice"
  npOther :: string

record console_plugin_service =
  cpsName :: string
  cpsNamespace :: string
  cpsPort :: int
  cpsBasePath :: string

record console_plugin =
  cplMeta :: object_meta
  cplDisplayName :: string
  cplBackendType :: string
  cplService :: "console_plugin_service option"
  cplLoadType :: string

record console_link =
  clMeta :: object_meta
  clText :: string
  clHref :: string
  clLocation :: string
  clSection :: string
  clImageURL :: string

record endpoint =
  epPort :: string
  epTLSServerName :: "string option option"

record service_monitor =
  smMeta :: object_meta
  smMatchLabels :: gomap
  smEndpoints :: "endpoint list"

record alert_rule =
  arAlert :: string
  arRecord :: string
  arExpr :: string
  arFor :: "string option"
  arLabels :: gomap
  arAnnotations :: gomap

record rule_group =
  rgName :: string
  rgRules :: "alert_rule list"

record prometheus_rule =
  prmMeta :: object_meta
  prmGroups :: "rule_group list"

record cluster_version =
  cvMeta :: object_meta
  cvDesiredVersion :: string

record authentication =
  authMeta :: object_meta
  authType :: string

definition mkRule :: "string list \<Rightarrow> string list \<Rightarrow> string list \<Rightarrow> policy_rule" where
  "mkRule groups resources verbs =
     \<lparr>prAPIGroups = Some groups, prResources = Some resources, prResourceNames = None,
      prVerbs = Some verbs, prNonResourceURLs = None\<rparr>"

section \<open>The operator's own custom resources\<close>

record backend_struct =
  bsResources :: "resource_requirements option"

record gitops_plugin_struct =
  gpsResources :: "resource_requirements option"

record console_plugin_struct =
  cpsBackend :: "backend_struct option"
  cpsGitopsPlugin :: "gitops_plugin_struct option"

record gitops_service_spec =
  gsRunOnInfra :: bool
  gsTolerations :: "toleration slice"
  gsNodeSelector :: gomap
  gsConsolePlugin :: "console_plugin_struct option"
  gsImagePullPolicy :: string

record gitops_service =
  gsMeta :: object_meta
  gsSpec :: gitops_service_spec

record application_set_spec =
  asResources :: "resource_requirements option"

record dex_spec =
  dexOpenShiftOAuth :: bool
  dexResources :: "resource_requirements option"

record sso_spec =
  ssoProvider :: string
  ssoDex :: "dex_spec option"

record ha_spec =
  haEnabled :: bool
  haResources :: "resource_requirements option"

record system_ca_trust =
  catDropImageCertificates :: bool

record repo_spec =
  repoResources :: "resource_requirements option"
  repoSystemCATrust :: "system_ca_trust option"

record server_spec =
  srvRouteEnabled :: bool
  srvResources :: "resource_requirements option"

record rbac_spec =
  rbacPolicy :: "string option"
  rbacScopes :: "string option"
  rbacDefaultPolicy :: "string option"

record node_placement =
  npNodeSelector :: gomap
  npTolerations :: "toleration slice"

record LocalUserSpec =
  LocalUser_Name :: string
  LocalUser_Enabled :: "bool option"
  LocalUser_ApiKey :: "bool option"
  LocalUser_Login :: bool
  LocalUser_TokenLifetime :: string
  LocalUser_AutoRenewToken :: "bool option"

record argocd_spec =
  acApplicationSet :: "application_set_spec option"
  acControllerResources :: "resource_requirements option"
  acSSO :: "sso_spec option"
  acGrafanaResources :: "resource_requirements option"
  acHA :: ha_spec
  acRedisResources :: "resource_requirements option"
  acRepo :: repo_spec
  acServer :: server_spec
  acRBAC :: rbac_spec
  acResourceExclusions :: string
  acNodePlacement :: "node_placement option"
  acDisableMetrics :: "bool option"
  acExtraConfig :: gomap
  acLocalUsers :: "LocalUserSpec slice"

record argocd =
  acMeta :: object_meta
  acSpec :: argocd_spec

text \<open>\<open>metav1.Condition\<close>, with the fields the code sets.\<close>

record condition =
  condType :: string
  condStatus :: string
  condReason :: string
  condMessage :: string
  condLastTransitionTime :: int

record NamespaceManagement =
  nmMeta :: object_meta
  nmManagedBy :: string
  nmConditions :: "condition slice"

section \<open>Objects of any kind\<close>

datatype kind =
    KNamespace | KDeployment | KService | KServiceAccount | KClusterRole | KClusterRoleBinding
  | KRole | KRoleBinding | KConfigMap | KSecret | KRoute | KArgoCD | KResourceQuota
  | KConsolePlugin | KConsoleLink | KServiceMonitor | KPrometheusRule | KGitopsService
  | KClusterVersion | KAuthentication | KNamespaceManagement
  | KStatefulSet | KIngress | KNetworkPolicy | KHorizontalPodAutoscaler | KIngressConfig | KEvent

datatype obj =
    ONamespace namespace_obj
  | ODeployment deployment
  | OService service
  | OServiceAccount service_account
  | OClusterRole cluster_role
  | OClusterRoleBinding role_binding
  | ORole role
  | ORoleBinding role_binding
  | OConfigMap config_map
  | OSecret secret
  | ORoute route
  | OArgoCD argocd
  | OResourceQuota resource_quota
  | OConsolePlugin console_plugin
  | OConsoleLink console_link
  | OServiceMonitor service_monitor
  | OPrometheusRule prometheus_rule
  | OGitopsService gitops_service
  | OClusterVersion cluster_version
  | OAuthentication authentication
  | ONamespaceManagement NamespaceManagement
  | OStatefulSet stateful_set
  | OIngress ingress
  | ONetworkPolicy network_policy
  | OHorizontalPodAutoscaler horizontal_pod_autoscaler
  | OIngressConfig ingress_config
  | OEvent event

fun obj_kind :: "obj \<Rightarrow> kind" where
  "obj_kind (ONamespace x) = KNamespace"
| "obj_kind (ODeployment x) = KDeployment"
| "obj_kind (OService x) = KService"
| "obj_kind (OServiceAccount x) = KServiceAccount"
| "obj_kind (OClusterRole x) = KClusterRole"
| "obj_kind (OClusterRoleBinding x) = KClusterRoleBinding"
| "obj_kind (ORole x) = KRole"
| "obj_kind (ORoleBinding x) = KRoleBinding"
| "obj_kind (OConfigMap x) = KConfigMap"
| "obj_kind (OSecret x) = KSecret"
| "obj_kind (ORoute x) = KRoute"
| "obj_kind (OArgoCD x) = KArgoCD"
| "obj_kind (OResourceQuota x) = KResourceQuota"
| "obj_kind (OConsolePlugin x) = KConsolePlugin"
| "obj_kind (OConsoleLink x) = KConsoleLink"
| "obj_kind (OServiceMonitor x) = KServiceMonitor"
| "obj_kind (OPrometheusRule x) = KPrometheusRule"
| "obj_kind (OGitopsService x) = KGitopsService"
| "obj_kind (OClusterVersion x) = KClusterVersion"
| "obj_kind (OAuthentication x) = KAuthentication"
| "obj_kind (ONamespaceManagement x) = KNamespaceManagement"
| "obj_kind (OStatefulSet x) = KStatefulSet"
| "obj_kind (OIngress x) = KIngress"
| "obj_kind (ONetworkPolicy x) = KNetworkPolicy"
| "obj_kind (OHorizontalPodAutoscaler x) = KHorizontalPodAutoscaler"
| "obj_kind (OIngressConfig x) = KIngressConfig"
| "obj_kind (OEvent x) = KEvent"

fun obj_meta :: "obj \<Rightarrow> object_meta" where
  "obj_meta (ONamespace x) = nsMeta x"
| "obj_meta (ODeployment x) = depMeta x"
| "obj_meta (OService x) = svcMeta x"
| "obj_meta (OServiceAccount x) = saMeta x"
| "obj_meta (OClusterRole x) = crMeta x"
| "obj_meta (OClusterRoleBinding x) = rbMeta x"
| "obj_meta (ORole x) = roleMeta x"
| "obj_meta (ORoleBinding x) = rbMeta x"
| "obj_meta (OConfigMap x) = cmMeta x"
| "obj_meta (OSecret x) = secMeta x"
| "obj_meta (ORoute x) = rtMeta x"
| "obj_meta (OArgoCD x) = acMeta x"
| "obj_meta (OResourceQuota x) = rqMeta x"
| "obj_meta (OConsolePlugin x) = cplMeta x"
| "obj_meta (OConsoleLink x) = clMeta x"
| "obj_meta (OServiceMonitor x) = smMeta x"
| "obj_meta (OPrometheusRule x) = prmMeta x"
| "obj_meta (OGitopsService x) = gsMeta x"
| "obj_meta (OClusterVersion x) = cvMeta x"
| "obj_meta (OAuthentication x) = authMeta x"
| "obj_meta (ONamespaceManagement x) = nmMeta x"
| "obj_meta (OStatefulSet x) = stsMeta x"
| "obj_meta (OIngress x) = ingMeta x"
| "obj_meta (ONetworkPolicy x) = npMeta x"
| "obj_meta (OHorizontalPodAutoscaler x) = hpaMeta x"
| "obj_meta (OIngressConfig x) = icMeta x"
| "obj_meta (OEvent x) = evMeta x"

fun set_meta :: "object_meta \<Rightarrow> obj \<Rightarrow> obj" where
  "set_meta m (ONamespace x) = ONamespace (x\<lparr>nsMeta := m\<rparr>)"
| "set_meta m (ODeployment x) = ODeployment (x\<lparr>depMeta := m\<rparr>)"
| "set_meta m (OService x) = OService (x\<lparr>svcMeta := m\<rparr>)"
| "set_meta m (OServiceAccount x) = OServiceAccount (x\<lparr>saMeta := m\<rparr>)"
| "set_meta m (OClusterRole x) = OClusterRole (x\<lparr>crMeta := m\<rparr>)"
| "set_meta m (OClusterRoleBinding x) = OClusterRoleBinding (x\<lparr>rbMeta := m\<rparr>)"
| "set_meta m (ORole x) = ORole (x\<lparr>roleMeta := m\<rparr>)"
| "set_meta m (ORoleBinding x) = ORoleBinding (x\<lparr>rbMeta := m\<rparr>)"
| "set_meta m (OConfigMap x) = OConfigMap (x\<lparr>cmMeta := m\<rparr>)"
| "set_meta m (OSecret x) = OSecret (x\<lparr>secMeta := m\<rparr>)"
| "set_meta m (ORoute x) = ORoute (x\<lparr>rtMeta := m\<rparr>)"
| "set_meta m (OArgoCD x) = OArgoCD (x\<lparr>acMeta := m\<rparr>)"
| "set_meta m (OResourceQuota x) = OResourceQuota (x\<lparr>rqMeta := m\<rparr>)"
| "set_meta m (OConsolePlugin x) = OConsolePlugin (x\<lparr>cplMeta := m\<rparr>)"
| "set_meta m (OConsoleLink x) = OConsoleLink (x\<lparr>clMeta := m\<rparr>)"
| "set_meta m (OServiceMonitor x) = OServiceMonitor (x\<lparr>smMeta := m\<rparr>)"
| "set_meta m (OPrometheusRule x) = OPrometheusRule (x\<lparr>prmMeta := m\<rparr>)"
| "set_meta m (OGitopsService x) = OGitopsService (x\<lparr>gsMeta := m\<rparr>)"
| "set_meta m (OClusterVersion x) = OClusterVersion (x\<lparr>cvMeta := m\<rparr>)"
| "set_meta m (OAuthentication x) = OAuthentication (x\<lparr>authMeta := m\<rparr>)"
| "set_meta m (ONamespaceManagement x) = ONamespaceManagement (x\<lparr>nmMeta := m\<rparr>)"
| "set_meta m (OStatefulSet x) = OStatefulSet (x\<lparr>stsMeta := m\<rparr>)"
| "set_meta m (OIngress x) = OIngress (x\<lparr>ingMeta := m\<rparr>)"
| "set_meta m (ONetworkPolicy x) = ONetworkPolicy (x\<lparr>npMeta := m\<rparr>)"
| "set_meta m (OHorizontalPodAutoscaler x) = OHorizontalPodAutoscaler (x\<lparr>hpaMeta := m\<rparr>)"
| "set_meta m (OIngressConfig x) = OIngressConfig (x\<lparr>icMeta := m\<rparr>)"
| "set_meta m (OEvent x) = OEvent (x\<lparr>evMeta := m\<rparr>)"

text \<open>What identifies an object to the API server: its kind, namespace and name.\<close>

type_synonym key = "kind \<times> string \<times> string"

definition okey :: "obj \<Rightarrow> key" where
  "okey x = (obj_kind x, metaNamespace (obj_meta x), metaName (obj_meta x))"

definition obj_labels :: "obj \<Rightarrow> gomap" where
  "obj_labels x = metaLabels (obj_meta x)"

definition set_labels :: "gomap \<Rightarrow> obj \<Rightarrow> obj" where
  "set_labels l x = set_meta ((obj_meta x)\<lparr>metaLabels := l\<rparr>) x"

section \<open>Lemmas\<close>

lemma obj_meta_set_meta [simp]: "obj_meta (set_meta m x) = m"
  by (cases x) simp_all

lemma obj_kind_set_meta [simp]: "obj_kind (set_meta m x) = obj_kind x"
  by (cases x) simp_all

lemma okey_set_labels [simp]: "okey (set_labels l x) = okey x"
  by (simp add: okey_def set_labels_def)

lemma obj_labels_set_labels [simp]: "obj_labels (set_labels l x) = l"
  by (simp add: obj_labels_def set_labels_def)

lemma set_meta_set_meta [simp]: "set_meta m (set_meta m' x) = set_meta m x"
  by (cases x) simp_all

lemma set_meta_obj_meta [simp]: "set_meta (obj_meta x) x = x"
  by (cases x) simp_all

lemma set_labels_set_labels [simp]: "set_labels l (set_labels l' x) = set_labels l x"
  by (simp add: set_labels_def)

lemma set_labels_same [simp]: "set_labels (obj_labels x) x = x"
  by (simp add: set_labels_def obj_labels_def)

lemma mkMeta_simps [simp]:
  "metaName (mkMeta n ns) = n" "metaNamespace (mkMeta n ns) = ns"
  "metaLabels (mkMeta n ns) = None" "metaAnnotations (mkMeta n ns) = None"
  "metaFinalizers (mkMeta n ns) = []" "metaDeleting (mkMeta n ns) = False"
  "metaOwners (mkMeta n ns) = []"
  by (simp_all add: mkMeta_def)

end
