(* ===== verification/K8s_Client.thy ===== *)
theory K8s_Client
  imports K8s_Objects
begin

text \<open>
  The client the reconcilers talk to the cluster with, and what the operator takes from outside
  its own sources. Neither is code of this repository: the client is controller-runtime's
  \<open>client.Client\<close> over the API server, so it is a parameter, a record of its operations over a
  world of any type. What its documentation promises is the locale \<open>k8s_client\<close>, stated on
  \<open>view\<close>, the objects the API server holds in a world:
  \<^item> a successful write changes the object it names, to what the server admits of it (\<open>admit\<close>),
    and nothing else; a failed write changes at most that object, and only to what was written;
  \<^item> a deletion leaves the object absent, or terminating while it has finalizers;
  \<^item> a read returns the object, and leaves the world alone but for what \<open>refresh\<close> does to a
    ConfigMap or Secret it returns (the wrapping client labels those it had to fetch again).
  The locale holds for an API server kept in memory (below) and for the operator's own wrapping
  client over one (theory \<open>Client_Wrapper\<close>).
\<close>

section \<open>The client\<close>

record 'w client =
  cGet :: "'w \<Rightarrow> key \<Rightarrow> (api_error + obj) \<times> 'w"
  cList :: "'w \<Rightarrow> kind \<Rightarrow> (api_error + obj list) \<times> 'w"
  cCreate :: "'w \<Rightarrow> obj \<Rightarrow> api_error option \<times> 'w"
  cUpdate :: "'w \<Rightarrow> obj \<Rightarrow> api_error option \<times> 'w"
  cDelete :: "'w \<Rightarrow> key \<Rightarrow> api_error option \<times> 'w"
  cPatch :: "'w \<Rightarrow> obj \<Rightarrow> obj \<Rightarrow> api_error option \<times> 'w"

definition getO :: "'w client \<Rightarrow> key \<Rightarrow> ('w, obj) act" where
  "getO c k = (\<lambda>w. case cGet c w k of
      (Inl e, w') \<Rightarrow> (Err (ApiErr e), w')
    | (Inr x, w') \<Rightarrow> (Ok x, w'))"

definition listO :: "'w client \<Rightarrow> kind \<Rightarrow> ('w, obj list) act" where
  "listO c kd = (\<lambda>w. case cList c w kd of
      (Inl e, w') \<Rightarrow> (Err (ApiErr e), w')
    | (Inr xs, w') \<Rightarrow> (Ok xs, w'))"

definition write_result :: "api_error option \<times> 'w \<Rightarrow> unit outcome \<times> 'w" where
  "write_result r = (case r of (None, w') \<Rightarrow> (Ok (), w') | (Some e, w') \<Rightarrow> (Err (ApiErr e), w'))"

definition createO :: "'w client \<Rightarrow> obj \<Rightarrow> ('w, unit) act" where
  "createO c x = (\<lambda>w. write_result (cCreate c w x))"

definition updateO :: "'w client \<Rightarrow> obj \<Rightarrow> ('w, unit) act" where
  "updateO c x = (\<lambda>w. write_result (cUpdate c w x))"

definition deleteO :: "'w client \<Rightarrow> key \<Rightarrow> ('w, unit) act" where
  "deleteO c k = (\<lambda>w. write_result (cDelete c w k))"

definition patchO :: "'w client \<Rightarrow> obj \<Rightarrow> obj \<Rightarrow> ('w, unit) act" where
  "patchO c x y = (\<lambda>w. write_result (cPatch c w x y))"

text \<open>Reading into a variable of a Go type: the object has the kind that was asked for.\<close>

definition getAs :: "'w client \<Rightarrow> (obj \<Rightarrow> 'a option) \<Rightarrow> key \<Rightarrow> ('w, 'a) act" where
  "getAs c cast k = bindG (getO c k) (\<lambda>x. case cast x of None \<Rightarrow> panic BadCast | Some a \<Rightarrow> ret a)"

fun as_namespace :: "obj \<Rightarrow> namespace_obj option" where
  "as_namespace (ONamespace x) = Some x"
| "as_namespace _ = None"

fun as_deployment :: "obj \<Rightarrow> deployment option" where
  "as_deployment (ODeployment x) = Some x"
| "as_deployment _ = None"

fun as_service :: "obj \<Rightarrow> service option" where
  "as_service (OService x) = Some x"
| "as_service _ = None"

fun as_cluster_role :: "obj \<Rightarrow> cluster_role option" where
  "as_cluster_role (OClusterRole x) = Some x"
| "as_cluster_role _ = None"

fun as_config_map :: "obj \<Rightarrow> config_map option" where
  "as_config_map (OConfigMap x) = Some x"
| "as_config_map _ = None"

fun as_secret :: "obj \<Rightarrow> secret option" where
  "as_secret (OSecret x) = Some x"
| "as_secret _ = None"

fun as_route :: "obj \<Rightarrow> route option" where
  "as_route (ORoute x) = Some x"
| "as_route _ = None"

fun as_argocd :: "obj \<Rightarrow> argocd option" where
  "as_argocd (OArgoCD x) = Some x"
| "as_argocd _ = None"

fun as_console_plugin :: "obj \<Rightarrow> console_plugin option" where
  "as_console_plugin (OConsolePlugin x) = Some x"
| "as_console_plugin _ = None"

fun as_console_link :: "obj \<Rightarrow> console_link option" where
  "as_console_link (OConsoleLink x) = Some x"
| "as_console_link _ = None"

fun as_service_monitor :: "obj \<Rightarrow> service_monitor option" where
  "as_service_monitor (OServiceMonitor x) = Some x"
| "as_service_monitor _ = None"

fun as_gitops_service :: "obj \<Rightarrow> gitops_service option" where
  "as_gitops_service (OGitopsService x) = Some x"
| "as_gitops_service _ = None"

fun as_cluster_version :: "obj \<Rightarrow> cluster_version option" where
  "as_cluster_version (OClusterVersion x) = Some x"
| "as_cluster_version _ = None"

fun as_authentication :: "obj \<Rightarrow> authentication option" where
  "as_authentication (OAuthentication x) = Some x"
| "as_authentication _ = None"

fun as_namespace_management :: "obj \<Rightarrow> NamespaceManagement option" where
  "as_namespace_management (ONamespaceManagement x) = Some x"
| "as_namespace_management _ = None"

fun as_role :: "obj \<Rightarrow> role option" where
  "as_role (ORole x) = Some x"
| "as_role _ = None"

fun as_role_binding :: "obj \<Rightarrow> role_binding option" where
  "as_role_binding (ORoleBinding x) = Some x"
| "as_role_binding _ = None"

fun as_cluster_role_binding :: "obj \<Rightarrow> role_binding option" where
  "as_cluster_role_binding (OClusterRoleBinding x) = Some x"
| "as_cluster_role_binding _ = None"

fun as_service_account :: "obj \<Rightarrow> service_account option" where
  "as_service_account (OServiceAccount x) = Some x"
| "as_service_account _ = None"

fun as_stateful_set :: "obj \<Rightarrow> stateful_set option" where
  "as_stateful_set (OStatefulSet x) = Some x"
| "as_stateful_set _ = None"

fun as_ingress :: "obj \<Rightarrow> ingress option" where
  "as_ingress (OIngress x) = Some x"
| "as_ingress _ = None"

fun as_network_policy :: "obj \<Rightarrow> network_policy option" where
  "as_network_policy (ONetworkPolicy x) = Some x"
| "as_network_policy _ = None"

fun as_horizontal_pod_autoscaler :: "obj \<Rightarrow> horizontal_pod_autoscaler option" where
  "as_horizontal_pod_autoscaler (OHorizontalPodAutoscaler x) = Some x"
| "as_horizontal_pod_autoscaler _ = None"

fun as_ingress_config :: "obj \<Rightarrow> ingress_config option" where
  "as_ingress_config (OIngressConfig x) = Some x"
| "as_ingress_config _ = None"

section \<open>What the operator takes from outside its sources\<close>

text \<open>
  The process environment (\<open>os.Getenv\<close>, \<open>os.ReadFile\<close> of the namespace file, the embedded
  dashboards and icon) and the library functions the code calls: the comparison of
  \<open>golang.org/x/mod/semver\<close>, the versions of \<open>hashicorp/go-version\<close>, the cipher and curve names of
  \<open>crypto/tls\<close> and \<open>openshift/library-go\<close>, SHA-256, YAML marshalling, the canonical form
  \<open>Quantity.Cmp\<close> compares, and the owner references \<open>SetControllerReference\<close> computes for an
  owner and the object it is to control.
\<close>

datatype file_error = NotExist | OtherFileError string

record env =
  getenv :: "string \<Rightarrow> string"
  readFile :: "string \<Rightarrow> file_error + string"
  embeddedDashboards :: "go_error + (string \<times> bool) list"
  readDashboard :: "string \<Rightarrow> go_error + string"
  encodedArgoImage :: string
  setOwner :: "object_meta \<Rightarrow> object_meta \<Rightarrow> go_error + owner_ref list"
  semverCompare :: "string \<Rightarrow> string \<Rightarrow> int"
  newVersion :: "string \<Rightarrow> go_error + string"
  versionLess :: "string \<Rightarrow> string \<Rightarrow> bool"
  goCipherSuites :: "string list"
  opensslToIANA :: "string list \<Rightarrow> string list"
  sha256Hex :: "string \<Rightarrow> string"
  sha1Hex :: "string \<Rightarrow> string"
  yamlMarshal :: "(string list \<times> string list \<times> string list) list \<Rightarrow> go_error + string"
  canonQuantity :: "quantity \<Rightarrow> quantity"

text \<open>The package-level flags of \<open>controllers/util\<close>, set by \<open>InspectCluster\<close>.\<close>

record api_flags =
  consoleAPIFound :: bool
  routeAPIFound :: bool
  monitoringAPIFound :: bool
  configAPIFound :: bool
  templateAPIFound :: bool
  appsAPIFound :: bool
  oauthAPIFound :: bool
  olmAPIFound :: bool

definition SetControllerReference :: "env \<Rightarrow> object_meta \<Rightarrow> object_meta \<Rightarrow> go_error + object_meta" where
  "SetControllerReference e owner m = (case setOwner e owner m of
      Inl err \<Rightarrow> Inl err
    | Inr refs \<Rightarrow> Inr (m\<lparr>metaOwners := refs\<rparr>))"

text \<open>The idiom of every create-or-update block: read the object under the key of the desired one;
  create the desired one if it is not there, return any other error, go on with what was found.\<close>

definition getOrCreate ::
  "'w client \<Rightarrow> (obj \<Rightarrow> 'a option) \<Rightarrow> obj \<Rightarrow> ('a \<Rightarrow> ('w, unit) act) \<Rightarrow> ('w, unit) act" where
  "getOrCreate c cast x found = handle (getAs c cast (okey x))
     (\<lambda>err. if IsNotFound err then createO c x else fail err) found"

section \<open>The laws of the client\<close>

definition refreshable :: "kind \<Rightarrow> bool" where
  "refreshable kd = (kd = KConfigMap \<or> kd = KSecret)"

text \<open>Absent, or waiting for its finalizers.\<close>

definition gone :: "obj option \<Rightarrow> bool" where
  "gone v = (case v of None \<Rightarrow> True | Some x \<Rightarrow> metaDeleting (obj_meta x))"

definition same_outside :: "('w \<Rightarrow> key \<Rightarrow> obj option) \<Rightarrow> key set \<Rightarrow> 'w \<Rightarrow> 'w \<Rightarrow> bool" where
  "same_outside view S w w' \<longleftrightarrow> (\<forall>k. k \<notin> S \<longrightarrow> view w' k = view w k)"

definition keeps_present :: "('w \<Rightarrow> key \<Rightarrow> obj option) \<Rightarrow> key set \<Rightarrow> 'w \<Rightarrow> 'w \<Rightarrow> bool" where
  "keeps_present view S w w' \<longleftrightarrow> (\<forall>k\<in>S. view w k \<noteq> None \<longrightarrow> view w' k \<noteq> None)"

interpretation fp: world_relation "same_outside view S" for view S
  by unfold_locales (simp_all add: same_outside_def)

interpretation kp: world_relation "keeps_present view S" for view S
  by unfold_locales (auto simp: keeps_present_def)

lemma same_outsideD: "same_outside view S w w' \<Longrightarrow> k \<notin> S \<Longrightarrow> view w' k = view w k"
  unfolding same_outside_def by blast

lemma fp_empty_view: "act_rel (same_outside view {}) m \<Longrightarrow> m w = (r, w') \<Longrightarrow> view w' = view w"
  by (auto simp: act_rel_def same_outside_def fun_eq_iff) (metis snd_conv)

locale k8s_client =
  fixes c :: "'w client"
    and view :: "'w \<Rightarrow> key \<Rightarrow> obj option"
    and admit :: "obj \<Rightarrow> obj"
    and refresh :: "obj \<Rightarrow> obj"
  assumes view_key: "view w k = Some x \<Longrightarrow> okey x = k"
    and admit_key: "okey (admit x) = okey x"
    and refresh_key: "okey (refresh x) = okey x"
    and refresh_id: "\<not> refreshable (obj_kind x) \<Longrightarrow> refresh x = x"
    and get_view: "cGet c w k = (r, w') \<Longrightarrow>
      view w' = view w \<or> view w' = (view w)(k := map_option refresh (view w k))"
    and get_found: "cGet c w k = (Inr x, w') \<Longrightarrow>
      \<exists>x0. view w k = Some x0 \<and> (x = x0 \<or> x = refresh x0)"
    and get_NotFound: "cGet c w k = (Inl NotFound, w') \<Longrightarrow> view w k = None"
    and list_view: "cList c w kd = (rs, w') \<Longrightarrow> view w' = view w"
    and list_found: "cList c w kd = (Inr xs, w') \<Longrightarrow> \<not> refreshable kd \<Longrightarrow>
      set xs = {x. obj_kind x = kd \<and> view w (okey x) = Some x}"
    and create_ok: "cCreate c w x = (None, w') \<Longrightarrow>
      view w (okey x) = None \<and> view w' = (view w)(okey x \<mapsto> admit x)"
    and create_err: "cCreate c w x = (Some e, w') \<Longrightarrow>
      view w' = view w \<or> view w' = (view w)(okey x \<mapsto> admit x)"
    and create_exists: "cCreate c w x = (Some AlreadyExists, w') \<Longrightarrow>
      view w (okey x) \<noteq> None \<and> view w' = view w"
    and update_ok: "cUpdate c w x = (None, w') \<Longrightarrow>
      view w (okey x) \<noteq> None \<and> view w' = (view w)(okey x \<mapsto> admit x)"
    and update_err: "cUpdate c w x = (Some e, w') \<Longrightarrow>
      view w' = view w \<or> view w' = (view w)(okey x \<mapsto> admit x)"
    and delete_ok: "cDelete c w k = (None, w') \<Longrightarrow>
      \<exists>v. view w' = (view w)(k := v) \<and> gone v"
    and delete_err: "cDelete c w k = (Some e, w') \<Longrightarrow>
      \<exists>v. view w' = (view w)(k := v) \<and> (v = view w k \<or> gone v)"
    and delete_NotFound: "cDelete c w k = (Some NotFound, w') \<Longrightarrow>
      view w k = None \<and> view w' = view w"
    and patch_view: "cPatch c w x y = (pr, w') \<Longrightarrow> view w (okey x) = Some x \<Longrightarrow> okey y = okey x \<Longrightarrow>
      view w' = view w \<or> view w' = (view w)(okey x \<mapsto> y)"
    and refresh_labels: "set_labels l (refresh x) = set_labels l x"
begin

lemma refresh_same: "view w k = Some x \<Longrightarrow> \<not> refreshable (fst k) \<Longrightarrow> refresh x = x"
  by (metis fst_conv okey_def refresh_id view_key)

lemma get_pure: "cGet c w k = (r, w') \<Longrightarrow> \<not> refreshable (fst k) \<Longrightarrow> view w' = view w"
  using get_view[of w k r w'] refresh_same[of w k] by (cases "view w k") auto

lemma getO_pure: "\<not> refreshable (fst k) \<Longrightarrow> getO c k w = (r, w') \<Longrightarrow> view w' = view w"
  by (auto simp: getO_def split: prod.splits sum.splits dest!: get_pure)

lemma getO_Ok:
  assumes "getO c k w = (Ok x, w')" and "\<not> refreshable (fst k)"
  shows "view w k = Some x" and "view w' = view w"
proof -
  from assms(1) have g: "cGet c w k = (Inr x, w')"
    by (auto simp: getO_def split: prod.splits sum.splits)
  from get_found[OF g] refresh_same[of w k] assms(2) show "view w k = Some x" by auto
  from get_pure[OF g assms(2)] show "view w' = view w" .
qed

lemma getO_NotFound:
  assumes "getO c k w = (Err e, w')" and "IsNotFound e"
  shows "view w k = None" and "view w' = view w"
proof -
  from assms have g: "cGet c w k = (Inl NotFound, w')"
    by (auto simp: getO_def split: prod.splits sum.splits)
  from get_NotFound[OF g] show n: "view w k = None" .
  from get_view[OF g] n show "view w' = view w" by auto
qed

lemma getAs_Ok:
  assumes "getAs c cast k w = (Ok a, w')" and "\<not> refreshable (fst k)"
  obtains x where "view w k = Some x" and "cast x = Some a" and "view w' = view w"
  using assms by (auto simp: getAs_def bindG_Ok_iff split: option.splits dest: getO_Ok)

lemma getAs_Err_iff:
  "(\<And>x w1. getO c k w = (Ok x, w1) \<Longrightarrow> cast x \<noteq> None) \<Longrightarrow>
   getAs c cast k w = (Err e, w') \<longleftrightarrow> getO c k w = (Err e, w')"
  by (auto simp: getAs_def bindG_def handle_def split: prod.splits outcome.splits option.splits)

lemma getAs_NotFound:
  assumes "getAs c cast k w = (Err e, w')" and "IsNotFound e"
  shows "view w k = None" and "view w' = view w"
proof -
  from assms(1) have "getO c k w = (Err e, w')"
    by (auto simp: getAs_def bindG_def handle_def split: prod.splits outcome.splits option.splits)
  from getO_NotFound[OF this assms(2)] show "view w k = None" "view w' = view w" by auto
qed

lemma getAs_found:
  assumes "getAs c cast k w = (Ok a, w')"
  obtains x0 x where "view w k = Some x0" and "x = x0 \<or> x = refresh x0" and "cast x = Some a"
    and "view w' = view w \<or> view w' = (view w)(k \<mapsto> refresh x0)"
proof -
  from assms obtain x where g: "cGet c w k = (Inr x, w')" and x: "cast x = Some a"
    by (auto simp: getAs_def getO_def bindG_Ok_iff split: option.splits prod.splits sum.splits)
  from get_found[OF g] obtain x0 where v: "view w k = Some x0" and xx: "x = x0 \<or> x = refresh x0" by blast
  have "view w' = view w \<or> view w' = (view w)(k \<mapsto> refresh x0)" using get_view[OF g] v by simp
  with v xx x show thesis by (rule that)
qed

lemma getAs_key:
  assumes "getAs c cast k w = (Ok a, w')"
  shows "\<exists>x. okey x = k \<and> cast x = Some a"
proof -
  from assms obtain x w1 where "cGet c w k = (Inr x, w1)" and "cast x = Some a"
    by (auto simp: getAs_def getO_def bindG_Ok_iff split: option.splits prod.splits sum.splits)
  with get_found[of w k x w1] show ?thesis by (metis view_key refresh_key)
qed

lemma createO_Ok:
  assumes "createO c x w = (Ok u, w')"
  shows "view w' = (view w)(okey x \<mapsto> admit x)" and "view w (okey x) = None"
  using assms create_ok[of w x w']
  by (auto simp: createO_def write_result_def split: prod.splits option.splits)

lemma createO_AlreadyExists:
  assumes "createO c x w = (Err e, w')" and "IsAlreadyExists e"
  shows "view w' = view w" and "view w (okey x) \<noteq> None"
  using assms create_exists[of w x w']
  by (auto simp: createO_def write_result_def split: prod.splits option.splits)

lemma updateO_Ok:
  assumes "updateO c x w = (Ok u, w')"
  shows "view w' = (view w)(okey x \<mapsto> admit x)" and "view w (okey x) \<noteq> None"
  using assms update_ok[of w x w']
  by (auto simp: updateO_def write_result_def split: prod.splits option.splits)

lemma deleteO_Ok:
  assumes "deleteO c k w = (Ok u, w')"
  obtains v where "view w' = (view w)(k := v)" and "gone v"
  using assms delete_ok[of w k w']
  by (auto simp: deleteO_def write_result_def split: prod.splits option.splits)

lemma deleteO_NotFound:
  assumes "deleteO c k w = (Err e, w')" and "IsNotFound e"
  shows "view w' = view w" and "view w k = None"
  using assms delete_NotFound[of w k w']
  by (auto simp: deleteO_def write_result_def split: prod.splits option.splits)

lemma getOrCreate_Ok:
  assumes "getOrCreate c cast x found w = (Ok u, w')" and "\<not> refreshable (obj_kind x)"
  obtains (created) "view w (okey x) = None" "view w' = (view w)(okey x \<mapsto> admit x)"
    | (found) y a w1 where "view w (okey x) = Some y" "cast y = Some a" "view w1 = view w"
        "found a w1 = (Ok u, w')"
proof -
  from assms(2) have k: "\<not> refreshable (fst (okey x))" by (simp add: okey_def)
  from assms(1) show thesis
    unfolding getOrCreate_def handle_Ok_iff
  proof (elim disjE exE conjE)
    fix a w1
    assume g: "getAs c cast (okey x) w = (Ok a, w1)" and f: "found a w1 = (Ok u, w')"
    from getAs_Ok[OF g k] f show thesis by (metis found)
  next
    fix err w1
    assume g: "getAs c cast (okey x) w = (Err err, w1)"
      and r: "(if IsNotFound err then createO c x else fail err) w1 = (Ok u, w')"
    then have nf: "IsNotFound err" and cr: "createO c x w1 = (Ok u, w')" by (auto split: if_splits)
    from getAs_NotFound[OF g nf] createO_Ok[OF cr] show thesis by (metis created)
  qed
qed

text \<open>Each call touches the object it names and no other.\<close>

lemma same_outsideI: "view w' = (view w)(k := v) \<Longrightarrow> k \<in> S \<Longrightarrow> same_outside view S w w'"
  by (auto simp: same_outside_def)

lemma same_outside_eq: "view w' = view w \<Longrightarrow> same_outside view S w w'"
  by (simp add: same_outside_def)

lemma getO_fp: "k \<in> S \<or> \<not> refreshable (fst k) \<Longrightarrow> act_rel (same_outside view S) (getO c k)"
  unfolding act_rel_def
proof
  fix w
  assume k: "k \<in> S \<or> \<not> refreshable (fst k)"
  obtain r w' where g: "cGet c w k = (r, w')" by force
  then have "snd (getO c k w) = w'" by (simp add: getO_def split: sum.splits)
  moreover have "same_outside view S w w'"
    using get_view[OF g] get_pure[OF g] k by (auto simp: same_outside_def)
  ultimately show "same_outside view S w (snd (getO c k w))" by simp
qed

lemma getAs_fp: "k \<in> S \<or> \<not> refreshable (fst k) \<Longrightarrow> act_rel (same_outside view S) (getAs c cast k)"
  unfolding getAs_def by (intro fp.rel_bindG getO_fp) (auto intro: fp.rel_intros split: option.split)

lemma write_result_snd: "snd (write_result r) = snd r"
  by (auto simp: write_result_def split: prod.splits option.splits)

lemma createO_cases: "\<exists>v. view (snd (createO c x w)) = (view w)(okey x := v) \<and> (v = view w (okey x) \<or> v \<noteq> None)"
  using create_ok[of w x] create_err[of w x]
  by (cases "cCreate c w x"; cases "fst (cCreate c w x)")
    (auto simp: createO_def write_result_snd intro: exI[of _ "view w (okey x)"] exI[of _ "Some (admit x)"])

lemma updateO_cases: "\<exists>v. view (snd (updateO c x w)) = (view w)(okey x := v) \<and> (v = view w (okey x) \<or> v \<noteq> None)"
  using update_ok[of w x] update_err[of w x]
  by (cases "cUpdate c w x"; cases "fst (cUpdate c w x)")
    (auto simp: updateO_def write_result_snd intro: exI[of _ "view w (okey x)"] exI[of _ "Some (admit x)"])

lemma deleteO_cases: "\<exists>v. view (snd (deleteO c k w)) = (view w)(k := v)"
  using delete_ok[of w k] delete_err[of w k]
  by (cases "cDelete c w k"; cases "fst (cDelete c w k)") (auto simp: deleteO_def write_result_snd)

lemma createO_fp: "okey x \<in> S \<Longrightarrow> act_rel (same_outside view S) (createO c x)"
  using createO_cases[of x] by (metis act_rel_def same_outsideI)

lemma updateO_fp: "okey x \<in> S \<Longrightarrow> act_rel (same_outside view S) (updateO c x)"
  using updateO_cases[of x] by (metis act_rel_def same_outsideI)

lemma deleteO_fp: "k \<in> S \<Longrightarrow> act_rel (same_outside view S) (deleteO c k)"
  using deleteO_cases[of k] by (metis act_rel_def same_outsideI)

lemma getOrCreate_fp:
  assumes "okey x \<in> S"
    and "\<And>a y. okey y = okey x \<Longrightarrow> cast y = Some a \<Longrightarrow> act_rel (same_outside view S) (found a)"
  shows "act_rel (same_outside view S) (getOrCreate c cast x found)"
  unfolding getOrCreate_def using assms
  by (intro fp.rel_handle fp.rel_if fp.rel_fail getAs_fp createO_fp) (auto dest: getAs_key)

lemmas api_fp = getO_fp getAs_fp createO_fp updateO_fp deleteO_fp getOrCreate_fp

text \<open>Only a deletion makes an object disappear.\<close>

lemma getO_kp: "act_rel (keeps_present view S) (getO c k)"
  unfolding act_rel_def
proof
  fix w
  obtain r w' where g: "cGet c w k = (r, w')" by force
  then have "snd (getO c k w) = w'" by (simp add: getO_def split: sum.splits)
  with get_view[OF g] show "keeps_present view S w (snd (getO c k w))"
    by (auto simp: keeps_present_def)
qed

lemma getAs_kp: "act_rel (keeps_present view S) (getAs c cast k)"
  unfolding getAs_def by (intro kp.rel_bindG getO_kp) (auto intro: kp.rel_intros split: option.split)

lemma createO_kp: "act_rel (keeps_present view S) (createO c x)"
  unfolding act_rel_def keeps_present_def using createO_cases[of x] by (metis fun_upd_apply)

lemma updateO_kp: "act_rel (keeps_present view S) (updateO c x)"
  unfolding act_rel_def keeps_present_def using updateO_cases[of x] by (metis fun_upd_apply)

lemma deleteO_kp: "k \<notin> S \<Longrightarrow> act_rel (keeps_present view S) (deleteO c k)"
  unfolding act_rel_def keeps_present_def using deleteO_cases[of k] by (metis fun_upd_apply)

lemma getOrCreate_kp:
  "(\<And>a. act_rel (keeps_present view S) (found a)) \<Longrightarrow>
     act_rel (keeps_present view S) (getOrCreate c cast x found)"
  unfolding getOrCreate_def by (intro kp.rel_handle kp.rel_if kp.rel_fail getAs_kp createO_kp)

lemmas api_kp = getO_kp getAs_kp createO_kp updateO_kp deleteO_kp getOrCreate_kp


lemma getOrCreate_present:
  assumes "getOrCreate c Some x (\<lambda>_. ret ()) w = (Ok u, w')" and "\<not> refreshable (obj_kind x)"
  shows "\<exists>v. v \<noteq> None \<and> view w' = (view w)(okey x := v)"
  using assms
proof (cases rule: getOrCreate_Ok)
  case created
  then show ?thesis by blast
next
  case (found y a w1)
  then have "view w' = (view w)(okey x := Some y)" by auto
  then show ?thesis by blast
qed

end

text \<open>An API server that keeps what it is sent, and one whose reads do not fail: the settings in which
  the reconcilers converge.\<close>

locale verbatim_client = k8s_client +
  assumes admit_id: "admit x = x"

locale reliable_client = verbatim_client +
  assumes reads: "\<not> refreshable (fst k) \<Longrightarrow>
    fst (cGet c w k) = (case view w k of None \<Rightarrow> Inl NotFound | Some x \<Rightarrow> Inr x)"
begin

lemma getO_reliable:
  assumes "\<not> refreshable (fst k)"
  obtains w' where "view w' = view w"
    and "getO c k w = ((case view w k of None \<Rightarrow> Err (ApiErr NotFound) | Some x \<Rightarrow> Ok x), w')"
proof -
  obtain r w' where g: "cGet c w k = (r, w')" by force
  with reads[OF assms, of w] have r: "r = (case view w k of None \<Rightarrow> Inl NotFound | Some x \<Rightarrow> Inr x)"
    by simp
  have "getO c k w = ((case view w k of None \<Rightarrow> Err (ApiErr NotFound) | Some x \<Rightarrow> Ok x), w')"
    using g r by (simp add: getO_def split: option.split)
  with get_pure[OF g assms] show thesis by (rule that)
qed

end

section \<open>An API server in memory\<close>

text \<open>The objects the server holds, at most one read for each key. A deletion waits for
  finalizers, as the server's does.\<close>

definition mem_view :: "obj list \<Rightarrow> key \<Rightarrow> obj option" where
  "mem_view w k = find (\<lambda>x. okey x = k) w"

definition mem_put :: "obj \<Rightarrow> obj list \<Rightarrow> obj list" where
  "mem_put x w = x # filter (\<lambda>y. okey y \<noteq> okey x) w"

definition mem_terminate :: "obj \<Rightarrow> obj" where
  "mem_terminate x = set_meta ((obj_meta x)\<lparr>metaDeleting := True\<rparr>) x"

definition mem_client :: "obj list client" where
  "mem_client = \<lparr>
     cGet = (\<lambda>w k. case mem_view w k of None \<Rightarrow> (Inl NotFound, w) | Some x \<Rightarrow> (Inr x, w)),
     cList = (\<lambda>w kd. (Inr (filter (\<lambda>x. obj_kind x = kd \<and> mem_view w (okey x) = Some x) w), w)),
     cCreate = (\<lambda>w x. if mem_view w (okey x) = None then (None, mem_put x w)
       else (Some AlreadyExists, w)),
     cUpdate = (\<lambda>w x. if mem_view w (okey x) = None then (Some NotFound, w)
       else (None, mem_put x w)),
     cDelete = (\<lambda>w k. case mem_view w k of
         None \<Rightarrow> (Some NotFound, w)
       | Some x \<Rightarrow> (None, if metaFinalizers (obj_meta x) = [] then filter (\<lambda>y. okey y \<noteq> k) w
           else mem_put (mem_terminate x) w)),
     cPatch = (\<lambda>w x y. if mem_view w (okey x) = None then (Some NotFound, w)
       else (None, mem_put y w))\<rparr>"

lemma mem_view_filter:
  "mem_view (filter (\<lambda>y. okey y \<noteq> k) w) = (mem_view w)(k := None)"
  by (induction w) (auto simp: mem_view_def fun_eq_iff)

lemma mem_view_put [simp]: "mem_view (mem_put x w) = (mem_view w)(okey x \<mapsto> x)"
  using mem_view_filter[of "okey x" w] by (auto simp: mem_put_def mem_view_def fun_eq_iff)

lemma mem_view_key: "mem_view w k = Some x \<Longrightarrow> okey x = k"
  by (auto simp: mem_view_def find_Some_iff)

lemma mem_view_in: "mem_view w k = Some x \<Longrightarrow> x \<in> set w"
  by (auto simp: mem_view_def find_Some_iff)

lemma okey_mem_terminate [simp]: "okey (mem_terminate x) = okey x"
  by (simp add: okey_def mem_terminate_def)

lemma gone_mem_terminate [simp]: "gone (Some (mem_terminate x))"
  by (simp add: gone_def mem_terminate_def)

lemma gone_None [simp]: "gone None"
  by (simp add: gone_def)

lemma mem_delete_view:
  assumes "cDelete mem_client w k = (r, w')"
  shows "\<exists>v. mem_view w' = (mem_view w)(k := v) \<and> gone v"
proof (cases "mem_view w k")
  case None
  with assms have "mem_view w' = (mem_view w)(k := None)" by (auto simp: mem_client_def)
  then show ?thesis by auto
next
  case (Some x)
  with mem_view_key[OF Some] assms show ?thesis
    by (cases "metaFinalizers (obj_meta x) = []")
      (auto simp: mem_client_def mem_view_filter
        intro: exI[of _ None] exI[of _ "Some (mem_terminate x)"])
qed

interpretation mem: k8s_client mem_client mem_view id id
proof (unfold_locales, goal_cases)
  case (14 w k w')
  then show ?case by (blast dest: mem_delete_view)
next
  case (15 w k e w')
  then show ?case by (blast dest: mem_delete_view)
qed (auto simp: mem_client_def dest: mem_view_key mem_view_in split: option.splits if_splits)

interpretation mem: reliable_client mem_client mem_view id id
  by unfold_locales (simp_all add: mem_client_def split: option.split)

section \<open>Lemmas on owner references\<close>

lemma SetControllerReference_Inr:
  assumes "SetControllerReference e owner m = Inr m'"
  shows "metaName m' = metaName m" and "metaNamespace m' = metaNamespace m"
    and "metaLabels m' = metaLabels m" and "metaAnnotations m' = metaAnnotations m"
  using assms by (auto simp: SetControllerReference_def split: sum.splits)

end
