(* ===== verification/Argo_Util.thy ===== *)
theory Argo_Util
  imports K8s_Client
begin

text \<open>
  The helpers of \<open>argocd-operator/controllers/argoutil\<close> that both operators share: resource names
  kept within the Kubernetes length limits, environment variable lists, labels and image
  policies, and the translation of the cluster's TLS profile into the names each component takes.
\<close>

section \<open>Names (resource.go)\<close>

definition hashLabelLength :: nat where "hashLabelLength = 7"

definition maxLabelLength :: nat where "maxLabelLength = 63"

definition maxSuffixLength :: nat where "maxSuffixLength = 25"

definition maxCRNameLength :: nat where "maxCRNameLength = maxLabelLength - maxSuffixLength - 1"

definition statefulSetControllerRevisionOverhead :: nat where
  "statefulSetControllerRevisionOverhead = 11"

definition maxStatefulSetNameLength :: nat where
  "maxStatefulSetNameLength = maxLabelLength - statefulSetControllerRevisionOverhead"

text \<open>\<open>sha1Hex\<close> gives the forty hexadecimal digits of the digest, so \<open>"-%x"\<close> of its first four bytes
  is a hyphen and the first eight of them. Every limit the code passes exceeds the length of the
  hash suffix, so the slice of the input is in range.\<close>

definition TruncateWithHash :: "env \<Rightarrow> string \<Rightarrow> nat \<Rightarrow> string" where
  "TruncateWithHash e input maxLength =
     (if length input \<le> maxLength then input
      else let hashSuffix = take (hashLabelLength + 1) (''-'' @ take 8 (sha1Hex e input));
               maxBaseLength = maxLength - length hashSuffix
           in take maxBaseLength input @ hashSuffix)"

definition TruncateCRName :: "env \<Rightarrow> string \<Rightarrow> string" where
  "TruncateCRName e crName = TruncateWithHash e crName maxCRNameLength"

definition NameWithSuffix :: "env \<Rightarrow> object_meta \<Rightarrow> string \<Rightarrow> string" where
  "NameWithSuffix e m sfx =
     (let fullName = TruncateCRName e (metaName m) @ ''-'' @ sfx
      in TruncateWithHash e fullName maxLabelLength)"

definition NameWithSuffixForStatefulSet :: "env \<Rightarrow> object_meta \<Rightarrow> string \<Rightarrow> string" where
  "NameWithSuffixForStatefulSet e m sfx =
     (let truncatedCRName = TruncateCRName e (metaName m);
          fullName = truncatedCRName @ ''-'' @ sfx;
          abbreviated = truncatedCRName @ ''-'' @ ''app-controller''
      in if length fullName \<le> maxStatefulSetNameLength then fullName
         else if sfx = ''application-controller'' \<and> length abbreviated \<le> maxStatefulSetNameLength
         then abbreviated
         else TruncateWithHash e fullName maxStatefulSetNameLength)"

definition GenerateAgentPrincipalRedisProxyServiceName :: "env \<Rightarrow> string \<Rightarrow> string" where
  "GenerateAgentPrincipalRedisProxyServiceName e crName =
     TruncateWithHash e crName 36 @ ''-agent-'' @ ''principal-redisproxy''"

definition GenerateUniqueResourceName :: "string \<Rightarrow> argocd \<Rightarrow> string" where
  "GenerateUniqueResourceName component cr =
     metaName (acMeta cr) @ ''-'' @ metaNamespace (acMeta cr) @ ''-'' @ component"

definition CombineImageTag :: "string \<Rightarrow> string \<Rightarrow> string" where
  "CombineImageTag img tag =
     (if CHR '':'' \<in> set tag then img @ ''@'' @ tag
      else if tag \<noteq> '''' then img @ '':'' @ tag
      else img)"

section \<open>Maps, labels, policies (resource.go, security\_context.go, defaults.go)\<close>

text \<open>The result shares the map \<open>src\<close> when that is not empty; every caller passes a map it has just
  made, so the sharing is not observable.\<close>

definition AppendStringMap :: "gomap \<Rightarrow> gomap \<Rightarrow> gomap" where
  "AppendStringMap src add =
     (let res = (if glen src = 0 then fmempty else (case src of None \<Rightarrow> fmempty | Some f \<Rightarrow> f))
      in Some (case add of None \<Rightarrow> res | Some a \<Rightarrow> res ++\<^sub>f a))"

definition ArgoCDTrackedByOperatorLabel :: string where
  "ArgoCDTrackedByOperatorLabel = ''operator.argoproj.io/tracked-by''"

definition ArgoCDSecretTypeLabel :: string where
  "ArgoCDSecretTypeLabel = ''argocd.argoproj.io/secret-type''"

definition ArgoCDImagePullSecretPropagateLabel :: string where
  "ArgoCDImagePullSecretPropagateLabel = ''operator.argoproj.io/propagate-image-pull-secret''"

definition ArgoCDAppName :: string where "ArgoCDAppName = ''argocd''"

definition AddTrackedByOperatorLabel :: "object_meta \<Rightarrow> object_meta" where
  "AddTrackedByOperatorLabel m =
     m\<lparr>metaLabels := gput (metaLabels m) ArgoCDTrackedByOperatorLabel ArgoCDAppName\<rparr>"

definition GetImagePullPolicy :: "env \<Rightarrow> string \<Rightarrow> string" where
  "GetImagePullPolicy e policy =
     (if policy \<noteq> '''' then policy
      else let envValue = getenv e ''IMAGE_PULL_POLICY''
           in if envValue = ''Always'' then ''Always''
              else if envValue = ''IfNotPresent'' then ''IfNotPresent''
              else if envValue = ''Never'' then ''Never''
              else ''IfNotPresent'')"

definition runtimeDefault :: seccomp_profile where
  "runtimeDefault = \<lparr>seccompType = ''RuntimeDefault'', seccompOther = ''''\<rparr>"

definition DefaultSecurityContext :: security_context where
  "DefaultSecurityContext =
     \<lparr>scCapabilities = Some \<lparr>capAdd = None, capDrop = Some [''ALL'']\<rparr>,
      scRunAsNonRoot = Some True, scAllowPrivilegeEscalation = Some False,
      scReadOnlyRootFilesystem = Some True, scSeccompProfile = Some runtimeDefault, scOther = ''''\<rparr>"

definition DefaultNodeSelector :: gomap where
  "DefaultNodeSelector = gmap [(''kubernetes.io/os'', ''linux'')]"

section \<open>Environment variables (env.go)\<close>

fun EnvGet :: "env_var list \<Rightarrow> string \<Rightarrow> env_var option" where
  "EnvGet [] name = None"
| "EnvGet (x # xs) name = (if evName x = name then Some x else EnvGet xs name)"

definition EnvRemove :: "env_var list \<Rightarrow> string \<Rightarrow> env_var list" where
  "EnvRemove envs name = filter (\<lambda>x. evName x \<noteq> name) envs"

definition EnvSet :: "env_var list \<Rightarrow> env_var \<Rightarrow> env_var list" where
  "EnvSet envs v =
     (let result = map (\<lambda>x. if evName x = evName v then v else x) envs;
          found = (\<exists>x\<in>set envs. evName x = evName v)
      in if found then result else result @ [v])"

fun mergeInto :: "bool \<Rightarrow> (string, env_var) fmap \<Rightarrow> env_var list \<Rightarrow> (string, env_var) fmap" where
  "mergeInto override final [] = final"
| "mergeInto override final (m # ms) =
     mergeInto override
       (if fmlookup final (evName m) \<noteq> None
        then (if override then fmupd (evName m) m final else final)
        else fmupd (evName m) m final) ms"

text \<open>Go ranges over the map in an unspecified order, then sorts by name; the names are the map's
  keys, so the result is the entries in the order of their keys.\<close>

definition EnvMerge :: "env_var list \<Rightarrow> env_var list \<Rightarrow> bool \<Rightarrow> env_var list" where
  "EnvMerge existing merge override =
     (let final0 = fold (\<lambda>x f. fmupd (evName x) x f) existing fmempty;
          final = mergeInto override final0 merge
      in map (\<lambda>k. the (fmlookup final k)) (sorted_list_of_fset (fmdom final)))"

section \<open>TLS profile (tls.go, tlsprofile/profile.go)\<close>

record tls_profile =
  DisableClusterTLSProfile :: bool
  MinVersion :: string
  Ciphers :: "string list"
  CurvePreferences :: "string list"

definition TLSProtocolVersionString :: "string \<Rightarrow> string" where
  "TLSProtocolVersionString v =
     (if v = ''VersionTLS10'' then ''1.0''
      else if v = ''VersionTLS11'' then ''1.1''
      else if v = ''VersionTLS12'' then ''1.2''
      else if v = ''VersionTLS13'' then ''1.3''
      else '''')"

definition RedisTLSProtocolVersionString :: "string \<Rightarrow> string" where
  "RedisTLSProtocolVersionString v =
     (let version = TLSProtocolVersionString v
      in if version = '''' then ''''
         else if version = ''1.0'' then ''TLSv1''
         else ''TLSv'' @ version)"

definition AgentTLSProtocolVersionString :: "string \<Rightarrow> string" where
  "AgentTLSProtocolVersionString v =
     (let version = TLSProtocolVersionString v
      in if version = '''' \<or> version = ''1.0'' then '''' else ''tls'' @ version)"

definition MapCipherSuites :: "env \<Rightarrow> string list \<Rightarrow> string list" where
  "MapCipherSuites e names = filter (\<lambda>iana. iana \<in> set (goCipherSuites e)) (opensslToIANA e names)"

definition openShiftTLSGroupToGoCurve :: "string \<Rightarrow> string option" where
  "openShiftTLSGroupToGoCurve = map_of
     [(''X25519'', ''X25519''), (''secp256r1'', ''CurveP256''), (''secp384r1'', ''CurveP384''),
      (''secp521r1'', ''CurveP521''), (''X25519MLKEM768'', ''X25519MLKEM768'')]"

definition MapOpenShiftTLSGroupsToGoCurves :: "string list \<Rightarrow> string \<Rightarrow> go_error + string" where
  "MapOpenShiftTLSGroupsToGoCurves groups component =
     (if groups = [] then Inr ''''
      else let names = List.map_filter openShiftTLSGroupToGoCurve groups
           in if names = []
              then Inl (ErrorText (''TLS curve preference profile is incompatible with '' @ component @
                '': none of the configured groups are supported by Go crypto/tls: '' @
                ''['' @ joinStr '' '' groups @ '']''))
              else Inr (joinStr '':'' names))"

definition supportedOpenSSLTLSGroups :: "string list" where
  "supportedOpenSSLTLSGroups =
     [''X25519'', ''secp256r1'', ''secp384r1'', ''secp521r1'', ''X25519MLKEM768'',
      ''SecP256r1MLKEM768'', ''SecP384r1MLKEM1024'']"

definition MapOpenShiftTLSGroupsToOpenSSL :: "string list \<Rightarrow> string \<Rightarrow> string" where
  "MapOpenShiftTLSGroupsToOpenSSL groups component =
     (if groups = [] then ''''
      else joinStr '':'' (filter (\<lambda>g. g \<in> set supportedOpenSSLTLSGroups) groups))"

section \<open>Lemmas: names\<close>

lemmas name_limits = hashLabelLength_def maxLabelLength_def maxSuffixLength_def
  maxCRNameLength_def statefulSetControllerRevisionOverhead_def maxStatefulSetNameLength_def

lemma TruncateWithHash_id: "length s \<le> n \<Longrightarrow> TruncateWithHash e s n = s"
  by (simp add: TruncateWithHash_def)

lemma TruncateWithHash_length:
  "8 \<le> n \<Longrightarrow> length (TruncateWithHash e s n) \<le> n"
  by (auto simp: TruncateWithHash_def Let_def hashLabelLength_def)

lemma TruncateWithHash_idem:
  "8 \<le> n \<Longrightarrow> TruncateWithHash e (TruncateWithHash e s n) n = TruncateWithHash e s n"
  by (simp add: TruncateWithHash_id TruncateWithHash_length)

lemma TruncateCRName_length: "length (TruncateCRName e s) \<le> 37"
  using TruncateWithHash_length[of 37 e s] by (simp add: TruncateCRName_def name_limits)

lemma length_app_controller: "length ''app-controller'' = 14"
  by simp

section \<open>Lemmas: environment variables\<close>

lemma EnvGet_name: "EnvGet xs n = Some v \<Longrightarrow> evName v = n \<and> v \<in> set xs"
  by (induction xs) (auto split: if_splits)

lemma EnvGet_None_iff: "EnvGet xs n = None \<longleftrightarrow> n \<notin> evName ` set xs"
  by (induction xs) auto

lemma EnvGet_append: "EnvGet (xs @ ys) n = (case EnvGet xs n of None \<Rightarrow> EnvGet ys n | Some v \<Rightarrow> Some v)"
  by (induction xs) auto

lemma EnvGet_map_replace:
  "EnvGet (map (\<lambda>x. if evName x = evName v then v else x) xs) n =
     (if n = evName v then (if evName v \<in> evName ` set xs then Some v else None) else EnvGet xs n)"
  by (induction xs) auto

lemma EnvGet_EnvSet: "EnvGet (EnvSet xs v) n = (if n = evName v then Some v else EnvGet xs n)"
  by (auto simp: EnvSet_def Let_def EnvGet_append EnvGet_map_replace image_iff split: option.split)

lemma EnvGet_EnvRemove: "EnvGet (EnvRemove xs m) n = (if n = m then None else EnvGet xs n)"
  by (induction xs) (auto simp: EnvRemove_def)

lemma fold_upsert_lookup:
  "fmlookup (fold (\<lambda>x f. fmupd (evName x) x f) xs f0) n =
     (case EnvGet (rev xs) n of None \<Rightarrow> fmlookup f0 n | Some v \<Rightarrow> Some v)"
  by (induction xs arbitrary: f0) (auto simp: EnvGet_append split: option.splits)

lemma mergeInto_lookup:
  "fmlookup (mergeInto override f ms) n =
     (if override then (case EnvGet (rev ms) n of None \<Rightarrow> fmlookup f n | Some v \<Rightarrow> Some v)
      else (case fmlookup f n of None \<Rightarrow> EnvGet ms n | Some v \<Rightarrow> Some v))"
  by (induction override f ms rule: mergeInto.induct)
    (auto simp: EnvGet_append split: option.splits)

lemma EnvGet_map_keys:
  "\<lbrakk>\<And>k. k \<in> set ks \<Longrightarrow> evName (f k) = k\<rbrakk> \<Longrightarrow>
     EnvGet (map f ks) n = (if n \<in> set ks then Some (f n) else None)"
  by (induction ks) auto

text \<open>The map the merge builds holds each variable under its own name.\<close>

definition env_keyed :: "(string, env_var) fmap \<Rightarrow> bool" where
  "env_keyed f \<longleftrightarrow> (\<forall>k v. fmlookup f k = Some v \<longrightarrow> evName v = k)"

lemma env_keyed_fmupd: "env_keyed f \<Longrightarrow> env_keyed (fmupd (evName v) v f)"
  by (auto simp: env_keyed_def)

lemma env_keyed_fold: "env_keyed f \<Longrightarrow> env_keyed (fold (\<lambda>x f. fmupd (evName x) x f) xs f)"
  by (induction xs arbitrary: f) (auto simp: env_keyed_fmupd)

lemma env_keyed_mergeInto: "env_keyed f \<Longrightarrow> env_keyed (mergeInto override f ms)"
  by (induction override f ms rule: mergeInto.induct) (simp_all add: env_keyed_fmupd)

lemma env_keyed_empty: "env_keyed fmempty"
  by (simp add: env_keyed_def)

section \<open>Lemmas: TLS names\<close>

lemma map_filter_empty_iff: "List.map_filter f xs = [] \<longleftrightarrow> (\<forall>x\<in>set xs. f x = None)"
  by (induction xs) (auto simp: List.map_filter_simps split: option.splits)

section \<open>Properties\<close>

text \<open>Names built for an instance fit the Kubernetes limits whatever the name of the custom
  resource: 63 characters for an object's name, 52 for a StatefulSet's, so that the revision label
  Kubernetes derives from it fits 63 too, and 63 for the redis proxy service of the agent
  principal.\<close>

theorem names_within_limits:
  "length (NameWithSuffix e m sfx) \<le> 63 \<and>
   length (NameWithSuffixForStatefulSet e m sfx) + 11 \<le> 63 \<and>
   length (GenerateAgentPrincipalRedisProxyServiceName e n) \<le> 63"
proof -
  have "length (NameWithSuffix e m sfx) \<le> 63"
    using TruncateWithHash_length[of 63 e] by (simp add: NameWithSuffix_def Let_def name_limits)
  moreover have "length (NameWithSuffixForStatefulSet e m sfx) \<le> 52"
    using TruncateWithHash_length[of 52 e]
    by (auto simp: NameWithSuffixForStatefulSet_def Let_def name_limits)
  moreover have "length (GenerateAgentPrincipalRedisProxyServiceName e n) \<le> 63"
    using TruncateWithHash_length[of 36 e n]
    by (simp add: GenerateAgentPrincipalRedisProxyServiceName_def)
  ultimately show ?thesis by simp
qed

text \<open>Merging environment variables gives a list strictly sorted by name in which a name has
  the value the code's loops leave: with \<open>override\<close> the last entry of \<open>merge\<close>, else the last entry of
  \<open>existing\<close>; without it the last entry of \<open>existing\<close>, else the first of \<open>merge\<close>.\<close>

theorem EnvMerge_spec:
  "sorted_wrt (<) (map evName (EnvMerge existing merge override)) \<and>
   EnvGet (EnvMerge existing merge override) n =
     (if override
      then (case EnvGet (rev merge) n of None \<Rightarrow> EnvGet (rev existing) n | Some v \<Rightarrow> Some v)
      else (case EnvGet (rev existing) n of None \<Rightarrow> EnvGet merge n | Some v \<Rightarrow> Some v))"
proof -
  define f where "f = mergeInto override (fold (\<lambda>x f. fmupd (evName x) x f) existing fmempty) merge"
  have keyed: "env_keyed f"
    by (simp add: f_def env_keyed_mergeInto env_keyed_fold env_keyed_empty)
  have m: "EnvMerge existing merge override =
      map (\<lambda>k. the (fmlookup f k)) (sorted_list_of_fset (fmdom f))"
    by (simp add: EnvMerge_def f_def Let_def)
  have name: "evName (the (fmlookup f k)) = k" if "k \<in> set (sorted_list_of_fset (fmdom f))" for k
    using that keyed by (auto simp: env_keyed_def fmlookup_dom_iff)
  then have "map evName (EnvMerge existing merge override) = sorted_list_of_fset (fmdom f)"
    by (auto simp: m intro!: map_idI)
  moreover have "EnvGet (EnvMerge existing merge override) n = fmlookup f n"
    unfolding m using name by (subst EnvGet_map_keys) (auto simp: fmlookup_dom_iff)
  moreover have "fmlookup f n = (if override
      then (case EnvGet (rev merge) n of None \<Rightarrow> EnvGet (rev existing) n | Some v \<Rightarrow> Some v)
      else (case EnvGet (rev existing) n of None \<Rightarrow> EnvGet merge n | Some v \<Rightarrow> Some v))"
    by (auto simp: f_def mergeInto_lookup fold_upsert_lookup split: option.splits)
  ultimately show ?thesis by (simp add: sorted_list_of_fset.rep_eq)
qed

text \<open>Translating the cluster's TLS groups for a Go component fails exactly when groups are
  configured and Go supports none of them; otherwise it gives the Go names of the supported
  groups, in order, and the empty string only for an empty preference.\<close>

theorem MapOpenShiftTLSGroupsToGoCurves_spec:
  "(\<exists>err. MapOpenShiftTLSGroupsToGoCurves groups component = Inl err) \<longleftrightarrow>
     groups \<noteq> [] \<and> (\<forall>g\<in>set groups. openShiftTLSGroupToGoCurve g = None)"
  by (auto simp: MapOpenShiftTLSGroupsToGoCurves_def Let_def map_filter_empty_iff)

theorem MapOpenShiftTLSGroupsToGoCurves_spec_witness:
  "(\<exists>err. MapOpenShiftTLSGroupsToGoCurves [''SecP256r1MLKEM768''] ''gitops-backend'' = Inl err) \<and>
   \<not> (\<exists>err. MapOpenShiftTLSGroupsToGoCurves [''SecP256r1MLKEM768'', ''X25519''] ''gitops-backend'' = Inl err)"
  using MapOpenShiftTLSGroupsToGoCurves_spec[of "[''SecP256r1MLKEM768'']" "''gitops-backend''"]
    MapOpenShiftTLSGroupsToGoCurves_spec[of "[''SecP256r1MLKEM768'', ''X25519'']" "''gitops-backend''"]
  by (simp add: openShiftTLSGroupToGoCurve_def)

end
