(* ===== verification/Cluster_Util.thy ===== *)
theory Cluster_Util
  imports Argo_Util
begin

text \<open>
  \<open>controllers/util/util.go\<close>: what the operator learns about the cluster it runs in. The probes of
  the optional API groups set package-level flags (the record \<open>api_flags\<close>); the probe itself,
  \<open>argoutil.VerifyAPI\<close> over the discovery client, is the parameter \<open>verify\<close>.
\<close>

section \<open>Definitions\<close>

datatype api_group =
  OLMGroup | MonitoringGroup | RouteGroup | ConfigGroup | ConsoleGroup | TemplateGroup | AppsGroup | OAuthGroup

type_synonym verifier = "api_group \<Rightarrow> go_error + bool"

type_synonym probe = "verifier \<Rightarrow> api_flags \<Rightarrow> go_error option \<times> api_flags"

definition GetClusterVersion :: "'w client \<Rightarrow> ('w, string) act" where
  "GetClusterVersion c = handle (getAs c as_cluster_version (KClusterVersion, '''', ''version''))
     (\<lambda>err. if IsNotFound err then ret '''' else fail err)
     (\<lambda>cv. ret (cvDesiredVersion cv))"

definition verifyConfigAPI :: probe where
  "verifyConfigAPI verify f = (case verify ConfigGroup of
     Inl err \<Rightarrow> (Some err, f) | Inr found \<Rightarrow> (None, f\<lparr>configAPIFound := found\<rparr>))"

definition verifyConsoleAPI :: probe where
  "verifyConsoleAPI verify f = (case verify ConsoleGroup of
     Inl err \<Rightarrow> (Some err, f) | Inr found \<Rightarrow> (None, f\<lparr>consoleAPIFound := found\<rparr>))"

definition verifyRouteAPI :: probe where
  "verifyRouteAPI verify f = (case verify RouteGroup of
     Inl err \<Rightarrow> (Some err, f) | Inr found \<Rightarrow> (None, f\<lparr>routeAPIFound := found\<rparr>))"

definition verifyMonitoringAPI :: probe where
  "verifyMonitoringAPI verify f = (case verify MonitoringGroup of
     Inl err \<Rightarrow> (Some err, f) | Inr found \<Rightarrow> (None, f\<lparr>monitoringAPIFound := found\<rparr>))"

definition verifyTemplateAPI :: probe where
  "verifyTemplateAPI verify f = (case verify TemplateGroup of
     Inl err \<Rightarrow> (Some err, f) | Inr found \<Rightarrow> (None, f\<lparr>templateAPIFound := found\<rparr>))"

definition verifyAppsAPI :: probe where
  "verifyAppsAPI verify f = (case verify AppsGroup of
     Inl err \<Rightarrow> (Some err, f) | Inr found \<Rightarrow> (None, f\<lparr>appsAPIFound := found\<rparr>))"

definition verifyOAuthAPI :: probe where
  "verifyOAuthAPI verify f = (case verify OAuthGroup of
     Inl err \<Rightarrow> (Some err, f) | Inr found \<Rightarrow> (None, f\<lparr>oauthAPIFound := found\<rparr>))"

definition verifyOLMAPI :: probe where
  "verifyOLMAPI verify f = (case verify OLMGroup of
     Inl err \<Rightarrow> (Some err, f) | Inr found \<Rightarrow> (None, f\<lparr>olmAPIFound := found\<rparr>))"

text \<open>\<open>errors.Join\<close>: nil for no errors.\<close>

definition joinErrors :: "go_error list \<Rightarrow> go_error option" where
  "joinErrors errs = (if errs = [] then None else Some (Joined errs))"

text \<open>\<open>if err := check(); err != nil { errs = append(errs, err) }\<close>, over a list of checks.\<close>

fun runProbes :: "probe list \<Rightarrow> verifier \<Rightarrow> go_error list \<times> api_flags \<Rightarrow> go_error list \<times> api_flags" where
  "runProbes [] verify (errs, f) = (errs, f)"
| "runProbes (p # ps) verify (errs, f) = (case p verify f of
     (None, f') \<Rightarrow> runProbes ps verify (errs, f')
   | (Some err, f') \<Rightarrow> runProbes ps verify (errs @ [err], f'))"

definition InspectCluster :: "verifier \<Rightarrow> api_flags \<Rightarrow> go_error option \<times> api_flags" where
  "InspectCluster verify f0 =
     (let (errs, f) = runProbes [verifyOLMAPI, verifyMonitoringAPI, verifyRouteAPI] verify ([], f0)
      in case verifyConfigAPI verify f of
           (Some err, f1) \<Rightarrow> (joinErrors (errs @ [err]), f1)
         | (None, f1) \<Rightarrow>
             if \<not> configAPIFound f1 then (joinErrors errs, f1)
             else let (errs', f2) = runProbes
                    [verifyConsoleAPI, verifyTemplateAPI, verifyAppsAPI, verifyOAuthAPI] verify (errs, f1)
                  in (joinErrors errs', f2))"

definition IsOpenShiftCluster :: "api_flags \<Rightarrow> bool" where
  "IsOpenShiftCluster f = configAPIFound f"

definition caseInsensitiveGetenv :: "env \<Rightarrow> string \<Rightarrow> string \<times> string" where
  "caseInsensitiveGetenv e s =
     (if getenv e s \<noteq> '''' then (s, getenv e s)
      else let ls = ToLower s
           in if getenv e ls \<noteq> '''' then (ls, getenv e ls) else ('''', ''''))"

definition addToNoProxy :: "string \<Rightarrow> string \<Rightarrow> string" where
  "addToNoProxy noProxy entry =
     (if noProxy = '''' then entry
      else if entry \<notin> set (splitOn (CHR '','') noProxy) then noProxy @ '','' @ entry
      else noProxy)"

definition proxyVar :: "env \<Rightarrow> string \<Rightarrow> env_var list" where
  "proxyVar e p =
     (let (k, v) = caseInsensitiveGetenv e p
      in if k \<noteq> ''''
         then [envVar k (if p = ''NO_PROXY'' then addToNoProxy v ''.cluster.local.'' else v)]
         else [])"

definition ProxyEnvVars :: "env \<Rightarrow> env_var list \<Rightarrow> env_var list" where
  "ProxyEnvVars e vars = vars @ concat (map (proxyVar e) [''HTTP_PROXY'', ''HTTPS_PROXY'', ''NO_PROXY''])"

definition restrictedSecurityContext :: security_context where
  "restrictedSecurityContext =
     \<lparr>scCapabilities = Some \<lparr>capAdd = None, capDrop = Some [''ALL'']\<rparr>,
      scRunAsNonRoot = Some True, scAllowPrivilegeEscalation = Some False,
      scReadOnlyRootFilesystem = None, scSeccompProfile = Some runtimeDefault, scOther = ''''\<rparr>"

text \<open>The pod's security context after the three nil and empty checks.\<close>

definition withSeccomp :: "pod_security_context option \<Rightarrow> pod_security_context" where
  "withSeccomp sc =
     (let psc = (case sc of None \<Rightarrow> \<lparr>pscSeccompProfile = None, pscOther = ''''\<rparr> | Some p \<Rightarrow> p);
          prof = (case pscSeccompProfile psc of
            None \<Rightarrow> \<lparr>seccompType = '''', seccompOther = ''''\<rparr> | Some q \<Rightarrow> q)
      in psc\<lparr>pscSeccompProfile := Some
           (if seccompType prof = '''' then prof\<lparr>seccompType := ''RuntimeDefault''\<rparr> else prof)\<rparr>)"

definition seccompPodSpec :: "pod_spec \<Rightarrow> pod_spec outcome" where
  "seccompPodSpec ps = (case psContainers ps of
      [] \<Rightarrow> Panic IndexOutOfRange
    | ct # rest \<Rightarrow> Ok (ps\<lparr>psSecurityContext := Some (withSeccomp (psSecurityContext ps)),
        psContainers := (if cSecurityContext ct = None
           then ct\<lparr>cSecurityContext := Some restrictedSecurityContext\<rparr> else ct) # rest\<rparr>))"

definition AddSeccompProfileForOpenShift :: "env \<Rightarrow> 'w client \<Rightarrow> pod_spec \<Rightarrow> ('w, pod_spec) act" where
  "AddSeccompProfileForOpenShift e c ps =
     (let go = (\<lambda>version. \<lambda>w.
           (if version = '''' \<or> semverCompare e (''v'' @ version) ''v4.10.999'' > 0
            then (seccompPodSpec ps, w) else (Ok ps, w)))
      in handle (GetClusterVersion c) (\<lambda>_. go '''') go)"

definition operatorPodNamespacePath :: string where
  "operatorPodNamespacePath = ''/var/run/secrets/kubernetes.io/serviceaccount/namespace''"

definition GetOperatorNamespace :: "env \<Rightarrow> go_error + string" where
  "GetOperatorNamespace e = (case readFile e operatorPodNamespacePath of
      Inl NotExist \<Rightarrow> Inr ''openshift-gitops-operator''
    | Inl (OtherFileError s) \<Rightarrow> Inl (Wrapped ''error retrieving operator namespace'' (ErrorText s))
    | Inr contents \<Rightarrow> Inr (TrimSpace contents))"

text \<open>Specification of the probes: the errors of the groups that could not be probed, and the value of
  a flag.\<close>

definition probeErrors :: "verifier \<Rightarrow> api_group list \<Rightarrow> go_error list" where
  "probeErrors verify gs = List.map_filter (\<lambda>g. case verify g of Inl err \<Rightarrow> Some err | Inr _ \<Rightarrow> None) gs"

definition probed :: "verifier \<Rightarrow> api_group \<Rightarrow> bool \<Rightarrow> bool" where
  "probed verify g old = (case verify g of Inl _ \<Rightarrow> old | Inr found \<Rightarrow> found)"

section \<open>Lemmas\<close>

lemmas probe_defs = verifyConfigAPI_def verifyConsoleAPI_def verifyRouteAPI_def
  verifyMonitoringAPI_def verifyTemplateAPI_def verifyAppsAPI_def verifyOAuthAPI_def verifyOLMAPI_def

lemma joinErrors_None [simp]: "joinErrors errs = None \<longleftrightarrow> errs = []"
  by (simp add: joinErrors_def)

context k8s_client begin

lemma GetClusterVersion_fp: "act_rel (same_outside view S) (GetClusterVersion c)"
  unfolding GetClusterVersion_def
  by (intro fp.rel_intros getAs_fp) (auto simp: refreshable_def intro: fp.rel_intros)

lemma GetClusterVersion_kp: "act_rel (keeps_present view S) (GetClusterVersion c)"
  unfolding GetClusterVersion_def
  by (intro kp.rel_intros getAs_kp)

lemma GetClusterVersion_view: "GetClusterVersion c w = (r, w') \<Longrightarrow> view w' = view w"
  using GetClusterVersion_fp by (rule fp_empty_view)

lemma AddSeccomp_fp: "act_rel (same_outside view S) (AddSeccompProfileForOpenShift e c ps)"
  unfolding AddSeccompProfileForOpenShift_def Let_def
  by (intro fp.rel_handle GetClusterVersion_fp) (auto simp: act_rel_def same_outside_def)

lemma AddSeccomp_kp: "act_rel (keeps_present view S) (AddSeccompProfileForOpenShift e c ps)"
  unfolding AddSeccompProfileForOpenShift_def Let_def
  by (intro kp.rel_handle GetClusterVersion_kp) (auto simp: act_rel_def keeps_present_def)

lemma AddSeccomp_view: "AddSeccompProfileForOpenShift e c ps w = (r, w') \<Longrightarrow> view w' = view w"
  using AddSeccomp_fp by (rule fp_empty_view)

end

lemma withSeccomp_idem [simp]: "withSeccomp (Some (withSeccomp sc)) = withSeccomp sc"
  by (auto simp: withSeccomp_def Let_def split: option.splits)

lemma seccompPodSpec_Ok_iff:
  "(\<exists>ps'. seccompPodSpec ps = Ok ps') \<longleftrightarrow> psContainers ps \<noteq> []"
  by (auto simp: seccompPodSpec_def split: list.splits)

lemma mem_split_addToNoProxy:
  assumes "CHR '','' \<notin> set entry" and "entry \<noteq> ''''"
  shows "set (splitOn (CHR '','') (addToNoProxy noProxy entry)) =
    (if noProxy = '''' then {entry} else insert entry (set (splitOn (CHR '','') noProxy)))"
proof -
  have single: "splitOn (CHR '','') entry = [entry]"
    using assms(1) by (induction entry) auto
  have app: "splitOn (CHR '','') (noProxy @ CHR '','' # entry) = splitOn (CHR '','') noProxy @ [entry]"
    by (rule splitOn_append_sep) (rule assms(1))
  show ?thesis using single app by (auto simp: addToNoProxy_def)
qed

section \<open>Properties\<close>

text \<open>Probing the cluster: the call returns nil exactly when every probe it makes succeeds; a
  flag whose probe succeeded holds what the probe found and every other flag is unchanged. The
  console, template, apps and OAuth groups are probed only where the config group was found.\<close>

theorem InspectCluster_spec:
  "InspectCluster verify f0 =
    (let config = (verify ConfigGroup = Inr True)
     in (joinErrors (probeErrors verify ([OLMGroup, MonitoringGroup, RouteGroup, ConfigGroup] @
           (if config then [ConsoleGroup, TemplateGroup, AppsGroup, OAuthGroup] else []))),
         \<lparr>consoleAPIFound = (if config then probed verify ConsoleGroup (consoleAPIFound f0) else consoleAPIFound f0),
          routeAPIFound = probed verify RouteGroup (routeAPIFound f0),
          monitoringAPIFound = probed verify MonitoringGroup (monitoringAPIFound f0),
          configAPIFound = probed verify ConfigGroup (configAPIFound f0),
          templateAPIFound = (if config then probed verify TemplateGroup (templateAPIFound f0) else templateAPIFound f0),
          appsAPIFound = (if config then probed verify AppsGroup (appsAPIFound f0) else appsAPIFound f0),
          oauthAPIFound = (if config then probed verify OAuthGroup (oauthAPIFound f0) else oauthAPIFound f0),
          olmAPIFound = probed verify OLMGroup (olmAPIFound f0)\<rparr>))"
  by (cases f0; cases "verify OLMGroup"; cases "verify MonitoringGroup"; cases "verify RouteGroup";
      cases "verify ConfigGroup"; cases "verify ConsoleGroup"; cases "verify TemplateGroup";
      cases "verify AppsGroup"; cases "verify OAuthGroup")
    (simp_all add: InspectCluster_def probe_defs probeErrors_def probed_def List.map_filter_simps)

text \<open>Extending a NO_PROXY value: the entry is then listed, every entry that was listed still is,
  nothing else is, and extending again changes nothing.\<close>

theorem addToNoProxy_spec:
  assumes "CHR '','' \<notin> set entry" and "entry \<noteq> ''''"
  shows "set (splitOn (CHR '','') (addToNoProxy noProxy entry)) =
      (if noProxy = '''' then {entry} else insert entry (set (splitOn (CHR '','') noProxy))) \<and>
    addToNoProxy (addToNoProxy noProxy entry) entry = addToNoProxy noProxy entry"
proof
  show m: "set (splitOn (CHR '','') (addToNoProxy noProxy entry)) =
      (if noProxy = '''' then {entry} else insert entry (set (splitOn (CHR '','') noProxy)))"
    using assms by (rule mem_split_addToNoProxy)
  have "addToNoProxy noProxy entry \<noteq> ''''"
    using assms(2) by (auto simp: addToNoProxy_def)
  moreover have "entry \<in> set (splitOn (CHR '','') (addToNoProxy noProxy entry))"
    unfolding m by simp
  ultimately show "addToNoProxy (addToNoProxy noProxy entry) entry = addToNoProxy noProxy entry"
    by (simp add: addToNoProxy_def[of "addToNoProxy noProxy entry"])
qed

theorem addToNoProxy_spec_witness:
  "set (splitOn (CHR '','') (addToNoProxy ''localhost,.svc'' ''.cluster.local.'')) =
     {''localhost'', ''.svc'', ''.cluster.local.''} \<and>
   addToNoProxy (addToNoProxy ''localhost,.svc'' ''.cluster.local.'') ''.cluster.local.'' =
     addToNoProxy ''localhost,.svc'' ''.cluster.local.''"
  using addToNoProxy_spec[of "''.cluster.local.''" "''localhost,.svc''"]
  by (auto simp: insert_commute)

end
