(* ===== verification/Default_Instance.thy ===== *)
theory Default_Instance
  imports Cluster_Util
begin

text \<open>
  \<open>controllers/argocd/argocd.go\<close>: the custom resource of the default Argo CD instance, with its
  resource requests, its Dex configuration (left out on clusters that are not OpenShift or use
  external authentication), its RBAC policy and the kinds Argo CD is told not to watch.
\<close>

section \<open>Definitions\<close>

definition defaultAdminPolicy :: string where
  "defaultAdminPolicy = ''g, system:cluster-admins, role:admin'' @ newline @
     ''g, cluster-admins, role:admin'' @ newline"

definition defaultScope :: string where "defaultScope = ''[groups]''"

definition defaultArgoCDRole :: string where "defaultArgoCDRole = ''''"

definition getArgoApplicationSetSpec :: application_set_spec where
  "getArgoApplicationSetSpec = \<lparr>asResources = Some (memCpu ''512Mi'' ''250m'' ''1024Mi'' ''2000m'')\<rparr>"

definition getArgoControllerSpec :: "resource_requirements option" where
  "getArgoControllerSpec = Some (memCpu ''1024Mi'' ''250m'' ''2048Mi'' ''2000m'')"

definition getArgoDexSpec :: dex_spec where
  "getArgoDexSpec = \<lparr>dexOpenShiftOAuth = True,
     dexResources = Some (memCpu ''128Mi'' ''250m'' ''256Mi'' ''500m'')\<rparr>"

definition IsExternalAuthenticationEnabledOnCluster :: "'w client \<Rightarrow> ('w, bool) act" where
  "IsExternalAuthenticationEnabledOnCluster c =
     handle (getAs c as_authentication (KAuthentication, '''', ''cluster''))
       (\<lambda>_. ret False) (\<lambda>a. ret (authType a = ''OIDC''))"

definition getArgoSSOSpec :: "api_flags \<Rightarrow> 'w client \<Rightarrow> ('w, sso_spec option) act" where
  "getArgoSSOSpec f c =
     (if \<not> IsOpenShiftCluster f then ret None
      else bindG (IsExternalAuthenticationEnabledOnCluster c) (\<lambda>external.
        if external then ret None
        else ret (Some \<lparr>ssoProvider = ''dex'', ssoDex = Some getArgoDexSpec\<rparr>)))"

definition getArgoGrafanaSpec :: "resource_requirements option" where
  "getArgoGrafanaSpec = Some (memCpu ''128Mi'' ''250m'' ''256Mi'' ''500m'')"

definition getArgoHASpec :: ha_spec where
  "getArgoHASpec = \<lparr>haEnabled = False, haResources = Some (memCpu ''128Mi'' ''250m'' ''256Mi'' ''500m'')\<rparr>"

definition getArgoRedisSpec :: "resource_requirements option" where
  "getArgoRedisSpec = Some (memCpu ''128Mi'' ''250m'' ''256Mi'' ''500m'')"

definition getArgoRepoServerSpec :: repo_spec where
  "getArgoRepoServerSpec = \<lparr>repoResources = Some (memCpu ''256Mi'' ''250m'' ''1024Mi'' ''1000m''),
     repoSystemCATrust = None\<rparr>"

definition getArgoServerSpec :: server_spec where
  "getArgoServerSpec = \<lparr>srvRouteEnabled = True,
     srvResources = Some (memCpu ''128Mi'' ''125m'' ''256Mi'' ''500m'')\<rparr>"

definition getDefaultRBAC :: rbac_spec where
  "getDefaultRBAC = \<lparr>rbacPolicy = Some defaultAdminPolicy, rbacScopes = Some defaultScope,
     rbacDefaultPolicy = Some defaultArgoCDRole\<rparr>"

definition resourceExclusions :: "(string list \<times> string list \<times> string list) list" where
  "resourceExclusions =
    [(['''', ''discovery.k8s.io''], [''Endpoints'', ''EndpointSlice''], [''*'']),
     ([''apiregistration.k8s.io''], [''APIService''], [''*'']),
     ([''coordination.k8s.io''], [''Lease''], [''*'']),
     ([''authentication.k8s.io'', ''authorization.k8s.io''],
      [''SelfSubjectReview'', ''TokenReview'', ''LocalSubjectAccessReview'', ''SelfSubjectAccessReview'',
       ''SelfSubjectRulesReview'', ''SubjectAccessReview''], [''*'']),
     ([''certificates.k8s.io''], [''CertificateSigningRequest''], [''*'']),
     ([''cert-manager.io''], [''CertificateRequest''], [''*'']),
     ([''cilium.io''], [''CiliumIdentity'', ''CiliumEndpoint'', ''CiliumEndpointSlice''], [''*'']),
     ([''kyverno.io'', ''reports.kyverno.io'', ''wgpolicyk8s.io''],
      [''PolicyReport'', ''ClusterPolicyReport'', ''EphemeralReport'', ''ClusterEphemeralReport'',
       ''AdmissionReport'', ''ClusterAdmissionReport'', ''BackgroundScanReport'',
       ''ClusterBackgroundScanReport'', ''UpdateRequest''], [''*'']),
     ([''tekton.dev''], [''TaskRun'', ''PipelineRun''], [''*''])]"

definition defaultSpec :: "sso_spec option \<Rightarrow> string \<Rightarrow> argocd_spec" where
  "defaultSpec sso exclusions =
     \<lparr>acApplicationSet = Some getArgoApplicationSetSpec,
      acControllerResources = getArgoControllerSpec,
      acSSO = sso,
      acGrafanaResources = getArgoGrafanaSpec,
      acHA = getArgoHASpec,
      acRedisResources = getArgoRedisSpec,
      acRepo = getArgoRepoServerSpec,
      acServer = getArgoServerSpec,
      acRBAC = getDefaultRBAC,
      acResourceExclusions = exclusions,
      acNodePlacement = None,
      acDisableMetrics = None,
      acExtraConfig = None,
      acLocalUsers = None\<rparr>"

definition NewCR :: "env \<Rightarrow> api_flags \<Rightarrow> 'w client \<Rightarrow> string \<Rightarrow> string \<Rightarrow> ('w, argocd) act" where
  "NewCR e f c name ns =
     bindG (liftE (yamlMarshal e resourceExclusions)) (\<lambda>b.
     bindG (getArgoSSOSpec f c) (\<lambda>sso.
     ret \<lparr>acMeta = mkMeta name ns, acSpec = defaultSpec sso b\<rparr>))"

section \<open>Lemmas\<close>

lemma NewCR_Ok:
  assumes "NewCR e f c name ns w = (Ok cr, w')"
  shows "acMeta cr = mkMeta name ns" and "acNodePlacement (acSpec cr) = None"
    and "\<exists>sso b. acSpec cr = defaultSpec sso b"
  using assms by (auto simp: NewCR_def ok_iff defaultSpec_def)

context k8s_client begin

lemma NewCR_fp: "act_rel (same_outside view S) (NewCR e f c name ns)"
  unfolding NewCR_def getArgoSSOSpec_def IsExternalAuthenticationEnabledOnCluster_def
  by (intro fp.rel_intros getAs_fp) (simp_all add: refreshable_def)

lemma NewCR_kp: "act_rel (keeps_present view S) (NewCR e f c name ns)"
  unfolding NewCR_def getArgoSSOSpec_def IsExternalAuthenticationEnabledOnCluster_def
  by (intro kp.rel_intros getAs_kp)

lemma NewCR_view: "NewCR e f c name ns w = (r, w') \<Longrightarrow> view w' = view w"
  using NewCR_fp by (rule fp_empty_view)

end

end
