(* ===== verification/Gitops_Backend.thy ===== *)
theory Gitops_Backend
  imports Default_Instance
begin

text \<open>
  The first half of \<open>controllers/gitopsservice_controller.go\<close>: the namespaces the operator owns and
  their metadata, the objects of the gitops backend (service account, cluster role and binding,
  deployment, service), their reconciliation and their removal.
\<close>

section \<open>Constants and namespaced names\<close>

record namespaced_name =
  nnName :: string
  nnNamespace :: string

definition serviceName :: string where "serviceName = ''cluster''"

definition serviceNamespace :: string where "serviceNamespace = ''openshift-gitops''"

definition deprecatedServiceNamespace :: string where
  "deprecatedServiceNamespace = ''openshift-pipelines-app-delivery''"

definition gitopsServicePrefix :: string where "gitopsServicePrefix = ''gitops-service-''"

definition backendPort :: int where "backendPort = 8080"

definition backendImage :: string where
  "backendImage = ''quay.io/redhat-user-workloads/rh-openshift-gitops-tenant/gitops-rhel9:main''"

definition PodSecurityLabelSyncLabel :: string where
  "PodSecurityLabelSyncLabel = ''security.openshift.io/scc.podSecurityLabelSync''"

definition InfraNodeSelectorAnnotation :: string where
  "InfraNodeSelectorAnnotation = ''openshift.io/node-selector''"

definition InfraNodeSelectorAnnotationValue :: string where
  "InfraNodeSelectorAnnotationValue = ''node-role.kubernetes.io/infra=''"

definition GetBackendNamespace :: "'w client \<Rightarrow> ('w, string) act" where
  "GetBackendNamespace c = bindG (GetClusterVersion c) (\<lambda>version.
     if HasPrefix version ''4.6'' then ret deprecatedServiceNamespace else ret serviceNamespace)"

section \<open>Namespaces\<close>

definition newRestrictedNamespace :: "string \<Rightarrow> namespace_obj" where
  "newRestrictedNamespace ns =
     (let labels = gmap [(''openshift.io/cluster-monitoring'', ''true'')]
      in \<lparr>nsMeta = (mkMeta ns '''')\<lparr>metaLabels :=
            (if HasPrefix ns ''openshift-'' then gput labels PodSecurityLabelSyncLabel ''true''
             else labels)\<rparr>\<rparr>)"

definition ensurePodSecurityLabels :: "namespace_obj \<Rightarrow> bool \<times> namespace_obj" where
  "ensurePodSecurityLabels n =
     (let labels = gmake (metaLabels (nsMeta n))
      in if gindex labels PodSecurityLabelSyncLabel \<noteq> ''true''
         then (True, n\<lparr>nsMeta := (nsMeta n)\<lparr>metaLabels := gput labels PodSecurityLabelSyncLabel ''true''\<rparr>\<rparr>)
         else (False, n\<lparr>nsMeta := (nsMeta n)\<lparr>metaLabels := labels\<rparr>\<rparr>))"

definition ensureInfraNodeSelectorAnnotation :: "namespace_obj \<Rightarrow> bool \<Rightarrow> bool \<times> namespace_obj" where
  "ensureInfraNodeSelectorAnnotation n runOnInfra =
     (let annotations = gmake (metaAnnotations (nsMeta n));
          withAnn = (\<lambda>a. n\<lparr>nsMeta := (nsMeta n)\<lparr>metaAnnotations := a\<rparr>\<rparr>)
      in if runOnInfra
         then (if gindex annotations InfraNodeSelectorAnnotation \<noteq> InfraNodeSelectorAnnotationValue
               then (True, withAnn (gput annotations InfraNodeSelectorAnnotation InfraNodeSelectorAnnotationValue))
               else (False, withAnn annotations))
         else (if gindex annotations InfraNodeSelectorAnnotation = InfraNodeSelectorAnnotationValue
               then (True, withAnn (gdelete annotations InfraNodeSelectorAnnotation))
               else (False, withAnn annotations)))"

definition ensureNamespaceMetadata :: "namespace_obj \<Rightarrow> bool \<Rightarrow> bool \<times> namespace_obj" where
  "ensureNamespaceMetadata n runOnInfra =
     (let (labelUpdate, n1) = ensurePodSecurityLabels n;
          (annotationUpdate, n2) = ensureInfraNodeSelectorAnnotation n1 runOnInfra
      in (labelUpdate \<or> annotationUpdate, n2))"

section \<open>The backend's objects\<close>

definition backendDeploymentObjectMeta :: "namespaced_name \<Rightarrow> object_meta" where
  "backendDeploymentObjectMeta nn = mkMeta (nnName nn) (nnNamespace nn)"

definition tls13Ciphers :: "string list" where
  "tls13Ciphers = [''TLS_AES_128_GCM_SHA256'', ''TLS_AES_256_GCM_SHA384'', ''TLS_CHACHA20_POLY1305_SHA256'']"

definition backendCiphers :: "env \<Rightarrow> tls_profile \<Rightarrow> string list" where
  "backendCiphers e tls =
     (let ciphers = MapCipherSuites e (Ciphers tls)
      in if MinVersion tls \<noteq> ''VersionTLS13'' then filter (\<lambda>x. x \<notin> set tls13Ciphers) ciphers else ciphers)"

definition backendEnv :: "env \<Rightarrow> tls_profile \<Rightarrow> go_error + env_var list" where
  "backendEnv e tls =
     (let env0 = [envVar ''INSECURE'' ''true''];
          version = TLSProtocolVersionString (MinVersion tls);
          env1 = (if version \<noteq> '''' then env0 @ [envVar ''TLS_MIN_VERSION'' version] else env0);
          ciphers = backendCiphers e tls;
          env2 = (if ciphers \<noteq> [] then env1 @ [envVar ''TLS_CIPHER_SUITES'' (joinStr '':'' ciphers)] else env1)
      in case MapOpenShiftTLSGroupsToGoCurves (CurvePreferences tls) ''gitops-backend'' of
           Inl err \<Rightarrow> Inl err
         | Inr curves \<Rightarrow>
             Inr (if curves \<noteq> '''' then env2 @ [envVar ''TLS_CURVE_PREFERENCES'' curves] else env2))"

definition backendContainer :: "env \<Rightarrow> namespaced_name \<Rightarrow> string \<Rightarrow> env_var list \<Rightarrow> container" where
  "backendContainer e nn policy vars =
     (let image = (if getenv e ''BACKEND_IMAGE'' = '''' then backendImage else getenv e ''BACKEND_IMAGE'')
      in zeroContainer\<lparr>cName := nnName nn,
           cImage := image,
           cImagePullPolicy := GetImagePullPolicy e policy,
           cPorts := Some [\<lparr>cpName = ''http'', cpProtocol = ''TCP'', cpContainerPort = backendPort, cpOther = ''''\<rparr>],
           cEnv := Some vars,
           cVolumeMounts := Some [zeroMount\<lparr>vmMountPath := ''/etc/gitops/ssl'', vmName := ''backend-ssl'', vmReadOnly := True\<rparr>],
           cResources := memCpu ''128Mi'' ''250m'' ''256Mi'' ''500m''\<rparr>)"

definition newBackendDeployment :: "env \<Rightarrow> namespaced_name \<Rightarrow> string \<Rightarrow> tls_profile \<Rightarrow> go_error + deployment" where
  "newBackendDeployment e nn policy tls = (case backendEnv e tls of
      Inl err \<Rightarrow> Inl err
    | Inr vars \<Rightarrow> Inr
        \<lparr>depMeta = backendDeploymentObjectMeta nn,
         depReplicas = Some 1,
         depSelector = Some \<lparr>lsMatchLabels = gmap [(''app.kubernetes.io/name'', nnName nn)], lsOther = ''''\<rparr>,
         depTemplate = \<lparr>
           ptLabels = gmap [(''app.kubernetes.io/name'', nnName nn), (''openshift.io/required-scc'', ''restricted-v2'')],
           ptAnnotations = None,
           ptSpec = zeroPodSpec\<lparr>
             psContainers := [backendContainer e nn policy vars],
             psVolumes := Some [\<lparr>vName = ''backend-ssl'', vSource = SecretVolume (nnName nn) None\<rparr>],
             psServiceAccountName := gitopsServicePrefix @ nnName nn\<rparr>\<rparr>,
         depReadyReplicas = 0, depConditions = None\<rparr>)"

definition newBackendService :: "namespaced_name \<Rightarrow> service" where
  "newBackendService nn =
     \<lparr>svcMeta = (mkMeta (nnName nn) (nnNamespace nn))\<lparr>metaAnnotations :=
        gmap [(''service.beta.openshift.io/serving-cert-secret-name'', nnName nn)]\<rparr>,
      svcPorts = Some [\<lparr>spName = '''', spProtocol = ''TCP'', spPort = backendPort, spTargetPort = IntPort backendPort, spPortOther = ''''\<rparr>],
      svcSelector = gmap [(''app.kubernetes.io/name'', nnName nn)], svcType = '''', svcPublishNotReady = False\<rparr>"

definition newServiceAccount :: "namespaced_name \<Rightarrow> service_account" where
  "newServiceAccount nn = \<lparr>saMeta = mkMeta (gitopsServicePrefix @ nnName nn) (nnNamespace nn), saImagePullSecrets = None, saSecrets = None\<rparr>"

definition policyRuleForBackendServiceClusterRole :: "policy_rule list" where
  "policyRuleForBackendServiceClusterRole =
     [mkRule [''argoproj.io''] [''applications''] [''get'', ''list'', ''watch''],
      mkRule [''''] [''secrets''] [''get'', ''list'', ''watch'']]"

definition newClusterRole :: "namespaced_name \<Rightarrow> cluster_role" where
  "newClusterRole nn = \<lparr>crMeta = mkMeta (gitopsServicePrefix @ nnName nn) '''',
     crRules = Some policyRuleForBackendServiceClusterRole, crAggregation = None\<rparr>"

definition newClusterRoleBinding :: "namespaced_name \<Rightarrow> role_binding" where
  "newClusterRoleBinding nn =
     \<lparr>rbMeta = mkMeta (gitopsServicePrefix @ nnName nn) '''',
      rbSubjects = Some [\<lparr>subjKind = ''ServiceAccount'', subjName = gitopsServicePrefix @ nnName nn,
        subjNamespace = nnNamespace nn\<rparr>],
      rbRoleRef = \<lparr>refAPIGroup = ''rbac.authorization.k8s.io'', refKind = ''ClusterRole'',
        refName = gitopsServicePrefix @ nnName nn\<rparr>\<rparr>"

section \<open>Reconciling the backend\<close>

definition reconcileBackendServiceAccount ::
  "env \<Rightarrow> 'w client \<Rightarrow> namespaced_name \<Rightarrow> gitops_service \<Rightarrow> ('w, unit) act" where
  "reconcileBackendServiceAccount e c nn inst =
     (let x = newServiceAccount nn
      in bindG (liftE (SetControllerReference e (gsMeta inst) (saMeta x))) (\<lambda>m.
           getOrCreate c Some (OServiceAccount (x\<lparr>saMeta := m\<rparr>)) (\<lambda>_. ret ())))"

definition reconcileBackendClusterRole ::
  "env \<Rightarrow> 'w client \<Rightarrow> namespaced_name \<Rightarrow> gitops_service \<Rightarrow> ('w, unit) act" where
  "reconcileBackendClusterRole e c nn inst =
     (let x = newClusterRole nn
      in bindG (liftE (SetControllerReference e (gsMeta inst) (crMeta x))) (\<lambda>m.
           getOrCreate c as_cluster_role (OClusterRole (x\<lparr>crMeta := m\<rparr>)) (\<lambda>existing.
             if crRules existing \<noteq> crRules x
             then updateO c (OClusterRole (existing\<lparr>crRules := crRules x\<rparr>))
             else ret ())))"

definition reconcileBackendClusterRoleBinding ::
  "env \<Rightarrow> 'w client \<Rightarrow> namespaced_name \<Rightarrow> gitops_service \<Rightarrow> ('w, unit) act" where
  "reconcileBackendClusterRoleBinding e c nn inst =
     (let x = newClusterRoleBinding nn
      in bindG (liftE (SetControllerReference e (gsMeta inst) (rbMeta x))) (\<lambda>m.
           getOrCreate c Some (OClusterRoleBinding (x\<lparr>rbMeta := m\<rparr>)) (\<lambda>_. ret ())))"

text \<open>The field by field comparison of the deployment found with the desired one: the first
  container, then the pod. The code compares \<open>Resources\<close> twice.\<close>

definition syncBackendContainer :: "container \<Rightarrow> bool \<times> container \<Rightarrow> bool \<times> container" where
  "syncBackendContainer d s0 =
     (let s1 = syncField cImage (\<lambda>v. cImage_update (\<lambda>_. v)) (cImage d) s0;
          s2 = syncField cEnv (\<lambda>v. cEnv_update (\<lambda>_. v)) (cEnv d) s1;
          s3 = syncField cImagePullPolicy (\<lambda>v. cImagePullPolicy_update (\<lambda>_. v)) (cImagePullPolicy d) s2;
          s4 = syncField cResources (\<lambda>v. cResources_update (\<lambda>_. v)) (cResources d) s3;
          s5 = syncField cArgs (\<lambda>v. cArgs_update (\<lambda>_. v)) (cArgs d) s4;
          s6 = syncField cResources (\<lambda>v. cResources_update (\<lambda>_. v)) (cResources d) s5
      in syncField cSecurityContext (\<lambda>v. cSecurityContext_update (\<lambda>_. v)) (cSecurityContext d) s6)"

definition syncBackendPod :: "pod_spec \<Rightarrow> bool \<times> pod_spec \<Rightarrow> bool \<times> pod_spec" where
  "syncBackendPod d s0 =
     (let s1 = syncField psNodeSelector (\<lambda>v. psNodeSelector_update (\<lambda>_. v)) (psNodeSelector d) s0;
          s2 = syncField psTolerations (\<lambda>v. psTolerations_update (\<lambda>_. v)) (psTolerations d) s1
      in syncField psSecurityContext (\<lambda>v. psSecurityContext_update (\<lambda>_. v)) (psSecurityContext d) s2)"

definition set_spec :: "pod_spec \<Rightarrow> deployment \<Rightarrow> deployment" where
  "set_spec ps d = d\<lparr>depTemplate := (depTemplate d)\<lparr>ptSpec := ps\<rparr>\<rparr>"

abbreviation pod :: "deployment \<Rightarrow> pod_spec" where
  "pod d \<equiv> ptSpec (depTemplate d)"

definition syncBackendDeployment :: "deployment \<Rightarrow> deployment \<Rightarrow> (bool \<times> deployment) outcome" where
  "syncBackendDeployment desired found = (case (psContainers (pod found), psContainers (pod desired)) of
      (ct # rest, dct # _) \<Rightarrow>
        (let (ch1, ct') = syncBackendContainer dct (False, ct);
             (ch2, ps) = syncBackendPod (pod desired) (ch1, (pod found)\<lparr>psContainers := ct' # rest\<rparr>)
         in Ok (ch2, set_spec ps found))
    | _ \<Rightarrow> Panic IndexOutOfRange)"

definition setFirstResources :: "resource_requirements \<Rightarrow> pod_spec \<Rightarrow> pod_spec outcome" where
  "setFirstResources rr ps = (case psContainers ps of
      [] \<Rightarrow> Panic IndexOutOfRange
    | ct # rest \<Rightarrow> Ok (ps\<lparr>psContainers := ct\<lparr>cResources := rr\<rparr> # rest\<rparr>))"

definition backendResourcesOverride :: "gitops_service \<Rightarrow> resource_requirements option" where
  "backendResourcesOverride inst = (case gsConsolePlugin (gsSpec inst) of
      None \<Rightarrow> None
    | Some cp \<Rightarrow> (case cpsBackend cp of None \<Rightarrow> None | Some b \<Rightarrow> bsResources b))"

text \<open>The pod of the desired deployment: node selector, tolerations and resources of the custom
  resource on top of the defaults.\<close>

definition placePod :: "gitops_service \<Rightarrow> resource_requirements option \<Rightarrow> pod_spec \<Rightarrow> pod_spec outcome" where
  "placePod inst override ps0 =
     (let spec = gsSpec inst;
          ps1 = ps0\<lparr>psNodeSelector := DefaultNodeSelector\<rparr>;
          ps2 = (if glen (gsNodeSelector spec) > 0
                 then ps1\<lparr>psNodeSelector := AppendStringMap (psNodeSelector ps1) (gsNodeSelector spec)\<rparr> else ps1);
          ps3 = (if elems (gsTolerations spec) \<noteq> [] then ps2\<lparr>psTolerations := gsTolerations spec\<rparr> else ps2)
      in case override of None \<Rightarrow> Ok ps3 | Some rr \<Rightarrow> setFirstResources rr ps3)"

definition desiredBackendDeployment ::
  "env \<Rightarrow> 'w client \<Rightarrow> tls_profile \<Rightarrow> namespaced_name \<Rightarrow> gitops_service \<Rightarrow> ('w, deployment) act" where
  "desiredBackendDeployment e c tls nn inst =
     bindG (liftE (newBackendDeployment e nn (gsImagePullPolicy (gsSpec inst)) tls)) (\<lambda>d.
     bindG (AddSeccompProfileForOpenShift e c (pod d)) (\<lambda>ps.
     bindG (liftE (SetControllerReference e (gsMeta inst) (depMeta d))) (\<lambda>m.
     bindG (liftO (placePod inst (backendResourcesOverride inst) ps)) (\<lambda>ps'.
     ret (set_spec ps' (d\<lparr>depMeta := m\<rparr>))))))"

definition reconcileBackendDeployment ::
  "env \<Rightarrow> 'w client \<Rightarrow> tls_profile \<Rightarrow> namespaced_name \<Rightarrow> gitops_service \<Rightarrow> ('w, unit) act" where
  "reconcileBackendDeployment e c tls nn inst =
     bindG (desiredBackendDeployment e c tls nn inst) (\<lambda>d.
       getOrCreate c as_deployment (ODeployment d) (\<lambda>found.
         bindG (liftO (syncBackendDeployment d found)) (\<lambda>(changed, found').
           if changed then updateO c (ODeployment found') else ret ())))"

definition reconcileBackendService ::
  "env \<Rightarrow> 'w client \<Rightarrow> namespaced_name \<Rightarrow> gitops_service \<Rightarrow> ('w, unit) act" where
  "reconcileBackendService e c nn inst =
     (let x = newBackendService nn
      in bindG (liftE (SetControllerReference e (gsMeta inst) (svcMeta x))) (\<lambda>m.
           getOrCreate c Some (OService (x\<lparr>svcMeta := m\<rparr>)) (\<lambda>_. ret ())))"

definition reconcileBackend ::
  "env \<Rightarrow> 'w client \<Rightarrow> tls_profile \<Rightarrow> namespaced_name \<Rightarrow> gitops_service \<Rightarrow> ('w, unit) act" where
  "reconcileBackend e c tls nn inst =
     thenG (reconcileBackendServiceAccount e c nn inst)
     (thenG (reconcileBackendClusterRole e c nn inst)
     (thenG (reconcileBackendClusterRoleBinding e c nn inst)
     (thenG (reconcileBackendDeployment e c tls nn inst)
            (reconcileBackendService e c nn inst))))"

section \<open>Removing the backend\<close>

definition backendResources :: "namespaced_name \<Rightarrow> (string \<times> key) list" where
  "backendResources nn =
     [(''Deployment'', (KDeployment, metaNamespace (backendDeploymentObjectMeta nn), metaName (backendDeploymentObjectMeta nn))),
      (''Service'', okey (OService (newBackendService nn))),
      (''ClusterRoleBinding'', okey (OClusterRoleBinding (newClusterRoleBinding nn))),
      (''ClusterRole'', okey (OClusterRole (newClusterRole nn))),
      (''ServiceAccount'', okey (OServiceAccount (newServiceAccount nn)))]"

definition deleteBackendResource :: "'w client \<Rightarrow> string \<times> key \<Rightarrow> ('w, unit) act" where
  "deleteBackendResource c r = (case r of (kd, k) \<Rightarrow>
     handle (deleteO c k)
       (\<lambda>err. if \<not> IsNotFound err
         then fail (Wrapped (''failed to delete backend '' @ kd @ '' '' @ [CHR 0x22] @ snd (snd k) @ [CHR 0x22]) err) else ret ())
       (\<lambda>_. ret ()))"

definition cleanupBackendResources :: "'w client \<Rightarrow> namespaced_name \<Rightarrow> ('w, unit) act" where
  "cleanupBackendResources c nn = forG (deleteBackendResource c) (backendResources nn)"

definition backendKeys :: "namespaced_name \<Rightarrow> key set" where
  "backendKeys nn = snd ` set (backendResources nn)"

text \<open>Specification: what the operator maintains of the backend deployment whatever the version of
  the cluster. The security contexts are maintained too, and depend on that version.\<close>

definition backendDeploymentOk :: "env \<Rightarrow> tls_profile \<Rightarrow> namespaced_name \<Rightarrow> gitops_service \<Rightarrow> deployment \<Rightarrow> bool" where
  "backendDeploymentOk e tls nn inst d \<longleftrightarrow> (case (psContainers (pod d), backendEnv e tls) of
      (ct # rest, Inr vars) \<Rightarrow>
        (let want = backendContainer e nn (gsImagePullPolicy (gsSpec inst)) vars
         in cImage ct = cImage want \<and> cEnv ct = Some vars \<and>
            cImagePullPolicy ct = cImagePullPolicy want \<and> cArgs ct = None \<and>
            cResources ct = (case backendResourcesOverride inst of None \<Rightarrow> cResources want | Some rr \<Rightarrow> rr) \<and>
            psNodeSelector (pod d) = (if glen (gsNodeSelector (gsSpec inst)) > 0
              then AppendStringMap DefaultNodeSelector (gsNodeSelector (gsSpec inst)) else DefaultNodeSelector) \<and>
            psTolerations (pod d) = (if elems (gsTolerations (gsSpec inst)) \<noteq> [] then gsTolerations (gsSpec inst) else None))
    | _ \<Rightarrow> False)"

section \<open>Lemmas: field synchronisation\<close>

interpretation image_f: field cImage "\<lambda>v. cImage_update (\<lambda>_. v)"
  by unfold_locales simp_all

interpretation env_f: field cEnv "\<lambda>v. cEnv_update (\<lambda>_. v)"
  by unfold_locales simp_all

interpretation policy_f: field cImagePullPolicy "\<lambda>v. cImagePullPolicy_update (\<lambda>_. v)"
  by unfold_locales simp_all

interpretation resources_f: field cResources "\<lambda>v. cResources_update (\<lambda>_. v)"
  by unfold_locales simp_all

interpretation args_f: field cArgs "\<lambda>v. cArgs_update (\<lambda>_. v)"
  by unfold_locales simp_all

interpretation csc_f: field cSecurityContext "\<lambda>v. cSecurityContext_update (\<lambda>_. v)"
  by unfold_locales simp_all

interpretation selector_f: field psNodeSelector "\<lambda>v. psNodeSelector_update (\<lambda>_. v)"
  by unfold_locales simp_all

interpretation tolerations_f: field psTolerations "\<lambda>v. psTolerations_update (\<lambda>_. v)"
  by unfold_locales simp_all

interpretation psc_f: field psSecurityContext "\<lambda>v. psSecurityContext_update (\<lambda>_. v)"
  by unfold_locales simp_all

lemmas sync_eqs = image_f.sync_eq env_f.sync_eq policy_f.sync_eq resources_f.sync_eq args_f.sync_eq
  csc_f.sync_eq selector_f.sync_eq tolerations_f.sync_eq psc_f.sync_eq

definition containerSynced :: "container \<Rightarrow> container \<Rightarrow> container" where
  "containerSynced d ct = ct\<lparr>cImage := cImage d, cEnv := cEnv d, cImagePullPolicy := cImagePullPolicy d,
     cResources := cResources d, cArgs := cArgs d, cSecurityContext := cSecurityContext d\<rparr>"

definition podSynced :: "pod_spec \<Rightarrow> pod_spec \<Rightarrow> pod_spec" where
  "podSynced d ps = ps\<lparr>psNodeSelector := psNodeSelector d, psTolerations := psTolerations d,
     psSecurityContext := psSecurityContext d\<rparr>"

lemma syncBackendContainer_eq:
  "syncBackendContainer d (ch, ct) = (ch \<or> containerSynced d ct \<noteq> ct, containerSynced d ct)"
  by (cases ct) (auto simp: syncBackendContainer_def containerSynced_def sync_eqs Let_def)

lemma syncBackendPod_eq:
  "syncBackendPod d (ch, ps) = (ch \<or> podSynced d ps \<noteq> ps, podSynced d ps)"
  by (cases ps) (auto simp: syncBackendPod_def podSynced_def sync_eqs Let_def)

lemma syncBackendDeployment_Ok_iff:
  "syncBackendDeployment d f = Ok (changed, f') \<longleftrightarrow>
     (\<exists>ct rest dct drest. psContainers (pod f) = ct # rest \<and> psContainers (pod d) = dct # drest \<and>
        f' = set_spec (podSynced (pod d) ((pod f)\<lparr>psContainers := containerSynced dct ct # rest\<rparr>)) f \<and>
        changed = (containerSynced dct ct \<noteq> ct \<or>
          podSynced (pod d) ((pod f)\<lparr>psContainers := containerSynced dct ct # rest\<rparr>) \<noteq>
            (pod f)\<lparr>psContainers := containerSynced dct ct # rest\<rparr>))"
  by (auto simp: syncBackendDeployment_def syncBackendContainer_eq syncBackendPod_eq
      split: list.splits)

lemma pod_set_spec [simp]: "pod (set_spec ps d) = ps"
  by (simp add: set_spec_def)

lemma set_spec_pod [simp]: "set_spec (pod d) d = d"
  by (simp add: set_spec_def)

lemma depMeta_set_spec [simp]: "depMeta (set_spec ps d) = depMeta d"
  by (simp add: set_spec_def)

lemma containerSynced_idem [simp]: "containerSynced d (containerSynced d ct) = containerSynced d ct"
  by (simp add: containerSynced_def)

lemma podSynced_idem [simp]: "podSynced d (podSynced d ps) = podSynced d ps"
  by (simp add: podSynced_def)

lemma psContainers_podSynced [simp]: "psContainers (podSynced d ps) = psContainers ps"
  by (simp add: podSynced_def)

text \<open>Nothing reported, nothing changed; and what was synchronised once needs no change.\<close>

lemma syncBackendDeployment_unchanged:
  "syncBackendDeployment d f = Ok (False, f') \<Longrightarrow> f' = f"
  by (auto simp: syncBackendDeployment_Ok_iff)
    (metis (no_types, lifting) pod_spec.surjective pod_spec.update_convs(1) set_spec_pod)

lemma syncBackendDeployment_settled:
  assumes "syncBackendDeployment d f = Ok (changed, f')"
  shows "syncBackendDeployment d f' = Ok (False, f')"
proof -
  from assms obtain ct rest dct drest where
    f: "psContainers (pod f) = ct # rest" and d: "psContainers (pod d) = dct # drest"
    and f': "f' = set_spec (podSynced (pod d) ((pod f)\<lparr>psContainers := containerSynced dct ct # rest\<rparr>)) f"
    by (auto simp: syncBackendDeployment_Ok_iff)
  have "podSynced (pod d) (podSynced (pod d) ps\<lparr>psContainers := containerSynced dct ct # rest\<rparr>) =
      podSynced (pod d) ps\<lparr>psContainers := containerSynced dct ct # rest\<rparr>" for ps :: pod_spec
    by (simp add: podSynced_def)
  with f' d show ?thesis
    by (auto simp: syncBackendDeployment_Ok_iff podSynced_def set_spec_def)
qed

end
