(* ===== verification/Sample_Cluster.thy ===== *)
theory Sample_Cluster
  imports K8s_Client
begin

text \<open>
  A concrete environment and custom resource, on which the witnesses of the properties run the
  model over the API server in memory: no proxy and no override variables, a namespace file, no
  embedded dashboards but one, versions compared as strings, and controller references as
  \<open>controllerutil\<close> sets them, the one owner.
\<close>

definition sampleEnv :: env where
  "sampleEnv = \<lparr>
     getenv = (\<lambda>_. ''''),
     readFile = (\<lambda>_. Inl NotExist),
     embeddedDashboards = Inr [(''sample.json'', False)],
     readDashboard = (\<lambda>_. Inr ''dashboard''),
     encodedArgoImage = ''image'',
     setOwner = (\<lambda>own m. Inr [\<lparr>ownerKind = ''GitopsService'', ownerName = metaName own\<rparr>]),
     semverCompare = (\<lambda>a b. if a = b then 0 else if a < b then -1 else 1),
     newVersion = (\<lambda>s. if s = '''' then Inl (ErrorText ''malformed version'') else Inr s),
     versionLess = (\<lambda>a b. a < b),
     goCipherSuites = [''TLS_AES_128_GCM_SHA256'', ''TLS_ECDHE_RSA_WITH_AES_128_GCM_SHA256''],
     opensslToIANA = (\<lambda>names. names),
     sha256Hex = (\<lambda>s. s),
     sha1Hex = (\<lambda>s. replicate 40 (CHR ''a'')),
     yamlMarshal = (\<lambda>_. Inr ''exclusions''),
     canonQuantity = (\<lambda>q. q)\<rparr>"

definition sampleService :: gitops_service where
  "sampleService = \<lparr>gsMeta = mkMeta ''cluster'' '''',
     gsSpec = \<lparr>gsRunOnInfra = False, gsTolerations = None, gsNodeSelector = None,
       gsConsolePlugin = None, gsImagePullPolicy = ''''\<rparr>\<rparr>"

definition sampleFlags :: api_flags where
  "sampleFlags = \<lparr>consoleAPIFound = True, routeAPIFound = True, monitoringAPIFound = True,
     configAPIFound = True, templateAPIFound = True, appsAPIFound = True, oauthAPIFound = True,
     olmAPIFound = True\<rparr>"

end
