(* ===== verification/Backend_Correct.thy ===== *)
theory Backend_Correct
  imports Gitops_Backend Sample_Cluster
begin

text \<open>
  Correctness of the reconciliation and of the removal of the gitops backend
  (\<open>reconcileBackend\<close> and \<open>cleanupBackendResources\<close>): what a successful pass establishes, that the
  next pass finds nothing to do, which objects are touched at all, and in which order they go.
\<close>

section \<open>Keys\<close>

abbreviation backendSAKey :: "namespaced_name \<Rightarrow> key" where
  "backendSAKey nn \<equiv> (KServiceAccount, nnNamespace nn, gitopsServicePrefix @ nnName nn)"

abbreviation backendCRKey :: "namespaced_name \<Rightarrow> key" where
  "backendCRKey nn \<equiv> (KClusterRole, '''', gitopsServicePrefix @ nnName nn)"

abbreviation backendCRBKey :: "namespaced_name \<Rightarrow> key" where
  "backendCRBKey nn \<equiv> (KClusterRoleBinding, '''', gitopsServicePrefix @ nnName nn)"

abbreviation backendDeployKey :: "namespaced_name \<Rightarrow> key" where
  "backendDeployKey nn \<equiv> (KDeployment, nnNamespace nn, nnName nn)"

abbreviation backendSvcKey :: "namespaced_name \<Rightarrow> key" where
  "backendSvcKey nn \<equiv> (KService, nnNamespace nn, nnName nn)"

abbreviation clusterVersionKey :: key where
  "clusterVersionKey \<equiv> (KClusterVersion, '''', ''version'')"

lemma backendKeys_eq:
  "backendKeys nn = {backendDeployKey nn, backendSvcKey nn, backendCRBKey nn, backendCRKey nn, backendSAKey nn}"
  by (simp add: backendKeys_def backendResources_def okey_def backendDeploymentObjectMeta_def
      newBackendService_def newClusterRoleBinding_def newClusterRole_def newServiceAccount_def)

lemma backend_metas [simp]:
  "metaName (saMeta (newServiceAccount nn)) = gitopsServicePrefix @ nnName nn"
  "metaNamespace (saMeta (newServiceAccount nn)) = nnNamespace nn"
  "metaName (crMeta (newClusterRole nn)) = gitopsServicePrefix @ nnName nn"
  "metaNamespace (crMeta (newClusterRole nn)) = ''''"
  "metaName (rbMeta (newClusterRoleBinding nn)) = gitopsServicePrefix @ nnName nn"
  "metaNamespace (rbMeta (newClusterRoleBinding nn)) = ''''"
  "metaName (svcMeta (newBackendService nn)) = nnName nn"
  "metaNamespace (svcMeta (newBackendService nn)) = nnNamespace nn"
  by (simp_all add: newServiceAccount_def newClusterRole_def newClusterRoleBinding_def newBackendService_def)

section \<open>The desired deployment\<close>

lemma placePod_Ok:
  assumes "placePod inst ov ps = Ok ps'" and "psContainers ps = ct # rest"
  shows "psContainers ps' = ct\<lparr>cResources := (case ov of None \<Rightarrow> cResources ct | Some rr \<Rightarrow> rr)\<rparr> # rest"
    and "psNodeSelector ps' = (if glen (gsNodeSelector (gsSpec inst)) > 0
      then AppendStringMap DefaultNodeSelector (gsNodeSelector (gsSpec inst)) else DefaultNodeSelector)"
    and "psTolerations ps' = (if elems (gsTolerations (gsSpec inst)) \<noteq> [] then gsTolerations (gsSpec inst)
      else psTolerations ps)"
  using assms by (auto simp: placePod_def setFirstResources_def Let_def split: option.splits if_splits)

lemma placePod_total: "psContainers ps \<noteq> [] \<Longrightarrow> \<exists>ps'. placePod inst ov ps = Ok ps'"
  by (cases "psContainers ps") (auto simp: placePod_def setFirstResources_def Let_def split: option.split)

lemma AddSeccomp_Ok:
  assumes "AddSeccompProfileForOpenShift e c ps w = (Ok ps', w')"
  shows "ps' = ps \<or> seccompPodSpec ps = Ok ps'"
  using assms by (auto simp: AddSeccompProfileForOpenShift_def Let_def handle_Ok_iff split: if_splits)

lemma seccompPodSpec_fields:
  assumes "seccompPodSpec ps = Ok ps'" and "psContainers ps = ct # rest"
  shows "psTolerations ps' = psTolerations ps"
    and "\<exists>sc. psContainers ps' = ct\<lparr>cSecurityContext := sc\<rparr> # rest"
proof -
  show "psTolerations ps' = psTolerations ps" using assms by (auto simp: seccompPodSpec_def)
  have "\<exists>sc. ct = ct\<lparr>cSecurityContext := sc\<rparr>" by (rule exI[of _ "cSecurityContext ct"]) simp
  then show "\<exists>sc. psContainers ps' = ct\<lparr>cSecurityContext := sc\<rparr> # rest"
    using assms by (cases "cSecurityContext ct = None") (auto simp: seccompPodSpec_def)
qed

text \<open>What the operator wants of the deployment meets the specification.\<close>

lemma desiredBackendDeployment_Ok:
  assumes "desiredBackendDeployment e c tls nn inst w = (Ok d, w')"
  shows "okey (ODeployment d) = backendDeployKey nn" and "backendDeploymentOk e tls nn inst d"
proof -
  from assms obtain d0 ps ps' m w1 where d0: "newBackendDeployment e nn (gsImagePullPolicy (gsSpec inst)) tls = Inr d0"
    and s: "AddSeccompProfileForOpenShift e c (pod d0) w = (Ok ps, w1)"
    and m: "SetControllerReference e (gsMeta inst) (depMeta d0) = Inr m"
    and p: "placePod inst (backendResourcesOverride inst) ps = Ok ps'"
    and d: "d = set_spec ps' (d0\<lparr>depMeta := m\<rparr>)"
    by (auto simp: desiredBackendDeployment_def ok_iff)
  from d0 obtain vars where v: "backendEnv e tls = Inr vars" and mt: "depMeta d0 = backendDeploymentObjectMeta nn"
    and c0: "psContainers (pod d0) = [backendContainer e nn (gsImagePullPolicy (gsSpec inst)) vars]"
    and t0: "psTolerations (pod d0) = None"
    by (auto simp: newBackendDeployment_def zeroPodSpec_def split: sum.splits)
  show "okey (ODeployment d) = backendDeployKey nn"
    using SetControllerReference_Inr[OF m] mt d
    by (simp add: okey_def set_spec_def backendDeploymentObjectMeta_def)
  have "\<exists>sc. psContainers ps = [(backendContainer e nn (gsImagePullPolicy (gsSpec inst)) vars)\<lparr>cSecurityContext := sc\<rparr>]"
    and t: "psTolerations ps = None"
    using AddSeccomp_Ok[OF s] seccompPodSpec_fields[OF _ c0, of ps] c0 t0
    by (auto intro: exI[of _ "cSecurityContext (backendContainer e nn (gsImagePullPolicy (gsSpec inst)) vars)"])
  then obtain sc where ct: "psContainers ps =
      [(backendContainer e nn (gsImagePullPolicy (gsSpec inst)) vars)\<lparr>cSecurityContext := sc\<rparr>]"
    by blast
  show "backendDeploymentOk e tls nn inst d"
    using placePod_Ok[OF p ct] t v d
    by (simp add: backendDeploymentOk_def backendContainer_def zeroContainer_def Let_def split: option.split)
qed

lemma syncBackendDeployment_meets:
  assumes "syncBackendDeployment d f = Ok (changed, f')" and "backendDeploymentOk e tls nn inst d"
  shows "backendDeploymentOk e tls nn inst f'" and "depMeta f' = depMeta f"
proof -
  from assms(1) obtain ct rest dct drest where d: "psContainers (pod d) = dct # drest"
    and f': "f' = set_spec (podSynced (pod d) ((pod f)\<lparr>psContainers := containerSynced dct ct # rest\<rparr>)) f"
    unfolding syncBackendDeployment_Ok_iff by blast
  show "depMeta f' = depMeta f" by (simp add: f')
  from assms(2) d obtain vars where "backendEnv e tls = Inr vars"
    by (auto simp: backendDeploymentOk_def split: sum.splits)
  with assms(2) d show "backendDeploymentOk e tls nn inst f'"
    by (simp add: f' backendDeploymentOk_def containerSynced_def podSynced_def Let_def)
qed

lemma backendDeploymentOk_containers: "backendDeploymentOk e tls nn inst d \<Longrightarrow> psContainers (pod d) \<noteq> []"
  by (auto simp: backendDeploymentOk_def split: list.splits)

section \<open>Each object of the backend\<close>

lemma as_cluster_role_Some [simp]: "as_cluster_role y = Some a \<longleftrightarrow> y = OClusterRole a"
  by (cases y) auto

lemma as_deployment_Some [simp]: "as_deployment y = Some a \<longleftrightarrow> y = ODeployment a"
  by (cases y) auto

lemmas set_owner = SetControllerReference_Inr

lemma okey_owned:
  "SetControllerReference e o' (saMeta x) = Inr m \<Longrightarrow> okey (OServiceAccount (x\<lparr>saMeta := m\<rparr>)) = okey (OServiceAccount x)"
  "SetControllerReference e o' (crMeta r) = Inr m \<Longrightarrow> okey (OClusterRole (r\<lparr>crMeta := m\<rparr>)) = okey (OClusterRole r)"
  "SetControllerReference e o' (rbMeta b) = Inr m \<Longrightarrow> okey (OClusterRoleBinding (b\<lparr>rbMeta := m\<rparr>)) = okey (OClusterRoleBinding b)"
  "SetControllerReference e o' (svcMeta s) = Inr m \<Longrightarrow> okey (OService (s\<lparr>svcMeta := m\<rparr>)) = okey (OService s)"
  by (simp_all add: okey_def set_owner)

lemma backend_okeys [simp]:
  "okey (OServiceAccount (newServiceAccount nn)) = backendSAKey nn"
  "okey (OClusterRole (newClusterRole nn)) = backendCRKey nn"
  "okey (OClusterRoleBinding (newClusterRoleBinding nn)) = backendCRBKey nn"
  "okey (OService (newBackendService nn)) = backendSvcKey nn"
  by (simp_all add: okey_def)

lemmas backend_block_defs = reconcileBackendServiceAccount_def reconcileBackendClusterRole_def
  reconcileBackendClusterRoleBinding_def reconcileBackendService_def

context k8s_client begin

lemma backendServiceAccount_Ok:
  assumes "reconcileBackendServiceAccount e c nn inst w = (Ok u, w')"
  shows "\<exists>v. v \<noteq> None \<and> view w' = (view w)(backendSAKey nn := v)"
  using assms by (auto simp: backend_block_defs Let_def ok_iff okey_owned refreshable_def dest!: getOrCreate_present)

lemma backendClusterRoleBinding_Ok:
  assumes "reconcileBackendClusterRoleBinding e c nn inst w = (Ok u, w')"
  shows "\<exists>v. v \<noteq> None \<and> view w' = (view w)(backendCRBKey nn := v)"
  using assms by (auto simp: backend_block_defs Let_def ok_iff okey_owned refreshable_def dest!: getOrCreate_present)

lemma backendService_Ok:
  assumes "reconcileBackendService e c nn inst w = (Ok u, w')"
  shows "\<exists>v. v \<noteq> None \<and> view w' = (view w)(backendSvcKey nn := v)"
  using assms by (auto simp: backend_block_defs Let_def ok_iff okey_owned refreshable_def dest!: getOrCreate_present)

lemma desiredBackendDeployment_fp: "act_rel (same_outside view S) (desiredBackendDeployment e c tls nn inst)"
  unfolding desiredBackendDeployment_def by (intro fp.rel_intros AddSeccomp_fp)

lemma desiredBackendDeployment_kp: "act_rel (keeps_present view S) (desiredBackendDeployment e c tls nn inst)"
  unfolding desiredBackendDeployment_def by (intro kp.rel_intros AddSeccomp_kp)

lemma desiredBackendDeployment_view:
  "desiredBackendDeployment e c tls nn inst w = (r, w') \<Longrightarrow> view w' = view w"
  using desiredBackendDeployment_fp by (rule fp_empty_view)

end

context verbatim_client begin

lemma backendClusterRole_Ok:
  assumes "reconcileBackendClusterRole e c nn inst w = (Ok u, w')"
  shows "\<exists>cr. crRules cr = Some policyRuleForBackendServiceClusterRole \<and>
    view w' = (view w)(backendCRKey nn \<mapsto> OClusterRole cr)"
proof -
  let ?rules = "crRules (newClusterRole nn)"
  have rules: "?rules = Some policyRuleForBackendServiceClusterRole" by (simp add: newClusterRole_def)
  from assms obtain m where m: "SetControllerReference e (gsMeta inst) (crMeta (newClusterRole nn)) = Inr m"
    and g: "getOrCreate c as_cluster_role (OClusterRole (newClusterRole nn\<lparr>crMeta := m\<rparr>)) (\<lambda>existing.
        if crRules existing \<noteq> ?rules then updateO c (OClusterRole (existing\<lparr>crRules := ?rules\<rparr>)) else ret ()) w = (Ok u, w')"
    by (auto simp: backend_block_defs Let_def ok_iff)
  have k0: "okey (OClusterRole (newClusterRole nn\<lparr>crMeta := m\<rparr>)) = backendCRKey nn"
    using okey_owned(2)[OF m] by simp
  have nr: "\<not> refreshable (obj_kind (OClusterRole x))" for x by (simp add: refreshable_def)
  from g nr show ?thesis
  proof (cases rule: getOrCreate_Ok)
    case created
    then have "view w' = (view w)(backendCRKey nn \<mapsto> OClusterRole (newClusterRole nn\<lparr>crMeta := m\<rparr>))"
      by (simp add: k0 admit_id)
    with rules show ?thesis by (intro exI[of _ "newClusterRole nn\<lparr>crMeta := m\<rparr>"]) simp
  next
    case (found y a w1)
    then have k: "okey (OClusterRole a) = backendCRKey nn"
      by (auto simp: k0 dest: view_key)
    then have k': "okey (OClusterRole (a\<lparr>crRules := r\<rparr>)) = backendCRKey nn" for r by (simp add: okey_def)
    show ?thesis
    proof (cases "crRules a = ?rules")
      case True
      with found have "view w' = (view w)(backendCRKey nn \<mapsto> OClusterRole a)" by (auto simp: k0 fun_eq_iff)
      with True rules show ?thesis by auto
    next
      case False
      with found have "updateO c (OClusterRole (a\<lparr>crRules := ?rules\<rparr>)) w1 = (Ok u, w')" by simp
      from updateO_Ok(1)[OF this] found(3) rules show ?thesis
        by (intro exI[of _ "a\<lparr>crRules := ?rules\<rparr>"]) (simp add: k' admit_id)
    qed
  qed
qed

lemma backendDeployment_Ok:
  assumes "reconcileBackendDeployment e c tls nn inst w = (Ok u, w')"
  shows "\<exists>d w1 f. desiredBackendDeployment e c tls nn inst w = (Ok d, w1) \<and>
    view w' = (view w)(backendDeployKey nn \<mapsto> ODeployment f) \<and>
    backendDeploymentOk e tls nn inst f \<and> syncBackendDeployment d f = Ok (False, f)"
proof -
  from assms obtain d w1 where d: "desiredBackendDeployment e c tls nn inst w = (Ok d, w1)"
    and g: "getOrCreate c as_deployment (ODeployment d) (\<lambda>found. bindG (liftO (syncBackendDeployment d found))
      (\<lambda>(changed, found'). if changed then updateO c (ODeployment found') else ret ())) w1 = (Ok u, w')"
    by (auto simp: reconcileBackendDeployment_def ok_iff)
  note dk = desiredBackendDeployment_Ok[OF d] and v1 = desiredBackendDeployment_view[OF d]
  have nr: "\<not> refreshable (obj_kind (ODeployment x))" for x by (simp add: refreshable_def)
  from g nr show ?thesis
  proof (cases rule: getOrCreate_Ok)
    case created
    obtain ct rest where "psContainers (pod d) = ct # rest"
      using backendDeploymentOk_containers[OF dk(2)] by (cases "psContainers (pod d)") auto
    then have "syncBackendDeployment d d = Ok (False, d)"
      by (auto simp: syncBackendDeployment_Ok_iff containerSynced_def podSynced_def set_spec_def)
    moreover have "view w' = (view w)(backendDeployKey nn \<mapsto> ODeployment d)"
      using created(2) dk(1) v1 by (simp add: admit_id)
    ultimately show ?thesis using d dk(2) by blast
  next
    case (found y a w2)
    then obtain ch f where s: "syncBackendDeployment d a = Ok (ch, f)"
      and u: "(if ch then updateO c (ODeployment f) else ret ()) w2 = (Ok u, w')"
      by (auto simp: ok_iff)
    from found have k: "okey (ODeployment a) = backendDeployKey nn" by (auto simp: dk(1) dest: view_key)
    note m = syncBackendDeployment_meets[OF s dk(2)]
    have k': "okey (ODeployment f) = backendDeployKey nn" using k m(2) by (simp add: okey_def)
    have "view w' = (view w)(backendDeployKey nn \<mapsto> ODeployment f)"
    proof (cases ch)
      case True
      with u have "updateO c (ODeployment f) w2 = (Ok u, w')" by simp
      from updateO_Ok(1)[OF this] found(3) v1 k' show ?thesis by (simp add: admit_id)
    next
      case False
      with s have "f = a" by (auto dest: syncBackendDeployment_unchanged)
      with False u found dk(1) v1 show ?thesis by (auto simp: fun_eq_iff)
    qed
    with d m(1) syncBackendDeployment_settled[OF s] show ?thesis by blast
  qed
qed

end

section \<open>The whole backend\<close>

text \<open>Specification of a converged backend.\<close>

definition backendConverged ::
  "env \<Rightarrow> tls_profile \<Rightarrow> namespaced_name \<Rightarrow> gitops_service \<Rightarrow> (key \<Rightarrow> obj option) \<Rightarrow> bool" where
  "backendConverged e tls nn inst v \<longleftrightarrow>
     v (backendSAKey nn) \<noteq> None \<and> v (backendCRBKey nn) \<noteq> None \<and> v (backendSvcKey nn) \<noteq> None \<and>
     (\<exists>cr. v (backendCRKey nn) = Some (OClusterRole cr) \<and>
       crRules cr = Some policyRuleForBackendServiceClusterRole) \<and>
     (\<exists>d. v (backendDeployKey nn) = Some (ODeployment d) \<and> backendDeploymentOk e tls nn inst d)"

context verbatim_client begin

lemma reconcileBackend_steps:
  assumes "reconcileBackend e c tls nn inst w = (Ok u, w')"
  obtains w1 w2 w3 w4 where
    "reconcileBackendServiceAccount e c nn inst w = (Ok (), w1)"
    "reconcileBackendClusterRole e c nn inst w1 = (Ok (), w2)"
    "reconcileBackendClusterRoleBinding e c nn inst w2 = (Ok (), w3)"
    "reconcileBackendDeployment e c tls nn inst w3 = (Ok (), w4)"
    "reconcileBackendService e c nn inst w4 = (Ok (), w')"
  using assms by (auto simp: reconcileBackend_def ok_iff)

lemma reconcileBackend_converged:
  assumes "reconcileBackend e c tls nn inst w = (Ok u, w')"
  shows "backendConverged e tls nn inst (view w')"
proof -
  from assms obtain w1 w2 w3 w4 where
    s1: "reconcileBackendServiceAccount e c nn inst w = (Ok (), w1)" and
    s2: "reconcileBackendClusterRole e c nn inst w1 = (Ok (), w2)" and
    s3: "reconcileBackendClusterRoleBinding e c nn inst w2 = (Ok (), w3)" and
    s4: "reconcileBackendDeployment e c tls nn inst w3 = (Ok (), w4)" and
    s5: "reconcileBackendService e c nn inst w4 = (Ok (), w')"
    by (rule reconcileBackend_steps)
  from backendServiceAccount_Ok[OF s1] obtain sa where sa: "sa \<noteq> None" "view w1 = (view w)(backendSAKey nn := sa)"
    by blast
  from backendClusterRole_Ok[OF s2] obtain cr where
    cr: "crRules cr = Some policyRuleForBackendServiceClusterRole" "view w2 = (view w1)(backendCRKey nn \<mapsto> OClusterRole cr)"
    by blast
  from backendClusterRoleBinding_Ok[OF s3] obtain crb where crb: "crb \<noteq> None" "view w3 = (view w2)(backendCRBKey nn := crb)"
    by blast
  from backendDeployment_Ok[OF s4] obtain f where
    f: "view w4 = (view w3)(backendDeployKey nn \<mapsto> ODeployment f)" "backendDeploymentOk e tls nn inst f"
    by blast
  from backendService_Ok[OF s5] obtain svc where svc: "svc \<noteq> None" "view w' = (view w4)(backendSvcKey nn := svc)"
    by blast
  show ?thesis using sa cr crb f svc by (simp add: backendConverged_def)
qed

end

context k8s_client begin

lemma reconcileBackend_fp:
  assumes "backendKeys nn \<subseteq> S"
  shows "act_rel (same_outside view S) (reconcileBackend e c tls nn inst)"
proof -
  have sa: "act_rel (same_outside view S) (reconcileBackendServiceAccount e c nn inst)"
    unfolding backend_block_defs Let_def using assms
    by (intro fp.rel_intros getOrCreate_fp) (auto simp: backendKeys_eq liftE_Ok_iff okey_owned)
  have cr: "act_rel (same_outside view S) (reconcileBackendClusterRole e c nn inst)"
    unfolding backend_block_defs Let_def using assms
    by (intro fp.rel_intros getOrCreate_fp updateO_fp)
      (auto simp: backendKeys_eq liftE_Ok_iff okey_owned, auto simp: okey_def)
  have crb: "act_rel (same_outside view S) (reconcileBackendClusterRoleBinding e c nn inst)"
    unfolding backend_block_defs Let_def using assms
    by (intro fp.rel_intros getOrCreate_fp) (auto simp: backendKeys_eq liftE_Ok_iff okey_owned)
  have svc: "act_rel (same_outside view S) (reconcileBackendService e c nn inst)"
    unfolding backend_block_defs Let_def using assms
    by (intro fp.rel_intros getOrCreate_fp) (auto simp: backendKeys_eq liftE_Ok_iff okey_owned)
  have sync: "act_rel (same_outside view S) (bindG (liftO (syncBackendDeployment d f))
      (\<lambda>(changed, f'). if changed then updateO c (ODeployment f') else ret ()))"
    if "okey (ODeployment f) = backendDeployKey nn" for d f
    using that assms
    by (intro fp.rel_bindG fp.rel_liftO)
      (auto simp: backendKeys_eq liftO_Ok_iff syncBackendDeployment_Ok_iff okey_def intro!: fp.rel_intros updateO_fp)
  have dep: "act_rel (same_outside view S) (reconcileBackendDeployment e c tls nn inst)"
    unfolding reconcileBackendDeployment_def
  proof (rule fp.rel_bindG[OF desiredBackendDeployment_fp])
    fix d w w1
    assume "desiredBackendDeployment e c tls nn inst w = (Ok d, w1)"
    then have "okey (ODeployment d) = backendDeployKey nn" by (rule desiredBackendDeployment_Ok)
    with assms show "act_rel (same_outside view S) (getOrCreate c as_deployment (ODeployment d)
        (\<lambda>f. bindG (liftO (syncBackendDeployment d f))
          (\<lambda>(changed, f'). if changed then updateO c (ODeployment f') else ret ())))"
      by (intro getOrCreate_fp sync) (auto simp: backendKeys_eq)
  qed
  show ?thesis unfolding reconcileBackend_def by (intro fp.rel_thenG sa cr crb dep svc)
qed

lemma cleanupBackend_fp:
  assumes "backendKeys nn \<subseteq> S"
  shows "act_rel (same_outside view S) (cleanupBackendResources c nn)"
  unfolding cleanupBackendResources_def deleteBackendResource_def using assms
  by (intro fp.rel_forG) (auto simp: backendKeys_def intro!: fp.rel_intros deleteO_fp)

end

section \<open>Removal\<close>

definition deleteError :: "string \<times> key \<Rightarrow> go_error \<Rightarrow> go_error" where
  "deleteError r err = (case r of (kd, k) \<Rightarrow>
     Wrapped (''failed to delete backend '' @ kd @ '' '' @ [CHR 0x22] @ snd (snd k) @ [CHR 0x22]) err)"

context k8s_client begin

lemma deleteBackendResource_Ok:
  assumes "deleteBackendResource c r w = (Ok u, w')"
  shows "\<exists>v. view w' = (view w)(snd r := v) \<and> gone v"
proof -
  obtain kd k where r: "r = (kd, k)" by (cases r)
  from assms consider "deleteO c k w = (Ok (), w')"
    | err where "deleteO c k w = (Err err, w')" "IsNotFound err"
    by (auto simp: r deleteBackendResource_def handle_Ok_iff split: if_splits)
  then show ?thesis
  proof cases
    case 1
    then show ?thesis by (rule deleteO_Ok) (auto simp: r)
  next
    case (2 err)
    with deleteO_NotFound[OF 2] have "view w' = (view w)(k := None)" by auto
    then show ?thesis by (auto simp: r)
  qed
qed

lemma deleteBackendResource_Err:
  assumes "deleteBackendResource c r w = (Err e', w')"
  shows "\<exists>err. e' = deleteError r err \<and> \<not> IsNotFound err \<and> same_outside view {snd r} w w'"
proof -
  obtain kd k where r: "r = (kd, k)" by (cases r)
  from assms have d: "\<exists>err. e' = deleteError r err \<and> \<not> IsNotFound err \<and> deleteO c k w = (Err err, w')"
    by (auto simp: r deleteBackendResource_def deleteError_def handle_def split: prod.splits outcome.splits if_splits)
  moreover have "same_outside view {k} w (snd (deleteO c k w))"
    using deleteO_fp[of k "{k}"] by (simp add: act_rel_def)
  ultimately show ?thesis by (auto simp: r)
qed

lemma deleteAll_Ok:
  assumes "forG (deleteBackendResource c) rs w = (Ok u, w')"
  shows "\<forall>k. view w' k = view w k \<or> gone (view w' k)" and "\<forall>k\<in>snd ` set rs. gone (view w' k)"
  using assms
proof (induction rs arbitrary: w)
  case (Cons r rs)
  {
    case 1
    then obtain w1 v where v: "view w1 = (view w)(snd r := v)" "gone v"
      and f: "forG (deleteBackendResource c) rs w1 = (Ok u, w')"
      by (auto simp: thenG_Ok_iff dest!: deleteBackendResource_Ok)
    show ?case
    proof
      fix k
      show "view w' k = view w k \<or> gone (view w' k)"
        using Cons.IH(1)[OF f, rule_format, of k] v by (cases "k = snd r") auto
    qed
  next
    case 2
    then obtain w1 v where v: "view w1 = (view w)(snd r := v)" "gone v"
      and f: "forG (deleteBackendResource c) rs w1 = (Ok u, w')"
      by (auto simp: thenG_Ok_iff dest!: deleteBackendResource_Ok)
    from Cons.IH(1)[OF f, rule_format, of "snd r"] v have "gone (view w' (snd r))" by auto
    with Cons.IH(2)[OF f] show ?case by simp
  }
qed simp_all

lemma deleteAll_Err:
  assumes "forG (deleteBackendResource c) rs w = (Err e', w')"
  shows "\<exists>pre r post err. rs = pre @ r # post \<and> e' = deleteError r err \<and> \<not> IsNotFound err \<and>
    (\<forall>k\<in>snd ` set pre. k \<noteq> snd r \<longrightarrow> gone (view w' k)) \<and> same_outside view (snd ` set (pre @ [r])) w w'"
  using assms
proof (induction rs arbitrary: w)
  case (Cons r rs)
  show ?case
  proof (cases "deleteBackendResource c r w")
    case (Pair o1 w1)
    show ?thesis
    proof (cases o1)
      case (Ok u)
      with Pair have d: "deleteBackendResource c r w = (Ok u, w1)" by simp
      with Cons.prems have "forG (deleteBackendResource c) rs w1 = (Err e', w')" by (simp add: thenG_apply)
      from Cons.IH[OF this] obtain pre r' post err where
        i: "rs = pre @ r' # post" "e' = deleteError r' err" "\<not> IsNotFound err"
        and g: "\<forall>k\<in>snd ` set pre. k \<noteq> snd r' \<longrightarrow> gone (view w' k)"
        and f: "same_outside view (snd ` set (pre @ [r'])) w1 w'" by blast
      from deleteBackendResource_Ok[OF d] obtain v where v: "view w1 = (view w)(snd r := v)" "gone v" by blast
      have "\<forall>k\<in>snd ` set (r # pre). k \<noteq> snd r' \<longrightarrow> gone (view w' k)"
      proof (intro ballI impI)
        fix k assume k: "k \<in> snd ` set (r # pre)" "k \<noteq> snd r'"
        show "gone (view w' k)"
        proof (cases "k \<in> snd ` set pre")
          case False
          with k have "k = snd r" by auto
          moreover have "view w' k = view w1 k" using False k(2) by (intro same_outsideD[OF f]) auto
          ultimately show ?thesis using v by simp
        qed (use g k in blast)
      qed
      moreover have "same_outside view (snd ` set ((r # pre) @ [r'])) w w'"
        using f v by (auto simp: same_outside_def)
      ultimately show ?thesis using i by (intro exI[of _ "r # pre"] exI[of _ r'] exI[of _ post]) auto
    next
      case (Err x)
      with Pair Cons.prems have "deleteBackendResource c r w = (Err e', w')" by (simp add: thenG_apply)
      from deleteBackendResource_Err[OF this] show ?thesis
        by (intro exI[of _ "[]"] exI[of _ r] exI[of _ rs]) auto
    next
      case (Panic x)
      with Pair Cons.prems show ?thesis by (simp add: thenG_apply)
    qed
  qed
qed simp

end

section \<open>A settled backend\<close>

context reliable_client begin

lemma getAs_reliable:
  assumes "\<not> refreshable (fst k)" and "view w k = Some y" and "cast y = Some a"
  shows "\<exists>w1. view w1 = view w \<and> getAs c cast k w = (Ok a, w1)"
proof -
  obtain w1 where "view w1 = view w" and "getO c k w = (Ok y, w1)"
    using getO_reliable[OF assms(1), of w] assms(2) by (metis option.simps(5))
  then show ?thesis using assms(3) by (auto simp: getAs_def bindG_apply)
qed

lemma getOrCreate_settled:
  assumes "\<not> refreshable (fst (okey x))" and "view w (okey x) = Some y" and "cast y = Some a"
    and "\<And>w1. view w1 = view w \<Longrightarrow> \<exists>w2. view w2 = view w \<and> found a w1 = (Ok u, w2)"
  shows "\<exists>w2. view w2 = view w \<and> getOrCreate c cast x found w = (Ok u, w2)"
  using getAs_reliable[where cast = cast, OF assms(1-3)] assms(4) by (auto simp: getOrCreate_def handle_apply)

lemma getAs_stable:
  assumes "\<not> refreshable (fst k)" and "view w' k = view w k"
  shows "fst (getAs c cast k w') = fst (getAs c cast k w)"
proof -
  obtain w1 w1' where "getO c k w = ((case view w k of None \<Rightarrow> Err (ApiErr NotFound) | Some x \<Rightarrow> Ok x), w1)"
    and "getO c k w' = ((case view w' k of None \<Rightarrow> Err (ApiErr NotFound) | Some x \<Rightarrow> Ok x), w1')"
    by (metis getO_reliable[OF assms(1)])
  then show ?thesis using assms(2)
    by (auto simp: getAs_def bindG_def handle_def split: option.splits)
qed

lemma GetClusterVersion_stable:
  assumes "view w' clusterVersionKey = view w clusterVersionKey"
  shows "fst (GetClusterVersion c w') = fst (GetClusterVersion c w)"
  using getAs_stable[OF _ assms, of as_cluster_version]
  by (auto simp: GetClusterVersion_def refreshable_def handle_def split: prod.splits outcome.splits)

lemma AddSeccomp_stable:
  assumes "view w' clusterVersionKey = view w clusterVersionKey"
  shows "fst (AddSeccompProfileForOpenShift e c ps w') = fst (AddSeccompProfileForOpenShift e c ps w)"
  using GetClusterVersion_stable[OF assms]
  by (auto simp: AddSeccompProfileForOpenShift_def Let_def handle_def split: prod.splits outcome.splits)

lemma desiredBackendDeployment_stable:
  assumes "desiredBackendDeployment e c tls nn inst w = (Ok d, w1)"
    and "view w' clusterVersionKey = view w clusterVersionKey"
  shows "\<exists>w1'. desiredBackendDeployment e c tls nn inst w' = (Ok d, w1') \<and> view w1' = view w'"
proof -
  from assms(1) obtain d0 ps ps' m w2 where d0: "newBackendDeployment e nn (gsImagePullPolicy (gsSpec inst)) tls = Inr d0"
    and s: "AddSeccompProfileForOpenShift e c (pod d0) w = (Ok ps, w2)"
    and m: "SetControllerReference e (gsMeta inst) (depMeta d0) = Inr m"
    and p: "placePod inst (backendResourcesOverride inst) ps = Ok ps'"
    and d: "d = set_spec ps' (d0\<lparr>depMeta := m\<rparr>)"
    by (auto simp: desiredBackendDeployment_def ok_iff)
  from AddSeccomp_stable[OF assms(2), of e "pod d0"] s obtain w3 where
    s': "AddSeccompProfileForOpenShift e c (pod d0) w' = (Ok ps, w3)"
    by (cases "AddSeccompProfileForOpenShift e c (pod d0) w'") auto
  have "desiredBackendDeployment e c tls nn inst w' = (Ok d, w3)"
    using s' by (simp add: desiredBackendDeployment_def d0 m p d liftE_def bindG_apply)
  with AddSeccomp_view[OF s'] show ?thesis by blast
qed

lemma present_settled:
  assumes "\<not> refreshable (fst (okey x))" and "view w (okey x) \<noteq> None"
  shows "\<exists>w1. view w1 = view w \<and> getOrCreate c Some x (\<lambda>_. ret ()) w = (Ok (), w1)"
proof -
  from assms(2) obtain y where "view w (okey x) = Some y" by auto
  with assms(1) show ?thesis by (intro getOrCreate_settled) auto
qed

lemma backendDeployment_settled:
  assumes "desiredBackendDeployment e c tls nn inst w0 = (Ok d, w1)"
    and "view w clusterVersionKey = view w0 clusterVersionKey"
    and "view w (backendDeployKey nn) = Some (ODeployment f)" and "syncBackendDeployment d f = Ok (False, f)"
  shows "\<exists>w'. view w' = view w \<and> reconcileBackendDeployment e c tls nn inst w = (Ok (), w')"
proof -
  from desiredBackendDeployment_stable[OF assms(1,2)] obtain w2 where
    w2: "desiredBackendDeployment e c tls nn inst w = (Ok d, w2)" "view w2 = view w" by blast
  have k: "okey (ODeployment d) = backendDeployKey nn" using desiredBackendDeployment_Ok[OF assms(1)] by simp
  have "\<exists>w3. view w3 = view w2 \<and> getOrCreate c as_deployment (ODeployment d) (\<lambda>found.
      bindG (liftO (syncBackendDeployment d found))
        (\<lambda>(changed, found'). if changed then updateO c (ODeployment found') else ret ())) w2 = (Ok (), w3)"
    using assms(3,4) w2(2) by (intro getOrCreate_settled[where a = f]) (auto simp: k refreshable_def)
  then show ?thesis using w2 by (auto simp: reconcileBackendDeployment_def bindG_apply)
qed

lemma backendClusterRole_settled:
  assumes "SetControllerReference e (gsMeta inst) (crMeta (newClusterRole nn)) = Inr m"
    and "view w (backendCRKey nn) = Some (OClusterRole cr)" and "crRules cr = Some policyRuleForBackendServiceClusterRole"
  shows "\<exists>w'. view w' = view w \<and> reconcileBackendClusterRole e c nn inst w = (Ok (), w')"
proof -
  have rules: "crRules (newClusterRole nn) = Some policyRuleForBackendServiceClusterRole"
    by (simp add: newClusterRole_def)
  show ?thesis
    unfolding reconcileBackendClusterRole_def Let_def assms(1) liftE_def sum.case bindG_simps
    using assms(2,3) rules
    by (intro getOrCreate_settled[where a = cr]) (auto simp: okey_owned(2)[OF assms(1)] refreshable_def)
qed

text \<open>After a successful pass, another one changes nothing.\<close>

lemma reconcileBackend_idempotent:
  assumes "reconcileBackend e c tls nn inst w = (Ok u, w')"
  shows "\<exists>w''. reconcileBackend e c tls nn inst w' = (Ok (), w'') \<and> view w'' = view w'"
proof -
  from assms obtain w1 w2 w3 w4 where
    s1: "reconcileBackendServiceAccount e c nn inst w = (Ok (), w1)" and
    s2: "reconcileBackendClusterRole e c nn inst w1 = (Ok (), w2)" and
    s3: "reconcileBackendClusterRoleBinding e c nn inst w2 = (Ok (), w3)" and
    s4: "reconcileBackendDeployment e c tls nn inst w3 = (Ok (), w4)" and
    s5: "reconcileBackendService e c nn inst w4 = (Ok (), w')"
    by (rule reconcileBackend_steps)
  note conv = reconcileBackend_converged[OF assms]
  from s1 s2 s3 s5 obtain m1 m2 m3 m5 where
    m1: "SetControllerReference e (gsMeta inst) (saMeta (newServiceAccount nn)) = Inr m1" and
    m2: "SetControllerReference e (gsMeta inst) (crMeta (newClusterRole nn)) = Inr m2" and
    m3: "SetControllerReference e (gsMeta inst) (rbMeta (newClusterRoleBinding nn)) = Inr m3" and
    m5: "SetControllerReference e (gsMeta inst) (svcMeta (newBackendService nn)) = Inr m5"
    by (auto simp: backend_block_defs Let_def bindG_Ok_iff liftE_Ok_iff)
  from backendDeployment_Ok[OF s4] obtain d wd f where
    d: "desiredBackendDeployment e c tls nn inst w3 = (Ok d, wd)" and
    f: "view w4 = (view w3)(backendDeployKey nn \<mapsto> ODeployment f)" "syncBackendDeployment d f = Ok (False, f)"
    by blast
  have vf: "view w' (backendDeployKey nn) = Some (ODeployment f)"
    and cv: "view w' clusterVersionKey = view w3 clusterVersionKey"
    using backendService_Ok[OF s5] f(1) by auto
  have r1: "\<exists>v1. view v1 = view v \<and> reconcileBackendServiceAccount e c nn inst v = (Ok (), v1)" if "view v = view w'" for v
    using conv that m1 present_settled[of "OServiceAccount (newServiceAccount nn\<lparr>saMeta := m1\<rparr>)" v]
    by (simp add: backend_block_defs Let_def liftE_def okey_owned(1)[OF m1] backendConverged_def refreshable_def)
  have r2: "\<exists>v1. view v1 = view v \<and> reconcileBackendClusterRole e c nn inst v = (Ok (), v1)" if "view v = view w'" for v
  proof -
    from conv obtain cr where "view w' (backendCRKey nn) = Some (OClusterRole cr)"
      and "crRules cr = Some policyRuleForBackendServiceClusterRole" by (auto simp: backendConverged_def)
    with that show ?thesis by (intro backendClusterRole_settled[OF m2]) simp_all
  qed
  have r3: "\<exists>v1. view v1 = view v \<and> reconcileBackendClusterRoleBinding e c nn inst v = (Ok (), v1)" if "view v = view w'" for v
    using conv that m3 present_settled[of "OClusterRoleBinding (newClusterRoleBinding nn\<lparr>rbMeta := m3\<rparr>)" v]
    by (simp add: backend_block_defs Let_def liftE_def okey_owned(3)[OF m3] backendConverged_def refreshable_def)
  have r4: "\<exists>v1. view v1 = view v \<and> reconcileBackendDeployment e c tls nn inst v = (Ok (), v1)" if "view v = view w'" for v
    using vf cv that f(2) by (intro backendDeployment_settled[OF d]) auto
  have r5: "\<exists>v1. view v1 = view v \<and> reconcileBackendService e c nn inst v = (Ok (), v1)" if "view v = view w'" for v
    using conv that m5 present_settled[of "OService (newBackendService nn\<lparr>svcMeta := m5\<rparr>)" v]
    by (simp add: backend_block_defs Let_def liftE_def okey_owned(4)[OF m5] backendConverged_def refreshable_def)
  obtain v1 where v1: "view v1 = view w'" "reconcileBackendServiceAccount e c nn inst w' = (Ok (), v1)" using r1 by blast
  obtain v2 where v2: "view v2 = view w'" "reconcileBackendClusterRole e c nn inst v1 = (Ok (), v2)" using r2[OF v1(1)] v1(1) by auto
  obtain v3 where v3: "view v3 = view w'" "reconcileBackendClusterRoleBinding e c nn inst v2 = (Ok (), v3)" using r3[OF v2(1)] v2(1) by auto
  obtain v4 where v4: "view v4 = view w'" "reconcileBackendDeployment e c tls nn inst v3 = (Ok (), v4)" using r4[OF v3(1)] v3(1) by auto
  obtain v5 where v5: "view v5 = view w'" "reconcileBackendService e c nn inst v4 = (Ok (), v5)" using r5[OF v4(1)] v4(1) by auto
  show ?thesis using v1(2) v2(2) v3(2) v4(2) v5 by (simp add: reconcileBackend_def thenG_apply)
qed

end

section \<open>Properties\<close>

definition sampleBackend :: namespaced_name where
  "sampleBackend = \<lparr>nnName = serviceName, nnNamespace = serviceNamespace\<rparr>"

definition sampleTLS :: tls_profile where
  "sampleTLS = \<lparr>DisableClusterTLSProfile = False, MinVersion = ''VersionTLS12'',
     Ciphers = [''TLS_AES_128_GCM_SHA256'', ''TLS_ECDHE_RSA_WITH_AES_128_GCM_SHA256''], CurvePreferences = [''X25519'']\<rparr>"

lemma sample_backend_runs:
  "reconcileBackend sampleEnv mem_client sampleTLS sampleBackend sampleService [] =
    (Ok (), snd (reconcileBackend sampleEnv mem_client sampleTLS sampleBackend sampleService []))"
  by (rule run_result) code_simp

text \<open>C4. Convergence of the backend: when a pass over the backend returns without an error, the service
  account, the binding and the service exist, the cluster role grants exactly the backend's policy
  rules, and the deployment runs the image, environment, pull policy, arguments, resources, node
  selector and tolerations the custom resource asks for; no object outside the backend's five changed.\<close>

theorem reconcileBackend_converges:
  assumes "verbatim_client c view admit refresh"
    and "reconcileBackend e c tls nn inst w = (Ok (), w')"
  shows "backendConverged e tls nn inst (view w') \<and> same_outside view (backendKeys nn) w w'"
proof -
  have cl: "k8s_client c view admit refresh" using assms(1) by (rule verbatim_client.axioms)
  show ?thesis
    using verbatim_client.reconcileBackend_converged[OF assms] k8s_client.reconcileBackend_fp[OF cl, of nn "backendKeys nn" e tls inst]
      assms(2) by (auto simp: act_rel_def dest: spec[of _ w])
qed

theorem reconcileBackend_converges_witness:
  "let w' = snd (reconcileBackend sampleEnv mem_client sampleTLS sampleBackend sampleService [])
   in backendConverged sampleEnv sampleTLS sampleBackend sampleService (mem_view w') \<and>
      same_outside mem_view (backendKeys sampleBackend) [] w'"
  unfolding Let_def
  by (rule reconcileBackend_converges[OF mem.verbatim_client_axioms sample_backend_runs])

text \<open>C5. A converged backend is settled: over an API server whose reads succeed, a pass that follows a
  successful one succeeds and changes no object.\<close>

theorem reconcileBackend_settles:
  assumes "reliable_client c view admit refresh"
    and "reconcileBackend e c tls nn inst w = (Ok (), w')"
  shows "\<exists>w''. reconcileBackend e c tls nn inst w' = (Ok (), w'') \<and> view w'' = view w'"
  by (rule reliable_client.reconcileBackend_idempotent[OF assms])

theorem reconcileBackend_settles_witness:
  "let w' = snd (reconcileBackend sampleEnv mem_client sampleTLS sampleBackend sampleService [])
   in \<exists>w''. reconcileBackend sampleEnv mem_client sampleTLS sampleBackend sampleService w' = (Ok (), w'') \<and>
        mem_view w'' = mem_view w'"
  unfolding Let_def
  by (rule reconcileBackend_settles[OF mem.reliable_client_axioms sample_backend_runs])

text \<open>The removal undoes the reconciliation: whatever a pass over the backend did, and however it
  ended, a removal that returns without an error leaves each of the backend's five objects absent or
  waiting for its finalizers, and every other object as it was before the pass.\<close>

theorem cleanupBackend_undoes:
  assumes "k8s_client c view admit refresh"
    and "reconcileBackend e c tls nn inst w0 = (r, w)"
    and "cleanupBackendResources c nn w = (Ok (), w')"
  shows "(\<forall>k\<in>backendKeys nn. gone (view w' k)) \<and> same_outside view (backendKeys nn) w0 w'"
proof
  from k8s_client.deleteAll_Ok(2)[OF assms(1)] assms(3) show "\<forall>k\<in>backendKeys nn. gone (view w' k)"
    by (auto simp: cleanupBackendResources_def backendKeys_def)
  have "same_outside view (backendKeys nn) w0 w" "same_outside view (backendKeys nn) w w'"
    using k8s_client.reconcileBackend_fp[OF assms(1) subset_refl, of nn e tls inst]
      k8s_client.cleanupBackend_fp[OF assms(1) subset_refl, of nn] assms(2,3)
    by (metis act_rel_def snd_conv)+
  then show "same_outside view (backendKeys nn) w0 w'" by (rule fp.R_trans)
qed

theorem cleanupBackend_undoes_witness:
  "let w' = snd (cleanupBackendResources mem_client sampleBackend
     (snd (reconcileBackend sampleEnv mem_client sampleTLS sampleBackend sampleService [])))
   in (\<forall>k\<in>backendKeys sampleBackend. gone (mem_view w' k)) \<and>
      same_outside mem_view (backendKeys sampleBackend) [] w'"
proof -
  have "fst (cleanupBackendResources mem_client sampleBackend
      (snd (reconcileBackend sampleEnv mem_client sampleTLS sampleBackend sampleService []))) = Ok ()"
    by code_simp
  from cleanupBackend_undoes[OF mem.k8s_client_axioms sample_backend_runs run_result[OF this]]
  show ?thesis unfolding Let_def .
qed

text \<open>Order of the removal: when it returns an error, that error names the first object of the
  list deployment, service, binding, role, account that could not be deleted and wraps the API error;
  the objects before it in that list are gone, and those after it (and every other object of the
  cluster) have not been touched: no right is revoked
  before the deletion of the deployment was accepted.\<close>

theorem cleanupBackend_order:
  assumes "k8s_client c view admit refresh"
    and "cleanupBackendResources c nn w = (Err e', w')"
  shows "\<exists>n err. n < length (backendResources nn) \<and> e' = deleteError (backendResources nn ! n) err \<and>
    \<not> IsNotFound err \<and> (\<forall>k\<in>snd ` set (take n (backendResources nn)). gone (view w' k)) \<and>
    same_outside view (snd ` set (take (Suc n) (backendResources nn))) w w'"
proof -
  from k8s_client.deleteAll_Err[OF assms(1) assms(2)[unfolded cleanupBackendResources_def]] obtain pre r post err where
    l: "backendResources nn = pre @ r # post" and e: "e' = deleteError r err" "\<not> IsNotFound err"
    and g: "\<forall>k\<in>snd ` set pre. k \<noteq> snd r \<longrightarrow> gone (view w' k)" and f: "same_outside view (snd ` set (pre @ [r])) w w'"
    by blast
  have "distinct (map snd (backendResources nn))"
    by (simp add: backendResources_def okey_def)
  with l have "snd r \<notin> snd ` set pre" by simp
  with g have "\<forall>k\<in>snd ` set pre. gone (view w' k)" by metis
  with l e f show ?thesis by (intro exI[of _ "length pre"] exI[of _ err]) simp
qed

text \<open>An API server in memory that does not let services be deleted.\<close>

definition stubborn_client :: "obj list client" where
  "stubborn_client = mem_client\<lparr>cDelete := (\<lambda>w k. if fst k = KService then (Some (ApiFailure ''forbidden''), w)
     else cDelete mem_client w k)\<rparr>"

interpretation stubborn: k8s_client stubborn_client mem_view id id
proof (unfold_locales, goal_cases)
  case (14 w k w')
  then show ?case by (auto simp: stubborn_client_def split: if_splits dest: mem.delete_ok)
next
  case (15 w k e w')
  then show ?case
    by (auto simp: stubborn_client_def split: if_splits dest: mem.delete_err intro: exI[of _ "mem_view w k"])
qed (auto simp: stubborn_client_def mem_client_def dest: mem_view_key mem_view_in split: option.splits if_splits)

theorem cleanupBackend_order_witness:
  "let w = snd (reconcileBackend sampleEnv mem_client sampleTLS sampleBackend sampleService []);
       w' = snd (cleanupBackendResources stubborn_client sampleBackend w)
   in \<exists>n err. n < length (backendResources sampleBackend) \<and>
     Wrapped (''failed to delete backend Service '' @ [CHR 0x22] @ ''cluster'' @ [CHR 0x22]) (ApiErr (ApiFailure ''forbidden'')) =
       deleteError (backendResources sampleBackend ! n) err \<and>
     \<not> IsNotFound err \<and> (\<forall>k\<in>snd ` set (take n (backendResources sampleBackend)). gone (mem_view w' k)) \<and>
     same_outside mem_view (snd ` set (take (Suc n) (backendResources sampleBackend))) w w'"
proof -
  have "fst (cleanupBackendResources stubborn_client sampleBackend
      (snd (reconcileBackend sampleEnv mem_client sampleTLS sampleBackend sampleService []))) =
    Err (Wrapped (''failed to delete backend Service '' @ [CHR 0x22] @ ''cluster'' @ [CHR 0x22]) (ApiErr (ApiFailure ''forbidden'')))"
    by code_simp
  from cleanupBackend_order[OF stubborn.k8s_client_axioms run_result[OF this]] show ?thesis
    unfolding Let_def .
qed

text \<open>Namespace metadata: the pod security label is set, the infra node selector annotation is set
  when the operator runs on infra nodes and removed otherwise if it has the operator's value, every
  other label, annotation and field is kept, a change is reported exactly when a label or an
  annotation changed, and a second call changes and reports nothing.\<close>

theorem ensureNamespaceMetadata_spec:
  "let (changed, n') = ensureNamespaceMetadata n runOnInfra;
       labels = metaLabels (nsMeta n); labels' = metaLabels (nsMeta n');
       ann = metaAnnotations (nsMeta n); ann' = metaAnnotations (nsMeta n')
   in gget labels' = (gget labels)(PodSecurityLabelSyncLabel \<mapsto> ''true'') \<and>
      gget ann' = (if runOnInfra then (gget ann)(InfraNodeSelectorAnnotation \<mapsto> InfraNodeSelectorAnnotationValue)
        else if gget ann InfraNodeSelectorAnnotation = Some InfraNodeSelectorAnnotationValue
        then (gget ann)(InfraNodeSelectorAnnotation := None) else gget ann) \<and>
      nsMeta n' = (nsMeta n)\<lparr>metaLabels := labels', metaAnnotations := ann'\<rparr> \<and>
      (changed \<longleftrightarrow> gget labels' \<noteq> gget labels \<or> gget ann' \<noteq> gget ann) \<and>
      ensureNamespaceMetadata n' runOnInfra = (False, n')"
proof -
  have v: "InfraNodeSelectorAnnotationValue \<noteq> ''''" by (simp add: InfraNodeSelectorAnnotationValue_def)
  have g: "gindex m k = x \<longleftrightarrow> gget m k = Some x" if "x \<noteq> ''''" for m k x
    using that by (auto simp: gindex_def split: option.splits)
  have mk: "gmake (gmake m) = gmake m" "gmake (gdelete (gmake m) k) = gdelete (gmake m) k" for m k
    by (simp_all add: gmake_def gdelete_def split: option.split)
  show ?thesis
    by (auto simp: ensureNamespaceMetadata_def ensurePodSecurityLabels_def ensureInfraNodeSelectorAnnotation_def
        Let_def g v mk fun_eq_iff split: option.splits if_splits)
qed

theorem ensureNamespaceMetadata_spec_witness:
  "ensureNamespaceMetadata (snd (ensureNamespaceMetadata (newRestrictedNamespace serviceNamespace) True)) True =
     (False, snd (ensureNamespaceMetadata (newRestrictedNamespace serviceNamespace) True))"
  using ensureNamespaceMetadata_spec[of "newRestrictedNamespace serviceNamespace" True] by (simp add: Let_def split_beta)

text \<open>The backend's environment follows the cluster's TLS profile: it is an error exactly when the
  profile names groups and Go knows none of them. Otherwise the cipher list is that of the profile in
  its order, restricted to what Go implements, without the TLS 1.3 suites unless 1.3 is the minimum
  version, and the variables for version, ciphers and curves are set exactly when they are not empty.\<close>

theorem backendEnv_spec:
  "(case backendEnv e tls of
      Inl err \<Rightarrow> CurvePreferences tls \<noteq> [] \<and> (\<forall>g\<in>set (CurvePreferences tls). openShiftTLSGroupToGoCurve g = None)
    | Inr vars \<Rightarrow>
       (let suites = filter (\<lambda>x. x \<in> set (goCipherSuites e) \<and> (MinVersion tls = ''VersionTLS13'' \<or> x \<notin> set tls13Ciphers))
              (opensslToIANA e (Ciphers tls));
            curves = List.map_filter openShiftTLSGroupToGoCurve (CurvePreferences tls);
            opt = (\<lambda>n v. if v = '''' then None else Some (envVar n v))
        in (curves = [] \<longrightarrow> CurvePreferences tls = []) \<and>
           EnvGet vars ''TLS_MIN_VERSION'' = opt ''TLS_MIN_VERSION'' (TLSProtocolVersionString (MinVersion tls)) \<and>
           EnvGet vars ''TLS_CIPHER_SUITES'' = (if suites = [] then None else Some (envVar ''TLS_CIPHER_SUITES'' (joinStr '':'' suites))) \<and>
           EnvGet vars ''TLS_CURVE_PREFERENCES'' = opt ''TLS_CURVE_PREFERENCES'' (joinStr '':'' curves)))"
proof -
  have c: "backendCiphers e tls = filter (\<lambda>x. x \<in> set (goCipherSuites e) \<and> (MinVersion tls = ''VersionTLS13'' \<or> x \<notin> set tls13Ciphers))
              (opensslToIANA e (Ciphers tls))"
    by (auto simp: backendCiphers_def MapCipherSuites_def Let_def intro: filter_cong)
  have m: "List.map_filter f xs = [] \<longleftrightarrow> (\<forall>x\<in>set xs. f x = None)" for f :: "string \<Rightarrow> string option" and xs
    by (auto simp: List.map_filter_def filter_empty_conv)
  show ?thesis
    by (simp add: backendEnv_def c MapOpenShiftTLSGroupsToGoCurves_def Let_def envVar_def m map_filter_simps(2))
qed



theorem backendEnv_spec_witness:
  "\<exists>vars. backendEnv sampleEnv sampleTLS = Inr vars \<and>
    EnvGet vars ''TLS_CIPHER_SUITES'' = Some (envVar ''TLS_CIPHER_SUITES'' ''TLS_ECDHE_RSA_WITH_AES_128_GCM_SHA256'')"
proof -
  have "\<not> isl (backendEnv sampleEnv sampleTLS)" by code_simp
  then obtain vars where v: "backendEnv sampleEnv sampleTLS = Inr vars"
    by (cases "backendEnv sampleEnv sampleTLS") auto
  have f: "filter (\<lambda>x. x \<in> set (goCipherSuites sampleEnv) \<and> (MinVersion sampleTLS = ''VersionTLS13'' \<or> x \<notin> set tls13Ciphers))
      (opensslToIANA sampleEnv (Ciphers sampleTLS)) = [''TLS_ECDHE_RSA_WITH_AES_128_GCM_SHA256'']" by code_simp
  show ?thesis using backendEnv_spec[where e = sampleEnv and tls = sampleTLS] by (simp add: v f Let_def)
qed

end
