(* ===== verification/Argo_Instance.thy ===== *)
theory Argo_Instance
  imports Backend_Correct
begin

text \<open>
  The part of \<open>controllers/gitopsservice_controller.go\<close> that looks after the default Argo CD
  instance: its namespace (with the removal of the resource quota of old releases), the creation of
  the custom resource or the completion of the one found, its removal when the default install is
  disabled, and the removal of the components of the discontinued KAM.
\<close>

section \<open>Definitions\<close>

definition ArgoCDInstanceName :: string where "ArgoCDInstanceName = ''openshift-gitops''"

definition kamResourceName :: string where "kamResourceName = ''kam''"

definition cleanKAM :: "'w client \<Rightarrow> kind \<Rightarrow> ('w, unit) act" where
  "cleanKAM c kd =
     (let k = (kd, serviceNamespace, kamResourceName)
      in handle (getO c k) (\<lambda>_. ret ()) (\<lambda>_. logged (deleteO c k)))"

definition cleanKAMResources :: "api_flags \<Rightarrow> 'w client \<Rightarrow> ('w, unit) act" where
  "cleanKAMResources f c =
     thenG (cleanKAM c KDeployment)
     (thenG (cleanKAM c KService)
     (if routeAPIFound f then cleanKAM c KRoute else ret ()))"

definition ensureDefaultArgoCDInstanceDoesntExist :: "env \<Rightarrow> api_flags \<Rightarrow> 'w client \<Rightarrow> ('w, unit) act" where
  "ensureDefaultArgoCDInstanceDoesntExist e f c =
     bindG (NewCR e f c ArgoCDInstanceName serviceNamespace) (\<lambda>cr.
     handle (getAs c as_namespace (KNamespace, '''', metaName (nsMeta (newRestrictedNamespace (metaNamespace (acMeta cr))))))
       (\<lambda>err. if IsNotFound err then ret () else fail err)
       (\<lambda>_. handle (getAs c as_argocd (okey (OArgoCD cr)))
          (\<lambda>err. if \<not> IsNotFound err then fail err else ret ())
          (\<lambda>existing. deleteO c (okey (OArgoCD existing)))))"

subsection \<open>The namespace of the instance\<close>

definition computeQuotaKey :: "string \<Rightarrow> key" where
  "computeQuotaKey ns = (KResourceQuota, ns, ns @ ''-compute-resources'')"

definition deleteResourceQuota :: "'w client \<Rightarrow> string \<Rightarrow> ('w, unit) act" where
  "deleteResourceQuota c ns = handle (getO c (computeQuotaKey ns)) (\<lambda>_. ret ()) (\<lambda>_. deleteO c (computeQuotaKey ns))"

definition updateNamespaceMetadata :: "'w client \<Rightarrow> bool \<Rightarrow> namespace_obj \<Rightarrow> ('w, unit) act" where
  "updateNamespaceMetadata c runOnInfra n =
     (let (changed, n') = ensureNamespaceMetadata n runOnInfra
      in if changed then updateO c (ONamespace n') else ret ())"

definition freshNamespace :: "string \<Rightarrow> bool \<Rightarrow> namespace_obj" where
  "freshNamespace ns runOnInfra = snd (ensureInfraNodeSelectorAnnotation (newRestrictedNamespace ns) runOnInfra)"

definition reconcileArgoNamespace :: "'w client \<Rightarrow> bool \<Rightarrow> string \<Rightarrow> ('w, unit) act" where
  "reconcileArgoNamespace c runOnInfra ns =
     getOrCreate c as_namespace (ONamespace (freshNamespace ns runOnInfra)) (\<lambda>n.
       thenG (deleteResourceQuota c (metaName (nsMeta n))) (updateNamespaceMetadata c runOnInfra n))"

subsection \<open>The instance\<close>

definition placeArgoCD :: "gitops_service_spec \<Rightarrow> argocd_spec \<Rightarrow> argocd_spec" where
  "placeArgoCD spec ac0 =
     (let ac1 = (if glen (gsNodeSelector spec) > 0
        then ac0\<lparr>acNodePlacement := Some (case acNodePlacement ac0 of
            None \<Rightarrow> \<lparr>npNodeSelector = gsNodeSelector spec, npTolerations = None\<rparr>
          | Some np \<Rightarrow> np\<lparr>npNodeSelector := AppendStringMap (npNodeSelector np) (gsNodeSelector spec)\<rparr>)\<rparr>
        else ac0)
      in if elems (gsTolerations spec) \<noteq> []
         then ac1\<lparr>acNodePlacement := Some (case acNodePlacement ac1 of
            None \<Rightarrow> \<lparr>npNodeSelector = None, npTolerations = gsTolerations spec\<rparr>
          | Some np \<Rightarrow> np\<lparr>npTolerations := gsTolerations spec\<rparr>)\<rparr>
         else ac1)"

definition UseDex :: "argocd_spec \<Rightarrow> bool" where
  "UseDex ac = (case acSSO ac of None \<Rightarrow> False | Some sso \<Rightarrow> ToLower (ssoProvider sso) = ''dex'')"

text \<open>\<open>if x.Resources == nil { x.Resources = default; changed = true }\<close>\<close>

definition fillNil :: "('s \<Rightarrow> 'f option) \<Rightarrow> ('f option \<Rightarrow> 's \<Rightarrow> 's) \<Rightarrow> 'f option \<Rightarrow> bool \<times> 's \<Rightarrow> bool \<times> 's" where
  "fillNil get put d cx = (case cx of (changed, x) \<Rightarrow>
     if get x = None then (True, put d x) else (changed, x))"

definition fillApplicationSet :: "argocd_spec \<Rightarrow> bool \<times> argocd_spec \<Rightarrow> (bool \<times> argocd_spec) outcome" where
  "fillApplicationSet d cx = (case cx of (changed, x) \<Rightarrow> (case acApplicationSet x of
      None \<Rightarrow> Ok (changed, x)
    | Some aset \<Rightarrow>
        if asResources aset = None
        then (case acApplicationSet d of
            None \<Rightarrow> Panic NilDereference
          | Some daset \<Rightarrow> Ok (True, x\<lparr>acApplicationSet := Some (aset\<lparr>asResources := asResources daset\<rparr>)\<rparr>))
        else Ok (changed, x)))"

text \<open>The inner comparison is on the provider as it is written, the outer one on its lower case; the
  custom resource is marked as changed whenever Dex is used.\<close>

definition fillDex :: "argocd_spec \<Rightarrow> bool \<times> argocd_spec \<Rightarrow> (bool \<times> argocd_spec) outcome" where
  "fillDex d cx = (case cx of (changed, x) \<Rightarrow>
     if \<not> UseDex x then Ok (changed, x)
     else (case acSSO x of
        None \<Rightarrow> Ok (True, x)
      | Some sso \<Rightarrow>
          if ssoProvider sso \<noteq> ''dex'' then Ok (True, x)
          else (case ssoDex sso of
             None \<Rightarrow> Ok (True, x)
           | Some dex \<Rightarrow>
               if dexResources dex \<noteq> None then Ok (True, x)
               else (case acSSO d of
                  None \<Rightarrow> Panic NilDereference
                | Some dsso \<Rightarrow> (case ssoDex dsso of
                     None \<Rightarrow> Panic NilDereference
                   | Some ddex \<Rightarrow> Ok (True, x\<lparr>acSSO := Some (sso\<lparr>ssoDex :=
                       Some (dex\<lparr>dexResources := dexResources ddex\<rparr>)\<rparr>)\<rparr>))))))"

definition fillResources :: "argocd_spec \<Rightarrow> bool \<times> argocd_spec \<Rightarrow> bool \<times> argocd_spec" where
  "fillResources d s0 =
     (let s1 = fillNil acGrafanaResources (\<lambda>v. acGrafanaResources_update (\<lambda>_. v)) (acGrafanaResources d) s0;
          s2 = fillNil (\<lambda>x. haResources (acHA x)) (\<lambda>v. acHA_update (haResources_update (\<lambda>_. v))) (haResources (acHA d)) s1;
          s3 = fillNil acRedisResources (\<lambda>v. acRedisResources_update (\<lambda>_. v)) (acRedisResources d) s2;
          s4 = fillNil (\<lambda>x. repoResources (acRepo x)) (\<lambda>v. acRepo_update (repoResources_update (\<lambda>_. v))) (repoResources (acRepo d)) s3
      in fillNil (\<lambda>x. srvResources (acServer x)) (\<lambda>v. acServer_update (srvResources_update (\<lambda>_. v))) (srvResources (acServer d)) s4)"

definition syncPlacement :: "argocd_spec \<Rightarrow> bool \<times> argocd_spec \<Rightarrow> bool \<times> argocd_spec" where
  "syncPlacement d cx = (case cx of (changed, x) \<Rightarrow>
     if acNodePlacement d \<noteq> None
     then (if acNodePlacement x \<noteq> acNodePlacement d then (True, x\<lparr>acNodePlacement := acNodePlacement d\<rparr>) else (changed, x))
     else if acNodePlacement x \<noteq> None then (True, x\<lparr>acNodePlacement := acNodePlacement d\<rparr>)
     else (changed, x))"

definition bindO :: "'a outcome \<Rightarrow> ('a \<Rightarrow> 'b outcome) \<Rightarrow> 'b outcome" where
  "bindO r k = (case r of Ok a \<Rightarrow> k a | Err e \<Rightarrow> Err e | Panic p \<Rightarrow> Panic p)"

definition completeArgoCD :: "argocd_spec \<Rightarrow> argocd_spec \<Rightarrow> (bool \<times> argocd_spec) outcome" where
  "completeArgoCD d existing =
     bindO (fillApplicationSet d (False, existing)) (\<lambda>s1.
     bindO (fillDex d (fillNil acControllerResources (\<lambda>v. acControllerResources_update (\<lambda>_. v)) (acControllerResources d) s1)) (\<lambda>s2.
     Ok (syncPlacement d (fillResources d s2))))"

definition reconcileDefaultArgoCDInstance ::
  "env \<Rightarrow> api_flags \<Rightarrow> 'w client \<Rightarrow> gitops_service \<Rightarrow> ('w, unit) act" where
  "reconcileDefaultArgoCDInstance e f c inst =
     bindG (NewCR e f c ArgoCDInstanceName serviceNamespace) (\<lambda>cr.
     thenG (reconcileArgoNamespace c (gsRunOnInfra (gsSpec inst)) (metaNamespace (acMeta cr)))
     (bindG (liftE (SetControllerReference e (gsMeta inst) (acMeta cr))) (\<lambda>m.
      let cr' = cr\<lparr>acMeta := m, acSpec := placeArgoCD (gsSpec inst) (acSpec cr)\<rparr>
      in getOrCreate c as_argocd (OArgoCD cr') (\<lambda>existing.
           bindG (liftO (completeArgoCD (acSpec cr') (acSpec existing))) (\<lambda>(changed, spec).
             if changed then updateO c (OArgoCD (existing\<lparr>acSpec := spec\<rparr>)) else ret ())))))"

section \<open>Specifications\<close>

definition argoInstanceKey :: key where
  "argoInstanceKey = (KArgoCD, serviceNamespace, ArgoCDInstanceName)"

definition argoNamespaceKey :: key where
  "argoNamespaceKey = (KNamespace, '''', serviceNamespace)"

definition argoKeys :: "key set" where
  "argoKeys = {argoNamespaceKey, computeQuotaKey serviceNamespace, argoInstanceKey}"

definition kamKeys :: "api_flags \<Rightarrow> key set" where
  "kamKeys f = {(KDeployment, serviceNamespace, kamResourceName), (KService, serviceNamespace, kamResourceName)} \<union>
     (if routeAPIFound f then {(KRoute, serviceNamespace, kamResourceName)} else {})"

text \<open>A resource requirement the user set, or else the default.\<close>

definition orDefault :: "'a option \<Rightarrow> 'a option \<Rightarrow> 'a option" where
  "orDefault x d = (case x of None \<Rightarrow> d | Some v \<Rightarrow> Some v)"

text \<open>The completed custom resource: the user's values where there are any, the defaults elsewhere, and
  the placement of the GitopsService.\<close>

definition argoCompleted :: "argocd_spec \<Rightarrow> argocd_spec \<Rightarrow> argocd_spec" where
  "argoCompleted d x = x\<lparr>
     acApplicationSet := map_option (\<lambda>a. a\<lparr>asResources := orDefault (asResources a)
        (Option.bind (acApplicationSet d) asResources)\<rparr>) (acApplicationSet x),
     acControllerResources := orDefault (acControllerResources x) (acControllerResources d),
     acSSO := map_option (\<lambda>s. if ssoProvider s = ''dex''
        then s\<lparr>ssoDex := map_option (\<lambda>dx. dx\<lparr>dexResources := orDefault (dexResources dx)
          (Option.bind (Option.bind (acSSO d) ssoDex) dexResources)\<rparr>) (ssoDex s)\<rparr> else s) (acSSO x),
     acGrafanaResources := orDefault (acGrafanaResources x) (acGrafanaResources d),
     acHA := (acHA x)\<lparr>haResources := orDefault (haResources (acHA x)) (haResources (acHA d))\<rparr>,
     acRedisResources := orDefault (acRedisResources x) (acRedisResources d),
     acRepo := (acRepo x)\<lparr>repoResources := orDefault (repoResources (acRepo x)) (repoResources (acRepo d))\<rparr>,
     acServer := (acServer x)\<lparr>srvResources := orDefault (srvResources (acServer x)) (srvResources (acServer d))\<rparr>,
     acNodePlacement := acNodePlacement d\<rparr>"

text \<open>The single sign-on section of the default instance: Dex, sized, on OpenShift without external authentication;
  otherwise none.\<close>

definition defaultSSO :: "api_flags \<Rightarrow> sso_spec option \<Rightarrow> bool" where
  "defaultSSO f sso \<longleftrightarrow> sso = None \<or>
     IsOpenShiftCluster f \<and> sso = Some \<lparr>ssoProvider = ''dex'', ssoDex = Some getArgoDexSpec\<rparr>"

text \<open>The custom resource asks for Dex with no resource requirements of its own.\<close>

definition dexUnsized :: "argocd_spec \<Rightarrow> bool" where
  "dexUnsized x = (case acSSO x of None \<Rightarrow> False
     | Some s \<Rightarrow> ssoProvider s = ''dex'' \<and> (case ssoDex s of None \<Rightarrow> False | Some dx \<Rightarrow> dexResources dx = None))"

definition argoMissing :: "argocd_spec \<Rightarrow> bool" where
  "argoMissing x \<longleftrightarrow> (\<exists>a. acApplicationSet x = Some a \<and> asResources a = None) \<or> acControllerResources x = None \<or>
     acGrafanaResources x = None \<or> haResources (acHA x) = None \<or> acRedisResources x = None \<or>
     repoResources (acRepo x) = None \<or> srvResources (acServer x) = None"

section \<open>Lemmas\<close>

lemma fillNil_eq:
  "fillNil get put d (changed, x) = (changed \<or> get x = None, if get x = None then put d x else x)"
  by (auto simp: fillNil_def)

lemma orDefault_simps [simp]: "orDefault None d = d" "orDefault (Some v) d = Some v"
  by (simp_all add: orDefault_def)

lemma fillResources_eq:
  "fillResources d (changed, x) =
    (changed \<or> acGrafanaResources x = None \<or> haResources (acHA x) = None \<or> acRedisResources x = None \<or>
       repoResources (acRepo x) = None \<or> srvResources (acServer x) = None,
     x\<lparr>acGrafanaResources := orDefault (acGrafanaResources x) (acGrafanaResources d),
       acHA := (acHA x)\<lparr>haResources := orDefault (haResources (acHA x)) (haResources (acHA d))\<rparr>,
       acRedisResources := orDefault (acRedisResources x) (acRedisResources d),
       acRepo := (acRepo x)\<lparr>repoResources := orDefault (repoResources (acRepo x)) (repoResources (acRepo d))\<rparr>,
       acServer := (acServer x)\<lparr>srvResources := orDefault (srvResources (acServer x)) (srvResources (acServer d))\<rparr>\<rparr>)"
  by (cases x) (auto simp: fillResources_def fillNil_eq Let_def orDefault_def split: option.split)

lemma syncPlacement_eq:
  "syncPlacement d (changed, x) = (changed \<or> acNodePlacement x \<noteq> acNodePlacement d, x\<lparr>acNodePlacement := acNodePlacement d\<rparr>)"
  by (cases x) (auto simp: syncPlacement_def)

lemma fillApplicationSet_eq:
  assumes "acApplicationSet d = Some da"
  shows "fillApplicationSet d (changed, x) =
    Ok (changed \<or> (\<exists>a. acApplicationSet x = Some a \<and> asResources a = None),
        x\<lparr>acApplicationSet := map_option (\<lambda>a. a\<lparr>asResources := orDefault (asResources a) (asResources da)\<rparr>) (acApplicationSet x)\<rparr>)"
  using assms by (cases x) (auto simp: fillApplicationSet_def orDefault_def split: option.split)

lemma fillDex_eq:
  "fillDex d (changed, x) =
    (if dexUnsized x \<and> Option.bind (acSSO d) ssoDex = None then Panic NilDereference
     else Ok (changed \<or> UseDex x,
       x\<lparr>acSSO := map_option (\<lambda>s. if ssoProvider s = ''dex''
        then s\<lparr>ssoDex := map_option (\<lambda>dx. dx\<lparr>dexResources := orDefault (dexResources dx)
          (Option.bind (Option.bind (acSSO d) ssoDex) dexResources)\<rparr>) (ssoDex s)\<rparr> else s) (acSSO x)\<rparr>))"
proof -
  have t: "ToLower ''dex'' = ''dex''" by code_simp
  show ?thesis
    by (cases x; cases "acSSO x"; cases "acSSO d")
      (auto simp: fillDex_def dexUnsized_def UseDex_def t orDefault_def split: option.splits)
qed

lemma completeArgoCD_eq:
  assumes "acApplicationSet d \<noteq> None"
  shows "completeArgoCD d x =
    (if dexUnsized x \<and> Option.bind (acSSO d) ssoDex = None then Panic NilDereference
     else Ok (argoMissing x \<or> UseDex x \<or> acNodePlacement x \<noteq> acNodePlacement d, argoCompleted d x))"
proof -
  obtain da where da: "acApplicationSet d = Some da" using assms by auto
  have u: "dexUnsized (x\<lparr>acApplicationSet := a, acControllerResources := r\<rparr>) = dexUnsized x"
    "UseDex (x\<lparr>acApplicationSet := a, acControllerResources := r\<rparr>) = UseDex x" for a r
    by (simp_all add: dexUnsized_def UseDex_def)
  have c: "fillNil acControllerResources (\<lambda>v. acControllerResources_update (\<lambda>_. v)) r (ch, y) =
      (ch \<or> acControllerResources y = None, y\<lparr>acControllerResources := orDefault (acControllerResources y) r\<rparr>)" for r ch y
    by (cases y) (auto simp: fillNil_eq orDefault_def split: option.split)
  show ?thesis
    by (auto simp: completeArgoCD_def bindO_def fillApplicationSet_eq[OF da] c fillDex_eq u fillResources_eq
        syncPlacement_eq argoCompleted_def argoMissing_def da)
qed

text \<open>Completing a completed custom resource changes it no further.\<close>

lemma orDefault_idem [simp]: "orDefault (orDefault x d) d = orDefault x d"
  by (cases x; cases d) simp_all

lemma argoCompleted_idem: "argoCompleted d (argoCompleted d x) = argoCompleted d x"
  by (cases "acApplicationSet x"; cases "acSSO x") (auto simp: argoCompleted_def option.map_comp o_def)

lemma defaultSpec_aset [simp]: "acApplicationSet (defaultSpec sso b) = Some getArgoApplicationSetSpec"
  by (simp add: defaultSpec_def)

lemma placeArgoCD_fields [simp]:
  "acApplicationSet (placeArgoCD spec ac) = acApplicationSet ac"
  "acSSO (placeArgoCD spec ac) = acSSO ac"
  by (simp_all add: placeArgoCD_def Let_def)

lemma as_argocd_Some [simp]: "as_argocd y = Some a \<longleftrightarrow> y = OArgoCD a"
  by (cases y) auto

lemma as_namespace_Some [simp]: "as_namespace y = Some a \<longleftrightarrow> y = ONamespace a"
  by (cases y) auto

lemma ensureInfra_meta [simp]:
  "metaName (nsMeta (snd (ensureInfraNodeSelectorAnnotation n r))) = metaName (nsMeta n)"
  "metaNamespace (nsMeta (snd (ensureInfraNodeSelectorAnnotation n r))) = metaNamespace (nsMeta n)"
  "metaLabels (nsMeta (snd (ensureInfraNodeSelectorAnnotation n r))) = metaLabels (nsMeta n)"
  by (simp_all add: ensureInfraNodeSelectorAnnotation_def Let_def)

lemma ensureNamespaceMetadata_meta:
  "ensureNamespaceMetadata n r = (ch, n') \<Longrightarrow>
     metaName (nsMeta n') = metaName (nsMeta n) \<and> metaNamespace (nsMeta n') = metaNamespace (nsMeta n)"
  by (auto simp: ensureNamespaceMetadata_def ensurePodSecurityLabels_def ensureInfraNodeSelectorAnnotation_def Let_def
      split: if_splits)

lemma freshNamespace_meta [simp]:
  "metaName (nsMeta (freshNamespace ns r)) = ns" "metaNamespace (nsMeta (freshNamespace ns r)) = []"
  by (simp_all add: freshNamespace_def newRestrictedNamespace_def Let_def)

lemma freshNamespace_key [simp]: "okey (ONamespace (freshNamespace ns r)) = (KNamespace, '''', ns)"
  by (simp add: freshNamespace_def okey_def newRestrictedNamespace_def Let_def)

context k8s_client begin

lemma deleteResourceQuota_fp:
  "computeQuotaKey ns \<in> S \<Longrightarrow> act_rel (same_outside view S) (deleteResourceQuota c ns)"
  unfolding deleteResourceQuota_def by (intro fp.rel_intros getO_fp deleteO_fp) auto

lemma deleteResourceQuota_kp:
  "computeQuotaKey ns \<notin> S \<Longrightarrow> act_rel (keeps_present view S) (deleteResourceQuota c ns)"
  unfolding deleteResourceQuota_def by (intro kp.rel_intros getO_kp deleteO_kp) auto

lemma updateNamespaceMetadata_fp:
  "okey (ONamespace n) \<in> S \<Longrightarrow> act_rel (same_outside view S) (updateNamespaceMetadata c r n)"
  unfolding updateNamespaceMetadata_def Let_def
  by (cases "ensureNamespaceMetadata n r")
    (auto dest!: ensureNamespaceMetadata_meta simp: okey_def intro!: fp.rel_ret updateO_fp)

lemma updateNamespaceMetadata_kp: "act_rel (keeps_present view S) (updateNamespaceMetadata c r n)"
  unfolding updateNamespaceMetadata_def Let_def
  by (cases "ensureNamespaceMetadata n r") (auto intro!: kp.rel_ret updateO_kp)

lemma reconcileArgoNamespace_fp:
  assumes "(KNamespace, '''', ns) \<in> S" and "computeQuotaKey ns \<in> S"
  shows "act_rel (same_outside view S) (reconcileArgoNamespace c r ns)"
  unfolding reconcileArgoNamespace_def
  using assms by (intro getOrCreate_fp fp.rel_thenG deleteResourceQuota_fp updateNamespaceMetadata_fp) (auto simp: okey_def)

lemma completeUpdate_fp:
  assumes "okey (OArgoCD x) \<in> S"
  shows "act_rel (same_outside view S) (bindG (liftO (completeArgoCD d (acSpec x))) (\<lambda>(changed, spec).
    if changed then updateO c (OArgoCD (x\<lparr>acSpec := spec\<rparr>)) else ret ()))"
  using assms by (intro fp.rel_bindG fp.rel_liftO) (auto simp: okey_def intro!: fp.rel_intros updateO_fp)

lemma reconcileDefaultArgoCDInstance_fp:
  assumes "argoKeys \<subseteq> S"
  shows "act_rel (same_outside view S) (reconcileDefaultArgoCDInstance e f c inst)"
  unfolding reconcileDefaultArgoCDInstance_def
proof (intro fp.rel_bindG[OF NewCR_fp])
  fix cr w w1
  assume "NewCR e f c ArgoCDInstanceName serviceNamespace w = (Ok cr, w1)"
  from NewCR_Ok(1)[OF this] assms show "act_rel (same_outside view S)
      (thenG (reconcileArgoNamespace c (gsRunOnInfra (gsSpec inst)) (metaNamespace (acMeta cr)))
        (bindG (liftE (SetControllerReference e (gsMeta inst) (acMeta cr))) (\<lambda>m.
          let cr' = cr\<lparr>acMeta := m, acSpec := placeArgoCD (gsSpec inst) (acSpec cr)\<rparr>
          in getOrCreate c as_argocd (OArgoCD cr') (\<lambda>existing.
               bindG (liftO (completeArgoCD (acSpec cr') (acSpec existing))) (\<lambda>(changed, spec).
                 if changed then updateO c (OArgoCD (existing\<lparr>acSpec := spec\<rparr>)) else ret ())))))"
    unfolding Let_def
    by (intro fp.rel_thenG fp.rel_bindG reconcileArgoNamespace_fp getOrCreate_fp completeUpdate_fp)
      (auto simp: argoKeys_def argoNamespaceKey_def argoInstanceKey_def liftE_Ok_iff fp.rel_liftE okey_def
        SetControllerReference_Inr)
qed

lemma ensureDoesntExist_fp:
  assumes "argoInstanceKey \<in> S"
  shows "act_rel (same_outside view S) (ensureDefaultArgoCDInstanceDoesntExist e f c)"
  unfolding ensureDefaultArgoCDInstanceDoesntExist_def using assms
  by (intro fp.rel_intros NewCR_fp getAs_fp deleteO_fp)
    (auto simp: refreshable_def argoInstanceKey_def okey_def dest!: getAs_key NewCR_Ok(1))

lemma cleanKAMResources_fp:
  assumes "kamKeys f \<subseteq> S"
  shows "act_rel (same_outside view S) (cleanKAMResources f c)"
  unfolding cleanKAMResources_def cleanKAM_def Let_def using assms
  by (intro fp.rel_intros getO_fp deleteO_fp) (auto simp: kamKeys_def)

end

section \<open>What a successful pass establishes\<close>

definition namespaceOk :: "bool \<Rightarrow> namespace_obj \<Rightarrow> bool" where
  "namespaceOk runOnInfra n \<longleftrightarrow>
     gget (metaLabels (nsMeta n)) PodSecurityLabelSyncLabel = Some ''true'' \<and>
     (gget (metaAnnotations (nsMeta n)) InfraNodeSelectorAnnotation = Some InfraNodeSelectorAnnotationValue \<longleftrightarrow> runOnInfra)"

lemma infraValue_ne [simp]: "InfraNodeSelectorAnnotationValue \<noteq> []"
  by (simp add: InfraNodeSelectorAnnotationValue_def)

lemma gindex_eq_iff: "x \<noteq> [] \<Longrightarrow> gindex m k = x \<longleftrightarrow> gget m k = Some x"
  by (auto simp: gindex_def split: option.splits)

lemma ensureNamespaceMetadata_ok:
  "ensureNamespaceMetadata n r = (ch, n') \<Longrightarrow> namespaceOk r n'"
  "ensureNamespaceMetadata n r = (False, n') \<Longrightarrow> namespaceOk r n"
  by (auto simp: ensureNamespaceMetadata_def ensurePodSecurityLabels_def ensureInfraNodeSelectorAnnotation_def Let_def
      namespaceOk_def gindex_eq_iff split: if_splits)

lemma freshNamespace_ok: "HasPrefix ns ''openshift-'' \<Longrightarrow> namespaceOk r (freshNamespace ns r)"
  by (simp add: freshNamespace_def newRestrictedNamespace_def ensureInfraNodeSelectorAnnotation_def namespaceOk_def
      Let_def gindex_eq_iff)

lemma completeArgoCD_unchanged:
  assumes "\<not> argoMissing x" and "\<not> UseDex x" and "acNodePlacement x = acNodePlacement d"
  shows "argoCompleted d x = x"
proof -
  have t: "ToLower ''dex'' = ''dex''" by code_simp
  have o: "y \<noteq> None \<Longrightarrow> orDefault y z = y" for y z :: "resource_requirements option" by auto
  show ?thesis
    using assms
    by (cases x; cases "acSSO x"; cases "acApplicationSet x")
      (auto simp: argoCompleted_def argoMissing_def UseDex_def t o)
qed

definition placement :: "gitops_service \<Rightarrow> node_placement option" where
  "placement inst =
     (if glen (gsNodeSelector (gsSpec inst)) = 0 \<and> elems (gsTolerations (gsSpec inst)) = [] then None
      else Some \<lparr>npNodeSelector = (if glen (gsNodeSelector (gsSpec inst)) > 0 then gsNodeSelector (gsSpec inst) else None),
                 npTolerations = (if elems (gsTolerations (gsSpec inst)) \<noteq> [] then gsTolerations (gsSpec inst) else None)\<rparr>)"

lemma placement_eq: "acNodePlacement (placeArgoCD (gsSpec inst) (defaultSpec sso b)) = placement inst"
  by (simp add: placeArgoCD_def placement_def defaultSpec_def Let_def)

text \<open>No section of the resource that is there lacks its requirements, that of Dex included when Dex is the
  provider, and the placement is that of the GitopsService.\<close>

definition argoInstanceOk :: "gitops_service \<Rightarrow> argocd \<Rightarrow> bool" where
  "argoInstanceOk inst a \<longleftrightarrow> \<not> argoMissing (acSpec a) \<and> \<not> dexUnsized (acSpec a) \<and>
     acNodePlacement (acSpec a) = placement inst"

lemma orDefault_None [simp]: "orDefault x d = None \<longleftrightarrow> x = None \<and> d = None"
  by (cases x) simp_all

lemma defaultSpec_not_missing [simp]: "\<not> argoMissing (defaultSpec sso b)"
  by (simp add: argoMissing_def defaultSpec_def getArgoApplicationSetSpec_def getArgoControllerSpec_def
      getArgoGrafanaSpec_def getArgoHASpec_def getArgoRedisSpec_def getArgoRepoServerSpec_def getArgoServerSpec_def)

lemma placeArgoCD_missing [simp]: "argoMissing (placeArgoCD spec ac) = argoMissing ac"
  by (simp add: argoMissing_def placeArgoCD_def Let_def)

lemma argoCompleted_not_missing:
  "\<not> argoMissing d \<Longrightarrow> acApplicationSet d \<noteq> None \<Longrightarrow> \<not> argoMissing (argoCompleted d x)"
  by (auto simp: argoMissing_def argoCompleted_def)

lemma defaultSpec_complete:
  "\<not> argoMissing (placeArgoCD spec (defaultSpec sso b))"
  "\<not> argoMissing (argoCompleted (placeArgoCD spec (defaultSpec sso b)) x)"
  by (simp_all add: argoCompleted_not_missing)

lemma getArgoSSOSpec_Ok: "getArgoSSOSpec f c w = (Ok sso, w') \<Longrightarrow> defaultSSO f sso"
  by (auto simp: getArgoSSOSpec_def defaultSSO_def bindG_Ok_iff split: if_splits)

lemma NewCR_spec:
  assumes "NewCR e f c name ns w = (Ok cr, w')"
  shows "\<exists>sso b. acSpec cr = defaultSpec sso b \<and> defaultSSO f sso"
  using assms unfolding NewCR_def ok_iff by clarsimp (blast dest: getArgoSSOSpec_Ok)

lemma defaultSpec_SSO [simp]: "acSSO (defaultSpec sso b) = sso"
  by (simp add: defaultSpec_def)

lemma placed_SSO [simp]: "acSSO (placeArgoCD spec (defaultSpec sso b)) = sso"
  by (simp add: placeArgoCD_def Let_def)

text \<open>Completing with the defaults, where it does not panic, leaves no Dex without requirements.\<close>

lemma completed_dex:
  assumes "defaultSSO f (acSSO d)" and "\<not> (dexUnsized x \<and> Option.bind (acSSO d) ssoDex = None)"
  shows "\<not> dexUnsized (argoCompleted d x)"
  using assms by (cases "acSSO x")
    (auto simp: defaultSSO_def dexUnsized_def argoCompleted_def getArgoDexSpec_def split: option.splits if_splits)

lemma default_dex: "defaultSSO f sso \<Longrightarrow> \<not> dexUnsized (placeArgoCD spec (defaultSpec sso b))"
  by (auto simp: dexUnsized_def defaultSSO_def getArgoDexSpec_def)

lemma argoCompleted_placement [simp]: "acNodePlacement (argoCompleted d x) = acNodePlacement d"
  by (simp add: argoCompleted_def)

context verbatim_client begin

lemma reconcileArgoNamespace_Ok:
  assumes "reconcileArgoNamespace c r ns w = (Ok u, w')" and "HasPrefix ns ''openshift-''"
  shows "\<exists>n. view w' (KNamespace, '''', ns) = Some (ONamespace n) \<and> namespaceOk r n"
proof -
  have nr: "\<not> refreshable (obj_kind (ONamespace x))" for x by (simp add: refreshable_def)
  from assms(1)[unfolded reconcileArgoNamespace_def] nr show ?thesis
  proof (cases rule: getOrCreate_Ok)
    case created
    with assms(2) show ?thesis by (simp add: admit_id freshNamespace_ok)
  next
    case (found y n w1)
    then obtain w2 where q: "deleteResourceQuota c (metaName (nsMeta n)) w1 = (Ok (), w2)"
      and m: "updateNamespaceMetadata c r n w2 = (Ok u, w')" by (auto simp: thenG_Ok_iff)
    have y: "y = ONamespace n" "okey y = (KNamespace, '''', ns)" using found by (auto dest: view_key)
    then have k: "okey (ONamespace n) = (KNamespace, '''', ns)" by simp
    have "same_outside view {computeQuotaKey (metaName (nsMeta n))} w1 w2"
      by (rule act_relD[OF deleteResourceQuota_fp q]) simp
    from same_outsideD[OF this, of "(KNamespace, [], ns)"] found(1,3)
    have "view w2 (KNamespace, [], ns) = Some y" by (simp add: computeQuotaKey_def)
    moreover obtain ch n' where e: "ensureNamespaceMetadata n r = (ch, n')" by force
    moreover have "okey (ONamespace n') = (KNamespace, '''', ns)"
      using ensureNamespaceMetadata_meta[OF e] k by (simp add: okey_def)
    ultimately show ?thesis using m y(1) ensureNamespaceMetadata_ok[of n r]
      by (cases ch) (auto simp: updateNamespaceMetadata_def admit_id dest!: updateO_Ok(1))
  qed
qed

lemma argoInstance_Ok:
  assumes "getOrCreate c as_argocd (OArgoCD cr) (\<lambda>existing.
      bindG (liftO (completeArgoCD (acSpec cr) (acSpec existing))) (\<lambda>(changed, spec).
        if changed then updateO c (OArgoCD (existing\<lparr>acSpec := spec\<rparr>)) else ret ())) w = (Ok u, w')"
    and "acApplicationSet (acSpec cr) \<noteq> None"
  shows "\<exists>a. view w' = (view w)(okey (OArgoCD cr) \<mapsto> OArgoCD a) \<and>
    (case view w (okey (OArgoCD cr)) of
       Some (OArgoCD x) \<Rightarrow> a = x\<lparr>acSpec := argoCompleted (acSpec cr) (acSpec x)\<rparr> \<and>
         \<not> (dexUnsized (acSpec x) \<and> Option.bind (acSSO (acSpec cr)) ssoDex = None)
     | _ \<Rightarrow> a = cr)"
proof -
  have nr: "\<not> refreshable (obj_kind (OArgoCD x))" for x by (simp add: refreshable_def)
  from assms(1) nr show ?thesis
  proof (cases rule: getOrCreate_Ok)
    case created
    then show ?thesis by (auto simp: admit_id)
  next
    case (found y x w1)
    then have y: "y = OArgoCD x" by simp
    with found have k: "okey (OArgoCD x) = okey (OArgoCD cr)" by (auto dest: view_key)
    from found(4) obtain ch spec where s: "completeArgoCD (acSpec cr) (acSpec x) = Ok (ch, spec)"
      and u: "(if ch then updateO c (OArgoCD (x\<lparr>acSpec := spec\<rparr>)) else ret ()) w1 = (Ok u, w')"
      by (auto simp: ok_iff)
    from s have spec: "spec = argoCompleted (acSpec cr) (acSpec x)"
      and unch: "\<not> ch \<Longrightarrow> argoCompleted (acSpec cr) (acSpec x) = acSpec x"
      and dex: "\<not> (dexUnsized (acSpec x) \<and> Option.bind (acSSO (acSpec cr)) ssoDex = None)"
      by (auto simp: completeArgoCD_eq[OF assms(2)] split: if_splits intro: completeArgoCD_unchanged)
    have "view w' = (view w)(okey (OArgoCD cr) \<mapsto> OArgoCD (x\<lparr>acSpec := spec\<rparr>))"
    proof (cases ch)
      case True
      with u have "updateO c (OArgoCD (x\<lparr>acSpec := spec\<rparr>)) w1 = (Ok u, w')" by simp
      from updateO_Ok(1)[OF this] k found(3) show ?thesis by (simp add: admit_id okey_def)
    next
      case False
      with u unch spec found(1,3) y show ?thesis by (auto simp: fun_eq_iff)
    qed
    with spec found(1) y dex show ?thesis by auto
  qed
qed

lemma reconcileDefaultArgoCDInstance_Ok:
  assumes "reconcileDefaultArgoCDInstance e f c inst w = (Ok u, w')"
  shows "\<exists>n. view w' argoNamespaceKey = Some (ONamespace n) \<and> namespaceOk (gsRunOnInfra (gsSpec inst)) n"
    and "\<exists>sso b a. defaultSSO f sso \<and> view w' argoInstanceKey = Some (OArgoCD a) \<and> argoInstanceOk inst a \<and>
      (view w argoInstanceKey = None \<longrightarrow> acSpec a = placeArgoCD (gsSpec inst) (defaultSpec sso b)) \<and>
      (\<forall>x. view w argoInstanceKey = Some (OArgoCD x) \<longrightarrow>
        a = x\<lparr>acSpec := argoCompleted (placeArgoCD (gsSpec inst) (defaultSpec sso b)) (acSpec x)\<rparr>)"
proof -
  from assms obtain cr m w1 w2 where
    n: "NewCR e f c ArgoCDInstanceName serviceNamespace w = (Ok cr, w1)"
    and r: "reconcileArgoNamespace c (gsRunOnInfra (gsSpec inst)) (metaNamespace (acMeta cr)) w1 = (Ok (), w2)"
    and m: "SetControllerReference e (gsMeta inst) (acMeta cr) = Inr m"
    and g: "getOrCreate c as_argocd (OArgoCD (cr\<lparr>acMeta := m, acSpec := placeArgoCD (gsSpec inst) (acSpec cr)\<rparr>)) (\<lambda>existing.
           bindG (liftO (completeArgoCD (acSpec (cr\<lparr>acMeta := m, acSpec := placeArgoCD (gsSpec inst) (acSpec cr)\<rparr>)) (acSpec existing))) (\<lambda>(changed, spec).
             if changed then updateO c (OArgoCD (existing\<lparr>acSpec := spec\<rparr>)) else ret ())) w2 = (Ok u, w')"
    by (auto simp: reconcileDefaultArgoCDInstance_def ok_iff Let_def)
  from NewCR_Ok(1)[OF n] NewCR_spec[OF n] obtain sso b where
    cr: "acMeta cr = mkMeta ArgoCDInstanceName serviceNamespace" "acSpec cr = defaultSpec sso b" and sso: "defaultSSO f sso"
    by blast
  let ?cr = "cr\<lparr>acMeta := m, acSpec := placeArgoCD (gsSpec inst) (acSpec cr)\<rparr>"
  have k: "okey (OArgoCD ?cr) = argoInstanceKey"
    using SetControllerReference_Inr[OF m] cr by (simp add: okey_def argoInstanceKey_def)
  have aset: "acApplicationSet (acSpec ?cr) \<noteq> None" using cr by simp
  from argoInstance_Ok[OF g aset] k obtain a where
    a: "view w' = (view w2)(argoInstanceKey \<mapsto> OArgoCD a)"
       "case view w2 argoInstanceKey of
          Some (OArgoCD x) \<Rightarrow> a = x\<lparr>acSpec := argoCompleted (acSpec ?cr) (acSpec x)\<rparr> \<and>
            \<not> (dexUnsized (acSpec x) \<and> Option.bind (acSSO (acSpec ?cr)) ssoDex = None)
        | _ \<Rightarrow> a = ?cr"
    by auto
  have "HasPrefix serviceNamespace ''openshift-''" by code_simp
  with reconcileArgoNamespace_Ok[OF r] cr a(1)
  show "\<exists>n. view w' argoNamespaceKey = Some (ONamespace n) \<and> namespaceOk (gsRunOnInfra (gsSpec inst)) n"
    by (auto simp: argoNamespaceKey_def argoInstanceKey_def)
  have "same_outside view {argoNamespaceKey, computeQuotaKey serviceNamespace} w1 w2"
    using r cr by (intro act_relD[OF reconcileArgoNamespace_fp]) (auto simp: argoNamespaceKey_def)
  from same_outsideD[OF this, of argoInstanceKey] NewCR_view[OF n]
  have v: "view w2 argoInstanceKey = view w argoInstanceKey"
    by (auto simp: argoInstanceKey_def argoNamespaceKey_def computeQuotaKey_def)
  let ?d = "placeArgoCD (gsSpec inst) (defaultSpec sso b)"
  have "\<not> dexUnsized (acSpec a)"
    using a(2) cr completed_dex[of f ?d] default_dex[OF sso] sso by (auto split: option.splits obj.splits)
  then have "argoInstanceOk inst a"
    using a(2) cr by (auto simp: argoInstanceOk_def defaultSpec_complete placement_eq split: option.splits obj.splits)
  with a v cr sso show "\<exists>sso b a. defaultSSO f sso \<and> view w' argoInstanceKey = Some (OArgoCD a) \<and> argoInstanceOk inst a \<and>
      (view w argoInstanceKey = None \<longrightarrow> acSpec a = placeArgoCD (gsSpec inst) (defaultSpec sso b)) \<and>
      (\<forall>x. view w argoInstanceKey = Some (OArgoCD x) \<longrightarrow>
        a = x\<lparr>acSpec := argoCompleted (placeArgoCD (gsSpec inst) (defaultSpec sso b)) (acSpec x)\<rparr>)"
    by (intro exI[of _ sso] exI[of _ b] exI[of _ a]) auto
qed

end

section \<open>Lemmas on the removals\<close>

context k8s_client begin

lemma ensureDoesntExist_Ok:
  assumes "ensureDefaultArgoCDInstanceDoesntExist e f c w = (Ok u, w')"
  shows "view w' argoNamespaceKey = None \<or> gone (view w' argoInstanceKey)"
proof -
  from assms obtain cr w1 where n: "NewCR e f c ArgoCDInstanceName serviceNamespace w = (Ok cr, w1)"
    and h: "handle (getAs c as_namespace (KNamespace, [], metaName (nsMeta (newRestrictedNamespace (metaNamespace (acMeta cr))))))
       (\<lambda>err. if IsNotFound err then ret () else fail err)
       (\<lambda>_. handle (getAs c as_argocd (okey (OArgoCD cr)))
          (\<lambda>err. if \<not> IsNotFound err then fail err else ret ())
          (\<lambda>existing. deleteO c (okey (OArgoCD existing)))) w1 = (Ok u, w')"
    by (auto simp: ensureDefaultArgoCDInstanceDoesntExist_def bindG_Ok_iff)
  have nk: "(KNamespace, [], metaName (nsMeta (newRestrictedNamespace (metaNamespace (acMeta cr))))) = argoNamespaceKey"
    and ak: "okey (OArgoCD cr) = argoInstanceKey"
    using NewCR_Ok(1)[OF n]
    by (simp_all add: argoNamespaceKey_def argoInstanceKey_def newRestrictedNamespace_def Let_def okey_def)
  from h[unfolded nk ak] consider
      e w2 where "getAs c as_namespace argoNamespaceKey w1 = (Err e, w2)" "IsNotFound e" "w' = w2"
    | w2 e w3 where "getAs c as_argocd argoInstanceKey w2 = (Err e, w3)" "IsNotFound e" "w' = w3"
    | w2 x w3 where "getAs c as_argocd argoInstanceKey w2 = (Ok x, w3)" "deleteO c (okey (OArgoCD x)) w3 = (Ok u, w')"
    by (auto simp: handle_Ok_iff split: if_splits)
  then show ?thesis
  proof cases
    case 1
    with getAs_NotFound[OF 1(1,2)] show ?thesis by simp
  next
    case 2
    with getAs_NotFound[OF 2(1,2)] show ?thesis by (simp add: gone_def)
  next
    case 3
    from getAs_key[OF 3(1)] have "okey (OArgoCD x) = argoInstanceKey" by auto
    with deleteO_Ok[OF 3(2)] show ?thesis by (metis fun_upd_same)
  qed
qed

end

lemma cleanKAM_Ok: "fst (cleanKAM c kd w) = Ok ()"
  by (auto simp: cleanKAM_def logged_def handle_def getO_def deleteO_def write_result_def Let_def
      split: prod.splits sum.splits option.splits)

lemma cleanKAMResources_Ok: "fst (cleanKAMResources f c w) = Ok ()"
  by (simp add: cleanKAMResources_def thenG_apply(1)[OF run_result[OF cleanKAM_Ok]] cleanKAM_Ok)

context reliable_client begin

lemma cleanKAM_gone:
  assumes "\<And>w k. view w k \<noteq> None \<Longrightarrow> fst (cDelete c w k) = None" and "\<not> refreshable kd"
  shows "gone (view (snd (cleanKAM c kd w)) (kd, serviceNamespace, kamResourceName))"
proof -
  let ?k = "(kd, serviceNamespace, kamResourceName)"
  obtain w1 where v: "view w1 = view w"
    and g: "getO c ?k w = ((case view w ?k of None \<Rightarrow> Err (ApiErr NotFound) | Some x \<Rightarrow> Ok x), w1)"
    using getO_reliable[of ?k w] assms(2) by auto
  show ?thesis
  proof (cases "view w ?k")
    case None
    with g v show ?thesis by (simp add: cleanKAM_def Let_def handle_apply)
  next
    case (Some x)
    with assms(1)[of w1 ?k] v obtain w2 where d: "cDelete c w1 ?k = (None, w2)"
      by (metis option.distinct(1) prod.collapse)
    from delete_ok[OF d] obtain u where u: "view w2 = (view w1)(?k := u)" "gone u" by blast
    from d have "deleteO c ?k w1 = (Ok (), w2)" by (simp add: deleteO_def write_result_def)
    with g Some have "cleanKAM c kd w = (Ok (), w2)"
      by (simp add: cleanKAM_def Let_def handle_apply logged_def)
    with u show ?thesis by simp
  qed
qed

end

lemma cleanKAM_fp:
  assumes "k8s_client c view admit refresh"
  shows "same_outside view {(kd, serviceNamespace, kamResourceName)} w (snd (cleanKAM c kd w))"
proof -
  have "act_rel (same_outside view {(kd, serviceNamespace, kamResourceName)}) (cleanKAM c kd)"
    unfolding cleanKAM_def Let_def
    by (intro fp.rel_intros k8s_client.getO_fp[OF assms] k8s_client.deleteO_fp[OF assms]) auto
  then show ?thesis by (simp add: act_rel_def)
qed

section \<open>Properties\<close>

definition sampleNamespace :: obj where
  "sampleNamespace = ONamespace (freshNamespace serviceNamespace False)"



text \<open>Completing a custom resource with the defaults: it panics exactly when the resource asks for
  Dex without resource requirements and the defaults have no Dex (external authentication, or not
  OpenShift). Otherwise the user's requirements are kept, the missing ones filled in, and an update
  is asked for exactly when one was missing, the placement differs, or Dex is used at all.\<close>

theorem completeArgoCD_spec:
  "completeArgoCD (placeArgoCD (gsSpec inst) (defaultSpec sso b)) x =
    (if dexUnsized x \<and> Option.bind sso ssoDex = None then Panic NilDereference
     else Ok (argoMissing x \<or> UseDex x \<or> acNodePlacement x \<noteq> placement inst,
              argoCompleted (placeArgoCD (gsSpec inst) (defaultSpec sso b)) x)) \<and>
   argoCompleted d (argoCompleted d x) = argoCompleted d x"
proof -
  have "acSSO (defaultSpec sso b) = sso" by (simp add: defaultSpec_def)
  then show ?thesis by (simp add: completeArgoCD_eq placement_eq argoCompleted_idem)
qed

definition dexSpec :: argocd_spec where
  "dexSpec = defaultSpec (Some \<lparr>ssoProvider = ''dex'', ssoDex = Some \<lparr>dexOpenShiftOAuth = True, dexResources = None\<rparr>\<rparr>) ''''"

theorem completeArgoCD_spec_witness:
  "completeArgoCD (placeArgoCD (gsSpec sampleService) (defaultSpec None '''')) dexSpec = Panic NilDereference"
  using completeArgoCD_spec[of sampleService None "''''" dexSpec] by (simp add: dexUnsized_def dexSpec_def defaultSpec_def)

definition oidcCluster :: "obj list" where
  "oidcCluster = [sampleNamespace,
     OAuthentication \<lparr>authMeta = mkMeta ''cluster'' '''', authType = ''OIDC''\<rparr>,
     OArgoCD \<lparr>acMeta = mkMeta ArgoCDInstanceName serviceNamespace,
       acSpec = defaultSpec (Some \<lparr>ssoProvider = ''dex'', ssoDex = Some \<lparr>dexOpenShiftOAuth = True, dexResources = None\<rparr>\<rparr>) ''''\<rparr>]"

text \<open>On an OpenShift cluster with external authentication, a default instance that still asks for
  Dex without resource requirements makes the reconciliation panic on a nil pointer.\<close>

theorem reconcileDefaultArgoCDInstance_panics:
  "fst (reconcileDefaultArgoCDInstance sampleEnv sampleFlags mem_client sampleService oidcCluster) = Panic NilDereference"
  by code_simp

text \<open>Disabling the default install: when the removal of the instance returns without an error, its
  namespace does not exist or the instance is gone; only the instance was touched, so the namespace
  and what users put there is left in place.\<close>

theorem ensureDefaultArgoCDInstanceDoesntExist_spec:
  assumes "k8s_client c view admit refresh"
    and "ensureDefaultArgoCDInstanceDoesntExist e f c w = (Ok (), w')"
  shows "(view w' argoNamespaceKey = None \<or> gone (view w' argoInstanceKey)) \<and> same_outside view {argoInstanceKey} w w'"
proof
  show "view w' argoNamespaceKey = None \<or> gone (view w' argoInstanceKey)"
    by (rule k8s_client.ensureDoesntExist_Ok[OF assms])
  show "same_outside view {argoInstanceKey} w w'"
    by (rule act_relD[OF k8s_client.ensureDoesntExist_fp[OF assms(1)] assms(2)]) simp
qed

theorem ensureDefaultArgoCDInstanceDoesntExist_spec_witness:
  "let w' = snd (ensureDefaultArgoCDInstanceDoesntExist sampleEnv sampleFlags mem_client oidcCluster)
   in (mem_view w' argoNamespaceKey = None \<or> gone (mem_view w' argoInstanceKey)) \<and>
      same_outside mem_view {argoInstanceKey} oidcCluster w'"
proof -
  have "fst (ensureDefaultArgoCDInstanceDoesntExist sampleEnv sampleFlags mem_client oidcCluster) = Ok ()"
    by code_simp
  from ensureDefaultArgoCDInstanceDoesntExist_spec[OF mem.k8s_client_axioms run_result[OF this]]
  show ?thesis unfolding Let_def .
qed

text \<open>Removing the discontinued KAM never fails, touches nothing but its deployment, service and
  route, and where reads and deletions succeed it leaves none of them (the route only where the
  cluster has routes).\<close>

theorem cleanKAMResources_spec:
  assumes "reliable_client c view admit refresh"
    and "\<And>w k. view w k \<noteq> None \<Longrightarrow> fst (cDelete c w k) = None"
  shows "fst (cleanKAMResources f c w) = Ok () \<and>
    same_outside view (kamKeys f) w (snd (cleanKAMResources f c w)) \<and>
    (\<forall>k\<in>kamKeys f. gone (view (snd (cleanKAMResources f c w)) k))"
proof -
  have cl: "k8s_client c view admit refresh"
    using assms(1) by (intro verbatim_client.axioms(1) reliable_client.axioms(1))
  let ?k = "\<lambda>kd. (kd, serviceNamespace, kamResourceName)"
  define w1 where "w1 = snd (cleanKAM c KDeployment w)"
  define w2 where "w2 = snd (cleanKAM c KService w1)"
  define w3 where "w3 = snd ((if routeAPIFound f then cleanKAM c KRoute else ret ()) w2)"
  have w3: "snd (cleanKAMResources f c w) = w3"
    by (simp add: cleanKAMResources_def thenG_apply(1)[OF run_result[OF cleanKAM_Ok]] w1_def w2_def w3_def)
  have g: "gone (view w1 (?k KDeployment))" "gone (view w2 (?k KService))"
      "gone (view (snd (cleanKAM c KRoute w2)) (?k KRoute))"
    unfolding w1_def w2_def using reliable_client.cleanKAM_gone[OF assms] by (simp_all add: refreshable_def)
  have f2: "view w2 (?k KDeployment) = view w1 (?k KDeployment)"
    unfolding w2_def by (rule same_outsideD[OF cleanKAM_fp[OF cl]]) simp
  have f3: "kd \<noteq> KRoute \<Longrightarrow> view w3 (?k kd) = view w2 (?k kd)" for kd
    unfolding w3_def using same_outsideD[OF cleanKAM_fp[OF cl, of KRoute w2], of "?k kd"] by simp
  have "gone (view w3 k)" if "k \<in> kamKeys f" for k
    using that g f2 f3[of KDeployment] f3[of KService] by (auto simp: kamKeys_def w3_def split: if_splits)
  then show ?thesis
    using k8s_client.cleanKAMResources_fp[OF cl subset_refl, of f, unfolded act_rel_def, rule_format, of w]
    by (simp add: w3 cleanKAMResources_Ok)
qed

theorem cleanKAMResources_spec_witness:
  "gone (mem_view (snd (cleanKAMResources sampleFlags mem_client
     [OService \<lparr>svcMeta = mkMeta kamResourceName serviceNamespace, svcPorts = None, svcSelector = None,
        svcType = '''', svcPublishNotReady = False\<rparr>]))
     (KService, serviceNamespace, kamResourceName))"
proof -
  have "mem_view w k \<noteq> None \<Longrightarrow> fst (cDelete mem_client w k) = None" for w k
    by (auto simp: mem_client_def)
  from cleanKAMResources_spec[OF mem.reliable_client_axioms this] show ?thesis by (simp add: kamKeys_def)
qed

end
