(* ===== verification/Console_Plugin.thy ===== *)
theory Console_Plugin
  imports Argo_Instance "HOL-Library.Product_Lexorder"
begin

text \<open>
  \<open>controllers/consoleplugin.go\<close>: the objects of the OpenShift console plugin (deployment, service,
  httpd configuration, the ConsolePlugin itself), the comparison of the deployment found with the
  desired one that is not to depend on the order of list elements, and their reconciliation.

  \<open>equality.Semantic.DeepEqual\<close> takes nil and empty slices and maps for equal and compares quantities
  by value; here it is the equality of normal forms (\<open>semContainer\<close> and others), in which nil is
  empty and a quantity is the canonical one of its value. \<open>sort.Slice\<close> is a stable insertion sort on
  slices of at most twelve elements, which the ones compared are; it is \<open>sort_key\<close> here.
\<close>

section \<open>The objects of the plugin\<close>

definition gitopsPluginName :: string where "gitopsPluginName = ''gitops-plugin''"

definition pluginDisplayName :: string where "pluginDisplayName = ''GitOps Plugin''"

definition servicePort :: int where "servicePort = 9001"

definition pluginServingCertName :: string where "pluginServingCertName = ''console-serving-cert''"

definition httpdConfigMapName :: string where "httpdConfigMapName = ''httpd-cfg''"

definition orElse :: "string \<Rightarrow> string \<Rightarrow> string" where
  "orElse s d = (if s = '''' then d else s)"

definition pluginImage :: "env \<Rightarrow> bool \<Rightarrow> string" where
  "pluginImage e isPF5 =
     (if isPF5
      then orElse (getenv e ''GITOPS_CONSOLE_PLUGIN_IMAGE_PF5'')
        (''quay.io/redhat-user-workloads/rh-openshift-gitops-tenant/console-plugin-4-18-rhel9'' @ '':'' @ ''main'')
      else orElse (getenv e ''GITOPS_CONSOLE_PLUGIN_IMAGE'')
        (''quay.io/redhat-user-workloads/rh-openshift-gitops-tenant/console-plugin-rhel9'' @ '':'' @ ''main''))"

definition securityContextForPlugin :: security_context where
  "securityContextForPlugin =
     \<lparr>scCapabilities = Some \<lparr>capAdd = None, capDrop = Some [''ALL'']\<rparr>,
      scRunAsNonRoot = Some True, scAllowPrivilegeEscalation = Some False,
      scReadOnlyRootFilesystem = None, scSeccompProfile = Some runtimeDefault, scOther = ''''\<rparr>"

definition pluginMounts :: "volume_mount list" where
  "pluginMounts =
     [zeroMount\<lparr>vmName := pluginServingCertName, vmReadOnly := True,
        vmMountPath := ''/etc/httpd-ssl/certs/tls.crt'', vmSubPath := ''tls.crt''\<rparr>,
      zeroMount\<lparr>vmName := pluginServingCertName, vmReadOnly := True,
        vmMountPath := ''/etc/httpd-ssl/private/tls.key'', vmSubPath := ''tls.key''\<rparr>,
      zeroMount\<lparr>vmName := httpdConfigMapName, vmReadOnly := True,
        vmMountPath := ''/etc/httpd-cfg/httpd.conf'', vmSubPath := ''httpd.conf''\<rparr>]"

definition pluginContainer :: "env \<Rightarrow> string \<Rightarrow> bool \<Rightarrow> container" where
  "pluginContainer e policy isPF5 =
     zeroContainer\<lparr>cEnv := Some (ProxyEnvVars e []),
       cName := gitopsPluginName,
       cImage := pluginImage e isPF5,
       cImagePullPolicy := GetImagePullPolicy e policy,
       cPorts := Some [\<lparr>cpName = ''http'', cpProtocol = ''TCP'', cpContainerPort = servicePort, cpOther = ''''\<rparr>],
       cVolumeMounts := Some pluginMounts,
       cResources := memCpu ''128Mi'' ''250m'' ''256Mi'' ''500m'',
       cSecurityContext := Some securityContextForPlugin\<rparr>"

definition getPluginPodSpec :: "env \<Rightarrow> string \<Rightarrow> bool \<Rightarrow> pod_spec" where
  "getPluginPodSpec e policy isPF5 =
     zeroPodSpec\<lparr>psContainers := [pluginContainer e policy isPF5],
       psVolumes := Some
         [\<lparr>vName = pluginServingCertName, vSource = SecretVolume pluginServingCertName (Some 420)\<rparr>,
          \<lparr>vName = httpdConfigMapName, vSource = ConfigMapVolume httpdConfigMapName (Some 420)\<rparr>],
       psRestartPolicy := ''Always'',
       psDNSPolicy := ''ClusterFirst'',
       psSecurityContext := Some \<lparr>pscSeccompProfile = Some runtimeDefault, pscOther = ''''\<rparr>\<rparr>"

definition pluginDeployment :: "env \<Rightarrow> string \<Rightarrow> string \<Rightarrow> bool \<Rightarrow> deployment" where
  "pluginDeployment e ns policy isPF5 =
     \<lparr>depMeta = (mkMeta gitopsPluginName ns)\<lparr>metaLabels := gmap
        [(''app'', gitopsPluginName), (''app.kubernetes.io/component'', gitopsPluginName),
         (''app.kubernetes.io/instance'', gitopsPluginName), (''app.kubernetes.io/part-of'', gitopsPluginName),
         (''app.kubernetes.io/runtime-namespace'', ns)]\<rparr>,
      depReplicas = Some 1,
      depSelector = Some \<lparr>lsMatchLabels = gmap [(''app'', gitopsPluginName)], lsOther = ''''\<rparr>,
      depTemplate = \<lparr>ptLabels = gmap [(''app'', gitopsPluginName)], ptAnnotations = None,
        ptSpec = getPluginPodSpec e policy isPF5\<rparr>,
      depReadyReplicas = 0, depConditions = None\<rparr>"

definition consolePlugin :: "string \<Rightarrow> console_plugin" where
  "consolePlugin ns =
     \<lparr>cplMeta = mkMeta gitopsPluginName '''', cplDisplayName = pluginDisplayName, cplBackendType = ''Service'',
      cplService = Some \<lparr>cpsName = gitopsPluginName, cpsNamespace = ns, cpsPort = servicePort, cpsBasePath = ''/''\<rparr>,
      cplLoadType = ''Preload''\<rparr>"

definition pluginService :: "string \<Rightarrow> service" where
  "pluginService ns =
     \<lparr>svcMeta = (mkMeta gitopsPluginName ns)\<lparr>
        metaLabels := gmap [(''app'', gitopsPluginName), (''app.kubernetes.io/component'', gitopsPluginName),
          (''app.kubernetes.io/instance'', gitopsPluginName), (''app.kubernetes.io/part-of'', gitopsPluginName)],
        metaAnnotations := gmap [(''service.beta.openshift.io/serving-cert-secret-name'', pluginServingCertName)]\<rparr>,
      svcPorts = Some [\<lparr>spName = ''tcp-9001'', spProtocol = ''TCP'', spPort = servicePort, spTargetPort = IntPort servicePort, spPortOther = ''''\<rparr>],
      svcSelector = gmap [(''app'', gitopsPluginName)], svcType = '''', svcPublishNotReady = False\<rparr>"

section \<open>The httpd configuration\<close>

definition quoted :: "string \<Rightarrow> string" where
  "quoted s = [CHR 0x22] @ s @ [CHR 0x22]"

definition httpdConfigHead :: string where
  "httpdConfigHead = joinStr newline
     [''LoadModule ssl_module modules/mod_ssl.so'',
      ''Listen 9001 https'',
      ''ServerRoot '' @ quoted ''/etc/httpd'',
      ''<VirtualHost *:9001>'',
      tab @ ''DocumentRoot /var/www/html/plugin'',
      tab @ ''SSLEngine on'',
      tab @ ''SSLCertificateFile '' @ quoted ''/etc/httpd-ssl/certs/tls.crt'',
      tab @ ''SSLCertificateKeyFile '' @ quoted ''/etc/httpd-ssl/private/tls.key'']"

definition sslProtocolLine :: "string \<Rightarrow> string" where
  "sslProtocolLine minVersion =
     (if minVersion = ''VersionTLS10'' then newline @ tab @ ''SSLProtocol -all +TLSv1 +TLSv1.1 +TLSv1.2 +TLSv1.3''
      else if minVersion = ''VersionTLS11'' then newline @ tab @ ''SSLProtocol -all +TLSv1.1 +TLSv1.2 +TLSv1.3''
      else if minVersion = ''VersionTLS12'' then newline @ tab @ ''SSLProtocol -all +TLSv1.2 +TLSv1.3''
      else if minVersion = ''VersionTLS13'' then newline @ tab @ ''SSLProtocol -all +TLSv1.3''
      else '''')"

definition buildHttpdConfig :: "tls_profile \<Rightarrow> string" where
  "buildHttpdConfig tls =
     (let minVersionTLS = MinVersion tls;
          base1 = httpdConfigHead @ sslProtocolLine minVersionTLS;
          base2 = (if minVersionTLS \<noteq> ''VersionTLS13'' \<and> joinStr '':'' (Ciphers tls) \<noteq> ''''
            then base1 @ newline @ tab @ ''SSLCipherSuite '' @ joinStr '':'' (Ciphers tls) else base1);
          groups = MapOpenShiftTLSGroupsToOpenSSL (CurvePreferences tls) ''gitops-plugin httpd'';
          base3 = (if groups \<noteq> '''' then base2 @ newline @ tab @ ''SSLOpenSSLConfCmd Groups '' @ groups else base2)
      in base3 @ newline @ ''</VirtualHost>'')"

definition pluginConfigMap :: "tls_profile \<Rightarrow> string \<Rightarrow> config_map" where
  "pluginConfigMap tls ns =
     \<lparr>cmMeta = AddTrackedByOperatorLabel ((mkMeta httpdConfigMapName ns)\<lparr>metaLabels := gmap
        [(''app'', gitopsPluginName), (''app.kubernetes.io/part-of'', gitopsPluginName)]\<rparr>),
      cmData = gmap [(''httpd.conf'', buildHttpdConfig tls)],
      cmBinaryData = None\<rparr>"

text \<open>What is written to the hash: each key and its value, in the order of the keys.\<close>

definition hashInput :: "gomap \<Rightarrow> string" where
  "hashInput m = (case m of None \<Rightarrow> ''''
     | Some f \<Rightarrow> concat (map (\<lambda>k. k @ gindex m k) (sorted_list_of_fset (fmdom f))))"

definition getConfigMapHash :: "env \<Rightarrow> config_map \<Rightarrow> string" where
  "getConfigMapHash e cm = sha256Hex e (hashInput (cmData cm))"

section \<open>Comparison\<close>

definition normalizeContainerDefaults :: "container \<Rightarrow> container" where
  "normalizeContainerDefaults ct =
     (let ct1 = (if cTerminationMessagePath ct = '''' then ct\<lparr>cTerminationMessagePath := ''/dev/termination-log''\<rparr> else ct)
      in if cTerminationMessagePolicy ct1 = '''' then ct1\<lparr>cTerminationMessagePolicy := ''File''\<rparr> else ct1)"

definition sortContainer :: "container \<Rightarrow> container" where
  "sortContainer ct =
     (normalizeContainerDefaults ct)\<lparr>cEnv := map_option (sort_key evName) (cEnv ct),
        cPorts := map_option (sort_key (\<lambda>p. (cpContainerPort p, cpName p))) (cPorts ct),
        cVolumeMounts := map_option (sort_key vmName) (cVolumeMounts ct)\<rparr>"

definition sortContainers :: "container list \<Rightarrow> container list" where
  "sortContainers cts = sort_key cName (map sortContainer cts)"

definition sortVolumes :: "volume slice \<Rightarrow> volume list" where
  "sortVolumes vs = sort_key vName (elems vs)"

definition sortTolerations :: "toleration slice \<Rightarrow> toleration list" where
  "sortTolerations ts = sort_key (\<lambda>t. (tolKey t, tolOperator t, tolEffect t)) (elems ts)"

definition semSlice :: "'a slice \<Rightarrow> 'a slice" where
  "semSlice s = Some (elems s)"

definition semMap :: "('k, 'v) fmap option \<Rightarrow> ('k, 'v) fmap option" where
  "semMap m = Some (case m of None \<Rightarrow> fmempty | Some f \<Rightarrow> f)"

definition semResources :: "env \<Rightarrow> resource_requirements \<Rightarrow> resource_requirements" where
  "semResources e rr = rr\<lparr>rrRequests := map_option (fmmap (canonQuantity e)) (semMap (rrRequests rr)),
     rrLimits := map_option (fmmap (canonQuantity e)) (semMap (rrLimits rr))\<rparr>"

definition semSecurityContext :: "security_context \<Rightarrow> security_context" where
  "semSecurityContext sc = sc\<lparr>scCapabilities := map_option
     (\<lambda>cp. \<lparr>capAdd = semSlice (capAdd cp), capDrop = semSlice (capDrop cp)\<rparr>) (scCapabilities sc)\<rparr>"

definition semContainer :: "env \<Rightarrow> container \<Rightarrow> container" where
  "semContainer e ct = ct\<lparr>cCommand := semSlice (cCommand ct), cArgs := semSlice (cArgs ct), cPorts := semSlice (cPorts ct),
     cEnv := semSlice (cEnv ct), cVolumeMounts := semSlice (cVolumeMounts ct), cResources := semResources e (cResources ct),
     cSecurityContext := map_option semSecurityContext (cSecurityContext ct)\<rparr>"

definition semSelector :: "label_selector option \<Rightarrow> label_selector option" where
  "semSelector s = map_option (\<lambda>l. l\<lparr>lsMatchLabels := semMap (lsMatchLabels l)\<rparr>) s"

text \<open>The disjunction of the comparisons; the last operand, on the first containers, is evaluated only
  when the others found no difference.\<close>

definition pluginDeploymentDiffers :: "env \<Rightarrow> deployment \<Rightarrow> deployment \<Rightarrow> bool" where
  "pluginDeploymentDiffers e existing new \<longleftrightarrow>
     (let et = depTemplate existing; nt = depTemplate new; es = pod existing; ns = pod new
      in semMap (metaLabels (depMeta existing)) \<noteq> semMap (metaLabels (depMeta new)) \<or>
         depReplicas existing \<noteq> depReplicas new \<or>
         semSelector (depSelector existing) \<noteq> semSelector (depSelector new) \<or>
         semMap (ptLabels et) \<noteq> semMap (ptLabels nt) \<or>
         gindex (ptAnnotations et) ''httpd-cfg-hash'' \<noteq> gindex (ptAnnotations nt) ''httpd-cfg-hash'' \<or>
         map (semContainer e) (sortContainers (psContainers es)) \<noteq> map (semContainer e) (sortContainers (psContainers ns)) \<or>
         sortVolumes (psVolumes es) \<noteq> sortVolumes (psVolumes ns) \<or>
         psRestartPolicy es \<noteq> psRestartPolicy ns \<or>
         psDNSPolicy es \<noteq> psDNSPolicy ns \<or>
         semMap (psNodeSelector es) \<noteq> semMap (psNodeSelector ns) \<or>
         sortTolerations (psTolerations es) \<noteq> sortTolerations (psTolerations ns) \<or>
         psSecurityContext es \<noteq> psSecurityContext ns)"

definition pluginDeploymentChanged :: "env \<Rightarrow> deployment \<Rightarrow> deployment \<Rightarrow> bool outcome" where
  "pluginDeploymentChanged e existing new =
     (if pluginDeploymentDiffers e existing new then Ok True
      else (case (psContainers (pod existing), psContainers (pod new)) of
        (ct # _, nct # _) \<Rightarrow> Ok (semResources e (cResources ct) \<noteq> semResources e (cResources nct))
      | _ \<Rightarrow> Panic IndexOutOfRange))"

definition applyPluginDeployment :: "deployment \<Rightarrow> deployment \<Rightarrow> deployment" where
  "applyPluginDeployment new existing =
     existing\<lparr>depMeta := (depMeta existing)\<lparr>metaLabels := metaLabels (depMeta new)\<rparr>,
       depReplicas := depReplicas new,
       depSelector := depSelector new,
       depTemplate := (depTemplate existing)\<lparr>
         ptLabels := ptLabels (depTemplate new),
         ptAnnotations := gput (gmake (ptAnnotations (depTemplate existing))) ''httpd-cfg-hash''
           (gindex (ptAnnotations (depTemplate new)) ''httpd-cfg-hash''),
         ptSpec := (pod existing)\<lparr>
           psSecurityContext := psSecurityContext (pod new),
           psContainers := psContainers (pod new),
           psVolumes := psVolumes (pod new),
           psRestartPolicy := psRestartPolicy (pod new),
           psDNSPolicy := psDNSPolicy (pod new),
           psNodeSelector := psNodeSelector (pod new),
           psTolerations := psTolerations (pod new)\<rparr>\<rparr>\<rparr>"

section \<open>Reconciliation\<close>

definition pluginResourcesOverride :: "gitops_service \<Rightarrow> resource_requirements option" where
  "pluginResourcesOverride inst = (case gsConsolePlugin (gsSpec inst) of
      None \<Rightarrow> None
    | Some cp \<Rightarrow> (case cpsGitopsPlugin cp of None \<Rightarrow> None | Some b \<Rightarrow> gpsResources b))"

definition desiredPluginDeployment ::
  "env \<Rightarrow> string \<Rightarrow> gitops_service \<Rightarrow> config_map \<Rightarrow> bool \<Rightarrow> ('w, deployment) act" where
  "desiredPluginDeployment e ns inst cm isPF5 =
     (let d = pluginDeployment e ns (gsImagePullPolicy (gsSpec inst)) isPF5
      in bindG (liftE (SetControllerReference e (gsMeta inst) (depMeta d))) (\<lambda>m.
         bindG (liftO (placePod inst (pluginResourcesOverride inst) (pod d))) (\<lambda>ps.
         let d' = set_spec ps (d\<lparr>depMeta := m\<rparr>)
         in ret (d'\<lparr>depTemplate := (depTemplate d')\<lparr>ptAnnotations :=
              gput (ptAnnotations (depTemplate d')) ''httpd-cfg-hash'' (getConfigMapHash e cm)\<rparr>\<rparr>))))"

definition reconcileDeployment ::
  "env \<Rightarrow> 'w client \<Rightarrow> string \<Rightarrow> gitops_service \<Rightarrow> config_map \<Rightarrow> bool \<Rightarrow> ('w, unit) act" where
  "reconcileDeployment e c ns inst cm isPF5 =
     bindG (desiredPluginDeployment e ns inst cm isPF5) (\<lambda>new.
       getOrCreate c as_deployment (ODeployment new) (\<lambda>existing.
         bindG (liftO (pluginDeploymentChanged e existing new)) (\<lambda>changed.
           if changed then updateO c (ODeployment (applyPluginDeployment new existing)) else ret ())))"

definition reconcileService :: "env \<Rightarrow> 'w client \<Rightarrow> string \<Rightarrow> gitops_service \<Rightarrow> ('w, unit) act" where
  "reconcileService e c ns inst =
     (let x = pluginService ns
      in bindG (liftE (SetControllerReference e (gsMeta inst) (svcMeta x))) (\<lambda>m.
         getOrCreate c as_service (OService (x\<lparr>svcMeta := m\<rparr>)) (\<lambda>existing.
           if metaAnnotations (svcMeta existing) \<noteq> metaAnnotations m \<or> metaLabels (svcMeta existing) \<noteq> metaLabels m \<or>
              svcSelector existing \<noteq> svcSelector x \<or> svcPorts existing \<noteq> svcPorts x
           then updateO c (OService (existing\<lparr>
             svcMeta := (svcMeta existing)\<lparr>metaAnnotations := metaAnnotations m, metaLabels := metaLabels m\<rparr>,
             svcSelector := svcSelector x, svcPorts := svcPorts x\<rparr>))
           else ret ())))"

definition reconcileConsolePlugin :: "env \<Rightarrow> 'w client \<Rightarrow> string \<Rightarrow> gitops_service \<Rightarrow> ('w, unit) act" where
  "reconcileConsolePlugin e c ns inst =
     (let x = consolePlugin ns
      in bindG (liftE (SetControllerReference e (gsMeta inst) (cplMeta x))) (\<lambda>m.
         getOrCreate c as_console_plugin (OConsolePlugin (x\<lparr>cplMeta := m\<rparr>)) (\<lambda>existing.
           if cplDisplayName existing \<noteq> cplDisplayName x \<or> cplService existing \<noteq> cplService x
           then updateO c (OConsolePlugin (existing\<lparr>cplDisplayName := cplDisplayName x, cplService := cplService x\<rparr>))
           else ret ())))"

definition reconcileConfigMap :: "env \<Rightarrow> 'w client \<Rightarrow> gitops_service \<Rightarrow> config_map \<Rightarrow> ('w, unit) act" where
  "reconcileConfigMap e c inst x =
     bindG (liftE (SetControllerReference e (gsMeta inst) (cmMeta x))) (\<lambda>m.
       getOrCreate c as_config_map (OConfigMap (x\<lparr>cmMeta := m\<rparr>)) (\<lambda>existing.
         if cmData existing \<noteq> cmData x \<or> metaLabels (cmMeta existing) \<noteq> metaLabels m
         then updateO c (OConfigMap (existing\<lparr>cmMeta := (cmMeta existing)\<lparr>metaLabels := metaLabels m\<rparr>, cmData := cmData x\<rparr>))
         else ret ()))"

definition deleteOldPlugin :: "'w client \<Rightarrow> string \<Rightarrow> key \<Rightarrow> ('w, unit) act" where
  "deleteOldPlugin c what k = handle (getO c k) (\<lambda>_. ret ()) (\<lambda>_.
     handle (deleteO c k)
       (\<lambda>err. if \<not> IsNotFound err
         then fail (Wrapped (''failed to delete old plugin '' @ what @ '' from namespace '' @ serviceNamespace) err) else ret ())
       (\<lambda>_. ret ()))"

definition cleanupOldPluginResources :: "'w client \<Rightarrow> string \<Rightarrow> ('w, unit) act" where
  "cleanupOldPluginResources c ns =
     (if ns = serviceNamespace then ret ()
      else thenG (deleteOldPlugin c ''Deployment'' (KDeployment, serviceNamespace, gitopsPluginName))
        (thenG (deleteOldPlugin c ''Service'' (KService, serviceNamespace, gitopsPluginName))
               (deleteOldPlugin c ''ConfigMap'' (KConfigMap, serviceNamespace, httpdConfigMapName))))"

definition ensurePluginNamespace :: "'w client \<Rightarrow> string \<Rightarrow> ('w, unit) act" where
  "ensurePluginNamespace c ns = handle (getAs c as_namespace (KNamespace, '''', ns))
     (\<lambda>err. if \<not> IsNotFound err then fail (Wrapped (''failed to retrieve plugin namespace '' @ ns) err)
       else handle (createO c (ONamespace \<lparr>nsMeta = mkMeta ns ''''\<rparr>))
         (\<lambda>err'. if \<not> IsAlreadyExists err' then fail (Wrapped (''failed to create plugin namespace '' @ ns) err') else ret ())
         (\<lambda>_. ret ()))
     (\<lambda>_. ret ())"

definition reconcilePlugin ::
  "env \<Rightarrow> api_flags \<Rightarrow> 'w client \<Rightarrow> tls_profile \<Rightarrow> string \<Rightarrow> gitops_service \<Rightarrow> bool \<Rightarrow> ('w, unit) act" where
  "reconcilePlugin e f c tls ns inst isPF5 =
     (if \<not> consoleAPIFound f then ret ()
      else thenG (ensurePluginNamespace c ns)
        (let cm = pluginConfigMap tls ns
         in thenG (reconcileService e c ns inst)
           (thenG (reconcileConfigMap e c inst cm)
           (thenG (reconcileDeployment e c ns inst cm isPF5)
                  (reconcileConsolePlugin e c ns inst)))))"

end
