(* ===== verification/Plugin_Correct.thy ===== *)
theory Plugin_Correct
  imports Console_Plugin
begin

text \<open>
  Correctness of the reconciliation of the console plugin: what a successful pass establishes, that
  the comparison of deployments neither panics nor asks for an update of what it has just written,
  that it does not depend on the order of the lists it sorts (and on which order it does depend),
  the lines of the httpd configuration, and the objects that are touched.
\<close>

section \<open>Keys\<close>

abbreviation pluginNSKey :: "string \<Rightarrow> key" where
  "pluginNSKey ns \<equiv> (KNamespace, [], ns)"

abbreviation pluginSvcKey :: "string \<Rightarrow> key" where
  "pluginSvcKey ns \<equiv> (KService, ns, gitopsPluginName)"

abbreviation pluginCMKey :: "string \<Rightarrow> key" where
  "pluginCMKey ns \<equiv> (KConfigMap, ns, httpdConfigMapName)"

abbreviation pluginDeployKey :: "string \<Rightarrow> key" where
  "pluginDeployKey ns \<equiv> (KDeployment, ns, gitopsPluginName)"

abbreviation consolePluginKey :: key where
  "consolePluginKey \<equiv> (KConsolePlugin, [], gitopsPluginName)"

definition pluginKeys :: "string \<Rightarrow> key set" where
  "pluginKeys ns = {pluginNSKey ns, pluginSvcKey ns, pluginCMKey ns, pluginDeployKey ns, consolePluginKey}"

definition oldPluginKeys :: "string \<Rightarrow> key set" where
  "oldPluginKeys ns = (if ns = serviceNamespace then {}
     else {pluginDeployKey serviceNamespace, pluginSvcKey serviceNamespace, pluginCMKey serviceNamespace})"

section \<open>The comparison of deployments\<close>

lemma length_sortContainers [simp]: "length (sortContainers xs) = length xs"
  by (simp add: sortContainers_def)

lemma not_differs_length:
  "\<not> pluginDeploymentDiffers e d new \<Longrightarrow> length (psContainers (pod d)) = length (psContainers (pod new))"
  by (metis (no_types, lifting) length_map length_sortContainers pluginDeploymentDiffers_def)

lemma pluginDeploymentChanged_total:
  assumes "psContainers (pod new) \<noteq> []"
  shows "\<exists>b. pluginDeploymentChanged e d new = Ok b"
proof (cases "pluginDeploymentDiffers e d new")
  case False
  from not_differs_length[OF this] assms show ?thesis
    by (cases "psContainers (pod d)"; cases "psContainers (pod new)") (auto simp: pluginDeploymentChanged_def)
qed (auto simp: pluginDeploymentChanged_def)

lemma pluginDeploymentChanged_refl:
  "psContainers (pod new) \<noteq> [] \<Longrightarrow> pluginDeploymentChanged e new new = Ok False"
  by (cases "psContainers (pod new)") (simp_all add: pluginDeploymentChanged_def pluginDeploymentDiffers_def Let_def)

lemma pluginDeploymentChanged_applied:
  "psContainers (pod new) \<noteq> [] \<Longrightarrow> pluginDeploymentChanged e (applyPluginDeployment new d) new = Ok False"
  by (cases "psContainers (pod new)")
    (simp_all add: pluginDeploymentChanged_def pluginDeploymentDiffers_def applyPluginDeployment_def Let_def)

lemma applyPluginDeployment_key: "okey (ODeployment (applyPluginDeployment new d)) = okey (ODeployment d)"
  by (simp add: okey_def applyPluginDeployment_def)

text \<open>Sorting forgets the order of elements with different keys.\<close>

lemma sort_key_perm:
  assumes "mset xs = mset ys" and "distinct (map f xs)"
  shows "sort_key f xs = sort_key f ys"
proof (rule properties_for_sort_key)
  show "mset (sort_key f ys) = mset xs" using assms(1) by simp
  show "sorted (map f (sort_key f ys))" by simp
  fix k
  have one: "length (filter (\<lambda>x. f k = f x) zs) \<le> 1" if "distinct (map f zs)" for zs
    using that by (induction zs) (auto simp: filter_empty_conv)
  have m: "mset (filter (\<lambda>x. f k = f x) (sort_key f ys)) = mset (filter (\<lambda>x. f k = f x) xs)"
    using assms(1) by (simp add: mset_filter)
  show "filter (\<lambda>x. f k = f x) (sort_key f ys) = filter (\<lambda>x. f k = f x) xs"
  proof (cases "filter (\<lambda>x. f k = f x) xs")
    case Nil
    with m show ?thesis by simp
  next
    case (Cons a as)
    with one[OF assms(2)] have "as = []" by simp
    with m Cons show ?thesis by (metis mset_single_iff_right mset.simps)
  qed
qed

section \<open>Create or update\<close>

lemma as_service_Some [simp]: "as_service y = Some a \<longleftrightarrow> y = OService a"
  by (cases y) auto

lemma as_config_map_Some [simp]: "as_config_map y = Some a \<longleftrightarrow> y = OConfigMap a"
  by (cases y) auto

lemma as_console_plugin_Some [simp]: "as_console_plugin y = Some a \<longleftrightarrow> y = OConsolePlugin a"
  by (cases y) auto

lemma plugin_metas [simp]:
  "metaName (svcMeta (pluginService ns)) = gitopsPluginName" "metaNamespace (svcMeta (pluginService ns)) = ns"
  "metaName (cplMeta (consolePlugin ns)) = gitopsPluginName" "metaNamespace (cplMeta (consolePlugin ns)) = []"
  "metaName (cmMeta (pluginConfigMap tls ns)) = httpdConfigMapName" "metaNamespace (cmMeta (pluginConfigMap tls ns)) = ns"
  "metaName (depMeta (pluginDeployment e ns p i)) = gitopsPluginName"
  "metaNamespace (depMeta (pluginDeployment e ns p i)) = ns"
  by (simp_all add: pluginService_def consolePlugin_def pluginConfigMap_def AddTrackedByOperatorLabel_def pluginDeployment_def)

lemma desiredPluginDeployment_Ok:
  assumes "desiredPluginDeployment e ns inst cm isPF5 w = (Ok d, w')"
  shows "okey (ODeployment d) = pluginDeployKey ns" and "psContainers (pod d) \<noteq> []" and "w' = w"
    and "gindex (ptAnnotations (depTemplate d)) ''httpd-cfg-hash'' = getConfigMapHash e cm"
proof -
  let ?d = "pluginDeployment e ns (gsImagePullPolicy (gsSpec inst)) isPF5"
  from assms obtain m ps where m: "SetControllerReference e (gsMeta inst) (depMeta ?d) = Inr m"
    and p: "placePod inst (pluginResourcesOverride inst) (pod ?d) = Ok ps"
    and d: "d = (set_spec ps (?d\<lparr>depMeta := m\<rparr>))\<lparr>depTemplate := (depTemplate (set_spec ps (?d\<lparr>depMeta := m\<rparr>)))\<lparr>ptAnnotations :=
              gput (ptAnnotations (depTemplate (set_spec ps (?d\<lparr>depMeta := m\<rparr>)))) ''httpd-cfg-hash'' (getConfigMapHash e cm)\<rparr>\<rparr>"
    and "w' = w"
    by (auto simp: desiredPluginDeployment_def ok_iff Let_def)
  then show "w' = w" by simp
  show "okey (ODeployment d) = pluginDeployKey ns"
    using SetControllerReference_Inr[OF m] d by (simp add: okey_def)
  have "psContainers (pod ?d) = [pluginContainer e (gsImagePullPolicy (gsSpec inst)) isPF5]"
    by (simp add: pluginDeployment_def getPluginPodSpec_def)
  from placePod_Ok(1)[OF p this] d show "psContainers (pod d) \<noteq> []" by (simp add: set_spec_def)
  show "gindex (ptAnnotations (depTemplate d)) ''httpd-cfg-hash'' = getConfigMapHash e cm" using d by simp
qed

context verbatim_client begin

lemma createOrUpdate_Ok:
  assumes "getOrCreate c cast (wrap d) found w = (Ok u, w')" and "\<not> refreshable (obj_kind (wrap d))"
    and "\<And>y a. cast y = Some a \<longleftrightarrow> y = wrap a" and "Q d"
    and "\<And>a w1 w2. found a w1 = (Ok u, w2) \<Longrightarrow> view w2 = view w1 \<and> Q a \<or>
      (\<exists>b. updateO c (wrap b) w1 = (Ok u, w2) \<and> okey (wrap b) = okey (wrap a) \<and> Q b)"
  shows "\<exists>a. view w' = (view w)(okey (wrap d) \<mapsto> wrap a) \<and> Q a"
  using assms(1,2)
proof (cases rule: getOrCreate_Ok)
  case created
  with assms(4) show ?thesis by (auto simp: admit_id)
next
  case (found y a w1)
  then have y: "y = wrap a" using assms(3) by simp
  with found have k: "okey (wrap a) = okey (wrap d)" by (auto dest: view_key)
  from assms(5)[OF found(4)] show ?thesis
  proof (elim disjE conjE exE)
    assume "view w' = view w1" "Q a"
    with found(1,3) y show ?thesis by (metis fun_upd_triv)
  next
    fix b assume "updateO c (wrap b) w1 = (Ok u, w')" "okey (wrap b) = okey (wrap a)" "Q b"
    with updateO_Ok(1) found(3) k show ?thesis by (metis admit_id)
  qed
qed

lemma pluginDeployment_Ok:
  assumes "reconcileDeployment e c ns inst cm isPF5 w = (Ok u, w')"
  shows "\<exists>new d. desiredPluginDeployment e ns inst cm isPF5 w = (Ok new, w) \<and>
    view w' = (view w)(pluginDeployKey ns \<mapsto> ODeployment d) \<and> pluginDeploymentChanged e d new = Ok False"
proof -
  from assms obtain new w1 where n: "desiredPluginDeployment e ns inst cm isPF5 w = (Ok new, w1)"
    and g: "getOrCreate c as_deployment (ODeployment new) (\<lambda>existing.
         bindG (liftO (pluginDeploymentChanged e existing new)) (\<lambda>changed.
           if changed then updateO c (ODeployment (applyPluginDeployment new existing)) else ret ())) w1 = (Ok u, w')"
    by (auto simp: reconcileDeployment_def bindG_Ok_iff)
  note d = desiredPluginDeployment_Ok[OF n]
  have "\<exists>a. view w' = (view w1)(okey (ODeployment new) \<mapsto> ODeployment a) \<and> pluginDeploymentChanged e a new = Ok False"
  proof (rule createOrUpdate_Ok[where wrap = ODeployment, OF g])
    fix a w2 w3
    assume "bindG (liftO (pluginDeploymentChanged e a new)) (\<lambda>changed.
           if changed then updateO c (ODeployment (applyPluginDeployment new a)) else ret ()) w2 = (Ok u, w3)"
    then obtain ch where "pluginDeploymentChanged e a new = Ok ch"
      and "(if ch then updateO c (ODeployment (applyPluginDeployment new a)) else ret ()) w2 = (Ok u, w3)"
      by (auto simp: ok_iff)
    then show "view w3 = view w2 \<and> pluginDeploymentChanged e a new = Ok False \<or>
        (\<exists>b. updateO c (ODeployment b) w2 = (Ok u, w3) \<and> okey (ODeployment b) = okey (ODeployment a) \<and>
           pluginDeploymentChanged e b new = Ok False)"
      using pluginDeploymentChanged_applied[OF d(2)] applyPluginDeployment_key by (cases ch) auto
  qed (simp_all add: refreshable_def pluginDeploymentChanged_refl d(2))
  with n d show ?thesis by auto
qed

lemma pluginService_Ok:
  assumes "reconcileService e c ns inst w = (Ok u, w')"
  shows "\<exists>s. view w' = (view w)(pluginSvcKey ns \<mapsto> OService s) \<and>
    svcSelector s = svcSelector (pluginService ns) \<and> svcPorts s = svcPorts (pluginService ns) \<and>
    metaLabels (svcMeta s) = metaLabels (svcMeta (pluginService ns)) \<and>
    metaAnnotations (svcMeta s) = metaAnnotations (svcMeta (pluginService ns))"
proof -
  let ?x = "pluginService ns"
  from assms obtain m where m: "SetControllerReference e (gsMeta inst) (svcMeta ?x) = Inr m"
    and g: "getOrCreate c as_service (OService (?x\<lparr>svcMeta := m\<rparr>)) (\<lambda>existing.
           if metaAnnotations (svcMeta existing) \<noteq> metaAnnotations m \<or> metaLabels (svcMeta existing) \<noteq> metaLabels m \<or>
              svcSelector existing \<noteq> svcSelector ?x \<or> svcPorts existing \<noteq> svcPorts ?x
           then updateO c (OService (existing\<lparr>
             svcMeta := (svcMeta existing)\<lparr>metaAnnotations := metaAnnotations m, metaLabels := metaLabels m\<rparr>,
             svcSelector := svcSelector ?x, svcPorts := svcPorts ?x\<rparr>))
           else ret ()) w = (Ok u, w')"
    by (auto simp: reconcileService_def bindG_Ok_iff liftE_Ok_iff Let_def)
  note mm = SetControllerReference_Inr[OF m]
  have k: "okey (OService (?x\<lparr>svcMeta := m\<rparr>)) = pluginSvcKey ns" by (simp add: okey_def mm)
  have "\<exists>a. view w' = (view w)(okey (OService (?x\<lparr>svcMeta := m\<rparr>)) \<mapsto> OService a) \<and>
      (svcSelector a = svcSelector ?x \<and> svcPorts a = svcPorts ?x \<and>
       metaLabels (svcMeta a) = metaLabels m \<and> metaAnnotations (svcMeta a) = metaAnnotations m)"
    by (rule createOrUpdate_Ok[where wrap = OService, OF g]) (auto simp: refreshable_def okey_def split: if_splits)
  with k mm show ?thesis by simp
qed

lemma consolePlugin_Ok:
  assumes "reconcileConsolePlugin e c ns inst w = (Ok u, w')"
  shows "\<exists>p. view w' = (view w)(consolePluginKey \<mapsto> OConsolePlugin p) \<and>
    cplDisplayName p = cplDisplayName (consolePlugin ns) \<and> cplService p = cplService (consolePlugin ns)"
proof -
  let ?x = "consolePlugin ns"
  from assms obtain m where m: "SetControllerReference e (gsMeta inst) (cplMeta ?x) = Inr m"
    and g: "getOrCreate c as_console_plugin (OConsolePlugin (?x\<lparr>cplMeta := m\<rparr>)) (\<lambda>existing.
           if cplDisplayName existing \<noteq> cplDisplayName ?x \<or> cplService existing \<noteq> cplService ?x
           then updateO c (OConsolePlugin (existing\<lparr>cplDisplayName := cplDisplayName ?x, cplService := cplService ?x\<rparr>))
           else ret ()) w = (Ok u, w')"
    by (auto simp: reconcileConsolePlugin_def bindG_Ok_iff liftE_Ok_iff Let_def)
  have k: "okey (OConsolePlugin (?x\<lparr>cplMeta := m\<rparr>)) = consolePluginKey"
    by (simp add: okey_def SetControllerReference_Inr[OF m])
  have "\<exists>a. view w' = (view w)(okey (OConsolePlugin (?x\<lparr>cplMeta := m\<rparr>)) \<mapsto> OConsolePlugin a) \<and>
      (cplDisplayName a = cplDisplayName ?x \<and> cplService a = cplService ?x)"
    by (rule createOrUpdate_Ok[where wrap = OConsolePlugin, OF g]) (auto simp: refreshable_def okey_def split: if_splits)
  with k show ?thesis by simp
qed

text \<open>A ConfigMap read through the wrapping client may come back with one more label than the server's.\<close>

lemma refresh_data: "OConfigMap cm = refresh (OConfigMap cm0) \<Longrightarrow> cmData cm = cmData cm0"
  using refresh_labels[of "obj_labels (OConfigMap cm0)" "OConfigMap cm0"]
  by (metis config_map.select_convs(2) config_map.surjective config_map.update_convs(1) obj.inject(9) set_labels_def
      set_labels_same set_meta.simps(9))

lemma pluginConfigMap_Ok:
  assumes "reconcileConfigMap e c inst x w = (Ok u, w')"
  shows "\<exists>cm. view w' = (view w)(okey (OConfigMap x) \<mapsto> OConfigMap cm) \<and> cmData cm = cmData x"
proof -
  from assms obtain m where m: "SetControllerReference e (gsMeta inst) (cmMeta x) = Inr m"
    and g: "getOrCreate c as_config_map (OConfigMap (x\<lparr>cmMeta := m\<rparr>)) (\<lambda>existing.
         if cmData existing \<noteq> cmData x \<or> metaLabels (cmMeta existing) \<noteq> metaLabels m
         then updateO c (OConfigMap (existing\<lparr>cmMeta := (cmMeta existing)\<lparr>metaLabels := metaLabels m\<rparr>, cmData := cmData x\<rparr>))
         else ret ()) w = (Ok u, w')"
    by (auto simp: reconcileConfigMap_def bindG_Ok_iff liftE_Ok_iff)
  have k: "okey (OConfigMap (x\<lparr>cmMeta := m\<rparr>)) = okey (OConfigMap x)"
    by (simp add: okey_def SetControllerReference_Inr[OF m])
  from g[unfolded getOrCreate_def k] show ?thesis
  proof (subst (asm) handle_Ok_iff, elim disjE exE conjE)
    fix a w1
    assume ga: "getAs c as_config_map (okey (OConfigMap x)) w = (Ok a, w1)"
      and f: "(if cmData a \<noteq> cmData x \<or> metaLabels (cmMeta a) \<noteq> metaLabels m
         then updateO c (OConfigMap (a\<lparr>cmMeta := (cmMeta a)\<lparr>metaLabels := metaLabels m\<rparr>, cmData := cmData x\<rparr>))
         else ret ()) w1 = (Ok u, w')"
    from getAs_found[OF ga] obtain x0 where v: "view w (okey (OConfigMap x)) = Some x0"
      and xx: "OConfigMap a = x0 \<or> OConfigMap a = refresh x0"
      and v1: "view w1 = view w \<or> view w1 = (view w)(okey (OConfigMap x) \<mapsto> refresh x0)" by auto
    have ka: "okey (OConfigMap a) = okey (OConfigMap x)" using xx view_key[OF v] by (metis refresh_key)
    show ?thesis
    proof (cases "cmData a \<noteq> cmData x \<or> metaLabels (cmMeta a) \<noteq> metaLabels m")
      case True
      with f have "updateO c (OConfigMap (a\<lparr>cmMeta := (cmMeta a)\<lparr>metaLabels := metaLabels m\<rparr>, cmData := cmData x\<rparr>)) w1 = (Ok u, w')"
        by simp
      from updateO_Ok(1)[OF this] ka v1 show ?thesis
        by (intro exI[of _ "a\<lparr>cmMeta := (cmMeta a)\<lparr>metaLabels := metaLabels m\<rparr>, cmData := cmData x\<rparr>"])
          (auto simp: admit_id okey_def)
    next
      case False
      with f have w': "w' = w1" and da: "cmData a = cmData x" by auto
      from view_key[OF v] obtain cm0 where cm0: "x0 = OConfigMap cm0" by (cases x0) (auto simp: okey_def)
      have "obj_kind (refresh x0) = KConfigMap" using refresh_key[of x0] cm0 by (auto simp: okey_def)
      then obtain cm1 where cm1: "refresh x0 = OConfigMap cm1" by (cases "refresh x0") auto
      have "cmData cm1 = cmData cm0" using cm0 cm1 refresh_data by metis
      with da xx cm0 cm1 have "cmData cm0 = cmData x" "cmData cm1 = cmData x" by auto
      with v1 v w' cm0 cm1 show ?thesis by (metis fun_upd_triv)
    qed
  next
    fix err w1
    assume ge: "getAs c as_config_map (okey (OConfigMap x)) w = (Err err, w1)"
      and r: "(if IsNotFound err then createO c (OConfigMap (x\<lparr>cmMeta := m\<rparr>)) else fail err) w1 = (Ok u, w')"
    then have nf: "IsNotFound err" and cr: "createO c (OConfigMap (x\<lparr>cmMeta := m\<rparr>)) w1 = (Ok u, w')"
      by (auto split: if_splits)
    from getAs_NotFound(2)[OF ge nf] createO_Ok(1)[OF cr] k show ?thesis
      by (intro exI[of _ "x\<lparr>cmMeta := m\<rparr>"]) (simp add: admit_id)
  qed
qed

end

section \<open>The whole plugin\<close>

definition pluginConverged ::
  "env \<Rightarrow> tls_profile \<Rightarrow> string \<Rightarrow> gitops_service \<Rightarrow> bool \<Rightarrow> (key \<Rightarrow> obj option) \<Rightarrow> bool" where
  "pluginConverged e tls ns inst isPF5 v \<longleftrightarrow>
     v (pluginNSKey ns) \<noteq> None \<and>
     (\<exists>s. v (pluginSvcKey ns) = Some (OService s) \<and>
        svcSelector s = svcSelector (pluginService ns) \<and> svcPorts s = svcPorts (pluginService ns) \<and>
        metaLabels (svcMeta s) = metaLabels (svcMeta (pluginService ns)) \<and>
        metaAnnotations (svcMeta s) = metaAnnotations (svcMeta (pluginService ns))) \<and>
     (\<exists>cm. v (pluginCMKey ns) = Some (OConfigMap cm) \<and> gget (cmData cm) = [''httpd.conf'' \<mapsto> buildHttpdConfig tls]) \<and>
     (\<exists>new d. desiredPluginDeployment e ns inst (pluginConfigMap tls ns) isPF5 () = (Ok new, ()) \<and>
        v (pluginDeployKey ns) = Some (ODeployment d) \<and> pluginDeploymentChanged e d new = Ok False) \<and>
     (\<exists>p. v consolePluginKey = Some (OConsolePlugin p) \<and>
        cplDisplayName p = pluginDisplayName \<and> cplService p = cplService (consolePlugin ns))"

text \<open>The desired deployment does not depend on the world.\<close>

lemma desiredPluginDeployment_world:
  "desiredPluginDeployment e ns inst cm isPF5 w = (Ok d, w') \<Longrightarrow> desiredPluginDeployment e ns inst cm isPF5 v = (Ok d, v)"
  by (auto simp: desiredPluginDeployment_def ok_iff Let_def)

context k8s_client begin

lemma ensurePluginNamespace_Ok:
  assumes "ensurePluginNamespace c ns w = (Ok u, w')"
  shows "\<exists>v. v \<noteq> None \<and> view w' = (view w)(pluginNSKey ns := v)"
proof -
  have k: "okey (ONamespace \<lparr>nsMeta = mkMeta ns []\<rparr>) = pluginNSKey ns" by (simp add: okey_def)
  from assms consider
      n where "getAs c as_namespace (pluginNSKey ns) w = (Ok n, w')"
    | err w1 where "getAs c as_namespace (pluginNSKey ns) w = (Err err, w1)" "IsNotFound err"
        "createO c (ONamespace \<lparr>nsMeta = mkMeta ns []\<rparr>) w1 = (Ok (), w')"
    | err w1 err' where "getAs c as_namespace (pluginNSKey ns) w = (Err err, w1)" "IsNotFound err"
        "createO c (ONamespace \<lparr>nsMeta = mkMeta ns []\<rparr>) w1 = (Err err', w')" "IsAlreadyExists err'"
    by (auto simp: ensurePluginNamespace_def handle_Ok_iff split: if_splits)
  then show ?thesis
  proof cases
    case 1
    from getAs_Ok[OF 1] show ?thesis by (metis fst_conv fun_upd_triv kind.distinct(15) kind.distinct(17) option.distinct(1) refreshable_def)
  next
    case 2
    from createO_Ok(1)[OF 2(3)] getAs_NotFound(2)[OF 2(1,2)] k show ?thesis by auto
  next
    case 3
    from createO_AlreadyExists[OF 3(3,4)] getAs_NotFound(2)[OF 3(1,2)] k show ?thesis by (metis fun_upd_triv)
  qed
qed

end

context verbatim_client begin

lemma reconcilePlugin_converged:
  assumes "reconcilePlugin e f c tls ns inst isPF5 w = (Ok u, w')" and "consoleAPIFound f"
  shows "pluginConverged e tls ns inst isPF5 (view w')"
proof -
  let ?cm = "pluginConfigMap tls ns"
  from assms obtain w1 w2 w3 w4 where
    s1: "ensurePluginNamespace c ns w = (Ok (), w1)" and s2: "reconcileService e c ns inst w1 = (Ok (), w2)" and
    s3: "reconcileConfigMap e c inst ?cm w2 = (Ok (), w3)" and
    s4: "reconcileDeployment e c ns inst ?cm isPF5 w3 = (Ok (), w4)" and
    s5: "reconcileConsolePlugin e c ns inst w4 = (Ok u, w')"
    by (auto simp: reconcilePlugin_def thenG_Ok_iff Let_def)
  from ensurePluginNamespace_Ok[OF s1] obtain n where n: "n \<noteq> None" "view w1 = (view w)(pluginNSKey ns := n)" by blast
  from pluginService_Ok[OF s2] obtain s where s: "view w2 = (view w1)(pluginSvcKey ns \<mapsto> OService s)"
    "svcSelector s = svcSelector (pluginService ns)" "svcPorts s = svcPorts (pluginService ns)"
    "metaLabels (svcMeta s) = metaLabels (svcMeta (pluginService ns))"
    "metaAnnotations (svcMeta s) = metaAnnotations (svcMeta (pluginService ns))" by blast
  have k: "okey (OConfigMap ?cm) = pluginCMKey ns" by (simp add: okey_def)
  from pluginConfigMap_Ok[OF s3] obtain cm where cm: "view w3 = (view w2)(pluginCMKey ns \<mapsto> OConfigMap cm)"
    "cmData cm = cmData ?cm" unfolding k by blast
  from pluginDeployment_Ok[OF s4] obtain new d where
    d: "desiredPluginDeployment e ns inst ?cm isPF5 w3 = (Ok new, w3)"
    "view w4 = (view w3)(pluginDeployKey ns \<mapsto> ODeployment d)" "pluginDeploymentChanged e d new = Ok False" by blast
  from consolePlugin_Ok[OF s5] obtain p where p: "view w' = (view w4)(consolePluginKey \<mapsto> OConsolePlugin p)"
    "cplDisplayName p = cplDisplayName (consolePlugin ns)" "cplService p = cplService (consolePlugin ns)" by blast
  have "gget (cmData cm) = [''httpd.conf'' \<mapsto> buildHttpdConfig tls]"
    by (auto simp: cm(2) pluginConfigMap_def fun_eq_iff)
  with n s cm(1) d(2,3) p desiredPluginDeployment_world[OF d(1), of "()"] show ?thesis
    by (simp add: pluginConverged_def consolePlugin_def)
qed

end

section \<open>What is touched\<close>

context k8s_client begin

text \<open>What follows once the namespace is there.\<close>

lemma reconcilePluginObjects_fp:
  assumes "pluginKeys ns - {pluginNSKey ns} \<subseteq> S"
  shows "act_rel (same_outside view S) (thenG (reconcileService e c ns inst)
    (thenG (reconcileConfigMap e c inst (pluginConfigMap tls ns))
    (thenG (reconcileDeployment e c ns inst (pluginConfigMap tls ns) isPF5) (reconcileConsolePlugin e c ns inst))))"
proof -
  have svc: "act_rel (same_outside view S) (reconcileService e c ns inst)"
    unfolding reconcileService_def Let_def using assms
    by (intro fp.rel_intros getOrCreate_fp updateO_fp)
      (auto simp: pluginKeys_def liftE_Ok_iff okey_def SetControllerReference_Inr)
  have cm: "act_rel (same_outside view S) (reconcileConfigMap e c inst (pluginConfigMap tls ns))"
    unfolding reconcileConfigMap_def using assms
    by (intro fp.rel_intros getOrCreate_fp updateO_fp)
      (auto simp: pluginKeys_def liftE_Ok_iff okey_def SetControllerReference_Inr)
  have cp: "act_rel (same_outside view S) (reconcileConsolePlugin e c ns inst)"
    unfolding reconcileConsolePlugin_def Let_def using assms
    by (intro fp.rel_intros getOrCreate_fp updateO_fp)
      (auto simp: pluginKeys_def liftE_Ok_iff okey_def SetControllerReference_Inr)
  have des: "act_rel (same_outside view S) (desiredPluginDeployment e ns inst (pluginConfigMap tls ns) isPF5)"
    unfolding desiredPluginDeployment_def Let_def by (intro fp.rel_intros)
  have dep: "act_rel (same_outside view S) (reconcileDeployment e c ns inst (pluginConfigMap tls ns) isPF5)"
    unfolding reconcileDeployment_def
  proof (rule fp.rel_bindG[OF des])
    fix new w w1
    assume "desiredPluginDeployment e ns inst (pluginConfigMap tls ns) isPF5 w = (Ok new, w1)"
    then have "okey (ODeployment new) = pluginDeployKey ns" by (rule desiredPluginDeployment_Ok)
    with assms show "act_rel (same_outside view S) (getOrCreate c as_deployment (ODeployment new) (\<lambda>existing.
         bindG (liftO (pluginDeploymentChanged e existing new)) (\<lambda>changed.
           if changed then updateO c (ODeployment (applyPluginDeployment new existing)) else ret ())))"
      by (intro getOrCreate_fp fp.rel_intros updateO_fp) (auto simp: pluginKeys_def applyPluginDeployment_key)
  qed
  show ?thesis by (intro fp.rel_thenG svc cm dep cp)
qed

lemma reconcilePlugin_fp:
  assumes "pluginKeys ns \<subseteq> S"
  shows "act_rel (same_outside view S) (reconcilePlugin e f c tls ns inst isPF5)"
proof -
  have ns: "act_rel (same_outside view S) (ensurePluginNamespace c ns)"
    unfolding ensurePluginNamespace_def using assms
    by (intro fp.rel_intros getAs_fp createO_fp) (auto simp: pluginKeys_def okey_def)
  show ?thesis unfolding reconcilePlugin_def Let_def
    by (intro fp.rel_if fp.rel_ret fp.rel_thenG[OF ns] reconcilePluginObjects_fp) (use assms in auto)
qed

lemma cleanupOldPlugin_fp:
  assumes "oldPluginKeys ns \<subseteq> S"
  shows "act_rel (same_outside view S) (cleanupOldPluginResources c ns)"
  unfolding cleanupOldPluginResources_def deleteOldPlugin_def using assms
  by (intro fp.rel_intros getO_fp deleteO_fp) (auto simp: oldPluginKeys_def split: if_splits)

end

section \<open>The lines of the httpd configuration\<close>

lemma splitOn_joinStr:
  "xs \<noteq> [] \<Longrightarrow> (\<forall>x\<in>set xs. c \<notin> set x) \<Longrightarrow> splitOn c (joinStr [c] xs) = xs"
proof (induction xs rule: rev_induct)
  case (snoc x xs)
  have one: "splitOn c x = [x]" using snoc.prems by (induction x) auto
  show ?case
  proof (cases "xs = []")
    case False
    then have "joinStr [c] (xs @ [x]) = joinStr [c] xs @ c # x" by (simp add: joinStr_append_last)
    with snoc False show ?thesis by (simp add: splitOn_append_sep)
  qed (simp add: one)
qed simp

text \<open>The protocols from the minimum version on, with the names the profile and httpd have for them.\<close>

definition tlsVersions :: "(string \<times> string) list" where
  "tlsVersions = [(''VersionTLS10'', '' +TLSv1''), (''VersionTLS11'', '' +TLSv1.1''), (''VersionTLS12'', '' +TLSv1.2''),
     (''VersionTLS13'', '' +TLSv1.3'')]"

definition protocolLines :: "string \<Rightarrow> string list" where
  "protocolLines v = (let protocols = dropWhile (\<lambda>(v', _). v' \<noteq> v) tlsVersions
     in if protocols = [] then [] else [tab @ ''SSLProtocol -all'' @ concat (map snd protocols)])"

definition httpdLines :: "tls_profile \<Rightarrow> string list" where
  "httpdLines tls =
     (let ciphers = joinStr '':'' (Ciphers tls);
          groups = joinStr '':'' (filter (\<lambda>g. g \<in> set supportedOpenSSLTLSGroups) (CurvePreferences tls))
      in [''LoadModule ssl_module modules/mod_ssl.so'', ''Listen 9001 https'', ''ServerRoot '' @ quoted ''/etc/httpd'',
          ''<VirtualHost *:9001>'', tab @ ''DocumentRoot /var/www/html/plugin'', tab @ ''SSLEngine on'',
          tab @ ''SSLCertificateFile '' @ quoted ''/etc/httpd-ssl/certs/tls.crt'',
          tab @ ''SSLCertificateKeyFile '' @ quoted ''/etc/httpd-ssl/private/tls.key''] @
         protocolLines (MinVersion tls) @
         (if MinVersion tls = ''VersionTLS13'' \<or> ciphers = '''' then [] else [tab @ ''SSLCipherSuite '' @ ciphers]) @
         (if groups = '''' then [] else [tab @ ''SSLOpenSSLConfCmd Groups '' @ groups]) @
         [''</VirtualHost>''])"

lemma set_joinStr: "x \<in> set (joinStr sep xs) \<Longrightarrow> x \<in> set sep \<or> (\<exists>y\<in>set xs. x \<in> set y)"
  by (induction sep xs rule: joinStr.induct) auto

lemma joinStr_append: "xs \<noteq> [] \<Longrightarrow> joinStr sep (xs @ ys) = joinStr sep xs @ concat (map (\<lambda>y. sep @ y) ys)"
proof (induction ys arbitrary: xs)
  case (Cons y ys)
  then show ?case using Cons.IH[of "xs @ [y]"] by (simp add: joinStr_append_last)
qed simp

lemma sslProtocolLine_eq: "sslProtocolLine v = concat (map (\<lambda>y. newline @ y) (protocolLines v))"
  by (simp add: sslProtocolLine_def protocolLines_def tlsVersions_def Let_def)

lemma buildHttpdConfig_lines: "buildHttpdConfig tls = joinStr newline (httpdLines tls)"
proof -
  let ?g = "joinStr '':'' (filter (\<lambda>g. g \<in> set supportedOpenSSLTLSGroups) (CurvePreferences tls))"
  have g: "MapOpenShiftTLSGroupsToOpenSSL (CurvePreferences tls) comp = ?g" for comp
    by (simp add: MapOpenShiftTLSGroupsToOpenSSL_def)
  show ?thesis
    by (simp only: buildHttpdConfig_def httpdLines_def httpdConfigHead_def sslProtocolLine_eq protocolLines_def[symmetric] Let_def g
        joinStr_append[of "_ # _", OF list.distinct(2)] map_append concat_append append_assoc) simp
qed

lemma supportedGroups_no_newline: "g \<in> set supportedOpenSSLTLSGroups \<Longrightarrow> CHR 0x0A \<notin> set g"
  by (auto simp: supportedOpenSSLTLSGroups_def)

lemma httpdLines_no_newline:
  assumes "\<forall>s\<in>set (Ciphers tls). CHR 0x0A \<notin> set s" and "l \<in> set (httpdLines tls)"
  shows "CHR 0x0A \<notin> set l"
proof -
  have c: "CHR 0x0A \<notin> set (joinStr '':'' (Ciphers tls))" using assms(1) by (auto dest!: set_joinStr)
  have g: "CHR 0x0A \<notin> set (joinStr '':'' (filter (\<lambda>g. g \<in> set supportedOpenSSLTLSGroups) (CurvePreferences tls)))"
    by (auto dest!: set_joinStr supportedGroups_no_newline)
  have p: "l \<in> set (protocolLines v) \<Longrightarrow> CHR 0x0A \<notin> set l" for v
    by (auto simp: protocolLines_def tlsVersions_def tab_def Let_def split: if_splits)
  show ?thesis using assms(2) c g p by (auto simp: httpdLines_def Let_def tab_def quoted_def split: if_splits)
qed

section \<open>Properties\<close>

text \<open>C7. Convergence of the console plugin: when a pass returns without an error on a cluster with the
  console API, the namespace exists, the service has the operator's selector, ports, labels and
  annotations, the configuration holds exactly the generated httpd.conf, the deployment shows no
  difference from the desired one (whose pod template carries the hash of that configuration), and
  the ConsolePlugin names that service. Nothing else changed.\<close>

theorem reconcilePlugin_converges:
  assumes "verbatim_client c view admit refresh" and "consoleAPIFound f"
    and "reconcilePlugin e f c tls ns inst isPF5 w = (Ok (), w')"
  shows "pluginConverged e tls ns inst isPF5 (view w') \<and> same_outside view (pluginKeys ns) w w'"
proof
  show "pluginConverged e tls ns inst isPF5 (view w')"
    by (rule verbatim_client.reconcilePlugin_converged[OF assms(1,3,2)])
  have cl: "k8s_client c view admit refresh" using assms(1) by (rule verbatim_client.axioms)
  show "same_outside view (pluginKeys ns) w w'"
    by (rule act_relD[OF k8s_client.reconcilePlugin_fp[OF cl subset_refl] assms(3)])
qed

definition samplePluginNS :: string where "samplePluginNS = ''openshift-gitops-operator''"

theorem reconcilePlugin_converges_witness:
  "let w' = snd (reconcilePlugin sampleEnv sampleFlags mem_client sampleTLS samplePluginNS sampleService False [])
   in pluginConverged sampleEnv sampleTLS samplePluginNS sampleService False (mem_view w') \<and>
      same_outside mem_view (pluginKeys samplePluginNS) [] w'"
proof -
  have "fst (reconcilePlugin sampleEnv sampleFlags mem_client sampleTLS samplePluginNS sampleService False []) = Ok ()"
    by code_simp
  moreover have "consoleAPIFound sampleFlags" by (simp add: sampleFlags_def)
  ultimately show ?thesis unfolding Let_def
    using reconcilePlugin_converges[OF mem.verbatim_client_axioms] run_result by metis
qed

text \<open>The comparison that decides on an update of the plugin's deployment never indexes an empty
  list of containers, and it finds nothing to change in a deployment it has just brought up to date:
  the operator does not update the same deployment over and over.\<close>

theorem pluginDeploymentChanged_settles:
  assumes "desiredPluginDeployment e ns inst cm isPF5 w = (Ok new, w')"
  shows "(\<exists>b. pluginDeploymentChanged e existing new = Ok b) \<and>
    pluginDeploymentChanged e (applyPluginDeployment new existing) new = Ok False"
  using pluginDeploymentChanged_total pluginDeploymentChanged_applied desiredPluginDeployment_Ok(2)[OF assms] by blast

definition samplePlugin :: deployment where
  "samplePlugin = (case fst (desiredPluginDeployment sampleEnv samplePluginNS sampleService
     (pluginConfigMap sampleTLS samplePluginNS) False ()) of Ok d \<Rightarrow> d)"

theorem pluginDeploymentChanged_settles_witness:
  "pluginDeploymentChanged sampleEnv (applyPluginDeployment samplePlugin (set_spec zeroPodSpec samplePlugin)) samplePlugin = Ok False"
proof -
  have "\<exists>d. fst (desiredPluginDeployment sampleEnv samplePluginNS sampleService
     (pluginConfigMap sampleTLS samplePluginNS) False ()) = Ok d"
    by (simp add: desiredPluginDeployment_def sampleEnv_def SetControllerReference_def liftE_def Let_def
        placePod_def sampleService_def pluginResourcesOverride_def)
  then have "desiredPluginDeployment sampleEnv samplePluginNS sampleService
     (pluginConfigMap sampleTLS samplePluginNS) False () = (Ok samplePlugin, ())"
    unfolding samplePlugin_def by (metis (mono_tags, lifting) outcome.simps(10) prod.collapse unit.exhaust)
  from pluginDeploymentChanged_settles[OF this, of "set_spec zeroPodSpec samplePlugin"] show ?thesis by blast
qed

text \<open>The comparison does not depend on the order in which the API server returns containers,
  volumes or tolerations, as long as their sort keys are distinct: a deployment that differs from
  another only in those orders is found equal to it.\<close>

theorem pluginDeployment_order_irrelevant:
  assumes "mset (psContainers ps') = mset (psContainers ps)" and "distinct (map cName (psContainers ps))"
    and "mset (elems (psVolumes ps')) = mset (elems (psVolumes ps))" and "distinct (map vName (elems (psVolumes ps)))"
    and "mset (elems (psTolerations ps')) = mset (elems (psTolerations ps))"
    and "distinct (map (\<lambda>t. (tolKey t, tolOperator t, tolEffect t)) (elems (psTolerations ps)))"
    and "ps'\<lparr>psContainers := psContainers ps, psVolumes := psVolumes ps, psTolerations := psTolerations ps\<rparr> = ps"
  shows "pluginDeploymentDiffers e (set_spec ps' d) (set_spec ps d) = False"
proof -
  have n: "cName (sortContainer ct) = cName ct" for ct
    by (simp add: sortContainer_def normalizeContainerDefaults_def Let_def)
  have "sortContainers (psContainers ps') = sortContainers (psContainers ps)"
    unfolding sortContainers_def using assms(1,2)
    by (intro sort_key_perm[symmetric]) (simp_all add: o_def n mset_map)
  moreover have "sortVolumes (psVolumes ps') = sortVolumes (psVolumes ps)"
    unfolding sortVolumes_def using assms(3,4) by (intro sort_key_perm[symmetric]) simp_all
  moreover have "sortTolerations (psTolerations ps') = sortTolerations (psTolerations ps)"
    unfolding sortTolerations_def using assms(5,6) by (intro sort_key_perm[symmetric]) simp_all
  moreover have "psRestartPolicy ps' = psRestartPolicy ps" "psDNSPolicy ps' = psDNSPolicy ps"
    "psNodeSelector ps' = psNodeSelector ps" "psSecurityContext ps' = psSecurityContext ps"
    by (subst assms(7)[symmetric], simp)+
  ultimately show ?thesis by (simp add: pluginDeploymentDiffers_def set_spec_def Let_def)
qed

theorem pluginDeployment_order_irrelevant_witness:
  "pluginDeploymentDiffers sampleEnv
     (set_spec ((pod samplePlugin)\<lparr>psVolumes := Some (rev (elems (psVolumes (pod samplePlugin))))\<rparr>) samplePlugin)
     (set_spec (pod samplePlugin) samplePlugin) = False"
proof -
  have c: "distinct (map cName (psContainers (pod samplePlugin)))" by code_simp
  have v: "distinct (map vName (elems (psVolumes (pod samplePlugin))))" by code_simp
  have t: "distinct (map (\<lambda>t. (tolKey t, tolOperator t, tolEffect t)) (elems (psTolerations (pod samplePlugin))))" by code_simp
  show ?thesis
    by (rule pluginDeployment_order_irrelevant) (use c v t in simp_all)
qed

text \<open>The order of volume mounts of the same volume does matter: two of the plugin's own mounts
  share a name, on which alone they are sorted, so the container with these two in the other order is
  taken for a different one.\<close>

theorem pluginMounts_order_matters:
  "mset [pluginMounts ! 1, pluginMounts ! 0, pluginMounts ! 2] = mset pluginMounts \<and>
   sortContainers [(pluginContainer e policy isPF5)\<lparr>cVolumeMounts := Some [pluginMounts ! 1, pluginMounts ! 0, pluginMounts ! 2]\<rparr>] \<noteq>
   sortContainers [pluginContainer e policy isPF5]"
proof
  show "mset [pluginMounts ! 1, pluginMounts ! 0, pluginMounts ! 2] = mset pluginMounts" by (simp add: pluginMounts_def)
  have "sort_key vmName [pluginMounts ! 1, pluginMounts ! 0, pluginMounts ! 2] \<noteq> sort_key vmName pluginMounts" by code_simp
  moreover have m: "map cVolumeMounts (sortContainers [ct]) = [map_option (sort_key vmName) (cVolumeMounts ct)]" for ct
    by (simp add: sortContainers_def sortContainer_def)
  moreover have "cVolumeMounts (pluginContainer e policy isPF5) = Some pluginMounts" by (simp add: pluginContainer_def)
  ultimately show "sortContainers [(pluginContainer e policy isPF5)\<lparr>cVolumeMounts := Some [pluginMounts ! 1, pluginMounts ! 0, pluginMounts ! 2]\<rparr>] \<noteq>
      sortContainers [pluginContainer e policy isPF5]"
    by (auto dest: arg_cong[where f = "map cVolumeMounts"] simp: m)
qed

text \<open>The hash that tells the pods of a changed configuration is taken over keys and values written
  one after the other without a separator: different contents can have the same hash, whatever the
  hash function.\<close>

theorem getConfigMapHash_ambiguous:
  "\<exists>cm cm'. gget (cmData cm) \<noteq> gget (cmData cm') \<and> getConfigMapHash e cm = getConfigMapHash e cm'"
proof (intro exI conjI)
  let ?cm = "\<lambda>k v. \<lparr>cmMeta = mkMeta [] [], cmData = gmap [(k, v)], cmBinaryData = None\<rparr>"
  have h: "hashInput (gmap [(k, v)]) = k @ v" for k v
    by (simp add: hashInput_def gmap_def gindex_def fmlookup_of_list sorted_list_of_fset_def)
  have "gget (cmData (?cm ''a'' ''bc'')) ''a'' \<noteq> gget (cmData (?cm ''ab'' ''c'')) ''a''" by simp
  then show "gget (cmData (?cm ''a'' ''bc'')) \<noteq> gget (cmData (?cm ''ab'' ''c''))" by metis
  show "getConfigMapHash e (?cm ''a'' ''bc'') = getConfigMapHash e (?cm ''ab'' ''c'')" by (simp add: getConfigMapHash_def h)
qed

text \<open>The generated httpd.conf consists of exactly the lines of the specification, when no cipher
  name contains a line break: SSLProtocol enables the versions from the minimum on and no other,
  SSLCipherSuite is left out for TLS 1.3 or without ciphers, and the groups are the supported ones.\<close>

theorem buildHttpdConfig_spec:
  assumes "\<forall>s\<in>set (Ciphers tls). CHR 0x0A \<notin> set s"
  shows "splitOn (CHR 0x0A) (buildHttpdConfig tls) = httpdLines tls"
proof -
  have "httpdLines tls \<noteq> []" by (simp add: httpdLines_def Let_def)
  with splitOn_joinStr[of "httpdLines tls" "CHR 0x0A"] httpdLines_no_newline[OF assms] show ?thesis
    by (simp add: buildHttpdConfig_lines newline_def)
qed

theorem buildHttpdConfig_spec_witness:
  "splitOn (CHR 0x0A) (buildHttpdConfig sampleTLS) = httpdLines sampleTLS"
  by (rule buildHttpdConfig_spec) (simp add: sampleTLS_def)

end
