(* ===== verification/Gitops_Reconcile.thy ===== *)
theory Gitops_Reconcile
  imports Plugin_Correct
begin

text \<open>
  \<open>Reconcile\<close> of \<open>controllers/gitopsservice_controller.go\<close>, the operator's main handler: it reads the
  GitopsService, clears what earlier releases left, installs the default Argo CD instance and the
  backend or removes them, and reconciles the console plugin on the versions of OpenShift that have
  one. The properties are about the handler as a whole: what it may touch, what it never deletes,
  and what holds when it returns without an error.
\<close>

section \<open>Definitions\<close>

record gitops_config =
  DisableDefaultInstall :: bool
  CentralTLSProfile :: tls_profile
  PluginNamespace :: string

definition newGitopsService :: gitops_service where
  "newGitopsService = \<lparr>gsMeta = mkMeta serviceName '''',
     gsSpec = \<lparr>gsRunOnInfra = False, gsTolerations = None, gsNodeSelector = None, gsConsolePlugin = None, gsImagePullPolicy = ''''\<rparr>\<rparr>"

text \<open>What \<open>SetupWithManager\<close> does to the cluster: the registration with the manager is not modelled.\<close>

definition setupGitopsService :: "'w client \<Rightarrow> ('w, unit) act" where
  "setupGitopsService c = logged (createO c (OGitopsService newGitopsService))"

definition reconcileGitopsNamespace :: "'w client \<Rightarrow> bool \<Rightarrow> string \<Rightarrow> ('w, unit) act" where
  "reconcileGitopsNamespace c runOnInfra ns =
     getOrCreate c as_namespace (ONamespace (freshNamespace ns runOnInfra)) (updateNamespaceMetadata c runOnInfra)"

definition installDefault ::
  "env \<Rightarrow> api_flags \<Rightarrow> 'w client \<Rightarrow> gitops_config \<Rightarrow> namespaced_name \<Rightarrow> gitops_service \<Rightarrow> ('w, unit) act" where
  "installDefault e f c cfg nn inst =
     thenG (reconcileGitopsNamespace c (gsRunOnInfra (gsSpec inst)) (nnNamespace nn))
     (thenG (mapErr (Formatted ''unable to reconcile default Argo CD instance'') (reconcileDefaultArgoCDInstance e f c inst))
            (reconcileBackend e c (CentralTLSProfile cfg) nn inst))"

definition removeDefault :: "env \<Rightarrow> api_flags \<Rightarrow> 'w client \<Rightarrow> namespaced_name \<Rightarrow> ('w, unit) act" where
  "removeDefault e f c nn =
     thenG (mapErr (Formatted ''unable to ensure non-existence of default Argo CD instance'')
              (ensureDefaultArgoCDInstanceDoesntExist e f c))
           (cleanupBackendResources c nn)"

text \<open>Which plugin, if any, a cluster gets. Every failure to learn the versions is logged and ends the
  reconciliation without an error.\<close>

definition reconcilePluginForVersion ::
  "env \<Rightarrow> api_flags \<Rightarrow> 'w client \<Rightarrow> gitops_config \<Rightarrow> gitops_service \<Rightarrow> ('w, unit) act" where
  "reconcilePluginForVersion e f c cfg inst =
     (let start = orElse (getenv e ''DYNAMIC_PLUGIN_START_OCP_VERSION'') ''4.18.0'';
          plugin = reconcilePlugin e f c (CentralTLSProfile cfg) (PluginNamespace cfg) inst
      in handle (GetClusterVersion c) (\<lambda>_. ret ()) (\<lambda>ocpVersion.
           case newVersion e ocpVersion of
             Inl _ \<Rightarrow> ret ()
           | Inr clusterVersion \<Rightarrow> (case newVersion e start of
               Inl _ \<Rightarrow> ret ()
             | Inr minVersion \<Rightarrow>
                 if versionLess e clusterVersion minVersion then ret ()
                 else (case newVersion e ''4.19.0'' of
                   Inl _ \<Rightarrow> ret ()
                 | Inr pf6MinVersion \<Rightarrow> plugin (versionLess e clusterVersion pf6MinVersion)))))"

definition Reconcile :: "env \<Rightarrow> api_flags \<Rightarrow> 'w client \<Rightarrow> gitops_config \<Rightarrow> ('w, unit) act" where
  "Reconcile e f c cfg =
     handle (getAs c as_gitops_service (KGitopsService, '''', serviceName))
       (\<lambda>err. if IsNotFound err then ret () else fail err)
       (\<lambda>inst. bindG (GetBackendNamespace c) (\<lambda>ns.
          let nn = \<lparr>nnName = serviceName, nnNamespace = ns\<rparr>
          in thenG (cleanKAMResources f c)
            (thenG (logged (cleanupOldPluginResources c (PluginNamespace cfg)))
            (thenG (if \<not> DisableDefaultInstall cfg then installDefault e f c cfg nn inst else removeDefault e f c nn)
                   (reconcilePluginForVersion e f c cfg inst)))))"

section \<open>Specifications\<close>

definition backendNames :: "namespaced_name set" where
  "backendNames = {\<lparr>nnName = serviceName, nnNamespace = serviceNamespace\<rparr>,
     \<lparr>nnName = serviceName, nnNamespace = deprecatedServiceNamespace\<rparr>}"

text \<open>The version a cluster reports, the backend's place for it, and the plugin for it: none, or whether it
  is the one for PatternFly 5.\<close>

definition versionOf :: "obj option \<Rightarrow> string" where
  "versionOf v = (case v of Some (OClusterVersion cv) \<Rightarrow> cvDesiredVersion cv | _ \<Rightarrow> [])"

definition backendNameFor :: "string \<Rightarrow> namespaced_name" where
  "backendNameFor ver = \<lparr>nnName = serviceName,
     nnNamespace = (if HasPrefix ver ''4.6'' then deprecatedServiceNamespace else serviceNamespace)\<rparr>"

definition pluginFor :: "env \<Rightarrow> string \<Rightarrow> bool option" where
  "pluginFor e ver =
     (case (newVersion e ver, newVersion e (orElse (getenv e ''DYNAMIC_PLUGIN_START_OCP_VERSION'') ''4.18.0''), newVersion e ''4.19.0'') of
        (Inr v, Inr start, Inr pf6) \<Rightarrow> if versionLess e v start then None else Some (versionLess e v pf6)
      | _ \<Rightarrow> None)"

text \<open>Everything the handler may create, change or delete, and the part of it that it may delete.\<close>

definition managedKeys :: "api_flags \<Rightarrow> gitops_config \<Rightarrow> key set" where
  "managedKeys f cfg = kamKeys f \<union> oldPluginKeys (PluginNamespace cfg) \<union> argoKeys \<union> pluginKeys (PluginNamespace cfg) \<union>
     (\<Union>nn\<in>backendNames. backendKeys nn \<union> {(KNamespace, '''', nnNamespace nn)})"

definition deletableKeys :: "api_flags \<Rightarrow> gitops_config \<Rightarrow> key set" where
  "deletableKeys f cfg = kamKeys f \<union> oldPluginKeys (PluginNamespace cfg) \<union> {computeQuotaKey serviceNamespace} \<union>
     (if DisableDefaultInstall cfg then {argoInstanceKey} \<union> (\<Union>nn\<in>backendNames. backendKeys nn) else {})"

section \<open>Lemmas: what the handler touches\<close>

context k8s_client begin

lemma GetBackendNamespace_names:
  "GetBackendNamespace c w = (Ok ns, w') \<Longrightarrow> \<lparr>nnName = serviceName, nnNamespace = ns\<rparr> \<in> backendNames"
  by (auto simp: GetBackendNamespace_def bindG_Ok_iff backendNames_def split: if_splits)

lemma GetClusterVersion_Ok:
  assumes "GetClusterVersion c w = (Ok ver, w')"
  shows "ver = versionOf (view w clusterVersionKey)"
proof -
  have nr: "\<not> refreshable (fst clusterVersionKey)" by (simp add: refreshable_def)
  have cast: "as_cluster_version y = Some a \<longleftrightarrow> y = OClusterVersion a" for y a by (cases y) auto
  from assms[unfolded GetClusterVersion_def] show ?thesis
  proof (subst (asm) handle_Ok_iff, elim disjE exE conjE)
    fix cv w1
    assume "getAs c as_cluster_version clusterVersionKey w = (Ok cv, w1)" and "ret (cvDesiredVersion cv) w1 = (Ok ver, w')"
    then show ?thesis by (auto simp: versionOf_def cast elim!: getAs_Ok[OF _ nr])
  next
    fix err w1
    assume g: "getAs c as_cluster_version clusterVersionKey w = (Err err, w1)"
      and "(if IsNotFound err then ret [] else fail err) w1 = (Ok ver, w')"
    then have "IsNotFound err" "ver = []" by (auto split: if_splits)
    with getAs_NotFound(1)[OF g] show ?thesis by (simp add: versionOf_def)
  qed
qed

lemma GetBackendNamespace_Ok:
  "GetBackendNamespace c w = (Ok ns, w') \<Longrightarrow>
     \<lparr>nnName = serviceName, nnNamespace = ns\<rparr> = backendNameFor (versionOf (view w clusterVersionKey))"
  by (auto simp: GetBackendNamespace_def bindG_Ok_iff backendNameFor_def dest!: GetClusterVersion_Ok split: if_splits)

lemma GetBackendNamespace_fp: "act_rel (same_outside view S) (GetBackendNamespace c)"
  unfolding GetBackendNamespace_def by (intro fp.rel_intros GetClusterVersion_fp)

lemma GetBackendNamespace_kp: "act_rel (keeps_present view S) (GetBackendNamespace c)"
  unfolding GetBackendNamespace_def by (intro kp.rel_intros GetClusterVersion_kp)

lemma reconcileGitopsNamespace_fp:
  "(KNamespace, [], ns) \<in> S \<Longrightarrow> act_rel (same_outside view S) (reconcileGitopsNamespace c r ns)"
  unfolding reconcileGitopsNamespace_def by (intro getOrCreate_fp updateNamespaceMetadata_fp) auto

lemma reconcilePluginForVersion_fp:
  "pluginKeys (PluginNamespace cfg) \<subseteq> S \<Longrightarrow> act_rel (same_outside view S) (reconcilePluginForVersion e f c cfg inst)"
  unfolding reconcilePluginForVersion_def Let_def
  by (intro fp.rel_handle fp.rel_ret GetClusterVersion_fp)
    (auto split: sum.split intro!: fp.rel_if fp.rel_ret reconcilePlugin_fp)

lemma installDefault_fp:
  assumes "argoKeys \<subseteq> S" and "backendKeys nn \<subseteq> S" and "(KNamespace, [], nnNamespace nn) \<in> S"
  shows "act_rel (same_outside view S) (installDefault e f c cfg nn inst)"
  unfolding installDefault_def
  by (intro fp.rel_thenG fp.rel_mapErr reconcileGitopsNamespace_fp reconcileDefaultArgoCDInstance_fp reconcileBackend_fp assms)

lemma removeDefault_fp:
  assumes "argoInstanceKey \<in> S" and "backendKeys nn \<subseteq> S"
  shows "act_rel (same_outside view S) (removeDefault e f c nn)"
  unfolding removeDefault_def
  by (intro fp.rel_thenG fp.rel_mapErr ensureDoesntExist_fp cleanupBackend_fp assms)

lemma Reconcile_fp: "act_rel (same_outside view (managedKeys f cfg)) (Reconcile e f c cfg)"
proof -
  let ?S = "managedKeys f cfg"
  have nn: "act_rel (same_outside view ?S)
      (thenG (cleanKAMResources f c)
        (thenG (logged (cleanupOldPluginResources c (PluginNamespace cfg)))
        (thenG (if \<not> DisableDefaultInstall cfg then installDefault e f c cfg nn inst else removeDefault e f c nn)
               (reconcilePluginForVersion e f c cfg inst))))" if "nn \<in> backendNames" for nn inst
    by (intro fp.rel_thenG fp.rel_if fp.rel_logged cleanKAMResources_fp cleanupOldPlugin_fp installDefault_fp
        removeDefault_fp reconcilePluginForVersion_fp)
      (use that in \<open>auto simp: managedKeys_def argoKeys_def\<close>)
  show ?thesis
    unfolding Reconcile_def Let_def
    by (intro fp.rel_handle fp.rel_if fp.rel_ret fp.rel_fail fp.rel_bindG GetBackendNamespace_fp getAs_fp nn
        GetBackendNamespace_names) (auto simp: refreshable_def)
qed

end

section \<open>Lemmas: what the handler keeps\<close>

context k8s_client begin

lemma reconcileBackend_kp: "act_rel (keeps_present view S) (reconcileBackend e c tls nn inst)"
  unfolding reconcileBackend_def backend_block_defs reconcileBackendDeployment_def Let_def
  by (intro kp.rel_intros getOrCreate_kp updateO_kp desiredBackendDeployment_kp)
    (auto intro!: kp.rel_intros updateO_kp split: prod.split)

lemma cleanupBackend_kp: "S \<inter> backendKeys nn = {} \<Longrightarrow> act_rel (keeps_present view S) (cleanupBackendResources c nn)"
  unfolding cleanupBackendResources_def deleteBackendResource_def
  by (intro kp.rel_forG) (force simp: backendKeys_def split: prod.split intro!: kp.rel_intros deleteO_kp)

lemma reconcileGitopsNamespace_kp: "act_rel (keeps_present view S) (reconcileGitopsNamespace c r ns)"
  unfolding reconcileGitopsNamespace_def by (intro getOrCreate_kp updateNamespaceMetadata_kp)

text \<open>The quota that is deleted is the one of the namespace that was read.\<close>

lemma reconcileArgoNamespace_kp:
  assumes "computeQuotaKey ns \<notin> S"
  shows "act_rel (keeps_present view S) (reconcileArgoNamespace c r ns)"
  unfolding reconcileArgoNamespace_def getOrCreate_def
proof (intro kp.rel_handle kp.rel_if kp.rel_fail getAs_kp createO_kp)
  fix a w w1
  assume "getAs c as_namespace (okey (ONamespace (freshNamespace ns r))) w = (Ok a, w1)"
  from getAs_key[OF this] have "metaName (nsMeta a) = ns" by (auto simp: okey_def)
  with assms show "act_rel (keeps_present view S)
      (thenG (deleteResourceQuota c (metaName (nsMeta a))) (updateNamespaceMetadata c r a))"
    by (intro kp.rel_thenG deleteResourceQuota_kp updateNamespaceMetadata_kp) simp
qed

lemma reconcileDefaultArgoCDInstance_kp:
  assumes "computeQuotaKey serviceNamespace \<notin> S"
  shows "act_rel (keeps_present view S) (reconcileDefaultArgoCDInstance e f c inst)"
  unfolding reconcileDefaultArgoCDInstance_def Let_def using assms
  by (intro kp.rel_bindG kp.rel_thenG NewCR_kp reconcileArgoNamespace_kp getOrCreate_kp kp.rel_liftE kp.rel_liftO)
    (auto dest!: NewCR_Ok(1) intro!: kp.rel_intros updateO_kp)

lemma ensureDoesntExist_kp:
  assumes "argoInstanceKey \<notin> S"
  shows "act_rel (keeps_present view S) (ensureDefaultArgoCDInstanceDoesntExist e f c)"
  unfolding ensureDefaultArgoCDInstanceDoesntExist_def using assms
  by (intro kp.rel_intros NewCR_kp getAs_kp deleteO_kp)
    (auto simp: argoInstanceKey_def okey_def dest!: getAs_key NewCR_Ok(1))

lemma cleanKAMResources_kp: "S \<inter> kamKeys f = {} \<Longrightarrow> act_rel (keeps_present view S) (cleanKAMResources f c)"
  unfolding cleanKAMResources_def cleanKAM_def Let_def
  by (intro kp.rel_intros getO_kp deleteO_kp) (auto simp: kamKeys_def)

lemma cleanupOldPlugin_kp:
  "S \<inter> oldPluginKeys ns = {} \<Longrightarrow> act_rel (keeps_present view S) (cleanupOldPluginResources c ns)"
  unfolding cleanupOldPluginResources_def deleteOldPlugin_def
  by (intro kp.rel_intros getO_kp deleteO_kp) (auto simp: oldPluginKeys_def split: if_splits)

lemma reconcilePlugin_kp: "act_rel (keeps_present view S) (reconcilePlugin e f c tls ns inst isPF5)"
  unfolding reconcilePlugin_def ensurePluginNamespace_def reconcileService_def reconcileConfigMap_def
    reconcileDeployment_def reconcileConsolePlugin_def desiredPluginDeployment_def Let_def
  by (intro kp.rel_intros getOrCreate_kp getAs_kp createO_kp updateO_kp)

lemma reconcilePluginForVersion_kp: "act_rel (keeps_present view S) (reconcilePluginForVersion e f c cfg inst)"
  unfolding reconcilePluginForVersion_def Let_def
  by (intro kp.rel_handle kp.rel_ret GetClusterVersion_kp)
    (auto split: sum.split intro!: kp.rel_if kp.rel_ret reconcilePlugin_kp)

lemma Reconcile_kp: "act_rel (keeps_present view (- deletableKeys f cfg)) (Reconcile e f c cfg)"
proof -
  let ?S = "- deletableKeys f cfg"
  have inst: "act_rel (keeps_present view ?S) (installDefault e f c cfg nn inst)" for nn inst
    unfolding installDefault_def
    by (intro kp.rel_thenG kp.rel_mapErr reconcileGitopsNamespace_kp reconcileDefaultArgoCDInstance_kp reconcileBackend_kp)
      (simp add: deletableKeys_def)
  have rem: "act_rel (keeps_present view ?S) (removeDefault e f c nn)"
    if "DisableDefaultInstall cfg" "nn \<in> backendNames" for nn
    unfolding removeDefault_def
    by (intro kp.rel_thenG kp.rel_mapErr ensureDoesntExist_kp cleanupBackend_kp)
      (use that in \<open>auto simp: deletableKeys_def\<close>)
  have nn: "act_rel (keeps_present view ?S)
      (thenG (cleanKAMResources f c)
        (thenG (logged (cleanupOldPluginResources c (PluginNamespace cfg)))
        (thenG (if \<not> DisableDefaultInstall cfg then installDefault e f c cfg nn inst else removeDefault e f c nn)
               (reconcilePluginForVersion e f c cfg inst))))" if "nn \<in> backendNames" for nn inst
    by (intro kp.rel_thenG kp.rel_if kp.rel_logged cleanKAMResources_kp cleanupOldPlugin_kp inst rem
        reconcilePluginForVersion_kp) (use that in \<open>auto simp: deletableKeys_def\<close>)
  show ?thesis
    unfolding Reconcile_def Let_def
    by (intro kp.rel_handle kp.rel_if kp.rel_ret kp.rel_fail kp.rel_bindG GetBackendNamespace_kp getAs_kp nn
        GetBackendNamespace_names)
qed

text \<open>The steps of a pass that returned without an error.\<close>

lemma Reconcile_steps:
  assumes "Reconcile e f c cfg w = (Ok u, w')"
  obtains (absent) "view w (KGitopsService, [], serviceName) = None" "view w' = view w"
    | (present) inst nn w3 w4 where "view w (KGitopsService, [], serviceName) = Some (OGitopsService inst)"
        "nn = backendNameFor (versionOf (view w clusterVersionKey))"
        "same_outside view (kamKeys f \<union> oldPluginKeys (PluginNamespace cfg)) w w3"
        "(if \<not> DisableDefaultInstall cfg then installDefault e f c cfg nn inst else removeDefault e f c nn) w3 = (Ok (), w4)"
        "reconcilePluginForVersion e f c cfg inst w4 = (Ok u, w')"
proof -
  have nr: "\<not> refreshable (fst (KGitopsService, [], serviceName))" by (simp add: refreshable_def)
  have cast: "as_gitops_service y = Some a \<longleftrightarrow> y = OGitopsService a" for y a by (cases y) auto
  from assms[unfolded Reconcile_def] show thesis
  proof (subst (asm) handle_Ok_iff, elim disjE exE conjE)
    fix inst w1
    assume g: "getAs c as_gitops_service (KGitopsService, [], serviceName) w = (Ok inst, w1)"
      and k: "bindG (GetBackendNamespace c) (\<lambda>ns.
          let nn = \<lparr>nnName = serviceName, nnNamespace = ns\<rparr>
          in thenG (cleanKAMResources f c)
            (thenG (logged (cleanupOldPluginResources c (PluginNamespace cfg)))
            (thenG (if \<not> DisableDefaultInstall cfg then installDefault e f c cfg nn inst else removeDefault e f c nn)
                   (reconcilePluginForVersion e f c cfg inst)))) w1 = (Ok u, w')"
    from getAs_Ok[OF g nr] cast have v: "view w (KGitopsService, [], serviceName) = Some (OGitopsService inst)" by metis
    from k obtain ns w2 wk wp w3 w4 where n: "GetBackendNamespace c w1 = (Ok ns, w2)"
      and kam: "cleanKAMResources f c w2 = (Ok wk, wp)"
      and old: "logged (cleanupOldPluginResources c (PluginNamespace cfg)) wp = (Ok (), w3)"
      and i: "(if \<not> DisableDefaultInstall cfg then installDefault e f c cfg \<lparr>nnName = serviceName, nnNamespace = ns\<rparr> inst
          else removeDefault e f c \<lparr>nnName = serviceName, nnNamespace = ns\<rparr>) w3 = (Ok (), w4)"
      and p: "reconcilePluginForVersion e f c cfg inst w4 = (Ok u, w')"
      by (auto simp: bindG_Ok_iff thenG_Ok_iff Let_def)
    let ?S = "kamKeys f \<union> oldPluginKeys (PluginNamespace cfg)"
    have "act_rel (same_outside view ?S) (cleanKAMResources f c)" by (rule cleanKAMResources_fp) simp
    from act_relD[OF this kam] have s1: "same_outside view ?S w2 wp" .
    have "act_rel (same_outside view ?S) (logged (cleanupOldPluginResources c (PluginNamespace cfg)))"
      by (intro fp.rel_logged cleanupOldPlugin_fp) simp
    from act_relD[OF this old] have s2: "same_outside view ?S wp w3" .
    have vw: "view w1 = view w" using getAs_Ok[OF g nr] by metis
    have "view w2 = view w1" using GetBackendNamespace_fp n by (rule fp_empty_view)
    with vw s1 s2 have s: "same_outside view ?S w w3" by (simp add: same_outside_def)
    from GetBackendNamespace_Ok[OF n] vw have nn: "\<lparr>nnName = serviceName, nnNamespace = ns\<rparr> = backendNameFor (versionOf (view w clusterVersionKey))"
      by simp
    show thesis by (rule present[OF v nn s i p])
  next
    fix err w1
    assume g: "getAs c as_gitops_service (KGitopsService, [], serviceName) w = (Err err, w1)"
      and "(if IsNotFound err then ret () else fail err) w1 = (Ok u, w')"
    then have "IsNotFound err" "w' = w1" by (auto split: if_splits)
    with getAs_NotFound[OF g] absent show thesis by simp
  qed
qed

end

lemma pluginKeys_disjoint:
  "pluginKeys ns \<inter> backendKeys \<lparr>nnName = serviceName, nnNamespace = ns'\<rparr> = {}" "argoInstanceKey \<notin> pluginKeys ns"
  by (auto simp: pluginKeys_def backendKeys_eq argoInstanceKey_def serviceName_def gitopsPluginName_def)

lemma pluginKeys_disjoint_backend: "k \<in> backendKeys (backendNameFor ver) \<Longrightarrow> k \<notin> pluginKeys ns"
  using pluginKeys_disjoint(1) by (auto simp: backendNameFor_def)

lemma reconcilePluginForVersion_eq:
  "reconcilePluginForVersion e f c cfg inst = handle (GetClusterVersion c) (\<lambda>_. ret ()) (\<lambda>ver.
     case pluginFor e ver of None \<Rightarrow> ret ()
     | Some isPF5 \<Rightarrow> reconcilePlugin e f c (CentralTLSProfile cfg) (PluginNamespace cfg) inst isPF5)"
  unfolding reconcilePluginForVersion_def pluginFor_def Let_def
  by (intro arg_cong[where f = "handle _ _"] ext) (simp split: sum.split)

lemma backendConverged_cong:
  "(\<And>k. k \<in> backendKeys nn \<Longrightarrow> v' k = v k) \<Longrightarrow> backendConverged e tls nn inst v' = backendConverged e tls nn inst v"
  by (simp add: backendConverged_def backendKeys_eq)

context k8s_client begin

lemma removeDefault_Ok:
  assumes "removeDefault e f c nn w = (Ok u, w')"
  shows "\<forall>k\<in>backendKeys nn. gone (view w' k)"
    and "view w argoNamespaceKey = None \<or> gone (view w' argoInstanceKey)"
proof -
  from assms obtain w1 where a: "ensureDefaultArgoCDInstanceDoesntExist e f c w = (Ok (), w1)"
    and b: "cleanupBackendResources c nn w1 = (Ok u, w')"
    by (auto simp: removeDefault_def thenG_Ok_iff mapErr_Ok_iff)
  show "\<forall>k\<in>backendKeys nn. gone (view w' k)"
    using b deleteAll_Ok(2)[of "backendResources nn" _ u w'] by (auto simp: cleanupBackendResources_def backendKeys_def)
  have "same_outside view {argoInstanceKey} w w1" by (rule act_relD[OF ensureDoesntExist_fp a]) simp
  then have "view w1 argoNamespaceKey = view w argoNamespaceKey"
    by (rule same_outsideD) (simp add: argoNamespaceKey_def argoInstanceKey_def)
  moreover have "same_outside view (backendKeys nn) w1 w'" by (rule act_relD[OF cleanupBackend_fp[OF subset_refl] b])
  then have "view w' argoInstanceKey = view w1 argoInstanceKey"
    by (rule same_outsideD) (simp add: backendKeys_eq argoInstanceKey_def)
  ultimately show "view w argoNamespaceKey = None \<or> gone (view w' argoInstanceKey)"
    using ensureDoesntExist_Ok[OF a] by simp
qed

end

context verbatim_client begin

lemma installDefault_Ok:
  assumes "installDefault e f c cfg nn inst w = (Ok u, w')"
  shows "backendConverged e (CentralTLSProfile cfg) nn inst (view w')"
    and "\<exists>a. view w' argoInstanceKey = Some (OArgoCD a) \<and> argoInstanceOk inst a"
proof -
  from assms obtain w1 w2 where a: "reconcileDefaultArgoCDInstance e f c inst w1 = (Ok (), w2)"
    and b: "reconcileBackend e c (CentralTLSProfile cfg) nn inst w2 = (Ok u, w')"
    by (auto simp: installDefault_def thenG_Ok_iff mapErr_Ok_iff)
  show "backendConverged e (CentralTLSProfile cfg) nn inst (view w')" by (rule reconcileBackend_converged[OF b])
  have "same_outside view (backendKeys nn) w2 w'" by (rule act_relD[OF reconcileBackend_fp[OF subset_refl] b])
  moreover have "argoInstanceKey \<notin> backendKeys nn" by (simp add: backendKeys_eq argoInstanceKey_def)
  ultimately have "view w' argoInstanceKey = view w2 argoInstanceKey" by (rule same_outsideD)
  with reconcileDefaultArgoCDInstance_Ok(2)[OF a] show "\<exists>a. view w' argoInstanceKey = Some (OArgoCD a) \<and> argoInstanceOk inst a"
    by auto
qed

end

context verbatim_client begin

lemma Reconcile_Ok:
  assumes "\<not> DisableDefaultInstall cfg"
    and "view w (KGitopsService, [], serviceName) = Some (OGitopsService inst)"
    and "Reconcile e f c cfg w = (Ok u, w')"
  shows "backendConverged e (CentralTLSProfile cfg) (backendNameFor (versionOf (view w clusterVersionKey))) inst (view w') \<and>
    (\<exists>a. view w' argoInstanceKey = Some (OArgoCD a) \<and> argoInstanceOk inst a)"
  using assms(3)
proof (cases rule: Reconcile_steps)
  case absent
  with assms(2) show ?thesis by simp
next
  case (present inst' nn w3 w4)
  with assms(1,2) have i: "installDefault e f c cfg nn inst w3 = (Ok (), w4)" by simp
  note ok = installDefault_Ok[OF i]
  have fp: "same_outside view (pluginKeys (PluginNamespace cfg)) w4 w'"
    by (rule act_relD[OF reconcilePluginForVersion_fp[OF subset_refl] present(5)])
  have "view w' k = view w4 k" if "k \<in> backendKeys nn" for k
    using that present(2) pluginKeys_disjoint_backend by (intro same_outsideD[OF fp]) auto
  then have "backendConverged e (CentralTLSProfile cfg) nn inst (view w')"
    using ok(1) backendConverged_cong by blast
  moreover have "view w' argoInstanceKey = view w4 argoInstanceKey"
    by (intro same_outsideD[OF fp] pluginKeys_disjoint)
  ultimately show ?thesis using ok(2) present(2) by auto
qed

end

context reliable_client begin

lemma GetClusterVersion_reliable:
  obtains w' where "GetClusterVersion c w = (Ok (versionOf (view w clusterVersionKey)), w')" and "view w' = view w"
proof -
  have nr: "\<not> refreshable (fst clusterVersionKey)" by (simp add: refreshable_def)
  obtain w' where w': "view w' = view w"
    and g: "getO c clusterVersionKey w = ((case view w clusterVersionKey of None \<Rightarrow> Err (ApiErr NotFound) | Some x \<Rightarrow> Ok x), w')"
    by (rule getO_reliable[OF nr])
  have "GetClusterVersion c w = (Ok (versionOf (view w clusterVersionKey)), w')"
  proof (cases "view w clusterVersionKey")
    case None
    with g show ?thesis by (simp add: GetClusterVersion_def getAs_def bindG_def handle_def versionOf_def)
  next
    case (Some x)
    with view_key[OF Some] obtain cv where "x = OClusterVersion cv" by (cases x) (auto simp: okey_def)
    with g Some show ?thesis by (simp add: GetClusterVersion_def getAs_def bindG_def handle_def versionOf_def)
  qed
  with w' show thesis by (rule that[rotated])
qed

lemma reconcilePluginForVersion_Ok:
  assumes "reconcilePluginForVersion e f c cfg inst w = (Ok u, w')"
  shows "case pluginFor e (versionOf (view w clusterVersionKey)) of
      Some isPF5 \<Rightarrow> if consoleAPIFound f
        then pluginConverged e (CentralTLSProfile cfg) (PluginNamespace cfg) inst isPF5 (view w')
        else view w' = view w
    | None \<Rightarrow> view w' = view w"
proof -
  obtain w1 where g: "GetClusterVersion c w = (Ok (versionOf (view w clusterVersionKey)), w1)" and v: "view w1 = view w"
    by (rule GetClusterVersion_reliable)
  show ?thesis
  proof (cases "pluginFor e (versionOf (view w clusterVersionKey))")
    case None
    with assms g v show ?thesis by (simp add: reconcilePluginForVersion_eq handle_def)
  next
    case (Some isPF5)
    with assms g have p: "reconcilePlugin e f c (CentralTLSProfile cfg) (PluginNamespace cfg) inst isPF5 w1 = (Ok u, w')"
      by (simp add: reconcilePluginForVersion_eq handle_def)
    then have "view w' = view w1" if "\<not> consoleAPIFound f" using that by (simp add: reconcilePlugin_def)
    with Some v reconcilePlugin_converged[OF p] show ?thesis by simp
  qed
qed

end

text \<open>The handler never writes what it reads its orders from, and only the plugin's part the ConsolePlugin.\<close>

lemma managedKeys_service: "(KGitopsService, [], serviceName) \<notin> managedKeys f cfg"
  by (auto simp: managedKeys_def kamKeys_def oldPluginKeys_def computeQuotaKey_def argoKeys_def argoInstanceKey_def
      argoNamespaceKey_def backendKeys_eq pluginKeys_def)

lemma input_keys_untouched:
  "clusterVersionKey \<notin> kamKeys f \<union> oldPluginKeys ns" "consolePluginKey \<notin> kamKeys f \<union> oldPluginKeys ns"
  "clusterVersionKey \<notin> argoKeys \<union> backendKeys nn \<union> {(KNamespace, [], n)}"
  "consolePluginKey \<notin> argoKeys \<union> backendKeys nn \<union> {(KNamespace, [], n)}"
  by (auto simp: kamKeys_def oldPluginKeys_def argoKeys_def argoInstanceKey_def
      argoNamespaceKey_def computeQuotaKey_def backendKeys_eq)

lemma deletableKeys_no_namespace: "(KNamespace, [], ns) \<notin> deletableKeys f cfg"
  by (auto simp: deletableKeys_def kamKeys_def oldPluginKeys_def computeQuotaKey_def argoInstanceKey_def backendKeys_eq)

context k8s_client begin

lemma installOrRemove_fp:
  "act_rel (same_outside view (argoKeys \<union> backendKeys nn \<union> {(KNamespace, [], nnNamespace nn)}))
     (if \<not> DisableDefaultInstall cfg then installDefault e f c cfg nn inst else removeDefault e f c nn)"
  by (intro fp.rel_if installDefault_fp removeDefault_fp) (auto simp: argoKeys_def)

end

section \<open>Properties\<close>

definition sampleConfig :: "bool \<Rightarrow> gitops_config" where
  "sampleConfig disabled = \<lparr>DisableDefaultInstall = disabled, CentralTLSProfile = sampleTLS, PluginNamespace = samplePluginNS\<rparr>"

definition sampleCluster :: "obj list" where
  "sampleCluster = [OGitopsService sampleService,
     OClusterVersion \<lparr>cvMeta = mkMeta ''version'' '''', cvDesiredVersion = ''4.19.3''\<rparr>]"

text \<open>C2. Whatever happens during a pass of the main handler, and however it ends, only objects of its
  managed set change: those of the discontinued KAM, of the old and the new plugin, the instance
  with its namespace and quota, and the backend with its namespace. And it never makes any object
  disappear but those of the smaller set it may delete, which has no namespace in it, and neither
  the instance nor the backend while the default install is enabled.\<close>

theorem Reconcile_footprint:
  assumes "k8s_client c view admit refresh"
  shows "same_outside view (managedKeys f cfg) w (snd (Reconcile e f c cfg w)) \<and>
    keeps_present view (- deletableKeys f cfg) w (snd (Reconcile e f c cfg w)) \<and>
    (\<forall>ns. (KNamespace, '''', ns) \<notin> deletableKeys f cfg)"
proof (intro conjI allI)
  show "same_outside view (managedKeys f cfg) w (snd (Reconcile e f c cfg w))"
    using k8s_client.Reconcile_fp[OF assms] by (auto simp: act_rel_def)
  show "keeps_present view (- deletableKeys f cfg) w (snd (Reconcile e f c cfg w))"
    using k8s_client.Reconcile_kp[OF assms] by (auto simp: act_rel_def)
  show "(KNamespace, '''', ns) \<notin> deletableKeys f cfg" for ns by (rule deletableKeys_no_namespace)
qed

theorem Reconcile_footprint_witness:
  "same_outside mem_view (managedKeys sampleFlags (sampleConfig True)) sampleCluster
     (snd (Reconcile sampleEnv sampleFlags mem_client (sampleConfig True) sampleCluster))"
  using Reconcile_footprint[OF mem.k8s_client_axioms] by blast


lemma sampleCluster_service: "mem_view sampleCluster (KGitopsService, [], serviceName) = Some (OGitopsService sampleService)"
  by (simp add: mem_view_def sampleCluster_def okey_def sampleService_def serviceName_def)


text \<open>C3. Disabling the default install: when a pass returns without an error, with a GitopsService in the
  cluster, every object of the backend is gone from the namespace for the version of the cluster (its
  cluster-wide role and binding included), and so is the default instance if its namespace existed,
  and they stay so through the reconciliation of the plugin; no namespace has disappeared.\<close>

theorem Reconcile_removes:
  assumes "k8s_client c view admit refresh" and "DisableDefaultInstall cfg"
    and "view w (KGitopsService, '''', serviceName) = Some (OGitopsService inst)"
    and "Reconcile e f c cfg w = (Ok (), w')"
  shows "(\<forall>k\<in>backendKeys (backendNameFor (versionOf (view w clusterVersionKey))). gone (view w' k)) \<and>
    (view w argoNamespaceKey = None \<or> gone (view w' argoInstanceKey)) \<and>
    (\<forall>ns. view w (KNamespace, '''', ns) \<noteq> None \<longrightarrow> view w' (KNamespace, '''', ns) \<noteq> None)"
proof -
  have "(\<forall>k\<in>backendKeys (backendNameFor (versionOf (view w clusterVersionKey))). gone (view w' k)) \<and>
    (view w argoNamespaceKey = None \<or> gone (view w' argoInstanceKey))"
  proof (cases rule: k8s_client.Reconcile_steps[OF assms(1,4), case_names absent present])
    case absent
    with assms(3) show ?thesis by simp
  next
    case (present inst' nn w3 w4)
    with assms(2) have "removeDefault e f c nn w3 = (Ok (), w4)" by simp
    note ok = k8s_client.removeDefault_Ok[OF assms(1) this]
    have fp: "same_outside view (pluginKeys (PluginNamespace cfg)) w4 w'"
      by (rule act_relD[OF k8s_client.reconcilePluginForVersion_fp[OF assms(1) subset_refl] present(5)])
    have "view w' k = view w4 k" if "k \<in> backendKeys nn" for k
      using that present(2) pluginKeys_disjoint_backend by (intro same_outsideD[OF fp]) auto
    moreover have "view w' argoInstanceKey = view w4 argoInstanceKey"
      by (intro same_outsideD[OF fp] pluginKeys_disjoint)
    moreover have "view w3 argoNamespaceKey = view w argoNamespaceKey"
      by (intro same_outsideD[OF present(3)]) (auto simp: argoNamespaceKey_def kamKeys_def oldPluginKeys_def)
    ultimately show ?thesis using ok present(2) by simp
  qed
  moreover have "keeps_present view (- deletableKeys f cfg) w w'"
    by (rule act_relD[OF k8s_client.Reconcile_kp[OF assms(1)] assms(4)])
  then have "view w (KNamespace, '''', ns) \<noteq> None \<longrightarrow> view w' (KNamespace, '''', ns) \<noteq> None" for ns
    using deletableKeys_no_namespace[of ns f cfg] by (meson ComplI keeps_present_def)
  ultimately show ?thesis by blast
qed

theorem Reconcile_removes_witness:
  "let w = snd (Reconcile sampleEnv sampleFlags mem_client (sampleConfig False) sampleCluster);
       w' = snd (Reconcile sampleEnv sampleFlags mem_client (sampleConfig True) w)
   in \<forall>k\<in>backendKeys (backendNameFor (versionOf (mem_view w clusterVersionKey))). gone (mem_view w' k)"
proof -
  let ?w = "snd (Reconcile sampleEnv sampleFlags mem_client (sampleConfig False) sampleCluster)"
  have r: "fst (Reconcile sampleEnv sampleFlags mem_client (sampleConfig True) ?w) = Ok ()" by code_simp
  have "same_outside mem_view (managedKeys sampleFlags (sampleConfig False)) sampleCluster ?w"
    using mem.Reconcile_fp by (auto simp: act_rel_def)
  then have v: "mem_view ?w (KGitopsService, '''', serviceName) = Some (OGitopsService sampleService)"
    using managedKeys_service sampleCluster_service by (simp add: same_outsideD)
  have d: "DisableDefaultInstall (sampleConfig True)" by (simp add: sampleConfig_def)
  from Reconcile_removes[OF mem.k8s_client_axioms d v run_result[OF r]] show ?thesis unfolding Let_def by blast
qed

text \<open>The console plugin is decoupled from the default install: over an API server whose reads succeed,
  when a pass returns without an error, with a GitopsService in the cluster, then whether or not the
  default install is enabled the plugin for the version of the cluster has converged on a cluster
  with the console API; where the version has none, or the API is missing, the ConsolePlugin is as it
  was.\<close>

theorem Reconcile_plugin:
  assumes "reliable_client c view admit refresh"
    and "view w (KGitopsService, '''', serviceName) = Some (OGitopsService inst)"
    and "Reconcile e f c cfg w = (Ok (), w')"
  shows "case pluginFor e (versionOf (view w clusterVersionKey)) of
      Some isPF5 \<Rightarrow> if consoleAPIFound f
        then pluginConverged e (CentralTLSProfile cfg) (PluginNamespace cfg) inst isPF5 (view w')
        else view w' consolePluginKey = view w consolePluginKey
    | None \<Rightarrow> view w' consolePluginKey = view w consolePluginKey"
proof -
  have vc: "verbatim_client c view admit refresh" using assms(1) by (rule reliable_client.axioms)
  then have cl: "k8s_client c view admit refresh" by (rule verbatim_client.axioms)
  show ?thesis
  proof (cases rule: k8s_client.Reconcile_steps[OF cl assms(3), case_names absent present])
    case absent
    with assms(2) show ?thesis by simp
  next
    case (present inst' nn w3 w4)
    note dv = act_relD[OF k8s_client.installOrRemove_fp[OF cl] present(4)]
    have v: "view w4 k = view w k" if "k \<in> {clusterVersionKey, consolePluginKey}" for k
      using that same_outsideD[OF present(3) input_keys_untouched(1)] same_outsideD[OF present(3) input_keys_untouched(2)]
        same_outsideD[OF dv input_keys_untouched(3)] same_outsideD[OF dv input_keys_untouched(4)] by auto
    from reliable_client.reconcilePluginForVersion_Ok[OF assms(1) present(5)] present(1) assms(2) show ?thesis
      by (simp add: v split: option.splits if_splits)
  qed
qed

theorem Reconcile_plugin_witness:
  "pluginConverged sampleEnv sampleTLS samplePluginNS sampleService False
     (mem_view (snd (Reconcile sampleEnv sampleFlags mem_client (sampleConfig True) sampleCluster)))"
proof -
  have r: "fst (Reconcile sampleEnv sampleFlags mem_client (sampleConfig True) sampleCluster) = Ok ()" by code_simp
  have p: "pluginFor sampleEnv (versionOf (mem_view sampleCluster clusterVersionKey)) = Some False" by code_simp
  from Reconcile_plugin[OF mem.reliable_client_axioms sampleCluster_service run_result[OF r]]
  show ?thesis by (simp add: p sampleFlags_def sampleConfig_def)
qed

end
