(* ===== verification/Client_Wrapper.thy ===== *)
theory Client_Wrapper
  imports Gitops_Reconcile
begin

text \<open>
  \<open>argocd-operator/pkg/clientwrapper\<close> and \<open>pkg/cacheutils\<close>: to save memory, the cache of the manager
  drops the data of Secrets and ConfigMaps the operator does not track, and the client the reconcilers
  are given goes back to the API server for those, labelling them so that the cache keeps them from
  then on. Here that client is shown to meet the laws of \<open>k8s_client\<close> over any live client that does,
  so every property of the reconcilers holds of what they really run on.
\<close>

section \<open>Definitions\<close>

subsection \<open>cacheutils\<close>

definition trackedLabels :: "string list" where
  "trackedLabels = [ArgoCDTrackedByOperatorLabel, ArgoCDSecretTypeLabel, ArgoCDImagePullSecretPropagateLabel]"

definition IsTrackedByOperator :: "obj \<Rightarrow> bool" where
  "IsTrackedByOperator x = (\<exists>l\<in>set trackedLabels. gget (obj_labels x) l \<noteq> None)"

fun StripDataFromSecretOrConfigMapTransform :: "obj \<Rightarrow> obj" where
  "StripDataFromSecretOrConfigMapTransform (OSecret s) =
     (if IsTrackedByOperator (OSecret s) then OSecret s
      else if secData s \<noteq> None \<or> secStringData s \<noteq> None then OSecret (s\<lparr>secData := None, secStringData := None\<rparr>)
      else OSecret s)"
| "StripDataFromSecretOrConfigMapTransform (OConfigMap cm) =
     (if IsTrackedByOperator (OConfigMap cm) then OConfigMap cm
      else if cmData cm \<noteq> None \<or> cmBinaryData cm \<noteq> None then OConfigMap (cm\<lparr>cmData := None, cmBinaryData := None\<rparr>)
      else OConfigMap cm)"
| "StripDataFromSecretOrConfigMapTransform x = x"

text \<open>A cache that is in step with the API server and was filled through the transform; writes go to
  the server.\<close>

definition strip_cache :: "'w client \<Rightarrow> 'w client" where
  "strip_cache live = live\<lparr>
     cGet := (\<lambda>w k. case cGet live w k of (r, w') \<Rightarrow> (map_sum id StripDataFromSecretOrConfigMapTransform r, w')),
     cList := (\<lambda>w kd. case cList live w kd of (r, w') \<Rightarrow> (map_sum id (map StripDataFromSecretOrConfigMapTransform) r, w'))\<rparr>"

subsection \<open>clientwrapper\<close>

definition secretNeedsLiveRefresh :: "secret \<Rightarrow> bool" where
  "secretNeedsLiveRefresh s = (secData s = None \<and> secStringData s = None)"

definition configmapNeedsLiveRefresh :: "config_map \<Rightarrow> bool" where
  "configmapNeedsLiveRefresh cm = (cmData cm = None \<and> cmBinaryData cm = None)"

definition addTrackingLabel :: "obj \<Rightarrow> obj" where
  "addTrackingLabel x = set_labels (gput (obj_labels x) ArgoCDTrackedByOperatorLabel ArgoCDAppName) x"

text \<open>The object is labelled before the patch is sent, and stays so when the patch fails; the error is
  logged by the caller.\<close>

definition ensureTrackedLabel :: "'w client \<Rightarrow> obj \<Rightarrow> 'w \<Rightarrow> obj \<times> 'w" where
  "ensureTrackedLabel live x w =
     (if IsTrackedByOperator x then (x, w)
      else let x' = addTrackingLabel x in (x', snd (cPatch live w x x')))"

definition liveRefresh :: "'w client \<Rightarrow> key \<Rightarrow> 'w \<Rightarrow> (api_error + obj) \<times> 'w" where
  "liveRefresh live k w = (case cGet live w k of
      (Inl e, w1) \<Rightarrow> (Inl e, w1)
    | (Inr x, w1) \<Rightarrow> (case ensureTrackedLabel live x w1 of (x', w2) \<Rightarrow> (Inr x', w2)))"

definition wrapGet :: "'w client \<Rightarrow> 'w client \<Rightarrow> 'w \<Rightarrow> key \<Rightarrow> (api_error + obj) \<times> 'w" where
  "wrapGet cached live w k = (case cGet cached w k of
      (Inl e, w1) \<Rightarrow> (Inl e, w1)
    | (Inr x, w1) \<Rightarrow> (case x of
          OSecret s \<Rightarrow> if \<not> IsTrackedByOperator x \<and> secretNeedsLiveRefresh s then liveRefresh live k w1 else (Inr x, w1)
        | OConfigMap cm \<Rightarrow> if \<not> IsTrackedByOperator x \<and> configmapNeedsLiveRefresh cm then liveRefresh live k w1 else (Inr x, w1)
        | _ \<Rightarrow> (Inr x, w1)))"

definition NewClientWrapper :: "'w client \<Rightarrow> 'w client \<Rightarrow> 'w client" where
  "NewClientWrapper cached live = cached\<lparr>cGet := wrapGet cached live\<rparr>"

text \<open>What a read through the wrapper does to an object.\<close>

definition track :: "obj \<Rightarrow> obj" where
  "track x = (if refreshable (obj_kind x) \<and> \<not> IsTrackedByOperator x then addTrackingLabel x else x)"

section \<open>Lemmas\<close>

lemma okey_strip [simp]: "okey (StripDataFromSecretOrConfigMapTransform x) = okey x"
  by (cases x) (simp_all add: okey_def)

lemma strip_other: "\<not> refreshable (obj_kind x) \<Longrightarrow> StripDataFromSecretOrConfigMapTransform x = x"
  by (cases x) (simp_all add: refreshable_def)

lemma tracked_strip: "IsTrackedByOperator (StripDataFromSecretOrConfigMapTransform x) = IsTrackedByOperator x"
  by (cases x) (simp_all add: IsTrackedByOperator_def obj_labels_def)

lemma tracked_add [simp]: "IsTrackedByOperator (addTrackingLabel x)"
  by (simp add: IsTrackedByOperator_def trackedLabels_def addTrackingLabel_def)

lemma okey_track [simp]: "okey (track x) = okey x"
  by (simp add: track_def addTrackingLabel_def)

lemma obj_kind_addTrackingLabel [simp]: "obj_kind (addTrackingLabel x) = obj_kind x"
  by (simp add: addTrackingLabel_def set_labels_def)

text \<open>The cached object needs a live read exactly when it is an untracked Secret or ConfigMap.\<close>

lemma wrapGet_strip:
  assumes "cGet live w k = (Inr x, w1)"
  shows "wrapGet (strip_cache live) live w k =
    (if refreshable (obj_kind x) \<and> \<not> IsTrackedByOperator x then liveRefresh live k w1 else (Inr x, w1))"
  using assms
  by (cases x) (auto simp: wrapGet_def strip_cache_def refreshable_def secretNeedsLiveRefresh_def
      configmapNeedsLiveRefresh_def IsTrackedByOperator_def obj_labels_def)

lemma wrapGet_error:
  "cGet live w k = (Inl e, w1) \<Longrightarrow> wrapGet (strip_cache live) live w k = (Inl e, w1)"
  by (simp add: wrapGet_def strip_cache_def)

lemma wrapped_sel:
  "cCreate (NewClientWrapper (strip_cache live) live) = cCreate live"
  "cUpdate (NewClientWrapper (strip_cache live) live) = cUpdate live"
  "cDelete (NewClientWrapper (strip_cache live) live) = cDelete live"
  "cPatch (NewClientWrapper (strip_cache live) live) = cPatch live"
  by (simp_all add: NewClientWrapper_def strip_cache_def)

locale live_api = k8s_client live view admit id
  for live :: "'w client" and view :: "'w \<Rightarrow> key \<Rightarrow> obj option" and admit :: "obj \<Rightarrow> obj"
begin

lemma live_get: "cGet live w k = (r, w') \<Longrightarrow> view w' = view w"
  using get_view[of w k r w'] by (auto simp: option.map_id)

lemma live_found: "cGet live w k = (Inr x, w') \<Longrightarrow> view w k = Some x"
  using get_found[of w k x w'] by auto

lemma liveRefresh_cases:
  assumes "liveRefresh live k w = (r, w')"
  obtains (error) e where "r = Inl e" and "view w' = view w" and "cGet live w k = (Inl e, w')"
    | (found) x where "view w k = Some x" and "r = Inr (if IsTrackedByOperator x then x else addTrackingLabel x)"
        and "view w' = view w \<or> \<not> IsTrackedByOperator x \<and> view w' = (view w)(k \<mapsto> addTrackingLabel x)"
proof (cases "cGet live w k")
  case (Pair g w1)
  show thesis
  proof (cases g)
    case (Inl e)
    with Pair assms live_get[of w k g w1] show thesis by (intro error) (auto simp: liveRefresh_def)
  next
    case (Inr x)
    with Pair have v: "view w1 = view w" "view w k = Some x"
      using live_get[of w k g w1] live_found[of w k x w1] by auto
    have "okey x = k" by (rule view_key[OF v(2)])
    moreover have "okey (addTrackingLabel x) = okey x" by (simp add: addTrackingLabel_def)
    ultimately have p: "view (snd (cPatch live w1 x (addTrackingLabel x))) = view w \<or>
        view (snd (cPatch live w1 x (addTrackingLabel x))) = (view w)(k \<mapsto> addTrackingLabel x)"
      using patch_view[of w1 x "addTrackingLabel x" _ "snd (cPatch live w1 x (addTrackingLabel x))"] v
      by (metis prod.collapse)
    show thesis
      using assms Pair Inr v p
      by (intro found[of x]) (auto simp: liveRefresh_def ensureTrackedLabel_def Let_def split: if_splits)
  qed
qed

lemma wrapGet_cases:
  assumes "wrapGet (strip_cache live) live w k = (r, w')"
  obtains (error) e w1 where "r = Inl e" and "view w' = view w" and "cGet live w1 k = (Inl e, w')" and "view w1 = view w"
    | (found) x where "view w k = Some x" and "r = Inr (track x)"
        and "view w' = view w \<or> view w' = (view w)(k \<mapsto> track x)"
proof (cases "cGet live w k")
  case (Pair g w1)
  show thesis
  proof (cases g)
    case (Inl e)
    with Pair assms live_get[of w k g w1] wrapGet_error[of live w k e w1] error show thesis by auto
  next
    case (Inr x)
    with Pair have v: "view w1 = view w" "view w k = Some x"
      using live_get[of w k g w1] live_found[of w k x w1] by auto
    show thesis
    proof (cases "refreshable (obj_kind x) \<and> \<not> IsTrackedByOperator x")
      case True
      with assms Pair Inr have "liveRefresh live k w1 = (r, w')" by (simp add: wrapGet_strip)
      then show thesis
      proof (cases rule: liveRefresh_cases)
        case (error e)
        with v that(1) show thesis by metis
      next
        case (found y)
        with v True show thesis by (intro that(2)[of x]) (auto simp: track_def)
      qed
    next
      case False
      with assms Pair Inr have "(r, w') = (Inr x, w1)" by (auto simp: wrapGet_strip)
      with v False show thesis by (intro that(2)[of x]) (auto simp: track_def)
    qed
  qed
qed

lemma list_strip:
  assumes "cList live w kd = (Inr xs, w')" and "\<not> refreshable kd"
  shows "map StripDataFromSecretOrConfigMapTransform xs = xs"
  using list_found[OF assms] assms(2) by (intro map_idI strip_other) auto

lemma strip_cache_list:
  assumes "cList (strip_cache live) w kd = (rs, w')"
  shows "view w' = view w"
    and "rs = Inr xs \<Longrightarrow> \<not> refreshable kd \<Longrightarrow> set xs = {x. obj_kind x = kd \<and> view w (okey x) = Some x}"
proof -
  from assms obtain r where r: "cList live w kd = (r, w')"
    and rs: "rs = map_sum id (map StripDataFromSecretOrConfigMapTransform) r"
    by (auto simp: strip_cache_def split: prod.splits)
  show "view w' = view w" by (rule list_view[OF r])
  assume "rs = Inr xs" and k: "\<not> refreshable kd"
  with rs obtain ys where ys: "r = Inr ys" "xs = map StripDataFromSecretOrConfigMapTransform ys" by (cases r) auto
  with r list_strip[of w kd ys w'] list_found[of w kd ys w'] k
  show "set xs = {x. obj_kind x = kd \<and> view w (okey x) = Some x}" by simp
qed

end

sublocale live_api \<subseteq> wrapped: k8s_client "NewClientWrapper (strip_cache live) live" view admit track
proof (unfold_locales, goal_cases)
  case (5 w k r w')
  then have "wrapGet (strip_cache live) live w k = (r, w')" by (simp add: NewClientWrapper_def)
  then show ?case by (cases rule: wrapGet_cases) auto
next
  case (6 w k x w')
  then have "wrapGet (strip_cache live) live w k = (Inr x, w')" by (simp add: NewClientWrapper_def)
  then show ?case by (cases rule: wrapGet_cases) auto
next
  case (7 w k w')
  then have "wrapGet (strip_cache live) live w k = (Inl NotFound, w')" by (simp add: NewClientWrapper_def)
  then show ?case by (cases rule: wrapGet_cases) (auto dest: get_NotFound)
next
  case (8 w kd rs w')
  then show ?case by (intro strip_cache_list(1)) (simp add: NewClientWrapper_def)
next
  case (9 w kd xs w')
  then show ?case by (intro strip_cache_list(2)) (simp_all add: NewClientWrapper_def)
next
  case (1 w k x)
  then show ?case by (rule view_key)
next
  case (2 x)
  show ?case by (rule admit_key)
next
  case (3 x)
  show ?case by simp
next
  case (4 x)
  then show ?case by (simp add: track_def)
next
  case (10 w x w')
  then show ?case unfolding wrapped_sel by (rule create_ok)
next
  case (11 w x e w')
  then show ?case unfolding wrapped_sel by (rule create_err)
next
  case (12 w x w')
  then show ?case unfolding wrapped_sel by (rule create_exists)
next
  case (13 w x w')
  then show ?case unfolding wrapped_sel by (rule update_ok)
next
  case (14 w x e w')
  then show ?case unfolding wrapped_sel by (rule update_err)
next
  case (15 w k w')
  then show ?case unfolding wrapped_sel by (rule delete_ok)
next
  case (16 w k e w')
  then show ?case unfolding wrapped_sel by (rule delete_err)
next
  case (17 w k w')
  then show ?case unfolding wrapped_sel by (rule delete_NotFound)
next
  case (18 w x y pr w')
  then show ?case unfolding wrapped_sel by (rule patch_view)
next
  case (19 l x)
  show ?case by (simp add: track_def addTrackingLabel_def)
qed

context live_api begin

lemma wrapped_laws: "k8s_client (NewClientWrapper (strip_cache live) live) view admit track"
  by (rule wrapped.k8s_client_axioms)

lemma wrapGet_found:
  assumes "wrapGet (strip_cache live) live w k = (Inr x, w')"
  shows "\<exists>x0. view w k = Some x0 \<and> x = track x0 \<and> (view w' = view w \<or> view w' = (view w)(k \<mapsto> x))"
  using assms by (cases rule: wrapGet_cases) auto

end

interpretation mem_live: live_api mem_client mem_view id
  by unfold_locales

section \<open>Properties\<close>

text \<open>C8. The client the reconcilers run on, a wrapper over a cache that drops the data of untracked
  Secrets and ConfigMaps, meets the same laws as the live client it falls back to; a read changes at
  most the tracking label of the Secret or ConfigMap it returns.\<close>

theorem ClientWrapper_refines:
  assumes "k8s_client live view admit id"
  shows "k8s_client (NewClientWrapper (strip_cache live) live) view admit track"
  by (rule live_api.wrapped_laws) (rule live_api.intro[OF assms])

theorem ClientWrapper_refines_witness:
  "k8s_client (NewClientWrapper (strip_cache mem_client) mem_client) mem_view id track"
  by (rule ClientWrapper_refines) (rule mem.k8s_client_axioms)

text \<open>Reading through the wrapper never shows the reconcilers the stripped object of the cache: the
  object returned is the one the API server holds, labelled as tracked if it is a Secret or ConfigMap
  that was not; the server's object is left as it was or is the one returned, and no other changes.\<close>

theorem wrapGet_spec:
  assumes "k8s_client live view admit id"
    and "cGet (NewClientWrapper (strip_cache live) live) w k = (Inr x, w')"
  shows "\<exists>x0. view w k = Some x0 \<and> x = track x0 \<and>
    set_labels None x = set_labels None x0 \<and> (refreshable (fst k) \<longrightarrow> IsTrackedByOperator x) \<and>
    (view w' = view w \<or> view w' = (view w)(k \<mapsto> x))"
proof -
  have l: "live_api live view admit" by (rule live_api.intro[OF assms(1)])
  from assms(2) have g: "wrapGet (strip_cache live) live w k = (Inr x, w')" by (simp add: NewClientWrapper_def)
  from live_api.wrapGet_found[OF l g] obtain x0 where x0: "view w k = Some x0" "x = track x0"
    "view w' = view w \<or> view w' = (view w)(k \<mapsto> x)" by blast
  have "okey x0 = k" by (rule k8s_client.view_key[OF assms(1) x0(1)])
  then have "refreshable (fst k) \<longrightarrow> IsTrackedByOperator x" by (auto simp: x0(2) track_def okey_def)
  moreover have "set_labels None x = set_labels None x0" by (simp add: x0(2) track_def addTrackingLabel_def)
  ultimately show ?thesis using x0 by blast
qed

definition sampleSecret :: secret where
  "sampleSecret = \<lparr>secMeta = mkMeta ''repo'' serviceNamespace, secType = ''Opaque'', secData = gmap [(''url'', ''git'')], secStringData = None\<rparr>"

theorem wrapGet_spec_witness:
  "\<exists>x. fst (cGet (NewClientWrapper (strip_cache mem_client) mem_client) [OSecret sampleSecret] (KSecret, serviceNamespace, ''repo'')) = Inr x \<and>
     set_labels None x = set_labels None (OSecret sampleSecret) \<and> IsTrackedByOperator x"
proof -
  let ?k = "(KSecret, serviceNamespace, ''repo'')"
  let ?r = "cGet (NewClientWrapper (strip_cache mem_client) mem_client) [OSecret sampleSecret] ?k"
  have "\<not> isl (fst ?r)" by code_simp
  then obtain x where x: "fst ?r = Inr x" by (cases "fst ?r") auto
  have "mem_view [OSecret sampleSecret] ?k = Some (OSecret sampleSecret)"
    by (simp add: mem_view_def okey_def sampleSecret_def)
  with wrapGet_spec[OF mem.k8s_client_axioms run_result[OF x]] x show ?thesis by (auto simp: refreshable_def)
qed

end
