(* ===== verification/Argo_Route.thy ===== *)
theory Argo_Route
  imports Plugin_Correct
begin

text \<open>
  \<open>controllers/argocd_controller.go\<close>: the link to the default Argo CD in the application menu of the
  OpenShift console follows the route of its server, unless it is disabled.
\<close>

section \<open>Definitions\<close>

definition argocdRouteName :: string where "argocdRouteName = ''openshift-gitops-server''"

definition consoleLinkName :: string where "consoleLinkName = ''argocd''"

definition argocdNS :: string where "argocdNS = ''openshift-gitops''"

definition isConsoleLinkDisabled :: "env \<Rightarrow> bool" where
  "isConsoleLinkDisabled e = (ToLower (getenv e ''DISABLE_DEFAULT_ARGOCD_CONSOLELINK'') = ''true'')"

definition filterArgoCDRoute :: "string \<Rightarrow> string \<Rightarrow> bool" where
  "filterArgoCDRoute ns name = (ns = argocdNS \<and> argocdRouteName = name)"

text \<open>An event of the watch on routes, with the resource versions of an update.\<close>

datatype route_event = UpdateEvent string string string string | CreateEvent string string | DeleteEvent string string

fun filterPredicate :: "(string \<Rightarrow> string \<Rightarrow> bool) \<Rightarrow> route_event \<Rightarrow> bool" where
  "filterPredicate assert (UpdateEvent ns name oldVersion newVersion') = (assert ns name \<and> newVersion' \<noteq> oldVersion)"
| "filterPredicate assert (CreateEvent ns name) = assert ns name"
| "filterPredicate assert (DeleteEvent ns name) = assert ns name"

definition newConsoleLink :: "env \<Rightarrow> string \<Rightarrow> string \<Rightarrow> console_link" where
  "newConsoleLink e href txt =
     \<lparr>clMeta = mkMeta consoleLinkName '''', clText = txt, clHref = href, clLocation = ''ApplicationMenu'',
      clSection = ''OpenShift GitOps'', clImageURL = ''data:image/png;base64,'' @ encodedArgoImage e\<rparr>"

definition deleteConsoleLinkIfPresent :: "'w client \<Rightarrow> ('w, unit) act" where
  "deleteConsoleLinkIfPresent c =
     (let k = (KConsoleLink, '''', consoleLinkName)
      in handle (getAs c as_console_link k) (\<lambda>err. if IsNotFound err then ret () else fail err) (\<lambda>_. deleteO c k))"

definition routeURL :: "route \<Rightarrow> string" where
  "routeURL r = ''https://'' @ rtHost r"

definition reconcileRoute :: "env \<Rightarrow> api_flags \<Rightarrow> 'w client \<Rightarrow> ('w, unit) act" where
  "reconcileRoute e f c =
     (if \<not> consoleAPIFound f then ret ()
      else handle (getAs c as_route (KRoute, argocdNS, argocdRouteName))
        (\<lambda>err. if IsNotFound err then deleteConsoleLinkIfPresent c else fail err)
        (\<lambda>r. let link = newConsoleLink e (routeURL r) ''Cluster Argo CD''
             in if isConsoleLinkDisabled e then deleteConsoleLinkIfPresent c
                else getOrCreate c as_console_link (OConsoleLink link) (\<lambda>found.
                  if clHref found \<noteq> routeURL r then updateO c (OConsoleLink (found\<lparr>clHref := routeURL r\<rparr>)) else ret ())))"

section \<open>Lemmas\<close>

abbreviation consoleLinkKey :: key where
  "consoleLinkKey \<equiv> (KConsoleLink, [], consoleLinkName)"

abbreviation argoRouteKey :: key where
  "argoRouteKey \<equiv> (KRoute, argocdNS, argocdRouteName)"

lemma as_console_link_Some [simp]: "as_console_link y = Some a \<longleftrightarrow> y = OConsoleLink a"
  by (cases y) auto

lemma as_route_Some [simp]: "as_route y = Some a \<longleftrightarrow> y = ORoute a"
  by (cases y) auto

lemma newConsoleLink_key [simp]: "okey (OConsoleLink (newConsoleLink e h t)) = consoleLinkKey"
  by (simp add: okey_def newConsoleLink_def)

context k8s_client begin

lemma deleteConsoleLink_fp: "consoleLinkKey \<in> S \<Longrightarrow> act_rel (same_outside view S) (deleteConsoleLinkIfPresent c)"
  unfolding deleteConsoleLinkIfPresent_def Let_def by (intro fp.rel_intros getAs_fp deleteO_fp) auto

lemma reconcileRoute_fp: "consoleLinkKey \<in> S \<Longrightarrow> act_rel (same_outside view S) (reconcileRoute e f c)"
  unfolding reconcileRoute_def Let_def
  by (intro fp.rel_intros getAs_fp getOrCreate_fp updateO_fp deleteConsoleLink_fp)
    (auto simp: refreshable_def, auto simp: okey_def newConsoleLink_def)

lemma deleteConsoleLink_Ok:
  assumes "deleteConsoleLinkIfPresent c w = (Ok u, w')"
  shows "gone (view w' consoleLinkKey)"
  using assms unfolding deleteConsoleLinkIfPresent_def Let_def handle_Ok_iff
proof (elim disjE exE conjE)
  fix a w1 assume "deleteO c consoleLinkKey w1 = (Ok u, w')"
  then show ?thesis by (rule deleteO_Ok) simp
next
  fix err w1
  assume g: "getAs c as_console_link consoleLinkKey w = (Err err, w1)"
    and "(if IsNotFound err then ret () else fail err) w1 = (Ok u, w')"
  then show ?thesis using getAs_NotFound[OF g] by (auto split: if_splits)
qed

end

context verbatim_client begin

lemma reconcileRoute_Ok:
  assumes "reconcileRoute e f c w = (Ok u, w')" and "consoleAPIFound f"
  shows "case view w argoRouteKey of
      Some (ORoute r) \<Rightarrow> if isConsoleLinkDisabled e then gone (view w' consoleLinkKey)
        else (\<exists>l. view w' consoleLinkKey = Some (OConsoleLink l) \<and> clHref l = routeURL r)
    | _ \<Rightarrow> gone (view w' consoleLinkKey)"
proof -
  have nr: "\<not> refreshable (fst argoRouteKey)" by (simp add: refreshable_def)
  from assms have "handle (getAs c as_route argoRouteKey)
        (\<lambda>err. if IsNotFound err then deleteConsoleLinkIfPresent c else fail err)
        (\<lambda>r. let link = newConsoleLink e (routeURL r) ''Cluster Argo CD''
             in if isConsoleLinkDisabled e then deleteConsoleLinkIfPresent c
                else getOrCreate c as_console_link (OConsoleLink link) (\<lambda>found.
                  if clHref found \<noteq> routeURL r then updateO c (OConsoleLink (found\<lparr>clHref := routeURL r\<rparr>)) else ret ())) w = (Ok u, w')"
    by (simp add: reconcileRoute_def)
  then show ?thesis
  proof (subst (asm) handle_Ok_iff, elim disjE exE conjE)
    fix r w1
    assume g: "getAs c as_route argoRouteKey w = (Ok r, w1)"
      and k: "(let link = newConsoleLink e (routeURL r) ''Cluster Argo CD''
             in if isConsoleLinkDisabled e then deleteConsoleLinkIfPresent c
                else getOrCreate c as_console_link (OConsoleLink link) (\<lambda>found.
                  if clHref found \<noteq> routeURL r then updateO c (OConsoleLink (found\<lparr>clHref := routeURL r\<rparr>)) else ret ())) w1 = (Ok u, w')"
    have v: "view w argoRouteKey = Some (ORoute r)"
      using g nr by (rule getAs_Ok) simp
    show ?thesis
    proof (cases "isConsoleLinkDisabled e")
      case True
      with k have "deleteConsoleLinkIfPresent c w1 = (Ok u, w')" by (simp add: Let_def)
      with v True deleteConsoleLink_Ok show ?thesis by simp
    next
      case False
      with k have c: "getOrCreate c as_console_link (OConsoleLink (newConsoleLink e (routeURL r) ''Cluster Argo CD'')) (\<lambda>found.
          if clHref found \<noteq> routeURL r then updateO c (OConsoleLink (found\<lparr>clHref := routeURL r\<rparr>)) else ret ()) w1 = (Ok u, w')"
        by (simp add: Let_def)
      have "\<exists>a. view w' = (view w1)(okey (OConsoleLink (newConsoleLink e (routeURL r) ''Cluster Argo CD'')) \<mapsto> OConsoleLink a) \<and>
          clHref a = routeURL r"
        by (rule createOrUpdate_Ok[where wrap = OConsoleLink, OF c])
          (auto simp: refreshable_def okey_def newConsoleLink_def split: if_splits)
      with v False show ?thesis by auto
    qed
  next
    fix err w1
    assume g: "getAs c as_route argoRouteKey w = (Err err, w1)"
      and k: "(if IsNotFound err then deleteConsoleLinkIfPresent c else fail err) w1 = (Ok u, w')"
    then have "IsNotFound err" and "deleteConsoleLinkIfPresent c w1 = (Ok u, w')" by (auto split: if_splits)
    with getAs_NotFound(1)[OF g] deleteConsoleLink_Ok show ?thesis by simp
  qed
qed

end

section \<open>Properties\<close>

text \<open>The console link follows the route: when a pass returns without an error on a cluster with the
  console API, the link is gone if there is no route or the link is disabled, and otherwise exists
  with the https address of the route's host. No other object is touched.\<close>

theorem reconcileRoute_spec:
  assumes "verbatim_client c view admit refresh" and "consoleAPIFound f"
    and "reconcileRoute e f c w = (Ok (), w')"
  shows "(case view w argoRouteKey of
      Some (ORoute r) \<Rightarrow> if isConsoleLinkDisabled e then gone (view w' consoleLinkKey)
        else (\<exists>l. view w' consoleLinkKey = Some (OConsoleLink l) \<and> clHref l = routeURL r)
    | _ \<Rightarrow> gone (view w' consoleLinkKey)) \<and> same_outside view {consoleLinkKey} w w'"
proof
  show "case view w argoRouteKey of
      Some (ORoute r) \<Rightarrow> if isConsoleLinkDisabled e then gone (view w' consoleLinkKey)
        else (\<exists>l. view w' consoleLinkKey = Some (OConsoleLink l) \<and> clHref l = routeURL r)
    | _ \<Rightarrow> gone (view w' consoleLinkKey)"
    by (rule verbatim_client.reconcileRoute_Ok[OF assms(1,3,2)])
  have cl: "k8s_client c view admit refresh" using assms(1) by (rule verbatim_client.axioms)
  show "same_outside view {consoleLinkKey} w w'"
    by (rule act_relD[OF k8s_client.reconcileRoute_fp[OF cl] assms(3)]) simp
qed

definition sampleRoute :: route where
  "sampleRoute = \<lparr>rtMeta = mkMeta argocdRouteName argocdNS, rtHost = ''argocd.example.com'', rtPath = '''',
     rtPort = None, rtTLS = None, rtToKind = '''', rtToName = '''', rtWildcardPolicy = '''', rtIngress = None\<rparr>"

theorem reconcileRoute_spec_witness:
  "\<exists>l. mem_view (snd (reconcileRoute sampleEnv sampleFlags mem_client [ORoute sampleRoute])) consoleLinkKey = Some (OConsoleLink l) \<and>
     clHref l = ''https://argocd.example.com''"
proof -
  have r: "fst (reconcileRoute sampleEnv sampleFlags mem_client [ORoute sampleRoute]) = Ok ()" by code_simp
  have f: "consoleAPIFound sampleFlags" by (simp add: sampleFlags_def)
  have v: "mem_view [ORoute sampleRoute] argoRouteKey = Some (ORoute sampleRoute)"
    by (simp add: mem_view_def okey_def sampleRoute_def)
  have d: "\<not> isConsoleLinkDisabled sampleEnv" by code_simp
  from reconcileRoute_spec[OF mem.verbatim_client_axioms f run_result[OF r]] v d
  show ?thesis by (simp add: routeURL_def sampleRoute_def)
qed

end
