(* ===== verification/Metrics.thy ===== *)
theory Metrics
  imports Plugin_Correct
begin

text \<open>
  \<open>controllers/argocd_metrics_controller.go\<close>: for every Argo CD instance, the monitoring label of its
  namespace, the rights of the cluster's Prometheus there, the service monitors and alert rules, and,
  once per cluster, the embedded dashboards and the server name of the operator's own monitor.
\<close>

section \<open>The objects\<close>

definition alertRuleName :: string where "alertRuleName = ''gitops-operator-argocd-alerts''"

definition syncLoopAlertRuleName :: string where "syncLoopAlertRuleName = ''gitops-operator-argocd-sync-loop-alerts''"

definition dashboardNamespace :: string where "dashboardNamespace = ''openshift-config-managed''"

definition operatorMetricsServiceName :: string where
  "operatorMetricsServiceName = ''openshift-gitops-operator-metrics-service''"

definition operatorMetricsMonitorName :: string where
  "operatorMetricsMonitorName = ''openshift-gitops-operator-metrics-monitor''"

definition readRoleName :: "string \<Rightarrow> string" where "readRoleName ns = ns @ ''-read''"

definition readRoleBindingName :: "string \<Rightarrow> string" where
  "readRoleBindingName ns = ns @ ''-prometheus-k8s-read-binding''"

definition newReadRole :: "string \<Rightarrow> role" where
  "newReadRole ns = \<lparr>roleMeta = mkMeta (readRoleName ns) ns,
     roleRules = Some [mkRule [''''] [''endpoints'', ''services'', ''pods''] [''get'', ''list'', ''watch'']]\<rparr>"

definition newReadRoleBinding :: "string \<Rightarrow> role_binding" where
  "newReadRoleBinding ns = \<lparr>rbMeta = mkMeta (readRoleBindingName ns) ns,
     rbSubjects = Some [\<lparr>subjKind = ''ServiceAccount'', subjName = ''prometheus-k8s'', subjNamespace = ''openshift-monitoring''\<rparr>],
     rbRoleRef = \<lparr>refAPIGroup = ''rbac.authorization.k8s.io'', refKind = ''Role'', refName = readRoleName ns\<rparr>\<rparr>"

definition newServiceMonitor :: "string \<Rightarrow> string \<Rightarrow> string \<Rightarrow> service_monitor" where
  "newServiceMonitor ns name matchLabel =
     \<lparr>smMeta = (mkMeta name ns)\<lparr>metaLabels := gmap [(''release'', ''prometheus-operator'')]\<rparr>,
      smMatchLabels = gmap [(''app.kubernetes.io/name'', matchLabel)],
      smEndpoints = [\<lparr>epPort = ''metrics'', epTLSServerName = None\<rparr>]\<rparr>"

definition newRecordingRule :: "string \<Rightarrow> string \<Rightarrow> alert_rule" where
  "newRecordingRule name expr =
     \<lparr>arAlert = '''', arRecord = name, arExpr = expr, arFor = None, arLabels = None, arAnnotations = None\<rparr>"

definition newAlertRule :: "string \<Rightarrow> string \<Rightarrow> string \<Rightarrow> string \<Rightarrow> string \<Rightarrow> string \<Rightarrow> alert_rule" where
  "newAlertRule name severity duration expr summary description =
     \<lparr>arAlert = name, arRecord = '''', arExpr = expr, arFor = Some duration,
      arLabels = gmap [(''severity'', severity)],
      arAnnotations = gmap [(''summary'', summary), (''description'', description)]\<rparr>"

definition newPrometheusRule :: "string \<Rightarrow> prometheus_rule" where
  "newPrometheusRule ns =
     \<lparr>prmMeta = mkMeta alertRuleName ns,
      prmGroups = [\<lparr>rgName = ''GitOpsOperatorArgoCD'', rgRules =
        [newAlertRule ''ArgoCDSyncAlert'' ''warning'' ''5m''
          (''argocd_app_info{namespace='' @ quoted ns @ '',sync_status='' @ quoted ''OutOfSync'' @ ''} > 0'')
          ''Argo CD application is out of sync''
          ''Argo CD application {{ $labels.name }} is out of sync. Check ArgoCDSyncAlert status, this alert is designed to notify that an application managed by Argo CD is out of sync.'']\<rparr>]\<rparr>"

definition newSyncLoopPrometheusRule :: "string \<Rightarrow> prometheus_rule" where
  "newSyncLoopPrometheusRule ns =
     \<lparr>prmMeta = mkMeta syncLoopAlertRuleName ns,
      prmGroups = [\<lparr>rgName = ''GitOpsOperatorArgoCDSyncLoop'', rgRules =
        [newRecordingRule ''gitops:argocd_app_sync:rate10m''
           (''sum by (name, namespace) (rate(argocd_app_sync_total{namespace='' @ quoted ns @ ''}[10m]))''),
         newRecordingRule ''gitops:argocd_app_sync_failed:rate10m''
           (''sum by (name, namespace) (rate(argocd_app_sync_total{namespace='' @ quoted ns @ '',phase=~'' @ quoted ''Error|Failed'' @ ''}[10m]))''),
         newAlertRule ''ArgoCDAppSyncLoop'' ''warning'' ''20m''
           (''gitops:argocd_app_sync:rate10m{namespace='' @ quoted ns @ ''} > 0.01'')
           ''Argo CD application is syncing continuously''
           ''Argo CD application {{ $labels.name }} in namespace {{ $labels.namespace }} has a sustained sync rate above 0.01/s (about one sync every ~100s) for 20m. This often indicates a selfHeal conflict (for example HPA fighting declared replicas). Check application sync history, diff, and conflicting controllers.'',
         newAlertRule ''ArgoCDAppSyncFailureLoop'' ''warning'' ''15m''
           (''gitops:argocd_app_sync_failed:rate10m{namespace='' @ quoted ns @ ''} > 0.005'')
           ''Argo CD application syncs are failing repeatedly''
           ''Argo CD application {{ $labels.name }} in namespace {{ $labels.namespace }} has a sustained failed sync rate above 0.005/s for 15m. Investigate the application operation status and sync errors.'']\<rparr>]\<rparr>"

section \<open>Creating what is absent\<close>

text \<open>The shape the four functions below share: look the object up, and only when it is not there set
  its owner and create it.\<close>

definition createOwnedIfAbsent :: "env \<Rightarrow> 'w client \<Rightarrow> object_meta \<Rightarrow> obj \<Rightarrow> ('w, unit) act" where
  "createOwnedIfAbsent e c owner x = handle (getO c (okey x))
     (\<lambda>err. if IsNotFound err
       then bindG (liftE (SetControllerReference e owner (obj_meta x))) (\<lambda>m. createO c (set_meta m x))
       else fail err)
     (\<lambda>_. ret ())"

definition createReadRoleIfAbsent :: "env \<Rightarrow> 'w client \<Rightarrow> string \<Rightarrow> argocd \<Rightarrow> ('w, unit) act" where
  "createReadRoleIfAbsent e c ns a = createOwnedIfAbsent e c (acMeta a) (ORole (newReadRole ns))"

definition createReadRoleBindingIfAbsent :: "env \<Rightarrow> 'w client \<Rightarrow> string \<Rightarrow> argocd \<Rightarrow> ('w, unit) act" where
  "createReadRoleBindingIfAbsent e c ns a = createOwnedIfAbsent e c (acMeta a) (ORoleBinding (newReadRoleBinding ns))"

definition createServiceMonitorIfAbsent ::
  "env \<Rightarrow> 'w client \<Rightarrow> string \<Rightarrow> argocd \<Rightarrow> string \<Rightarrow> string \<Rightarrow> ('w, unit) act" where
  "createServiceMonitorIfAbsent e c ns a name matchLabel =
     createOwnedIfAbsent e c (acMeta a) (OServiceMonitor (newServiceMonitor ns name matchLabel))"

definition createPrometheusRuleIfAbsent :: "env \<Rightarrow> 'w client \<Rightarrow> prometheus_rule \<Rightarrow> argocd \<Rightarrow> ('w, unit) act" where
  "createPrometheusRuleIfAbsent e c r a = createOwnedIfAbsent e c (acMeta a) (OPrometheusRule r)"

definition createPrometheusRulesIfAbsent :: "env \<Rightarrow> 'w client \<Rightarrow> string \<Rightarrow> argocd \<Rightarrow> ('w, unit) act" where
  "createPrometheusRulesIfAbsent e c ns a =
     thenG (createPrometheusRuleIfAbsent e c (newPrometheusRule ns) a)
           (createPrometheusRuleIfAbsent e c (newSyncLoopPrometheusRule ns) a)"

section \<open>Dashboards and the operator's own monitor\<close>

definition fileExt :: "string \<Rightarrow> string" where
  "fileExt s = (if CHR ''.'' \<in> set s then CHR ''.'' # rev (takeWhile (\<lambda>ch. ch \<noteq> CHR ''.'') (rev s)) else '''')"

definition newDashboardConfigMap :: "env \<Rightarrow> string \<Rightarrow> string \<Rightarrow> go_error + config_map" where
  "newDashboardConfigMap e filename ns =
     (let name = take (length filename - length (fileExt filename)) filename;
          m = AddTrackedByOperatorLabel ((mkMeta name ns)\<lparr>metaLabels := gmap [(''console.openshift.io/dashboard'', ''true'')]\<rparr>)
      in case readDashboard e (''dashboards/'' @ filename) of
           Inl err \<Rightarrow> Inl err
         | Inr content \<Rightarrow> Inr \<lparr>cmMeta = m, cmData = gmap [(filename, content)], cmBinaryData = None\<rparr>)"

definition processDashboard :: "env \<Rightarrow> 'w client \<Rightarrow> string \<times> bool \<Rightarrow> ('w, unit) act" where
  "processDashboard e c entry = (case entry of (name, isDir) \<Rightarrow>
     if isDir then ret ()
     else (case newDashboardConfigMap e name dashboardNamespace of
        Inl _ \<Rightarrow> ret ()
      | Inr dashboard \<Rightarrow> handle (getAs c as_config_map (okey (OConfigMap dashboard)))
          (\<lambda>err. if IsNotFound err then logged (createO c (OConfigMap dashboard)) else ret ())
          (\<lambda>existing. if gindex (cmData existing) name \<noteq> gindex (cmData dashboard) name
             then logged (updateO c (OConfigMap dashboard)) else ret ())))"

definition reconcileDashboards :: "env \<Rightarrow> 'w client \<Rightarrow> ('w, unit) act" where
  "reconcileDashboards e c = handle (getAs c as_namespace (KNamespace, '''', dashboardNamespace))
     (\<lambda>_. ret ())
     (\<lambda>_. bindG (liftE (embeddedDashboards e)) (\<lambda>entries. forG (processDashboard e c) entries))"

text \<open>\<open>Spec.Endpoints[0].TLSConfig.ServerName\<close>: an index and two pointers.\<close>

definition setServerName :: "string \<Rightarrow> service_monitor \<Rightarrow> (bool \<times> service_monitor) outcome" where
  "setServerName desired sm = (case smEndpoints sm of
      [] \<Rightarrow> Panic IndexOutOfRange
    | ep # eps \<Rightarrow> (case epTLSServerName ep of
        None \<Rightarrow> Panic NilDereference
      | Some current \<Rightarrow>
          if current = None \<or> current \<noteq> Some desired
          then Ok (True, sm\<lparr>smEndpoints := ep\<lparr>epTLSServerName := Some (Some desired)\<rparr> # eps\<rparr>)
          else Ok (False, sm)))"

definition reconcileOperatorMetricsServiceMonitor :: "env \<Rightarrow> 'w client \<Rightarrow> ('w, unit) act" where
  "reconcileOperatorMetricsServiceMonitor e c = (case readFile e operatorPodNamespacePath of
      Inl NotExist \<Rightarrow> ret ()
    | Inl (OtherFileError s) \<Rightarrow> fail (ErrorText s)
    | Inr operatorNS \<Rightarrow>
        (let desired = operatorMetricsServiceName @ ''.'' @ operatorNS @ ''.svc''
         in handle (getAs c as_service_monitor (KServiceMonitor, operatorNS, operatorMetricsMonitorName))
              (\<lambda>err. if \<not> IsNotFound err then fail err else ret ())
              (\<lambda>sm. bindG (liftO (setServerName desired sm)) (\<lambda>(changed, sm').
                 if changed then updateO c (OServiceMonitor sm') else ret ()))))"

section \<open>Reconciliation\<close>

definition monitoringLabelFor :: "string \<Rightarrow> string" where
  "monitoringLabelFor ns = (if HasPrefix ns ''openshift-'' then ''openshift.io/cluster-monitoring'' else ''openshift.io/user-monitoring'')"

definition setMonitoringLabel :: "'w client \<Rightarrow> namespace_obj \<Rightarrow> string \<Rightarrow> ('w, unit) act" where
  "setMonitoringLabel c n v = updateO c (ONamespace (n\<lparr>nsMeta := (nsMeta n)\<lparr>metaLabels :=
     gput (metaLabels (nsMeta n)) (monitoringLabelFor (metaName (nsMeta n))) v\<rparr>\<rparr>))"

definition enableMetrics :: "env \<Rightarrow> 'w client \<Rightarrow> string \<Rightarrow> string \<Rightarrow> namespace_obj \<Rightarrow> argocd \<Rightarrow> ('w, unit) act" where
  "enableMetrics e c ns name n a =
     thenG (if gget (metaLabels (nsMeta n)) (monitoringLabelFor (metaName (nsMeta n))) \<noteq> Some ''true''
            then setMonitoringLabel c n ''true'' else ret ())
     (thenG (createReadRoleIfAbsent e c ns a)
     (thenG (createReadRoleBindingIfAbsent e c ns a)
     (thenG (createServiceMonitorIfAbsent e c ns a name (name @ ''-metrics''))
     (thenG (createServiceMonitorIfAbsent e c ns a (name @ ''-server'') (name @ ''-server-metrics''))
     (thenG (createServiceMonitorIfAbsent e c ns a (name @ ''-repo-server'') (name @ ''-repo-server''))
     (thenG (createPrometheusRulesIfAbsent e c ns a)
     (thenG (reconcileDashboards e c)
            (reconcileOperatorMetricsServiceMonitor e c))))))))"

definition deleteIfPresent :: "'w client \<Rightarrow> key \<Rightarrow> ('w, unit) act" where
  "deleteIfPresent c k = handle (deleteO c k) (\<lambda>err. if \<not> IsNotFound err then fail err else ret ()) (\<lambda>_. ret ())"

definition deleteServiceMonitor :: "'w client \<Rightarrow> string \<Rightarrow> string \<Rightarrow> ('w, unit) act" where
  "deleteServiceMonitor c name ns = deleteIfPresent c (KServiceMonitor, ns, name)"

definition disableMetrics :: "'w client \<Rightarrow> string \<Rightarrow> string \<Rightarrow> namespace_obj \<Rightarrow> ('w, unit) act" where
  "disableMetrics c ns name n =
     (if gget (metaLabels (nsMeta n)) (monitoringLabelFor (metaName (nsMeta n))) = None then ret ()
      else thenG (setMonitoringLabel c n ''false'')
        (thenG (deleteIfPresent c (KRole, ns, readRoleName ns))
        (thenG (deleteIfPresent c (KRoleBinding, ns, readRoleBindingName ns))
        (thenG (deleteServiceMonitor c name ns)
        (thenG (deleteServiceMonitor c (name @ ''-server'') ns)
        (thenG (deleteServiceMonitor c (name @ ''-repo-server'') ns)
               (forG (\<lambda>r. deleteIfPresent c (KPrometheusRule, ns, r)) [alertRuleName, syncLoopAlertRuleName])))))))"

definition metricsDisabled :: "argocd \<Rightarrow> bool" where
  "metricsDisabled a = (acDisableMetrics (acSpec a) = Some True)"

definition reconcileMetrics :: "env \<Rightarrow> 'w client \<Rightarrow> string \<Rightarrow> string \<Rightarrow> ('w, unit) act" where
  "reconcileMetrics e c ns name =
     handle (getAs c as_namespace (KNamespace, '''', ns)) (\<lambda>err. if IsNotFound err then ret () else fail err) (\<lambda>n.
     handle (getAs c as_argocd (KArgoCD, ns, name)) (\<lambda>err. if IsNotFound err then ret () else fail err) (\<lambda>a.
       if \<not> metricsDisabled a then enableMetrics e c ns name n a else disableMetrics c ns name n))"

section \<open>Specifications\<close>

definition monitoringKeys :: "string \<Rightarrow> string \<Rightarrow> key list" where
  "monitoringKeys ns name =
     [(KRole, ns, readRoleName ns), (KRoleBinding, ns, readRoleBindingName ns),
      (KServiceMonitor, ns, name), (KServiceMonitor, ns, name @ ''-server''), (KServiceMonitor, ns, name @ ''-repo-server''),
      (KPrometheusRule, ns, alertRuleName), (KPrometheusRule, ns, syncLoopAlertRuleName)]"

definition metricsKeys :: "string \<Rightarrow> string \<Rightarrow> key set" where
  "metricsKeys ns name = set (monitoringKeys ns name) \<union> {(KNamespace, '''', ns)} \<union>
     {k. fst k = KConfigMap \<and> fst (snd k) = dashboardNamespace} \<union>
     {k. fst k = KServiceMonitor \<and> snd (snd k) = operatorMetricsMonitorName}"

section \<open>Lemmas\<close>

lemma as_service_monitor_Some [simp]: "as_service_monitor y = Some a \<longleftrightarrow> y = OServiceMonitor a"
  by (cases y) auto

lemma okey_set_meta_owned: "SetControllerReference e own (obj_meta x) = Inr m \<Longrightarrow> okey (set_meta m x) = okey x"
  by (simp add: okey_def SetControllerReference_Inr)

lemma metrics_okeys [simp]:
  "okey (ORole (newReadRole ns)) = (KRole, ns, readRoleName ns)"
  "okey (ORoleBinding (newReadRoleBinding ns)) = (KRoleBinding, ns, readRoleBindingName ns)"
  "okey (OServiceMonitor (newServiceMonitor ns n l)) = (KServiceMonitor, ns, n)"
  "okey (OPrometheusRule (newPrometheusRule ns)) = (KPrometheusRule, ns, alertRuleName)"
  "okey (OPrometheusRule (newSyncLoopPrometheusRule ns)) = (KPrometheusRule, ns, syncLoopAlertRuleName)"
  by (simp_all add: okey_def newReadRole_def newReadRoleBinding_def newServiceMonitor_def newPrometheusRule_def
      newSyncLoopPrometheusRule_def)

lemma dashboard_key:
  "newDashboardConfigMap e f ns = Inr d \<Longrightarrow> fst (okey (OConfigMap d)) = KConfigMap \<and> fst (snd (okey (OConfigMap d))) = ns"
  by (auto simp: newDashboardConfigMap_def okey_def AddTrackedByOperatorLabel_def Let_def split: sum.splits)

lemmas metrics_create_defs = createReadRoleIfAbsent_def createReadRoleBindingIfAbsent_def createServiceMonitorIfAbsent_def
  createPrometheusRulesIfAbsent_def createPrometheusRuleIfAbsent_def

context k8s_client begin

lemma createOwned_Ok:
  assumes "createOwnedIfAbsent e c own x w = (Ok u, w')" and "\<not> refreshable (obj_kind x)"
  shows "view w' (okey x) \<noteq> None"
  using assms(1) unfolding createOwnedIfAbsent_def handle_Ok_iff
proof (elim disjE exE conjE)
  fix a w1 assume g: "getO c (okey x) w = (Ok a, w1)" and "ret () w1 = (Ok u, w')"
  then show ?thesis using getO_Ok[OF g] assms(2) by (auto simp: okey_def)
next
  fix err w1
  assume "(if IsNotFound err then bindG (liftE (SetControllerReference e own (obj_meta x))) (\<lambda>m. createO c (set_meta m x))
    else fail err) w1 = (Ok u, w')"
  then obtain m where m: "SetControllerReference e own (obj_meta x) = Inr m" and cr: "createO c (set_meta m x) w1 = (Ok u, w')"
    by (auto simp: ok_iff split: if_splits)
  from createO_Ok(1)[OF cr] okey_set_meta_owned[OF m] show ?thesis by simp
qed

lemma createOwned_kp: "act_rel (keeps_present view S) (createOwnedIfAbsent e c own x)"
  unfolding createOwnedIfAbsent_def by (intro kp.rel_intros getO_kp createO_kp)

lemma createOwned_fp:
  "okey x \<in> S \<Longrightarrow> act_rel (same_outside view S) (createOwnedIfAbsent e c own x)"
  unfolding createOwnedIfAbsent_def
  by (intro fp.rel_intros getO_fp createO_fp) (auto simp: liftE_Ok_iff okey_set_meta_owned)

lemma reconcileDashboards_kp: "act_rel (keeps_present view S) (reconcileDashboards e c)"
  unfolding reconcileDashboards_def processDashboard_def
  by (intro kp.rel_handle kp.rel_ret kp.rel_bindG kp.rel_liftE kp.rel_forG getAs_kp)
    (auto split: prod.split sum.split intro!: kp.rel_intros getAs_kp createO_kp updateO_kp)

lemma reconcileDashboards_fp:
  assumes "{k. fst k = KConfigMap \<and> fst (snd k) = dashboardNamespace} \<subseteq> S"
  shows "act_rel (same_outside view S) (reconcileDashboards e c)"
proof -
  have "act_rel (same_outside view S) (processDashboard e c entry)" for entry
  proof (cases "snd entry \<or> isl (newDashboardConfigMap e (fst entry) dashboardNamespace)")
    case True
    then show ?thesis by (auto simp: processDashboard_def fp.rel_ret split: prod.split sum.split)
  next
    case False
    then obtain d where d: "newDashboardConfigMap e (fst entry) dashboardNamespace = Inr d"
      by (cases "newDashboardConfigMap e (fst entry) dashboardNamespace") auto
    from dashboard_key[OF d] assms have "okey (OConfigMap d) \<in> S" by blast
    with False d show ?thesis unfolding processDashboard_def
      by (cases entry) (auto intro!: fp.rel_intros getAs_fp createO_fp updateO_fp)
  qed
  then show ?thesis unfolding reconcileDashboards_def
    by (intro fp.rel_intros getAs_fp) (auto simp: refreshable_def)
qed

lemma operatorMonitor_kp: "act_rel (keeps_present view S) (reconcileOperatorMetricsServiceMonitor e c)"
  unfolding reconcileOperatorMetricsServiceMonitor_def Let_def
  by (auto split: sum.split file_error.split intro!: kp.rel_intros getAs_kp updateO_kp)

lemma setServerName_meta: "setServerName d sm = Ok (ch, sm') \<Longrightarrow> smMeta sm' = smMeta sm"
  by (auto simp: setServerName_def split: list.splits option.splits if_splits)

lemma operatorMonitor_fp:
  assumes "{k. fst k = KServiceMonitor \<and> snd (snd k) = operatorMetricsMonitorName} \<subseteq> S"
  shows "act_rel (same_outside view S) (reconcileOperatorMetricsServiceMonitor e c)"
proof -
  have u: "act_rel (same_outside view S) (bindG (liftO (setServerName d sm)) (\<lambda>(changed, sm').
      if changed then updateO c (OServiceMonitor sm') else ret ()))"
    if "okey (OServiceMonitor sm) = (KServiceMonitor, n, operatorMetricsMonitorName)" for d sm n
    using that assms
    by (intro fp.rel_bindG fp.rel_liftO)
      (auto simp: liftO_Ok_iff okey_def dest!: setServerName_meta intro!: fp.rel_intros updateO_fp)
  show ?thesis
    unfolding reconcileOperatorMetricsServiceMonitor_def Let_def
    by (auto split: sum.split file_error.split intro!: fp.rel_ret fp.rel_fail fp.rel_handle fp.rel_if getAs_fp u
        simp: refreshable_def dest!: getAs_key)
qed

end

definition enableTail :: "env \<Rightarrow> 'w client \<Rightarrow> string \<Rightarrow> string \<Rightarrow> argocd \<Rightarrow> ('w, unit) act" where
  "enableTail e c ns name a =
     thenG (createReadRoleIfAbsent e c ns a)
     (thenG (createReadRoleBindingIfAbsent e c ns a)
     (thenG (createServiceMonitorIfAbsent e c ns a name (name @ ''-metrics''))
     (thenG (createServiceMonitorIfAbsent e c ns a (name @ ''-server'') (name @ ''-server-metrics''))
     (thenG (createServiceMonitorIfAbsent e c ns a (name @ ''-repo-server'') (name @ ''-repo-server''))
     (thenG (createPrometheusRulesIfAbsent e c ns a)
     (thenG (reconcileDashboards e c)
            (reconcileOperatorMetricsServiceMonitor e c)))))))"

lemma enableMetrics_tail:
  "enableMetrics e c ns name n a =
     thenG (if gget (metaLabels (nsMeta n)) (monitoringLabelFor (metaName (nsMeta n))) \<noteq> Some ''true''
            then setMonitoringLabel c n ''true'' else ret ()) (enableTail e c ns name a)"
  by (simp add: enableMetrics_def enableTail_def)

text \<open>A step that makes an object present, followed by steps that keep it.\<close>

lemma thenG_present:
  assumes "thenG m rest w = (Ok u, w')" and "act_rel (keeps_present view UNIV) rest"
    and "\<And>w1 v. m w = (Ok v, w1) \<Longrightarrow> P w1" and "\<And>w1. P w1 \<Longrightarrow> \<forall>k\<in>K. view w1 k \<noteq> None"
    and "\<And>w1. rest w1 = (Ok u, w') \<Longrightarrow> \<forall>k\<in>K'. view w' k \<noteq> None"
  shows "\<forall>k\<in>K \<union> K'. view w' k \<noteq> None"
proof -
  from assms(1) obtain v w1 where m: "m w = (Ok v, w1)" and r: "rest w1 = (Ok u, w')" by (auto simp: thenG_Ok_iff)
  have "keeps_present view UNIV w1 w'" by (rule act_relD[OF assms(2) r])
  with assms(3)[OF m] assms(4)[of w1] assms(5)[OF r] show ?thesis by (auto simp: keeps_present_def)
qed

context k8s_client begin

lemma createOwned_then:
  assumes "thenG (createOwnedIfAbsent e c own x) rest w = (Ok u, w')" and "\<not> refreshable (obj_kind x)"
    and "act_rel (keeps_present view UNIV) rest"
    and "\<And>w1. rest w1 = (Ok u, w') \<Longrightarrow> \<forall>k\<in>set K'. view w' k \<noteq> None"
  shows "\<forall>k\<in>set (okey x # K'). view w' k \<noteq> None"
  using thenG_present[OF assms(1,3), of "\<lambda>w1. view w1 (okey x) \<noteq> None" "{okey x}" "set K'"] createOwned_Ok[OF _ assms(2)] assms(4)
  by auto

lemma enableTail_kp: "act_rel (keeps_present view S) (enableTail e c ns name a)"
  unfolding enableTail_def metrics_create_defs
  by (intro kp.rel_thenG createOwned_kp reconcileDashboards_kp operatorMonitor_kp)

lemma enableTail_Ok:
  assumes "enableTail e c ns name a w = (Ok u, w')"
  shows "\<forall>k\<in>set (monitoringKeys ns name). view w' k \<noteq> None"
proof -
  have assoc: "thenG (thenG m1 m2) m3 = thenG m1 (thenG m2 m3)" for m1 m2 :: "('w, unit) act" and m3 :: "('w, unit) act"
    by (auto simp: thenG_def bindG_def handle_def fun_eq_iff split: prod.splits outcome.splits)
  note kps = kp.rel_thenG createOwned_kp reconcileDashboards_kp operatorMonitor_kp
  have keys: "monitoringKeys ns name = [okey (ORole (newReadRole ns)), okey (ORoleBinding (newReadRoleBinding ns)),
      okey (OServiceMonitor (newServiceMonitor ns name (name @ ''-metrics''))),
      okey (OServiceMonitor (newServiceMonitor ns (name @ ''-server'') (name @ ''-server-metrics''))),
      okey (OServiceMonitor (newServiceMonitor ns (name @ ''-repo-server'') (name @ ''-repo-server''))),
      okey (OPrometheusRule (newPrometheusRule ns)), okey (OPrometheusRule (newSyncLoopPrometheusRule ns))]"
    by (simp add: monitoringKeys_def)
  from assms show ?thesis
    unfolding enableTail_def metrics_create_defs assoc keys
    by (elim createOwned_then) (auto simp: refreshable_def intro!: kps)
qed

end

lemma monitoringLabel_update_key:
  "okey (ONamespace n) = k \<Longrightarrow> okey (ONamespace (n\<lparr>nsMeta := (nsMeta n)\<lparr>metaLabels := l\<rparr>\<rparr>)) = k"
  by (simp add: okey_def)

context k8s_client begin

lemma setMonitoringLabel_fp: "okey (ONamespace n) \<in> S \<Longrightarrow> act_rel (same_outside view S) (setMonitoringLabel c n v)"
  unfolding setMonitoringLabel_def by (intro updateO_fp) (simp add: okey_def)

lemma enableTail_fp:
  assumes "set (monitoringKeys ns name) \<subseteq> S" and "{k. fst k = KConfigMap \<and> fst (snd k) = dashboardNamespace} \<subseteq> S"
    and "{k. fst k = KServiceMonitor \<and> snd (snd k) = operatorMetricsMonitorName} \<subseteq> S"
  shows "act_rel (same_outside view S) (enableTail e c ns name a)"
  unfolding enableTail_def metrics_create_defs
  by (intro fp.rel_thenG createOwned_fp reconcileDashboards_fp operatorMonitor_fp)
    (use assms in \<open>auto simp: monitoringKeys_def\<close>)

lemma deleteIfPresent_fp: "k \<in> S \<Longrightarrow> act_rel (same_outside view S) (deleteIfPresent c k)"
  unfolding deleteIfPresent_def by (intro fp.rel_intros deleteO_fp)

lemma disableMetrics_fp:
  assumes "set (monitoringKeys ns name) \<subseteq> S" and "okey (ONamespace n) \<in> S"
  shows "act_rel (same_outside view S) (disableMetrics c ns name n)"
  unfolding disableMetrics_def deleteServiceMonitor_def
  by (intro fp.rel_if fp.rel_thenG fp.rel_ret fp.rel_forG setMonitoringLabel_fp deleteIfPresent_fp)
    (use assms in \<open>auto simp: monitoringKeys_def\<close>)

lemma reconcileMetrics_fp: "act_rel (same_outside view (metricsKeys ns name)) (reconcileMetrics e c ns name)"
proof -
  let ?S = "metricsKeys ns name"
  have en: "act_rel (same_outside view ?S) (enableMetrics e c ns name n a)"
    if "okey (ONamespace n) = (KNamespace, [], ns)" for n a
    unfolding enableMetrics_tail
    by (intro fp.rel_if fp.rel_thenG fp.rel_ret setMonitoringLabel_fp enableTail_fp)
      (use that in \<open>auto simp: metricsKeys_def\<close>)
  have dis: "act_rel (same_outside view ?S) (disableMetrics c ns name n)"
    if "okey (ONamespace n) = (KNamespace, [], ns)" for n
    by (intro disableMetrics_fp) (use that in \<open>auto simp: metricsKeys_def\<close>)
  show ?thesis unfolding reconcileMetrics_def
    by (intro fp.rel_handle fp.rel_if fp.rel_ret fp.rel_fail getAs_fp en dis) (auto simp: refreshable_def dest!: getAs_key)
qed

end

lemma thenG_ret_unit: "thenG m (ret ()) = m" for m :: "('w, unit) act"
  by (auto simp: thenG_def bindG_def handle_def fun_eq_iff split: prod.splits outcome.splits)

lemma disableMetrics_deletes:
  "disableMetrics c ns name n =
     (if gget (metaLabels (nsMeta n)) (monitoringLabelFor (metaName (nsMeta n))) = None then ret ()
      else thenG (setMonitoringLabel c n ''false'') (forG (deleteIfPresent c) (monitoringKeys ns name)))"
  by (simp add: disableMetrics_def deleteServiceMonitor_def monitoringKeys_def thenG_ret_unit)

context k8s_client begin

lemma deleteIfPresent_Ok:
  assumes "deleteIfPresent c k w = (Ok u, w')"
  shows "\<exists>v. view w' = (view w)(k := v) \<and> gone v"
proof -
  have "deleteBackendResource c ([], k) w = (Ok (), w')"
    using assms by (auto simp: deleteIfPresent_def deleteBackendResource_def handle_Ok_iff split: if_splits)
  from deleteBackendResource_Ok[OF this] show ?thesis by simp
qed

lemma deleteIfPresent_all:
  assumes "forG (deleteIfPresent c) ks w = (Ok u, w')"
  shows "\<forall>k. view w' k = view w k \<or> gone (view w' k)" and "\<forall>k\<in>set ks. gone (view w' k)"
  using assms
proof (induction ks arbitrary: w)
  case (Cons x ks)
  {
    case 1
    then obtain w1 v where v: "view w1 = (view w)(x := v)" "gone v" and f: "forG (deleteIfPresent c) ks w1 = (Ok u, w')"
      by (auto simp: thenG_Ok_iff dest!: deleteIfPresent_Ok)
    show ?case
    proof
      fix k
      show "view w' k = view w k \<or> gone (view w' k)"
        using Cons.IH(1)[OF f, rule_format, of k] v by (cases "k = x") auto
    qed
  next
    case 2
    then obtain w1 v where v: "view w1 = (view w)(x := v)" "gone v" and f: "forG (deleteIfPresent c) ks w1 = (Ok u, w')"
      by (auto simp: thenG_Ok_iff dest!: deleteIfPresent_Ok)
    from Cons.IH(1)[OF f, rule_format, of x] v have "gone (view w' x)" by auto
    with Cons.IH(2)[OF f] show ?case by simp
  }
qed simp_all

text \<open>How a pass over a present namespace and instance goes.\<close>

lemma reconcileMetrics_steps:
  assumes "reconcileMetrics e c ns name w = (Ok u, w')"
    and "view w (KNamespace, [], ns) = Some (ONamespace n)" and "view w (KArgoCD, ns, name) = Some (OArgoCD a)"
  obtains w2 where "view w2 = view w"
    and "(if \<not> metricsDisabled a then enableMetrics e c ns name n a else disableMetrics c ns name n) w2 = (Ok u, w')"
proof -
  have nr: "\<not> refreshable (fst (KNamespace, [], ns))" "\<not> refreshable (fst (KArgoCD, ns, name))" by (simp_all add: refreshable_def)
  from assms(1) consider
      n' w1 a' w2 where "getAs c as_namespace (KNamespace, [], ns) w = (Ok n', w1)" "getAs c as_argocd (KArgoCD, ns, name) w1 = (Ok a', w2)"
        "(if \<not> metricsDisabled a' then enableMetrics e c ns name n' a' else disableMetrics c ns name n') w2 = (Ok u, w')"
    | err w1 where "getAs c as_namespace (KNamespace, [], ns) w = (Err err, w1)" "IsNotFound err"
    | n' w1 err w2 where "getAs c as_namespace (KNamespace, [], ns) w = (Ok n', w1)"
        "getAs c as_argocd (KArgoCD, ns, name) w1 = (Err err, w2)" "IsNotFound err"
    unfolding reconcileMetrics_def handle_Ok_iff by (auto split: if_splits)
  then show thesis
  proof cases
    case 1
    have "view w1 = view w" "n' = n" using getAs_Ok[OF 1(1) nr(1)] assms(2) by auto
    moreover have "view w2 = view w1" "a' = a" using getAs_Ok[OF 1(2) nr(2)] assms(3) calculation by auto
    ultimately show thesis using 1(3) by (intro that[of w2]) (auto split: if_splits)
  next
    case 2
    from getAs_NotFound(1)[OF 2] assms(2) show thesis by simp
  next
    case 3
    have "view w1 = view w" using getAs_Ok[OF 3(1) nr(1)] by auto
    with getAs_NotFound(1)[OF 3(2,3)] assms(3) show thesis by simp
  qed
qed

end

context verbatim_client begin

lemma setMonitoringLabel_Ok:
  assumes "setMonitoringLabel c n v w = (Ok u, w')" and "okey (ONamespace n) = (KNamespace, [], ns)"
  shows "\<exists>n'. view w' = (view w)((KNamespace, [], ns) \<mapsto> ONamespace n') \<and>
    gget (metaLabels (nsMeta n')) (monitoringLabelFor ns) = Some v"
proof -
  have m: "metaName (nsMeta n) = ns" using assms(2) by (simp add: okey_def)
  from updateO_Ok(1)[OF assms(1)[unfolded setMonitoringLabel_def]] monitoringLabel_update_key[OF assms(2)]
  have "view w' = (view w)((KNamespace, [], ns) \<mapsto> ONamespace (n\<lparr>nsMeta := (nsMeta n)\<lparr>metaLabels :=
      gput (metaLabels (nsMeta n)) (monitoringLabelFor (metaName (nsMeta n))) v\<rparr>\<rparr>))" by (simp add: admit_id)
  then show ?thesis by (intro exI conjI) (auto simp: m)
qed

lemma enableMetrics_Ok:
  assumes "enableMetrics e c ns name n a w = (Ok u, w')" and "view w (KNamespace, [], ns) = Some (ONamespace n)"
  shows "\<exists>n'. view w' (KNamespace, [], ns) = Some (ONamespace n') \<and>
      gget (metaLabels (nsMeta n')) (monitoringLabelFor ns) = Some ''true''"
    and "\<forall>k\<in>set (monitoringKeys ns name). view w' k \<noteq> None"
proof -
  have k: "okey (ONamespace n) = (KNamespace, [], ns)" by (rule view_key[OF assms(2)])
  then have mn: "metaName (nsMeta n) = ns" by (simp add: okey_def)
  from assms(1) obtain w1 where l: "(if gget (metaLabels (nsMeta n)) (monitoringLabelFor (metaName (nsMeta n))) \<noteq> Some ''true''
            then setMonitoringLabel c n ''true'' else ret ()) w = (Ok (), w1)"
    and t: "enableTail e c ns name a w1 = (Ok u, w')" by (auto simp: enableMetrics_tail thenG_Ok_iff)
  show "\<forall>k\<in>set (monitoringKeys ns name). view w' k \<noteq> None" by (rule enableTail_Ok[OF t])
  let ?S = "metricsKeys ns name - {(KNamespace, [], ns)}"
  have "same_outside view ?S w1 w'"
    by (rule act_relD[OF enableTail_fp t]) (auto simp: metricsKeys_def monitoringKeys_def)
  then have v: "view w' (KNamespace, [], ns) = view w1 (KNamespace, [], ns)" by (rule same_outsideD) simp
  show "\<exists>n'. view w' (KNamespace, [], ns) = Some (ONamespace n') \<and>
      gget (metaLabels (nsMeta n')) (monitoringLabelFor ns) = Some ''true''"
    using l setMonitoringLabel_Ok[of n "''true''" w "()" w1 ns] k assms(2) v mn
    by (cases "gget (metaLabels (nsMeta n)) (monitoringLabelFor ns) = Some ''true''") auto
qed

lemma disableMetrics_Ok:
  assumes "disableMetrics c ns name n w = (Ok u, w')" and "view w (KNamespace, [], ns) = Some (ONamespace n)"
    and "gget (metaLabels (nsMeta n)) (monitoringLabelFor ns) \<noteq> None"
  shows "\<exists>n'. view w' (KNamespace, [], ns) = Some (ONamespace n') \<and>
      gget (metaLabels (nsMeta n')) (monitoringLabelFor ns) = Some ''false''"
    and "\<forall>k\<in>set (monitoringKeys ns name). gone (view w' k)"
proof -
  have k: "okey (ONamespace n) = (KNamespace, [], ns)" by (rule view_key[OF assms(2)])
  then have mn: "metaName (nsMeta n) = ns" by (simp add: okey_def)
  from assms(1,3) mn obtain w1 where l: "setMonitoringLabel c n ''false'' w = (Ok (), w1)"
    and d: "forG (deleteIfPresent c) (monitoringKeys ns name) w1 = (Ok u, w')"
    by (auto simp: disableMetrics_deletes thenG_Ok_iff)
  show "\<forall>k\<in>set (monitoringKeys ns name). gone (view w' k)" by (rule deleteIfPresent_all(2)[OF d])
  have "act_rel (same_outside view (set (monitoringKeys ns name))) (forG (deleteIfPresent c) (monitoringKeys ns name))"
    by (intro fp.rel_forG deleteIfPresent_fp)
  from act_relD[OF this d] have "same_outside view (set (monitoringKeys ns name)) w1 w'" .
  then have "view w' (KNamespace, [], ns) = view w1 (KNamespace, [], ns)"
    by (rule same_outsideD) (simp add: monitoringKeys_def)
  with setMonitoringLabel_Ok[OF l k] show "\<exists>n'. view w' (KNamespace, [], ns) = Some (ONamespace n') \<and>
      gget (metaLabels (nsMeta n')) (monitoringLabelFor ns) = Some ''false''" by auto
qed

end

section \<open>Properties\<close>

definition sampleArgo :: "bool \<Rightarrow> argocd" where
  "sampleArgo disabled = \<lparr>acMeta = mkMeta ''argocd'' ''team'',
     acSpec = (defaultSpec None '''')\<lparr>acDisableMetrics := Some disabled\<rparr>\<rparr>"

definition sampleTeam :: "bool \<Rightarrow> (string \<times> string) list \<Rightarrow> obj list" where
  "sampleTeam disabled labels = [ONamespace \<lparr>nsMeta = (mkMeta ''team'' '''')\<lparr>metaLabels := gmap labels\<rparr>\<rparr>, OArgoCD (sampleArgo disabled)]"

lemma sampleTeam_view:
  "mem_view (sampleTeam d l) (KNamespace, [], ''team'') = Some (ONamespace \<lparr>nsMeta = (mkMeta ''team'' '''')\<lparr>metaLabels := gmap l\<rparr>\<rparr>)"
  "mem_view (sampleTeam d l) (KArgoCD, ''team'', ''argocd'') = Some (OArgoCD (sampleArgo d))"
  by (simp_all add: mem_view_def sampleTeam_def okey_def sampleArgo_def)

text \<open>Metrics enabled: when a pass for an existing instance returns without an error, the namespace
  carries the monitoring label for its kind of namespace with the value true, and the role, the
  binding, the three service monitors and the two alert rules exist. Whatever the outcome, only those,
  the dashboards and the operator's own monitor are touched.\<close>

theorem reconcileMetrics_enables:
  assumes "verbatim_client c view admit refresh"
    and "view w (KNamespace, '''', ns) = Some (ONamespace n)" and "view w (KArgoCD, ns, name) = Some (OArgoCD a)"
    and "\<not> metricsDisabled a" and "reconcileMetrics e c ns name w = (Ok (), w')"
  shows "(\<exists>n'. view w' (KNamespace, '''', ns) = Some (ONamespace n') \<and>
      gget (metaLabels (nsMeta n')) (monitoringLabelFor ns) = Some ''true'') \<and>
    (\<forall>k\<in>set (monitoringKeys ns name). view w' k \<noteq> None) \<and> same_outside view (metricsKeys ns name) w w'"
proof -
  have cl: "k8s_client c view admit refresh" using assms(1) by (rule verbatim_client.axioms)
  obtain w2 where w2: "view w2 = view w" "enableMetrics e c ns name n a w2 = (Ok (), w')"
    by (rule k8s_client.reconcileMetrics_steps[OF cl assms(5,2,3)]) (use assms(4) in simp)
  have "view w2 (KNamespace, '''', ns) = Some (ONamespace n)" using w2(1) assms(2) by simp
  note ok = verbatim_client.enableMetrics_Ok[OF assms(1) w2(2) this]
  have "same_outside view (metricsKeys ns name) w w'" by (rule act_relD[OF k8s_client.reconcileMetrics_fp[OF cl] assms(5)])
  with ok show ?thesis by blast
qed

theorem reconcileMetrics_enables_witness:
  "list_all (\<lambda>k. mem_view (snd (reconcileMetrics sampleEnv mem_client ''team'' ''argocd'' (sampleTeam False []))) k \<noteq> None)
     (monitoringKeys ''team'' ''argocd'')"
proof -
  have r: "fst (reconcileMetrics sampleEnv mem_client ''team'' ''argocd'' (sampleTeam False [])) = Ok ()" by code_simp
  have d: "\<not> metricsDisabled (sampleArgo False)" by (simp add: metricsDisabled_def sampleArgo_def)
  show ?thesis using reconcileMetrics_enables[OF mem.verbatim_client_axioms sampleTeam_view d run_result[OF r]] by (simp add: list_all_iff)
qed

text \<open>Metrics disabled: when a pass for an instance whose namespace carries the monitoring label
  returns without an error, the label has the value false and none of the role, binding, monitors and
  rules is left.\<close>

theorem reconcileMetrics_disables:
  assumes "verbatim_client c view admit refresh"
    and "view w (KNamespace, '''', ns) = Some (ONamespace n)" and "view w (KArgoCD, ns, name) = Some (OArgoCD a)"
    and "metricsDisabled a" and "gget (metaLabels (nsMeta n)) (monitoringLabelFor ns) \<noteq> None"
    and "reconcileMetrics e c ns name w = (Ok (), w')"
  shows "(\<exists>n'. view w' (KNamespace, '''', ns) = Some (ONamespace n') \<and>
      gget (metaLabels (nsMeta n')) (monitoringLabelFor ns) = Some ''false'') \<and>
    (\<forall>k\<in>set (monitoringKeys ns name). gone (view w' k))"
proof -
  have cl: "k8s_client c view admit refresh" using assms(1) by (rule verbatim_client.axioms)
  obtain w2 where w2: "view w2 = view w" "disableMetrics c ns name n w2 = (Ok (), w')"
    by (rule k8s_client.reconcileMetrics_steps[OF cl assms(6,2,3)]) (use assms(4) in simp)
  have "view w2 (KNamespace, '''', ns) = Some (ONamespace n)" using w2(1) assms(2) by simp
  from verbatim_client.disableMetrics_Ok[OF assms(1) w2(2) this assms(5)] show ?thesis by blast
qed

theorem reconcileMetrics_disables_witness:
  "list_all (\<lambda>k. gone (mem_view (snd (reconcileMetrics sampleEnv mem_client ''team'' ''argocd''
       (sampleTeam True [(''openshift.io/user-monitoring'', ''true'')]))) k)) (monitoringKeys ''team'' ''argocd'')"
proof -
  let ?l = "[(''openshift.io/user-monitoring'', ''true'')]"
  have r: "fst (reconcileMetrics sampleEnv mem_client ''team'' ''argocd'' (sampleTeam True ?l)) = Ok ()" by code_simp
  have d: "metricsDisabled (sampleArgo True)" by (simp add: metricsDisabled_def sampleArgo_def)
  have l: "gget (metaLabels (nsMeta \<lparr>nsMeta = (mkMeta ''team'' '''')\<lparr>metaLabels := gmap ?l\<rparr>\<rparr>)) (monitoringLabelFor ''team'') \<noteq> None"
    by (simp add: monitoringLabelFor_def HasPrefix_def)
  show ?thesis using reconcileMetrics_disables[OF mem.verbatim_client_axioms sampleTeam_view d l run_result[OF r]] by (simp add: list_all_iff)
qed

text \<open>The removal of the monitoring objects hangs on the label: when metrics are disabled and the
  namespace does not carry the label (a user removed it), the pass changes nothing, and a role,
  binding, monitor or rule that is there stays.\<close>

theorem reconcileMetrics_disable_skips:
  assumes "k8s_client c view admit refresh"
    and "view w (KNamespace, '''', ns) = Some (ONamespace n)" and "view w (KArgoCD, ns, name) = Some (OArgoCD a)"
    and "metricsDisabled a" and "gget (metaLabels (nsMeta n)) (monitoringLabelFor ns) = None"
    and "reconcileMetrics e c ns name w = (Ok (), w')"
  shows "view w' = view w"
proof -
  obtain w2 where w2: "view w2 = view w" "disableMetrics c ns name n w2 = (Ok (), w')"
    by (rule k8s_client.reconcileMetrics_steps[OF assms(1,6,2,3)]) (use assms(4) in simp)
  have "metaName (nsMeta n) = ns" using k8s_client.view_key[OF assms(1,2)] by (simp add: okey_def)
  with w2 assms(5) show ?thesis by (simp add: disableMetrics_def)
qed

theorem reconcileMetrics_disable_skips_witness:
  "mem_view (snd (reconcileMetrics sampleEnv mem_client ''team'' ''argocd'' (sampleTeam True [] @ [ORole (newReadRole ''team'')]))) =
   mem_view (sampleTeam True [] @ [ORole (newReadRole ''team'')])"
proof -
  have r: "fst (reconcileMetrics sampleEnv mem_client ''team'' ''argocd'' (sampleTeam True [] @ [ORole (newReadRole ''team'')])) = Ok ()"
    by code_simp
  have d: "metricsDisabled (sampleArgo True)" by (simp add: metricsDisabled_def sampleArgo_def)
  have v: "mem_view (sampleTeam True [] @ [ORole (newReadRole ''team'')]) (KNamespace, '''', ''team'') =
      Some (ONamespace \<lparr>nsMeta = (mkMeta ''team'' '''')\<lparr>metaLabels := gmap []\<rparr>\<rparr>)"
    "mem_view (sampleTeam True [] @ [ORole (newReadRole ''team'')]) (KArgoCD, ''team'', ''argocd'') = Some (OArgoCD (sampleArgo True))"
    by (simp_all add: mem_view_def sampleTeam_def okey_def sampleArgo_def)
  have l: "gget (metaLabels (nsMeta \<lparr>nsMeta = (mkMeta ''team'' '''')\<lparr>metaLabels := gmap []\<rparr>\<rparr>)) (monitoringLabelFor ''team'') = None"
    by simp
  show ?thesis by (rule reconcileMetrics_disable_skips[OF mem.k8s_client_axioms v d l run_result[OF r]])
qed

end
