(* ===== verification/Operator_Runs.thy ===== *)
theory Operator_Runs
  imports Client_Wrapper Argo_Route Metrics
begin

text \<open>
  The operator as a whole: the handlers of its controllers run one after the other on the same
  cluster, in the order their events arrive, while users and other operators change objects in
  between. A run is a sequence of such steps. The properties hold of every run: what the operator
  touches and keeps, and that its controllers, which write to the same namespaces, do not undo each
  other's work.
\<close>

section \<open>Definitions\<close>

datatype op_event = SetupEvent | GitopsEvent | RouteEvent | MetricsEvent string string | OutsideEvent key

inductive op_step ::
  "env \<Rightarrow> api_flags \<Rightarrow> 'w client \<Rightarrow> ('w \<Rightarrow> key \<Rightarrow> obj option) \<Rightarrow> gitops_config \<Rightarrow> op_event \<Rightarrow> 'w \<Rightarrow> 'w \<Rightarrow> bool"
  for e f c view cfg where
  step_setup: "op_step e f c view cfg SetupEvent w (snd (setupGitopsService c w))"
| step_gitops: "op_step e f c view cfg GitopsEvent w (snd (Reconcile e f c cfg w))"
| step_route: "op_step e f c view cfg RouteEvent w (snd (reconcileRoute e f c w))"
| step_metrics: "op_step e f c view cfg (MetricsEvent ns name) w (snd (reconcileMetrics e c ns name w))"
| step_outside: "view w' = (view w)(k := v) \<Longrightarrow> op_step e f c view cfg (OutsideEvent k) w w'"

inductive op_run ::
  "env \<Rightarrow> api_flags \<Rightarrow> 'w client \<Rightarrow> ('w \<Rightarrow> key \<Rightarrow> obj option) \<Rightarrow> gitops_config \<Rightarrow> op_event list \<Rightarrow> 'w \<Rightarrow> 'w \<Rightarrow> bool"
  for e f c view cfg where
  run_nil: "op_run e f c view cfg [] w w"
| run_snoc: "op_run e f c view cfg evs w w1 \<Longrightarrow> op_step e f c view cfg ev w1 w2 \<Longrightarrow> op_run e f c view cfg (evs @ [ev]) w w2"

text \<open>What a step may change, and what it may make disappear.\<close>

fun touches :: "api_flags \<Rightarrow> gitops_config \<Rightarrow> op_event \<Rightarrow> key set" where
  "touches f cfg SetupEvent = {(KGitopsService, '''', serviceName)}"
| "touches f cfg GitopsEvent = managedKeys f cfg"
| "touches f cfg RouteEvent = {consoleLinkKey}"
| "touches f cfg (MetricsEvent ns name) = metricsKeys ns name"
| "touches f cfg (OutsideEvent k) = {k}"

fun deletes :: "api_flags \<Rightarrow> gitops_config \<Rightarrow> op_event \<Rightarrow> key set" where
  "deletes f cfg SetupEvent = {}"
| "deletes f cfg GitopsEvent = deletableKeys f cfg"
| "deletes f cfg RouteEvent = {consoleLinkKey}"
| "deletes f cfg (MetricsEvent ns name) = set (monitoringKeys ns name)"
| "deletes f cfg (OutsideEvent k) = {k}"

text \<open>A namespace, if it is there with the property \<open>P\<close>, is still there with \<open>P\<close>.\<close>

definition ns_keeps :: "('w \<Rightarrow> key \<Rightarrow> obj option) \<Rightarrow> (namespace_obj \<Rightarrow> bool) \<Rightarrow> string \<Rightarrow> 'w \<Rightarrow> 'w \<Rightarrow> bool" where
  "ns_keeps view P ns w w' \<longleftrightarrow> (\<forall>n. view w (KNamespace, '''', ns) = Some (ONamespace n) \<and> P n \<longrightarrow>
     (\<exists>n'. view w' (KNamespace, '''', ns) = Some (ONamespace n') \<and> P n'))"

interpretation nk: world_relation "ns_keeps view P ns" for view P ns
  by unfold_locales (auto simp: ns_keeps_def)

section \<open>Lemmas\<close>

lemma act_rel_snd: "act_rel R m \<Longrightarrow> R w (snd (m w))"
  by (simp add: act_rel_def)

text \<open>A relation on worlds that every step of a run respects is respected by the run.\<close>

context world_relation begin

lemma op_run_rel:
  assumes "op_run e f c view cfg evs w w'" and "\<And>ev w w'. ev \<in> set evs \<Longrightarrow> op_step e f c view cfg ev w w' \<Longrightarrow> R w w'"
  shows "R w w'"
  using assms
proof (induction rule: op_run.induct)
  case (run_nil w)
  show ?case by (rule R_refl)
next
  case (run_snoc evs w w1 ev w2)
  then have "R w w1" and "R w1 w2" by auto
  then show ?case by (rule R_trans)
qed

end

context k8s_client begin

lemma setupGitopsService_fp: "act_rel (same_outside view {(KGitopsService, [], serviceName)}) (setupGitopsService c)"
  unfolding setupGitopsService_def by (intro fp.rel_logged createO_fp) (simp add: okey_def newGitopsService_def)

lemma op_step_fp:
  assumes "op_step e f c view cfg ev w w'"
  shows "same_outside view (touches f cfg ev) w w'"
  using assms
proof cases
  case step_route
  then show ?thesis using act_rel_snd[OF reconcileRoute_fp[of "{consoleLinkKey}"]] by simp
next
  case (step_outside k v)
  then show ?thesis by (simp add: same_outside_def)
qed (simp_all add: act_rel_snd[OF setupGitopsService_fp] act_rel_snd[OF Reconcile_fp] act_rel_snd[OF reconcileMetrics_fp])

lemma setupGitopsService_kp: "act_rel (keeps_present view S) (setupGitopsService c)"
  unfolding setupGitopsService_def by (intro kp.rel_logged createO_kp)

lemma reconcileRoute_kp: "consoleLinkKey \<notin> S \<Longrightarrow> act_rel (keeps_present view S) (reconcileRoute e f c)"
  unfolding reconcileRoute_def deleteConsoleLinkIfPresent_def Let_def
  by (intro kp.rel_intros getAs_kp getOrCreate_kp updateO_kp deleteO_kp)

lemma reconcileMetrics_kp:
  "S \<inter> set (monitoringKeys ns name) = {} \<Longrightarrow> act_rel (keeps_present view S) (reconcileMetrics e c ns name)"
  unfolding reconcileMetrics_def enableMetrics_tail enableTail_def metrics_create_defs setMonitoringLabel_def
    disableMetrics_def deleteServiceMonitor_def deleteIfPresent_def
  by (intro kp.rel_intros getAs_kp updateO_kp deleteO_kp createOwned_kp reconcileDashboards_kp operatorMonitor_kp)
    (auto simp: monitoringKeys_def)

lemma op_step_kp:
  assumes "op_step e f c view cfg ev w w'"
  shows "keeps_present view (- deletes f cfg ev) w w'"
  using assms
proof cases
  case step_route
  then show ?thesis using act_rel_snd[OF reconcileRoute_kp] by simp
next
  case (step_metrics ns name)
  then show ?thesis using act_rel_snd[OF reconcileMetrics_kp[of "- deletes f cfg ev"]] by simp
next
  case (step_outside k v)
  then show ?thesis by (simp add: keeps_present_def)
qed (simp_all add: act_rel_snd[OF setupGitopsService_kp] act_rel_snd[OF Reconcile_kp])

text \<open>Only steps that touch a namespace can break what \<open>ns_keeps\<close> says of it.\<close>

lemma fp_nk: "act_rel (same_outside view S) m \<Longrightarrow> (KNamespace, [], ns) \<notin> S \<Longrightarrow> act_rel (ns_keeps view P ns) m"
  by (simp add: act_rel_def same_outside_def ns_keeps_def)

text \<open>Reading the namespace, then going on with what was read.\<close>

lemma getNamespace_nk:
  assumes "\<And>n w1. view w1 (KNamespace, [], ns) = Some (ONamespace n) \<Longrightarrow> P n \<Longrightarrow> ns_keeps view P ns w1 (snd (k n w1))"
    and "\<And>err. \<not> IsNotFound err \<Longrightarrow> \<exists>err'. h err = fail err'"
  shows "act_rel (ns_keeps view P ns) (handle (getAs c as_namespace (KNamespace, [], ns)) h k)"
  unfolding act_rel_def ns_keeps_def
proof (intro allI impI, elim conjE)
  fix w n
  let ?k = "(KNamespace, [], ns)"
  assume v: "view w ?k = Some (ONamespace n)" and p: "P n"
  have nr: "\<not> refreshable (fst ?k)" by (simp add: refreshable_def)
  obtain r w1 where g: "getAs c as_namespace ?k w = (r, w1)" by force
  have vw: "view w1 = view w" by (rule fp_empty_view[OF getAs_fp g]) (use nr in simp)
  show "\<exists>n'. view (snd (handle (getAs c as_namespace ?k) h k w)) ?k = Some (ONamespace n') \<and> P n'"
  proof (cases r)
    case (Ok a)
    with getAs_Ok[OF _ nr] g v have "a = n" by fastforce
    with Ok g assms(1)[of w1 n] vw v p show ?thesis by (simp add: handle_def ns_keeps_def)
  next
    case (Err err)
    with getAs_NotFound(1)[of as_namespace ?k w err w1] g v have "\<not> IsNotFound err" by auto
    with assms(2) Err g vw v p show ?thesis by (auto simp: handle_def dest!: assms(2))
  next
    case (Panic x)
    with g vw v p show ?thesis by (simp add: handle_def)
  qed
qed

lemma getOrCreateNamespace_nk:
  assumes "\<And>n w1. view w1 (KNamespace, [], ns) = Some (ONamespace n) \<Longrightarrow> P n \<Longrightarrow> ns_keeps view P ns w1 (snd (k n w1))"
    and "okey x = (KNamespace, [], ns)"
  shows "act_rel (ns_keeps view P ns) (getOrCreate c as_namespace x k)"
  unfolding getOrCreate_def assms(2) by (rule getNamespace_nk[OF assms(1)]) auto

lemma ensurePluginNamespace_nk: "act_rel (ns_keeps view P ns) (ensurePluginNamespace c ns)"
  unfolding ensurePluginNamespace_def by (rule getNamespace_nk) (auto simp: nk.R_refl)

lemma reconcilePluginForVersion_nk: "act_rel (ns_keeps view P ns) (reconcilePluginForVersion e f c cfg inst)"
proof (cases "PluginNamespace cfg = ns")
  case False
  then show ?thesis
    by (intro fp_nk[OF reconcilePluginForVersion_fp[OF subset_refl]]) (auto simp: pluginKeys_def)
next
  case True
  have "act_rel (ns_keeps view P ns) (reconcilePlugin e f c tls ns inst isPF5)" for tls isPF5
    unfolding reconcilePlugin_def Let_def
    by (intro nk.rel_if nk.rel_ret nk.rel_thenG[OF ensurePluginNamespace_nk] fp_nk[OF reconcilePluginObjects_fp[OF subset_refl]]) simp
  with True show ?thesis
    unfolding reconcilePluginForVersion_eq
    by (intro nk.rel_handle nk.rel_ret fp_nk[OF GetClusterVersion_fp[of "{}"]]) (auto split: option.split intro: nk.rel_ret)
qed

end

context verbatim_client begin

text \<open>Writing back the namespace that was read, changed in a way that keeps \<open>P\<close>.\<close>

lemma updateNamespace_nk:
  assumes "view w (KNamespace, [], ns) = Some (ONamespace n)" and "metaName (nsMeta n') = metaName (nsMeta n)"
    and "metaNamespace (nsMeta n') = metaNamespace (nsMeta n)" and "P n'"
  shows "ns_keeps view P ns w (snd (updateO c (ONamespace n') w))"
proof -
  from view_key[OF assms(1)] assms(2,3) have k: "okey (ONamespace n') = (KNamespace, [], ns)" by (simp add: okey_def)
  have "view (snd (updateO c (ONamespace n') w)) = view w \<or>
      view (snd (updateO c (ONamespace n') w)) = (view w)((KNamespace, [], ns) \<mapsto> ONamespace n')"
    using update_ok[of w "ONamespace n'"] update_err[of w "ONamespace n'"] k
    by (cases "cUpdate c w (ONamespace n')"; cases "fst (cUpdate c w (ONamespace n'))")
      (auto simp: updateO_def write_result_snd admit_id)
  with assms(4) show ?thesis by (auto simp: ns_keeps_def)
qed

lemma updateNamespaceMetadata_nk:
  assumes "view w (KNamespace, [], ns) = Some (ONamespace n)" and "P (snd (ensureNamespaceMetadata n r))"
  shows "ns_keeps view P ns w (snd (updateNamespaceMetadata c r n w))"
proof -
  obtain ch n' where e: "ensureNamespaceMetadata n r = (ch, n')" by force
  with assms(2) have p: "P n'" by simp
  from updateNamespace_nk[where P = P, OF assms(1) _ _ p] ensureNamespaceMetadata_meta[OF e] show ?thesis
    by (auto simp: updateNamespaceMetadata_def e nk.R_refl)
qed

text \<open>What the handlers of the two controllers do to a namespace they both write to.\<close>

lemma reconcileGitopsNamespace_nk:
  assumes "\<And>n. P n \<Longrightarrow> P (snd (ensureNamespaceMetadata n r))"
  shows "act_rel (ns_keeps view P ns) (reconcileGitopsNamespace c r ns')"
proof (cases "ns' = ns")
  case True
  then show ?thesis unfolding reconcileGitopsNamespace_def
    by (intro getOrCreateNamespace_nk updateNamespaceMetadata_nk assms) simp_all
next
  case False
  then show ?thesis by (intro fp_nk[OF reconcileGitopsNamespace_fp[of ns' "{(KNamespace, [], ns')}"]]) auto
qed

lemma reconcileArgoNamespace_nk:
  assumes "\<And>n. P n \<Longrightarrow> P (snd (ensureNamespaceMetadata n r))"
  shows "act_rel (ns_keeps view P ns) (reconcileArgoNamespace c r ns')"
proof (cases "ns' = ns")
  case True
  have "ns_keeps view P ns w (snd (thenG (deleteResourceQuota c (metaName (nsMeta n))) (updateNamespaceMetadata c r n) w))"
    if v: "view w (KNamespace, [], ns) = Some (ONamespace n)" and p: "P n" for n w
  proof -
    obtain o1 w1 where d: "deleteResourceQuota c (metaName (nsMeta n)) w = (o1, w1)" by force
    have "same_outside view {computeQuotaKey (metaName (nsMeta n))} w w1"
      by (rule act_relD[OF deleteResourceQuota_fp d]) simp
    then have v1: "view w1 (KNamespace, [], ns) = view w (KNamespace, [], ns)"
      by (rule same_outsideD) (simp add: computeQuotaKey_def)
    have "ns_keeps view P ns w1 (snd (updateNamespaceMetadata c r n w1))"
      by (rule updateNamespaceMetadata_nk) (use v1 v p assms in auto)
    with d v1 v p show ?thesis
      by (cases o1) (auto simp: thenG_def bindG_def handle_def ns_keeps_def)
  qed
  with True show ?thesis unfolding reconcileArgoNamespace_def by (intro getOrCreateNamespace_nk) simp_all
next
  case False
  then show ?thesis
    by (intro fp_nk[OF reconcileArgoNamespace_fp[of ns' "{(KNamespace, [], ns'), computeQuotaKey ns'}"]])
      (auto simp: computeQuotaKey_def)
qed

lemma reconcileDefaultArgoCDInstance_nk:
  assumes "\<And>n. P n \<Longrightarrow> P (snd (ensureNamespaceMetadata n (gsRunOnInfra (gsSpec inst))))"
  shows "act_rel (ns_keeps view P ns) (reconcileDefaultArgoCDInstance e f c inst)"
proof -
  have "act_rel (same_outside view {okey (OArgoCD x)}) (getOrCreate c as_argocd (OArgoCD x) (\<lambda>existing.
      bindG (liftO (completeArgoCD d (acSpec existing))) (\<lambda>(changed, spec).
        if changed then updateO c (OArgoCD (existing\<lparr>acSpec := spec\<rparr>)) else ret ())))" for x d
    by (intro getOrCreate_fp completeUpdate_fp) (auto simp: okey_def)
  then have g: "act_rel (ns_keeps view P ns) (getOrCreate c as_argocd (OArgoCD x) (\<lambda>existing.
      bindG (liftO (completeArgoCD d (acSpec existing))) (\<lambda>(changed, spec).
        if changed then updateO c (OArgoCD (existing\<lparr>acSpec := spec\<rparr>)) else ret ())))" for x d
    by (rule fp_nk) (simp add: okey_def)
  show ?thesis unfolding reconcileDefaultArgoCDInstance_def Let_def
    by (intro nk.rel_bindG nk.rel_thenG nk.rel_liftE reconcileArgoNamespace_nk assms g fp_nk[OF NewCR_fp[of "{}"]]) simp_all
qed

lemma Reconcile_nk:
  assumes "\<And>n r. P n \<Longrightarrow> P (snd (ensureNamespaceMetadata n r))"
  shows "act_rel (ns_keeps view P ns) (Reconcile e f c cfg)"
proof -
  have inst: "act_rel (ns_keeps view P ns) (installDefault e f c cfg nn inst)" for nn inst
    unfolding installDefault_def
    by (intro nk.rel_thenG nk.rel_mapErr reconcileGitopsNamespace_nk reconcileDefaultArgoCDInstance_nk assms
        fp_nk[OF reconcileBackend_fp[OF subset_refl]]) (simp_all add: backendKeys_eq)
  have rem: "act_rel (ns_keeps view P ns) (removeDefault e f c nn)" for nn
    by (rule fp_nk[OF removeDefault_fp[of "{argoInstanceKey} \<union> backendKeys nn"]])
      (auto simp: backendKeys_eq argoInstanceKey_def)
  have kam: "act_rel (ns_keeps view P ns) (cleanKAMResources f c)"
    by (rule fp_nk[OF cleanKAMResources_fp[OF subset_refl]]) (simp add: kamKeys_def)
  have old: "act_rel (ns_keeps view P ns) (cleanupOldPluginResources c n)" for n
    by (rule fp_nk[OF cleanupOldPlugin_fp[OF subset_refl]]) (simp add: oldPluginKeys_def)
  show ?thesis unfolding Reconcile_def Let_def
    by (intro nk.rel_handle nk.rel_if nk.rel_ret nk.rel_fail nk.rel_bindG nk.rel_thenG nk.rel_logged inst rem kam old
        reconcilePluginForVersion_nk fp_nk[OF GetBackendNamespace_fp[of "{}"]] fp_nk[OF getAs_fp[of _ "{}"]])
      (auto simp: refreshable_def)
qed

lemma reconcileMetrics_nk:
  assumes "\<And>n v. P n \<Longrightarrow> P (n\<lparr>nsMeta := (nsMeta n)\<lparr>metaLabels := gput (metaLabels (nsMeta n)) (monitoringLabelFor (metaName (nsMeta n))) v\<rparr>\<rparr>)"
  shows "act_rel (ns_keeps view P ns) (reconcileMetrics e c ns' name)"
proof (cases "ns' = ns")
  case True
  let ?k = "(KNamespace, [], ns)"
  have set: "ns_keeps view P ns w (snd (setMonitoringLabel c n v w))"
    if "view w ?k = Some (ONamespace n)" "P n" for w n v
    unfolding setMonitoringLabel_def
    by (rule updateNamespace_nk[where P = P, OF that(1)]) (use assms[OF that(2)] in simp_all)
  have tail: "act_rel (ns_keeps view P ns) (enableTail e c ns name a)" for a
    by (rule fp_nk[OF enableTail_fp[of ns name "metricsKeys ns name - {?k}"]]) (auto simp: metricsKeys_def monitoringKeys_def)
  have del: "act_rel (ns_keeps view P ns) (deleteIfPresent c (kd, x))" if "kd \<noteq> KNamespace" for kd x
    by (rule fp_nk[OF deleteIfPresent_fp[of "(kd, x)" "{(kd, x)}"]]) (use that in auto)
  have seq: "ns_keeps view P ns w (snd (thenG m1 m2 w))"
    if "ns_keeps view P ns w (snd (m1 w))" "act_rel (ns_keeps view P ns) m2" for w m1 m2
  proof -
    obtain o1 w1 where m1: "m1 w = (o1, w1)" by force
    with that(1) have "ns_keeps view P ns w w1" by simp
    then have "ns_keeps view P ns w (snd (m2 w1))" by (rule nk.R_trans) (rule act_rel_snd[OF that(2)])
    with m1 that(1) show ?thesis by (cases o1) (simp_all add: thenG_def bindG_def handle_def)
  qed
  have body: "ns_keeps view P ns w (snd (handle (getAs c as_argocd (KArgoCD, ns, name))
      (\<lambda>err. if IsNotFound err then ret () else fail err)
      (\<lambda>a. if \<not> metricsDisabled a then enableMetrics e c ns name n a else disableMetrics c ns name n) w))"
    if v: "view w ?k = Some (ONamespace n)" and p: "P n" for w n
  proof -
    obtain r w1 where g: "getAs c as_argocd (KArgoCD, ns, name) w = (r, w1)" by force
    have vw: "view w1 = view w" by (rule fp_empty_view[OF getAs_fp g]) (simp add: refreshable_def)
    have en: "ns_keeps view P ns w1 (snd (enableMetrics e c ns name n a w1))" for a
      unfolding enableMetrics_tail by (rule seq[OF _ tail]) (use set[of w1 n] vw v p in \<open>simp add: nk.R_refl\<close>)
    have dis: "ns_keeps view P ns w1 (snd (disableMetrics c ns name n w1))"
      unfolding disableMetrics_def deleteServiceMonitor_def
      by (simp add: nk.R_refl) (intro impI seq set nk.rel_thenG nk.rel_forG del nk.rel_ret; use vw v p in simp)
    from en dis g vw v p show ?thesis
      by (cases r) (auto simp: handle_def ns_keeps_def)
  qed
  show ?thesis unfolding reconcileMetrics_def True by (rule getNamespace_nk[OF body]) auto
next
  case False
  then show ?thesis by (intro fp_nk[OF reconcileMetrics_fp]) (auto simp: metricsKeys_def monitoringKeys_def)
qed

end

lemma deletes_namespace: "fst k = KNamespace \<Longrightarrow> k \<in> deletes f cfg ev \<Longrightarrow> ev = OutsideEvent k"
  by (cases ev; cases k) (auto simp: deletableKeys_def kamKeys_def oldPluginKeys_def computeQuotaKey_def argoInstanceKey_def
      backendKeys_eq monitoringKeys_def split: if_splits)

lemma ensureNamespaceMetadata_labels:
  "l \<noteq> PodSecurityLabelSyncLabel \<Longrightarrow>
     gget (metaLabels (nsMeta (snd (ensureNamespaceMetadata n r)))) l = gget (metaLabels (nsMeta n)) l"
  by (auto simp: ensureNamespaceMetadata_def ensurePodSecurityLabels_def ensureInfraNodeSelectorAnnotation_def Let_def)

section \<open>Properties\<close>

text \<open>C9. A run touches nothing but what its steps are entitled to: whatever order the handlers run in and
  however each of them ends, an object that no step of the run manages and nobody else changes is at
  the end what it was at the start.\<close>

theorem op_run_footprint:
  assumes "k8s_client c view admit refresh" and "op_run e f c view cfg evs w w'"
  shows "same_outside view (\<Union>ev\<in>set evs. touches f cfg ev) w w'"
  by (rule fp.op_run_rel[OF assms(2)]) (use k8s_client.op_step_fp[OF assms(1)] in \<open>fastforce simp: same_outside_def\<close>)

definition sampleAfter :: "obj list" where
  "sampleAfter = snd (reconcileRoute sampleEnv sampleFlags mem_client
     (snd (Reconcile sampleEnv sampleFlags mem_client (sampleConfig False) sampleCluster)))"

lemma sample_run: "op_run sampleEnv sampleFlags mem_client mem_view (sampleConfig False) [GitopsEvent, RouteEvent] sampleCluster sampleAfter"
proof -
  have "op_run sampleEnv sampleFlags mem_client mem_view (sampleConfig False) (([] @ [GitopsEvent]) @ [RouteEvent]) sampleCluster sampleAfter"
    unfolding sampleAfter_def by (rule run_snoc[OF run_snoc[OF run_nil step_gitops] step_route])
  then show ?thesis by simp
qed

theorem op_run_footprint_witness:
  "same_outside mem_view (managedKeys sampleFlags (sampleConfig False) \<union> {consoleLinkKey}) sampleCluster sampleAfter"
  using op_run_footprint[OF mem.k8s_client_axioms sample_run] by simp

text \<open>No run of the operator makes a namespace disappear, nor any object that none of its steps is
  entitled to delete: only someone else can.\<close>

theorem op_run_keeps:
  assumes "k8s_client c view admit refresh" and "op_run e f c view cfg evs w w'" and "view w k \<noteq> None"
    and "OutsideEvent k \<notin> set evs" and "fst k = KNamespace \<or> k \<notin> (\<Union>ev\<in>set evs. deletes f cfg ev)"
  shows "view w' k \<noteq> None"
proof -
  have "k \<notin> deletes f cfg ev" if "ev \<in> set evs" for ev
    using assms(4,5) that deletes_namespace[of k f cfg ev] by auto
  then have "keeps_present view {k} w w'"
    by (intro kp.op_run_rel[OF assms(2)]) (use k8s_client.op_step_kp[OF assms(1)] in \<open>fastforce simp: keeps_present_def\<close>)
  with assms(3) show ?thesis by (simp add: keeps_present_def)
qed

theorem op_run_keeps_witness: "mem_view sampleAfter (KGitopsService, '''', serviceName) \<noteq> None"
proof (rule op_run_keeps[OF mem.k8s_client_axioms sample_run])
  show "mem_view sampleCluster (KGitopsService, '''', serviceName) \<noteq> None" using sampleCluster_service by simp
  show "OutsideEvent (KGitopsService, '''', serviceName) \<notin> set [GitopsEvent, RouteEvent]" by simp
  have "(KGitopsService, '''', serviceName) \<notin> deletableKeys sampleFlags (sampleConfig False)"
    by (auto simp: deletableKeys_def kamKeys_def oldPluginKeys_def computeQuotaKey_def sampleConfig_def)
  then show "fst (KGitopsService, '''', serviceName) = KNamespace \<or>
      (KGitopsService, '''', serviceName) \<notin> (\<Union>ev\<in>set [GitopsEvent, RouteEvent]. deletes sampleFlags (sampleConfig False) ev)"
    by simp
qed

text \<open>The controllers do not undo each other's work on a namespace they share: a pass of the main
  handler, however it ends, keeps every label of an existing namespace but the pod security one, in
  particular the monitoring label; and a pass of the metrics controller keeps the pod security label
  and the infra node selector as the main handler wants them.\<close>

theorem controllers_share_namespace:
  assumes "verbatim_client c view admit refresh" and "l \<noteq> PodSecurityLabelSyncLabel"
  shows "ns_keeps view (\<lambda>n. gget (metaLabels (nsMeta n)) l = v) ns w (snd (Reconcile e f c cfg w)) \<and>
    ns_keeps view (namespaceOk r) ns w (snd (reconcileMetrics e c ns' name w))"
proof
  show "ns_keeps view (\<lambda>n. gget (metaLabels (nsMeta n)) l = v) ns w (snd (Reconcile e f c cfg w))"
    by (rule act_rel_snd[OF verbatim_client.Reconcile_nk[OF assms(1)]])
      (use assms(2) in \<open>simp add: ensureNamespaceMetadata_labels\<close>)
  show "ns_keeps view (namespaceOk r) ns w (snd (reconcileMetrics e c ns' name w))"
    by (rule act_rel_snd[OF verbatim_client.reconcileMetrics_nk[OF assms(1)]])
      (auto simp: namespaceOk_def monitoringLabelFor_def PodSecurityLabelSyncLabel_def)
qed

theorem controllers_share_namespace_witness:
  "ns_keeps mem_view (\<lambda>n. gget (metaLabels (nsMeta n)) ''openshift.io/cluster-monitoring'' = Some ''true'') serviceNamespace
     sampleAfter (snd (Reconcile sampleEnv sampleFlags mem_client (sampleConfig False) sampleAfter)) \<and>
   ns_keeps mem_view (namespaceOk False) serviceNamespace sampleAfter
     (snd (reconcileMetrics sampleEnv mem_client serviceNamespace ArgoCDInstanceName sampleAfter))"
  by (rule controllers_share_namespace[OF mem.verbatim_client_axioms]) (simp add: PodSecurityLabelSyncLabel_def)

end
