(* ===== verification/OpenShift_Hook.thy ===== *)
theory OpenShift_Hook
  imports Metrics
begin

text \<open>
  \<open>controllers/argocd/openshift/openshift.go\<close>: the hook the Argo CD operator calls on the objects it is
  about to write, with the changes an OpenShift cluster needs: policy rules, the arguments of the Red
  Hat images of Redis and HAProxy, the trust store of the repo server, the cluster secret, and the
  mapping of changes of the admin role to the instances that copy its rules. The read of the admin
  role goes through a client of its own; what it returns is the parameter \<open>admin\<close>.
\<close>

section \<open>Policy rules and arguments\<close>

definition getPolicyRuleForApplicationController :: "policy_rule list" where
  "getPolicyRuleForApplicationController =
     [mkRule [''*''] [''*''] [''get'', ''list'', ''watch''],
      mkRule [''monitoring.coreos.com''] [''*''] [''*''],
      mkRule [''argoproj.io''] [''applications'', ''applicationsets'', ''appprojects'', ''argocds''] [''*'']]"

definition policyRulesForClusterConfig :: "policy_rule list" where
  "policyRulesForClusterConfig =
     [mkRule [''*''] [''*''] [''get'', ''list'', ''watch''],
      \<lparr>prAPIGroups = None, prResources = None, prResourceNames = None, prVerbs = Some [''get'', ''list''], prNonResourceURLs = Some [''*'']\<rparr>,
      mkRule [''operators.coreos.com''] [''*''] [''*''],
      mkRule [''operator.openshift.io''] [''*''] [''*''],
      mkRule [''user.openshift.io''] [''*''] [''*''],
      mkRule [''config.openshift.io''] [''*''] [''*''],
      mkRule [''console.openshift.io''] [''*''] [''*''],
      mkRule [''''] [''namespaces'', ''persistentvolumeclaims'', ''persistentvolumes'', ''configmaps''] [''*''],
      mkRule [''rbac.authorization.k8s.io''] [''*''] [''*''],
      mkRule [''storage.k8s.io''] [''*''] [''*''],
      mkRule [''machine.openshift.io''] [''*''] [''*''],
      mkRule [''machineconfiguration.openshift.io''] [''*''] [''*''],
      mkRule [''compliance.openshift.io''] [''scansettingbindings''] [''*''],
      mkRule [''''] [''serviceaccounts''] [''impersonate'']]"

definition getArgsForRedhatRedis :: "string list" where
  "getArgsForRedhatRedis = [''redis-server'', ''--protected-mode'', ''no'']"

definition getCommandForRedhatRedisHaProxy :: "string list" where
  "getCommandForRedhatRedisHaProxy = [''haproxy'', ''-f'', ''/usr/local/etc/haproxy/haproxy.cfg'']"

definition getArgsForRedhatHaRedisServer :: "string list" where
  "getArgsForRedhatHaRedisServer = [''redis-server'', ''/data/conf/redis.conf'']"

definition getArgsForRedhatHaRedisSentinel :: "string list" where
  "getArgsForRedhatHaRedisSentinel = [''redis-sentinel'', ''/data/conf/sentinel.conf'']"

definition getArgsForRedhatHaRedisInitContainer :: "string list" where
  "getArgsForRedhatHaRedisInitContainer = [''sh'', ''/readonly-config/init.sh'']"

section \<open>The trust store of the repo server\<close>

definition caTrustScript :: string where
  "caTrustScript = joinStr newline
     ['''',
      ''set -eEuo pipefail'',
      ''trap '' @ [CHR 0x27] @ ''s=$?; echo >&2 '' @ quoted ''$0: Error on line '' @ ''$LINENO'' @ quoted '': $BASH_COMMAND'' @ ''; exit $s'' @ [CHR 0x27] @ '' ERR'',
      '''',
      ''# Populate the empty volume with the expected structure'',
      ''mkdir -p /etc/pki/ca-trust/{extracted/{openssl,pem,java,edk2},source/{anchors,blacklist}}'',
      '''',
      ''# Copy user anchors where update-ca-trust expects it'',
      ''# Using loop over '' @ [CHR 0x27] @ ''cp *'' @ [CHR 0x27] @ '' to work well with no CA files provided (all optional, none configured, etc.)'',
      ''ls /var/run/secrets/ca-trust-source/ | while read -r f; do'',
      ''    cp -L '' @ quoted ''/var/run/secrets/ca-trust-source/$f'' @ '' /etc/pki/ca-trust/source/anchors/'',
      ''done'',
      '''',
      ''echo '' @ quoted ''User defined trusted CA files:'',
      ''ls /etc/pki/ca-trust/source/anchors/'',
      '''',
      ''# Specifying the explicit location to turn on the container-aware behavior'',
      ''update-ca-trust extract --output /etc/pki/ca-trust/extracted'',
      '''',
      ''echo '' @ quoted ''Trusted anchors:'',
      ''trust list'',
      '''',
      ''echo '' @ quoted ''Done!'',
      tab @ tab @ tab]"

definition caVolumeSource :: string where "caVolumeSource = ''argocd-ca-trust-source''"

definition caVolumeTarget :: string where "caVolumeTarget = ''argocd-ca-trust-target''"

definition caInitContainer :: "argocd \<Rightarrow> string \<Rightarrow> bool \<Rightarrow> container" where
  "caInitContainer cr prodImage dropImageCertificates =
     zeroContainer\<lparr>cName := ''update-ca-certificates'',
       cImage := prodImage,
       cSecurityContext := Some DefaultSecurityContext,
       cVolumeMounts := Some
         ([zeroMount\<lparr>vmName := caVolumeSource, vmMountPath := ''/var/run/secrets/ca-trust-source'', vmReadOnly := True\<rparr>,
           zeroMount\<lparr>vmName := caVolumeTarget, vmMountPath := ''/etc/pki/ca-trust''\<rparr>] @
          (if dropImageCertificates
           then [zeroMount\<lparr>vmName := ''distro-ca-trust-source'', vmMountPath := ''/usr/share/pki/ca-trust-source/''\<rparr>] else [])),
       cResources := (case repoResources (acRepo (acSpec cr)) of None \<Rightarrow> noResources | Some r \<Rightarrow> r),
       cCommand := Some [''/bin/bash'', ''-c''],
       cArgs := Some [caTrustScript]\<rparr>"

definition mountCATrust :: "string \<Rightarrow> container \<Rightarrow> container" where
  "mountCATrust prodImage ct =
     (if cImage ct \<noteq> prodImage then ct
      else ct\<lparr>cVolumeMounts := map_option (\<lambda>ms.
        map (\<lambda>m. if vmName m = caVolumeTarget then m\<lparr>vmMountPath := ''/etc/pki/ca-trust''\<rparr> else m)
          (filter (\<lambda>m. vmName m \<noteq> caVolumeSource) ms)) (cVolumeMounts ct)\<rparr>)"

definition updateSystemCATrustBuilding :: "argocd \<Rightarrow> system_ca_trust \<Rightarrow> string \<Rightarrow> pod_spec \<Rightarrow> pod_spec" where
  "updateSystemCATrustBuilding cr trust prodImage ps =
     (let inits = filter (\<lambda>ct. cName ct \<noteq> ''update-ca-certificates'') (psInitContainers ps);
          drop' = catDropImageCertificates trust;
          ps1 = (if drop' then ps\<lparr>psVolumes := Some (elems (psVolumes ps) @
                   [\<lparr>vName = ''distro-ca-trust-source'', vSource = EmptyDirVolume\<rparr>])\<rparr> else ps)
      in ps1\<lparr>psInitContainers := inits @ [caInitContainer cr prodImage drop'],
            psContainers := map (mountCATrust prodImage) (psContainers ps)\<rparr>)"

section \<open>The hook\<close>

datatype hook_object =
    HClusterRole cluster_role
  | HDeployment deployment
  | HStatefulSet stateful_set
  | HSecret secret
  | HRole role
  | HOther obj

definition onFirst :: "(container \<Rightarrow> container outcome) \<Rightarrow> pod_spec \<Rightarrow> pod_spec outcome" where
  "onFirst f ps = (case psContainers ps of
      [] \<Rightarrow> Panic IndexOutOfRange
    | ct # rest \<Rightarrow> bindO (f ct) (\<lambda>ct'. Ok (ps\<lparr>psContainers := ct' # rest\<rparr>)))"

definition redisContainer :: "container \<Rightarrow> container outcome" where
  "redisContainer ct = Ok (ct\<lparr>cArgs := Some (getArgsForRedhatRedis @ elems (cArgs ct))\<rparr>)"

definition haproxyContainer :: "env \<Rightarrow> string \<Rightarrow> container \<Rightarrow> container outcome" where
  "haproxyContainer e version ct =
     (let ct1 = ct\<lparr>cCommand := Some (getCommandForRedhatRedisHaProxy @ elems (cCommand ct))\<rparr>
      in case cSecurityContext ct1 of
           None \<Rightarrow> Panic NilDereference
         | Some sc \<Rightarrow>
             if version = '''' \<or> semverCompare e (''v'' @ version) ''v4.10.999'' > 0
             then (case scCapabilities sc of
                 None \<Rightarrow> Panic NilDereference
               | Some cp \<Rightarrow> Ok (ct1\<lparr>cSecurityContext := Some (sc\<lparr>scCapabilities := Some (cp\<lparr>capAdd := Some [''NET_BIND_SERVICE'']\<rparr>)\<rparr>)\<rparr>))
             else Ok (ct1\<lparr>cSecurityContext := Some (sc\<lparr>scCapabilities := None\<rparr>)\<rparr>))"

definition haRedisContainer :: "container \<Rightarrow> container" where
  "haRedisContainer ct =
     (if cName ct = ''redis'' then ct\<lparr>cArgs := Some getArgsForRedhatHaRedisServer, cCommand := Some []\<rparr>
      else if cName ct = ''sentinel'' then ct\<lparr>cArgs := Some getArgsForRedhatHaRedisSentinel, cCommand := Some []\<rparr>
      else ct)"

definition haRedisPod :: "pod_spec \<Rightarrow> pod_spec outcome" where
  "haRedisPod ps = (case psInitContainers ps of
      [] \<Rightarrow> Panic IndexOutOfRange
    | i # is \<Rightarrow> Ok (ps\<lparr>psContainers := map haRedisContainer (psContainers ps),
        psInitContainers := i\<lparr>cArgs := Some getArgsForRedhatHaRedisInitContainer, cCommand := Some []\<rparr> # is\<rparr>))"

definition deploymentPod :: "env \<Rightarrow> argocd \<Rightarrow> string \<Rightarrow> string \<Rightarrow> pod_spec \<Rightarrow> pod_spec outcome" where
  "deploymentPod e cr hint name ps =
     (if name = metaName (acMeta cr) @ ''-redis'' then onFirst redisContainer ps
      else if name = metaName (acMeta cr) @ ''-redis-ha-haproxy'' then onFirst (haproxyContainer e hint) ps
      else if name = metaName (acMeta cr) @ ''-repo-server''
      then (case psContainers ps of
          [] \<Rightarrow> Panic IndexOutOfRange
        | ct # _ \<Rightarrow> (case repoSystemCATrust (acRepo (acSpec cr)) of
            None \<Rightarrow> Ok ps
          | Some trust \<Rightarrow> Ok (updateSystemCATrustBuilding cr trust (cImage ct) ps)))
      else Ok ps)"

definition splitList :: "string \<Rightarrow> string list" where
  "splitList s = map TrimSpace (splitOn (CHR '','') s)"

definition allowedNamespace :: "string \<Rightarrow> string \<Rightarrow> bool" where
  "allowedNamespace current namespaces =
     (case splitList namespaces of
        [] \<Rightarrow> False
      | x # xs \<Rightarrow> x = ''*'' \<or> current \<in> set (x # xs))"

definition ReconcilerHook ::
  "env \<Rightarrow> (go_error + cluster_role) \<Rightarrow> argocd \<Rightarrow> hook_object \<Rightarrow> string \<Rightarrow> hook_object outcome" where
  "ReconcilerHook e admin cr v hint = (case v of
      HClusterRole o' \<Rightarrow>
        (if metaName (crMeta o') = GenerateUniqueResourceName ''argocd-application-controller'' cr
         then Ok (HClusterRole (o'\<lparr>crRules := Some policyRulesForClusterConfig\<rparr>)) else Ok v)
    | HDeployment o' \<Rightarrow>
        bindO (deploymentPod e cr hint (metaName (depMeta o')) (pod o')) (\<lambda>ps. Ok (HDeployment (set_spec ps o')))
    | HStatefulSet o' \<Rightarrow>
        (if metaName (stsMeta o') = metaName (acMeta cr) @ ''-redis-ha-server''
         then bindO (haRedisPod (ptSpec (stsTemplate o'))) (\<lambda>ps.
           Ok (HStatefulSet (o'\<lparr>stsTemplate := (stsTemplate o')\<lparr>ptSpec := ps\<rparr>\<rparr>))) else Ok v)
    | HSecret o' \<Rightarrow>
        (if allowedNamespace (metaNamespace (acMeta cr)) (getenv e ''ARGOCD_CLUSTER_CONFIG_NAMESPACES'')
         then Ok (HSecret (o'\<lparr>secData := gdelete (secData o') ''namespaces''\<rparr>)) else Ok v)
    | HRole o' \<Rightarrow>
        (if metaName (roleMeta o') = metaName (acMeta cr) @ ''-'' @ ''argocd-application-controller''
         then (case admin of
             Inl err \<Rightarrow> Err err
           | Inr clusterRole \<Rightarrow>
               Ok (HRole (o'\<lparr>roleRules := Some (getPolicyRuleForApplicationController @ elems (crRules clusterRole))\<rparr>)))
         else Ok v)
    | HOther _ \<Rightarrow> Ok v)"

section \<open>Mapping changes of the admin role\<close>

definition requestFor :: "obj \<Rightarrow> string \<times> string" where
  "requestFor x = (metaNamespace (obj_meta x), metaName (obj_meta x))"

definition adminClusterRoleMapper :: "'w client \<Rightarrow> string \<Rightarrow> ('w, (string \<times> string) list) act" where
  "adminClusterRoleMapper c name =
     (if name \<noteq> ''admin'' then ret []
      else handle (listO c KArgoCD) (\<lambda>_. ret []) (\<lambda>items. ret (map requestFor items)))"

section \<open>Properties\<close>

text \<open>The trust store of the repo server: afterwards there is exactly one init container named
  update-ca-certificates, the last one, with the production image; no container of that image mounts
  the source volume any more and each mounts the target volume, if it does, at the RHEL path; its
  other mounts and the containers of other images are as they were, in the same order.\<close>

theorem updateSystemCATrustBuilding_spec:
  "let ps' = updateSystemCATrustBuilding cr trust prodImage ps
   in filter (\<lambda>ct. cName ct = ''update-ca-certificates'') (psInitContainers ps') = [last (psInitContainers ps')] \<and>
      cImage (last (psInitContainers ps')) = prodImage \<and>
      filter (\<lambda>ct. cName ct \<noteq> ''update-ca-certificates'') (psInitContainers ps') =
        filter (\<lambda>ct. cName ct \<noteq> ''update-ca-certificates'') (psInitContainers ps) \<and>
      list_all2 (\<lambda>ct ct'. if cImage ct \<noteq> prodImage then ct' = ct
        else ct' = ct\<lparr>cVolumeMounts := cVolumeMounts ct'\<rparr> \<and>
          map vmName (elems (cVolumeMounts ct')) = filter (\<lambda>n. n \<noteq> caVolumeSource) (map vmName (elems (cVolumeMounts ct))) \<and>
          filter (\<lambda>m. vmName m \<noteq> caVolumeTarget) (elems (cVolumeMounts ct')) =
            filter (\<lambda>m. vmName m \<notin> {caVolumeSource, caVolumeTarget}) (elems (cVolumeMounts ct)) \<and>
          list_all (\<lambda>m. vmMountPath m = ''/etc/pki/ca-trust'') (filter (\<lambda>m. vmName m = caVolumeTarget) (elems (cVolumeMounts ct'))))
        (psContainers ps) (psContainers ps')"
proof -
  let ?f = "\<lambda>ms. map (\<lambda>m. if vmName m = caVolumeTarget then m\<lparr>vmMountPath := ''/etc/pki/ca-trust''\<rparr> else m)
          (filter (\<lambda>m. vmName m \<noteq> caVolumeSource) ms)"
  have a: "map vmName (?f ms) = filter (\<lambda>n. n \<noteq> caVolumeSource) (map vmName ms)"
    and b: "filter (\<lambda>m. vmName m \<noteq> caVolumeTarget) (?f ms) = filter (\<lambda>m. vmName m \<notin> {caVolumeSource, caVolumeTarget}) ms"
    and l: "list_all (\<lambda>m. vmMountPath m = ''/etc/pki/ca-trust'') (filter (\<lambda>m. vmName m = caVolumeTarget) (?f ms))" for ms :: "volume_mount list"
    by (induction ms) auto
  have e: "elems (map_option ?f s) = ?f (elems s)" for s by (cases s) simp_all
  have n: "cName (caInitContainer cr prodImage d) = ''update-ca-certificates''" "cImage (caInitContainer cr prodImage d) = prodImage" for d
    by (simp_all add: caInitContainer_def)
  have c: "list_all2 (\<lambda>ct ct'. if cImage ct \<noteq> prodImage then ct' = ct
        else ct' = ct\<lparr>cVolumeMounts := cVolumeMounts ct'\<rparr> \<and>
          map vmName (elems (cVolumeMounts ct')) = filter (\<lambda>n. n \<noteq> caVolumeSource) (map vmName (elems (cVolumeMounts ct))) \<and>
          filter (\<lambda>m. vmName m \<noteq> caVolumeTarget) (elems (cVolumeMounts ct')) =
            filter (\<lambda>m. vmName m \<notin> {caVolumeSource, caVolumeTarget}) (elems (cVolumeMounts ct)) \<and>
          list_all (\<lambda>m. vmMountPath m = ''/etc/pki/ca-trust'') (filter (\<lambda>m. vmName m = caVolumeTarget) (elems (cVolumeMounts ct'))))
        cts (map (mountCATrust prodImage) cts)" for cts
  proof (induction cts)
    case (Cons ct cts)
    then show ?case
      using a[of "elems (cVolumeMounts ct)"] b[of "elems (cVolumeMounts ct)"] l[of "elems (cVolumeMounts ct)"] e[of "cVolumeMounts ct"]
      by (simp add: mountCATrust_def del: filter_map)
  qed simp
  show ?thesis
    using c[of "psContainers ps"] n
    by (simp add: updateSystemCATrustBuilding_def Let_def filter_empty_conv)
qed

text \<open>The list of namespaces with cluster scope, written with commas between names that need no
  trimming, admits exactly the namespaces it lists, or all when it starts with an asterisk.\<close>

theorem allowedNamespace_spec:
  assumes "xs \<noteq> []" and "\<forall>x\<in>set xs. CHR '','' \<notin> set x \<and> TrimSpace x = x"
  shows "allowedNamespace current (joinStr '','' xs) \<longleftrightarrow> hd xs = ''*'' \<or> current \<in> set xs"
proof -
  have "splitList (joinStr '','' xs) = xs"
    using splitOn_joinStr[OF assms(1), of "CHR '',''"] assms(2) by (simp add: splitList_def map_idI)
  with assms(1) show ?thesis by (cases xs) (auto simp: allowedNamespace_def)
qed

theorem allowedNamespace_spec_witness:
  "allowedNamespace ''openshift-gitops'' (joinStr '','' [''argo'', ''openshift-gitops'']) \<and>
   \<not> allowedNamespace ''team'' (joinStr '','' [''argo'', ''openshift-gitops''])"
proof -
  have t: "TrimSpace ''argo'' = ''argo''" "TrimSpace ''openshift-gitops'' = ''openshift-gitops''" by code_simp+
  show ?thesis
    using allowedNamespace_spec[of "[''argo'', ''openshift-gitops'']" "''openshift-gitops''"]
      allowedNamespace_spec[of "[''argo'', ''openshift-gitops'']" "''team''"] t by simp
qed

text \<open>A change of the admin cluster role is mapped to a request for every Argo CD instance of the
  cluster and for nothing else, unless the list could not be read; a change of any other role to no
  request at all. Nothing is written.\<close>

theorem adminClusterRoleMapper_spec:
  assumes "k8s_client c view admit refresh" and "adminClusterRoleMapper c name w = (r, w')"
  shows "view w' = view w \<and> (\<exists>reqs. r = Ok reqs \<and> (name \<noteq> ''admin'' \<longrightarrow> reqs = []) \<and>
    (name = ''admin'' \<and> \<not> isl (fst (cList c w KArgoCD)) \<longrightarrow>
       set reqs = {(ns, n). view w (KArgoCD, ns, n) \<noteq> None}))"
proof (cases "name = ''admin''")
  case False
  with assms(2) show ?thesis by (auto simp: adminClusterRoleMapper_def)
next
  case True
  obtain l w1 where l: "cList c w KArgoCD = (l, w1)" by force
  have v: "view w1 = view w" by (rule k8s_client.list_view[OF assms(1) l])
  show ?thesis
  proof (cases l)
    case (Inl e)
    with l True assms(2) v show ?thesis by (auto simp: adminClusterRoleMapper_def listO_def handle_def)
  next
    case (Inr items)
    have s: "set items = {x. obj_kind x = KArgoCD \<and> view w (okey x) = Some x}"
      using k8s_client.list_found[OF assms(1)] l Inr by (simp add: refreshable_def)
    have "requestFor ` set items = {(ns, n). view w (KArgoCD, ns, n) \<noteq> None}"
    proof
      show "requestFor ` set items \<subseteq> {(ns, n). view w (KArgoCD, ns, n) \<noteq> None}"
        by (auto simp: s requestFor_def okey_def)
      show "{(ns, n). view w (KArgoCD, ns, n) \<noteq> None} \<subseteq> requestFor ` set items"
      proof (rule subsetI, clarify)
        fix ns n y assume y: "view w (KArgoCD, ns, n) = Some y"
        from k8s_client.view_key[OF assms(1) y] y show "(ns, n) \<in> requestFor ` set items"
          by (force simp: s requestFor_def okey_def)
      qed
    qed
    with Inr l True assms(2) v show ?thesis
      by (auto simp: adminClusterRoleMapper_def listO_def handle_def)
  qed
qed

theorem adminClusterRoleMapper_spec_witness:
  "\<exists>reqs. fst (adminClusterRoleMapper mem_client ''admin'' (sampleTeam False [])) = Ok reqs \<and>
     set reqs = {(ns, n). mem_view (sampleTeam False []) (KArgoCD, ns, n) \<noteq> None}"
proof -
  have "\<not> isl (fst (cList mem_client (sampleTeam False []) KArgoCD))" by (simp add: mem_client_def)
  with adminClusterRoleMapper_spec[OF mem.k8s_client_axioms prod.collapse[symmetric], of "''admin''" "sampleTeam False []"]
  show ?thesis by blast
qed

fun hookMeta :: "hook_object \<Rightarrow> object_meta" where
  "hookMeta (HClusterRole x) = crMeta x"
| "hookMeta (HDeployment x) = depMeta x"
| "hookMeta (HStatefulSet x) = stsMeta x"
| "hookMeta (HSecret x) = secMeta x"
| "hookMeta (HRole x) = roleMeta x"
| "hookMeta (HOther x) = obj_meta x"

text \<open>What the hook takes for granted: a deployment has a container whose security context has
  capabilities, a stateful set has an init container.\<close>

definition hookReady :: "hook_object \<Rightarrow> bool" where
  "hookReady v = (case v of
      HDeployment d \<Rightarrow> (case psContainers (pod d) of [] \<Rightarrow> False
        | ct # _ \<Rightarrow> (case cSecurityContext ct of None \<Rightarrow> False | Some sc \<Rightarrow> scCapabilities sc \<noteq> None))
    | HStatefulSet s \<Rightarrow> psInitContainers (ptSpec (stsTemplate s)) \<noteq> []
    | _ \<Rightarrow> True)"

lemma deploymentPod_total:
  assumes "hookReady (HDeployment d)"
  shows "\<exists>ps. deploymentPod e cr hint name (pod d) = Ok ps"
proof -
  from assms obtain ct rest sc cp where "psContainers (pod d) = ct # rest" "cSecurityContext ct = Some sc" "scCapabilities sc = Some cp"
    by (auto simp: hookReady_def split: list.splits option.splits)
  then show ?thesis
    by (auto simp: deploymentPod_def onFirst_def redisContainer_def haproxyContainer_def bindO_def Let_def split: option.split)
qed

text \<open>C40. The hook on an object the Argo CD operator builds for OpenShift neither panics nor returns an
  error when the admin role could be read, keeps the object's metadata, and leaves every object alone
  that is neither a Secret nor has one of the six names the hook knows; its only error is the one of
  reading the admin role.\<close>

theorem ReconcilerHook_safe:
  assumes "hookReady v"
  shows "(\<forall>role. \<exists>v'. ReconcilerHook e (Inr role) cr v hint = Ok v' \<and> hookMeta v' = hookMeta v \<and>
      (metaName (hookMeta v) \<notin> {GenerateUniqueResourceName ''argocd-application-controller'' cr,
          metaName (acMeta cr) @ ''-redis'', metaName (acMeta cr) @ ''-redis-ha-haproxy'', metaName (acMeta cr) @ ''-repo-server'',
          metaName (acMeta cr) @ ''-redis-ha-server'', metaName (acMeta cr) @ ''-argocd-application-controller''} \<and>
       (\<forall>s. v \<noteq> HSecret s) \<longrightarrow> v' = v)) \<and>
    (\<forall>err. ReconcilerHook e (Inl err) cr v hint = Err err \<or> ReconcilerHook e (Inl err) cr v hint = ReconcilerHook e (Inr role0) cr v hint)"
proof (cases v)
  case (HDeployment d)
  obtain ps where ps: "deploymentPod e cr hint (metaName (depMeta d)) (pod d) = Ok ps"
    using deploymentPod_total assms HDeployment by blast
  moreover have "ps = pod d" if "metaName (depMeta d) \<notin> {metaName (acMeta cr) @ ''-redis'',
      metaName (acMeta cr) @ ''-redis-ha-haproxy'', metaName (acMeta cr) @ ''-repo-server''}"
    using that ps by (simp add: deploymentPod_def)
  ultimately show ?thesis by (auto simp: HDeployment ReconcilerHook_def bindO_def)
next
  case (HStatefulSet s)
  with assms obtain i rest where "psInitContainers (ptSpec (stsTemplate s)) = i # rest"
    by (auto simp: hookReady_def neq_Nil_conv)
  with HStatefulSet show ?thesis by (auto simp: ReconcilerHook_def haRedisPod_def bindO_def)
qed (auto simp: ReconcilerHook_def)

definition hookDeployment :: deployment where
  "hookDeployment = \<lparr>depMeta = mkMeta ''argocd-redis-ha-haproxy'' ''team'', depReplicas = None, depSelector = None,
     depTemplate = \<lparr>ptLabels = None, ptAnnotations = None,
       ptSpec = zeroPodSpec\<lparr>psContainers := [zeroContainer\<lparr>cSecurityContext := Some DefaultSecurityContext\<rparr>]\<rparr>\<rparr>,
     depReadyReplicas = 0, depConditions = None\<rparr>"

theorem ReconcilerHook_safe_witness:
  "\<exists>v'. ReconcilerHook sampleEnv (Inr (newClusterRole sampleBackend)) (sampleArgo False) (HDeployment hookDeployment) ''4.19.0'' = Ok v' \<and>
     hookMeta v' = depMeta hookDeployment"
proof -
  have "hookReady (HDeployment hookDeployment)" by code_simp
  from ReconcilerHook_safe[OF this, of sampleEnv "sampleArgo False" "''4.19.0''"] show ?thesis by (metis hookMeta.simps(2))
qed

end
