(* ===== verification/ArgoCD_API.thy ===== *)
theory ArgoCD_API
  imports K8s_Objects
begin

text \<open>
  The ArgoCD custom resource in the two versions the operator serves:
  \<open>argocd-operator/api/v1beta1/argocd_types.go\<close>, which is stored and reconciled, and
  \<open>api/v1alpha1/argocd_types.go\<close>. A struct that has the same fields in both versions, which Go converts
  by its type alone, is one record here; one that differs is two, with the suffixes \<open>_alpha\<close> and
  \<open>_beta\<close>. Every field is there. A value of a library type that no code of these packages looks into
  (the synchronisation period of the controller, a projected volume source) is opaque: its encoding.
\<close>

type_synonym opaque = string

section \<open>Structs of both versions and of v1beta1\<close>

record ArgoCDIngressSpec =
  Ingress_Annotations :: gomap
  Ingress_Enabled :: bool
  Ingress_IngressClassName :: "string option"
  Ingress_Path :: string
  Ingress_TLS :: "ingress_tls slice"

record ArgoCDRouteSpec =
  Route_Annotations :: gomap
  Route_Labels :: gomap
  Route_Enabled :: bool
  Route_Path :: string
  Route_TLS :: "route_tls option"
  Route_WildcardPolicy :: "string option"

record WebhookServerSpec =
  WebhookServer_Host :: string
  WebhookServer_Ingress :: ArgoCDIngressSpec
  WebhookServer_Route :: ArgoCDRouteSpec

record ArgoCDApplicationSet_beta =
  bApplicationSet_Env :: "env_var slice"
  bApplicationSet_ExtraCommandArgs :: "string slice"
  bApplicationSet_Image :: string
  bApplicationSet_Version :: string
  bApplicationSet_Resources :: "resource_requirements option"
  bApplicationSet_LogLevel :: string
  bApplicationSet_WebhookServer :: WebhookServerSpec
  bApplicationSet_SCMRootCAConfigMap :: string
  bApplicationSet_Enabled :: "bool option"
  bApplicationSet_SourceNamespaces :: "string slice"
  bApplicationSet_SCMProviders :: "string slice"
  bApplicationSet_Annotations :: gomap
  bApplicationSet_Labels :: gomap
  bApplicationSet_Volumes :: "volume slice"
  bApplicationSet_VolumeMounts :: "volume_mount slice"
  bApplicationSet_Logformat :: string
  bApplicationSet_LogFormat :: string

record ArgoCDApplicationControllerProcessorsSpec =
  ControllerProcessors_Operation :: int
  ControllerProcessors_Status :: int

record ArgoCDApplicationControllerShardSpec =
  ControllerShard_Enabled :: bool
  ControllerShard_Replicas :: int
  ControllerShard_DynamicScalingEnabled :: "bool option"
  ControllerShard_MinShards :: int
  ControllerShard_MaxShards :: int
  ControllerShard_ClustersPerShard :: int
  ControllerShard_DistributionAlgorithm :: string

record ArgoCDMetricsSpec =
  Metrics_Interval :: string
  Metrics_ScrapeTimeout :: string

record ArgoCDApplicationControllerSpec_beta =
  bController_InitContainers :: "container slice"
  bController_Processors :: ArgoCDApplicationControllerProcessorsSpec
  bController_LogLevel :: string
  bController_LogFormat :: string
  bController_Resources :: "resource_requirements option"
  bController_ParallelismLimit :: int
  bController_AppSync :: "opaque option"
  bController_Sharding :: ArgoCDApplicationControllerShardSpec
  bController_SidecarContainers :: "container slice"
  bController_Env :: "env_var slice"
  bController_Enabled :: "bool option"
  bController_ExtraCommandArgs :: "string slice"
  bController_Volumes :: "volume slice"
  bController_VolumeMounts :: "volume_mount slice"
  bController_Annotations :: gomap
  bController_Labels :: gomap
  bController_RespectRBAC :: string
  bController_Metrics :: "ArgoCDMetricsSpec option"

record ArgoCDCommitServerSpec =
  CommitServer_InitContainers :: "container slice"
  CommitServer_LogLevel :: string
  CommitServer_LogFormat :: string
  CommitServer_Resources :: "resource_requirements option"
  CommitServer_Env :: "env_var slice"
  CommitServer_Annotations :: gomap
  CommitServer_Labels :: gomap

record ArgoCDGrafanaSpec =
  Grafana_Enabled :: bool
  Grafana_Host :: string
  Grafana_Image :: string
  Grafana_Ingress :: ArgoCDIngressSpec
  Grafana_Resources :: "resource_requirements option"
  Grafana_Route :: ArgoCDRouteSpec
  Grafana_Size :: "int option"
  Grafana_Version :: string

record ArgoCDHASpec =
  HA_Enabled :: bool
  HA_RedisProxyImage :: string
  HA_RedisProxyVersion :: string
  HA_Resources :: "resource_requirements option"

record ArgoCDImageUpdaterSpec =
  ImageUpdater_Enabled :: bool
  ImageUpdater_Image :: string
  ImageUpdater_Env :: "env_var slice"
  ImageUpdater_Resources :: "resource_requirements option"

record ArgoCDImportSpec =
  Import_Name :: string
  Import_Namespace :: "string option"

record SSHHostsSpec =
  SSHHosts_ExcludeDefaultHosts :: bool
  SSHHosts_Keys :: string

record KustomizeVersionSpec =
  KustomizeVersion_Version :: string
  KustomizeVersion_Path :: string

record ArgoCDMonitoringSpec =
  Monitoring_Enabled :: bool
  Monitoring_DisableMetrics :: "bool option"

record ArgoCDNetworkPolicySpec =
  NetworkPolicy_Enabled :: "bool option"

record ArgoCDNodePlacementSpec =
  NodePlacement_NodeSelector :: gomap
  NodePlacement_Tolerations :: "toleration slice"

record ArgoCDNotifications =
  Notifications_Replicas :: "int option"
  Notifications_Enabled :: bool
  Notifications_SourceNamespaces :: "string slice"
  Notifications_Env :: "env_var slice"
  Notifications_Image :: string
  Notifications_Version :: string
  Notifications_Resources :: "resource_requirements option"
  Notifications_LogLevel :: string
  Notifications_Logformat :: string
  Notifications_LogFormat :: string
  Notifications_Metrics :: "ArgoCDMetricsSpec option"

record ArgoCDPrometheusSpec =
  Prometheus_Enabled :: bool
  Prometheus_Host :: string
  Prometheus_Ingress :: ArgoCDIngressSpec
  Prometheus_Route :: ArgoCDRouteSpec
  Prometheus_Size :: "int option"

record ArgoCDRBACSpec =
  RBAC_DefaultPolicy :: "string option"
  RBAC_Policy :: "string option"
  RBAC_Scopes :: "string option"
  RBAC_PolicyMatcherMode :: "string option"

record ArgoCDRedisSpec_beta =
  bRedis_Image :: string
  bRedis_Resources :: "resource_requirements option"
  bRedis_Version :: string
  bRedis_DisableTLSVerification :: bool
  bRedis_AutoTLS :: string
  bRedis_Enabled :: "bool option"
  bRedis_Remote :: "string option"
  bRedis_Annotations :: gomap
  bRedis_Labels :: gomap

record ArgoCDSystemCATrustSpec =
  SystemCATrust_DropImageCertificates :: bool
  SystemCATrust_ClusterTrustBundles :: "opaque slice"
  SystemCATrust_Secrets :: "opaque slice"
  SystemCATrust_ConfigMaps :: "opaque slice"

record ArgoCDRepoSpec_beta =
  bRepo_ExtraRepoCommandArgs :: "string slice"
  bRepo_LogLevel :: string
  bRepo_LogFormat :: string
  bRepo_MountSAToken :: bool
  bRepo_Replicas :: "int option"
  bRepo_Resources :: "resource_requirements option"
  bRepo_ServiceAccount :: string
  bRepo_VerifyTLS :: bool
  bRepo_AutoTLS :: string
  bRepo_Image :: string
  bRepo_Version :: string
  bRepo_ExecTimeout :: "int option"
  bRepo_Env :: "env_var slice"
  bRepo_Volumes :: "volume slice"
  bRepo_VolumeMounts :: "volume_mount slice"
  bRepo_InitContainers :: "container slice"
  bRepo_SidecarContainers :: "container slice"
  bRepo_Enabled :: "bool option"
  bRepo_Remote :: "string option"
  bRepo_Annotations :: gomap
  bRepo_Labels :: gomap
  bRepo_SystemCATrust :: "ArgoCDSystemCATrustSpec option"
  bRepo_Metrics :: "ArgoCDMetricsSpec option"

record ResourceHealthCheck =
  ResourceHealthCheck_Group :: string
  ResourceHealthCheck_Kind :: string
  ResourceHealthCheck_Check :: string

record IgnoreDifferenceCustomization =
  IgnoreDifferenceCustomization_JqPathExpressions :: "string slice"
  IgnoreDifferenceCustomization_JsonPointers :: "string slice"
  IgnoreDifferenceCustomization_ManagedFieldsManagers :: "string slice"

record ResourceIdentifiers =
  ResourceIdentifiers_Group :: string
  ResourceIdentifiers_Kind :: string
  ResourceIdentifiers_Customization :: IgnoreDifferenceCustomization

record ResourceIgnoreDifference =
  ResourceIgnoreDifference_All :: "IgnoreDifferenceCustomization option"
  ResourceIgnoreDifference_ResourceIdentifiers :: "ResourceIdentifiers slice"

record ResourceAction =
  ResourceAction_Group :: string
  ResourceAction_Kind :: string
  ResourceAction_Action :: string

record ArgoCDServerAutoscaleSpec =
  ServerAutoscale_Enabled :: bool
  ServerAutoscale_HPA :: "hpa_spec option"

record ArgoCDServerGRPCSpec =
  ServerGRPC_Host :: string
  ServerGRPC_Ingress :: ArgoCDIngressSpec

record ArgoCDServerServiceSpec =
  ServerService_Type :: string

record ArgoCDServerSpec_beta =
  bServer_Autoscale :: ArgoCDServerAutoscaleSpec
  bServer_EnableRolloutsUI :: bool
  bServer_GRPC :: ArgoCDServerGRPCSpec
  bServer_InitContainers :: "container slice"
  bServer_Host :: string
  bServer_Ingress :: ArgoCDIngressSpec
  bServer_Insecure :: bool
  bServer_LogLevel :: string
  bServer_LogFormat :: string
  bServer_Replicas :: "int option"
  bServer_Resources :: "resource_requirements option"
  bServer_Route :: ArgoCDRouteSpec
  bServer_Service :: ArgoCDServerServiceSpec
  bServer_SidecarContainers :: "container slice"
  bServer_Env :: "env_var slice"
  bServer_ExtraCommandArgs :: "string slice"
  bServer_Enabled :: "bool option"
  bServer_Volumes :: "volume slice"
  bServer_VolumeMounts :: "volume_mount slice"
  bServer_Annotations :: gomap
  bServer_Labels :: gomap
  bServer_Metrics :: "ArgoCDMetricsSpec option"

record ArgoCDSourceHydratorSpec =
  SourceHydrator_Enabled :: "bool option"

record ArgoCDDexSpec_beta =
  bDex_Config :: string
  bDex_Groups :: "string slice"
  bDex_Image :: string
  bDex_OpenShiftOAuth :: bool
  bDex_Resources :: "resource_requirements option"
  bDex_Version :: string
  bDex_Env :: "env_var slice"
  bDex_Volumes :: "volume slice"
  bDex_VolumeMounts :: "volume_mount slice"
  bDex_Annotations :: gomap
  bDex_Labels :: gomap

record ArgoCDKeycloakSpec =
  Keycloak_Image :: string
  Keycloak_Resources :: "resource_requirements option"
  Keycloak_RootCA :: string
  Keycloak_Version :: string
  Keycloak_VerifyTLS :: "bool option"
  Keycloak_Host :: string

record ArgoCDSSOSpec_beta =
  bSSO_Provider :: string
  bSSO_Dex :: "ArgoCDDexSpec_beta option"
  bSSO_Keycloak :: "ArgoCDKeycloakSpec option"

record ArgoCDCASpec =
  CA_ConfigMapName :: string
  CA_SecretName :: string

record ArgoCDTLSSpec =
  TLS_CA :: ArgoCDCASpec
  TLS_InitialCerts :: gomap

record Banner =
  Banner_Content :: string
  Banner_URL :: string
  Banner_Permanent :: bool
  Banner_Position :: string

record ArgoCDAgentPrincipalServiceSpec =
  PrincipalService_Type :: string
  PrincipalService_Annotations :: gomap

record ArgoCDAgentPrincipalRouteSpec =
  PrincipalRoute_Enabled :: "bool option"

record PrincipalServerSpec =
  PrincipalServer_EnableWebSocket :: "bool option"
  PrincipalServer_KeepAliveMinInterval :: string
  PrincipalServer_Service :: ArgoCDAgentPrincipalServiceSpec
  PrincipalServer_Route :: ArgoCDAgentPrincipalRouteSpec

record PrincipalNamespaceSpec =
  PrincipalNamespace_AllowedNamespaces :: "string slice"
  PrincipalNamespace_EnableNamespaceCreate :: "bool option"
  PrincipalNamespace_NamespaceCreatePattern :: string
  PrincipalNamespace_NamespaceCreateLabels :: "string slice"

record PrincipalResourceProxySpec =
  PrincipalResourceProxy_SecretName :: string
  PrincipalResourceProxy_CASecretName :: string

record PrincipalRedisSpec =
  PrincipalRedis_ServerAddress :: string
  PrincipalRedis_CompressionType :: string

record PrincipalTLSSpec =
  PrincipalTLS_SecretName :: string
  PrincipalTLS_RootCASecretName :: string
  PrincipalTLS_InsecureGenerate :: "bool option"

record PrincipalJWTSpec =
  PrincipalJWT_InsecureGenerate :: "bool option"
  PrincipalJWT_SecretName :: string

record PrincipalSelfRegistrationSpec =
  PrincipalSelfRegistration_Enabled :: "bool option"
  PrincipalSelfRegistration_ClientCertSecretName :: string

record PrincipalSpec_beta =
  bPrincipal_Enabled :: "bool option"
  bPrincipal_Auth :: string
  bPrincipal_LogLevel :: string
  bPrincipal_LogFormat :: string
  bPrincipal_Image :: string
  bPrincipal_Env :: "env_var slice"
  bPrincipal_Server :: "PrincipalServerSpec option"
  bPrincipal_Namespace :: "PrincipalNamespaceSpec option"
  bPrincipal_Resources :: "resource_requirements option"
  bPrincipal_ResourceProxy :: "PrincipalResourceProxySpec option"
  bPrincipal_Redis :: "PrincipalRedisSpec option"
  bPrincipal_TLS :: "PrincipalTLSSpec option"
  bPrincipal_JWT :: "PrincipalJWTSpec option"
  bPrincipal_DestinationBasedMapping :: "bool option"
  bPrincipal_LabelSelector :: string
  bPrincipal_Metrics :: "ArgoCDMetricsSpec option"
  bPrincipal_SelfRegistration :: "PrincipalSelfRegistrationSpec option"

record AgentClientSpec =
  AgentClient_PrincipalServerAddress :: string
  AgentClient_PrincipalServerPort :: string
  AgentClient_Mode :: string
  AgentClient_EnableWebSocket :: "bool option"
  AgentClient_EnableCompression :: "bool option"
  AgentClient_KeepAliveInterval :: string

record AgentRedisSpec =
  AgentRedis_ServerAddress :: string

record AgentTLSSpec =
  AgentTLS_SecretName :: string
  AgentTLS_RootCASecretName :: string
  AgentTLS_Insecure :: "bool option"

record DestinationBasedMappingSpec =
  DestinationBasedMapping_Enabled :: "bool option"
  DestinationBasedMapping_CreateNamespace :: "bool option"

record AgentSpec_beta =
  bAgent_Enabled :: "bool option"
  bAgent_AllowedNamespaces :: "string slice"
  bAgent_Creds :: string
  bAgent_LogLevel :: string
  bAgent_LogFormat :: string
  bAgent_Image :: string
  bAgent_Env :: "env_var slice"
  bAgent_Client :: "AgentClientSpec option"
  bAgent_Redis :: "AgentRedisSpec option"
  bAgent_Resources :: "resource_requirements option"
  bAgent_TLS :: "AgentTLSSpec option"
  bAgent_DestinationBasedMapping :: "DestinationBasedMappingSpec option"
  bAgent_LabelSelector :: string
  bAgent_Metrics :: "ArgoCDMetricsSpec option"

record ArgoCDAgentSpec_beta =
  bAgentRoot_Principal :: "PrincipalSpec_beta option"
  bAgentRoot_Agent :: "AgentSpec_beta option"

record ManagedNamespaces =
  ManagedNamespaces_Name :: string
  ManagedNamespaces_AllowManagedBy :: bool

record WebhookSecretKeySelector =
  WebhookSecretKeySelector_Name :: string
  WebhookSecretKeySelector_Key :: string

record ArgoCDWebhookSecretsGitHub =
  HooksGitHub_WebhookSecretRef :: "WebhookSecretKeySelector option"

record ArgoCDWebhookSecretsGitLab =
  HooksGitLab_WebhookSecretRef :: "WebhookSecretKeySelector option"

record ArgoCDWebhookSecretsBitbucket =
  HooksBitbucket_WebhookUUIDSecretRef :: "WebhookSecretKeySelector option"

record ArgoCDWebhookSecretsBitbucketServer =
  HooksBitbucketServer_WebhookSecretRef :: "WebhookSecretKeySelector option"

record ArgoCDWebhookSecretsGogs =
  HooksGogs_WebhookSecretRef :: "WebhookSecretKeySelector option"

record ArgoCDWebhookSecretsAzureDevOps =
  HooksAzureDevOps_UsernameSecretRef :: "WebhookSecretKeySelector option"
  HooksAzureDevOps_PasswordSecretRef :: "WebhookSecretKeySelector option"

record ArgoCDWebhookSecretsSpec =
  Hooks_GitHub :: "ArgoCDWebhookSecretsGitHub option"
  Hooks_GitLab :: "ArgoCDWebhookSecretsGitLab option"
  Hooks_Bitbucket :: "ArgoCDWebhookSecretsBitbucket option"
  Hooks_BitbucketServer :: "ArgoCDWebhookSecretsBitbucketServer option"
  Hooks_Gogs :: "ArgoCDWebhookSecretsGogs option"
  Hooks_AzureDevOps :: "ArgoCDWebhookSecretsAzureDevOps option"

record PromoterAPIServerTLSSpec =
  PromoterAPIServerTLS_CertSecretName :: string
  PromoterAPIServerTLS_CABundleSecretName :: string
  PromoterAPIServerTLS_CABundleSecretKey :: string

record PromoterAPIServerSpec =
  PromoterAPIServer_Enabled :: "bool option"
  PromoterAPIServer_TLS :: "PromoterAPIServerTLSSpec option"

record PromoterControllerWebhookSpec =
  PromoterControllerWebhook_Enabled :: "bool option"
  PromoterControllerWebhook_ServiceType :: string

record PromoterSpec =
  Promoter_Enabled :: "bool option"
  Promoter_Image :: string
  Promoter_Env :: "env_var slice"
  Promoter_Resources :: "resource_requirements option"
  Promoter_APIServer :: "PromoterAPIServerSpec option"
  Promoter_Webhook :: "PromoterControllerWebhookSpec option"
  Promoter_ArgoCDUIExtensionEnabled :: bool

record ArgoCDSpec_beta =
  bSpec_ApplicationSet :: "ArgoCDApplicationSet_beta option"
  bSpec_ApplicationInstanceLabelKey :: string
  bSpec_InstallationID :: string
  bSpec_ConfigManagementPlugins :: string
  bSpec_Controller :: ArgoCDApplicationControllerSpec_beta
  bSpec_CommitServer :: ArgoCDCommitServerSpec
  bSpec_DisableAdmin :: bool
  bSpec_ExtraConfig :: gomap
  bSpec_GATrackingID :: string
  bSpec_GAAnonymizeUsers :: bool
  bSpec_Grafana :: ArgoCDGrafanaSpec
  bSpec_HA :: ArgoCDHASpec
  bSpec_HelpChatURL :: string
  bSpec_HelpChatText :: string
  bSpec_Image :: string
  bSpec_ImageUpdater :: ArgoCDImageUpdaterSpec
  bSpec_ImagePullPolicy :: string
  bSpec_Import :: "ArgoCDImportSpec option"
  bSpec_InitialRepositories :: string
  bSpec_InitialSSHKnownHosts :: SSHHostsSpec
  bSpec_KustomizeBuildOptions :: string
  bSpec_KustomizeVersions :: "KustomizeVersionSpec slice"
  bSpec_LocalUsers :: "LocalUserSpec slice"
  bSpec_OIDCConfig :: string
  bSpec_Monitoring :: ArgoCDMonitoringSpec
  bSpec_NetworkPolicy :: ArgoCDNetworkPolicySpec
  bSpec_NodePlacement :: "ArgoCDNodePlacementSpec option"
  bSpec_PriorityClassName :: string
  bSpec_Notifications :: ArgoCDNotifications
  bSpec_Prometheus :: ArgoCDPrometheusSpec
  bSpec_RBAC :: ArgoCDRBACSpec
  bSpec_Redis :: ArgoCDRedisSpec_beta
  bSpec_Repo :: ArgoCDRepoSpec_beta
  bSpec_RepositoryCredentials :: string
  bSpec_ResourceHealthChecks :: "ResourceHealthCheck slice"
  bSpec_ResourceIgnoreDifferences :: "ResourceIgnoreDifference option"
  bSpec_ResourceActions :: "ResourceAction slice"
  bSpec_ResourceExclusions :: string
  bSpec_ResourceInclusions :: string
  bSpec_ResourceTrackingMethod :: string
  bSpec_Server :: ArgoCDServerSpec_beta
  bSpec_SourceHydrator :: ArgoCDSourceHydratorSpec
  bSpec_SourceNamespaces :: "string slice"
  bSpec_SSO :: "ArgoCDSSOSpec_beta option"
  bSpec_StatusBadgeEnabled :: bool
  bSpec_TLS :: ArgoCDTLSSpec
  bSpec_UsersAnonymousEnabled :: bool
  bSpec_Version :: string
  bSpec_ClusterDomain :: string
  bSpec_Banner :: "Banner option"
  bSpec_DefaultClusterScopedRoleDisabled :: bool
  bSpec_AggregatedClusterRoles :: bool
  bSpec_CmdParams :: gomap
  bSpec_ArgoCDAgent :: "ArgoCDAgentSpec_beta option"
  bSpec_NamespaceManagement :: "ManagedNamespaces slice"
  bSpec_WebhookSecrets :: "ArgoCDWebhookSecretsSpec option"
  bSpec_WebTerminalEnabled :: "bool option"
  bSpec_Promoter :: "PromoterSpec option"

record ArgoCDStatus =
  Status_ApplicationController :: string
  Status_ApplicationSetController :: string
  Status_SSO :: string
  Status_NotificationsController :: string
  Status_Phase :: string
  Status_Redis :: string
  Status_Repo :: string
  Status_Server :: string
  Status_CommitServer :: string
  Status_RepoTLSChecksum :: string
  Status_RedisTLSChecksum :: string
  Status_Host :: string
  Status_Conditions :: "condition slice"

record ArgoCD_beta =
  bArgoCD_Meta :: object_meta
  bArgoCD_Spec :: ArgoCDSpec_beta
  bArgoCD_Status :: ArgoCDStatus

section \<open>Structs of v1alpha1 that differ\<close>

record ArgoCDApplicationSet_alpha =
  aApplicationSet_Env :: "env_var slice"
  aApplicationSet_ExtraCommandArgs :: "string slice"
  aApplicationSet_Image :: string
  aApplicationSet_Version :: string
  aApplicationSet_Resources :: "resource_requirements option"
  aApplicationSet_LogLevel :: string
  aApplicationSet_WebhookServer :: WebhookServerSpec
  aApplicationSet_LogFormat :: string

record ArgoCDApplicationControllerSpec_alpha =
  aController_Processors :: ArgoCDApplicationControllerProcessorsSpec
  aController_LogLevel :: string
  aController_LogFormat :: string
  aController_Resources :: "resource_requirements option"
  aController_ParallelismLimit :: int
  aController_AppSync :: "opaque option"
  aController_Sharding :: ArgoCDApplicationControllerShardSpec
  aController_Env :: "env_var slice"
  aController_Metrics :: "ArgoCDMetricsSpec option"

record ArgoCDRedisSpec_alpha =
  aRedis_Image :: string
  aRedis_Resources :: "resource_requirements option"
  aRedis_Version :: string
  aRedis_DisableTLSVerification :: bool
  aRedis_AutoTLS :: string
  aRedis_Annotations :: gomap
  aRedis_Labels :: gomap

record ArgoCDRepoSpec_alpha =
  aRepo_ExtraRepoCommandArgs :: "string slice"
  aRepo_LogLevel :: string
  aRepo_LogFormat :: string
  aRepo_MountSAToken :: bool
  aRepo_Replicas :: "int option"
  aRepo_Resources :: "resource_requirements option"
  aRepo_ServiceAccount :: string
  aRepo_VerifyTLS :: bool
  aRepo_AutoTLS :: string
  aRepo_Image :: string
  aRepo_Version :: string
  aRepo_ExecTimeout :: "int option"
  aRepo_Env :: "env_var slice"
  aRepo_Volumes :: "volume slice"
  aRepo_VolumeMounts :: "volume_mount slice"
  aRepo_InitContainers :: "container slice"
  aRepo_SidecarContainers :: "container slice"
  aRepo_Metrics :: "ArgoCDMetricsSpec option"

record ArgoCDServerSpec_alpha =
  aServer_Autoscale :: ArgoCDServerAutoscaleSpec
  aServer_EnableRolloutsUI :: bool
  aServer_GRPC :: ArgoCDServerGRPCSpec
  aServer_Host :: string
  aServer_Ingress :: ArgoCDIngressSpec
  aServer_Insecure :: bool
  aServer_LogLevel :: string
  aServer_LogFormat :: string
  aServer_Replicas :: "int option"
  aServer_Resources :: "resource_requirements option"
  aServer_Route :: ArgoCDRouteSpec
  aServer_Service :: ArgoCDServerServiceSpec
  aServer_Env :: "env_var slice"
  aServer_ExtraCommandArgs :: "string slice"
  aServer_Metrics :: "ArgoCDMetricsSpec option"

record ArgoCDDexSpec_alpha =
  aDex_Config :: string
  aDex_Groups :: "string slice"
  aDex_Image :: string
  aDex_OpenShiftOAuth :: bool
  aDex_Resources :: "resource_requirements option"
  aDex_Version :: string
  aDex_Annotations :: gomap
  aDex_Labels :: gomap

record ArgoCDSSOSpec_alpha =
  aSSO_Provider :: string
  aSSO_Dex :: "ArgoCDDexSpec_alpha option"
  aSSO_Keycloak :: "ArgoCDKeycloakSpec option"
  aSSO_Image :: string
  aSSO_Resources :: "resource_requirements option"
  aSSO_VerifyTLS :: "bool option"
  aSSO_Version :: string

record PrincipalSpec_alpha =
  aPrincipal_Enabled :: "bool option"
  aPrincipal_Auth :: string
  aPrincipal_LogLevel :: string
  aPrincipal_LogFormat :: string
  aPrincipal_Image :: string
  aPrincipal_LabelSelector :: string
  aPrincipal_Env :: "env_var slice"
  aPrincipal_Server :: "PrincipalServerSpec option"
  aPrincipal_Namespace :: "PrincipalNamespaceSpec option"
  aPrincipal_ResourceProxy :: "PrincipalResourceProxySpec option"
  aPrincipal_Redis :: "PrincipalRedisSpec option"
  aPrincipal_TLS :: "PrincipalTLSSpec option"
  aPrincipal_JWT :: "PrincipalJWTSpec option"
  aPrincipal_Metrics :: "ArgoCDMetricsSpec option"
  aPrincipal_SelfRegistration :: "PrincipalSelfRegistrationSpec option"

record AgentSpec_alpha =
  aAgent_Enabled :: "bool option"
  aAgent_Creds :: string
  aAgent_LogLevel :: string
  aAgent_LogFormat :: string
  aAgent_Image :: string
  aAgent_LabelSelector :: string
  aAgent_Env :: "env_var slice"
  aAgent_Client :: "AgentClientSpec option"
  aAgent_TLS :: "AgentTLSSpec option"
  aAgent_Redis :: "AgentRedisSpec option"
  aAgent_Metrics :: "ArgoCDMetricsSpec option"

record ArgoCDAgentSpec_alpha =
  aAgentRoot_Principal :: "PrincipalSpec_alpha option"
  aAgentRoot_Agent :: "AgentSpec_alpha option"

record ArgoCDSpec_alpha =
  aSpec_ApplicationSet :: "ArgoCDApplicationSet_alpha option"
  aSpec_ApplicationInstanceLabelKey :: string
  aSpec_InstallationID :: string
  aSpec_ConfigManagementPlugins :: string
  aSpec_Controller :: ArgoCDApplicationControllerSpec_alpha
  aSpec_CommitServer :: ArgoCDCommitServerSpec
  aSpec_DisableAdmin :: bool
  aSpec_ExtraConfig :: gomap
  aSpec_GATrackingID :: string
  aSpec_GAAnonymizeUsers :: bool
  aSpec_Grafana :: ArgoCDGrafanaSpec
  aSpec_HA :: ArgoCDHASpec
  aSpec_HelpChatURL :: string
  aSpec_HelpChatText :: string
  aSpec_Image :: string
  aSpec_ImagePullPolicy :: string
  aSpec_Import :: "ArgoCDImportSpec option"
  aSpec_InitialRepositories :: string
  aSpec_InitialSSHKnownHosts :: SSHHostsSpec
  aSpec_KustomizeBuildOptions :: string
  aSpec_KustomizeVersions :: "KustomizeVersionSpec slice"
  aSpec_OIDCConfig :: string
  aSpec_Monitoring :: ArgoCDMonitoringSpec
  aSpec_NetworkPolicy :: ArgoCDNetworkPolicySpec
  aSpec_NodePlacement :: "ArgoCDNodePlacementSpec option"
  aSpec_PriorityClassName :: string
  aSpec_Notifications :: ArgoCDNotifications
  aSpec_Prometheus :: ArgoCDPrometheusSpec
  aSpec_RBAC :: ArgoCDRBACSpec
  aSpec_Redis :: ArgoCDRedisSpec_alpha
  aSpec_Repo :: ArgoCDRepoSpec_alpha
  aSpec_RepositoryCredentials :: string
  aSpec_ResourceCustomizations :: string
  aSpec_ResourceHealthChecks :: "ResourceHealthCheck slice"
  aSpec_ResourceIgnoreDifferences :: "ResourceIgnoreDifference option"
  aSpec_ResourceActions :: "ResourceAction slice"
  aSpec_ResourceExclusions :: string
  aSpec_ResourceInclusions :: string
  aSpec_ResourceTrackingMethod :: string
  aSpec_Server :: ArgoCDServerSpec_alpha
  aSpec_SourceHydrator :: ArgoCDSourceHydratorSpec
  aSpec_SourceNamespaces :: "string slice"
  aSpec_SSO :: "ArgoCDSSOSpec_alpha option"
  aSpec_StatusBadgeEnabled :: bool
  aSpec_TLS :: ArgoCDTLSSpec
  aSpec_UsersAnonymousEnabled :: bool
  aSpec_Version :: string
  aSpec_Banner :: "Banner option"
  aSpec_Dex :: "ArgoCDDexSpec_alpha option"
  aSpec_DefaultClusterScopedRoleDisabled :: bool
  aSpec_AggregatedClusterRoles :: bool
  aSpec_ArgoCDAgent :: "ArgoCDAgentSpec_alpha option"
  aSpec_NamespaceManagement :: "ManagedNamespaces slice"
  aSpec_WebhookSecrets :: "ArgoCDWebhookSecretsSpec option"

record ArgoCD_alpha =
  aArgoCD_Meta :: object_meta
  aArgoCD_Spec :: ArgoCDSpec_alpha
  aArgoCD_Status :: ArgoCDStatus

section \<open>Zero values\<close>

definition zero_ArgoCDApplicationControllerProcessorsSpec :: ArgoCDApplicationControllerProcessorsSpec where
  "zero_ArgoCDApplicationControllerProcessorsSpec = \<lparr>ControllerProcessors_Operation = 0,
     ControllerProcessors_Status = 0\<rparr>"

definition zero_ArgoCDApplicationControllerShardSpec :: ArgoCDApplicationControllerShardSpec where
  "zero_ArgoCDApplicationControllerShardSpec = \<lparr>ControllerShard_Enabled = False,
     ControllerShard_Replicas = 0,
     ControllerShard_DynamicScalingEnabled = None,
     ControllerShard_MinShards = 0,
     ControllerShard_MaxShards = 0,
     ControllerShard_ClustersPerShard = 0,
     ControllerShard_DistributionAlgorithm = ''''\<rparr>"

definition zero_ArgoCDApplicationControllerSpec_alpha :: ArgoCDApplicationControllerSpec_alpha where
  "zero_ArgoCDApplicationControllerSpec_alpha = \<lparr>aController_Processors = zero_ArgoCDApplicationControllerProcessorsSpec,
     aController_LogLevel = '''',
     aController_LogFormat = '''',
     aController_Resources = None,
     aController_ParallelismLimit = 0,
     aController_AppSync = None,
     aController_Sharding = zero_ArgoCDApplicationControllerShardSpec,
     aController_Env = None,
     aController_Metrics = None\<rparr>"

definition zero_ArgoCDCommitServerSpec :: ArgoCDCommitServerSpec where
  "zero_ArgoCDCommitServerSpec = \<lparr>CommitServer_InitContainers = None,
     CommitServer_LogLevel = '''',
     CommitServer_LogFormat = '''',
     CommitServer_Resources = None,
     CommitServer_Env = None,
     CommitServer_Annotations = None,
     CommitServer_Labels = None\<rparr>"

definition zero_ArgoCDIngressSpec :: ArgoCDIngressSpec where
  "zero_ArgoCDIngressSpec = \<lparr>Ingress_Annotations = None,
     Ingress_Enabled = False,
     Ingress_IngressClassName = None,
     Ingress_Path = '''',
     Ingress_TLS = None\<rparr>"

definition zero_ArgoCDRouteSpec :: ArgoCDRouteSpec where
  "zero_ArgoCDRouteSpec = \<lparr>Route_Annotations = None,
     Route_Labels = None,
     Route_Enabled = False,
     Route_Path = '''',
     Route_TLS = None,
     Route_WildcardPolicy = None\<rparr>"

definition zero_ArgoCDGrafanaSpec :: ArgoCDGrafanaSpec where
  "zero_ArgoCDGrafanaSpec = \<lparr>Grafana_Enabled = False,
     Grafana_Host = '''',
     Grafana_Image = '''',
     Grafana_Ingress = zero_ArgoCDIngressSpec,
     Grafana_Resources = None,
     Grafana_Route = zero_ArgoCDRouteSpec,
     Grafana_Size = None,
     Grafana_Version = ''''\<rparr>"

definition zero_ArgoCDHASpec :: ArgoCDHASpec where
  "zero_ArgoCDHASpec = \<lparr>HA_Enabled = False,
     HA_RedisProxyImage = '''',
     HA_RedisProxyVersion = '''',
     HA_Resources = None\<rparr>"

definition zero_SSHHostsSpec :: SSHHostsSpec where
  "zero_SSHHostsSpec = \<lparr>SSHHosts_ExcludeDefaultHosts = False,
     SSHHosts_Keys = ''''\<rparr>"

definition zero_ArgoCDMonitoringSpec :: ArgoCDMonitoringSpec where
  "zero_ArgoCDMonitoringSpec = \<lparr>Monitoring_Enabled = False,
     Monitoring_DisableMetrics = None\<rparr>"

definition zero_ArgoCDNetworkPolicySpec :: ArgoCDNetworkPolicySpec where
  "zero_ArgoCDNetworkPolicySpec = \<lparr>NetworkPolicy_Enabled = None\<rparr>"

definition zero_ArgoCDNotifications :: ArgoCDNotifications where
  "zero_ArgoCDNotifications = \<lparr>Notifications_Replicas = None,
     Notifications_Enabled = False,
     Notifications_SourceNamespaces = None,
     Notifications_Env = None,
     Notifications_Image = '''',
     Notifications_Version = '''',
     Notifications_Resources = None,
     Notifications_LogLevel = '''',
     Notifications_Logformat = '''',
     Notifications_LogFormat = '''',
     Notifications_Metrics = None\<rparr>"

definition zero_ArgoCDPrometheusSpec :: ArgoCDPrometheusSpec where
  "zero_ArgoCDPrometheusSpec = \<lparr>Prometheus_Enabled = False,
     Prometheus_Host = '''',
     Prometheus_Ingress = zero_ArgoCDIngressSpec,
     Prometheus_Route = zero_ArgoCDRouteSpec,
     Prometheus_Size = None\<rparr>"

definition zero_ArgoCDRBACSpec :: ArgoCDRBACSpec where
  "zero_ArgoCDRBACSpec = \<lparr>RBAC_DefaultPolicy = None,
     RBAC_Policy = None,
     RBAC_Scopes = None,
     RBAC_PolicyMatcherMode = None\<rparr>"

definition zero_ArgoCDRedisSpec_alpha :: ArgoCDRedisSpec_alpha where
  "zero_ArgoCDRedisSpec_alpha = \<lparr>aRedis_Image = '''',
     aRedis_Resources = None,
     aRedis_Version = '''',
     aRedis_DisableTLSVerification = False,
     aRedis_AutoTLS = '''',
     aRedis_Annotations = None,
     aRedis_Labels = None\<rparr>"

definition zero_ArgoCDRepoSpec_alpha :: ArgoCDRepoSpec_alpha where
  "zero_ArgoCDRepoSpec_alpha = \<lparr>aRepo_ExtraRepoCommandArgs = None,
     aRepo_LogLevel = '''',
     aRepo_LogFormat = '''',
     aRepo_MountSAToken = False,
     aRepo_Replicas = None,
     aRepo_Resources = None,
     aRepo_ServiceAccount = '''',
     aRepo_VerifyTLS = False,
     aRepo_AutoTLS = '''',
     aRepo_Image = '''',
     aRepo_Version = '''',
     aRepo_ExecTimeout = None,
     aRepo_Env = None,
     aRepo_Volumes = None,
     aRepo_VolumeMounts = None,
     aRepo_InitContainers = None,
     aRepo_SidecarContainers = None,
     aRepo_Metrics = None\<rparr>"

definition zero_ArgoCDServerAutoscaleSpec :: ArgoCDServerAutoscaleSpec where
  "zero_ArgoCDServerAutoscaleSpec = \<lparr>ServerAutoscale_Enabled = False,
     ServerAutoscale_HPA = None\<rparr>"

definition zero_ArgoCDServerGRPCSpec :: ArgoCDServerGRPCSpec where
  "zero_ArgoCDServerGRPCSpec = \<lparr>ServerGRPC_Host = '''',
     ServerGRPC_Ingress = zero_ArgoCDIngressSpec\<rparr>"

definition zero_ArgoCDServerServiceSpec :: ArgoCDServerServiceSpec where
  "zero_ArgoCDServerServiceSpec = \<lparr>ServerService_Type = ''''\<rparr>"

definition zero_ArgoCDServerSpec_alpha :: ArgoCDServerSpec_alpha where
  "zero_ArgoCDServerSpec_alpha = \<lparr>aServer_Autoscale = zero_ArgoCDServerAutoscaleSpec,
     aServer_EnableRolloutsUI = False,
     aServer_GRPC = zero_ArgoCDServerGRPCSpec,
     aServer_Host = '''',
     aServer_Ingress = zero_ArgoCDIngressSpec,
     aServer_Insecure = False,
     aServer_LogLevel = '''',
     aServer_LogFormat = '''',
     aServer_Replicas = None,
     aServer_Resources = None,
     aServer_Route = zero_ArgoCDRouteSpec,
     aServer_Service = zero_ArgoCDServerServiceSpec,
     aServer_Env = None,
     aServer_ExtraCommandArgs = None,
     aServer_Metrics = None\<rparr>"

definition zero_ArgoCDSourceHydratorSpec :: ArgoCDSourceHydratorSpec where
  "zero_ArgoCDSourceHydratorSpec = \<lparr>SourceHydrator_Enabled = None\<rparr>"

definition zero_ArgoCDCASpec :: ArgoCDCASpec where
  "zero_ArgoCDCASpec = \<lparr>CA_ConfigMapName = '''',
     CA_SecretName = ''''\<rparr>"

definition zero_ArgoCDTLSSpec :: ArgoCDTLSSpec where
  "zero_ArgoCDTLSSpec = \<lparr>TLS_CA = zero_ArgoCDCASpec,
     TLS_InitialCerts = None\<rparr>"

definition zero_ArgoCDSpec_alpha :: ArgoCDSpec_alpha where
  "zero_ArgoCDSpec_alpha = \<lparr>aSpec_ApplicationSet = None,
     aSpec_ApplicationInstanceLabelKey = '''',
     aSpec_InstallationID = '''',
     aSpec_ConfigManagementPlugins = '''',
     aSpec_Controller = zero_ArgoCDApplicationControllerSpec_alpha,
     aSpec_CommitServer = zero_ArgoCDCommitServerSpec,
     aSpec_DisableAdmin = False,
     aSpec_ExtraConfig = None,
     aSpec_GATrackingID = '''',
     aSpec_GAAnonymizeUsers = False,
     aSpec_Grafana = zero_ArgoCDGrafanaSpec,
     aSpec_HA = zero_ArgoCDHASpec,
     aSpec_HelpChatURL = '''',
     aSpec_HelpChatText = '''',
     aSpec_Image = '''',
     aSpec_ImagePullPolicy = '''',
     aSpec_Import = None,
     aSpec_InitialRepositories = '''',
     aSpec_InitialSSHKnownHosts = zero_SSHHostsSpec,
     aSpec_KustomizeBuildOptions = '''',
     aSpec_KustomizeVersions = None,
     aSpec_OIDCConfig = '''',
     aSpec_Monitoring = zero_ArgoCDMonitoringSpec,
     aSpec_NetworkPolicy = zero_ArgoCDNetworkPolicySpec,
     aSpec_NodePlacement = None,
     aSpec_PriorityClassName = '''',
     aSpec_Notifications = zero_ArgoCDNotifications,
     aSpec_Prometheus = zero_ArgoCDPrometheusSpec,
     aSpec_RBAC = zero_ArgoCDRBACSpec,
     aSpec_Redis = zero_ArgoCDRedisSpec_alpha,
     aSpec_Repo = zero_ArgoCDRepoSpec_alpha,
     aSpec_RepositoryCredentials = '''',
     aSpec_ResourceCustomizations = '''',
     aSpec_ResourceHealthChecks = None,
     aSpec_ResourceIgnoreDifferences = None,
     aSpec_ResourceActions = None,
     aSpec_ResourceExclusions = '''',
     aSpec_ResourceInclusions = '''',
     aSpec_ResourceTrackingMethod = '''',
     aSpec_Server = zero_ArgoCDServerSpec_alpha,
     aSpec_SourceHydrator = zero_ArgoCDSourceHydratorSpec,
     aSpec_SourceNamespaces = None,
     aSpec_SSO = None,
     aSpec_StatusBadgeEnabled = False,
     aSpec_TLS = zero_ArgoCDTLSSpec,
     aSpec_UsersAnonymousEnabled = False,
     aSpec_Version = '''',
     aSpec_Banner = None,
     aSpec_Dex = None,
     aSpec_DefaultClusterScopedRoleDisabled = False,
     aSpec_AggregatedClusterRoles = False,
     aSpec_ArgoCDAgent = None,
     aSpec_NamespaceManagement = None,
     aSpec_WebhookSecrets = None\<rparr>"

definition zero_ArgoCDStatus :: ArgoCDStatus where
  "zero_ArgoCDStatus = \<lparr>Status_ApplicationController = '''',
     Status_ApplicationSetController = '''',
     Status_SSO = '''',
     Status_NotificationsController = '''',
     Status_Phase = '''',
     Status_Redis = '''',
     Status_Repo = '''',
     Status_Server = '''',
     Status_CommitServer = '''',
     Status_RepoTLSChecksum = '''',
     Status_RedisTLSChecksum = '''',
     Status_Host = '''',
     Status_Conditions = None\<rparr>"

definition zero_ArgoCD_alpha :: ArgoCD_alpha where
  "zero_ArgoCD_alpha = \<lparr>aArgoCD_Meta = mkMeta '''' '''',
     aArgoCD_Spec = zero_ArgoCDSpec_alpha,
     aArgoCD_Status = zero_ArgoCDStatus\<rparr>"

definition zero_ArgoCDApplicationControllerSpec_beta :: ArgoCDApplicationControllerSpec_beta where
  "zero_ArgoCDApplicationControllerSpec_beta = \<lparr>bController_InitContainers = None,
     bController_Processors = zero_ArgoCDApplicationControllerProcessorsSpec,
     bController_LogLevel = '''',
     bController_LogFormat = '''',
     bController_Resources = None,
     bController_ParallelismLimit = 0,
     bController_AppSync = None,
     bController_Sharding = zero_ArgoCDApplicationControllerShardSpec,
     bController_SidecarContainers = None,
     bController_Env = None,
     bController_Enabled = None,
     bController_ExtraCommandArgs = None,
     bController_Volumes = None,
     bController_VolumeMounts = None,
     bController_Annotations = None,
     bController_Labels = None,
     bController_RespectRBAC = '''',
     bController_Metrics = None\<rparr>"

definition zero_ArgoCDImageUpdaterSpec :: ArgoCDImageUpdaterSpec where
  "zero_ArgoCDImageUpdaterSpec = \<lparr>ImageUpdater_Enabled = False,
     ImageUpdater_Image = '''',
     ImageUpdater_Env = None,
     ImageUpdater_Resources = None\<rparr>"

definition zero_ArgoCDRedisSpec_beta :: ArgoCDRedisSpec_beta where
  "zero_ArgoCDRedisSpec_beta = \<lparr>bRedis_Image = '''',
     bRedis_Resources = None,
     bRedis_Version = '''',
     bRedis_DisableTLSVerification = False,
     bRedis_AutoTLS = '''',
     bRedis_Enabled = None,
     bRedis_Remote = None,
     bRedis_Annotations = None,
     bRedis_Labels = None\<rparr>"

definition zero_ArgoCDRepoSpec_beta :: ArgoCDRepoSpec_beta where
  "zero_ArgoCDRepoSpec_beta = \<lparr>bRepo_ExtraRepoCommandArgs = None,
     bRepo_LogLevel = '''',
     bRepo_LogFormat = '''',
     bRepo_MountSAToken = False,
     bRepo_Replicas = None,
     bRepo_Resources = None,
     bRepo_ServiceAccount = '''',
     bRepo_VerifyTLS = False,
     bRepo_AutoTLS = '''',
     bRepo_Image = '''',
     bRepo_Version = '''',
     bRepo_ExecTimeout = None,
     bRepo_Env = None,
     bRepo_Volumes = None,
     bRepo_VolumeMounts = None,
     bRepo_InitContainers = None,
     bRepo_SidecarContainers = None,
     bRepo_Enabled = None,
     bRepo_Remote = None,
     bRepo_Annotations = None,
     bRepo_Labels = None,
     bRepo_SystemCATrust = None,
     bRepo_Metrics = None\<rparr>"

definition zero_ArgoCDServerSpec_beta :: ArgoCDServerSpec_beta where
  "zero_ArgoCDServerSpec_beta = \<lparr>bServer_Autoscale = zero_ArgoCDServerAutoscaleSpec,
     bServer_EnableRolloutsUI = False,
     bServer_GRPC = zero_ArgoCDServerGRPCSpec,
     bServer_InitContainers = None,
     bServer_Host = '''',
     bServer_Ingress = zero_ArgoCDIngressSpec,
     bServer_Insecure = False,
     bServer_LogLevel = '''',
     bServer_LogFormat = '''',
     bServer_Replicas = None,
     bServer_Resources = None,
     bServer_Route = zero_ArgoCDRouteSpec,
     bServer_Service = zero_ArgoCDServerServiceSpec,
     bServer_SidecarContainers = None,
     bServer_Env = None,
     bServer_ExtraCommandArgs = None,
     bServer_Enabled = None,
     bServer_Volumes = None,
     bServer_VolumeMounts = None,
     bServer_Annotations = None,
     bServer_Labels = None,
     bServer_Metrics = None\<rparr>"

definition zero_ArgoCDSpec_beta :: ArgoCDSpec_beta where
  "zero_ArgoCDSpec_beta = \<lparr>bSpec_ApplicationSet = None,
     bSpec_ApplicationInstanceLabelKey = '''',
     bSpec_InstallationID = '''',
     bSpec_ConfigManagementPlugins = '''',
     bSpec_Controller = zero_ArgoCDApplicationControllerSpec_beta,
     bSpec_CommitServer = zero_ArgoCDCommitServerSpec,
     bSpec_DisableAdmin = False,
     bSpec_ExtraConfig = None,
     bSpec_GATrackingID = '''',
     bSpec_GAAnonymizeUsers = False,
     bSpec_Grafana = zero_ArgoCDGrafanaSpec,
     bSpec_HA = zero_ArgoCDHASpec,
     bSpec_HelpChatURL = '''',
     bSpec_HelpChatText = '''',
     bSpec_Image = '''',
     bSpec_ImageUpdater = zero_ArgoCDImageUpdaterSpec,
     bSpec_ImagePullPolicy = '''',
     bSpec_Import = None,
     bSpec_InitialRepositories = '''',
     bSpec_InitialSSHKnownHosts = zero_SSHHostsSpec,
     bSpec_KustomizeBuildOptions = '''',
     bSpec_KustomizeVersions = None,
     bSpec_LocalUsers = None,
     bSpec_OIDCConfig = '''',
     bSpec_Monitoring = zero_ArgoCDMonitoringSpec,
     bSpec_NetworkPolicy = zero_ArgoCDNetworkPolicySpec,
     bSpec_NodePlacement = None,
     bSpec_PriorityClassName = '''',
     bSpec_Notifications = zero_ArgoCDNotifications,
     bSpec_Prometheus = zero_ArgoCDPrometheusSpec,
     bSpec_RBAC = zero_ArgoCDRBACSpec,
     bSpec_Redis = zero_ArgoCDRedisSpec_beta,
     bSpec_Repo = zero_ArgoCDRepoSpec_beta,
     bSpec_RepositoryCredentials = '''',
     bSpec_ResourceHealthChecks = None,
     bSpec_ResourceIgnoreDifferences = None,
     bSpec_ResourceActions = None,
     bSpec_ResourceExclusions = '''',
     bSpec_ResourceInclusions = '''',
     bSpec_ResourceTrackingMethod = '''',
     bSpec_Server = zero_ArgoCDServerSpec_beta,
     bSpec_SourceHydrator = zero_ArgoCDSourceHydratorSpec,
     bSpec_SourceNamespaces = None,
     bSpec_SSO = None,
     bSpec_StatusBadgeEnabled = False,
     bSpec_TLS = zero_ArgoCDTLSSpec,
     bSpec_UsersAnonymousEnabled = False,
     bSpec_Version = '''',
     bSpec_ClusterDomain = '''',
     bSpec_Banner = None,
     bSpec_DefaultClusterScopedRoleDisabled = False,
     bSpec_AggregatedClusterRoles = False,
     bSpec_CmdParams = None,
     bSpec_ArgoCDAgent = None,
     bSpec_NamespaceManagement = None,
     bSpec_WebhookSecrets = None,
     bSpec_WebTerminalEnabled = None,
     bSpec_Promoter = None\<rparr>"

definition zero_ArgoCD_beta :: ArgoCD_beta where
  "zero_ArgoCD_beta = \<lparr>bArgoCD_Meta = mkMeta '''' '''',
     bArgoCD_Spec = zero_ArgoCDSpec_beta,
     bArgoCD_Status = zero_ArgoCDStatus\<rparr>"

definition zero_ArgoCDSSOSpec_alpha :: ArgoCDSSOSpec_alpha where
  "zero_ArgoCDSSOSpec_alpha = \<lparr>aSSO_Provider = '''',
     aSSO_Dex = None,
     aSSO_Keycloak = None,
     aSSO_Image = '''',
     aSSO_Resources = None,
     aSSO_VerifyTLS = None,
     aSSO_Version = ''''\<rparr>"

definition zero_ArgoCDSSOSpec_beta :: ArgoCDSSOSpec_beta where
  "zero_ArgoCDSSOSpec_beta = \<lparr>bSSO_Provider = '''',
     bSSO_Dex = None,
     bSSO_Keycloak = None\<rparr>"

definition zero_ArgoCDDexSpec_alpha :: ArgoCDDexSpec_alpha where
  "zero_ArgoCDDexSpec_alpha = \<lparr>aDex_Config = '''',
     aDex_Groups = None,
     aDex_Image = '''',
     aDex_OpenShiftOAuth = False,
     aDex_Resources = None,
     aDex_Version = '''',
     aDex_Annotations = None,
     aDex_Labels = None\<rparr>"

definition zero_ArgoCDKeycloakSpec :: ArgoCDKeycloakSpec where
  "zero_ArgoCDKeycloakSpec = \<lparr>Keycloak_Image = '''',
     Keycloak_Resources = None,
     Keycloak_RootCA = '''',
     Keycloak_Version = '''',
     Keycloak_VerifyTLS = None,
     Keycloak_Host = ''''\<rparr>"

end
