(* ===== verification/Argo_Conversion.thy ===== *)
theory Argo_Conversion
  imports ArgoCD_API
begin

text \<open>
  \<open>argocd-operator/api/v1alpha1/argocd_conversion.go\<close>: the webhook that converts an ArgoCD resource
  between v1alpha1 and the stored version v1beta1, one definition per function. A struct literal in the
  source leaves the fields it does not name at their zero values; here they are written out. The loops
  that append to a nil slice are \<open>convSlice\<close>: they give nil for an empty slice.
\<close>

section \<open>Conversion functions\<close>

definition convSlice :: "('a \<Rightarrow> 'b) \<Rightarrow> 'a slice \<Rightarrow> 'b slice" where
  "convSlice f src = (if elems src = [] then None else Some (map f (elems src)))"

definition ConvertAlphaToBetaMetrics :: "ArgoCDMetricsSpec option \<Rightarrow> ArgoCDMetricsSpec option" where
  "ConvertAlphaToBetaMetrics = map_option (\<lambda>src. src)"

definition ConvertAlphaToBetaController :: "ArgoCDApplicationControllerSpec_alpha option \<Rightarrow> ArgoCDApplicationControllerSpec_beta option" where
  "ConvertAlphaToBetaController = map_option (\<lambda>src. \<lparr>bController_InitContainers = None,
      bController_Processors = aController_Processors src,
      bController_LogLevel = aController_LogLevel src,
      bController_LogFormat = aController_LogFormat src,
      bController_Resources = aController_Resources src,
      bController_ParallelismLimit = aController_ParallelismLimit src,
      bController_AppSync = aController_AppSync src,
      bController_Sharding = aController_Sharding src,
      bController_SidecarContainers = None,
      bController_Env = aController_Env src,
      bController_Enabled = None,
      bController_ExtraCommandArgs = None,
      bController_Volumes = None,
      bController_VolumeMounts = None,
      bController_Annotations = None,
      bController_Labels = None,
      bController_RespectRBAC = '''',
      bController_Metrics = ConvertAlphaToBetaMetrics (aController_Metrics src)\<rparr>)"

definition ConvertBetaToAlphaMetrics :: "ArgoCDMetricsSpec option \<Rightarrow> ArgoCDMetricsSpec option" where
  "ConvertBetaToAlphaMetrics = map_option (\<lambda>src. src)"

definition ConvertAlphaToBetaRedis :: "ArgoCDRedisSpec_alpha option \<Rightarrow> ArgoCDRedisSpec_beta option" where
  "ConvertAlphaToBetaRedis = map_option (\<lambda>src. \<lparr>bRedis_Image = aRedis_Image src,
      bRedis_Resources = aRedis_Resources src,
      bRedis_Version = aRedis_Version src,
      bRedis_DisableTLSVerification = aRedis_DisableTLSVerification src,
      bRedis_AutoTLS = aRedis_AutoTLS src,
      bRedis_Enabled = None,
      bRedis_Remote = None,
      bRedis_Annotations = aRedis_Annotations src,
      bRedis_Labels = aRedis_Labels src\<rparr>)"

definition ConvertAlphaToBetaRepo :: "ArgoCDRepoSpec_alpha option \<Rightarrow> ArgoCDRepoSpec_beta option" where
  "ConvertAlphaToBetaRepo = map_option (\<lambda>src. \<lparr>bRepo_ExtraRepoCommandArgs = aRepo_ExtraRepoCommandArgs src,
      bRepo_LogLevel = aRepo_LogLevel src,
      bRepo_LogFormat = aRepo_LogFormat src,
      bRepo_MountSAToken = aRepo_MountSAToken src,
      bRepo_Replicas = aRepo_Replicas src,
      bRepo_Resources = aRepo_Resources src,
      bRepo_ServiceAccount = aRepo_ServiceAccount src,
      bRepo_VerifyTLS = aRepo_VerifyTLS src,
      bRepo_AutoTLS = aRepo_AutoTLS src,
      bRepo_Image = aRepo_Image src,
      bRepo_Version = aRepo_Version src,
      bRepo_ExecTimeout = aRepo_ExecTimeout src,
      bRepo_Env = aRepo_Env src,
      bRepo_Volumes = aRepo_Volumes src,
      bRepo_VolumeMounts = aRepo_VolumeMounts src,
      bRepo_InitContainers = aRepo_InitContainers src,
      bRepo_SidecarContainers = aRepo_SidecarContainers src,
      bRepo_Enabled = None,
      bRepo_Remote = None,
      bRepo_Annotations = None,
      bRepo_Labels = None,
      bRepo_SystemCATrust = None,
      bRepo_Metrics = ConvertAlphaToBetaMetrics (aRepo_Metrics src)\<rparr>)"

definition ConvertAlphaToBetaWebhookServer :: "WebhookServerSpec option \<Rightarrow> WebhookServerSpec option" where
  "ConvertAlphaToBetaWebhookServer = map_option (\<lambda>src. \<lparr>WebhookServer_Host = WebhookServer_Host src,
      WebhookServer_Ingress = WebhookServer_Ingress src,
      WebhookServer_Route = WebhookServer_Route src\<rparr>)"

definition ConvertAlphaToBetaApplicationSet :: "ArgoCDApplicationSet_alpha option \<Rightarrow> ArgoCDApplicationSet_beta option" where
  "ConvertAlphaToBetaApplicationSet = map_option (\<lambda>src. \<lparr>bApplicationSet_Env = aApplicationSet_Env src,
      bApplicationSet_ExtraCommandArgs = aApplicationSet_ExtraCommandArgs src,
      bApplicationSet_Image = aApplicationSet_Image src,
      bApplicationSet_Version = aApplicationSet_Version src,
      bApplicationSet_Resources = aApplicationSet_Resources src,
      bApplicationSet_LogLevel = aApplicationSet_LogLevel src,
      bApplicationSet_WebhookServer = the (ConvertAlphaToBetaWebhookServer (Some (aApplicationSet_WebhookServer src))),
      bApplicationSet_SCMRootCAConfigMap = '''',
      bApplicationSet_Enabled = None,
      bApplicationSet_SourceNamespaces = None,
      bApplicationSet_SCMProviders = None,
      bApplicationSet_Annotations = None,
      bApplicationSet_Labels = None,
      bApplicationSet_Volumes = None,
      bApplicationSet_VolumeMounts = None,
      bApplicationSet_Logformat = '''',
      bApplicationSet_LogFormat = aApplicationSet_LogFormat src\<rparr>)"

definition ConvertAlphaToBetaGrafana :: "ArgoCDGrafanaSpec option \<Rightarrow> ArgoCDGrafanaSpec option" where
  "ConvertAlphaToBetaGrafana = map_option (\<lambda>src. \<lparr>Grafana_Enabled = Grafana_Enabled src,
      Grafana_Host = Grafana_Host src,
      Grafana_Image = Grafana_Image src,
      Grafana_Ingress = Grafana_Ingress src,
      Grafana_Resources = Grafana_Resources src,
      Grafana_Route = Grafana_Route src,
      Grafana_Size = Grafana_Size src,
      Grafana_Version = Grafana_Version src\<rparr>)"

definition ConvertAlphaToBetaPrometheus :: "ArgoCDPrometheusSpec option \<Rightarrow> ArgoCDPrometheusSpec option" where
  "ConvertAlphaToBetaPrometheus = map_option (\<lambda>src. \<lparr>Prometheus_Enabled = Prometheus_Enabled src,
      Prometheus_Host = Prometheus_Host src,
      Prometheus_Ingress = Prometheus_Ingress src,
      Prometheus_Route = Prometheus_Route src,
      Prometheus_Size = Prometheus_Size src\<rparr>)"

definition ConvertAlphaToBetaDex :: "ArgoCDDexSpec_alpha option \<Rightarrow> ArgoCDDexSpec_beta option" where
  "ConvertAlphaToBetaDex = map_option (\<lambda>src. \<lparr>bDex_Config = aDex_Config src,
      bDex_Groups = aDex_Groups src,
      bDex_Image = aDex_Image src,
      bDex_OpenShiftOAuth = aDex_OpenShiftOAuth src,
      bDex_Resources = aDex_Resources src,
      bDex_Version = aDex_Version src,
      bDex_Env = None,
      bDex_Volumes = None,
      bDex_VolumeMounts = None,
      bDex_Annotations = aDex_Annotations src,
      bDex_Labels = aDex_Labels src\<rparr>)"

definition ConvertAlphaToBetaSSO :: "ArgoCDSSOSpec_alpha option \<Rightarrow> ArgoCDSSOSpec_beta option" where
  "ConvertAlphaToBetaSSO = map_option (\<lambda>src. \<lparr>bSSO_Provider = aSSO_Provider src,
      bSSO_Dex = ConvertAlphaToBetaDex (aSSO_Dex src),
      bSSO_Keycloak = aSSO_Keycloak src\<rparr>)"

definition ConvertAlphaToBetaHA :: "ArgoCDHASpec option \<Rightarrow> ArgoCDHASpec option" where
  "ConvertAlphaToBetaHA = map_option (\<lambda>src. \<lparr>HA_Enabled = HA_Enabled src,
      HA_RedisProxyImage = HA_RedisProxyImage src,
      HA_RedisProxyVersion = HA_RedisProxyVersion src,
      HA_Resources = HA_Resources src\<rparr>)"

definition ConvertAlphaToBetaTLS :: "ArgoCDTLSSpec option \<Rightarrow> ArgoCDTLSSpec option" where
  "ConvertAlphaToBetaTLS = map_option (\<lambda>src. \<lparr>TLS_CA = TLS_CA src,
      TLS_InitialCerts = TLS_InitialCerts src\<rparr>)"

definition ConvertAlphaToBetaGRPC :: "ArgoCDServerGRPCSpec option \<Rightarrow> ArgoCDServerGRPCSpec option" where
  "ConvertAlphaToBetaGRPC = map_option (\<lambda>src. \<lparr>ServerGRPC_Host = ServerGRPC_Host src,
      ServerGRPC_Ingress = ServerGRPC_Ingress src\<rparr>)"

definition ConvertAlphaToBetaServer :: "ArgoCDServerSpec_alpha option \<Rightarrow> ArgoCDServerSpec_beta option" where
  "ConvertAlphaToBetaServer = map_option (\<lambda>src. \<lparr>bServer_Autoscale = aServer_Autoscale src,
      bServer_EnableRolloutsUI = False,
      bServer_GRPC = the (ConvertAlphaToBetaGRPC (Some (aServer_GRPC src))),
      bServer_InitContainers = None,
      bServer_Host = aServer_Host src,
      bServer_Ingress = aServer_Ingress src,
      bServer_Insecure = aServer_Insecure src,
      bServer_LogLevel = aServer_LogLevel src,
      bServer_LogFormat = aServer_LogFormat src,
      bServer_Replicas = aServer_Replicas src,
      bServer_Resources = aServer_Resources src,
      bServer_Route = aServer_Route src,
      bServer_Service = aServer_Service src,
      bServer_SidecarContainers = None,
      bServer_Env = aServer_Env src,
      bServer_ExtraCommandArgs = aServer_ExtraCommandArgs src,
      bServer_Enabled = None,
      bServer_Volumes = None,
      bServer_VolumeMounts = None,
      bServer_Annotations = None,
      bServer_Labels = None,
      bServer_Metrics = ConvertAlphaToBetaMetrics (aServer_Metrics src)\<rparr>)"

definition ConvertAlphaToBetaKustomizeVersions :: "KustomizeVersionSpec slice \<Rightarrow> KustomizeVersionSpec slice" where
  "ConvertAlphaToBetaKustomizeVersions = convSlice (\<lambda>src. \<lparr>KustomizeVersion_Version = KustomizeVersion_Version src,
      KustomizeVersion_Path = KustomizeVersion_Path src\<rparr>)"

definition ConvertAlphaToBetaResourceIdentifiers :: "ResourceIdentifiers slice \<Rightarrow> ResourceIdentifiers slice" where
  "ConvertAlphaToBetaResourceIdentifiers = convSlice (\<lambda>src. \<lparr>ResourceIdentifiers_Group = ResourceIdentifiers_Group src,
      ResourceIdentifiers_Kind = ResourceIdentifiers_Kind src,
      ResourceIdentifiers_Customization = ResourceIdentifiers_Customization src\<rparr>)"

definition ConvertAlphaToBetaResourceIgnoreDifferences :: "ResourceIgnoreDifference option \<Rightarrow> ResourceIgnoreDifference option" where
  "ConvertAlphaToBetaResourceIgnoreDifferences = map_option (\<lambda>src. \<lparr>ResourceIgnoreDifference_All = ResourceIgnoreDifference_All src,
      ResourceIgnoreDifference_ResourceIdentifiers = ConvertAlphaToBetaResourceIdentifiers (ResourceIgnoreDifference_ResourceIdentifiers src)\<rparr>)"

definition ConvertAlphaToBetaResourceActions :: "ResourceAction slice \<Rightarrow> ResourceAction slice" where
  "ConvertAlphaToBetaResourceActions = convSlice (\<lambda>src. \<lparr>ResourceAction_Group = ResourceAction_Group src,
      ResourceAction_Kind = ResourceAction_Kind src,
      ResourceAction_Action = ResourceAction_Action src\<rparr>)"

definition ConvertAlphaToBetaResourceHealthChecks :: "ResourceHealthCheck slice \<Rightarrow> ResourceHealthCheck slice" where
  "ConvertAlphaToBetaResourceHealthChecks = convSlice (\<lambda>src. \<lparr>ResourceHealthCheck_Group = ResourceHealthCheck_Group src,
      ResourceHealthCheck_Kind = ResourceHealthCheck_Kind src,
      ResourceHealthCheck_Check = ResourceHealthCheck_Check src\<rparr>)"

definition ConvertBetaToAlphaController :: "ArgoCDApplicationControllerSpec_beta option \<Rightarrow> ArgoCDApplicationControllerSpec_alpha option" where
  "ConvertBetaToAlphaController = map_option (\<lambda>src. \<lparr>aController_Processors = bController_Processors src,
      aController_LogLevel = bController_LogLevel src,
      aController_LogFormat = bController_LogFormat src,
      aController_Resources = bController_Resources src,
      aController_ParallelismLimit = bController_ParallelismLimit src,
      aController_AppSync = bController_AppSync src,
      aController_Sharding = bController_Sharding src,
      aController_Env = bController_Env src,
      aController_Metrics = ConvertBetaToAlphaMetrics (bController_Metrics src)\<rparr>)"

definition ConvertBetaToAlphaWebhookServer :: "WebhookServerSpec option \<Rightarrow> WebhookServerSpec option" where
  "ConvertBetaToAlphaWebhookServer = map_option (\<lambda>src. \<lparr>WebhookServer_Host = WebhookServer_Host src,
      WebhookServer_Ingress = WebhookServer_Ingress src,
      WebhookServer_Route = WebhookServer_Route src\<rparr>)"

definition ConvertBetaToAlphaApplicationSet :: "ArgoCDApplicationSet_beta option \<Rightarrow> ArgoCDApplicationSet_alpha option" where
  "ConvertBetaToAlphaApplicationSet = map_option (\<lambda>src. \<lparr>aApplicationSet_Env = bApplicationSet_Env src,
      aApplicationSet_ExtraCommandArgs = bApplicationSet_ExtraCommandArgs src,
      aApplicationSet_Image = bApplicationSet_Image src,
      aApplicationSet_Version = bApplicationSet_Version src,
      aApplicationSet_Resources = bApplicationSet_Resources src,
      aApplicationSet_LogLevel = bApplicationSet_LogLevel src,
      aApplicationSet_WebhookServer = the (ConvertBetaToAlphaWebhookServer (Some (bApplicationSet_WebhookServer src))),
      aApplicationSet_LogFormat = bApplicationSet_LogFormat src\<rparr>)"

definition ConvertBetaToAlphaGrafana :: "ArgoCDGrafanaSpec option \<Rightarrow> ArgoCDGrafanaSpec option" where
  "ConvertBetaToAlphaGrafana = map_option (\<lambda>src. \<lparr>Grafana_Enabled = Grafana_Enabled src,
      Grafana_Host = Grafana_Host src,
      Grafana_Image = Grafana_Image src,
      Grafana_Ingress = Grafana_Ingress src,
      Grafana_Resources = Grafana_Resources src,
      Grafana_Route = Grafana_Route src,
      Grafana_Size = Grafana_Size src,
      Grafana_Version = Grafana_Version src\<rparr>)"

definition ConvertBetaToAlphaPrometheus :: "ArgoCDPrometheusSpec option \<Rightarrow> ArgoCDPrometheusSpec option" where
  "ConvertBetaToAlphaPrometheus = map_option (\<lambda>src. \<lparr>Prometheus_Enabled = Prometheus_Enabled src,
      Prometheus_Host = Prometheus_Host src,
      Prometheus_Ingress = Prometheus_Ingress src,
      Prometheus_Route = Prometheus_Route src,
      Prometheus_Size = Prometheus_Size src\<rparr>)"

definition ConvertAlphaToBetaNotifications :: "ArgoCDNotifications option \<Rightarrow> ArgoCDNotifications option" where
  "ConvertAlphaToBetaNotifications = map_option (\<lambda>src. \<lparr>Notifications_Replicas = Notifications_Replicas src,
      Notifications_Enabled = Notifications_Enabled src,
      Notifications_SourceNamespaces = Notifications_SourceNamespaces src,
      Notifications_Env = Notifications_Env src,
      Notifications_Image = Notifications_Image src,
      Notifications_Version = Notifications_Version src,
      Notifications_Resources = Notifications_Resources src,
      Notifications_LogLevel = Notifications_LogLevel src,
      Notifications_Logformat = Notifications_Logformat src,
      Notifications_LogFormat = Notifications_LogFormat src,
      Notifications_Metrics = ConvertAlphaToBetaMetrics (Notifications_Metrics src)\<rparr>)"

definition ConvertBetaToAlphaNotifications :: "ArgoCDNotifications option \<Rightarrow> ArgoCDNotifications option" where
  "ConvertBetaToAlphaNotifications = map_option (\<lambda>src. \<lparr>Notifications_Replicas = Notifications_Replicas src,
      Notifications_Enabled = Notifications_Enabled src,
      Notifications_SourceNamespaces = Notifications_SourceNamespaces src,
      Notifications_Env = Notifications_Env src,
      Notifications_Image = Notifications_Image src,
      Notifications_Version = Notifications_Version src,
      Notifications_Resources = Notifications_Resources src,
      Notifications_LogLevel = Notifications_LogLevel src,
      Notifications_Logformat = Notifications_Logformat src,
      Notifications_LogFormat = Notifications_LogFormat src,
      Notifications_Metrics = ConvertBetaToAlphaMetrics (Notifications_Metrics src)\<rparr>)"

definition ConvertBetaToAlphaDex :: "ArgoCDDexSpec_beta option \<Rightarrow> ArgoCDDexSpec_alpha option" where
  "ConvertBetaToAlphaDex = map_option (\<lambda>src. \<lparr>aDex_Config = bDex_Config src,
      aDex_Groups = bDex_Groups src,
      aDex_Image = bDex_Image src,
      aDex_OpenShiftOAuth = bDex_OpenShiftOAuth src,
      aDex_Resources = bDex_Resources src,
      aDex_Version = bDex_Version src,
      aDex_Annotations = bDex_Annotations src,
      aDex_Labels = bDex_Labels src\<rparr>)"

definition ConvertBetaToAlphaSSO :: "ArgoCDSSOSpec_beta option \<Rightarrow> ArgoCDSSOSpec_alpha option" where
  "ConvertBetaToAlphaSSO = map_option (\<lambda>src. \<lparr>aSSO_Provider = bSSO_Provider src,
      aSSO_Dex = ConvertBetaToAlphaDex (bSSO_Dex src),
      aSSO_Keycloak = bSSO_Keycloak src,
      aSSO_Image = '''',
      aSSO_Resources = None,
      aSSO_VerifyTLS = None,
      aSSO_Version = ''''\<rparr>)"

definition ConvertBetaToAlphaHA :: "ArgoCDHASpec option \<Rightarrow> ArgoCDHASpec option" where
  "ConvertBetaToAlphaHA = map_option (\<lambda>src. \<lparr>HA_Enabled = HA_Enabled src,
      HA_RedisProxyImage = HA_RedisProxyImage src,
      HA_RedisProxyVersion = HA_RedisProxyVersion src,
      HA_Resources = HA_Resources src\<rparr>)"

definition ConvertBetaToAlphaTLS :: "ArgoCDTLSSpec option \<Rightarrow> ArgoCDTLSSpec option" where
  "ConvertBetaToAlphaTLS = map_option (\<lambda>src. \<lparr>TLS_CA = TLS_CA src,
      TLS_InitialCerts = TLS_InitialCerts src\<rparr>)"

definition ConvertBetaToAlphaGRPC :: "ArgoCDServerGRPCSpec option \<Rightarrow> ArgoCDServerGRPCSpec option" where
  "ConvertBetaToAlphaGRPC = map_option (\<lambda>src. \<lparr>ServerGRPC_Host = ServerGRPC_Host src,
      ServerGRPC_Ingress = ServerGRPC_Ingress src\<rparr>)"

definition ConvertBetaToAlphaServer :: "ArgoCDServerSpec_beta option \<Rightarrow> ArgoCDServerSpec_alpha option" where
  "ConvertBetaToAlphaServer = map_option (\<lambda>src. \<lparr>aServer_Autoscale = bServer_Autoscale src,
      aServer_EnableRolloutsUI = False,
      aServer_GRPC = the (ConvertBetaToAlphaGRPC (Some (bServer_GRPC src))),
      aServer_Host = bServer_Host src,
      aServer_Ingress = bServer_Ingress src,
      aServer_Insecure = bServer_Insecure src,
      aServer_LogLevel = bServer_LogLevel src,
      aServer_LogFormat = bServer_LogFormat src,
      aServer_Replicas = bServer_Replicas src,
      aServer_Resources = bServer_Resources src,
      aServer_Route = bServer_Route src,
      aServer_Service = bServer_Service src,
      aServer_Env = bServer_Env src,
      aServer_ExtraCommandArgs = bServer_ExtraCommandArgs src,
      aServer_Metrics = ConvertBetaToAlphaMetrics (bServer_Metrics src)\<rparr>)"

definition ConvertBetaToAlphaKustomizeVersions :: "KustomizeVersionSpec slice \<Rightarrow> KustomizeVersionSpec slice" where
  "ConvertBetaToAlphaKustomizeVersions = convSlice (\<lambda>src. \<lparr>KustomizeVersion_Version = KustomizeVersion_Version src,
      KustomizeVersion_Path = KustomizeVersion_Path src\<rparr>)"

definition ConvertBetaToAlphaResourceIdentifiers :: "ResourceIdentifiers slice \<Rightarrow> ResourceIdentifiers slice" where
  "ConvertBetaToAlphaResourceIdentifiers = convSlice (\<lambda>src. \<lparr>ResourceIdentifiers_Group = ResourceIdentifiers_Group src,
      ResourceIdentifiers_Kind = ResourceIdentifiers_Kind src,
      ResourceIdentifiers_Customization = ResourceIdentifiers_Customization src\<rparr>)"

definition ConvertBetaToAlphaResourceIgnoreDifferences :: "ResourceIgnoreDifference option \<Rightarrow> ResourceIgnoreDifference option" where
  "ConvertBetaToAlphaResourceIgnoreDifferences = map_option (\<lambda>src. \<lparr>ResourceIgnoreDifference_All = ResourceIgnoreDifference_All src,
      ResourceIgnoreDifference_ResourceIdentifiers = ConvertBetaToAlphaResourceIdentifiers (ResourceIgnoreDifference_ResourceIdentifiers src)\<rparr>)"

definition ConvertBetaToAlphaResourceActions :: "ResourceAction slice \<Rightarrow> ResourceAction slice" where
  "ConvertBetaToAlphaResourceActions = convSlice (\<lambda>src. \<lparr>ResourceAction_Group = ResourceAction_Group src,
      ResourceAction_Kind = ResourceAction_Kind src,
      ResourceAction_Action = ResourceAction_Action src\<rparr>)"

definition ConvertBetaToAlphaResourceHealthChecks :: "ResourceHealthCheck slice \<Rightarrow> ResourceHealthCheck slice" where
  "ConvertBetaToAlphaResourceHealthChecks = convSlice (\<lambda>src. \<lparr>ResourceHealthCheck_Group = ResourceHealthCheck_Group src,
      ResourceHealthCheck_Kind = ResourceHealthCheck_Kind src,
      ResourceHealthCheck_Check = ResourceHealthCheck_Check src\<rparr>)"

definition ConvertBetaToAlphaRedis :: "ArgoCDRedisSpec_beta option \<Rightarrow> ArgoCDRedisSpec_alpha option" where
  "ConvertBetaToAlphaRedis = map_option (\<lambda>src. \<lparr>aRedis_Image = bRedis_Image src,
      aRedis_Resources = bRedis_Resources src,
      aRedis_Version = bRedis_Version src,
      aRedis_DisableTLSVerification = bRedis_DisableTLSVerification src,
      aRedis_AutoTLS = bRedis_AutoTLS src,
      aRedis_Annotations = bRedis_Annotations src,
      aRedis_Labels = bRedis_Labels src\<rparr>)"

definition ConvertBetaToAlphaRepo :: "ArgoCDRepoSpec_beta option \<Rightarrow> ArgoCDRepoSpec_alpha option" where
  "ConvertBetaToAlphaRepo = map_option (\<lambda>src. \<lparr>aRepo_ExtraRepoCommandArgs = bRepo_ExtraRepoCommandArgs src,
      aRepo_LogLevel = bRepo_LogLevel src,
      aRepo_LogFormat = bRepo_LogFormat src,
      aRepo_MountSAToken = bRepo_MountSAToken src,
      aRepo_Replicas = bRepo_Replicas src,
      aRepo_Resources = bRepo_Resources src,
      aRepo_ServiceAccount = bRepo_ServiceAccount src,
      aRepo_VerifyTLS = bRepo_VerifyTLS src,
      aRepo_AutoTLS = bRepo_AutoTLS src,
      aRepo_Image = bRepo_Image src,
      aRepo_Version = bRepo_Version src,
      aRepo_ExecTimeout = bRepo_ExecTimeout src,
      aRepo_Env = bRepo_Env src,
      aRepo_Volumes = bRepo_Volumes src,
      aRepo_VolumeMounts = bRepo_VolumeMounts src,
      aRepo_InitContainers = bRepo_InitContainers src,
      aRepo_SidecarContainers = bRepo_SidecarContainers src,
      aRepo_Metrics = ConvertBetaToAlphaMetrics (bRepo_Metrics src)\<rparr>)"

definition ConvertAlphaToBetaPrincipalServer :: "PrincipalServerSpec option \<Rightarrow> PrincipalServerSpec option" where
  "ConvertAlphaToBetaPrincipalServer = map_option (\<lambda>src. \<lparr>PrincipalServer_EnableWebSocket = PrincipalServer_EnableWebSocket src,
      PrincipalServer_KeepAliveMinInterval = PrincipalServer_KeepAliveMinInterval src,
      PrincipalServer_Service = PrincipalServer_Service src,
      PrincipalServer_Route = PrincipalServer_Route src\<rparr>)"

definition ConvertAlphaToBetaPrincipalNamespace :: "PrincipalNamespaceSpec option \<Rightarrow> PrincipalNamespaceSpec option" where
  "ConvertAlphaToBetaPrincipalNamespace = map_option (\<lambda>src. \<lparr>PrincipalNamespace_AllowedNamespaces = PrincipalNamespace_AllowedNamespaces src,
      PrincipalNamespace_EnableNamespaceCreate = PrincipalNamespace_EnableNamespaceCreate src,
      PrincipalNamespace_NamespaceCreatePattern = PrincipalNamespace_NamespaceCreatePattern src,
      PrincipalNamespace_NamespaceCreateLabels = PrincipalNamespace_NamespaceCreateLabels src\<rparr>)"

definition ConvertAlphaToBetaPrincipalResourceProxy :: "PrincipalResourceProxySpec option \<Rightarrow> PrincipalResourceProxySpec option" where
  "ConvertAlphaToBetaPrincipalResourceProxy = map_option (\<lambda>src. \<lparr>PrincipalResourceProxy_SecretName = PrincipalResourceProxy_SecretName src,
      PrincipalResourceProxy_CASecretName = PrincipalResourceProxy_CASecretName src\<rparr>)"

definition ConvertAlphaToBetaPrincipalRedis :: "PrincipalRedisSpec option \<Rightarrow> PrincipalRedisSpec option" where
  "ConvertAlphaToBetaPrincipalRedis = map_option (\<lambda>src. \<lparr>PrincipalRedis_ServerAddress = PrincipalRedis_ServerAddress src,
      PrincipalRedis_CompressionType = PrincipalRedis_CompressionType src\<rparr>)"

definition ConvertAlphaToBetaPrincipalTLS :: "PrincipalTLSSpec option \<Rightarrow> PrincipalTLSSpec option" where
  "ConvertAlphaToBetaPrincipalTLS = map_option (\<lambda>src. \<lparr>PrincipalTLS_SecretName = PrincipalTLS_SecretName src,
      PrincipalTLS_RootCASecretName = PrincipalTLS_RootCASecretName src,
      PrincipalTLS_InsecureGenerate = PrincipalTLS_InsecureGenerate src\<rparr>)"

definition ConvertAlphaToBetaPrincipalJWT :: "PrincipalJWTSpec option \<Rightarrow> PrincipalJWTSpec option" where
  "ConvertAlphaToBetaPrincipalJWT = map_option (\<lambda>src. \<lparr>PrincipalJWT_InsecureGenerate = PrincipalJWT_InsecureGenerate src,
      PrincipalJWT_SecretName = PrincipalJWT_SecretName src\<rparr>)"

definition ConvertAlphaToBetaPrincipalSelfRegistration :: "PrincipalSelfRegistrationSpec option \<Rightarrow> PrincipalSelfRegistrationSpec option" where
  "ConvertAlphaToBetaPrincipalSelfRegistration = map_option (\<lambda>src. \<lparr>PrincipalSelfRegistration_Enabled = PrincipalSelfRegistration_Enabled src,
      PrincipalSelfRegistration_ClientCertSecretName = PrincipalSelfRegistration_ClientCertSecretName src\<rparr>)"

definition ConvertAlphaToBetaPrincipal :: "PrincipalSpec_alpha option \<Rightarrow> PrincipalSpec_beta option" where
  "ConvertAlphaToBetaPrincipal = map_option (\<lambda>src. \<lparr>bPrincipal_Enabled = aPrincipal_Enabled src,
      bPrincipal_Auth = aPrincipal_Auth src,
      bPrincipal_LogLevel = aPrincipal_LogLevel src,
      bPrincipal_LogFormat = aPrincipal_LogFormat src,
      bPrincipal_Image = aPrincipal_Image src,
      bPrincipal_Env = aPrincipal_Env src,
      bPrincipal_Server = ConvertAlphaToBetaPrincipalServer (aPrincipal_Server src),
      bPrincipal_Namespace = ConvertAlphaToBetaPrincipalNamespace (aPrincipal_Namespace src),
      bPrincipal_Resources = None,
      bPrincipal_ResourceProxy = ConvertAlphaToBetaPrincipalResourceProxy (aPrincipal_ResourceProxy src),
      bPrincipal_Redis = ConvertAlphaToBetaPrincipalRedis (aPrincipal_Redis src),
      bPrincipal_TLS = ConvertAlphaToBetaPrincipalTLS (aPrincipal_TLS src),
      bPrincipal_JWT = ConvertAlphaToBetaPrincipalJWT (aPrincipal_JWT src),
      bPrincipal_DestinationBasedMapping = None,
      bPrincipal_LabelSelector = aPrincipal_LabelSelector src,
      bPrincipal_Metrics = ConvertAlphaToBetaMetrics (aPrincipal_Metrics src),
      bPrincipal_SelfRegistration = ConvertAlphaToBetaPrincipalSelfRegistration (aPrincipal_SelfRegistration src)\<rparr>)"

definition ConvertAlphaToBetaAgentClient :: "AgentClientSpec option \<Rightarrow> AgentClientSpec option" where
  "ConvertAlphaToBetaAgentClient = map_option (\<lambda>src. \<lparr>AgentClient_PrincipalServerAddress = AgentClient_PrincipalServerAddress src,
      AgentClient_PrincipalServerPort = AgentClient_PrincipalServerPort src,
      AgentClient_Mode = AgentClient_Mode src,
      AgentClient_EnableWebSocket = AgentClient_EnableWebSocket src,
      AgentClient_EnableCompression = AgentClient_EnableCompression src,
      AgentClient_KeepAliveInterval = AgentClient_KeepAliveInterval src\<rparr>)"

definition ConvertAlphaToBetaAgentRedis :: "AgentRedisSpec option \<Rightarrow> AgentRedisSpec option" where
  "ConvertAlphaToBetaAgentRedis = map_option (\<lambda>src. \<lparr>AgentRedis_ServerAddress = AgentRedis_ServerAddress src\<rparr>)"

definition ConvertAlphaToBetaAgentTLS :: "AgentTLSSpec option \<Rightarrow> AgentTLSSpec option" where
  "ConvertAlphaToBetaAgentTLS = map_option (\<lambda>src. \<lparr>AgentTLS_SecretName = AgentTLS_SecretName src,
      AgentTLS_RootCASecretName = AgentTLS_RootCASecretName src,
      AgentTLS_Insecure = AgentTLS_Insecure src\<rparr>)"

definition ConvertAlphaToBetaAgent :: "AgentSpec_alpha option \<Rightarrow> AgentSpec_beta option" where
  "ConvertAlphaToBetaAgent = map_option (\<lambda>src. \<lparr>bAgent_Enabled = aAgent_Enabled src,
      bAgent_AllowedNamespaces = None,
      bAgent_Creds = aAgent_Creds src,
      bAgent_LogLevel = aAgent_LogLevel src,
      bAgent_LogFormat = aAgent_LogFormat src,
      bAgent_Image = aAgent_Image src,
      bAgent_Env = aAgent_Env src,
      bAgent_Client = ConvertAlphaToBetaAgentClient (aAgent_Client src),
      bAgent_Redis = ConvertAlphaToBetaAgentRedis (aAgent_Redis src),
      bAgent_Resources = None,
      bAgent_TLS = ConvertAlphaToBetaAgentTLS (aAgent_TLS src),
      bAgent_DestinationBasedMapping = None,
      bAgent_LabelSelector = aAgent_LabelSelector src,
      bAgent_Metrics = ConvertAlphaToBetaMetrics (aAgent_Metrics src)\<rparr>)"

definition ConvertAlphaToBetaArgoCDAgent :: "ArgoCDAgentSpec_alpha option \<Rightarrow> ArgoCDAgentSpec_beta option" where
  "ConvertAlphaToBetaArgoCDAgent = map_option (\<lambda>src. \<lparr>bAgentRoot_Principal = ConvertAlphaToBetaPrincipal (aAgentRoot_Principal src),
      bAgentRoot_Agent = ConvertAlphaToBetaAgent (aAgentRoot_Agent src)\<rparr>)"

definition ConvertBetaToAlphaNamespaceManagement :: "ManagedNamespaces slice \<Rightarrow> ManagedNamespaces slice" where
  "ConvertBetaToAlphaNamespaceManagement = convSlice (\<lambda>src. \<lparr>ManagedNamespaces_Name = ManagedNamespaces_Name src,
      ManagedNamespaces_AllowManagedBy = ManagedNamespaces_AllowManagedBy src\<rparr>)"

definition ConvertBetaToAlphaPrincipalServer :: "PrincipalServerSpec option \<Rightarrow> PrincipalServerSpec option" where
  "ConvertBetaToAlphaPrincipalServer = map_option (\<lambda>src. \<lparr>PrincipalServer_EnableWebSocket = PrincipalServer_EnableWebSocket src,
      PrincipalServer_KeepAliveMinInterval = PrincipalServer_KeepAliveMinInterval src,
      PrincipalServer_Service = PrincipalServer_Service src,
      PrincipalServer_Route = PrincipalServer_Route src\<rparr>)"

definition ConvertBetaToAlphaPrincipalNamespace :: "PrincipalNamespaceSpec option \<Rightarrow> PrincipalNamespaceSpec option" where
  "ConvertBetaToAlphaPrincipalNamespace = map_option (\<lambda>src. \<lparr>PrincipalNamespace_AllowedNamespaces = PrincipalNamespace_AllowedNamespaces src,
      PrincipalNamespace_EnableNamespaceCreate = PrincipalNamespace_EnableNamespaceCreate src,
      PrincipalNamespace_NamespaceCreatePattern = PrincipalNamespace_NamespaceCreatePattern src,
      PrincipalNamespace_NamespaceCreateLabels = PrincipalNamespace_NamespaceCreateLabels src\<rparr>)"

definition ConvertBetaToAlphaPrincipalResourceProxy :: "PrincipalResourceProxySpec option \<Rightarrow> PrincipalResourceProxySpec option" where
  "ConvertBetaToAlphaPrincipalResourceProxy = map_option (\<lambda>src. \<lparr>PrincipalResourceProxy_SecretName = PrincipalResourceProxy_SecretName src,
      PrincipalResourceProxy_CASecretName = PrincipalResourceProxy_CASecretName src\<rparr>)"

definition ConvertBetaToAlphaPrincipalRedis :: "PrincipalRedisSpec option \<Rightarrow> PrincipalRedisSpec option" where
  "ConvertBetaToAlphaPrincipalRedis = map_option (\<lambda>src. \<lparr>PrincipalRedis_ServerAddress = PrincipalRedis_ServerAddress src,
      PrincipalRedis_CompressionType = PrincipalRedis_CompressionType src\<rparr>)"

definition ConvertBetaToAlphaPrincipalTLS :: "PrincipalTLSSpec option \<Rightarrow> PrincipalTLSSpec option" where
  "ConvertBetaToAlphaPrincipalTLS = map_option (\<lambda>src. \<lparr>PrincipalTLS_SecretName = PrincipalTLS_SecretName src,
      PrincipalTLS_RootCASecretName = PrincipalTLS_RootCASecretName src,
      PrincipalTLS_InsecureGenerate = PrincipalTLS_InsecureGenerate src\<rparr>)"

definition ConvertBetaToAlphaPrincipalJWT :: "PrincipalJWTSpec option \<Rightarrow> PrincipalJWTSpec option" where
  "ConvertBetaToAlphaPrincipalJWT = map_option (\<lambda>src. \<lparr>PrincipalJWT_InsecureGenerate = PrincipalJWT_InsecureGenerate src,
      PrincipalJWT_SecretName = PrincipalJWT_SecretName src\<rparr>)"

definition ConvertBetaToAlphaPrincipalSelfRegistration :: "PrincipalSelfRegistrationSpec option \<Rightarrow> PrincipalSelfRegistrationSpec option" where
  "ConvertBetaToAlphaPrincipalSelfRegistration = map_option (\<lambda>src. \<lparr>PrincipalSelfRegistration_Enabled = PrincipalSelfRegistration_Enabled src,
      PrincipalSelfRegistration_ClientCertSecretName = PrincipalSelfRegistration_ClientCertSecretName src\<rparr>)"

definition ConvertBetaToAlphaPrincipal :: "PrincipalSpec_beta option \<Rightarrow> PrincipalSpec_alpha option" where
  "ConvertBetaToAlphaPrincipal = map_option (\<lambda>src. \<lparr>aPrincipal_Enabled = bPrincipal_Enabled src,
      aPrincipal_Auth = bPrincipal_Auth src,
      aPrincipal_LogLevel = bPrincipal_LogLevel src,
      aPrincipal_LogFormat = bPrincipal_LogFormat src,
      aPrincipal_Image = bPrincipal_Image src,
      aPrincipal_LabelSelector = bPrincipal_LabelSelector src,
      aPrincipal_Env = bPrincipal_Env src,
      aPrincipal_Server = ConvertBetaToAlphaPrincipalServer (bPrincipal_Server src),
      aPrincipal_Namespace = ConvertBetaToAlphaPrincipalNamespace (bPrincipal_Namespace src),
      aPrincipal_ResourceProxy = ConvertBetaToAlphaPrincipalResourceProxy (bPrincipal_ResourceProxy src),
      aPrincipal_Redis = ConvertBetaToAlphaPrincipalRedis (bPrincipal_Redis src),
      aPrincipal_TLS = ConvertBetaToAlphaPrincipalTLS (bPrincipal_TLS src),
      aPrincipal_JWT = ConvertBetaToAlphaPrincipalJWT (bPrincipal_JWT src),
      aPrincipal_Metrics = ConvertBetaToAlphaMetrics (bPrincipal_Metrics src),
      aPrincipal_SelfRegistration = ConvertBetaToAlphaPrincipalSelfRegistration (bPrincipal_SelfRegistration src)\<rparr>)"

definition ConvertBetaToAlphaAgentClient :: "AgentClientSpec option \<Rightarrow> AgentClientSpec option" where
  "ConvertBetaToAlphaAgentClient = map_option (\<lambda>src. \<lparr>AgentClient_PrincipalServerAddress = AgentClient_PrincipalServerAddress src,
      AgentClient_PrincipalServerPort = AgentClient_PrincipalServerPort src,
      AgentClient_Mode = AgentClient_Mode src,
      AgentClient_EnableWebSocket = AgentClient_EnableWebSocket src,
      AgentClient_EnableCompression = AgentClient_EnableCompression src,
      AgentClient_KeepAliveInterval = AgentClient_KeepAliveInterval src\<rparr>)"

definition ConvertBetaToAlphaAgentTLS :: "AgentTLSSpec option \<Rightarrow> AgentTLSSpec option" where
  "ConvertBetaToAlphaAgentTLS = map_option (\<lambda>src. \<lparr>AgentTLS_SecretName = AgentTLS_SecretName src,
      AgentTLS_RootCASecretName = AgentTLS_RootCASecretName src,
      AgentTLS_Insecure = AgentTLS_Insecure src\<rparr>)"

definition ConvertBetaToAlphaAgentRedis :: "AgentRedisSpec option \<Rightarrow> AgentRedisSpec option" where
  "ConvertBetaToAlphaAgentRedis = map_option (\<lambda>src. \<lparr>AgentRedis_ServerAddress = AgentRedis_ServerAddress src\<rparr>)"

definition ConvertBetaToAlphaAgent :: "AgentSpec_beta option \<Rightarrow> AgentSpec_alpha option" where
  "ConvertBetaToAlphaAgent = map_option (\<lambda>src. \<lparr>aAgent_Enabled = bAgent_Enabled src,
      aAgent_Creds = bAgent_Creds src,
      aAgent_LogLevel = bAgent_LogLevel src,
      aAgent_LogFormat = bAgent_LogFormat src,
      aAgent_Image = bAgent_Image src,
      aAgent_LabelSelector = bAgent_LabelSelector src,
      aAgent_Env = bAgent_Env src,
      aAgent_Client = ConvertBetaToAlphaAgentClient (bAgent_Client src),
      aAgent_TLS = ConvertBetaToAlphaAgentTLS (bAgent_TLS src),
      aAgent_Redis = ConvertBetaToAlphaAgentRedis (bAgent_Redis src),
      aAgent_Metrics = ConvertBetaToAlphaMetrics (bAgent_Metrics src)\<rparr>)"

definition ConvertBetaToAlphaArgoCDAgent :: "ArgoCDAgentSpec_beta option \<Rightarrow> ArgoCDAgentSpec_alpha option" where
  "ConvertBetaToAlphaArgoCDAgent = map_option (\<lambda>src. \<lparr>aAgentRoot_Principal = ConvertBetaToAlphaPrincipal (bAgentRoot_Principal src),
      aAgentRoot_Agent = ConvertBetaToAlphaAgent (bAgentRoot_Agent src)\<rparr>)"

definition copyAlphaToBetaWebhookRef :: "WebhookSecretKeySelector option \<Rightarrow> WebhookSecretKeySelector option" where
  "copyAlphaToBetaWebhookRef = map_option (\<lambda>src. \<lparr>WebhookSecretKeySelector_Name = WebhookSecretKeySelector_Name src, WebhookSecretKeySelector_Key = WebhookSecretKeySelector_Key src\<rparr>)"

definition ConvertAlphaToBetaWebhookSecrets :: "ArgoCDWebhookSecretsSpec option \<Rightarrow> ArgoCDWebhookSecretsSpec option" where
  "ConvertAlphaToBetaWebhookSecrets = map_option (\<lambda>src. \<lparr>Hooks_GitHub = map_option (\<lambda>h. \<lparr>HooksGitHub_WebhookSecretRef = copyAlphaToBetaWebhookRef (HooksGitHub_WebhookSecretRef h)\<rparr>) (Hooks_GitHub src),
      Hooks_GitLab = map_option (\<lambda>h. \<lparr>HooksGitLab_WebhookSecretRef = copyAlphaToBetaWebhookRef (HooksGitLab_WebhookSecretRef h)\<rparr>) (Hooks_GitLab src),
      Hooks_Bitbucket = map_option (\<lambda>h. \<lparr>HooksBitbucket_WebhookUUIDSecretRef = copyAlphaToBetaWebhookRef (HooksBitbucket_WebhookUUIDSecretRef h)\<rparr>) (Hooks_Bitbucket src),
      Hooks_BitbucketServer = map_option (\<lambda>h. \<lparr>HooksBitbucketServer_WebhookSecretRef = copyAlphaToBetaWebhookRef (HooksBitbucketServer_WebhookSecretRef h)\<rparr>) (Hooks_BitbucketServer src),
      Hooks_Gogs = map_option (\<lambda>h. \<lparr>HooksGogs_WebhookSecretRef = copyAlphaToBetaWebhookRef (HooksGogs_WebhookSecretRef h)\<rparr>) (Hooks_Gogs src),
      Hooks_AzureDevOps = map_option (\<lambda>h. \<lparr>HooksAzureDevOps_UsernameSecretRef = copyAlphaToBetaWebhookRef (HooksAzureDevOps_UsernameSecretRef h), HooksAzureDevOps_PasswordSecretRef = copyAlphaToBetaWebhookRef (HooksAzureDevOps_PasswordSecretRef h)\<rparr>) (Hooks_AzureDevOps src)\<rparr>)"

definition copyBetaToAlphaWebhookRef :: "WebhookSecretKeySelector option \<Rightarrow> WebhookSecretKeySelector option" where
  "copyBetaToAlphaWebhookRef = map_option (\<lambda>src. \<lparr>WebhookSecretKeySelector_Name = WebhookSecretKeySelector_Name src, WebhookSecretKeySelector_Key = WebhookSecretKeySelector_Key src\<rparr>)"

definition ConvertBetaToAlphaWebhookSecrets :: "ArgoCDWebhookSecretsSpec option \<Rightarrow> ArgoCDWebhookSecretsSpec option" where
  "ConvertBetaToAlphaWebhookSecrets = map_option (\<lambda>src. \<lparr>Hooks_GitHub = map_option (\<lambda>h. \<lparr>HooksGitHub_WebhookSecretRef = copyBetaToAlphaWebhookRef (HooksGitHub_WebhookSecretRef h)\<rparr>) (Hooks_GitHub src),
      Hooks_GitLab = map_option (\<lambda>h. \<lparr>HooksGitLab_WebhookSecretRef = copyBetaToAlphaWebhookRef (HooksGitLab_WebhookSecretRef h)\<rparr>) (Hooks_GitLab src),
      Hooks_Bitbucket = map_option (\<lambda>h. \<lparr>HooksBitbucket_WebhookUUIDSecretRef = copyBetaToAlphaWebhookRef (HooksBitbucket_WebhookUUIDSecretRef h)\<rparr>) (Hooks_Bitbucket src),
      Hooks_BitbucketServer = map_option (\<lambda>h. \<lparr>HooksBitbucketServer_WebhookSecretRef = copyBetaToAlphaWebhookRef (HooksBitbucketServer_WebhookSecretRef h)\<rparr>) (Hooks_BitbucketServer src),
      Hooks_Gogs = map_option (\<lambda>h. \<lparr>HooksGogs_WebhookSecretRef = copyBetaToAlphaWebhookRef (HooksGogs_WebhookSecretRef h)\<rparr>) (Hooks_Gogs src),
      Hooks_AzureDevOps = map_option (\<lambda>h. \<lparr>HooksAzureDevOps_UsernameSecretRef = copyBetaToAlphaWebhookRef (HooksAzureDevOps_UsernameSecretRef h), HooksAzureDevOps_PasswordSecretRef = copyBetaToAlphaWebhookRef (HooksAzureDevOps_PasswordSecretRef h)\<rparr>) (Hooks_AzureDevOps src)\<rparr>)"

definition ConvertAlphaToBetaNamespaceManagement :: "ManagedNamespaces slice \<Rightarrow> ManagedNamespaces slice" where
  "ConvertAlphaToBetaNamespaceManagement = convSlice (\<lambda>src. \<lparr>ManagedNamespaces_Name = ManagedNamespaces_Name src,
      ManagedNamespaces_AllowManagedBy = ManagedNamespaces_AllowManagedBy src\<rparr>)"

text \<open>The deprecated fields of v1alpha1: Keycloak settings directly under \<open>sso\<close>, and \<open>dex\<close> outside it.\<close>

definition deprecatedKeycloak :: "ArgoCDSSOSpec_alpha option \<Rightarrow> ArgoCDSSOSpec_beta option \<Rightarrow> ArgoCDSSOSpec_beta option" where
  "deprecatedKeycloak p sso = (case p of None \<Rightarrow> sso
     | Some a \<Rightarrow>
         if a \<noteq> zero_ArgoCDSSOSpec_alpha \<and>
            (aSSO_Image a \<noteq> '''' \<or> aSSO_Version a \<noteq> '''' \<or> aSSO_VerifyTLS a \<noteq> None \<or> aSSO_Resources a \<noteq> None)
         then map_option (\<lambda>d. d\<lparr>bSSO_Keycloak := Some
                ((case bSSO_Keycloak d of None \<Rightarrow> zero_ArgoCDKeycloakSpec | Some k \<Rightarrow> k)\<lparr>
                   Keycloak_Image := aSSO_Image a, Keycloak_Version := aSSO_Version a,
                   Keycloak_VerifyTLS := aSSO_VerifyTLS a, Keycloak_Resources := aSSO_Resources a\<rparr>)\<rparr>) sso
         else sso)"

definition deprecatedDex :: "ArgoCDDexSpec_alpha option \<Rightarrow> ArgoCDSSOSpec_beta option \<Rightarrow> ArgoCDSSOSpec_beta option" where
  "deprecatedDex p sso = (case p of None \<Rightarrow> sso
     | Some dx \<Rightarrow>
         if dx \<noteq> zero_ArgoCDDexSpec_alpha \<and> (aDex_Config dx \<noteq> '''' \<or> aDex_OpenShiftOAuth dx)
         then Some ((case sso of None \<Rightarrow> zero_ArgoCDSSOSpec_beta | Some d \<Rightarrow> d)\<lparr>
                bSSO_Provider := ''dex'', bSSO_Dex := ConvertAlphaToBetaDex (Some dx)\<rparr>)
         else sso)"

text \<open>\<open>.spec.sso.keycloak\<close> is the one pointer the conversion writes through after having copied it from
  the receiver: the v1alpha1 object sees the write.\<close>

definition sharedKeycloak :: "ArgoCDSSOSpec_beta option \<Rightarrow> ArgoCDSSOSpec_alpha \<Rightarrow> ArgoCDSSOSpec_alpha" where
  "sharedKeycloak sso a = (case aSSO_Keycloak a of None \<Rightarrow> a
     | Some _ \<Rightarrow> a\<lparr>aSSO_Keycloak := Option.bind sso bSSO_Keycloak\<rparr>)"

text \<open>\<open>ConvertTo\<close> fills the object it is given and returns nil; the pair is the receiver and the
  destination after the call. \<open>old\<close> is what the destination held: fields that are not assigned keep it.\<close>

definition ConvertTo :: "ArgoCD_alpha \<Rightarrow> ArgoCD_beta \<Rightarrow> ArgoCD_alpha \<times> ArgoCD_beta" where
  "ConvertTo obj dst = (let src = aArgoCD_Spec obj; old = bArgoCD_Spec dst;
     sso1 = deprecatedKeycloak (aSpec_SSO src) (ConvertAlphaToBetaSSO (aSpec_SSO src));
     sso = deprecatedDex (aSpec_Dex src) sso1
   in (obj\<lparr>aArgoCD_Spec := src\<lparr>aSpec_SSO := map_option (sharedKeycloak sso1) (aSpec_SSO src)\<rparr>\<rparr>,
    \<lparr>bArgoCD_Meta = aArgoCD_Meta obj,
     bArgoCD_Spec = \<lparr>bSpec_ApplicationSet = ConvertAlphaToBetaApplicationSet (aSpec_ApplicationSet src),
       bSpec_ApplicationInstanceLabelKey = aSpec_ApplicationInstanceLabelKey src,
       bSpec_InstallationID = bSpec_InstallationID old,
       bSpec_ConfigManagementPlugins = aSpec_ConfigManagementPlugins src,
       bSpec_Controller = the (ConvertAlphaToBetaController (Some (aSpec_Controller src))),
       bSpec_CommitServer = aSpec_CommitServer src,
       bSpec_DisableAdmin = aSpec_DisableAdmin src,
       bSpec_ExtraConfig = aSpec_ExtraConfig src,
       bSpec_GATrackingID = aSpec_GATrackingID src,
       bSpec_GAAnonymizeUsers = aSpec_GAAnonymizeUsers src,
       bSpec_Grafana = the (ConvertAlphaToBetaGrafana (Some (aSpec_Grafana src))),
       bSpec_HA = the (ConvertAlphaToBetaHA (Some (aSpec_HA src))),
       bSpec_HelpChatURL = aSpec_HelpChatURL src,
       bSpec_HelpChatText = aSpec_HelpChatText src,
       bSpec_Image = aSpec_Image src,
       bSpec_ImageUpdater = bSpec_ImageUpdater old,
       bSpec_ImagePullPolicy = bSpec_ImagePullPolicy old,
       bSpec_Import = aSpec_Import src,
       bSpec_InitialRepositories = aSpec_InitialRepositories src,
       bSpec_InitialSSHKnownHosts = aSpec_InitialSSHKnownHosts src,
       bSpec_KustomizeBuildOptions = aSpec_KustomizeBuildOptions src,
       bSpec_KustomizeVersions = ConvertAlphaToBetaKustomizeVersions (aSpec_KustomizeVersions src),
       bSpec_LocalUsers = bSpec_LocalUsers old,
       bSpec_OIDCConfig = aSpec_OIDCConfig src,
       bSpec_Monitoring = aSpec_Monitoring src,
       bSpec_NetworkPolicy = aSpec_NetworkPolicy src,
       bSpec_NodePlacement = aSpec_NodePlacement src,
       bSpec_PriorityClassName = aSpec_PriorityClassName src,
       bSpec_Notifications = the (ConvertAlphaToBetaNotifications (Some (aSpec_Notifications src))),
       bSpec_Prometheus = the (ConvertAlphaToBetaPrometheus (Some (aSpec_Prometheus src))),
       bSpec_RBAC = aSpec_RBAC src,
       bSpec_Redis = the (ConvertAlphaToBetaRedis (Some (aSpec_Redis src))),
       bSpec_Repo = the (ConvertAlphaToBetaRepo (Some (aSpec_Repo src))),
       bSpec_RepositoryCredentials = aSpec_RepositoryCredentials src,
       bSpec_ResourceHealthChecks = ConvertAlphaToBetaResourceHealthChecks (aSpec_ResourceHealthChecks src),
       bSpec_ResourceIgnoreDifferences = ConvertAlphaToBetaResourceIgnoreDifferences (aSpec_ResourceIgnoreDifferences src),
       bSpec_ResourceActions = ConvertAlphaToBetaResourceActions (aSpec_ResourceActions src),
       bSpec_ResourceExclusions = aSpec_ResourceExclusions src,
       bSpec_ResourceInclusions = aSpec_ResourceInclusions src,
       bSpec_ResourceTrackingMethod = aSpec_ResourceTrackingMethod src,
       bSpec_Server = the (ConvertAlphaToBetaServer (Some (aSpec_Server src))),
       bSpec_SourceHydrator = aSpec_SourceHydrator src,
       bSpec_SourceNamespaces = aSpec_SourceNamespaces src,
       bSpec_SSO = sso,
       bSpec_StatusBadgeEnabled = aSpec_StatusBadgeEnabled src,
       bSpec_TLS = the (ConvertAlphaToBetaTLS (Some (aSpec_TLS src))),
       bSpec_UsersAnonymousEnabled = aSpec_UsersAnonymousEnabled src,
       bSpec_Version = aSpec_Version src,
       bSpec_ClusterDomain = bSpec_ClusterDomain old,
       bSpec_Banner = aSpec_Banner src,
       bSpec_DefaultClusterScopedRoleDisabled = aSpec_DefaultClusterScopedRoleDisabled src,
       bSpec_AggregatedClusterRoles = aSpec_AggregatedClusterRoles src,
       bSpec_CmdParams = bSpec_CmdParams old,
       bSpec_ArgoCDAgent = ConvertAlphaToBetaArgoCDAgent (aSpec_ArgoCDAgent src),
       bSpec_NamespaceManagement = ConvertAlphaToBetaNamespaceManagement (aSpec_NamespaceManagement src),
       bSpec_WebhookSecrets = ConvertAlphaToBetaWebhookSecrets (aSpec_WebhookSecrets src),
       bSpec_WebTerminalEnabled = bSpec_WebTerminalEnabled old,
       bSpec_Promoter = bSpec_Promoter old\<rparr>,
     bArgoCD_Status = aArgoCD_Status obj\<rparr>))"

definition ConvertFrom :: "ArgoCD_beta \<Rightarrow> ArgoCD_alpha \<Rightarrow> ArgoCD_alpha" where
  "ConvertFrom obj dst = (let src = bArgoCD_Spec obj; old = aArgoCD_Spec dst; sso = ConvertBetaToAlphaSSO (bSpec_SSO src)
   in \<lparr>aArgoCD_Meta = bArgoCD_Meta obj,
     aArgoCD_Spec = \<lparr>aSpec_ApplicationSet = ConvertBetaToAlphaApplicationSet (bSpec_ApplicationSet src),
       aSpec_ApplicationInstanceLabelKey = bSpec_ApplicationInstanceLabelKey src,
       aSpec_InstallationID = aSpec_InstallationID old,
       aSpec_ConfigManagementPlugins = bSpec_ConfigManagementPlugins src,
       aSpec_Controller = the (ConvertBetaToAlphaController (Some (bSpec_Controller src))),
       aSpec_CommitServer = bSpec_CommitServer src,
       aSpec_DisableAdmin = bSpec_DisableAdmin src,
       aSpec_ExtraConfig = bSpec_ExtraConfig src,
       aSpec_GATrackingID = bSpec_GATrackingID src,
       aSpec_GAAnonymizeUsers = bSpec_GAAnonymizeUsers src,
       aSpec_Grafana = the (ConvertBetaToAlphaGrafana (Some (bSpec_Grafana src))),
       aSpec_HA = the (ConvertBetaToAlphaHA (Some (bSpec_HA src))),
       aSpec_HelpChatURL = bSpec_HelpChatURL src,
       aSpec_HelpChatText = bSpec_HelpChatText src,
       aSpec_Image = bSpec_Image src,
       aSpec_ImagePullPolicy = aSpec_ImagePullPolicy old,
       aSpec_Import = bSpec_Import src,
       aSpec_InitialRepositories = bSpec_InitialRepositories src,
       aSpec_InitialSSHKnownHosts = bSpec_InitialSSHKnownHosts src,
       aSpec_KustomizeBuildOptions = bSpec_KustomizeBuildOptions src,
       aSpec_KustomizeVersions = ConvertBetaToAlphaKustomizeVersions (bSpec_KustomizeVersions src),
       aSpec_OIDCConfig = bSpec_OIDCConfig src,
       aSpec_Monitoring = bSpec_Monitoring src,
       aSpec_NetworkPolicy = aSpec_NetworkPolicy old,
       aSpec_NodePlacement = bSpec_NodePlacement src,
       aSpec_PriorityClassName = bSpec_PriorityClassName src,
       aSpec_Notifications = the (ConvertBetaToAlphaNotifications (Some (bSpec_Notifications src))),
       aSpec_Prometheus = the (ConvertBetaToAlphaPrometheus (Some (bSpec_Prometheus src))),
       aSpec_RBAC = bSpec_RBAC src,
       aSpec_Redis = the (ConvertBetaToAlphaRedis (Some (bSpec_Redis src))),
       aSpec_Repo = the (ConvertBetaToAlphaRepo (Some (bSpec_Repo src))),
       aSpec_RepositoryCredentials = bSpec_RepositoryCredentials src,
       aSpec_ResourceCustomizations = aSpec_ResourceCustomizations old,
       aSpec_ResourceHealthChecks = ConvertBetaToAlphaResourceHealthChecks (bSpec_ResourceHealthChecks src),
       aSpec_ResourceIgnoreDifferences = ConvertBetaToAlphaResourceIgnoreDifferences (bSpec_ResourceIgnoreDifferences src),
       aSpec_ResourceActions = ConvertBetaToAlphaResourceActions (bSpec_ResourceActions src),
       aSpec_ResourceExclusions = bSpec_ResourceExclusions src,
       aSpec_ResourceInclusions = bSpec_ResourceInclusions src,
       aSpec_ResourceTrackingMethod = bSpec_ResourceTrackingMethod src,
       aSpec_Server = the (ConvertBetaToAlphaServer (Some (bSpec_Server src))),
       aSpec_SourceHydrator = bSpec_SourceHydrator src,
       aSpec_SourceNamespaces = bSpec_SourceNamespaces src,
       aSpec_SSO = sso,
       aSpec_StatusBadgeEnabled = bSpec_StatusBadgeEnabled src,
       aSpec_TLS = the (ConvertBetaToAlphaTLS (Some (bSpec_TLS src))),
       aSpec_UsersAnonymousEnabled = bSpec_UsersAnonymousEnabled src,
       aSpec_Version = bSpec_Version src,
       aSpec_Banner = bSpec_Banner src,
       aSpec_Dex = aSpec_Dex old,
       aSpec_DefaultClusterScopedRoleDisabled = bSpec_DefaultClusterScopedRoleDisabled src,
       aSpec_AggregatedClusterRoles = bSpec_AggregatedClusterRoles src,
       aSpec_ArgoCDAgent = ConvertBetaToAlphaArgoCDAgent (bSpec_ArgoCDAgent src),
       aSpec_NamespaceManagement = ConvertBetaToAlphaNamespaceManagement (bSpec_NamespaceManagement src),
       aSpec_WebhookSecrets = ConvertBetaToAlphaWebhookSecrets (bSpec_WebhookSecrets src)\<rparr>,
     aArgoCD_Status = bArgoCD_Status obj\<rparr>)"

end
