(* ===== verification/Conversion_Correct.thy ===== *)
theory Conversion_Correct
  imports Argo_Conversion
begin

text \<open>
  What the conversion webhook keeps of an ArgoCD resource (\<open>argocd_conversion.go\<close>). The interface
  \<open>version_pair\<close> is the contract of a pair of conversion functions: going down to v1alpha1 and up again
  keeps exactly a projection of the v1beta1 value. It is interpreted on the conversion of every struct
  whose versions differ and on the whole resource, with the projections written out field by field.
\<close>

section \<open>The contract of a pair of conversions\<close>

named_theorems conv

locale version_pair =
  fixes up :: "'a \<Rightarrow> 'b" and down :: "'b \<Rightarrow> 'a" and keep :: "'b \<Rightarrow> 'b"
  assumes up_down: "up (down b) = keep b"
    and down_keep: "down (keep b) = down b"
begin

lemma keep_idem: "keep (keep b) = keep b"
  by (metis up_down down_keep)

lemma down_up_down: "down (up (down b)) = down b"
  by (simp add: up_down down_keep)

lemma same_view: "down b = down c \<longleftrightarrow> keep b = keep c"
  by (metis up_down down_keep)

lemma lossless: "up (down b) = b \<longleftrightarrow> keep b = b"
  by (simp add: up_down)

end

text \<open>The functions of the source take and return pointers; \<open>*F(&x)\<close> uses one on a value.\<close>

locale pointer_pair =
  fixes up :: "'a option \<Rightarrow> 'b option" and down :: "'b option \<Rightarrow> 'a option" and keep :: "'b \<Rightarrow> 'b"
  assumes pointer_up_down: "up (down p) = map_option keep p"
    and pointer_down_keep: "down (map_option keep p) = down p"
    and down_Some: "down (Some b) \<noteq> None"
begin

lemma by_value_up_down: "the (up (Some (the (down (Some b))))) = keep b"
  using down_Some [of b] pointer_up_down [of "Some b"] by auto

lemma by_value_down_keep: "the (down (Some (keep b))) = the (down (Some b))"
  using pointer_down_keep [of "Some b"] by simp

lemmas by_value = by_value_up_down by_value_down_keep pointer_up_down pointer_down_keep

end

sublocale pointer_pair \<subseteq> version_pair up down "map_option keep"
  by unfold_locales (simp_all add: pointer_up_down pointer_down_keep)

section \<open>Structs that are the same in both versions\<close>

text \<open>The loops append to a nil slice, so an empty slice comes out as nil.\<close>

definition stdSlice :: "'a slice \<Rightarrow> 'a slice" where
  "stdSlice s = (if elems s = [] then None else s)"

definition stdDifferences :: "ResourceIgnoreDifference \<Rightarrow> ResourceIgnoreDifference" where
  "stdDifferences r = r\<lparr>ResourceIgnoreDifference_ResourceIdentifiers :=
     stdSlice (ResourceIgnoreDifference_ResourceIdentifiers r)\<rparr>"

lemma convSlice_ident [conv]: "convSlice (\<lambda>x. x) = stdSlice"
  by (auto simp: fun_eq_iff convSlice_def stdSlice_def elems_def split: option.splits)

lemma stdSlice_idem [simp]: "stdSlice (stdSlice s) = stdSlice s"
  by (simp add: stdSlice_def)

lemma stdDifferences_idem [simp]: "stdDifferences (stdDifferences r) = stdDifferences r"
  by (simp add: stdDifferences_def)

lemma map_option_ident: "map_option (\<lambda>x. x) = (\<lambda>x. x)"
  by (simp add: fun_eq_iff option.map_ident)

text \<open>A struct rebuilt field by field is the struct.\<close>

lemma rebuilt [simp]:
  "\<lparr>AgentClient_PrincipalServerAddress = AgentClient_PrincipalServerAddress x_AgentClientSpec, AgentClient_PrincipalServerPort = AgentClient_PrincipalServerPort x_AgentClientSpec, AgentClient_Mode = AgentClient_Mode x_AgentClientSpec, AgentClient_EnableWebSocket = AgentClient_EnableWebSocket x_AgentClientSpec, AgentClient_EnableCompression = AgentClient_EnableCompression x_AgentClientSpec, AgentClient_KeepAliveInterval = AgentClient_KeepAliveInterval x_AgentClientSpec\<rparr> = (x_AgentClientSpec :: AgentClientSpec)"
  "\<lparr>AgentRedis_ServerAddress = AgentRedis_ServerAddress x_AgentRedisSpec\<rparr> = (x_AgentRedisSpec :: AgentRedisSpec)"
  "\<lparr>AgentTLS_SecretName = AgentTLS_SecretName x_AgentTLSSpec, AgentTLS_RootCASecretName = AgentTLS_RootCASecretName x_AgentTLSSpec, AgentTLS_Insecure = AgentTLS_Insecure x_AgentTLSSpec\<rparr> = (x_AgentTLSSpec :: AgentTLSSpec)"
  "\<lparr>Grafana_Enabled = Grafana_Enabled x_ArgoCDGrafanaSpec, Grafana_Host = Grafana_Host x_ArgoCDGrafanaSpec, Grafana_Image = Grafana_Image x_ArgoCDGrafanaSpec, Grafana_Ingress = Grafana_Ingress x_ArgoCDGrafanaSpec, Grafana_Resources = Grafana_Resources x_ArgoCDGrafanaSpec, Grafana_Route = Grafana_Route x_ArgoCDGrafanaSpec, Grafana_Size = Grafana_Size x_ArgoCDGrafanaSpec, Grafana_Version = Grafana_Version x_ArgoCDGrafanaSpec\<rparr> = (x_ArgoCDGrafanaSpec :: ArgoCDGrafanaSpec)"
  "\<lparr>HA_Enabled = HA_Enabled x_ArgoCDHASpec, HA_RedisProxyImage = HA_RedisProxyImage x_ArgoCDHASpec, HA_RedisProxyVersion = HA_RedisProxyVersion x_ArgoCDHASpec, HA_Resources = HA_Resources x_ArgoCDHASpec\<rparr> = (x_ArgoCDHASpec :: ArgoCDHASpec)"
  "\<lparr>Notifications_Replicas = Notifications_Replicas x_ArgoCDNotifications, Notifications_Enabled = Notifications_Enabled x_ArgoCDNotifications, Notifications_SourceNamespaces = Notifications_SourceNamespaces x_ArgoCDNotifications, Notifications_Env = Notifications_Env x_ArgoCDNotifications, Notifications_Image = Notifications_Image x_ArgoCDNotifications, Notifications_Version = Notifications_Version x_ArgoCDNotifications, Notifications_Resources = Notifications_Resources x_ArgoCDNotifications, Notifications_LogLevel = Notifications_LogLevel x_ArgoCDNotifications, Notifications_Logformat = Notifications_Logformat x_ArgoCDNotifications, Notifications_LogFormat = Notifications_LogFormat x_ArgoCDNotifications, Notifications_Metrics = Notifications_Metrics x_ArgoCDNotifications\<rparr> = (x_ArgoCDNotifications :: ArgoCDNotifications)"
  "\<lparr>Prometheus_Enabled = Prometheus_Enabled x_ArgoCDPrometheusSpec, Prometheus_Host = Prometheus_Host x_ArgoCDPrometheusSpec, Prometheus_Ingress = Prometheus_Ingress x_ArgoCDPrometheusSpec, Prometheus_Route = Prometheus_Route x_ArgoCDPrometheusSpec, Prometheus_Size = Prometheus_Size x_ArgoCDPrometheusSpec\<rparr> = (x_ArgoCDPrometheusSpec :: ArgoCDPrometheusSpec)"
  "\<lparr>ServerGRPC_Host = ServerGRPC_Host x_ArgoCDServerGRPCSpec, ServerGRPC_Ingress = ServerGRPC_Ingress x_ArgoCDServerGRPCSpec\<rparr> = (x_ArgoCDServerGRPCSpec :: ArgoCDServerGRPCSpec)"
  "\<lparr>TLS_CA = TLS_CA x_ArgoCDTLSSpec, TLS_InitialCerts = TLS_InitialCerts x_ArgoCDTLSSpec\<rparr> = (x_ArgoCDTLSSpec :: ArgoCDTLSSpec)"
  "\<lparr>Hooks_GitHub = Hooks_GitHub x_ArgoCDWebhookSecretsSpec, Hooks_GitLab = Hooks_GitLab x_ArgoCDWebhookSecretsSpec, Hooks_Bitbucket = Hooks_Bitbucket x_ArgoCDWebhookSecretsSpec, Hooks_BitbucketServer = Hooks_BitbucketServer x_ArgoCDWebhookSecretsSpec, Hooks_Gogs = Hooks_Gogs x_ArgoCDWebhookSecretsSpec, Hooks_AzureDevOps = Hooks_AzureDevOps x_ArgoCDWebhookSecretsSpec\<rparr> = (x_ArgoCDWebhookSecretsSpec :: ArgoCDWebhookSecretsSpec)"
  "\<lparr>KustomizeVersion_Version = KustomizeVersion_Version x_KustomizeVersionSpec, KustomizeVersion_Path = KustomizeVersion_Path x_KustomizeVersionSpec\<rparr> = (x_KustomizeVersionSpec :: KustomizeVersionSpec)"
  "\<lparr>ManagedNamespaces_Name = ManagedNamespaces_Name x_ManagedNamespaces, ManagedNamespaces_AllowManagedBy = ManagedNamespaces_AllowManagedBy x_ManagedNamespaces\<rparr> = (x_ManagedNamespaces :: ManagedNamespaces)"
  "\<lparr>PrincipalJWT_InsecureGenerate = PrincipalJWT_InsecureGenerate x_PrincipalJWTSpec, PrincipalJWT_SecretName = PrincipalJWT_SecretName x_PrincipalJWTSpec\<rparr> = (x_PrincipalJWTSpec :: PrincipalJWTSpec)"
  "\<lparr>PrincipalNamespace_AllowedNamespaces = PrincipalNamespace_AllowedNamespaces x_PrincipalNamespaceSpec, PrincipalNamespace_EnableNamespaceCreate = PrincipalNamespace_EnableNamespaceCreate x_PrincipalNamespaceSpec, PrincipalNamespace_NamespaceCreatePattern = PrincipalNamespace_NamespaceCreatePattern x_PrincipalNamespaceSpec, PrincipalNamespace_NamespaceCreateLabels = PrincipalNamespace_NamespaceCreateLabels x_PrincipalNamespaceSpec\<rparr> = (x_PrincipalNamespaceSpec :: PrincipalNamespaceSpec)"
  "\<lparr>PrincipalRedis_ServerAddress = PrincipalRedis_ServerAddress x_PrincipalRedisSpec, PrincipalRedis_CompressionType = PrincipalRedis_CompressionType x_PrincipalRedisSpec\<rparr> = (x_PrincipalRedisSpec :: PrincipalRedisSpec)"
  "\<lparr>PrincipalResourceProxy_SecretName = PrincipalResourceProxy_SecretName x_PrincipalResourceProxySpec, PrincipalResourceProxy_CASecretName = PrincipalResourceProxy_CASecretName x_PrincipalResourceProxySpec\<rparr> = (x_PrincipalResourceProxySpec :: PrincipalResourceProxySpec)"
  "\<lparr>PrincipalSelfRegistration_Enabled = PrincipalSelfRegistration_Enabled x_PrincipalSelfRegistrationSpec, PrincipalSelfRegistration_ClientCertSecretName = PrincipalSelfRegistration_ClientCertSecretName x_PrincipalSelfRegistrationSpec\<rparr> = (x_PrincipalSelfRegistrationSpec :: PrincipalSelfRegistrationSpec)"
  "\<lparr>PrincipalServer_EnableWebSocket = PrincipalServer_EnableWebSocket x_PrincipalServerSpec, PrincipalServer_KeepAliveMinInterval = PrincipalServer_KeepAliveMinInterval x_PrincipalServerSpec, PrincipalServer_Service = PrincipalServer_Service x_PrincipalServerSpec, PrincipalServer_Route = PrincipalServer_Route x_PrincipalServerSpec\<rparr> = (x_PrincipalServerSpec :: PrincipalServerSpec)"
  "\<lparr>PrincipalTLS_SecretName = PrincipalTLS_SecretName x_PrincipalTLSSpec, PrincipalTLS_RootCASecretName = PrincipalTLS_RootCASecretName x_PrincipalTLSSpec, PrincipalTLS_InsecureGenerate = PrincipalTLS_InsecureGenerate x_PrincipalTLSSpec\<rparr> = (x_PrincipalTLSSpec :: PrincipalTLSSpec)"
  "\<lparr>ResourceAction_Group = ResourceAction_Group x_ResourceAction, ResourceAction_Kind = ResourceAction_Kind x_ResourceAction, ResourceAction_Action = ResourceAction_Action x_ResourceAction\<rparr> = (x_ResourceAction :: ResourceAction)"
  "\<lparr>ResourceHealthCheck_Group = ResourceHealthCheck_Group x_ResourceHealthCheck, ResourceHealthCheck_Kind = ResourceHealthCheck_Kind x_ResourceHealthCheck, ResourceHealthCheck_Check = ResourceHealthCheck_Check x_ResourceHealthCheck\<rparr> = (x_ResourceHealthCheck :: ResourceHealthCheck)"
  "\<lparr>ResourceIdentifiers_Group = ResourceIdentifiers_Group x_ResourceIdentifiers, ResourceIdentifiers_Kind = ResourceIdentifiers_Kind x_ResourceIdentifiers, ResourceIdentifiers_Customization = ResourceIdentifiers_Customization x_ResourceIdentifiers\<rparr> = (x_ResourceIdentifiers :: ResourceIdentifiers)"
  "\<lparr>ResourceIgnoreDifference_All = ResourceIgnoreDifference_All x_ResourceIgnoreDifference, ResourceIgnoreDifference_ResourceIdentifiers = ResourceIgnoreDifference_ResourceIdentifiers x_ResourceIgnoreDifference\<rparr> = (x_ResourceIgnoreDifference :: ResourceIgnoreDifference)"
  "\<lparr>WebhookSecretKeySelector_Name = WebhookSecretKeySelector_Name x_WebhookSecretKeySelector, WebhookSecretKeySelector_Key = WebhookSecretKeySelector_Key x_WebhookSecretKeySelector\<rparr> = (x_WebhookSecretKeySelector :: WebhookSecretKeySelector)"
  "\<lparr>WebhookServer_Host = WebhookServer_Host x_WebhookServerSpec, WebhookServer_Ingress = WebhookServer_Ingress x_WebhookServerSpec, WebhookServer_Route = WebhookServer_Route x_WebhookServerSpec\<rparr> = (x_WebhookServerSpec :: WebhookServerSpec)"
  "\<lparr>HooksGitHub_WebhookSecretRef = HooksGitHub_WebhookSecretRef x_ArgoCDWebhookSecretsGitHub\<rparr> = (x_ArgoCDWebhookSecretsGitHub :: ArgoCDWebhookSecretsGitHub)"
  "\<lparr>HooksGitLab_WebhookSecretRef = HooksGitLab_WebhookSecretRef x_ArgoCDWebhookSecretsGitLab\<rparr> = (x_ArgoCDWebhookSecretsGitLab :: ArgoCDWebhookSecretsGitLab)"
  "\<lparr>HooksBitbucket_WebhookUUIDSecretRef = HooksBitbucket_WebhookUUIDSecretRef x_ArgoCDWebhookSecretsBitbucket\<rparr> = (x_ArgoCDWebhookSecretsBitbucket :: ArgoCDWebhookSecretsBitbucket)"
  "\<lparr>HooksBitbucketServer_WebhookSecretRef = HooksBitbucketServer_WebhookSecretRef x_ArgoCDWebhookSecretsBitbucketServer\<rparr> = (x_ArgoCDWebhookSecretsBitbucketServer :: ArgoCDWebhookSecretsBitbucketServer)"
  "\<lparr>HooksGogs_WebhookSecretRef = HooksGogs_WebhookSecretRef x_ArgoCDWebhookSecretsGogs\<rparr> = (x_ArgoCDWebhookSecretsGogs :: ArgoCDWebhookSecretsGogs)"
  "\<lparr>HooksAzureDevOps_UsernameSecretRef = HooksAzureDevOps_UsernameSecretRef x_ArgoCDWebhookSecretsAzureDevOps, HooksAzureDevOps_PasswordSecretRef = HooksAzureDevOps_PasswordSecretRef x_ArgoCDWebhookSecretsAzureDevOps\<rparr> = (x_ArgoCDWebhookSecretsAzureDevOps :: ArgoCDWebhookSecretsAzureDevOps)"
  by simp_all

lemma ConvertAlphaToBetaMetrics_ident [conv]: "ConvertAlphaToBetaMetrics = (\<lambda>p. p)"
  by (simp add: ConvertAlphaToBetaMetrics_def conv map_option_ident)

lemma ConvertBetaToAlphaMetrics_ident [conv]: "ConvertBetaToAlphaMetrics = (\<lambda>p. p)"
  by (simp add: ConvertBetaToAlphaMetrics_def conv map_option_ident)

lemma ConvertAlphaToBetaWebhookServer_ident [conv]: "ConvertAlphaToBetaWebhookServer = (\<lambda>p. p)"
  by (simp add: ConvertAlphaToBetaWebhookServer_def conv map_option_ident)

lemma ConvertAlphaToBetaGrafana_ident [conv]: "ConvertAlphaToBetaGrafana = (\<lambda>p. p)"
  by (simp add: ConvertAlphaToBetaGrafana_def conv map_option_ident)

lemma ConvertAlphaToBetaPrometheus_ident [conv]: "ConvertAlphaToBetaPrometheus = (\<lambda>p. p)"
  by (simp add: ConvertAlphaToBetaPrometheus_def conv map_option_ident)

lemma ConvertAlphaToBetaHA_ident [conv]: "ConvertAlphaToBetaHA = (\<lambda>p. p)"
  by (simp add: ConvertAlphaToBetaHA_def conv map_option_ident)

lemma ConvertAlphaToBetaTLS_ident [conv]: "ConvertAlphaToBetaTLS = (\<lambda>p. p)"
  by (simp add: ConvertAlphaToBetaTLS_def conv map_option_ident)

lemma ConvertAlphaToBetaGRPC_ident [conv]: "ConvertAlphaToBetaGRPC = (\<lambda>p. p)"
  by (simp add: ConvertAlphaToBetaGRPC_def conv map_option_ident)

lemma ConvertAlphaToBetaKustomizeVersions_std [conv]: "ConvertAlphaToBetaKustomizeVersions = stdSlice"
  by (simp add: ConvertAlphaToBetaKustomizeVersions_def conv)

lemma ConvertAlphaToBetaResourceIdentifiers_std [conv]: "ConvertAlphaToBetaResourceIdentifiers = stdSlice"
  by (simp add: ConvertAlphaToBetaResourceIdentifiers_def conv)

lemma ConvertAlphaToBetaResourceIgnoreDifferences_std [conv]: "ConvertAlphaToBetaResourceIgnoreDifferences = map_option stdDifferences"
  by (auto simp: ConvertAlphaToBetaResourceIgnoreDifferences_def conv stdDifferences_def fun_eq_iff intro!: option.map_cong)

lemma ConvertAlphaToBetaResourceActions_std [conv]: "ConvertAlphaToBetaResourceActions = stdSlice"
  by (simp add: ConvertAlphaToBetaResourceActions_def conv)

lemma ConvertAlphaToBetaResourceHealthChecks_std [conv]: "ConvertAlphaToBetaResourceHealthChecks = stdSlice"
  by (simp add: ConvertAlphaToBetaResourceHealthChecks_def conv)

lemma ConvertBetaToAlphaWebhookServer_ident [conv]: "ConvertBetaToAlphaWebhookServer = (\<lambda>p. p)"
  by (simp add: ConvertBetaToAlphaWebhookServer_def conv map_option_ident)

lemma ConvertBetaToAlphaGrafana_ident [conv]: "ConvertBetaToAlphaGrafana = (\<lambda>p. p)"
  by (simp add: ConvertBetaToAlphaGrafana_def conv map_option_ident)

lemma ConvertBetaToAlphaPrometheus_ident [conv]: "ConvertBetaToAlphaPrometheus = (\<lambda>p. p)"
  by (simp add: ConvertBetaToAlphaPrometheus_def conv map_option_ident)

lemma ConvertAlphaToBetaNotifications_ident [conv]: "ConvertAlphaToBetaNotifications = (\<lambda>p. p)"
  by (simp add: ConvertAlphaToBetaNotifications_def conv map_option_ident)

lemma ConvertBetaToAlphaNotifications_ident [conv]: "ConvertBetaToAlphaNotifications = (\<lambda>p. p)"
  by (simp add: ConvertBetaToAlphaNotifications_def conv map_option_ident)

lemma ConvertBetaToAlphaHA_ident [conv]: "ConvertBetaToAlphaHA = (\<lambda>p. p)"
  by (simp add: ConvertBetaToAlphaHA_def conv map_option_ident)

lemma ConvertBetaToAlphaTLS_ident [conv]: "ConvertBetaToAlphaTLS = (\<lambda>p. p)"
  by (simp add: ConvertBetaToAlphaTLS_def conv map_option_ident)

lemma ConvertBetaToAlphaGRPC_ident [conv]: "ConvertBetaToAlphaGRPC = (\<lambda>p. p)"
  by (simp add: ConvertBetaToAlphaGRPC_def conv map_option_ident)

lemma ConvertBetaToAlphaKustomizeVersions_std [conv]: "ConvertBetaToAlphaKustomizeVersions = stdSlice"
  by (simp add: ConvertBetaToAlphaKustomizeVersions_def conv)

lemma ConvertBetaToAlphaResourceIdentifiers_std [conv]: "ConvertBetaToAlphaResourceIdentifiers = stdSlice"
  by (simp add: ConvertBetaToAlphaResourceIdentifiers_def conv)

lemma ConvertBetaToAlphaResourceIgnoreDifferences_std [conv]: "ConvertBetaToAlphaResourceIgnoreDifferences = map_option stdDifferences"
  by (auto simp: ConvertBetaToAlphaResourceIgnoreDifferences_def conv stdDifferences_def fun_eq_iff intro!: option.map_cong)

lemma ConvertBetaToAlphaResourceActions_std [conv]: "ConvertBetaToAlphaResourceActions = stdSlice"
  by (simp add: ConvertBetaToAlphaResourceActions_def conv)

lemma ConvertBetaToAlphaResourceHealthChecks_std [conv]: "ConvertBetaToAlphaResourceHealthChecks = stdSlice"
  by (simp add: ConvertBetaToAlphaResourceHealthChecks_def conv)

lemma ConvertAlphaToBetaPrincipalServer_ident [conv]: "ConvertAlphaToBetaPrincipalServer = (\<lambda>p. p)"
  by (simp add: ConvertAlphaToBetaPrincipalServer_def conv map_option_ident)

lemma ConvertAlphaToBetaPrincipalNamespace_ident [conv]: "ConvertAlphaToBetaPrincipalNamespace = (\<lambda>p. p)"
  by (simp add: ConvertAlphaToBetaPrincipalNamespace_def conv map_option_ident)

lemma ConvertAlphaToBetaPrincipalResourceProxy_ident [conv]: "ConvertAlphaToBetaPrincipalResourceProxy = (\<lambda>p. p)"
  by (simp add: ConvertAlphaToBetaPrincipalResourceProxy_def conv map_option_ident)

lemma ConvertAlphaToBetaPrincipalRedis_ident [conv]: "ConvertAlphaToBetaPrincipalRedis = (\<lambda>p. p)"
  by (simp add: ConvertAlphaToBetaPrincipalRedis_def conv map_option_ident)

lemma ConvertAlphaToBetaPrincipalTLS_ident [conv]: "ConvertAlphaToBetaPrincipalTLS = (\<lambda>p. p)"
  by (simp add: ConvertAlphaToBetaPrincipalTLS_def conv map_option_ident)

lemma ConvertAlphaToBetaPrincipalJWT_ident [conv]: "ConvertAlphaToBetaPrincipalJWT = (\<lambda>p. p)"
  by (simp add: ConvertAlphaToBetaPrincipalJWT_def conv map_option_ident)

lemma ConvertAlphaToBetaPrincipalSelfRegistration_ident [conv]: "ConvertAlphaToBetaPrincipalSelfRegistration = (\<lambda>p. p)"
  by (simp add: ConvertAlphaToBetaPrincipalSelfRegistration_def conv map_option_ident)

lemma ConvertAlphaToBetaAgentClient_ident [conv]: "ConvertAlphaToBetaAgentClient = (\<lambda>p. p)"
  by (simp add: ConvertAlphaToBetaAgentClient_def conv map_option_ident)

lemma ConvertAlphaToBetaAgentRedis_ident [conv]: "ConvertAlphaToBetaAgentRedis = (\<lambda>p. p)"
  by (simp add: ConvertAlphaToBetaAgentRedis_def conv map_option_ident)

lemma ConvertAlphaToBetaAgentTLS_ident [conv]: "ConvertAlphaToBetaAgentTLS = (\<lambda>p. p)"
  by (simp add: ConvertAlphaToBetaAgentTLS_def conv map_option_ident)

lemma ConvertBetaToAlphaNamespaceManagement_std [conv]: "ConvertBetaToAlphaNamespaceManagement = stdSlice"
  by (simp add: ConvertBetaToAlphaNamespaceManagement_def conv)

lemma ConvertBetaToAlphaPrincipalServer_ident [conv]: "ConvertBetaToAlphaPrincipalServer = (\<lambda>p. p)"
  by (simp add: ConvertBetaToAlphaPrincipalServer_def conv map_option_ident)

lemma ConvertBetaToAlphaPrincipalNamespace_ident [conv]: "ConvertBetaToAlphaPrincipalNamespace = (\<lambda>p. p)"
  by (simp add: ConvertBetaToAlphaPrincipalNamespace_def conv map_option_ident)

lemma ConvertBetaToAlphaPrincipalResourceProxy_ident [conv]: "ConvertBetaToAlphaPrincipalResourceProxy = (\<lambda>p. p)"
  by (simp add: ConvertBetaToAlphaPrincipalResourceProxy_def conv map_option_ident)

lemma ConvertBetaToAlphaPrincipalRedis_ident [conv]: "ConvertBetaToAlphaPrincipalRedis = (\<lambda>p. p)"
  by (simp add: ConvertBetaToAlphaPrincipalRedis_def conv map_option_ident)

lemma ConvertBetaToAlphaPrincipalTLS_ident [conv]: "ConvertBetaToAlphaPrincipalTLS = (\<lambda>p. p)"
  by (simp add: ConvertBetaToAlphaPrincipalTLS_def conv map_option_ident)

lemma ConvertBetaToAlphaPrincipalJWT_ident [conv]: "ConvertBetaToAlphaPrincipalJWT = (\<lambda>p. p)"
  by (simp add: ConvertBetaToAlphaPrincipalJWT_def conv map_option_ident)

lemma ConvertBetaToAlphaPrincipalSelfRegistration_ident [conv]: "ConvertBetaToAlphaPrincipalSelfRegistration = (\<lambda>p. p)"
  by (simp add: ConvertBetaToAlphaPrincipalSelfRegistration_def conv map_option_ident)

lemma ConvertBetaToAlphaAgentClient_ident [conv]: "ConvertBetaToAlphaAgentClient = (\<lambda>p. p)"
  by (simp add: ConvertBetaToAlphaAgentClient_def conv map_option_ident)

lemma ConvertBetaToAlphaAgentTLS_ident [conv]: "ConvertBetaToAlphaAgentTLS = (\<lambda>p. p)"
  by (simp add: ConvertBetaToAlphaAgentTLS_def conv map_option_ident)

lemma ConvertBetaToAlphaAgentRedis_ident [conv]: "ConvertBetaToAlphaAgentRedis = (\<lambda>p. p)"
  by (simp add: ConvertBetaToAlphaAgentRedis_def conv map_option_ident)

lemma copyAlphaToBetaWebhookRef_ident [conv]: "copyAlphaToBetaWebhookRef = (\<lambda>p. p)"
  by (simp add: copyAlphaToBetaWebhookRef_def conv map_option_ident)

lemma ConvertAlphaToBetaWebhookSecrets_ident [conv]: "ConvertAlphaToBetaWebhookSecrets = (\<lambda>p. p)"
  by (simp add: ConvertAlphaToBetaWebhookSecrets_def conv map_option_ident)

lemma copyBetaToAlphaWebhookRef_ident [conv]: "copyBetaToAlphaWebhookRef = (\<lambda>p. p)"
  by (simp add: copyBetaToAlphaWebhookRef_def conv map_option_ident)

lemma ConvertBetaToAlphaWebhookSecrets_ident [conv]: "ConvertBetaToAlphaWebhookSecrets = (\<lambda>p. p)"
  by (simp add: ConvertBetaToAlphaWebhookSecrets_def conv map_option_ident)

lemma ConvertAlphaToBetaNamespaceManagement_std [conv]: "ConvertAlphaToBetaNamespaceManagement = stdSlice"
  by (simp add: ConvertAlphaToBetaNamespaceManagement_def conv)

section \<open>Structs of v1beta1 that v1alpha1 knows in part\<close>

definition keptController :: "ArgoCDApplicationControllerSpec_beta \<Rightarrow> ArgoCDApplicationControllerSpec_beta" where
  "keptController x = x\<lparr>
     bController_InitContainers := None, bController_SidecarContainers := None, bController_Enabled
     := None, bController_ExtraCommandArgs := None, bController_Volumes := None,
     bController_VolumeMounts := None, bController_Annotations := None, bController_Labels := None,
     bController_RespectRBAC := ''''\<rparr>"

interpretation controller_pair: pointer_pair ConvertAlphaToBetaController ConvertBetaToAlphaController keptController
  by unfold_locales (auto simp: ConvertAlphaToBetaController_def ConvertBetaToAlphaController_def keptController_def conv option.map_comp comp_def intro!: option.map_cong)

definition keptRedis :: "ArgoCDRedisSpec_beta \<Rightarrow> ArgoCDRedisSpec_beta" where
  "keptRedis x = x\<lparr>
     bRedis_Enabled := None, bRedis_Remote := None\<rparr>"

interpretation redis_pair: pointer_pair ConvertAlphaToBetaRedis ConvertBetaToAlphaRedis keptRedis
  by unfold_locales (auto simp: ConvertAlphaToBetaRedis_def ConvertBetaToAlphaRedis_def keptRedis_def conv option.map_comp comp_def intro!: option.map_cong)

definition keptRepo :: "ArgoCDRepoSpec_beta \<Rightarrow> ArgoCDRepoSpec_beta" where
  "keptRepo x = x\<lparr>
     bRepo_Enabled := None, bRepo_Remote := None, bRepo_Annotations := None, bRepo_Labels := None,
     bRepo_SystemCATrust := None\<rparr>"

interpretation repo_pair: pointer_pair ConvertAlphaToBetaRepo ConvertBetaToAlphaRepo keptRepo
  by unfold_locales (auto simp: ConvertAlphaToBetaRepo_def ConvertBetaToAlphaRepo_def keptRepo_def conv option.map_comp comp_def intro!: option.map_cong)

definition keptApplicationSet :: "ArgoCDApplicationSet_beta \<Rightarrow> ArgoCDApplicationSet_beta" where
  "keptApplicationSet x = x\<lparr>
     bApplicationSet_SCMRootCAConfigMap := '''', bApplicationSet_Enabled := None,
     bApplicationSet_SourceNamespaces := None, bApplicationSet_SCMProviders := None,
     bApplicationSet_Annotations := None, bApplicationSet_Labels := None, bApplicationSet_Volumes :=
     None, bApplicationSet_VolumeMounts := None, bApplicationSet_Logformat := ''''\<rparr>"

interpretation applicationSet_pair: pointer_pair ConvertAlphaToBetaApplicationSet ConvertBetaToAlphaApplicationSet keptApplicationSet
  by unfold_locales (auto simp: ConvertAlphaToBetaApplicationSet_def ConvertBetaToAlphaApplicationSet_def keptApplicationSet_def conv option.map_comp comp_def intro!: option.map_cong)

definition keptDex :: "ArgoCDDexSpec_beta \<Rightarrow> ArgoCDDexSpec_beta" where
  "keptDex x = x\<lparr>
     bDex_Env := None, bDex_Volumes := None, bDex_VolumeMounts := None\<rparr>"

interpretation dex_pair: pointer_pair ConvertAlphaToBetaDex ConvertBetaToAlphaDex keptDex
  by unfold_locales (auto simp: ConvertAlphaToBetaDex_def ConvertBetaToAlphaDex_def keptDex_def conv option.map_comp comp_def intro!: option.map_cong)

definition keptSSO :: "ArgoCDSSOSpec_beta \<Rightarrow> ArgoCDSSOSpec_beta" where
  "keptSSO x = x\<lparr>
     bSSO_Dex := map_option keptDex (bSSO_Dex x)\<rparr>"

interpretation sso_pair: pointer_pair ConvertAlphaToBetaSSO ConvertBetaToAlphaSSO keptSSO
  by unfold_locales (auto simp: ConvertAlphaToBetaSSO_def ConvertBetaToAlphaSSO_def keptSSO_def conv option.map_comp comp_def dex_pair.by_value intro!: option.map_cong)

definition keptServer :: "ArgoCDServerSpec_beta \<Rightarrow> ArgoCDServerSpec_beta" where
  "keptServer x = x\<lparr>
     bServer_InitContainers := None, bServer_SidecarContainers := None, bServer_Enabled := None,
     bServer_Volumes := None, bServer_VolumeMounts := None, bServer_Annotations := None,
     bServer_Labels := None, bServer_EnableRolloutsUI := False\<rparr>"

interpretation server_pair: pointer_pair ConvertAlphaToBetaServer ConvertBetaToAlphaServer keptServer
  by unfold_locales (auto simp: ConvertAlphaToBetaServer_def ConvertBetaToAlphaServer_def keptServer_def conv option.map_comp comp_def intro!: option.map_cong)

definition keptPrincipal :: "PrincipalSpec_beta \<Rightarrow> PrincipalSpec_beta" where
  "keptPrincipal x = x\<lparr>
     bPrincipal_Resources := None, bPrincipal_DestinationBasedMapping := None\<rparr>"

interpretation principal_pair: pointer_pair ConvertAlphaToBetaPrincipal ConvertBetaToAlphaPrincipal keptPrincipal
  by unfold_locales (auto simp: ConvertAlphaToBetaPrincipal_def ConvertBetaToAlphaPrincipal_def keptPrincipal_def conv option.map_comp comp_def intro!: option.map_cong)

definition keptAgent :: "AgentSpec_beta \<Rightarrow> AgentSpec_beta" where
  "keptAgent x = x\<lparr>
     bAgent_AllowedNamespaces := None, bAgent_Resources := None, bAgent_DestinationBasedMapping :=
     None\<rparr>"

interpretation agent_pair: pointer_pair ConvertAlphaToBetaAgent ConvertBetaToAlphaAgent keptAgent
  by unfold_locales (auto simp: ConvertAlphaToBetaAgent_def ConvertBetaToAlphaAgent_def keptAgent_def conv option.map_comp comp_def intro!: option.map_cong)

definition keptArgoCDAgent :: "ArgoCDAgentSpec_beta \<Rightarrow> ArgoCDAgentSpec_beta" where
  "keptArgoCDAgent x = x\<lparr>
     bAgentRoot_Principal := map_option keptPrincipal (bAgentRoot_Principal x), bAgentRoot_Agent :=
     map_option keptAgent (bAgentRoot_Agent x)\<rparr>"

interpretation argoCDAgent_pair: pointer_pair ConvertAlphaToBetaArgoCDAgent ConvertBetaToAlphaArgoCDAgent keptArgoCDAgent
  by unfold_locales (auto simp: ConvertAlphaToBetaArgoCDAgent_def ConvertBetaToAlphaArgoCDAgent_def keptArgoCDAgent_def conv option.map_comp comp_def principal_pair.by_value agent_pair.by_value intro!: option.map_cong)

section \<open>The whole resource\<close>

text \<open>The webhook gives \<open>ConvertTo\<close> and \<open>ConvertFrom\<close> a new object to fill.\<close>

definition webhookUp :: "ArgoCD_alpha \<Rightarrow> ArgoCD_beta" where
  "webhookUp a = snd (ConvertTo a zero_ArgoCD_beta)"

definition webhookDown :: "ArgoCD_beta \<Rightarrow> ArgoCD_alpha" where
  "webhookDown b = ConvertFrom b zero_ArgoCD_alpha"

text \<open>The part of a v1beta1 resource that survives a visit to v1alpha1.\<close>

definition keptSpec :: "ArgoCDSpec_beta \<Rightarrow> ArgoCDSpec_beta" where
  "keptSpec s = s\<lparr>
     bSpec_InstallationID := '''',
     bSpec_ImageUpdater := zero_ArgoCDImageUpdaterSpec,
     bSpec_ImagePullPolicy := '''',
     bSpec_LocalUsers := None,
     bSpec_NetworkPolicy := zero_ArgoCDNetworkPolicySpec,
     bSpec_ClusterDomain := '''',
     bSpec_CmdParams := None,
     bSpec_WebTerminalEnabled := None,
     bSpec_Promoter := None,
     bSpec_ApplicationSet := map_option keptApplicationSet (bSpec_ApplicationSet s),
     bSpec_SSO := map_option keptSSO (bSpec_SSO s),
     bSpec_ArgoCDAgent := map_option keptArgoCDAgent (bSpec_ArgoCDAgent s),
     bSpec_Controller := keptController (bSpec_Controller s),
     bSpec_Redis := keptRedis (bSpec_Redis s),
     bSpec_Repo := keptRepo (bSpec_Repo s),
     bSpec_Server := keptServer (bSpec_Server s),
     bSpec_KustomizeVersions := stdSlice (bSpec_KustomizeVersions s),
     bSpec_ResourceHealthChecks := stdSlice (bSpec_ResourceHealthChecks s),
     bSpec_ResourceActions := stdSlice (bSpec_ResourceActions s),
     bSpec_NamespaceManagement := stdSlice (bSpec_NamespaceManagement s),
     bSpec_ResourceIgnoreDifferences := map_option stdDifferences (bSpec_ResourceIgnoreDifferences s)\<rparr>"

definition keptBeta :: "ArgoCD_beta \<Rightarrow> ArgoCD_beta" where
  "keptBeta b = b\<lparr>bArgoCD_Spec := keptSpec (bArgoCD_Spec b)\<rparr>"

lemmas pairs = controller_pair.by_value redis_pair.by_value repo_pair.by_value server_pair.by_value
  applicationSet_pair.by_value sso_pair.by_value argoCDAgent_pair.by_value

lemma deprecatedKeycloak_down: "deprecatedKeycloak (ConvertBetaToAlphaSSO p) sso = sso"
  by (cases p) (simp_all add: deprecatedKeycloak_def ConvertBetaToAlphaSSO_def)

lemma deprecatedDex_None: "deprecatedDex None sso = sso"
  by (simp add: deprecatedDex_def)

lemma zero_fields:
  "bArgoCD_Spec zero_ArgoCD_beta = zero_ArgoCDSpec_beta" "aArgoCD_Spec zero_ArgoCD_alpha = zero_ArgoCDSpec_alpha"
  "aSpec_Dex zero_ArgoCDSpec_alpha = None" "aSpec_NetworkPolicy zero_ArgoCDSpec_alpha = zero_ArgoCDNetworkPolicySpec"
  by (simp_all add: zero_ArgoCD_beta_def zero_ArgoCD_alpha_def zero_ArgoCDSpec_alpha_def)

interpretation webhook: version_pair webhookUp webhookDown keptBeta
proof
  fix b
  show "webhookUp (webhookDown b) = keptBeta b"
    by (simp add: webhookUp_def webhookDown_def ConvertTo_def ConvertFrom_def Let_def keptBeta_def keptSpec_def
        pairs conv zero_fields deprecatedKeycloak_down deprecatedDex_None zero_ArgoCDSpec_beta_def
        option.map_comp comp_def)
  show "webhookDown (keptBeta b) = webhookDown b"
    by (simp add: webhookDown_def ConvertFrom_def Let_def keptBeta_def keptSpec_def pairs conv
        option.map_comp comp_def)
qed

text \<open>The part of a v1alpha1 resource that is left once it has been stored as v1beta1 and is read again.
  The deprecated settings are gone from their old places and live in the new ones.\<close>

definition keycloakDeprecated :: "ArgoCDSSOSpec_alpha \<Rightarrow> bool" where
  "keycloakDeprecated a \<longleftrightarrow> aSSO_Image a \<noteq> '''' \<or> aSSO_Version a \<noteq> '''' \<or> aSSO_VerifyTLS a \<noteq> None \<or> aSSO_Resources a \<noteq> None"

definition keycloakOverride :: "ArgoCDSSOSpec_alpha \<Rightarrow> ArgoCDKeycloakSpec" where
  "keycloakOverride a = (case aSSO_Keycloak a of None \<Rightarrow> zero_ArgoCDKeycloakSpec | Some k \<Rightarrow> k)\<lparr>
     Keycloak_Image := aSSO_Image a, Keycloak_Version := aSSO_Version a,
     Keycloak_VerifyTLS := aSSO_VerifyTLS a, Keycloak_Resources := aSSO_Resources a\<rparr>"

definition storedSSO :: "ArgoCDSpec_alpha \<Rightarrow> ArgoCDSSOSpec_alpha option" where
  "storedSSO s =
     (let sso = map_option (\<lambda>a. a\<lparr>
            aSSO_Keycloak := (if keycloakDeprecated a then Some (keycloakOverride a) else aSSO_Keycloak a),
            aSSO_Image := '''', aSSO_Version := '''', aSSO_VerifyTLS := None, aSSO_Resources := None\<rparr>) (aSpec_SSO s)
      in case aSpec_Dex s of
           None \<Rightarrow> sso
         | Some dx \<Rightarrow>
             if aDex_Config dx \<noteq> '''' \<or> aDex_OpenShiftOAuth dx
             then Some ((case sso of None \<Rightarrow> zero_ArgoCDSSOSpec_alpha | Some a \<Rightarrow> a)\<lparr>
                    aSSO_Provider := ''dex'', aSSO_Dex := Some dx\<rparr>)
             else sso)"

definition storedAlpha :: "ArgoCD_alpha \<Rightarrow> ArgoCD_alpha" where
  "storedAlpha a = a\<lparr>aArgoCD_Spec := (aArgoCD_Spec a)\<lparr>
     aSpec_InstallationID := '''',
     aSpec_ImagePullPolicy := '''',
     aSpec_NetworkPolicy := zero_ArgoCDNetworkPolicySpec,
     aSpec_ResourceCustomizations := '''',
     aSpec_Dex := None,
     aSpec_SSO := storedSSO (aArgoCD_Spec a),
     aSpec_Server := (aSpec_Server (aArgoCD_Spec a))\<lparr>aServer_EnableRolloutsUI := False\<rparr>,
     aSpec_KustomizeVersions := stdSlice (aSpec_KustomizeVersions (aArgoCD_Spec a)),
     aSpec_ResourceHealthChecks := stdSlice (aSpec_ResourceHealthChecks (aArgoCD_Spec a)),
     aSpec_ResourceActions := stdSlice (aSpec_ResourceActions (aArgoCD_Spec a)),
     aSpec_NamespaceManagement := stdSlice (aSpec_NamespaceManagement (aArgoCD_Spec a)),
     aSpec_ResourceIgnoreDifferences := map_option stdDifferences (aSpec_ResourceIgnoreDifferences (aArgoCD_Spec a))\<rparr>\<rparr>"

lemma down_up_value [conv]:
  "the (ConvertBetaToAlphaController (Some (the (ConvertAlphaToBetaController (Some c))))) = c"
  "the (ConvertBetaToAlphaRedis (Some (the (ConvertAlphaToBetaRedis (Some r))))) = r"
  "the (ConvertBetaToAlphaRepo (Some (the (ConvertAlphaToBetaRepo (Some rs))))) = rs"
  "the (ConvertBetaToAlphaServer (Some (the (ConvertAlphaToBetaServer (Some srv))))) = srv\<lparr>aServer_EnableRolloutsUI := False\<rparr>"
  by (simp_all add: ConvertAlphaToBetaController_def ConvertBetaToAlphaController_def ConvertAlphaToBetaRedis_def
      ConvertBetaToAlphaRedis_def ConvertAlphaToBetaRepo_def ConvertBetaToAlphaRepo_def ConvertAlphaToBetaServer_def
      ConvertBetaToAlphaServer_def conv)

lemma down_up_Dex [conv]: "ConvertBetaToAlphaDex (ConvertAlphaToBetaDex p) = p"
  by (cases p) (simp_all add: ConvertAlphaToBetaDex_def ConvertBetaToAlphaDex_def)

lemma down_up_ApplicationSet [conv]: "ConvertBetaToAlphaApplicationSet (ConvertAlphaToBetaApplicationSet p) = p"
  by (cases p) (simp_all add: ConvertAlphaToBetaApplicationSet_def ConvertBetaToAlphaApplicationSet_def conv)

lemma down_up_Principal [conv]: "ConvertBetaToAlphaPrincipal (ConvertAlphaToBetaPrincipal p) = p"
  by (cases p) (simp_all add: ConvertAlphaToBetaPrincipal_def ConvertBetaToAlphaPrincipal_def conv)

lemma down_up_Agent [conv]: "ConvertBetaToAlphaAgent (ConvertAlphaToBetaAgent p) = p"
  by (cases p) (simp_all add: ConvertAlphaToBetaAgent_def ConvertBetaToAlphaAgent_def conv)

lemma down_up_ArgoCDAgent [conv]: "ConvertBetaToAlphaArgoCDAgent (ConvertAlphaToBetaArgoCDAgent p) = p"
  by (cases p) (simp_all add: ConvertAlphaToBetaArgoCDAgent_def ConvertBetaToAlphaArgoCDAgent_def conv)

text \<open>The comparison with the zero struct in the guards of \<open>ConvertTo\<close> is implied by the rest of them.\<close>

lemma deprecatedKeycloak_eq:
  "deprecatedKeycloak (Some a) (ConvertAlphaToBetaSSO (Some a)) =
     Some \<lparr>bSSO_Provider = aSSO_Provider a, bSSO_Dex = ConvertAlphaToBetaDex (aSSO_Dex a),
       bSSO_Keycloak = (if keycloakDeprecated a then Some (keycloakOverride a) else aSSO_Keycloak a)\<rparr>"
  by (auto simp: deprecatedKeycloak_def keycloakDeprecated_def keycloakOverride_def ConvertAlphaToBetaSSO_def
      zero_ArgoCDSSOSpec_alpha_def split: option.splits)

lemma deprecatedDex_Some:
  "deprecatedDex (Some dx) sso =
     (if aDex_Config dx \<noteq> '''' \<or> aDex_OpenShiftOAuth dx
      then Some ((case sso of None \<Rightarrow> zero_ArgoCDSSOSpec_beta | Some d \<Rightarrow> d)\<lparr>
             bSSO_Provider := ''dex'', bSSO_Dex := ConvertAlphaToBetaDex (Some dx)\<rparr>)
      else sso)"
  by (auto simp: deprecatedDex_def zero_ArgoCDDexSpec_alpha_def)

lemma storedSSO_eq:
  "ConvertBetaToAlphaSSO (deprecatedDex (aSpec_Dex s)
      (deprecatedKeycloak (aSpec_SSO s) (ConvertAlphaToBetaSSO (aSpec_SSO s)))) = storedSSO s"
proof -
  have none: "deprecatedKeycloak None (ConvertAlphaToBetaSSO None) = None"
    by (simp add: deprecatedKeycloak_def ConvertAlphaToBetaSSO_def)
  show ?thesis
    by (cases "aSpec_SSO s"; cases "aSpec_Dex s")
       (auto simp: storedSSO_def Let_def none deprecatedKeycloak_eq deprecatedDex_None deprecatedDex_Some
         ConvertBetaToAlphaSSO_def conv zero_ArgoCDSSOSpec_alpha_def zero_ArgoCDSSOSpec_beta_def
         keycloakDeprecated_def)
qed

lemma down_up_alpha: "webhookDown (webhookUp a) = storedAlpha a"
  by (simp add: webhookUp_def webhookDown_def ConvertTo_def ConvertFrom_def Let_def storedAlpha_def
      conv zero_fields storedSSO_eq zero_ArgoCDSpec_alpha_def option.map_comp comp_def)

lemma kept_value [conv]:
  "keptController (the (ConvertAlphaToBetaController (Some c))) = the (ConvertAlphaToBetaController (Some c))"
  "keptRedis (the (ConvertAlphaToBetaRedis (Some r))) = the (ConvertAlphaToBetaRedis (Some r))"
  "keptRepo (the (ConvertAlphaToBetaRepo (Some rs))) = the (ConvertAlphaToBetaRepo (Some rs))"
  "keptServer (the (ConvertAlphaToBetaServer (Some srv))) = the (ConvertAlphaToBetaServer (Some srv))"
  by (simp_all add: keptController_def keptRedis_def keptRepo_def keptServer_def ConvertAlphaToBetaController_def
      ConvertAlphaToBetaRedis_def ConvertAlphaToBetaRepo_def ConvertAlphaToBetaServer_def)

lemma kept_pointer [conv]:
  "map_option keptApplicationSet (ConvertAlphaToBetaApplicationSet ps) = ConvertAlphaToBetaApplicationSet ps"
  "map_option keptDex (ConvertAlphaToBetaDex px) = ConvertAlphaToBetaDex px"
  "map_option keptPrincipal (ConvertAlphaToBetaPrincipal pp) = ConvertAlphaToBetaPrincipal pp"
  "map_option keptAgent (ConvertAlphaToBetaAgent pa) = ConvertAlphaToBetaAgent pa"
  "map_option keptArgoCDAgent (ConvertAlphaToBetaArgoCDAgent pg) = ConvertAlphaToBetaArgoCDAgent pg"
  using applicationSet_pair.pointer_up_down [of "ConvertAlphaToBetaApplicationSet ps"]
    dex_pair.pointer_up_down [of "ConvertAlphaToBetaDex px"]
    principal_pair.pointer_up_down [of "ConvertAlphaToBetaPrincipal pp"]
    agent_pair.pointer_up_down [of "ConvertAlphaToBetaAgent pa"]
    argoCDAgent_pair.pointer_up_down [of "ConvertAlphaToBetaArgoCDAgent pg"]
  by (simp_all add: conv)

lemma kept_SSO:
  "map_option keptSSO (deprecatedDex (aSpec_Dex s)
     (deprecatedKeycloak (aSpec_SSO s) (ConvertAlphaToBetaSSO (aSpec_SSO s)))) =
   deprecatedDex (aSpec_Dex s) (deprecatedKeycloak (aSpec_SSO s) (ConvertAlphaToBetaSSO (aSpec_SSO s)))"
proof -
  have none: "deprecatedKeycloak None (ConvertAlphaToBetaSSO None) = None"
    by (simp add: deprecatedKeycloak_def ConvertAlphaToBetaSSO_def)
  show ?thesis
    by (cases "aSpec_SSO s"; cases "aSpec_Dex s")
       (auto simp: none deprecatedKeycloak_eq deprecatedDex_None deprecatedDex_Some keptSSO_def conv)
qed

text \<open>Of what comes from v1alpha1, going down and up again loses the network policy alone.\<close>

lemma keptBeta_up: "keptBeta (webhookUp a) = (webhookUp a)\<lparr>bArgoCD_Spec := (bArgoCD_Spec (webhookUp a))\<lparr>
    bSpec_NetworkPolicy := zero_ArgoCDNetworkPolicySpec\<rparr>\<rparr>"
  by (simp add: keptBeta_def keptSpec_def webhookUp_def ConvertTo_def Let_def zero_fields conv kept_SSO
      zero_ArgoCDSpec_beta_def option.map_comp comp_def)

lemma sharedKeycloak_eq:
  "sharedKeycloak (deprecatedKeycloak (Some a) (ConvertAlphaToBetaSSO (Some a))) a =
     (if keycloakDeprecated a \<and> aSSO_Keycloak a \<noteq> None then a\<lparr>aSSO_Keycloak := Some (keycloakOverride a)\<rparr> else a)"
  by (cases "aSSO_Keycloak a") (auto simp: sharedKeycloak_def deprecatedKeycloak_eq)

lemma keycloakOverride_idem:
  "keycloakDeprecated (a\<lparr>aSSO_Keycloak := k\<rparr>) = keycloakDeprecated a"
  "keycloakOverride (a\<lparr>aSSO_Keycloak := Some (keycloakOverride a)\<rparr>) = keycloakOverride a"
  by (simp_all add: keycloakDeprecated_def keycloakOverride_def split: option.splits)

lemma setSSO_id: "a\<lparr>aArgoCD_Spec := (aArgoCD_Spec a)\<lparr>aSpec_SSO := aSpec_SSO (aArgoCD_Spec a)\<rparr>\<rparr> = a"
  by simp

lemma setSSO_same:
  "a\<lparr>aArgoCD_Spec := (aArgoCD_Spec a)\<lparr>aSpec_SSO := sso\<rparr>\<rparr> = a \<longleftrightarrow> sso = aSpec_SSO (aArgoCD_Spec a)"
proof
  assume "a\<lparr>aArgoCD_Spec := (aArgoCD_Spec a)\<lparr>aSpec_SSO := sso\<rparr>\<rparr> = a"
  from arg_cong [OF this, of "\<lambda>x. aSpec_SSO (aArgoCD_Spec x)"] show "sso = aSpec_SSO (aArgoCD_Spec a)" by simp
next
  assume "sso = aSpec_SSO (aArgoCD_Spec a)"
  then show "a\<lparr>aArgoCD_Spec := (aArgoCD_Spec a)\<lparr>aSpec_SSO := sso\<rparr>\<rparr> = a" by (simp only: setSSO_id)
qed

lemma setKeycloak_same: "s\<lparr>aSSO_Keycloak := Some k\<rparr> = s \<longleftrightarrow> aSSO_Keycloak s = Some k"
proof
  assume "s\<lparr>aSSO_Keycloak := Some k\<rparr> = s"
  from arg_cong [OF this, of aSSO_Keycloak] show "aSSO_Keycloak s = Some k" by simp
qed simp

definition writeKeycloak :: "ArgoCDSSOSpec_alpha \<Rightarrow> ArgoCDSSOSpec_alpha" where
  "writeKeycloak s = (if keycloakDeprecated s \<and> aSSO_Keycloak s \<noteq> None
     then s\<lparr>aSSO_Keycloak := Some (keycloakOverride s)\<rparr> else s)"

lemma receiver_eq:
  "fst (ConvertTo a d) =
     a\<lparr>aArgoCD_Spec := (aArgoCD_Spec a)\<lparr>aSpec_SSO := map_option writeKeycloak (aSpec_SSO (aArgoCD_Spec a))\<rparr>\<rparr>"
  by (cases "aSpec_SSO (aArgoCD_Spec a)") (simp_all add: ConvertTo_def Let_def sharedKeycloak_eq writeKeycloak_def)

lemma betaSSO_again:
  "deprecatedKeycloak (map_option writeKeycloak p) (ConvertAlphaToBetaSSO (map_option writeKeycloak p)) =
   deprecatedKeycloak p (ConvertAlphaToBetaSSO p)"
  by (cases p) (auto simp: deprecatedKeycloak_eq keycloakOverride_idem writeKeycloak_def)

section \<open>Properties\<close>

text \<open>C38. A v1beta1 ArgoCD resource that is read as v1alpha1 and written back keeps exactly the fields of
  \<open>keptBeta\<close>: every other field of it (the network policy, the local users, the extra volumes, labels and
  annotations of the workloads, the image updater, ...) comes back as the zero value, and an empty list as
  nil. What is kept is all that v1alpha1 shows: two resources look the same there if and only if they agree
  on it, and a second trip loses nothing more.\<close>

theorem conversion_keeps:
  "webhookUp (webhookDown b) = keptBeta b \<and>
   (webhookDown b = webhookDown c \<longleftrightarrow> keptBeta b = keptBeta c) \<and>
   keptBeta (keptBeta b) = keptBeta b"
  by (simp add: webhook.up_down webhook.same_view webhook.keep_idem)

text \<open>C39. A v1alpha1 ArgoCD resource that is stored as v1beta1 and read again as v1alpha1 is
  \<open>storedAlpha\<close> of it: the deprecated Keycloak and Dex settings have moved to their new places and override
  what was there, \<open>installationID\<close>, \<open>imagePullPolicy\<close>, \<open>resourceCustomizations\<close>, \<open>server.enableRolloutsUI\<close> and
  the network policy are lost and every other field is as it was. Stored again, it gives the same v1beta1
  resource but for the network policy.\<close>

theorem conversion_stores:
  "webhookDown (webhookUp a) = storedAlpha a \<and>
   webhookUp (storedAlpha a) = (webhookUp a)\<lparr>bArgoCD_Spec := (bArgoCD_Spec (webhookUp a))\<lparr>
     bSpec_NetworkPolicy := zero_ArgoCDNetworkPolicySpec\<rparr>\<rparr>"
  by (metis down_up_alpha webhook.up_down keptBeta_up)

text \<open>\<open>ConvertTo\<close> writes to the object it converts, and to that object alone through the Keycloak
  pointer it shares with the result: the receiver is changed exactly when a deprecated Keycloak setting
  meets a \<open>.spec.sso.keycloak\<close> that says otherwise. Converting the changed receiver gives the same result.\<close>

theorem ConvertTo_writes_receiver:
  "(fst (ConvertTo a d) \<noteq> a \<longleftrightarrow>
      (\<exists>s k. aSpec_SSO (aArgoCD_Spec a) = Some s \<and> keycloakDeprecated s \<and>
             aSSO_Keycloak s = Some k \<and> keycloakOverride s \<noteq> k)) \<and>
   snd (ConvertTo (fst (ConvertTo a d)) d) = snd (ConvertTo a d)"
proof
  show "fst (ConvertTo a d) \<noteq> a \<longleftrightarrow> (\<exists>s k. aSpec_SSO (aArgoCD_Spec a) = Some s \<and> keycloakDeprecated s \<and>
          aSSO_Keycloak s = Some k \<and> keycloakOverride s \<noteq> k)"
    by (cases "aSpec_SSO (aArgoCD_Spec a)") (auto simp: receiver_eq setSSO_same setKeycloak_same writeKeycloak_def)
  show "snd (ConvertTo (fst (ConvertTo a d)) d) = snd (ConvertTo a d)"
    by (simp add: receiver_eq) (simp add: ConvertTo_def Let_def betaSSO_again)
qed

text \<open>One deprecated Keycloak setting under \<open>.spec.sso\<close> of a v1alpha1 resource replaces all four
  corresponding settings of \<open>.spec.sso.keycloak\<close> in v1beta1, those it does not conflict with included; the
  root certificate and the host stay. A deprecated \<open>.spec.dex\<close> with a configuration or OpenShift OAuth makes
  Dex the provider and replaces \<open>.spec.sso.dex\<close>, and leaves the Keycloak settings there.\<close>

theorem ConvertTo_deprecated:
  assumes "aSpec_SSO (aArgoCD_Spec a) = Some s" "keycloakDeprecated s"
    and "aSpec_Dex (aArgoCD_Spec a) = Some dx" "aDex_Config dx \<noteq> '''' \<or> aDex_OpenShiftOAuth dx"
  shows "bSpec_SSO (bArgoCD_Spec (snd (ConvertTo a d))) = Some \<lparr>
      bSSO_Provider = ''dex'',
      bSSO_Dex = ConvertAlphaToBetaDex (Some dx),
      bSSO_Keycloak = Some \<lparr>
        Keycloak_Image = aSSO_Image s, Keycloak_Resources = aSSO_Resources s,
        Keycloak_RootCA = (case aSSO_Keycloak s of None \<Rightarrow> '''' | Some k \<Rightarrow> Keycloak_RootCA k),
        Keycloak_Version = aSSO_Version s, Keycloak_VerifyTLS = aSSO_VerifyTLS s,
        Keycloak_Host = (case aSSO_Keycloak s of None \<Rightarrow> '''' | Some k \<Rightarrow> Keycloak_Host k)\<rparr>\<rparr>"
  using assms
  by (auto simp: ConvertTo_def Let_def deprecatedKeycloak_eq deprecatedDex_Some keycloakOverride_def
      zero_ArgoCDKeycloakSpec_def split: option.splits)

definition deprecatedSSO :: ArgoCDSSOSpec_alpha where
  "deprecatedSSO = zero_ArgoCDSSOSpec_alpha\<lparr>aSSO_Provider := ''keycloak'', aSSO_Image := ''registry/sso'',
     aSSO_Keycloak := Some (zero_ArgoCDKeycloakSpec\<lparr>Keycloak_Version := ''7.5'', Keycloak_Host := ''sso.example''\<rparr>)\<rparr>"

definition deprecatedResource :: ArgoCD_alpha where
  "deprecatedResource = zero_ArgoCD_alpha\<lparr>aArgoCD_Spec := zero_ArgoCDSpec_alpha\<lparr>aSpec_SSO := Some deprecatedSSO,
     aSpec_Dex := Some (zero_ArgoCDDexSpec_alpha\<lparr>aDex_OpenShiftOAuth := True\<rparr>)\<rparr>\<rparr>"

theorem ConvertTo_deprecated_witness:
  "map_option bSSO_Keycloak (bSpec_SSO (bArgoCD_Spec (snd (ConvertTo deprecatedResource zero_ArgoCD_beta)))) =
   Some (Some (zero_ArgoCDKeycloakSpec\<lparr>Keycloak_Image := ''registry/sso'', Keycloak_Host := ''sso.example''\<rparr>))"
  using ConvertTo_deprecated [of deprecatedResource deprecatedSSO
      "zero_ArgoCDDexSpec_alpha\<lparr>aDex_OpenShiftOAuth := True\<rparr>" zero_ArgoCD_beta]
  by (simp add: deprecatedResource_def deprecatedSSO_def keycloakDeprecated_def zero_ArgoCDSSOSpec_alpha_def
      zero_ArgoCDKeycloakSpec_def)

end
