(* ===== verification/Local_Users.thy ===== *)
theory Local_Users
  imports Client_Wrapper
begin

text \<open>
  Local users of an Argo CD instance (\<open>argocd-operator/controllers/argocd/localusers.go\<close>): for each user
  of the custom resource the operator keeps an API token, in a Secret of its own and in
  \<open>argocd-secret\<close>, issues it, renews it when a timer says it has expired, and revokes it. The state is
  the cluster, the timers the reconciler has started with the map that names the current one of each
  user, and how often the clock or the random source has been read. Timers and their \<open>stopped\<close> flags are
  shared between the map and the functions that fire, so they live in a pool and are named by their
  index. Definitions only; the properties are in Local_Users_Correct.
\<close>

section \<open>Standard library\<close>

text \<open>\<open>strconv.FormatInt(i, 10)\<close> and \<open>strconv.ParseInt(s, 10, 64)\<close>.\<close>

definition digitChar :: "nat \<Rightarrow> char" where
  "digitChar d = char_of (48 + d)"

fun FormatNat :: "nat \<Rightarrow> string" where
  "FormatNat n = (if n < 10 then [digitChar n] else FormatNat (n div 10) @ [digitChar (n mod 10)])"

declare FormatNat.simps [simp del]

definition FormatInt :: "int \<Rightarrow> string" where
  "FormatInt i = (if i < 0 then ''-'' @ FormatNat (nat (- i)) else FormatNat (nat i))"

definition digitValue :: "char \<Rightarrow> nat option" where
  "digitValue c = (let n = of_char c :: nat in if 48 \<le> n \<and> n \<le> 57 then Some (n - 48) else None)"

fun ParseDigits :: "nat \<Rightarrow> string \<Rightarrow> nat option" where
  "ParseDigits acc [] = Some acc"
| "ParseDigits acc (c # cs) = (case digitValue c of None \<Rightarrow> None | Some d \<Rightarrow> ParseDigits (10 * acc + d) cs)"

definition ParseInt64 :: "string \<Rightarrow> go_error + int" where
  "ParseInt64 s =
     (let neg = HasPrefix s ''-'';
          ds = (if neg \<or> HasPrefix s ''+'' then tl s else s)
      in if ds = '''' then Inl (ErrorText ''invalid syntax'')
         else (case ParseDigits 0 ds of
             None \<Rightarrow> Inl (ErrorText ''invalid syntax'')
           | Some n \<Rightarrow>
               if \<not> neg \<and> n \<ge> 2 ^ 63 \<or> neg \<and> n > 2 ^ 63 then Inl (ErrorText ''value out of range'')
               else Inr (if neg then - int n else int n)))"

definition HasSuffix :: "string \<Rightarrow> string \<Rightarrow> bool" where
  "HasSuffix s x = suffix x s"

definition ContainsStr :: "string \<Rightarrow> string \<Rightarrow> bool" where
  "ContainsStr s x = sublist x s"

text \<open>Times and durations are nanoseconds; \<open>Unix\<close> and \<open>time.Unix\<close> convert to and from seconds.\<close>

definition second :: int where "second = 1000000000"

definition Unix :: "int \<Rightarrow> int" where "Unix t = t div second"

definition timeUnix :: "int \<Rightarrow> int" where "timeUnix s = s * second"

section \<open>What the token code takes from outside\<close>

text \<open>The readings of the clock and of the random source, in the order they are made, and the
  libraries: \<open>time.ParseDuration\<close>, the JWT signature, and the JSON of Argo CD's list of tokens.\<close>

record jwt_claims =
  jcIssuer :: string
  jcSubject :: string
  jcID :: string
  jcIssuedAt :: int
  jcNotBefore :: int
  jcExpiresAt :: "int option"

record account_token =
  atID :: string
  atIssuedAt :: int
  atExpiresAt :: int

record token_lib =
  clock :: "nat \<Rightarrow> int"
  newUUID :: "nat \<Rightarrow> go_error + string"
  parseDuration :: "string \<Rightarrow> go_error + int"
  signJWT :: "jwt_claims \<Rightarrow> string \<Rightarrow> go_error + string"
  marshalTokens :: "account_token list \<Rightarrow> go_error + string"

section \<open>State\<close>

record renewal_timer =
  tmKey :: string
  tmAfter :: int
  tmStopped :: bool

record 'w users_state =
  luWorld :: 'w
  luTimers :: "(string, nat) fmap"
  luPool :: "renewal_timer list"
  luTick :: nat

definition onWorld :: "('w, 'a) act \<Rightarrow> ('w users_state, 'a) act" where
  "onWorld m = (\<lambda>s. case m (luWorld s) of (r, w') \<Rightarrow> (r, s\<lparr>luWorld := w'\<rparr>))"

definition modifyS :: "('s \<Rightarrow> 's) \<Rightarrow> ('s, unit) act" where
  "modifyS f = (\<lambda>s. (Ok (), f s))"

definition readClock :: "token_lib \<Rightarrow> ('w users_state, int) act" where
  "readClock t = (\<lambda>s. (Ok (clock t (luTick s)), s\<lparr>luTick := Suc (luTick s)\<rparr>))"

definition readUUID :: "token_lib \<Rightarrow> ('w users_state, string) act" where
  "readUUID t = (\<lambda>s. (case newUUID t (luTick s) of Inl err \<Rightarrow> Err err | Inr u \<Rightarrow> Ok u, s\<lparr>luTick := Suc (luTick s)\<rparr>))"

section \<open>Names and timers\<close>

definition localUserApiKey :: string where "localUserApiKey = ''apiKey''"
definition localUserSecretComponent :: string where "localUserSecretComponent = ''local-users''"
definition localUserApiToken :: string where "localUserApiToken = ''apiToken''"
definition localUserAutoRenew :: string where "localUserAutoRenew = ''autoRenew''"
definition localUserExpiresAt :: string where "localUserExpiresAt = ''expAt''"
definition localUserTokenLifetime :: string where "localUserTokenLifetime = ''tokenLifetime''"
definition localUserUser :: string where "localUserUser = ''user''"
definition ArgoCDSecretName :: string where "ArgoCDSecretName = ''argocd-secret''"
definition ArgoCDKeyComponent :: string where "ArgoCDKeyComponent = ''app.kubernetes.io/component''"
definition ArgoCDKeyName :: string where "ArgoCDKeyName = ''app.kubernetes.io/name''"
definition ArgoCDKeyPartOf :: string where "ArgoCDKeyPartOf = ''app.kubernetes.io/part-of''"
definition ArgoCDKeyManagedBy :: string where "ArgoCDKeyManagedBy = ''app.kubernetes.io/managed-by''"

definition secretNameLocalUser :: "LocalUserSpec \<Rightarrow> string" where
  "secretNameLocalUser user = LocalUser_Name user @ ''-local-user''"

definition tokenRenewalTimerKeyLocalUser :: "string \<Rightarrow> string \<Rightarrow> string" where
  "tokenRenewalTimerKeyLocalUser ns name = ns @ ''/'' @ name"

definition tokensKey :: "string \<Rightarrow> string" where
  "tokensKey name = ''accounts.'' @ name @ ''.tokens''"

definition stopTimer :: "nat \<Rightarrow> renewal_timer list \<Rightarrow> renewal_timer list" where
  "stopTimer i pool = pool[i := (pool ! i)\<lparr>tmStopped := True\<rparr>]"

definition stopLocalUserTimer :: "string \<Rightarrow> string \<Rightarrow> 'w users_state \<Rightarrow> 'w users_state" where
  "stopLocalUserTimer ns userName s =
     (let key = tokenRenewalTimerKeyLocalUser ns userName
      in case fmlookup (luTimers s) key of
           None \<Rightarrow> s
         | Some i \<Rightarrow> s\<lparr>luPool := stopTimer i (luPool s), luTimers := fmdrop key (luTimers s)\<rparr>)"

definition startOrRestartLocalUserTimer :: "string \<Rightarrow> string \<Rightarrow> int \<Rightarrow> 'w users_state \<Rightarrow> 'w users_state" where
  "startOrRestartLocalUserTimer ns userName tokenDuration s0 =
     (let s = stopLocalUserTimer ns userName s0;
          key = tokenRenewalTimerKeyLocalUser ns userName
      in s\<lparr>luPool := luPool s @ [\<lparr>tmKey = key, tmAfter = tokenDuration, tmStopped = False\<rparr>],
           luTimers := fmupd key (length (luPool s)) (luTimers s)\<rparr>)"

definition cleanupNamespaceTokenTimers :: "string \<Rightarrow> 'w users_state \<Rightarrow> 'w users_state" where
  "cleanupNamespaceTokenTimers namespace s =
     (let p = namespace @ ''/'';
          ids = fmran (fmfilter (\<lambda>k. HasPrefix k p) (luTimers s))
      in s\<lparr>luPool := map (\<lambda>i. if i |\<in>| ids then (luPool s ! i)\<lparr>tmStopped := True\<rparr> else luPool s ! i) [0 ..< length (luPool s)],
           luTimers := fmfilter (\<lambda>k. \<not> HasPrefix k p) (luTimers s)\<rparr>)"

section \<open>Secrets\<close>

definition LabelsForCluster :: "argocd \<Rightarrow> gomap" where
  "LabelsForCluster cr = gmap [(ArgoCDKeyName, metaName (acMeta cr)), (ArgoCDKeyPartOf, ArgoCDAppName),
     (ArgoCDKeyManagedBy, metaName (acMeta cr))]"

definition NewSecret :: "argocd \<Rightarrow> secret" where
  "NewSecret cr = \<lparr>secMeta = AddTrackedByOperatorLabel ((mkMeta '''' '''')\<lparr>metaLabels := LabelsForCluster cr\<rparr>),
     secType = ''Opaque'', secData = None, secStringData = None\<rparr>"

definition NewSecretWithName :: "env \<Rightarrow> argocd \<Rightarrow> string \<Rightarrow> secret" where
  "NewSecretWithName e cr name =
     (let truncatedName = TruncateWithHash e name maxLabelLength;
          sec = NewSecret cr
      in sec\<lparr>secMeta := (secMeta sec)\<lparr>metaName := truncatedName, metaNamespace := metaNamespace (acMeta cr),
           metaLabels := gput (metaLabels (secMeta sec)) ArgoCDKeyName truncatedName\<rparr>\<rparr>)"

definition IsObjectFound :: "'w client \<Rightarrow> (obj \<Rightarrow> 'a option) \<Rightarrow> key \<Rightarrow> ('w, 'a option) act" where
  "IsObjectFound c cast k = handle (getAs c cast k)
     (\<lambda>err. if IsNotFound err then ret None else fail err) (\<lambda>x. ret (Some x))"

definition secretKey :: "argocd \<Rightarrow> string \<Rightarrow> key" where
  "secretKey cr name = (KSecret, metaNamespace (acMeta cr), name)"

definition getArgoCDSigningKey :: "'w client \<Rightarrow> argocd \<Rightarrow> ('w, string) act" where
  "getArgoCDSigningKey c cr =
     handle (IsObjectFound c as_secret (secretKey cr ArgoCDSecretName))
       (\<lambda>err. fail (Wrapped (''error retrieving secret '' @ ArgoCDSecretName) err))
       (\<lambda>found. case found of
           None \<Rightarrow> fail (ErrorText (''could not find secret '' @ ArgoCDSecretName))
         | Some argoCDSecret \<Rightarrow> (case gget (secData argoCDSecret) ''server.secretkey'' of
               None \<Rightarrow> fail (ErrorText (''could not find server.secretkey in secret '' @ metaName (secMeta argoCDSecret)))
             | Some signingKey \<Rightarrow> ret signingKey))"

text \<open>\<open>m[k] = v\<close>, which panics on a nil map.\<close>

definition setData :: "string \<Rightarrow> string \<Rightarrow> secret \<Rightarrow> secret outcome" where
  "setData k v s = (case secData s of None \<Rightarrow> Panic NilMapWrite | Some f \<Rightarrow> Ok (s\<lparr>secData := Some (fmupd k v f)\<rparr>))"

section \<open>Issuing a token\<close>

definition createJWTToken :: "token_lib \<Rightarrow> string \<Rightarrow> int \<Rightarrow> int \<Rightarrow> string \<Rightarrow> string \<Rightarrow> go_error + string" where
  "createJWTToken t subject issuedAt expiresIn tokenID serverSignature =
     signJWT t \<lparr>jcIssuer = ''argocd'', jcSubject = subject, jcID = tokenID, jcIssuedAt = issuedAt, jcNotBefore = issuedAt,
       jcExpiresAt = (if expiresIn > 0 then Some (issuedAt + expiresIn) else None)\<rparr> serverSignature"

definition autoRenewValue :: "LocalUserSpec \<Rightarrow> string" where
  "autoRenewValue user = (if LocalUser_AutoRenewToken user = None \<or> LocalUser_AutoRenewToken user = Some True
     then ''true'' else ''false'')"

text \<open>The user secret to write: the one found (with \<open>True\<close>), or a new one the instance controls.\<close>

definition userSecretFor :: "env \<Rightarrow> 'w client \<Rightarrow> argocd \<Rightarrow> LocalUserSpec \<Rightarrow> ('w, bool \<times> secret) act" where
  "userSecretFor e c cr user =
     handle (getAs c as_secret (secretKey cr (secretNameLocalUser user)))
       (\<lambda>err. if IsNotFound err
          then (let sec = NewSecretWithName e cr (secretNameLocalUser user);
                    m = (secMeta sec)\<lparr>metaLabels := gput (metaLabels (secMeta sec)) ArgoCDKeyComponent localUserSecretComponent\<rparr>
                in bindG (liftE (SetControllerReference e (acMeta cr) m)) (\<lambda>m'. ret (False, sec\<lparr>secMeta := m'\<rparr>)))
          else fail (Wrapped (''failed to get user secret for user '' @ LocalUser_Name user) err))
       (\<lambda>s. ret (True, s))"

definition addAccountToken :: "'w client \<Rightarrow> argocd \<Rightarrow> string \<Rightarrow> string \<Rightarrow> ('w, unit) act" where
  "addAccountToken c cr name tokens =
     bindG (getAs c as_secret (secretKey cr ArgoCDSecretName)) (\<lambda>argoCDSecret.
     bindG (liftO (setData (tokensKey name) tokens argoCDSecret)) (\<lambda>s. updateO c (OSecret s)))"

definition issueToken ::
  "env \<Rightarrow> token_lib \<Rightarrow> 'w client \<Rightarrow> argocd \<Rightarrow> LocalUserSpec \<Rightarrow> string \<Rightarrow> int \<Rightarrow> ('w users_state, unit) act" where
  "issueToken e t c cr user tokenLifetime tokenDuration =
     bindG (onWorld (userSecretFor e c cr user)) (\<lambda>(secretExists, userSecret).
     bindG (mapErr (Wrapped (''failed to generate unique ID for token for user '' @ LocalUser_Name user)) (readUUID t)) (\<lambda>uniqueId.
     bindG (readClock t) (\<lambda>issuedAt.
     let expiresAt = (if tokenDuration > 0 then Unix (issuedAt + tokenDuration) else 0) in
     bindG (mapErr (Formatted (''unable to retrieve Argo CD signing key when attempting to issue token for user '' @ LocalUser_Name user))
              (onWorld (getArgoCDSigningKey c cr))) (\<lambda>signingKey.
     let subject = LocalUser_Name user @ '':'' @ localUserApiKey in
     bindG (mapErr (Wrapped (''error creating token for user '' @ LocalUser_Name user))
              (liftE (createJWTToken t subject issuedAt tokenDuration uniqueId signingKey))) (\<lambda>jwtToken.
     let userSecret' = userSecret\<lparr>secData := gmap
            [(localUserUser, LocalUser_Name user), (localUserExpiresAt, FormatInt expiresAt),
             (localUserTokenLifetime, tokenLifetime), (localUserAutoRenew, autoRenewValue user),
             (localUserApiToken, jwtToken)]\<rparr> in
     thenG (onWorld (if secretExists then updateO c (OSecret userSecret') else createO c (OSecret userSecret')))
     (bindG (liftE (marshalTokens t [\<lparr>atID = uniqueId, atIssuedAt = Unix issuedAt, atExpiresAt = expiresAt\<rparr>])) (\<lambda>tokens.
        onWorld (addAccountToken c cr (LocalUser_Name user) tokens))))))))"

section \<open>Removing a token\<close>

definition removeAccountToken :: "'w client \<Rightarrow> argocd \<Rightarrow> string \<Rightarrow> ('w, unit) act" where
  "removeAccountToken c cr userName =
     bindG (getAs c as_secret (secretKey cr ArgoCDSecretName)) (\<lambda>argoCDSecret.
       if gget (secData argoCDSecret) (tokensKey userName) \<noteq> None
       then updateO c (OSecret (argoCDSecret\<lparr>secData := gdelete (secData argoCDSecret) (tokensKey userName)\<rparr>))
       else ret ())"

definition keptInExtraConfig :: "argocd \<Rightarrow> string \<Rightarrow> bool" where
  "keptInExtraConfig cr userName =
     ContainsStr (gindex (acExtraConfig (acSpec cr)) (''accounts.'' @ userName)) localUserApiKey"

definition deleteUserSecret :: "'w client \<Rightarrow> secret \<Rightarrow> ('w, unit) act" where
  "deleteUserSecret c sec = handle (deleteO c (okey (OSecret sec)))
     (\<lambda>err. if \<not> IsNotFound err then fail err else ret ()) (\<lambda>_. ret ())"

definition cleanupLocalUser :: "'w client \<Rightarrow> argocd \<Rightarrow> string \<Rightarrow> secret option \<Rightarrow> ('w, unit) act" where
  "cleanupLocalUser c cr userName localUserSecret =
     thenG (if \<not> keptInExtraConfig cr userName then removeAccountToken c cr userName else ret ())
       (case localUserSecret of None \<Rightarrow> ret () | Some sec \<Rightarrow> deleteUserSecret c sec)"

text \<open>The list of the user secrets of a namespace: the API server selects by label and namespace.\<close>

definition listLocalUserSecrets :: "'w client \<Rightarrow> string \<Rightarrow> ('w, secret list) act" where
  "listLocalUserSecrets c ns =
     bindG (listO c KSecret) (\<lambda>xs. ret (filter (\<lambda>s. metaNamespace (secMeta s) = ns \<and>
         gget (metaLabels (secMeta s)) ArgoCDKeyComponent = Some localUserSecretComponent)
       (List.map_filter as_secret xs)))"

definition cleanupTurn :: "'w client \<Rightarrow> argocd \<Rightarrow> secret \<Rightarrow> ('w users_state, unit) act" where
  "cleanupTurn c cr localUserSecret =
     (let userName = gindex (secData localUserSecret) localUserUser
      in if \<exists>user\<in>set (elems (acLocalUsers (acSpec cr))). userName = LocalUser_Name user then ret ()
         else thenG (modifyS (stopLocalUserTimer (metaNamespace (acMeta cr)) userName))
                    (onWorld (cleanupLocalUser c cr userName (Some localUserSecret))))"

definition cleanupLocalUsers :: "'w client \<Rightarrow> argocd \<Rightarrow> ('w users_state, unit) act" where
  "cleanupLocalUsers c cr =
     bindG (onWorld (listLocalUserSecrets c (metaNamespace (acMeta cr)))) (\<lambda>secrets. forG (cleanupTurn c cr) secrets)"

section \<open>Reconciling one user\<close>

text \<open>Why the timer of a user must not run, if it must not; the last reason that applies.\<close>

definition reasonToStopTimer :: "LocalUserSpec \<Rightarrow> string" where
  "reasonToStopTimer user =
     (let r1 = (if LocalUser_Enabled user = Some False then ''user is not enabled'' else '''');
          r2 = (if LocalUser_AutoRenewToken user = Some False then ''token auto renew is false'' else r1);
          r3 = (if LocalUser_TokenLifetime user = '''' \<or> LocalUser_TokenLifetime user = ''0''
                then ''token lifetime is set not to expire: infinite lifetime'' else r2)
      in if LocalUser_ApiKey user = Some False then ''apiKey field of user is false'' else r3)"

definition apikeyIsFalseOrEnabledIsFalse :: "LocalUserSpec \<Rightarrow> bool" where
  "apikeyIsFalseOrEnabledIsFalse user = (LocalUser_ApiKey user = Some False \<or> LocalUser_Enabled user = Some False)"

definition tokenSettings :: "token_lib \<Rightarrow> LocalUserSpec \<Rightarrow> go_error + string \<times> int" where
  "tokenSettings t user =
     (if LocalUser_TokenLifetime user = '''' then Inr (''0h'', 0)
      else (case parseDuration t (LocalUser_TokenLifetime user) of
          Inl err \<Rightarrow> Inl (Wrapped (''failed to parse token lifetime for user '' @ LocalUser_Name user) err)
        | Inr val \<Rightarrow>
            if val < 0 then Inl (ErrorText (''token lifetime for user '' @ LocalUser_Name user @ '' must not be negative''))
            else Inr (if val = 0 then ''0h'' else LocalUser_TokenLifetime user, val)))"

text \<open>A user whose secret exists and is to have one.\<close>

definition tokenOutdated :: "token_lib \<Rightarrow> string \<Rightarrow> int \<Rightarrow> string \<Rightarrow> secret \<Rightarrow> int \<Rightarrow> ('w users_state, bool) act" where
  "tokenOutdated t tokenLifetime tokenDuration autoRenew localUserSecret expAt =
     (let b = (tokenLifetime \<noteq> gindex (secData localUserSecret) localUserTokenLifetime \<or> expAt = 0 \<and> tokenDuration \<noteq> 0)
      in if autoRenew = ''true'' \<and> expAt \<noteq> 0
         then bindG (readClock t) (\<lambda>now. ret (b \<or> now > timeUnix expAt))
         else ret b)"

definition accountTokenMissing :: "'w client \<Rightarrow> argocd \<Rightarrow> LocalUserSpec \<Rightarrow> ('w, bool) act" where
  "accountTokenMissing c cr user =
     handle (getAs c as_secret (secretKey cr ArgoCDSecretName))
       (\<lambda>err. fail (Formatted (''unable to retrieve Argo CD Secret '' @ ArgoCDSecretName) err))
       (\<lambda>argoCDSecret. ret (gget (secData argoCDSecret) (tokensKey (LocalUser_Name user)) = None))"

definition issueAndSchedule ::
  "env \<Rightarrow> token_lib \<Rightarrow> 'w client \<Rightarrow> argocd \<Rightarrow> LocalUserSpec \<Rightarrow> string \<Rightarrow> int \<Rightarrow> string \<Rightarrow> ('w users_state, unit) act" where
  "issueAndSchedule e t c cr user tokenLifetime tokenDuration autoRenew =
     thenG (issueToken e t c cr user tokenLifetime tokenDuration)
       (if tokenDuration > 0 \<and> autoRenew = ''true''
        then modifyS (startOrRestartLocalUserTimer (metaNamespace (acMeta cr)) (LocalUser_Name user) tokenDuration)
        else ret ())"

definition ensureScheduled :: "token_lib \<Rightarrow> argocd \<Rightarrow> LocalUserSpec \<Rightarrow> int \<Rightarrow> string \<Rightarrow> int \<Rightarrow> ('w users_state, unit) act" where
  "ensureScheduled t cr user tokenDuration autoRenew expAt =
     (let ns = metaNamespace (acMeta cr);
          start = (\<lambda>d. modifyS (startOrRestartLocalUserTimer ns (LocalUser_Name user) d))
      in if autoRenew = ''true'' \<and> tokenDuration \<noteq> 0
         then (\<lambda>s. case fmlookup (luTimers s) (tokenRenewalTimerKeyLocalUser ns (LocalUser_Name user)) of
                 Some _ \<Rightarrow> (Ok (), s)
               | None \<Rightarrow>
                   if expAt \<noteq> 0 then bindG (readClock t) (\<lambda>now. start (timeUnix expAt - now)) s
                   else start tokenDuration s)
         else ret ())"

definition updateAutoRenew :: "'w client \<Rightarrow> LocalUserSpec \<Rightarrow> string \<Rightarrow> secret \<Rightarrow> ('w, unit) act" where
  "updateAutoRenew c user autoRenew localUserSecret =
     (if gindex (secData localUserSecret) localUserAutoRenew \<noteq> autoRenew
      then bindG (liftO (setData localUserAutoRenew autoRenew localUserSecret)) (\<lambda>s.
             mapErr (Formatted (''unable to update local user secret for user '' @ LocalUser_Name user)) (updateO c (OSecret s)))
      else ret ())"

definition reconcileExistingToken ::
  "env \<Rightarrow> token_lib \<Rightarrow> 'w client \<Rightarrow> argocd \<Rightarrow> LocalUserSpec \<Rightarrow> string \<Rightarrow> int \<Rightarrow> secret \<Rightarrow> ('w users_state, unit) act" where
  "reconcileExistingToken e t c cr user tokenLifetime tokenDuration localUserSecret =
     (let autoRenew = (if LocalUser_AutoRenewToken user = Some False then ''false'' else ''true'')
      in bindG (mapErr (Wrapped (''failed to convert value to int64 from user secret '' @ metaName (secMeta localUserSecret)))
                  (liftE (ParseInt64 (gindex (secData localUserSecret) localUserExpiresAt)))) (\<lambda>expAt.
         bindG (tokenOutdated t tokenLifetime tokenDuration autoRenew localUserSecret expAt) (\<lambda>outdated.
         bindG (if outdated then ret True else onWorld (accountTokenMissing c cr user)) (\<lambda>deleteAndCreateNewToken.
         if deleteAndCreateNewToken
         then handle (issueToken e t c cr user tokenLifetime tokenDuration)
                (\<lambda>err. fail (Formatted (''unable to issue new token for user '' @ LocalUser_Name user) err))
                (\<lambda>_. if tokenDuration > 0 \<and> autoRenew = ''true''
                      then modifyS (startOrRestartLocalUserTimer (metaNamespace (acMeta cr)) (LocalUser_Name user) tokenDuration)
                      else ret ())
         else thenG (onWorld (updateAutoRenew c user autoRenew localUserSecret))
                    (ensureScheduled t cr user tokenDuration autoRenew expAt)))))"

definition reconcileLocalUser ::
  "env \<Rightarrow> token_lib \<Rightarrow> 'w client \<Rightarrow> argocd \<Rightarrow> LocalUserSpec \<Rightarrow> ('w users_state, unit) act" where
  "reconcileLocalUser e t c cr user0 =
     (let user = user0\<lparr>LocalUser_TokenLifetime := TrimSpace (LocalUser_TokenLifetime user0)\<rparr>;
          ns = metaNamespace (acMeta cr);
          autoRenew = (if LocalUser_AutoRenewToken user = Some False then ''false'' else ''true'')
      in thenG (if reasonToStopTimer user \<noteq> '''' then modifyS (stopLocalUserTimer ns (LocalUser_Name user)) else ret ())
        (bindG (liftE (tokenSettings t user)) (\<lambda>(tokenLifetime, tokenDuration).
           handle (onWorld (getAs c as_secret (secretKey cr (secretNameLocalUser user))))
             (\<lambda>err. if IsNotFound err
                then (if apikeyIsFalseOrEnabledIsFalse user
                      then onWorld (cleanupLocalUser c cr (LocalUser_Name user) None)
                      else issueAndSchedule e t c cr user tokenLifetime tokenDuration autoRenew)
                else fail (Wrapped (''failed to get user secret for user '' @ LocalUser_Name user) err))
             (\<lambda>localUserSecret.
                if apikeyIsFalseOrEnabledIsFalse user
                then onWorld (cleanupLocalUser c cr (LocalUser_Name user) (Some localUserSecret))
                else reconcileExistingToken e t c cr user tokenLifetime tokenDuration localUserSecret))))"

section \<open>Reconciling all users\<close>

definition localUsersInExtraConfig :: "argocd \<Rightarrow> string fset" where
  "localUsersInExtraConfig cr = (case acExtraConfig (acSpec cr) of
      None \<Rightarrow> {||}
    | Some m \<Rightarrow> drop (length ''accounts.'') |`|
        ffilter (\<lambda>k. HasPrefix k ''accounts.'' \<and> \<not> HasSuffix k ''.enabled'' \<and>
          \<not> ContainsStr (drop (length ''accounts.'') k) ''.'') (fmdom m))"

definition reconcileLocalUsers ::
  "env \<Rightarrow> token_lib \<Rightarrow> 'w client \<Rightarrow> argocd \<Rightarrow> ('w users_state, unit) act" where
  "reconcileLocalUsers e t c cr0 =
     handle (onWorld (getAs c as_argocd (KArgoCD, metaNamespace (acMeta cr0), metaName (acMeta cr0))))
       (\<lambda>err. if IsNotFound err then ret ()
              else fail (Formatted ''unable to retrieve ArgoCD CR in reconcileLocalUsers'' err))
       (\<lambda>cr. thenG (forG (\<lambda>user.
                 if LocalUser_Name user |\<in>| localUsersInExtraConfig cr then ret ()
                 else reconcileLocalUser e t c cr user) (elems (acLocalUsers (acSpec cr))))
               (cleanupLocalUsers c cr))"

end
