(* ===== verification/Local_Users_Correct.thy ===== *)
theory Local_Users_Correct
  imports Local_Users
begin

text \<open>
  The tokens of local users (\<open>localusers.go\<close>): that reconciling a user leaves a valid token or none at
  all, that removal is complete and in an order that survives failures, that the timers of the operator
  are one for each user, and what happens to users with long names. Reads of Secrets may label them, so
  the statements speak of the data of a Secret (\<open>secret_value\<close>).
\<close>

section \<open>The data of the secrets of a cluster\<close>

definition secret_data :: "('w \<Rightarrow> key \<Rightarrow> obj option) \<Rightarrow> 'w \<Rightarrow> key \<Rightarrow> gomap option" where
  "secret_data view w k = map_option secData (Option.bind (view w k) as_secret)"

definition secret_value :: "('w \<Rightarrow> key \<Rightarrow> obj option) \<Rightarrow> 'w \<Rightarrow> key \<Rightarrow> string \<Rightarrow> string option" where
  "secret_value view w k d = Option.bind (secret_data view w k) (\<lambda>m. gget m d)"

section \<open>Computations over the cluster and over the timers\<close>

lemma onWorld_iff:
  "onWorld m s = (r, s') \<longleftrightarrow> (\<exists>w'. m (luWorld s) = (r, w') \<and> s' = s\<lparr>luWorld := w'\<rparr>)"
  by (auto simp: onWorld_def split: prod.splits)

lemma modifyS_iff: "modifyS f s = (r, s') \<longleftrightarrow> r = Ok () \<and> s' = f s"
  by (auto simp: modifyS_def)

lemma readClock_iff:
  "readClock t s = (r, s') \<longleftrightarrow> r = Ok (clock t (luTick s)) \<and> s' = s\<lparr>luTick := Suc (luTick s)\<rparr>"
  by (auto simp: readClock_def)

lemma readUUID_Ok_iff:
  "readUUID t s = (Ok u, s') \<longleftrightarrow> newUUID t (luTick s) = Inr u \<and> s' = s\<lparr>luTick := Suc (luTick s)\<rparr>"
  by (auto simp: readUUID_def split: sum.splits)

lemmas lu_iff = onWorld_iff modifyS_iff readClock_iff readUUID_Ok_iff

section \<open>Timers\<close>

text \<open>The map holds exactly the timers that have not been stopped, each under its own key.\<close>

definition timers_ok :: "'w users_state \<Rightarrow> bool" where
  "timers_ok s \<longleftrightarrow> (\<forall>k i. fmlookup (luTimers s) k = Some i \<longleftrightarrow>
     i < length (luPool s) \<and> tmKey (luPool s ! i) = k \<and> \<not> tmStopped (luPool s ! i))"

definition timers_step :: "'w users_state \<Rightarrow> 'w users_state \<Rightarrow> bool" where
  "timers_step s s' \<longleftrightarrow> (timers_ok s \<longrightarrow> timers_ok s')"

interpretation tm: world_relation timers_step
  by unfold_locales (auto simp: timers_step_def)

lemma timers_ok_same:
  "luTimers s' = luTimers s \<Longrightarrow> luPool s' = luPool s \<Longrightarrow> timers_ok s' = timers_ok s"
  by (simp add: timers_ok_def)

lemma stop_timers_ok:
  assumes "timers_ok s"
  shows "timers_ok (stopLocalUserTimer ns u s)"
proof (cases "fmlookup (luTimers s) (tokenRenewalTimerKeyLocalUser ns u)")
  case None
  then show ?thesis using assms by (simp add: stopLocalUserTimer_def Let_def)
next
  case (Some j)
  then have st: "stopLocalUserTimer ns u s = s\<lparr>luPool := stopTimer j (luPool s),
      luTimers := fmdrop (tokenRenewalTimerKeyLocalUser ns u) (luTimers s)\<rparr>"
    by (simp add: stopLocalUserTimer_def Let_def)
  from Some have "j < length (luPool s)" "tmKey (luPool s ! j) = tokenRenewalTimerKeyLocalUser ns u"
    using assms by (auto simp: timers_ok_def)
  with assms show ?thesis
    unfolding st by (auto simp: timers_ok_def stopTimer_def nth_list_update) (metis Some option.inject)
qed

lemma stop_lookup: "fmlookup (luTimers (stopLocalUserTimer ns u s)) (tokenRenewalTimerKeyLocalUser ns u) = None"
  by (auto simp: stopLocalUserTimer_def Let_def split: option.split)

lemma start_timers_ok:
  assumes "timers_ok s"
  shows "timers_ok (startOrRestartLocalUserTimer ns u d s)"
proof -
  let ?s = "stopLocalUserTimer ns u s" and ?k = "tokenRenewalTimerKeyLocalUser ns u"
  have "timers_ok ?s" by (rule stop_timers_ok[OF assms])
  moreover have "fmlookup (luTimers ?s) ?k = None" by (rule stop_lookup)
  ultimately show ?thesis
    by (auto simp: timers_ok_def startOrRestartLocalUserTimer_def Let_def nth_append less_Suc_eq)
      (metis option.distinct(1))+
qed

lemma start_lookup:
  "fmlookup (luTimers (startOrRestartLocalUserTimer ns u d s)) (tokenRenewalTimerKeyLocalUser ns u) \<noteq> None"
  by (simp add: startOrRestartLocalUserTimer_def Let_def)

lemma start_world [simp]: "luWorld (startOrRestartLocalUserTimer ns u d s) = luWorld s"
  by (simp add: startOrRestartLocalUserTimer_def stopLocalUserTimer_def Let_def split: option.split)

lemma stop_world [simp]: "luWorld (stopLocalUserTimer ns u s) = luWorld s"
  by (simp add: stopLocalUserTimer_def Let_def split: option.split)

lemma cleanup_timers_ok:
  assumes "timers_ok s"
  shows "timers_ok (cleanupNamespaceTokenTimers ns s)"
proof -
  have eq: "fmlookup (luTimers s) k = Some i \<longleftrightarrow>
      i < length (luPool s) \<and> tmKey (luPool s ! i) = k \<and> \<not> tmStopped (luPool s ! i)" for k i
    using assms unfolding timers_ok_def by blast
  have ids: "i |\<in>| fmran (fmfilter (\<lambda>k. HasPrefix k p) (luTimers s)) \<longleftrightarrow>
      i < length (luPool s) \<and> HasPrefix (tmKey (luPool s ! i)) p \<and> \<not> tmStopped (luPool s ! i)" for i p
    unfolding fmlookup_ran_iff fmlookup_filter by (auto simp: eq)
  show ?thesis
    unfolding timers_ok_def cleanupNamespaceTokenTimers_def Let_def ids by (auto simp: eq)
qed

lemma onWorld_tm: "act_rel timers_step (onWorld m)"
  by (auto simp: act_rel_def timers_step_def onWorld_def timers_ok_def split: prod.splits)

lemma modify_tm: "(\<And>s. timers_ok s \<Longrightarrow> timers_ok (f s)) \<Longrightarrow> act_rel timers_step (modifyS f)"
  by (simp add: act_rel_def timers_step_def modifyS_def)

lemma read_tm: "act_rel timers_step (readClock t)" "act_rel timers_step (readUUID t)"
  by (auto simp: act_rel_def timers_step_def readClock_def readUUID_def timers_ok_def split: sum.splits)

lemmas tm_intros = tm.rel_intros onWorld_tm read_tm modify_tm stop_timers_ok start_timers_ok

lemma issueToken_tm: "act_rel timers_step (issueToken e t c cr user lt td)"
  unfolding issueToken_def Let_def case_prod_unfold by (intro tm_intros)

lemma ensureScheduled_tm: "act_rel timers_step (ensureScheduled t cr user td ar x)"
proof -
  let ?start = "\<lambda>d. modifyS (startOrRestartLocalUserTimer (metaNamespace (acMeta cr)) (LocalUser_Name user) d)"
  have now: "act_rel timers_step (?start td)"
    by (intro tm_intros)
  have later: "act_rel timers_step (bindG (readClock t) (\<lambda>now. ?start (timeUnix x - now)))"
    by (intro tm_intros)
  show ?thesis
    using now later tm.R_refl
    by (auto simp: ensureScheduled_def Let_def act_rel_def split: option.split)
qed

lemma reconcileExistingToken_tm: "act_rel timers_step (reconcileExistingToken e t c cr user lt td sec)"
  unfolding reconcileExistingToken_def tokenOutdated_def Let_def by (intro tm_intros issueToken_tm ensureScheduled_tm)

lemma reconcileLocalUser_tm: "act_rel timers_step (reconcileLocalUser e t c cr user)"
  unfolding reconcileLocalUser_def issueAndSchedule_def Let_def case_prod_unfold
  by (intro tm_intros issueToken_tm reconcileExistingToken_tm)

lemma cleanupLocalUsers_tm: "act_rel timers_step (cleanupLocalUsers c cr)"
  unfolding cleanupLocalUsers_def cleanupTurn_def Let_def by (intro tm_intros)

lemma reconcileLocalUsers_tm: "act_rel timers_step (reconcileLocalUsers e t c cr)"
  unfolding reconcileLocalUsers_def by (intro tm_intros reconcileLocalUser_tm cleanupLocalUsers_tm)

section \<open>Secrets through the client\<close>

lemma okey_secret: "okey (OSecret s) = (KSecret, metaNamespace (secMeta s), metaName (secMeta s))"
  by (simp add: okey_def)

lemma okey_secData [simp]: "okey (OSecret (s\<lparr>secData := d\<rparr>)) = okey (OSecret s)"
  by (simp add: okey_secret)

lemma user_secret_key: "secretKey cr (secretNameLocalUser user) \<noteq> secretKey cr ArgoCDSecretName"
proof -
  have "last (secretNameLocalUser user) \<noteq> last ArgoCDSecretName"
    by (simp add: secretNameLocalUser_def ArgoCDSecretName_def)
  then show ?thesis by (auto simp: secretKey_def)
qed

lemma secret_value_upd [simp]:
  "secret_data view w' = (secret_data view w)(k := v) \<Longrightarrow>
   secret_value view w' k' d = (if k' = k then Option.bind v (\<lambda>m. gget m d) else secret_value view w k' d)"
  by (simp add: secret_value_def)

lemma secret_value_cong: "secret_data view w' = secret_data view w \<Longrightarrow> secret_value view w' = secret_value view w"
  by (simp add: secret_value_def fun_eq_iff)

lemma setData_Ok_iff:
  "setData k v s = Ok s' \<longleftrightarrow> secData s \<noteq> None \<and> s' = s\<lparr>secData := gput (secData s) k v\<rparr>"
  by (auto simp: setData_def gput_def split: option.splits)

context k8s_client begin

lemma refresh_secret: "map_option secData (as_secret (refresh x)) = map_option secData (as_secret x)"
  using arg_cong[OF refresh_labels[of None x], of "\<lambda>y. map_option secData (as_secret y)"]
  by (cases x; cases "refresh x") (simp_all add: set_labels_def)

lemma getO_data: "getO c k w = (r, w') \<Longrightarrow> secret_data view w' = secret_data view w"
proof -
  assume "getO c k w = (r, w')"
  then obtain g where "cGet c w k = (g, w')" by (auto simp: getO_def split: prod.splits sum.splits)
  from get_view[OF this] show ?thesis
    by (cases "view w k") (auto simp: secret_data_def fun_eq_iff refresh_secret)
qed

lemma getAs_data: "getAs c cast k w = (r, w') \<Longrightarrow> secret_data view w' = secret_data view w"
  by (auto simp: getAs_def bindG_def handle_def split: prod.splits outcome.splits option.splits dest!: getO_data)

lemma getAs_secret:
  assumes "getAs c as_secret k w = (Ok a, w')"
  shows "secret_data view w k = Some (secData a)" and "okey (OSecret a) = k"
proof -
  from getAs_found[OF assms] obtain x0 x where v: "view w k = Some x0" and x: "x = x0 \<or> x = refresh x0"
    and a: "as_secret x = Some a" by metis
  have "map_option secData (as_secret x0) = Some (secData a)" using x a refresh_secret[of x0] by (metis option.simps(9))
  with v show "secret_data view w k = Some (secData a)" by (simp add: secret_data_def)
  from a have "x = OSecret a" by (cases x) auto
  moreover have "okey x = k" using x view_key[OF v] refresh_key by auto
  ultimately show "okey (OSecret a) = k" by simp
qed

lemma listO_view: "listO c kd w = (r, w') \<Longrightarrow> view w' = view w"
  using list_view[of w kd] by (auto simp: listO_def split: prod.splits sum.splits)

lemma removeAccountToken_fp:
  "act_rel (same_outside view {secretKey cr ArgoCDSecretName}) (removeAccountToken c cr u)"
  unfolding removeAccountToken_def
  by (intro fp.rel_intros api_fp) (auto dest: getAs_secret(2))

end

context verbatim_client begin

lemma updateO_secret:
  assumes "updateO c (OSecret s) w = (Ok u, w')"
  shows "view w' = (view w)(okey (OSecret s) \<mapsto> OSecret s)"
    and "secret_data view w' = (secret_data view w)(okey (OSecret s) := Some (secData s))"
  using updateO_Ok[OF assms] by (auto simp: secret_data_def fun_eq_iff admit_id)

lemma createO_secret:
  assumes "createO c (OSecret s) w = (Ok u, w')"
  shows "view w' = (view w)(okey (OSecret s) \<mapsto> OSecret s)"
    and "secret_data view w' = (secret_data view w)(okey (OSecret s) := Some (secData s))"
    and "view w (okey (OSecret s)) = None"
  using createO_Ok[OF assms] by (auto simp: secret_data_def fun_eq_iff admit_id)

lemma removeAccountToken_Ok:
  assumes "removeAccountToken c cr u w = (Ok x, w')"
  shows "secret_value view w' (secretKey cr ArgoCDSecretName) (tokensKey u) = None"
    and "secret_value view w' k d = None \<or> secret_value view w' k d = secret_value view w k d"
proof -
  from assms obtain a w1 where g: "getAs c as_secret (secretKey cr ArgoCDSecretName) w = (Ok a, w1)"
    and r: "(if gget (secData a) (tokensKey u) \<noteq> None
      then updateO c (OSecret (a\<lparr>secData := gdelete (secData a) (tokensKey u)\<rparr>)) else ret ()) w1 = (Ok x, w')"
    unfolding removeAccountToken_def bindG_Ok_iff by blast
  note a = getAs_secret[OF g] and d = getAs_data[OF g]
  have "secret_data view w' = secret_data view w \<and> gget (secData a) (tokensKey u) = None \<or>
      secret_data view w' = (secret_data view w)(secretKey cr ArgoCDSecretName := Some (gdelete (secData a) (tokensKey u)))"
    using r a d updateO_secret(2)[of "a\<lparr>secData := gdelete (secData a) (tokensKey u)\<rparr>" w1 x w']
    by (auto split: if_splits)
  with a show "secret_value view w' (secretKey cr ArgoCDSecretName) (tokensKey u) = None"
    and "secret_value view w' k d = None \<or> secret_value view w' k d = secret_value view w k d"
    by (auto simp: secret_value_def)
qed

end

section \<open>Removal\<close>

context k8s_client begin

lemma cleanupLocalUser_fp:
  "act_rel (same_outside view ({secretKey cr ArgoCDSecretName} \<union> (case sec of None \<Rightarrow> {} | Some s \<Rightarrow> {okey (OSecret s)})))
     (cleanupLocalUser c cr u sec)" (is "act_rel (same_outside view ?S) _")
proof -
  have "act_rel (same_outside view ?S) (removeAccountToken c cr u)"
    unfolding removeAccountToken_def by (intro fp.rel_intros api_fp) (auto dest: getAs_secret(2))
  moreover have "act_rel (same_outside view ?S) (deleteUserSecret c s)" if "sec = Some s" for s
    unfolding deleteUserSecret_def by (intro fp.rel_intros deleteO_fp) (simp_all add: that)
  ultimately show ?thesis
    unfolding cleanupLocalUser_def by (cases sec) (auto intro!: fp.rel_intros)
qed

end

context verbatim_client begin

lemma deleteSecret_Ok:
  assumes run: "deleteUserSecret c s w = (Ok x, w')"
  obtains v where "view w' = (view w)(okey (OSecret s) := v)" and "gone v"
proof (cases "deleteO c (okey (OSecret s)) w")
  case (Pair r w1)
  show thesis
  proof (cases r)
    case (Ok a)
    with Pair run have "deleteO c (okey (OSecret s)) w = (Ok a, w')" by (simp add: deleteUserSecret_def handle_def)
    then show thesis using that by (rule deleteO_Ok)
  next
    case (Err err)
    with Pair run have d: "deleteO c (okey (OSecret s)) w = (Err err, w')" and n: "IsNotFound err"
      by (auto simp: deleteUserSecret_def handle_def split: if_splits)
    from deleteO_NotFound[OF d n] have "view w' = (view w)(okey (OSecret s) := None)" by auto
    then show thesis by (rule that) simp
  next
    case (Panic p)
    with Pair run show thesis by (simp add: deleteUserSecret_def handle_def)
  qed
qed

lemma cleanupLocalUser_token:
  assumes "cleanupLocalUser c cr u sec w = (Ok x, w')" and "\<not> keptInExtraConfig cr u"
    and "\<And>s. sec = Some s \<Longrightarrow> okey (OSecret s) \<noteq> secretKey cr ArgoCDSecretName"
  shows "secret_value view w' (secretKey cr ArgoCDSecretName) (tokensKey u) = None"
proof -
  from assms(1,2) obtain y w1 where r: "removeAccountToken c cr u w = (Ok y, w1)"
    and d: "(case sec of None \<Rightarrow> ret () | Some s \<Rightarrow> deleteUserSecret c s) w1 = (Ok x, w')"
    unfolding cleanupLocalUser_def by (auto simp: thenG_Ok_iff)
  note removeAccountToken_Ok(1)[OF r]
  moreover have "secret_data view w' (secretKey cr ArgoCDSecretName) = secret_data view w1 (secretKey cr ArgoCDSecretName)"
    using d assms(3) by (cases sec) (auto elim!: deleteSecret_Ok simp: secret_data_def)
  ultimately show ?thesis by (simp add: secret_value_def)
qed

lemma cleanupLocalUser_gone:
  assumes "cleanupLocalUser c cr u (Some s) w = (Ok x, w')"
  shows "gone (view w' (okey (OSecret s)))"
  using assms unfolding cleanupLocalUser_def by (auto simp: thenG_Ok_iff elim!: deleteSecret_Ok)

lemma cleanupLocalUser_absent:
  assumes "cleanupLocalUser c cr u None w = (Ok x, w')" and "k \<noteq> secretKey cr ArgoCDSecretName"
  shows "view w' k = view w k"
  using same_outsideD[OF act_relD[OF cleanupLocalUser_fp assms(1)], of k] assms(2) by simp

lemma cleanupLocalUser_ordered:
  assumes "cleanupLocalUser c cr u (Some s) w = (r, w')" and "\<not> keptInExtraConfig cr u"
    and k: "okey (OSecret s) \<noteq> secretKey cr ArgoCDSecretName"
    and ch: "view w' (okey (OSecret s)) \<noteq> view w (okey (OSecret s))"
  shows "secret_value view w' (secretKey cr ArgoCDSecretName) (tokensKey u) = None"
proof -
  obtain r1 w1 where m: "removeAccountToken c cr u w = (r1, w1)" by force
  from same_outsideD[OF act_relD[OF removeAccountToken_fp m], of "okey (OSecret s)"] k
  have v1: "view w1 (okey (OSecret s)) = view w (okey (OSecret s))" by simp
  let ?del = "deleteUserSecret c s"
  have run: "(case r1 of Ok y \<Rightarrow> ?del w1 | Err e \<Rightarrow> (Err e, w1) | Panic p \<Rightarrow> (Panic p, w1)) = (r, w')"
    using assms(1,2) m unfolding cleanupLocalUser_def
    by (cases r1) (auto simp: thenG_apply)
  with ch v1 obtain y where y: "r1 = Ok y" and d: "?del w1 = (r, w')" by (cases r1) auto
  have "act_rel (same_outside view {okey (OSecret s)}) ?del"
    unfolding deleteUserSecret_def by (intro fp.rel_intros deleteO_fp) simp_all
  from same_outsideD[OF act_relD[OF this d], of "secretKey cr ArgoCDSecretName"] k
  have "view w' (secretKey cr ArgoCDSecretName) = view w1 (secretKey cr ArgoCDSecretName)" by simp
  with removeAccountToken_Ok(1)[OF m[unfolded y]] show ?thesis by (simp add: secret_value_def secret_data_def)
qed

end

section \<open>Reconciling a user\<close>

abbreviation trimmed :: "LocalUserSpec \<Rightarrow> LocalUserSpec" where
  "trimmed user \<equiv> user\<lparr>LocalUser_TokenLifetime := TrimSpace (LocalUser_TokenLifetime user)\<rparr>"

definition renews :: "LocalUserSpec \<Rightarrow> bool" where
  "renews user \<longleftrightarrow> LocalUser_AutoRenewToken user \<noteq> Some False"

text \<open>The state when the user secret is looked up: the timer is stopped if there is a reason to.\<close>

definition afterStop :: "argocd \<Rightarrow> LocalUserSpec \<Rightarrow> 'w users_state \<Rightarrow> 'w users_state" where
  "afterStop cr user s = (if reasonToStopTimer (trimmed user) \<noteq> ''''
     then stopLocalUserTimer (metaNamespace (acMeta cr)) (LocalUser_Name user) s else s)"

lemma afterStop_world [simp]: "luWorld (afterStop cr user s) = luWorld s"
  by (simp add: afterStop_def)

lemma trimmed_simps [simp]:
  "secretNameLocalUser (trimmed user) = secretNameLocalUser user"
  "apikeyIsFalseOrEnabledIsFalse (trimmed user) = apikeyIsFalseOrEnabledIsFalse user"
  "renews (trimmed user) = renews user"
  "LocalUser_Name (trimmed user) = LocalUser_Name user"
  "LocalUser_AutoRenewToken (trimmed user) = LocalUser_AutoRenewToken user"
  by (simp_all add: secretNameLocalUser_def apikeyIsFalseOrEnabledIsFalse_def renews_def)

lemma reconcileLocalUser_alt:
  "reconcileLocalUser e t c cr user s =
     bindG (liftE (tokenSettings t (trimmed user))) (\<lambda>(lt, td).
       handle (onWorld (getAs c as_secret (secretKey cr (secretNameLocalUser user))))
         (\<lambda>err. if IsNotFound err
            then (if apikeyIsFalseOrEnabledIsFalse user
                  then onWorld (cleanupLocalUser c cr (LocalUser_Name user) None)
                  else issueAndSchedule e t c cr (trimmed user) lt td (if renews user then ''true'' else ''false''))
            else fail (Wrapped (''failed to get user secret for user '' @ LocalUser_Name user) err))
         (\<lambda>sec. if apikeyIsFalseOrEnabledIsFalse user
            then onWorld (cleanupLocalUser c cr (LocalUser_Name user) (Some sec))
            else reconcileExistingToken e t c cr (trimmed user) lt td sec)) (afterStop cr user s)"
  unfolding reconcileLocalUser_def Let_def trimmed_simps
  by (simp add: afterStop_def thenG_def modifyS_def bindG_def handle_apply renews_def)

context k8s_client begin

lemma reconcileLocalUser_cases:
  assumes "reconcileLocalUser e t c cr user s = (Ok x, s')"
  obtains (absent) lt td w1 where "tokenSettings t (trimmed user) = Inr (lt, td)"
      and "view (luWorld s) (secretKey cr (secretNameLocalUser user)) = None" and "view w1 = view (luWorld s)"
      and "(if apikeyIsFalseOrEnabledIsFalse user
            then onWorld (cleanupLocalUser c cr (LocalUser_Name user) None)
            else issueAndSchedule e t c cr (trimmed user) lt td (if renews user then ''true'' else ''false''))
          ((afterStop cr user s)\<lparr>luWorld := w1\<rparr>) = (Ok x, s')"
    | (found) lt td sec w1 where "tokenSettings t (trimmed user) = Inr (lt, td)"
      and "getAs c as_secret (secretKey cr (secretNameLocalUser user)) (luWorld s) = (Ok sec, w1)"
      and "(if apikeyIsFalseOrEnabledIsFalse user
            then onWorld (cleanupLocalUser c cr (LocalUser_Name user) (Some sec))
            else reconcileExistingToken e t c cr (trimmed user) lt td sec)
          ((afterStop cr user s)\<lparr>luWorld := w1\<rparr>) = (Ok x, s')"
proof -
  from assms obtain lt td where ts: "tokenSettings t (trimmed user) = Inr (lt, td)"
    and run: "handle (onWorld (getAs c as_secret (secretKey cr (secretNameLocalUser user))))
         (\<lambda>err. if IsNotFound err
            then (if apikeyIsFalseOrEnabledIsFalse user
                  then onWorld (cleanupLocalUser c cr (LocalUser_Name user) None)
                  else issueAndSchedule e t c cr (trimmed user) lt td (if renews user then ''true'' else ''false''))
            else fail (Wrapped (''failed to get user secret for user '' @ LocalUser_Name user) err))
         (\<lambda>sec. if apikeyIsFalseOrEnabledIsFalse user
            then onWorld (cleanupLocalUser c cr (LocalUser_Name user) (Some sec))
            else reconcileExistingToken e t c cr (trimmed user) lt td sec) (afterStop cr user s) = (Ok x, s')"
    unfolding reconcileLocalUser_alt bindG_Ok_iff liftE_Ok_iff by auto
  from run show thesis
    unfolding handle_Ok_iff onWorld_iff
  proof (elim disjE exE conjE)
    fix sec s1 w1
    assume "getAs c as_secret (secretKey cr (secretNameLocalUser user)) (luWorld (afterStop cr user s)) = (Ok sec, w1)"
      "s1 = (afterStop cr user s)\<lparr>luWorld := w1\<rparr>"
      "(if apikeyIsFalseOrEnabledIsFalse user
            then onWorld (cleanupLocalUser c cr (LocalUser_Name user) (Some sec))
            else reconcileExistingToken e t c cr (trimmed user) lt td sec) s1 = (Ok x, s')"
    with ts show thesis by (intro found) simp_all
  next
    fix err s1 w1
    assume g: "getAs c as_secret (secretKey cr (secretNameLocalUser user)) (luWorld (afterStop cr user s)) = (Err err, w1)"
      and s1: "s1 = (afterStop cr user s)\<lparr>luWorld := w1\<rparr>"
      and r: "(if IsNotFound err
            then (if apikeyIsFalseOrEnabledIsFalse user
                  then onWorld (cleanupLocalUser c cr (LocalUser_Name user) None)
                  else issueAndSchedule e t c cr (trimmed user) lt td (if renews user then ''true'' else ''false''))
            else fail (Wrapped (''failed to get user secret for user '' @ LocalUser_Name user) err)) s1 = (Ok x, s')"
    then have nf: "IsNotFound err" by (auto split: if_splits)
    from getAs_NotFound[OF g nf] ts r s1 nf show thesis by (intro absent) simp_all
  qed
qed

end

context verbatim_client begin

lemma reconcileLocalUser_revoked:
  assumes run: "reconcileLocalUser e t c cr user s = (Ok x, s')" and rev: "apikeyIsFalseOrEnabledIsFalse user"
    and kept: "\<not> keptInExtraConfig cr (LocalUser_Name user)"
  shows "gone (view (luWorld s') (secretKey cr (secretNameLocalUser user))) \<and>
    secret_value view (luWorld s') (secretKey cr ArgoCDSecretName) (tokensKey (LocalUser_Name user)) = None \<and>
    fmlookup (luTimers s') (tokenRenewalTimerKeyLocalUser (metaNamespace (acMeta cr)) (LocalUser_Name user)) = None"
proof -
  let ?k = "secretKey cr (secretNameLocalUser user)"
  from rev have "reasonToStopTimer (trimmed user) \<noteq> ''''"
    by (auto simp: reasonToStopTimer_def Let_def apikeyIsFalseOrEnabledIsFalse_def)
  then have tm: "fmlookup (luTimers (afterStop cr user s))
      (tokenRenewalTimerKeyLocalUser (metaNamespace (acMeta cr)) (LocalUser_Name user)) = None"
    by (simp add: afterStop_def stop_lookup)
  from run show ?thesis
  proof (cases rule: reconcileLocalUser_cases)
    case (absent lt td w1)
    then have cl: "cleanupLocalUser c cr (LocalUser_Name user) None w1 = (Ok x, luWorld s')"
      and s': "luTimers s' = luTimers (afterStop cr user s)"
      using rev by (auto simp: onWorld_iff)
    from cleanupLocalUser_absent[OF cl user_secret_key] absent have "view (luWorld s') ?k = None" by simp
    with cleanupLocalUser_token[OF cl kept] tm s' show ?thesis by simp
  next
    case (found lt td sec w1)
    then have cl: "cleanupLocalUser c cr (LocalUser_Name user) (Some sec) w1 = (Ok x, luWorld s')"
      and s': "luTimers s' = luTimers (afterStop cr user s)"
      using rev by (auto simp: onWorld_iff)
    from getAs_secret(2)[OF found(2)] have k: "okey (OSecret sec) = ?k" .
    with cleanupLocalUser_gone[OF cl] cleanupLocalUser_token[OF cl kept] user_secret_key[of cr user] tm s'
    show ?thesis by simp
  qed
qed

end

section \<open>Issuing a token\<close>

lemma ParseDigits_append:
  "ParseDigits acc (xs @ ys) = Option.bind (ParseDigits acc xs) (\<lambda>a. ParseDigits a ys)"
  by (induction xs arbitrary: acc) (auto split: option.split)

lemma digitValue_digitChar: "d < 10 \<Longrightarrow> digitValue (digitChar d) = Some d"
  by (simp add: digitValue_def digitChar_def Let_def)

lemma ParseDigits_FormatNat: "ParseDigits 0 (FormatNat n) = Some n"
proof (induction n rule: FormatNat.induct)
  case (1 n)
  then show ?case
    by (subst FormatNat.simps) (auto simp: ParseDigits_append digitValue_digitChar)
qed

lemma FormatNat_hd: "FormatNat n \<noteq> [] \<and> (\<exists>d<10. hd (FormatNat n) = digitChar d)"
proof (induction n rule: FormatNat.induct)
  case (1 n)
  then show ?case by (subst (1 2) FormatNat.simps) auto
qed

lemma sign_not_digit: "d < 10 \<Longrightarrow> digitChar d \<noteq> CHR ''-''" "d < 10 \<Longrightarrow> digitChar d \<noteq> CHR ''+''"
  using digitValue_digitChar[of d] by (auto simp: digitValue_def)

lemma ParseInt64_FormatInt:
  assumes "- (2 ^ 63) \<le> i" and "i < 2 ^ 63"
  shows "ParseInt64 (FormatInt i) = Inr i"
proof (cases "i < 0")
  case True
  with assms show ?thesis
    using FormatNat_hd[of "nat (- i)"]
    by (simp add: ParseInt64_def FormatInt_def HasPrefix_def Let_def ParseDigits_FormatNat)
next
  case False
  from FormatNat_hd[of "nat i"] obtain d ds where ds: "d < 10" "FormatNat (nat i) = digitChar d # ds"
    by (metis list.exhaust_sel)
  with False assms sign_not_digit[OF ds(1)] show ?thesis
    using ParseDigits_FormatNat[of "nat i"]
    by (auto simp: ParseInt64_def FormatInt_def HasPrefix_def Let_def)
qed

context k8s_client begin

lemma userSecretFor_Ok:
  assumes "userSecretFor e c cr user w = (Ok (ex, sec), w')"
  shows "secret_data view w' = secret_data view w"
    and "ex \<Longrightarrow> okey (OSecret sec) = secretKey cr (secretNameLocalUser user)"
    and "\<not> ex \<Longrightarrow> okey (OSecret sec) = secretKey cr (TruncateWithHash e (secretNameLocalUser user) maxLabelLength) \<and>
      view w (secretKey cr (secretNameLocalUser user)) = None \<and> view w' = view w"
proof -
  let ?k = "secretKey cr (secretNameLocalUser user)"
  have "getAs c as_secret ?k w = (Ok sec, w') \<and> ex \<or>
      (\<exists>err. getAs c as_secret ?k w = (Err err, w') \<and> IsNotFound err \<and> \<not> ex \<and>
         okey (OSecret sec) = secretKey cr (TruncateWithHash e (secretNameLocalUser user) maxLabelLength))"
    using assms
    by (auto simp: userSecretFor_def handle_Ok_iff bindG_Ok_iff liftE_Ok_iff Let_def okey_secret secretKey_def
        NewSecretWithName_def SetControllerReference_def split: if_splits sum.splits)
  then show "secret_data view w' = secret_data view w"
    and "ex \<Longrightarrow> okey (OSecret sec) = ?k"
    and "\<not> ex \<Longrightarrow> okey (OSecret sec) = secretKey cr (TruncateWithHash e (secretNameLocalUser user) maxLabelLength) \<and>
      view w ?k = None \<and> view w' = view w"
    by (auto dest: getAs_data getAs_secret getAs_NotFound)
qed

lemma getArgoCDSigningKey_data:
  "getArgoCDSigningKey c cr w = (Ok sk, w') \<Longrightarrow> secret_data view w' = secret_data view w"
  by (auto simp: getArgoCDSigningKey_def IsObjectFound_def handle_Ok_iff split: option.splits if_splits
      dest!: getAs_data)

end

definition tokenExpiry :: "token_lib \<Rightarrow> int \<Rightarrow> nat \<Rightarrow> int" where
  "tokenExpiry t td n = (if td > 0 then Unix (clock t n + td) else 0)"

definition issuedData :: "token_lib \<Rightarrow> LocalUserSpec \<Rightarrow> string \<Rightarrow> int \<Rightarrow> nat \<Rightarrow> string \<Rightarrow> gomap" where
  "issuedData t user lt td n jwt = gmap
     [(localUserUser, LocalUser_Name user), (localUserExpiresAt, FormatInt (tokenExpiry t td n)),
      (localUserTokenLifetime, lt), (localUserAutoRenew, autoRenewValue user), (localUserApiToken, jwt)]"

lemma issueToken_parts:
  assumes "issueToken e t c cr user lt td s = (Ok x, s')"
  obtains ex sec w1 sk w2 jwt w3 tokens where
    "userSecretFor e c cr user (luWorld s) = (Ok (ex, sec), w1)"
    "getArgoCDSigningKey c cr w1 = (Ok sk, w2)"
    "(if ex then updateO c (OSecret (sec\<lparr>secData := issuedData t user lt td (Suc (luTick s)) jwt\<rparr>))
      else createO c (OSecret (sec\<lparr>secData := issuedData t user lt td (Suc (luTick s)) jwt\<rparr>))) w2 = (Ok (), w3)"
    "addAccountToken c cr (LocalUser_Name user) tokens w3 = (Ok x, luWorld s')"
    "luTimers s' = luTimers s" "luTick s' = Suc (Suc (luTick s))"
  using assms
  by (auto simp: issueToken_def Let_def bindG_Ok_iff thenG_Ok_iff mapErr_Ok_iff lu_iff liftE_Ok_iff
      issuedData_def tokenExpiry_def cong: if_cong)

text \<open>What reconciling an enabled user establishes in the cluster: the secret of the user records the
  lifetime and the renewal of the custom resource and an expiry that can be read back, Argo CD knows a
  token, and a token that is renewed had not expired at one of the readings \<open>n0, \<dots>, n1 - 1\<close> of the clock.\<close>

definition token_current ::
  "('w \<Rightarrow> key \<Rightarrow> obj option) \<Rightarrow> token_lib \<Rightarrow> argocd \<Rightarrow> LocalUserSpec \<Rightarrow> string \<Rightarrow> int \<Rightarrow> nat \<Rightarrow> nat \<Rightarrow> 'w \<Rightarrow> bool" where
  "token_current view t cr user lt td n0 n1 w \<longleftrightarrow>
     (let user_value = secret_value view w (secretKey cr (secretNameLocalUser user)) in
      user_value localUserTokenLifetime = Some lt \<and>
      user_value localUserAutoRenew = Some (autoRenewValue user) \<and>
      secret_value view w (secretKey cr ArgoCDSecretName) (tokensKey (LocalUser_Name user)) \<noteq> None \<and>
      (\<exists>str x. user_value localUserExpiresAt = Some str \<and> ParseInt64 str = Inr x \<and>
         (renews user \<and> td \<ge> second \<longrightarrow> (\<exists>n\<ge>n0. n < n1 \<and> clock t n \<le> timeUnix x))))"

lemma autoRenewValue_renews: "autoRenewValue user = (if renews user then ''true'' else ''false'')"
  by (auto simp: autoRenewValue_def renews_def)

lemma local_user_fields:
  "distinct [localUserUser, localUserExpiresAt, localUserTokenLifetime, localUserAutoRenew, localUserApiToken]"
  by (simp add: localUserUser_def localUserExpiresAt_def localUserTokenLifetime_def localUserAutoRenew_def
      localUserApiToken_def)

lemma issuedData_get:
  "gget (issuedData t user lt td n jwt) localUserTokenLifetime = Some lt"
  "gget (issuedData t user lt td n jwt) localUserAutoRenew = Some (autoRenewValue user)"
  "gget (issuedData t user lt td n jwt) localUserExpiresAt = Some (FormatInt (tokenExpiry t td n))"
  using local_user_fields by (auto simp: issuedData_def)

lemma gget_of_gindex: "gindex m k = v \<Longrightarrow> v \<noteq> '''' \<Longrightarrow> gget m k = Some v"
  by (auto simp: gindex_def split: option.splits)

lemma ParseInt64_nonempty: "ParseInt64 s = Inr x \<Longrightarrow> s \<noteq> ''''"
  by (auto simp: ParseInt64_def Let_def HasPrefix_def)

lemma tokenSettings_Inr:
  assumes "tokenSettings t user = Inr (lt, td)"
  shows "lt \<noteq> ''''" and "0 \<le> td"
  using assms by (auto simp: tokenSettings_def split: if_splits sum.splits)

lemma expiry_range:
  assumes "\<And>n. 0 \<le> clock t n \<and> clock t n < 2 ^ 62 * second" and "0 \<le> td" "td < 2 ^ 63"
  shows "ParseInt64 (FormatInt (tokenExpiry t td n)) = Inr (tokenExpiry t td n)"
proof (rule ParseInt64_FormatInt)
  from assms(1)[of n] assms(2,3) have "0 \<le> clock t n + td" "clock t n + td < 2 ^ 63 * second"
    by (auto simp: second_def)
  then have "0 \<le> Unix (clock t n + td)" "Unix (clock t n + td) < 2 ^ 63"
    by (auto simp: Unix_def second_def div_less_iff_less_mult[of 1000000000] pos_imp_zdiv_nonneg_iff)
  then show "- (2 ^ 63) \<le> tokenExpiry t td n" "tokenExpiry t td n < 2 ^ 63" by (auto simp: tokenExpiry_def)
qed

lemma expiry_later: "second \<le> td \<Longrightarrow> clock t n \<le> timeUnix (tokenExpiry t td n)"
proof -
  assume td: "second \<le> td"
  have "(clock t n + td) mod second < second" by (simp add: second_def)
  moreover have "(clock t n + td) div second * second = clock t n + td - (clock t n + td) mod second"
    by (simp add: minus_mod_eq_div_mult)
  ultimately show ?thesis using td by (simp add: tokenExpiry_def timeUnix_def Unix_def second_def)
qed

context verbatim_client begin

lemma addAccountToken_Ok:
  assumes "addAccountToken c cr u tokens w = (Ok x, w')"
  shows "\<exists>m. secret_data view w' = (secret_data view w)(secretKey cr ArgoCDSecretName := Some m) \<and>
    gget m (tokensKey u) = Some tokens"
proof -
  from assms obtain a w1 where g: "getAs c as_secret (secretKey cr ArgoCDSecretName) w = (Ok a, w1)"
    and u: "updateO c (OSecret (a\<lparr>secData := gput (secData a) (tokensKey u) tokens\<rparr>)) w1 = (Ok x, w')"
    by (auto simp: addAccountToken_def bindG_Ok_iff liftO_Ok_iff setData_Ok_iff)
  from getAs_secret[OF g] getAs_data[OF g] updateO_secret(2)[OF u] show ?thesis by auto
qed

lemma issueToken_Ok:
  assumes run: "issueToken e t c cr user lt td s = (Ok x, s')"
    and short: "length (secretNameLocalUser user) \<le> maxLabelLength"
  shows "\<exists>jwt. secret_data view (luWorld s') (secretKey cr (secretNameLocalUser user)) =
      Some (issuedData t user lt td (Suc (luTick s)) jwt)"
    and "secret_value view (luWorld s') (secretKey cr ArgoCDSecretName) (tokensKey (LocalUser_Name user)) \<noteq> None"
    and "luTimers s' = luTimers s" and "luTick s' = Suc (Suc (luTick s))"
proof -
  from run show "luTimers s' = luTimers s" by (rule issueToken_parts)
  from run show "luTick s' = Suc (Suc (luTick s))" by (rule issueToken_parts)
  from run obtain ex sec w1 sk w2 jwt w3 tokens where
    us: "userSecretFor e c cr user (luWorld s) = (Ok (ex, sec), w1)"
    and sk: "getArgoCDSigningKey c cr w1 = (Ok sk, w2)"
    and wr: "(if ex then updateO c (OSecret (sec\<lparr>secData := issuedData t user lt td (Suc (luTick s)) jwt\<rparr>))
      else createO c (OSecret (sec\<lparr>secData := issuedData t user lt td (Suc (luTick s)) jwt\<rparr>))) w2 = (Ok (), w3)"
    and ad: "addAccountToken c cr (LocalUser_Name user) tokens w3 = (Ok x, luWorld s')"
    by (rule issueToken_parts)
  have k: "okey (OSecret sec) = secretKey cr (secretNameLocalUser user)"
    using userSecretFor_Ok[OF us] short by (cases ex) (auto simp: TruncateWithHash_id)
  have "secret_data view w3 (okey (OSecret sec)) = Some (issuedData t user lt td (Suc (luTick s)) jwt)"
    using wr updateO_secret(2)[of _ w2 "()" w3] createO_secret(2)[of _ w2 "()" w3] by (cases ex) force+
  moreover from addAccountToken_Ok[OF ad] obtain m where
    m: "secret_data view (luWorld s') = (secret_data view w3)(secretKey cr ArgoCDSecretName := Some m)"
      "gget m (tokensKey (LocalUser_Name user)) = Some tokens" by blast
  ultimately show "\<exists>jwt. secret_data view (luWorld s') (secretKey cr (secretNameLocalUser user)) =
      Some (issuedData t user lt td (Suc (luTick s)) jwt)"
    using k user_secret_key[of cr user] by auto
  from m show "secret_value view (luWorld s') (secretKey cr ArgoCDSecretName) (tokensKey (LocalUser_Name user)) \<noteq> None"
    by (simp add: secret_value_def)
qed

lemma issueToken_current:
  assumes run: "issueToken e t c cr user lt td s = (Ok x, s')"
    and short: "length (secretNameLocalUser user) \<le> maxLabelLength" and n0: "n0 \<le> luTick s"
    and rng: "\<And>n. 0 \<le> clock t n \<and> clock t n < 2 ^ 62 * second" "0 \<le> td" "td < 2 ^ 63"
  shows "token_current view t cr user lt td n0 (luTick s') (luWorld s')"
proof -
  from issueToken_Ok(1)[OF run short] obtain jwt where
    "secret_data view (luWorld s') (secretKey cr (secretNameLocalUser user)) =
      Some (issuedData t user lt td (Suc (luTick s)) jwt)" by blast
  with issueToken_Ok(2,4)[OF run short] expiry_range[OF rng, of "Suc (luTick s)"] expiry_later[of td t "Suc (luTick s)"] n0
  show ?thesis
    unfolding token_current_def Let_def
    by (auto simp: secret_value_def issuedData_get intro!: exI[of _ "Suc (luTick s)"])
qed

end

lemma tokenOutdated_Ok:
  assumes "tokenOutdated t lt td ar sec x s = (Ok b, s')"
  shows "luWorld s' = luWorld s" "luTimers s' = luTimers s" "luTick s \<le> luTick s'"
    and "\<not> b \<Longrightarrow> lt = gindex (secData sec) localUserTokenLifetime \<and> (td \<noteq> 0 \<longrightarrow> x \<noteq> 0) \<and>
      (ar = ''true'' \<and> x \<noteq> 0 \<longrightarrow> luTick s < luTick s' \<and> clock t (luTick s) \<le> timeUnix x)"
  using assms by (auto simp: tokenOutdated_def Let_def bindG_Ok_iff lu_iff split: if_splits)

lemma start_tick [simp]: "luTick (startOrRestartLocalUserTimer ns u d s) = luTick s"
  by (simp add: startOrRestartLocalUserTimer_def stopLocalUserTimer_def Let_def split: option.split)

lemma ensureScheduled_Ok:
  assumes "ensureScheduled t cr user td ar x s = (Ok u, s')"
  shows "luWorld s' = luWorld s" and "luTick s \<le> luTick s'"
    and "ar = ''true'' \<Longrightarrow> td \<noteq> 0 \<Longrightarrow>
      fmlookup (luTimers s') (tokenRenewalTimerKeyLocalUser (metaNamespace (acMeta cr)) (LocalUser_Name user)) \<noteq> None"
  using assms
  by (auto simp: ensureScheduled_def Let_def bindG_Ok_iff lu_iff start_lookup[simplified] start_tick split: if_splits option.splits)

lemma scheduled:
  assumes "(if td > 0 \<and> ar = ''true'' then modifyS (startOrRestartLocalUserTimer ns u td) else ret ()) s = (Ok x, s')"
  shows "luWorld s' = luWorld s" and "luTick s' = luTick s"
    and "ar = ''true'' \<Longrightarrow> 0 < td \<Longrightarrow> fmlookup (luTimers s') (tokenRenewalTimerKeyLocalUser ns u) \<noteq> None"
  using assms by (auto simp: lu_iff start_lookup[simplified] start_tick split: if_splits)

context verbatim_client begin

lemma updateAutoRenew_Ok:
  assumes "updateAutoRenew c user ar sec w = (Ok x, w')"
    and "secret_data view w (okey (OSecret sec)) = Some (secData sec)"
  shows "secret_data view w' = (secret_data view w)(okey (OSecret sec) := Some
     (if gindex (secData sec) localUserAutoRenew = ar then secData sec else gput (secData sec) localUserAutoRenew ar))"
  using assms updateO_secret(2)[of "sec\<lparr>secData := gput (secData sec) localUserAutoRenew ar\<rparr>" w x w']
  by (auto simp: updateAutoRenew_def bindG_Ok_iff liftO_Ok_iff mapErr_Ok_iff setData_Ok_iff split: if_splits)

lemma accountTokenMissing_Ok:
  assumes "accountTokenMissing c cr user w = (Ok b, w')"
  shows "secret_data view w' = secret_data view w"
    and "\<not> b \<Longrightarrow> secret_value view w (secretKey cr ArgoCDSecretName) (tokensKey (LocalUser_Name user)) \<noteq> None"
proof -
  from assms obtain a where g: "getAs c as_secret (secretKey cr ArgoCDSecretName) w = (Ok a, w')"
    and b: "b = (gget (secData a) (tokensKey (LocalUser_Name user)) = None)"
    by (auto simp: accountTokenMissing_def handle_Ok_iff)
  show "secret_data view w' = secret_data view w" by (rule getAs_data[OF g])
  show "\<not> b \<Longrightarrow> secret_value view w (secretKey cr ArgoCDSecretName) (tokensKey (LocalUser_Name user)) \<noteq> None"
    using getAs_secret(1)[OF g] b by (simp add: secret_value_def)
qed

lemma reconcileExistingToken_Ok:
  assumes run: "reconcileExistingToken e t c cr user lt td sec s = (Ok x, s')"
    and sec: "okey (OSecret sec) = secretKey cr (secretNameLocalUser user)"
      "secret_data view (luWorld s) (okey (OSecret sec)) = Some (secData sec)"
    and lt: "lt \<noteq> ''''" and short: "length (secretNameLocalUser user) \<le> maxLabelLength" and n0: "n0 \<le> luTick s"
    and rng: "\<And>n. 0 \<le> clock t n \<and> clock t n < 2 ^ 62 * second" "0 \<le> td" "td < 2 ^ 63"
  shows "token_current view t cr user lt td n0 (luTick s') (luWorld s') \<and>
    (renews user \<and> 0 < td \<longrightarrow>
      fmlookup (luTimers s') (tokenRenewalTimerKeyLocalUser (metaNamespace (acMeta cr)) (LocalUser_Name user)) \<noteq> None)"
proof -
  let ?ar = "if LocalUser_AutoRenewToken user = Some False then ''false'' else ''true''"
  have ar: "?ar = autoRenewValue user" by (simp add: autoRenewValue_renews renews_def)
  from run obtain expAt s1 b s2 d where
    p: "ParseInt64 (gindex (secData sec) localUserExpiresAt) = Inr expAt"
    and o: "tokenOutdated t lt td ?ar sec expAt s = (Ok b, s1)"
    and d: "(if b then ret True else onWorld (accountTokenMissing c cr user)) s1 = (Ok d, s2)"
    and r: "(if d
         then handle (issueToken e t c cr user lt td)
                (\<lambda>err. fail (Formatted (''unable to issue new token for user '' @ LocalUser_Name user) err))
                (\<lambda>_. if td > 0 \<and> ?ar = ''true''
                      then modifyS (startOrRestartLocalUserTimer (metaNamespace (acMeta cr)) (LocalUser_Name user) td)
                      else ret ())
         else thenG (onWorld (updateAutoRenew c user ?ar sec)) (ensureScheduled t cr user td ?ar expAt)) s2 = (Ok x, s')"
    unfolding reconcileExistingToken_def Let_def bindG_Ok_iff mapErr_Ok_iff liftE_Ok_iff by auto
  note out = tokenOutdated_Ok[OF o]
  from d have tick: "luTick s2 = luTick s1" by (auto simp: onWorld_iff split: if_splits)
  show ?thesis
  proof (cases d)
    case True
    with r obtain y s3 where i: "issueToken e t c cr user lt td s2 = (Ok y, s3)"
      and st: "(if td > 0 \<and> ?ar = ''true''
          then modifyS (startOrRestartLocalUserTimer (metaNamespace (acMeta cr)) (LocalUser_Name user) td)
          else ret ()) s3 = (Ok x, s')"
      by (auto simp: handle_Ok_iff)
    have "n0 \<le> luTick s2" using n0 out(3) tick by simp
    from issueToken_current[OF i short this rng] scheduled[OF st] show ?thesis by (simp add: renews_def)
  next
    case False
    with d have nb: "\<not> b" and m: "accountTokenMissing c cr user (luWorld s1) = (Ok d, luWorld s2)"
      by (auto simp: onWorld_iff split: if_splits)
    from r False obtain y w3 where u: "updateAutoRenew c user ?ar sec (luWorld s2) = (Ok y, w3)"
      and st: "ensureScheduled t cr user td ?ar expAt (s2\<lparr>luWorld := w3\<rparr>) = (Ok x, s')"
      by (auto simp: thenG_Ok_iff onWorld_iff)
    note miss = accountTokenMissing_Ok[OF m]
    have d2: "secret_data view (luWorld s2) = secret_data view (luWorld s)" using miss(1) out(1) by simp
    with sec(2) have "secret_data view (luWorld s2) (okey (OSecret sec)) = Some (secData sec)" by simp
    moreover have "luWorld s' = w3" using ensureScheduled_Ok(1)[OF st] by simp
    ultimately have d3: "secret_data view (luWorld s') = (secret_data view (luWorld s))(secretKey cr (secretNameLocalUser user) := Some
       (if gindex (secData sec) localUserAutoRenew = ?ar then secData sec else gput (secData sec) localUserAutoRenew ?ar))"
      using updateAutoRenew_Ok[OF u] d2 by (simp only: sec(1))
    have g: "gget (secData sec) localUserExpiresAt = Some (gindex (secData sec) localUserExpiresAt)"
      using ParseInt64_nonempty[OF p] by (auto intro: gget_of_gindex)
    have l: "gget (secData sec) localUserTokenLifetime = Some lt" using out(4)[OF nb] lt by (auto intro: gget_of_gindex)
    have a: "gindex (secData sec) localUserAutoRenew = ?ar \<Longrightarrow> gget (secData sec) localUserAutoRenew = Some ?ar"
      by (rule gget_of_gindex) auto
    have "luTick s1 \<le> luTick s'" using ensureScheduled_Ok(2)[OF st] tick by simp
    then have fresh: "renews user \<and> second \<le> td \<longrightarrow> (\<exists>n\<ge>n0. n < luTick s' \<and> clock t n \<le> timeUnix expAt)"
      using out(4)[OF nb] n0 by (auto simp: renews_def second_def intro!: exI[of _ "luTick s"])
    have K: "secret_value view (luWorld s) (secretKey cr ArgoCDSecretName) (tokensKey (LocalUser_Name user)) \<noteq> None"
      using miss(2) False out(1) by simp
    have "token_current view t cr user lt td n0 (luTick s') (luWorld s')"
      unfolding token_current_def Let_def secret_value_upd[OF d3]
      using g l a p fresh K user_secret_key[of cr user] local_user_fields ar by auto
    with ensureScheduled_Ok(3)[OF st] show ?thesis by (auto simp: renews_def)
  qed
qed

lemma reconcileLocalUser_enabled:
  assumes run: "reconcileLocalUser e t c cr user s = (Ok x, s')" and en: "\<not> apikeyIsFalseOrEnabledIsFalse user"
    and ts: "tokenSettings t (trimmed user) = Inr (lt, td)"
    and short: "length (secretNameLocalUser user) \<le> maxLabelLength"
    and rng: "\<And>n. 0 \<le> clock t n \<and> clock t n < 2 ^ 62 * second" "td < 2 ^ 63"
  shows "token_current view t cr user lt td (luTick s) (luTick s') (luWorld s') \<and>
    (renews user \<and> 0 < td \<longrightarrow>
      fmlookup (luTimers s') (tokenRenewalTimerKeyLocalUser (metaNamespace (acMeta cr)) (LocalUser_Name user)) \<noteq> None)"
proof -
  note td = tokenSettings_Inr[OF ts]
  have short': "length (secretNameLocalUser (trimmed user)) \<le> maxLabelLength" using short by simp
  have tick: "luTick s \<le> luTick ((afterStop cr user s)\<lparr>luWorld := w1\<rparr>)" for w1
    by (simp add: afterStop_def stopLocalUserTimer_def Let_def split: option.split)
  have same: "token_current view t cr (trimmed user) lt td n m w = token_current view t cr user lt td n m w" for n m w
    by (simp add: token_current_def autoRenewValue_renews)
  from run show ?thesis
  proof (cases rule: reconcileLocalUser_cases)
    case (absent lt' td' w1)
    with en ts obtain y s1 where i: "issueToken e t c cr (trimmed user) lt td ((afterStop cr user s)\<lparr>luWorld := w1\<rparr>) = (Ok y, s1)"
      and st: "(if td > 0 \<and> (if renews user then ''true'' else ''false'') = ''true''
          then modifyS (startOrRestartLocalUserTimer (metaNamespace (acMeta cr)) (LocalUser_Name user) td)
          else ret ()) s1 = (Ok x, s')"
      by (auto simp: issueAndSchedule_def thenG_Ok_iff cong: if_cong)
    from issueToken_current[OF i short' tick rng(1) td(2) rng(2)] scheduled[OF st] show ?thesis by (simp add: same)
  next
    case (found lt' td' sec w1)
    with en ts have r: "reconcileExistingToken e t c cr (trimmed user) lt td sec ((afterStop cr user s)\<lparr>luWorld := w1\<rparr>) = (Ok x, s')"
      by simp
    from getAs_secret[OF found(2)] getAs_data[OF found(2)]
    have "okey (OSecret sec) = secretKey cr (secretNameLocalUser (trimmed user))"
      "secret_data view (luWorld ((afterStop cr user s)\<lparr>luWorld := w1\<rparr>)) (okey (OSecret sec)) = Some (secData sec)" by simp_all
    from reconcileExistingToken_Ok[OF r this td(1) short' tick rng(1) td(2) rng(2)] show ?thesis by (simp add: same)
  qed
qed

end

section \<open>Users with long names\<close>

text \<open>The secret is looked up under the full name and created under the truncated one.\<close>

context k8s_client begin

lemma userSecretFor_absent:
  "userSecretFor e c cr user w = (Ok (ex, sec), w') \<Longrightarrow>
   view w (secretKey cr (secretNameLocalUser user)) = None \<Longrightarrow> \<not> ex"
  by (auto simp: userSecretFor_def handle_Ok_iff bindG_Ok_iff Let_def split: if_splits elim!: getAs_found)

lemma signingKey_rel:
  "act_rel (same_outside view {secretKey cr ArgoCDSecretName}) (getArgoCDSigningKey c cr)"
  "act_rel (keeps_present view S) (getArgoCDSigningKey c cr)"
  unfolding getArgoCDSigningKey_def IsObjectFound_def
  by (auto intro!: fp.rel_intros kp.rel_intros api_fp api_kp split: option.split)

lemma addAccountToken_rel:
  "act_rel (same_outside view {secretKey cr ArgoCDSecretName}) (addAccountToken c cr u tokens)"
  "act_rel (keeps_present view S) (addAccountToken c cr u tokens)"
  unfolding addAccountToken_def
  by (intro fp.rel_intros kp.rel_intros api_fp api_kp;
      auto simp: liftO_Ok_iff setData_Ok_iff dest: getAs_secret(2))+

lemma issueToken_long:
  assumes run: "issueToken e t c cr user lt td s = (Ok x, s')"
    and absent: "view (luWorld s) (secretKey cr (secretNameLocalUser user)) = None"
    and long: "maxLabelLength < length (secretNameLocalUser user)"
  shows "view (luWorld s) (secretKey cr (TruncateWithHash e (secretNameLocalUser user) maxLabelLength)) = None"
    and "view (luWorld s') (secretKey cr (TruncateWithHash e (secretNameLocalUser user) maxLabelLength)) \<noteq> None"
    and "view (luWorld s') (secretKey cr (secretNameLocalUser user)) = None"
proof -
  let ?k = "secretKey cr (secretNameLocalUser user)" and ?K = "secretKey cr ArgoCDSecretName"
  let ?k' = "secretKey cr (TruncateWithHash e (secretNameLocalUser user) maxLabelLength)"
  from run obtain ex sec w1 sk w2 jwt w3 tokens where
    us: "userSecretFor e c cr user (luWorld s) = (Ok (ex, sec), w1)"
    and sk: "getArgoCDSigningKey c cr w1 = (Ok sk, w2)"
    and wr: "(if ex then updateO c (OSecret (sec\<lparr>secData := issuedData t user lt td (Suc (luTick s)) jwt\<rparr>))
      else createO c (OSecret (sec\<lparr>secData := issuedData t user lt td (Suc (luTick s)) jwt\<rparr>))) w2 = (Ok (), w3)"
    and ad: "addAccountToken c cr (LocalUser_Name user) tokens w3 = (Ok x, luWorld s')"
    by (rule issueToken_parts)
  have ex: "\<not> ex" by (rule userSecretFor_absent[OF us absent])
  from userSecretFor_Ok(3)[OF us ex] have k': "okey (OSecret sec) = ?k'" and v1: "view w1 = view (luWorld s)" by auto
  from wr ex have cr: "createO c (OSecret (sec\<lparr>secData := issuedData t user lt td (Suc (luTick s)) jwt\<rparr>)) w2 = (Ok (), w3)"
    by simp
  note cv = createO_Ok[OF cr, unfolded okey_secData k']
  have "length (TruncateWithHash e (secretNameLocalUser user) maxLabelLength) \<le> maxLabelLength"
    by (rule TruncateWithHash_length) (simp add: maxLabelLength_def)
  with long have ne: "?k \<noteq> ?k'" by (auto simp: secretKey_def)
  have K: "?k \<noteq> ?K" by (rule user_secret_key)
  have "view w1 ?k' \<noteq> None \<Longrightarrow> view w2 ?k' \<noteq> None"
    using act_relD[OF signingKey_rel(2)[of "{?k'}"] sk] by (simp add: keeps_present_def)
  with cv v1 show "view (luWorld s) ?k' = None" by (cases "view (luWorld s) ?k'") auto
  show "view (luWorld s') ?k' \<noteq> None"
    using act_relD[OF addAccountToken_rel(2)[of "{?k'}"] ad] cv by (simp add: keeps_present_def)
  show "view (luWorld s') ?k = None"
    using same_outsideD[OF act_relD[OF addAccountToken_rel(1) ad], of ?k]
      same_outsideD[OF act_relD[OF signingKey_rel(1) sk], of ?k] cv ne K v1 absent by simp
qed

lemma reconcileLocalUser_long:
  assumes run: "reconcileLocalUser e t c cr user s = (Ok x, s')" and en: "\<not> apikeyIsFalseOrEnabledIsFalse user"
    and absent: "view (luWorld s) (secretKey cr (secretNameLocalUser user)) = None"
    and long: "maxLabelLength < length (secretNameLocalUser user)"
  shows "view (luWorld s) (secretKey cr (TruncateWithHash e (secretNameLocalUser user) maxLabelLength)) = None"
    and "view (luWorld s') (secretKey cr (TruncateWithHash e (secretNameLocalUser user) maxLabelLength)) \<noteq> None"
    and "view (luWorld s') (secretKey cr (secretNameLocalUser user)) = None"
proof -
  let ?k' = "secretKey cr (TruncateWithHash e (secretNameLocalUser user) maxLabelLength)"
  have "view (luWorld s) ?k' = None \<and> view (luWorld s') ?k' \<noteq> None \<and>
      view (luWorld s') (secretKey cr (secretNameLocalUser user)) = None"
    using run
  proof (cases rule: reconcileLocalUser_cases)
    case (absent lt td w1)
    with en obtain y s1 where i: "issueToken e t c cr (trimmed user) lt td ((afterStop cr user s)\<lparr>luWorld := w1\<rparr>) = (Ok y, s1)"
      and w: "luWorld s' = luWorld s1"
      by (auto simp: issueAndSchedule_def thenG_Ok_iff lu_iff split: if_splits)
    from issueToken_long[OF i] absent long w show ?thesis by simp
  next
    case (found lt td sec w1)
    from getAs_found[OF found(2)] absent show ?thesis by (metis option.distinct(1))
  qed
  then show "view (luWorld s) ?k' = None" "view (luWorld s') ?k' \<noteq> None"
    "view (luWorld s') (secretKey cr (secretNameLocalUser user)) = None" by auto
qed

end

section \<open>Users that are no longer in the custom resource\<close>

text \<open>What the operator relies on when it lists Secrets: the tracked ones come with their data.\<close>

locale secret_lister = verbatim_client +
  assumes list_tracked: "cList c w KSecret = (Inr xs, w') \<Longrightarrow> view w k = Some (OSecret sec) \<Longrightarrow>
      IsTrackedByOperator (OSecret sec) \<Longrightarrow> OSecret sec \<in> set xs"
    and list_labels: "cList c w KSecret = (Inr xs, w') \<Longrightarrow> x \<in> set xs \<Longrightarrow>
      \<exists>x0. view w (okey x) = Some x0 \<and> obj_labels x0 = obj_labels x"

interpretation mem_lister: secret_lister mem_client mem_view id id
proof
  fix w xs w' k sec x
  assume l: "cList mem_client w KSecret = (Inr xs, w')"
  { assume v: "mem_view w k = Some (OSecret sec)"
    with mem_view_in[OF v] mem_view_key[OF v] l show "OSecret sec \<in> set xs"
      by (auto simp: mem_client_def) }
  { assume "x \<in> set xs"
    with l show "\<exists>x0. mem_view w (okey x) = Some x0 \<and> obj_labels x0 = obj_labels x"
      by (auto simp: mem_client_def) }
qed

text \<open>The client the reconcilers run on lists from the stripped cache.\<close>

interpretation wrapped_lister:
  secret_lister "NewClientWrapper (strip_cache mem_client) mem_client" mem_view id track
proof (intro secret_lister.intro verbatim_client.intro secret_lister_axioms.intro verbatim_client_axioms.intro)
  show "k8s_client (NewClientWrapper (strip_cache mem_client) mem_client) mem_view id track"
    by (rule mem_live.wrapped_laws)
next
  fix w xs w' k sec x
  assume "cList (NewClientWrapper (strip_cache mem_client) mem_client) w KSecret = (Inr xs, w')"
  then obtain ys where l: "cList mem_client w KSecret = (Inr ys, w')"
    and xs: "xs = map StripDataFromSecretOrConfigMapTransform ys"
    by (auto simp: NewClientWrapper_def strip_cache_def mem_client_def)
  { assume v: "mem_view w k = Some (OSecret sec)" and tr: "IsTrackedByOperator (OSecret sec)"
    from mem_lister.list_tracked[OF l v tr] xs tr show "OSecret sec \<in> set xs" by (force simp: image_iff) }
  { assume "x \<in> set xs"
    then obtain y where y: "y \<in> set ys" "x = StripDataFromSecretOrConfigMapTransform y" using xs by auto
    have "obj_labels x = obj_labels y" unfolding y(2) by (cases y) (simp_all add: obj_labels_def)
    with mem_lister.list_labels[OF l y(1)] y(2)
    show "\<exists>x0. mem_view w (okey x) = Some x0 \<and> obj_labels x0 = obj_labels x" by simp }
qed simp

text \<open>What is left of a user whose secret was cleaned up: nothing, unless \<open>extraConfig\<close> keeps the token.\<close>

definition removed :: "('w \<Rightarrow> key \<Rightarrow> obj option) \<Rightarrow> argocd \<Rightarrow> secret \<Rightarrow> 'w users_state \<Rightarrow> bool" where
  "removed view cr sec s \<longleftrightarrow>
     (let u = gindex (secData sec) localUserUser in
      gone (view (luWorld s) (okey (OSecret sec))) \<and>
      (keptInExtraConfig cr u \<or> secret_value view (luWorld s) (secretKey cr ArgoCDSecretName) (tokensKey u) = None) \<and>
      fmlookup (luTimers s) (tokenRenewalTimerKeyLocalUser (metaNamespace (acMeta cr)) u) = None)"

context verbatim_client begin

lemma cleanupLocalUser_mono:
  assumes run: "cleanupLocalUser c cr u (Some sec) w = (Ok x, w')"
    and k: "okey (OSecret sec) \<noteq> secretKey cr ArgoCDSecretName"
  shows "k' \<noteq> secretKey cr ArgoCDSecretName \<Longrightarrow> gone (view w k') \<Longrightarrow> gone (view w' k')"
    and "secret_value view w (secretKey cr ArgoCDSecretName) d = None \<Longrightarrow>
      secret_value view w' (secretKey cr ArgoCDSecretName) d = None"
proof -
  let ?K = "secretKey cr ArgoCDSecretName"
  from run obtain y w1 where r: "(if \<not> keptInExtraConfig cr u then removeAccountToken c cr u else ret ()) w = (Ok y, w1)"
    and d: "deleteUserSecret c sec w1 = (Ok x, w')"
    unfolding cleanupLocalUser_def by (auto simp: thenG_Ok_iff)
  from deleteSecret_Ok[OF d] obtain v where v: "view w' = (view w1)(okey (OSecret sec) := v)" "gone v" .
  have "act_rel (same_outside view {?K}) (if \<not> keptInExtraConfig cr u then removeAccountToken c cr u else ret ())"
    by (intro fp.rel_intros removeAccountToken_fp)
  note same = same_outsideD[OF act_relD[OF this r]]
  show "k' \<noteq> ?K \<Longrightarrow> gone (view w k') \<Longrightarrow> gone (view w' k')" using same[of k'] v by simp
  have "secret_value view w1 ?K d = None" if "secret_value view w ?K d = None"
    using r removeAccountToken_Ok(2)[of cr u w y w1 ?K d] that by (auto split: if_splits)
  moreover have "secret_value view w' ?K d = secret_value view w1 ?K d"
    using v k by (simp add: secret_value_def secret_data_def)
  ultimately show "secret_value view w ?K d = None \<Longrightarrow> secret_value view w' ?K d = None" by simp
qed

text \<open>One turn of the loop, and the loop: what is removed stays removed.\<close>

lemma stop_lookup_None: "fmlookup (luTimers s) k = None \<Longrightarrow> fmlookup (luTimers (stopLocalUserTimer ns u s)) k = None"
  by (simp add: stopLocalUserTimer_def Let_def split: option.split)

lemma cleanupTurn_Ok:
  assumes run: "cleanupTurn c cr sec s = (Ok x, s')"
    and k: "okey (OSecret sec) \<noteq> secretKey cr ArgoCDSecretName"
  shows "\<forall>user\<in>set (elems (acLocalUsers (acSpec cr))). gindex (secData sec) localUserUser \<noteq> LocalUser_Name user \<Longrightarrow>
      removed view cr sec s'"
    and "removed view cr sec' s \<Longrightarrow> okey (OSecret sec') \<noteq> secretKey cr ArgoCDSecretName \<Longrightarrow> removed view cr sec' s'"
proof -
  let ?u = "gindex (secData sec) localUserUser" and ?s = "stopLocalUserTimer (metaNamespace (acMeta cr)) (gindex (secData sec) localUserUser) s"
  have step: "s' = s \<or> (cleanupLocalUser c cr ?u (Some sec) (luWorld s) = (Ok x, luWorld s') \<and> luTimers s' = luTimers ?s)"
    and step': "(\<forall>user\<in>set (elems (acLocalUsers (acSpec cr))). ?u \<noteq> LocalUser_Name user) \<Longrightarrow>
      cleanupLocalUser c cr ?u (Some sec) (luWorld s) = (Ok x, luWorld s') \<and> luTimers s' = luTimers ?s"
    using run by (auto simp: cleanupTurn_def Let_def thenG_Ok_iff lu_iff split: if_splits)
  show "removed view cr sec s'" if "\<forall>user\<in>set (elems (acLocalUsers (acSpec cr))). ?u \<noteq> LocalUser_Name user"
    using step'[OF that] cleanupLocalUser_gone[of cr ?u sec "luWorld s" x "luWorld s'"]
      cleanupLocalUser_token[of cr ?u "Some sec" "luWorld s" x "luWorld s'"] k
    by (cases "keptInExtraConfig cr ?u") (auto simp: removed_def Let_def stop_lookup)
  show "removed view cr sec' s'" if r: "removed view cr sec' s" and k': "okey (OSecret sec') \<noteq> secretKey cr ArgoCDSecretName"
    using step
  proof
    assume "s' = s" then show ?thesis using r by simp
  next
    assume c: "cleanupLocalUser c cr ?u (Some sec) (luWorld s) = (Ok x, luWorld s') \<and> luTimers s' = luTimers ?s"
    then show ?thesis
      using r cleanupLocalUser_mono[of cr ?u sec "luWorld s" x "luWorld s'"] k k' stop_lookup_None[of s]
      by (auto simp: removed_def Let_def)
  qed
qed

lemma cleanupLoop_Ok:
  assumes "forG (cleanupTurn c cr) secs s = (Ok x, s')"
    and "\<And>sec. sec \<in> set secs \<Longrightarrow> okey (OSecret sec) \<noteq> secretKey cr ArgoCDSecretName"
    and "sec \<in> set secs \<and> (\<forall>user\<in>set (elems (acLocalUsers (acSpec cr))). gindex (secData sec) localUserUser \<noteq> LocalUser_Name user)
      \<or> removed view cr sec s \<and> okey (OSecret sec) \<noteq> secretKey cr ArgoCDSecretName"
  shows "removed view cr sec s'"
  using assms
proof (induction secs arbitrary: s)
  case Nil
  then show ?case by simp
next
  case (Cons a secs)
  then obtain y s1 where t: "cleanupTurn c cr a s = (Ok y, s1)" and l: "forG (cleanupTurn c cr) secs s1 = (Ok x, s')"
    by (auto simp: thenG_Ok_iff)
  from Cons.prems(2) have k: "okey (OSecret a) \<noteq> secretKey cr ArgoCDSecretName" by simp
  have "sec \<in> set secs \<and> (\<forall>user\<in>set (elems (acLocalUsers (acSpec cr))). gindex (secData sec) localUserUser \<noteq> LocalUser_Name user)
      \<or> removed view cr sec s1 \<and> okey (OSecret sec) \<noteq> secretKey cr ArgoCDSecretName"
    using Cons.prems(3) cleanupTurn_Ok[OF t k] k by auto
  with Cons.IH[OF l] Cons.prems(2) show ?case by simp
qed

end

context secret_lister begin

lemma cleanupLocalUsers_Ok:
  assumes run: "cleanupLocalUsers c cr s = (Ok x, s')"
    and v: "view (luWorld s) k = Some (OSecret sec)" "IsTrackedByOperator (OSecret sec)"
    and sel: "metaNamespace (secMeta sec) = metaNamespace (acMeta cr)"
      "gget (metaLabels (secMeta sec)) ArgoCDKeyComponent = Some localUserSecretComponent"
    and undeclared: "\<forall>user\<in>set (elems (acLocalUsers (acSpec cr))). gindex (secData sec) localUserUser \<noteq> LocalUser_Name user"
    and argo: "\<And>y. view (luWorld s) (secretKey cr ArgoCDSecretName) = Some y \<Longrightarrow>
      gget (obj_labels y) ArgoCDKeyComponent \<noteq> Some localUserSecretComponent"
  shows "removed view cr sec s'"
proof -
  let ?sel = "\<lambda>z. metaNamespace (secMeta z) = metaNamespace (acMeta cr) \<and>
         gget (metaLabels (secMeta z)) ArgoCDKeyComponent = Some localUserSecretComponent"
  from run obtain xs w1 where l: "listO c KSecret (luWorld s) = (Ok xs, w1)"
    and f: "forG (cleanupTurn c cr) (filter ?sel (List.map_filter as_secret xs)) (s\<lparr>luWorld := w1\<rparr>) = (Ok x, s')"
    by (auto simp: cleanupLocalUsers_def listLocalUserSecrets_def bindG_Ok_iff onWorld_iff)
  from l have cl: "cList c (luWorld s) KSecret = (Inr xs, w1)"
    by (auto simp: listO_def split: prod.splits sum.splits)
  have mem: "z \<in> set (List.map_filter as_secret xs) \<longleftrightarrow> OSecret z \<in> set xs" for z
  proof -
    have "as_secret y = Some z \<longleftrightarrow> y = OSecret z" for y by (cases y) auto
    then show ?thesis by (force simp: List.map_filter_def)
  qed
  show ?thesis
  proof (rule cleanupLoop_Ok[OF f])
    fix z assume "z \<in> set (filter ?sel (List.map_filter as_secret xs))"
    then have z: "OSecret z \<in> set xs" "?sel z" by (simp_all add: mem)
    from list_labels[OF cl z(1)] obtain y where "view (luWorld s) (okey (OSecret z)) = Some y" "obj_labels y = obj_labels (OSecret z)"
      by blast
    with argo[of y] z(2) show "okey (OSecret z) \<noteq> secretKey cr ArgoCDSecretName" by (auto simp: obj_labels_def)
  next
    from list_tracked[OF cl v] sel undeclared
    show "sec \<in> set (filter ?sel (List.map_filter as_secret xs)) \<and>
        (\<forall>user\<in>set (elems (acLocalUsers (acSpec cr))). gindex (secData sec) localUserUser \<noteq> LocalUser_Name user)
      \<or> removed view cr sec (s\<lparr>luWorld := w1\<rparr>) \<and> okey (OSecret sec) \<noteq> secretKey cr ArgoCDSecretName"
      by (simp add: mem)
  qed
qed

end

section \<open>What the reconciliation of users touches\<close>

definition secretsOf :: "string \<Rightarrow> key set" where
  "secretsOf ns = {k. fst k = KSecret \<and> fst (snd k) = ns}"

definition world_same :: "('w \<Rightarrow> key \<Rightarrow> obj option) \<Rightarrow> key set \<Rightarrow> 'w users_state \<Rightarrow> 'w users_state \<Rightarrow> bool" where
  "world_same view S s s' \<longleftrightarrow> same_outside view S (luWorld s) (luWorld s')"

interpretation lf: world_relation "world_same view S" for view S
  unfolding world_same_def by unfold_locales (auto simp: same_outside_def)

lemma onWorld_lf: "act_rel (same_outside view S) m \<Longrightarrow> act_rel (world_same view S) (onWorld m)"
  by (auto simp: act_rel_def world_same_def onWorld_def split: prod.splits) (metis snd_conv)

lemma modify_lf: "(\<And>s. luWorld (f s) = luWorld s) \<Longrightarrow> act_rel (world_same view S) (modifyS f)"
  by (simp add: act_rel_def world_same_def modifyS_def same_outside_def)

lemma read_lf: "act_rel (world_same view S) (readClock t)" "act_rel (world_same view S) (readUUID t)"
  by (auto simp: act_rel_def world_same_def readClock_def readUUID_def same_outside_def split: sum.splits)

lemma ensureScheduled_lf: "act_rel (world_same view S) (ensureScheduled t cr user td ar x)"
  by (auto simp: act_rel_def world_same_def same_outside_def ensureScheduled_def Let_def bindG_def handle_def
      readClock_def modifyS_def split: option.split)

lemmas lf_intros = lf.rel_intros onWorld_lf modify_lf read_lf start_world stop_world ensureScheduled_lf

context k8s_client begin

lemma user_actions_fp:
  assumes S: "secretsOf (metaNamespace (acMeta cr)) \<subseteq> S"
  shows "act_rel (same_outside view S) (getAs c as_secret (secretKey cr n))"
    and "act_rel (same_outside view S) (userSecretFor e c cr user)"
    and "act_rel (same_outside view S) (getArgoCDSigningKey c cr)"
    and "act_rel (same_outside view S) (addAccountToken c cr u tokens)"
    and "act_rel (same_outside view S) (removeAccountToken c cr u)"
    and "act_rel (same_outside view S) (accountTokenMissing c cr user)"
proof -
  have k: "secretKey cr n \<in> S" for n using S by (auto simp: secretKey_def secretsOf_def)
  show g: "act_rel (same_outside view S) (getAs c as_secret (secretKey cr n))" for n by (intro api_fp disjI1 k)
  show "act_rel (same_outside view S) (userSecretFor e c cr user)"
    unfolding userSecretFor_def Let_def by (intro fp.rel_intros g)
  show "act_rel (same_outside view S) (getArgoCDSigningKey c cr)"
    unfolding getArgoCDSigningKey_def IsObjectFound_def by (auto intro!: fp.rel_intros g split: option.split)
  show "act_rel (same_outside view S) (addAccountToken c cr u tokens)"
    unfolding addAccountToken_def
    by (intro fp.rel_intros g api_fp) (auto simp: liftO_Ok_iff setData_Ok_iff k dest!: getAs_secret(2))
  show "act_rel (same_outside view S) (removeAccountToken c cr u)"
    unfolding removeAccountToken_def by (intro fp.rel_intros g api_fp) (auto simp: k dest!: getAs_secret(2))
  show "act_rel (same_outside view S) (accountTokenMissing c cr user)"
    unfolding accountTokenMissing_def by (intro fp.rel_intros g)
qed

lemma cleanupLocalUser_in:
  assumes "secretsOf (metaNamespace (acMeta cr)) \<subseteq> S" and "\<And>z. sec = Some z \<Longrightarrow> okey (OSecret z) \<in> S"
  shows "act_rel (same_outside view S) (cleanupLocalUser c cr u sec)"
  unfolding cleanupLocalUser_def deleteUserSecret_def
  using assms by (cases sec) (auto intro!: fp.rel_intros user_actions_fp deleteO_fp)

lemma issueToken_lf:
  assumes S: "secretsOf (metaNamespace (acMeta cr)) \<subseteq> S"
  shows "act_rel (world_same view S) (issueToken e t c cr user lt td)"
proof -
  have k: "secretKey cr n \<in> S" for n using S by (auto simp: secretKey_def secretsOf_def)
  have us: "okey (OSecret (snd p)) \<in> S" if "userSecretFor e c cr user w = (Ok p, w')" for w w' p
    using that k by (cases p; cases "fst p") (auto dest: userSecretFor_Ok(2,3))
  show ?thesis
    unfolding issueToken_def Let_def case_prod_unfold
    by (intro lf_intros fp.rel_intros user_actions_fp api_fp S) (auto simp: onWorld_iff dest: us)
qed

lemma reconcileLocalUser_lf:
  assumes S: "secretsOf (metaNamespace (acMeta cr)) \<subseteq> S"
  shows "act_rel (world_same view S) (reconcileLocalUser e t c cr user)"
proof -
  have k: "secretKey cr n \<in> S" for n using S by (auto simp: secretKey_def secretsOf_def)
  have up: "act_rel (world_same view S) (reconcileExistingToken e t c cr u lt td sec)" if "okey (OSecret sec) \<in> S" for u lt td sec
    using that unfolding reconcileExistingToken_def tokenOutdated_def updateAutoRenew_def Let_def
    by (intro lf_intros fp.rel_intros user_actions_fp S issueToken_lf api_fp) (auto simp: liftO_Ok_iff setData_Ok_iff)
  show ?thesis
    unfolding reconcileLocalUser_def issueAndSchedule_def Let_def case_prod_unfold
    by (intro lf_intros user_actions_fp S issueToken_lf up cleanupLocalUser_in)
       (auto simp: onWorld_iff k dest!: getAs_secret(2))
qed

lemma cleanupLocalUsers_lf:
  assumes S: "secretsOf (metaNamespace (acMeta cr)) \<subseteq> S"
  shows "act_rel (world_same view S) (cleanupLocalUsers c cr)"
proof -
  have l: "act_rel (same_outside view S) (listO c kd)" for kd
    using listO_view by (auto simp: act_rel_def same_outside_def) (metis prod.collapse)
  show ?thesis
    unfolding cleanupLocalUsers_def listLocalUserSecrets_def cleanupTurn_def Let_def
    by (intro lf_intros fp.rel_intros l S cleanupLocalUser_in)
       (use S in \<open>auto simp: onWorld_iff bindG_Ok_iff okey_secret secretsOf_def\<close>)
qed

lemma reconcileLocalUsers_lf:
  "act_rel (world_same view (secretsOf (metaNamespace (acMeta cr)))) (reconcileLocalUsers e t c cr)"
  unfolding reconcileLocalUsers_def
  by (intro lf_intros api_fp reconcileLocalUser_lf cleanupLocalUsers_lf)
     (auto simp: onWorld_iff refreshable_def okey_def dest!: getAs_key elim!: as_argocd.elims)

end

section \<open>Runs\<close>

text \<open>The lock makes each of these atomic: a reconciliation, a timer that has not been stopped and fires,
  the removal of the timers of a namespace; in between the cluster changes from outside.\<close>

inductive users_step :: "env \<Rightarrow> token_lib \<Rightarrow> 'w client \<Rightarrow> 'w users_state \<Rightarrow> 'w users_state \<Rightarrow> bool"
  for e t c where
  reconcile: "users_step e t c s (snd (reconcileLocalUsers e t c cr s))"
| fire: "i < length (luPool s) \<Longrightarrow> \<not> tmStopped (luPool s ! i) \<Longrightarrow>
    users_step e t c s (snd (reconcileLocalUsers e t c cr s))"
| deleted: "users_step e t c s (cleanupNamespaceTokenTimers ns s)"
| outside: "users_step e t c s (s\<lparr>luWorld := w'\<rparr>)"

inductive users_run :: "env \<Rightarrow> token_lib \<Rightarrow> 'w client \<Rightarrow> 'w users_state \<Rightarrow> 'w users_state \<Rightarrow> bool"
  for e t c where
  start: "users_run e t c s s"
| step: "users_run e t c s s' \<Longrightarrow> users_step e t c s' s'' \<Longrightarrow> users_run e t c s s''"

lemma users_step_timers: "users_step e t c s s' \<Longrightarrow> timers_ok s \<Longrightarrow> timers_ok s'"
proof (induction rule: users_step.induct)
  case (reconcile s cr)
  with reconcileLocalUsers_tm show ?case by (metis act_rel_def timers_step_def)
next
  case (fire i s cr)
  with reconcileLocalUsers_tm show ?case by (metis act_rel_def timers_step_def)
next
  case (deleted s ns)
  then show ?case by (rule cleanup_timers_ok)
next
  case (outside s w')
  then show ?case by (simp add: timers_ok_def)
qed

lemma users_run_timers: "users_run e t c s s' \<Longrightarrow> timers_ok s \<Longrightarrow> timers_ok s'"
  by (induction rule: users_run.induct) (auto dest: users_step_timers)

section \<open>A sample\<close>

definition sampleTokens :: token_lib where
  "sampleTokens = \<lparr>
     clock = (\<lambda>_. 7000000000),
     newUUID = (\<lambda>_. Inr ''uuid''),
     parseDuration = (\<lambda>s. if s = ''2s'' then Inr 2000000000 else Inl (ErrorText ''invalid duration'')),
     signJWT = (\<lambda>_ _. Inr ''jwt''),
     marshalTokens = (\<lambda>_. Inr ''tokens'')\<rparr>"

definition sampleUser :: "string \<Rightarrow> bool \<Rightarrow> LocalUserSpec" where
  "sampleUser name enabled = \<lparr>LocalUser_Name = name, LocalUser_Enabled = Some enabled, LocalUser_ApiKey = None,
     LocalUser_Login = False, LocalUser_TokenLifetime = '' 2s'', LocalUser_AutoRenewToken = None\<rparr>"

definition sampleArgoCD :: argocd where
  "sampleArgoCD = \<lparr>acMeta = mkMeta ''argocd'' ''team'', acSpec = (defaultSpec None '''')\<lparr>acLocalUsers := Some [sampleUser ''ann'' True]\<rparr>\<rparr>"

definition sampleArgoSecret :: secret where
  "sampleArgoSecret = \<lparr>secMeta = mkMeta ''argocd-secret'' ''team'', secType = ''Opaque'',
     secData = gmap [(''server.secretkey'', ''key''), (''accounts.bob.tokens'', ''old'')], secStringData = None\<rparr>"

definition sampleBob :: secret where
  "sampleBob = \<lparr>secMeta = (mkMeta ''bob-local-user'' ''team'')\<lparr>metaLabels := gmap
       [(ArgoCDTrackedByOperatorLabel, ArgoCDAppName), (ArgoCDKeyComponent, localUserSecretComponent)]\<rparr>,
     secType = ''Opaque'', secData = gmap [(localUserUser, ''bob'')], secStringData = None\<rparr>"

definition sampleUsers :: "obj list users_state" where
  "sampleUsers = \<lparr>luWorld = [OArgoCD sampleArgoCD, OSecret sampleArgoSecret, OSecret sampleBob],
     luTimers = fmempty, luPool = [], luTick = 0\<rparr>"

lemmas sample_users_defs = sampleTokens_def sampleUser_def sampleArgoCD_def sampleArgoSecret_def sampleBob_def sampleUsers_def

lemma sampleUsers_ok: "timers_ok sampleUsers"
  by (simp add: timers_ok_def sampleUsers_def)

section \<open>Properties\<close>

text \<open>C10. Revocation: when reconciling a local user that is disabled or whose \<open>apiKey\<close> is false, and to whom
  \<open>extraConfig\<close> does not grant the API key, returns without an error, the secret \<open><user>-local-user\<close> is gone,
  which for a user whose secret needs no name of more than 63 characters is the one the operator creates for
  the user; Argo CD's secret holds no token for the user and no timer that could renew one is left running.\<close>

theorem reconcileLocalUser_revokes:
  assumes "verbatim_client c view admit refresh" and "timers_ok s"
    and "apikeyIsFalseOrEnabledIsFalse user" and "\<not> keptInExtraConfig cr (LocalUser_Name user)"
    and "reconcileLocalUser e t c cr user s = (Ok (), s')"
  shows "gone (view (luWorld s') (secretKey cr (secretNameLocalUser user))) \<and>
    (length (secretNameLocalUser user) \<le> maxLabelLength \<longrightarrow>
      gone (view (luWorld s') (okey (OSecret (NewSecretWithName e cr (secretNameLocalUser user)))))) \<and>
    secret_value view (luWorld s') (secretKey cr ArgoCDSecretName) (tokensKey (LocalUser_Name user)) = None \<and>
    (\<forall>i<length (luPool s'). tmKey (luPool s' ! i) =
       tokenRenewalTimerKeyLocalUser (metaNamespace (acMeta cr)) (LocalUser_Name user) \<longrightarrow> tmStopped (luPool s' ! i))"
proof -
  have "timers_ok s'" using act_relD[OF reconcileLocalUser_tm assms(5)] assms(2) by (simp add: timers_step_def)
  moreover have "length (secretNameLocalUser user) \<le> maxLabelLength \<Longrightarrow>
      okey (OSecret (NewSecretWithName e cr (secretNameLocalUser user))) = secretKey cr (secretNameLocalUser user)"
    by (simp add: NewSecretWithName_def secretKey_def okey_def TruncateWithHash_id Let_def)
  ultimately show ?thesis
    using verbatim_client.reconcileLocalUser_revoked[OF assms(1) assms(5) assms(3,4)] by (metis timers_ok_def option.distinct(1))
qed

theorem reconcileLocalUser_revokes_witness:
  "let s' = snd (reconcileLocalUser sampleEnv sampleTokens mem_client sampleArgoCD (sampleUser ''bob'' False) sampleUsers)
   in gone (mem_view (luWorld s') (KSecret, ''team'', ''bob-local-user'')) \<and>
     secret_value mem_view (luWorld s') (KSecret, ''team'', ''argocd-secret'') ''accounts.bob.tokens'' = None"
proof -
  have run: "fst (reconcileLocalUser sampleEnv sampleTokens mem_client sampleArgoCD (sampleUser ''bob'' False) sampleUsers) = Ok ()"
    by code_simp
  have kept: "\<not> keptInExtraConfig sampleArgoCD (LocalUser_Name (sampleUser ''bob'' False))" by code_simp
  have rv: "apikeyIsFalseOrEnabledIsFalse (sampleUser ''bob'' False)"
    by (simp add: apikeyIsFalseOrEnabledIsFalse_def sampleUser_def)
  from reconcileLocalUser_revokes[OF mem.verbatim_client_axioms sampleUsers_ok rv kept run_result[OF run]]
  show ?thesis
    by (simp add: Let_def secretKey_def secretNameLocalUser_def tokensKey_def ArgoCDSecretName_def sampleUser_def sampleArgoCD_def)
qed



text \<open>A user that has left the custom resource: when the cleanup returns without an error, the user's
  secret is gone, with the token in Argo CD's secret (unless \<open>extraConfig\<close> keeps it) and the timer; also
  on the wrapping client, whose list comes from a cache that strips untracked Secrets.\<close>

theorem cleanupLocalUsers_removes:
  assumes "secret_lister c view admit refresh"
    and "view (luWorld s) k = Some (OSecret sec)" "IsTrackedByOperator (OSecret sec)"
    and "metaNamespace (secMeta sec) = metaNamespace (acMeta cr)"
    and "gget (metaLabels (secMeta sec)) ArgoCDKeyComponent = Some localUserSecretComponent"
    and "\<forall>user\<in>set (elems (acLocalUsers (acSpec cr))). gindex (secData sec) localUserUser \<noteq> LocalUser_Name user"
    and "\<And>y. view (luWorld s) (secretKey cr ArgoCDSecretName) = Some y \<Longrightarrow>
      gget (obj_labels y) ArgoCDKeyComponent \<noteq> Some localUserSecretComponent"
    and "cleanupLocalUsers c cr s = (Ok (), s')"
  shows "removed view cr sec s'"
  by (rule secret_lister.cleanupLocalUsers_Ok[OF assms(1) assms(8) assms(2-7)])

theorem cleanupLocalUsers_removes_witness:
  "removed mem_view sampleArgoCD sampleBob
     (snd (cleanupLocalUsers (NewClientWrapper (strip_cache mem_client) mem_client) sampleArgoCD sampleUsers))"
proof -
  let ?c = "NewClientWrapper (strip_cache mem_client) mem_client"
  have run: "fst (cleanupLocalUsers ?c sampleArgoCD sampleUsers) = Ok ()" by code_simp
  have v: "mem_view (luWorld sampleUsers) (KSecret, ''team'', ''bob-local-user'') = Some (OSecret sampleBob)"
    "mem_view (luWorld sampleUsers) (secretKey sampleArgoCD ArgoCDSecretName) = Some (OSecret sampleArgoSecret)"
    by (simp_all add: mem_view_def okey_def sample_users_defs secretKey_def ArgoCDSecretName_def)
  have tr: "IsTrackedByOperator (OSecret sampleBob)" by code_simp
  show ?thesis
    by (rule cleanupLocalUsers_removes[OF wrapped_lister.secret_lister_axioms v(1) tr _ _ _ _ run_result[OF run]])
      (use v in \<open>auto simp: sample_users_defs ArgoCDKeyComponent_def ArgoCDTrackedByOperatorLabel_def obj_labels_def
        gindex_def localUserUser_def\<close>)
qed

text \<open>Removing a user takes the token out of Argo CD's secret before it deletes the user's secret,
  whatever call fails on the way: if the user's secret has been touched at all, the token is gone, so a
  token never outlives the secret by which the next reconciliation finds it.\<close>

theorem cleanupLocalUser_order:
  assumes "verbatim_client c view admit refresh" and "\<not> keptInExtraConfig cr u"
    and "okey (OSecret sec) \<noteq> secretKey cr ArgoCDSecretName"
    and "cleanupLocalUser c cr u (Some sec) w = (r, w')"
    and "view w' (okey (OSecret sec)) \<noteq> view w (okey (OSecret sec))"
  shows "secret_value view w' (secretKey cr ArgoCDSecretName) (tokensKey u) = None"
  by (rule verbatim_client.cleanupLocalUser_ordered[OF assms(1) assms(4) assms(2,3,5)])

theorem cleanupLocalUser_order_witness:
  "secret_value mem_view (snd (cleanupLocalUser mem_client sampleArgoCD ''bob'' (Some sampleBob) (luWorld sampleUsers)))
     (KSecret, ''team'', ''argocd-secret'') ''accounts.bob.tokens'' = None"
proof -
  have kept: "\<not> keptInExtraConfig sampleArgoCD ''bob''" by code_simp
  have k: "okey (OSecret sampleBob) \<noteq> secretKey sampleArgoCD ArgoCDSecretName"
    by (simp add: okey_def secretKey_def ArgoCDSecretName_def sampleBob_def)
  have "mem_view (snd (cleanupLocalUser mem_client sampleArgoCD ''bob'' (Some sampleBob) (luWorld sampleUsers)))
      (okey (OSecret sampleBob)) = None" by code_simp
  moreover have "mem_view (luWorld sampleUsers) (okey (OSecret sampleBob)) \<noteq> None"
    by (simp add: mem_view_def okey_def sample_users_defs)
  ultimately have ne: "mem_view (snd (cleanupLocalUser mem_client sampleArgoCD ''bob'' (Some sampleBob) (luWorld sampleUsers)))
      (okey (OSecret sampleBob)) \<noteq> mem_view (luWorld sampleUsers) (okey (OSecret sampleBob))" by auto
  have K: "secretKey sampleArgoCD ArgoCDSecretName = (KSecret, ''team'', ''argocd-secret'')" "tokensKey ''bob'' = ''accounts.bob.tokens''"
    by (simp_all add: secretKey_def ArgoCDSecretName_def tokensKey_def sampleArgoCD_def)
  show ?thesis
    by (rule cleanupLocalUser_order[OF mem.verbatim_client_axioms kept k surjective_pairing ne, unfolded K])
qed

text \<open>A user whose name makes that of its secret longer than 63 characters is reconciled at most once:
  the secret is created under a truncated name and looked up under the full one, so after a first
  success every later reconciliation of the user fails.\<close>

theorem reconcileLocalUser_long_name:
  assumes "k8s_client c view admit refresh"
    and "\<not> apikeyIsFalseOrEnabledIsFalse user" and "maxLabelLength < length (secretNameLocalUser user)"
    and "view (luWorld s) (secretKey cr (secretNameLocalUser user)) = None"
    and "reconcileLocalUser e t c cr user s = (Ok (), s')"
  shows "fst (reconcileLocalUser e t c cr user s') \<noteq> Ok ()"
proof
  assume "fst (reconcileLocalUser e t c cr user s') = Ok ()"
  note again = run_result[OF this]
  note first = k8s_client.reconcileLocalUser_long[OF assms(1) assms(5) assms(2) assms(4) assms(3)]
  from k8s_client.reconcileLocalUser_long(1)[OF assms(1) again assms(2) first(3) assms(3)] first(2)
  show False by simp
qed

definition sampleLong :: string where
  "sampleLong = replicate 60 (CHR ''x'')"

theorem reconcileLocalUser_long_name_witness:
  "fst (reconcileLocalUser sampleEnv sampleTokens mem_client sampleArgoCD (sampleUser sampleLong True)
     (snd (reconcileLocalUser sampleEnv sampleTokens mem_client sampleArgoCD (sampleUser sampleLong True) sampleUsers))) \<noteq> Ok ()"
proof (rule reconcileLocalUser_long_name[OF mem.k8s_client_axioms])
  let ?run = "reconcileLocalUser sampleEnv sampleTokens mem_client sampleArgoCD (sampleUser sampleLong True) sampleUsers"
  have "fst ?run = Ok ()" by code_simp
  then show "?run = (Ok (), snd ?run)" by (rule run_result)
  show "\<not> apikeyIsFalseOrEnabledIsFalse (sampleUser sampleLong True)"
    by (simp add: apikeyIsFalseOrEnabledIsFalse_def sampleUser_def)
  show "maxLabelLength < length (secretNameLocalUser (sampleUser sampleLong True))"
    by (simp add: secretNameLocalUser_def sampleUser_def sampleLong_def maxLabelLength_def)
  have "length ''bob-local-user'' \<noteq> length (secretNameLocalUser (sampleUser sampleLong True))"
    "length ''argocd-secret'' \<noteq> length (secretNameLocalUser (sampleUser sampleLong True))"
    by (simp_all add: secretNameLocalUser_def sampleUser_def sampleLong_def)
  then have "''bob-local-user'' \<noteq> secretNameLocalUser (sampleUser sampleLong True)"
    "''argocd-secret'' \<noteq> secretNameLocalUser (sampleUser sampleLong True)" by metis+
  then show "mem_view (luWorld sampleUsers) (secretKey sampleArgoCD (secretNameLocalUser (sampleUser sampleLong True))) = None"
    by (simp add: mem_view_def okey_def secretKey_def sampleUsers_def sampleArgoCD_def sampleArgoSecret_def sampleBob_def)
qed

text \<open>C12. Renewal timers, over every run of reconciliations, firing timers, deletions of instances and
  changes from outside, whatever fails: a timer that has not been stopped is the one the map holds for
  its user, so no user has two timers that could renew its token.\<close>

theorem local_user_timers:
  assumes "users_run e t c s s'" and "luTimers s = fmempty" and "luPool s = []"
    and "i < length (luPool s')" and "\<not> tmStopped (luPool s' ! i)"
  shows "fmlookup (luTimers s') (tmKey (luPool s' ! i)) = Some i"
proof -
  from assms(2,3) have "timers_ok s" by (simp add: timers_ok_def)
  with users_run_timers[OF assms(1)] assms(4,5) show ?thesis by (simp add: timers_ok_def)
qed

theorem local_user_timers_witness:
  "let s' = snd (reconcileLocalUsers sampleEnv sampleTokens mem_client sampleArgoCD sampleUsers)
   in fmlookup (luTimers s') (tmKey (luPool s' ! 0)) = Some 0"
proof -
  let ?s = "snd (reconcileLocalUsers sampleEnv sampleTokens mem_client sampleArgoCD sampleUsers)"
  have "users_run sampleEnv sampleTokens mem_client sampleUsers ?s"
    by (rule users_run.step[OF users_run.start users_step.reconcile])
  moreover have "length (luPool ?s) = 1" by code_simp
  moreover have "\<not> tmStopped (luPool ?s ! 0)" by code_simp
  moreover have "luTimers sampleUsers = fmempty" "luPool sampleUsers = []" by (simp_all add: sampleUsers_def)
  ultimately have "fmlookup (luTimers ?s) (tmKey (luPool ?s ! 0)) = Some 0"
    using local_user_timers[of sampleEnv sampleTokens mem_client sampleUsers ?s 0] by simp
  then show ?thesis by (simp add: Let_def)
qed

text \<open>Reconciling the local users of an instance, however it ends, changes no object other than
  Secrets of the instance's namespace.\<close>

theorem reconcileLocalUsers_footprint:
  assumes "k8s_client c view admit refresh"
    and "fst k \<noteq> KSecret \<or> fst (snd k) \<noteq> metaNamespace (acMeta cr)"
  shows "view (luWorld (snd (reconcileLocalUsers e t c cr s))) k = view (luWorld s) k"
proof -
  have "k \<notin> secretsOf (metaNamespace (acMeta cr))" using assms(2) by (auto simp: secretsOf_def)
  with k8s_client.reconcileLocalUsers_lf[OF assms(1), of cr e t] show ?thesis
    by (auto simp: act_rel_def world_same_def dest!: same_outsideD)
qed

theorem reconcileLocalUsers_footprint_witness:
  "mem_view (luWorld (snd (reconcileLocalUsers sampleEnv sampleTokens mem_client sampleArgoCD sampleUsers))) (KArgoCD, ''team'', ''argocd'') =
   Some (OArgoCD sampleArgoCD)"
  using reconcileLocalUsers_footprint[OF mem.k8s_client_axioms, of "(KArgoCD, ''team'', ''argocd'')" sampleArgoCD sampleEnv sampleTokens sampleUsers]
  by (simp add: mem_view_def okey_def sample_users_defs)

end
