(* ===== verification/Command_Args.thy ===== *)
theory Command_Args
  imports Prelude
begin

text \<open>
  How the operator merges the command line arguments a user gives in the custom resource into the
  command of a component: \<open>appendUniqueArgs\<close> of \<open>argocd-operator/controllers/argocd/util.go\<close>. Its two
  loops are one recursion here, with the body of each as an argument, over the state of the function's
  local variables. The specification works on flags with their values instead of on words, and the
  properties say which values of which flag the merged command has.
\<close>

section \<open>The code\<close>

definition isFlag :: "string \<Rightarrow> bool" where
  "isFlag s = HasPrefix s ''--''"

record args_state =
  asExisting :: "string \<rightharpoonup> string"
  asRepeated :: "string \<rightharpoonup> string set"
  asNonRepeatable :: "string set"
  asResult :: "string list"

definition addArg :: "string \<Rightarrow> string \<Rightarrow> args_state \<Rightarrow> args_state" where
  "addArg flag val s = s\<lparr>asResult := asResult s @ [flag] @ (if val \<noteq> '''' then [val] else [])\<rparr>"

definition repeatedValues :: "args_state \<Rightarrow> string \<Rightarrow> string set" where
  "repeatedValues s arg = (case asRepeated s arg of None \<Rightarrow> {} | Some vs \<Rightarrow> vs)"

text \<open>The value that follows a flag, and the words after it.\<close>

fun splitValue :: "string list \<Rightarrow> string \<times> string list" where
  "splitValue [] = ('''', [])"
| "splitValue (x # xs) = (if \<not> isFlag x then (x, xs) else ('''', x # xs))"

lemma splitValue_length: "(v, ys) = splitValue xs \<Longrightarrow> length ys \<le> length xs"
  by (cases xs) (auto split: if_splits)

function (sequential) scanArgs ::
  "(string \<Rightarrow> string \<Rightarrow> args_state \<Rightarrow> args_state) \<Rightarrow> string list \<Rightarrow> args_state \<Rightarrow> args_state" where
  "scanArgs flagged [] s = s"
| "scanArgs flagged (arg # rest) s =
     (if isFlag arg
      then (case splitValue rest of (val, rest') \<Rightarrow> scanArgs flagged rest' (flagged arg val s))
      else scanArgs flagged rest (s\<lparr>asResult := asResult s @ [arg]\<rparr>))"
  by pat_completeness auto
termination
  by (relation "measure (\<lambda>(_, xs, _). length xs)") (auto simp: less_Suc_eq_le dest: splitValue_length)

text \<open>The first loop's body, for the operator's own command.\<close>

definition cmdFlag :: "string \<Rightarrow> string \<Rightarrow> args_state \<Rightarrow> args_state" where
  "cmdFlag arg val s = addArg arg val
     (s\<lparr>asRepeated := (asRepeated s)(arg \<mapsto> insert val (repeatedValues s arg)),
        asExisting := (asExisting s)(arg \<mapsto> val),
        asNonRepeatable := insert arg (asNonRepeatable s)\<rparr>)"

text \<open>The loop that takes a flag, with its value, out of the result.\<close>

fun dropFlag :: "string \<Rightarrow> bool \<Rightarrow> string list \<Rightarrow> string list" where
  "dropFlag arg skipNext [] = []"
| "dropFlag arg True (x # xs) = dropFlag arg False xs"
| "dropFlag arg False (x # xs) =
     (if x = arg
      then dropFlag arg (case xs of [] \<Rightarrow> False | y # _ \<Rightarrow> \<not> isFlag y) xs
      else x # dropFlag arg False xs)"

text \<open>The second loop's body, for the user's arguments.\<close>

definition extraFlag :: "string \<Rightarrow> string \<Rightarrow> args_state \<Rightarrow> args_state" where
  "extraFlag arg val s =
     (if val \<in> repeatedValues s arg then s
      else if arg \<in> asNonRepeatable s
      then addArg arg val (s\<lparr>asResult := dropFlag arg False (asResult s),
             asRepeated := (asRepeated s)(arg \<mapsto> {val}),
             asExisting := (asExisting s)(arg \<mapsto> val)\<rparr>)
      else addArg arg val
             (s\<lparr>asRepeated := (asRepeated s)(arg \<mapsto> insert val (repeatedValues s arg))\<rparr>))"

definition appendUniqueArgs :: "string list \<Rightarrow> string list \<Rightarrow> string list" where
  "appendUniqueArgs cmd extraArgs =
     (let s0 = \<lparr>asExisting = Map.empty, asRepeated = Map.empty, asNonRepeatable = {}, asResult = []\<rparr>
      in asResult (scanArgs extraFlag extraArgs (scanArgs cmdFlag cmd s0)))"

section \<open>The specification\<close>

text \<open>A command line of flags, each with its value; an empty value stands for a flag without one.\<close>

definition renderFlag :: "string \<times> string \<Rightarrow> string list" where
  "renderFlag fv = fst fv # (if snd fv \<noteq> '''' then [snd fv] else [])"

definition renderFlags :: "(string \<times> string) list \<Rightarrow> string list" where
  "renderFlags fvs = concat (map renderFlag fvs)"

definition flagsOk :: "(string \<times> string) list \<Rightarrow> bool" where
  "flagsOk fvs = list_all (\<lambda>(f, v). isFlag f \<and> \<not> isFlag v) fvs"

text \<open>One argument of the user: dropped when it is there already, a replacement for a flag of the
  operator, an addition otherwise.\<close>

definition mergeFlag :: "string set \<Rightarrow> string \<times> string \<Rightarrow> (string \<times> string) list \<Rightarrow> (string \<times> string) list" where
  "mergeFlag own fv fvs =
     (if fv \<in> set fvs then fvs
      else if fst fv \<in> own then filter (\<lambda>x. fst x \<noteq> fst fv) fvs @ [fv]
      else fvs @ [fv])"

definition mergeFlags :: "(string \<times> string) list \<Rightarrow> (string \<times> string) list \<Rightarrow> (string \<times> string) list" where
  "mergeFlags own extra = fold (mergeFlag (fst ` set own)) extra own"

text \<open>The values a flag has on a command line, in order, read as the code reads words.\<close>

function (sequential) flagValues :: "string \<Rightarrow> string list \<Rightarrow> string list" where
  "flagValues f [] = []"
| "flagValues f (arg # rest) =
     (if isFlag arg
      then (case splitValue rest of (val, rest') \<Rightarrow> (if arg = f then [val] else []) @ flagValues f rest')
      else flagValues f rest)"
  by pat_completeness auto
termination
  by (relation "measure (\<lambda>(_, xs). length xs)") (auto simp: less_Suc_eq_le dest: splitValue_length)

definition valuesOf :: "string \<Rightarrow> (string \<times> string) list \<Rightarrow> string list" where
  "valuesOf f fvs = map snd (filter (\<lambda>x. fst x = f) fvs)"

text \<open>Each value once, where it occurs first.\<close>

definition firsts :: "'a list \<Rightarrow> 'a list" where
  "firsts xs = rev (remdups (rev xs))"

section \<open>Words and flags\<close>

lemma renderFlags_simps [simp]:
  "renderFlags [] = []"
  "renderFlags (fv # fvs) = renderFlag fv @ renderFlags fvs"
  "renderFlags (fvs @ gvs) = renderFlags fvs @ renderFlags gvs"
  by (simp_all add: renderFlags_def)

lemma flagsOk_simps [simp]:
  "flagsOk []"
  "flagsOk (fv # fvs) \<longleftrightarrow> isFlag (fst fv) \<and> \<not> isFlag (snd fv) \<and> flagsOk fvs"
  "flagsOk (fvs @ gvs) \<longleftrightarrow> flagsOk fvs \<and> flagsOk gvs"
  by (auto simp: flagsOk_def split: prod.splits)

lemma isFlag_empty [simp]: "\<not> isFlag ''''"
  by (simp add: isFlag_def HasPrefix_def)

lemma splitValue_render [simp]:
  assumes "flagsOk (fv # fvs)"
  shows "splitValue ((if snd fv \<noteq> '''' then [snd fv] else []) @ renderFlags fvs) = (snd fv, renderFlags fvs)"
  using assms by (cases fvs) (auto simp: renderFlag_def)

lemma scanArgs_words:
  "list_all (\<lambda>p. \<not> isFlag p) ps \<Longrightarrow>
   scanArgs flagged (ps @ xs) s = scanArgs flagged xs (s\<lparr>asResult := asResult s @ ps\<rparr>)"
  by (induction ps arbitrary: s) auto

lemma scanArgs_flags:
  "flagsOk fvs \<Longrightarrow> scanArgs flagged (renderFlags fvs) s = fold (\<lambda>fv. flagged (fst fv) (snd fv)) fvs s"
proof (induction fvs arbitrary: s)
  case (Cons fv fvs)
  then show ?case using splitValue_render[OF Cons.prems] by (simp add: renderFlag_def del: splitValue_render)
qed simp

lemma flagValues_words: "list_all (\<lambda>p. \<not> isFlag p) ps \<Longrightarrow> flagValues f (ps @ xs) = flagValues f xs"
  by (induction ps) auto

lemma flagValues_flags: "flagsOk fvs \<Longrightarrow> flagValues f (renderFlags fvs) = valuesOf f fvs"
proof (induction fvs)
  case (Cons fv fvs)
  then show ?case
    using splitValue_render[OF Cons.prems] by (simp add: renderFlag_def valuesOf_def del: splitValue_render)
qed (simp add: valuesOf_def)

lemma dropFlag_words:
  "list_all (\<lambda>p. \<not> isFlag p) ps \<Longrightarrow> isFlag f \<Longrightarrow> dropFlag f False (ps @ xs) = ps @ dropFlag f False xs"
  by (induction ps) auto

lemma dropFlag_flags:
  assumes "isFlag f" and "flagsOk fvs"
  shows "dropFlag f False (renderFlags fvs) = renderFlags (filter (\<lambda>x. fst x \<noteq> f) fvs)"
  using assms(2)
proof (induction fvs)
  case (Cons fv fvs)
  have "dropFlag f (case renderFlags fvs of [] \<Rightarrow> False | y # _ \<Rightarrow> \<not> isFlag y) (renderFlags fvs) =
      dropFlag f False (renderFlags fvs)"
    using Cons.prems by (cases fvs) (auto simp: renderFlag_def)
  with Cons assms(1) show ?case by (cases "snd fv = ''''") (auto simp: renderFlag_def)
qed simp

section \<open>The merge is the specification's\<close>

text \<open>What the local variables hold after a prefix of the user's arguments.\<close>

definition mergesTo :: "string list \<Rightarrow> string set \<Rightarrow> (string \<times> string) list \<Rightarrow> args_state \<Rightarrow> bool" where
  "mergesTo ps own fvs s \<longleftrightarrow> flagsOk fvs \<and> asResult s = ps @ renderFlags fvs \<and>
     asNonRepeatable s = own \<and> (\<forall>f v. v \<in> repeatedValues s f \<longleftrightarrow> (f, v) \<in> set fvs)"

lemma mergesTo_cmd:
  assumes "mergesTo ps own fvs s" and "isFlag f" and "\<not> isFlag v"
  shows "mergesTo ps (insert f own) (fvs @ [(f, v)]) (cmdFlag f v s)"
  using assms by (auto simp: mergesTo_def cmdFlag_def addArg_def renderFlag_def repeatedValues_def)

lemma repeatedValues_upd:
  "asRepeated t = (asRepeated s)(f \<mapsto> vs) \<Longrightarrow> repeatedValues t g = (if g = f then vs else repeatedValues s g)"
  by (simp add: repeatedValues_def)

lemma mergesTo_extra:
  assumes "mergesTo ps own fvs s" and "list_all (\<lambda>p. \<not> isFlag p) ps" and "isFlag f" and "\<not> isFlag v"
  shows "mergesTo ps own (mergeFlag own (f, v) fvs) (extraFlag f v s)"
proof -
  from assms(1) have fvs: "flagsOk fvs" and res: "asResult s = ps @ renderFlags fvs"
    and own: "asNonRepeatable s = own"
    and rep: "\<And>f v. v \<in> repeatedValues s f \<longleftrightarrow> (f, v) \<in> set fvs"
    by (auto simp: mergesTo_def)
  let ?rest = "filter (\<lambda>x. fst x \<noteq> f) fvs"
  have rest: "flagsOk ?rest" using fvs by (simp add: flagsOk_def list_all_iff)
  have drop: "dropFlag f False (asResult s) = ps @ renderFlags ?rest"
    using res dropFlag_words[OF assms(2,3)] dropFlag_flags[OF assms(3) fvs] by simp
  consider (there) "(f, v) \<in> set fvs" | (own) "(f, v) \<notin> set fvs" "f \<in> own"
    | (new) "(f, v) \<notin> set fvs" "f \<notin> own" by blast
  then show ?thesis
  proof cases
    case there
    then show ?thesis using assms(1) rep by (simp add: mergeFlag_def extraFlag_def)
  next
    case own
    let ?t = "extraFlag f v s"
    from own rep assms(1) have t: "?t = addArg f v (s\<lparr>asResult := dropFlag f False (asResult s),
        asRepeated := (asRepeated s)(f \<mapsto> {v}), asExisting := (asExisting s)(f \<mapsto> v)\<rparr>)"
      by (simp add: extraFlag_def mergesTo_def)
    then have "repeatedValues ?t g = (if g = f then {v} else repeatedValues s g)" for g
      by (intro repeatedValues_upd) (simp add: addArg_def)
    then show ?thesis
      using own assms rest drop rep t by (auto simp: mergesTo_def mergeFlag_def addArg_def renderFlag_def)
  next
    case new
    let ?t = "extraFlag f v s"
    from new rep assms(1) have t: "?t = addArg f v
        (s\<lparr>asRepeated := (asRepeated s)(f \<mapsto> insert v (repeatedValues s f))\<rparr>)"
      by (simp add: extraFlag_def mergesTo_def)
    then have "repeatedValues ?t g = (if g = f then insert v (repeatedValues s f) else repeatedValues s g)" for g
      by (intro repeatedValues_upd) (simp add: addArg_def)
    then show ?thesis
      using new assms fvs rep t by (auto simp: mergesTo_def mergeFlag_def addArg_def renderFlag_def)
  qed
qed

lemma mergesTo_cmds:
  "flagsOk gvs \<Longrightarrow> mergesTo ps own fvs s \<Longrightarrow>
   mergesTo ps (own \<union> fst ` set gvs) (fvs @ gvs) (fold (\<lambda>fv. cmdFlag (fst fv) (snd fv)) gvs s)"
proof (induction gvs arbitrary: own fvs s)
  case (Cons fv gvs)
  then show ?case
    using Cons.IH[OF _ mergesTo_cmd[OF Cons.prems(2), of "fst fv" "snd fv"]] by (simp add: insert_commute)
qed simp

lemma mergesTo_extras:
  "flagsOk gvs \<Longrightarrow> list_all (\<lambda>p. \<not> isFlag p) ps \<Longrightarrow> mergesTo ps own fvs s \<Longrightarrow>
   mergesTo ps own (fold (mergeFlag own) gvs fvs) (fold (\<lambda>fv. extraFlag (fst fv) (snd fv)) gvs s)"
proof (induction gvs arbitrary: fvs s)
  case (Cons fv gvs)
  then show ?case using mergesTo_extra[OF Cons.prems(3,2), of "fst fv" "snd fv"] by simp
qed simp

lemma appendUniqueArgs_mergesTo:
  assumes "list_all (\<lambda>p. \<not> isFlag p) ps" and "flagsOk own" and "flagsOk extra"
  shows "appendUniqueArgs (ps @ renderFlags own) (renderFlags extra) = ps @ renderFlags (mergeFlags own extra)"
    and "flagsOk (mergeFlags own extra)"
proof -
  define s1 where "s1 = \<lparr>asExisting = Map.empty, asRepeated = Map.empty, asNonRepeatable = {}, asResult = ps\<rparr>"
  have "mergesTo ps {} [] s1" by (simp add: s1_def mergesTo_def repeatedValues_def)
  from mergesTo_extras[OF assms(3,1) mergesTo_cmds[OF assms(2) this]]
  have "mergesTo ps (fst ` set own) (mergeFlags own extra)
     (fold (\<lambda>fv. extraFlag (fst fv) (snd fv)) extra (fold (\<lambda>fv. cmdFlag (fst fv) (snd fv)) own s1))"
    by (simp add: mergeFlags_def)
  then show "appendUniqueArgs (ps @ renderFlags own) (renderFlags extra) = ps @ renderFlags (mergeFlags own extra)"
    and "flagsOk (mergeFlags own extra)"
    by (simp_all add: mergesTo_def appendUniqueArgs_def scanArgs_words[OF assms(1)]
        scanArgs_flags[OF assms(2)] scanArgs_flags[OF assms(3)] s1_def)
qed

section \<open>The values of a merged flag\<close>

lemma valuesOf_simps [simp]:
  "valuesOf f [] = []"
  "valuesOf f (fv # fvs) = (if fst fv = f then [snd fv] else []) @ valuesOf f fvs"
  "valuesOf f (fvs @ gvs) = valuesOf f fvs @ valuesOf f gvs"
  by (simp_all add: valuesOf_def)

lemma valuesOf_filter: "valuesOf f (filter (\<lambda>x. fst x \<noteq> g) fvs) = (if f = g then [] else valuesOf f fvs)"
  by (induction fvs) auto

lemma set_valuesOf: "v \<in> set (valuesOf f fvs) \<longleftrightarrow> (f, v) \<in> set fvs"
  by (force simp: valuesOf_def)

lemma valuesOf_empty_iff: "valuesOf f fvs = [] \<longleftrightarrow> f \<notin> fst ` set fvs"
  by (force simp: valuesOf_def filter_empty_conv)

lemma valuesOf_distinct: "distinct (map fst fvs) \<Longrightarrow> f \<in> fst ` set fvs \<Longrightarrow> \<exists>v. valuesOf f fvs = [v]"
proof (induction fvs)
  case (Cons fv fvs)
  then show ?case using valuesOf_empty_iff[of f fvs] by (cases "fst fv = f") auto
qed simp

lemma valuesOf_merge_own:
  "f \<in> own \<Longrightarrow> valuesOf f fvs = [v] \<Longrightarrow>
   valuesOf f (fold (mergeFlag own) gvs fvs) = [last (v # valuesOf f gvs)]"
proof (induction gvs arbitrary: fvs v)
  case (Cons fv gvs)
  show ?case
  proof (cases "fst fv = f")
    case True
    then have "valuesOf f (mergeFlag own fv fvs) = [snd fv]"
      using Cons.prems set_valuesOf[of "snd fv" f fvs] by (auto simp: mergeFlag_def valuesOf_filter)
    from Cons.IH[OF Cons.prems(1) this] True show ?thesis by simp
  next
    case False
    then have "valuesOf f (mergeFlag own fv fvs) = [v]"
      using Cons.prems by (simp add: mergeFlag_def valuesOf_filter)
    from Cons.IH[OF Cons.prems(1) this] False show ?thesis by simp
  qed
qed simp

lemma firsts_snoc [simp]: "firsts (xs @ [x]) = (if x \<in> set xs then firsts xs else firsts xs @ [x])"
  by (simp add: firsts_def)

lemma set_firsts [simp]: "set (firsts xs) = set xs"
  by (simp add: firsts_def)

lemma valuesOf_merge_extra:
  "f \<notin> own \<Longrightarrow> valuesOf f (fold (mergeFlag own) gvs fvs) = firsts (valuesOf f gvs)"
  if "valuesOf f fvs = []"
proof (induction gvs rule: rev_induct)
  case (snoc fv gvs)
  then have *: "valuesOf f (fold (mergeFlag own) gvs fvs) = firsts (valuesOf f gvs)" by simp
  define merged where "merged = fold (mergeFlag own) gvs fvs"
  have "valuesOf f (mergeFlag own fv merged) = firsts (valuesOf f (gvs @ [fv]))"
    using snoc.prems * set_valuesOf[of "snd fv" f merged]
    by (cases "fst fv = f") (auto simp: mergeFlag_def valuesOf_filter merged_def[symmetric])
  then show ?case by (simp add: merged_def)
qed (use that in \<open>simp add: firsts_def\<close>)

lemma valuesOf_mergeFlags:
  assumes "distinct (map fst own)"
  shows "valuesOf f (mergeFlags own extra) =
    (if f \<in> fst ` set own then [last (valuesOf f own @ valuesOf f extra)] else firsts (valuesOf f extra))"
proof (cases "f \<in> fst ` set own")
  case True
  from valuesOf_distinct[OF assms True] obtain v where "valuesOf f own = [v]" ..
  with True show ?thesis using valuesOf_merge_own[of f _ own v] by (simp add: mergeFlags_def)
next
  case False
  then show ?thesis
    using valuesOf_merge_extra[of f own] valuesOf_empty_iff[of f own] by (simp add: mergeFlags_def)
qed

section \<open>Command lines as words\<close>

text \<open>A list of words that is flags throughout, each followed by at most one word that is not empty.\<close>

fun flagLine :: "string list \<Rightarrow> bool" where
  "flagLine [] = True"
| "flagLine [arg] = isFlag arg"
| "flagLine (arg # x # xs) =
     (isFlag arg \<and> (if isFlag x then flagLine (x # xs) else x \<noteq> '''' \<and> flagLine xs))"

lemma flagLine_flags: "flagLine xs \<Longrightarrow> \<exists>fvs. xs = renderFlags fvs \<and> flagsOk fvs"
proof (induction xs rule: flagLine.induct)
  case 1
  show ?case by (rule exI[of _ "[]"]) simp
next
  case (2 arg)
  then show ?case by (intro exI[of _ "[(arg, '''')]"]) (simp add: renderFlag_def)
next
  case (3 arg x xs)
  show ?case
  proof (cases "isFlag x")
    case True
    with 3 obtain fvs where "x # xs = renderFlags fvs" "flagsOk fvs" by auto
    moreover have "isFlag arg" using 3(3) by simp
    ultimately show ?thesis by (intro exI[of _ "(arg, '''') # fvs"]) (simp add: renderFlag_def)
  next
    case False
    with 3 obtain fvs where "xs = renderFlags fvs" "flagsOk fvs" by auto
    with 3 False show ?thesis by (intro exI[of _ "(arg, x) # fvs"]) (simp add: renderFlag_def)
  qed
qed

lemma flags_flagLine: "flagsOk fvs \<Longrightarrow> flagLine (renderFlags fvs)"
proof (induction fvs)
  case (Cons fv fvs)
  then show ?case
    by (cases fvs; cases "snd fv = ''''"; cases "renderFlags fvs") (auto simp: renderFlag_def)
qed simp

lemma distinct_flags: "(\<And>f. length (valuesOf f fvs) \<le> 1) \<Longrightarrow> distinct (map fst fvs)"
proof (induction fvs)
  case (Cons fv fvs)
  have "length (valuesOf f fvs) \<le> 1" for f using Cons.prems[of f] by (auto split: if_splits)
  moreover have "valuesOf (fst fv) fvs = []" using Cons.prems[of "fst fv"] by simp
  ultimately show ?case using Cons.IH valuesOf_empty_iff[of "fst fv" fvs] by simp
qed simp

text \<open>What the merge makes of the values the operator (at most one) and the user give a flag.\<close>

definition mergedValues :: "string list \<Rightarrow> string list \<Rightarrow> string list" where
  "mergedValues own extra = (if own \<noteq> [] then [last (own @ extra)] else firsts extra)"

lemma appendUniqueArgs_values:
  assumes "list_all (\<lambda>p. \<not> isFlag p) ps" and "flagLine own" and "flagLine extra"
    and "\<And>f. length (flagValues f own) \<le> 1"
  shows "\<exists>merged. appendUniqueArgs (ps @ own) extra = ps @ merged \<and> flagLine merged \<and>
    (\<forall>f. flagValues f merged = mergedValues (flagValues f own) (flagValues f extra))"
proof -
  from flagLine_flags[OF assms(2)] obtain fvs where own: "own = renderFlags fvs" "flagsOk fvs" by blast
  from flagLine_flags[OF assms(3)] obtain gvs where extra: "extra = renderFlags gvs" "flagsOk gvs" by blast
  note m = appendUniqueArgs_mergesTo[OF assms(1) own(2) extra(2)]
  have "distinct (map fst fvs)" using assms(4) own by (intro distinct_flags) (simp add: flagValues_flags)
  then have "valuesOf f (mergeFlags fvs gvs) = mergedValues (valuesOf f fvs) (valuesOf f gvs)" for f
    using valuesOf_mergeFlags[of fvs f gvs] valuesOf_empty_iff[of f fvs] by (simp add: mergedValues_def)
  then show ?thesis
    using m own extra by (intro exI[of _ "renderFlags (mergeFlags fvs gvs)"])
      (simp add: flagValues_flags flags_flagLine)
qed

text \<open>C16. Merging the user's arguments into a command of the operator: the leading words stay, and what
  follows is again flags with their values. A flag the operator gives, at most once, occurs exactly once,
  with the last value the user gives it and otherwise the operator's; any other flag has each of the
  user's values once, in the order in which they first occur. (The operator's flags may be overridden,
  then, though the comments on the fields of the resource say that they are not.)\<close>

theorem appendUniqueArgs_spec:
  assumes "list_all (\<lambda>p. \<not> isFlag p) ps" and "flagLine own" and "flagLine extra"
    and "\<And>f. length (flagValues f own) \<le> 1"
  shows "\<exists>merged. appendUniqueArgs (ps @ own) extra = ps @ merged \<and> flagLine merged \<and>
    (\<forall>f. flagValues f merged = mergedValues (flagValues f own) (flagValues f extra))"
  using appendUniqueArgs_values[OF assms] by blast

theorem appendUniqueArgs_spec_witness:
  "\<exists>merged. appendUniqueArgs [''argocd-server'', ''--insecure'', ''--loglevel'', ''info'']
       [''--loglevel'', ''debug'', ''--header'', ''a'', ''--header'', ''b'', ''--header'', ''a''] =
       ''argocd-server'' # merged \<and>
     flagValues ''--loglevel'' merged = [''debug''] \<and> flagValues ''--header'' merged = [''a'', ''b''] \<and>
     flagValues ''--insecure'' merged = ['''']"
proof -
  let ?own = "[''--insecure'', ''--loglevel'', ''info'']"
  let ?extra = "[''--loglevel'', ''debug'', ''--header'', ''a'', ''--header'', ''b'', ''--header'', ''a'']"
  have "length (flagValues f ?own) \<le> 1" for f
    by (auto simp: isFlag_def HasPrefix_def)
  moreover have "list_all (\<lambda>p. \<not> isFlag p) [''argocd-server'']" "flagLine ?own" "flagLine ?extra"
    by code_simp+
  ultimately obtain merged where m: "appendUniqueArgs ([''argocd-server''] @ ?own) ?extra = [''argocd-server''] @ merged"
    "\<forall>f. flagValues f merged = mergedValues (flagValues f ?own) (flagValues f ?extra)"
    using appendUniqueArgs_spec[of "[''argocd-server'']" ?own ?extra] by blast
  have "mergedValues (flagValues ''--loglevel'' ?own) (flagValues ''--loglevel'' ?extra) = [''debug'']"
    "mergedValues (flagValues ''--header'' ?own) (flagValues ''--header'' ?extra) = [''a'', ''b'']"
    "mergedValues (flagValues ''--insecure'' ?own) (flagValues ''--insecure'' ?extra) = ['''']"
    by code_simp+
  with m show ?thesis by auto
qed

end
