(* ===== verification/Argo_Command.thy ===== *)
theory Argo_Command
  imports Command_Args ArgoCD_API OpenShift_Hook Local_Users
begin

text \<open>
  The commands the Argo CD operator starts the components of an instance with, and the images it runs
  (\<open>argocd-operator/controllers/argocd/util.go\<close>, \<open>deployment.go\<close>, \<open>repo_server.go\<close>, \<open>commitserver.go\<close>,
  \<open>dexUtil.go\<close>, \<open>controllers/argoutil/redis.go\<close> and \<open>resource.go\<close>), on the full v1beta1 resource. The part
  of a command before the user's arguments are merged in has a definition of its own. Parsing an image
  reference (\<open>distribution/reference\<close>) is a parameter.
\<close>

section \<open>What is enabled\<close>

definition Redis_IsEnabled :: "ArgoCDRedisSpec_beta \<Rightarrow> bool" where
  "Redis_IsEnabled a = (bRedis_Enabled a = None \<or> bRedis_Enabled a = Some True)"

definition Redis_IsRemote :: "ArgoCDRedisSpec_beta \<Rightarrow> bool" where
  "Redis_IsRemote a = (case bRedis_Remote a of None \<Rightarrow> False | Some r \<Rightarrow> r \<noteq> '''')"

definition Repo_IsEnabled :: "ArgoCDRepoSpec_beta \<Rightarrow> bool" where
  "Repo_IsEnabled a = (bRepo_Enabled a = None \<or> bRepo_Enabled a = Some True)"

definition Repo_IsRemote :: "ArgoCDRepoSpec_beta \<Rightarrow> bool" where
  "Repo_IsRemote a = (case bRepo_Remote a of None \<Rightarrow> False | Some r \<Rightarrow> r \<noteq> '''')"

definition SourceHydrator_IsEnabled :: "ArgoCDSourceHydratorSpec \<Rightarrow> bool" where
  "SourceHydrator_IsEnabled a = (SourceHydrator_Enabled a = Some True)"

definition Principal_IsEnabled :: "PrincipalSpec_beta \<Rightarrow> bool" where
  "Principal_IsEnabled a = (bPrincipal_Enabled a = Some True)"

definition UseCommitServer :: "ArgoCD_beta \<Rightarrow> bool" where
  "UseCommitServer cr = SourceHydrator_IsEnabled (bSpec_SourceHydrator (bArgoCD_Spec cr))"

section \<open>Addresses\<close>

abbreviation crName :: "ArgoCD_beta \<Rightarrow> string" where
  "crName cr \<equiv> metaName (bArgoCD_Meta cr)"

abbreviation crNamespace :: "ArgoCD_beta \<Rightarrow> string" where
  "crNamespace cr \<equiv> metaNamespace (bArgoCD_Meta cr)"

definition GetClusterDomain :: "ArgoCD_beta \<Rightarrow> string" where
  "GetClusterDomain cr =
     (if bSpec_ClusterDomain (bArgoCD_Spec cr) \<noteq> '''' then bSpec_ClusterDomain (bArgoCD_Spec cr)
      else ''cluster.local'')"

definition FqdnServiceRef :: "env \<Rightarrow> string \<Rightarrow> int \<Rightarrow> ArgoCD_beta \<Rightarrow> string" where
  "FqdnServiceRef e service port cr =
     NameWithSuffix e (bArgoCD_Meta cr) service @ ''.'' @ crNamespace cr @ ''.svc.'' @ GetClusterDomain cr @
     ''.:'' @ FormatInt port"

definition getRedisHAProxyAddress :: "env \<Rightarrow> ArgoCD_beta \<Rightarrow> string" where
  "getRedisHAProxyAddress e cr = FqdnServiceRef e ''redis-ha-haproxy'' 6379 cr"

definition GetRedisServerAddress :: "env \<Rightarrow> ArgoCD_beta \<Rightarrow> string" where
  "GetRedisServerAddress e cr =
     (case bRedis_Remote (bSpec_Redis (bArgoCD_Spec cr)) of
        Some (c # cs) \<Rightarrow> c # cs
      | _ \<Rightarrow>
        (if (case bSpec_ArgoCDAgent (bArgoCD_Spec cr) of
               None \<Rightarrow> False
             | Some a \<Rightarrow> (case bAgentRoot_Principal a of None \<Rightarrow> False | Some p \<Rightarrow> Principal_IsEnabled p))
         then GenerateAgentPrincipalRedisProxyServiceName e (crName cr) @ ''.'' @ crNamespace cr @
           ''.svc.'' @ GetClusterDomain cr @ ''.:6379''
         else if HA_Enabled (bSpec_HA (bArgoCD_Spec cr)) then getRedisHAProxyAddress e cr
         else FqdnServiceRef e ''redis'' 6379 cr))"

definition getRepoServerAddress :: "env \<Rightarrow> ArgoCD_beta \<Rightarrow> string" where
  "getRepoServerAddress e cr =
     (case bRepo_Remote (bSpec_Repo (bArgoCD_Spec cr)) of
        Some (c # cs) \<Rightarrow> c # cs
      | _ \<Rightarrow> FqdnServiceRef e ''repo-server'' 8081 cr)"

definition getDexServerAddress :: "env \<Rightarrow> ArgoCD_beta \<Rightarrow> string" where
  "getDexServerAddress e cr = ''https://'' @ FqdnServiceRef e ''dex-server'' 5556 cr"

section \<open>Settings with defaults\<close>

definition getLogLevel :: "string \<Rightarrow> string" where
  "getLogLevel logField =
     (if ToLower logField \<in> {''debug'', ''info'', ''warn'', ''error''} then logField else ''info'')"

definition getLogFormat :: "string \<Rightarrow> string" where
  "getLogFormat logField = (if ToLower logField \<in> {''text'', ''json''} then logField else ''text'')"

definition getArgoServerOperationProcessors :: "ArgoCD_beta \<Rightarrow> int" where
  "getArgoServerOperationProcessors cr =
     (let op = ControllerProcessors_Operation (bController_Processors (bSpec_Controller (bArgoCD_Spec cr)))
      in if op > 0 then op else 10)"

definition getArgoServerStatusProcessors :: "ArgoCD_beta \<Rightarrow> int" where
  "getArgoServerStatusProcessors cr =
     (let sp = ControllerProcessors_Status (bController_Processors (bSpec_Controller (bArgoCD_Spec cr)))
      in if sp > 0 then sp else 20)"

definition getArgoControllerParallelismLimit :: "ArgoCD_beta \<Rightarrow> int" where
  "getArgoControllerParallelismLimit cr =
     (let pl = bController_ParallelismLimit (bSpec_Controller (bArgoCD_Spec cr))
      in if pl > 0 then pl else 10)"

definition IsNamespaceClusterConfigNamespace :: "env \<Rightarrow> string \<Rightarrow> bool" where
  "IsNamespaceClusterConfigNamespace e ns = allowedNamespace ns (getenv e ''ARGOCD_CLUSTER_CONFIG_NAMESPACES'')"

section \<open>Commands\<close>

definition redisFlags :: "env \<Rightarrow> ArgoCD_beta \<Rightarrow> string list" where
  "redisFlags e cr =
     (if Redis_IsEnabled (bSpec_Redis (bArgoCD_Spec cr)) then [''--redis'', GetRedisServerAddress e cr] else [])"

definition redisTLSFlags :: "ArgoCD_beta \<Rightarrow> bool \<Rightarrow> string \<Rightarrow> string list" where
  "redisTLSFlags cr useTLSForRedis cert =
     (if useTLSForRedis
      then ''--redis-use-tls'' #
        (if bRedis_DisableTLSVerification (bSpec_Redis (bArgoCD_Spec cr))
         then [''--redis-insecure-skip-tls-verify'']
         else [''--redis-ca-certificate'', cert])
      else [])"

definition repoServerFlags :: "env \<Rightarrow> ArgoCD_beta \<Rightarrow> string list" where
  "repoServerFlags e cr =
     (if Repo_IsEnabled (bSpec_Repo (bArgoCD_Spec cr)) then [''--repo-server'', getRepoServerAddress e cr] else [])"

definition sourceNamespaceFlags :: "env \<Rightarrow> ArgoCD_beta \<Rightarrow> string list" where
  "sourceNamespaceFlags e cr =
     (let sns = elems (bSpec_SourceNamespaces (bArgoCD_Spec cr))
      in if sns \<noteq> [] \<and> IsNamespaceClusterConfigNamespace e (crNamespace cr)
         then [''--application-namespaces'', joinStr '','' sns] else [])"

definition logFlags :: "string \<Rightarrow> string \<Rightarrow> string list" where
  "logFlags level format = [''--loglevel'', getLogLevel level, ''--logformat'', getLogFormat format]"

definition applicationControllerFlags :: "env \<Rightarrow> ArgoCD_beta \<Rightarrow> bool \<Rightarrow> string list" where
  "applicationControllerFlags e cr useTLSForRedis =
     [''--operation-processors'', FormatInt (getArgoServerOperationProcessors cr)] @
     redisFlags e cr @
     redisTLSFlags cr useTLSForRedis ''/app/config/controller/tls/redis/tls.crt'' @
     repoServerFlags e cr @
     (if SourceHydrator_IsEnabled (bSpec_SourceHydrator (bArgoCD_Spec cr)) then [''--hydrator-enabled''] else []) @
     (if UseCommitServer cr then [''--commit-server'', FqdnServiceRef e ''commit-server'' 8086 cr] else []) @
     [''--status-processors'', FormatInt (getArgoServerStatusProcessors cr)] @
     [''--kubectl-parallelism-limit'', FormatInt (getArgoControllerParallelismLimit cr)] @
     sourceNamespaceFlags e cr @
     logFlags (bController_LogLevel (bSpec_Controller (bArgoCD_Spec cr)))
       (bController_LogFormat (bSpec_Controller (bArgoCD_Spec cr))) @
     (let persistHealth = (case gget (bSpec_CmdParams (bArgoCD_Spec cr)) ''controller.resource.health.persist'' of
            Some val \<Rightarrow> val | None \<Rightarrow> ''true'')
      in if persistHealth = ''true'' then [''--persist-resource-health''] else [])"

definition getArgoApplicationControllerCommand :: "env \<Rightarrow> ArgoCD_beta \<Rightarrow> bool \<Rightarrow> string list" where
  "getArgoApplicationControllerCommand e cr useTLSForRedis =
     appendUniqueArgs (''argocd-application-controller'' # applicationControllerFlags e cr useTLSForRedis)
       (elems (bController_ExtraCommandArgs (bSpec_Controller (bArgoCD_Spec cr))))"

definition serverFlags :: "env \<Rightarrow> ArgoCD_beta \<Rightarrow> bool \<Rightarrow> string list" where
  "serverFlags e cr useTLSForRedis =
     (if bServer_Insecure (bSpec_Server (bArgoCD_Spec cr)) then [''--insecure''] else []) @
     (if bRepo_VerifyTLS (bSpec_Repo (bArgoCD_Spec cr)) then [''--repo-server-strict-tls''] else []) @
     [''--staticassets'', ''/shared/app''] @
     [''--dex-server'', getDexServerAddress e cr] @
     repoServerFlags e cr @
     redisFlags e cr @
     redisTLSFlags cr useTLSForRedis ''/app/config/server/tls/redis/tls.crt'' @
     logFlags (bServer_LogLevel (bSpec_Server (bArgoCD_Spec cr))) (bServer_LogFormat (bSpec_Server (bArgoCD_Spec cr)))"

definition getArgoServerCommand :: "env \<Rightarrow> ArgoCD_beta \<Rightarrow> bool \<Rightarrow> string list" where
  "getArgoServerCommand e cr useTLSForRedis =
     appendUniqueArgs (''argocd-server'' # serverFlags e cr useTLSForRedis)
       (elems (bServer_ExtraCommandArgs (bSpec_Server (bArgoCD_Spec cr)))) @
     sourceNamespaceFlags e cr"

definition repoFlags :: "env \<Rightarrow> ArgoCD_beta \<Rightarrow> bool \<Rightarrow> string list" where
  "repoFlags e cr useTLSForRedis =
     redisFlags e cr @
     redisTLSFlags cr useTLSForRedis ''/app/config/reposerver/tls/redis/tls.crt'' @
     logFlags (bRepo_LogLevel (bSpec_Repo (bArgoCD_Spec cr))) (bRepo_LogFormat (bSpec_Repo (bArgoCD_Spec cr)))"

definition getArgoRepoCommand :: "env \<Rightarrow> ArgoCD_beta \<Rightarrow> bool \<Rightarrow> string list" where
  "getArgoRepoCommand e cr useTLSForRedis =
     appendUniqueArgs ([''uid_entrypoint.sh'', ''argocd-repo-server''] @ repoFlags e cr useTLSForRedis)
       (elems (bRepo_ExtraRepoCommandArgs (bSpec_Repo (bArgoCD_Spec cr))))"

definition getCommitServerCommand :: "ArgoCD_beta \<Rightarrow> string list" where
  "getCommitServerCommand cr =
     (let cs = bSpec_CommitServer (bArgoCD_Spec cr) in
      [''/usr/local/bin/argocd-commit-server''] @
      (if CommitServer_LogLevel cs \<noteq> '''' then [''--loglevel'', getLogLevel (CommitServer_LogLevel cs)] else []) @
      (if CommitServer_LogFormat cs \<noteq> '''' then [''--logformat'', getLogFormat (CommitServer_LogFormat cs)] else []))"

section \<open>Images\<close>

definition getPriorityValue :: "string \<Rightarrow> string \<Rightarrow> string \<Rightarrow> string" where
  "getPriorityValue containerLevelSpec commonLevelSpec fallback =
     (if containerLevelSpec \<noteq> '''' then containerLevelSpec
      else if commonLevelSpec \<noteq> '''' then commonLevelSpec
      else fallback)"

text \<open>\<open>reference.Parse\<close>: the name of the reference, empty when it has none.\<close>

type_synonym image_parser = "string \<Rightarrow> go_error + string"

definition ArgoCDDefaultArgoImage :: string where
  "ArgoCDDefaultArgoImage = ''quay.io/argoproj/argocd''"

definition ArgoCDDefaultArgoVersion :: string where
  "ArgoCDDefaultArgoVersion = ''sha256:8e5cc5bb008df8a09dba439462e58c94c55b7735888d3ebde0c25fc05e4e5335''"

definition GetImageAndTag ::
  "image_parser \<Rightarrow> env \<Rightarrow> string \<Rightarrow> string \<Rightarrow> string \<Rightarrow> string \<Rightarrow> string \<Rightarrow> string \<times> string" where
  "GetImageAndTag parse e name containerSpecImage containerSpecVersion commonSpecImage commonSpecVersion =
     (let envVal = getenv e name;
          resolve = (\<lambda>image. (getPriorityValue containerSpecImage commonSpecImage image,
            getPriorityValue containerSpecVersion commonSpecVersion ArgoCDDefaultArgoVersion))
      in if envVal \<noteq> '''' \<and> containerSpecImage = '''' \<and> commonSpecImage = '''' \<and>
            containerSpecVersion = '''' \<and> commonSpecVersion = ''''
         then (envVal, '''')
         else if envVal \<noteq> ''''
         then (case parse envVal of
             Inl err \<Rightarrow> ('''', '''')
           | Inr baseImageName \<Rightarrow>
               resolve (if baseImageName \<noteq> '''' then baseImageName else ArgoCDDefaultArgoImage))
         else resolve ArgoCDDefaultArgoImage)"

definition getArgoContainerImage :: "image_parser \<Rightarrow> env \<Rightarrow> ArgoCD_beta \<Rightarrow> string" where
  "getArgoContainerImage parse e cr =
     (case GetImageAndTag parse e ''ARGOCD_IMAGE'' '''' '''' (bSpec_Image (bArgoCD_Spec cr))
        (bSpec_Version (bArgoCD_Spec cr)) of (img, tag) \<Rightarrow> CombineImageTag img tag)"

definition getRepoServerContainerImage :: "image_parser \<Rightarrow> env \<Rightarrow> ArgoCD_beta \<Rightarrow> string" where
  "getRepoServerContainerImage parse e cr =
     (case GetImageAndTag parse e ''ARGOCD_IMAGE'' (bRepo_Image (bSpec_Repo (bArgoCD_Spec cr)))
        (bRepo_Version (bSpec_Repo (bArgoCD_Spec cr))) (bSpec_Image (bArgoCD_Spec cr))
        (bSpec_Version (bArgoCD_Spec cr)) of (img, tag) \<Rightarrow> CombineImageTag img tag)"

text \<open>The images that are not Argo CD's own: the environment decides only when the resource names neither
  an image nor a version.\<close>

definition defaultedImage :: "env \<Rightarrow> string \<Rightarrow> string \<Rightarrow> string \<Rightarrow> string \<Rightarrow> string \<Rightarrow> string" where
  "defaultedImage e envName defImg defTag specImg specTag =
     (let defaultImg = (specImg = ''''); defaultTag = (specTag = '''');
          img = (if defaultImg then defImg else specImg);
          tag = (if defaultTag then defTag else specTag)
      in if getenv e envName \<noteq> '''' \<and> defaultTag \<and> defaultImg then getenv e envName
         else CombineImageTag img tag)"

definition GetRedisContainerImage :: "env \<Rightarrow> ArgoCD_beta \<Rightarrow> string" where
  "GetRedisContainerImage e cr = defaultedImage e ''ARGOCD_REDIS_IMAGE'' ''quay.io/akuity/redis''
     ''sha256:4ed22bc23e35e4c2315b365ed63355f48eca31edbc5f17e8e54b7859645ef14d''
     (bRedis_Image (bSpec_Redis (bArgoCD_Spec cr))) (bRedis_Version (bSpec_Redis (bArgoCD_Spec cr)))"

definition GetRedisHAContainerImage :: "env \<Rightarrow> ArgoCD_beta \<Rightarrow> string" where
  "GetRedisHAContainerImage e cr = defaultedImage e ''ARGOCD_REDIS_HA_IMAGE'' ''quay.io/akuity/redis''
     ''sha256:4ed22bc23e35e4c2315b365ed63355f48eca31edbc5f17e8e54b7859645ef14d''
     (bRedis_Image (bSpec_Redis (bArgoCD_Spec cr))) (bRedis_Version (bSpec_Redis (bArgoCD_Spec cr)))"

definition GetRedisHAProxyContainerImage :: "env \<Rightarrow> ArgoCD_beta \<Rightarrow> string" where
  "GetRedisHAProxyContainerImage e cr = defaultedImage e ''ARGOCD_REDIS_HA_PROXY_IMAGE'' ''quay.io/akuity/haproxy''
     ''sha256:09b826a755db651927a63ec73c5d98e9f68883665169d3911053e2146e0584fe''
     (HA_RedisProxyImage (bSpec_HA (bArgoCD_Spec cr))) (HA_RedisProxyVersion (bSpec_HA (bArgoCD_Spec cr)))"

definition dexSpec :: "ArgoCD_beta \<Rightarrow> ArgoCDDexSpec_beta option" where
  "dexSpec cr = (case bSpec_SSO (bArgoCD_Spec cr) of None \<Rightarrow> None | Some sso \<Rightarrow> bSSO_Dex sso)"

definition getDexContainerImage :: "env \<Rightarrow> ArgoCD_beta \<Rightarrow> string" where
  "getDexContainerImage e cr = defaultedImage e ''ARGOCD_DEX_IMAGE'' ''ghcr.io/dexidp/dex''
     ''sha256:8499afd690c437f52301efd2b05b2455da5bd2dfc20332cd697dc9937f808462''
     (case dexSpec cr of None \<Rightarrow> '''' | Some d \<Rightarrow> bDex_Image d)
     (case dexSpec cr of None \<Rightarrow> '''' | Some d \<Rightarrow> bDex_Version d)"

definition getDexConfig :: "ArgoCD_beta \<Rightarrow> string" where
  "getDexConfig cr =
     (if gindex (bSpec_ExtraConfig (bArgoCD_Spec cr)) ''dex.config'' \<noteq> ''''
      then gindex (bSpec_ExtraConfig (bArgoCD_Spec cr)) ''dex.config''
      else (case dexSpec cr of
          Some d \<Rightarrow> (if bDex_Config d \<noteq> '''' then bDex_Config d else '''')
        | None \<Rightarrow> ''''))"

section \<open>The operator's flags\<close>

text \<open>A value that a component does not take for a flag, nor for no value.\<close>

definition plainValue :: "string \<Rightarrow> bool" where
  "plainValue v = (v \<noteq> '''' \<and> \<not> isFlag v)"

text \<open>What the resource puts into the commands: addresses and names a Kubernetes cluster could have.\<close>

definition plainValues :: "env \<Rightarrow> ArgoCD_beta \<Rightarrow> bool" where
  "plainValues e cr =
     (plainValue (GetRedisServerAddress e cr) \<and> plainValue (getRepoServerAddress e cr) \<and>
      plainValue (FqdnServiceRef e ''commit-server'' 8086 cr) \<and>
      (elems (bSpec_SourceNamespaces (bArgoCD_Spec cr)) \<noteq> [] \<longrightarrow>
       plainValue (joinStr '','' (elems (bSpec_SourceNamespaces (bArgoCD_Spec cr))))))"

definition flagsAmong :: "string set \<Rightarrow> string list \<Rightarrow> bool" where
  "flagsAmong F xs \<longleftrightarrow>
     (\<exists>fvs. xs = renderFlags fvs \<and> flagsOk fvs \<and> distinct (map fst fvs) \<and> fst ` set fvs \<subseteq> F)"

lemma flagsAmong_Nil: "flagsAmong F []"
  by (auto simp: flagsAmong_def intro: exI[of _ "[]"])

lemma flagsAmong_flag: "isFlag f \<Longrightarrow> flagsAmong {f} [f]"
  by (auto simp: flagsAmong_def renderFlag_def intro: exI[of _ "[(f, '''')]"])

lemma flagsAmong_value: "isFlag f \<Longrightarrow> plainValue v \<Longrightarrow> flagsAmong {f} [f, v]"
  by (auto simp: flagsAmong_def renderFlag_def plainValue_def intro: exI[of _ "[(f, v)]"])

lemma flagsAmong_append:
  assumes "flagsAmong F xs" and "flagsAmong G ys" and "F \<inter> G = {}"
  shows "flagsAmong (F \<union> G) (xs @ ys)"
proof -
  from assms obtain fvs gvs where "xs = renderFlags fvs" "flagsOk fvs" "distinct (map fst fvs)"
    "fst ` set fvs \<subseteq> F" "ys = renderFlags gvs" "flagsOk gvs" "distinct (map fst gvs)" "fst ` set gvs \<subseteq> G"
    by (auto simp: flagsAmong_def)
  with assms(3) show ?thesis unfolding flagsAmong_def by (intro exI[of _ "fvs @ gvs"]) auto
qed

lemma flagsAmong_if: "(b \<Longrightarrow> flagsAmong F xs) \<Longrightarrow> flagsAmong F (if b then xs else [])"
  by (simp add: flagsAmong_Nil)

lemma flagsAmong_line: "flagsAmong F xs \<Longrightarrow> flagLine xs"
  by (auto simp: flagsAmong_def intro: flags_flagLine)

lemma flagsAmong_once: "flagsAmong F xs \<Longrightarrow> length (flagValues f xs) \<le> 1"
proof -
  assume "flagsAmong F xs"
  then obtain fvs where "xs = renderFlags fvs" "flagsOk fvs" "distinct (map fst fvs)"
    by (auto simp: flagsAmong_def)
  then show ?thesis using valuesOf_distinct[of fvs f] valuesOf_empty_iff[of f fvs]
    by (cases "f \<in> fst ` set fvs") (auto simp: flagValues_flags)
qed

lemma flagValues_outside: "flagsAmong F xs \<Longrightarrow> f \<notin> F \<Longrightarrow> flagValues f xs = []"
  using valuesOf_empty_iff[of f] by (auto simp: flagsAmong_def flagValues_flags)

lemma plainValue_levels: "plainValue (getLogLevel l)" "plainValue (getLogFormat m)"
proof -
  have t: "ToLower s \<noteq> v \<or> plainValue s" if "v \<noteq> ''''" "hd v \<noteq> CHR ''-''" for s v
    using that by (cases s) (auto simp: ToLower_def plainValue_def isFlag_def HasPrefix_def lowerChar_def)
  have "plainValue ''info''" "plainValue ''text''" by code_simp+
  with t[of "''debug''" l] t[of "''info''" l] t[of "''warn''" l] t[of "''error''" l]
    t[of "''text''" m] t[of "''json''" m]
  show "plainValue (getLogLevel l)" "plainValue (getLogFormat m)"
    by (auto simp: getLogLevel_def getLogFormat_def)
qed

lemma digit_not_dash: "d < 10 \<Longrightarrow> digitChar d \<noteq> CHR ''-''"
proof -
  assume "d < 10"
  then have "(of_char (digitChar d) :: nat) = 48 + d" by (simp add: digitChar_def)
  moreover have "(of_char (CHR ''-'') :: nat) = 45" by simp
  ultimately show ?thesis by (metis add_lessD1 less_irrefl numeral_less_iff semiring_norm)
qed

lemma FormatNat_first: "FormatNat n \<noteq> '''' \<and> hd (FormatNat n) \<noteq> CHR ''-''"
proof (induction n rule: FormatNat.induct)
  case (1 n)
  then show ?case by (subst (1 2) FormatNat.simps) (auto simp: digit_not_dash)
qed

lemma plainValue_number: "0 \<le> i \<Longrightarrow> plainValue (FormatInt i)"
  using FormatNat_first[of "nat i"]
  by (cases "FormatNat (nat i)") (auto simp: FormatInt_def plainValue_def isFlag_def HasPrefix_def)

lemma isFlag_cons: "isFlag (c # d # s) \<longleftrightarrow> c = CHR ''-'' \<and> d = CHR ''-''"
  by (auto simp: isFlag_def HasPrefix_def)

lemma flagsAmong_mono: "flagsAmong F xs \<Longrightarrow> F \<subseteq> G \<Longrightarrow> flagsAmong G xs"
  by (auto simp: flagsAmong_def)

lemma redisFlags_among: "plainValues e cr \<Longrightarrow> flagsAmong {''--redis''} (redisFlags e cr)"
  unfolding redisFlags_def by (intro flagsAmong_if flagsAmong_value) (simp_all add: isFlag_cons plainValues_def)

lemma repoServerFlags_among: "plainValues e cr \<Longrightarrow> flagsAmong {''--repo-server''} (repoServerFlags e cr)"
  unfolding repoServerFlags_def by (intro flagsAmong_if flagsAmong_value) (simp_all add: isFlag_cons plainValues_def)

lemma sourceNamespaceFlags_among:
  "plainValues e cr \<Longrightarrow> flagsAmong {''--application-namespaces''} (sourceNamespaceFlags e cr)"
  unfolding sourceNamespaceFlags_def Let_def
  by (intro flagsAmong_if flagsAmong_value) (simp_all add: isFlag_cons plainValues_def)

lemma logFlags_among: "flagsAmong {''--loglevel'', ''--logformat''} (logFlags l m)"
proof -
  have "flagsAmong ({''--loglevel''} \<union> {''--logformat''})
      ([''--loglevel'', getLogLevel l] @ [''--logformat'', getLogFormat m])"
    by (intro flagsAmong_append flagsAmong_value plainValue_levels) (simp_all add: isFlag_cons)
  then show ?thesis by (simp add: logFlags_def insert_commute)
qed

lemma redisTLSFlags_among:
  assumes "plainValue cert"
  shows "flagsAmong {''--redis-use-tls'', ''--redis-insecure-skip-tls-verify'', ''--redis-ca-certificate''}
    (redisTLSFlags cr tls cert)"
proof -
  let ?b = "bRedis_DisableTLSVerification (bSpec_Redis (bArgoCD_Spec cr))"
  have skip: "flagsAmong ({''--redis-use-tls''} \<union> {''--redis-insecure-skip-tls-verify''})
      ([''--redis-use-tls''] @ [''--redis-insecure-skip-tls-verify''])"
    by (intro flagsAmong_append flagsAmong_flag) (simp_all add: isFlag_cons)
  have check: "flagsAmong ({''--redis-use-tls''} \<union> {''--redis-ca-certificate''})
      ([''--redis-use-tls''] @ [''--redis-ca-certificate'', cert])"
    by (intro flagsAmong_append flagsAmong_flag flagsAmong_value assms) (simp_all add: isFlag_cons)
  show ?thesis unfolding redisTLSFlags_def
    by (rule flagsAmong_if) (cases ?b; use flagsAmong_mono[OF skip] flagsAmong_mono[OF check] in simp)
qed

lemmas flags_among = redisFlags_among repoServerFlags_among sourceNamespaceFlags_among logFlags_among
  redisTLSFlags_among flagsAmong_if flagsAmong_flag flagsAmong_value flagsAmong_append

lemma cert_paths [simp]: "plainValue (CHR ''/'' # p)" "plainValue (CHR ''h'' # p)"
  by (simp_all add: plainValue_def isFlag_def HasPrefix_def)

lemma plainValue_settings:
  "plainValue (FormatInt (getArgoServerOperationProcessors cr))"
  "plainValue (FormatInt (getArgoServerStatusProcessors cr))"
  "plainValue (FormatInt (getArgoControllerParallelismLimit cr))"
  by (rule plainValue_number, simp add: getArgoServerOperationProcessors_def
      getArgoServerStatusProcessors_def getArgoControllerParallelismLimit_def Let_def)+

lemma applicationControllerFlags_among:
  assumes "plainValues e cr"
  shows "flagsAmong ({''--operation-processors''} \<union> ({''--redis''} \<union>
    ({''--redis-use-tls'', ''--redis-insecure-skip-tls-verify'', ''--redis-ca-certificate''} \<union>
    ({''--repo-server''} \<union> ({''--hydrator-enabled''} \<union> ({''--commit-server''} \<union>
    ({''--status-processors''} \<union> ({''--kubectl-parallelism-limit''} \<union> ({''--application-namespaces''} \<union>
    ({''--loglevel'', ''--logformat''} \<union> {''--persist-resource-health''}))))))))))
    (applicationControllerFlags e cr tls)"
  unfolding applicationControllerFlags_def Let_def
  by (intro flags_among assms)
    (use assms in \<open>simp_all add: isFlag_cons plainValues_def plainValue_settings\<close>)

lemma serverFlags_among:
  assumes "plainValues e cr"
  shows "flagsAmong ({''--insecure''} \<union> ({''--repo-server-strict-tls''} \<union> ({''--staticassets''} \<union>
    ({''--dex-server''} \<union> ({''--repo-server''} \<union> ({''--redis''} \<union>
    ({''--redis-use-tls'', ''--redis-insecure-skip-tls-verify'', ''--redis-ca-certificate''} \<union>
    {''--loglevel'', ''--logformat''})))))))
    (serverFlags e cr tls)"
  unfolding serverFlags_def
  by (intro flags_among assms) (simp_all add: isFlag_cons getDexServerAddress_def)

lemma repoFlags_among:
  assumes "plainValues e cr"
  shows "flagsAmong ({''--redis''} \<union>
    ({''--redis-use-tls'', ''--redis-insecure-skip-tls-verify'', ''--redis-ca-certificate''} \<union>
    {''--loglevel'', ''--logformat''})) (repoFlags e cr tls)"
  unfolding repoFlags_def by (intro flags_among assms) (simp_all add: isFlag_cons)

section \<open>Commands with the user's arguments\<close>

lemma flagValues_append:
  assumes "list_all (\<lambda>p. \<not> isFlag p) ps" and "flagLine xs" and "flagLine ys"
  shows "flagValues f (ps @ xs @ ys) = flagValues f xs @ flagValues f ys"
proof -
  from flagLine_flags[OF assms(2)] obtain fvs where x: "xs = renderFlags fvs" "flagsOk fvs" by blast
  from flagLine_flags[OF assms(3)] obtain gvs where y: "ys = renderFlags gvs" "flagsOk gvs" by blast
  have "xs @ ys = renderFlags (fvs @ gvs)" using x y by simp
  with x y show ?thesis using flagValues_flags[of "fvs @ gvs" f]
    by (simp add: flagValues_words[OF assms(1)] flagValues_flags)
qed

lemma merged_command:
  assumes "list_all (\<lambda>p. \<not> isFlag p) ps" and "flagsAmong F own" and "flagLine extra" and "flagLine ys"
  shows "flagValues f (appendUniqueArgs (ps @ own) extra @ ys) =
    mergedValues (flagValues f own) (flagValues f extra) @ flagValues f ys"
proof -
  from appendUniqueArgs_values[OF assms(1) flagsAmong_line[OF assms(2)] assms(3) flagsAmong_once[OF assms(2)]]
  obtain merged where "appendUniqueArgs (ps @ own) extra = ps @ merged" "flagLine merged"
    "flagValues f merged = mergedValues (flagValues f own) (flagValues f extra)" by blast
  with flagValues_append[OF assms(1) _ assms(4), of merged f] show ?thesis by simp
qed

text \<open>The commands of the application controller, the repo server and the API server: when the user's
  arguments are flags with their values, and the resource's addresses could be a cluster's, a flag of the
  operator occurs exactly once, with the user's last value for it or else the operator's, and every other
  flag has the user's values, each once. The API server's namespaces are the exception: they are added
  after the merge, so that a value of the user's for that flag stays beside the operator's, where the
  application controller lets it replace the operator's.\<close>

theorem commands_merge:
  assumes "plainValues e cr"
    and "flagLine (elems (bController_ExtraCommandArgs (bSpec_Controller (bArgoCD_Spec cr))))"
    and "flagLine (elems (bServer_ExtraCommandArgs (bSpec_Server (bArgoCD_Spec cr))))"
    and "flagLine (elems (bRepo_ExtraRepoCommandArgs (bSpec_Repo (bArgoCD_Spec cr))))"
  shows "flagValues f (getArgoApplicationControllerCommand e cr tls) =
      mergedValues (flagValues f (applicationControllerFlags e cr tls))
        (flagValues f (elems (bController_ExtraCommandArgs (bSpec_Controller (bArgoCD_Spec cr))))) \<and>
    flagValues f (getArgoRepoCommand e cr tls) =
      mergedValues (flagValues f (repoFlags e cr tls))
        (flagValues f (elems (bRepo_ExtraRepoCommandArgs (bSpec_Repo (bArgoCD_Spec cr))))) \<and>
    flagValues f (getArgoServerCommand e cr tls) =
      mergedValues (flagValues f (serverFlags e cr tls))
        (flagValues f (elems (bServer_ExtraCommandArgs (bSpec_Server (bArgoCD_Spec cr))))) @
      flagValues f (sourceNamespaceFlags e cr)"
proof (intro conjI)
  have words: "list_all (\<lambda>p. \<not> isFlag p) [''argocd-application-controller'']"
    "list_all (\<lambda>p. \<not> isFlag p) [''uid_entrypoint.sh'', ''argocd-repo-server'']"
    "list_all (\<lambda>p. \<not> isFlag p) [''argocd-server'']"
    by code_simp+
  show "flagValues f (getArgoApplicationControllerCommand e cr tls) =
      mergedValues (flagValues f (applicationControllerFlags e cr tls))
        (flagValues f (elems (bController_ExtraCommandArgs (bSpec_Controller (bArgoCD_Spec cr)))))"
    using merged_command[OF words(1) applicationControllerFlags_among[OF assms(1)] assms(2), of "[]" f tls]
    by (simp add: getArgoApplicationControllerCommand_def)
  show "flagValues f (getArgoRepoCommand e cr tls) =
      mergedValues (flagValues f (repoFlags e cr tls))
        (flagValues f (elems (bRepo_ExtraRepoCommandArgs (bSpec_Repo (bArgoCD_Spec cr)))))"
    using merged_command[OF words(2) repoFlags_among[OF assms(1)] assms(4), of "[]" f tls]
    by (simp add: getArgoRepoCommand_def)
  show "flagValues f (getArgoServerCommand e cr tls) =
      mergedValues (flagValues f (serverFlags e cr tls))
        (flagValues f (elems (bServer_ExtraCommandArgs (bSpec_Server (bArgoCD_Spec cr))))) @
      flagValues f (sourceNamespaceFlags e cr)"
    using merged_command[OF words(3) serverFlags_among[OF assms(1)] assms(3)
        flagsAmong_line[OF sourceNamespaceFlags_among[OF assms(1)]], of f tls]
    by (simp add: getArgoServerCommand_def)
qed

definition sampleCommandCR :: ArgoCD_beta where
  "sampleCommandCR = zero_ArgoCD_beta\<lparr>bArgoCD_Meta := mkMeta ''argocd'' ''team'',
     bArgoCD_Spec := zero_ArgoCDSpec_beta\<lparr>
       bSpec_SourceNamespaces := Some [''apps''],
       bSpec_Repo := zero_ArgoCDRepoSpec_beta\<lparr>
         bRepo_ExtraRepoCommandArgs := Some [''--loglevel'', ''debug'']\<rparr>,
       bSpec_Controller := zero_ArgoCDApplicationControllerSpec_beta\<lparr>
         bController_ExtraCommandArgs := Some [''--loglevel'', ''debug'', ''--application-namespaces'', ''mine'']\<rparr>,
       bSpec_Server := zero_ArgoCDServerSpec_beta\<lparr>
         bServer_ExtraCommandArgs := Some [''--application-namespaces'', ''mine'']\<rparr>\<rparr>\<rparr>"

definition sampleCommandEnv :: env where
  "sampleCommandEnv = sampleEnv\<lparr>getenv := (\<lambda>_. ''*'')\<rparr>"

lemma sampleCommandCR_fields:
  "bArgoCD_Meta sampleCommandCR = mkMeta ''argocd'' ''team''"
  "bSpec_SourceNamespaces (bArgoCD_Spec sampleCommandCR) = Some [''apps'']"
  "bController_ExtraCommandArgs (bSpec_Controller (bArgoCD_Spec sampleCommandCR)) =
     Some [''--loglevel'', ''debug'', ''--application-namespaces'', ''mine'']"
  "bController_LogLevel (bSpec_Controller (bArgoCD_Spec sampleCommandCR)) = ''''"
  "bServer_ExtraCommandArgs (bSpec_Server (bArgoCD_Spec sampleCommandCR)) =
     Some [''--application-namespaces'', ''mine'']"
  "bRepo_ExtraRepoCommandArgs (bSpec_Repo (bArgoCD_Spec sampleCommandCR)) = Some [''--loglevel'', ''debug'']"
  "bRepo_LogLevel (bSpec_Repo (bArgoCD_Spec sampleCommandCR)) = ''''"
  "bRedis_Enabled (bSpec_Redis (bArgoCD_Spec sampleCommandCR)) = None"
  "bRepo_Remote (bSpec_Repo (bArgoCD_Spec sampleCommandCR)) = None"
  "bRedis_Remote (bSpec_Redis (bArgoCD_Spec sampleCommandCR)) = None"
  "bSpec_ArgoCDAgent (bArgoCD_Spec sampleCommandCR) = None"
  "HA_Enabled (bSpec_HA (bArgoCD_Spec sampleCommandCR)) = False"
  "SourceHydrator_Enabled (bSpec_SourceHydrator (bArgoCD_Spec sampleCommandCR)) = None"
  by (simp_all add: sampleCommandCR_def zero_ArgoCDSpec_beta_def zero_ArgoCDApplicationControllerSpec_beta_def
      zero_ArgoCDServerSpec_beta_def zero_ArgoCDRepoSpec_beta_def zero_ArgoCDRedisSpec_beta_def
      zero_ArgoCDHASpec_def zero_ArgoCDSourceHydratorSpec_def)

lemma sampleCommandCR_plain: "plainValues sampleCommandEnv sampleCommandCR"
proof -
  have "plainValue (FqdnServiceRef sampleCommandEnv service port sampleCommandCR)"
    if "length service \<le> 20" for service port
    using that by (simp add: FqdnServiceRef_def NameWithSuffix_def TruncateCRName_def TruncateWithHash_def
        maxLabelLength_def maxCRNameLength_def maxSuffixLength_def sampleCommandCR_fields mkMeta_def
        plainValue_def isFlag_def HasPrefix_def)
  then show ?thesis
    by (simp add: plainValues_def GetRedisServerAddress_def getRepoServerAddress_def sampleCommandCR_fields
        plainValue_def isFlag_def HasPrefix_def elems_def)
qed

theorem commands_merge_witness:
  "flagValues ''--loglevel'' (getArgoRepoCommand sampleCommandEnv sampleCommandCR False) = [''debug''] \<and>
   flagValues ''--application-namespaces'' (getArgoServerCommand sampleCommandEnv sampleCommandCR False) =
     [''mine'', ''apps'']"
proof -
  let ?cr = sampleCommandCR and ?e = sampleCommandEnv
  have *: "flagLine (elems (bController_ExtraCommandArgs (bSpec_Controller (bArgoCD_Spec ?cr))))"
    "flagLine (elems (bServer_ExtraCommandArgs (bSpec_Server (bArgoCD_Spec ?cr))))"
    "flagLine (elems (bRepo_ExtraRepoCommandArgs (bSpec_Repo (bArgoCD_Spec ?cr))))"
    by (simp_all add: sampleCommandCR_fields elems_def isFlag_def HasPrefix_def)
  have ns: "sourceNamespaceFlags ?e ?cr = [''--application-namespaces'', ''apps'']"
  proof -
    have "IsNamespaceClusterConfigNamespace ?e ''team''"
      by (simp add: IsNamespaceClusterConfigNamespace_def sampleCommandEnv_def) code_simp
    then show ?thesis by (simp add: sourceNamespaceFlags_def sampleCommandCR_fields mkMeta_def elems_def)
  qed
  have repo: "flagValues ''--loglevel'' (repoFlags ?e ?cr False) = [''info'']"
    using sampleCommandCR_plain
    by (simp add: repoFlags_def redisFlags_def redisTLSFlags_def logFlags_def getLogLevel_def ToLower_def
        Redis_IsEnabled_def sampleCommandCR_fields isFlag_cons plainValues_def plainValue_def
        plainValue_levels[unfolded plainValue_def])
  have server: "flagValues ''--application-namespaces'' (serverFlags ?e ?cr False) = []"
    by (rule flagValues_outside[OF serverFlags_among[OF sampleCommandCR_plain]]) simp
  have "mergedValues [''info''] [''debug''] = [''debug'']" "mergedValues [] [''mine''] = [''mine'']" by code_simp+
  then show ?thesis
    using commands_merge[OF sampleCommandCR_plain *, of "''--loglevel''" False]
      commands_merge[OF sampleCommandCR_plain *, of "''--application-namespaces''" False] repo server ns
    by (simp add: sampleCommandCR_fields elems_def isFlag_cons)
qed

end
