(* ===== verification/Managed_Namespaces.thy ===== *)
theory Managed_Namespaces
  imports Argo_Command
begin

text \<open>
  The namespaces an Argo CD instance manages: by the label \<open>argocd.argoproj.io/managed-by\<close>, and by
  NamespaceManagement resources that the instance's \<open>.spec.namespaceManagement\<close> admits
  (\<open>argocd-operator/controllers/argocd/namespaceManagement.go\<close>, and of \<open>util.go\<close> and
  \<open>argocd_controller.go\<close> the event filters, the cleanup of RBAC objects and of the cluster secret, and
  the conditions). Two clients reach the cluster: \<open>c\<close> is the reconciler's, \<open>kc\<close> the clientset.
  The glob matching of Argo CD (\<open>glob.MatchStringInList\<close> in mode GLOB) is the parameter \<open>match\<close>, the
  clock is \<open>now\<close>, whose n-th value the n-th status update of a pass reads, and the order in which Go
  ranges over a map is \<open>order\<close>. A status update follows a read of the same object and changes its
  status only, so it is an update. Definitions only; the properties are in Managed_Namespaces_Correct.
\<close>

section \<open>Conditions\<close>

definition createCondition :: "string \<Rightarrow> condition" where
  "createCondition message =
     (if message = ''OpenShiftOAuth is not supported when external authentication is enabled on cluster, please provide OIDC config''
      then \<lparr>condType = ''UnsupportedConfiguration'', condStatus = ''True'',
            condReason = ''UnsupportedSSOConfiguration'', condMessage = message, condLastTransitionTime = 0\<rparr>
      else if message = ''''
      then \<lparr>condType = ''Reconciled'', condStatus = ''True'', condReason = ''Success'', condMessage = '''',
            condLastTransitionTime = 0\<rparr>
      else \<lparr>condType = ''Reconciled'', condStatus = ''False'', condReason = ''ErrorOccurred'',
            condMessage = message, condLastTransitionTime = 0\<rparr>)"

text \<open>The index of the first condition of a type.\<close>

fun conditionIndex :: "string \<Rightarrow> condition list \<Rightarrow> nat option" where
  "conditionIndex ty [] = None"
| "conditionIndex ty (x # xs) = (if condType x = ty then Some 0 else map_option Suc (conditionIndex ty xs))"

definition insertOrUpdateConditionsInSlice ::
  "int \<Rightarrow> condition \<Rightarrow> condition slice \<Rightarrow> bool \<times> condition slice" where
  "insertOrUpdateConditionsInSlice now newCondition existingConditions =
     (let xs = elems existingConditions; stamped = newCondition\<lparr>condLastTransitionTime := now\<rparr>
      in case conditionIndex (condType newCondition) xs of
           None \<Rightarrow> (True, Some (xs @ [stamped]))
         | Some i \<Rightarrow>
             if condMessage (xs ! i) \<noteq> condMessage newCondition \<or> condReason (xs ! i) \<noteq> condReason newCondition \<or>
                condStatus (xs ! i) \<noteq> condStatus newCondition
             then (True, Some (xs[i := stamped]))
             else (False, existingConditions))"

definition removeCondition :: "condition slice \<Rightarrow> string \<Rightarrow> condition slice" where
  "removeCondition conditions conditionType =
     map_option (filter (\<lambda>x. condType x \<noteq> conditionType)) conditions"

definition updateStatusConditionOfNamespaceManagement ::
  "int \<Rightarrow> condition \<Rightarrow> NamespaceManagement \<Rightarrow> 'w client \<Rightarrow> ('w, unit) act" where
  "updateStatusConditionOfNamespaceManagement now condition cr c =
     (case insertOrUpdateConditionsInSlice now condition (nmConditions cr) of (changed, newConditions) \<Rightarrow>
        if changed
        then handle (getAs c as_namespace_management (okey (ONamespaceManagement cr)))
               (\<lambda>err. if IsNotFound err then ret () else fail err)
               (\<lambda>latest. updateO c (ONamespaceManagement (latest\<lparr>nmConditions := newConditions\<rparr>)))
        else ret ())"

section \<open>RBAC objects and the cluster secret of a managed namespace\<close>

definition ArgoCDManagedByLabel :: string where
  "ArgoCDManagedByLabel = ''argocd.argoproj.io/managed-by''"

definition ArgoCDDefaultServer :: string where
  "ArgoCDDefaultServer = ''https://kubernetes.default.svc''"

definition isNamespaceLabelledManagedBy :: "namespace_obj \<Rightarrow> string \<Rightarrow> bool" where
  "isNamespaceLabelledManagedBy ns argocdNamespace =
     (gget (metaLabels (nsMeta ns)) ArgoCDManagedByLabel = Some argocdNamespace)"

text \<open>\<open>List\<close> of the clientset, on the objects of a namespace that carry a label.\<close>

definition listSelected :: "'w client \<Rightarrow> kind \<Rightarrow> string \<Rightarrow> string \<Rightarrow> string \<Rightarrow> ('w, obj list) act" where
  "listSelected kc kd ns label val =
     bindG (listO kc kd) (\<lambda>xs. ret (filter (\<lambda>x. metaNamespace (obj_meta x) = ns \<and> gget (obj_labels x) label = Some val) xs))"

definition deleteRBACsForNamespace :: "string \<Rightarrow> 'w client \<Rightarrow> ('w, unit) act" where
  "deleteRBACsForNamespace sourceNS kc =
     bindG (mapErr (Wrapped (''failed to list roles for namespace: '' @ sourceNS @ '' error''))
              (listSelected kc KRole sourceNS ArgoCDKeyPartOf ArgoCDAppName)) (\<lambda>roles.
     thenG (forG (\<lambda>role. logged (deleteO kc (okey role))) roles)
     (bindG (mapErr (Wrapped (''failed to list role bindings for namespace: '' @ sourceNS @ '' error''))
              (listSelected kc KRoleBinding sourceNS ArgoCDKeyPartOf ArgoCDAppName)) (\<lambda>roleBindings.
     forG (\<lambda>roleBinding. logged (deleteO kc (okey roleBinding))) roleBindings)))"

text \<open>The last of the cluster secrets that names the default server.\<close>

definition localClusterSecret :: "secret list \<Rightarrow> secret option" where
  "localClusterSecret secrets =
     (case filter (\<lambda>s. gindex (secData s) ''server'' = ArgoCDDefaultServer) secrets of
        [] \<Rightarrow> None | xs \<Rightarrow> Some (last xs))"

definition withoutNamespace :: "string \<Rightarrow> string \<Rightarrow> string" where
  "withoutNamespace sourceNS namespaces =
     joinStr '','' (sort (filter (\<lambda>n. n \<noteq> sourceNS) (map TrimSpace (splitOn (CHR '','') namespaces))))"

definition deleteManagedNamespaceFromClusterSecret :: "string \<Rightarrow> string \<Rightarrow> 'w client \<Rightarrow> ('w, unit) act" where
  "deleteManagedNamespaceFromClusterSecret ownerNS sourceNS kc =
     bindG (mapErr (Wrapped (''failed to retrieve secrets for namespace: '' @ ownerNS @ '' error''))
              (listSelected kc KSecret ownerNS ArgoCDSecretTypeLabel ''cluster'')) (\<lambda>xs.
     case localClusterSecret (List.map_filter as_secret xs) of
       None \<Rightarrow> ret ()
     | Some sec \<Rightarrow>
         (case gget (secData sec) ''namespaces'' of
            None \<Rightarrow> ret ()
          | Some old \<Rightarrow>
              if old \<noteq> withoutNamespace sourceNS old
              then mapErr (Wrapped (''failed to update cluster permission secret for namespace: '' @ ownerNS @ '' error''))
                     (updateO kc (OSecret (sec\<lparr>secData := gput (secData sec) ''namespaces'' (withoutNamespace sourceNS old)\<rparr>)))
              else ret ()))"

definition cleanupRBACsForNamespaceManagement :: "string \<Rightarrow> string \<Rightarrow> 'w client \<Rightarrow> ('w, unit) act" where
  "cleanupRBACsForNamespaceManagement argocdNamespace nms kc =
     thenG (deleteRBACsForNamespace nms kc) (deleteManagedNamespaceFromClusterSecret argocdNamespace nms kc)"

section \<open>Reconciling NamespaceManagement resources\<close>

type_synonym glob_match = "string list \<Rightarrow> string \<Rightarrow> bool"

record 'w reconciler =
  rcWorld :: 'w
  rcManagedNamespaces :: "namespace_obj list option"

definition onCluster :: "('w, 'a) act \<Rightarrow> ('w reconciler, 'a) act" where
  "onCluster m = (\<lambda>r. case m (rcWorld r) of (v, w) \<Rightarrow> (v, r\<lparr>rcWorld := w\<rparr>))"

definition listNamespaceManagement :: "'w client \<Rightarrow> ('w, NamespaceManagement list) act" where
  "listNamespaceManagement c = bindG (listO c KNamespaceManagement) (\<lambda>xs. ret (List.map_filter as_namespace_management xs))"

definition nsEntries :: "ArgoCD_beta \<Rightarrow> ManagedNamespaces list" where
  "nsEntries cr = elems (bSpec_NamespaceManagement (bArgoCD_Spec cr))"

definition allowedNsPatterns :: "ArgoCD_beta \<Rightarrow> string list" where
  "allowedNsPatterns cr = map ManagedNamespaces_Name (filter ManagedNamespaces_AllowManagedBy (nsEntries cr))"

definition deniedNsPatterns :: "ArgoCD_beta \<Rightarrow> string list" where
  "deniedNsPatterns cr = map ManagedNamespaces_Name (filter (\<lambda>n. \<not> ManagedNamespaces_AllowManagedBy n) (nsEntries cr))"

definition matchesNamespaceManagementRules :: "glob_match \<Rightarrow> string list \<Rightarrow> string \<Rightarrow> bool" where
  "matchesNamespaceManagementRules match allowedPatterns ns = match allowedPatterns ns"

text \<open>The verb \<open>%q\<close> puts the name of a namespace or a pattern between quotation marks; neither has a
  character that it would escape.\<close>

definition namespaceNotPermittedMessage :: "glob_match \<Rightarrow> string \<Rightarrow> ArgoCD_beta \<Rightarrow> string list \<Rightarrow> string" where
  "namespaceNotPermittedMessage match ns cr deniedPatterns =
     (let reason = (case find (\<lambda>p. match [p] ns) deniedPatterns of
           None \<Rightarrow> ''.spec.namespaceManagement of that ArgoCD resource has no entry matching this namespace. '' @
             ''To permit it, add an entry with name '' @ [CHR 0x22] @ ns @ [CHR 0x22] @
             '' (glob patterns are supported) and allowManagedBy: true.''
         | Some pattern \<Rightarrow> ''its matching .spec.namespaceManagement entry '' @ [CHR 0x22] @ pattern @ [CHR 0x22] @
             '' has allowManagedBy: false. To permit it, set allowManagedBy: true on that entry.'')
      in ''Namespace '' @ ns @ '' is not permitted for management by the Argo CD instance '' @ crName cr @
         '' in namespace '' @ crNamespace cr @ '': '' @ reason)"

definition managementMessage :: "glob_match \<Rightarrow> ArgoCD_beta \<Rightarrow> NamespaceManagement \<Rightarrow> string" where
  "managementMessage match cr nm =
     (if matchesNamespaceManagementRules match (allowedNsPatterns cr) (metaNamespace (nmMeta nm)) then ''''
      else namespaceNotPermittedMessage match (metaNamespace (nmMeta nm)) cr (deniedNsPatterns cr))"

definition targetsInstance :: "ArgoCD_beta \<Rightarrow> NamespaceManagement \<Rightarrow> bool" where
  "targetsInstance cr nm = (nmManagedBy nm = crNamespace cr)"

definition namedNamespace :: "string \<Rightarrow> namespace_obj" where
  "namedNamespace n = \<lparr>nsMeta = mkMeta n ''''\<rparr>"

text \<open>The loop that appends the namespaces that are not there yet.\<close>

fun addNamespaces :: "namespace_obj list \<Rightarrow> string list \<Rightarrow> namespace_obj list" where
  "addNamespaces managed [] = managed"
| "addNamespaces managed (n # ns) =
     (if n \<in> set (map (metaName \<circ> nsMeta) managed) then addNamespaces managed ns
      else addNamespaces (managed @ [namedNamespace n]) ns)"

text \<open>A loop over numbered elements that goes on after an error and collects the errors.\<close>

fun collectErrors :: "(nat \<Rightarrow> 'a \<Rightarrow> ('w, unit) act) \<Rightarrow> nat \<Rightarrow> 'a list \<Rightarrow> ('w, go_error list) act" where
  "collectErrors f i [] = ret []"
| "collectErrors f i (x # xs) =
     bindG (handle (f i x) (\<lambda>err. ret [err]) (\<lambda>_. ret [])) (\<lambda>errs.
     bindG (collectErrors f (Suc i) xs) (\<lambda>more. ret (errs @ more)))"

definition reconcileNamespaceManagement ::
  "glob_match \<Rightarrow> (nat \<Rightarrow> int) \<Rightarrow> 'w client \<Rightarrow> ArgoCD_beta \<Rightarrow> ('w reconciler, unit) act" where
  "reconcileNamespaceManagement match now c cr =
     bindG (onCluster (mapErr (Wrapped ''failed to list NamespaceManagement resources'') (listNamespaceManagement c))) (\<lambda>items.
     let targeted = filter (targetsInstance cr) items;
         permitted = filter (\<lambda>nm. matchesNamespaceManagementRules match (allowedNsPatterns cr) (metaNamespace (nmMeta nm))) targeted;
         managedNamespaces = map (\<lambda>nm. metaNamespace (nmMeta nm)) permitted @ [crNamespace cr]
     in thenG (\<lambda>r. (Ok (), r\<lparr>rcManagedNamespaces := Some (addNamespaces (elems (rcManagedNamespaces r)) managedNamespaces)\<rparr>))
        (bindG (onCluster (collectErrors
             (\<lambda>i nm. mapErr (Formatted (''status update failed for namespace '' @ metaNamespace (nmMeta nm)))
                (updateStatusConditionOfNamespaceManagement (now i) (createCondition (managementMessage match cr nm)) nm c))
             0 targeted)) (\<lambda>errs.
         if errs = [] then ret () else fail (Formatted ''namespace management errors'' (Joined errs)))))"

definition setManagedNamespaces :: "'w client \<Rightarrow> ArgoCD_beta \<Rightarrow> ('w reconciler, unit) act" where
  "setManagedNamespaces c cr =
     bindG (onCluster (listO c KNamespace)) (\<lambda>xs r.
       (Ok (), r\<lparr>rcManagedNamespaces := Some
          (filter (\<lambda>ns. gget (metaLabels (nsMeta ns)) ArgoCDManagedByLabel = Some (crNamespace cr))
             (List.map_filter as_namespace xs) @ [namedNamespace (crNamespace cr)])\<rparr>))"

section \<open>Disabling namespace management\<close>

definition namespaceManagementDisabledMessage :: string where
  "namespaceManagementDisabledMessage = ''NamespaceManagement is disabled; this CR has no effect. Set '' @
     ''ALLOW_NAMESPACE_MANAGEMENT_IN_NAMESPACE_SCOPED_INSTANCES'' @ ''=true on the operator Subscription to enable it.''"

definition isNamespaceManagementEnabled :: "env \<Rightarrow> bool" where
  "isNamespaceManagementEnabled e = (getenv e ''ALLOW_NAMESPACE_MANAGEMENT_IN_NAMESPACE_SCOPED_INSTANCES'' = ''true'')"

text \<open>The joined error of the status updates that failed, if one did.\<close>

definition reportNamespaceManagementDisabled ::
  "(nat \<Rightarrow> int) \<Rightarrow> 'w client \<Rightarrow> ArgoCD_beta \<Rightarrow> NamespaceManagement list \<Rightarrow> ('w, go_error option) act" where
  "reportNamespaceManagementDisabled now c cr items =
     bindG (collectErrors (\<lambda>i nm. mapErr
          (Wrapped (''failed to update status of NamespaceManagement CR in namespace '' @ metaNamespace (nmMeta nm)))
          (updateStatusConditionOfNamespaceManagement (now i) (createCondition namespaceManagementDisabledMessage) nm c))
        0 (filter (targetsInstance cr) items)) (\<lambda>errs.
     ret (if errs = [] then None else Some (Joined errs)))"

definition returnError :: "go_error option \<Rightarrow> ('w, unit) act" where
  "returnError err = (case err of None \<Rightarrow> ret () | Some e \<Rightarrow> fail e)"

text \<open>A namespace whose NamespaceManagement has no effect any more: its RBAC objects go, unless the label
  still makes the instance manage it.\<close>

definition cleanupUnlabelled :: "'w client \<Rightarrow> 'w client \<Rightarrow> string \<Rightarrow> bool \<Rightarrow> string \<Rightarrow> ('w, unit) act" where
  "cleanupUnlabelled c kc argocdNamespace allowManaged nsName =
     bindG (getAs c as_namespace (KNamespace, '''', nsName)) (\<lambda>ns.
       if isNamespaceLabelledManagedBy ns argocdNamespace then ret ()
       else if allowManaged
       then thenG (deleteRBACsForNamespace nsName kc) (deleteManagedNamespaceFromClusterSecret argocdNamespace nsName kc)
       else ret ())"

definition disableNamespaceManagement ::
  "glob_match \<Rightarrow> (nat \<Rightarrow> int) \<Rightarrow> 'w client \<Rightarrow> 'w client \<Rightarrow> ArgoCD_beta \<Rightarrow> ('w, unit) act" where
  "disableNamespaceManagement match now c kc cr =
     bindG (listNamespaceManagement c) (\<lambda>items.
     bindG (reportNamespaceManagementDisabled now c cr items) (\<lambda>statusErr.
     let managedNamespaces = map (\<lambda>nm. metaNamespace (nmMeta nm)) (filter (targetsInstance cr) items)
     in thenG (forG (\<lambda>ns. forG (cleanupUnlabelled c kc (crNamespace cr) (ManagedNamespaces_AllowManagedBy ns))
                 (filter (match [ManagedNamespaces_Name ns]) managedNamespaces)) (nsEntries cr))
          (returnError statusErr)))"

text \<open>The part of \<open>internalReconcile\<close> that chooses between the two, and cleans up for an instance that no
  longer has the field.\<close>

definition reconcileNamespaceManagementOf ::
  "env \<Rightarrow> glob_match \<Rightarrow> (nat \<Rightarrow> int) \<Rightarrow> 'w client \<Rightarrow> 'w client \<Rightarrow> ArgoCD_beta \<Rightarrow> ('w reconciler, unit) act" where
  "reconcileNamespaceManagementOf e match now c kc cr =
     (if isNamespaceManagementEnabled e then reconcileNamespaceManagement match now c cr
      else if bSpec_NamespaceManagement (bArgoCD_Spec cr) \<noteq> None
      then onCluster (disableNamespaceManagement match now c kc cr)
      else onCluster (bindG (listNamespaceManagement c) (\<lambda>items.
        bindG (reportNamespaceManagementDisabled now c cr items) (\<lambda>statusErr.
        thenG (forG (cleanupUnlabelled c kc (crNamespace cr) True)
                 (map (\<lambda>nm. metaNamespace (nmMeta nm)) (filter (targetsInstance cr) items)))
          (returnError statusErr)))))"

section \<open>Events\<close>

text \<open>The patterns of a specification expanded over the namespaces of the cluster; a later entry
  overwrites an earlier one.\<close>

definition expandNsPatterns :: "glob_match \<Rightarrow> string list \<Rightarrow> ManagedNamespaces list \<Rightarrow> (string, bool) fmap" where
  "expandNsPatterns match allNamespaces entries =
     fold (\<lambda>entry result. fold (\<lambda>ns res.
        if match [ManagedNamespaces_Name entry] ns then fmupd ns (ManagedNamespaces_AllowManagedBy entry) res else res)
        allNamespaces result) entries fmempty"

definition getNamespacesToDelete ::
  "glob_match \<Rightarrow> (string list \<Rightarrow> string list) \<Rightarrow> ManagedNamespaces list \<Rightarrow> ManagedNamespaces list \<Rightarrow> string list \<Rightarrow>
   string list" where
  "getNamespacesToDelete match order oldList newList allNamespaces =
     (let oldExpanded = expandNsPatterns match allNamespaces oldList;
          newExpanded = expandNsPatterns match allNamespaces newList
      in filter (\<lambda>ns. fmlookup newExpanded ns \<noteq> fmlookup oldExpanded ns)
           (order (sorted_list_of_fset (fmdom oldExpanded))))"

text \<open>An edit of \<open>.spec.namespaceManagement\<close>. The filter answers whether to reconcile.\<close>

fun cleanupEdited :: "'w client \<Rightarrow> 'w client \<Rightarrow> string \<Rightarrow> string list \<Rightarrow> ('w, bool) act" where
  "cleanupEdited c kc argocdNamespace [] = ret True"
| "cleanupEdited c kc argocdNamespace (nsEntry # rest) =
     handle (getAs c as_namespace (KNamespace, '''', nsEntry))
       (\<lambda>_. cleanupEdited c kc argocdNamespace rest)
       (\<lambda>ns. if isNamespaceLabelledManagedBy ns argocdNamespace then cleanupEdited c kc argocdNamespace rest
              else handle (cleanupRBACsForNamespaceManagement argocdNamespace nsEntry kc)
                     (\<lambda>_. ret False) (\<lambda>_. cleanupEdited c kc argocdNamespace rest))"

definition handleArgoCDNamespaceManagementUpdate ::
  "glob_match \<Rightarrow> (string list \<Rightarrow> string list) \<Rightarrow> 'w client \<Rightarrow> 'w client \<Rightarrow> ArgoCD_beta \<Rightarrow> ArgoCD_beta \<Rightarrow> ('w, bool) act" where
  "handleArgoCDNamespaceManagementUpdate match order c kc valNew valOld =
     (if bSpec_NamespaceManagement (bArgoCD_Spec valOld) \<noteq> bSpec_NamespaceManagement (bArgoCD_Spec valNew)
      then handle (listO c KNamespace) (\<lambda>_. ret False) (\<lambda>xs.
        let allNamespaces = map (metaName \<circ> nsMeta) (List.map_filter as_namespace xs)
        in cleanupEdited c kc (crNamespace valOld)
             (getNamespacesToDelete match order (nsEntries valOld) (nsEntries valNew) allNamespaces))
      else ret True)"

definition handleNamespaceManagementUpdate ::
  "'w client \<Rightarrow> 'w client \<Rightarrow> NamespaceManagement \<Rightarrow> NamespaceManagement \<Rightarrow> ('w, bool) act" where
  "handleNamespaceManagementUpdate c kc oldNSMgmt newNSMgmt =
     handle (getAs c as_namespace (KNamespace, '''', nmManagedBy oldNSMgmt)) (\<lambda>_. ret False) (\<lambda>ns.
       if isNamespaceLabelledManagedBy ns (nmManagedBy oldNSMgmt) then ret False
       else if nmManagedBy oldNSMgmt \<noteq> nmManagedBy newNSMgmt
       then handle (cleanupRBACsForNamespaceManagement (nmManagedBy oldNSMgmt) (metaNamespace (nmMeta oldNSMgmt)) kc)
              (\<lambda>_. ret False) (\<lambda>_. ret True)
       else ret False)"

definition handleNamespaceManagementDelete :: "'w client \<Rightarrow> 'w client \<Rightarrow> NamespaceManagement \<Rightarrow> ('w, bool) act" where
  "handleNamespaceManagementDelete c kc nsMgmt =
     handle (getAs c as_namespace (KNamespace, '''', nmManagedBy nsMgmt)) (\<lambda>_. ret False) (\<lambda>ns.
       if isNamespaceLabelledManagedBy ns (nmManagedBy nsMgmt) then ret False
       else if nmManagedBy nsMgmt = '''' then ret False
       else handle (cleanupRBACsForNamespaceManagement (nmManagedBy nsMgmt) (metaNamespace (nmMeta nsMgmt)) kc)
              (\<lambda>_. ret False) (\<lambda>_. ret False))"

text \<open>A change of a namespace's own labels, and its deletion (which also forgets the deprecation warnings
  given for the namespace: they are not part of the model).\<close>

definition forgetNamespace :: "'w client \<Rightarrow> string \<Rightarrow> string \<Rightarrow> ('w, unit) act" where
  "forgetNamespace kc owner name =
     thenG (logged (deleteRBACsForNamespace name kc)) (logged (deleteManagedNamespaceFromClusterSecret owner name kc))"

definition namespaceUpdated :: "'w client \<Rightarrow> object_meta \<Rightarrow> object_meta \<Rightarrow> ('w, bool) act" where
  "namespaceUpdated kc old new =
     (case gget (metaLabels new) ArgoCDManagedByLabel of
        Some valNew \<Rightarrow>
          (case gget (metaLabels old) ArgoCDManagedByLabel of
             Some valOld \<Rightarrow> (if valOld \<noteq> valNew then thenG (forgetNamespace kc valOld (metaName old)) (ret True) else ret True)
           | None \<Rightarrow> ret True)
      | None \<Rightarrow>
          (case gget (metaLabels old) ArgoCDManagedByLabel of
             Some ns \<Rightarrow> (if ns \<noteq> '''' then thenG (forgetNamespace kc ns (metaName old)) (ret True) else ret True)
           | None \<Rightarrow> ret True))"

definition namespaceDeleted :: "'w client \<Rightarrow> object_meta \<Rightarrow> ('w, bool) act" where
  "namespaceDeleted kc m =
     (case gget (metaLabels m) ArgoCDManagedByLabel of
        Some ns \<Rightarrow> (if ns \<noteq> '''' then thenG (logged (deleteManagedNamespaceFromClusterSecret ns (metaName m) kc)) (ret True)
          else ret True)
      | None \<Rightarrow> ret True)"

end
