(* ===== verification/Managed_Namespaces_Correct.thy ===== *)
theory Managed_Namespaces_Correct
  imports Managed_Namespaces Local_Users_Correct
begin

text \<open>
  Properties of the namespaces an instance manages: what a pass adds to them and reports on the
  NamespaceManagement resources, what the cleanups touch and leave alone, what they leave in the cluster
  secret, and which namespaces an edit of the instance cleans up.
\<close>

section \<open>The clients\<close>

text \<open>The reconciler's client and the clientset reach the same objects; the clientset lists them as they
  are, the data of Secrets included.\<close>

locale namespace_clients = rc: verbatim_client c view admit refresh + live: verbatim_client kc view admit' refresh'
  for c :: "'w client" and kc :: "'w client" and view :: "'w \<Rightarrow> key \<Rightarrow> obj option"
    and admit admit' refresh refresh' +
  assumes list_live: "cList kc w kd = (Inr xs, w') \<Longrightarrow>
    set xs = {x. obj_kind x = kd \<and> view w (okey x) = Some x}"

interpretation mem_namespaces: namespace_clients mem_client mem_client mem_view id id id id
  by unfold_locales (auto simp: mem_client_def dest: mem_view_in)

interpretation wrapped_namespaces:
  namespace_clients "NewClientWrapper (strip_cache mem_client) mem_client" mem_client mem_view id id track id
proof (intro namespace_clients.intro namespace_clients_axioms.intro)
  show "verbatim_client (NewClientWrapper (strip_cache mem_client) mem_client) mem_view id track"
    by (rule secret_lister.axioms(1)[OF wrapped_lister.secret_lister_axioms])
  show "verbatim_client mem_client mem_view id id" by unfold_locales
qed (rule mem_namespaces.list_live)

section \<open>What the cleanups leave alone\<close>

definition labelledBy :: "('w \<Rightarrow> key \<Rightarrow> obj option) \<Rightarrow> string \<Rightarrow> 'w \<Rightarrow> string \<Rightarrow> bool" where
  "labelledBy view owner w n \<longleftrightarrow>
     (\<exists>ns. view w (KNamespace, '''', n) = Some (ONamespace ns) \<and> isNamespaceLabelledManagedBy ns owner)"

definition rbacKinds :: "kind set" where
  "rbacKinds = {KRole, KRoleBinding}"

definition clusterSecretScope :: "string \<Rightarrow> key set" where
  "clusterSecretScope owner = {k. fst k = KSecret \<and> fst (snd k) = owner}"

definition cleanupScope :: "string \<Rightarrow> key set" where
  "cleanupScope owner = {k. fst k \<in> rbacKinds \<or> fst k = KNamespaceManagement} \<union> clusterSecretScope owner"

text \<open>Beside RBAC objects, NamespaceManagement resources and the Secrets of the instance's namespace
  nothing changes; of the RBAC objects those stay that lie in a namespace the label gives to the instance,
  or that are not labelled as part of Argo CD.\<close>

definition leavesAlone :: "('w \<Rightarrow> key \<Rightarrow> obj option) \<Rightarrow> string \<Rightarrow> 'w \<Rightarrow> 'w \<Rightarrow> bool" where
  "leavesAlone view owner w w' \<longleftrightarrow> same_outside view (cleanupScope owner) w w' \<and>
     (\<forall>k x. fst k \<in> rbacKinds \<longrightarrow> view w k = Some x \<longrightarrow>
        (labelledBy view owner w (fst (snd k)) \<or> gget (obj_labels x) ArgoCDKeyPartOf \<noteq> Some ArgoCDAppName) \<longrightarrow>
        view w' k = view w k)"

lemma labelledBy_same:
  "same_outside view (cleanupScope owner) w w' \<Longrightarrow> labelledBy view owner w' n = labelledBy view owner w n"
  by (simp add: labelledBy_def same_outside_def cleanupScope_def rbacKinds_def clusterSecretScope_def)

interpretation la: world_relation "leavesAlone view owner" for view owner
proof
  fix u v w
  assume "leavesAlone view owner u v" "leavesAlone view owner v w"
  then show "leavesAlone view owner u w"
    unfolding leavesAlone_def by (metis fp.R_trans labelledBy_same)
qed (simp add: leavesAlone_def fp.R_refl)

interpretation rcl: world_relation "\<lambda>r r'. leavesAlone view owner (rcWorld r) (rcWorld r')" for view owner
  by unfold_locales (blast intro: la.R_refl la.R_trans)+

lemma onCluster_rel:
  "act_rel R m \<Longrightarrow> act_rel (\<lambda>r r'. R (rcWorld r) (rcWorld r')) (onCluster m)"
  by (simp add: act_rel_def onCluster_def split: prod.split) (metis snd_conv)

context world_relation begin

lemma rel_collectErrors: "(\<And>i x. x \<in> set xs \<Longrightarrow> act_rel R (f i x)) \<Longrightarrow> act_rel R (collectErrors f i xs)"
  by (induction xs arbitrary: i) (auto intro!: rel_ret rel_bindG rel_handle)

lemma rel_returnError: "act_rel R (returnError err)"
  by (simp add: returnError_def rel_ret rel_fail split: option.split)

end

lemma leavesAlone_other:
  assumes "same_outside view S w w'" and "\<And>k. k \<in> S \<Longrightarrow> fst k = KNamespaceManagement \<or> k \<in> clusterSecretScope owner"
  shows "leavesAlone view owner w w'"
proof -
  have "view w' k = view w k" if "fst k \<noteq> KNamespaceManagement" "k \<notin> clusterSecretScope owner" for k
    using that assms(2)[of k] same_outsideD[OF assms(1), of k] by blast
  then show ?thesis
    by (auto simp: leavesAlone_def same_outside_def cleanupScope_def rbacKinds_def clusterSecretScope_def)
qed

lemma act_leavesAlone_other:
  "act_rel (same_outside view S) m \<Longrightarrow>
   (\<And>k. k \<in> S \<Longrightarrow> fst k = KNamespaceManagement \<or> k \<in> clusterSecretScope owner) \<Longrightarrow>
   act_rel (leavesAlone view owner) m"
  unfolding act_rel_def by (intro allI leavesAlone_other[of view S]) simp_all

context k8s_client begin

lemma listO_fp: "act_rel (same_outside view S) (listO c kd)"
  unfolding act_rel_def using listO_view by (metis prod.collapse same_outside_eq)

lemma updateCondition_fp:
  assumes "okey (ONamespaceManagement nm) \<in> S"
  shows "act_rel (same_outside view S) (updateStatusConditionOfNamespaceManagement now cond nm c)"
proof -
  let ?k = "okey (ONamespaceManagement nm)"
  have k: "\<not> refreshable (fst ?k)" by (simp add: okey_def refreshable_def)
  have "okey (ONamespaceManagement (latest\<lparr>nmConditions := cs\<rparr>)) = ?k"
    if g: "getAs c as_namespace_management ?k w = (Ok latest, w1)" for latest cs w w1
    using getAs_key[OF g] by (auto simp: okey_def elim!: as_namespace_management.elims)
  then show ?thesis unfolding updateStatusConditionOfNamespaceManagement_def
    by (auto split: prod.split simp: k assms intro!: fp.rel_intros getAs_fp updateO_fp)
qed

end

section \<open>The cleanup of a namespace\<close>

text \<open>The RBAC objects of Argo CD in a namespace.\<close>

definition rbacKeys :: "('w \<Rightarrow> key \<Rightarrow> obj option) \<Rightarrow> 'w \<Rightarrow> string \<Rightarrow> key set" where
  "rbacKeys view w n = {okey x | x. obj_kind x \<in> rbacKinds \<and> metaNamespace (obj_meta x) = n \<and>
     gget (obj_labels x) ArgoCDKeyPartOf = Some ArgoCDAppName \<and> view w (okey x) = Some x}"

context namespace_clients begin

lemma listSelected_Ok:
  assumes "listSelected kc kd ns l v w = (Ok xs, w')"
  shows "view w' = view w"
    and "set xs = {x. obj_kind x = kd \<and> view w (okey x) = Some x \<and> metaNamespace (obj_meta x) = ns \<and>
      gget (obj_labels x) l = Some v}"
proof -
  from assms obtain ys where l: "listO kc kd w = (Ok ys, w')"
    and xs: "xs = filter (\<lambda>x. metaNamespace (obj_meta x) = ns \<and> gget (obj_labels x) l = Some v) ys"
    by (auto simp: listSelected_def bindG_Ok_iff)
  from l have "cList kc w kd = (Inr ys, w')" by (auto simp: listO_def split: prod.splits sum.splits)
  from list_live[OF this] xs show "set xs = {x. obj_kind x = kd \<and> view w (okey x) = Some x \<and>
      metaNamespace (obj_meta x) = ns \<and> gget (obj_labels x) l = Some v}" by auto
  from live.listO_view[OF l] show "view w' = view w" .
qed

lemma listSelected_view: "view (snd (listSelected kc kd ns l v w)) = view w"
  using live.listO_view[of kd w]
  by (auto simp: listSelected_def bindG_def handle_def fail_def split: prod.splits outcome.splits)

lemma deletes_fp:
  "okey ` set xs \<subseteq> S \<Longrightarrow> act_rel (same_outside view S) (forG (\<lambda>x. logged (deleteO kc (okey x))) xs)"
  by (intro fp.rel_forG fp.rel_logged live.deleteO_fp) blast

text \<open>One list and the deletions that follow it.\<close>

lemma deleteListed_fp:
  assumes "kd \<in> rbacKinds"
    and "\<And>k. fst k = kd \<Longrightarrow> view w k = view w0 k"
    and "\<And>xs w1. m w = (Ok xs, w1) \<Longrightarrow> view w1 = view w \<and>
      set xs = {x. obj_kind x = kd \<and> view w (okey x) = Some x \<and> metaNamespace (obj_meta x) = ns \<and>
        gget (obj_labels x) ArgoCDKeyPartOf = Some ArgoCDAppName}"
    and "view (snd (m w)) = view w"
  shows "same_outside view (rbacKeys view w0 ns \<inter> {k. fst k = kd}) w
    (snd (bindG m (forG (\<lambda>x. logged (deleteO kc (okey x)))) w))"
proof -
  obtain r w1 where m: "m w = (r, w1)" by force
  show ?thesis
  proof (cases r)
    case (Ok xs)
    with m assms(3) have v: "view w1 = view w" and xs: "set xs = {x. obj_kind x = kd \<and> view w (okey x) = Some x \<and>
        metaNamespace (obj_meta x) = ns \<and> gget (obj_labels x) ArgoCDKeyPartOf = Some ArgoCDAppName}" by auto
    have "okey ` set xs \<subseteq> rbacKeys view w0 ns \<inter> {k. fst k = kd}"
      unfolding xs rbacKeys_def using assms(1) assms(2)[of "okey _"] by (auto simp: okey_def)
    from act_relD[OF deletes_fp[OF this]] m Ok
    have "same_outside view (rbacKeys view w0 ns \<inter> {k. fst k = kd}) w1
        (snd (bindG m (forG (\<lambda>x. logged (deleteO kc (okey x)))) w))"
      by (simp add: bindG_def handle_def) (metis snd_conv prod.collapse)
    with v show ?thesis by (simp add: same_outside_def)
  qed (use m assms(4) in \<open>simp_all add: bindG_def handle_def fail_def same_outside_def\<close>)
qed

end

lemma localClusterSecret_Some:
  assumes "localClusterSecret xs = Some sec"
  shows "sec \<in> set xs \<and> gindex (secData sec) ''server'' = ArgoCDDefaultServer"
proof -
  let ?ys = "filter (\<lambda>s. gindex (secData s) ''server'' = ArgoCDDefaultServer) xs"
  from assms have "?ys \<noteq> []" "sec = last ?ys" by (auto simp: localClusterSecret_def split: list.splits)
  with last_in_set[of ?ys] show ?thesis by auto
qed

context namespace_clients begin

lemma listMapped:
  assumes "mapErr f (listSelected kc kd ns l v) w = (Ok xs, w')"
  shows "view w' = view w"
    and "set xs = {x. obj_kind x = kd \<and> view w (okey x) = Some x \<and> metaNamespace (obj_meta x) = ns \<and>
      gget (obj_labels x) l = Some v}"
proof -
  from assms have "listSelected kc kd ns l v w = (Ok xs, w')" by (simp add: mapErr_Ok_iff)
  from listSelected_Ok[OF this] show "view w' = view w"
    "set xs = {x. obj_kind x = kd \<and> view w (okey x) = Some x \<and> metaNamespace (obj_meta x) = ns \<and>
      gget (obj_labels x) l = Some v}" by auto
qed

lemma listMapped_view: "view (snd (mapErr f (listSelected kc kd ns l v) w)) = view w"
  using listSelected_view[of kd ns l v w]
  by (auto simp: mapErr_def handle_def fail_def split: prod.splits outcome.splits)

lemma deleteRBACs_fp:
  "same_outside view (rbacKeys view w ns) w (snd (deleteRBACsForNamespace ns kc w))"
proof -
  let ?m = "mapErr (Wrapped (''failed to list roles for namespace: '' @ ns @ '' error''))
    (listSelected kc KRole ns ArgoCDKeyPartOf ArgoCDAppName)"
  let ?n = "mapErr (Wrapped (''failed to list role bindings for namespace: '' @ ns @ '' error''))
    (listSelected kc KRoleBinding ns ArgoCDKeyPartOf ArgoCDAppName)"
  let ?del = "forG (\<lambda>x. logged (deleteO kc (okey x)))"
  have split: "deleteRBACsForNamespace ns kc = thenG (bindG ?m ?del) (bindG ?n ?del)"
    by (simp add: deleteRBACsForNamespace_def thenG_def bindG_def handle_def fun_eq_iff fail_def
        split: prod.split outcome.split)
  obtain r w1 where 1: "bindG ?m ?del w = (r, w1)" by force
  have roles: "same_outside view (rbacKeys view w ns \<inter> {k. fst k = KRole}) w w1"
    using deleteListed_fp[of KRole w w ?m ns] listMapped listMapped_view 1 by (simp add: rbacKinds_def)
  then have "view w1 k = view w k" if "fst k = KRoleBinding" for k
    using that same_outsideD[OF roles, of k] by auto
  from deleteListed_fp[of KRoleBinding w1 w ?n ns, OF _ this] listMapped listMapped_view
  have "same_outside view (rbacKeys view w ns \<inter> {k. fst k = KRoleBinding}) w1 (snd (bindG ?n ?del w1))"
    by (simp add: rbacKinds_def)
  moreover have "snd (deleteRBACsForNamespace ns kc w) \<in> {w1, snd (bindG ?n ?del w1)}"
    using 1 unfolding split by (cases r) (simp_all add: thenG_def bindG_def handle_def fail_def)
  ultimately show ?thesis using roles by (auto simp: same_outside_def)
qed

lemma clusterSecret_fp:
  "act_rel (same_outside view (clusterSecretScope owner)) (deleteManagedNamespaceFromClusterSecret owner ns kc)"
proof -
  let ?m = "mapErr (Wrapped (''failed to retrieve secrets for namespace: '' @ owner @ '' error''))
    (listSelected kc KSecret owner ArgoCDSecretTypeLabel ''cluster'')"
  have l: "act_rel (same_outside view S) (mapErr f (listSelected kc kd n l v))" for S f kd n l v
    unfolding act_rel_def by (metis listMapped_view live.same_outside_eq)
  have "okey (OSecret (sec\<lparr>secData := d\<rparr>)) \<in> clusterSecretScope owner"
    if m: "?m w = (Ok xs, w1)" and sec: "localClusterSecret (List.map_filter as_secret xs) = Some sec"
    for w xs w1 sec d
  proof -
    from localClusterSecret_Some[OF sec] have "sec \<in> set (List.map_filter as_secret xs)" by simp
    then have "OSecret sec \<in> set xs"
      by (auto simp: List.map_filter_def elim!: as_secret.elims)
    with listMapped(2)[OF m] have "metaNamespace (secMeta sec) = owner" by auto
    then show ?thesis by (simp add: clusterSecretScope_def okey_def)
  qed
  then show ?thesis unfolding deleteManagedNamespaceFromClusterSecret_def
    by (auto split: option.split intro!: fp.rel_intros l live.updateO_fp)
qed

lemma cleanup_leaves:
  assumes "\<not> labelledBy view owner w ns"
  shows "leavesAlone view owner w (snd (cleanupRBACsForNamespaceManagement owner ns kc w))"
proof -
  obtain r w1 where 1: "deleteRBACsForNamespace ns kc w = (r, w1)" by force
  have fp: "same_outside view (rbacKeys view w ns) w w1" using deleteRBACs_fp[of w ns] 1 by simp
  have "leavesAlone view owner w w1" unfolding leavesAlone_def
  proof (intro conjI allI impI)
    show "same_outside view (cleanupScope owner) w w1"
    proof (unfold same_outside_def, intro allI impI)
      fix k
      assume "k \<notin> cleanupScope owner"
      then have "k \<notin> rbacKeys view w ns" by (auto simp: rbacKeys_def cleanupScope_def okey_def)
      with same_outsideD[OF fp] show "view w1 k = view w k" .
    qed
    fix k x
    assume k: "fst k \<in> rbacKinds" "view w k = Some x"
      "labelledBy view owner w (fst (snd k)) \<or> gget (obj_labels x) ArgoCDKeyPartOf \<noteq> Some ArgoCDAppName"
    have "k \<notin> rbacKeys view w ns"
    proof
      assume "k \<in> rbacKeys view w ns"
      then obtain y where "k = okey y" "view w k = Some y" "metaNamespace (obj_meta y) = ns"
        "gget (obj_labels y) ArgoCDKeyPartOf = Some ArgoCDAppName" by (auto simp: rbacKeys_def)
      with k assms show False by (auto simp: okey_def)
    qed
    with same_outsideD[OF fp] show "view w1 k = view w k" .
  qed
  moreover have "leavesAlone view owner w1 (snd (deleteManagedNamespaceFromClusterSecret owner ns kc w1))"
    using clusterSecret_fp[of owner ns] by (intro leavesAlone_other[of view "clusterSecretScope owner"]) (simp_all add: act_rel_def)
  moreover have "snd (cleanupRBACsForNamespaceManagement owner ns kc w) \<in>
      {w1, snd (deleteManagedNamespaceFromClusterSecret owner ns kc w1)}"
    using 1 by (cases r) (simp_all add: cleanupRBACsForNamespaceManagement_def thenG_def bindG_def handle_def fail_def)
  ultimately show ?thesis using la.R_trans[of view owner w w1] by auto
qed

end

context namespace_clients begin

lemma getNamespace_view:
  assumes "getAs c as_namespace (KNamespace, '''', n) w = (r, w1)"
  shows "view w1 = view w" and "r = Ok ns \<Longrightarrow> view w (KNamespace, '''', n) = Some (ONamespace ns)"
proof -
  have k: "\<not> refreshable (fst (KNamespace, '''', n))" by (simp add: refreshable_def)
  show "view w1 = view w"
    using act_relD[OF rc.getAs_fp[of "(KNamespace, '''', n)" "{}" as_namespace] assms] k
    by (auto simp: same_outside_def)
  assume "r = Ok ns"
  with assms rc.getAs_Ok[OF _ k, of as_namespace w ns w1] show "view w (KNamespace, '''', n) = Some (ONamespace ns)"
    by (auto elim!: as_namespace.elims)
qed

lemma cleanupUnlabelled_leaves: "act_rel (leavesAlone view owner) (cleanupUnlabelled c kc owner allow n)"
  unfolding act_rel_def
proof
  fix w
  obtain r w1 where g: "getAs c as_namespace (KNamespace, '''', n) w = (r, w1)" by force
  note v = getNamespace_view[OF g]
  have refl: "leavesAlone view owner w w1" using v(1) by (simp add: leavesAlone_def same_outside_def)
  show "leavesAlone view owner w (snd (cleanupUnlabelled c kc owner allow n w))"
  proof (cases r)
    case (Ok ns)
    show ?thesis
    proof (cases "isNamespaceLabelledManagedBy ns owner \<or> \<not> allow")
      case True
      with g Ok refl show ?thesis by (auto simp: cleanupUnlabelled_def bindG_def handle_def)
    next
      case False
      then have "\<not> labelledBy view owner w1 n" using v Ok by (auto simp: labelledBy_def)
      from cleanup_leaves[OF this] g Ok False refl la.R_trans[of view owner w w1] show ?thesis
        by (auto simp: cleanupUnlabelled_def bindG_def handle_def cleanupRBACsForNamespaceManagement_def)
    qed
  qed (use g refl in \<open>simp_all add: cleanupUnlabelled_def bindG_def handle_def fail_def\<close>)
qed

lemma updateCondition_leaves:
  "act_rel (leavesAlone view owner) (updateStatusConditionOfNamespaceManagement now cond nm c)"
  by (rule act_leavesAlone_other[OF rc.updateCondition_fp[of nm "{okey (ONamespaceManagement nm)}"]])
    (simp_all add: okey_def)

lemma listNamespaceManagement_leaves: "act_rel (leavesAlone view owner) (listNamespaceManagement c)"
  unfolding listNamespaceManagement_def
  by (intro la.rel_intros act_leavesAlone_other[OF rc.listO_fp[of "{}"]]) simp_all

lemma report_leaves: "act_rel (leavesAlone view owner) (reportNamespaceManagementDisabled now c cr items)"
  unfolding reportNamespaceManagementDisabled_def
  by (intro la.rel_intros la.rel_collectErrors updateCondition_leaves)

lemma disable_leaves: "act_rel (leavesAlone view (crNamespace cr)) (disableNamespaceManagement match now c kc cr)"
  unfolding disableNamespaceManagement_def Let_def
  by (intro la.rel_intros la.rel_returnError listNamespaceManagement_leaves report_leaves cleanupUnlabelled_leaves)

lemma reconcileNamespaces_leaves:
  "act_rel (\<lambda>r r'. leavesAlone view (crNamespace cr) (rcWorld r) (rcWorld r'))
     (reconcileNamespaceManagementOf e match now c kc cr)"
proof -
  have modify: "act_rel (\<lambda>r r'. leavesAlone view (crNamespace cr) (rcWorld r) (rcWorld r'))
      (\<lambda>r. (Ok (), r\<lparr>rcManagedNamespaces := f r\<rparr>))" for f
    by (simp add: act_rel_def la.R_refl)
  show ?thesis unfolding reconcileNamespaceManagementOf_def reconcileNamespaceManagement_def Let_def
    by (intro rcl.rel_intros onCluster_rel modify la.rel_intros la.rel_collectErrors la.rel_returnError
        listNamespaceManagement_leaves report_leaves disable_leaves cleanupUnlabelled_leaves updateCondition_leaves)
qed

lemma cleanupEdited_leaves: "act_rel (leavesAlone view owner) (cleanupEdited c kc owner ns)"
proof (induction ns)
  case (Cons n ns)
  show ?case unfolding act_rel_def
  proof
    fix w
    obtain r w1 where g: "getAs c as_namespace (KNamespace, '''', n) w = (r, w1)" by force
    note v = getNamespace_view[OF g]
    have refl: "leavesAlone view owner w w1" using v(1) by (simp add: leavesAlone_def same_outside_def)
    have rest: "leavesAlone view owner w2 (snd (cleanupEdited c kc owner ns w2))" for w2
      using Cons.IH by (simp add: act_rel_def)
    consider (ok) x where "r = Ok x" "\<not> isNamespaceLabelledManagedBy x owner"
      | (go) "snd (cleanupEdited c kc owner (n # ns) w) \<in> {w1, snd (cleanupEdited c kc owner ns w1)}"
      using g by (cases r; cases "isNamespaceLabelledManagedBy (case r of Ok x \<Rightarrow> x) owner") (auto simp: handle_def)
    then show "leavesAlone view owner w (snd (cleanupEdited c kc owner (n # ns) w))"
    proof cases
      case ok
      then have "\<not> labelledBy view owner w1 n" using v by (auto simp: labelledBy_def)
      from cleanup_leaves[OF this] obtain q w2 where
        cl: "cleanupRBACsForNamespaceManagement owner n kc w1 = (q, w2)" "leavesAlone view owner w1 w2"
        by (metis prod.collapse)
      then have "snd (cleanupEdited c kc owner (n # ns) w) \<in> {w2, snd (cleanupEdited c kc owner ns w2)}"
        using g ok by (cases q) (auto simp: handle_def)
      with rest[of w2] la.R_trans[OF refl cl(2)] la.R_trans[of view owner w w2] show ?thesis by auto
    next
      case go
      with refl rest[of w1] la.R_trans[of view owner w w1] show ?thesis by auto
    qed
  qed
qed (simp add: act_rel_def la.R_refl)

lemma edit_leaves:
  "act_rel (leavesAlone view (crNamespace valOld)) (handleArgoCDNamespaceManagementUpdate match order c kc valNew valOld)"
  unfolding handleArgoCDNamespaceManagementUpdate_def Let_def
  by (intro la.rel_intros cleanupEdited_leaves act_leavesAlone_other[OF rc.listO_fp[of "{}"]]) simp_all

end

section \<open>The cluster secret\<close>

definition clusterSecretOf :: "('w \<Rightarrow> key \<Rightarrow> obj option) \<Rightarrow> 'w \<Rightarrow> string \<Rightarrow> secret \<Rightarrow> bool" where
  "clusterSecretOf view w owner sec \<longleftrightarrow> view w (okey (OSecret sec)) = Some (OSecret sec) \<and>
     metaNamespace (secMeta sec) = owner \<and> gget (metaLabels (secMeta sec)) ArgoCDSecretTypeLabel = Some ''cluster'' \<and>
     gindex (secData sec) ''server'' = ArgoCDDefaultServer"

lemma splitOn_no_comma: "x \<in> set (splitOn ch s) \<Longrightarrow> ch \<notin> set x"
proof (induction s arbitrary: x)
  case (Cons a s)
  then show ?case by (cases "splitOn ch s") (auto split: if_splits)
qed simp

lemma set_TrimSpace: "set (TrimSpace s) \<subseteq> set s"
  by (auto simp: TrimSpace_def dest!: set_dropWhileD)

lemma splitOn_withoutNamespace:
  assumes "\<exists>m\<in>set (map TrimSpace (splitOn (CHR '','') old)). m \<noteq> n"
  shows "splitOn (CHR '','') (withoutNamespace n old) =
    sort (filter (\<lambda>m. m \<noteq> n) (map TrimSpace (splitOn (CHR '','') old)))"
proof -
  let ?xs = "sort (filter (\<lambda>m. m \<noteq> n) (map TrimSpace (splitOn (CHR '','') old)))"
  have "set ?xs \<noteq> {}" using assms by auto
  then have ne: "?xs \<noteq> []" by (metis list.set(1))
  have "\<forall>x\<in>set ?xs. CHR '','' \<notin> set x" using set_TrimSpace splitOn_no_comma by fastforce
  with splitOn_joinStr[OF ne, of "CHR '',''"] show ?thesis by (simp add: withoutNamespace_def)
qed

context namespace_clients begin

lemma clusterSecret_Ok:
  assumes run: "deleteManagedNamespaceFromClusterSecret owner n kc w = (Ok u, w')"
    and sec: "clusterSecretOf view w owner sec" and old: "gget (secData sec) ''namespaces'' = Some old"
    and unique: "\<And>sec'. clusterSecretOf view w owner sec' \<Longrightarrow> sec' = sec"
  shows "\<exists>sec'. view w' = (view w)(okey (OSecret sec) \<mapsto> OSecret sec') \<and> secMeta sec' = secMeta sec \<and>
    gget (secData sec') ''namespaces'' = Some (withoutNamespace n old) \<and>
    (\<forall>key. key \<noteq> ''namespaces'' \<longrightarrow> gget (secData sec') key = gget (secData sec) key)"
proof -
  from run obtain xs w1 where l: "mapErr (Wrapped (''failed to retrieve secrets for namespace: '' @ owner @ '' error''))
      (listSelected kc KSecret owner ArgoCDSecretTypeLabel ''cluster'') w = (Ok xs, w1)"
    and k: "(case localClusterSecret (List.map_filter as_secret xs) of
       None \<Rightarrow> ret ()
     | Some sec \<Rightarrow>
         (case gget (secData sec) ''namespaces'' of
            None \<Rightarrow> ret ()
          | Some old \<Rightarrow>
              if old \<noteq> withoutNamespace n old
              then mapErr (Wrapped (''failed to update cluster permission secret for namespace: '' @ owner @ '' error''))
                     (updateO kc (OSecret (sec\<lparr>secData := gput (secData sec) ''namespaces'' (withoutNamespace n old)\<rparr>)))
              else ret ())) w1 = (Ok u, w')"
    unfolding deleteManagedNamespaceFromClusterSecret_def bindG_Ok_iff by blast
  note v = listMapped[OF l]
  have mem: "z \<in> set (List.map_filter as_secret xs) \<longleftrightarrow> OSecret z \<in> set xs" for z
  proof -
    have "as_secret y = Some z \<longleftrightarrow> y = OSecret z" for y by (cases y) auto
    then show ?thesis by (force simp: List.map_filter_def)
  qed
  have here: "clusterSecretOf view w owner z \<longleftrightarrow>
      z \<in> set (List.map_filter as_secret xs) \<and> gindex (secData z) ''server'' = ArgoCDDefaultServer" for z
    unfolding mem v(2) by (auto simp: clusterSecretOf_def obj_labels_def)
  have "localClusterSecret (List.map_filter as_secret xs) = Some sec"
  proof (cases "localClusterSecret (List.map_filter as_secret xs)")
    case None
    with sec here[of sec] show ?thesis
      by (auto simp: localClusterSecret_def filter_empty_conv split: list.splits)
  next
    case (Some z)
    with localClusterSecret_Some[OF Some] here[of z] unique[of z] show ?thesis by simp
  qed
  note k = k[unfolded this option.case old]
  show ?thesis
  proof (cases "old = withoutNamespace n old")
    case True
    with k v(1) sec old have "view w' = (view w)(okey (OSecret sec) \<mapsto> OSecret sec)"
      by (auto simp: clusterSecretOf_def fun_upd_idem)
    with old True show ?thesis by metis
  next
    case False
    let ?new = "sec\<lparr>secData := gput (secData sec) ''namespaces'' (withoutNamespace n old)\<rparr>"
    from False k have "updateO kc (OSecret ?new) w1 = (Ok u, w')" by (simp add: mapErr_Ok_iff)
    from live.updateO_Ok(1)[OF this] live.admit_id v(1)
    have "view w' = (view w)(okey (OSecret sec) \<mapsto> OSecret ?new)" by (simp add: okey_def)
    moreover have "gget (secData ?new) key =
        (if key = ''namespaces'' then Some (withoutNamespace n old) else gget (secData sec) key)" for key
      using old by (cases "secData sec") (auto simp: gput_def gget_def)
    ultimately show ?thesis by (intro exI[of _ ?new]) simp
  qed
qed

end

section \<open>Conditions\<close>

text \<open>The first condition of its type says what the new one says.\<close>

definition reported :: "condition \<Rightarrow> condition slice \<Rightarrow> bool" where
  "reported cond cs \<longleftrightarrow> (\<exists>x. find (\<lambda>x. condType x = condType cond) (elems cs) = Some x \<and>
     condStatus x = condStatus cond \<and> condReason x = condReason cond \<and> condMessage x = condMessage cond)"

lemma conditionIndex_find:
  "conditionIndex ty xs = None \<Longrightarrow> find (\<lambda>x. condType x = ty) xs = None"
  "conditionIndex ty xs = Some i \<Longrightarrow> i < length xs \<and> find (\<lambda>x. condType x = ty) xs = Some (xs ! i)"
  by (induction xs arbitrary: i) (auto split: if_splits)

lemma find_append_last: "find P xs = None \<Longrightarrow> P y \<Longrightarrow> find P (xs @ [y]) = Some y"
  by (induction xs) (auto split: if_splits)

lemma conditionIndex_update:
  "conditionIndex ty xs = Some i \<Longrightarrow> condType y = ty \<Longrightarrow> find (\<lambda>x. condType x = ty) (xs[i := y]) = Some y"
  by (induction xs arbitrary: i) (auto split: if_splits)

lemma insertOrUpdate_reported:
  assumes "insertOrUpdateConditionsInSlice now cond cs = (changed, cs')"
  shows "reported cond cs'" and "\<not> changed \<Longrightarrow> cs' = cs"
proof -
  show "\<not> changed \<Longrightarrow> cs' = cs"
    using assms by (auto simp: insertOrUpdateConditionsInSlice_def Let_def split: option.splits if_splits)
  show "reported cond cs'"
  proof (cases "conditionIndex (condType cond) (elems cs)")
    case None
    with assms show ?thesis
      by (auto simp: insertOrUpdateConditionsInSlice_def Let_def reported_def elems_simps
          find_append_last[OF conditionIndex_find(1)])
  next
    case (Some i)
    with assms conditionIndex_find(2)[OF Some] conditionIndex_update[OF Some] show ?thesis
      by (auto simp: insertOrUpdateConditionsInSlice_def Let_def reported_def elems_simps split: if_splits)
  qed
qed

context verbatim_client begin

lemma updateCondition_Ok:
  assumes run: "updateStatusConditionOfNamespaceManagement now cond nm c w = (Ok u, w')"
    and cur: "view w (okey (ONamespaceManagement nm)) = Some (ONamespaceManagement cur)"
    and ok: "cur = nm \<or> reported cond (nmConditions cur)"
  shows "\<exists>cur'. view w' = (view w)(okey (ONamespaceManagement nm) \<mapsto> ONamespaceManagement cur') \<and>
    reported cond (nmConditions cur')"
proof -
  let ?k = "okey (ONamespaceManagement nm)"
  obtain changed cs where i: "insertOrUpdateConditionsInSlice now cond (nmConditions nm) = (changed, cs)" by force
  note ins = insertOrUpdate_reported[OF i]
  have k: "\<not> refreshable (fst ?k)" by (simp add: okey_def refreshable_def)
  show ?thesis
  proof (cases changed)
    case False
    with run i ins ok have "view w' = view w" "reported cond (nmConditions cur)"
      by (auto simp: updateStatusConditionOfNamespaceManagement_def)
    with cur show ?thesis by (metis fun_upd_triv)
  next
    case True
    with run i have h: "handle (getAs c as_namespace_management ?k)
        (\<lambda>err. if IsNotFound err then ret () else fail err)
        (\<lambda>latest. updateO c (ONamespaceManagement (latest\<lparr>nmConditions := cs\<rparr>))) w = (Ok u, w')"
      by (simp add: updateStatusConditionOfNamespaceManagement_def)
    from h show ?thesis unfolding handle_Ok_iff
    proof (elim disjE exE conjE)
      fix latest w1
      assume g: "getAs c as_namespace_management ?k w = (Ok latest, w1)"
        and up: "updateO c (ONamespaceManagement (latest\<lparr>nmConditions := cs\<rparr>)) w1 = (Ok u, w')"
      from getAs_Ok[OF g k] cur have l: "latest = cur" "view w1 = view w"
        by (metis as_namespace_management.simps(1) option.inject)+
      have "okey (ONamespaceManagement (cur\<lparr>nmConditions := cs\<rparr>)) = ?k"
        using view_key[OF cur] by (simp add: okey_def)
      with updateO_Ok(1)[OF up] admit_id l
      have "view w' = (view w)(?k \<mapsto> ONamespaceManagement (cur\<lparr>nmConditions := cs\<rparr>))" by simp
      with ins(1) show ?thesis by (intro exI[of _ "cur\<lparr>nmConditions := cs\<rparr>"]) simp
    next
      fix err w1
      assume g: "getAs c as_namespace_management ?k w = (Err err, w1)"
        and r: "(if IsNotFound err then ret () else fail err) w1 = (Ok u, w')"
      then have "IsNotFound err" by (auto split: if_splits)
      from getAs_NotFound(1)[OF g this] cur show ?thesis by simp
    qed
  qed
qed

text \<open>The loop over the resources, all of them as they are in the cluster when it starts.\<close>

lemma updateConditions_Ok:
  assumes "collectErrors (\<lambda>i nm. mapErr (g nm) (updateStatusConditionOfNamespaceManagement (now i) (cond nm) nm c)) i xs w
      = (Ok [], w')"
    and "\<And>nm. nm \<in> set xs \<Longrightarrow> nm \<in> S"
    and "\<And>nm nm'. nm \<in> S \<Longrightarrow> nm' \<in> S \<Longrightarrow> okey (ONamespaceManagement nm) = okey (ONamespaceManagement nm') \<Longrightarrow> nm = nm'"
    and "\<And>nm. nm \<in> S \<Longrightarrow> \<exists>cur. view w (okey (ONamespaceManagement nm)) = Some (ONamespaceManagement cur) \<and>
      (cur = nm \<or> reported (cond nm) (nmConditions cur))"
  shows "\<forall>nm\<in>S. \<exists>cur. view w' (okey (ONamespaceManagement nm)) = Some (ONamespaceManagement cur) \<and>
      (cur = nm \<or> reported (cond nm) (nmConditions cur)) \<and>
      (nm \<in> set xs \<or> (\<exists>c0. view w (okey (ONamespaceManagement nm)) = Some (ONamespaceManagement c0) \<and>
         reported (cond nm) (nmConditions c0)) \<longrightarrow> reported (cond nm) (nmConditions cur))"
  using assms(1,2,4)
proof (induction xs arbitrary: i w)
  case Nil
  then have "w' = w" by simp
  with Nil.prems(3) show ?case by (metis empty_iff list.set(1) obj.inject(21) option.inject)
next
  case (Cons nm xs)
  let ?k = "\<lambda>nm. okey (ONamespaceManagement nm)"
  from Cons.prems(1) obtain u w1 where
    up: "updateStatusConditionOfNamespaceManagement (now i) (cond nm) nm c w = (Ok u, w1)"
    and rest: "collectErrors (\<lambda>i nm. mapErr (g nm) (updateStatusConditionOfNamespaceManagement (now i) (cond nm) nm c)) (Suc i) xs w1
      = (Ok [], w')"
    by (auto simp: bindG_Ok_iff handle_Ok_iff mapErr_Ok_iff)
  from Cons.prems(2) have nm: "nm \<in> S" by simp
  from Cons.prems(3)[OF nm] obtain cur where cur: "view w (?k nm) = Some (ONamespaceManagement cur)"
    "cur = nm \<or> reported (cond nm) (nmConditions cur)" by blast
  from updateCondition_Ok[OF up cur] obtain cur' where
    v: "view w1 = (view w)(?k nm \<mapsto> ONamespaceManagement cur')" "reported (cond nm) (nmConditions cur')" by blast
  have step: "\<exists>cur. view w1 (?k m) = Some (ONamespaceManagement cur) \<and> (cur = m \<or> reported (cond m) (nmConditions cur)) \<and>
      (m = nm \<or> (\<exists>c0. view w (?k m) = Some (ONamespaceManagement c0) \<and> reported (cond m) (nmConditions c0)) \<longrightarrow>
       reported (cond m) (nmConditions cur))" if "m \<in> S" for m
    using v Cons.prems(3)[OF that] assms(3)[OF nm that] by (cases "?k nm = ?k m") auto
  have "\<exists>cur. view w1 (?k m) = Some (ONamespaceManagement cur) \<and> (cur = m \<or> reported (cond m) (nmConditions cur))"
    if "m \<in> S" for m using step[OF that] by blast
  from Cons.IH[OF rest _ this] Cons.prems(2) have ih: "\<forall>m\<in>S. \<exists>cur. view w' (?k m) = Some (ONamespaceManagement cur) \<and>
      (cur = m \<or> reported (cond m) (nmConditions cur)) \<and>
      (m \<in> set xs \<or> (\<exists>c0. view w1 (?k m) = Some (ONamespaceManagement c0) \<and>
         reported (cond m) (nmConditions c0)) \<longrightarrow> reported (cond m) (nmConditions cur))" by simp
  show ?case
  proof
    fix m
    assume m: "m \<in> S"
    from step[OF m] ih m show "\<exists>cur. view w' (?k m) = Some (ONamespaceManagement cur) \<and>
      (cur = m \<or> reported (cond m) (nmConditions cur)) \<and>
      (m \<in> set (nm # xs) \<or> (\<exists>c0. view w (?k m) = Some (ONamespaceManagement c0) \<and>
         reported (cond m) (nmConditions c0)) \<longrightarrow> reported (cond m) (nmConditions cur))" by (metis set_ConsD)
  qed
qed

end

section \<open>A pass over the NamespaceManagement resources\<close>

abbreviation nsName :: "namespace_obj \<Rightarrow> string" where
  "nsName \<equiv> \<lambda>ns. metaName (nsMeta ns)"

definition managedNames :: "'w reconciler \<Rightarrow> string list" where
  "managedNames r = map nsName (elems (rcManagedNamespaces r))"

lemma addNamespaces_names:
  "set (map nsName (addNamespaces ms ns)) = set (map nsName ms) \<union> set ns"
  "distinct (map nsName ms) \<Longrightarrow> distinct (map nsName (addNamespaces ms ns))"
  by (induction ns arbitrary: ms) (auto simp: namedNamespace_def)

text \<open>The NamespaceManagement resources of the cluster.\<close>

definition managementIn :: "('w \<Rightarrow> key \<Rightarrow> obj option) \<Rightarrow> 'w \<Rightarrow> NamespaceManagement \<Rightarrow> bool" where
  "managementIn view w nm \<longleftrightarrow> view w (okey (ONamespaceManagement nm)) = Some (ONamespaceManagement nm)"

lemma onCluster_Ok_iff:
  "onCluster m r = (Ok a, r') \<longleftrightarrow> (\<exists>w. m (rcWorld r) = (Ok a, w) \<and> r' = r\<lparr>rcWorld := w\<rparr>)"
  by (auto simp: onCluster_def split: prod.splits)

context verbatim_client begin

lemma listNamespaceManagement_Ok:
  assumes "listNamespaceManagement c w = (Ok nms, w')"
  shows "view w' = view w" and "nm \<in> set nms \<longleftrightarrow> managementIn view w nm"
proof -
  from assms obtain xs where l: "listO c KNamespaceManagement w = (Ok xs, w')"
    and nms: "nms = List.map_filter as_namespace_management xs"
    by (auto simp: listNamespaceManagement_def bindG_Ok_iff)
  from listO_view[OF l] show "view w' = view w" .
  from l have "cList c w KNamespaceManagement = (Inr xs, w')" by (auto simp: listO_def split: prod.splits sum.splits)
  from list_found[OF this] have xs: "set xs = {x. obj_kind x = KNamespaceManagement \<and> view w (okey x) = Some x}"
    by (simp add: refreshable_def)
  have "as_namespace_management y = Some nm \<longleftrightarrow> y = ONamespaceManagement nm" for y by (cases y) auto
  then have "nm \<in> set nms \<longleftrightarrow> ONamespaceManagement nm \<in> set xs" by (force simp: nms List.map_filter_def)
  with xs show "nm \<in> set nms \<longleftrightarrow> managementIn view w nm" by (simp add: managementIn_def)
qed

lemma reconcileNamespaceManagement_Ok:
  assumes run: "reconcileNamespaceManagement match now c cr r = (Ok u, r')"
  shows "n \<in> set (managedNames r') \<longleftrightarrow> n \<in> set (managedNames r) \<or> n = crNamespace cr \<or>
      (\<exists>nm. managementIn view (rcWorld r) nm \<and> targetsInstance cr nm \<and> metaNamespace (nmMeta nm) = n \<and>
         match (allowedNsPatterns cr) n)"
    and "distinct (managedNames r) \<Longrightarrow> distinct (managedNames r')"
    and "managementIn view (rcWorld r) nm \<Longrightarrow> targetsInstance cr nm \<Longrightarrow>
      \<exists>nm'. view (rcWorld r') (okey (ONamespaceManagement nm)) = Some (ONamespaceManagement nm') \<and>
        reported (createCondition (managementMessage match cr nm)) (nmConditions nm')"
proof -
  define cond where "cond nm = createCondition (managementMessage match cr nm)" for nm
  define added where "added xs = map (\<lambda>nm. metaNamespace (nmMeta nm)) (filter (\<lambda>nm. matchesNamespaceManagementRules match
      (allowedNsPatterns cr) (metaNamespace (nmMeta nm))) (filter (targetsInstance cr) xs)) @ [crNamespace cr]" for xs
  from run obtain items w1 w2 where
    l: "listNamespaceManagement c (rcWorld r) = (Ok items, w1)"
    and errs: "collectErrors (\<lambda>i nm. mapErr (Formatted (''status update failed for namespace '' @ metaNamespace (nmMeta nm)))
        (updateStatusConditionOfNamespaceManagement (now i) (cond nm) nm c)) 0 (filter (targetsInstance cr) items) w1 = (Ok [], w2)"
    and r': "r' = r\<lparr>rcWorld := w2, rcManagedNamespaces := Some (addNamespaces (elems (rcManagedNamespaces r)) (added items))\<rparr>"
    by (auto simp: reconcileNamespaceManagement_def Let_def bindG_Ok_iff thenG_Ok_iff onCluster_Ok_iff mapErr_Ok_iff
        cond_def added_def fail_def split: if_splits)
  note v = listNamespaceManagement_Ok[OF l]
  have names: "managedNames r' = map nsName (addNamespaces (elems (rcManagedNamespaces r)) (added items))"
    by (simp add: r' managedNames_def elems_simps)
  have added: "n \<in> set (added items) \<longleftrightarrow> n = crNamespace cr \<or> (\<exists>nm. managementIn view (rcWorld r) nm \<and>
      targetsInstance cr nm \<and> metaNamespace (nmMeta nm) = n \<and> match (allowedNsPatterns cr) n)"
    using v(2) by (auto simp: added_def matchesNamespaceManagementRules_def)
  show "n \<in> set (managedNames r') \<longleftrightarrow> n \<in> set (managedNames r) \<or> n = crNamespace cr \<or>
      (\<exists>nm. managementIn view (rcWorld r) nm \<and> targetsInstance cr nm \<and> metaNamespace (nmMeta nm) = n \<and>
         match (allowedNsPatterns cr) n)"
    unfolding names addNamespaces_names using added by (auto simp: managedNames_def)
  show "distinct (managedNames r) \<Longrightarrow> distinct (managedNames r')"
    unfolding names by (rule addNamespaces_names(2)) (simp add: managedNames_def)
  assume nm: "managementIn view (rcWorld r) nm" "targetsInstance cr nm"
  let ?S = "set (filter (targetsInstance cr) items)"
  have "nm' = nm''" if "nm' \<in> ?S" "nm'' \<in> ?S" "okey (ONamespaceManagement nm') = okey (ONamespaceManagement nm'')" for nm' nm''
    using that v(2) by (auto simp: managementIn_def)
  moreover have "\<exists>cur. view w1 (okey (ONamespaceManagement nm)) = Some (ONamespaceManagement cur) \<and>
      (cur = nm \<or> reported (cond nm) (nmConditions cur))" if "nm \<in> ?S" for nm
    using that v by (auto simp: managementIn_def)
  ultimately have "\<forall>nm\<in>?S. \<exists>cur. view w2 (okey (ONamespaceManagement nm)) = Some (ONamespaceManagement cur) \<and>
      reported (cond nm) (nmConditions cur)"
    using updateConditions_Ok[OF errs, of ?S] by blast
  with nm v(2) r' show "\<exists>nm'. view (rcWorld r') (okey (ONamespaceManagement nm)) = Some (ONamespaceManagement nm') \<and>
        reported (createCondition (managementMessage match cr nm)) (nmConditions nm')"
    by (simp add: cond_def)
qed

end

section \<open>Deletions that succeed\<close>

text \<open>A clientset whose lists succeed and whose deletions succeed or find nothing.\<close>

definition obliging :: "('w \<Rightarrow> key \<Rightarrow> obj option) \<Rightarrow> 'w client \<Rightarrow> bool" where
  "obliging view kc \<longleftrightarrow> (\<forall>w kd. \<exists>xs w'. cList kc w kd = (Inr xs, w')) \<and>
     (\<forall>w k. fst (cDelete kc w k) \<noteq> None \<longrightarrow> view w k = None)"

context namespace_clients begin

lemma delete_gone:
  assumes "obliging view kc"
  shows "gone (view (snd (logged (deleteO kc k) w)) k)"
proof -
  obtain r w1 where d: "cDelete kc w k = (r, w1)" by force
  then have "snd (logged (deleteO kc k) w) = w1"
    by (cases r) (simp_all add: logged_def deleteO_def handle_def write_result_def)
  moreover have "gone (view w1 k)"
  proof (cases r)
    case None
    with live.delete_ok d show ?thesis by (metis fun_upd_same)
  next
    case (Some e)
    with assms d have "view w k = None" unfolding obliging_def by (metis fst_conv option.distinct(1))
    with live.delete_err[of w k e w1] d Some show ?thesis by (auto simp: gone_def)
  qed
  ultimately show ?thesis by simp
qed

lemma logged_delete_other: "k' \<noteq> k \<Longrightarrow> view (snd (logged (deleteO kc k) w)) k' = view w k'"
proof -
  assume "k' \<noteq> k"
  moreover have "act_rel (same_outside view {k}) (logged (deleteO kc k))"
    by (intro fp.rel_logged live.deleteO_fp) simp
  ultimately show ?thesis by (auto simp: act_rel_def dest!: spec[of _ w] intro: same_outsideD)
qed

lemma logged_Ok: "fst (logged (deleteO kc k) w) = Ok ()"
  by (auto simp: logged_def deleteO_def handle_def write_result_def ret_def split: prod.splits option.splits)

lemma deletes_gone:
  assumes "obliging view kc"
  shows "fst (forG (\<lambda>x. logged (deleteO kc (okey x))) xs w) = Ok () \<and>
    (k \<in> okey ` set xs \<or> gone (view w k) \<longrightarrow> gone (view (snd (forG (\<lambda>x. logged (deleteO kc (okey x))) xs w)) k))"
proof (induction xs arbitrary: w)
  case (Cons x xs)
  obtain w1 where l: "logged (deleteO kc (okey x)) w = (Ok (), w1)" by (metis logged_Ok prod.collapse)
  have "gone (view w1 k)" if "k = okey x \<or> gone (view w k)"
    using that delete_gone[OF assms, of "okey x" w] logged_delete_other[of k "okey x" w] l by (cases "k = okey x") auto
  then show ?case using Cons.IH[of w1] l by (auto simp: thenG_def bindG_def handle_def)
qed simp

lemma deleteListed_gone:
  assumes "obliging view kc" and "kd \<in> rbacKinds"
    and "fst k = kd \<Longrightarrow> view w k = view w0 k" and "k \<in> rbacKeys view w0 ns"
  shows "\<exists>w'. bindG (mapErr f (listSelected kc kd ns ArgoCDKeyPartOf ArgoCDAppName))
      (forG (\<lambda>x. logged (deleteO kc (okey x)))) w = (Ok (), w') \<and> (fst k = kd \<or> gone (view w k) \<longrightarrow> gone (view w' k))"
proof -
  from assms(1) obtain ys w1 where "cList kc w kd = (Inr ys, w1)" unfolding obliging_def by blast
  then obtain xs where l: "mapErr f (listSelected kc kd ns ArgoCDKeyPartOf ArgoCDAppName) w = (Ok xs, w1)"
    by (auto simp: mapErr_Ok_iff listSelected_def bindG_Ok_iff listO_def)
  note v = listMapped[OF l]
  have "k \<in> okey ` set xs" if "fst k = kd"
    using that assms(3,4) unfolding v(2) by (auto simp: rbacKeys_def okey_def image_iff)
  with deletes_gone[OF assms(1), of xs w1 k] v(1) l show ?thesis
    by (cases "forG (\<lambda>x. logged (deleteO kc (okey x))) xs w1") (auto simp: bindG_def handle_def)
qed

lemma deleteRBACs_gone:
  assumes "obliging view kc" and "k \<in> rbacKeys view w ns"
  shows "\<exists>w'. deleteRBACsForNamespace ns kc w = (Ok (), w') \<and> gone (view w' k)"
proof -
  let ?m = "mapErr (Wrapped (''failed to list roles for namespace: '' @ ns @ '' error''))
    (listSelected kc KRole ns ArgoCDKeyPartOf ArgoCDAppName)"
  let ?n = "mapErr (Wrapped (''failed to list role bindings for namespace: '' @ ns @ '' error''))
    (listSelected kc KRoleBinding ns ArgoCDKeyPartOf ArgoCDAppName)"
  let ?del = "forG (\<lambda>x. logged (deleteO kc (okey x)))"
  have split: "deleteRBACsForNamespace ns kc = thenG (bindG ?m ?del) (bindG ?n ?del)"
    by (simp add: deleteRBACsForNamespace_def thenG_def bindG_def handle_def fun_eq_iff fail_def
        split: prod.split outcome.split)
  from deleteListed_gone[OF assms(1) _ _ assms(2), of KRole w] obtain w1 where
    1: "bindG ?m ?del w = (Ok (), w1)" "fst k = KRole \<longrightarrow> gone (view w1 k)" by (auto simp: rbacKinds_def)
  have "same_outside view (rbacKeys view w ns \<inter> {k. fst k = KRole}) w w1"
    using deleteListed_fp[of KRole w w ?m ns] listMapped listMapped_view 1 by (simp add: rbacKinds_def)
  then have "fst k = KRoleBinding \<Longrightarrow> view w1 k = view w k" by (rule same_outsideD) simp
  from deleteListed_gone[OF assms(1) _ this assms(2)] obtain w2 where
    "bindG ?n ?del w1 = (Ok (), w2)" "fst k = KRoleBinding \<or> gone (view w1 k) \<longrightarrow> gone (view w2 k)"
    by (auto simp: rbacKinds_def)
  moreover have "fst k = KRole \<or> fst k = KRoleBinding" using assms(2) by (auto simp: rbacKeys_def rbacKinds_def okey_def)
  ultimately show ?thesis using 1 unfolding split by (auto simp: thenG_Ok_iff)
qed

lemma cleanup_gone:
  assumes "obliging view kc" and "k \<in> rbacKeys view w ns"
  shows "gone (view (snd (cleanupRBACsForNamespaceManagement owner ns kc w)) k)"
proof -
  from deleteRBACs_gone[OF assms] obtain w1 where 1: "deleteRBACsForNamespace ns kc w = (Ok (), w1)" "gone (view w1 k)" by blast
  have "k \<notin> clusterSecretScope owner" using assms(2) by (auto simp: rbacKeys_def rbacKinds_def clusterSecretScope_def okey_def)
  with clusterSecret_fp[of owner ns] have "view (snd (deleteManagedNamespaceFromClusterSecret owner ns kc w1)) k = view w1 k"
    by (auto simp: act_rel_def dest!: spec[of _ w1] intro: same_outsideD)
  with 1 show ?thesis by (simp add: cleanupRBACsForNamespaceManagement_def thenG_def bindG_def handle_def)
qed

end

section \<open>Patterns\<close>

text \<open>What the last entry that matches a namespace says.\<close>

definition lastMatch :: "glob_match \<Rightarrow> ManagedNamespaces list \<Rightarrow> string \<Rightarrow> bool option" where
  "lastMatch match entries ns =
     (case filter (\<lambda>e. match [ManagedNamespaces_Name e] ns) entries of
        [] \<Rightarrow> None
      | e # es \<Rightarrow> Some (ManagedNamespaces_AllowManagedBy (last (e # es))))"

lemma lastMatch_snoc:
  "lastMatch match (entries @ [e]) ns =
     (if match [ManagedNamespaces_Name e] ns then Some (ManagedNamespaces_AllowManagedBy e) else lastMatch match entries ns)"
  by (cases "filter (\<lambda>e. match [ManagedNamespaces_Name e] ns) entries") (simp_all add: lastMatch_def)

lemma fold_fmupd_lookup:
  "fmlookup (fold (\<lambda>n res. if P n then fmupd n v res else res) ns res) n =
     (if n \<in> set ns \<and> P n then Some v else fmlookup res n)"
  by (induction ns arbitrary: res) auto

lemma expandNsPatterns_lookup:
  "fmlookup (expandNsPatterns match names entries) ns = (if ns \<in> set names then lastMatch match entries ns else None)"
proof (induction entries rule: rev_induct)
  case (snoc e entries)
  then show ?case by (simp add: expandNsPatterns_def fold_fmupd_lookup lastMatch_snoc)
qed (simp add: expandNsPatterns_def lastMatch_def)

lemma getNamespacesToDelete_set:
  assumes "\<And>xs. set (order xs) = set xs"
  shows "set (getNamespacesToDelete match order oldList newList names) =
    {ns \<in> set names. lastMatch match oldList ns \<noteq> None \<and> lastMatch match newList ns \<noteq> lastMatch match oldList ns}"
proof -
  have "ns |\<in>| fmdom (expandNsPatterns match names oldList) \<longleftrightarrow> ns \<in> set names \<and> lastMatch match oldList ns \<noteq> None" for ns
    by (simp add: fmlookup_dom_iff expandNsPatterns_lookup)
  then show ?thesis
    by (auto simp: getNamespacesToDelete_def assms expandNsPatterns_lookup)
qed

section \<open>Properties\<close>

lemma leavesAloneD:
  assumes "leavesAlone view owner w w'"
    and "k \<notin> cleanupScope owner \<or> fst k \<in> rbacKinds \<and> view w k = Some x \<and>
     (labelledBy view owner w (fst (snd k)) \<or> gget (obj_labels x) ArgoCDKeyPartOf \<noteq> Some ArgoCDAppName)"
  shows "view w' k = view w k"
proof -
  from assms(1) have out: "same_outside view (cleanupScope owner) w w'"
    and rbac: "fst k \<in> rbacKinds \<longrightarrow> view w k = Some x \<longrightarrow>
      (labelledBy view owner w (fst (snd k)) \<or> gget (obj_labels x) ArgoCDKeyPartOf \<noteq> Some ArgoCDAppName) \<longrightarrow>
      view w' k = view w k"
    unfolding leavesAlone_def by blast+
  from assms(2) show ?thesis
  proof
    assume "k \<notin> cleanupScope owner"
    with same_outsideD[OF out] show ?thesis .
  qed (use rbac in blast)
qed

context verbatim_client begin

lemma setManagedNamespaces_Ok:
  assumes "setManagedNamespaces c cr r = (Ok u, r')"
  shows "n \<in> set (managedNames r') \<longleftrightarrow> n = crNamespace cr \<or>
      (\<exists>ns. view (rcWorld r) (okey (ONamespace ns)) = Some (ONamespace ns) \<and> nsName ns = n \<and>
         isNamespaceLabelledManagedBy ns (crNamespace cr))"
    and "view (rcWorld r') = view (rcWorld r)"
proof -
  from assms obtain xs w where l: "listO c KNamespace (rcWorld r) = (Ok xs, w)"
    and r': "r' = r\<lparr>rcWorld := w, rcManagedNamespaces := Some
      (filter (\<lambda>ns. gget (metaLabels (nsMeta ns)) ArgoCDManagedByLabel = Some (crNamespace cr))
         (List.map_filter as_namespace xs) @ [namedNamespace (crNamespace cr)])\<rparr>"
    by (auto simp: setManagedNamespaces_def bindG_Ok_iff onCluster_Ok_iff)
  from listO_view[OF l] r' show "view (rcWorld r') = view (rcWorld r)" by simp
  from l have "cList c (rcWorld r) KNamespace = (Inr xs, w)" by (auto simp: listO_def split: prod.splits sum.splits)
  from list_found[OF this] have xs: "set xs = {x. obj_kind x = KNamespace \<and> view (rcWorld r) (okey x) = Some x}"
    by (simp add: refreshable_def)
  have "as_namespace y = Some ns \<longleftrightarrow> y = ONamespace ns" for y ns by (cases y) auto
  then have "ns \<in> set (List.map_filter as_namespace xs) \<longleftrightarrow>
      view (rcWorld r) (okey (ONamespace ns)) = Some (ONamespace ns)" for ns
    using xs by (force simp: List.map_filter_def)
  then show "n \<in> set (managedNames r') \<longleftrightarrow> n = crNamespace cr \<or>
      (\<exists>ns. view (rcWorld r) (okey (ONamespace ns)) = Some (ONamespace ns) \<and> nsName ns = n \<and>
         isNamespaceLabelledManagedBy ns (crNamespace cr))"
    by (auto simp: r' managedNames_def elems_simps namedNamespace_def isNamespaceLabelledManagedBy_def)
qed

end

definition sampleNsCR :: ArgoCD_beta where
  "sampleNsCR = zero_ArgoCD_beta\<lparr>bArgoCD_Meta := mkMeta ''argocd'' ''argo'',
     bArgoCD_Spec := zero_ArgoCDSpec_beta\<lparr>bSpec_NamespaceManagement := Some
       [\<lparr>ManagedNamespaces_Name = ''team-a'', ManagedNamespaces_AllowManagedBy = True\<rparr>]\<rparr>\<rparr>"

definition sampleManagement :: "string \<Rightarrow> NamespaceManagement" where
  "sampleManagement ns = \<lparr>nmMeta = mkMeta ''nm'' ns, nmManagedBy = ''argo'', nmConditions = None\<rparr>"

definition sampleLabelled :: "string \<Rightarrow> namespace_obj" where
  "sampleLabelled n = \<lparr>nsMeta = (mkMeta n '''')\<lparr>metaLabels := gmap [(ArgoCDManagedByLabel, ''argo'')]\<rparr>\<rparr>"

definition sampleRole :: "string \<Rightarrow> role" where
  "sampleRole ns = \<lparr>roleMeta = (mkMeta ''argocd-server'' ns)\<lparr>metaLabels := gmap [(ArgoCDKeyPartOf, ArgoCDAppName)]\<rparr>,
     roleRules = None\<rparr>"

definition sampleClusterSecret :: secret where
  "sampleClusterSecret = \<lparr>secMeta = (mkMeta ''argocd-default-cluster-config'' ''argo'')
       \<lparr>metaLabels := gmap [(ArgoCDSecretTypeLabel, ''cluster'')]\<rparr>,
     secType = ''Opaque'', secData = gmap [(''server'', ArgoCDDefaultServer), (''namespaces'', ''argo, team-b,team-a'')],
     secStringData = None\<rparr>"

definition sampleNamespaces :: "obj list" where
  "sampleNamespaces = [ONamespace (namedNamespace ''argo''), ONamespace (namedNamespace ''team-a''),
     ONamespace (sampleLabelled ''team-b''), ONamespace (namedNamespace ''team-c''),
     ONamespaceManagement (sampleManagement ''team-a''), ONamespaceManagement (sampleManagement ''team-b''),
     ORole (sampleRole ''team-a''), ORole (sampleRole ''team-b''), OSecret sampleClusterSecret]"

definition literalMatch :: glob_match where
  "literalMatch patterns ns = (ns \<in> set patterns)"

lemma sampleNsCR_fields [simp]:
  "bArgoCD_Meta sampleNsCR = mkMeta ''argocd'' ''argo''"
  "nsEntries sampleNsCR = [\<lparr>ManagedNamespaces_Name = ''team-a'', ManagedNamespaces_AllowManagedBy = True\<rparr>]"
  by (simp_all add: sampleNsCR_def nsEntries_def elems_def)



text \<open>C14. What the end of namespace management leaves alone. Whether the feature is on, off, or gone from
  the instance, and after every edit of its patterns, whatever fails: outside RBAC objects, the
  NamespaceManagement resources and the Secrets of the instance's own namespace nothing changes, and a Role
  or RoleBinding stays as it is when the label gives its namespace to the instance, or when it is not
  labelled as part of Argo CD.\<close>

theorem namespace_cleanup_leaves:
  assumes "namespace_clients c kc view admit admit' refresh refresh'"
    and "k \<notin> cleanupScope (crNamespace cr) \<or>
      fst k \<in> rbacKinds \<and> view w k = Some x \<and>
      (labelledBy view (crNamespace cr) w (fst (snd k)) \<or> gget (obj_labels x) ArgoCDKeyPartOf \<noteq> Some ArgoCDAppName)"
  shows "view (rcWorld (snd (reconcileNamespaceManagementOf e match now c kc cr
      \<lparr>rcWorld = w, rcManagedNamespaces = managed\<rparr>))) k = view w k \<and>
    view (snd (handleArgoCDNamespaceManagementUpdate match order c kc valNew cr w)) k = view w k"
proof -
  have 1: "leavesAlone view (crNamespace cr) w (rcWorld (snd (reconcileNamespaceManagementOf e match now c kc cr
      \<lparr>rcWorld = w, rcManagedNamespaces = managed\<rparr>)))"
    using namespace_clients.reconcileNamespaces_leaves[OF assms(1), of cr e match now]
    by (auto simp: act_rel_def dest!: spec[of _ "\<lparr>rcWorld = w, rcManagedNamespaces = managed\<rparr>"])
  have 2: "leavesAlone view (crNamespace cr) w
      (snd (handleArgoCDNamespaceManagementUpdate match order c kc valNew cr w))"
    using namespace_clients.edit_leaves[OF assms(1), of cr match order valNew] by (simp add: act_rel_def)
  from leavesAloneD[OF 1 assms(2)] leavesAloneD[OF 2 assms(2)] show ?thesis by simp
qed

theorem namespace_cleanup_leaves_witness:
  "mem_view (rcWorld (snd (reconcileNamespaceManagementOf sampleEnv literalMatch (\<lambda>_. 5) mem_client mem_client sampleNsCR
      \<lparr>rcWorld = sampleNamespaces, rcManagedNamespaces = None\<rparr>))) (KRole, ''team-b'', ''argocd-server'') =
    Some (ORole (sampleRole ''team-b''))"
proof -
  let ?k = "(KRole, ''team-b'', ''argocd-server'')"
  have r: "mem_view sampleNamespaces ?k = Some (ORole (sampleRole ''team-b''))" by code_simp
  have "mem_view sampleNamespaces (KNamespace, '''', ''team-b'') = Some (ONamespace (sampleLabelled ''team-b''))" by code_simp
  then have "labelledBy mem_view (crNamespace sampleNsCR) sampleNamespaces (fst (snd ?k))"
    by (auto simp: labelledBy_def sampleLabelled_def isNamespaceLabelledManagedBy_def)
  then have "?k \<notin> cleanupScope (crNamespace sampleNsCR) \<or> fst ?k \<in> rbacKinds \<and>
      mem_view sampleNamespaces ?k = Some (ORole (sampleRole ''team-b'')) \<and>
      (labelledBy mem_view (crNamespace sampleNsCR) sampleNamespaces (fst (snd ?k)) \<or>
       gget (obj_labels (ORole (sampleRole ''team-b''))) ArgoCDKeyPartOf \<noteq> Some ArgoCDAppName)"
    using r by (simp add: rbacKinds_def)
  from namespace_cleanup_leaves[OF mem_namespaces.namespace_clients_axioms this] r show ?thesis by simp
qed

text \<open>The cluster secret after a namespace is removed from it: when the removal returns without an error,
  and the instance has one cluster secret for the default server, that secret differs from before in its
  namespaces at most, which are the old ones but the removed one, trimmed and sorted. So the removed
  namespace is not among them, as long as another one was.\<close>

theorem clusterSecret_forgets:
  assumes "namespace_clients c kc view admit admit' refresh refresh'"
    and "clusterSecretOf view w owner sec" and "gget (secData sec) ''namespaces'' = Some old"
    and "\<And>sec'. clusterSecretOf view w owner sec' \<Longrightarrow> sec' = sec"
    and "\<exists>m\<in>set (map TrimSpace (splitOn (CHR '','') old)). m \<noteq> n"
    and "deleteManagedNamespaceFromClusterSecret owner n kc w = (Ok (), w')"
  shows "\<exists>sec' new. view w' = (view w)(okey (OSecret sec) \<mapsto> OSecret sec') \<and> secMeta sec' = secMeta sec \<and>
    (\<forall>key. key \<noteq> ''namespaces'' \<longrightarrow> gget (secData sec') key = gget (secData sec) key) \<and>
    gget (secData sec') ''namespaces'' = Some new \<and>
    splitOn (CHR '','') new = sort (filter (\<lambda>m. m \<noteq> n) (map TrimSpace (splitOn (CHR '','') old)))"
  using namespace_clients.clusterSecret_Ok[OF assms(1,6,2,3,4)] splitOn_withoutNamespace[OF assms(5)] by blast

theorem clusterSecret_forgets_witness:
  "\<exists>sec' new. mem_view (snd (deleteManagedNamespaceFromClusterSecret ''argo'' ''team-b'' mem_client sampleNamespaces))
      (KSecret, ''argo'', ''argocd-default-cluster-config'') = Some (OSecret sec') \<and>
    gget (secData sec') ''namespaces'' = Some new \<and> splitOn (CHR '','') new = [''argo'', ''team-a'']"
proof -
  have run: "fst (deleteManagedNamespaceFromClusterSecret ''argo'' ''team-b'' mem_client sampleNamespaces) = Ok ()"
    by code_simp
  have old: "gget (secData sampleClusterSecret) ''namespaces'' = Some ''argo, team-b,team-a''"
    by (simp add: sampleClusterSecret_def)
  have sp: "map TrimSpace (splitOn (CHR '','') ''argo, team-b,team-a'') = [''argo'', ''team-b'', ''team-a'']" by code_simp
  have sec: "clusterSecretOf mem_view sampleNamespaces ''argo'' sampleClusterSecret" by code_simp
  have unique: "sec' = sampleClusterSecret" if "clusterSecretOf mem_view sampleNamespaces ''argo'' sec'" for sec'
    using that by (auto simp: clusterSecretOf_def sampleNamespaces_def dest!: mem_view_in)
  have ne: "\<exists>m\<in>set (map TrimSpace (splitOn (CHR '','') ''argo, team-b,team-a'')). m \<noteq> ''team-b''" unfolding sp by simp
  have "sort (filter (\<lambda>m. m \<noteq> ''team-b'') [''argo'', ''team-b'', ''team-a'']) = [''argo'', ''team-a'']" by code_simp
  with clusterSecret_forgets[OF mem_namespaces.namespace_clients_axioms sec old unique ne run_result[OF run]]
  show ?thesis unfolding sp by (auto simp: okey_def sampleClusterSecret_def)
qed

text \<open>C15. Deleting a NamespaceManagement resource looks at the label of the wrong namespace. The comments ask
  that a namespace the label gives to the instance keep its RBAC objects, but the handler reads the
  namespace of the instance itself: unless that one is labelled as managed by itself, every Role and
  RoleBinding of Argo CD in the resource's namespace is deleted, label or no label.\<close>

theorem handleNamespaceManagementDelete_ignores_label:
  assumes "namespace_clients c kc view admit admit' refresh refresh'" and "obliging view kc"
    and "labelledBy view (nmManagedBy nm) w (metaNamespace (nmMeta nm))"
    and "getAs c as_namespace (KNamespace, '''', nmManagedBy nm) w = (Ok ns, w1)"
    and "\<not> isNamespaceLabelledManagedBy ns (nmManagedBy nm)" and "nmManagedBy nm \<noteq> ''''"
    and "k \<in> rbacKeys view w (metaNamespace (nmMeta nm))"
  shows "gone (view (snd (handleNamespaceManagementDelete c kc nm w)) k)"
proof -
  have "k \<in> rbacKeys view w1 (metaNamespace (nmMeta nm))"
    using assms(7) namespace_clients.getNamespace_view(1)[OF assms(1,4)] by (simp add: rbacKeys_def)
  from namespace_clients.cleanup_gone[OF assms(1,2) this, of "nmManagedBy nm"] assms(4,5,6) show ?thesis
    by (cases "cleanupRBACsForNamespaceManagement (nmManagedBy nm) (metaNamespace (nmMeta nm)) kc w1";
        cases "fst (cleanupRBACsForNamespaceManagement (nmManagedBy nm) (metaNamespace (nmMeta nm)) kc w1)")
      (auto simp: handleNamespaceManagementDelete_def handle_def)
qed

theorem handleNamespaceManagementDelete_ignores_label_witness:
  "labelledBy mem_view ''argo'' sampleNamespaces ''team-b'' \<and>
   gone (mem_view (snd (handleNamespaceManagementDelete mem_client mem_client (sampleManagement ''team-b'') sampleNamespaces))
     (KRole, ''team-b'', ''argocd-server''))"
proof -
  have nm: "nmManagedBy (sampleManagement ''team-b'') = ''argo''" "metaNamespace (nmMeta (sampleManagement ''team-b'')) = ''team-b''"
    by (simp_all add: sampleManagement_def)
  have "mem_view sampleNamespaces (KNamespace, '''', ''team-b'') = Some (ONamespace (sampleLabelled ''team-b''))" by code_simp
  then have lab: "labelledBy mem_view ''argo'' sampleNamespaces ''team-b''"
    by (auto simp: labelledBy_def sampleLabelled_def isNamespaceLabelledManagedBy_def)
  have ob: "obliging mem_view mem_client"
    by (auto simp: obliging_def mem_client_def split: option.splits)
  have get: "getAs mem_client as_namespace (KNamespace, '''', ''argo'') sampleNamespaces =
    (Ok (namedNamespace ''argo''), sampleNamespaces)" by code_simp
  have own: "\<not> isNamespaceLabelledManagedBy (namedNamespace ''argo'') ''argo''" by code_simp
  have "mem_view sampleNamespaces (KRole, ''team-b'', ''argocd-server'') = Some (ORole (sampleRole ''team-b''))" by code_simp
  then have k: "(KRole, ''team-b'', ''argocd-server'') \<in> rbacKeys mem_view sampleNamespaces ''team-b''"
    by (auto simp: rbacKeys_def rbacKinds_def sampleRole_def okey_def obj_labels_def intro!: exI[of _ "ORole (sampleRole ''team-b'')"])
  show ?thesis
    using handleNamespaceManagementDelete_ignores_label[OF mem_namespaces.namespace_clients_axioms ob,
        of "sampleManagement ''team-b''" sampleNamespaces, unfolded nm, OF lab get own _ k] lab by simp
qed

text \<open>The namespaces an edit of the patterns cleans up are those of the cluster that an old entry matches
  and for which the last matching entry says something else than before, or is gone. A namespace that a
  later entry denies is cleaned up, then, although an earlier entry admits it and goes on admitting it: a
  NamespaceManagement resource keeps the namespace managed.\<close>

theorem getNamespacesToDelete_spec:
  assumes "\<And>xs. set (order xs) = set xs" and "\<And>ps s. match ps s \<longleftrightarrow> (\<exists>p\<in>set ps. match [p] s)"
  shows "set (getNamespacesToDelete match order oldList newList names) =
      {ns \<in> set names. lastMatch match oldList ns \<noteq> None \<and> lastMatch match newList ns \<noteq> lastMatch match oldList ns} \<and>
    (ns \<in> set names \<and> lastMatch match oldList ns = Some True \<and> lastMatch match newList ns = Some False \<and>
       e \<in> set newList \<and> ManagedNamespaces_AllowManagedBy e \<and> match [ManagedNamespaces_Name e] ns \<longrightarrow>
     ns \<in> set (getNamespacesToDelete match order oldList newList names) \<and>
     matchesNamespaceManagementRules match
       (map ManagedNamespaces_Name (filter ManagedNamespaces_AllowManagedBy newList)) ns)"
  using assms(2)[of "map ManagedNamespaces_Name (filter ManagedNamespaces_AllowManagedBy newList)" ns]
  by (auto simp: getNamespacesToDelete_set[OF assms(1)] matchesNamespaceManagementRules_def)

theorem getNamespacesToDelete_spec_witness:
  "let old = [\<lparr>ManagedNamespaces_Name = ''team'', ManagedNamespaces_AllowManagedBy = True\<rparr>];
       new = old @ [\<lparr>ManagedNamespaces_Name = ''team'', ManagedNamespaces_AllowManagedBy = False\<rparr>]
   in ''team'' \<in> set (getNamespacesToDelete literalMatch rev old new [''argo'', ''team'']) \<and>
      matchesNamespaceManagementRules literalMatch
        (map ManagedNamespaces_Name (filter ManagedNamespaces_AllowManagedBy new)) ''team''"
proof -
  let ?e = "\<lparr>ManagedNamespaces_Name = ''team'', ManagedNamespaces_AllowManagedBy = True\<rparr>"
  have o: "\<And>xs :: string list. set (rev xs) = set xs" by simp
  have m: "\<And>ps s. literalMatch ps s \<longleftrightarrow> (\<exists>p\<in>set ps. literalMatch [p] s)" by (auto simp: literalMatch_def)
  show ?thesis
    using conjunct2[OF getNamespacesToDelete_spec[where order = rev and match = literalMatch, OF o m, where ns = "''team''" and
        names = "[''argo'', ''team'']" and oldList = "[?e]" and e = ?e and
        newList = "[?e, \<lparr>ManagedNamespaces_Name = ''team'', ManagedNamespaces_AllowManagedBy = False\<rparr>]"]]
    by (simp add: Let_def lastMatch_def literalMatch_def)
qed

end
