(* ===== verification/Instance_Common.thy ===== *)
theory Instance_Common
  imports Managed_Namespaces
begin

text \<open>
  What the reconcilers of an Argo CD instance share (\<open>argocd-operator/controllers/argocd\<close>, of
  \<open>util.go\<close>, \<open>dex.go\<close> and \<open>notifications.go\<close>, \<open>controllers/argoutil/resource.go\<close>, \<open>common\<close>): names,
  labels and annotations of the objects of an instance, on the full v1beta1 resource, which of its
  components are enabled, and what the operator found out about the cluster. The look-up every
  reconciler starts with is \<open>IsObjectFound\<close> of \<open>Local_Users\<close>; its laws over a client are here.
\<close>

section \<open>Names, labels, owners\<close>

definition nameWithSuffix :: "env \<Rightarrow> string \<Rightarrow> ArgoCD_beta \<Rightarrow> string" where
  "nameWithSuffix e sfx cr = NameWithSuffix e (bArgoCD_Meta cr) sfx"

definition applicationControllerResourceName :: "env \<Rightarrow> ArgoCD_beta \<Rightarrow> string" where
  "applicationControllerResourceName e cr = NameWithSuffixForStatefulSet e (bArgoCD_Meta cr) ''application-controller''"

definition redisHAStatefulSetName :: "env \<Rightarrow> ArgoCD_beta \<Rightarrow> string" where
  "redisHAStatefulSetName e cr = NameWithSuffixForStatefulSet e (bArgoCD_Meta cr) ''redis-ha-server''"

definition DefaultLabels :: "string \<Rightarrow> gomap" where
  "DefaultLabels name = gmap [(''app.kubernetes.io/name'', name), (''app.kubernetes.io/part-of'', ArgoCDAppName),
     (''app.kubernetes.io/managed-by'', name)]"

definition DefaultAnnotations :: "string \<Rightarrow> string \<Rightarrow> gomap" where
  "DefaultAnnotations name namespace = gmap [(''argocds.argoproj.io/name'', name),
     (''argocds.argoproj.io/namespace'', namespace)]"

definition clusterLabels :: "ArgoCD_beta \<Rightarrow> gomap" where
  "clusterLabels cr = DefaultLabels (crName cr)"

definition AnnotationsForCluster :: "ArgoCD_beta \<Rightarrow> gomap" where
  "AnnotationsForCluster cr = DefaultAnnotations (crName cr) (crNamespace cr)"

text \<open>The metadata of an object of the instance, named after it and labelled, and the same under
  another name, which also becomes its name label.\<close>

definition instanceMeta :: "ArgoCD_beta \<Rightarrow> object_meta" where
  "instanceMeta cr = (mkMeta (crName cr) (crNamespace cr))\<lparr>metaLabels := clusterLabels cr\<rparr>"

definition namedMeta :: "string \<Rightarrow> ArgoCD_beta \<Rightarrow> object_meta" where
  "namedMeta name cr = (instanceMeta cr)\<lparr>metaName := name,
     metaLabels := gput (metaLabels (instanceMeta cr)) ''app.kubernetes.io/name'' name\<rparr>"

text \<open>\<open>controllerutil.SetControllerReference(cr, object, r.Scheme)\<close> on the object's metadata.\<close>

definition controlledBy :: "env \<Rightarrow> ArgoCD_beta \<Rightarrow> object_meta \<Rightarrow> ('w, object_meta) act" where
  "controlledBy e cr m = liftE (SetControllerReference e (bArgoCD_Meta cr) m)"

section \<open>What is enabled\<close>

definition Controller_IsEnabled :: "ArgoCDApplicationControllerSpec_beta \<Rightarrow> bool" where
  "Controller_IsEnabled a = (bController_Enabled a = None \<or> bController_Enabled a = Some True)"

definition ApplicationSet_IsEnabled :: "ArgoCDApplicationSet_beta \<Rightarrow> bool" where
  "ApplicationSet_IsEnabled a = (bApplicationSet_Enabled a = None \<or> bApplicationSet_Enabled a = Some True)"

definition Server_IsEnabled :: "ArgoCDServerSpec_beta \<Rightarrow> bool" where
  "Server_IsEnabled a = (bServer_Enabled a = None \<or> bServer_Enabled a = Some True)"

definition SSO_IsEnabled :: "ArgoCDSSOSpec_beta option \<Rightarrow> bool" where
  "SSO_IsEnabled a = (case a of None \<Rightarrow> False | Some s \<Rightarrow> bSSO_Provider s \<noteq> '''')"

definition NetworkPolicy_IsEnabled :: "ArgoCDNetworkPolicySpec \<Rightarrow> bool" where
  "NetworkPolicy_IsEnabled a = (NetworkPolicy_Enabled a = None \<or> NetworkPolicy_Enabled a = Some True)"

definition Agent_IsEnabled :: "AgentSpec_beta \<Rightarrow> bool" where
  "Agent_IsEnabled a = (bAgent_Enabled a = Some True)"

abbreviation spec :: "ArgoCD_beta \<Rightarrow> ArgoCDSpec_beta" where
  "spec cr \<equiv> bArgoCD_Spec cr"

definition ssoProviderOf :: "ArgoCD_beta \<Rightarrow> string option" where
  "ssoProviderOf cr = map_option (\<lambda>s. ToLower (bSSO_Provider s)) (bSpec_SSO (spec cr))"

definition UseDex :: "ArgoCD_beta \<Rightarrow> bool" where
  "UseDex cr = (ssoProviderOf cr = Some ''dex'')"

definition isNotificationsEnabled :: "ArgoCD_beta \<Rightarrow> bool" where
  "isNotificationsEnabled cr = (bSpec_Notifications (spec cr) \<noteq> zero_ArgoCDNotifications \<and>
     Notifications_Enabled (bSpec_Notifications (spec cr)))"

definition isWebTerminalEnabled :: "ArgoCD_beta \<Rightarrow> bool" where
  "isWebTerminalEnabled cr = (case bSpec_WebTerminalEnabled (spec cr) of None \<Rightarrow> False | Some b \<Rightarrow> b)"

definition UseApplicationController :: "string \<Rightarrow> ArgoCD_beta \<Rightarrow> bool" where
  "UseApplicationController name cr =
     (case bController_Enabled (bSpec_Controller (spec cr)) of
        Some b \<Rightarrow> if name = ''argocd-application-controller'' then b else True
      | None \<Rightarrow> True)"

definition UseRedis :: "string \<Rightarrow> ArgoCD_beta \<Rightarrow> bool" where
  "UseRedis name cr =
     (case bRedis_Enabled (bSpec_Redis (spec cr)) of
        Some b \<Rightarrow> if name = ''argocd-redis'' then b else True
      | None \<Rightarrow> True)"

definition UseServer :: "string \<Rightarrow> ArgoCD_beta \<Rightarrow> bool" where
  "UseServer name cr =
     (case bServer_Enabled (bSpec_Server (spec cr)) of
        Some b \<Rightarrow> if name = ''argocd-server'' then b else True
      | None \<Rightarrow> True)"

section \<open>What the operator found out about the cluster\<close>

datatype argo_api = PrometheusAPI | RouteAPI | ImageUpdaterAPI | VersionAPI | TrustBundleAPI

record argo_flags =
  prometheusFound :: bool
  argoRouteFound :: bool
  imageUpdaterFound :: bool
  versionFound :: bool
  trustBundleFound :: bool

text \<open>The probes of the optional APIs; \<open>verify\<close> is \<open>argoutil.VerifyAPI\<close> over the discovery client. Only
  the probe of the image updater does not stop the inspection when it fails.\<close>

definition InspectInstanceCluster ::
  "(argo_api \<Rightarrow> go_error + bool) \<Rightarrow> argo_flags \<Rightarrow> go_error option \<times> argo_flags" where
  "InspectInstanceCluster verify f0 =
     (case verify PrometheusAPI of Inl err \<Rightarrow> (Some err, f0) | Inr p \<Rightarrow>
      let f1 = f0\<lparr>prometheusFound := p\<rparr>
      in case verify RouteAPI of Inl err \<Rightarrow> (Some err, f1) | Inr rt \<Rightarrow>
      let f2 = f1\<lparr>argoRouteFound := rt\<rparr>;
          f3 = f2\<lparr>imageUpdaterFound := (case verify ImageUpdaterAPI of Inl _ \<Rightarrow> False | Inr i \<Rightarrow> i)\<rparr>
      in case verify VersionAPI of Inl err \<Rightarrow> (Some err, f3) | Inr v \<Rightarrow>
      let f4 = f3\<lparr>versionFound := v\<rparr>
      in case verify TrustBundleAPI of Inl err \<Rightarrow> (Some err, f4) | Inr t \<Rightarrow>
      (None, f4\<lparr>trustBundleFound := t\<rparr>))"

definition getClusterVersion :: "argo_flags \<Rightarrow> 'w client \<Rightarrow> ('w, string) act" where
  "getClusterVersion f c =
     (if \<not> versionFound f then ret ''''
      else handle (getAs c as_cluster_version (KClusterVersion, '''', ''version''))
        (\<lambda>err. if IsNotFound err then ret '''' else fail err)
        (\<lambda>cv. ret (cvDesiredVersion cv)))"

section \<open>Lemmas\<close>

lemma instanceMeta_simps [simp]:
  "metaName (instanceMeta cr) = crName cr" "metaNamespace (instanceMeta cr) = crNamespace cr"
  "metaLabels (instanceMeta cr) = clusterLabels cr" "metaAnnotations (instanceMeta cr) = None"
  "metaFinalizers (instanceMeta cr) = []" "metaDeleting (instanceMeta cr) = False"
  by (simp_all add: instanceMeta_def)

lemma namedMeta_simps [simp]:
  "metaName (namedMeta n cr) = n" "metaNamespace (namedMeta n cr) = crNamespace cr"
  "metaLabels (namedMeta n cr) = gput (clusterLabels cr) ''app.kubernetes.io/name'' n"
  "metaAnnotations (namedMeta n cr) = None" "metaFinalizers (namedMeta n cr) = []"
  "metaDeleting (namedMeta n cr) = False"
  by (simp_all add: namedMeta_def)

lemma isNotificationsEnabled_iff:
  "isNotificationsEnabled cr \<longleftrightarrow> Notifications_Enabled (bSpec_Notifications (spec cr))"
  by (auto simp: isNotificationsEnabled_def zero_ArgoCDNotifications_def)

lemma controlledBy_Ok_iff:
  "controlledBy e cr m w = (Ok m', w') \<longleftrightarrow> SetControllerReference e (bArgoCD_Meta cr) m = Inr m' \<and> w' = w"
  by (auto simp: controlledBy_def liftE_Ok_iff)

context world_relation
begin

lemma rel_controlledBy: "act_rel R (controlledBy e cr m)"
  by (simp add: controlledBy_def rel_liftE)

end

context k8s_client
begin

lemma IsObjectFound_Ok:
  assumes "IsObjectFound c cast k w = (Ok r, w')" and "\<not> refreshable (fst k)"
  shows "view w' = view w"
    and "r = None \<Longrightarrow> view w k = None"
    and "r = Some a \<Longrightarrow> \<exists>x. view w k = Some x \<and> cast x = Some a"
  using assms unfolding IsObjectFound_def handle_Ok_iff
  by (auto split: if_splits dest: getAs_NotFound elim!: getAs_Ok)

lemma IsObjectFound_fp:
  "k \<in> S \<or> \<not> refreshable (fst k) \<Longrightarrow> act_rel (same_outside view S) (IsObjectFound c cast k)"
  unfolding IsObjectFound_def
  by (intro fp.rel_handle fp.rel_if fp.rel_ret fp.rel_fail getAs_fp)

lemma IsObjectFound_pure:
  "\<not> refreshable (fst k) \<Longrightarrow> act_rel (same_outside view {}) (IsObjectFound c cast k)"
  by (rule IsObjectFound_fp) simp

lemma IsObjectFound_key:
  assumes "IsObjectFound c cast k w = (Ok (Some a), w')"
  shows "\<exists>x. okey x = k \<and> cast x = Some a"
  using assms unfolding IsObjectFound_def handle_Ok_iff by (auto split: if_splits dest: getAs_key)

end

section \<open>Reconcilers of one object\<close>

text \<open>A reconciler of one object leaves every other object alone, but for those of a frame it may touch
  on the way (the secrets it reads, which the wrapping client may label), and what it returns without an
  error satisfies a condition. A sequence of them, each on an object of its own, establishes all
  conditions.\<close>

definition ensures ::
  "('w \<Rightarrow> key \<Rightarrow> obj option) \<Rightarrow> key set \<Rightarrow> key \<Rightarrow> (obj option \<Rightarrow> bool) \<Rightarrow> ('w, unit) act \<Rightarrow> bool" where
  "ensures view F k P m \<longleftrightarrow> act_rel (same_outside view (insert k F)) m \<and>
     (\<forall>w w'. m w = (Ok (), w') \<longrightarrow> P (view w' k))"

text \<open>It finds nothing to do where the condition holds.\<close>

definition settled ::
  "('w \<Rightarrow> key \<Rightarrow> obj option) \<Rightarrow> key \<Rightarrow> (obj option \<Rightarrow> bool) \<Rightarrow> ('w, unit) act \<Rightarrow> bool" where
  "settled view k P m \<longleftrightarrow> (\<forall>w. P (view w k) \<longrightarrow> (\<exists>w'. m w = (Ok (), w') \<and> view w' = view w))"

lemma ensuresD: "ensures view F k P m \<Longrightarrow> m w = (Ok (), w') \<Longrightarrow> P (view w' k)"
  by (simp add: ensures_def)

lemma settledD: "settled view k P m \<Longrightarrow> P (view w k) \<Longrightarrow> \<exists>w'. m w = (Ok (), w') \<and> view w' = view w"
  by (simp add: settled_def)

lemma same_outside_mono: "same_outside view A w w' \<Longrightarrow> A \<subseteq> S \<Longrightarrow> same_outside view S w w'"
  unfolding same_outside_def by blast

lemma fp_mono: "act_rel (same_outside view A) m \<Longrightarrow> A \<subseteq> S \<Longrightarrow> act_rel (same_outside view S) m"
  by (auto simp: act_rel_def intro: same_outside_mono)

lemma ensures_fp: "ensures view F k P m \<Longrightarrow> insert k F \<subseteq> S \<Longrightarrow> act_rel (same_outside view S) m"
  by (auto simp: ensures_def intro: fp_mono)

lemma ensures_weaken: "ensures view F k P m \<Longrightarrow> (\<And>v. P v \<Longrightarrow> Q v) \<Longrightarrow> ensures view F k Q m"
  unfolding ensures_def by blast

lemma thenG_ret_right [simp]: "thenG m (ret ()) = (m :: ('w, unit) act)"
  by (auto simp: thenG_def bindG_def handle_def fun_eq_iff split: prod.split outcome.split)

lemma thenG_ret_left [simp]: "thenG (ret x) m = m"
  by (simp add: thenG_def)

type_synonym 'w step = "('w, unit) act \<times> key \<times> (obj option \<Rightarrow> bool)"

definition all_ensure :: "('w \<Rightarrow> key \<Rightarrow> obj option) \<Rightarrow> key set \<Rightarrow> 'w step list \<Rightarrow> bool" where
  "all_ensure view F ts \<longleftrightarrow> (\<forall>(m, k, P) \<in> set ts. ensures view F k P m)"

definition step_keys :: "'w step list \<Rightarrow> key list" where
  "step_keys ts = map (fst \<circ> snd) ts"

definition all_hold :: "'w step list \<Rightarrow> (key \<Rightarrow> obj option) \<Rightarrow> bool" where
  "all_hold ts v \<longleftrightarrow> (\<forall>(m, k, P) \<in> set ts. P (v k))"

lemma steps_simps [simp]:
  "all_ensure view F []" "all_ensure view F ((m, k, P) # ts) \<longleftrightarrow> ensures view F k P m \<and> all_ensure view F ts"
  "step_keys [] = []" "step_keys ((m, k, P) # ts) = k # step_keys ts"
  "all_hold [] v" "all_hold ((m, k, P) # ts) v \<longleftrightarrow> P (v k) \<and> all_hold ts v"
  by (simp_all add: all_ensure_def step_keys_def all_hold_def)

lemma steps_fp:
  "all_ensure view F ts \<Longrightarrow> set (step_keys ts) \<union> F \<subseteq> S \<Longrightarrow> act_rel (same_outside view S) (forG fst ts)"
proof (induction ts)
  case (Cons t ts)
  obtain m k P where t: "t = (m, k, P)" by (cases t)
  with Cons.prems have "act_rel (same_outside view S) m" by (intro ensures_fp[of view F k P]) auto
  with Cons t show ?case by (auto intro!: fp.rel_thenG)
qed (simp add: fp.rel_ret)

lemma steps_establish:
  assumes "all_ensure view F ts" and "distinct (step_keys ts)" and "set (step_keys ts) \<inter> F = {}"
    and "forG fst ts w = (Ok (), w')"
  shows "all_hold ts (view w')"
  using assms
proof (induction ts arbitrary: w)
  case (Cons t ts)
  obtain m k P where t: "t = (m, k, P)" by (cases t)
  from Cons.prems t obtain w1 where m: "m w = (Ok (), w1)" and r: "forG fst ts w1 = (Ok (), w')"
    by (auto simp: thenG_Ok_iff)
  have "act_rel (same_outside view (set (step_keys ts) \<union> F)) (forG fst ts)"
    using Cons.prems(1) t by (intro steps_fp[of view F]) auto
  from act_relD[OF this r] have "same_outside view (set (step_keys ts) \<union> F) w1 w'" .
  with Cons.prems(2,3) t have "view w' k = view w1 k" by (intro same_outsideD) auto
  moreover from Cons.prems(1) t m have "P (view w1 k)" by (auto dest: ensuresD)
  ultimately show ?case using Cons.IH[OF _ _ _ r] Cons.prems(1,2,3) t by simp
qed simp

lemma forG_fst_map: "forG fst (map (\<lambda>(m, k, P). (m, k, g P)) ts) = forG fst ts"
  by (induction ts) auto

lemma steps_settled:
  assumes "\<forall>(m, k, P) \<in> set ts. settled view k P m" and "all_hold ts (view w)"
  shows "\<exists>w'. forG fst ts w = (Ok (), w') \<and> view w' = view w"
  using assms
proof (induction ts arbitrary: w)
  case (Cons t ts)
  obtain m k P where t: "t = (m, k, P)" by (cases t)
  from Cons.prems t obtain w1 where "m w = (Ok (), w1)" and "view w1 = view w"
    by (auto simp: settled_def)
  with Cons.IH[of w1] Cons.prems t show ?case by (auto simp: thenG_apply)
qed simp

text \<open>Over an API server whose reads do not fail, the look-up finds what is there.\<close>

context reliable_client
begin

lemma IsObjectFound_reliable:
  assumes "\<not> refreshable (fst k)"
  obtains w' where "view w' = view w"
    and "view w k = None \<Longrightarrow> IsObjectFound c cast k w = (Ok None, w')"
    and "\<And>x a. view w k = Some x \<Longrightarrow> cast x = Some a \<Longrightarrow> IsObjectFound c cast k w = (Ok (Some a), w')"
proof -
  obtain w' where v: "view w' = view w"
    and g: "getO c k w = ((case view w k of None \<Rightarrow> Err (ApiErr NotFound) | Some x \<Rightarrow> Ok x), w')"
    using getO_reliable[OF assms] by blast
  show thesis
  proof (rule that[OF v])
    show "IsObjectFound c cast k w = (Ok None, w')" if "view w k = None"
      using g that by (simp add: IsObjectFound_def getAs_def handle_def bindG_def)
    show "IsObjectFound c cast k w = (Ok (Some a), w')" if "view w k = Some x" "cast x = Some a" for x a
      using g that by (simp add: IsObjectFound_def getAs_def handle_def bindG_def)
  qed
qed

end

end
