(* ===== verification/Network_Policies.thy ===== *)
theory Network_Policies
  imports Instance_Common
begin

text \<open>
  The network policies of an instance (\<open>argocd-operator/controllers/argocd/networkpolicies.go\<close>, and the
  policy of the commit server in \<open>commitserver.go\<close>). A policy restricts the traffic into the pods it
  selects. Each has a function of its own in the code, made of the same steps: look the policy up,
  delete it if its component is disabled, bring the pod selector, the policy types and the rules up to
  date if it exists, create it with the instance as owner if not. The steps are shared definitions here;
  each function is its desired policy, its condition and its error messages.
\<close>

section \<open>The desired policies\<close>

definition nameSelector :: "string \<Rightarrow> label_selector" where
  "nameSelector name = \<lparr>lsMatchLabels = gmap [(''app.kubernetes.io/name'', name)], lsOther = ''''\<rparr>"

definition fromPods :: "string \<Rightarrow> network_peer" where
  "fromPods name = \<lparr>peerPods = Some (nameSelector name), peerNamespaces = None, peerOther = ''''\<rparr>"

definition fromAnyNamespace :: network_peer where
  "fromAnyNamespace = \<lparr>peerPods = None, peerNamespaces = Some \<lparr>lsMatchLabels = None, lsOther = ''''\<rparr>, peerOther = ''''\<rparr>"

definition tcpPort :: "int \<Rightarrow> network_port" where
  "tcpPort n = \<lparr>portProtocol = Some ''TCP'', portNumber = Some (IntPort n)\<rparr>"

text \<open>A policy for ingress into the pods of a name.\<close>

definition ingressPolicy :: "object_meta \<Rightarrow> string \<Rightarrow> network_rule list \<Rightarrow> network_policy" where
  "ingressPolicy m pods rules = \<lparr>npMeta = m, npPodSelector = nameSelector pods, npPolicyTypes = Some [''Ingress''],
     npIngress = Some rules, npOther = ''''\<rparr>"

definition allow :: "network_peer list \<Rightarrow> int list \<Rightarrow> network_rule" where
  "allow peers ports = \<lparr>ruleFrom = Some peers, rulePorts = Some (map tcpPort ports)\<rparr>"

definition returnNetworkPolicyHeaders :: "env \<Rightarrow> ArgoCD_beta \<Rightarrow> string \<Rightarrow> object_meta" where
  "returnNetworkPolicyHeaders e cr name =
     (mkMeta (nameWithSuffix e name cr) (crNamespace cr))\<lparr>metaLabels := clusterLabels cr\<rparr>"

definition agentPrincipalEnabled :: "ArgoCD_beta \<Rightarrow> bool" where
  "agentPrincipalEnabled cr = (case bSpec_ArgoCDAgent (spec cr) of None \<Rightarrow> False | Some a \<Rightarrow>
     (case bAgentRoot_Principal a of None \<Rightarrow> False | Some p \<Rightarrow> Principal_IsEnabled p))"

definition agentAgentEnabled :: "ArgoCD_beta \<Rightarrow> bool" where
  "agentAgentEnabled cr = (case bSpec_ArgoCDAgent (spec cr) of None \<Rightarrow> False | Some a \<Rightarrow>
     (case bAgentRoot_Agent a of None \<Rightarrow> False | Some g \<Rightarrow> Agent_IsEnabled g))"

definition redisPeers :: "env \<Rightarrow> ArgoCD_beta \<Rightarrow> network_peer list" where
  "redisPeers e cr = [fromPods (applicationControllerResourceName e cr), fromPods (nameWithSuffix e ''repo-server'' cr),
     fromPods (nameWithSuffix e ''server'' cr)]"

definition redisPolicy :: "env \<Rightarrow> ArgoCD_beta \<Rightarrow> network_policy" where
  "redisPolicy e cr = ingressPolicy (mkMeta (nameWithSuffix e ''redis-network-policy'' cr) (crNamespace cr))
     (nameWithSuffix e ''redis'' cr)
     [allow (redisPeers e cr @
        (if agentPrincipalEnabled cr then [fromPods (nameWithSuffix e ''agent-principal'' cr)] else []) @
        (if agentAgentEnabled cr then [fromPods (nameWithSuffix e ''agent-agent'' cr)] else [])) [6379]]"

definition redisHAPolicy :: "env \<Rightarrow> ArgoCD_beta \<Rightarrow> network_policy" where
  "redisHAPolicy e cr = ingressPolicy (mkMeta (nameWithSuffix e ''redis-ha-network-policy'' cr) (crNamespace cr))
     (nameWithSuffix e ''redis-ha-haproxy'' cr) [allow (redisPeers e cr) [6379, 26379]]"

definition notificationsPolicy :: "env \<Rightarrow> ArgoCD_beta \<Rightarrow> network_policy" where
  "notificationsPolicy e cr = ingressPolicy (returnNetworkPolicyHeaders e cr ''notifications-controller-network-policy'')
     (nameWithSuffix e ''notifications-controller'' cr) [allow [fromAnyNamespace] [9001]]"

definition dexPolicy :: "env \<Rightarrow> ArgoCD_beta \<Rightarrow> network_policy" where
  "dexPolicy e cr = ingressPolicy (returnNetworkPolicyHeaders e cr ''dex-server-network-policy'')
     (nameWithSuffix e ''dex-server'' cr)
     [allow [fromPods (nameWithSuffix e ''server'' cr)] [5556, 5557], allow [fromAnyNamespace] [5558]]"

definition applicationSetPolicy :: "env \<Rightarrow> ArgoCD_beta \<Rightarrow> network_policy" where
  "applicationSetPolicy e cr =
     ingressPolicy (returnNetworkPolicyHeaders e cr ''applicationset-controller-network-policy'')
       ''argocd-applicationset-controller'' [allow [fromAnyNamespace] [7000, 8080]]"

definition serverPolicy :: "env \<Rightarrow> ArgoCD_beta \<Rightarrow> network_policy" where
  "serverPolicy e cr = ingressPolicy (returnNetworkPolicyHeaders e cr ''server-network-policy'')
     (nameWithSuffix e ''server'' cr) [\<lparr>ruleFrom = None, rulePorts = None\<rparr>]"

definition controllerPolicy :: "env \<Rightarrow> ArgoCD_beta \<Rightarrow> network_policy" where
  "controllerPolicy e cr = ingressPolicy (returnNetworkPolicyHeaders e cr ''application-controller-network-policy'')
     (applicationControllerResourceName e cr) [allow [fromAnyNamespace] [8082]]"

definition repoServerPolicy :: "env \<Rightarrow> ArgoCD_beta \<Rightarrow> network_policy" where
  "repoServerPolicy e cr = ingressPolicy (returnNetworkPolicyHeaders e cr ''repo-server-network-policy'')
     (nameWithSuffix e ''repo-server'' cr)
     [allow [fromPods (applicationControllerResourceName e cr), fromPods (nameWithSuffix e ''server'' cr),
        fromPods (nameWithSuffix e ''notifications-controller'' cr), fromPods ''argocd-applicationset-controller'',
        fromPods (nameWithSuffix e ''applicationset-controller'' cr)] [8081],
      allow [fromAnyNamespace] [8084]]"

definition commitServerPolicy :: "env \<Rightarrow> ArgoCD_beta \<Rightarrow> network_policy" where
  "commitServerPolicy e cr = ingressPolicy (returnNetworkPolicyHeaders e cr ''commit-server-network-policy'')
     (nameWithSuffix e ''commit-server'' cr)
     [allow [fromPods (nameWithSuffix e ''application-controller'' cr)] [8086], allow [fromAnyNamespace] [8087]]"

definition createImageUpdaterNetworkPolicy :: "env \<Rightarrow> ArgoCD_beta \<Rightarrow> string \<Rightarrow> int list \<Rightarrow> network_policy" where
  "createImageUpdaterNetworkPolicy e cr name ports = ingressPolicy (returnNetworkPolicyHeaders e cr name)
     (nameWithSuffix e ''argocd-image-updater-controller'' cr) [allow [fromAnyNamespace] ports]"

section \<open>Reconciling a policy\<close>

definition policyKey :: "network_policy \<Rightarrow> key" where
  "policyKey p = okey (ONetworkPolicy p)"

text \<open>The fields the code compares, brought to those of the desired policy.\<close>

definition syncNetworkPolicy :: "network_policy \<Rightarrow> network_policy \<Rightarrow> bool \<times> network_policy" where
  "syncNetworkPolicy desired existing =
     syncField npIngress (\<lambda>d x. x\<lparr>npIngress := d\<rparr>) (npIngress desired)
       (syncField npPolicyTypes (\<lambda>d x. x\<lparr>npPolicyTypes := d\<rparr>) (npPolicyTypes desired)
         (syncField npPodSelector (\<lambda>d x. x\<lparr>npPodSelector := d\<rparr>) (npPodSelector desired) (False, existing)))"

definition updateNetworkPolicy :: "'w client \<Rightarrow> (string \<Rightarrow> string) \<Rightarrow> network_policy \<Rightarrow> network_policy \<Rightarrow> ('w, unit) act" where
  "updateNetworkPolicy c updateError desired existing =
     (case syncNetworkPolicy desired existing of (modified, existing') \<Rightarrow>
        if modified
        then mapErr (Wrapped (updateError (metaName (npMeta existing')))) (updateO c (ONetworkPolicy existing'))
        else ret ())"

definition createNetworkPolicy ::
  "env \<Rightarrow> 'w client \<Rightarrow> ArgoCD_beta \<Rightarrow> string \<Rightarrow> string \<Rightarrow> network_policy \<Rightarrow> ('w, unit) act" where
  "createNetworkPolicy e c cr ownerError createError desired =
     bindG (mapErr (Wrapped ownerError) (controlledBy e cr (npMeta desired))) (\<lambda>m.
     mapErr (Wrapped createError) (createO c (ONetworkPolicy (desired\<lparr>npMeta := m\<rparr>))))"

definition reconcileNetworkPolicy ::
  "env \<Rightarrow> 'w client \<Rightarrow> ArgoCD_beta \<Rightarrow> bool \<Rightarrow> string \<Rightarrow> (string \<Rightarrow> string) \<Rightarrow> string \<Rightarrow> network_policy \<Rightarrow>
   ('w, unit) act" where
  "reconcileNetworkPolicy e c cr enabled ownerError updateError createError desired =
     bindG (IsObjectFound c as_network_policy (policyKey desired)) (\<lambda>found.
       if \<not> enabled
       then (case found of Some existing \<Rightarrow> deleteO c (okey (ONetworkPolicy existing)) | None \<Rightarrow> ret ())
       else (case found of
            Some existing \<Rightarrow> updateNetworkPolicy c updateError desired existing
          | None \<Rightarrow> createNetworkPolicy e c cr ownerError createError desired))"

definition updateErrorOf :: "ArgoCD_beta \<Rightarrow> string \<Rightarrow> string" where
  "updateErrorOf cr name = ''failed to update '' @ name @ '' network policy in namespace '' @ crNamespace cr @ ''. error''"

definition createErrorOf :: "ArgoCD_beta \<Rightarrow> string \<Rightarrow> string" where
  "createErrorOf cr name = ''failed to create '' @ name @ '' network policy in namespace '' @ crNamespace cr @ ''. error''"

definition reconcileLabelledPolicy ::
  "env \<Rightarrow> 'w client \<Rightarrow> ArgoCD_beta \<Rightarrow> bool \<Rightarrow> string \<Rightarrow> network_policy \<Rightarrow> ('w, unit) act" where
  "reconcileLabelledPolicy e c cr enabled what desired =
     reconcileNetworkPolicy e c cr enabled
       (''failed to set controller reference on '' @ what @ ''. error'') (updateErrorOf cr)
       (createErrorOf cr (metaName (npMeta desired))) desired"

definition ReconcileDexServerNetworkPolicy :: "env \<Rightarrow> 'w client \<Rightarrow> ArgoCD_beta \<Rightarrow> ('w, unit) act" where
  "ReconcileDexServerNetworkPolicy e c cr =
     reconcileLabelledPolicy e c cr (UseDex cr) ''dex server network policy'' (dexPolicy e cr)"

definition ReconcileApplicationSetControllerNetworkPolicy :: "env \<Rightarrow> 'w client \<Rightarrow> ArgoCD_beta \<Rightarrow> ('w, unit) act" where
  "ReconcileApplicationSetControllerNetworkPolicy e c cr =
     reconcileLabelledPolicy e c cr
       (case bSpec_ApplicationSet (spec cr) of None \<Rightarrow> False | Some a \<Rightarrow> ApplicationSet_IsEnabled a)
       ''applicationset controller network policy'' (applicationSetPolicy e cr)"

definition ReconcileRedisNetworkPolicy :: "env \<Rightarrow> 'w client \<Rightarrow> ArgoCD_beta \<Rightarrow> ('w, unit) act" where
  "ReconcileRedisNetworkPolicy e c cr =
     reconcileNetworkPolicy e c cr True ''failed to set controller reference on redis network policy. error''
       (\<lambda>_. ''failed to update redis network policy. error'') ''failed to create redis network policy. error''
       (redisPolicy e cr)"

definition ReconcileRedisHANetworkPolicy :: "env \<Rightarrow> 'w client \<Rightarrow> ArgoCD_beta \<Rightarrow> ('w, unit) act" where
  "ReconcileRedisHANetworkPolicy e c cr =
     reconcileNetworkPolicy e c cr True ''failed to set controller reference on redis ha network policy. error''
       (\<lambda>_. ''failed to update redis ha network policy. error'') ''failed to create redis ha network policy. error''
       (redisHAPolicy e cr)"

definition ReconcileNotificationsControllerNetworkPolicy :: "env \<Rightarrow> 'w client \<Rightarrow> ArgoCD_beta \<Rightarrow> ('w, unit) act" where
  "ReconcileNotificationsControllerNetworkPolicy e c cr =
     reconcileLabelledPolicy e c cr (isNotificationsEnabled cr) ''notifications controller network policy''
       (notificationsPolicy e cr)"

definition ReconcileArgoCDServerNetworkPolicy :: "env \<Rightarrow> 'w client \<Rightarrow> ArgoCD_beta \<Rightarrow> ('w, unit) act" where
  "ReconcileArgoCDServerNetworkPolicy e c cr =
     reconcileLabelledPolicy e c cr True ''argocd server network policy'' (serverPolicy e cr)"

definition ReconcileArgoCDApplicationControllerNetworkPolicy :: "env \<Rightarrow> 'w client \<Rightarrow> ArgoCD_beta \<Rightarrow> ('w, unit) act" where
  "ReconcileArgoCDApplicationControllerNetworkPolicy e c cr =
     reconcileLabelledPolicy e c cr True ''argocd application controller network policy'' (controllerPolicy e cr)"

definition ReconcileArgoCDRepoServerNetworkPolicy :: "env \<Rightarrow> 'w client \<Rightarrow> ArgoCD_beta \<Rightarrow> ('w, unit) act" where
  "ReconcileArgoCDRepoServerNetworkPolicy e c cr =
     reconcileLabelledPolicy e c cr True ''argocd repo server network policy'' (repoServerPolicy e cr)"

definition reconcileImageUpdaterNetworkPolicy :: "env \<Rightarrow> 'w client \<Rightarrow> string \<Rightarrow> ArgoCD_beta \<Rightarrow> ('w, unit) act" where
  "reconcileImageUpdaterNetworkPolicy e c name cr =
     reconcileLabelledPolicy e c cr True ''network policy'' (createImageUpdaterNetworkPolicy e cr name [8443, 8082])"

text \<open>The commit server's function sets the owner before it looks the policy up.\<close>

definition reconcileArgoCDCommitServerNetworkPolicy :: "env \<Rightarrow> 'w client \<Rightarrow> ArgoCD_beta \<Rightarrow> ('w, unit) act" where
  "reconcileArgoCDCommitServerNetworkPolicy e c cr =
     (let desired0 = commitServerPolicy e cr
      in bindG (mapErr (Wrapped ''failed to set controller reference on argocd commit server network policy. error'')
                  (controlledBy e cr (npMeta desired0))) (\<lambda>m.
         let desired = desired0\<lparr>npMeta := m\<rparr>
         in bindG (IsObjectFound c as_network_policy (policyKey desired)) (\<lambda>found.
              case found of
                Some existing \<Rightarrow>
                  if \<not> UseCommitServer cr then deleteO c (okey (ONetworkPolicy existing))
                  else updateNetworkPolicy c (updateErrorOf cr) desired existing
              | None \<Rightarrow>
                  if UseCommitServer cr
                  then mapErr (Wrapped (createErrorOf cr (metaName (npMeta desired)))) (createO c (ONetworkPolicy desired))
                  else ret ())))"

definition networkPolicyNames :: "string list" where
  "networkPolicyNames = [''redis-network-policy'', ''redis-ha-network-policy'', ''notifications-controller-network-policy'',
     ''dex-server-network-policy'', ''applicationset-controller-network-policy'', ''server-network-policy'',
     ''application-controller-network-policy'', ''repo-server-network-policy'', ''image-updater-network-policy'',
     ''commit-server-network-policy'']"

definition networkPolicyKey :: "env \<Rightarrow> ArgoCD_beta \<Rightarrow> string \<Rightarrow> key" where
  "networkPolicyKey e cr name = (KNetworkPolicy, crNamespace cr, nameWithSuffix e name cr)"

definition deleteArgoCDNetworkPolicies :: "env \<Rightarrow> 'w client \<Rightarrow> ArgoCD_beta \<Rightarrow> ('w, unit) act" where
  "deleteArgoCDNetworkPolicies e c cr =
     forG (\<lambda>name. bindG (IsObjectFound c as_network_policy (networkPolicyKey e cr name)) (\<lambda>found.
       case found of None \<Rightarrow> ret () | Some existing \<Rightarrow> deleteO c (okey (ONetworkPolicy existing)))) networkPolicyNames"

definition ReconcileNetworkPolicies :: "env \<Rightarrow> argo_flags \<Rightarrow> 'w client \<Rightarrow> ArgoCD_beta \<Rightarrow> ('w, unit) act" where
  "ReconcileNetworkPolicies e f c cr =
     thenG (if imageUpdaterFound f \<and> ImageUpdater_Enabled (bSpec_ImageUpdater (spec cr)) \<and>
               NetworkPolicy_IsEnabled (bSpec_NetworkPolicy (spec cr))
            then reconcileImageUpdaterNetworkPolicy e c ''image-updater-network-policy'' cr else ret ())
     (if \<not> NetworkPolicy_IsEnabled (bSpec_NetworkPolicy (spec cr)) then deleteArgoCDNetworkPolicies e c cr
      else
        thenG (ReconcileRedisNetworkPolicy e c cr)
        (thenG (ReconcileRedisHANetworkPolicy e c cr)
        (thenG (ReconcileNotificationsControllerNetworkPolicy e c cr)
        (thenG (ReconcileDexServerNetworkPolicy e c cr)
        (thenG (ReconcileApplicationSetControllerNetworkPolicy e c cr)
        (thenG (ReconcileArgoCDServerNetworkPolicy e c cr)
        (thenG (ReconcileArgoCDApplicationControllerNetworkPolicy e c cr)
        (thenG (ReconcileArgoCDRepoServerNetworkPolicy e c cr)
          (reconcileArgoCDCommitServerNetworkPolicy e c cr)))))))))"

end
