(* ===== verification/Network_Policies_Correct.thy ===== *)
theory Network_Policies_Correct
  imports Network_Policies
begin

text \<open>
  What the reconciliation of the network policies achieves: the policies of the enabled components are
  in place and those of the disabled ones gone, a second pass finds nothing to do, and what traffic the
  policies admit.
\<close>

section \<open>A policy in place\<close>

definition samePolicy :: "network_policy \<Rightarrow> network_policy \<Rightarrow> bool" where
  "samePolicy d p \<longleftrightarrow> npPodSelector p = npPodSelector d \<and> npPolicyTypes p = npPolicyTypes d \<and> npIngress p = npIngress d"

definition policyInPlace :: "network_policy \<Rightarrow> obj option \<Rightarrow> bool" where
  "policyInPlace d v \<longleftrightarrow> (\<exists>p. v = Some (ONetworkPolicy p) \<and> samePolicy d p)"

definition policyAsWanted :: "bool \<Rightarrow> network_policy \<Rightarrow> obj option \<Rightarrow> bool" where
  "policyAsWanted enabled d v \<longleftrightarrow> (if enabled then policyInPlace d v else gone v)"

lemma syncNetworkPolicy_spec:
  assumes "syncNetworkPolicy d p = (modified, p')"
  shows "samePolicy d p'" and "npMeta p' = npMeta p" and "\<not> modified \<longleftrightarrow> samePolicy d p" and "\<not> modified \<Longrightarrow> p' = p"
  using assms by (auto simp: syncNetworkPolicy_def syncField_def samePolicy_def split: if_splits)

lemma as_network_policy_Some [simp]: "as_network_policy x = Some p \<longleftrightarrow> x = ONetworkPolicy p"
  by (cases x) auto

lemma fst_policyKey [simp]: "fst (policyKey d) = KNetworkPolicy"
  by (simp add: policyKey_def okey_def)

lemma policyKey_owned:
  "SetControllerReference e o' (npMeta d) = Inr m \<Longrightarrow> policyKey (d\<lparr>npMeta := m\<rparr>) = policyKey d"
  by (simp add: SetControllerReference_Inr policyKey_def okey_def)

lemma not_refreshable_policy [simp]: "\<not> refreshable KNetworkPolicy"
  by (simp add: refreshable_def)

context verbatim_client
begin

lemma updateNetworkPolicy_Ok:
  assumes "updateNetworkPolicy c ue d p w = (Ok u, w')" and "view w (policyKey d) = Some (ONetworkPolicy p)"
  shows "policyInPlace d (view w' (policyKey d))"
proof -
  obtain modified p' where s: "syncNetworkPolicy d p = (modified, p')" by force
  have k: "okey (ONetworkPolicy p') = policyKey d"
    using view_key[OF assms(2)] syncNetworkPolicy_spec(2)[OF s] by (simp add: okey_def)
  show ?thesis
  proof (cases modified)
    case True
    with assms(1) s have "updateO c (ONetworkPolicy p') w = (Ok u, w')"
      by (simp add: updateNetworkPolicy_def mapErr_Ok_iff)
    from updateO_Ok(1)[OF this] show ?thesis
      using syncNetworkPolicy_spec(1)[OF s] k by (auto simp: policyInPlace_def admit_id)
  next
    case False
    with assms s show ?thesis
      using syncNetworkPolicy_spec(3)[OF s] by (auto simp: updateNetworkPolicy_def policyInPlace_def)
  qed
qed

lemma createNetworkPolicy_Ok:
  assumes "createNetworkPolicy e c cr oe ce d w = (Ok u, w')"
  shows "policyInPlace d (view w' (policyKey d))"
  using assms by (auto simp: createNetworkPolicy_def ok_iff controlledBy_Ok_iff policyInPlace_def samePolicy_def
      admit_id policyKey_owned policyKey_def[symmetric] dest!: createO_Ok(1))

lemma updateNetworkPolicy_fp:
  "policyKey p = policyKey d \<Longrightarrow> act_rel (same_outside view {policyKey d}) (updateNetworkPolicy c ue d p)"
proof -
  assume p: "policyKey p = policyKey d"
  have "okey (ONetworkPolicy p') \<in> {policyKey d}" if "syncNetworkPolicy d p = (b, p')" for b p'
    using syncNetworkPolicy_spec(2)[OF that] p by (simp add: policyKey_def okey_def)
  then show ?thesis
    unfolding updateNetworkPolicy_def by (auto intro!: fp.rel_if fp.rel_mapErr updateO_fp fp.rel_ret split: prod.split)
qed

lemma createNetworkPolicy_fp:
  "act_rel (same_outside view {policyKey d}) (createNetworkPolicy e c cr oe ce d)"
proof -
  have "okey (ONetworkPolicy (d\<lparr>npMeta := m\<rparr>)) \<in> {policyKey d}"
    if "SetControllerReference e (bArgoCD_Meta cr) (npMeta d) = Inr m" for m
    using policyKey_owned[OF that] by (simp add: policyKey_def)
  then show ?thesis
    unfolding createNetworkPolicy_def
    by (intro fp.rel_bindG fp.rel_mapErr fp.rel_controlledBy createO_fp) (auto simp: ok_iff controlledBy_Ok_iff)
qed

lemma found_policyKey:
  "IsObjectFound c as_network_policy k w = (Ok (Some p), w1) \<Longrightarrow> policyKey p = k"
  by (auto dest: IsObjectFound_key simp: policyKey_def)

lemma reconcileNetworkPolicy_fp:
  "act_rel (same_outside view {policyKey d}) (reconcileNetworkPolicy e c cr enabled oe ue ce d)"
  unfolding reconcileNetworkPolicy_def
proof (intro fp.rel_bindG IsObjectFound_fp)
  fix r w w1
  assume "IsObjectFound c as_network_policy (policyKey d) w = (Ok r, w1)"
  then have r: "policyKey p = policyKey d" if "r = Some p" for p using that by (simp add: found_policyKey)
  show "act_rel (same_outside view {policyKey d}) (if \<not> enabled
      then case r of None \<Rightarrow> ret () | Some existing \<Rightarrow> deleteO c (okey (ONetworkPolicy existing))
      else case r of None \<Rightarrow> createNetworkPolicy e c cr oe ce d | Some existing \<Rightarrow> updateNetworkPolicy c ue d existing)"
    by (cases r) (auto intro!: fp.rel_if fp.rel_ret deleteO_fp createNetworkPolicy_fp updateNetworkPolicy_fp
        simp: r policyKey_def[symmetric])
qed simp

lemma reconcileNetworkPolicy_ensures:
  "ensures view {} (policyKey d) (policyAsWanted enabled d) (reconcileNetworkPolicy e c cr enabled oe ue ce d)"
  unfolding ensures_def
proof (intro conjI allI impI)
  show "act_rel (same_outside view {policyKey d}) (reconcileNetworkPolicy e c cr enabled oe ue ce d)"
    by (rule reconcileNetworkPolicy_fp)
next
  fix w w'
  assume "reconcileNetworkPolicy e c cr enabled oe ue ce d w = (Ok (), w')"
  then obtain r w1 where f: "IsObjectFound c as_network_policy (policyKey d) w = (Ok r, w1)"
    and k: "(if \<not> enabled then case r of None \<Rightarrow> ret () | Some p \<Rightarrow> deleteO c (okey (ONetworkPolicy p))
       else case r of None \<Rightarrow> createNetworkPolicy e c cr oe ce d | Some p \<Rightarrow> updateNetworkPolicy c ue d p) w1 = (Ok (), w')"
    by (auto simp: reconcileNetworkPolicy_def bindG_Ok_iff)
  show "policyAsWanted enabled d (view w' (policyKey d))"
  proof (cases r)
    case None
    with k IsObjectFound_Ok(1,2)[OF f] show ?thesis
      by (cases enabled) (auto simp: policyAsWanted_def dest: createNetworkPolicy_Ok)
  next
    case (Some p)
    from IsObjectFound_Ok(1)[OF f] IsObjectFound_Ok(3)[OF f _ Some]
    have v: "view w1 (policyKey d) = Some (ONetworkPolicy p)" by simp
    show ?thesis
    proof (cases enabled)
      case True
      with k Some v show ?thesis by (auto simp: policyAsWanted_def dest: updateNetworkPolicy_Ok)
    next
      case False
      with k Some have "deleteO c (okey (ONetworkPolicy p)) w1 = (Ok (), w')" by simp
      with view_key[OF v] False show ?thesis by (auto simp: policyAsWanted_def elim!: deleteO_Ok)
    qed
  qed
qed

lemma commitServer_owned:
  assumes "SetControllerReference e (bArgoCD_Meta cr) (npMeta (commitServerPolicy e cr)) = Inr m"
  shows "policyKey (commitServerPolicy e cr\<lparr>npMeta := m\<rparr>) = policyKey (commitServerPolicy e cr)"
    and "policyInPlace (commitServerPolicy e cr\<lparr>npMeta := m\<rparr>) = policyInPlace (commitServerPolicy e cr)"
  using policyKey_owned[OF assms] by (auto simp: policyInPlace_def samePolicy_def fun_eq_iff)

lemma reconcileArgoCDCommitServerNetworkPolicy_fp:
  "act_rel (same_outside view {policyKey (commitServerPolicy e cr)}) (reconcileArgoCDCommitServerNetworkPolicy e c cr)"
  unfolding reconcileArgoCDCommitServerNetworkPolicy_def Let_def
proof (intro fp.rel_bindG fp.rel_mapErr fp.rel_controlledBy IsObjectFound_fp)
  let ?S = "same_outside view {policyKey (commitServerPolicy e cr)}"
  fix m w w1 r w2 w3
  assume "mapErr (Wrapped ''failed to set controller reference on argocd commit server network policy. error'')
      (controlledBy e cr (npMeta (commitServerPolicy e cr))) w = (Ok m, w1)"
  then have m: "SetControllerReference e (bArgoCD_Meta cr) (npMeta (commitServerPolicy e cr)) = Inr m"
    by (simp add: mapErr_Ok_iff controlledBy_Ok_iff)
  let ?d = "commitServerPolicy e cr\<lparr>npMeta := m\<rparr>"
  note k = commitServer_owned(1)[OF m]
  assume "IsObjectFound c as_network_policy (policyKey ?d) w2 = (Ok r, w3)"
  then have r: "policyKey p = policyKey (commitServerPolicy e cr)" if "r = Some p" for p
    using that k by (simp add: found_policyKey)
  have u: "policyKey p = policyKey ?d \<Longrightarrow> act_rel ?S (updateNetworkPolicy c ue ?d p)" for p ue
    using updateNetworkPolicy_fp[of p ?d ue] k by simp
  show "act_rel ?S (case r of
        None \<Rightarrow> if UseCommitServer cr then mapErr (Wrapped (createErrorOf cr (metaName (npMeta ?d)))) (createO c (ONetworkPolicy ?d)) else ret ()
      | Some existing \<Rightarrow> if \<not> UseCommitServer cr then deleteO c (okey (ONetworkPolicy existing))
          else updateNetworkPolicy c (updateErrorOf cr) ?d existing)"
    using k by (cases r) (auto intro!: fp.rel_if fp.rel_ret fp.rel_mapErr deleteO_fp createO_fp u
        simp: r policyKey_def[symmetric])
qed (auto simp: mapErr_Ok_iff controlledBy_Ok_iff)

lemma reconcileArgoCDCommitServerNetworkPolicy_Ok:
  assumes "reconcileArgoCDCommitServerNetworkPolicy e c cr w = (Ok (), w')"
  shows "policyAsWanted (UseCommitServer cr) (commitServerPolicy e cr) (view w' (policyKey (commitServerPolicy e cr)))"
proof -
  let ?d0 = "commitServerPolicy e cr"
  from assms obtain m r w2 where m: "SetControllerReference e (bArgoCD_Meta cr) (npMeta ?d0) = Inr m"
    and f: "IsObjectFound c as_network_policy (policyKey (?d0\<lparr>npMeta := m\<rparr>)) w = (Ok r, w2)"
    and k: "(case r of
        None \<Rightarrow> if UseCommitServer cr
          then mapErr (Wrapped (createErrorOf cr (metaName (npMeta (?d0\<lparr>npMeta := m\<rparr>))))) (createO c (ONetworkPolicy (?d0\<lparr>npMeta := m\<rparr>))) else ret ()
      | Some existing \<Rightarrow> if \<not> UseCommitServer cr then deleteO c (okey (ONetworkPolicy existing))
          else updateNetworkPolicy c (updateErrorOf cr) (?d0\<lparr>npMeta := m\<rparr>) existing) w2 = (Ok (), w')"
    unfolding reconcileArgoCDCommitServerNetworkPolicy_def Let_def
    by (auto simp: bindG_Ok_iff mapErr_Ok_iff controlledBy_Ok_iff)
  let ?d = "?d0\<lparr>npMeta := m\<rparr>"
  note own = commitServer_owned[OF m]
  show ?thesis
  proof (cases r)
    case None
    with k IsObjectFound_Ok(1,2)[OF f] own show ?thesis
      by (auto simp: policyAsWanted_def policyInPlace_def samePolicy_def mapErr_Ok_iff admit_id policyKey_def
          fst_policyKey[unfolded policyKey_def] split: if_splits dest!: createO_Ok(1))
  next
    case (Some p)
    from IsObjectFound_Ok(1)[OF f] IsObjectFound_Ok(3)[OF f _ Some]
    have v: "view w2 (policyKey ?d) = Some (ONetworkPolicy p)" by simp
    show ?thesis
    proof (cases "UseCommitServer cr")
      case True
      with k Some have "updateNetworkPolicy c (updateErrorOf cr) ?d p w2 = (Ok (), w')" by simp
      from updateNetworkPolicy_Ok[OF this v] own True show ?thesis by (simp add: policyAsWanted_def)
    next
      case False
      with k Some have "deleteO c (okey (ONetworkPolicy p)) w2 = (Ok (), w')" by simp
      with view_key[OF v] False own show ?thesis
        by (auto simp: policyAsWanted_def elim!: deleteO_Ok)
    qed
  qed
qed

lemma reconcileArgoCDCommitServerNetworkPolicy_ensures:
  "ensures view {} (policyKey (commitServerPolicy e cr)) (policyAsWanted (UseCommitServer cr) (commitServerPolicy e cr))
     (reconcileArgoCDCommitServerNetworkPolicy e c cr)"
  unfolding ensures_def
  using reconcileArgoCDCommitServerNetworkPolicy_fp reconcileArgoCDCommitServerNetworkPolicy_Ok by blast

end

section \<open>All policies of an instance\<close>

text \<open>The policies of an instance in the order the code reconciles them, each with the condition it
  depends on.\<close>

definition instancePolicies :: "env \<Rightarrow> ArgoCD_beta \<Rightarrow> (bool \<times> network_policy) list" where
  "instancePolicies e cr =
     [(True, redisPolicy e cr), (True, redisHAPolicy e cr), (isNotificationsEnabled cr, notificationsPolicy e cr),
      (UseDex cr, dexPolicy e cr),
      (case bSpec_ApplicationSet (spec cr) of None \<Rightarrow> False | Some a \<Rightarrow> ApplicationSet_IsEnabled a, applicationSetPolicy e cr),
      (True, serverPolicy e cr), (True, controllerPolicy e cr), (True, repoServerPolicy e cr),
      (UseCommitServer cr, commitServerPolicy e cr)]"

definition imageUpdaterPolicy :: "env \<Rightarrow> ArgoCD_beta \<Rightarrow> network_policy" where
  "imageUpdaterPolicy e cr = createImageUpdaterNetworkPolicy e cr ''image-updater-network-policy'' [8443, 8082]"

definition networkPolicyKeys :: "env \<Rightarrow> ArgoCD_beta \<Rightarrow> key set" where
  "networkPolicyKeys e cr = networkPolicyKey e cr ` set networkPolicyNames"

text \<open>The names of the policies, which a long instance name has truncated and hashed, do not clash.\<close>

definition distinctPolicyNames :: "env \<Rightarrow> ArgoCD_beta \<Rightarrow> bool" where
  "distinctPolicyNames e cr \<longleftrightarrow> distinct (map (networkPolicyKey e cr) networkPolicyNames)"

definition policySteps :: "env \<Rightarrow> 'w client \<Rightarrow> ArgoCD_beta \<Rightarrow> 'w step list" where
  "policySteps e c cr = zip
     [ReconcileRedisNetworkPolicy e c cr, ReconcileRedisHANetworkPolicy e c cr,
      ReconcileNotificationsControllerNetworkPolicy e c cr, ReconcileDexServerNetworkPolicy e c cr,
      ReconcileApplicationSetControllerNetworkPolicy e c cr, ReconcileArgoCDServerNetworkPolicy e c cr,
      ReconcileArgoCDApplicationControllerNetworkPolicy e c cr, ReconcileArgoCDRepoServerNetworkPolicy e c cr,
      reconcileArgoCDCommitServerNetworkPolicy e c cr]
     (map (\<lambda>(b, d). (policyKey d, policyAsWanted b d)) (instancePolicies e cr))"

lemmas desired_policies = redisPolicy_def redisHAPolicy_def notificationsPolicy_def dexPolicy_def
  applicationSetPolicy_def serverPolicy_def controllerPolicy_def repoServerPolicy_def commitServerPolicy_def
  createImageUpdaterNetworkPolicy_def imageUpdaterPolicy_def ingressPolicy_def returnNetworkPolicyHeaders_def

lemma policyKeys:
  "policyKey (redisPolicy e cr) = networkPolicyKey e cr ''redis-network-policy''"
  "policyKey (redisHAPolicy e cr) = networkPolicyKey e cr ''redis-ha-network-policy''"
  "policyKey (notificationsPolicy e cr) = networkPolicyKey e cr ''notifications-controller-network-policy''"
  "policyKey (dexPolicy e cr) = networkPolicyKey e cr ''dex-server-network-policy''"
  "policyKey (applicationSetPolicy e cr) = networkPolicyKey e cr ''applicationset-controller-network-policy''"
  "policyKey (serverPolicy e cr) = networkPolicyKey e cr ''server-network-policy''"
  "policyKey (controllerPolicy e cr) = networkPolicyKey e cr ''application-controller-network-policy''"
  "policyKey (repoServerPolicy e cr) = networkPolicyKey e cr ''repo-server-network-policy''"
  "policyKey (commitServerPolicy e cr) = networkPolicyKey e cr ''commit-server-network-policy''"
  "policyKey (imageUpdaterPolicy e cr) = networkPolicyKey e cr ''image-updater-network-policy''"
  by (simp_all add: policyKey_def okey_def networkPolicyKey_def desired_policies)

lemma step_keys_policies:
  "step_keys (policySteps e c cr) = map (networkPolicyKey e cr)
     [''redis-network-policy'', ''redis-ha-network-policy'', ''notifications-controller-network-policy'',
      ''dex-server-network-policy'', ''applicationset-controller-network-policy'', ''server-network-policy'',
      ''application-controller-network-policy'', ''repo-server-network-policy'', ''commit-server-network-policy'']"
  by (simp add: policySteps_def instancePolicies_def policyKeys)

lemma step_keys_policies_distinct:
  assumes "distinctPolicyNames e cr"
  shows "distinct (step_keys (policySteps e c cr))"
    and "networkPolicyKey e cr ''image-updater-network-policy'' \<notin> set (step_keys (policySteps e c cr))"
  using assms by (auto simp: step_keys_policies distinctPolicyNames_def networkPolicyNames_def)

lemma step_keys_policies_subset: "set (step_keys (policySteps e c cr)) \<subseteq> networkPolicyKeys e cr"
  by (simp add: step_keys_policies networkPolicyKeys_def networkPolicyNames_def)

lemma all_hold_policies:
  "all_hold (policySteps e c cr) v \<longleftrightarrow> (\<forall>(enabled, d) \<in> set (instancePolicies e cr). policyAsWanted enabled d (v (policyKey d)))"
  by (simp add: policySteps_def instancePolicies_def conj_assoc)

lemma ReconcileNetworkPolicies_steps:
  "ReconcileNetworkPolicies e f c cr =
     (if NetworkPolicy_IsEnabled (bSpec_NetworkPolicy (spec cr))
      then thenG (if imageUpdaterFound f \<and> ImageUpdater_Enabled (bSpec_ImageUpdater (spec cr))
            then reconcileImageUpdaterNetworkPolicy e c ''image-updater-network-policy'' cr else ret ())
          (forG fst (policySteps e c cr))
      else deleteArgoCDNetworkPolicies e c cr)"
  by (simp add: ReconcileNetworkPolicies_def policySteps_def instancePolicies_def)

context verbatim_client
begin

lemmas labelled_ensures = reconcileNetworkPolicy_ensures[of _ _ _ _ _ "updateErrorOf cr" for cr, folded reconcileLabelledPolicy_def]

lemma policySteps_ensure: "all_ensure view {} (policySteps e c cr)"
  by (simp add: policySteps_def instancePolicies_def reconcileArgoCDCommitServerNetworkPolicy_ensures
      ReconcileRedisNetworkPolicy_def ReconcileRedisHANetworkPolicy_def ReconcileNotificationsControllerNetworkPolicy_def
      ReconcileDexServerNetworkPolicy_def ReconcileApplicationSetControllerNetworkPolicy_def
      ReconcileArgoCDServerNetworkPolicy_def ReconcileArgoCDApplicationControllerNetworkPolicy_def
      ReconcileArgoCDRepoServerNetworkPolicy_def reconcileLabelledPolicy_def reconcileNetworkPolicy_ensures)

lemma imageUpdater_ensures:
  "ensures view {} (policyKey (imageUpdaterPolicy e cr)) (policyInPlace (imageUpdaterPolicy e cr))
     (reconcileImageUpdaterNetworkPolicy e c ''image-updater-network-policy'' cr)"
  using reconcileNetworkPolicy_ensures[of "imageUpdaterPolicy e cr" True]
  by (simp add: reconcileImageUpdaterNetworkPolicy_def reconcileLabelledPolicy_def imageUpdaterPolicy_def
      policyAsWanted_def[abs_def])

lemma deletePolicy_ensures:
  "ensures view {} (networkPolicyKey e cr name) gone
     (bindG (IsObjectFound c as_network_policy (networkPolicyKey e cr name)) (\<lambda>found.
       case found of None \<Rightarrow> ret () | Some existing \<Rightarrow> deleteO c (okey (ONetworkPolicy existing))))"
  (is "ensures view {} ?k gone ?m")
  unfolding ensures_def
proof (intro conjI allI impI)
  have nr: "\<not> refreshable (fst ?k)" by (simp add: networkPolicyKey_def)
  show "act_rel (same_outside view {?k}) ?m"
    using nr by (intro fp.rel_bindG IsObjectFound_fp)
      (auto intro!: fp.rel_ret deleteO_fp split: option.split dest: found_policyKey simp: policyKey_def)
  fix w w' assume "?m w = (Ok (), w')"
  then obtain r w1 where f: "IsObjectFound c as_network_policy ?k w = (Ok r, w1)"
    and d: "(case r of None \<Rightarrow> ret () | Some existing \<Rightarrow> deleteO c (okey (ONetworkPolicy existing))) w1 = (Ok (), w')"
    by (auto simp: bindG_Ok_iff)
  show "gone (view w' ?k)"
    using d IsObjectFound_Ok(1,2)[OF f nr] found_policyKey[of ?k w _ w1] f
    by (cases r) (auto simp: policyKey_def elim!: deleteO_Ok)
qed

lemma deleteArgoCDNetworkPolicies_steps:
  "deleteArgoCDNetworkPolicies e c cr = forG fst (map (\<lambda>name. (bindG (IsObjectFound c as_network_policy (networkPolicyKey e cr name)) (\<lambda>found.
       case found of None \<Rightarrow> ret () | Some existing \<Rightarrow> deleteO c (okey (ONetworkPolicy existing))), networkPolicyKey e cr name, gone)) networkPolicyNames)"
  by (simp add: deleteArgoCDNetworkPolicies_def networkPolicyNames_def)

lemma networkPolicies_fp:
  "act_rel (same_outside view (networkPolicyKeys e cr)) (ReconcileNetworkPolicies e f c cr)"
proof -
  have "networkPolicyKey e cr ''image-updater-network-policy'' \<in> networkPolicyKeys e cr"
    by (simp add: networkPolicyKeys_def networkPolicyNames_def)
  then have "act_rel (same_outside view (networkPolicyKeys e cr))
      (reconcileImageUpdaterNetworkPolicy e c ''image-updater-network-policy'' cr)"
    by (intro ensures_fp[OF imageUpdater_ensures]) (simp add: policyKeys)
  moreover have "act_rel (same_outside view (networkPolicyKeys e cr)) (forG fst (policySteps e c cr))"
    using step_keys_policies_subset by (intro steps_fp[OF policySteps_ensure]) auto
  moreover have "act_rel (same_outside view (networkPolicyKeys e cr)) (deleteArgoCDNetworkPolicies e c cr)"
    unfolding deleteArgoCDNetworkPolicies_def
    by (intro fp.rel_forG ensures_fp[OF deletePolicy_ensures]) (simp add: networkPolicyKeys_def)
  ultimately show ?thesis
    unfolding ReconcileNetworkPolicies_steps by (auto intro!: fp.rel_if fp.rel_thenG fp.rel_ret)
qed

lemma networkPolicies_enabled:
  assumes "distinctPolicyNames e cr" and "ReconcileNetworkPolicies e f c cr w = (Ok (), w')"
    and "NetworkPolicy_IsEnabled (bSpec_NetworkPolicy (spec cr))"
  shows "all_hold (policySteps e c cr) (view w')"
    and "imageUpdaterFound f \<Longrightarrow> ImageUpdater_Enabled (bSpec_ImageUpdater (spec cr)) \<Longrightarrow>
      policyInPlace (imageUpdaterPolicy e cr) (view w' (policyKey (imageUpdaterPolicy e cr)))"
    and "\<not> (imageUpdaterFound f \<and> ImageUpdater_Enabled (bSpec_ImageUpdater (spec cr))) \<Longrightarrow>
      view w' (policyKey (imageUpdaterPolicy e cr)) = view w (policyKey (imageUpdaterPolicy e cr))"
proof -
  from assms(2,3) obtain w1 where i: "(if imageUpdaterFound f \<and> ImageUpdater_Enabled (bSpec_ImageUpdater (spec cr))
        then reconcileImageUpdaterNetworkPolicy e c ''image-updater-network-policy'' cr else ret ()) w = (Ok (), w1)"
    and r: "forG fst (policySteps e c cr) w1 = (Ok (), w')"
    by (auto simp: ReconcileNetworkPolicies_steps thenG_Ok_iff)
  show "all_hold (policySteps e c cr) (view w')"
    by (rule steps_establish[OF policySteps_ensure step_keys_policies_distinct(1)[OF assms(1)] _ r]) simp
  have "act_rel (same_outside view (set (step_keys (policySteps e c cr)))) (forG fst (policySteps e c cr))"
    by (rule steps_fp[OF policySteps_ensure]) simp
  from act_relD[OF this r] have "same_outside view (set (step_keys (policySteps e c cr))) w1 w'" .
  then have same: "view w' (policyKey (imageUpdaterPolicy e cr)) = view w1 (policyKey (imageUpdaterPolicy e cr))"
    using step_keys_policies_distinct(2)[OF assms(1)] unfolding policyKeys by (intro same_outsideD)
  show "policyInPlace (imageUpdaterPolicy e cr) (view w' (policyKey (imageUpdaterPolicy e cr)))"
    if "imageUpdaterFound f" "ImageUpdater_Enabled (bSpec_ImageUpdater (spec cr))"
  proof -
    from i that have "policyInPlace (imageUpdaterPolicy e cr) (view w1 (policyKey (imageUpdaterPolicy e cr)))"
      by (auto dest: ensuresD[OF imageUpdater_ensures])
    with same show ?thesis by simp
  qed
  show "view w' (policyKey (imageUpdaterPolicy e cr)) = view w (policyKey (imageUpdaterPolicy e cr))"
    if "\<not> (imageUpdaterFound f \<and> ImageUpdater_Enabled (bSpec_ImageUpdater (spec cr)))"
    using i same that by (simp split: if_splits)
qed

lemma networkPolicies_disabled:
  assumes "distinctPolicyNames e cr" and "ReconcileNetworkPolicies e f c cr w = (Ok (), w')"
    and "\<not> NetworkPolicy_IsEnabled (bSpec_NetworkPolicy (spec cr))" and "k \<in> networkPolicyKeys e cr"
  shows "gone (view w' k)"
proof -
  let ?del = "\<lambda>name. bindG (IsObjectFound c as_network_policy (networkPolicyKey e cr name)) (\<lambda>found.
       case found of None \<Rightarrow> ret () | Some existing \<Rightarrow> deleteO c (okey (ONetworkPolicy existing)))"
  let ?ts = "map (\<lambda>name. (?del name, networkPolicyKey e cr name, gone)) networkPolicyNames"
  from assms(2,3) have r: "forG fst ?ts w = (Ok (), w')"
    by (simp add: ReconcileNetworkPolicies_steps deleteArgoCDNetworkPolicies_steps)
  have "all_hold ?ts (view w')"
  proof (rule steps_establish[OF _ _ _ r])
    show "all_ensure view {} ?ts" using deletePolicy_ensures by (auto simp: all_ensure_def)
    have "step_keys ?ts = map (networkPolicyKey e cr) networkPolicyNames" by (simp add: step_keys_def)
    with assms(1) show "distinct (step_keys ?ts)" by (simp add: distinctPolicyNames_def)
  qed simp
  with assms(4) show ?thesis by (auto simp: all_hold_def networkPolicyKeys_def)
qed

end

section \<open>A second pass\<close>

definition notTerminating :: "obj option \<Rightarrow> bool" where
  "notTerminating v \<longleftrightarrow> (case v of None \<Rightarrow> True | Some x \<Rightarrow> \<not> metaDeleting (obj_meta x))"

lemma samePolicy_sync: "samePolicy d p \<Longrightarrow> syncNetworkPolicy d p = (False, p)"
  by (simp add: syncNetworkPolicy_def syncField_def samePolicy_def)

context reliable_client
begin

lemma reconcileNetworkPolicy_settled:
  "settled view (policyKey d) (\<lambda>v. policyAsWanted enabled d v \<and> notTerminating v)
     (reconcileNetworkPolicy e c cr enabled oe ue ce d)"
  unfolding settled_def
proof (intro allI impI)
  fix w
  assume P: "policyAsWanted enabled d (view w (policyKey d)) \<and> notTerminating (view w (policyKey d))"
  obtain w' where v: "view w' = view w"
    and n: "view w (policyKey d) = None \<Longrightarrow> IsObjectFound c as_network_policy (policyKey d) w = (Ok None, w')"
    and s: "\<And>x a. view w (policyKey d) = Some x \<Longrightarrow> as_network_policy x = Some a \<Longrightarrow>
      IsObjectFound c as_network_policy (policyKey d) w = (Ok (Some a), w')"
    using IsObjectFound_reliable[of "policyKey d" w as_network_policy] by auto
  show "\<exists>w'. reconcileNetworkPolicy e c cr enabled oe ue ce d w = (Ok (), w') \<and> view w' = view w"
  proof (cases enabled)
    case True
    with P obtain p where p: "view w (policyKey d) = Some (ONetworkPolicy p)" "samePolicy d p"
      by (auto simp: policyAsWanted_def policyInPlace_def)
    from s[OF p(1)] have "IsObjectFound c as_network_policy (policyKey d) w = (Ok (Some p), w')" by simp
    with True p(2) v show ?thesis
      by (auto simp: reconcileNetworkPolicy_def updateNetworkPolicy_def samePolicy_sync bindG_apply)
  next
    case False
    with P have "view w (policyKey d) = None"
      by (auto simp: policyAsWanted_def gone_def notTerminating_def split: option.splits)
    from n[OF this] False v show ?thesis by (auto simp: reconcileNetworkPolicy_def bindG_apply)
  qed
qed

lemma reconcileArgoCDCommitServerNetworkPolicy_settled:
  assumes "SetControllerReference e (bArgoCD_Meta cr) (npMeta (commitServerPolicy e cr)) = Inr m"
  shows "settled view (policyKey (commitServerPolicy e cr))
     (\<lambda>v. policyAsWanted (UseCommitServer cr) (commitServerPolicy e cr) v \<and> notTerminating v)
     (reconcileArgoCDCommitServerNetworkPolicy e c cr)"
  unfolding settled_def
proof (intro allI impI)
  let ?d = "commitServerPolicy e cr" and ?d' = "commitServerPolicy e cr\<lparr>npMeta := m\<rparr>"
  note own = commitServer_owned[OF assms]
  fix w
  assume P: "policyAsWanted (UseCommitServer cr) ?d (view w (policyKey ?d)) \<and> notTerminating (view w (policyKey ?d))"
  obtain w' where v: "view w' = view w"
    and n: "view w (policyKey ?d') = None \<Longrightarrow> IsObjectFound c as_network_policy (policyKey ?d') w = (Ok None, w')"
    and s: "\<And>x a. view w (policyKey ?d') = Some x \<Longrightarrow> as_network_policy x = Some a \<Longrightarrow>
      IsObjectFound c as_network_policy (policyKey ?d') w = (Ok (Some a), w')"
    using IsObjectFound_reliable[of "policyKey ?d'" w as_network_policy] by auto
  have c: "mapErr g (controlledBy e cr (npMeta ?d)) w = (Ok m, w)" for g
    using assms by (simp add: mapErr_Ok_iff controlledBy_Ok_iff)
  show "\<exists>w'. reconcileArgoCDCommitServerNetworkPolicy e c cr w = (Ok (), w') \<and> view w' = view w"
  proof (cases "UseCommitServer cr")
    case True
    with P obtain p where p: "view w (policyKey ?d) = Some (ONetworkPolicy p)" "samePolicy ?d p"
      by (auto simp: policyAsWanted_def policyInPlace_def)
    from s p(1) own(1) have "IsObjectFound c as_network_policy (policyKey ?d') w = (Ok (Some p), w')" by simp
    moreover from p(2) have "syncNetworkPolicy ?d' p = (False, p)" by (intro samePolicy_sync) (simp add: samePolicy_def)
    ultimately show ?thesis using True v
      by (auto simp: reconcileArgoCDCommitServerNetworkPolicy_def Let_def c bindG_apply updateNetworkPolicy_def)
  next
    case False
    with P own(1) have "view w (policyKey ?d') = None"
      by (auto simp: policyAsWanted_def gone_def notTerminating_def split: option.splits)
    from n[OF this] False v show ?thesis
      by (auto simp: reconcileArgoCDCommitServerNetworkPolicy_def Let_def c bindG_apply)
  qed
qed

lemma policySteps_settled:
  assumes "SetControllerReference e (bArgoCD_Meta cr) (npMeta (commitServerPolicy e cr)) = Inr m"
  shows "\<forall>(m, k, P) \<in> set (map (\<lambda>(m, k, P). (m, k, \<lambda>v. P v \<and> notTerminating v)) (policySteps e c cr)). settled view k P m"
  by (simp add: policySteps_def instancePolicies_def reconcileArgoCDCommitServerNetworkPolicy_settled[OF assms]
      ReconcileRedisNetworkPolicy_def ReconcileRedisHANetworkPolicy_def ReconcileNotificationsControllerNetworkPolicy_def
      ReconcileDexServerNetworkPolicy_def ReconcileApplicationSetControllerNetworkPolicy_def
      ReconcileArgoCDServerNetworkPolicy_def ReconcileArgoCDApplicationControllerNetworkPolicy_def
      ReconcileArgoCDRepoServerNetworkPolicy_def reconcileLabelledPolicy_def reconcileNetworkPolicy_settled)

lemma imageUpdater_settled:
  "settled view (policyKey (imageUpdaterPolicy e cr)) (\<lambda>v. policyInPlace (imageUpdaterPolicy e cr) v \<and> notTerminating v)
     (reconcileImageUpdaterNetworkPolicy e c ''image-updater-network-policy'' cr)"
  using reconcileNetworkPolicy_settled[of "imageUpdaterPolicy e cr" True]
  by (simp add: reconcileImageUpdaterNetworkPolicy_def reconcileLabelledPolicy_def imageUpdaterPolicy_def
      policyAsWanted_def)

lemma networkPolicies_settled:
  assumes "NetworkPolicy_IsEnabled (bSpec_NetworkPolicy (spec cr))"
    and "SetControllerReference e (bArgoCD_Meta cr) (npMeta (commitServerPolicy e cr)) = Inr m"
    and "all_hold (policySteps e c cr) (view w)"
    and "imageUpdaterFound f \<Longrightarrow> ImageUpdater_Enabled (bSpec_ImageUpdater (spec cr)) \<Longrightarrow>
      policyInPlace (imageUpdaterPolicy e cr) (view w (policyKey (imageUpdaterPolicy e cr)))"
    and "\<forall>k \<in> networkPolicyKeys e cr. notTerminating (view w k)"
  shows "\<exists>w'. ReconcileNetworkPolicies e f c cr w = (Ok (), w') \<and> view w' = view w"
proof -
  have nt: "notTerminating (view w (networkPolicyKey e cr name))" if "name \<in> set networkPolicyNames" for name
    using assms(5) that by (simp add: networkPolicyKeys_def)
  obtain w1 where v: "view w1 = view w"
    and i: "(if imageUpdaterFound f \<and> ImageUpdater_Enabled (bSpec_ImageUpdater (spec cr))
        then reconcileImageUpdaterNetworkPolicy e c ''image-updater-network-policy'' cr else ret ()) w = (Ok (), w1)"
    using settledD[OF imageUpdater_settled[of e cr], of w] assms(4) nt[of "''image-updater-network-policy''"]
    by (cases "imageUpdaterFound f \<and> ImageUpdater_Enabled (bSpec_ImageUpdater (spec cr))")
      (auto simp: networkPolicyNames_def policyKeys)
  let ?ts = "map (\<lambda>(m, k, P). (m, k, \<lambda>v. P v \<and> notTerminating v)) (policySteps e c cr)"
  have "\<exists>w'. forG fst ?ts w1 = (Ok (), w') \<and> view w' = view w1"
  proof (rule steps_settled)
    show "\<forall>(m, k, P) \<in> set ?ts. settled view k P m" by (rule policySteps_settled[OF assms(2)])
    from step_keys_policies_subset[of e c cr] assms(5) have "\<forall>k \<in> set (step_keys (policySteps e c cr)). notTerminating (view w k)"
      by blast
    with assms(3) show "all_hold ?ts (view w1)" by (auto simp: all_hold_def step_keys_def v)
  qed
  moreover have "forG fst ?ts = forG fst (policySteps e c cr)"
    by (rule forG_fst_map)
  ultimately show ?thesis using assms(1) i v
    by (auto simp: ReconcileNetworkPolicies_steps thenG_apply)
qed

end

lemma commitServer_controlled:
  assumes "ReconcileNetworkPolicies e f c cr w = (Ok (), w')" and "NetworkPolicy_IsEnabled (bSpec_NetworkPolicy (spec cr))"
  shows "\<exists>m. SetControllerReference e (bArgoCD_Meta cr) (npMeta (commitServerPolicy e cr)) = Inr m"
  using assms unfolding ReconcileNetworkPolicies_def reconcileArgoCDCommitServerNetworkPolicy_def Let_def
  by (auto simp: thenG_Ok_iff bindG_Ok_iff mapErr_Ok_iff controlledBy_Ok_iff)

section \<open>The traffic the policies admit\<close>

text \<open>Kubernetes isolates a pod for incoming traffic as soon as a policy of its namespace selects it that has
  Ingress among its types. What some rule of such a policy allows is let in then, and nothing else: a peer of
  the rule matches the source (a pod selector alone means pods of the policy's own namespace), or it has no
  peers, and a port of the rule is the destination port, or it has no ports. A pod that is not isolated is
  open to all traffic.\<close>

record traffic_source =
  srcSameNamespace :: bool
  srcNamespaceLabels :: gomap
  srcPodLabels :: gomap

record pod =
  podNamespace :: string
  podLabels :: gomap

definition selects :: "label_selector \<Rightarrow> gomap \<Rightarrow> bool" where
  "selects s labels = (case lsMatchLabels s of None \<Rightarrow> True
     | Some f \<Rightarrow> \<forall>k \<in> fset (fmdom f). gget labels k = fmlookup f k)"

definition peerAdmits :: "network_peer \<Rightarrow> traffic_source \<Rightarrow> bool" where
  "peerAdmits p src = (case (peerPods p, peerNamespaces p) of
      (None, None) \<Rightarrow> False
    | (Some pods, None) \<Rightarrow> srcSameNamespace src \<and> selects pods (srcPodLabels src)
    | (None, Some nss) \<Rightarrow> selects nss (srcNamespaceLabels src)
    | (Some pods, Some nss) \<Rightarrow> selects pods (srcPodLabels src) \<and> selects nss (srcNamespaceLabels src))"

definition isolates :: "network_policy \<Rightarrow> pod \<Rightarrow> bool" where
  "isolates p dst \<longleftrightarrow> ''Ingress'' \<in> set (elems (npPolicyTypes p)) \<and> podNamespace dst = metaNamespace (npMeta p) \<and>
     selects (npPodSelector p) (podLabels dst)"

definition allowsFrom :: "network_policy \<Rightarrow> traffic_source \<Rightarrow> int \<Rightarrow> bool" where
  "allowsFrom p src port = (\<exists>rule \<in> set (elems (npIngress p)).
     (elems (ruleFrom rule) = [] \<or> (\<exists>peer \<in> set (elems (ruleFrom rule)). peerAdmits peer src)) \<and>
     (elems (rulePorts rule) = [] \<or> (\<exists>q \<in> set (elems (rulePorts rule)). q = tcpPort port)))"

definition admits :: "network_policy list \<Rightarrow> pod \<Rightarrow> traffic_source \<Rightarrow> int \<Rightarrow> bool" where
  "admits ps dst src port = (let qs = filter (\<lambda>p. isolates p dst) ps in qs = [] \<or> (\<exists>p \<in> set qs. allowsFrom p src port))"

text \<open>The policies an instance has when network policies are enabled (see C29).\<close>

definition enabledPolicies :: "env \<Rightarrow> ArgoCD_beta \<Rightarrow> network_policy list" where
  "enabledPolicies e cr = map snd (filter fst (instancePolicies e cr))"

text \<open>A pod in the namespace of the instance, with the name label of a component: as source, and as destination.\<close>

definition podNamed :: "string \<Rightarrow> traffic_source" where
  "podNamed name = \<lparr>srcSameNamespace = True, srcNamespaceLabels = None,
     srcPodLabels = gmap [(''app.kubernetes.io/name'', name)]\<rparr>"

definition fromPodNamed :: "traffic_source \<Rightarrow> string \<Rightarrow> bool" where
  "fromPodNamed src name \<longleftrightarrow> srcSameNamespace src \<and> gget (srcPodLabels src) ''app.kubernetes.io/name'' = Some name"

definition runsAs :: "ArgoCD_beta \<Rightarrow> pod \<Rightarrow> string \<Rightarrow> bool" where
  "runsAs cr dst name \<longleftrightarrow> podNamespace dst = crNamespace cr \<and> gget (podLabels dst) ''app.kubernetes.io/name'' = Some name"

lemma peer_simps [simp]:
  "peerAdmits (fromPods name) src \<longleftrightarrow> fromPodNamed src name"
  "peerAdmits fromAnyNamespace src"
  by (auto simp: peerAdmits_def fromPods_def nameSelector_def selects_def fromPodNamed_def fromAnyNamespace_def
      gmap_def)

lemma fromPodNamed_podNamed [simp]: "fromPodNamed (podNamed a) b \<longleftrightarrow> a = b"
  by (simp add: fromPodNamed_def podNamed_def gget_def gmap_def)

lemma tcpPort_eq [simp]: "tcpPort a = tcpPort b \<longleftrightarrow> a = b"
  by (simp add: tcpPort_def)

lemma allowsFrom_ingressPolicy:
  "allowsFrom (ingressPolicy m pods rules) src port \<longleftrightarrow> (\<exists>rule\<in>set rules.
     (elems (ruleFrom rule) = [] \<or> (\<exists>peer \<in> set (elems (ruleFrom rule)). peerAdmits peer src)) \<and>
     (elems (rulePorts rule) = [] \<or> tcpPort port \<in> set (elems (rulePorts rule))))"
  by (auto simp: allowsFrom_def ingressPolicy_def elems_def)

lemma isolates_ingressPolicy:
  assumes "runsAs cr dst name" and "metaNamespace m = crNamespace cr"
  shows "isolates (ingressPolicy m pods rules) dst \<longleftrightarrow> pods = name"
  using assms by (auto simp: isolates_def ingressPolicy_def selects_def nameSelector_def elems_def runsAs_def gmap_def)

lemma allow_simps [simp]:
  "elems (ruleFrom (allow peers ports)) = peers" "elems (rulePorts (allow peers ports)) = map tcpPort ports"
  "elems (Some xs) = xs" "elems None = []"
  by (simp_all add: allow_def elems_def)

lemma short_name: "length sfx \<le> 25 \<Longrightarrow> nameWithSuffix e sfx cr = TruncateCRName e (crName cr) @ ''-'' @ sfx"
  using TruncateCRName_length[of e "crName cr"]
  by (simp add: nameWithSuffix_def NameWithSuffix_def Let_def TruncateWithHash_id name_limits)

lemma controllerName:
  "applicationControllerResourceName e cr = TruncateCRName e (crName cr) @
     (if length (TruncateCRName e (crName cr)) \<le> 29 then ''-application-controller'' else ''-app-controller'')"
  using TruncateCRName_length[of e "crName cr"]
  by (simp add: applicationControllerResourceName_def NameWithSuffixForStatefulSet_def Let_def name_limits)

text \<open>No component's pods have the name of another's, whatever the instance is called.\<close>

lemma not_applicationset:
  assumes "sfx \<in> {''-redis'', ''-redis-ha-haproxy'', ''-notifications-controller'', ''-dex-server'', ''-server'',
     ''-application-controller'', ''-app-controller'', ''-repo-server'', ''-commit-server''}"
  shows "''argocd-applicationset-controller'' \<noteq> T @ sfx"
proof
  assume "''argocd-applicationset-controller'' = T @ sfx"
  then have "rev ''argocd-applicationset-controller'' = rev sfx @ rev T" by simp
  with assms show False by auto
qed

definition componentPodNames :: "env \<Rightarrow> ArgoCD_beta \<Rightarrow> string list" where
  "componentPodNames e cr = [nameWithSuffix e ''redis'' cr, nameWithSuffix e ''redis-ha-haproxy'' cr,
     nameWithSuffix e ''notifications-controller'' cr, nameWithSuffix e ''dex-server'' cr, nameWithSuffix e ''server'' cr,
     nameWithSuffix e ''repo-server'' cr, nameWithSuffix e ''commit-server'' cr, applicationControllerResourceName e cr,
     ''argocd-applicationset-controller'']"

lemma componentPodNames_distinct: "distinct (componentPodNames e cr)"
proof -
  obtain T and sfx where T: "T = TruncateCRName e (crName cr)" and s: "sfx \<in> {''-application-controller'', ''-app-controller''}"
    and c: "applicationControllerResourceName e cr = T @ sfx"
    using controllerName[of e cr] by (auto split: if_splits)
  have names: "componentPodNames e cr = map ((@) T) [''-redis'', ''-redis-ha-haproxy'', ''-notifications-controller'', ''-dex-server'',
      ''-server'', ''-repo-server'', ''-commit-server'', sfx] @ [''argocd-applicationset-controller'']"
    by (simp add: componentPodNames_def short_name c T)
  have "distinct (map ((@) T) [''-redis'', ''-redis-ha-haproxy'', ''-notifications-controller'', ''-dex-server'',
      ''-server'', ''-repo-server'', ''-commit-server'', sfx])"
    using s by auto
  moreover have "''argocd-applicationset-controller'' \<notin> set (map ((@) T) [''-redis'', ''-redis-ha-haproxy'', ''-notifications-controller'',
      ''-dex-server'', ''-server'', ''-repo-server'', ''-commit-server'', sfx])"
    using s not_applicationset[of _ T] by auto
  ultimately show ?thesis unfolding names by simp
qed

lemmas policy_defs = redisPolicy_def redisPeers_def redisHAPolicy_def notificationsPolicy_def dexPolicy_def
  applicationSetPolicy_def serverPolicy_def controllerPolicy_def repoServerPolicy_def commitServerPolicy_def

text \<open>A pod named like a component is isolated by the policy of that component and by no other.\<close>

lemma admits_component:
  assumes "runsAs cr dst name"
  shows "name = nameWithSuffix e ''redis'' cr \<Longrightarrow>
      admits (enabledPolicies e cr) dst src port \<longleftrightarrow> allowsFrom (redisPolicy e cr) src port"
    and "name = nameWithSuffix e ''redis-ha-haproxy'' cr \<Longrightarrow>
      admits (enabledPolicies e cr) dst src port \<longleftrightarrow> allowsFrom (redisHAPolicy e cr) src port"
    and "name = nameWithSuffix e ''repo-server'' cr \<Longrightarrow>
      admits (enabledPolicies e cr) dst src port \<longleftrightarrow> allowsFrom (repoServerPolicy e cr) src port"
    and "name = nameWithSuffix e ''server'' cr \<Longrightarrow>
      admits (enabledPolicies e cr) dst src port \<longleftrightarrow> allowsFrom (serverPolicy e cr) src port"
    and "name = applicationControllerResourceName e cr \<Longrightarrow>
      admits (enabledPolicies e cr) dst src port \<longleftrightarrow> allowsFrom (controllerPolicy e cr) src port"
    and "UseDex cr \<Longrightarrow> name = nameWithSuffix e ''dex-server'' cr \<Longrightarrow>
      admits (enabledPolicies e cr) dst src port \<longleftrightarrow> allowsFrom (dexPolicy e cr) src port"
    and "UseCommitServer cr \<Longrightarrow> name = nameWithSuffix e ''commit-server'' cr \<Longrightarrow>
      admits (enabledPolicies e cr) dst src port \<longleftrightarrow> allowsFrom (commitServerPolicy e cr) src port"
proof -
  have iso: "isolates (redisPolicy e cr) dst \<longleftrightarrow> nameWithSuffix e ''redis'' cr = name"
    "isolates (redisHAPolicy e cr) dst \<longleftrightarrow> nameWithSuffix e ''redis-ha-haproxy'' cr = name"
    "isolates (notificationsPolicy e cr) dst \<longleftrightarrow> nameWithSuffix e ''notifications-controller'' cr = name"
    "isolates (dexPolicy e cr) dst \<longleftrightarrow> nameWithSuffix e ''dex-server'' cr = name"
    "isolates (applicationSetPolicy e cr) dst \<longleftrightarrow> ''argocd-applicationset-controller'' = name"
    "isolates (serverPolicy e cr) dst \<longleftrightarrow> nameWithSuffix e ''server'' cr = name"
    "isolates (controllerPolicy e cr) dst \<longleftrightarrow> applicationControllerResourceName e cr = name"
    "isolates (repoServerPolicy e cr) dst \<longleftrightarrow> nameWithSuffix e ''repo-server'' cr = name"
    "isolates (commitServerPolicy e cr) dst \<longleftrightarrow> nameWithSuffix e ''commit-server'' cr = name"
    unfolding policy_defs returnNetworkPolicyHeaders_def by (rule isolates_ingressPolicy[OF assms], simp)+
  have ne: "distinct (componentPodNames e cr)" "distinct (rev (componentPodNames e cr))"
    using componentPodNames_distinct[of e cr] by simp_all
  note rules = admits_def enabledPolicies_def instancePolicies_def iso
  note facts = ne[unfolded componentPodNames_def]
  show "name = nameWithSuffix e ''redis'' cr \<Longrightarrow>
      admits (enabledPolicies e cr) dst src port \<longleftrightarrow> allowsFrom (redisPolicy e cr) src port"
    using facts by (simp add: rules)
  show "name = nameWithSuffix e ''redis-ha-haproxy'' cr \<Longrightarrow>
      admits (enabledPolicies e cr) dst src port \<longleftrightarrow> allowsFrom (redisHAPolicy e cr) src port"
    using facts by (simp add: rules)
  show "name = nameWithSuffix e ''repo-server'' cr \<Longrightarrow>
      admits (enabledPolicies e cr) dst src port \<longleftrightarrow> allowsFrom (repoServerPolicy e cr) src port"
    using facts by (simp add: rules)
  show "name = nameWithSuffix e ''server'' cr \<Longrightarrow>
      admits (enabledPolicies e cr) dst src port \<longleftrightarrow> allowsFrom (serverPolicy e cr) src port"
    using facts by (simp add: rules)
  show "name = applicationControllerResourceName e cr \<Longrightarrow>
      admits (enabledPolicies e cr) dst src port \<longleftrightarrow> allowsFrom (controllerPolicy e cr) src port"
    using facts by (simp add: rules)
  show "UseDex cr \<Longrightarrow> name = nameWithSuffix e ''dex-server'' cr \<Longrightarrow>
      admits (enabledPolicies e cr) dst src port \<longleftrightarrow> allowsFrom (dexPolicy e cr) src port"
    using facts by (simp add: rules)
  show "UseCommitServer cr \<Longrightarrow> name = nameWithSuffix e ''commit-server'' cr \<Longrightarrow>
      admits (enabledPolicies e cr) dst src port \<longleftrightarrow> allowsFrom (commitServerPolicy e cr) src port"
    using facts by (simp add: rules)
qed

section \<open>Properties\<close>

text \<open>C29. The network policies of an instance: let a pass return without an error, and let the names of the
  policies not clash. With network policies enabled, each of the policies of Redis, Redis with high availability,
  the server, the application controller, the repo server, and, if enabled, of the notifications controller, Dex,
  the applicationset controller and the commit server exists with the pod selector, the policy types and the rules
  the operator wants; that of a disabled one among the last four is gone or on its way out. That of the image
  updater exists likewise when the image updater is enabled and its API available; when it is not, its policy is
  left as it is, also if it is there. With network policies disabled all ten are gone or on their way out.
  No other object has changed.\<close>

theorem ReconcileNetworkPolicies_spec:
  assumes "verbatim_client c view admit refresh" and "distinctPolicyNames e cr"
    and "ReconcileNetworkPolicies e f c cr w = (Ok (), w')"
  shows "(if NetworkPolicy_IsEnabled (bSpec_NetworkPolicy (spec cr))
       then (\<forall>(enabled, d) \<in> set (instancePolicies e cr). policyAsWanted enabled d (view w' (policyKey d))) \<and>
         (if imageUpdaterFound f \<and> ImageUpdater_Enabled (bSpec_ImageUpdater (spec cr))
          then policyInPlace (imageUpdaterPolicy e cr) (view w' (policyKey (imageUpdaterPolicy e cr)))
          else view w' (policyKey (imageUpdaterPolicy e cr)) = view w (policyKey (imageUpdaterPolicy e cr)))
       else (\<forall>name \<in> set networkPolicyNames. gone (view w' (networkPolicyKey e cr name)))) \<and>
    same_outside view (networkPolicyKeys e cr) w w'"
  using verbatim_client.networkPolicies_enabled[OF assms] verbatim_client.networkPolicies_disabled[OF assms]
    act_relD[OF verbatim_client.networkPolicies_fp[OF assms(1)] assms(3)]
  by (auto simp: all_hold_policies networkPolicyKeys_def)

definition samplePolicyCR :: ArgoCD_beta where
  "samplePolicyCR = zero_ArgoCD_beta\<lparr>bArgoCD_Meta := mkMeta ''argocd'' ''team'',
     bArgoCD_Spec := zero_ArgoCDSpec_beta\<lparr>
       bSpec_SSO := Some \<lparr>bSSO_Provider = ''Dex'', bSSO_Dex = None, bSSO_Keycloak = None\<rparr>\<rparr>\<rparr>"

definition samplePolicyFlags :: argo_flags where
  "samplePolicyFlags = \<lparr>prometheusFound = False, argoRouteFound = False, imageUpdaterFound = True,
     versionFound = False, trustBundleFound = False\<rparr>"

lemma samplePolicy_distinct: "distinctPolicyNames sampleEnv samplePolicyCR"
  by code_simp

theorem ReconcileNetworkPolicies_spec_witness:
  "let w' = snd (ReconcileNetworkPolicies sampleEnv samplePolicyFlags mem_client samplePolicyCR [])
   in policyInPlace (dexPolicy sampleEnv samplePolicyCR) (mem_view w' (policyKey (dexPolicy sampleEnv samplePolicyCR)))"
proof -
  have "fst (ReconcileNetworkPolicies sampleEnv samplePolicyFlags mem_client samplePolicyCR []) = Ok ()"
    by code_simp
  moreover have "NetworkPolicy_IsEnabled (bSpec_NetworkPolicy (spec samplePolicyCR))" "UseDex samplePolicyCR"
    by code_simp+
  ultimately show ?thesis unfolding Let_def
    using ReconcileNetworkPolicies_spec[OF mem.verbatim_client_axioms samplePolicy_distinct run_result]
    by (auto simp: instancePolicies_def policyAsWanted_def)
qed

text \<open>Settled network policies: over an API server whose reads succeed, a pass that follows a successful
  one succeeds and changes no object, unless a policy is still waiting for finalizers.\<close>

theorem ReconcileNetworkPolicies_settles:
  assumes "reliable_client c view admit refresh" and "distinctPolicyNames e cr"
    and "NetworkPolicy_IsEnabled (bSpec_NetworkPolicy (spec cr))"
    and "ReconcileNetworkPolicies e f c cr w = (Ok (), w')"
    and "\<forall>k \<in> networkPolicyKeys e cr. notTerminating (view w' k)"
  shows "\<exists>w''. ReconcileNetworkPolicies e f c cr w' = (Ok (), w'') \<and> view w'' = view w'"
proof -
  have v: "verbatim_client c view admit refresh" using assms(1) by (simp add: reliable_client_def)
  obtain m where m: "SetControllerReference e (bArgoCD_Meta cr) (npMeta (commitServerPolicy e cr)) = Inr m"
    using commitServer_controlled[OF assms(4,3)] by blast
  show ?thesis
    by (rule reliable_client.networkPolicies_settled[OF assms(1,3) m _ _ assms(5)])
      (use verbatim_client.networkPolicies_enabled[OF v assms(2,4,3)] in blast)+
qed

theorem ReconcileNetworkPolicies_settles_witness:
  "let w' = snd (ReconcileNetworkPolicies sampleEnv samplePolicyFlags mem_client samplePolicyCR [])
   in \<exists>w''. ReconcileNetworkPolicies sampleEnv samplePolicyFlags mem_client samplePolicyCR w' = (Ok (), w'') \<and>
     mem_view w'' = mem_view w'"
proof -
  have r: "fst (ReconcileNetworkPolicies sampleEnv samplePolicyFlags mem_client samplePolicyCR []) = Ok ()"
    by code_simp
  have n: "\<forall>k \<in> networkPolicyKeys sampleEnv samplePolicyCR.
      notTerminating (mem_view (snd (ReconcileNetworkPolicies sampleEnv samplePolicyFlags mem_client samplePolicyCR [])) k)"
    by code_simp
  have e: "NetworkPolicy_IsEnabled (bSpec_NetworkPolicy (spec samplePolicyCR))" by code_simp
  show ?thesis unfolding Let_def
    by (rule ReconcileNetworkPolicies_settles[OF mem.reliable_client_axioms samplePolicy_distinct e run_result[OF r] n])
qed



text \<open>The commit server's policy names the application controller's pods by the plain name, which the
  controller's StatefulSet has only when the (truncated) name of the instance has at most 29 characters:
  for a longer one the policy cuts the controller off from the commit server, while the policies of Redis
  and the repo server, which use the StatefulSet's name, admit it whatever the name.\<close>

theorem commit_server_policy_cut_off:
  "(UseCommitServer cr \<and> runsAs cr dst (nameWithSuffix e ''commit-server'' cr) \<longrightarrow>
     (admits (enabledPolicies e cr) dst (podNamed (applicationControllerResourceName e cr)) 8086 \<longleftrightarrow>
      length (TruncateCRName e (crName cr)) \<le> 29)) \<and>
   (runsAs cr dst (nameWithSuffix e ''redis'' cr) \<longrightarrow>
     admits (enabledPolicies e cr) dst (podNamed (applicationControllerResourceName e cr)) 6379) \<and>
   (runsAs cr dst (nameWithSuffix e ''repo-server'' cr) \<longrightarrow>
     admits (enabledPolicies e cr) dst (podNamed (applicationControllerResourceName e cr)) 8081)"
  by (auto simp: admits_component policy_defs allowsFrom_ingressPolicy short_name controllerName)

end
