(* ===== verification/Instance_Services.thy ===== *)
theory Instance_Services
  imports Network_Policies
begin

text \<open>
  The services and the autoscaler of an instance (\<open>argocd-operator/controllers/argocd/service.go\<close>,
  \<open>hpa.go\<close>, and the services of \<open>dex.go\<close>, \<open>repo_server.go\<close> and \<open>commitserver.go\<close>), with the annotation
  that makes OpenShift issue a TLS certificate for a service.
\<close>

section \<open>Building a service\<close>

definition getArgoServerServiceType :: "ArgoCD_beta \<Rightarrow> string" where
  "getArgoServerServiceType cr =
     (if ServerService_Type (bServer_Service (bSpec_Server (spec cr))) \<noteq> ''''
      then ServerService_Type (bServer_Service (bSpec_Server (spec cr))) else ''ClusterIP'')"

definition newService :: "ArgoCD_beta \<Rightarrow> service" where
  "newService cr = \<lparr>svcMeta = instanceMeta cr, svcPorts = None, svcSelector = None, svcType = '''',
     svcPublishNotReady = False\<rparr>"

definition newServiceWithName :: "string \<Rightarrow> string \<Rightarrow> ArgoCD_beta \<Rightarrow> service" where
  "newServiceWithName name component cr =
     (newService cr)\<lparr>svcMeta := (namedMeta name cr)\<lparr>metaLabels := gput (metaLabels (namedMeta name cr)) ArgoCDKeyComponent component\<rparr>\<rparr>"

definition newServiceWithSuffix :: "env \<Rightarrow> string \<Rightarrow> string \<Rightarrow> ArgoCD_beta \<Rightarrow> service" where
  "newServiceWithSuffix e sfx component cr = newServiceWithName (nameWithSuffix e sfx cr) component cr"

definition svcKey :: "service \<Rightarrow> key" where
  "svcKey s = okey (OService s)"

definition tcpServicePort :: "string \<Rightarrow> int \<Rightarrow> int_or_string \<Rightarrow> service_port" where
  "tcpServicePort name port target = \<lparr>spName = name, spProtocol = ''TCP'', spPort = port, spTargetPort = target,
     spPortOther = ''''\<rparr>"

definition serving :: "gomap \<Rightarrow> service_port list \<Rightarrow> service \<Rightarrow> service" where
  "serving selector ports s = s\<lparr>svcSelector := selector, svcPorts := Some ports\<rparr>"

text \<open>Set the owner and create.\<close>

definition createOwnedService :: "env \<Rightarrow> 'w client \<Rightarrow> ArgoCD_beta \<Rightarrow> service \<Rightarrow> ('w, unit) act" where
  "createOwnedService e c cr s =
     bindG (controlledBy e cr (svcMeta s)) (\<lambda>m. createO c (OService (s\<lparr>svcMeta := m\<rparr>)))"

definition findService :: "'w client \<Rightarrow> service \<Rightarrow> ('w, service option) act" where
  "findService c s = IsObjectFound c as_service (svcKey s)"

section \<open>The TLS annotation\<close>

definition AnnotationOpenShiftServiceCA :: string where
  "AnnotationOpenShiftServiceCA = ''service.beta.openshift.io/serving-cert-secret-name''"

definition AnnotationOpenShiftOriginatingServiceName :: string where
  "AnnotationOpenShiftOriginatingServiceName = ''service.beta.openshift.io/originating-service-name''"

definition ArgoCDServerTLSSecretName :: string where "ArgoCDServerTLSSecretName = ''argocd-server-tls''"
definition ArgoCDRedisServerTLSSecretName :: string where "ArgoCDRedisServerTLSSecretName = ''argocd-operator-redis-tls''"
definition ArgoCDRepoServerTLSSecretName :: string where "ArgoCDRepoServerTLSSecretName = ''argocd-repo-server-tls''"

definition Server_WantsAutoTLS :: "ArgoCDServerSpec_beta \<Rightarrow> bool" where
  "Server_WantsAutoTLS s = (case Route_TLS (bServer_Route s) of None \<Rightarrow> True
     | Some tls \<Rightarrow> rtlsTermination tls = ''reencrypt'')"

definition Repo_WantsAutoTLS :: "ArgoCDRepoSpec_beta \<Rightarrow> bool" where
  "Repo_WantsAutoTLS r = (bRepo_AutoTLS r = ''openshift'')"

definition Redis_WantsAutoTLS :: "ArgoCDRedisSpec_beta \<Rightarrow> bool" where
  "Redis_WantsAutoTLS r = (bRedis_AutoTLS r = ''openshift'')"

definition isCreatedByServiceCA :: "string \<Rightarrow> secret \<Rightarrow> bool" where
  "isCreatedByServiceCA svc sec =
     (gget (metaAnnotations (secMeta sec)) AnnotationOpenShiftOriginatingServiceName = Some svc \<and>
      (\<exists>ref \<in> set (metaOwners (secMeta sec)). ownerKind ref = ''Service'' \<and> ownerName ref = svc))"

definition annotate :: "(gomap \<Rightarrow> gomap) \<Rightarrow> service \<Rightarrow> service" where
  "annotate f s = s\<lparr>svcMeta := (svcMeta s)\<lparr>metaAnnotations := f (metaAnnotations (svcMeta s))\<rparr>\<rparr>"

definition ensureAutoTLSAnnotation ::
  "argo_flags \<Rightarrow> 'w client \<Rightarrow> service \<Rightarrow> string \<Rightarrow> bool \<Rightarrow> ('w, bool \<times> service) act" where
  "ensureAutoTLSAnnotation f c svc0 secretName enabled =
     (if \<not> argoRouteFound f then ret (False, svc0)
      else let svc = annotate gmake svc0;
               val = gget (metaAnnotations (svcMeta svc)) AnnotationOpenShiftServiceCA;
               request = (True, annotate (\<lambda>a. gput a AnnotationOpenShiftServiceCA secretName) svc)
           in if enabled
              then bindG (IsObjectFound c as_secret (KSecret, metaNamespace (svcMeta svc), secretName)) (\<lambda>tlsSecret.
                case (val, tlsSecret) of
                  (None, Some sec) \<Rightarrow> ret (if isCreatedByServiceCA (metaName (svcMeta svc)) sec then request else (False, svc))
                | _ \<Rightarrow> ret (if val \<noteq> Some secretName then request else (False, svc)))
              else ret (if val \<noteq> None then (True, annotate (\<lambda>a. gdelete a AnnotationOpenShiftServiceCA) svc)
                        else (False, svc)))"

section \<open>The services\<close>

definition reconcileGrafanaService :: "env \<Rightarrow> 'w client \<Rightarrow> ArgoCD_beta \<Rightarrow> ('w, unit) act" where
  "reconcileGrafanaService e c cr =
     (let svc = newServiceWithSuffix e ''grafana'' ''grafana'' cr
      in bindG (findService c svc) (\<lambda>found. case found of
           Some s \<Rightarrow> if \<not> Grafana_Enabled (bSpec_Grafana (spec cr)) then deleteO c (svcKey s) else ret ()
         | None \<Rightarrow> ret ()))"

definition metricsService :: "env \<Rightarrow> ArgoCD_beta \<Rightarrow> service" where
  "metricsService e cr = serving (gmap [(ArgoCDKeyName, applicationControllerResourceName e cr)])
     [tcpServicePort ''metrics'' 8082 (IntPort 8082)] (newServiceWithSuffix e ''metrics'' ''metrics'' cr)"

definition reconcileMetricsService :: "env \<Rightarrow> 'w client \<Rightarrow> ArgoCD_beta \<Rightarrow> ('w, unit) act" where
  "reconcileMetricsService e c cr =
     bindG (findService c (newServiceWithSuffix e ''metrics'' ''metrics'' cr)) (\<lambda>found. case found of
         Some _ \<Rightarrow> ret ()
       | None \<Rightarrow> createOwnedService e c cr (metricsService e cr))"

text \<open>Redis runs with high availability.\<close>

definition useRedisHA :: "ArgoCD_beta \<Rightarrow> bool" where
  "useRedisHA cr = (HA_Enabled (bSpec_HA (spec cr)) \<and> Redis_IsEnabled (bSpec_Redis (spec cr)))"

definition redisHAPorts :: "service_port list" where
  "redisHAPorts = [tcpServicePort ''server'' 6379 (NamedPort ''redis''), tcpServicePort ''sentinel'' 26379 (NamedPort ''sentinel'')]"

text \<open>\<open>fmt.Sprintf("%d", i)\<close>.\<close>

definition replicaSuffix :: "nat \<Rightarrow> string" where
  "replicaSuffix i = ''-'' @ [char_of (48 + i)]"

definition newAnnounceService :: "env \<Rightarrow> ArgoCD_beta \<Rightarrow> nat \<Rightarrow> service" where
  "newAnnounceService e cr i = newServiceWithSuffix e (''redis-ha-announce'' @ replicaSuffix i) ''redis'' cr"

definition announceService :: "env \<Rightarrow> ArgoCD_beta \<Rightarrow> nat \<Rightarrow> service" where
  "announceService e cr i =
     serving (gmap [(ArgoCDKeyName, nameWithSuffix e ''redis-ha'' cr),
         (''statefulset.kubernetes.io/pod-name'', redisHAStatefulSetName e cr @ replicaSuffix i)]) redisHAPorts
       (annotate (\<lambda>_. gmap [(''service.alpha.kubernetes.io/tolerate-unready-endpoints'', ''true'')])
         (newAnnounceService e cr i)\<lparr>svcPublishNotReady := True\<rparr>)"

text \<open>The loop over the replicas returns as soon as it has deleted or found a service.\<close>

fun reconcileAnnounceFrom :: "env \<Rightarrow> 'w client \<Rightarrow> ArgoCD_beta \<Rightarrow> nat list \<Rightarrow> ('w, unit) act" where
  "reconcileAnnounceFrom e c cr [] = ret ()"
| "reconcileAnnounceFrom e c cr (i # is) =
     bindG (findService c (newAnnounceService e cr i)) (\<lambda>found. case found of
         Some s \<Rightarrow> if \<not> useRedisHA cr then deleteO c (svcKey s) else ret ()
       | None \<Rightarrow> if \<not> useRedisHA cr then ret ()
           else thenG (createOwnedService e c cr (announceService e cr i)) (reconcileAnnounceFrom e c cr is))"

definition reconcileRedisHAAnnounceServices :: "env \<Rightarrow> 'w client \<Rightarrow> ArgoCD_beta \<Rightarrow> ('w, unit) act" where
  "reconcileRedisHAAnnounceServices e c cr = reconcileAnnounceFrom e c cr [0 ..< 3]"

definition redisHAMasterService :: "env \<Rightarrow> ArgoCD_beta \<Rightarrow> service" where
  "redisHAMasterService e cr = serving (gmap [(ArgoCDKeyName, nameWithSuffix e ''redis-ha'' cr)]) redisHAPorts
     (newServiceWithSuffix e ''redis-ha'' ''redis'' cr)"

definition reconcileRedisHAMasterService :: "env \<Rightarrow> 'w client \<Rightarrow> ArgoCD_beta \<Rightarrow> ('w, unit) act" where
  "reconcileRedisHAMasterService e c cr =
     bindG (findService c (newServiceWithSuffix e ''redis-ha'' ''redis'' cr)) (\<lambda>found. case found of
         Some s \<Rightarrow> if \<not> useRedisHA cr then deleteO c (svcKey s) else ret ()
       | None \<Rightarrow> if \<not> useRedisHA cr then ret () else createOwnedService e c cr (redisHAMasterService e cr))"

definition tlsError :: "go_error \<Rightarrow> go_error" where
  "tlsError = Wrapped ''unable to ensure AutoTLS annotation''"

definition ensureRedisTLS :: "argo_flags \<Rightarrow> 'w client \<Rightarrow> ArgoCD_beta \<Rightarrow> service \<Rightarrow> ('w, bool \<times> service) act" where
  "ensureRedisTLS f c cr s = ensureAutoTLSAnnotation f c s ArgoCDRedisServerTLSSecretName
     (Redis_WantsAutoTLS (bSpec_Redis (spec cr)))"

definition redisHAProxyService :: "env \<Rightarrow> ArgoCD_beta \<Rightarrow> service \<Rightarrow> service" where
  "redisHAProxyService e cr = serving (gmap [(ArgoCDKeyName, nameWithSuffix e ''redis-ha-haproxy'' cr)])
     [tcpServicePort ''haproxy'' 6379 (NamedPort ''redis'')]"

definition reconcileRedisHAProxyService :: "env \<Rightarrow> argo_flags \<Rightarrow> 'w client \<Rightarrow> ArgoCD_beta \<Rightarrow> ('w, unit) act" where
  "reconcileRedisHAProxyService e f c cr =
     (let svc = newServiceWithSuffix e ''redis-ha-haproxy'' ''redis'' cr
      in bindG (findService c svc) (\<lambda>found. case found of
           Some s \<Rightarrow>
             if \<not> useRedisHA cr then deleteO c (svcKey s)
             else bindG (ensureRedisTLS f c cr s) (\<lambda>(updated, s'). if updated then updateO c (OService s') else ret ())
         | None \<Rightarrow>
             if \<not> useRedisHA cr then ret ()
             else bindG (mapErr tlsError (ensureRedisTLS f c cr svc)) (\<lambda>(_, svc').
               createOwnedService e c cr (redisHAProxyService e cr svc'))))"

definition reconcileRedisHAServices :: "env \<Rightarrow> argo_flags \<Rightarrow> 'w client \<Rightarrow> ArgoCD_beta \<Rightarrow> ('w, unit) act" where
  "reconcileRedisHAServices e f c cr =
     thenG (reconcileRedisHAAnnounceServices e c cr)
     (thenG (reconcileRedisHAMasterService e c cr) (reconcileRedisHAProxyService e f c cr))"

definition redisService :: "env \<Rightarrow> ArgoCD_beta \<Rightarrow> service \<Rightarrow> service" where
  "redisService e cr = serving (gmap [(ArgoCDKeyName, nameWithSuffix e ''redis'' cr)])
     [tcpServicePort ''tcp-redis'' 6379 (IntPort 6379)]"

definition reconcileRedisService :: "env \<Rightarrow> argo_flags \<Rightarrow> 'w client \<Rightarrow> ArgoCD_beta \<Rightarrow> ('w, unit) act" where
  "reconcileRedisService e f c cr =
     (let svc = newServiceWithSuffix e ''redis'' ''redis'' cr; redis = bSpec_Redis (spec cr)
      in bindG (findService c svc) (\<lambda>found. case found of
           Some s \<Rightarrow>
             if \<not> Redis_IsEnabled redis then deleteO c (svcKey s)
             else bindG (ensureRedisTLS f c cr s) (\<lambda>(update, s').
               if update then updateO c (OService s')
               else if HA_Enabled (bSpec_HA (spec cr)) then deleteO c (svcKey s')
               else if Redis_IsRemote redis then deleteO c (svcKey s')
               else ret ())
         | None \<Rightarrow>
             if HA_Enabled (bSpec_HA (spec cr)) \<or> \<not> Redis_IsEnabled redis then ret ()
             else bindG (mapErr tlsError (ensureRedisTLS f c cr (svc\<lparr>svcType := ''ClusterIP''\<rparr>))) (\<lambda>(_, svc').
               if Redis_IsEnabled redis \<and> Redis_IsRemote redis then ret ()
               else createOwnedService e c cr (redisService e cr svc'))))"

definition ensureRepoTLS :: "argo_flags \<Rightarrow> 'w client \<Rightarrow> ArgoCD_beta \<Rightarrow> service \<Rightarrow> ('w, bool \<times> service) act" where
  "ensureRepoTLS f c cr s = ensureAutoTLSAnnotation f c s ArgoCDRepoServerTLSSecretName
     (Repo_WantsAutoTLS (bSpec_Repo (spec cr)))"

definition repoService :: "env \<Rightarrow> ArgoCD_beta \<Rightarrow> service \<Rightarrow> service" where
  "repoService e cr = serving (gmap [(ArgoCDKeyName, nameWithSuffix e ''repo-server'' cr)])
     [tcpServicePort ''server'' 8081 (IntPort 8081), tcpServicePort ''metrics'' 8084 (IntPort 8084)]"

definition reconcileRepoService :: "env \<Rightarrow> argo_flags \<Rightarrow> 'w client \<Rightarrow> ArgoCD_beta \<Rightarrow> ('w, unit) act" where
  "reconcileRepoService e f c cr =
     (let svc = newServiceWithSuffix e ''repo-server'' ''repo-server'' cr; repo = bSpec_Repo (spec cr)
      in bindG (findService c svc) (\<lambda>found. case found of
           Some s \<Rightarrow>
             if \<not> Repo_IsEnabled repo then deleteO c (svcKey s)
             else bindG (ensureRepoTLS f c cr s) (\<lambda>(update, s').
               if update then updateO c (OService s')
               else if Repo_IsRemote repo then deleteO c (svcKey s')
               else ret ())
         | None \<Rightarrow>
             if \<not> Repo_IsEnabled repo then ret ()
             else bindG (mapErr tlsError (ensureRepoTLS f c cr (svc\<lparr>svcType := ''ClusterIP''\<rparr>))) (\<lambda>(_, svc').
               if Repo_IsEnabled repo \<and> Repo_IsRemote repo then ret ()
               else createOwnedService e c cr (repoService e cr svc'))))"

definition serverMetricsService :: "env \<Rightarrow> ArgoCD_beta \<Rightarrow> service" where
  "serverMetricsService e cr = serving (gmap [(ArgoCDKeyName, nameWithSuffix e ''server'' cr)])
     [tcpServicePort ''metrics'' 8083 (IntPort 8083)] (newServiceWithSuffix e ''server-metrics'' ''server'' cr)"

definition reconcileServerMetricsService :: "env \<Rightarrow> 'w client \<Rightarrow> ArgoCD_beta \<Rightarrow> ('w, unit) act" where
  "reconcileServerMetricsService e c cr =
     bindG (findService c (newServiceWithSuffix e ''server-metrics'' ''server'' cr)) (\<lambda>found. case found of
         Some _ \<Rightarrow> ret ()
       | None \<Rightarrow> createOwnedService e c cr (serverMetricsService e cr))"

definition ensureServerTLS :: "argo_flags \<Rightarrow> 'w client \<Rightarrow> ArgoCD_beta \<Rightarrow> service \<Rightarrow> ('w, bool \<times> service) act" where
  "ensureServerTLS f c cr s = ensureAutoTLSAnnotation f c s ArgoCDServerTLSSecretName
     (Server_WantsAutoTLS (bSpec_Server (spec cr)))"

definition serverService :: "env \<Rightarrow> ArgoCD_beta \<Rightarrow> service \<Rightarrow> service" where
  "serverService e cr s = (serving (gmap [(ArgoCDKeyName, nameWithSuffix e ''server'' cr)])
     [tcpServicePort ''http'' 80 (IntPort 8080), tcpServicePort ''https'' 443 (IntPort 8080)] s)
       \<lparr>svcType := getArgoServerServiceType cr\<rparr>"

text \<open>The server's service is owned before it is looked up, and its type follows the resource.\<close>

definition reconcileServerService :: "env \<Rightarrow> argo_flags \<Rightarrow> 'w client \<Rightarrow> ArgoCD_beta \<Rightarrow> ('w, unit) act" where
  "reconcileServerService e f c cr =
     bindG (mapErr tlsError (ensureServerTLS f c cr (newServiceWithSuffix e ''server'' ''server'' cr))) (\<lambda>(_, svc0).
     let svc1 = serverService e cr svc0
     in bindG (controlledBy e cr (svcMeta svc1)) (\<lambda>m.
     let svc = svc1\<lparr>svcMeta := m\<rparr>
     in bindG (findService c svc) (\<lambda>found. case found of
          Some s \<Rightarrow>
            if \<not> Server_IsEnabled (bSpec_Server (spec cr)) then deleteO c (svcKey svc)
            else bindG (ensureServerTLS f c cr s) (\<lambda>us.
              case syncField svcType (\<lambda>d x. x\<lparr>svcType := d\<rparr>) (svcType svc) us of
                (changed, s') \<Rightarrow> if changed then updateO c (OService s') else ret ())
        | None \<Rightarrow> if \<not> Server_IsEnabled (bSpec_Server (spec cr)) then ret () else createO c (OService svc))))"

definition dexService :: "env \<Rightarrow> ArgoCD_beta \<Rightarrow> service" where
  "dexService e cr = serving (gmap [(ArgoCDKeyName, nameWithSuffix e ''dex-server'' cr)])
     [tcpServicePort ''http'' 5556 (IntPort 5556), tcpServicePort ''grpc'' 5557 (IntPort 5557)]
     (newServiceWithSuffix e ''dex-server'' ''dex-server'' cr)"

definition reconcileDexService :: "env \<Rightarrow> 'w client \<Rightarrow> ArgoCD_beta \<Rightarrow> ('w, unit) act" where
  "reconcileDexService e c cr =
     bindG (findService c (newServiceWithSuffix e ''dex-server'' ''dex-server'' cr)) (\<lambda>found. case found of
         Some s \<Rightarrow> if \<not> UseDex cr then deleteO c (svcKey s) else ret ()
       | None \<Rightarrow> if \<not> UseDex cr then ret () else createOwnedService e c cr (dexService e cr))"

definition commitServerService :: "env \<Rightarrow> ArgoCD_beta \<Rightarrow> service" where
  "commitServerService e cr = serving (gmap [(ArgoCDKeyName, nameWithSuffix e ''commit-server'' cr)])
     [tcpServicePort ''server'' 8086 (IntPort 8086), tcpServicePort ''metrics'' 8087 (IntPort 8087)]
     (newServiceWithSuffix e ''commit-server'' ''commit-server'' cr)"

definition reconcileCommitServerService :: "env \<Rightarrow> 'w client \<Rightarrow> ArgoCD_beta \<Rightarrow> ('w, unit) act" where
  "reconcileCommitServerService e c cr =
     bindG (controlledBy e cr (svcMeta (commitServerService e cr))) (\<lambda>m.
     let svc = (commitServerService e cr)\<lparr>svcMeta := m\<rparr>
     in bindG (findService c svc) (\<lambda>found. case found of
          Some s \<Rightarrow>
            if \<not> UseCommitServer cr then deleteO c (svcKey svc)
            else (case syncField svcType (\<lambda>d x. x\<lparr>svcType := d\<rparr>) (svcType svc) (False, s) of
                (changed, s') \<Rightarrow> if changed then updateO c (OService s') else ret ())
        | None \<Rightarrow> if UseCommitServer cr then createO c (OService svc) else ret ()))"

definition reconcileServices :: "env \<Rightarrow> argo_flags \<Rightarrow> 'w client \<Rightarrow> ArgoCD_beta \<Rightarrow> ('w, unit) act" where
  "reconcileServices e f c cr =
     thenG (logged (reconcileDexService e c cr))
     (thenG (reconcileGrafanaService e c cr)
     (thenG (reconcileMetricsService e c cr)
     (thenG (reconcileRedisHAServices e f c cr)
     (thenG (reconcileRedisService e f c cr)
     (thenG (reconcileRepoService e f c cr)
     (thenG (reconcileServerMetricsService e c cr)
     (thenG (reconcileServerService e f c cr)
       (reconcileCommitServerService e c cr))))))))"

section \<open>The autoscaler of the server\<close>

definition defaultServerHPA :: "env \<Rightarrow> ArgoCD_beta \<Rightarrow> hpa_spec" where
  "defaultServerHPA e cr = \<lparr>hsMinReplicas = Some 1, hsMaxReplicas = 3, hsTargetCPU = Some 50,
     hsTargetAPIVersion = ''apps/v1'', hsTargetKind = ''Deployment'', hsTargetName = nameWithSuffix e ''server'' cr\<rparr>"

definition newHorizontalPodAutoscalerWithSuffix :: "env \<Rightarrow> string \<Rightarrow> ArgoCD_beta \<Rightarrow> hpa_spec \<Rightarrow> horizontal_pod_autoscaler" where
  "newHorizontalPodAutoscalerWithSuffix e sfx cr s =
     \<lparr>hpaMeta = namedMeta (nameWithSuffix e sfx cr) cr, hpaSpec = s\<rparr>"

text \<open>The comparison of the existing spec is with a pointer to the wanted one, so it never finds them equal.\<close>

definition reconcileServerHPA :: "env \<Rightarrow> 'w client \<Rightarrow> ArgoCD_beta \<Rightarrow> ('w, unit) act" where
  "reconcileServerHPA e c cr =
     (let autoscale = bServer_Autoscale (bSpec_Server (spec cr));
          defaultHPA = newHorizontalPodAutoscalerWithSuffix e ''server'' cr (defaultServerHPA e cr)
      in bindG (IsObjectFound c as_horizontal_pod_autoscaler (okey (OHorizontalPodAutoscaler defaultHPA))) (\<lambda>found.
         case found of
           Some existing \<Rightarrow>
             if \<not> ServerAutoscale_Enabled autoscale then deleteO c (okey (OHorizontalPodAutoscaler existing))
             else (case ServerAutoscale_HPA autoscale of
                 Some s \<Rightarrow> updateO c (OHorizontalPodAutoscaler (existing\<lparr>hpaSpec := s\<rparr>))
               | None \<Rightarrow> ret ())
         | None \<Rightarrow>
             if \<not> ServerAutoscale_Enabled autoscale then ret ()
             else createO c (OHorizontalPodAutoscaler (case ServerAutoscale_HPA autoscale of
                 Some s \<Rightarrow> defaultHPA\<lparr>hpaSpec := s\<rparr>
               | None \<Rightarrow> defaultHPA))))"

definition reconcileAutoscalers :: "env \<Rightarrow> 'w client \<Rightarrow> ArgoCD_beta \<Rightarrow> ('w, unit) act" where
  "reconcileAutoscalers e c cr = reconcileServerHPA e c cr"

end
