(* ===== verification/Object_Triples.thy ===== *)
theory Object_Triples
  imports Instance_Common
begin

text \<open>
  Triples for the reconcilers of one object: started where the object satisfies \<open>Q\<close>, a computation that
  returns without an error leaves it satisfying \<open>P\<close>, and it touches at most the object and a frame of
  others. There is one rule for each operation the reconcilers are made of, so that a reconciler is
  verified by applying the rules along its text.
\<close>

definition triple ::
  "('w \<Rightarrow> key \<Rightarrow> obj option) \<Rightarrow> key set \<Rightarrow> key \<Rightarrow> (obj option \<Rightarrow> bool) \<Rightarrow> (obj option \<Rightarrow> bool) \<Rightarrow> ('w, unit) act \<Rightarrow> bool" where
  "triple view F k Q P m \<longleftrightarrow> act_rel (same_outside view (insert k F)) m \<and>
     (\<forall>w w'. Q (view w k) \<longrightarrow> m w = (Ok (), w') \<longrightarrow> P (view w' k))"

lemma ensures_triple: "ensures view F k P m \<longleftrightarrow> triple view F k (\<lambda>_. True) P m"
  by (simp add: ensures_def triple_def)

lemma tripleD: "triple view F k Q P m \<Longrightarrow> m w = (Ok (), w') \<Longrightarrow> Q (view w k) \<Longrightarrow> P (view w' k)"
  by (simp add: triple_def)

lemma triple_fp: "triple view F k Q P m \<Longrightarrow> insert k F \<subseteq> S \<Longrightarrow> act_rel (same_outside view S) m"
  by (auto simp: triple_def intro: fp_mono)

lemma triple_ret: "(\<And>v. Q v \<Longrightarrow> P v) \<Longrightarrow> triple view F k Q P (ret u)"
  by (simp add: triple_def fp.rel_ret)

lemma triple_fail: "triple view F k Q P (fail err)"
  by (simp add: triple_def fp.rel_fail)

lemma triple_panic: "triple view F k Q P (panic p)"
  by (simp add: triple_def fp.rel_panic)

lemma triple_if:
  "(b \<Longrightarrow> triple view F k Q P m) \<Longrightarrow> (\<not> b \<Longrightarrow> triple view F k Q P n) \<Longrightarrow> triple view F k Q P (if b then m else n)"
  by simp

lemma triple_option:
  "(x = None \<Longrightarrow> triple view F k Q P m) \<Longrightarrow> (\<And>a. x = Some a \<Longrightarrow> triple view F k Q P (n a)) \<Longrightarrow>
   triple view F k Q P (case x of None \<Rightarrow> m | Some a \<Rightarrow> n a)"
  by (cases x) simp_all

lemma triple_prod: "(\<And>a b. x = (a, b) \<Longrightarrow> triple view F k Q P (m a b)) \<Longrightarrow> triple view F k Q P (case x of (a, b) \<Rightarrow> m a b)"
  by (cases x) simp

lemma triple_mapErr: "triple view F k Q P m \<Longrightarrow> triple view F k Q P (mapErr g m)"
  by (auto simp: triple_def mapErr_Ok_iff intro: fp.rel_mapErr)

lemma triple_conseq:
  "triple view F k Q P m \<Longrightarrow> (\<And>v. Q' v \<Longrightarrow> Q v) \<Longrightarrow> (\<And>v. P v \<Longrightarrow> P' v) \<Longrightarrow> triple view F k Q' P' m"
  unfolding triple_def by blast

lemma triple_seq: "triple view F k Q R m \<Longrightarrow> triple view F k R P n \<Longrightarrow> triple view F k Q P (thenG m n)"
  unfolding triple_def by (auto simp: thenG_Ok_iff intro: fp.rel_thenG)

text \<open>A computation that leaves the object alone.\<close>

lemma triple_bind:
  assumes "act_rel (same_outside view G) m" and "G \<subseteq> F" and "k \<notin> G"
    and "\<And>a w w1. m w = (Ok a, w1) \<Longrightarrow> triple view F k Q P (n a)"
  shows "triple view F k Q P (bindG m n)"
  unfolding triple_def
proof (intro conjI allI impI)
  have "act_rel (same_outside view (insert k F)) m" using assms(1,2) by (blast intro: fp_mono)
  then show "act_rel (same_outside view (insert k F)) (bindG m n)"
    using assms(4) by (intro fp.rel_bindG) (auto simp: triple_def)
  fix w w'
  assume Q: "Q (view w k)" and "bindG m n w = (Ok (), w')"
  then obtain a w1 where m: "m w = (Ok a, w1)" and n: "n a w1 = (Ok (), w')" by (auto simp: bindG_Ok_iff)
  from act_relD[OF assms(1) m] have "view w1 k = view w k" using assms(3) by (rule same_outsideD)
  with Q tripleD[OF assms(4)[OF m] n] show "P (view w' k)" by simp
qed

lemma triple_pure:
  assumes "\<And>w a w1. m w = (Ok a, w1) \<Longrightarrow> triple view F k Q P (n a)" and "act_rel (same_outside view {}) m"
  shows "triple view F k Q P (bindG m n)"
  using triple_bind[OF assms(2)] assms(1) by blast

lemma triple_frame:
  assumes "act_rel (same_outside view G) m" and "G \<subseteq> F" and "k \<notin> G"
  shows "triple view F k P P m"
  unfolding triple_def
proof (intro conjI allI impI)
  show "act_rel (same_outside view (insert k F)) m" using assms by (blast intro: fp_mono)
  fix w w' assume P: "P (view w k)" and "m w = (Ok (), w')"
  from act_relD[OF assms(1) this(2)] have "view w' k = view w k" using assms(3) by (rule same_outsideD)
  with P show "P (view w' k)" by simp
qed

lemma triple_liftE:
  "(\<And>a. r = Inr a \<Longrightarrow> triple view F k Q P (n a)) \<Longrightarrow> triple view F k Q P (bindG (liftE r) n)"
  by (rule triple_pure) (auto simp: liftE_Ok_iff intro: fp.rel_liftE)

lemma triple_liftO:
  "(\<And>a. r = Ok a \<Longrightarrow> triple view F k Q P (n a)) \<Longrightarrow> triple view F k Q P (bindG (liftO r) n)"
  by (rule triple_pure) (auto simp: liftO_Ok_iff intro: fp.rel_liftO)

lemma triple_controlledBy:
  assumes "\<And>m'. m' = m\<lparr>metaOwners := metaOwners m'\<rparr> \<Longrightarrow> triple view F k Q P (n m')"
  shows "triple view F k Q P (bindG (controlledBy e cr m) n)"
  unfolding controlledBy_def
proof (rule triple_liftE)
  fix m' assume "SetControllerReference e (bArgoCD_Meta cr) m = Inr m'"
  then show "triple view F k Q P (n m')"
    by (intro assms) (auto simp: SetControllerReference_def split: sum.splits)
qed

context k8s_client
begin

lemma triple_delete: "(\<And>v. gone v \<Longrightarrow> P v) \<Longrightarrow> triple view F k Q P (deleteO c k)"
  by (auto simp: triple_def elim!: deleteO_Ok intro: deleteO_fp)

text \<open>The look-up a reconciler starts with.\<close>

lemma triple_find:
  assumes "\<not> refreshable (fst k)"
    and "triple view F k (\<lambda>v. v = None \<and> Q v) P (n None)"
    and "\<And>a x. cast x = Some a \<Longrightarrow> okey x = k \<Longrightarrow> triple view F k (\<lambda>v. v = Some x \<and> Q v) P (n (Some a))"
  shows "triple view F k Q P (bindG (IsObjectFound c cast k) n)"
  unfolding triple_def
proof (intro conjI allI impI)
  show "act_rel (same_outside view (insert k F)) (bindG (IsObjectFound c cast k) n)"
  proof (intro fp.rel_bindG IsObjectFound_fp)
    fix a w w1
    assume "IsObjectFound c cast k w = (Ok a, w1)"
    with assms(2,3) show "act_rel (same_outside view (insert k F)) (n a)"
      by (cases a) (auto simp: triple_def dest: IsObjectFound_key)
  qed simp
  fix w w'
  assume Q: "Q (view w k)" and "bindG (IsObjectFound c cast k) n w = (Ok (), w')"
  then obtain a w1 where f: "IsObjectFound c cast k w = (Ok a, w1)" and n: "n a w1 = (Ok (), w')"
    by (auto simp: bindG_Ok_iff)
  note found = IsObjectFound_Ok[OF f assms(1)]
  show "P (view w' k)"
  proof (cases a)
    case None
    with n have "n None w1 = (Ok (), w')" by simp
    from tripleD[OF assms(2) this] found(1,2) Q None show ?thesis by simp
  next
    case (Some b)
    from found(3)[OF this] obtain x where x: "view w k = Some x" "cast x = Some b" by blast
    then have "okey x = k" by (auto dest: view_key)
    note t = assms(3)[OF x(2) this]
    from n Some have "n (Some b) w1 = (Ok (), w')" by simp
    from tripleD[OF t this] found(1) x(1) Q show ?thesis by simp
  qed
qed

lemma triple_find_any:
  assumes "\<not> refreshable (fst k)" and "triple view F k (\<lambda>v. v = None) P (n None)"
    and "\<And>a x. cast x = Some a \<Longrightarrow> okey x = k \<Longrightarrow> triple view F k (\<lambda>v. v = Some x) P (n (Some a))"
  shows "triple view F k (\<lambda>_. True) P (bindG (IsObjectFound c cast k) n)"
  by (rule triple_find) (simp_all add: assms)

text \<open>The look-up with a post-condition for each of its outcomes.\<close>

lemma triple_find_split:
  assumes "\<not> refreshable (fst k)" and "triple view F k (\<lambda>v. v = None) P1 (n None)"
    and "\<And>a x. cast x = Some a \<Longrightarrow> okey x = k \<Longrightarrow> triple view F k (\<lambda>v. v = Some x) P2 (n (Some a))"
  shows "triple view F k (\<lambda>v. v = None) P1 (bindG (IsObjectFound c cast k) n)"
    and "triple view F k (\<lambda>v. v \<noteq> None) P2 (bindG (IsObjectFound c cast k) n)"
proof -
  have absurd: "triple view F k (\<lambda>v. False) R m" if "triple view F k Q P m" for Q P R m
    using that by (simp add: triple_def)
  have n: "triple view F k (\<lambda>v. v = None \<and> v \<noteq> None) P2 (n None)"
    by (rule triple_conseq[OF absurd[OF assms(2)]]) auto
  have s: "triple view F k (\<lambda>v. v = Some x \<and> v = None) P1 (n (Some a))" if "cast x = Some a" "okey x = k" for a x
    by (rule triple_conseq[OF absurd[OF assms(3)[OF that]]]) auto
  show "triple view F k (\<lambda>v. v = None) P1 (bindG (IsObjectFound c cast k) n)"
    by (rule triple_find[OF assms(1)]) (use assms(2) s in auto)
  show "triple view F k (\<lambda>v. v \<noteq> None) P2 (bindG (IsObjectFound c cast k) n)"
  proof (rule triple_find[OF assms(1)])
    show "triple view F k (\<lambda>v. v = Some x \<and> v \<noteq> None) P2 (n (Some a))" if "cast x = Some a" "okey x = k" for a x
      by (rule triple_conseq[OF assms(3)[OF that]]) auto
  qed (rule n)
qed

end

context verbatim_client
begin

lemma triple_create: "okey x = k \<Longrightarrow> P (Some x) \<Longrightarrow> triple view F k Q P (createO c x)"
  by (auto simp: triple_def admit_id dest!: createO_Ok(1) intro: createO_fp)

lemma triple_update: "okey x = k \<Longrightarrow> P (Some x) \<Longrightarrow> triple view F k Q P (updateO c x)"
  by (auto simp: triple_def admit_id dest!: updateO_Ok(1) intro: updateO_fp)

lemmas triple_rules = triple_ret triple_fail triple_panic triple_if triple_option triple_prod triple_mapErr
  triple_controlledBy triple_liftE triple_liftO triple_delete triple_create triple_update

end

section \<open>Present, or gone\<close>

definition presentOrGone :: "bool \<Rightarrow> (obj option \<Rightarrow> bool) \<Rightarrow> obj option \<Rightarrow> bool" where
  "presentOrGone wanted P v \<longleftrightarrow> (if wanted then P v else gone v)"

lemma presentOrGone_simps [simp]:
  "presentOrGone True P = P" "presentOrGone False P = gone"
  by (simp_all add: presentOrGone_def fun_eq_iff)

lemma presentOrGoneI: "(wanted \<Longrightarrow> P v) \<Longrightarrow> (\<not> wanted \<Longrightarrow> gone v) \<Longrightarrow> presentOrGone wanted P v"
  by (simp add: presentOrGone_def)

text \<open>Sequences nest to the right.\<close>

lemma thenG_assoc: "thenG (thenG a b) m = thenG a (thenG b m)"
  by (auto simp: thenG_def bindG_def handle_def fun_eq_iff split: prod.split outcome.split)

end
