(* ===== verification/Instance_Services_Correct.thy ===== *)
theory Instance_Services_Correct
  imports Instance_Services Object_Triples Network_Policies_Correct
begin

text \<open>
  What the reconciliation of the services and of the autoscaler achieves, by the triples of
  \<open>Object_Triples\<close>: which services are there after a pass, what the TLS annotation is, and where a pass
  leaves things undone.
\<close>

section \<open>The TLS annotation\<close>

text \<open>The decision about the annotation, given the TLS secret that was found.\<close>

definition tlsDecision :: "string \<Rightarrow> string \<Rightarrow> bool \<Rightarrow> secret option \<Rightarrow> string option \<Rightarrow> string option" where
  "tlsDecision svcName secretName enabled tlsSecret val =
     (if \<not> enabled then None
      else case (val, tlsSecret) of
          (None, Some sec) \<Rightarrow> if isCreatedByServiceCA svcName sec then Some secretName else None
        | _ \<Rightarrow> Some secretName)"

definition tlsAnnotation :: "service \<Rightarrow> string option" where
  "tlsAnnotation s = gget (metaAnnotations (svcMeta s)) AnnotationOpenShiftServiceCA"

text \<open>The value the annotation may have after a pass: that of the secret, or none when a user's secret is
  in its place.\<close>

definition tlsSettled :: "argo_flags \<Rightarrow> string \<Rightarrow> bool \<Rightarrow> service \<Rightarrow> bool" where
  "tlsSettled f secretName wants s \<longleftrightarrow> argoRouteFound f \<longrightarrow>
     (if wants then tlsAnnotation s \<in> {None, Some secretName} else tlsAnnotation s = None)"

lemma annotate_simps [simp]:
  "metaAnnotations (svcMeta (annotate g s)) = g (metaAnnotations (svcMeta s))"
  "metaName (svcMeta (annotate g s)) = metaName (svcMeta s)"
  "metaNamespace (svcMeta (annotate g s)) = metaNamespace (svcMeta s)"
  "metaLabels (svcMeta (annotate g s)) = metaLabels (svcMeta s)"
  "svcPorts (annotate g s) = svcPorts s" "svcSelector (annotate g s) = svcSelector s"
  "svcType (annotate g s) = svcType s" "svcPublishNotReady (annotate g s) = svcPublishNotReady s"
  "svcKey (annotate g s) = svcKey s"
  by (simp_all add: annotate_def svcKey_def okey_def)

lemma as_service_iff [simp]: "as_service x = Some s \<longleftrightarrow> x = OService s"
  by (cases x) auto

text \<open>Two services that differ in the TLS annotation at most.\<close>

definition sameButTLS :: "service \<Rightarrow> service \<Rightarrow> bool" where
  "sameButTLS s s' \<longleftrightarrow> s' = annotate (\<lambda>_. metaAnnotations (svcMeta s')) s \<and>
     (\<forall>k. k \<noteq> AnnotationOpenShiftServiceCA \<longrightarrow>
        gget (metaAnnotations (svcMeta s')) k = gget (metaAnnotations (svcMeta s)) k)"

lemma sameButTLS_annotate:
  assumes "\<And>k. k \<noteq> AnnotationOpenShiftServiceCA \<Longrightarrow> gget (g (metaAnnotations (svcMeta s))) k = gget (metaAnnotations (svcMeta s)) k"
  shows "sameButTLS s (annotate g s)"
  using assms by (simp add: sameButTLS_def) (simp add: annotate_def)

lemma annotate_annotate: "annotate g (annotate h s) = annotate (g \<circ> h) s"
  by (simp add: annotate_def)

lemma sameButTLS_refl [simp]: "sameButTLS s s"
  by (simp add: sameButTLS_def annotate_def)

lemma sameButTLS_D:
  assumes "sameButTLS s s'"
  shows "svcKey s' = svcKey s" and "svcType s' = svcType s" and "svcPorts s' = svcPorts s" and "svcSelector s' = svcSelector s"
  using assms annotate_simps[of _ s] unfolding sameButTLS_def by metis+

lemma ensureAutoTLSAnnotation_Ok:
  assumes "ensureAutoTLSAnnotation f c s secretName enabled w = (Ok (updated, s'), w')"
  obtains (noRoutes) "\<not> argoRouteFound f" "\<not> updated" "s' = s" "w' = w"
  | (found) tlsSecret where "argoRouteFound f"
      "enabled \<Longrightarrow> IsObjectFound c as_secret (KSecret, metaNamespace (svcMeta s), secretName) w = (Ok tlsSecret, w')"
      "\<not> enabled \<Longrightarrow> w' = w"
      "tlsAnnotation s' = tlsDecision (metaName (svcMeta s)) secretName enabled tlsSecret (tlsAnnotation s)"
      "updated \<longleftrightarrow> tlsAnnotation s' \<noteq> tlsAnnotation s" "sameButTLS s s'"
proof (cases "argoRouteFound f")
  case False
  with assms noRoutes show thesis by (simp add: ensureAutoTLSAnnotation_def)
next
  case True
  show thesis
  proof (cases enabled)
    case False
    with assms True show thesis
      by (intro found[of None])
        (auto simp: ensureAutoTLSAnnotation_def Let_def tlsAnnotation_def tlsDecision_def annotate_annotate
          intro!: sameButTLS_annotate split: if_splits)
  next
    case enabled: True
    let ?svc = "annotate gmake s"
    let ?val = "gget (metaAnnotations (svcMeta ?svc)) AnnotationOpenShiftServiceCA"
    let ?request = "(True, annotate (\<lambda>a. gput a AnnotationOpenShiftServiceCA secretName) ?svc)"
    from assms True obtain tlsSecret w1 where
      i: "IsObjectFound c as_secret (KSecret, metaNamespace (svcMeta ?svc), secretName) w = (Ok tlsSecret, w1)"
      and d: "(case (?val, tlsSecret) of
           (None, Some sec) \<Rightarrow> ret (if isCreatedByServiceCA (metaName (svcMeta ?svc)) sec then ?request else (False, ?svc))
         | _ \<Rightarrow> ret (if ?val \<noteq> Some secretName then ?request else (False, ?svc))) w1 = (Ok (updated, s'), w')"
      unfolding ensureAutoTLSAnnotation_def Let_def bindG_Ok_iff if_not_P[of "\<not> argoRouteFound f"] if_P[OF enabled]
      by (simp only: not_True_eq_False if_False bindG_Ok_iff) blast
    from d have "w1 = w'" by (auto split: option.splits)
    with i d True show thesis
      by (intro found[of tlsSecret])
        (auto simp: tlsAnnotation_def tlsDecision_def annotate_annotate enabled
          intro!: sameButTLS_annotate split: if_splits option.splits)
  qed
qed

lemma ensureAutoTLSAnnotation_facts:
  assumes "ensureAutoTLSAnnotation f c s secretName enabled w = (Ok (updated, s'), w')"
  shows "sameButTLS s s'" and "tlsSettled f secretName enabled s'" and "\<not> updated \<Longrightarrow> tlsSettled f secretName enabled s"
  using assms by (cases rule: ensureAutoTLSAnnotation_Ok;
      auto simp: tlsSettled_def tlsDecision_def split: if_splits option.splits)+

section \<open>One service\<close>

definition serviceWith :: "(service \<Rightarrow> bool) \<Rightarrow> obj option \<Rightarrow> bool" where
  "serviceWith Q v \<longleftrightarrow> (\<exists>s. v = Some (OService s) \<and> Q s)"

abbreviation someService :: "obj option \<Rightarrow> bool" where
  "someService \<equiv> serviceWith (\<lambda>_. True)"

lemma serviceWith_Some [simp]: "serviceWith Q (Some (OService s)) = Q s"
  by (simp add: serviceWith_def)

definition tlsSecrets :: "ArgoCD_beta \<Rightarrow> key set" where
  "tlsSecrets cr = (\<lambda>n. (KSecret, crNamespace cr, n)) `
     {ArgoCDServerTLSSecretName, ArgoCDRedisServerTLSSecretName, ArgoCDRepoServerTLSSecretName}"

definition serviceKey :: "env \<Rightarrow> ArgoCD_beta \<Rightarrow> string \<Rightarrow> key" where
  "serviceKey e cr sfx = (KService, crNamespace cr, nameWithSuffix e sfx cr)"

lemma svcKey_simps [simp]:
  "svcKey (s\<lparr>svcType := t\<rparr>) = svcKey s" "svcKey (serving sel ports s) = svcKey s"
  "svcKey (s\<lparr>svcPublishNotReady := b\<rparr>) = svcKey s"
  "metaNamespace (svcMeta (newServiceWithSuffix e sfx cmp cr)) = crNamespace cr"
  "metaName (svcMeta (newServiceWithSuffix e sfx cmp cr)) = nameWithSuffix e sfx cr"
  "svcKey (newServiceWithSuffix e sfx cmp cr) = serviceKey e cr sfx"
  by (simp_all add: svcKey_def okey_def serving_def newServiceWithSuffix_def newServiceWithName_def serviceKey_def)

lemma okey_svcKey: "okey (OService s) = svcKey s"
  by (simp add: svcKey_def)

lemma svcKey_ns: "svcKey s = serviceKey e cr sfx \<Longrightarrow> metaNamespace (svcMeta s) = crNamespace cr"
  by (simp add: svcKey_def okey_def serviceKey_def)

lemma tlsAnnotation_simps [simp]:
  "tlsAnnotation (serving sel ports s) = tlsAnnotation s" "tlsAnnotation (s\<lparr>svcType := t\<rparr>) = tlsAnnotation s"
  "metaAnnotations m = metaAnnotations (svcMeta s) \<Longrightarrow> tlsAnnotation (s\<lparr>svcMeta := m\<rparr>) = tlsAnnotation s"
  by (simp_all add: tlsAnnotation_def serving_def)

lemma tlsSettled_simps [simp]:
  "tlsSettled f n w (serving sel ports s) = tlsSettled f n w s" "tlsSettled f n w (s\<lparr>svcType := t\<rparr>) = tlsSettled f n w s"
  "metaAnnotations m = metaAnnotations (svcMeta s) \<Longrightarrow> tlsSettled f n w (s\<lparr>svcMeta := m\<rparr>) = tlsSettled f n w s"
  by (simp_all add: tlsSettled_def)

lemma svcKey_owned: "m = (svcMeta s)\<lparr>metaOwners := metaOwners m\<rparr> \<Longrightarrow> svcKey (s\<lparr>svcMeta := m\<rparr>) = svcKey s"
  by (cases s, cases m) (simp add: svcKey_def okey_def)

lemma not_refreshable_service [simp]: "\<not> refreshable (fst (serviceKey e cr sfx))"
  by (simp add: refreshable_def serviceKey_def)

lemma service_not_secret [simp]: "serviceKey e cr sfx \<notin> tlsSecrets cr"
  by (auto simp: serviceKey_def tlsSecrets_def)

context verbatim_client
begin

lemma triple_createOwned:
  assumes "svcKey s = k" and "\<And>m. P (Some (OService (s\<lparr>svcMeta := m\<rparr>)))"
  shows "triple view F k Q P (createOwnedService e c cr s)"
  unfolding createOwnedService_def
  by (intro triple_controlledBy triple_create) (use assms in \<open>auto simp: okey_svcKey svcKey_owned\<close>)

lemma triple_createOwned_tls:
  assumes "svcKey s = k" and "\<And>m. metaAnnotations m = metaAnnotations (svcMeta s) \<Longrightarrow> P (Some (OService (s\<lparr>svcMeta := m\<rparr>)))"
  shows "triple view F k Q P (createOwnedService e c cr s)"
  unfolding createOwnedService_def
proof (intro triple_controlledBy triple_create)
  fix m' assume m: "m' = (svcMeta s)\<lparr>metaOwners := metaOwners m'\<rparr>"
  with assms(1) show "okey (OService (s\<lparr>svcMeta := m'\<rparr>)) = k" by (auto simp: okey_svcKey svcKey_owned)
  from m have "metaAnnotations m' = metaAnnotations (svcMeta s)" by (cases "svcMeta s", cases m') simp
  then show "P (Some (OService (s\<lparr>svcMeta := m'\<rparr>)))" by (rule assms(2))
qed

lemma ensureAutoTLSAnnotation_fp:
  "(KSecret, metaNamespace (svcMeta s), n) \<in> S \<Longrightarrow> act_rel (same_outside view S) (ensureAutoTLSAnnotation f c s n en)"
  unfolding ensureAutoTLSAnnotation_def Let_def
  by (auto intro!: fp.rel_if fp.rel_ret fp.rel_bindG IsObjectFound_fp split: option.split prod.split)

lemma tlsSecrets_in:
  "metaNamespace (svcMeta s) = crNamespace cr \<Longrightarrow> (KSecret, metaNamespace (svcMeta s), ArgoCDServerTLSSecretName) \<in> tlsSecrets cr"
  "metaNamespace (svcMeta s) = crNamespace cr \<Longrightarrow> (KSecret, metaNamespace (svcMeta s), ArgoCDRedisServerTLSSecretName) \<in> tlsSecrets cr"
  "metaNamespace (svcMeta s) = crNamespace cr \<Longrightarrow> (KSecret, metaNamespace (svcMeta s), ArgoCDRepoServerTLSSecretName) \<in> tlsSecrets cr"
  by (simp_all add: tlsSecrets_def)

lemma triple_ensureTLS:
  assumes "(KSecret, metaNamespace (svcMeta s), n) \<in> tlsSecrets cr" and "tlsSecrets cr \<subseteq> F"
    and "\<And>u s'. sameButTLS s s' \<Longrightarrow> tlsSettled f n en s' \<Longrightarrow> (\<not> u \<Longrightarrow> tlsSettled f n en s) \<Longrightarrow>
      triple view F (serviceKey e cr' sfx) Q P (m u s')"
  shows "triple view F (serviceKey e cr' sfx) Q P (bindG (ensureAutoTLSAnnotation f c s n en) (\<lambda>(u, s'). m u s'))"
proof (rule triple_bind[OF ensureAutoTLSAnnotation_fp[OF assms(1)] assms(2)])
  show "serviceKey e cr' sfx \<notin> tlsSecrets cr" by (auto simp: serviceKey_def tlsSecrets_def)
  fix a w w1
  assume "ensureAutoTLSAnnotation f c s n en w = (Ok a, w1)"
  moreover obtain u s' where a: "a = (u, s')" by (cases a)
  ultimately have "ensureAutoTLSAnnotation f c s n en w = (Ok (u, s'), w1)" by simp
  from assms(3)[OF ensureAutoTLSAnnotation_facts[OF this]]
  show "triple view F (serviceKey e cr' sfx) Q P (case a of (u, s') \<Rightarrow> m u s')" by (simp add: a)
qed

lemma triple_ensureTLS_err:
  assumes "(KSecret, metaNamespace (svcMeta s), n) \<in> tlsSecrets cr" and "tlsSecrets cr \<subseteq> F"
    and "\<And>u s'. sameButTLS s s' \<Longrightarrow> tlsSettled f n en s' \<Longrightarrow> triple view F (serviceKey e cr' sfx) Q P (m s')"
  shows "triple view F (serviceKey e cr' sfx) Q P (bindG (mapErr g (ensureAutoTLSAnnotation f c s n en)) (\<lambda>(_, s'). m s'))"
proof (rule triple_bind[OF fp.rel_mapErr[OF ensureAutoTLSAnnotation_fp[OF assms(1)]] assms(2)])
  show "serviceKey e cr' sfx \<notin> tlsSecrets cr" by (auto simp: serviceKey_def tlsSecrets_def)
  fix a w w1
  assume "mapErr g (ensureAutoTLSAnnotation f c s n en) w = (Ok a, w1)"
  moreover obtain u s' where a: "a = (u, s')" by (cases a)
  ultimately have "ensureAutoTLSAnnotation f c s n en w = (Ok (u, s'), w1)" by (simp add: mapErr_Ok_iff)
  from assms(3)[OF ensureAutoTLSAnnotation_facts(1,2)[OF this]]
  show "triple view F (serviceKey e cr' sfx) Q P (case a of (_, s') \<Rightarrow> m s')" by (simp add: a)
qed

lemma triple_findService:
  assumes "triple view F (serviceKey e cr sfx) (\<lambda>v. v = None) P (n None)"
    and "\<And>s. svcKey s = serviceKey e cr sfx \<Longrightarrow> triple view F (serviceKey e cr sfx) (\<lambda>v. v = Some (OService s)) P (n (Some s))"
  shows "triple view F (serviceKey e cr sfx) (\<lambda>_. True) P (bindG (findService c (newServiceWithSuffix e sfx cmp cr)) n)"
  unfolding findService_def svcKey_simps
  by (rule triple_find_any) (use assms in \<open>auto simp: okey_svcKey\<close>)


lemmas service_rules = triple_findService triple_if triple_ret triple_mapErr triple_createOwned triple_delete triple_update

lemma simple_services:
  "triple view F (serviceKey e cr ''metrics'') (\<lambda>_. True) someService (reconcileMetricsService e c cr)"
  "triple view F (serviceKey e cr ''server-metrics'') (\<lambda>_. True) someService (reconcileServerMetricsService e c cr)"
  "triple view F (serviceKey e cr ''dex-server'') (\<lambda>_. True) (presentOrGone (UseDex cr) someService) (reconcileDexService e c cr)"
  "triple view F (serviceKey e cr ''redis-ha'') (\<lambda>_. True) (presentOrGone (useRedisHA cr) someService) (reconcileRedisHAMasterService e c cr)"
  "triple view F (serviceKey e cr ''grafana'') (\<lambda>_. True)
     (\<lambda>v. gone v \<or> Grafana_Enabled (bSpec_Grafana (spec cr)) \<and> someService v) (reconcileGrafanaService e c cr)"
  unfolding reconcileMetricsService_def reconcileServerMetricsService_def reconcileDexService_def
    reconcileRedisHAMasterService_def reconcileGrafanaService_def Let_def
  by (rule triple_findService; simp; intro conjI impI service_rules;
      auto simp: metricsService_def serverMetricsService_def dexService_def redisHAMasterService_def intro!: service_rules)+


text \<open>The proofs for the services with a TLS annotation find the service, decide about the annotation, and
  end in one of the writes.\<close>

lemmas tls_rules = triple_if triple_ret triple_delete triple_createOwned_tls triple_update
lemmas tls_facts = svcKey_ns okey_svcKey sameButTLS_D(1,2)

lemma reconcileRedisHAProxyService_triple:
  assumes "tlsSecrets cr \<subseteq> F"
  shows "triple view F (serviceKey e cr ''redis-ha-haproxy'') (\<lambda>_. True)
     (presentOrGone (useRedisHA cr)
        (serviceWith (tlsSettled f ArgoCDRedisServerTLSSecretName (Redis_WantsAutoTLS (bSpec_Redis (spec cr))))))
     (reconcileRedisHAProxyService e f c cr)"
  unfolding reconcileRedisHAProxyService_def Let_def ensureRedisTLS_def
  by (rule triple_findService; simp;
      intro conjI impI tls_rules triple_ensureTLS[OF tlsSecrets_in(2) assms] triple_ensureTLS_err[OF tlsSecrets_in(2) assms])
    (auto simp: redisHAProxyService_def tls_facts)

lemma reconcileRedisService_triple:
  fixes f cr
  assumes "tlsSecrets cr \<subseteq> F"
  defines "P \<equiv> serviceWith (tlsSettled f ArgoCDRedisServerTLSSecretName (Redis_WantsAutoTLS (bSpec_Redis (spec cr))))"
  shows "triple view F (serviceKey e cr ''redis'') (\<lambda>_. True)
     (\<lambda>v. if \<not> Redis_IsEnabled (bSpec_Redis (spec cr)) then gone v
          else if HA_Enabled (bSpec_HA (spec cr)) \<or> Redis_IsRemote (bSpec_Redis (spec cr)) then gone v \<or> P v else P v)
     (reconcileRedisService e f c cr)"
  unfolding reconcileRedisService_def Let_def ensureRedisTLS_def
  by (rule triple_findService; simp;
      intro conjI impI tls_rules triple_ensureTLS[OF tlsSecrets_in(2) assms(1)] triple_ensureTLS_err[OF tlsSecrets_in(2) assms(1)])
    (auto simp: redisService_def tls_facts P_def intro!: triple_delete)

lemma reconcileRepoService_triple:
  fixes f cr
  assumes "tlsSecrets cr \<subseteq> F"
  defines "P \<equiv> serviceWith (tlsSettled f ArgoCDRepoServerTLSSecretName (Repo_WantsAutoTLS (bSpec_Repo (spec cr))))"
  shows "triple view F (serviceKey e cr ''repo-server'') (\<lambda>_. True)
     (\<lambda>v. if \<not> Repo_IsEnabled (bSpec_Repo (spec cr)) then gone v
          else if Repo_IsRemote (bSpec_Repo (spec cr)) then gone v \<or> P v else P v)
     (reconcileRepoService e f c cr)"
  unfolding reconcileRepoService_def Let_def ensureRepoTLS_def
  by (rule triple_findService; simp;
      intro conjI impI tls_rules triple_ensureTLS[OF tlsSecrets_in(3) assms(1)] triple_ensureTLS_err[OF tlsSecrets_in(3) assms(1)])
    (auto simp: repoService_def tls_facts P_def intro!: triple_delete)

lemma triple_findKey:
  assumes "svcKey s0 = serviceKey e cr sfx" and "triple view F (serviceKey e cr sfx) (\<lambda>v. v = None) P (n None)"
    and "\<And>s. svcKey s = serviceKey e cr sfx \<Longrightarrow> triple view F (serviceKey e cr sfx) (\<lambda>v. v = Some (OService s)) P (n (Some s))"
  shows "triple view F (serviceKey e cr sfx) (\<lambda>_. True) P (bindG (findService c s0) n)"
  unfolding findService_def assms(1)
  by (rule triple_find_any) (use assms in \<open>auto simp: okey_svcKey\<close>)

lemma owned_meta:
  assumes "m' = m\<lparr>metaOwners := metaOwners m'\<rparr>"
  shows "metaAnnotations m' = metaAnnotations m" and "metaName m' = metaName m" and "metaNamespace m' = metaNamespace m"
  using assms by (cases m, cases m', simp)+

lemma reconcileCommitServerService_triple:
  "triple view F (serviceKey e cr ''commit-server'') (\<lambda>_. True)
     (presentOrGone (UseCommitServer cr) (serviceWith (\<lambda>s. svcType s = ''''))) (reconcileCommitServerService e c cr)"
  unfolding reconcileCommitServerService_def Let_def
proof (rule triple_controlledBy)
  fix m assume m: "m = (svcMeta (commitServerService e cr))\<lparr>metaOwners := metaOwners m\<rparr>"
  let ?svc = "commitServerService e cr\<lparr>svcMeta := m\<rparr>"
  have k: "svcKey ?svc = serviceKey e cr ''commit-server''"
    using svcKey_owned[OF m] by (simp add: commitServerService_def)
  have t: "svcType ?svc = ''''"
    by (simp add: commitServerService_def serving_def newServiceWithSuffix_def newServiceWithName_def newService_def)
  show "triple view F (serviceKey e cr ''commit-server'') (\<lambda>_. True)
     (presentOrGone (UseCommitServer cr) (serviceWith (\<lambda>s. svcType s = '''')))
     (bindG (findService c ?svc) (\<lambda>found. case found of
          Some s \<Rightarrow>
            if \<not> UseCommitServer cr then deleteO c (svcKey ?svc)
            else (case syncField svcType (\<lambda>d x. x\<lparr>svcType := d\<rparr>) (svcType ?svc) (False, s) of
                (changed, s') \<Rightarrow> if changed then updateO c (OService s') else ret ())
        | None \<Rightarrow> if UseCommitServer cr then createO c (OService ?svc) else ret ()))"
    by (rule triple_findKey[OF k])
      (auto simp: syncField_def okey_svcKey k t intro!: triple_if triple_ret triple_delete triple_update triple_create)
qed

text \<open>The second half of the server's reconciler, for the service as it is desired.\<close>

lemma saveServerService_triple:
  fixes f cr
  assumes "tlsSecrets cr \<subseteq> F" and k: "svcKey svc = serviceKey e cr ''server''"
    and t: "svcType svc = getArgoServerServiceType cr"
    and a: "tlsSettled f ArgoCDServerTLSSecretName (Server_WantsAutoTLS (bSpec_Server (spec cr))) svc"
  defines "P \<equiv> serviceWith (\<lambda>s. tlsSettled f ArgoCDServerTLSSecretName (Server_WantsAutoTLS (bSpec_Server (spec cr))) s \<and>
     svcType s = getArgoServerServiceType cr)"
  shows "triple view F (serviceKey e cr ''server'') (\<lambda>_. True) (presentOrGone (Server_IsEnabled (bSpec_Server (spec cr))) P)
    (bindG (findService c svc) (\<lambda>found. case found of
          Some s \<Rightarrow>
            if \<not> Server_IsEnabled (bSpec_Server (spec cr)) then deleteO c (svcKey svc)
            else bindG (ensureAutoTLSAnnotation f c s ArgoCDServerTLSSecretName (Server_WantsAutoTLS (bSpec_Server (spec cr)))) (\<lambda>us.
              case syncField svcType (\<lambda>d x. x\<lparr>svcType := d\<rparr>) (svcType svc) us of
                (changed, s') \<Rightarrow> if changed then updateO c (OService s') else ret ())
        | None \<Rightarrow> if \<not> Server_IsEnabled (bSpec_Server (spec cr)) then ret () else createO c (OService svc)))"
    (is "triple view F ?k _ ?P (bindG _ ?m)")
proof (rule triple_findKey[OF k])
  show "triple view F ?k (\<lambda>v. v = None) ?P (?m None)"
    using a t by (auto simp: okey_svcKey k P_def intro!: triple_if triple_ret triple_create)
next
  fix s assume s: "svcKey s = ?k"
  let ?save = "\<lambda>u s'. case syncField svcType (\<lambda>d x. x\<lparr>svcType := d\<rparr>) (svcType svc) (u, s') of
                (changed, s') \<Rightarrow> if changed then updateO c (OService s') else ret ()"
  have e: "(\<lambda>(u, s'). ?save u s') = (\<lambda>us. case syncField svcType (\<lambda>d x. x\<lparr>svcType := d\<rparr>) (svcType svc) us of
                (changed, s') \<Rightarrow> if changed then updateO c (OService s') else ret ())"
    by (simp add: fun_eq_iff)
  have "triple view F ?k (\<lambda>v. v = Some (OService s)) P
      (bindG (ensureAutoTLSAnnotation f c s ArgoCDServerTLSSecretName (Server_WantsAutoTLS (bSpec_Server (spec cr))))
         (\<lambda>(u, s'). ?save u s'))"
    by (rule triple_ensureTLS[OF tlsSecrets_in(1)[OF svcKey_ns[OF s]] assms(1)])
      (auto simp: syncField_def okey_svcKey sameButTLS_D(1,2) t P_def s simp del: sameButTLS_refl intro!: triple_if triple_ret triple_update)
  then show "triple view F ?k (\<lambda>v. v = Some (OService s)) ?P (?m (Some s))"
    unfolding e by (auto simp: k intro!: triple_if triple_delete)
qed

lemma reconcileServerService_triple:
  fixes f cr
  assumes "tlsSecrets cr \<subseteq> F"
  defines "P \<equiv> serviceWith (\<lambda>s. tlsSettled f ArgoCDServerTLSSecretName (Server_WantsAutoTLS (bSpec_Server (spec cr))) s \<and>
     svcType s = getArgoServerServiceType cr)"
  shows "triple view F (serviceKey e cr ''server'') (\<lambda>_. True)
     (presentOrGone (Server_IsEnabled (bSpec_Server (spec cr))) P) (reconcileServerService e f c cr)"
  unfolding reconcileServerService_def Let_def ensureServerTLS_def P_def
proof (intro triple_ensureTLS_err[OF tlsSecrets_in(1) assms(1)] triple_controlledBy saveServerService_triple[OF assms(1)])
  fix s0 m
  assume s0: "sameButTLS (newServiceWithSuffix e ''server'' ''server'' cr) s0"
    "tlsSettled f ArgoCDServerTLSSecretName (Server_WantsAutoTLS (bSpec_Server (spec cr))) s0"
    and m: "m = (svcMeta (serverService e cr s0))\<lparr>metaOwners := metaOwners m\<rparr>"
  show "svcKey (serverService e cr s0\<lparr>svcMeta := m\<rparr>) = serviceKey e cr ''server''"
    using svcKey_owned[OF m] sameButTLS_D(1)[OF s0(1)] by (simp add: serverService_def)
  show "svcType (serverService e cr s0\<lparr>svcMeta := m\<rparr>) = getArgoServerServiceType cr" by (simp add: serverService_def)
  show "tlsSettled f ArgoCDServerTLSSecretName (Server_WantsAutoTLS (bSpec_Server (spec cr))) (serverService e cr s0\<lparr>svcMeta := m\<rparr>)"
    unfolding tlsSettled_simps(3)[OF owned_meta(1)[OF m]] using s0(2) by (simp add: serverService_def)
qed simp

section \<open>The announce services\<close>

lemma newAnnounceService_key: "svcKey (newAnnounceService e cr i) = serviceKey e cr (''redis-ha-announce'' @ replicaSuffix i)"
  by (simp add: newAnnounceService_def)

lemma announceService_key: "svcKey (announceService e cr i) = serviceKey e cr (''redis-ha-announce'' @ replicaSuffix i)"
  by (simp add: announceService_def newAnnounceService_def)

lemma reconcileAnnounceFrom_fp:
  "(\<lambda>i. serviceKey e cr (''redis-ha-announce'' @ replicaSuffix i)) ` set is \<subseteq> S \<Longrightarrow>
   act_rel (same_outside view S) (reconcileAnnounceFrom e c cr is)"
proof (induction "is")
  case (Cons i "is")
  let ?k = "serviceKey e cr (''redis-ha-announce'' @ replicaSuffix i)"
  from Cons have r: "act_rel (same_outside view S) (reconcileAnnounceFrom e c cr is)" and k: "?k \<in> S" by auto
  have create: "act_rel (same_outside view S) (createOwnedService e c cr (announceService e cr i))"
    using k by (intro triple_fp[OF triple_createOwned[where P = "\<lambda>_. True" and F = S]]) (auto simp: announceService_key)
  show ?case unfolding reconcileAnnounceFrom.simps findService_def newAnnounceService_key
  proof (intro fp.rel_bindG IsObjectFound_fp)
    fix a w w1 assume "IsObjectFound c as_service ?k w = (Ok a, w1)"
    then have "svcKey s = ?k" if "a = Some s" for s using that by (auto dest!: IsObjectFound_key simp: svcKey_def)
    with k r create show "act_rel (same_outside view S) (case a of
         Some s \<Rightarrow> if \<not> useRedisHA cr then deleteO c (svcKey s) else ret ()
       | None \<Rightarrow> if \<not> useRedisHA cr then ret ()
           else thenG (createOwnedService e c cr (announceService e cr i)) (reconcileAnnounceFrom e c cr is))"
      by (cases a) (auto intro!: fp.rel_if fp.rel_ret fp.rel_thenG deleteO_fp)
  qed (simp add: k)
qed (simp add: fp.rel_ret)

lemma reconcileRedisHAAnnounceServices_triple:
  assumes "(\<lambda>i. serviceKey e cr (''redis-ha-announce'' @ replicaSuffix i)) ` {1, 2} \<subseteq> F"
    and "serviceKey e cr (''redis-ha-announce'' @ replicaSuffix 0) \<notin> (\<lambda>i. serviceKey e cr (''redis-ha-announce'' @ replicaSuffix i)) ` {1, 2}"
  shows "triple view F (serviceKey e cr (''redis-ha-announce'' @ replicaSuffix 0)) (\<lambda>_. True)
     (presentOrGone (useRedisHA cr) someService) (reconcileRedisHAAnnounceServices e c cr)"
proof -
  let ?k = "serviceKey e cr (''redis-ha-announce'' @ replicaSuffix 0)"
  have "act_rel (same_outside view ((\<lambda>i. serviceKey e cr (''redis-ha-announce'' @ replicaSuffix i)) ` {1, 2}))
      (reconcileAnnounceFrom e c cr [1, 2])"
    by (rule reconcileAnnounceFrom_fp) simp
  from triple_frame[OF this assms] have rest: "triple view F ?k someService someService (reconcileAnnounceFrom e c cr [1, 2])" .
  have "triple view F ?k (\<lambda>v. v = None) someService
      (thenG (createOwnedService e c cr (announceService e cr 0)) (reconcileAnnounceFrom e c cr [1, 2]))"
    by (rule triple_seq[OF triple_createOwned rest]) (simp_all add: announceService_key)
  moreover have "[0 ..< 3] = [0, 1, 2 :: nat]" by (simp add: upt_rec)
  ultimately show ?thesis unfolding reconcileRedisHAAnnounceServices_def
    by (simp only: reconcileAnnounceFrom.simps(2)[of e c cr 0], intro triple_findKey[OF newAnnounceService_key])
      (auto intro!: triple_if triple_ret triple_delete)
qed

end

section \<open>All services\<close>

definition wantedServices :: "argo_flags \<Rightarrow> ArgoCD_beta \<Rightarrow> (string \<times> (obj option \<Rightarrow> bool)) list" where
  "wantedServices f cr =
     (let redis = bSpec_Redis (spec cr); repo = bSpec_Repo (spec cr); server = bSpec_Server (spec cr);
          redisTLS = serviceWith (tlsSettled f ArgoCDRedisServerTLSSecretName (Redis_WantsAutoTLS redis));
          repoTLS = serviceWith (tlsSettled f ArgoCDRepoServerTLSSecretName (Repo_WantsAutoTLS repo))
      in [(''grafana'', \<lambda>v. gone v \<or> Grafana_Enabled (bSpec_Grafana (spec cr)) \<and> someService v),
          (''metrics'', someService),
          (''redis-ha-announce-0'', presentOrGone (useRedisHA cr) someService),
          (''redis-ha'', presentOrGone (useRedisHA cr) someService),
          (''redis-ha-haproxy'', presentOrGone (useRedisHA cr) redisTLS),
          (''redis'', \<lambda>v. if \<not> Redis_IsEnabled redis then gone v
             else if HA_Enabled (bSpec_HA (spec cr)) \<or> Redis_IsRemote redis then gone v \<or> redisTLS v else redisTLS v),
          (''repo-server'', \<lambda>v. if \<not> Repo_IsEnabled repo then gone v
             else if Repo_IsRemote repo then gone v \<or> repoTLS v else repoTLS v),
          (''server-metrics'', someService),
          (''server'', presentOrGone (Server_IsEnabled server)
             (serviceWith (\<lambda>s. tlsSettled f ArgoCDServerTLSSecretName (Server_WantsAutoTLS server) s \<and>
                svcType s = getArgoServerServiceType cr))),
          (''commit-server'', presentOrGone (UseCommitServer cr) (serviceWith (\<lambda>s. svcType s = '''')))])"

definition serviceSteps :: "env \<Rightarrow> argo_flags \<Rightarrow> 'w client \<Rightarrow> ArgoCD_beta \<Rightarrow> 'w step list" where
  "serviceSteps e f c cr = zip
     [reconcileGrafanaService e c cr, reconcileMetricsService e c cr, reconcileRedisHAAnnounceServices e c cr,
      reconcileRedisHAMasterService e c cr, reconcileRedisHAProxyService e f c cr, reconcileRedisService e f c cr,
      reconcileRepoService e f c cr, reconcileServerMetricsService e c cr, reconcileServerService e f c cr,
      reconcileCommitServerService e c cr]
     (map (\<lambda>(n, P). (serviceKey e cr n, P)) (wantedServices f cr))"

definition serviceNames :: "string list" where
  "serviceNames = [''grafana'', ''metrics'', ''redis-ha-announce-0'', ''redis-ha'', ''redis-ha-haproxy'', ''redis'',
     ''repo-server'', ''server-metrics'', ''server'', ''commit-server'']"

definition otherServiceNames :: "string list" where
  "otherServiceNames = [''dex-server'', ''redis-ha-announce-1'', ''redis-ha-announce-2'']"

text \<open>The names, which a long instance name has truncated and hashed, do not clash.\<close>

definition distinctServiceNames :: "env \<Rightarrow> ArgoCD_beta \<Rightarrow> bool" where
  "distinctServiceNames e cr \<longleftrightarrow> distinct (map (serviceKey e cr) (serviceNames @ otherServiceNames))"

definition serviceFrame :: "env \<Rightarrow> ArgoCD_beta \<Rightarrow> key set" where
  "serviceFrame e cr = serviceKey e cr ` set otherServiceNames \<union> tlsSecrets cr"

lemma replica_names:
  "replicaSuffix 0 = ''-0''" "replicaSuffix 1 = ''-1''" "replicaSuffix (Suc 0) = ''-1''" "replicaSuffix 2 = ''-2''"
  by code_simp+

lemma step_keys_services: "step_keys (serviceSteps e f c cr) = map (serviceKey e cr) serviceNames"
  by (simp add: serviceSteps_def wantedServices_def Let_def serviceNames_def)

lemma all_hold_services:
  "all_hold (serviceSteps e f c cr) v \<longleftrightarrow> (\<forall>(n, P) \<in> set (wantedServices f cr). P (v (serviceKey e cr n)))"
  by (simp add: serviceSteps_def wantedServices_def Let_def conj_assoc)

lemma reconcileServices_steps:
  "reconcileServices e f c cr = thenG (logged (reconcileDexService e c cr)) (forG fst (serviceSteps e f c cr))"
  by (simp add: reconcileServices_def serviceSteps_def wantedServices_def Let_def reconcileRedisHAServices_def thenG_assoc)

lemma serviceNames_disjoint:
  assumes "distinctServiceNames e cr"
  shows "distinct (map (serviceKey e cr) serviceNames)"
    and "set (map (serviceKey e cr) serviceNames) \<inter> serviceFrame e cr = {}"
  using assms by (auto simp: distinctServiceNames_def serviceFrame_def)

context verbatim_client
begin

lemma serviceSteps_ensure:
  assumes "distinctServiceNames e cr"
  shows "all_ensure view (serviceFrame e cr) (serviceSteps e f c cr)"
proof -
  have t: "tlsSecrets cr \<subseteq> serviceFrame e cr" by (simp add: serviceFrame_def)
  have "serviceKey e cr ''redis-ha-announce-0'' \<notin> {serviceKey e cr ''redis-ha-announce-1'', serviceKey e cr ''redis-ha-announce-2''}"
    using assms by (simp add: distinctServiceNames_def serviceNames_def otherServiceNames_def)
  then have a: "triple view (serviceFrame e cr) (serviceKey e cr ''redis-ha-announce-0'') (\<lambda>_. True)
      (presentOrGone (useRedisHA cr) someService) (reconcileRedisHAAnnounceServices e c cr)"
    using reconcileRedisHAAnnounceServices_triple[of e cr "serviceFrame e cr"]
    by (simp add: replica_names serviceFrame_def otherServiceNames_def)
  show ?thesis
    unfolding serviceSteps_def wantedServices_def Let_def
    by (simp add: ensures_triple a simple_services reconcileRedisHAProxyService_triple[OF t] reconcileRedisService_triple[OF t]
        reconcileRepoService_triple[OF t] reconcileServerService_triple[OF t] reconcileCommitServerService_triple)
qed

lemma announce_only_first:
  assumes "\<not> useRedisHA cr" and "reconcileRedisHAAnnounceServices e c cr w = (r, w')"
  shows "same_outside view {serviceKey e cr ''redis-ha-announce-0''} w w'"
proof -
  let ?k = "serviceKey e cr ''redis-ha-announce-0''"
  have k: "svcKey (newAnnounceService e cr 0) = ?k" by (simp add: newAnnounceService_key replica_names)
  have l: "[0 ..< 3] = [0, 1, 2 :: nat]" by (simp add: upt_rec)
  have "triple view {} ?k (\<lambda>_. True) (\<lambda>_. True) (reconcileRedisHAAnnounceServices e c cr)"
    unfolding reconcileRedisHAAnnounceServices_def l
    by (simp only: reconcileAnnounceFrom.simps(2)[of e c cr 0], intro triple_findKey[OF k])
      (auto simp: assms(1) intro!: triple_ret triple_delete)
  from act_relD[OF triple_fp[OF this subset_refl] assms(2)] show ?thesis by simp
qed

lemma reconcileServices_fp:
  assumes "distinctServiceNames e cr"
  shows "act_rel (same_outside view (set (map (serviceKey e cr) serviceNames) \<union> serviceFrame e cr)) (reconcileServices e f c cr)"
proof -
  have "act_rel (same_outside view (set (map (serviceKey e cr) serviceNames) \<union> serviceFrame e cr)) (forG fst (serviceSteps e f c cr))"
    by (rule steps_fp[OF serviceSteps_ensure[OF assms]]) (simp add: step_keys_services)
  moreover have "act_rel (same_outside view (set (map (serviceKey e cr) serviceNames) \<union> serviceFrame e cr)) (reconcileDexService e c cr)"
    by (rule triple_fp[OF simple_services(3)[of "{}"]]) (simp add: serviceFrame_def otherServiceNames_def)
  ultimately show ?thesis unfolding reconcileServices_steps by (intro fp.rel_thenG fp.rel_logged)
qed

lemma reconcileServices_hold:
  assumes "distinctServiceNames e cr" and "reconcileServices e f c cr w = (Ok (), w')"
  shows "all_hold (serviceSteps e f c cr) (view w')"
proof -
  from assms(2) obtain w1 where "forG fst (serviceSteps e f c cr) w1 = (Ok (), w')"
    by (auto simp: reconcileServices_steps thenG_Ok_iff)
  then show ?thesis
    using serviceNames_disjoint[OF assms(1)]
    by (intro steps_establish[OF serviceSteps_ensure[OF assms(1)]]) (auto simp: step_keys_services)
qed

end

context reliable_client
begin

lemma announce_found:
  assumes "useRedisHA cr" and "view w (serviceKey e cr ''redis-ha-announce-0'') = Some (OService s)"
  shows "\<exists>w'. reconcileRedisHAAnnounceServices e c cr w = (Ok (), w') \<and> view w' = view w"
proof -
  have k: "svcKey (newAnnounceService e cr 0) = serviceKey e cr ''redis-ha-announce-0''"
    by (simp add: newAnnounceService_key replica_names)
  obtain w' where v: "view w' = view w"
    and f: "IsObjectFound c as_service (serviceKey e cr ''redis-ha-announce-0'') w = (Ok (Some s), w')"
    using IsObjectFound_reliable[of "serviceKey e cr ''redis-ha-announce-0''" w as_service] assms(2) by auto
  have "[0 ..< 3] = [0, 1, 2 :: nat]" by (simp add: upt_rec)
  with f assms(1) show ?thesis
    by (auto simp: reconcileRedisHAAnnounceServices_def findService_def k bindG_apply v)
qed

end

section \<open>Properties\<close>

text \<open>The TLS annotation: with the API of OpenShift there, the annotation becomes what \<open>tlsDecision\<close>
  says of the secret found (none when it is not wanted or when a secret of the user is in its place, the
  name of the secret otherwise), the service is otherwise the same, a change is reported exactly when there
  was one, and deciding again changes nothing.\<close>

theorem ensureAutoTLSAnnotation_spec:
  assumes "ensureAutoTLSAnnotation f c s secretName enabled w = (Ok (updated, s'), w')" and "argoRouteFound f"
    and "enabled \<Longrightarrow> IsObjectFound c as_secret (KSecret, metaNamespace (svcMeta s), secretName) w = (Ok tlsSecret, w')"
  shows "tlsAnnotation s' = tlsDecision (metaName (svcMeta s)) secretName enabled tlsSecret (tlsAnnotation s) \<and>
    (updated \<longleftrightarrow> tlsAnnotation s' \<noteq> tlsAnnotation s) \<and> sameButTLS s s' \<and>
    tlsDecision (metaName (svcMeta s)) secretName enabled tlsSecret (tlsAnnotation s') = tlsAnnotation s'"
  using assms(1)
proof (cases rule: ensureAutoTLSAnnotation_Ok)
  case noRoutes
  with assms(2) show ?thesis by simp
next
  case (found t)
  have "tlsDecision n secretName enabled t v = tlsDecision n secretName enabled tlsSecret v" for n v
    using found(2) assms(3) by (cases enabled) (auto simp: tlsDecision_def)
  with found(4,5,6) show ?thesis
    by (auto simp: tlsDecision_def split: option.splits if_splits)
qed

theorem ensureAutoTLSAnnotation_spec_witness:
  "let s = newServiceWithSuffix sampleEnv ''server'' ''server'' samplePolicyCR;
       s' = snd (case fst (ensureAutoTLSAnnotation (samplePolicyFlags\<lparr>argoRouteFound := True\<rparr>) mem_client s ArgoCDServerTLSSecretName True [])
              of Ok r \<Rightarrow> r | _ \<Rightarrow> (False, s))
   in tlsAnnotation s' = Some ArgoCDServerTLSSecretName"
proof -
  let ?s = "newServiceWithSuffix sampleEnv ''server'' ''server'' samplePolicyCR"
  let ?f = "samplePolicyFlags\<lparr>argoRouteFound := True\<rparr>"
  let ?s' = "annotate (\<lambda>a. gput a AnnotationOpenShiftServiceCA ArgoCDServerTLSSecretName) (annotate gmake ?s)"
  have e: "ensureAutoTLSAnnotation ?f mem_client ?s ArgoCDServerTLSSecretName True [] = (Ok (True, ?s'), [])"
    by code_simp
  have "IsObjectFound mem_client as_secret (KSecret, metaNamespace (svcMeta ?s), ArgoCDServerTLSSecretName) [] = (Ok None, [])"
    by code_simp
  from ensureAutoTLSAnnotation_spec[OF e _ this]
  have "tlsAnnotation ?s' = tlsDecision (metaName (svcMeta ?s)) ArgoCDServerTLSSecretName True None (tlsAnnotation ?s)" by simp
  also have "\<dots> = Some ArgoCDServerTLSSecretName" by code_simp
  finally show ?thesis by (simp add: e)
qed

text \<open>C31. The services of an instance: let a pass return without an error, and let the names not clash. The services
  for the metrics of the controller and of the server exist. Those of the server and of the commit server exist if
  enabled and are gone or on their way out if not, and so with high availability those of Redis's proxy and master
  and the first of the three announce services. The service of Redis, and that of the repo server, is gone or on
  its way out when it is disabled, exists when it is enabled, and may be either when it is remote (for Redis also with
  high availability). That of Grafana stays only if Grafana is enabled. The server's service
  has the type the resource asks for. Where the API of routes is available, the annotation by which OpenShift issues a
  certificate is absent from the services of the server, the repo server, Redis and its proxy if it is not asked for,
  and otherwise names the secret of the operator or is absent; and whenever the operator decides about it, it is absent
  if not asked for, absent if the service has none and a secret of that name exists which OpenShift did not make for
  this service, and the name of the secret in all other cases, nothing else of the service being changed. Besides
  these services a pass can change the other two announce services and that of Dex, whose errors are only logged, and
  reading the three TLS secrets may label them; all other objects are as before.\<close>

theorem reconcileServices_spec:
  assumes "verbatim_client c view admit refresh" and "distinctServiceNames e cr"
    and "reconcileServices e f c cr w = (Ok (), w')"
  shows "(\<forall>(n, P) \<in> set (wantedServices f cr). P (view w' (serviceKey e cr n))) \<and>
    (\<forall>s name wants w1 updated s' w2 sec. argoRouteFound f \<longrightarrow>
       ensureAutoTLSAnnotation f c s name wants w1 = (Ok (updated, s'), w2) \<longrightarrow>
       (wants \<longrightarrow> IsObjectFound c as_secret (KSecret, metaNamespace (svcMeta s), name) w1 = (Ok sec, w2)) \<longrightarrow>
       tlsAnnotation s' = tlsDecision (metaName (svcMeta s)) name wants sec (tlsAnnotation s) \<and> sameButTLS s s') \<and>
    same_outside view (serviceKey e cr ` set (serviceNames @ otherServiceNames) \<union> tlsSecrets cr) w w'"
proof (intro conjI)
  show "\<forall>s name wants w1 updated s' w2 sec. argoRouteFound f \<longrightarrow>
       ensureAutoTLSAnnotation f c s name wants w1 = (Ok (updated, s'), w2) \<longrightarrow>
       (wants \<longrightarrow> IsObjectFound c as_secret (KSecret, metaNamespace (svcMeta s), name) w1 = (Ok sec, w2)) \<longrightarrow>
       tlsAnnotation s' = tlsDecision (metaName (svcMeta s)) name wants sec (tlsAnnotation s) \<and> sameButTLS s s'"
  proof (intro allI impI)
    fix s name wants w1 updated s' w2 sec
    assume "argoRouteFound f" and "ensureAutoTLSAnnotation f c s name wants w1 = (Ok (updated, s'), w2)"
      and "wants \<longrightarrow> IsObjectFound c as_secret (KSecret, metaNamespace (svcMeta s), name) w1 = (Ok sec, w2)"
    from ensureAutoTLSAnnotation_spec[OF this(2,1) mp[OF this(3)]]
    show "tlsAnnotation s' = tlsDecision (metaName (svcMeta s)) name wants sec (tlsAnnotation s) \<and> sameButTLS s s'" by blast
  qed
  show "\<forall>(n, P) \<in> set (wantedServices f cr). P (view w' (serviceKey e cr n))"
    using verbatim_client.reconcileServices_hold[OF assms] by (simp add: all_hold_services)
  show "same_outside view (serviceKey e cr ` set (serviceNames @ otherServiceNames) \<union> tlsSecrets cr) w w'"
    using act_relD[OF verbatim_client.reconcileServices_fp[OF assms(1,2)] assms(3)]
    by (simp add: serviceFrame_def image_Un Un_assoc)
qed

lemma samplePolicy_services: "distinctServiceNames sampleEnv samplePolicyCR"
  by code_simp

theorem reconcileServices_spec_witness:
  "let w' = snd (reconcileServices sampleEnv samplePolicyFlags mem_client samplePolicyCR [])
   in serviceWith (\<lambda>s. svcType s = ''ClusterIP'') (mem_view w' (serviceKey sampleEnv samplePolicyCR ''server''))"
proof -
  have "fst (reconcileServices sampleEnv samplePolicyFlags mem_client samplePolicyCR []) = Ok ()" by code_simp
  moreover have "Server_IsEnabled (bSpec_Server (spec samplePolicyCR))" "getArgoServerServiceType samplePolicyCR = ''ClusterIP''"
    by code_simp+
  ultimately show ?thesis unfolding Let_def
    using conjunct1[OF reconcileServices_spec[OF mem.verbatim_client_axioms samplePolicy_services run_result]]
    by (auto simp: wantedServices_def Let_def serviceWith_def)
qed

text \<open>The announce services are not repaired: with high availability and the first of the three there, a
  pass returns without doing anything, whether or not the others exist; without it a pass touches at most
  the first, so that the others stay when the feature is switched off.\<close>

theorem announce_services_stuck:
  assumes "reliable_client c view admit refresh"
  shows "(useRedisHA cr \<and> view w (serviceKey e cr ''redis-ha-announce-0'') = Some (OService s) \<longrightarrow>
      (\<exists>w'. reconcileRedisHAAnnounceServices e c cr w = (Ok (), w') \<and> view w' = view w)) \<and>
    (\<not> useRedisHA cr \<longrightarrow> reconcileRedisHAAnnounceServices e c cr w = (r, w') \<longrightarrow>
      same_outside view {serviceKey e cr ''redis-ha-announce-0''} w w')"
  using reliable_client.announce_found[OF assms]
    verbatim_client.announce_only_first[OF reliable_client.axioms(1)[OF assms]] by blast

definition sampleHACR :: ArgoCD_beta where
  "sampleHACR = samplePolicyCR\<lparr>bArgoCD_Spec := (spec samplePolicyCR)\<lparr>bSpec_HA := (bSpec_HA (spec samplePolicyCR))\<lparr>HA_Enabled := True\<rparr>\<rparr>\<rparr>"

theorem announce_services_stuck_witness:
  "let w = [OService (newAnnounceService sampleEnv sampleHACR 0)]
   in \<exists>w'. reconcileRedisHAAnnounceServices sampleEnv mem_client sampleHACR w = (Ok (), w') \<and>
     mem_view w' (serviceKey sampleEnv sampleHACR ''redis-ha-announce-1'') = None"
proof -
  let ?w = "[OService (newAnnounceService sampleEnv sampleHACR 0)]"
  have "useRedisHA sampleHACR"
    and "mem_view ?w (serviceKey sampleEnv sampleHACR ''redis-ha-announce-0'') = Some (OService (newAnnounceService sampleEnv sampleHACR 0))"
    and n: "mem_view ?w (serviceKey sampleEnv sampleHACR ''redis-ha-announce-1'') = None"
    by code_simp+
  with conjunct1[OF announce_services_stuck[OF mem.reliable_client_axioms], rule_format, OF conjI]
  obtain w' where "reconcileRedisHAAnnounceServices sampleEnv mem_client sampleHACR ?w = (Ok (), w')" and "mem_view w' = mem_view ?w"
    by blast
  with n show ?thesis by (auto simp: Let_def)
qed

definition hpaKey :: "env \<Rightarrow> ArgoCD_beta \<Rightarrow> key" where
  "hpaKey e cr = (KHorizontalPodAutoscaler, crNamespace cr, nameWithSuffix e ''server'' cr)"

definition hpaInPlace :: "ArgoCD_beta \<Rightarrow> obj option \<Rightarrow> bool" where
  "hpaInPlace cr v \<longleftrightarrow> (\<exists>h. v = Some (OHorizontalPodAutoscaler h) \<and>
     (\<forall>s. ServerAutoscale_HPA (bServer_Autoscale (bSpec_Server (spec cr))) = Some s \<longrightarrow> hpaSpec h = s))"

lemma as_hpa_Some [simp]: "as_horizontal_pod_autoscaler x = Some h \<longleftrightarrow> x = OHorizontalPodAutoscaler h"
  by (cases x) auto

lemma hpaKey_new [simp]: "okey (OHorizontalPodAutoscaler (newHorizontalPodAutoscalerWithSuffix e ''server'' cr s)) = hpaKey e cr"
  by (simp add: okey_def hpaKey_def newHorizontalPodAutoscalerWithSuffix_def)

lemma okey_hpaSpec [simp]: "okey (OHorizontalPodAutoscaler (h\<lparr>hpaSpec := s\<rparr>)) = okey (OHorizontalPodAutoscaler h)"
  by (simp add: okey_def)

context verbatim_client
begin

lemma reconcileServerHPA_triple:
  "triple view F (hpaKey e cr) (\<lambda>_. True)
     (presentOrGone (ServerAutoscale_Enabled (bServer_Autoscale (bSpec_Server (spec cr)))) (hpaInPlace cr)) (reconcileServerHPA e c cr)"
  unfolding reconcileServerHPA_def Let_def hpaKey_new
  by (rule triple_find_any)
    (auto simp: hpaInPlace_def refreshable_def hpaKey_def[of e cr] intro!: triple_if triple_ret triple_delete triple_create triple_update
      split: option.split)

end

text \<open>The autoscaler of the server: after a pass without an error it is there with the spec the resource
  asks for when autoscaling is enabled, and gone otherwise, and nothing else changed. But it never settles:
  finding an autoscaler that already has the wanted spec, a pass still sends it to the API server.\<close>

theorem reconcileServerHPA_spec:
  assumes "verbatim_client c view admit refresh"
  shows "(reconcileServerHPA e c cr w = (Ok (), w') \<longrightarrow>
      presentOrGone (ServerAutoscale_Enabled (bServer_Autoscale (bSpec_Server (spec cr)))) (hpaInPlace cr) (view w' (hpaKey e cr)) \<and>
      same_outside view {hpaKey e cr} w w') \<and>
    (ServerAutoscale_Enabled (bServer_Autoscale (bSpec_Server (spec cr))) \<and>
      ServerAutoscale_HPA (bServer_Autoscale (bSpec_Server (spec cr))) = Some (hpaSpec h) \<and>
      IsObjectFound c as_horizontal_pod_autoscaler (hpaKey e cr) w = (Ok (Some h), w1) \<longrightarrow>
      reconcileServerHPA e c cr w = updateO c (OHorizontalPodAutoscaler h) w1)"
proof (intro conjI impI; (elim conjE)?)
  let ?P = "presentOrGone (ServerAutoscale_Enabled (bServer_Autoscale (bSpec_Server (spec cr)))) (hpaInPlace cr)"
  have t: "triple view {} (hpaKey e cr) (\<lambda>_. True) ?P (reconcileServerHPA e c cr)"
    by (rule verbatim_client.reconcileServerHPA_triple[OF assms])
  show "?P (view w' (hpaKey e cr))" if "reconcileServerHPA e c cr w = (Ok (), w')"
    using tripleD[OF t that] by simp
  show "same_outside view {hpaKey e cr} w w'" if "reconcileServerHPA e c cr w = (Ok (), w')"
    using act_relD[OF triple_fp[OF t subset_refl] that] by simp
  show "reconcileServerHPA e c cr w = updateO c (OHorizontalPodAutoscaler h) w1"
    if "ServerAutoscale_Enabled (bServer_Autoscale (bSpec_Server (spec cr)))"
      and "ServerAutoscale_HPA (bServer_Autoscale (bSpec_Server (spec cr))) = Some (hpaSpec h)"
      and "IsObjectFound c as_horizontal_pod_autoscaler (hpaKey e cr) w = (Ok (Some h), w1)"
    using that by (simp add: reconcileServerHPA_def Let_def bindG_apply)
qed

theorem reconcileServerHPA_spec_witness:
  "let cr = samplePolicyCR\<lparr>bArgoCD_Spec := (spec samplePolicyCR)\<lparr>bSpec_Server := (bSpec_Server (spec samplePolicyCR))
        \<lparr>bServer_Autoscale := \<lparr>ServerAutoscale_Enabled = True, ServerAutoscale_HPA = None\<rparr>\<rparr>\<rparr>\<rparr>;
       w' = snd (reconcileServerHPA sampleEnv mem_client cr [])
   in hpaInPlace cr (mem_view w' (hpaKey sampleEnv cr))"
proof -
  let ?cr = "samplePolicyCR\<lparr>bArgoCD_Spec := (spec samplePolicyCR)\<lparr>bSpec_Server := (bSpec_Server (spec samplePolicyCR))
        \<lparr>bServer_Autoscale := \<lparr>ServerAutoscale_Enabled = True, ServerAutoscale_HPA = None\<rparr>\<rparr>\<rparr>\<rparr>"
  have "fst (reconcileServerHPA sampleEnv mem_client ?cr []) = Ok ()" by code_simp
  from conjunct1[OF reconcileServerHPA_spec[OF mem.verbatim_client_axioms], rule_format, OF run_result[OF this]]
  show ?thesis by (simp add: Let_def)
qed

end
