(* ===== verification/Instance_Routes.thy ===== *)
theory Instance_Routes
  imports Instance_Services
begin

text \<open>
  The Ingresses and Routes of an instance (\<open>argocd-operator/controllers/argocd/ingress.go\<close>, \<open>route.go\<close>,
  the hosts of \<open>util.go\<close>, \<open>CreateEvent\<close> of \<open>controllers/argoutil/resource.go\<close>). The name the API server
  generates for an event from a prefix is an argument (\<open>gen\<close>); the tracker of deprecation warnings,
  a package variable, is part of the state the Route reconcilers run on.
\<close>

section \<open>Hosts\<close>

definition getArgoServerHost :: "ArgoCD_beta \<Rightarrow> string" where
  "getArgoServerHost cr = (if bServer_Host (bSpec_Server (spec cr)) \<noteq> '''' then bServer_Host (bSpec_Server (spec cr))
     else crName cr)"

definition getArgoServerGRPCHost :: "env \<Rightarrow> ArgoCD_beta \<Rightarrow> string" where
  "getArgoServerGRPCHost e cr = (let h = ServerGRPC_Host (bServer_GRPC (bSpec_Server (spec cr)))
     in if h \<noteq> '''' then h else nameWithSuffix e ''grpc'' cr)"

text \<open>The loop of \<open>shortenHostname\<close>: drop the last character of the first label while the whole is too
  long and the label longer than 20.\<close>

function shrinkFirst :: "string \<Rightarrow> string list \<Rightarrow> string" where
  "shrinkFirst l rest = (if length (joinStr ''.'' (l # rest)) > 253 \<and> length l > 20
     then shrinkFirst (butlast l) rest else l)"
  by pat_completeness auto
termination by (relation "measure (\<lambda>(l, _). length l)") auto

declare shrinkFirst.simps [simp del]

definition shortenHostname :: "string \<Rightarrow> go_error + string" where
  "shortenHostname hostname =
     (if hostname = '''' then Inr ''''
      else if length hostname \<le> 253 then Inr hostname
      else (case splitOn (CHR ''.'') hostname of
          [] \<Rightarrow> Inr ''''
        | label # rest \<Rightarrow>
            let l = (if length label > 63 then take 63 label else label)
            in if \<exists>r \<in> set rest. length r > 63 then Inl (ErrorText ''label length exceeds 63 characters'')
               else if length (joinStr ''.'' (l # rest)) > 253
               then (let l' = shrinkFirst l rest
                     in if length l' < 20 then Inl (ErrorText ''shortened first label is less than 20 characters'')
                        else Inr (joinStr ''.'' (l' # rest)))
               else Inr (joinStr ''.'' (l # rest))))"

definition getApplicationSetHTTPServerHost :: "ArgoCD_beta \<Rightarrow> ArgoCDApplicationSet_beta \<Rightarrow> go_error + string" where
  "getApplicationSetHTTPServerHost cr a =
     (let h = WebhookServer_Host (bApplicationSet_WebhookServer a)
      in if h \<noteq> '''' then shortenHostname h else Inr (crName cr))"

section \<open>Ingresses\<close>

definition getPathOrDefault :: "string \<Rightarrow> string" where
  "getPathOrDefault path = (if path \<noteq> '''' then path else ''/'')"

definition newIngressWithSuffix :: "env \<Rightarrow> string \<Rightarrow> ArgoCD_beta \<Rightarrow> ingress" where
  "newIngressWithSuffix e sfx cr = \<lparr>ingMeta = namedMeta (nameWithSuffix e sfx cr) cr, ingClassName = None,
     ingRules = None, ingTLS = None, ingLoadBalancers = None\<rparr>"

definition ingKey :: "ingress \<Rightarrow> key" where
  "ingKey i = okey (OIngress i)"

definition httpRule :: "string \<Rightarrow> string \<Rightarrow> string \<Rightarrow> string \<Rightarrow> ingress_rule" where
  "httpRule host path svc port = \<lparr>irHost = host, irPaths = [\<lparr>ipPath = path, ipServiceName = svc, ipPortName = port,
     ipPathType = Some ''ImplementationSpecific''\<rparr>]\<rparr>"

definition sslRedirect :: string where "sslRedirect = ''nginx.ingress.kubernetes.io/force-ssl-redirect''"
definition backendProtocol :: string where "backendProtocol = ''nginx.ingress.kubernetes.io/backend-protocol''"

definition orDefaultMap :: "gomap \<Rightarrow> gomap \<Rightarrow> gomap" where
  "orDefaultMap given dflt = (if glen given > 0 then given else dflt)"

definition orDefaultTLS :: "ingress_tls slice \<Rightarrow> ingress_tls slice \<Rightarrow> ingress_tls slice" where
  "orDefaultTLS given dflt = (if elems given \<noteq> [] then given else dflt)"

definition findIngress :: "'w client \<Rightarrow> ingress \<Rightarrow> ('w, ingress option) act" where
  "findIngress c i = IsObjectFound c as_ingress (ingKey i)"

definition createOwnedIngress :: "env \<Rightarrow> 'w client \<Rightarrow> ArgoCD_beta \<Rightarrow> ingress \<Rightarrow> ('w, unit) act" where
  "createOwnedIngress e c cr i =
     bindG (controlledBy e cr (ingMeta i)) (\<lambda>m. createO c (OIngress (i\<lparr>ingMeta := m\<rparr>)))"

definition serverIngress :: "env \<Rightarrow> ArgoCD_beta \<Rightarrow> ingress" where
  "serverIngress e cr =
     (let i = newIngressWithSuffix e ''server'' cr; s = bServer_Ingress (bSpec_Server (spec cr))
      in i\<lparr>ingMeta := (ingMeta i)\<lparr>metaAnnotations := orDefaultMap (Ingress_Annotations s)
             (gmap [(sslRedirect, ''true''), (backendProtocol, ''HTTP'')])\<rparr>,
           ingClassName := Ingress_IngressClassName s,
           ingRules := Some [httpRule (getArgoServerHost cr) (getPathOrDefault (Ingress_Path s))
             (nameWithSuffix e ''server'' cr) ''http''],
           ingTLS := orDefaultTLS (Ingress_TLS s)
             (Some [\<lparr>itHosts = Some [getArgoServerHost cr], itSecretName = ArgoCDSecretName\<rparr>])\<rparr>)"

text \<open>Bringing an Ingress found up to date. The class names are compared as pointers, which differ unless
  both are nil, and the annotations with those of the resource, not with the defaulted ones.\<close>

definition syncServerIngress :: "ArgoCDIngressSpec \<Rightarrow> ingress \<Rightarrow> ingress \<Rightarrow> bool \<times> ingress" where
  "syncServerIngress s desired existing =
     (let c1 = (if ingClassName existing \<noteq> None \<or> Ingress_IngressClassName s \<noteq> None
                then (True, existing\<lparr>ingClassName := Ingress_IngressClassName s\<rparr>) else (False, existing));
          c2 = syncField (metaAnnotations \<circ> ingMeta)
                 (\<lambda>a x. x\<lparr>ingMeta := (ingMeta x)\<lparr>metaAnnotations := a\<rparr>\<rparr>) (Ingress_Annotations s) c1;
          c3 = syncField ingRules (\<lambda>d x. x\<lparr>ingRules := d\<rparr>) (ingRules desired) c2
      in syncField ingTLS (\<lambda>d x. x\<lparr>ingTLS := d\<rparr>) (ingTLS desired) c3)"

definition reconcileArgoServerIngress :: "env \<Rightarrow> 'w client \<Rightarrow> ArgoCD_beta \<Rightarrow> ('w, unit) act" where
  "reconcileArgoServerIngress e c cr =
     (let s = bServer_Ingress (bSpec_Server (spec cr)); i = newIngressWithSuffix e ''server'' cr
      in bindG (findIngress c i) (\<lambda>found.
         if \<not> Ingress_Enabled s then (case found of Some _ \<Rightarrow> deleteO c (ingKey i) | None \<Rightarrow> ret ())
         else (case found of
             Some existing \<Rightarrow> (case syncServerIngress s (serverIngress e cr) existing of
                 (changed, x) \<Rightarrow> if changed then updateO c (OIngress x) else ret ())
           | None \<Rightarrow> createOwnedIngress e c cr (serverIngress e cr))))"

definition grpcIngress :: "env \<Rightarrow> ArgoCD_beta \<Rightarrow> ingress" where
  "grpcIngress e cr =
     (let i = newIngressWithSuffix e ''grpc'' cr; s = ServerGRPC_Ingress (bServer_GRPC (bSpec_Server (spec cr)))
      in i\<lparr>ingMeta := (ingMeta i)\<lparr>metaAnnotations := orDefaultMap (Ingress_Annotations s) (gmap [(backendProtocol, ''GRPC'')])\<rparr>,
           ingClassName := Ingress_IngressClassName s,
           ingRules := Some [httpRule (getArgoServerGRPCHost e cr) (getPathOrDefault (Ingress_Path s))
             (nameWithSuffix e ''server'' cr) ''https''],
           ingTLS := orDefaultTLS (Ingress_TLS s)
             (Some [\<lparr>itHosts = Some [getArgoServerGRPCHost e cr], itSecretName = ArgoCDSecretName\<rparr>])\<rparr>)"

definition reconcileArgoServerGRPCIngress :: "env \<Rightarrow> 'w client \<Rightarrow> ArgoCD_beta \<Rightarrow> ('w, unit) act" where
  "reconcileArgoServerGRPCIngress e c cr =
     (let s = ServerGRPC_Ingress (bServer_GRPC (bSpec_Server (spec cr)))
      in bindG (findIngress c (newIngressWithSuffix e ''grpc'' cr)) (\<lambda>found. case found of
           Some x \<Rightarrow> if \<not> Ingress_Enabled s then deleteO c (ingKey x) else ret ()
         | None \<Rightarrow> if \<not> Ingress_Enabled s then ret () else createOwnedIngress e c cr (grpcIngress e cr)))"

definition reconcileGrafanaIngress :: "env \<Rightarrow> 'w client \<Rightarrow> ArgoCD_beta \<Rightarrow> ('w, unit) act" where
  "reconcileGrafanaIngress e c cr =
     bindG (findIngress c (newIngressWithSuffix e ''grafana'' cr)) (\<lambda>found. case found of
         Some x \<Rightarrow> if \<not> Grafana_Enabled (bSpec_Grafana (spec cr)) \<or> \<not> Ingress_Enabled (Grafana_Ingress (bSpec_Grafana (spec cr)))
           then deleteO c (ingKey x) else ret ()
       | None \<Rightarrow> ret ())"

definition reconcilePrometheusIngress :: "env \<Rightarrow> 'w client \<Rightarrow> ArgoCD_beta \<Rightarrow> ('w, unit) act" where
  "reconcilePrometheusIngress e c cr =
     bindG (findIngress c (newIngressWithSuffix e ''prometheus'' cr)) (\<lambda>found. case found of
         Some x \<Rightarrow> deleteO c (ingKey x)
       | None \<Rightarrow> ret ())"

text \<open>The webhook server of the ApplicationSet controller, when its Ingress or Route is enabled.\<close>

definition webhookIngressOf :: "ArgoCD_beta \<Rightarrow> ArgoCDApplicationSet_beta option" where
  "webhookIngressOf cr = (case bSpec_ApplicationSet (spec cr) of None \<Rightarrow> None
     | Some a \<Rightarrow> if Ingress_Enabled (WebhookServer_Ingress (bApplicationSet_WebhookServer a)) then Some a else None)"

definition webhookRouteOf :: "ArgoCD_beta \<Rightarrow> ArgoCDApplicationSet_beta option" where
  "webhookRouteOf cr = (case bSpec_ApplicationSet (spec cr) of None \<Rightarrow> None
     | Some a \<Rightarrow> if Route_Enabled (WebhookServer_Route (bApplicationSet_WebhookServer a)) then Some a else None)"

definition applicationSetIngress :: "env \<Rightarrow> ArgoCD_beta \<Rightarrow> ArgoCDApplicationSet_beta \<Rightarrow> string \<Rightarrow> ingress" where
  "applicationSetIngress e cr a host =
     (let i = newIngressWithSuffix e ''applicationset-controller'' cr;
          s = WebhookServer_Ingress (bApplicationSet_WebhookServer a)
      in i\<lparr>ingMeta := (ingMeta i)\<lparr>metaAnnotations := orDefaultMap (Ingress_Annotations s)
             (gmap [(sslRedirect, ''true''), (backendProtocol, ''HTTP'')])\<rparr>,
           ingRules := Some [httpRule host ''/api/webhook'' (nameWithSuffix e ''applicationset-controller'' cr) ''webhook''],
           ingTLS := orDefaultTLS (Ingress_TLS s) None\<rparr>)"

definition reconcileApplicationSetControllerIngress :: "env \<Rightarrow> 'w client \<Rightarrow> ArgoCD_beta \<Rightarrow> ('w, unit) act" where
  "reconcileApplicationSetControllerIngress e c cr =
     bindG (findIngress c (newIngressWithSuffix e ''applicationset-controller'' cr)) (\<lambda>found. case found of
         Some x \<Rightarrow> (case webhookIngressOf cr of None \<Rightarrow> deleteO c (ingKey x) | Some _ \<Rightarrow> ret ())
       | None \<Rightarrow> (case webhookIngressOf cr of
             None \<Rightarrow> ret ()
           | Some a \<Rightarrow> bindG (liftE (getApplicationSetHTTPServerHost cr a)) (\<lambda>host.
               createOwnedIngress e c cr (applicationSetIngress e cr a host))))"

definition reconcileIngresses :: "env \<Rightarrow> 'w client \<Rightarrow> ArgoCD_beta \<Rightarrow> ('w, unit) act" where
  "reconcileIngresses e c cr =
     thenG (reconcileArgoServerIngress e c cr)
     (thenG (reconcileArgoServerGRPCIngress e c cr)
     (thenG (reconcileGrafanaIngress e c cr)
     (thenG (reconcilePrometheusIngress e c cr)
       (reconcileApplicationSetControllerIngress e c cr))))"

section \<open>State of the Route reconcilers\<close>

record DeprecationEventEmissionStatus =
  SSOSpecDeprecationWarningEmitted :: bool
  DexSpecDeprecationWarningEmitted :: bool
  DisableDexDeprecationWarningEmitted :: bool
  TLSInsecureWarningEmitted :: bool

record 'w route_state =
  rsWorld :: 'w
  rsTracker :: "(string, DeprecationEventEmissionStatus) fmap"

definition onRsWorld :: "('w, 'a) act \<Rightarrow> ('w route_state, 'a) act" where
  "onRsWorld m = (\<lambda>s. case m (rsWorld s) of (r, w') \<Rightarrow> (r, s\<lparr>rsWorld := w'\<rparr>))"

definition CreateEvent ::
  "'w client \<Rightarrow> (string \<Rightarrow> string) \<Rightarrow> string \<Rightarrow> string \<Rightarrow> string \<Rightarrow> string \<Rightarrow> object_meta \<Rightarrow> ('w, unit) act" where
  "CreateEvent c gen eventType action message reason m =
     createO c (OEvent \<lparr>evMeta = (mkMeta (gen (metaName m @ ''-'')) (metaNamespace m))\<lparr>metaLabels := metaLabels m\<rparr>,
       evType = eventType, evAction = action, evMessage = message, evReason = reason,
       evInvolvedNamespace = metaNamespace m, evInvolvedName = metaName m\<rparr>)"

text \<open>The warning about key and certificate in the resource, once per namespace.\<close>

definition warnInsecureTLS :: "'w client \<Rightarrow> (string \<Rightarrow> string) \<Rightarrow> ArgoCD_beta \<Rightarrow> ('w route_state, unit) act" where
  "warnInsecureTLS c gen cr = (\<lambda>s.
     case fmlookup (rsTracker s) (crNamespace cr) of
       Some st \<Rightarrow>
         if TLSInsecureWarningEmitted st then (Ok (), s)
         else bindG (onRsWorld (CreateEvent c gen ''Warning'' ''Insecure field Used''
             ''.tls.key and .tls.certificate are insecure in ArgoCD CR and not recommended. Use .tls.externalCertificate to reference a TLS secret instead.''
             ''InsecureFields'' (bArgoCD_Meta cr)))
           (\<lambda>_ t. (Ok (), t\<lparr>rsTracker := fmupd (crNamespace cr) (st\<lparr>TLSInsecureWarningEmitted := True\<rparr>) (rsTracker t)\<rparr>)) s
     | None \<Rightarrow>
         bindG (onRsWorld (CreateEvent c gen ''Warning'' ''Insecure field Used''
             ''.tls.key and .tls.certificate are insecure in ArgoCD CR and not recommended. Use .tls.externalCertificate to reference a TLS secret instead.''
             ''InsecureFields'' (bArgoCD_Meta cr)))
           (\<lambda>_ t. (Ok (), t\<lparr>rsTracker := fmupd (crNamespace cr)
              \<lparr>SSOSpecDeprecationWarningEmitted = False, DexSpecDeprecationWarningEmitted = False,
               DisableDexDeprecationWarningEmitted = False, TLSInsecureWarningEmitted = True\<rparr> (rsTracker t)\<rparr>)) s)"

definition tlsSecretKey :: "string \<Rightarrow> string \<Rightarrow> key" where
  "tlsSecretKey ns name = (KSecret, ns, name)"

text \<open>The TLS section of a Route in a namespace from that of the resource.\<close>

definition overrideRouteTLS ::
  "'w client \<Rightarrow> (string \<Rightarrow> string) \<Rightarrow> ArgoCD_beta \<Rightarrow> string \<Rightarrow> route_tls \<Rightarrow> ('w route_state, route_tls) act" where
  "overrideRouteTLS c gen cr routeNamespace tls =
     thenG (if rtlsKey tls \<noteq> '''' \<or> rtlsCertificate tls \<noteq> '''' then warnInsecureTLS c gen cr else ret ())
     (bindG (case rtlsExternalCertificate tls of
          Some name \<Rightarrow>
            if name = '''' then ret tls
            else bindG (onRsWorld (getAs c as_secret (tlsSecretKey routeNamespace name))) (\<lambda>sec.
              if secType sec \<noteq> ''kubernetes.io/tls''
              then fail (ErrorText (''secret '' @ metaName (secMeta sec) @ '' in namespace '' @ metaNamespace (secMeta sec) @
                     '' is not of type kubernetes.io/tls''))
              else ret (tls\<lparr>rtlsCertificate := gindex (secData sec) ''tls.crt'', rtlsKey := gindex (secData sec) ''tls.key''\<rparr>))
        | None \<Rightarrow> ret tls)
     (\<lambda>t. ret (t\<lparr>rtlsExternalCertificate := None\<rparr>)))"

section \<open>Routes\<close>

definition newRouteWithName :: "string \<Rightarrow> ArgoCD_beta \<Rightarrow> route" where
  "newRouteWithName name cr = \<lparr>rtMeta = namedMeta name cr, rtHost = '''', rtPath = '''', rtPort = None, rtTLS = None,
     rtToKind = '''', rtToName = '''', rtWildcardPolicy = '''', rtIngress = None\<rparr>"

definition newRouteWithSuffix :: "env \<Rightarrow> string \<Rightarrow> ArgoCD_beta \<Rightarrow> route" where
  "newRouteWithSuffix e sfx cr = newRouteWithName (nameWithSuffix e sfx cr) cr"

definition rtKey :: "route \<Rightarrow> key" where
  "rtKey r = okey (ORoute r)"

definition findRoute :: "'w client \<Rightarrow> route \<Rightarrow> ('w, route option) act" where
  "findRoute c r = IsObjectFound c as_route (rtKey r)"

definition reconcileGrafanaRoute :: "env \<Rightarrow> 'w client \<Rightarrow> ArgoCD_beta \<Rightarrow> ('w, unit) act" where
  "reconcileGrafanaRoute e c cr =
     bindG (findRoute c (newRouteWithSuffix e ''grafana'' cr)) (\<lambda>found. case found of
         Some x \<Rightarrow> if \<not> Grafana_Enabled (bSpec_Grafana (spec cr)) \<or> \<not> Route_Enabled (Grafana_Route (bSpec_Grafana (spec cr)))
           then deleteO c (rtKey x) else ret ()
       | None \<Rightarrow> ret ())"

definition reconcilePrometheusRoute :: "env \<Rightarrow> 'w client \<Rightarrow> ArgoCD_beta \<Rightarrow> ('w, unit) act" where
  "reconcilePrometheusRoute e c cr =
     bindG (findRoute c (newRouteWithSuffix e ''prometheus'' cr)) (\<lambda>found. case found of
         Some x \<Rightarrow> deleteO c (rtKey x)
       | None \<Rightarrow> ret ())"

definition simpleTLS :: "string \<Rightarrow> route_tls" where
  "simpleTLS termination = \<lparr>rtlsTermination = termination, rtlsCertificate = '''', rtlsKey = '''', rtlsCACertificate = '''',
     rtlsDestinationCACertificate = '''', rtlsInsecureEdgeTerminationPolicy = ''Redirect'', rtlsExternalCertificate = None\<rparr>"

text \<open>\<open>maps.Copy\<close> into the labels of the Route, which panics when they are nil.\<close>

definition copyInto :: "gomap \<Rightarrow> gomap \<Rightarrow> gomap outcome" where
  "copyInto dst src = (case src of None \<Rightarrow> Ok dst | Some g \<Rightarrow>
     (case dst of None \<Rightarrow> if g = fmempty then Ok None else Panic NilMapWrite | Some f \<Rightarrow> Ok (Some (f ++\<^sub>f g))))"

definition overrideRouteMeta :: "ArgoCDRouteSpec \<Rightarrow> route \<Rightarrow> route outcome" where
  "overrideRouteMeta s r =
     (let m = rtMeta r; m' = (if glen (Route_Annotations s) > 0 then m\<lparr>metaAnnotations := Route_Annotations s\<rparr> else m)
      in if glen (Route_Labels s) > 0
         then (case copyInto (metaLabels m') (Route_Labels s) of
             Ok l \<Rightarrow> Ok (r\<lparr>rtMeta := m'\<lparr>metaLabels := l\<rparr>\<rparr>) | Err err \<Rightarrow> Err err | Panic p \<Rightarrow> Panic p)
         else Ok (r\<lparr>rtMeta := m'\<rparr>))"

definition wildcardOr :: "string option \<Rightarrow> string \<Rightarrow> string" where
  "wildcardOr p old = (case p of Some w \<Rightarrow> if w \<noteq> '''' then w else old | None \<Rightarrow> old)"

text \<open>Create the Route, or update it when it was found, with the instance as its owner.\<close>

definition saveRoute :: "env \<Rightarrow> 'w client \<Rightarrow> ArgoCD_beta \<Rightarrow> bool \<Rightarrow> route \<Rightarrow> ('w, unit) act" where
  "saveRoute e c cr found r =
     bindG (controlledBy e cr (rtMeta r)) (\<lambda>m.
       if \<not> found then createO c (ORoute (r\<lparr>rtMeta := m\<rparr>)) else updateO c (ORoute (r\<lparr>rtMeta := m\<rparr>)))"

text \<open>The port and TLS section of the server's Route before the overrides: Passthrough is kept for a TLS
  secret that the user made.\<close>

definition serverRouteTLS :: "env \<Rightarrow> ArgoCD_beta \<Rightarrow> secret option \<Rightarrow> route_tls" where
  "serverRouteTLS e cr tlsSecret =
     (if Route_TLS (bServer_Route (bSpec_Server (spec cr))) = None \<and>
         (case tlsSecret of None \<Rightarrow> False | Some sec \<Rightarrow> \<not> isCreatedByServiceCA (nameWithSuffix e ''server'' cr) sec)
      then simpleTLS ''passthrough'' else simpleTLS ''reencrypt'')"

definition reconcileServerRoute ::
  "env \<Rightarrow> 'w client \<Rightarrow> (string \<Rightarrow> string) \<Rightarrow> ArgoCD_beta \<Rightarrow> ('w route_state, unit) act" where
  "reconcileServerRoute e c gen cr =
     (let server = bSpec_Server (spec cr); s = bServer_Route server; new = newRouteWithSuffix e ''server'' cr
      in bindG (onRsWorld (findRoute c new)) (\<lambda>found.
         if \<not> Route_Enabled s then (case found of Some x \<Rightarrow> onRsWorld (deleteO c (rtKey x)) | None \<Rightarrow> ret ())
         else bindG (liftO (overrideRouteMeta s (case found of None \<Rightarrow> new | Some x \<Rightarrow> x))) (\<lambda>r1.
           let r2 = (if bServer_Host server \<noteq> '''' then r1\<lparr>rtHost := bServer_Host server\<rparr> else r1)
           in bindG (liftE (shortenHostname (rtHost r2))) (\<lambda>hostname.
           bindG (if bServer_Insecure server
                  then ret (r2\<lparr>rtHost := hostname, rtPort := Some ''http'', rtTLS := Some (simpleTLS ''edge'')\<rparr>)
                  else bindG (onRsWorld (IsObjectFound c as_secret (tlsSecretKey (crNamespace cr) ArgoCDServerTLSSecretName)))
                    (\<lambda>tlsSecret. ret (r2\<lparr>rtHost := hostname, rtPort := Some ''https'',
                       rtTLS := Some (serverRouteTLS e cr tlsSecret)\<rparr>))) (\<lambda>r3.
           bindG (case Route_TLS s of
                 None \<Rightarrow> ret r3
               | Some tls \<Rightarrow> bindG (overrideRouteTLS c gen cr (metaNamespace (rtMeta r3)) tls) (\<lambda>t. ret (r3\<lparr>rtTLS := Some t\<rparr>))) (\<lambda>r4.
           onRsWorld (saveRoute e c cr (found \<noteq> None)
             (r4\<lparr>rtToKind := ''Service'', rtToName := nameWithSuffix e ''server'' cr,
                 rtWildcardPolicy := wildcardOr (Route_WildcardPolicy s) (rtWildcardPolicy r4),
                 rtPath := Route_Path s\<rparr>)))))))) "

text \<open>\<open>strings.SplitN(host, ".", 2)\<close>, the first part cut to 63 characters, and joined again.\<close>

definition truncateFirstLabel :: "string \<Rightarrow> string" where
  "truncateFirstLabel host = take 63 (takeWhile (\<lambda>ch. ch \<noteq> CHR ''.'') host) @ dropWhile (\<lambda>ch. ch \<noteq> CHR ''.'') host"

definition webhookRouteHost :: "env \<Rightarrow> 'w client \<Rightarrow> ArgoCD_beta \<Rightarrow> ArgoCDApplicationSet_beta \<Rightarrow> ('w, string) act" where
  "webhookRouteHost e c cr a =
     (let h = WebhookServer_Host (bApplicationSet_WebhookServer a)
      in if h \<noteq> '''' then ret h
         else bindG (getAs c as_ingress_config (KIngressConfig, '''', ''cluster'')) (\<lambda>cfg.
           ret (TruncateCRName e (crName cr) @ ''-appset-webhook-'' @ crNamespace cr @ ''.'' @ icDomain cfg)))"

definition webhookRouteTLS :: "route_tls \<Rightarrow> route_tls \<Rightarrow> route_tls" where
  "webhookRouteTLS given tls = tls\<lparr>
     rtlsTermination := (if rtlsTermination given \<noteq> '''' then rtlsTermination given else ''edge''),
     rtlsCACertificate := (if rtlsCACertificate given \<noteq> '''' then rtlsCACertificate given else rtlsCACertificate tls),
     rtlsDestinationCACertificate := (if rtlsDestinationCACertificate given \<noteq> '''' then rtlsDestinationCACertificate given
        else rtlsDestinationCACertificate tls),
     rtlsInsecureEdgeTerminationPolicy := (if rtlsInsecureEdgeTerminationPolicy given \<noteq> ''''
        then rtlsInsecureEdgeTerminationPolicy given else ''Redirect'')\<rparr>"

definition reconcileApplicationSetControllerWebhookRoute ::
  "env \<Rightarrow> 'w client \<Rightarrow> (string \<Rightarrow> string) \<Rightarrow> ArgoCD_beta \<Rightarrow> ('w route_state, unit) act" where
  "reconcileApplicationSetControllerWebhookRoute e c gen cr =
     (let new = newRouteWithName (nameWithSuffix e ''appset-webhook'' cr) cr
      in bindG (onRsWorld (findRoute c new)) (\<lambda>found.
         case webhookRouteOf cr of
           None \<Rightarrow> (case found of Some x \<Rightarrow> onRsWorld (deleteO c (rtKey x)) | None \<Rightarrow> ret ())
         | Some a \<Rightarrow>
             let s = WebhookServer_Route (bApplicationSet_WebhookServer a)
             in bindG (liftO (overrideRouteMeta s (case found of None \<Rightarrow> new | Some x \<Rightarrow> x))) (\<lambda>r1.
                bindG (onRsWorld (webhookRouteHost e c cr a)) (\<lambda>host.
                bindG (liftE (shortenHostname (truncateFirstLabel host))) (\<lambda>hostname.
                let r2 = r1\<lparr>rtHost := hostname, rtPort := Some ''webhook''\<rparr>
                in bindG (case Route_TLS s of
                      Some given \<Rightarrow> bindG (overrideRouteTLS c gen cr (metaNamespace (rtMeta r2)) given)
                        (\<lambda>t. ret (r2\<lparr>rtTLS := Some (webhookRouteTLS given t)\<rparr>))
                    | None \<Rightarrow> ret (r2\<lparr>rtTLS := Some (simpleTLS ''edge'')\<rparr>)) (\<lambda>r3.
                onRsWorld (saveRoute e c cr (found \<noteq> None)
                  (r3\<lparr>rtToKind := ''Service'', rtToName := nameWithSuffix e ''applicationset-controller'' cr,
                      rtWildcardPolicy := wildcardOr (Route_WildcardPolicy s) (rtWildcardPolicy r3)\<rparr>)))))))) "

definition reconcileRoutes ::
  "env \<Rightarrow> 'w client \<Rightarrow> (string \<Rightarrow> string) \<Rightarrow> ArgoCD_beta \<Rightarrow> ('w route_state, unit) act" where
  "reconcileRoutes e c gen cr =
     thenG (onRsWorld (reconcileGrafanaRoute e c cr))
     (thenG (onRsWorld (reconcilePrometheusRoute e c cr))
     (thenG (reconcileServerRoute e c gen cr)
       (reconcileApplicationSetControllerWebhookRoute e c gen cr)))"

end
