(* ===== verification/Instance_Routes_Correct.thy ===== *)
theory Instance_Routes_Correct
  imports Instance_Routes Instance_Services_Correct "HOL-Library.While_Combinator"
begin

text \<open>
  The bounds of shortened host names, and what the reconciliation of Ingresses and Routes achieves.
\<close>

section \<open>Host names\<close>

definition tailLength :: "string list \<Rightarrow> nat" where
  "tailLength rest = (if rest = [] then 0 else Suc (length (joinStr ''.'' rest)))"

lemma length_join: "length (joinStr ''.'' (l # rest)) = length l + tailLength rest"
  by (cases rest) (simp_all add: tailLength_def)

lemma shrinkFirst_closed: "shrinkFirst l rest = take (max 20 (253 - tailLength rest)) l"
proof (induction l rest rule: shrinkFirst.induct)
  case (1 l rest)
  show ?case
  proof (cases "length (joinStr ''.'' (l # rest)) > 253 \<and> length l > 20")
    case True
    then have "max 20 (253 - tailLength rest) \<le> length l - 1" by (auto simp: length_join)
    then have "take (max 20 (253 - tailLength rest)) (butlast l) = take (max 20 (253 - tailLength rest)) l"
      by (simp add: butlast_conv_take min_absorb1)
    with True 1 show ?thesis by (subst shrinkFirst.simps) simp
  next
    case False
    then show ?thesis by (subst shrinkFirst.simps) (auto simp: length_join)
  qed
qed

definition shrinkLoop :: "string \<Rightarrow> string list \<Rightarrow> string option" where
  "shrinkLoop l rest = while_option (\<lambda>l. length (joinStr ''.'' (l # rest)) > 253 \<and> length l > 20) butlast l"

lemma shrinkLoop_returns: "shrinkLoop l rest = Some (shrinkFirst l rest)"
proof (induction l rest rule: shrinkFirst.induct)
  case (1 l rest)
  show ?case unfolding shrinkLoop_def
    by (subst while_option_unfold, subst shrinkFirst.simps)
      (use 1 in \<open>simp add: shrinkLoop_def del: joinStr.simps\<close>)
qed

lemma shrinkFirst_length:
  "length (shrinkFirst l rest) \<le> length l" "length l \<ge> 20 \<Longrightarrow> length (shrinkFirst l rest) \<ge> 20"
  "length l < 20 \<Longrightarrow> shrinkFirst l rest = l"
  by (simp_all add: shrinkFirst_closed)

text \<open>The cases of \<open>shortenHostname\<close> for a name that is too long.\<close>

lemma shortenHostname_long:
  assumes "length h > 253" and "splitOn (CHR ''.'') h = label # rest"
  defines "l \<equiv> take 63 label"
  shows "shortenHostname h =
    (if \<exists>r \<in> set rest. length r > 63 then Inl (ErrorText ''label length exceeds 63 characters'')
     else if length l < 20 \<and> length l + tailLength rest > 253
     then Inl (ErrorText ''shortened first label is less than 20 characters'')
     else Inr (joinStr ''.'' (shrinkFirst l rest # rest)))"
proof -
  have l: "(if length label > 63 then take 63 label else label) = l" by (simp add: l_def)
  have s: "length l + tailLength rest \<le> 253 \<Longrightarrow> shrinkFirst l rest = l"
    by (simp add: shrinkFirst_closed)
  from assms(1) have ne: "h \<noteq> ''''" "\<not> length h \<le> 253" by auto
  have short: "length (shrinkFirst l rest) < 20 \<longleftrightarrow> length l < 20"
    using shrinkFirst_length[of l rest] by (metis leI not_less)
  show ?thesis
    unfolding shortenHostname_def if_not_P[OF ne(1)] if_not_P[OF ne(2)] assms(2) list.case Let_def l
    using s short shrinkFirst_length(3)[of l rest] by (auto simp: length_join simp del: joinStr.simps)
qed

section \<open>Ingresses\<close>

definition ingressKey :: "env \<Rightarrow> ArgoCD_beta \<Rightarrow> string \<Rightarrow> key" where
  "ingressKey e cr sfx = (KIngress, crNamespace cr, nameWithSuffix e sfx cr)"

definition ingressWith :: "(ingress \<Rightarrow> bool) \<Rightarrow> obj option \<Rightarrow> bool" where
  "ingressWith Q v \<longleftrightarrow> (\<exists>i. v = Some (OIngress i) \<and> Q i)"

abbreviation someIngress :: "obj option \<Rightarrow> bool" where
  "someIngress \<equiv> ingressWith (\<lambda>_. True)"

lemma ingressWith_Some [simp]: "ingressWith Q (Some (OIngress i)) = Q i"
  by (simp add: ingressWith_def)

lemma as_ingress_Some [simp]: "as_ingress x = Some i \<longleftrightarrow> x = OIngress i"
  by (cases x) auto

lemma okey_ingKey: "okey (OIngress i) = ingKey i"
  by (simp add: ingKey_def)

lemma ingKey_simps [simp]:
  "ingKey (newIngressWithSuffix e sfx cr) = ingressKey e cr sfx"
  "ingKey (serverIngress e cr) = ingressKey e cr ''server''"
  "ingKey (grpcIngress e cr) = ingressKey e cr ''grpc''"
  "ingKey (applicationSetIngress e cr a host) = ingressKey e cr ''applicationset-controller''"
  by (simp_all add: ingKey_def okey_def ingressKey_def newIngressWithSuffix_def serverIngress_def grpcIngress_def
      applicationSetIngress_def Let_def)

lemma ingKey_owned: "m = (ingMeta i)\<lparr>metaOwners := metaOwners m\<rparr> \<Longrightarrow> ingKey (i\<lparr>ingMeta := m\<rparr>) = ingKey i"
  by (cases i, cases m) (simp add: ingKey_def okey_def)

lemma not_refreshable_ingress [simp]: "\<not> refreshable (fst (ingressKey e cr sfx))"
  by (simp add: refreshable_def ingressKey_def)

text \<open>The Ingress of the server after a pass: as the operator wants it but for the annotations, which are the
  given ones.\<close>

definition serverIngressIs :: "env \<Rightarrow> ArgoCD_beta \<Rightarrow> gomap \<Rightarrow> ingress \<Rightarrow> bool" where
  "serverIngressIs e cr annotations i \<longleftrightarrow> metaAnnotations (ingMeta i) = annotations \<and>
     ingRules i = ingRules (serverIngress e cr) \<and> ingTLS i = ingTLS (serverIngress e cr) \<and>
     ingClassName i = Ingress_IngressClassName (bServer_Ingress (bSpec_Server (spec cr)))"

lemma serverIngress_class:
  "ingClassName (serverIngress e cr) = Ingress_IngressClassName (bServer_Ingress (bSpec_Server (spec cr)))"
  by (simp add: serverIngress_def Let_def)

lemma syncServerIngress_spec:
  assumes "syncServerIngress (bServer_Ingress (bSpec_Server (spec cr))) (serverIngress e cr) x = (changed, y)"
  shows "serverIngressIs e cr (Ingress_Annotations (bServer_Ingress (bSpec_Server (spec cr)))) y"
    and "ingKey y = ingKey x" and "\<not> changed \<Longrightarrow> y = x"
  using assms by (auto simp: syncServerIngress_def Let_def syncField_def serverIngressIs_def ingKey_def okey_def split: if_splits)

context verbatim_client
begin

lemma triple_createOwnedIngress:
  assumes "ingKey i = k"
    and "\<And>m. metaAnnotations m = metaAnnotations (ingMeta i) \<Longrightarrow> P (Some (OIngress (i\<lparr>ingMeta := m\<rparr>)))"
  shows "triple view F k Q P (createOwnedIngress e c cr i)"
  unfolding createOwnedIngress_def
proof (intro triple_controlledBy triple_create)
  fix m assume m: "m = (ingMeta i)\<lparr>metaOwners := metaOwners m\<rparr>"
  then show "okey (OIngress (i\<lparr>ingMeta := m\<rparr>)) = k" using assms(1) by (simp add: okey_ingKey ingKey_owned)
  show "P (Some (OIngress (i\<lparr>ingMeta := m\<rparr>)))" by (rule assms(2)[OF owned_meta(1)[OF m]])
qed

lemma triple_findIngress:
  assumes "triple view F (ingressKey e cr sfx) (\<lambda>v. v = None) P (n None)"
    and "\<And>i. ingKey i = ingressKey e cr sfx \<Longrightarrow>
      triple view F (ingressKey e cr sfx) (\<lambda>v. v = Some (OIngress i)) P (n (Some i))"
  shows "triple view F (ingressKey e cr sfx) (\<lambda>_. True) P (bindG (findIngress c (newIngressWithSuffix e sfx cr)) n)"
  unfolding findIngress_def ingKey_simps
  by (rule triple_find_any) (use assms in \<open>auto simp: okey_ingKey\<close>)

text \<open>The server's Ingress, according to whether it was there.\<close>

lemma reconcileArgoServerIngress_triple:
  fixes cr
  defines "s \<equiv> bServer_Ingress (bSpec_Server (spec cr))"
  shows "triple view F (ingressKey e cr ''server'') (\<lambda>v. v = None)
      (presentOrGone (Ingress_Enabled s) (ingressWith (serverIngressIs e cr (metaAnnotations (ingMeta (serverIngress e cr))))))
      (reconcileArgoServerIngress e c cr)"
    and "triple view F (ingressKey e cr ''server'') (\<lambda>v. v \<noteq> None)
      (presentOrGone (Ingress_Enabled s) (ingressWith (serverIngressIs e cr (Ingress_Annotations s))))
      (reconcileArgoServerIngress e c cr)"
proof -
  let ?k = "ingressKey e cr ''server''"
  let ?P1 = "presentOrGone (Ingress_Enabled s) (ingressWith (serverIngressIs e cr (metaAnnotations (ingMeta (serverIngress e cr)))))"
  let ?P2 = "presentOrGone (Ingress_Enabled s) (ingressWith (serverIngressIs e cr (Ingress_Annotations s)))"
  let ?n = "\<lambda>found. if \<not> Ingress_Enabled s then (case found of Some _ \<Rightarrow> deleteO c ?k | None \<Rightarrow> ret ())
         else (case found of
             Some existing \<Rightarrow> (case syncServerIngress s (serverIngress e cr) existing of
                 (changed, x) \<Rightarrow> if changed then updateO c (OIngress x) else ret ())
           | None \<Rightarrow> createOwnedIngress e c cr (serverIngress e cr))"
  have m: "reconcileArgoServerIngress e c cr = bindG (IsObjectFound c as_ingress ?k) ?n"
    unfolding reconcileArgoServerIngress_def Let_def s_def findIngress_def ingKey_simps ..
  have n: "triple view F ?k (\<lambda>v. v = None) ?P1 (?n None)"
    by (auto simp: serverIngressIs_def serverIngress_class s_def intro!: triple_ret triple_createOwnedIngress)
  have "triple view F ?k (\<lambda>v. v = Some (OIngress i)) ?P2 (?n (Some i))" if "ingKey i = ?k" for i
    using that syncServerIngress_spec[of cr e i, folded s_def]
    by (auto simp: okey_ingKey split: prod.split intro!: triple_if triple_ret triple_delete triple_update)
  then have p: "triple view F ?k (\<lambda>v. v = Some x) ?P2 (?n (Some a))" if "as_ingress x = Some a" "okey x = ?k" for a x
    using that by (auto simp: okey_ingKey)
  show "triple view F ?k (\<lambda>v. v = None) ?P1 (reconcileArgoServerIngress e c cr)"
    "triple view F ?k (\<lambda>v. v \<noteq> None) ?P2 (reconcileArgoServerIngress e c cr)"
    unfolding m by (rule triple_find_split[OF not_refreshable_ingress n p]; assumption)+
qed

lemma other_ingresses_triple:
  "triple view F (ingressKey e cr ''grpc'') (\<lambda>_. True)
     (presentOrGone (Ingress_Enabled (ServerGRPC_Ingress (bServer_GRPC (bSpec_Server (spec cr))))) someIngress)
     (reconcileArgoServerGRPCIngress e c cr)"
  "triple view F (ingressKey e cr ''grafana'') (\<lambda>_. True)
     (\<lambda>v. gone v \<or> Grafana_Enabled (bSpec_Grafana (spec cr)) \<and> Ingress_Enabled (Grafana_Ingress (bSpec_Grafana (spec cr))) \<and> someIngress v)
     (reconcileGrafanaIngress e c cr)"
  "triple view F (ingressKey e cr ''prometheus'') (\<lambda>_. True) gone (reconcilePrometheusIngress e c cr)"
  "triple view F (ingressKey e cr ''applicationset-controller'') (\<lambda>_. True)
     (presentOrGone (webhookIngressOf cr \<noteq> None) someIngress) (reconcileApplicationSetControllerIngress e c cr)"
  unfolding reconcileArgoServerGRPCIngress_def reconcileGrafanaIngress_def reconcilePrometheusIngress_def
    reconcileApplicationSetControllerIngress_def Let_def
  by (rule triple_findIngress;
      auto intro!: triple_if triple_ret triple_delete triple_createOwnedIngress triple_liftE split: option.split)+

end

section \<open>All Ingresses\<close>

definition ingressNames :: "string list" where
  "ingressNames = [''server'', ''grpc'', ''grafana'', ''prometheus'', ''applicationset-controller'']"

definition distinctIngressNames :: "env \<Rightarrow> ArgoCD_beta \<Rightarrow> bool" where
  "distinctIngressNames e cr \<longleftrightarrow> distinct (map (ingressKey e cr) ingressNames)"

text \<open>What holds of the Ingresses after a pass that found, or did not find, the one of the server.\<close>

definition wantedIngresses :: "env \<Rightarrow> ArgoCD_beta \<Rightarrow> bool \<Rightarrow> (string \<times> (obj option \<Rightarrow> bool)) list" where
  "wantedIngresses e cr found =
     (let s = bServer_Ingress (bSpec_Server (spec cr)); grafana = bSpec_Grafana (spec cr)
      in [(''server'', presentOrGone (Ingress_Enabled s) (ingressWith (serverIngressIs e cr
             (if found then Ingress_Annotations s else metaAnnotations (ingMeta (serverIngress e cr)))))),
          (''grpc'', presentOrGone (Ingress_Enabled (ServerGRPC_Ingress (bServer_GRPC (bSpec_Server (spec cr))))) someIngress),
          (''grafana'', \<lambda>v. gone v \<or> Grafana_Enabled grafana \<and> Ingress_Enabled (Grafana_Ingress grafana) \<and> someIngress v),
          (''prometheus'', gone),
          (''applicationset-controller'', presentOrGone (webhookIngressOf cr \<noteq> None) someIngress)])"

definition laterIngressSteps :: "env \<Rightarrow> 'w client \<Rightarrow> ArgoCD_beta \<Rightarrow> 'w step list" where
  "laterIngressSteps e c cr = zip
     [reconcileArgoServerGRPCIngress e c cr, reconcileGrafanaIngress e c cr, reconcilePrometheusIngress e c cr,
      reconcileApplicationSetControllerIngress e c cr]
     (map (\<lambda>(n, P). (ingressKey e cr n, P)) (tl (wantedIngresses e cr True)))"

lemma reconcileIngresses_steps:
  "reconcileIngresses e c cr = thenG (reconcileArgoServerIngress e c cr) (forG fst (laterIngressSteps e c cr))"
  by (simp add: reconcileIngresses_def laterIngressSteps_def wantedIngresses_def Let_def)

lemma step_keys_ingresses: "step_keys (laterIngressSteps e c cr) = map (ingressKey e cr) (tl ingressNames)"
  by (simp add: laterIngressSteps_def wantedIngresses_def ingressNames_def Let_def)

lemma all_hold_ingresses:
  "all_hold (laterIngressSteps e c cr) v \<longleftrightarrow> (\<forall>(n, P) \<in> set (tl (wantedIngresses e cr b)). P (v (ingressKey e cr n)))"
  by (simp add: laterIngressSteps_def wantedIngresses_def Let_def conj_assoc)

context verbatim_client
begin

lemma laterIngressSteps_ensure: "all_ensure view {} (laterIngressSteps e c cr)"
  using other_ingresses_triple[of "{}" e cr]
  by (simp add: laterIngressSteps_def wantedIngresses_def Let_def ensures_triple)

lemma reconcileIngresses_fp: "act_rel (same_outside view (ingressKey e cr ` set ingressNames)) (reconcileIngresses e c cr)"
proof -
  have "act_rel (same_outside view (ingressKey e cr ` set ingressNames)) (reconcileArgoServerIngress e c cr)"
    by (rule triple_fp[OF reconcileArgoServerIngress_triple(1)[of "{}"]]) (simp add: ingressNames_def)
  moreover have "act_rel (same_outside view (ingressKey e cr ` set ingressNames)) (forG fst (laterIngressSteps e c cr))"
    by (rule steps_fp[OF laterIngressSteps_ensure]) (auto simp: step_keys_ingresses ingressNames_def)
  ultimately show ?thesis unfolding reconcileIngresses_steps by (intro fp.rel_thenG)
qed

lemma reconcileIngresses_hold:
  assumes "distinctIngressNames e cr" and "reconcileIngresses e c cr w = (Ok (), w')"
  shows "\<forall>(n, P) \<in> set (wantedIngresses e cr (view w (ingressKey e cr ''server'') \<noteq> None)). P (view w' (ingressKey e cr n))"
proof -
  let ?k = "ingressKey e cr ''server''"
  let ?P = "snd (hd (wantedIngresses e cr (view w ?k \<noteq> None)))"
  from assms(2) obtain w1 where m: "reconcileArgoServerIngress e c cr w = (Ok (), w1)"
    and r: "forG fst (laterIngressSteps e c cr) w1 = (Ok (), w')"
    by (auto simp: reconcileIngresses_steps thenG_Ok_iff)
  have d: "distinct (step_keys (laterIngressSteps e c cr))" "?k \<notin> set (step_keys (laterIngressSteps e c cr))"
    using assms(1) by (simp_all add: step_keys_ingresses distinctIngressNames_def ingressNames_def)
  have "?P (view w1 ?k)"
    using tripleD[OF reconcileArgoServerIngress_triple(1)[of "{}"] m] tripleD[OF reconcileArgoServerIngress_triple(2)[of "{}"] m]
    by (cases "view w ?k") (simp_all add: wantedIngresses_def Let_def)
  moreover have "act_rel (same_outside view (set (step_keys (laterIngressSteps e c cr)))) (forG fst (laterIngressSteps e c cr))"
    by (rule steps_fp[OF laterIngressSteps_ensure]) simp
  from act_relD[OF this r] d(2) have "view w' ?k = view w1 ?k" by (rule same_outsideD)
  ultimately have "?P (view w' ?k)" by simp
  moreover have "all_hold (laterIngressSteps e c cr) (view w')"
    by (rule steps_establish[OF laterIngressSteps_ensure d(1) _ r]) simp
  ultimately show ?thesis
    unfolding all_hold_ingresses[of _ _ _ _ "view w ?k \<noteq> None"] by (simp add: wantedIngresses_def Let_def)
qed

end

section \<open>The client on the state of the Route reconcilers\<close>

definition rsClient :: "'w client \<Rightarrow> 'w route_state client" where
  "rsClient c = \<lparr>
     cGet = (\<lambda>s k. case cGet c (rsWorld s) k of (r, w') \<Rightarrow> (r, s\<lparr>rsWorld := w'\<rparr>)),
     cList = (\<lambda>s k. case cList c (rsWorld s) k of (r, w') \<Rightarrow> (r, s\<lparr>rsWorld := w'\<rparr>)),
     cCreate = (\<lambda>s x. case cCreate c (rsWorld s) x of (r, w') \<Rightarrow> (r, s\<lparr>rsWorld := w'\<rparr>)),
     cUpdate = (\<lambda>s x. case cUpdate c (rsWorld s) x of (r, w') \<Rightarrow> (r, s\<lparr>rsWorld := w'\<rparr>)),
     cDelete = (\<lambda>s k. case cDelete c (rsWorld s) k of (r, w') \<Rightarrow> (r, s\<lparr>rsWorld := w'\<rparr>)),
     cPatch = (\<lambda>s x y. case cPatch c (rsWorld s) x y of (r, w') \<Rightarrow> (r, s\<lparr>rsWorld := w'\<rparr>))\<rparr>"

abbreviation rsView :: "('w \<Rightarrow> key \<Rightarrow> obj option) \<Rightarrow> 'w route_state \<Rightarrow> key \<Rightarrow> obj option" where
  "rsView view s \<equiv> view (rsWorld s)"

lemma rs_k8s: "k8s_client c view admit refresh \<Longrightarrow> k8s_client (rsClient c) (rsView view) admit refresh"
  unfolding k8s_client_def
  by (auto simp: rsClient_def split: prod.splits)

lemma rs_verbatim:
  assumes "verbatim_client c view admit refresh"
  shows "verbatim_client (rsClient c) (rsView view) admit refresh"
  using assms rs_k8s unfolding verbatim_client_def by blast

lemma onRsWorld_bind: "onRsWorld (bindG m n) = bindG (onRsWorld m) (\<lambda>a. onRsWorld (n a))"
  by (auto simp: onRsWorld_def bindG_def handle_def fun_eq_iff split: prod.splits outcome.splits)

lemma onRsWorld_handle: "onRsWorld (handle m h n) = handle (onRsWorld m) (\<lambda>e. onRsWorld (h e)) (\<lambda>a. onRsWorld (n a))"
  by (auto simp: onRsWorld_def handle_def fun_eq_iff split: prod.splits outcome.splits)

lemma onRsWorld_simps [simp]:
  "onRsWorld (ret a) = ret a" "onRsWorld (fail err) = fail err" "onRsWorld (panic p) = panic p"
  "onRsWorld (controlledBy e cr m) = controlledBy e cr m"
  "onRsWorld (getO c k) = getO (rsClient c) k" "onRsWorld (createO c x) = createO (rsClient c) x"
  "onRsWorld (updateO c x) = updateO (rsClient c) x" "onRsWorld (deleteO c k) = deleteO (rsClient c) k"
  by (auto simp: onRsWorld_def fun_eq_iff controlledBy_def liftE_def getO_def createO_def updateO_def deleteO_def
      rsClient_def write_result_def split: prod.splits sum.splits option.splits)

lemma onRsWorld_getAs [simp]: "onRsWorld (getAs c cast k) = getAs (rsClient c) cast k"
  by (simp add: getAs_def onRsWorld_bind) (auto intro!: arg_cong[where f = "bindG _"] split: option.splits)

lemma onRsWorld_find [simp]: "onRsWorld (IsObjectFound c cast k) = IsObjectFound (rsClient c) cast k"
  unfolding IsObjectFound_def onRsWorld_handle by (auto intro!: arg_cong[where f = "\<lambda>h. handle _ h _"])

lemma onRsWorld_saveRoute [simp]: "onRsWorld (saveRoute e c cr b r) = saveRoute e (rsClient c) cr b r"
  by (cases b) (simp_all add: saveRoute_def onRsWorld_bind)

lemma onRsWorld_event [simp]: "onRsWorld (CreateEvent c gen t a m r x) = CreateEvent (rsClient c) gen t a m r x"
  by (simp add: CreateEvent_def)

section \<open>The Route of the server\<close>

definition routeKey :: "env \<Rightarrow> ArgoCD_beta \<Rightarrow> string \<Rightarrow> key" where
  "routeKey e cr sfx = (KRoute, crNamespace cr, nameWithSuffix e sfx cr)"

definition routeWith :: "(route \<Rightarrow> bool) \<Rightarrow> obj option \<Rightarrow> bool" where
  "routeWith Q v \<longleftrightarrow> (\<exists>r. v = Some (ORoute r) \<and> Q r)"

lemma routeWith_Some [simp]: "routeWith Q (Some (ORoute r)) = Q r"
  by (simp add: routeWith_def)

lemma as_route_iff [simp]: "as_route x = Some r \<longleftrightarrow> x = ORoute r"
  by (cases x) auto

lemma okey_rtKey: "okey (ORoute r) = rtKey r"
  by (simp add: rtKey_def)

lemma rtKey_owned: "m = (rtMeta r)\<lparr>metaOwners := metaOwners m\<rparr> \<Longrightarrow> rtKey (r\<lparr>rtMeta := m\<rparr>) = rtKey r"
  by (cases r, cases m) (simp add: rtKey_def okey_def)

lemma rtKey_simps [simp]:
  "rtKey (newRouteWithName n cr) = (KRoute, crNamespace cr, n)" "rtKey (newRouteWithSuffix e sfx cr) = routeKey e cr sfx"
  "rtKey (r\<lparr>rtHost := x\<rparr>) = rtKey r" "rtKey (r\<lparr>rtPort := p\<rparr>) = rtKey r" "rtKey (r\<lparr>rtTLS := t\<rparr>) = rtKey r"
  "rtKey (r\<lparr>rtToKind := x\<rparr>) = rtKey r" "rtKey (r\<lparr>rtToName := x\<rparr>) = rtKey r"
  "rtKey (r\<lparr>rtWildcardPolicy := x\<rparr>) = rtKey r" "rtKey (r\<lparr>rtPath := x\<rparr>) = rtKey r"
  by (simp_all add: rtKey_def okey_def newRouteWithSuffix_def newRouteWithName_def routeKey_def)

lemma not_refreshable_route [simp]: "\<not> refreshable (fst (routeKey e cr sfx))"
  by (simp add: refreshable_def routeKey_def)

lemma overrideRouteMeta_Ok:
  assumes "overrideRouteMeta s r = Ok r'"
  shows "rtKey r' = rtKey r" and "rtHost r' = rtHost r"
  using assms by (auto simp: overrideRouteMeta_def Let_def rtKey_def okey_def split: if_splits outcome.splits)

text \<open>The objects besides the Route that a pass may touch: the event, and the secrets it reads.\<close>

definition routeFrame :: "(string \<Rightarrow> string) \<Rightarrow> ArgoCD_beta \<Rightarrow> route_tls option \<Rightarrow> key set" where
  "routeFrame gen cr tls = {(KEvent, crNamespace cr, gen (crName cr @ ''-'')), tlsSecretKey (crNamespace cr) ArgoCDServerTLSSecretName} \<union>
     (case tls of None \<Rightarrow> {} | Some t \<Rightarrow> (case rtlsExternalCertificate t of None \<Rightarrow> {} | Some n \<Rightarrow> {tlsSecretKey (crNamespace cr) n}))"

lemma route_not_in_frame [simp]: "routeKey e cr sfx \<notin> routeFrame gen cr tls"
  by (auto simp: routeFrame_def routeKey_def tlsSecretKey_def split: option.splits)

text \<open>What the Route's TLS section is, given the settings.\<close>

definition routeTLSIs :: "ArgoCDServerSpec_beta \<Rightarrow> route_tls \<Rightarrow> bool" where
  "routeTLSIs server t \<longleftrightarrow> (case Route_TLS (bServer_Route server) of
       Some tls \<Rightarrow> rtlsTermination t = rtlsTermination tls \<and> rtlsExternalCertificate t = None \<and>
         (rtlsExternalCertificate tls \<in> {None, Some ''''} \<longrightarrow> t = tls\<lparr>rtlsExternalCertificate := None\<rparr>)
     | None \<Rightarrow> if bServer_Insecure server then t = simpleTLS ''edge''
         else t \<in> {simpleTLS ''passthrough'', simpleTLS ''reencrypt''})"

definition serverRouteIs :: "env \<Rightarrow> ArgoCD_beta \<Rightarrow> route \<Rightarrow> bool" where
  "serverRouteIs e cr r \<longleftrightarrow> (let server = bSpec_Server (spec cr) in
     (bServer_Host server \<noteq> '''' \<longrightarrow> shortenHostname (bServer_Host server) = Inr (rtHost r)) \<and>
     rtPort r = Some (if bServer_Insecure server then ''http'' else ''https'') \<and>
     rtToKind r = ''Service'' \<and> rtToName r = nameWithSuffix e ''server'' cr \<and> rtPath r = Route_Path (bServer_Route server) \<and>
     (\<exists>t. rtTLS r = Some t \<and> routeTLSIs server t))"

lemma overrideRouteTLS_Ok:
  assumes "overrideRouteTLS c gen cr ns tls s = (Ok t, s')"
  shows "rtlsTermination t = rtlsTermination tls" and "rtlsExternalCertificate t = None"
    and "rtlsExternalCertificate tls \<in> {None, Some ''''} \<Longrightarrow> t = tls\<lparr>rtlsExternalCertificate := None\<rparr>"
  using assms by (auto simp: overrideRouteTLS_def ok_iff split: option.splits if_splits)

context verbatim_client
begin

lemma rs: "verbatim_client (rsClient c) (rsView view) admit refresh"
  by (rule rs_verbatim) unfold_locales

lemmas rs_k = verbatim_client.axioms(1)[OF rs]
lemmas rs_fp = k8s_client.getAs_fp[OF rs_k] k8s_client.createO_fp[OF rs_k] k8s_client.IsObjectFound_fp[OF rs_k]

lemma set_tracker_fp: "act_rel (same_outside (rsView view) S) (\<lambda>t. (Ok (), t\<lparr>rsTracker := g t\<rparr>))"
  by (simp add: act_rel_def same_outside_def)

lemma warnInsecureTLS_fp:
  assumes "(KEvent, crNamespace cr, gen (crName cr @ ''-'')) \<in> S"
  shows "act_rel (same_outside (rsView view) S) (warnInsecureTLS c gen cr)"
proof -
  have ev: "act_rel (same_outside (rsView view) S) (CreateEvent (rsClient c) gen t a m r (bArgoCD_Meta cr))" for t a m r
    using assms unfolding CreateEvent_def by (intro rs_fp) (simp add: okey_def)
  have "act_rel (same_outside (rsView view) S)
     (bindG (CreateEvent (rsClient c) gen t a m r (bArgoCD_Meta cr)) (\<lambda>_ t. (Ok (), t\<lparr>rsTracker := g t\<rparr>)))" for t a m r g
    by (intro fp.rel_bindG ev set_tracker_fp)
  note bnd = this[unfolded act_rel_def, rule_format]
  show ?thesis unfolding act_rel_def
    by (auto simp: warnInsecureTLS_def intro: bnd fp.R_refl split: option.split)
qed

lemma overrideRouteTLS_fp:
  "routeFrame gen cr (Some tls) \<subseteq> S \<Longrightarrow> act_rel (same_outside (rsView view) S) (overrideRouteTLS c gen cr (crNamespace cr) tls)"
  unfolding overrideRouteTLS_def onRsWorld_getAs
  by (intro fp.rel_thenG fp.rel_bindG fp.rel_if fp.rel_ret warnInsecureTLS_fp)
    (auto simp: routeFrame_def intro!: fp.rel_if fp.rel_ret fp.rel_bindG fp.rel_fail rs_fp(1) split: option.split)

lemma triple_saveRoute:
  assumes "rtKey r = k" and "\<And>m. P (Some (ORoute (r\<lparr>rtMeta := m\<rparr>)))"
  shows "triple (rsView view) F k Q P (saveRoute e (rsClient c) cr b r)"
  unfolding saveRoute_def
proof (rule triple_controlledBy)
  fix m assume "m = (rtMeta r)\<lparr>metaOwners := metaOwners m\<rparr>"
  with assms show "triple (rsView view) F k Q P
      (if \<not> b then createO (rsClient c) (ORoute (r\<lparr>rtMeta := m\<rparr>)) else updateO (rsClient c) (ORoute (r\<lparr>rtMeta := m\<rparr>)))"
    by (intro triple_if verbatim_client.triple_create[OF rs] verbatim_client.triple_update[OF rs])
      (simp_all add: okey_rtKey rtKey_owned)
qed

end

context verbatim_client
begin

text \<open>The two steps that choose the TLS section.\<close>

lemma routeTLS_base:
  fixes e cr
  defines "server \<equiv> bSpec_Server (spec cr)"
  assumes "(if bServer_Insecure server
       then ret (r\<lparr>rtHost := h, rtPort := Some ''http'', rtTLS := Some (simpleTLS ''edge'')\<rparr>)
       else bindG (onRsWorld (IsObjectFound c as_secret (tlsSecretKey (crNamespace cr) ArgoCDServerTLSSecretName)))
         (\<lambda>tlsSecret. ret (r\<lparr>rtHost := h, rtPort := Some ''https'', rtTLS := Some (serverRouteTLS e cr tlsSecret)\<rparr>))) s = (Ok r3, s')"
  shows "\<exists>t. r3 = r\<lparr>rtHost := h, rtPort := Some (if bServer_Insecure server then ''http'' else ''https''), rtTLS := Some t\<rparr> \<and>
    (Route_TLS (bServer_Route server) = None \<longrightarrow> routeTLSIs server t)"
  using assms by (auto simp: bindG_Ok_iff routeTLSIs_def serverRouteTLS_def split: if_splits)

lemma routeTLS_override:
  fixes cr
  defines "server \<equiv> bSpec_Server (spec cr)"
  assumes "(case Route_TLS (bServer_Route server) of
       None \<Rightarrow> ret r
     | Some tls \<Rightarrow> bindG (overrideRouteTLS c gen cr ns tls) (\<lambda>t. ret (r\<lparr>rtTLS := Some t\<rparr>))) s = (Ok r4, s')"
    and "rtTLS r = Some t0" and "Route_TLS (bServer_Route server) = None \<Longrightarrow> routeTLSIs server t0"
  shows "\<exists>t. r4 = r\<lparr>rtTLS := Some t\<rparr> \<and> routeTLSIs server t"
proof (cases "Route_TLS (bServer_Route server)")
  case None
  with assms(2) have "r4 = r" by simp
  then have "r4 = r\<lparr>rtTLS := Some t0\<rparr>" using assms(3) by simp
  with assms(4)[OF None] show ?thesis by blast
next
  case (Some tls)
  with assms(2) obtain t where t: "overrideRouteTLS c gen cr ns tls s = (Ok t, s')" and r4: "r4 = r\<lparr>rtTLS := Some t\<rparr>"
    by (auto simp: bindG_Ok_iff)
  with overrideRouteTLS_Ok[OF t] Some show ?thesis by (auto simp: routeTLSIs_def)
qed

lemma reconcileServerRoute_triple:
  fixes cr
  defines "server \<equiv> bSpec_Server (spec cr)"
  shows "triple (rsView view) (routeFrame gen cr (Route_TLS (bServer_Route server))) (routeKey e cr ''server'') (\<lambda>_. True)
     (presentOrGone (Route_Enabled (bServer_Route server)) (routeWith (serverRouteIs e cr)))
     (reconcileServerRoute e c gen cr)"
    (is "triple ?v ?F ?k _ ?P _")
proof -
  let ?s = "bServer_Route server" and ?new = "newRouteWithSuffix e ''server'' cr"
  define base where "base = (\<lambda>h (r :: route). if bServer_Insecure server
       then ret (r\<lparr>rtHost := h, rtPort := Some ''http'', rtTLS := Some (simpleTLS ''edge'')\<rparr>)
       else bindG (onRsWorld (IsObjectFound c as_secret (tlsSecretKey (crNamespace cr) ArgoCDServerTLSSecretName)))
         (\<lambda>tlsSecret. ret (r\<lparr>rtHost := h, rtPort := Some ''https'', rtTLS := Some (serverRouteTLS e cr tlsSecret)\<rparr>)))"
  define over where "over = (\<lambda>r :: route. case Route_TLS ?s of
       None \<Rightarrow> ret r
     | Some tls \<Rightarrow> bindG (overrideRouteTLS c gen cr (metaNamespace (rtMeta r)) tls) (\<lambda>t. ret (r\<lparr>rtTLS := Some t\<rparr>)))"
  define save where "save = (\<lambda>b r. onRsWorld (saveRoute e c cr b
      (r\<lparr>rtToKind := ''Service'', rtToName := nameWithSuffix e ''server'' cr,
         rtWildcardPolicy := wildcardOr (Route_WildcardPolicy ?s) (rtWildcardPolicy r), rtPath := Route_Path ?s\<rparr>)))"
  define body where "body = (\<lambda>b r0. bindG (liftO (overrideRouteMeta ?s r0)) (\<lambda>r1.
      bindG (liftE (shortenHostname (rtHost (if bServer_Host server \<noteq> '''' then r1\<lparr>rtHost := bServer_Host server\<rparr> else r1)))) (\<lambda>h.
      bindG (base h (if bServer_Host server \<noteq> '''' then r1\<lparr>rtHost := bServer_Host server\<rparr> else r1)) (\<lambda>r3.
      bindG (over r3) (save b)))))"
  have m: "reconcileServerRoute e c gen cr = bindG (IsObjectFound (rsClient c) as_route ?k) (\<lambda>found.
         if \<not> Route_Enabled ?s then (case found of Some x \<Rightarrow> deleteO (rsClient c) (rtKey x) | None \<Rightarrow> ret ())
         else body (found \<noteq> None) (case found of None \<Rightarrow> ?new | Some x \<Rightarrow> x))"
    unfolding reconcileServerRoute_def Let_def body_def base_def over_def save_def server_def findRoute_def
      onRsWorld_find onRsWorld_simps rtKey_simps ..
  have base_fp: "act_rel (same_outside ?v ?F) (base h r)" for h r
    unfolding base_def by (auto intro!: fp.rel_if fp.rel_ret fp.rel_bindG rs_fp simp: routeFrame_def)
  have over_fp: "act_rel (same_outside ?v ?F) (over r)" if "rtKey r = ?k" for r
  proof -
    from that have "metaNamespace (rtMeta r) = crNamespace cr" by (simp add: rtKey_def okey_def routeKey_def)
    then show ?thesis unfolding over_def
      by (auto intro!: fp.rel_ret fp.rel_bindG overrideRouteTLS_fp split: option.split)
  qed
  have body: "triple ?v ?F ?k Q (routeWith (serverRouteIs e cr)) (body b r0)" if r0: "rtKey r0 = ?k" for Q b r0
    unfolding body_def
  proof (intro triple_liftO triple_liftE)
    fix r1 h
    assume r1: "overrideRouteMeta ?s r0 = Ok r1"
      and h: "shortenHostname (rtHost (if bServer_Host server \<noteq> '''' then r1\<lparr>rtHost := bServer_Host server\<rparr> else r1)) = Inr h"
    let ?r2 = "if bServer_Host server \<noteq> '''' then r1\<lparr>rtHost := bServer_Host server\<rparr> else r1"
    have k2: "rtKey ?r2 = ?k" using overrideRouteMeta_Ok(1)[OF r1] r0 by simp
    show "triple ?v ?F ?k Q (routeWith (serverRouteIs e cr)) (bindG (base h ?r2) (\<lambda>r3. bindG (over r3) (save b)))"
    proof (rule triple_bind[OF base_fp subset_refl])
      fix r3 s s1 assume "base h ?r2 s = (Ok r3, s1)"
      then have "\<exists>t. r3 = ?r2\<lparr>rtHost := h, rtPort := Some (if bServer_Insecure server then ''http'' else ''https''), rtTLS := Some t\<rparr> \<and>
          (Route_TLS ?s = None \<longrightarrow> routeTLSIs server t)"
        unfolding base_def server_def by (rule routeTLS_base)
      then obtain t0
        where r3: "r3 = ?r2\<lparr>rtHost := h, rtPort := Some (if bServer_Insecure server then ''http'' else ''https''), rtTLS := Some t0\<rparr>"
          and t0: "Route_TLS ?s = None \<Longrightarrow> routeTLSIs server t0" by (elim exE conjE) simp
      from r3 have t3: "rtTLS r3 = Some t0" by simp
      from r3 k2 have k3: "rtKey r3 = ?k" by simp
      show "triple ?v ?F ?k Q (routeWith (serverRouteIs e cr)) (bindG (over r3) (save b))"
      proof (rule triple_bind[OF over_fp[OF k3] subset_refl])
        fix r4 s s1 assume "over r3 s = (Ok r4, s1)"
        then have "\<exists>t. r4 = r3\<lparr>rtTLS := Some t\<rparr> \<and> routeTLSIs server t"
          using t3 t0 unfolding over_def server_def by (rule routeTLS_override)
        then obtain t where r4: "r4 = r3\<lparr>rtTLS := Some t\<rparr>" and t: "routeTLSIs server t" by (elim exE conjE)
        show "triple ?v ?F ?k Q (routeWith (serverRouteIs e cr)) (save b r4)"
          unfolding save_def onRsWorld_saveRoute
        proof (rule triple_saveRoute)
          show "rtKey (r4\<lparr>rtToKind := ''Service'', rtToName := nameWithSuffix e ''server'' cr,
              rtWildcardPolicy := wildcardOr (Route_WildcardPolicy ?s) (rtWildcardPolicy r4), rtPath := Route_Path ?s\<rparr>) = ?k"
            using k3 by (simp add: r4)
          have "bServer_Host server \<noteq> '''' \<Longrightarrow> shortenHostname (bServer_Host server) = Inr h" using h by simp
          then show "routeWith (serverRouteIs e cr) (Some (ORoute (r4\<lparr>rtToKind := ''Service'', rtToName := nameWithSuffix e ''server'' cr,
              rtWildcardPolicy := wildcardOr (Route_WildcardPolicy ?s) (rtWildcardPolicy r4), rtPath := Route_Path ?s, rtMeta := m\<rparr>)))" for m
            using t by (simp add: serverRouteIs_def Let_def server_def[symmetric] r4 r3)
        qed
      qed simp
    qed simp
  qed
  show ?thesis unfolding m
    by (rule k8s_client.triple_find_any[OF rs_k])
      (auto simp: okey_rtKey intro!: triple_if triple_ret body k8s_client.triple_delete[OF rs_k])
qed

end

text \<open>The default TLS section and the host, which depend on what was there: a TLS secret of the user's, and the host
  of the Route.\<close>

definition userTLSSecret :: "env \<Rightarrow> ArgoCD_beta \<Rightarrow> obj option \<Rightarrow> bool" where
  "userTLSSecret e cr v \<longleftrightarrow> (case Option.bind v as_secret of None \<Rightarrow> False
     | Some sec \<Rightarrow> \<not> isCreatedByServiceCA (nameWithSuffix e ''server'' cr) sec)"

definition routeHost :: "obj option \<Rightarrow> string" where
  "routeHost v = (case Option.bind v as_route of None \<Rightarrow> '''' | Some r \<Rightarrow> rtHost r)"

lemma isCreatedByServiceCA_labels:
  "set_labels l (OSecret s) = set_labels l (OSecret s') \<Longrightarrow> isCreatedByServiceCA n s = isCreatedByServiceCA n s'"
  by (cases s; cases s'; cases "secMeta s"; cases "secMeta s'") (auto simp: isCreatedByServiceCA_def set_labels_def)

context verbatim_client
begin

lemma findSecretAt_user:
  assumes "IsObjectFound c as_secret k w = (Ok r, w')"
  shows "(case r of None \<Rightarrow> False | Some sec \<Rightarrow> \<not> isCreatedByServiceCA (nameWithSuffix e ''server'' cr) sec) \<longleftrightarrow> userTLSSecret e cr (view w k)"
proof (cases r)
  case None
  with assms have "view w k = None"
    unfolding IsObjectFound_def by (auto simp: handle_Ok_iff split: if_splits dest!: getAs_NotFound(1))
  with None show ?thesis by (simp add: userTLSSecret_def)
next
  case (Some sec)
  with assms have "getAs c as_secret k w = (Ok sec, w')"
    unfolding IsObjectFound_def by (auto simp: handle_Ok_iff split: if_splits)
  from getAs_found[OF this] obtain x0 x where v: "view w k = Some x0" and x: "x = x0 \<or> x = refresh x0" and a: "as_secret x = Some sec"
    by metis
  from x refresh_labels[of None x0] have same: "set_labels None x0 = set_labels None x" by auto
  moreover from a have "x = OSecret sec" by (cases x) auto
  ultimately obtain s0 where s0: "x0 = OSecret s0" by (cases x0) (auto simp: set_labels_def)
  with same \<open>x = OSecret sec\<close> have "isCreatedByServiceCA n s0 = isCreatedByServiceCA n sec" for n
    by (intro isCreatedByServiceCA_labels) simp
  with v s0 Some show ?thesis by (simp add: userTLSSecret_def)
qed

lemma reconcileServerRoute_details:
  fixes e cr
  defines "server \<equiv> bSpec_Server (spec cr)" and "k \<equiv> routeKey e cr ''server''"
  assumes run: "reconcileServerRoute e c gen cr s = (Ok (), s')" and en: "Route_Enabled (bServer_Route server)"
  shows "\<exists>r. view (rsWorld s') k = Some (ORoute r) \<and>
    shortenHostname (if bServer_Host server \<noteq> '''' then bServer_Host server else routeHost (view (rsWorld s) k)) = Inr (rtHost r) \<and>
    (Route_TLS (bServer_Route server) = None \<longrightarrow> rtTLS r = Some (simpleTLS (if bServer_Insecure server then ''edge''
       else if userTLSSecret e cr (view (rsWorld s) (tlsSecretKey (crNamespace cr) ArgoCDServerTLSSecretName)) then ''passthrough'' else ''reencrypt'')))"
proof -
  let ?s = "bServer_Route server"
  obtain found s1 r1 h r3 s3 r4 s4 where f: "IsObjectFound (rsClient c) as_route k s = (Ok found, s1)"
    and r1: "overrideRouteMeta ?s (case found of None \<Rightarrow> newRouteWithSuffix e ''server'' cr | Some x \<Rightarrow> x) = Ok r1"
    and h: "shortenHostname (rtHost (if bServer_Host server \<noteq> '''' then r1\<lparr>rtHost := bServer_Host server\<rparr> else r1)) = Inr h"
    and base: "(if bServer_Insecure server
       then ret ((if bServer_Host server \<noteq> '''' then r1\<lparr>rtHost := bServer_Host server\<rparr> else r1)\<lparr>rtHost := h, rtPort := Some ''http'', rtTLS := Some (simpleTLS ''edge'')\<rparr>)
       else bindG (IsObjectFound (rsClient c) as_secret (tlsSecretKey (crNamespace cr) ArgoCDServerTLSSecretName))
         (\<lambda>tlsSecret. ret ((if bServer_Host server \<noteq> '''' then r1\<lparr>rtHost := bServer_Host server\<rparr> else r1)\<lparr>rtHost := h, rtPort := Some ''https'', rtTLS := Some (serverRouteTLS e cr tlsSecret)\<rparr>))) s1 = (Ok r3, s3)"
    and over: "(case Route_TLS ?s of None \<Rightarrow> ret r3
       | Some tls \<Rightarrow> bindG (overrideRouteTLS c gen cr (metaNamespace (rtMeta r3)) tls) (\<lambda>t. ret (r3\<lparr>rtTLS := Some t\<rparr>))) s3 = (Ok r4, s4)"
    and save: "saveRoute e (rsClient c) cr (found \<noteq> None)
       (r4\<lparr>rtToKind := ''Service'', rtToName := nameWithSuffix e ''server'' cr,
           rtWildcardPolicy := wildcardOr (Route_WildcardPolicy ?s) (rtWildcardPolicy r4), rtPath := Route_Path ?s\<rparr>) s4 = (Ok (), s')"
    using run en
    unfolding reconcileServerRoute_def Let_def findRoute_def onRsWorld_find onRsWorld_saveRoute rtKey_simps server_def[symmetric] k_def[symmetric]
      bindG_Ok_iff[of "IsObjectFound (rsClient c) as_route k"]
    by (elim exE conjE) (simp only: simp_thms not_True_eq_False if_False if_True bindG_Ok_iff liftO_Ok_iff liftE_Ok_iff, blast)
  have nr: "\<not> refreshable (fst k)" by (simp add: k_def)
  note f = k8s_client.IsObjectFound_Ok[OF rs_k f nr]
  have host: "rtHost r1 = routeHost (view (rsWorld s) k)"
    using overrideRouteMeta_Ok(2)[OF r1] f(2) f(3)
    by (cases found) (auto simp: routeHost_def newRouteWithSuffix_def newRouteWithName_def)
  have keeps: "r4 = r3\<lparr>rtTLS := rtTLS r4\<rparr>" "Route_TLS ?s = None \<Longrightarrow> r4 = r3"
    using over by (auto simp: bindG_Ok_iff split: option.splits)
  have h3: "rtHost r3 = h" using base by (auto simp: bindG_Ok_iff split: if_splits)
  have tls: "rtTLS r3 = Some (simpleTLS (if bServer_Insecure server then ''edge''
      else if userTLSSecret e cr (view (rsWorld s) (tlsSecretKey (crNamespace cr) ArgoCDServerTLSSecretName)) then ''passthrough'' else ''reencrypt''))"
    if "Route_TLS ?s = None"
  proof (cases "bServer_Insecure server")
    case False
    with base obtain sec s2 where g: "IsObjectFound (rsClient c) as_secret (tlsSecretKey (crNamespace cr) ArgoCDServerTLSSecretName) s1 = (Ok sec, s2)"
      and r3: "rtTLS r3 = Some (serverRouteTLS e cr sec)" by (auto simp: bindG_Ok_iff)
    from verbatim_client.findSecretAt_user[OF rs g] f(1) r3 False that show ?thesis
      by (simp add: serverRouteTLS_def server_def)
  qed (use base in auto)
  let ?r = "r4\<lparr>rtToKind := ''Service'', rtToName := nameWithSuffix e ''server'' cr,
           rtWildcardPolicy := wildcardOr (Route_WildcardPolicy ?s) (rtWildcardPolicy r4), rtPath := Route_Path ?s\<rparr>"
  have "rtKey r1 = k" using overrideRouteMeta_Ok(1)[OF r1] f(3) f(2)
    by (cases found) (auto simp: k_def okey_rtKey dest!: k8s_client.view_key[OF rs_k])
  then have "rtKey r3 = k" using base by (auto simp: bindG_Ok_iff split: if_splits)
  then have "rtKey r4 = k" using keeps(1) by (metis rtKey_simps(5))
  then have rk: "rtKey ?r = k" by simp
  have "triple (rsView view) {} k (\<lambda>_. True) (\<lambda>v. \<exists>m. v = Some (ORoute (?r\<lparr>rtMeta := m\<rparr>))) (saveRoute e (rsClient c) cr (found \<noteq> None) ?r)"
    by (rule triple_saveRoute[OF rk]) blast
  from tripleD[OF this save] obtain m where "view (rsWorld s') k = Some (ORoute (?r\<lparr>rtMeta := m\<rparr>))" by blast
  moreover have "shortenHostname (if bServer_Host server \<noteq> '''' then bServer_Host server else routeHost (view (rsWorld s) k)) = Inr (rtHost r4)"
  proof -
    have "rtHost r4 = rtHost r3" by (subst keeps(1)) simp
    with h h3 host show ?thesis by (simp split: if_splits)
  qed
  ultimately show ?thesis using tls keeps(2) by (intro exI[of _ "?r\<lparr>rtMeta := m\<rparr>"]) auto
qed

end

section \<open>Properties\<close>

text \<open>C32. The loop that shortens the first label of a host name ends, whatever the labels, and leaves the
  longest prefix with which the name fits into 253 characters, but not less than 20 characters.\<close>

theorem shortenHostname_terminates:
  "while_option (\<lambda>l. length (joinStr ''.'' (l # rest)) > 253 \<and> length l > 20) butlast label = Some (shrinkFirst label rest) \<and>
   shrinkFirst label rest = take (max 20 (253 - tailLength rest)) label"
  using shrinkLoop_returns[of label rest] by (simp add: shrinkLoop_def shrinkFirst_closed del: joinStr.simps)

text \<open>C33. The bounds of shortened host names. A name of at most 253 characters comes back as it is, whatever
  the length of its labels. A longer one comes back with its first label cut to at most 63 characters and
  every other label at most 63 characters; the whole has at most 253 characters unless the first label has
  been cut to 20, when it may still be too long. An error is returned only when another label is too
  long or the first one had less than 20 characters to begin with.\<close>

theorem shortenHostname_bounds:
  "(length h \<le> 253 \<longrightarrow> shortenHostname h = Inr h) \<and>
   (length h > 253 \<longrightarrow> (case shortenHostname h of
      Inr r \<Rightarrow> (\<exists>label rest. splitOn (CHR ''.'') h = label # rest \<and> (\<forall>x \<in> set rest. length x \<le> 63) \<and>
          (\<exists>n. 20 \<le> n \<and> n \<le> 63 \<and> r = joinStr ''.'' (take n label # rest) \<and> (length r \<le> 253 \<or> n = 20)))
    | Inl err \<Rightarrow> (\<exists>x \<in> set (tl (splitOn (CHR ''.'') h)). length x > 63) \<or> length (hd (splitOn (CHR ''.'') h)) < 20))"
proof (intro conjI impI)
  show "shortenHostname h = Inr h" if "length h \<le> 253" using that by (simp add: shortenHostname_def)
next
  assume h: "length h > 253"
  obtain label rest where s: "splitOn (CHR ''.'') h = label # rest"
    using splitOn_ne by (metis list.exhaust)
  define n where "n = min 63 (max 20 (253 - tailLength rest))"
  have f: "shrinkFirst (take 63 label) rest = take n label"
    by (simp add: shrinkFirst_closed n_def min.commute)
  have "length (joinStr ''.'' (take n label # rest)) \<le> 253 \<or> n = 20"
    unfolding length_join n_def by auto
  with shortenHostname_long[OF h s] f show "case shortenHostname h of
      Inr r \<Rightarrow> (\<exists>label rest. splitOn (CHR ''.'') h = label # rest \<and> (\<forall>x \<in> set rest. length x \<le> 63) \<and>
          (\<exists>n. 20 \<le> n \<and> n \<le> 63 \<and> r = joinStr ''.'' (take n label # rest) \<and> (length r \<le> 253 \<or> n = 20)))
    | Inl err \<Rightarrow> (\<exists>x \<in> set (tl (splitOn (CHR ''.'') h)). length x > 63) \<or> length (hd (splitOn (CHR ''.'') h)) < 20"
    using s by (auto simp: not_less n_def simp del: joinStr.simps intro!: exI[of _ n])
qed

theorem shortenHostname_bounds_witness:
  "shortenHostname (replicate 64 (CHR ''a'')) = Inr (replicate 64 (CHR ''a''))"
  using shortenHostname_bounds[of "replicate 64 (CHR ''a'')"] by simp

text \<open>The Ingresses of an instance: after a pass without an error, those that are enabled are there and
  those that are not are gone, Prometheus' always; that of the server has the rules, the TLS section and
  the class the resource asks for. Its annotations are the defaulted ones when the pass created it, and
  those of the resource when it was there, so that the second pass takes the default annotations of the
  first away. Nothing else changes.\<close>

theorem reconcileIngresses_spec:
  assumes "verbatim_client c view admit refresh" and "distinctIngressNames e cr"
    and "reconcileIngresses e c cr w = (Ok (), w')"
  shows "(\<forall>(n, P) \<in> set (wantedIngresses e cr (view w (ingressKey e cr ''server'') \<noteq> None)).
      P (view w' (ingressKey e cr n))) \<and>
    same_outside view (ingressKey e cr ` set ingressNames) w w'"
  using verbatim_client.reconcileIngresses_hold[OF assms] act_relD[OF verbatim_client.reconcileIngresses_fp[OF assms(1)] assms(3)]
  by blast

definition sampleIngressCR :: ArgoCD_beta where
  "sampleIngressCR = samplePolicyCR\<lparr>bArgoCD_Spec := (spec samplePolicyCR)\<lparr>bSpec_Server := (bSpec_Server (spec samplePolicyCR))
     \<lparr>bServer_Ingress := zero_ArgoCDIngressSpec\<lparr>Ingress_Enabled := True\<rparr>,
      bServer_Route := zero_ArgoCDRouteSpec\<lparr>Route_Enabled := True\<rparr>\<rparr>\<rparr>\<rparr>"

lemma sampleIngress_distinct: "distinctIngressNames sampleEnv sampleIngressCR"
  by code_simp

text \<open>The first pass sets the default annotations, the second removes them.\<close>

theorem reconcileIngresses_spec_witness:
  "let w1 = snd (reconcileIngresses sampleEnv mem_client sampleIngressCR []);
       w2 = snd (reconcileIngresses sampleEnv mem_client sampleIngressCR w1);
       k = ingressKey sampleEnv sampleIngressCR ''server''
   in ingressWith (\<lambda>i. gget (metaAnnotations (ingMeta i)) backendProtocol = Some ''HTTP'') (mem_view w1 k) \<and>
      ingressWith (\<lambda>i. metaAnnotations (ingMeta i) = None) (mem_view w2 k)"
proof -
  let ?run = "reconcileIngresses sampleEnv mem_client sampleIngressCR"
  let ?k = "ingressKey sampleEnv sampleIngressCR ''server''"
  let ?s = "bServer_Ingress (bSpec_Server (spec sampleIngressCR))"
  have e: "Ingress_Enabled ?s" "Ingress_Annotations ?s = None"
    and d: "gget (metaAnnotations (ingMeta (serverIngress sampleEnv sampleIngressCR))) backendProtocol = Some ''HTTP''"
    by code_simp+
  have r1: "fst (?run []) = Ok ()" and r2: "fst (?run (snd (?run []))) = Ok ()"
    and n1: "mem_view [] ?k = None" by code_simp+
  note spec = conjunct1[OF reconcileIngresses_spec[OF mem.verbatim_client_axioms sampleIngress_distinct run_result]]
  have f: "ingressWith (serverIngressIs sampleEnv sampleIngressCR (metaAnnotations (ingMeta (serverIngress sampleEnv sampleIngressCR))))
      (mem_view (snd (?run [])) ?k)"
    using spec[OF r1] e n1 by (simp add: wantedIngresses_def Let_def)
  then have n2: "mem_view (snd (?run [])) ?k \<noteq> None" by (auto simp: ingressWith_def)
  have "ingressWith (serverIngressIs sampleEnv sampleIngressCR None) (mem_view (snd (?run (snd (?run [])))) ?k)"
    using spec[OF r2] e n2 by (simp add: wantedIngresses_def Let_def)
  with f d show ?thesis by (auto simp: ingressWith_def serverIngressIs_def Let_def)
qed



end
