(* ===== verification/Instance_Status.thy ===== *)
theory Instance_Status
  imports Instance_Routes
begin

text \<open>
  The status of an instance (\<open>argocd-operator/controllers/argocd/status.go\<close>, \<open>reconcileStatusRepo\<close> of
  \<open>repo_server.go\<close>, \<open>updateStatusAndConditionsOfArgoCD\<close> of \<open>util.go\<close>, the checks of \<open>sso.go\<close>, and of
  \<open>argocd_controller.go\<close> the wrapper \<open>Reconcile\<close> and the metrics of active instances). The code fills in
  a fresh status through a pointer, which keeps what was filled in when an error ends the work, so an
  operation here returns the status together with its error. The conditions of the resource in memory,
  which the SSO status edits, are passed along.
\<close>

section \<open>Status of a workload\<close>

definition deploymentStatus :: "deployment option \<Rightarrow> string" where
  "deploymentStatus found = (case found of
       None \<Rightarrow> ''Unknown''
     | Some d \<Rightarrow> (case depReplicas d of
           None \<Rightarrow> ''Pending''
         | Some n \<Rightarrow>
             if depReadyReplicas d = n then ''Running''
             else if \<exists>cond \<in> set (elems (depConditions d)). tsType cond = ''ReplicaFailure'' \<and> tsStatus cond = ''True''
             then ''Failed'' else ''Pending''))"

record status_state =
  ssConditions :: "condition slice"
  ssStatus :: ArgoCDStatus

type_synonym 'w status_act = "status_state \<Rightarrow> ('w, go_error option \<times> status_state) act"

definition setStatus :: "(ArgoCDStatus \<Rightarrow> ArgoCDStatus) \<Rightarrow> status_state \<Rightarrow> status_state" where
  "setStatus f s = s\<lparr>ssStatus := f (ssStatus s)\<rparr>"

text \<open>Finish normally with an update of the status, or with an error.\<close>

definition done_with :: "(ArgoCDStatus \<Rightarrow> ArgoCDStatus) \<Rightarrow> 'w status_act" where
  "done_with f s = ret (None, setStatus f s)"

definition failed_with :: "go_error \<Rightarrow> (ArgoCDStatus \<Rightarrow> ArgoCDStatus) \<Rightarrow> 'w status_act" where
  "failed_with err f s = ret (Some err, setStatus f s)"

definition deploymentKey :: "env \<Rightarrow> ArgoCD_beta \<Rightarrow> string \<Rightarrow> key" where
  "deploymentKey e cr sfx = (KDeployment, crNamespace cr, nameWithSuffix e sfx cr)"

definition statefulSetKey :: "env \<Rightarrow> ArgoCD_beta \<Rightarrow> string \<Rightarrow> key" where
  "statefulSetKey e cr sfx = (KStatefulSet, crNamespace cr, NameWithSuffixForStatefulSet e (bArgoCD_Meta cr) sfx)"

text \<open>Look the deployment of a component up and hand its status on; on an error the field is set to Failed.\<close>

definition withDeployment ::
  "env \<Rightarrow> 'w client \<Rightarrow> ArgoCD_beta \<Rightarrow> string \<Rightarrow> (string \<Rightarrow> ArgoCDStatus \<Rightarrow> ArgoCDStatus) \<Rightarrow>
   (deployment option \<Rightarrow> 'w status_act) \<Rightarrow> 'w status_act" where
  "withDeployment e c cr sfx put k s =
     handle (IsObjectFound c as_deployment (deploymentKey e cr sfx))
       (\<lambda>err. failed_with err (put ''Failed'') s)
       (\<lambda>found. k found s)"

definition putApplicationController :: "string \<Rightarrow> ArgoCDStatus \<Rightarrow> ArgoCDStatus" where
  "putApplicationController v st = st\<lparr>Status_ApplicationController := v\<rparr>"
definition putApplicationSetController :: "string \<Rightarrow> ArgoCDStatus \<Rightarrow> ArgoCDStatus" where
  "putApplicationSetController v st = st\<lparr>Status_ApplicationSetController := v\<rparr>"
definition putSSO :: "string \<Rightarrow> ArgoCDStatus \<Rightarrow> ArgoCDStatus" where "putSSO v st = st\<lparr>Status_SSO := v\<rparr>"
definition putRedis :: "string \<Rightarrow> ArgoCDStatus \<Rightarrow> ArgoCDStatus" where "putRedis v st = st\<lparr>Status_Redis := v\<rparr>"
definition putRepo :: "string \<Rightarrow> ArgoCDStatus \<Rightarrow> ArgoCDStatus" where "putRepo v st = st\<lparr>Status_Repo := v\<rparr>"
definition putServer :: "string \<Rightarrow> ArgoCDStatus \<Rightarrow> ArgoCDStatus" where "putServer v st = st\<lparr>Status_Server := v\<rparr>"
definition putCommitServer :: "string \<Rightarrow> ArgoCDStatus \<Rightarrow> ArgoCDStatus" where "putCommitServer v st = st\<lparr>Status_CommitServer := v\<rparr>"
definition putNotifications :: "string \<Rightarrow> ArgoCDStatus \<Rightarrow> ArgoCDStatus" where "putNotifications v st = st\<lparr>Status_NotificationsController := v\<rparr>"
definition putPhase :: "string \<Rightarrow> ArgoCDStatus \<Rightarrow> ArgoCDStatus" where "putPhase v st = st\<lparr>Status_Phase := v\<rparr>"
definition putHost :: "string \<Rightarrow> ArgoCDStatus \<Rightarrow> ArgoCDStatus" where "putHost v st = st\<lparr>Status_Host := v\<rparr>"

section \<open>The components\<close>

definition reconcileStatusApplicationController :: "env \<Rightarrow> 'w client \<Rightarrow> ArgoCD_beta \<Rightarrow> 'w status_act" where
  "reconcileStatusApplicationController e c cr s =
     handle (IsObjectFound c as_stateful_set (statefulSetKey e cr ''application-controller''))
       (\<lambda>err. failed_with err (putApplicationController ''Failed'') s)
       (\<lambda>found. done_with (putApplicationController (case found of
            None \<Rightarrow> ''Unknown''
          | Some x \<Rightarrow> (case stsReplicas x of
                None \<Rightarrow> ''Pending''
              | Some n \<Rightarrow> if stsReadyReplicas x = n then ''Running'' else ''Pending''))) s)"

definition reconcileStatusApplicationSetController :: "env \<Rightarrow> 'w client \<Rightarrow> ArgoCD_beta \<Rightarrow> 'w status_act" where
  "reconcileStatusApplicationSetController e c cr =
     withDeployment e c cr ''applicationset-controller'' putApplicationSetController
       (\<lambda>found. done_with (putApplicationSetController (deploymentStatus found)))"

definition configurationError :: string where "configurationError = ''UnsupportedConfiguration''"

definition reconcileStatusSSO :: "env \<Rightarrow> 'w client \<Rightarrow> ArgoCD_beta \<Rightarrow> 'w status_act" where
  "reconcileStatusSSO e c cr s =
     (if ssoProviderOf cr = Some ''dex'' then
        (let s1 = (case bSpec_SSO (spec cr) of
               Some sso \<Rightarrow> (case bSSO_Dex sso of
                   Some dex \<Rightarrow> if \<not> bDex_OpenShiftOAuth dex
                     then s\<lparr>ssConditions := removeCondition (ssConditions s) configurationError\<rparr> else s
                 | None \<Rightarrow> s)
             | None \<Rightarrow> s)
         in if \<exists>x \<in> set (elems (ssConditions s1)). condType x = configurationError \<and> condStatus x = ''True''
            then done_with (putSSO ''Failed'') s1
            else withDeployment e c cr ''dex-server'' putSSO (\<lambda>found. done_with (putSSO (deploymentStatus found))) s1)
      else if ssoProviderOf cr = Some ''keycloak'' then done_with (putSSO ''Failed'') s
      else done_with (putSSO ''Unknown'') (s\<lparr>ssConditions := removeCondition (ssConditions s) configurationError\<rparr>))"

text \<open>With high availability the replicas of the StatefulSet are dereferenced without a check, and a failing
  look-up leaves the field as it was.\<close>

definition reconcileStatusRedis :: "env \<Rightarrow> 'w client \<Rightarrow> ArgoCD_beta \<Rightarrow> 'w status_act" where
  "reconcileStatusRedis e c cr s =
     (if \<not> HA_Enabled (bSpec_HA (spec cr))
      then withDeployment e c cr ''redis'' putRedis (\<lambda>found. done_with (putRedis (deploymentStatus found))) s
      else handle (IsObjectFound c as_stateful_set (statefulSetKey e cr ''redis-ha-server''))
        (\<lambda>err. failed_with err id s)
        (\<lambda>found. case found of
            None \<Rightarrow> done_with (putRedis ''Unknown'') s
          | Some x \<Rightarrow> (case stsReplicas x of
                None \<Rightarrow> panic NilDereference
              | Some n \<Rightarrow> done_with (putRedis (if stsReadyReplicas x = n then ''Running'' else ''Pending'')) s)))"

definition reconcileStatusRepo :: "env \<Rightarrow> 'w client \<Rightarrow> ArgoCD_beta \<Rightarrow> 'w status_act" where
  "reconcileStatusRepo e c cr =
     withDeployment e c cr ''repo-server'' putRepo (\<lambda>found. done_with (putRepo (deploymentStatus found)))"

definition reconcileStatusServer :: "env \<Rightarrow> 'w client \<Rightarrow> ArgoCD_beta \<Rightarrow> 'w status_act" where
  "reconcileStatusServer e c cr =
     withDeployment e c cr ''server'' putServer (\<lambda>found. done_with (putServer (deploymentStatus found)))"

definition reconcileStatusCommitServer :: "env \<Rightarrow> 'w client \<Rightarrow> ArgoCD_beta \<Rightarrow> 'w status_act" where
  "reconcileStatusCommitServer e c cr =
     withDeployment e c cr ''commit-server'' putCommitServer
       (\<lambda>found. done_with (putCommitServer (if found = None \<and> \<not> UseCommitServer cr then '''' else deploymentStatus found)))"

definition reconcileStatusNotifications :: "env \<Rightarrow> 'w client \<Rightarrow> ArgoCD_beta \<Rightarrow> 'w status_act" where
  "reconcileStatusNotifications e c cr =
     withDeployment e c cr ''notifications-controller'' putNotifications
       (\<lambda>found. done_with (putNotifications
          (if \<not> Notifications_Enabled (bSpec_Notifications (spec cr)) then '''' else deploymentStatus found)))"

section \<open>The host\<close>

text \<open>Host and phase, if it is set, from the first Route of the server; an empty list of ingresses that is
  not nil is indexed.\<close>

definition routeHost :: "route \<Rightarrow> (string \<times> string option) outcome" where
  "routeHost r = (case rtIngress r of
       None \<Rightarrow> Ok ('''', Some ''Pending'')
     | Some [] \<Rightarrow> Panic IndexOutOfRange
     | Some (i # _) \<Rightarrow> (case elems (riConditions i) of
           cond # _ \<Rightarrow>
             if tsType cond = ''Admitted''
             then Ok (if tsStatus cond = ''True'' then (riHost i, None) else ('''', Some ''Pending''))
             else Ok (if riHost i \<noteq> '''' then (riHost i, None) else (''Unavailable'', Some ''Pending''))
         | [] \<Rightarrow> Ok (if riHost i \<noteq> '''' then (riHost i, None) else (''Unavailable'', Some ''Pending''))))"

definition loadBalancerHosts :: "load_balancer list \<Rightarrow> string" where
  "loadBalancerHosts ls = joinStr '', '' (concat (map (\<lambda>l.
     if lbHostname l \<noteq> '''' then [lbHostname l] else if lbIP l \<noteq> '''' then [lbIP l] else []) ls))"

definition serverRoutes :: "env \<Rightarrow> 'w client \<Rightarrow> ArgoCD_beta \<Rightarrow> ('w, route list) act" where
  "serverRoutes e c cr = bindG (listO c KRoute) (\<lambda>xs. ret (List.map_filter as_route
     (filter (\<lambda>x. metaNamespace (obj_meta x) = crNamespace cr \<and>
        gget (obj_labels x) ''app.kubernetes.io/name'' = Some (nameWithSuffix e ''server'' cr)) xs)))"

definition reconcileStatusHost :: "env \<Rightarrow> argo_flags \<Rightarrow> 'w client \<Rightarrow> ArgoCD_beta \<Rightarrow> 'w status_act" where
  "reconcileStatusHost e f c cr s0 =
     (let s = setStatus (putHost '''') s0; server = bSpec_Server (spec cr)
      in if (Route_Enabled (bServer_Route server) \<or> Ingress_Enabled (bServer_Ingress server)) \<and> argoRouteFound f
         then handle (serverRoutes e c cr)
           (\<lambda>err. failed_with err (putPhase ''Failed'') s)
           (\<lambda>rs. case rs of
               [] \<Rightarrow> done_with id s
             | r # _ \<Rightarrow> bindG (liftO (routeHost r)) (\<lambda>(host, phase).
                 done_with (\<lambda>st. putHost host (case phase of None \<Rightarrow> st | Some p \<Rightarrow> putPhase p st)) s))
         else if Ingress_Enabled (bServer_Ingress server)
         then handle (findIngress c (newIngressWithSuffix e ''server'' cr))
           (\<lambda>err. failed_with err (putPhase ''Failed'') s)
           (\<lambda>found. case found of
               None \<Rightarrow> done_with (putPhase ''Pending'') s
             | Some i \<Rightarrow> if elems (ingLoadBalancers i) \<noteq> []
                 then done_with (putHost (loadBalancerHosts (elems (ingLoadBalancers i)))) s
                 else done_with id s)
         else done_with id s)"

section \<open>The phase, and the whole status\<close>

definition available :: "bool \<Rightarrow> string \<Rightarrow> bool" where
  "available enabled status \<longleftrightarrow> (\<not> enabled \<and> status = ''Unknown'') \<or> status = ''Running''"

definition reconcileStatusPhase :: "ArgoCD_beta \<Rightarrow> 'w status_act" where
  "reconcileStatusPhase cr s =
     (let st = ssStatus s; redis = bSpec_Redis (spec cr)
      in done_with (putPhase (
           if available (Controller_IsEnabled (bSpec_Controller (spec cr))) (Status_ApplicationController st) \<and>
              (available (Redis_IsEnabled redis) (Status_Redis st) \<or> Redis_IsEnabled redis \<and> Redis_IsRemote redis) \<and>
              available (Repo_IsEnabled (bSpec_Repo (spec cr))) (Status_Repo st) \<and>
              available (Server_IsEnabled (bSpec_Server (spec cr))) (Status_Server st) \<and>
              available (SSO_IsEnabled (bSpec_SSO (spec cr))) (Status_SSO st)
           then ''Available'' else ''Pending'')) s)"

text \<open>One step: only when its field is still empty, and only while there was no error.\<close>

definition statusStep :: "(ArgoCDStatus \<Rightarrow> string) \<Rightarrow> 'w status_act \<Rightarrow> 'w status_act \<Rightarrow> 'w status_act" where
  "statusStep get m rest s =
     (if get (ssStatus s) = ''''
      then bindG (m s) (\<lambda>(err, s'). case err of None \<Rightarrow> rest s' | Some _ \<Rightarrow> ret (err, s'))
      else rest s)"

definition reconcileStatus :: "env \<Rightarrow> argo_flags \<Rightarrow> 'w client \<Rightarrow> ArgoCD_beta \<Rightarrow> 'w status_act" where
  "reconcileStatus e f c cr =
     statusStep Status_ApplicationController (reconcileStatusApplicationController e c cr)
     (statusStep Status_SSO (reconcileStatusSSO e c cr)
     (statusStep Status_Redis (reconcileStatusRedis e c cr)
     (statusStep Status_Repo (reconcileStatusRepo e c cr)
     (statusStep Status_Server (reconcileStatusServer e c cr)
     (statusStep Status_CommitServer (reconcileStatusCommitServer e c cr)
     (statusStep Status_Phase (reconcileStatusHost e f c cr)
     (statusStep Status_NotificationsController (reconcileStatusNotifications e c cr)
     (statusStep Status_ApplicationSetController (reconcileStatusApplicationSetController e c cr)
     (statusStep Status_Phase (reconcileStatusPhase cr) (\<lambda>s. ret (None, s)))))))))))"

section \<open>The legal configurations of SSO\<close>

definition illegalSSO :: "string \<Rightarrow> go_error" where
  "illegalSSO msg = ErrorText (''illegal SSO configuration: '' @ msg)"

text \<open>What a configuration is refused with, if it is; \<open>reconcileSSO\<close> then sets the status and returns it.\<close>

definition ssoRefusal :: "argo_flags \<Rightarrow> ArgoCDSSOSpec_beta \<Rightarrow> go_error option" where
  "ssoRefusal f sso =
     (let provider = ToLower (bSSO_Provider sso)
      in if provider = ''dex'' \<and> (case bSSO_Dex sso of None \<Rightarrow> True
              | Some dex \<Rightarrow> \<not> bDex_OpenShiftOAuth dex \<and> bDex_Config dex = '''')
         then Some (illegalSSO ''must supply valid dex configuration when requested SSO provider is dex'')
         else if provider = ''dex'' \<and> (case bSSO_Dex sso of None \<Rightarrow> False
              | Some dex \<Rightarrow> bDex_OpenShiftOAuth dex \<and> \<not> versionFound f)
         then Some (illegalSSO ''openShiftOAuth is only supported on OpenShift clusters. Please disable the openShiftOAuth configuration.'')
         else if provider = ''dex'' \<and> bSSO_Keycloak sso \<noteq> None
         then Some (illegalSSO ''keycloak configuration is specified even though Dex is enabled. Keycloak support has been deprecated and is no longer available.'')
         else if provider = ''keycloak''
         then Some (ErrorText ''keycloak is set as SSO provider, but keycloak support has been deprecated and is no longer available'')
         else if provider = '''' \<and> bSSO_Dex sso \<noteq> None
         then Some (illegalSSO ''Cannot specify SSO provider spec without specifying SSO provider type'')
         else if provider \<noteq> ''dex''
         then Some (illegalSSO ''Unsupported SSO provider type. Supported provider is dex'')
         else None)"

text \<open>\<open>reconcileDexResources\<close> is a parameter here: it changes the cluster and not the status.\<close>

definition reconcileSSO :: "argo_flags \<Rightarrow> (ArgoCD_beta \<Rightarrow> ('w, unit) act) \<Rightarrow> ArgoCD_beta \<Rightarrow> 'w status_act" where
  "reconcileSSO f reconcileDexResources cr s =
     (case bSpec_SSO (spec cr) of
        None \<Rightarrow> done_with id s
      | Some sso \<Rightarrow> (case ssoRefusal f sso of
            Some err \<Rightarrow> failed_with err (putSSO ''Failed'') s
          | None \<Rightarrow>
              if ToLower (bSSO_Provider sso) = ''keycloak'' then done_with (putSSO ''Unknown'') s
              else if UseDex cr
              then handle (reconcileDexResources cr) (\<lambda>err. failed_with err (putSSO ''Failed'') s) (\<lambda>_. done_with id s)
              else done_with id s))"

section \<open>Writing the status\<close>

text \<open>How the reconciler reaches its own resource: a read by namespace and name, and the update of the
  status subresource.\<close>

record 'w cr_client =
  getCR :: "string \<Rightarrow> string \<Rightarrow> ('w, ArgoCD_beta) act"
  updateStatusCR :: "ArgoCD_beta \<Rightarrow> ('w, unit) act"

definition updateStatusAndConditionsOfArgoCD ::
  "int \<Rightarrow> condition \<Rightarrow> ArgoCD_beta \<Rightarrow> status_state \<Rightarrow> 'w cr_client \<Rightarrow> ('w, unit) act" where
  "updateStatusAndConditionsOfArgoCD now condition cr s cc =
     (case insertOrUpdateConditionsInSlice now condition (ssConditions s) of (changed, newConditions) \<Rightarrow>
        handle (getCR cc (crNamespace cr) (crName cr))
          (\<lambda>err. if IsNotFound err then ret () else fail err)
          (\<lambda>live.
             if changed \<or> (bArgoCD_Status live)\<lparr>Status_Conditions := None\<rparr> \<noteq> ssStatus s
             then updateStatusCR cc (live\<lparr>bArgoCD_Status := (ssStatus s)\<lparr>Status_Conditions := newConditions\<rparr>\<rparr>)
             else ret ()))"

text \<open>The wrapper \<open>Reconcile\<close>, over any \<open>internalReconcile\<close>, which hands back its result, the resource, the
  status it started and its error; \<open>errorText\<close> is \<open>err.Error()\<close>.\<close>

definition ReconcileArgoCD ::
  "env \<Rightarrow> argo_flags \<Rightarrow> int \<Rightarrow> (go_error \<Rightarrow> string) \<Rightarrow> 'w client \<Rightarrow> 'w cr_client \<Rightarrow>
   ('w, 'r \<times> ArgoCD_beta \<times> ArgoCDStatus \<times> go_error option) act \<Rightarrow> ('w, 'r \<times> go_error option) act" where
  "ReconcileArgoCD e f now errorText c cc internalReconcile =
     bindG internalReconcile (\<lambda>(result, cr, status, err).
       let message = (case err of None \<Rightarrow> '''' | Some x \<Rightarrow> errorText x);
           status1 = (if err = None then status else putPhase ''Failed'' status);
           s = \<lparr>ssConditions = Status_Conditions (bArgoCD_Status cr), ssStatus = status1\<rparr>
       in bindG (reconcileStatus e f c cr s) (\<lambda>(statusErr, s1).
         let s2 = (if statusErr = None then s1 else setStatus (putPhase ''Failed'') s1);
             message2 = (if statusErr = None then message else ''unable to reconcile ArgoCD CR .status field'')
         in thenG (updateStatusAndConditionsOfArgoCD now (createCondition message2) cr s2 cc)
              (ret (result, err))))"

section \<open>The metrics of active instances\<close>

text \<open>\<open>ActiveInstanceMap\<close>, and the gauges \<open>ActiveInstancesByPhase\<close> and \<open>ActiveInstancesTotal\<close>.\<close>

record active_instances =
  aiMap :: "(string, string) fmap"
  aiByPhase :: "string \<Rightarrow> int"
  aiTotal :: int

definition noInstances :: active_instances where
  "noInstances = \<lparr>aiMap = fmempty, aiByPhase = (\<lambda>_. 0), aiTotal = 0\<rparr>"

definition gaugeAdd :: "string \<Rightarrow> int \<Rightarrow> active_instances \<Rightarrow> active_instances" where
  "gaugeAdd phase n a = a\<lparr>aiByPhase := (aiByPhase a)(phase := aiByPhase a phase + n)\<rparr>"

definition noticeInstance :: "string \<Rightarrow> string \<Rightarrow> active_instances \<Rightarrow> active_instances" where
  "noticeInstance ns newPhase a =
     (case fmlookup (aiMap a) ns of
        None \<Rightarrow>
          if newPhase \<noteq> ''''
          then (gaugeAdd newPhase 1 (a\<lparr>aiMap := fmupd ns newPhase (aiMap a)\<rparr>))\<lparr>aiTotal := aiTotal a + 1\<rparr>
          else a
      | Some oldPhase \<Rightarrow>
          if oldPhase \<noteq> newPhase
          then gaugeAdd oldPhase (-1) (gaugeAdd newPhase 1 (a\<lparr>aiMap := fmupd ns newPhase (aiMap a)\<rparr>))
          else a)"

definition forgetInstance :: "string \<Rightarrow> string \<Rightarrow> active_instances \<Rightarrow> active_instances" where
  "forgetInstance ns phase a =
     (gaugeAdd phase (-1) (a\<lparr>aiMap := fmdrop ns (aiMap a)\<rparr>))\<lparr>aiTotal := aiTotal a - 1\<rparr>"

text \<open>What a pass over an instance does to the metrics, given its phase and whether it is being deleted.\<close>

definition countInstance :: "string \<times> string \<times> bool \<Rightarrow> active_instances \<Rightarrow> active_instances" where
  "countInstance pass a = (case pass of (ns, phase, deleting) \<Rightarrow>
     if deleting then forgetInstance ns phase (noticeInstance ns phase a) else noticeInstance ns phase a)"

section \<open>The contract of the client for the resource itself\<close>

text \<open>\<open>stored\<close> is the resource the API server holds under a namespace and a name. A read may fail but
  changes nothing, and an update of the status changes the status of what is there.\<close>

locale cr_server =
  fixes cc :: "'w cr_client"
    and stored :: "'w \<Rightarrow> string \<Rightarrow> string \<Rightarrow> ArgoCD_beta option"
  assumes read_keeps: "getCR cc ns n w = (r, w') \<Longrightarrow> stored w' = stored w"
    and read_found: "getCR cc ns n w = (Ok x, w') \<Longrightarrow> stored w ns n = Some x"
    and read_NotFound: "getCR cc ns n w = (Err err, w') \<Longrightarrow> IsNotFound err \<Longrightarrow> stored w ns n = None"
    and stored_key: "stored w ns n = Some x \<Longrightarrow> crNamespace x = ns \<and> crName x = n"
    and status_written: "updateStatusCR cc x w = (Ok u, w') \<Longrightarrow>
      \<exists>y. stored w (crNamespace x) (crName x) = Some y \<and>
        stored w' = (stored w)(crNamespace x := (stored w (crNamespace x))(crName x := Some (y\<lparr>bArgoCD_Status := bArgoCD_Status x\<rparr>)))"
begin

lemma updateStatus_Ok:
  assumes run: "updateStatusAndConditionsOfArgoCD now cond cr s cc w = (Ok (), w')"
    and live: "stored w (crNamespace cr) (crName cr) = Some live"
  obtains (same) "stored w' = stored w" "(bArgoCD_Status live)\<lparr>Status_Conditions := None\<rparr> = ssStatus s"
      "fst (insertOrUpdateConditionsInSlice now cond (ssConditions s)) = False"
  | (written) "stored w' (crNamespace cr) (crName cr) = Some (live\<lparr>bArgoCD_Status :=
        (ssStatus s)\<lparr>Status_Conditions := snd (insertOrUpdateConditionsInSlice now cond (ssConditions s))\<rparr>\<rparr>)"
proof -
  obtain changed cs where i: "insertOrUpdateConditionsInSlice now cond (ssConditions s) = (changed, cs)" by force
  let ?new = "live\<lparr>bArgoCD_Status := (ssStatus s)\<lparr>Status_Conditions := cs\<rparr>\<rparr>"
  from live stored_key have key: "crNamespace ?new = crNamespace cr" "crName ?new = crName cr" by fastforce+
  from run i consider (gone) err w1 where "getCR cc (crNamespace cr) (crName cr) w = (Err err, w1)" "IsNotFound err"
    | (found) x w1 where "getCR cc (crNamespace cr) (crName cr) w = (Ok x, w1)"
        "(if changed \<or> (bArgoCD_Status x)\<lparr>Status_Conditions := None\<rparr> \<noteq> ssStatus s
          then updateStatusCR cc (x\<lparr>bArgoCD_Status := (ssStatus s)\<lparr>Status_Conditions := cs\<rparr>\<rparr>) else ret ()) w1 = (Ok (), w')"
    unfolding updateStatusAndConditionsOfArgoCD_def by (auto simp: handle_Ok_iff split: if_splits)
  then show thesis
  proof cases
    case gone
    with read_NotFound live show thesis by fastforce
  next
    case found
    from read_found[OF found(1)] live have x: "x = live" by simp
    note v = read_keeps[OF found(1)]
    show thesis
    proof (cases "changed \<or> (bArgoCD_Status live)\<lparr>Status_Conditions := None\<rparr> \<noteq> ssStatus s")
      case True
      with found(2) x have "updateStatusCR cc ?new w1 = (Ok (), w')" by simp
      from status_written[OF this] v live have "stored w' (crNamespace cr) (crName cr) = Some ?new" unfolding key by auto
      with i show thesis by (intro written) simp
    next
      case False
      with found(2) x v i show thesis by (intro same) auto
    qed
  qed
qed

end

text \<open>The API server kept in memory, for one resource.\<close>

definition crMemory :: "ArgoCD_beta option cr_client" where
  "crMemory = \<lparr>
     getCR = (\<lambda>ns n w. case w of
         Some x \<Rightarrow> if crNamespace x = ns \<and> crName x = n then (Ok x, w) else (Err (ApiErr NotFound), w)
       | None \<Rightarrow> (Err (ApiErr NotFound), w)),
     updateStatusCR = (\<lambda>x w. case w of
         Some y \<Rightarrow> if crNamespace y = crNamespace x \<and> crName y = crName x
           then (Ok (), Some (y\<lparr>bArgoCD_Status := bArgoCD_Status x\<rparr>)) else (Err (ApiErr NotFound), w)
       | None \<Rightarrow> (Err (ApiErr NotFound), w))\<rparr>"

definition crStored :: "ArgoCD_beta option \<Rightarrow> string \<Rightarrow> string \<Rightarrow> ArgoCD_beta option" where
  "crStored w ns n = (case w of None \<Rightarrow> None | Some x \<Rightarrow> if crNamespace x = ns \<and> crName x = n then Some x else None)"

interpretation crm: cr_server crMemory crStored
  by unfold_locales
    (auto simp: crMemory_def crStored_def fun_eq_iff IsNotFound_def split: option.splits if_splits)

end
