(* ===== verification/Instance_Status_Correct.thy ===== *)
theory Instance_Status_Correct
  imports Instance_Status Network_Policies_Correct Managed_Namespaces_Correct
begin

text \<open>
  What the status of an instance promises: the phase Available is only given where the workload of every
  component that is enabled has all its replicas ready; the status is found out by reading only; which
  clusters make it panic; what is written, and that a second pass writes nothing; which configurations
  of SSO are accepted; and that the metrics of active instances count the instances, but for those that
  were deleted without ever having been counted.
\<close>

section \<open>Steps that read and keep a condition\<close>

text \<open>A step changes no object, and the status it returns, with an error or without, satisfies a condition
  on the cluster if the status it was given did.\<close>

definition keeps ::
  "('w \<Rightarrow> key \<Rightarrow> obj option) \<Rightarrow> ((key \<Rightarrow> obj option) \<Rightarrow> ArgoCDStatus \<Rightarrow> bool) \<Rightarrow> 'w status_act \<Rightarrow> bool" where
  "keeps view P m \<longleftrightarrow> (\<forall>s. act_rel (same_outside view {}) (m s) \<and>
     (\<forall>w r s' w'. m s w = (Ok (r, s'), w') \<longrightarrow> P (view w) (ssStatus s) \<longrightarrow> P (view w) (ssStatus s')))"

lemma keepsD:
  assumes "keeps view P m" and "m s w = (Ok (r, s'), w')"
  shows "view w' = view w" and "P (view w) (ssStatus s) \<Longrightarrow> P (view w) (ssStatus s')"
proof -
  from assms(1) have "act_rel (same_outside view {}) (m s)" by (simp add: keeps_def)
  from fp_empty_view[OF this assms(2)] show "view w' = view w" .
  from assms show "P (view w) (ssStatus s) \<Longrightarrow> P (view w) (ssStatus s')" unfolding keeps_def by blast
qed

lemma rel_done [simp]: "act_rel (same_outside view S) (done_with f s)" "act_rel (same_outside view S) (failed_with err f s)"
  by (simp_all add: done_with_def failed_with_def fp.rel_ret)

lemma done_with_Ok [simp]:
  "done_with f s w = (Ok (r, s'), w') \<longleftrightarrow> r = None \<and> s' = setStatus f s \<and> w' = w"
  "failed_with err f s w = (Ok (r, s'), w') \<longleftrightarrow> r = Some err \<and> s' = setStatus f s \<and> w' = w"
  by (auto simp: done_with_def failed_with_def ret_def)

lemma setStatus_simps [simp]: "ssStatus (setStatus f s) = f (ssStatus s)" "ssConditions (setStatus f s) = ssConditions s"
  by (simp_all add: setStatus_def)

lemma keeps_view: "keeps view P m \<Longrightarrow> m s w = (r, w') \<Longrightarrow> view w' = view w"
  by (auto simp: keeps_def intro: fp_empty_view)

lemma keeps_done:
  assumes "\<And>vw st. P vw st \<Longrightarrow> P vw (f st)" and "\<And>s. ssStatus (g s) = ssStatus s"
  shows "keeps view P (\<lambda>s. done_with f (g s))"
  using assms by (simp add: keeps_def)

lemma keeps_panic: "keeps view P (\<lambda>s. panic p)"
  by (simp add: keeps_def fp.rel_panic)

lemma keeps_failed: "(\<And>vw st. P vw st \<Longrightarrow> P vw (f st)) \<Longrightarrow> keeps view P (failed_with err f)"
  by (simp add: keeps_def)

lemma keeps_via:
  "keeps view P m \<Longrightarrow> (\<And>vw s. P vw (ssStatus s) \<Longrightarrow> P vw (ssStatus (g s))) \<Longrightarrow> keeps view P (\<lambda>s. m (g s))"
  unfolding keeps_def by metis

lemma keeps_handle:
  assumes "act_rel (same_outside view {}) m" and "\<And>err. keeps view P (h err)" and "\<And>x. keeps view P (k x)"
  shows "keeps view P (\<lambda>s. handle m (\<lambda>err. h err s) (\<lambda>x. k x s))"
  unfolding keeps_def
proof (intro allI conjI impI)
  fix s
  from assms show "act_rel (same_outside view {}) (handle m (\<lambda>err. h err s) (\<lambda>x. k x s))"
    unfolding keeps_def by (intro fp.rel_handle) auto
  fix w r s' w'
  assume "handle m (\<lambda>err. h err s) (\<lambda>x. k x s) w = (Ok (r, s'), w')" and P: "P (view w) (ssStatus s)"
  then consider (err) err w1 where "m w = (Err err, w1)" and "h err s w1 = (Ok (r, s'), w')"
    | (ok) x w1 where "m w = (Ok x, w1)" and "k x s w1 = (Ok (r, s'), w')"
    unfolding handle_Ok_iff by blast
  then show "P (view w) (ssStatus s')"
  proof cases
    case err
    with keepsD(2)[OF assms(2) err(2)] P show ?thesis by (simp add: fp_empty_view[OF assms(1) err(1)])
  next
    case ok
    with keepsD(2)[OF assms(3) ok(2)] P show ?thesis by (simp add: fp_empty_view[OF assms(1) ok(1)])
  qed
qed

lemma keeps_if: "keeps view P m \<Longrightarrow> keeps view P n \<Longrightarrow> keeps view P (\<lambda>s. if b s then m s else n s)"
  by (auto simp: keeps_def)

lemma keeps_step_blank:
  assumes "keeps view P (\<lambda>s. if get (ssStatus s) = '''' then m s else ret (None, s))" and "keeps view P rest"
  shows "keeps view P (statusStep get m rest)"
  unfolding keeps_def
proof (intro allI conjI impI)
  fix s
  have rest: "act_rel (same_outside view {}) (rest s)" for s using assms(2) by (simp add: keeps_def)
  have "act_rel (same_outside view {}) (m s)" if "get (ssStatus s) = ''''"
    using assms(1) that unfolding keeps_def by (auto dest!: spec[of _ s])
  with rest show "act_rel (same_outside view {}) (statusStep get m rest s)"
    unfolding statusStep_def by (auto intro!: fp.rel_bindG fp.rel_ret split: option.split)
  fix w r s' w'
  assume run: "statusStep get m rest s w = (Ok (r, s'), w')" and P: "P (view w) (ssStatus s)"
  show "P (view w) (ssStatus s')"
  proof (cases "get (ssStatus s) = ''''")
    case True
    with run obtain err s1 w1 where m: "m s w = (Ok (err, s1), w1)"
      and t: "(case err of None \<Rightarrow> rest s1 | Some _ \<Rightarrow> ret (err, s1)) w1 = (Ok (r, s'), w')"
      by (auto simp: statusStep_def bindG_Ok_iff)
    from keepsD[OF assms(1), of s w err s1 w1] m P True have v: "view w1 = view w" and P1: "P (view w) (ssStatus s1)" by auto
    with t keepsD(2)[OF assms(2), of s1 w1 r s' w'] show ?thesis by (cases err) auto
  next
    case False
    with run P keepsD(2)[OF assms(2)] show ?thesis by (simp add: statusStep_def)
  qed
qed

lemma keeps_step:
  assumes "keeps view P m" and "keeps view P rest"
  shows "keeps view P (statusStep get m rest)"
  using assms(1) by (intro keeps_step_blank[OF _ assms(2)]) (auto simp: keeps_def fp.rel_ret)

context k8s_client
begin

lemma keeps_lookup:
  assumes "\<not> refreshable (fst k)" and f: "\<And>vw st. P vw st \<Longrightarrow> P vw (f st)" and g: "\<And>s. ssStatus (g s) = ssStatus s"
    and h: "\<And>found s. act_rel (same_outside view {}) (h found s)"
    and found: "\<And>found vw s w r s' w'. h found s w = (Ok (r, s'), w') \<Longrightarrow> P vw (ssStatus s) \<Longrightarrow>
      (\<And>a. found = Some a \<Longrightarrow> \<exists>x. vw k = Some x \<and> cast x = Some a) \<Longrightarrow> P vw (ssStatus s')"
  shows "keeps view P (\<lambda>s. handle (IsObjectFound c cast k) (\<lambda>err. failed_with err f (g s)) (\<lambda>found. h found (g s)))"
  unfolding keeps_def
proof (intro allI conjI impI)
  fix s
  show "act_rel (same_outside view {}) (handle (IsObjectFound c cast k) (\<lambda>err. failed_with err f (g s)) (\<lambda>found. h found (g s)))"
    by (intro fp.rel_handle IsObjectFound_pure[OF assms(1)] h) simp
  fix w r s' w'
  assume run: "handle (IsObjectFound c cast k) (\<lambda>err. failed_with err f (g s)) (\<lambda>found. h found (g s)) w = (Ok (r, s'), w')"
    and P: "P (view w) (ssStatus s)"
  from run consider (failed) err w1 where "failed_with err f (g s) w1 = (Ok (r, s'), w')"
    | (found) x w1 where "IsObjectFound c cast k w = (Ok x, w1)" and "h x (g s) w1 = (Ok (r, s'), w')"
    unfolding handle_Ok_iff by blast
  then show "P (view w) (ssStatus s')"
  proof cases
    case failed
    with f[OF P] g show ?thesis by (auto simp: g)
  next
    case found
    show ?thesis
    proof (rule assms(5)[OF found(2)])
      show "P (view w) (ssStatus (g s))" using P g by simp
      show "\<exists>y. view w k = Some y \<and> cast y = Some a" if "x = Some a" for a
        using IsObjectFound_Ok(3)[OF found(1) assms(1) that] .
    qed
  qed
qed

text \<open>The usual shape: the status is a function of what was found.\<close>

lemma keeps_lookup_done:
  assumes "\<not> refreshable (fst k)" and f: "\<And>vw st. P vw st \<Longrightarrow> P vw (f st)"
    and d: "\<And>found vw st. P vw st \<Longrightarrow>
      (\<And>a. found = Some a \<Longrightarrow> \<exists>x. vw k = Some x \<and> cast x = Some a) \<Longrightarrow> P vw (d found st)"
  shows "keeps view P (\<lambda>s. handle (IsObjectFound c cast k) (\<lambda>err. failed_with err f s) (\<lambda>found. done_with (d found) s))"
proof (rule keeps_lookup[where g = "\<lambda>s. s"])
  show "act_rel (same_outside view {}) (done_with (d found) s)" for found s
    by simp
  show "P vw (ssStatus s')" if "done_with (d found) s w = (Ok (r, s'), w')" "P vw (ssStatus s)"
    "\<And>a. found = Some a \<Longrightarrow> \<exists>x. vw k = Some x \<and> cast x = Some a" for found vw s w r s' w'
    using that d by auto
qed (use assms in auto)

lemma keeps_withDeployment:
  assumes "\<And>vw st. P vw st \<Longrightarrow> P vw (put ''Failed'' st)"
    and "\<And>found vw st. P vw st \<Longrightarrow>
      (\<And>a. found = Some a \<Longrightarrow> vw (deploymentKey e cr sfx) = Some (ODeployment a)) \<Longrightarrow> P vw (d found st)"
  shows "keeps view P (withDeployment e c cr sfx put (\<lambda>found. done_with (d found)))"
proof -
  have "keeps view P (\<lambda>s. handle (IsObjectFound c as_deployment (deploymentKey e cr sfx))
      (\<lambda>err. failed_with err (put ''Failed'') s) (\<lambda>found. done_with (d found) s))"
  proof (rule keeps_lookup_done)
    show "P vw (d found st)" if P: "P vw st"
      and f: "\<And>a. found = Some a \<Longrightarrow> \<exists>x. vw (deploymentKey e cr sfx) = Some x \<and> as_deployment x = Some a" for found vw st
    proof (rule assms(2)[OF P])
      fix a assume "found = Some a"
      from f[OF this] show "vw (deploymentKey e cr sfx) = Some (ODeployment a)"
        by (auto elim!: as_deployment.elims)
    qed
  qed (auto simp: deploymentKey_def refreshable_def assms(1))
  then show ?thesis by (simp add: keeps_def withDeployment_def)
qed

end

section \<open>Workloads with all replicas ready\<close>

definition readyDeployment :: "obj option \<Rightarrow> bool" where
  "readyDeployment v \<longleftrightarrow> (\<exists>d. v = Some (ODeployment d) \<and> depReplicas d = Some (depReadyReplicas d))"

definition readyStatefulSet :: "obj option \<Rightarrow> bool" where
  "readyStatefulSet v \<longleftrightarrow> (\<exists>x. v = Some (OStatefulSet x) \<and> stsReplicas x = Some (stsReadyReplicas x))"

definition controllerReady :: "env \<Rightarrow> ArgoCD_beta \<Rightarrow> (key \<Rightarrow> obj option) \<Rightarrow> bool" where
  "controllerReady e cr vw \<longleftrightarrow> readyStatefulSet (vw (statefulSetKey e cr ''application-controller''))"

definition redisReady :: "env \<Rightarrow> ArgoCD_beta \<Rightarrow> (key \<Rightarrow> obj option) \<Rightarrow> bool" where
  "redisReady e cr vw \<longleftrightarrow> (if HA_Enabled (bSpec_HA (spec cr))
     then readyStatefulSet (vw (statefulSetKey e cr ''redis-ha-server''))
     else readyDeployment (vw (deploymentKey e cr ''redis'')))"

text \<open>Every component that \<open>reconcileStatusPhase\<close> looks at is ready if it is enabled: the controller, Redis unless it
  is elsewhere, the repo server, the server and Dex.\<close>

definition componentsReady :: "env \<Rightarrow> ArgoCD_beta \<Rightarrow> (key \<Rightarrow> obj option) \<Rightarrow> bool" where
  "componentsReady e cr vw \<longleftrightarrow>
     (Controller_IsEnabled (bSpec_Controller (spec cr)) \<longrightarrow> controllerReady e cr vw) \<and>
     (Redis_IsEnabled (bSpec_Redis (spec cr)) \<and> \<not> Redis_IsRemote (bSpec_Redis (spec cr)) \<longrightarrow> redisReady e cr vw) \<and>
     (Repo_IsEnabled (bSpec_Repo (spec cr)) \<longrightarrow> readyDeployment (vw (deploymentKey e cr ''repo-server''))) \<and>
     (Server_IsEnabled (bSpec_Server (spec cr)) \<longrightarrow> readyDeployment (vw (deploymentKey e cr ''server''))) \<and>
     (SSO_IsEnabled (bSpec_SSO (spec cr)) \<longrightarrow> UseDex cr \<and> readyDeployment (vw (deploymentKey e cr ''dex-server'')))"

text \<open>A status that says Running, or Available, only of what is ready.\<close>

definition truthful :: "env \<Rightarrow> ArgoCD_beta \<Rightarrow> (key \<Rightarrow> obj option) \<Rightarrow> ArgoCDStatus \<Rightarrow> bool" where
  "truthful e cr vw st \<longleftrightarrow>
     (Status_ApplicationController st = ''Running'' \<longrightarrow> controllerReady e cr vw) \<and>
     (Status_Redis st = ''Running'' \<longrightarrow> redisReady e cr vw) \<and>
     (Status_Repo st = ''Running'' \<longrightarrow> readyDeployment (vw (deploymentKey e cr ''repo-server''))) \<and>
     (Status_Server st = ''Running'' \<longrightarrow> readyDeployment (vw (deploymentKey e cr ''server''))) \<and>
     (Status_SSO st = ''Running'' \<longrightarrow> UseDex cr \<and> readyDeployment (vw (deploymentKey e cr ''dex-server''))) \<and>
     (Status_Phase st = ''Available'' \<longrightarrow> componentsReady e cr vw)"

lemmas put_defs = putApplicationController_def putApplicationSetController_def putSSO_def putRedis_def putRepo_def
  putServer_def putCommitServer_def putNotifications_def putPhase_def putHost_def

text \<open>Conditions that go on holding when the field of a component is set, to Running only if it is.\<close>

definition settable :: "env \<Rightarrow> ArgoCD_beta \<Rightarrow> ((key \<Rightarrow> obj option) \<Rightarrow> ArgoCDStatus \<Rightarrow> bool) \<Rightarrow> bool" where
  "settable e cr P \<longleftrightarrow> (\<forall>vw st v. P vw st \<longrightarrow>
     ((v = ''Running'' \<longrightarrow> controllerReady e cr vw) \<longrightarrow> P vw (putApplicationController v st)) \<and>
     ((v = ''Running'' \<longrightarrow> redisReady e cr vw) \<longrightarrow> P vw (putRedis v st)) \<and>
     ((v = ''Running'' \<longrightarrow> readyDeployment (vw (deploymentKey e cr ''repo-server''))) \<longrightarrow> P vw (putRepo v st)) \<and>
     ((v = ''Running'' \<longrightarrow> readyDeployment (vw (deploymentKey e cr ''server''))) \<longrightarrow> P vw (putServer v st)) \<and>
     ((v = ''Running'' \<longrightarrow> UseDex cr \<and> readyDeployment (vw (deploymentKey e cr ''dex-server''))) \<longrightarrow> P vw (putSSO v st)) \<and>
     P vw (putApplicationSetController v st) \<and> P vw (putCommitServer v st) \<and> P vw (putNotifications v st))"

lemma settable_put:
  assumes "settable e cr P" and "P vw st"
  shows "(v = ''Running'' \<Longrightarrow> controllerReady e cr vw) \<Longrightarrow> P vw (putApplicationController v st)"
    and "(v = ''Running'' \<Longrightarrow> redisReady e cr vw) \<Longrightarrow> P vw (putRedis v st)"
    and "(v = ''Running'' \<Longrightarrow> readyDeployment (vw (deploymentKey e cr ''repo-server''))) \<Longrightarrow> P vw (putRepo v st)"
    and "(v = ''Running'' \<Longrightarrow> readyDeployment (vw (deploymentKey e cr ''server''))) \<Longrightarrow> P vw (putServer v st)"
    and "(v = ''Running'' \<Longrightarrow> UseDex cr \<and> readyDeployment (vw (deploymentKey e cr ''dex-server''))) \<Longrightarrow> P vw (putSSO v st)"
    and "P vw (putApplicationSetController v st)" and "P vw (putCommitServer v st)" and "P vw (putNotifications v st)"
  using assms unfolding settable_def by blast+

lemma settable_truthful: "settable e cr (truthful e cr)"
  unfolding settable_def by (auto simp: truthful_def put_defs)

lemma settable_frame: "settable e cr (\<lambda>_ st. Status_Phase st = p \<and> Status_Conditions st = cs)"
  unfolding settable_def by (auto simp: put_defs)

lemma truthful_other:
  "truthful e cr vw (putHost v st) = truthful e cr vw st"
  "truthful e cr vw st \<Longrightarrow> (v = ''Available'' \<Longrightarrow> componentsReady e cr vw) \<Longrightarrow> truthful e cr vw (putPhase v st)"
  by (simp_all add: truthful_def put_defs)

lemma deploymentStatus_Running:
  assumes "deploymentStatus found = ''Running''" and "\<And>a. found = Some a \<Longrightarrow> v = Some (ODeployment a)"
  shows "readyDeployment v"
  using assms by (auto simp: deploymentStatus_def readyDeployment_def split: option.splits if_splits)

lemma phase_truthful:
  assumes "truthful e cr vw (ssStatus s)" and "reconcileStatusPhase cr s w = (Ok (r, s'), w')"
  shows "truthful e cr vw (ssStatus s')"
proof -
  from assms(2) obtain v where s': "ssStatus s' = putPhase v (ssStatus s)"
    and v: "v = ''Available'' \<Longrightarrow> available (Controller_IsEnabled (bSpec_Controller (spec cr))) (Status_ApplicationController (ssStatus s)) \<and>
        (available (Redis_IsEnabled (bSpec_Redis (spec cr))) (Status_Redis (ssStatus s)) \<or>
         Redis_IsEnabled (bSpec_Redis (spec cr)) \<and> Redis_IsRemote (bSpec_Redis (spec cr))) \<and>
        available (Repo_IsEnabled (bSpec_Repo (spec cr))) (Status_Repo (ssStatus s)) \<and>
        available (Server_IsEnabled (bSpec_Server (spec cr))) (Status_Server (ssStatus s)) \<and>
        available (SSO_IsEnabled (bSpec_SSO (spec cr))) (Status_SSO (ssStatus s))"
    unfolding reconcileStatusPhase_def Let_def by (auto split: if_splits)
  show ?thesis unfolding s'
  proof (rule truthful_other(2)[OF assms(1)])
    assume "v = ''Available''"
    from v[OF this] assms(1) show "componentsReady e cr vw"
      by (auto simp: componentsReady_def truthful_def available_def)
  qed
qed

section \<open>Every step keeps the status truthful, and what it does not set\<close>

context k8s_client
begin

abbreviation keepsTruth :: "env \<Rightarrow> ArgoCD_beta \<Rightarrow> 'w status_act \<Rightarrow> bool" where
  "keepsTruth e cr \<equiv> keeps view (truthful e cr)"

lemma truth_phase: "keepsTruth e cr (reconcileStatusPhase cr)"
  unfolding keeps_def using phase_truthful
  by (auto simp: reconcileStatusPhase_def Let_def)

lemma truth_controller:
  assumes "settable e cr P"
  shows "keeps view P (reconcileStatusApplicationController e c cr)"
  unfolding reconcileStatusApplicationController_def
  by (rule keeps_lookup_done)
    (auto simp: statefulSetKey_def refreshable_def controllerReady_def readyStatefulSet_def
      intro!: settable_put(1)[OF assms] split: option.splits if_splits elim!: as_stateful_set.elims)

lemma truth_deployments:
  assumes "settable e cr P"
  shows "keeps view P (reconcileStatusRepo e c cr)" "keeps view P (reconcileStatusServer e c cr)"
  "keeps view P (reconcileStatusCommitServer e c cr)" "keeps view P (reconcileStatusNotifications e c cr)"
  "keeps view P (reconcileStatusApplicationSetController e c cr)"
  unfolding reconcileStatusRepo_def reconcileStatusServer_def reconcileStatusCommitServer_def
    reconcileStatusNotifications_def reconcileStatusApplicationSetController_def
  by (rule keeps_withDeployment; auto intro!: settable_put[OF assms] deploymentStatus_Running)+

lemma truth_redis:
  assumes "settable e cr P"
  shows "keeps view P (reconcileStatusRedis e c cr)"
proof (cases "HA_Enabled (bSpec_HA (spec cr))")
  case False
  have "keeps view P (withDeployment e c cr ''redis'' putRedis (\<lambda>found. done_with (putRedis (deploymentStatus found))))"
    by (rule keeps_withDeployment) (auto intro!: settable_put[OF assms] deploymentStatus_Running simp: redisReady_def False)
  with False show ?thesis by (simp add: keeps_def reconcileStatusRedis_def)
next
  case True
  let ?h = "\<lambda>found. \<lambda>s. case found of
       None \<Rightarrow> done_with (putRedis ''Unknown'') s
     | Some x \<Rightarrow> (case stsReplicas x of
           None \<Rightarrow> panic NilDereference
         | Some n \<Rightarrow> done_with (putRedis (if stsReadyReplicas x = n then ''Running'' else ''Pending'')) s)"
  have "keeps view P (\<lambda>s. handle (IsObjectFound c as_stateful_set (statefulSetKey e cr ''redis-ha-server''))
      (\<lambda>err. failed_with err id s) (\<lambda>found. ?h found s))"
  proof (rule keeps_lookup[where g = "\<lambda>s. s"])
    show "act_rel (same_outside view {}) (?h found s)" for found :: "stateful_set option" and s
      by (auto simp: fp.rel_panic split: option.split)
    show "P vw (ssStatus s')"
      if "?h found s w = (Ok (r, s'), w')" and "P vw (ssStatus s)"
        and "\<And>a. found = Some a \<Longrightarrow> \<exists>x. vw (statefulSetKey e cr ''redis-ha-server'') = Some x \<and> as_stateful_set x = Some a"
      for found vw s w r s' and w' :: 'w
      using that True by (auto simp: redisReady_def readyStatefulSet_def split: option.splits if_splits
          elim!: as_stateful_set.elims intro!: settable_put[OF assms])
  qed (auto simp: statefulSetKey_def refreshable_def)
  with True show ?thesis by (simp add: keeps_def reconcileStatusRedis_def)
qed

lemma truth_sso:
  assumes "settable e cr P"
  shows "keeps view P (reconcileStatusSSO e c cr)"
proof (cases "ssoProviderOf cr = Some ''dex''")
  case True
  define edit where "edit s = (case bSpec_SSO (spec cr) of
      Some sso \<Rightarrow> (case bSSO_Dex sso of
          Some dex \<Rightarrow> if \<not> bDex_OpenShiftOAuth dex
            then s\<lparr>ssConditions := removeCondition (ssConditions s) configurationError\<rparr> else s
        | None \<Rightarrow> s)
    | None \<Rightarrow> s)" for s :: status_state
  have edit: "ssStatus (edit s) = ssStatus s" for s by (simp add: edit_def split: option.split)
  have "keeps view P (withDeployment e c cr ''dex-server'' putSSO (\<lambda>found. done_with (putSSO (deploymentStatus found))))"
    using True by (intro keeps_withDeployment) (auto intro!: settable_put[OF assms] deploymentStatus_Running simp: UseDex_def)
  then have "keeps view P (\<lambda>s. if \<exists>x \<in> set (elems (ssConditions s)). condType x = configurationError \<and> condStatus x = ''True''
      then done_with (putSSO ''Failed'') s
      else withDeployment e c cr ''dex-server'' putSSO (\<lambda>found. done_with (putSSO (deploymentStatus found))) s)"
    by (intro keeps_if keeps_done[where g = "\<lambda>s. s"]) (auto intro!: settable_put[OF assms])
  then have "keeps view P (\<lambda>s. (\<lambda>s. if \<exists>x \<in> set (elems (ssConditions s)). condType x = configurationError \<and> condStatus x = ''True''
      then done_with (putSSO ''Failed'') s
      else withDeployment e c cr ''dex-server'' putSSO (\<lambda>found. done_with (putSSO (deploymentStatus found))) s) (edit s))"
    by (rule keeps_via) (simp add: edit)
  moreover have "reconcileStatusSSO e c cr = \<dots>"
    by (intro ext) (simp only: reconcileStatusSSO_def edit_def Let_def True simp_thms if_True)
  ultimately show ?thesis by simp
next
  case False
  have "keeps view P (\<lambda>s. done_with (putSSO ''Failed'') (id s))"
    "keeps view P (\<lambda>s. done_with (putSSO ''Unknown'') (s\<lparr>ssConditions := removeCondition (ssConditions s) configurationError\<rparr>))"
    by (rule keeps_done; auto intro!: settable_put[OF assms])+
  with False show ?thesis by (simp add: keeps_def reconcileStatusSSO_def)
qed

lemma listO_pure: "act_rel (same_outside view {}) (listO c kd)"
  unfolding act_rel_def
proof
  fix w
  obtain rs w' where l: "cList c w kd = (rs, w')" by force
  from list_view[OF l] have "view w' = view w" .
  with l show "same_outside view {} w (snd (listO c kd w))"
    by (auto simp: listO_def same_outside_def split: sum.split)
qed

lemma serverRoutes_pure: "act_rel (same_outside view {}) (serverRoutes e c cr)"
  unfolding serverRoutes_def by (intro fp.rel_bindG fp.rel_ret listO_pure)

lemma keeps_host:
  assumes host: "\<And>vw st v. P vw (putHost v st) = P vw st"
    and pending: "\<And>vw st v. P vw st \<Longrightarrow> v \<noteq> ''Available'' \<Longrightarrow> P vw (putPhase v st)"
  shows "keeps view P (reconcileStatusHost e f c cr)"
proof -
  have failed: "keeps view P (failed_with err (putPhase ''Failed''))" for err
    by (rule keeps_failed) (simp add: pending)
  have phase: "p \<noteq> ''Available''" if "routeHost r = Ok (h, Some p)" for r h p
    using that by (auto simp: routeHost_def split: option.splits list.splits if_splits)
  have ended: "keeps view P (done_with g)" if "\<And>vw st. P vw st \<Longrightarrow> P vw (g st)" for g
    by (rule keeps_done[of P g "\<lambda>s. s"]) (auto simp: that)
  have liftO: "keeps view P (\<lambda>s. bindG (liftO (routeHost r)) (\<lambda>(host, phase).
      done_with (\<lambda>st. putHost host (case phase of None \<Rightarrow> st | Some p \<Rightarrow> putPhase p st)) s))" for r
    unfolding keeps_def
    by (auto simp: bindG_Ok_iff liftO_def pending phase host intro!: fp.rel_bindG split: option.split)
      (auto simp: act_rel_def same_outside_def)
  have routes: "keeps view P (\<lambda>s. handle (serverRoutes e c cr) (\<lambda>err. failed_with err (putPhase ''Failed'') s)
      (\<lambda>rs. case rs of [] \<Rightarrow> done_with id s
         | r # _ \<Rightarrow> bindG (liftO (routeHost r)) (\<lambda>(host, phase).
             done_with (\<lambda>st. putHost host (case phase of None \<Rightarrow> st | Some p \<Rightarrow> putPhase p st)) s)))"
  proof (rule keeps_handle[OF serverRoutes_pure failed])
    show "keeps view P (\<lambda>s. case rs of [] \<Rightarrow> done_with id s
         | r # _ \<Rightarrow> bindG (liftO (routeHost r)) (\<lambda>(host, phase).
             done_with (\<lambda>st. putHost host (case phase of None \<Rightarrow> st | Some p \<Rightarrow> putPhase p st)) s))" for rs :: "route list"
      by (cases rs) (simp_all add: ended liftO)
  qed
  have ingress: "keeps view P (\<lambda>s. handle (findIngress c (newIngressWithSuffix e ''server'' cr))
      (\<lambda>err. failed_with err (putPhase ''Failed'') s)
      (\<lambda>found. case found of None \<Rightarrow> done_with (putPhase ''Pending'') s
         | Some i \<Rightarrow> if elems (ingLoadBalancers i) \<noteq> []
             then done_with (putHost (loadBalancerHosts (elems (ingLoadBalancers i)))) s else done_with id s))"
  proof (rule keeps_handle[OF _ failed])
    show "act_rel (same_outside view {}) (findIngress c (newIngressWithSuffix e ''server'' cr))"
      unfolding findIngress_def
      by (rule IsObjectFound_pure) (simp add: ingKey_def okey_def refreshable_def)
    show "keeps view P (\<lambda>s. case found of None \<Rightarrow> done_with (putPhase ''Pending'') s
         | Some i \<Rightarrow> if elems (ingLoadBalancers i) \<noteq> []
             then done_with (putHost (loadBalancerHosts (elems (ingLoadBalancers i)))) s else done_with id s)" for found
      by (cases found) (auto simp: ended pending host intro!: keeps_if)
  qed
  have start: "P vw (ssStatus (setStatus (putHost '''') s))" if "P vw (ssStatus s)" for vw s
    using that by (simp add: host)
  show ?thesis
    unfolding reconcileStatusHost_def Let_def
    using keeps_via[OF routes start] keeps_via[OF ingress start] keeps_via[OF ended[of id] start]
    by (cases "(Route_Enabled (bServer_Route (bSpec_Server (spec cr))) \<or> Ingress_Enabled (bServer_Ingress (bSpec_Server (spec cr)))) \<and> argoRouteFound f";
        cases "Ingress_Enabled (bServer_Ingress (bSpec_Server (spec cr)))") (simp_all only: simp_thms if_True if_False id_apply)
qed

lemma truth_host: "keepsTruth e cr (reconcileStatusHost e f c cr)"
  by (rule keeps_host) (auto simp: truthful_other)

lemma keeps_status:
  assumes "settable e cr P"
    and "keeps view P (\<lambda>s. if Status_Phase (ssStatus s) = '''' then reconcileStatusHost e f c cr s else ret (None, s))"
    and "keeps view P (\<lambda>s. if Status_Phase (ssStatus s) = '''' then reconcileStatusPhase cr s else ret (None, s))"
  shows "keeps view P (reconcileStatus e f c cr)"
proof -
  have "keeps view P (\<lambda>s. ret (None, s))"
    unfolding keeps_def by (auto simp: fp.rel_ret)
  note phase = keeps_step_blank[OF assms(3) this]
  note applicationSet = keeps_step[OF truth_deployments(5)[OF assms(1)] phase]
  note host = keeps_step_blank[OF assms(2) keeps_step[OF truth_deployments(4)[OF assms(1)] applicationSet]]
  note server = keeps_step[OF truth_deployments(2)[OF assms(1)] keeps_step[OF truth_deployments(3)[OF assms(1)] host]]
  note redis = keeps_step[OF truth_redis[OF assms(1)] keeps_step[OF truth_deployments(1)[OF assms(1)] server]]
  show ?thesis
    unfolding reconcileStatus_def by (rule keeps_step[OF truth_controller[OF assms(1)] keeps_step[OF truth_sso[OF assms(1)] redis]])
qed

lemma keeps_guarded: "keeps view P m \<Longrightarrow> keeps view P (\<lambda>s. if b s then m s else ret (None, s))"
  by (rule keeps_if) (auto simp: keeps_def fp.rel_ret)

lemma truth_status: "keepsTruth e cr (reconcileStatus e f c cr)"
  by (intro keeps_status settable_truthful keeps_guarded truth_host truth_phase)

text \<open>A phase that is there stays, and the conditions of the status are not touched.\<close>

lemma keeps_phase:
  assumes "keeps view P m" and "p \<noteq> ''''"
  shows "keeps view (\<lambda>_ st. Status_Phase st = p \<and> Status_Conditions st = cs)
    (\<lambda>s. if Status_Phase (ssStatus s) = '''' then m s else ret (None, s))"
  using assms by (auto simp: keeps_def fp.rel_ret)

lemma phase_stays:
  "p \<noteq> '''' \<Longrightarrow> keeps view (\<lambda>_ st. Status_Phase st = p \<and> Status_Conditions st = cs) (reconcileStatus e f c cr)"
  by (intro keeps_status settable_frame keeps_phase[OF truth_host] keeps_phase[OF truth_phase])

lemma conditions_stay: "keeps view (\<lambda>_ st. Status_Conditions st = cs) (reconcileStatus e f c cr)"
proof (intro keeps_status keeps_guarded)
  show "settable e cr (\<lambda>_ st. Status_Conditions st = cs)" by (auto simp: settable_def put_defs)
  show "keeps view (\<lambda>_ st. Status_Conditions st = cs) (reconcileStatusHost e f c cr)"
    by (rule keeps_host) (auto simp: put_defs)
  show "keeps view (\<lambda>_ st. Status_Conditions st = cs) (reconcileStatusPhase cr)"
    by (auto simp: keeps_def reconcileStatusPhase_def Let_def put_defs)
qed

end

section \<open>What is written\<close>

lemma insertOrUpdate_settled:
  assumes "reported cond cs"
  shows "insertOrUpdateConditionsInSlice now cond cs = (False, cs)"
proof (cases "conditionIndex (condType cond) (elems cs)")
  case None
  with assms conditionIndex_find(1)[OF None] show ?thesis by (simp add: reported_def)
next
  case (Some i)
  with assms conditionIndex_find(2)[OF Some] show ?thesis
    by (auto simp: reported_def insertOrUpdateConditionsInSlice_def Let_def)
qed

context cr_server
begin

lemma updateStatus_stored:
  assumes "updateStatusAndConditionsOfArgoCD now cond cr s cc w = (Ok (), w')"
    and "stored w (crNamespace cr) (crName cr) = Some live" and "Status_Conditions (ssStatus s) = None"
  obtains st where "stored w' (crNamespace cr) (crName cr) = Some (live\<lparr>bArgoCD_Status := st\<rparr>)"
    and "st\<lparr>Status_Conditions := None\<rparr> = ssStatus s"
    and "ssConditions s = Status_Conditions (bArgoCD_Status live) \<Longrightarrow> reported cond (Status_Conditions st)"
    and "reported cond (Status_Conditions st) \<or> st = bArgoCD_Status live \<and> reported cond (ssConditions s)"
  using assms(1,2)
proof (cases rule: updateStatus_Ok)
  case same
  obtain changed cs where i: "insertOrUpdateConditionsInSlice now cond (ssConditions s) = (changed, cs)" by force
  with insertOrUpdate_reported[OF i] same(3) have "reported cond (ssConditions s)" by simp
  with same assms(2) show thesis by (intro that[of "bArgoCD_Status live"]) simp_all
next
  case written
  obtain changed cs where i: "insertOrUpdateConditionsInSlice now cond (ssConditions s) = (changed, cs)" by force
  from written i insertOrUpdate_reported(1)[OF i] assms(3) show thesis
    by (intro that[of "(ssStatus s)\<lparr>Status_Conditions := cs\<rparr>"]) simp_all
qed

end

text \<open>Settled status: once a status and its condition are written, writing the same status and condition
  again only reads.\<close>

theorem updateStatus_settles:
  assumes "cr_server cc stored"
    and "updateStatusAndConditionsOfArgoCD now cond cr s cc w = (Ok (), w')"
    and "stored w (crNamespace cr) (crName cr) = Some live"
    and "Status_Conditions (ssStatus s) = None" and "ssConditions s = Status_Conditions (bArgoCD_Status live)"
    and "getCR cc (crNamespace cr) (crName cr) w' = (Ok live', w'')"
  shows "updateStatusAndConditionsOfArgoCD later cond cr
    \<lparr>ssConditions = Status_Conditions (bArgoCD_Status live'), ssStatus = ssStatus s\<rparr> cc w' = (Ok (), w'')"
proof -
  obtain st where st: "stored w' (crNamespace cr) (crName cr) = Some (live\<lparr>bArgoCD_Status := st\<rparr>)"
    and same: "st\<lparr>Status_Conditions := None\<rparr> = ssStatus s" and r: "reported cond (Status_Conditions st)"
    using cr_server.updateStatus_stored[OF assms(1-4)] assms(5) by blast
  from cr_server.read_found[OF assms(1,6)] st have l: "live' = live\<lparr>bArgoCD_Status := st\<rparr>" by simp
  from r show ?thesis
    by (simp add: updateStatusAndConditionsOfArgoCD_def insertOrUpdate_settled handle_def assms(6) l same ret_def)
qed

definition blankStatus :: ArgoCDStatus where
  "blankStatus = bArgoCD_Status zero_ArgoCD_beta"

theorem updateStatus_settles_witness:
  "let w' = snd (updateStatusAndConditionsOfArgoCD 7 (createCondition '''') samplePolicyCR
       \<lparr>ssConditions = None, ssStatus = putPhase ''Available'' blankStatus\<rparr> crMemory (Some samplePolicyCR))
   in updateStatusAndConditionsOfArgoCD 8 (createCondition '''') samplePolicyCR
       \<lparr>ssConditions = Status_Conditions (bArgoCD_Status (the w')), ssStatus = putPhase ''Available'' blankStatus\<rparr> crMemory w' = (Ok (), w')"
proof -
  let ?s = "\<lparr>ssConditions = None, ssStatus = putPhase ''Available'' blankStatus\<rparr>"
  let ?run = "updateStatusAndConditionsOfArgoCD 7 (createCondition '''') samplePolicyCR ?s crMemory (Some samplePolicyCR)"
  have r: "?run = (Ok (), snd ?run)" by (rule run_result) code_simp
  have g: "getCR crMemory (crNamespace samplePolicyCR) (crName samplePolicyCR) (snd ?run) = (Ok (the (snd ?run)), snd ?run)"
    by code_simp
  have "crStored (Some samplePolicyCR) (crNamespace samplePolicyCR) (crName samplePolicyCR) = Some samplePolicyCR"
    and "Status_Conditions (putPhase ''Available'' blankStatus) = None" and "Status_Conditions (bArgoCD_Status samplePolicyCR) = None"
    by code_simp+
  with updateStatus_settles[OF crm.cr_server_axioms r _ _ _ g, of samplePolicyCR] show ?thesis
    unfolding Let_def by simp
qed


text \<open>A cluster that holds nothing and refuses every write.\<close>

definition emptyCluster :: "'w client" where
  "emptyCluster = \<lparr>cGet = (\<lambda>w k. (Inl NotFound, w)), cList = (\<lambda>w kd. (Inr [], w)),
     cCreate = (\<lambda>w x. (Some (ApiFailure ''''), w)), cUpdate = (\<lambda>w x. (Some NotFound, w)),
     cDelete = (\<lambda>w k. (Some NotFound, w)), cPatch = (\<lambda>w x y. (Some NotFound, w))\<rparr>"

interpretation emptyc: k8s_client emptyCluster "\<lambda>_ _. None" id id
  by unfold_locales (auto simp: emptyCluster_def fun_eq_iff intro!: exI[of _ "None :: obj option"])


section \<open>The phase Available\<close>

text \<open>C35. The status of an instance: finding it out changes no object of the cluster. If the status it starts from is
  not Available and has no component Running, and the search comes to the phase Available, the components the phase
  is made from are ready: each of the application controller, the repo server, the server, Redis (unless it is
  remote) and, with single sign-on, Dex, which then is the provider, that is enabled has its workload with all of
  its replicas ready; with high availability that of Redis is its StatefulSet. Of the other components, the
  applicationset controller, the notifications controller, the commit server and the proxy of Redis, nothing is
  claimed.\<close>

theorem reconcileStatus_sound:
  assumes "k8s_client c view admit refresh"
    and "Status_Phase (ssStatus s) \<noteq> ''Available''"
    and "''Running'' \<notin> {Status_ApplicationController (ssStatus s), Status_SSO (ssStatus s), Status_Redis (ssStatus s),
      Status_Repo (ssStatus s), Status_Server (ssStatus s)}"
    and "reconcileStatus e f c cr s w = (r, w')"
  shows "view w' = view w \<and>
    (\<forall>err s'. r = Ok (err, s') \<and> Status_Phase (ssStatus s') = ''Available'' \<longrightarrow> componentsReady e cr (view w))"
proof -
  note k = k8s_client.truth_status[OF assms(1), of e cr f]
  have "truthful e cr (view w) (ssStatus s)" using assms(2,3) by (auto simp: truthful_def)
  with keeps_view[OF k assms(4)] keepsD(2)[OF k, of s w] assms(4) show ?thesis
    by (auto simp: truthful_def)
qed

text \<open>An instance of which only the server is enabled, and its deployment.\<close>

definition sampleStatusCR :: ArgoCD_beta where
  "sampleStatusCR = samplePolicyCR\<lparr>bArgoCD_Spec := (spec samplePolicyCR)\<lparr>bSpec_SSO := None,
     bSpec_Controller := (bSpec_Controller (spec samplePolicyCR))\<lparr>bController_Enabled := Some False\<rparr>,
     bSpec_Redis := (bSpec_Redis (spec samplePolicyCR))\<lparr>bRedis_Enabled := Some False\<rparr>,
     bSpec_Repo := (bSpec_Repo (spec samplePolicyCR))\<lparr>bRepo_Enabled := Some False\<rparr>\<rparr>\<rparr>"

definition sampleServer :: deployment where
  "sampleServer = \<lparr>depMeta = mkMeta ''argocd-server'' ''team'', depReplicas = Some 1, depSelector = None,
     depTemplate = \<lparr>ptLabels = None, ptAnnotations = None, ptSpec = zeroPodSpec\<rparr>, depReadyReplicas = 1,
     depConditions = None\<rparr>"

theorem reconcileStatus_sound_witness:
  "componentsReady sampleEnv sampleStatusCR (mem_view [ODeployment sampleServer]) \<and>
   (case fst (reconcileStatus sampleEnv samplePolicyFlags mem_client sampleStatusCR
       \<lparr>ssConditions = None, ssStatus = blankStatus\<rparr> [ODeployment sampleServer]) of
      Ok (err, s) \<Rightarrow> Status_Phase (ssStatus s) = ''Available'' | _ \<Rightarrow> False)"
proof -
  let ?s = "\<lparr>ssConditions = None, ssStatus = blankStatus\<rparr>"
  let ?run = "reconcileStatus sampleEnv samplePolicyFlags mem_client sampleStatusCR ?s [ODeployment sampleServer]"
  have a: "case fst ?run of Ok (err, s) \<Rightarrow> Status_Phase (ssStatus s) = ''Available'' | _ \<Rightarrow> False" by code_simp
  then obtain err s where r: "?run = (Ok (err, s), snd ?run)" and p: "Status_Phase (ssStatus s) = ''Available''"
    by (auto split: outcome.splits simp: prod_eq_iff)
  have "Status_Phase (ssStatus ?s) \<noteq> ''Available''"
    "''Running'' \<notin> {Status_ApplicationController (ssStatus ?s), Status_SSO (ssStatus ?s), Status_Redis (ssStatus ?s),
      Status_Repo (ssStatus ?s), Status_Server (ssStatus ?s)}" by code_simp+
  from reconcileStatus_sound[OF mem.k8s_client_axioms this r] a p show ?thesis by blast
qed

section \<open>Single sign-on\<close>

text \<open>The configurations that make sense.\<close>

definition legalSSO :: "argo_flags \<Rightarrow> ArgoCDSSOSpec_beta \<Rightarrow> bool" where
  "legalSSO f sso \<longleftrightarrow> ToLower (bSSO_Provider sso) = ''dex'' \<and> bSSO_Keycloak sso = None \<and>
     (\<exists>dex. bSSO_Dex sso = Some dex \<and>
        (if bDex_OpenShiftOAuth dex then versionFound f else bDex_Config dex \<noteq> ''''))"

lemma ssoRefusal_None_iff: "ssoRefusal f sso = None \<longleftrightarrow> legalSSO f sso"
  by (auto simp: ssoRefusal_def legalSSO_def Let_def split: option.splits if_splits)

text \<open>The check of the single sign-on configuration: without one nothing happens; a legal one (Dex with
  its own configuration, or OpenShift OAuth on OpenShift, and no Keycloak) has the resources of Dex
  reconciled, whose error is returned; any other, the empty one included, is refused before anything in
  the cluster changes. The status is Failed with an error, and only then touched.\<close>

theorem reconcileSSO_spec:
  "reconcileSSO f reconcileDex cr s =
     (case bSpec_SSO (spec cr) of
        None \<Rightarrow> ret (None, s)
      | Some sso \<Rightarrow>
          if legalSSO f sso
          then handle (reconcileDex cr) (\<lambda>err. ret (Some err, setStatus (putSSO ''Failed'') s)) (\<lambda>_. ret (None, s))
          else ret (Some (the (ssoRefusal f sso)), setStatus (putSSO ''Failed'') s))"
proof (cases "bSpec_SSO (spec cr)")
  case (Some sso)
  show ?thesis
  proof (cases "legalSSO f sso")
    case True
    moreover from True have "ToLower (bSSO_Provider sso) = ''dex''" by (simp add: legalSSO_def)
    ultimately show ?thesis using Some ssoRefusal_None_iff[of f sso]
      by (simp add: reconcileSSO_def UseDex_def ssoProviderOf_def done_with_def failed_with_def setStatus_def)
  next
    case False
    with ssoRefusal_None_iff[of f sso] obtain err where "ssoRefusal f sso = Some err" by blast
    with Some False show ?thesis by (simp add: reconcileSSO_def failed_with_def)
  qed
qed (simp add: reconcileSSO_def done_with_def setStatus_def)

section \<open>The metrics\<close>

definition inPhase :: "active_instances \<Rightarrow> string \<Rightarrow> string set" where
  "inPhase a p = {ns. fmlookup (aiMap a) ns = Some p}"

text \<open>How many of the passes deleted an instance that was never counted: without a phase, in a namespace
  that is not in the map.\<close>

fun uncounted :: "(string \<times> string \<times> bool) list \<Rightarrow> active_instances \<Rightarrow> int" where
  "uncounted [] a = 0"
| "uncounted ((ns, phase, deleting) # ps) a =
     (if deleting \<and> phase = '''' \<and> fmlookup (aiMap a) ns = None then 1 else 0) +
     uncounted ps (countInstance (ns, phase, deleting) a)"

definition counts :: "active_instances \<Rightarrow> int \<Rightarrow> bool" where
  "counts a n \<longleftrightarrow> aiTotal a = int (card (fset (fmdom (aiMap a)))) - n \<and>
     (\<forall>p. aiByPhase a p = int (card (inPhase a p)) - (if p = '''' then n else 0))"

lemma inPhase_finite [simp]: "finite (inPhase a p)"
  by (rule finite_subset[of _ "fset (fmdom (aiMap a))"]) (auto simp: inPhase_def intro: fmdomI)

lemma card_without: "finite A \<Longrightarrow> x \<in> A \<Longrightarrow> int (card (A - {x})) = int (card A) - 1"
  using card_gt_0_iff[of A] by (auto simp: card_Diff_singleton of_nat_diff)

lemma inPhase_upd:
  "aiMap b = fmupd ns q (aiMap a) \<Longrightarrow> inPhase b p = (if p = q then insert ns (inPhase a p) else inPhase a p - {ns})"
  by (auto simp: inPhase_def)

lemma inPhase_drop: "aiMap b = fmdrop ns (aiMap a) \<Longrightarrow> inPhase b p = inPhase a p - {ns}"
  by (auto simp: inPhase_def)

lemma inPhase_iff: "ns \<in> inPhase a p \<longleftrightarrow> fmlookup (aiMap a) ns = Some p"
  by (simp add: inPhase_def)

lemma card_phase_upd:
  assumes "aiMap b = fmupd ns q (aiMap a)" and "fmlookup (aiMap a) ns \<noteq> Some q"
  shows "int (card (inPhase b p)) =
    int (card (inPhase a p)) + (if p = q then 1 else 0) - (if fmlookup (aiMap a) ns = Some p then 1 else 0)"
proof (cases "p = q")
  case True
  with assms(2) show ?thesis by (simp add: inPhase_upd[OF assms(1)] inPhase_iff)
next
  case False
  show ?thesis
  proof (cases "ns \<in> inPhase a p")
    case True
    with False card_without[OF inPhase_finite True] show ?thesis by (simp only: inPhase_upd[OF assms(1)] inPhase_iff if_False if_True refl)
  qed (simp add: inPhase_upd[OF assms(1)] inPhase_iff False)
qed

lemma card_phase_drop:
  assumes "aiMap b = fmdrop ns (aiMap a)"
  shows "int (card (inPhase b p)) = int (card (inPhase a p)) - (if fmlookup (aiMap a) ns = Some p then 1 else 0)"
proof (cases "ns \<in> inPhase a p")
  case True
  from card_without[OF inPhase_finite True] True show ?thesis
    by (simp only: inPhase_drop[OF assms] inPhase_iff if_True refl)
qed (simp add: inPhase_drop[OF assms] inPhase_iff)

lemma noticeInstance_map:
  "fmlookup (aiMap (noticeInstance ns phase a)) ns = (if phase = '''' \<and> fmlookup (aiMap a) ns = None then None else Some phase)"
  by (auto simp: noticeInstance_def gaugeAdd_def split: option.split)

lemma notice_counts:
  assumes "counts a n"
  shows "counts (noticeInstance ns phase a) n"
proof (cases "fmlookup (aiMap a) ns")
  case None
  define b where "b = noticeInstance ns phase a"
  show ?thesis
  proof (cases "phase = ''''")
    case True
    with None assms show ?thesis by (simp add: noticeInstance_def)
  next
    case False
    with None have m: "aiMap b = fmupd ns phase (aiMap a)" and t: "aiTotal b = aiTotal a + 1"
      and g: "aiByPhase b p = aiByPhase a p + (if p = phase then 1 else 0)" for p
      by (simp_all add: b_def noticeInstance_def gaugeAdd_def)
    have d: "card (fset (fmdom (aiMap b))) = Suc (card (fset (fmdom (aiMap a))))"
      using None by (simp add: m fmdom_notI)
    have i: "int (card (inPhase b p)) = int (card (inPhase a p)) + (if p = phase then 1 else 0)" for p
      using card_phase_upd[OF m, of p] None by simp
    from assms show ?thesis unfolding b_def[symmetric] counts_def by (simp add: t g d i)
  qed
next
  case (Some old)
  define b where "b = noticeInstance ns phase a"
  show ?thesis
  proof (cases "old = phase")
    case True
    with Some assms show ?thesis by (simp add: noticeInstance_def)
  next
    case False
    with Some have m: "aiMap b = fmupd ns phase (aiMap a)" and t: "aiTotal b = aiTotal a"
      and g: "aiByPhase b p = aiByPhase a p + (if p = phase then 1 else 0) - (if p = old then 1 else 0)" for p
      by (auto simp: b_def noticeInstance_def gaugeAdd_def)
    from Some have d: "fset (fmdom (aiMap b)) = fset (fmdom (aiMap a))"
      using fmdomI[OF Some] by (auto simp: m)
    have i: "int (card (inPhase b p)) = int (card (inPhase a p)) + (if p = phase then 1 else 0) - (if p = old then 1 else 0)" for p
      using card_phase_upd[OF m, of p] Some False by auto
    from assms show ?thesis unfolding b_def[symmetric] counts_def by (simp add: t g d i)
  qed
qed

lemma forget_counts:
  assumes "counts a n" and "fmlookup (aiMap a) ns = (if phase = '''' \<and> new then None else Some phase)"
  shows "counts (forgetInstance ns phase a) (n + (if phase = '''' \<and> new then 1 else 0))"
proof -
  define b where "b = forgetInstance ns phase a"
  have m: "aiMap b = fmdrop ns (aiMap a)" and t: "aiTotal b = aiTotal a - 1"
    and g: "aiByPhase b p = aiByPhase a p - (if p = phase then 1 else 0)" for p
    by (auto simp: b_def forgetInstance_def gaugeAdd_def)
  have d: "fset (fmdom (aiMap b)) = fset (fmdom (aiMap a)) - {ns}" by (auto simp: m)
  show ?thesis
  proof (cases "phase = '''' \<and> new")
    case True
    with assms(2) have l: "fmlookup (aiMap a) ns = None" by simp
    then have "ns \<notin> fset (fmdom (aiMap a))" by (simp add: fmdom_notI)
    then have d': "card (fset (fmdom (aiMap b))) = card (fset (fmdom (aiMap a)))" by (simp add: d)
    have "int (card (inPhase b p)) = int (card (inPhase a p))" for p using card_phase_drop[OF m, of p] l by simp
    with assms(1) True show ?thesis unfolding b_def[symmetric] counts_def by (simp add: t g d')
  next
    case False
    with assms(2) have l: "fmlookup (aiMap a) ns = Some phase" by auto
    have d': "int (card (fset (fmdom (aiMap b)))) = int (card (fset (fmdom (aiMap a)))) - 1"
      unfolding d using fmdomI[OF l] by (intro card_without) auto
    have i: "int (card (inPhase b p)) = int (card (inPhase a p)) - (if p = phase then 1 else 0)" for p
      using card_phase_drop[OF m, of p] l by auto
    from assms(1) False show ?thesis unfolding b_def[symmetric] counts_def by (auto simp: t g d' i)
  qed
qed

lemma countInstance_counts:
  assumes "counts a n"
  shows "counts (countInstance (ns, phase, deleting) a)
    (n + (if deleting \<and> phase = '''' \<and> fmlookup (aiMap a) ns = None then 1 else 0))"
  using notice_counts[OF assms, of ns phase]
    forget_counts[OF notice_counts[OF assms, of ns phase], of ns phase "fmlookup (aiMap a) ns = None"]
  by (simp add: countInstance_def noticeInstance_map split: if_splits)

lemma fold_counts:
  "counts a n \<Longrightarrow> counts (fold countInstance ps a) (n + uncounted ps a)"
proof (induction ps arbitrary: a n)
  case (Cons p ps)
  obtain ns phase deleting where p: "p = (ns, phase, deleting)" by (cases p)
  from Cons.IH[OF countInstance_counts[OF Cons.prems, of ns phase deleting]] show ?case
    by (simp add: p algebra_simps)
qed simp

text \<open>C37. The metrics of active instances: after any sequence of passes the total is the number of
  instances in the map, and the gauge of a phase the number of those in that phase, less one for every
  pass that deleted an instance which was never counted; those passes also lower the gauge of the empty
  phase.\<close>

theorem activeInstances_count:
  "let a = fold countInstance passes noInstances; n = uncounted passes noInstances
   in aiTotal a = int (card (fset (fmdom (aiMap a)))) - n \<and>
     (\<forall>p. aiByPhase a p = int (card {ns. fmlookup (aiMap a) ns = Some p}) - (if p = '''' then n else 0))"
  using fold_counts[of noInstances 0 passes]
  by (simp add: Let_def counts_def noInstances_def inPhase_def)

end
