(* ===== verification/Policy_Rules.thy ===== *)
theory Policy_Rules
  imports Instance_Common
begin

text \<open>
  The permissions of the components of an instance (\<open>argocd-operator/controllers/argocd/policyrule.go\<close>,
  \<open>policyRuleForCommitServer\<close> of \<open>commitserver.go\<close>, the component names of \<open>common/defaults.go\<close>): the
  rules of the Roles and ClusterRoles, which of them make up the list an instance reconciles, and what
  they amount to under the authorizer of Kubernetes (\<open>grants\<close>): a rule permits a request when its verbs,
  groups and resources contain it, or the wildcard, and its names, if it has any, the name.
\<close>

definition permit :: "string list \<Rightarrow> string list \<Rightarrow> string list \<Rightarrow> policy_rule" where
  "permit groups resources verbs = \<lparr>prAPIGroups = Some groups, prResources = Some resources,
     prResourceNames = None, prVerbs = Some verbs, prNonResourceURLs = None\<rparr>"

definition permitNamed :: "string list \<Rightarrow> string list \<Rightarrow> string list \<Rightarrow> string list \<Rightarrow> policy_rule" where
  "permitNamed names groups resources verbs = (permit groups resources verbs)\<lparr>prResourceNames := Some names\<rparr>"

definition permitURLs :: "string list \<Rightarrow> string list \<Rightarrow> policy_rule" where
  "permitURLs urls verbs = \<lparr>prAPIGroups = None, prResources = None, prResourceNames = None,
     prVerbs = Some verbs, prNonResourceURLs = Some urls\<rparr>"

section \<open>Components\<close>

definition applicationControllerComponent :: string where
  "applicationControllerComponent = ''argocd-application-controller''"
definition applicationControllerComponentView :: string where
  "applicationControllerComponentView = ''argocd-application-controller-view''"
definition applicationControllerComponentAdmin :: string where
  "applicationControllerComponentAdmin = ''argocd-application-controller-admin''"
definition serverComponent :: string where "serverComponent = ''argocd-server''"
definition commitServerComponent :: string where "commitServerComponent = ''argocd-commit-server''"
definition redisComponent :: string where "redisComponent = ''argocd-redis''"
definition redisHAComponent :: string where "redisHAComponent = ''argocd-redis-ha''"
definition dexServerComponent :: string where "dexServerComponent = ''argocd-dex-server''"
definition repoServerComponent :: string where "repoServerComponent = ''argocd-repo-server''"

section \<open>Rules\<close>

text \<open>On OpenShift the pods of Redis may use the restricted security context constraint; an unknown
  version, also when it could not be found out, counts as a new one.\<close>

definition restrictedSCC :: "env \<Rightarrow> string \<Rightarrow> policy_rule" where
  "restrictedSCC e version = permitNamed
     [if version = '''' \<or> semverCompare e (''v'' @ version) ''v4.10.999'' > 0 then ''restricted-v2'' else ''restricted'']
     [''security.openshift.io''] [''securitycontextconstraints''] [''use'']"

definition appendOpenShiftRestrictedSCC ::
  "env \<Rightarrow> argo_flags \<Rightarrow> 'w client \<Rightarrow> policy_rule list \<Rightarrow> ('w, policy_rule list) act" where
  "appendOpenShiftRestrictedSCC e f c rules =
     (if \<not> versionFound f then ret rules
      else handle (getClusterVersion f c) (\<lambda>_. ret (rules @ [restrictedSCC e ''''])) (\<lambda>version. ret (rules @ [restrictedSCC e version])))"

definition policyRuleForApplicationControllerAdmin :: "policy_rule list" where
  "policyRuleForApplicationControllerAdmin = []"

definition policyRuleForCommitServer :: "policy_rule list" where
  "policyRuleForCommitServer = []"

definition policyRuleForApplicationController :: "policy_rule list" where
  "policyRuleForApplicationController = [permit [''*''] [''*''] [''*''],
     permit [''''] [''serviceaccounts''] [''impersonate'']]"

definition policyRuleForApplicationControllerView :: "policy_rule list" where
  "policyRuleForApplicationControllerView = [permit [''*''] [''*''] [''get'', ''list'', ''watch''],
     permitURLs [''*''] [''get'', ''list'']]"

definition policyRuleForDexServer :: "policy_rule list" where
  "policyRuleForDexServer = [permit [''''] [''secrets'', ''configmaps''] [''get'', ''list'', ''watch'']]"

definition policyRuleForNotificationsController :: "policy_rule list" where
  "policyRuleForNotificationsController = [permit [''argoproj.io''] [''applications'', ''appprojects''] [''get'', ''list'', ''patch'', ''update'', ''watch''],
     permit [''''] [''configmaps'', ''secrets''] [''list'', ''watch''],
     permitNamed [''argocd-notifications-cm''] [''''] [''configmaps''] [''get''],
     permitNamed [''argocd-notifications-secret''] [''''] [''secrets''] [''get'']]"

definition policyRuleForNotificationsControllerClusterRole :: "policy_rule list" where
  "policyRuleForNotificationsControllerClusterRole = [permit [''argoproj.io''] [''applications''] [''list'', ''watch''],
     permit [''''] [''configmaps'', ''secrets''] [''list'', ''watch'']]"

definition policyRuleForServerApplicationSourceNamespaces :: "policy_rule list" where
  "policyRuleForServerApplicationSourceNamespaces = [permit [''argoproj.io''] [''applications''] [''create'', ''get'', ''list'', ''patch'', ''update'', ''watch'', ''delete'']]"

definition policyRuleForServerClusterRole :: "policy_rule list" where
  "policyRuleForServerClusterRole = [permit [''*''] [''*''] [''get'', ''delete'', ''patch''],
     permit [''argoproj.io''] [''applications'', ''applicationsets''] [''list'', ''watch''],
     permit [''''] [''events''] [''list''],
     permit [''batch''] [''jobs'', ''cronjobs'', ''cronjobs/finalizers''] [''create'', ''update'']]"

definition policyRuleForApplicationSetController :: "policy_rule list" where
  "policyRuleForApplicationSetController = [permit [''argoproj.io''] [''applications'', ''applicationsets'', ''applicationsets/finalizers''] [''create'', ''delete'', ''get'', ''list'', ''patch'', ''update'', ''watch''],
     permit [''argoproj.io''] [''applicationsets/status''] [''get'', ''patch'', ''update''],
     permit [''argoproj.io''] [''appprojects''] [''get'', ''list'', ''watch''],
     permit [''''] [''events''] [''create'', ''get'', ''list'', ''patch'', ''watch''],
     permit [''''] [''configmaps''] [''create'', ''update'', ''delete'', ''get'', ''list'', ''patch'', ''watch''],
     permit [''''] [''secrets''] [''get'', ''list'', ''watch''],
     permit [''apps'', ''extensions''] [''deployments''] [''get'', ''list'', ''watch''],
     permit [''coordination.k8s.io''] [''leases''] [''create'', ''delete'', ''get'', ''list'', ''patch'', ''update'', ''watch'']]"

definition policyRuleForServerApplicationSetSourceNamespaces :: "policy_rule list" where
  "policyRuleForServerApplicationSetSourceNamespaces = [permit [''argoproj.io''] [''applicationsets''] [''create'', ''get'', ''list'', ''patch'', ''update'', ''watch'', ''delete'']]"

definition policyRuleForRoleForImageUpdaterController :: "policy_rule list" where
  "policyRuleForRoleForImageUpdaterController = [permit [''''] [''configmaps'', ''secrets''] [''get'', ''list'', ''watch''],
     permitNamed [''argocd-image-updater-config''] [''''] [''configmaps''] [''get''],
     permitNamed [''argocd-image-updater-ssh-config''] [''''] [''configmaps''] [''get''],
     permitNamed [''argocd-image-updater-secret''] [''''] [''secrets''] [''get''],
     permit [''coordination.k8s.io''] [''leases''] [''create'', ''delete'', ''get'', ''list'', ''patch'', ''update'', ''watch''],
     permit [''''] [''events''] [''create'', ''patch'']]"

definition policyRuleForRoleManagerRoleForImageUpdaterController :: "policy_rule list" where
  "policyRuleForRoleManagerRoleForImageUpdaterController = [permit [''''] [''events''] [''create'', ''patch''],
     permit [''argocd-image-updater.argoproj.io''] [''imageupdaters''] [''create'', ''delete'', ''get'', ''list'', ''patch'', ''update'', ''watch''],
     permit [''argocd-image-updater.argoproj.io''] [''imageupdaters/finalizers''] [''update''],
     permit [''argocd-image-updater.argoproj.io''] [''imageupdaters/status''] [''get'', ''patch'', ''update''],
     permit [''argoproj.io''] [''applications''] [''get'', ''list'', ''patch'', ''update'', ''watch'']]"

definition policyRuleForServer :: "ArgoCD_beta \<Rightarrow> policy_rule list" where
  "policyRuleForServer cr = [permit [''*''] [''*''] [''get'', ''patch'', ''delete''],
     permit [''''] [''secrets'', ''configmaps''] [''create'', ''get'', ''list'', ''watch'', ''update'', ''patch'', ''delete''],
     permit [''argoproj.io''] [''applications'', ''applicationsets'', ''appprojects''] [''create'', ''get'', ''list'', ''watch'', ''update'', ''delete'', ''patch''],
     permit [''''] [''events''] [''create'', ''list''],
     permit [''batch''] [''jobs'', ''cronjobs'', ''cronjobs/finalizers''] [''create'', ''update'']] @
     (if isWebTerminalEnabled cr then [permit [''''] [''pods/exec''] [''create'']] else [])"

definition policyRuleForRedisHa :: "env \<Rightarrow> argo_flags \<Rightarrow> 'w client \<Rightarrow> ('w, policy_rule list) act" where
  "policyRuleForRedisHa e f c = appendOpenShiftRestrictedSCC e f c
     [permit [''''] [''endpoints''] [''get''],
      permit [''''] [''secrets''] [''get'', ''list'', ''watch'']]"

definition policyRuleForRedis :: "env \<Rightarrow> argo_flags \<Rightarrow> 'w client \<Rightarrow> ('w, policy_rule list) act" where
  "policyRuleForRedis e f c = appendOpenShiftRestrictedSCC e f c
     [permit [''''] [''secrets''] [''get'', ''list'', ''watch'']]"

section \<open>The lists an instance reconciles\<close>

definition getPolicyRuleList ::
  "env \<Rightarrow> argo_flags \<Rightarrow> 'w client \<Rightarrow> ArgoCD_beta \<Rightarrow> ('w, (string \<times> policy_rule list) list) act" where
  "getPolicyRuleList e f c cr =
     bindG (policyRuleForRedisHa e f c) (\<lambda>redisHa.
     bindG (policyRuleForRedis e f c) (\<lambda>redis.
     ret [(applicationControllerComponent, policyRuleForApplicationController),
          (dexServerComponent, policyRuleForDexServer),
          (serverComponent, policyRuleForServer cr),
          (commitServerComponent, policyRuleForCommitServer),
          (redisHAComponent, redisHa),
          (redisComponent, redis)]))"

definition getPolicyRuleClusterRoleList :: "(string \<times> policy_rule list) list" where
  "getPolicyRuleClusterRoleList =
     [(applicationControllerComponent, policyRuleForApplicationController),
      (serverComponent, policyRuleForServerClusterRole),
      (applicationControllerComponentView, policyRuleForApplicationControllerView),
      (applicationControllerComponentAdmin, policyRuleForApplicationControllerAdmin)]"

lemmas component_defs = applicationControllerComponent_def applicationControllerComponentView_def
  applicationControllerComponentAdmin_def serverComponent_def commitServerComponent_def redisComponent_def
  redisHAComponent_def dexServerComponent_def repoServerComponent_def

section \<open>What rules permit\<close>

definition listed :: "string \<Rightarrow> string slice \<Rightarrow> bool" where
  "listed x xs \<longleftrightarrow> x \<in> set (elems xs) \<or> ''*'' \<in> set (elems xs)"

definition rulePermits :: "policy_rule \<Rightarrow> string \<Rightarrow> string \<Rightarrow> string \<Rightarrow> string \<Rightarrow> bool" where
  "rulePermits r verb grp resource name \<longleftrightarrow> listed verb (prVerbs r) \<and> listed grp (prAPIGroups r) \<and>
     listed resource (prResources r) \<and> (elems (prResourceNames r) = [] \<or> name \<in> set (elems (prResourceNames r)))"

definition grants :: "policy_rule list \<Rightarrow> string \<Rightarrow> string \<Rightarrow> string \<Rightarrow> string \<Rightarrow> bool" where
  "grants rules verb grp resource name \<longleftrightarrow> (\<exists>r \<in> set rules. rulePermits r verb grp resource name)"

lemma rulePermits_simps [simp]:
  "rulePermits (permit gs rs vs) verb grp resource name \<longleftrightarrow>
     (verb \<in> set vs \<or> ''*'' \<in> set vs) \<and> (grp \<in> set gs \<or> ''*'' \<in> set gs) \<and> (resource \<in> set rs \<or> ''*'' \<in> set rs)"
  "rulePermits (permitNamed ns gs rs vs) verb grp resource name \<longleftrightarrow>
     (verb \<in> set vs \<or> ''*'' \<in> set vs) \<and> (grp \<in> set gs \<or> ''*'' \<in> set gs) \<and> (resource \<in> set rs \<or> ''*'' \<in> set rs) \<and>
     (ns = [] \<or> name \<in> set ns)"
  "\<not> rulePermits (permitURLs us vs) verb grp resource name"
  by (auto simp: rulePermits_def permit_def permitNamed_def permitURLs_def listed_def elems_simps)

lemma grants_simps [simp]:
  "\<not> grants [] verb grp resource name"
  "grants (r # rs) verb grp resource name \<longleftrightarrow> rulePermits r verb grp resource name \<or> grants rs verb grp resource name"
  "grants (rs @ rs') verb grp resource name \<longleftrightarrow> grants rs verb grp resource name \<or> grants rs' verb grp resource name"
  by (auto simp: grants_def)

definition readVerbs :: "string set" where "readVerbs = {''get'', ''list'', ''watch''}"

text \<open>The security context constraint the pods of Redis may use in a world: none outside OpenShift, the
  old one on a cluster whose version could be read and is at most 4.10, the new one on any other.\<close>

definition allowedSCC :: "env \<Rightarrow> argo_flags \<Rightarrow> 'w client \<Rightarrow> 'w \<Rightarrow> string option" where
  "allowedSCC e f c w =
     (if \<not> versionFound f then None
      else case fst (getClusterVersion f c w) of
        Ok v \<Rightarrow> Some (if v \<noteq> '''' \<and> semverCompare e (''v'' @ v) ''v4.10.999'' \<le> 0 then ''restricted'' else ''restricted-v2'')
      | _ \<Rightarrow> Some ''restricted-v2'')"

lemma appendOpenShiftRestrictedSCC_grants:
  assumes "appendOpenShiftRestrictedSCC e f c rules w = (Ok rules', w')"
  shows "grants rules' verb grp resource name \<longleftrightarrow> grants rules verb grp resource name \<or>
     verb = ''use'' \<and> grp = ''security.openshift.io'' \<and> resource = ''securitycontextconstraints'' \<and>
     allowedSCC e f c w = Some name"
  using assms
  by (cases "getClusterVersion f c w")
    (auto simp: appendOpenShiftRestrictedSCC_def allowedSCC_def restrictedSCC_def handle_def ret_def not_le
      split: if_splits outcome.splits)

lemma getPolicyRuleList_cases:
  assumes "getPolicyRuleList e f c cr w = (Ok L, w')" "(n, rules) \<in> set L"
  obtains "n = applicationControllerComponent" "rules = policyRuleForApplicationController"
  | "n = dexServerComponent" "rules = policyRuleForDexServer"
  | "n = serverComponent" "rules = policyRuleForServer cr"
  | "n = commitServerComponent" "rules = policyRuleForCommitServer"
  | w1 where "n = redisHAComponent" "policyRuleForRedisHa e f c w = (Ok rules, w1)"
  | w1 w2 where "n = redisComponent" "policyRuleForRedis e f c w1 = (Ok rules, w2)"
  using assms by (auto simp: getPolicyRuleList_def bindG_Ok_iff)

lemma redis_grants:
  assumes "policyRuleForRedis e f c w = (Ok rules, w')"
  shows "grants rules verb grp resource name \<longleftrightarrow>
     verb \<in> readVerbs \<and> grp = '''' \<and> resource = ''secrets'' \<or>
     verb = ''use'' \<and> grp = ''security.openshift.io'' \<and> resource = ''securitycontextconstraints'' \<and>
     allowedSCC e f c w = Some name"
  using appendOpenShiftRestrictedSCC_grants[OF assms[unfolded policyRuleForRedis_def]]
  by (auto simp: readVerbs_def)

lemma redisHa_grants:
  assumes "policyRuleForRedisHa e f c w = (Ok rules, w')"
  shows "grants rules verb grp resource name \<longleftrightarrow>
     verb = ''get'' \<and> grp = '''' \<and> resource = ''endpoints'' \<or>
     verb \<in> readVerbs \<and> grp = '''' \<and> resource = ''secrets'' \<or>
     verb = ''use'' \<and> grp = ''security.openshift.io'' \<and> resource = ''securitycontextconstraints'' \<and>
     allowedSCC e f c w = Some name"
  using appendOpenShiftRestrictedSCC_grants[OF assms[unfolded policyRuleForRedisHa_def]]
  by (auto simp: readVerbs_def)

definition powerVerbs :: "string set" where "powerVerbs = {''impersonate'', ''escalate'', ''bind''}"

lemmas rule_tables = policyRuleForApplicationController_def policyRuleForDexServer_def policyRuleForServer_def
  policyRuleForCommitServer_def policyRuleForServerClusterRole_def policyRuleForApplicationControllerView_def
  policyRuleForApplicationControllerAdmin_def policyRuleForServerApplicationSourceNamespaces_def

lemma role_powers:
  assumes L: "getPolicyRuleList e f c cr w = (Ok L, w')" and n: "(n, rules) \<in> set L \<union> set getPolicyRuleClusterRoleList"
    and a: "n \<noteq> applicationControllerComponent" and g: "grants rules verb grp resource name"
  shows "verb \<notin> powerVerbs \<and> (grp = ''rbac.authorization.k8s.io'' \<longrightarrow> verb \<notin> {''create'', ''update''})"
proof (cases "(n, rules) \<in> set L")
  case True
  from getPolicyRuleList_cases[OF L True] show ?thesis
    by cases (use a g in \<open>auto simp: powerVerbs_def rule_tables redis_grants redisHa_grants readVerbs_def split: if_splits\<close>)
next
  case False
  then show ?thesis using n a g
    by (auto simp: getPolicyRuleClusterRoleList_def powerVerbs_def rule_tables)
qed



end
