(* ===== verification/Instance_Rbac.thy ===== *)
theory Instance_Rbac
  imports Policy_Rules
begin

text \<open>
  The service accounts, Roles, RoleBindings, ClusterRoles and ClusterRoleBindings of an instance
  (\<open>argocd-operator/controllers/argocd/role.go\<close>, \<open>rolebinding.go\<close>, \<open>service_account.go\<close>; of \<open>secret.go\<close>
  the references to image pull secrets; of \<open>util.go\<close> the source namespaces and the clean-up of an
  instance's cluster-scoped objects). The namespaces an instance manages (\<open>r.ManagedNamespaces\<close>) are an
  argument; the set \<open>r.ManagedSourceNamespaces\<close>, which the code changes on the way, is part of the world.
  The registered hooks are the parameters \<open>hook\<close>, the glob matching of Argo CD is \<open>match\<close>, the order in
  which Go ranges over a map is \<open>order\<close>. The list of Roles that \<open>reconcileRole\<close> also returns, which its
  callers drop, is left out. Definitions only; the properties are in Instance_Rbac_Correct.
\<close>

section \<open>Objects\<close>

definition rbacMeta :: "ArgoCD_beta \<Rightarrow> string \<Rightarrow> string \<Rightarrow> object_meta" where
  "rbacMeta cr name ns = (mkMeta name ns)\<lparr>metaLabels := clusterLabels cr\<rparr>"

definition newRole :: "env \<Rightarrow> string \<Rightarrow> policy_rule list \<Rightarrow> ArgoCD_beta \<Rightarrow> role" where
  "newRole e name rules cr = \<lparr>roleMeta = rbacMeta cr (nameWithSuffix e name cr) (crNamespace cr), roleRules = Some rules\<rparr>"

definition getRoleNameForApplicationSourceNamespaces :: "string \<Rightarrow> ArgoCD_beta \<Rightarrow> string" where
  "getRoleNameForApplicationSourceNamespaces targetNamespace cr = crName cr @ ''_'' @ targetNamespace"

definition getRoleBindingNameForSourceNamespaces :: "env \<Rightarrow> string \<Rightarrow> string \<Rightarrow> string" where
  "getRoleBindingNameForSourceNamespaces e argocdName targetNamespace =
     TruncateWithHash e (argocdName @ ''_'' @ targetNamespace) maxLabelLength"

definition newRoleForApplicationSourceNamespaces :: "string \<Rightarrow> policy_rule list \<Rightarrow> ArgoCD_beta \<Rightarrow> role" where
  "newRoleForApplicationSourceNamespaces ns rules cr =
     \<lparr>roleMeta = rbacMeta cr (getRoleNameForApplicationSourceNamespaces ns cr) ns, roleRules = Some rules\<rparr>"

definition uniqueName :: "string \<Rightarrow> ArgoCD_beta \<Rightarrow> string" where
  "uniqueName component cr = crName cr @ ''-'' @ crNamespace cr @ ''-'' @ component"

definition annotatedMeta :: "ArgoCD_beta \<Rightarrow> string \<Rightarrow> string \<Rightarrow> object_meta" where
  "annotatedMeta cr name ns = (rbacMeta cr name ns)\<lparr>metaAnnotations := AnnotationsForCluster cr\<rparr>"

definition newInstanceClusterRole :: "string \<Rightarrow> policy_rule list \<Rightarrow> ArgoCD_beta \<Rightarrow> cluster_role" where
  "newInstanceClusterRole name rules cr = \<lparr>crMeta = annotatedMeta cr (uniqueName name cr) '''',
     crRules = Some rules, crAggregation = None\<rparr>"

text \<open>A binding whose name label is set.\<close>

definition labelledMeta :: "ArgoCD_beta \<Rightarrow> string \<Rightarrow> string \<Rightarrow> string \<Rightarrow> object_meta" where
  "labelledMeta cr name ns label = (annotatedMeta cr name ns)\<lparr>metaLabels := gput (clusterLabels cr) ''app.kubernetes.io/name'' label\<rparr>"

definition noRoleRef :: role_ref where
  "noRoleRef = \<lparr>refAPIGroup = '''', refKind = '''', refName = ''''\<rparr>"

definition newInstanceClusterRoleBinding :: "string \<Rightarrow> ArgoCD_beta \<Rightarrow> role_binding" where
  "newInstanceClusterRoleBinding name cr =
     \<lparr>rbMeta = labelledMeta cr (uniqueName name cr) '''' name, rbSubjects = None, rbRoleRef = noRoleRef\<rparr>"

definition newRoleBindingWithname :: "env \<Rightarrow> string \<Rightarrow> ArgoCD_beta \<Rightarrow> role_binding" where
  "newRoleBindingWithname e name cr =
     \<lparr>rbMeta = labelledMeta cr (nameWithSuffix e name cr) (crNamespace cr) name, rbSubjects = None, rbRoleRef = noRoleRef\<rparr>"

definition newRoleBindingForSource :: "env \<Rightarrow> string \<Rightarrow> ArgoCD_beta \<Rightarrow> role_binding" where
  "newRoleBindingForSource e ns cr =
     \<lparr>rbMeta = labelledMeta cr (getRoleBindingNameForSourceNamespaces e (crName cr) ns) ns (crName cr),
      rbSubjects = None, rbRoleRef = noRoleRef\<rparr>"

definition getServiceAccountName :: "env \<Rightarrow> string \<Rightarrow> string \<Rightarrow> string" where
  "getServiceAccountName e argocdName name = NameWithSuffix e (mkMeta argocdName '''') name"

definition newServiceAccountWithName :: "env \<Rightarrow> string \<Rightarrow> ArgoCD_beta \<Rightarrow> service_account" where
  "newServiceAccountWithName e name cr =
     \<lparr>saMeta = (rbacMeta cr (getServiceAccountName e (crName cr) name) (crNamespace cr))\<lparr>
        metaLabels := gput (clusterLabels cr) ''app.kubernetes.io/name'' name\<rparr>, saImagePullSecrets = None, saSecrets = None\<rparr>"

definition rbacAPIGroup :: string where "rbacAPIGroup = ''rbac.authorization.k8s.io''"

definition serviceAccountSubject :: "string \<Rightarrow> string \<Rightarrow> subject" where
  "serviceAccountSubject name ns = \<lparr>subjKind = ''ServiceAccount'', subjName = name, subjNamespace = ns\<rparr>"

definition refersTo :: "string \<Rightarrow> string \<Rightarrow> role_ref" where
  "refersTo knd name = \<lparr>refAPIGroup = rbacAPIGroup, refKind = knd, refName = name\<rparr>"

definition roleKeyOf :: "role \<Rightarrow> key" where "roleKeyOf r = okey (ORole r)"
definition bindingKeyOf :: "role_binding \<Rightarrow> key" where "bindingKeyOf b = okey (ORoleBinding b)"

section \<open>Which components have permissions\<close>

definition getCustomRoleName :: "env \<Rightarrow> string \<Rightarrow> string" where
  "getCustomRoleName e name =
     (if name = applicationControllerComponent then getenv e ''CONTROLLER_CLUSTER_ROLE''
      else if name = serverComponent then getenv e ''SERVER_CLUSTER_ROLE''
      else '''')"

text \<open>The component is switched off; Dex is looked at apart from the others.\<close>

definition dexOff :: "string \<Rightarrow> ArgoCD_beta \<Rightarrow> bool" where
  "dexOff name cr \<longleftrightarrow> name = dexServerComponent \<and> \<not> UseDex cr"

definition switchedOff :: "string \<Rightarrow> ArgoCD_beta \<Rightarrow> bool" where
  "switchedOff name cr \<longleftrightarrow> \<not> UseApplicationController name cr \<or> \<not> UseRedis name cr \<or> \<not> UseServer name cr \<or>
     name = commitServerComponent \<and> \<not> UseCommitServer cr"

definition internalComponent :: "string \<Rightarrow> bool" where
  "internalComponent name \<longleftrightarrow> name \<noteq> applicationControllerComponent \<and> name \<noteq> serverComponent"

definition namespaceName :: "namespace_obj \<Rightarrow> string" where "namespaceName ns = metaName (nsMeta ns)"

definition nsLabel :: "namespace_obj \<Rightarrow> string \<Rightarrow> string option" where
  "nsLabel ns k = gget (metaLabels (nsMeta ns)) k"

definition withNsLabels :: "(gomap \<Rightarrow> gomap) \<Rightarrow> namespace_obj \<Rightarrow> namespace_obj" where
  "withNsLabels g ns = ns\<lparr>nsMeta := (nsMeta ns)\<lparr>metaLabels := g (metaLabels (nsMeta ns))\<rparr>\<rparr>"

text \<open>A namespace that is being deleted is given up, whatever error the update has.\<close>

definition releaseTerminating :: "'w client \<Rightarrow> namespace_obj \<Rightarrow> ('w, unit) act" where
  "releaseTerminating c ns =
     (if nsLabel ns ArgoCDManagedByLabel \<noteq> None
      then logged (updateO c (ONamespace (withNsLabels (\<lambda>m. gdelete m ArgoCDManagedByLabel) ns)))
      else ret ())"

text \<open>The label is deleted from the map the list of managed namespaces holds: a later pass finds it gone.\<close>

definition released :: "namespace_obj \<Rightarrow> namespace_obj" where
  "released ns = (if metaDeleting (nsMeta ns) then withNsLabels (\<lambda>m. gdelete m ArgoCDManagedByLabel) ns else ns)"

definition hasInstance :: "'w client \<Rightarrow> string \<Rightarrow> ('w, bool) act" where
  "hasInstance c ns = bindG (listO c KArgoCD) (\<lambda>xs. ret (\<exists>x \<in> set xs. metaNamespace (obj_meta x) = ns))"

text \<open>What is done in each managed namespace: nothing in one that is being deleted, and for a component
  that is internal to an instance only where there is one.\<close>

definition inManagedNamespace ::
  "'w client \<Rightarrow> string \<Rightarrow> ArgoCD_beta \<Rightarrow> ('w, unit) act \<Rightarrow> namespace_obj \<Rightarrow> ('w, unit) act" where
  "inManagedNamespace c name cr m ns =
     (if metaDeleting (nsMeta ns) then releaseTerminating c ns
      else bindG (hasInstance c (namespaceName ns)) (\<lambda>here.
        if \<not> here \<and> crNamespace cr \<noteq> namespaceName ns \<and> internalComponent name then ret () else m))"

section \<open>Roles\<close>

definition inNamespace :: "string \<Rightarrow> role \<Rightarrow> role" where
  "inNamespace ns r = r\<lparr>roleMeta := (roleMeta r)\<lparr>metaNamespace := ns\<rparr>\<rparr>"

definition createRole :: "env \<Rightarrow> 'w client \<Rightarrow> ArgoCD_beta \<Rightarrow> role \<Rightarrow> ('w, unit) act" where
  "createRole e c cr r =
     (if crNamespace cr = metaNamespace (roleMeta r)
      then bindG (mapErr (Formatted ''failed to set ArgoCD CR as owner for role'') (controlledBy e cr (roleMeta r)))
        (\<lambda>m. createO c (ORole (r\<lparr>roleMeta := m\<rparr>)))
      else createO c (ORole r))"

definition roleInNamespace ::
  "env \<Rightarrow> (role \<Rightarrow> go_error + role) \<Rightarrow> 'w client \<Rightarrow> ArgoCD_beta \<Rightarrow> string \<Rightarrow> policy_rule list \<Rightarrow> string \<Rightarrow> ('w, unit) act" where
  "roleInNamespace e hook c cr name rules ns =
     bindG (liftE (hook (newRole e name rules cr))) (\<lambda>r0.
       let r = inNamespace ns r0
       in handle (getAs c as_role (roleKeyOf r))
         (\<lambda>err. if \<not> IsNotFound err
            then fail (Formatted (''failed to reconcile the role for the service account associated with '' @ name) err)
            else if getCustomRoleName e name \<noteq> '''' then ret ()
            else if dexOff name cr \<or> switchedOff name cr then ret ()
            else createRole e c cr r)
         (\<lambda>existing.
            thenG (if switchedOff name cr then deleteO c (roleKeyOf r) else ret ())
              (if getCustomRoleName e name \<noteq> '''' \<or> dexOff name cr then deleteO c (roleKeyOf r)
               else if roleRules existing \<noteq> roleRules r then updateO c (ORole (existing\<lparr>roleRules := roleRules r\<rparr>))
               else ret ())))"

definition reconcileRole ::
  "env \<Rightarrow> (role \<Rightarrow> go_error + role) \<Rightarrow> 'w client \<Rightarrow> namespace_obj list \<Rightarrow> ArgoCD_beta \<Rightarrow> string \<Rightarrow> policy_rule list \<Rightarrow> ('w, unit) act" where
  "reconcileRole e hook c managed cr name rules =
     forG (\<lambda>ns. inManagedNamespace c name cr (roleInNamespace e hook c cr name rules (namespaceName ns)) ns) managed"

section \<open>Service accounts\<close>

text \<open>The operator's own namespace, as \<open>argoutil.GetOperatorNamespace\<close> finds it.\<close>

definition argoOperatorNamespace :: "env \<Rightarrow> go_error + string" where
  "argoOperatorNamespace e =
     (if getenv e ''ARGOCD_OPERATOR_NAMESPACE'' \<noteq> '''' then Inr (getenv e ''ARGOCD_OPERATOR_NAMESPACE'')
      else case readFile e ''/var/run/secrets/kubernetes.io/serviceaccount/namespace'' of
          Inl NotExist \<Rightarrow> Inl (ErrorText ''operator namespace file does not exist and if running locally set ARGOCD_OPERATOR_NAMESPACE'')
        | Inl (OtherFileError s) \<Rightarrow> Inl (Wrapped ''failed to read operator namespace'' (ErrorText s))
        | Inr contents \<Rightarrow> (if TrimSpace contents = '''' then Inl (ErrorText ''operator namespace file is empty'')
            else Inr (TrimSpace contents)))"

text \<open>\<open>controlled\<close> is \<open>metav1.IsControlledBy\<close> for the instance.\<close>

definition getImagePullSecretRefs ::
  "env \<Rightarrow> (object_meta \<Rightarrow> bool) \<Rightarrow> 'w client \<Rightarrow> ArgoCD_beta \<Rightarrow> ('w, string slice) act" where
  "getImagePullSecretRefs e controlled c cr =
     bindG (mapErr (Wrapped ''failed to get operator namespace'') (liftE (argoOperatorNamespace e))) (\<lambda>operatorNS.
     bindG (if operatorNS = crNamespace cr
            then bindG (mapErr (Wrapped ''failed to list in-namespace image pull secrets'')
                (listSelected c KSecret (crNamespace cr) ''operator.argoproj.io/propagate-image-pull-secret'' ''true'')) (\<lambda>xs.
              ret (if length xs > 1 then [] else map (\<lambda>x. metaName (obj_meta x)) xs))
            else ret []) (\<lambda>own.
     bindG (mapErr (Wrapped ''failed to list copied image pull secrets'') (listO c KSecret)) (\<lambda>xs.
       ret (Some (sort (own @ map (\<lambda>x. metaName (obj_meta x))
         (filter (\<lambda>x. metaNamespace (obj_meta x) = crNamespace cr \<and>
            gget (obj_labels x) ''operator.argoproj.io/image-pull-secret-source'' \<noteq> None \<and> controlled (obj_meta x)) xs)))))))"

definition saKeyOf :: "service_account \<Rightarrow> key" where "saKeyOf s = okey (OServiceAccount s)"

definition saWanted :: "string \<Rightarrow> ArgoCD_beta \<Rightarrow> bool" where
  "saWanted name cr \<longleftrightarrow> \<not> dexOff name cr \<and> \<not> (name = commitServerComponent \<and> \<not> UseCommitServer cr) \<and>
     \<not> (name = repoServerComponent \<and> (\<not> Repo_IsEnabled (bSpec_Repo (spec cr)) \<or> Repo_IsRemote (bSpec_Repo (spec cr))))"

text \<open>The account is handed on to the binding; \<open>refs\<close> finds the image pull secrets.\<close>

definition reconcileServiceAccount ::
  "env \<Rightarrow> argo_flags \<Rightarrow> ('w, string slice) act \<Rightarrow> 'w client \<Rightarrow> ArgoCD_beta \<Rightarrow> string \<Rightarrow> ('w, service_account) act" where
  "reconcileServiceAccount e f refs c cr name =
     (let sa = newServiceAccountWithName e name cr
      in handle (getAs c as_service_account (saKeyOf sa))
        (\<lambda>err. if \<not> IsNotFound err then fail err
           else if \<not> saWanted name cr then ret sa
           else bindG (if versionFound f then ret sa
                       else bindG refs (\<lambda>rs. ret (sa\<lparr>saImagePullSecrets := rs\<rparr>))) (\<lambda>sa1.
                bindG (controlledBy e cr (saMeta sa1)) (\<lambda>m.
                thenG (createO c (OServiceAccount (sa1\<lparr>saMeta := m\<rparr>))) (ret (sa1\<lparr>saMeta := m\<rparr>)))))
        (\<lambda>found.
           if \<not> saWanted name cr then thenG (deleteO c (saKeyOf sa)) (ret found)
           else if versionFound f then ret found
           else bindG refs (\<lambda>rs.
             if Some (elems (saImagePullSecrets found)) \<noteq> rs
             then thenG (updateO c (OServiceAccount (found\<lparr>saImagePullSecrets := rs\<rparr>)))
                    (ret (found\<lparr>saImagePullSecrets := rs\<rparr>))
             else ret found)))"

section \<open>RoleBindings\<close>

definition roleRefFor :: "env \<Rightarrow> string \<Rightarrow> ArgoCD_beta \<Rightarrow> role_ref" where
  "roleRefFor e name cr =
     (if getCustomRoleName e name \<noteq> '''' then refersTo ''ClusterRole'' (getCustomRoleName e name)
      else refersTo ''Role'' (nameWithSuffix e name cr))"

definition desiredBinding :: "env \<Rightarrow> string \<Rightarrow> ArgoCD_beta \<Rightarrow> service_account \<Rightarrow> string \<Rightarrow> role_binding" where
  "desiredBinding e name cr sa ns =
     (let b = newRoleBindingWithname e name cr
      in b\<lparr>rbMeta := (rbMeta b)\<lparr>metaNamespace := ns\<rparr>,
           rbSubjects := Some [serviceAccountSubject (metaName (saMeta sa)) (metaNamespace (saMeta sa))],
           rbRoleRef := roleRefFor e name cr\<rparr>)"

definition createBinding :: "env \<Rightarrow> 'w client \<Rightarrow> ArgoCD_beta \<Rightarrow> role_binding \<Rightarrow> ('w, unit) act" where
  "createBinding e c cr b =
     (if crNamespace cr = metaNamespace (rbMeta b)
      then bindG (mapErr (Formatted ''failed to set ArgoCD CR as owner for roleBinding'') (controlledBy e cr (rbMeta b)))
        (\<lambda>m. createO c (ORoleBinding (b\<lparr>rbMeta := m\<rparr>)))
      else createO c (ORoleBinding b))"

text \<open>A binding that exists: its reference cannot be changed, so it is deleted and created again when the
  reference differs; otherwise its subjects are brought up to date.\<close>

definition syncBinding :: "'w client \<Rightarrow> role_binding \<Rightarrow> ('w, unit) act \<Rightarrow> role_binding \<Rightarrow> ('w, unit) act" where
  "syncBinding c b create existing =
     (if rbRoleRef b \<noteq> rbRoleRef existing then thenG (deleteO c (bindingKeyOf b)) create
      else if rbSubjects b \<noteq> rbSubjects existing then updateO c (ORoleBinding (existing\<lparr>rbSubjects := rbSubjects b\<rparr>))
      else ret ())"

definition bindingInNamespace ::
  "env \<Rightarrow> 'w client \<Rightarrow> ArgoCD_beta \<Rightarrow> string \<Rightarrow> service_account \<Rightarrow> string \<Rightarrow> ('w, unit) act" where
  "bindingInNamespace e c cr name sa ns =
     (let b = desiredBinding e name cr sa ns
      in handle (getAs c as_role_binding (bindingKeyOf b))
        (\<lambda>err. if \<not> IsNotFound err then fail (Formatted (''failed to get the rolebinding associated with '' @ name) err)
           else if dexOff name cr \<or> switchedOff name cr then ret ()
           else createBinding e c cr b)
        (\<lambda>existing.
           if dexOff name cr \<or> switchedOff name cr then deleteO c (bindingKeyOf b)
           else syncBinding c b (createBinding e c cr b) existing))"

section \<open>Source namespaces\<close>

text \<open>The world with the keys of the map \<open>r.ManagedSourceNamespaces\<close>.\<close>

record 'w source_world =
  swWorld :: 'w
  swManaged :: "string list"

definition onSW :: "('w, 'a) act \<Rightarrow> ('w source_world, 'a) act" where
  "onSW m = (\<lambda>s. case m (swWorld s) of (v, w) \<Rightarrow> (v, s\<lparr>swWorld := w\<rparr>))"

definition readManaged :: "('w source_world, string list) act" where
  "readManaged = (\<lambda>s. (Ok (swManaged s), s))"

definition forgetSource :: "string \<Rightarrow> ('w source_world, unit) act" where
  "forgetSource ns = (\<lambda>s. (Ok (), s\<lparr>swManaged := filter (\<lambda>n. n \<noteq> ns) (swManaged s)\<rparr>))"

definition rememberSource :: "string \<Rightarrow> ('w source_world, unit) act" where
  "rememberSource ns = (\<lambda>s. (Ok (), if ns \<in> set (swManaged s) then s else s\<lparr>swManaged := swManaged s @ [ns]\<rparr>))"

definition ArgoCDManagedByClusterArgoCDLabel :: string where
  "ArgoCDManagedByClusterArgoCDLabel = ''argocd.argoproj.io/managed-by-cluster-argocd''"

definition setManagedSourceNamespaces :: "'w client \<Rightarrow> ArgoCD_beta \<Rightarrow> ('w source_world, unit) act" where
  "setManagedSourceNamespaces c cr =
     (\<lambda>s. bindG (onSW (listO c KNamespace)) (\<lambda>xs s1.
        (Ok (), s1\<lparr>swManaged := map namespaceName (filter (\<lambda>ns. nsLabel ns ArgoCDManagedByClusterArgoCDLabel = Some (crNamespace cr))
           (List.map_filter as_namespace xs))\<rparr>)) (s\<lparr>swManaged := []\<rparr>))"

text \<open>Look for an object and delete it if it is there.\<close>

definition deleteFound :: "'w client \<Rightarrow> (obj \<Rightarrow> 'a option) \<Rightarrow> string \<Rightarrow> key \<Rightarrow> ('w, unit) act" where
  "deleteFound c cast msg k =
     handle (getAs c cast k)
       (\<lambda>err. if IsNotFound err then ret () else fail (Formatted msg err))
       (\<lambda>_. if snd (snd k) \<noteq> '''' then deleteO c k else ret ())"

definition sourceRoleKey :: "string \<Rightarrow> ArgoCD_beta \<Rightarrow> key" where
  "sourceRoleKey ns cr = (KRole, ns, getRoleNameForApplicationSourceNamespaces ns cr)"

definition sourceBindingKey :: "env \<Rightarrow> string \<Rightarrow> ArgoCD_beta \<Rightarrow> key" where
  "sourceBindingKey e ns cr = (KRoleBinding, ns, getRoleBindingNameForSourceNamespaces e (crName cr) ns)"

definition cleanupUnmanagedSourceNamespaceResources :: "env \<Rightarrow> 'w client \<Rightarrow> ArgoCD_beta \<Rightarrow> string \<Rightarrow> ('w, unit) act" where
  "cleanupUnmanagedSourceNamespaceResources e c cr ns =
     handle (getAs c as_namespace (KNamespace, '''', ns))
       (\<lambda>err. if \<not> IsNotFound err then fail err else ret ())
       (\<lambda>n. thenG (logged (updateO c (ONamespace (withNsLabels (\<lambda>m. gdelete m ArgoCDManagedByClusterArgoCDLabel) n))))
         (thenG (deleteFound c as_role ''failed to fetch the role for the service account associated with argocd-server''
             (sourceRoleKey (namespaceName n) cr))
           (deleteFound c as_role_binding ''failed to get the rolebinding associated with argocd-server''
             (sourceBindingKey e (namespaceName n) cr))))"

text \<open>Clean a namespace up and forget it; an error is logged and the namespace kept.\<close>

definition dropSource :: "env \<Rightarrow> 'w client \<Rightarrow> ArgoCD_beta \<Rightarrow> string \<Rightarrow> ('w source_world, unit) act" where
  "dropSource e c cr ns =
     handle (onSW (cleanupUnmanagedSourceNamespaceResources e c cr ns)) (\<lambda>_. ret ()) (\<lambda>_. forgetSource ns)"

type_synonym map_order = "string list \<Rightarrow> string list"

definition cleanupAllSourceNamespaces :: "env \<Rightarrow> map_order \<Rightarrow> 'w client \<Rightarrow> ArgoCD_beta \<Rightarrow> ('w source_world, unit) act" where
  "cleanupAllSourceNamespaces e order c cr = bindG readManaged (\<lambda>nss. forG (dropSource e c cr) (order nss))"

definition ensureSourceNamespacesAllowed :: "env \<Rightarrow> map_order \<Rightarrow> 'w client \<Rightarrow> ArgoCD_beta \<Rightarrow> ('w source_world, unit) act" where
  "ensureSourceNamespacesAllowed e order c cr =
     (if elems (bSpec_SourceNamespaces (spec cr)) = []
      then (if \<not> IsNamespaceClusterConfigNamespace e (crNamespace cr) then cleanupAllSourceNamespaces e order c cr else ret ())
      else if IsNamespaceClusterConfigNamespace e (crNamespace cr) then ret ()
      else cleanupAllSourceNamespaces e order c cr)"

definition listNamespaceNames :: "'w client \<Rightarrow> ('w, string list) act" where
  "listNamespaceNames c = bindG (listO c KNamespace) (\<lambda>xs. ret (map (\<lambda>x. metaName (obj_meta x)) xs))"

definition getSourceNamespaces ::
  "env \<Rightarrow> glob_match \<Rightarrow> map_order \<Rightarrow> 'w client \<Rightarrow> ArgoCD_beta \<Rightarrow> ('w source_world, string list) act" where
  "getSourceNamespaces e match order c cr =
     thenG (ensureSourceNamespacesAllowed e order c cr)
       (bindG (onSW (listNamespaceNames c)) (\<lambda>names.
          ret (filter (match (elems (bSpec_SourceNamespaces (spec cr)))) names)))"

definition getApplicationSetSourceNamespaces ::
  "glob_match \<Rightarrow> 'w client \<Rightarrow> ArgoCD_beta \<Rightarrow> ('w, string slice) act" where
  "getApplicationSetSourceNamespaces match c cr =
     (case bSpec_ApplicationSet (spec cr) of
        None \<Rightarrow> ret None
      | Some appset \<Rightarrow> bindG (listNamespaceNames c) (\<lambda>names.
          ret (Some (sort (filter (match (elems (bApplicationSet_SourceNamespaces appset))) names)))))"

text \<open>Go ranges over the map while it deletes from it: a key that is gone by then is not visited.\<close>

fun removeUnmanagedFrom ::
  "env \<Rightarrow> glob_match \<Rightarrow> map_order \<Rightarrow> 'w client \<Rightarrow> ArgoCD_beta \<Rightarrow> string list \<Rightarrow> ('w source_world, unit) act" where
  "removeUnmanagedFrom e match order c cr [] = ret ()"
| "removeUnmanagedFrom e match order c cr (ns # nss) =
     bindG readManaged (\<lambda>managed.
       if ns \<notin> set managed then removeUnmanagedFrom e match order c cr nss
       else bindG (if \<not> metaDeleting (bArgoCD_Meta cr)
                   then bindG (getSourceNamespaces e match order c cr) (\<lambda>sources. ret (ns \<in> set sources))
                   else ret False) (\<lambda>keep.
         thenG (if keep then ret () else dropSource e c cr ns) (removeUnmanagedFrom e match order c cr nss)))"

definition removeUnmanagedSourceNamespaceResources ::
  "env \<Rightarrow> glob_match \<Rightarrow> map_order \<Rightarrow> 'w client \<Rightarrow> ArgoCD_beta \<Rightarrow> ('w source_world, unit) act" where
  "removeUnmanagedSourceNamespaceResources e match order c cr =
     bindG readManaged (\<lambda>nss. removeUnmanagedFrom e match order c cr (order nss))"

text \<open>The Role of the server in one source namespace. The role, the label of the namespace and the set of
  managed source namespaces are brought up to date in this order.\<close>

definition labelSourceNamespace :: "'w client \<Rightarrow> ArgoCD_beta \<Rightarrow> string \<Rightarrow> ('w, unit) act" where
  "labelSourceNamespace c cr ns =
     bindG (getAs c as_namespace (KNamespace, '''', ns)) (\<lambda>n.
       logged (updateO c (ONamespace (withNsLabels (\<lambda>m. gput m ArgoCDManagedByClusterArgoCDLabel (crNamespace cr)) n))))"

definition sourceRole ::
  "(role \<Rightarrow> go_error + role) \<Rightarrow> glob_match \<Rightarrow> 'w client \<Rightarrow> ArgoCD_beta \<Rightarrow> string \<Rightarrow> policy_rule list \<Rightarrow> ('w, role) act" where
  "sourceRole hook match c cr ns rules =
     bindG (liftE (hook (newRoleForApplicationSourceNamespaces ns rules cr))) (\<lambda>r0.
       handle (getApplicationSetSourceNamespaces match c cr)
         (\<lambda>_. ret (inNamespace ns r0))
         (\<lambda>appsets. ret (if ns \<in> set (elems appsets)
            then (inNamespace ns r0)\<lparr>roleRules := Some (elems (roleRules r0) @ policyRuleForServerApplicationSetSourceNamespaces)\<rparr>
            else inNamespace ns r0)))"

definition roleInSourceNamespace ::
  "env \<Rightarrow> (role \<Rightarrow> go_error + role) \<Rightarrow> glob_match \<Rightarrow> 'w client \<Rightarrow> ArgoCD_beta \<Rightarrow> string \<Rightarrow> policy_rule list \<Rightarrow> string \<Rightarrow> ('w, unit) act" where
  "roleInSourceNamespace e hook match c cr name rules ns =
     bindG (sourceRole hook match c cr ns rules) (\<lambda>r.
     handle (getAs c as_role (roleKeyOf r))
       (\<lambda>err. if \<not> IsNotFound err
          then fail (Formatted (''failed to reconcile the role for the service account associated with '' @ name) err)
          else thenG (createO c (ORole r)) (labelSourceNamespace c cr ns))
       (\<lambda>existing. thenG (labelSourceNamespace c cr ns)
          (if roleRules existing \<noteq> roleRules r then updateO c (ORole (existing\<lparr>roleRules := roleRules r\<rparr>)) else ret ())))"

definition reconcileRoleForApplicationSourceNamespaces ::
  "env \<Rightarrow> (role \<Rightarrow> go_error + role) \<Rightarrow> glob_match \<Rightarrow> glob_match \<Rightarrow> map_order \<Rightarrow> 'w client \<Rightarrow> ArgoCD_beta \<Rightarrow>
   string \<Rightarrow> policy_rule list \<Rightarrow> ('w source_world, unit) act" where
  "reconcileRoleForApplicationSourceNamespaces e hook match amatch order c cr name rules =
     (if \<not> IsNamespaceClusterConfigNamespace e (crNamespace cr) then ret ()
      else bindG (getSourceNamespaces e match order c cr) (forG (\<lambda>ns.
        bindG (onSW (getAs c as_namespace (KNamespace, '''', ns))) (\<lambda>n.
          if metaDeleting (nsMeta n) then ret ()
          else if nsLabel n ArgoCDManagedByLabel \<notin> {None, Some ''''}
          then (if nsLabel n ArgoCDManagedByClusterArgoCDLabel = Some (crNamespace cr)
                then thenG (forgetSource (namespaceName n))
                       (logged (onSW (cleanupUnmanagedSourceNamespaceResources e c cr (namespaceName n))))
                else ret ())
          else if nsLabel n ArgoCDManagedByClusterArgoCDLabel \<notin> {None, Some (crNamespace cr)} then ret ()
          else thenG (onSW (roleInSourceNamespace e hook amatch c cr name rules (namespaceName n))) (rememberSource ns)))))"

text \<open>The binding of the server and the application controller in one source namespace.\<close>

definition sourceBinding :: "env \<Rightarrow> ArgoCD_beta \<Rightarrow> string \<Rightarrow> role_binding" where
  "sourceBinding e cr ns = (newRoleBindingForSource e ns cr)\<lparr>
     rbRoleRef := refersTo ''Role'' (getRoleNameForApplicationSourceNamespaces ns cr),
     rbSubjects := Some [serviceAccountSubject (getServiceAccountName e (crName cr) serverComponent) (crNamespace cr),
        serviceAccountSubject (getServiceAccountName e (crName cr) applicationControllerComponent) (crNamespace cr)]\<rparr>"

definition bindingInSourceNamespace :: "env \<Rightarrow> 'w client \<Rightarrow> ArgoCD_beta \<Rightarrow> string \<Rightarrow> ('w, unit) act" where
  "bindingInSourceNamespace e c cr ns =
     bindG (getAs c as_namespace (KNamespace, '''', ns)) (\<lambda>n.
       if metaDeleting (nsMeta n) then ret ()
       else if nsLabel n ArgoCDManagedByLabel \<noteq> None then ret ()
       else bindG (hasInstance c (namespaceName n)) (\<lambda>_.
         let b = sourceBinding e cr (namespaceName n)
         in handle (getAs c as_role_binding (bindingKeyOf b))
           (\<lambda>err. if \<not> IsNotFound err then fail (Formatted (''failed to get the rolebinding associated with '' @ serverComponent) err)
              else createO c (ORoleBinding b))
           (\<lambda>existing. if nsLabel n ArgoCDManagedByClusterArgoCDLabel \<noteq> Some (crNamespace cr) then ret ()
              else syncBinding c b (createO c (ORoleBinding b)) existing)))"

definition reconcileRoleBinding ::
  "env \<Rightarrow> argo_flags \<Rightarrow> (role \<Rightarrow> go_error + role) \<Rightarrow> glob_match \<Rightarrow> map_order \<Rightarrow> ('w, string slice) act \<Rightarrow> 'w client \<Rightarrow>
   namespace_obj list \<Rightarrow> ArgoCD_beta \<Rightarrow> string \<Rightarrow> policy_rule list \<Rightarrow> ('w source_world, unit) act" where
  "reconcileRoleBinding e f hook match order refs c managed cr name rules =
     bindG (onSW (reconcileServiceAccount e f refs c cr name)) (\<lambda>sa.
     thenG (onSW (reconcileRole e hook c managed cr name rules))
     (thenG (onSW (forG (\<lambda>ns. inManagedNamespace c name cr (bindingInNamespace e c cr name sa (namespaceName ns)) ns)
        (map released managed)))
     (if name \<noteq> serverComponent \<or> \<not> IsNamespaceClusterConfigNamespace e (crNamespace cr) then ret ()
      else bindG (getSourceNamespaces e match order c cr) (\<lambda>nss. onSW (forG (bindingInSourceNamespace e c cr) nss)))))"

section \<open>ClusterRoles\<close>

definition verifyInstallationMode :: "ArgoCD_beta \<Rightarrow> bool \<Rightarrow> go_error + unit" where
  "verifyInstallationMode cr allowed =
     (if allowed \<and> bSpec_DefaultClusterScopedRoleDisabled (spec cr) \<and> bSpec_AggregatedClusterRoles (spec cr)
      then Inl (ErrorText ''custom Cluster Roles and Aggregated Cluster Roles can not be used together'')
      else Inr ())"

definition clusterRoleKey :: "string \<Rightarrow> ArgoCD_beta \<Rightarrow> key" where
  "clusterRoleKey name cr = (KClusterRole, '''', uniqueName name cr)"

definition clusterBindingKey :: "string \<Rightarrow> ArgoCD_beta \<Rightarrow> key" where
  "clusterBindingKey name cr = (KClusterRoleBinding, '''', uniqueName name cr)"

text \<open>Delete a ClusterRole if it is there; other errors of the look-up are returned.\<close>

definition deleteClusterRole :: "'w client \<Rightarrow> (go_error \<Rightarrow> go_error) \<Rightarrow> key \<Rightarrow> ('w, unit) act" where
  "deleteClusterRole c g k =
     handle (getAs c as_cluster_role k) (\<lambda>err. if IsNotFound err then ret () else fail err)
       (\<lambda>_. mapErr g (deleteO c k))"

definition checkCustomClusterRoleMode :: "env \<Rightarrow> 'w client \<Rightarrow> ArgoCD_beta \<Rightarrow> string \<Rightarrow> bool \<Rightarrow> ('w, bool) act" where
  "checkCustomClusterRoleMode e c cr name allowed =
     (if allowed \<and> bSpec_DefaultClusterScopedRoleDisabled (spec cr)
      then thenG (deleteClusterRole c (Formatted (''failed to delete existing cluster role for the service account associated with '' @ name))
             (clusterRoleKey name cr)) (ret True)
      else ret False)"

definition aggregatedFrom :: "string \<Rightarrow> ArgoCD_beta \<Rightarrow> label_selector slice option" where
  "aggregatedFrom label cr = Some (Some [\<lparr>lsMatchLabels = gmap [(label, ''true''), (ArgoCDKeyManagedBy, crName cr)], lsOther = ''''\<rparr>])"

definition aggregateToController :: string where "aggregateToController = ''argocd/aggregate-to-controller''"
definition aggregateToAdmin :: string where "aggregateToAdmin = ''argocd/aggregate-to-admin''"

definition withClusterRoleLabel :: "cluster_role \<Rightarrow> cluster_role" where
  "withClusterRoleLabel r = r\<lparr>crMeta := (crMeta r)\<lparr>metaLabels := gput (metaLabels (crMeta r)) aggregateToController ''true''\<rparr>\<rparr>"

definition configureAggregatedClusterRole :: "ArgoCD_beta \<Rightarrow> string \<Rightarrow> cluster_role \<Rightarrow> cluster_role" where
  "configureAggregatedClusterRole cr name r =
     (if name = applicationControllerComponent
      then r\<lparr>crAggregation := aggregatedFrom aggregateToController cr,
             crMeta := (crMeta r)\<lparr>metaAnnotations := gput (metaAnnotations (crMeta r)) ''rbac.authorization.kubernetes.io/autoupdate'' ''true''\<rparr>,
             crRules := Some []\<rparr>
      else if name = applicationControllerComponentAdmin
      then withClusterRoleLabel (r\<lparr>crAggregation := aggregatedFrom aggregateToAdmin cr\<rparr>)
      else if name = applicationControllerComponentView then withClusterRoleLabel r
      else r)"

definition syncAggregation :: "cluster_role \<Rightarrow> bool \<times> cluster_role \<Rightarrow> bool \<times> cluster_role" where
  "syncAggregation d = syncField crAggregation (\<lambda>v r. r\<lparr>crAggregation := v\<rparr>) (crAggregation d)"

definition syncAnnotations :: "cluster_role \<Rightarrow> bool \<times> cluster_role \<Rightarrow> bool \<times> cluster_role" where
  "syncAnnotations d = syncField (\<lambda>r. metaAnnotations (crMeta r))
     (\<lambda>v r. r\<lparr>crMeta := (crMeta r)\<lparr>metaAnnotations := v\<rparr>\<rparr>) (metaAnnotations (crMeta d))"

definition syncLabels :: "cluster_role \<Rightarrow> bool \<times> cluster_role \<Rightarrow> bool \<times> cluster_role" where
  "syncLabels d = syncField (\<lambda>r. metaLabels (crMeta r))
     (\<lambda>v r. r\<lparr>crMeta := (crMeta r)\<lparr>metaLabels := v\<rparr>\<rparr>) (metaLabels (crMeta d))"

definition syncRules :: "cluster_role \<Rightarrow> bool \<times> cluster_role \<Rightarrow> bool \<times> cluster_role" where
  "syncRules d = syncField crRules (\<lambda>v r. r\<lparr>crRules := v\<rparr>) (crRules d)"

text \<open>The rules of an aggregated ClusterRole, which the control plane fills in, are only emptied when it was
  not aggregated before.\<close>

definition matchAggregatedClusterRoleFields :: "cluster_role \<Rightarrow> string \<Rightarrow> cluster_role \<Rightarrow> bool \<times> cluster_role" where
  "matchAggregatedClusterRoleFields expected name existing =
     (if name = applicationControllerComponent
      then (case syncAnnotations expected (syncAggregation expected (False, existing)) of (changed, r) \<Rightarrow>
        (changed, if crAggregation existing \<noteq> crAggregation expected then r\<lparr>crRules := Some []\<rparr> else r))
      else if name = applicationControllerComponentView then syncLabels expected (False, existing)
      else if name = applicationControllerComponentAdmin then syncLabels expected (syncAggregation expected (False, existing))
      else (False, existing))"

definition matchDefaultClusterRoleFields :: "cluster_role \<Rightarrow> string \<Rightarrow> cluster_role \<Rightarrow> bool \<times> cluster_role" where
  "matchDefaultClusterRoleFields expected name existing =
     syncRules expected (if name = applicationControllerComponent
       then syncAnnotations expected (syncAggregation expected (False, existing)) else (False, existing))"

definition CheckOwnership :: "object_meta \<Rightarrow> ArgoCD_beta \<Rightarrow> bool" where
  "CheckOwnership m cr \<longleftrightarrow> gget (metaLabels m) ArgoCDKeyManagedBy \<in> {None, Some (crName cr)}"

definition auxiliaryClusterRole :: "string \<Rightarrow> bool" where
  "auxiliaryClusterRole name \<longleftrightarrow> name = applicationControllerComponentView \<or> name = applicationControllerComponentAdmin"

text \<open>Create the ClusterRole or bring it up to date; in a namespace that may not host a cluster-scoped instance,
  delete it if it is this instance's. The result says whether there is a role to bind.\<close>

definition applyClusterRole :: "'w client \<Rightarrow> ArgoCD_beta \<Rightarrow> string \<Rightarrow> bool \<Rightarrow> cluster_role \<Rightarrow> ('w, bool) act" where
  "applyClusterRole c cr name allowed expected =
     (let k = okey (OClusterRole expected)
      in handle (getAs c as_cluster_role k)
        (\<lambda>err. if \<not> IsNotFound err
           then fail (Formatted (''failed to reconcile the cluster role for the service account associated with '' @ name) err)
           else if \<not> allowed then ret False
           else thenG (createO c (OClusterRole expected)) (ret True))
        (\<lambda>existing.
           if \<not> allowed
           then (if CheckOwnership (crMeta existing) cr then thenG (deleteO c k) (ret False) else ret False)
           else (case (if bSpec_AggregatedClusterRoles (spec cr)
                       then matchAggregatedClusterRoleFields expected name existing
                       else matchDefaultClusterRoleFields expected name existing) of
               (changed, r) \<Rightarrow> thenG (if changed then updateO c (OClusterRole r) else ret ()) (ret True))))"

definition reconcileClusterRole ::
  "env \<Rightarrow> (cluster_role \<Rightarrow> go_error + cluster_role) \<Rightarrow> 'w client \<Rightarrow> ArgoCD_beta \<Rightarrow> string \<Rightarrow> policy_rule list \<Rightarrow> ('w, bool) act" where
  "reconcileClusterRole e hook c cr name rules =
     (let allowed = IsNamespaceClusterConfigNamespace e (crNamespace cr);
          expected = newInstanceClusterRole name rules cr
      in thenG (liftE (verifyInstallationMode cr allowed))
        (bindG (checkCustomClusterRoleMode e c cr name allowed) (\<lambda>custom.
          if custom then ret False
          else if allowed \<and> bSpec_AggregatedClusterRoles (spec cr)
          then applyClusterRole c cr name allowed (configureAggregatedClusterRole cr name expected)
          else if auxiliaryClusterRole name
          then thenG (deleteClusterRole c (\<lambda>_. ErrorText (''failed to delete aggregated ClusterRoles: '' @ uniqueName name cr))
                 (clusterRoleKey name cr)) (ret False)
          else bindG (liftE (hook expected)) (applyClusterRole c cr name allowed))))"

definition desiredClusterBinding :: "env \<Rightarrow> string \<Rightarrow> ArgoCD_beta \<Rightarrow> role_binding \<Rightarrow> role_binding" where
  "desiredClusterBinding e name cr b = b\<lparr>
     rbSubjects := Some [serviceAccountSubject (nameWithSuffix e name cr) (crNamespace cr)],
     rbRoleRef := refersTo ''ClusterRole'' (uniqueName name cr)\<rparr>"

text \<open>A live binding keeps its metadata. An owner would be set only if the instance had no namespace.\<close>

definition reconcileClusterRoleBinding :: "env \<Rightarrow> 'w client \<Rightarrow> ArgoCD_beta \<Rightarrow> string \<Rightarrow> bool \<Rightarrow> ('w, unit) act" where
  "reconcileClusterRoleBinding e c cr name hasRole =
     (let k = clusterBindingKey name cr;
          owned = (\<lambda>b. if crNamespace cr = metaNamespace (rbMeta b)
             then bindG (mapErr (Formatted ''failed to set ArgoCD CR as owner for roleBinding'') (controlledBy e cr (rbMeta b)))
                    (\<lambda>m. ret (b\<lparr>rbMeta := m\<rparr>))
             else ret b)
      in if auxiliaryClusterRole name then ret ()
         else if verifyInstallationMode cr True \<noteq> Inr () then ret ()
         else if bSpec_DefaultClusterScopedRoleDisabled (spec cr)
         then handle (getAs c as_cluster_role_binding k) (\<lambda>_. ret ())
           (\<lambda>_. mapErr (Formatted (''failed to delete existing cluster role binding for the service account associated with '' @ name))
                  (deleteO c k))
         else handle (getAs c as_cluster_role_binding k)
           (\<lambda>err. if \<not> IsNotFound err then fail err
              else if \<not> hasRole then ret ()
              else bindG (owned (desiredClusterBinding e name cr (newInstanceClusterRoleBinding name cr)))
                     (\<lambda>b. createO c (OClusterRoleBinding b)))
           (\<lambda>existing. if \<not> hasRole
              then (if CheckOwnership (rbMeta existing) cr then deleteO c k else ret ())
              else bindG (owned (desiredClusterBinding e name cr existing)) (\<lambda>b. updateO c (OClusterRoleBinding b))))"

definition reconcileServiceAccountClusterPermissions ::
  "env \<Rightarrow> argo_flags \<Rightarrow> (cluster_role \<Rightarrow> go_error + cluster_role) \<Rightarrow> ('w, string slice) act \<Rightarrow> 'w client \<Rightarrow> ArgoCD_beta \<Rightarrow>
   string \<Rightarrow> policy_rule list \<Rightarrow> ('w, unit) act" where
  "reconcileServiceAccountClusterPermissions e f hook refs c cr name rules =
     (if auxiliaryClusterRole name then ret ()
      else bindG (reconcileServiceAccount e f refs c cr name) (\<lambda>_.
        bindG (reconcileClusterRole e hook c cr name rules) (reconcileClusterRoleBinding e c cr name)))"

section \<open>The three passes\<close>

text \<open>One component after the other; the first pass over the managed namespaces releases those being deleted.\<close>

fun eachComponent ::
  "(namespace_obj list \<Rightarrow> string \<Rightarrow> policy_rule list \<Rightarrow> ('w, unit) act) \<Rightarrow> namespace_obj list \<Rightarrow>
   (string \<times> policy_rule list) list \<Rightarrow> ('w, unit) act" where
  "eachComponent f managed [] = ret ()"
| "eachComponent f managed ((name, rules) # params) =
     thenG (f managed name rules) (eachComponent f (map released managed) params)"

record rbac_hooks =
  hkRole :: "role \<Rightarrow> go_error + role"
  hkClusterRole :: "cluster_role \<Rightarrow> go_error + cluster_role"

definition reconcileRoles ::
  "env \<Rightarrow> argo_flags \<Rightarrow> rbac_hooks \<Rightarrow> glob_match \<Rightarrow> glob_match \<Rightarrow> map_order \<Rightarrow> 'w client \<Rightarrow> namespace_obj list \<Rightarrow> ArgoCD_beta \<Rightarrow>
   ('w source_world, unit) act" where
  "reconcileRoles e f hk match amatch order c managed cr =
     bindG (onSW (getPolicyRuleList e f c cr)) (\<lambda>params.
     thenG (onSW (eachComponent (\<lambda>nss name rules. reconcileRole e (hkRole hk) c nss cr name rules) managed params))
     (thenG (onSW (forG (\<lambda>(name, rules). bindG (reconcileClusterRole e (hkClusterRole hk) c cr name rules) (\<lambda>_. ret ()))
        getPolicyRuleClusterRoleList))
     (thenG (reconcileRoleForApplicationSourceNamespaces e (hkRole hk) match amatch order c cr serverComponent
        policyRuleForServerApplicationSourceNamespaces)
     (removeUnmanagedSourceNamespaceResources e match order c cr))))"

definition reconcileRoleBindings ::
  "env \<Rightarrow> argo_flags \<Rightarrow> rbac_hooks \<Rightarrow> glob_match \<Rightarrow> map_order \<Rightarrow> ('w, string slice) act \<Rightarrow> 'w client \<Rightarrow> namespace_obj list \<Rightarrow> ArgoCD_beta \<Rightarrow>
   ('w source_world, unit) act" where
  "reconcileRoleBindings e f hk match order refs c managed cr =
     bindG (onSW (getPolicyRuleList e f c cr)) (\<lambda>params.
       eachComponent (\<lambda>nss name rules. mapErr (Wrapped (''error reconciling roleBinding for '' @ name))
         (reconcileRoleBinding e f (hkRole hk) match order refs c nss cr name rules)) managed params)"

definition reconcileServiceAccounts ::
  "env \<Rightarrow> argo_flags \<Rightarrow> rbac_hooks \<Rightarrow> glob_match \<Rightarrow> map_order \<Rightarrow> ('w, string slice) act \<Rightarrow> 'w client \<Rightarrow> namespace_obj list \<Rightarrow> ArgoCD_beta \<Rightarrow>
   ('w source_world, unit) act" where
  "reconcileServiceAccounts e f hk match order refs c managed cr =
     bindG (onSW (getPolicyRuleList e f c cr)) (\<lambda>params.
     thenG (eachComponent (\<lambda>nss name rules. reconcileRoleBinding e f (hkRole hk) match order refs c nss cr name rules) managed params)
     (thenG (onSW (forG (\<lambda>(name, rules). reconcileServiceAccountClusterPermissions e f (hkClusterRole hk) refs c cr name rules)
        getPolicyRuleClusterRoleList))
     (bindG (onSW (reconcileServiceAccount e f refs c cr repoServerComponent)) (\<lambda>_. ret ()))))"

section \<open>Deleting an instance\<close>

definition listManagedBy :: "'w client \<Rightarrow> kind \<Rightarrow> string \<Rightarrow> ('w, obj list) act" where
  "listManagedBy c kd name =
     bindG (listO c kd) (\<lambda>xs. ret (filter (\<lambda>x. gget (obj_labels x) ArgoCDKeyManagedBy = Some name) xs))"

definition deleteListed :: "'w client \<Rightarrow> kind \<Rightarrow> string \<Rightarrow> string \<Rightarrow> string \<Rightarrow> ('w, unit) act" where
  "deleteListed c kd what one name =
     bindG (mapErr (Wrapped (''failed to filter '' @ what @ '' for '' @ name)) (listManagedBy c kd name))
       (forG (\<lambda>x. mapErr (Wrapped (''failed to delete '' @ one @ '' during cleanup'')) (deleteO c (okey x))))"

text \<open>\<open>requirement\<close> is what \<open>labels.NewRequirement\<close> says of the name as a label value; \<open>promoter\<close> deletes the
  APIService and the ControllerConfiguration objects of the promoter.\<close>

definition argocdInstanceSelector :: "(string \<Rightarrow> go_error option) \<Rightarrow> string \<Rightarrow> go_error + unit" where
  "argocdInstanceSelector requirement name = (case requirement name of
       Some err \<Rightarrow> Inl (Wrapped ''failed to create a requirement for'' err)
     | None \<Rightarrow> Inr ())"

definition deleteClusterResources ::
  "(string \<Rightarrow> go_error option) \<Rightarrow> ('w, unit) act \<Rightarrow> 'w client \<Rightarrow> ArgoCD_beta \<Rightarrow> ('w, unit) act" where
  "deleteClusterResources requirement promoter c cr =
     thenG (liftE (argocdInstanceSelector requirement (crName cr)))
     (thenG (deleteListed c KClusterRole ''ClusterRoles'' ''ClusterRole'' (crName cr))
     (thenG (deleteListed c KClusterRoleBinding ''ClusterRoleBindings'' ''ClusterRoleBinding'' (crName cr))
     (thenG (deleteListed c KRoleBinding ''RoleBindings'' ''RoleBinding'' (crName cr)) promoter)))"

definition removeManagedByLabelFromNamespaces :: "'w client \<Rightarrow> string \<Rightarrow> ('w, unit) act" where
  "removeManagedByLabelFromNamespaces c ns =
     bindG (listO c KNamespace) (\<lambda>xs.
       forG (\<lambda>n. bindG (getAs c as_namespace (KNamespace, '''', n)) (\<lambda>x.
           if nsLabel x ArgoCDManagedByLabel = Some ns
           then logged (updateO c (ONamespace (withNsLabels (\<lambda>m. gdelete m ArgoCDManagedByLabel) x)))
           else ret ()))
         (map (\<lambda>x. metaName (obj_meta x)) (filter (\<lambda>x. gget (obj_labels x) ArgoCDManagedByLabel = Some ns) xs) @ [ns]))"

end
