(* ===== verification/Instance_Rbac_Correct.thy ===== *)
theory Instance_Rbac_Correct
  imports Instance_Rbac Instance_Services_Correct Network_Policies_Correct Managed_Namespaces_Correct
begin

text \<open>
  What the permissions of an instance promise: the service account of a component, the Role in each
  namespace the instance manages and the RoleBinding between them hold together; a component that is
  switched off keeps none of them; the ClusterRole follows the installation mode; what is touched on the
  way; and what the clean-up of an instance deletes.
\<close>

section \<open>The look-up of these reconcilers\<close>

lemma as_role_iff [simp]: "as_role x = Some r \<longleftrightarrow> x = ORole r"
  by (cases x) auto

lemma as_role_binding_iff [simp]: "as_role_binding x = Some r \<longleftrightarrow> x = ORoleBinding r"
  by (cases x) auto

lemma as_service_account_iff [simp]: "as_service_account x = Some r \<longleftrightarrow> x = OServiceAccount r"
  by (cases x) auto

lemma as_cluster_role_iff [simp]: "as_cluster_role x = Some r \<longleftrightarrow> x = OClusterRole r"
  by (cases x) auto

lemma as_cluster_role_binding_iff [simp]: "as_cluster_role_binding x = Some r \<longleftrightarrow> x = OClusterRoleBinding r"
  by (cases x) auto

context k8s_client
begin

lemma triple_get:
  assumes "\<not> refreshable (fst k)"
    and "\<And>err. IsNotFound err \<Longrightarrow> triple view F k (\<lambda>v. v = None \<and> Q v) P (h err)"
    and "\<And>err. \<not> IsNotFound err \<Longrightarrow> triple view F k Q P (h err)"
    and "\<And>a x. cast x = Some a \<Longrightarrow> okey x = k \<Longrightarrow> triple view F k (\<lambda>v. v = Some x \<and> Q v) P (n a)"
  shows "triple view F k Q P (handle (getAs c cast k) h n)"
  unfolding triple_def
proof (intro conjI allI impI)
  have h: "act_rel (same_outside view (insert k F)) (h err)" for err
    using assms(2,3)[of err] by (cases "IsNotFound err") (auto simp: triple_def)
  have n: "act_rel (same_outside view (insert k F)) (n a)" if "getAs c cast k w = (Ok a, w1)" for a w w1
    using assms(4) getAs_key[OF that] by (auto simp: triple_def)
  show "act_rel (same_outside view (insert k F)) (handle (getAs c cast k) h n)"
    by (intro fp.rel_handle getAs_fp h n) auto
  fix w w'
  assume Q: "Q (view w k)" and "handle (getAs c cast k) h n w = (Ok (), w')"
  then consider (err) err w1 where "getAs c cast k w = (Err err, w1)" and "h err w1 = (Ok (), w')"
    | (ok) a w1 where "getAs c cast k w = (Ok a, w1)" and "n a w1 = (Ok (), w')"
    unfolding handle_Ok_iff by blast
  then show "P (view w' k)"
  proof cases
    case err
    have v: "view w1 = view w"
      using fp_empty_view[OF getAs_fp[of k "{}"] err(1)] assms(1) by simp
    show ?thesis
    proof (cases "IsNotFound err")
      case True
      from getAs_NotFound(1)[OF err(1) True] Q v tripleD[OF assms(2)[OF True] err(2)] show ?thesis by simp
    next
      case False
      from Q v tripleD[OF assms(3)[OF False] err(2)] show ?thesis by simp
    qed
  next
    case ok
    from getAs_Ok[OF ok(1) assms(1)] obtain x where x: "view w k = Some x" "cast x = Some a" "view w1 = view w" .
    from tripleD[OF assms(4)[OF x(2)] ok(2)] x Q view_key[OF x(1)] show ?thesis by simp
  qed
qed

end

text \<open>Becoming the controller of an object, with an error of the reconciler's own.\<close>

lemma triple_owner:
  assumes "\<And>m'. m' = m\<lparr>metaOwners := metaOwners m'\<rparr> \<Longrightarrow> triple view F k Q P (n m')"
  shows "triple view F k Q P (bindG (mapErr g (controlledBy e cr m)) n)"
proof (rule triple_pure)
  fix w m' w1 assume "mapErr g (controlledBy e cr m) w = (Ok m', w1)"
  then show "triple view F k Q P (n m')"
    by (intro assms) (auto simp: mapErr_Ok_iff controlledBy_Ok_iff SetControllerReference_def split: sum.splits)
qed (intro fp.rel_mapErr fp.rel_controlledBy)

section \<open>Keys\<close>

definition roleIn :: "env \<Rightarrow> string \<Rightarrow> ArgoCD_beta \<Rightarrow> string \<Rightarrow> key" where
  "roleIn e name cr ns = (KRole, ns, nameWithSuffix e name cr)"

definition bindingIn :: "env \<Rightarrow> string \<Rightarrow> ArgoCD_beta \<Rightarrow> string \<Rightarrow> key" where
  "bindingIn e name cr ns = (KRoleBinding, ns, nameWithSuffix e name cr)"

definition accountOf :: "env \<Rightarrow> string \<Rightarrow> ArgoCD_beta \<Rightarrow> key" where
  "accountOf e name cr = (KServiceAccount, crNamespace cr, getServiceAccountName e (crName cr) name)"

lemma rbacMeta_simps [simp]:
  "metaName (rbacMeta cr n ns) = n" "metaNamespace (rbacMeta cr n ns) = ns"
  "metaName (annotatedMeta cr n ns) = n" "metaNamespace (annotatedMeta cr n ns) = ns"
  "metaName (labelledMeta cr n ns l) = n" "metaNamespace (labelledMeta cr n ns l) = ns"
  "metaDeleting (rbacMeta cr n ns) = False"
  by (simp_all add: rbacMeta_def annotatedMeta_def labelledMeta_def mkMeta_def)

text \<open>A hook may change the rules and the labels of a Role; that it keeps its name is what the operator's own
  hook does.\<close>

definition keepsName :: "(role \<Rightarrow> go_error + role) \<Rightarrow> bool" where
  "keepsName hook \<longleftrightarrow> (\<forall>r r'. hook r = Inr r' \<longrightarrow> metaName (roleMeta r') = metaName (roleMeta r))"

lemma roleKeyOf_in:
  "keepsName hook \<Longrightarrow> hook (newRole e name rules cr) = Inr r0 \<Longrightarrow> roleKeyOf (inNamespace ns r0) = roleIn e name cr ns"
  by (auto simp: keepsName_def roleKeyOf_def inNamespace_def roleIn_def okey_def newRole_def)

lemma bindingKeyOf_desired [simp]: "bindingKeyOf (desiredBinding e name cr sa ns) = bindingIn e name cr ns"
  by (simp add: bindingKeyOf_def desiredBinding_def newRoleBindingWithname_def bindingIn_def okey_def Let_def)

lemma role_keys_simps [simp]:
  "\<not> refreshable (fst (roleIn e name cr ns))" "\<not> refreshable (fst (bindingIn e name cr ns))"
  "\<not> refreshable (fst (accountOf e name cr))"
  by (simp_all add: roleIn_def bindingIn_def accountOf_def refreshable_def)

section \<open>A Role in one namespace\<close>

definition roleWanted :: "env \<Rightarrow> string \<Rightarrow> ArgoCD_beta \<Rightarrow> bool" where
  "roleWanted e name cr \<longleftrightarrow> getCustomRoleName e name = '''' \<and> \<not> dexOff name cr \<and> \<not> switchedOff name cr"

definition roleGrants :: "policy_rule slice \<Rightarrow> obj option \<Rightarrow> bool" where
  "roleGrants rules v \<longleftrightarrow> (\<exists>r. v = Some (ORole r) \<and> roleRules r = rules)"

text \<open>What becomes of the Role: present with the rules if it is wanted, otherwise gone. The code goes on after it
  has deleted the Role of a component that is switched off, and may then write back a Role that its finalizers
  still hold.\<close>

definition roleSettled :: "env \<Rightarrow> string \<Rightarrow> ArgoCD_beta \<Rightarrow> policy_rule slice \<Rightarrow> obj option \<Rightarrow> bool" where
  "roleSettled e name cr rules v \<longleftrightarrow>
     (if roleWanted e name cr then roleGrants rules v
      else gone v \<or> switchedOff name cr \<and> getCustomRoleName e name = '''' \<and> \<not> dexOff name cr \<and> roleGrants rules v)"

context verbatim_client
begin

lemma triple_createRole:
  assumes "roleKeyOf r = k" and "roleGrants (roleRules r) = P"
  shows "triple view F k Q P (createRole e c cr r)"
  unfolding createRole_def
proof (intro triple_if triple_owner triple_create)
  fix m assume "m = (roleMeta r)\<lparr>metaOwners := metaOwners m\<rparr>"
  from owned_meta[OF this] assms(1) show "okey (ORole (r\<lparr>roleMeta := m\<rparr>)) = k" by (simp add: roleKeyOf_def okey_def)
qed (use assms in \<open>auto simp: roleKeyOf_def roleGrants_def\<close>)

lemma roleInNamespace_triple:
  assumes "keepsName hook" and "hook (newRole e name rules cr) = Inr r0"
  shows "triple view F (roleIn e name cr ns) (\<lambda>_. True) (roleSettled e name cr (roleRules r0))
     (roleInNamespace e hook c cr name rules ns)"
proof -
  let ?r = "inNamespace ns r0"
  have k: "roleKeyOf ?r = roleIn e name cr ns" by (rule roleKeyOf_in[OF assms])
  have rules: "roleRules ?r = roleRules r0" by (simp add: inNamespace_def)
  have same: "okey (ORole (x\<lparr>roleRules := y\<rparr>)) = okey (ORole x)" for x y by (simp add: okey_def)
  have run: "roleInNamespace e hook c cr name rules ns =
      handle (getAs c as_role (roleIn e name cr ns))
         (\<lambda>err. if \<not> IsNotFound err
            then fail (Formatted (''failed to reconcile the role for the service account associated with '' @ name) err)
            else if getCustomRoleName e name \<noteq> '''' then ret ()
            else if dexOff name cr \<or> switchedOff name cr then ret ()
            else createRole e c cr ?r)
         (\<lambda>existing.
            thenG (if switchedOff name cr then deleteO c (roleIn e name cr ns) else ret ())
              (if getCustomRoleName e name \<noteq> '''' \<or> dexOff name cr then deleteO c (roleIn e name cr ns)
               else if roleRules existing \<noteq> roleRules r0 then updateO c (ORole (existing\<lparr>roleRules := roleRules r0\<rparr>))
               else ret ()))"
    by (simp add: roleInNamespace_def assms(2) liftE_def k rules cong: if_cong)
  show ?thesis
    unfolding run
  proof (rule triple_get)
    fix existing x
    let ?v = "\<lambda>v. v = Some (ORole existing)"
    let ?R = "\<lambda>v. if switchedOff name cr then gone v else ?v v"
    assume "as_role x = Some existing" and xk: "okey x = roleIn e name cr ns"
    then have x: "x = ORole existing" by simp
    show "triple view F (roleIn e name cr ns) (\<lambda>v. v = Some x \<and> True) (roleSettled e name cr (roleRules r0))
       (thenG (if switchedOff name cr then deleteO c (roleIn e name cr ns) else ret ())
              (if getCustomRoleName e name \<noteq> '''' \<or> dexOff name cr then deleteO c (roleIn e name cr ns)
               else if roleRules existing \<noteq> roleRules r0 then updateO c (ORole (existing\<lparr>roleRules := roleRules r0\<rparr>))
               else ret ()))"
    proof (rule triple_seq[where R = ?R])
      show "triple view F (roleIn e name cr ns) (\<lambda>v. v = Some x \<and> True) ?R
          (if switchedOff name cr then deleteO c (roleIn e name cr ns) else ret ())"
        by (intro triple_if triple_delete triple_ret) (auto simp: x)
      show "triple view F (roleIn e name cr ns) ?R (roleSettled e name cr (roleRules r0))
         (if getCustomRoleName e name \<noteq> '''' \<or> dexOff name cr then deleteO c (roleIn e name cr ns)
          else if roleRules existing \<noteq> roleRules r0 then updateO c (ORole (existing\<lparr>roleRules := roleRules r0\<rparr>))
          else ret ())"
        by (intro triple_if triple_delete triple_update triple_ret)
          (use xk in \<open>auto simp: x same roleSettled_def roleWanted_def roleGrants_def split: if_splits\<close>)
    qed
  qed (auto simp: roleSettled_def roleWanted_def rules intro!: triple_ret triple_fail triple_createRole[OF k] split: if_splits)
qed

end

section \<open>A RoleBinding in one namespace\<close>

definition bindingWanted :: "string \<Rightarrow> ArgoCD_beta \<Rightarrow> bool" where
  "bindingWanted name cr \<longleftrightarrow> \<not> dexOff name cr \<and> \<not> switchedOff name cr"

definition binds :: "role_ref \<Rightarrow> subject list \<Rightarrow> obj option \<Rightarrow> bool" where
  "binds ref subjects v \<longleftrightarrow> (\<exists>b. v = Some (ORoleBinding b) \<and> rbRoleRef b = ref \<and> rbSubjects b = Some subjects)"

lemma binds_simps [simp]:
  "binds ref subjects (Some (ORoleBinding b)) \<longleftrightarrow> rbRoleRef b = ref \<and> rbSubjects b = Some subjects"
  by (simp add: binds_def)

definition bindingSettled :: "env \<Rightarrow> string \<Rightarrow> ArgoCD_beta \<Rightarrow> string \<Rightarrow> obj option \<Rightarrow> bool" where
  "bindingSettled e name cr sa = presentOrGone (bindingWanted name cr)
     (binds (roleRefFor e name cr) [serviceAccountSubject sa (crNamespace cr)])"

context verbatim_client
begin

lemma triple_createBinding:
  assumes "bindingKeyOf b = k" and "P = binds (rbRoleRef b) (elems (rbSubjects b))" and "rbSubjects b \<noteq> None"
  shows "triple view F k Q P (createBinding e c cr b)"
  unfolding createBinding_def
proof (intro triple_if triple_owner triple_create)
  fix m assume "m = (rbMeta b)\<lparr>metaOwners := metaOwners m\<rparr>"
  from owned_meta[OF this] assms(1) show "okey (ORoleBinding (b\<lparr>rbMeta := m\<rparr>)) = k" by (simp add: bindingKeyOf_def okey_def)
qed (use assms in \<open>auto simp: bindingKeyOf_def\<close>)

lemma triple_syncBinding:
  assumes "okey (ORoleBinding existing) = k" and "bindingKeyOf b = k"
    and "P = binds (rbRoleRef b) (elems (rbSubjects b))" and "rbSubjects b \<noteq> None"
    and "triple view F k gone P create"
  shows "triple view F k (\<lambda>v. v = Some (ORoleBinding existing)) P (syncBinding c b create existing)"
  unfolding syncBinding_def assms(2)
proof (intro triple_if triple_seq[OF triple_delete[of gone] assms(5)] triple_update triple_ret)
  show "okey (ORoleBinding (existing\<lparr>rbSubjects := rbSubjects b\<rparr>)) = k" using assms(1) by (simp add: okey_def)
qed (use assms(3,4) in auto)

lemma bindingInNamespace_triple:
  assumes "saMeta sa = m" and "metaName m = s" and "metaNamespace m = crNamespace cr"
  shows "triple view F (bindingIn e name cr ns) (\<lambda>_. True) (bindingSettled e name cr s)
     (bindingInNamespace e c cr name sa ns)"
proof -
  let ?b = "desiredBinding e name cr sa ns"
  have b: "rbRoleRef ?b = roleRefFor e name cr" "rbSubjects ?b = Some [serviceAccountSubject s (crNamespace cr)]"
    using assms by (simp_all add: desiredBinding_def Let_def)
  have create: "triple view F (bindingIn e name cr ns) Q
      (binds (roleRefFor e name cr) [serviceAccountSubject s (crNamespace cr)]) (createBinding e c cr ?b)" for Q
    by (rule triple_createBinding) (simp_all add: b)
  show ?thesis
    unfolding bindingInNamespace_def Let_def bindingKeyOf_desired
  proof (rule triple_get)
    fix existing x
    assume "as_role_binding x = Some existing" and k: "okey x = bindingIn e name cr ns"
    then have x: "x = ORoleBinding existing" by simp
    have sync: "triple view F (bindingIn e name cr ns) (\<lambda>v. v = Some x)
        (binds (roleRefFor e name cr) [serviceAccountSubject s (crNamespace cr)])
        (syncBinding c ?b (createBinding e c cr ?b) existing)"
      unfolding x by (rule triple_syncBinding) (use k x create in \<open>simp_all add: b\<close>)
    show "triple view F (bindingIn e name cr ns) (\<lambda>v. v = Some x \<and> True) (bindingSettled e name cr s)
        (if dexOff name cr \<or> switchedOff name cr then deleteO c (bindingIn e name cr ns)
         else syncBinding c ?b (createBinding e c cr ?b) existing)"
      by (intro triple_if triple_delete)
        (use sync in \<open>auto simp: bindingSettled_def bindingWanted_def\<close>)
  qed (auto simp: bindingSettled_def bindingWanted_def intro!: triple_ret triple_fail create)
qed

end

section \<open>The service account\<close>

definition accountSettled :: "string \<Rightarrow> ArgoCD_beta \<Rightarrow> obj option \<Rightarrow> bool" where
  "accountSettled name cr = presentOrGone (saWanted name cr) (\<lambda>v. v \<noteq> None)"

lemma newServiceAccount_simps [simp]:
  "saKeyOf (newServiceAccountWithName e name cr) = accountOf e name cr"
  "metaName (saMeta (newServiceAccountWithName e name cr)) = getServiceAccountName e (crName cr) name"
  "metaNamespace (saMeta (newServiceAccountWithName e name cr)) = crNamespace cr"
  by (simp_all add: saKeyOf_def okey_def newServiceAccountWithName_def accountOf_def)

lemma accountOf_meta:
  "okey (OServiceAccount sa) = accountOf e name cr \<Longrightarrow>
   metaName (saMeta sa) = getServiceAccountName e (crName cr) name \<and> metaNamespace (saMeta sa) = crNamespace cr"
  by (simp add: okey_def accountOf_def)

context verbatim_client
begin

lemma reconcileServiceAccount_fp:
  assumes "act_rel (same_outside view {}) refs"
  shows "act_rel (same_outside view {accountOf e name cr}) (reconcileServiceAccount e f refs c cr name)"
proof -
  let ?S = "{accountOf e name cr}" let ?sa = "newServiceAccountWithName e name cr"
  have refs: "act_rel (same_outside view ?S) refs" using assms by (rule fp_mono) simp
  have new: "okey (OServiceAccount (sa\<lparr>saMeta := m\<rparr>)) \<in> ?S"
    if sa: "saMeta sa = saMeta ?sa" and m: "controlledBy e cr (saMeta sa) w = (Ok m, w1)" for sa m and w w1 :: 'w
  proof -
    from m have "m = (saMeta ?sa)\<lparr>metaOwners := metaOwners m\<rparr>"
      by (auto simp: sa controlledBy_Ok_iff SetControllerReference_def split: sum.splits)
    from owned_meta[OF this] show ?thesis by (simp add: okey_def accountOf_def)
  qed
  have found: "okey (OServiceAccount (found\<lparr>saImagePullSecrets := rs\<rparr>)) \<in> ?S"
    if "getAs c as_service_account (accountOf e name cr) w = (Ok found, w1)" for found rs w w1
    using getAs_key[OF that] by (auto simp: okey_def)
  show ?thesis
    unfolding reconcileServiceAccount_def Let_def newServiceAccount_simps
    by (intro fp.rel_handle fp.rel_if fp.rel_bindG fp.rel_thenG fp.rel_ret fp.rel_fail fp.rel_controlledBy
        getAs_fp createO_fp updateO_fp deleteO_fp refs new found)
      (auto simp: ok_iff ret_def split: if_splits)
qed

lemma reconcileServiceAccount_settles:
  assumes "act_rel (same_outside view {}) refs"
    and run: "reconcileServiceAccount e f refs c cr name w = (Ok sa, w')"
  shows "accountSettled name cr (view w' (accountOf e name cr))"
    and "metaName (saMeta sa) = getServiceAccountName e (crName cr) name \<and> metaNamespace (saMeta sa) = crNamespace cr"
proof -
  let ?k = "accountOf e name cr" let ?sa = "newServiceAccountWithName e name cr"
  let ?goal = "accountSettled name cr (view w' ?k) \<and>
     metaName (saMeta sa) = getServiceAccountName e (crName cr) name \<and> metaNamespace (saMeta sa) = crNamespace cr"
  have pure: "view w2 = view w1" if "refs w1 = (r, w2)" for w1 w2 r
    by (rule fp_empty_view[OF assms(1) that])
  from run consider
      (err) err w1 where "getAs c as_service_account ?k w = (Err err, w1)"
        "(if \<not> IsNotFound err then fail err
           else if \<not> saWanted name cr then ret ?sa
           else bindG (if versionFound f then ret ?sa else bindG refs (\<lambda>rs. ret (?sa\<lparr>saImagePullSecrets := rs\<rparr>))) (\<lambda>sa1.
                bindG (controlledBy e cr (saMeta sa1)) (\<lambda>m.
                thenG (createO c (OServiceAccount (sa1\<lparr>saMeta := m\<rparr>))) (ret (sa1\<lparr>saMeta := m\<rparr>))))) w1 = (Ok sa, w')"
    | (ok) found w1 where "getAs c as_service_account ?k w = (Ok found, w1)"
        "(if \<not> saWanted name cr then thenG (deleteO c ?k) (ret found)
           else if versionFound f then ret found
           else bindG refs (\<lambda>rs.
             if Some (elems (saImagePullSecrets found)) \<noteq> rs
             then thenG (updateO c (OServiceAccount (found\<lparr>saImagePullSecrets := rs\<rparr>))) (ret (found\<lparr>saImagePullSecrets := rs\<rparr>))
             else ret found)) w1 = (Ok sa, w')"
    unfolding reconcileServiceAccount_def Let_def newServiceAccount_simps handle_Ok_iff by blast
  then have ?goal
  proof cases
    case err
    then have nf: "IsNotFound err" by (auto split: if_splits)
    note absent = getAs_NotFound[OF err(1) nf]
    show ?thesis
    proof (cases "saWanted name cr")
      case True
      with err(2) nf have "bindG (if versionFound f then ret ?sa else bindG refs (\<lambda>rs. ret (?sa\<lparr>saImagePullSecrets := rs\<rparr>))) (\<lambda>sa1.
                bindG (controlledBy e cr (saMeta sa1)) (\<lambda>m.
                thenG (createO c (OServiceAccount (sa1\<lparr>saMeta := m\<rparr>))) (ret (sa1\<lparr>saMeta := m\<rparr>)))) w1 = (Ok sa, w')" by simp
      then obtain sa1 m w2 where s: "(if versionFound f then ret ?sa else bindG refs (\<lambda>rs. ret (?sa\<lparr>saImagePullSecrets := rs\<rparr>))) w1 = (Ok sa1, w2)"
        and m: "SetControllerReference e (bArgoCD_Meta cr) (saMeta sa1) = Inr m"
        and cr: "createO c (OServiceAccount (sa1\<lparr>saMeta := m\<rparr>)) w2 = (Ok (), w')"
        and sa: "sa = sa1\<lparr>saMeta := m\<rparr>"
        unfolding bindG_Ok_iff[of "if versionFound f then _ else _"] by (auto simp: ok_iff controlledBy_Ok_iff ret_def)
      from s have sa1: "saMeta sa1 = saMeta ?sa" by (cases "versionFound f") (auto simp: ok_iff ret_def)
      from m have "m = (saMeta ?sa)\<lparr>metaOwners := metaOwners m\<rparr>"
        by (auto simp: sa1 SetControllerReference_def split: sum.splits)
      note mm = owned_meta[OF this]
      then have "okey (OServiceAccount (sa1\<lparr>saMeta := m\<rparr>)) = ?k" by (simp add: okey_def accountOf_def)
      with createO_Ok(1)[OF cr] sa mm True show ?thesis by (simp add: accountSettled_def)
    next
      case False
      with err nf absent show ?thesis by (auto simp: accountSettled_def ret_def)
    qed
  next
    case ok
    from getAs_Ok[OF ok(1)] obtain x where x: "view w ?k = Some x" "as_service_account x = Some found" "view w1 = view w" by auto
    from view_key[OF x(1)] x(2) have k: "okey (OServiceAccount found) = ?k" by simp
    have "okey (OServiceAccount (found\<lparr>saImagePullSecrets := rs\<rparr>)) = ?k" for rs using k by (simp add: okey_def)
    with ok(2) x accountOf_meta[OF k] show ?thesis
      by (auto simp: ok_iff accountSettled_def split: if_splits dest!: pure updateO_Ok(1) elim!: deleteO_Ok)
  qed
  then show "accountSettled name cr (view w' ?k)"
    and "metaName (saMeta sa) = getServiceAccountName e (crName cr) name \<and> metaNamespace (saMeta sa) = crNamespace cr"
    by blast+
qed

end

section \<open>In every namespace the instance manages\<close>

text \<open>A component is served in a namespace that is not being deleted: every component in the instance's own, the
  server and the application controller everywhere, the others where there is an instance.\<close>

definition instanceIn :: "(key \<Rightarrow> obj option) \<Rightarrow> string \<Rightarrow> bool" where
  "instanceIn v ns \<longleftrightarrow> (\<exists>x. obj_kind x = KArgoCD \<and> v (okey x) = Some x \<and> metaNamespace (obj_meta x) = ns)"

definition served :: "(key \<Rightarrow> obj option) \<Rightarrow> string \<Rightarrow> ArgoCD_beta \<Rightarrow> namespace_obj \<Rightarrow> bool" where
  "served v name cr ns \<longleftrightarrow> \<not> metaDeleting (nsMeta ns) \<and>
     (crNamespace cr = namespaceName ns \<or> \<not> internalComponent name \<or> instanceIn v (namespaceName ns))"

definition touchedIn :: "(string \<Rightarrow> key) \<Rightarrow> namespace_obj \<Rightarrow> key set" where
  "touchedIn key ns = (if metaDeleting (nsMeta ns) then {okey (ONamespace ns)} else {key (namespaceName ns)})"

lemma served_same:
  "same_outside view S w w' \<Longrightarrow> (\<And>k. k \<in> S \<Longrightarrow> fst k \<noteq> KArgoCD) \<Longrightarrow> served (view w') name cr ns = served (view w) name cr ns"
proof -
  assume same: "same_outside view S w w'" and S: "\<And>k. k \<in> S \<Longrightarrow> fst k \<noteq> KArgoCD"
  have "view w' (okey x) = view w (okey x)" if "obj_kind x = KArgoCD" for x
    using S[of "okey x"] that by (intro same_outsideD[OF same]) (auto simp: okey_def)
  then have "instanceIn (view w') n = instanceIn (view w) n" for n
    unfolding instanceIn_def by metis
  then show ?thesis by (simp add: served_def)
qed

lemma released_simps [simp]:
  "namespaceName (released ns) = namespaceName ns" "metaDeleting (nsMeta (released ns)) = metaDeleting (nsMeta ns)"
  "okey (ONamespace (released ns)) = okey (ONamespace ns)" "served v name cr (released ns) = served v name cr ns"
  "touchedIn key (released ns) = touchedIn key ns"
  by (simp_all add: released_def withNsLabels_def namespaceName_def okey_def served_def touchedIn_def)

context k8s_client
begin

lemma hasInstance_Ok:
  assumes "hasInstance c ns w = (Ok here, w')"
  shows "view w' = view w" and "here = instanceIn (view w) ns"
proof -
  from assms obtain xs where l: "cList c w KArgoCD = (Inr xs, w')" and here: "here = (\<exists>x \<in> set xs. metaNamespace (obj_meta x) = ns)"
    by (auto simp: hasInstance_def bindG_Ok_iff listO_def ret_def split: prod.splits sum.splits)
  from list_view[OF l] show "view w' = view w" .
  from list_found[OF l] here show "here = instanceIn (view w) ns"
    by (auto simp: refreshable_def instanceIn_def)
qed

lemma hasInstance_fp: "act_rel (same_outside view {}) (hasInstance c ns)"
  unfolding hasInstance_def by (intro fp.rel_bindG fp.rel_ret listO_fp)

lemma inManagedNamespace_step:
  assumes "triple view {} (key (namespaceName ns)) (\<lambda>_. True) P m"
  shows "act_rel (same_outside view (touchedIn key ns)) (inManagedNamespace c name cr m ns)"
    and "inManagedNamespace c name cr m ns w = (Ok (), w') \<Longrightarrow> served (view w) name cr ns \<Longrightarrow> P (view w' (key (namespaceName ns)))"
    and "inManagedNamespace c name cr m ns w = (Ok (), w') \<Longrightarrow> \<not> metaDeleting (nsMeta ns) \<Longrightarrow> \<not> served (view w) name cr ns \<Longrightarrow>
      view w' = view w"
proof -
  have m: "act_rel (same_outside view {key (namespaceName ns)}) m" using triple_fp[OF assms] by simp
  have k: "okey (ONamespace (withNsLabels g ns)) = okey (ONamespace ns)" for g
    by (simp add: okey_def withNsLabels_def)
  show "act_rel (same_outside view (touchedIn key ns)) (inManagedNamespace c name cr m ns)"
  proof (cases "metaDeleting (nsMeta ns)")
    case True
    then show ?thesis
      by (auto simp: inManagedNamespace_def releaseTerminating_def touchedIn_def k intro!: fp.rel_logged fp.rel_ret updateO_fp)
  next
    case False
    have "act_rel (same_outside view {key (namespaceName ns)}) (hasInstance c (namespaceName ns))"
      by (rule fp_mono[OF hasInstance_fp]) simp
    with False m show ?thesis
      by (auto simp: inManagedNamespace_def touchedIn_def intro!: fp.rel_bindG fp.rel_ret)
  qed
  assume run: "inManagedNamespace c name cr m ns w = (Ok (), w')"
  have live: "(served (view w) name cr ns \<longrightarrow> P (view w' (key (namespaceName ns)))) \<and> (\<not> served (view w) name cr ns \<longrightarrow> view w' = view w)"
    if "\<not> metaDeleting (nsMeta ns)"
  proof -
    from run that obtain here w1 where h: "hasInstance c (namespaceName ns) w = (Ok here, w1)"
      and r: "(if \<not> here \<and> crNamespace cr \<noteq> namespaceName ns \<and> internalComponent name then ret () else m) w1 = (Ok (), w')"
      by (auto simp: inManagedNamespace_def bindG_Ok_iff)
    from hasInstance_Ok[OF h] r that have "if served (view w) name cr ns then m w1 = (Ok (), w') else view w' = view w"
      by (auto simp: served_def ret_def split: if_splits)
    then show ?thesis using tripleD[OF assms, of w1 w'] by (auto split: if_splits)
  qed
  then show "served (view w) name cr ns \<Longrightarrow> P (view w' (key (namespaceName ns)))"
    and "\<not> metaDeleting (nsMeta ns) \<Longrightarrow> \<not> served (view w) name cr ns \<Longrightarrow> view w' = view w"
    by (auto simp: served_def)
qed

lemma inManagedNamespaces:
  assumes "\<And>ns. triple view {} (key ns) (\<lambda>_. True) (P ns) (m ns)"
    and "inj key" and "\<And>ns. fst (key ns) \<notin> {KNamespace, KArgoCD}"
  shows "act_rel (same_outside view (\<Union>ns \<in> set nss. touchedIn key ns))
      (forG (\<lambda>ns. inManagedNamespace c name cr (m (namespaceName ns)) ns) nss)"
    and "forG (\<lambda>ns. inManagedNamespace c name cr (m (namespaceName ns)) ns) nss w = (Ok (), w') \<Longrightarrow> distinct (map namespaceName nss) \<Longrightarrow>
      \<forall>ns \<in> set nss. (served (view w) name cr ns \<longrightarrow> P (namespaceName ns) (view w' (key (namespaceName ns)))) \<and>
        (\<not> metaDeleting (nsMeta ns) \<and> \<not> served (view w) name cr ns \<longrightarrow> view w' (key (namespaceName ns)) = view w (key (namespaceName ns)))"
proof -
  have fp: "act_rel (same_outside view (\<Union>ns \<in> set nss. touchedIn key ns))
      (forG (\<lambda>ns. inManagedNamespace c name cr (m (namespaceName ns)) ns) nss)" for nss
    by (rule fp.rel_forG, rule fp_mono[OF inManagedNamespace_step(1)[OF assms(1)]]) auto
  then show "act_rel (same_outside view (\<Union>ns \<in> set nss. touchedIn key ns))
      (forG (\<lambda>ns. inManagedNamespace c name cr (m (namespaceName ns)) ns) nss)" .
  have kind: "fst k \<noteq> KArgoCD" if "k \<in> touchedIn key ns" for k ns
    using that assms(3)[of "namespaceName ns"] by (auto simp: touchedIn_def okey_def split: if_splits)
  assume "forG (\<lambda>ns. inManagedNamespace c name cr (m (namespaceName ns)) ns) nss w = (Ok (), w')" and "distinct (map namespaceName nss)"
  then show "\<forall>ns \<in> set nss. (served (view w) name cr ns \<longrightarrow> P (namespaceName ns) (view w' (key (namespaceName ns)))) \<and>
        (\<not> metaDeleting (nsMeta ns) \<and> \<not> served (view w) name cr ns \<longrightarrow> view w' (key (namespaceName ns)) = view w (key (namespaceName ns)))"
  proof (induction nss arbitrary: w)
    case (Cons ns nss)
    from Cons.prems(1) obtain w1 where s: "inManagedNamespace c name cr (m (namespaceName ns)) ns w = (Ok (), w1)"
      and r: "forG (\<lambda>ns. inManagedNamespace c name cr (m (namespaceName ns)) ns) nss w1 = (Ok (), w')"
      by (auto simp: thenG_Ok_iff)
    note step = inManagedNamespace_step[where key = key and ns = ns and P = "P (namespaceName ns)" and m = "m (namespaceName ns)", OF assms(1)]
    from act_relD[OF step(1) s] have s1: "same_outside view (touchedIn key ns) w w1" .
    have served: "served (view w1) name cr ns' = served (view w) name cr ns'" for ns'
      by (rule served_same[OF s1 kind])
    from act_relD[OF fp r] have s2: "same_outside view (\<Union>ns \<in> set nss. touchedIn key ns) w1 w'" .
    have other: "key (namespaceName ns') \<notin> touchedIn key ns''" if "namespaceName ns' \<noteq> namespaceName ns''" for ns' ns''
      using that assms(2) assms(3)[of "namespaceName ns'"] by (auto simp: touchedIn_def okey_def inj_eq)
    have "view w' (key (namespaceName ns)) = view w1 (key (namespaceName ns))"
      using Cons.prems(2) other by (intro same_outsideD[OF s2]) auto
    moreover have "view w1 (key (namespaceName ns')) = view w (key (namespaceName ns'))" if "ns' \<in> set nss" for ns'
    proof (rule same_outsideD[OF s1 other])
      from Cons.prems(2) that show "namespaceName ns' \<noteq> namespaceName ns" by (auto simp: image_iff)
    qed
    ultimately show ?case
      using Cons.IH[OF r] Cons.prems(2) step(2,3)[OF s] by (auto simp: served)
  qed simp
qed

end

section \<open>A component's service account, Roles and RoleBindings\<close>

lemma onSW_Ok_iff:
  "onSW m s = (Ok a, s') \<longleftrightarrow> (\<exists>w'. m (swWorld s) = (Ok a, w') \<and> s' = s\<lparr>swWorld := w'\<rparr>)"
  by (auto simp: onSW_def split: prod.splits)

text \<open>The account exists, the Role has the rules, and the RoleBinding names that account and that Role.\<close>

definition boundTogether ::
  "(key \<Rightarrow> obj option) \<Rightarrow> env \<Rightarrow> string \<Rightarrow> ArgoCD_beta \<Rightarrow> policy_rule slice \<Rightarrow> string \<Rightarrow> bool" where
  "boundTogether v e name cr rules ns \<longleftrightarrow>
     (\<exists>sa r b. v (accountOf e name cr) = Some (OServiceAccount sa) \<and> v (roleIn e name cr ns) = Some (ORole r) \<and>
        v (bindingIn e name cr ns) = Some (ORoleBinding b) \<and> roleRules r = rules \<and>
        rbRoleRef b = refersTo ''Role'' (metaName (roleMeta r)) \<and>
        rbSubjects b = Some [serviceAccountSubject (metaName (saMeta sa)) (metaNamespace (saMeta sa))])"

definition permissionKeys :: "env \<Rightarrow> string \<Rightarrow> ArgoCD_beta \<Rightarrow> namespace_obj list \<Rightarrow> key set" where
  "permissionKeys e name cr nss = {accountOf e name cr} \<union>
     (\<Union>ns \<in> set nss. touchedIn (roleIn e name cr) ns \<union> touchedIn (bindingIn e name cr) ns)"

text \<open>The whole of what the component may do in one namespace is as it should be.\<close>

definition permissionsSettled ::
  "(key \<Rightarrow> obj option) \<Rightarrow> env \<Rightarrow> string \<Rightarrow> ArgoCD_beta \<Rightarrow> policy_rule slice \<Rightarrow> string \<Rightarrow> bool" where
  "permissionsSettled v e name cr rules ns \<longleftrightarrow>
     (if roleWanted e name cr \<and> saWanted name cr then boundTogether v e name cr rules ns
      else roleSettled e name cr rules (v (roleIn e name cr ns)) \<and>
           bindingSettled e name cr (getServiceAccountName e (crName cr) name) (v (bindingIn e name cr ns)))"

lemma roleIn_inj [simp]: "inj (roleIn e name cr)" "inj (bindingIn e name cr)"
  by (auto simp: inj_def roleIn_def bindingIn_def)

lemma permission_kinds [simp]:
  "fst (roleIn e name cr ns) = KRole" "fst (bindingIn e name cr ns) = KRoleBinding"
  "fst (accountOf e name cr) = KServiceAccount"
  by (simp_all add: roleIn_def bindingIn_def accountOf_def)

lemma okey_account: "okey x = accountOf e name cr \<Longrightarrow> \<exists>sa. x = OServiceAccount sa"
  by (cases x) (auto simp: okey_def accountOf_def)

context k8s_client
begin

lemma listSelected_fp: "act_rel (same_outside view S) (listSelected c kd ns label val)"
  unfolding listSelected_def
  by (intro fp.rel_bindG fp.rel_ret)
    (auto simp: act_rel_def same_outside_def listO_def dest: list_view split: prod.split sum.split)

lemma getImagePullSecretRefs_fp: "act_rel (same_outside view {}) (getImagePullSecretRefs e controlled c cr)"
proof -
  have "act_rel (same_outside view {}) (listO c kd)" for kd
    by (auto simp: act_rel_def same_outside_def listO_def dest: list_view split: prod.split sum.split)
  then show ?thesis
    unfolding getImagePullSecretRefs_def
    by (intro fp.rel_bindG fp.rel_mapErr fp.rel_if fp.rel_ret fp.rel_liftE listSelected_fp)
qed

end

context verbatim_client
begin

lemma boundTogetherI:
  assumes "roleWanted e name cr" and "saWanted name cr"
    and "accountSettled name cr (view w (accountOf e name cr))"
    and "roleSettled e name cr rules (view w (roleIn e name cr ns))"
    and "bindingSettled e name cr (getServiceAccountName e (crName cr) name) (view w (bindingIn e name cr ns))"
  shows "boundTogether (view w) e name cr rules ns"
proof -
  from assms(2,3) obtain x where x: "view w (accountOf e name cr) = Some x" by (auto simp: accountSettled_def)
  from okey_account[OF view_key[OF x]] obtain sa where sa: "x = OServiceAccount sa" by blast
  note meta = accountOf_meta[OF view_key[OF x, unfolded sa]]
  from assms(1,4) obtain r where r: "view w (roleIn e name cr ns) = Some (ORole r)" "roleRules r = rules"
    by (auto simp: roleSettled_def roleGrants_def)
  from view_key[OF r(1)] have rn: "metaName (roleMeta r) = nameWithSuffix e name cr" by (simp add: okey_def roleIn_def)
  from assms(1,5) obtain b where "view w (bindingIn e name cr ns) = Some (ORoleBinding b)"
      "rbRoleRef b = refersTo ''Role'' (nameWithSuffix e name cr)"
      "rbSubjects b = Some [serviceAccountSubject (getServiceAccountName e (crName cr) name) (crNamespace cr)]"
    by (auto simp: bindingSettled_def bindingWanted_def roleWanted_def binds_def roleRefFor_def)
  with x sa r rn meta show ?thesis unfolding boundTogether_def by auto
qed

lemma reconcileRoleBinding_permissions:
  assumes "keepsName hook" and "hook (newRole e name rules cr) = Inr r0" and "distinct (map namespaceName managed)"
    and "name \<noteq> serverComponent \<or> \<not> IsNamespaceClusterConfigNamespace e (crNamespace cr)"
    and "act_rel (same_outside view {}) refs"
    and "reconcileRoleBinding e f hook match order refs c managed cr name rules s = (Ok (), s')"
  shows "accountSettled name cr (view (swWorld s') (accountOf e name cr))"
    and "\<forall>ns \<in> set managed. served (view (swWorld s)) name cr ns \<longrightarrow>
       permissionsSettled (view (swWorld s')) e name cr (roleRules r0) (namespaceName ns)"
    and "same_outside view (permissionKeys e name cr managed) (swWorld s) (swWorld s')"
    and "swManaged s' = swManaged s"
proof -
  let ?sa = "getServiceAccountName e (crName cr) name"
  from assms(4,6) obtain sa w1 w2 w3 where
      sa: "reconcileServiceAccount e f refs c cr name (swWorld s) = (Ok sa, w1)"
    and role: "reconcileRole e hook c managed cr name rules w1 = (Ok (), w2)"
    and bind: "forG (\<lambda>ns. inManagedNamespace c name cr (bindingInNamespace e c cr name sa (namespaceName ns)) ns)
      (map released managed) w2 = (Ok (), w3)"
    and s': "s' = s\<lparr>swWorld := w3\<rparr>"
    by (auto simp: reconcileRoleBinding_def ok_iff onSW_Ok_iff ret_def)
  note settles = reconcileServiceAccount_settles[OF assms(5) sa]
  let ?R = "\<Union>ns \<in> set managed. touchedIn (roleIn e name cr) ns"
  let ?B = "\<Union>ns \<in> set managed. touchedIn (bindingIn e name cr) ns"
  from act_relD[OF reconcileServiceAccount_fp[OF assms(5)] sa]
  have f1: "same_outside view {accountOf e name cr} (swWorld s) w1" .
  note roles = inManagedNamespaces[where key = "roleIn e name cr" and P = "\<lambda>_. roleSettled e name cr (roleRules r0)"
      and m = "roleInNamespace e hook c cr name rules" and nss = managed and name = name and cr = cr,
      OF roleInNamespace_triple[OF assms(1,2)]]
  note bindings = inManagedNamespaces[where key = "bindingIn e name cr" and P = "\<lambda>_. bindingSettled e name cr ?sa"
      and m = "bindingInNamespace e c cr name sa" and nss = "map released managed" and name = name and cr = cr,
      OF bindingInNamespace_triple[OF refl conjunct1[OF settles(2)] conjunct2[OF settles(2)]]]
  have f2: "same_outside view ?R w1 w2"
    using act_relD[OF roles(1) role[unfolded reconcileRole_def]] by simp
  have f3: "same_outside view ?B w2 w3"
    using act_relD[OF bindings(1) bind] by simp
  show "same_outside view (permissionKeys e name cr managed) (swWorld s) (swWorld s')"
    using f1 f2 f3 s' by (auto simp: same_outside_def permissionKeys_def)
  show "swManaged s' = swManaged s" by (simp add: s')
  have kinds: "fst k \<in> {KRole, KNamespace}" if "k \<in> ?R" for k
    using that by (auto simp: touchedIn_def okey_def split: if_splits)
  have kindsB: "fst k \<in> {KRoleBinding, KNamespace}" if "k \<in> ?B" for k
    using that by (auto simp: touchedIn_def okey_def split: if_splits)
  have account: "view w3 (accountOf e name cr) = view w1 (accountOf e name cr)"
    using same_outsideD[OF f2, of "accountOf e name cr"] same_outsideD[OF f3, of "accountOf e name cr"]
      kinds[of "accountOf e name cr"] kindsB[of "accountOf e name cr"] by fastforce
  with settles(1) show acc: "accountSettled name cr (view (swWorld s') (accountOf e name cr))" by (simp add: s')
  have rolekeep: "view w3 (roleIn e name cr ns) = view w2 (roleIn e name cr ns)" for ns
    using same_outsideD[OF f3, of "roleIn e name cr ns"] kindsB[of "roleIn e name cr ns"] by fastforce
  have served1: "served (view w1) name cr ns = served (view (swWorld s)) name cr ns" for ns
    by (rule served_same[OF f1]) auto
  have served2: "served (view w2) name cr ns = served (view w1) name cr ns" for ns
    by (rule served_same[OF f2]) (use kinds in fastforce)
  show "\<forall>ns \<in> set managed. served (view (swWorld s)) name cr ns \<longrightarrow>
       permissionsSettled (view (swWorld s')) e name cr (roleRules r0) (namespaceName ns)"
  proof (intro ballI impI)
    fix ns assume ns: "ns \<in> set managed" and "served (view (swWorld s)) name cr ns"
    with served1 served2 have "served (view w1) name cr ns" "served (view w2) name cr ns" by simp_all
    moreover have "distinct (map namespaceName (map released managed))" using assms(3) by (simp add: comp_def)
    ultimately
    have "roleSettled e name cr (roleRules r0) (view w2 (roleIn e name cr (namespaceName ns)))"
      and "bindingSettled e name cr ?sa (view w3 (bindingIn e name cr (namespaceName (released ns))))"
      using roles(2)[OF _ _ role[unfolded reconcileRole_def] assms(3)] bindings(2)[OF _ _ bind] ns by force+
    then
    have r: "roleSettled e name cr (roleRules r0) (view w3 (roleIn e name cr (namespaceName ns)))"
      and b: "bindingSettled e name cr ?sa (view w3 (bindingIn e name cr (namespaceName ns)))"
      by (auto simp: rolekeep)
    then show "permissionsSettled (view (swWorld s')) e name cr (roleRules r0) (namespaceName ns)"
      using boundTogetherI[of e name cr w3 "roleRules r0"] acc by (simp add: permissionsSettled_def s')
  qed
qed

end

section \<open>ClusterRoles\<close>

definition clusterRoleWith :: "(cluster_role \<Rightarrow> bool) \<Rightarrow> obj option \<Rightarrow> bool" where
  "clusterRoleWith P v \<longleftrightarrow> (\<exists>r. v = Some (OClusterRole r) \<and> P r)"

lemma clusterRoleWith_Some [simp]: "clusterRoleWith P (Some (OClusterRole r)) = P r"
  by (simp add: clusterRoleWith_def)

text \<open>A default ClusterRole has the wanted rules, that of the controller no aggregation; an aggregated one has the
  selector and the labels that make the aggregation work.\<close>

definition defaultRole :: "string \<Rightarrow> cluster_role \<Rightarrow> cluster_role \<Rightarrow> bool" where
  "defaultRole name d r \<longleftrightarrow> crRules r = crRules d \<and> (name = applicationControllerComponent \<longrightarrow>
     crAggregation r = crAggregation d \<and> metaAnnotations (crMeta r) = metaAnnotations (crMeta d))"

definition aggregatedRole :: "string \<Rightarrow> ArgoCD_beta \<Rightarrow> cluster_role \<Rightarrow> cluster_role \<Rightarrow> bool" where
  "aggregatedRole name cr d r \<longleftrightarrow>
     (name = applicationControllerComponent \<longrightarrow> crAggregation r = aggregatedFrom aggregateToController cr \<and>
        metaAnnotations (crMeta r) = metaAnnotations (crMeta d)) \<and>
     (name = applicationControllerComponentAdmin \<longrightarrow> crAggregation r = aggregatedFrom aggregateToAdmin cr) \<and>
     (auxiliaryClusterRole name \<longrightarrow> metaLabels (crMeta r) = gput (clusterLabels cr) aggregateToController ''true'')"

definition theirs :: "ArgoCD_beta \<Rightarrow> obj option \<Rightarrow> bool" where
  "theirs cr v \<longleftrightarrow> clusterRoleWith (\<lambda>r. \<not> CheckOwnership (crMeta r) cr) v"

definition clusterRoleMeant ::
  "env \<Rightarrow> (cluster_role \<Rightarrow> go_error + cluster_role) \<Rightarrow> ArgoCD_beta \<Rightarrow> string \<Rightarrow> policy_rule list \<Rightarrow> bool \<Rightarrow> obj option \<Rightarrow> bool" where
  "clusterRoleMeant e hook cr name rules bound v \<longleftrightarrow>
     (let allowed = IsNamespaceClusterConfigNamespace e (crNamespace cr);
          aggregated = bSpec_AggregatedClusterRoles (spec cr);
          expected = newInstanceClusterRole name rules cr
      in if allowed \<and> bSpec_DefaultClusterScopedRoleDisabled (spec cr) then \<not> aggregated \<and> \<not> bound \<and> gone v
         else if allowed \<and> aggregated
         then bound \<and> clusterRoleWith (aggregatedRole name cr (configureAggregatedClusterRole cr name expected)) v
         else if auxiliaryClusterRole name then \<not> bound \<and> gone v
         else if allowed then bound \<and> (\<exists>d. hook expected = Inr d \<and> clusterRoleWith (defaultRole name d) v)
         else \<not> bound \<and> (gone v \<or> theirs cr v))"

definition keepsClusterName :: "(cluster_role \<Rightarrow> go_error + cluster_role) \<Rightarrow> bool" where
  "keepsClusterName hook \<longleftrightarrow> (\<forall>r r'. hook r = Inr r' \<longrightarrow> okey (OClusterRole r') = okey (OClusterRole r))"

lemma expected_key [simp]:
  "okey (OClusterRole (newInstanceClusterRole name rules cr)) = clusterRoleKey name cr"
  "okey (OClusterRole (configureAggregatedClusterRole cr name r)) = okey (OClusterRole r)"
  by (simp_all add: okey_def newInstanceClusterRole_def clusterRoleKey_def configureAggregatedClusterRole_def
      withClusterRoleLabel_def)

lemma syncField_simps [simp]:
  "syncField get put d (ch, r) = (if get r = d then (ch, r) else (True, put d r))"
  by (auto simp: syncField_def)

lemmas sync_defs = syncAggregation_def syncAnnotations_def syncLabels_def syncRules_def

definition matchedAggregated :: "string \<Rightarrow> cluster_role \<Rightarrow> cluster_role \<Rightarrow> bool" where
  "matchedAggregated name d r \<longleftrightarrow>
     (name = applicationControllerComponent \<longrightarrow> crAggregation r = crAggregation d \<and>
        metaAnnotations (crMeta r) = metaAnnotations (crMeta d)) \<and>
     (name = applicationControllerComponentAdmin \<longrightarrow> crAggregation r = crAggregation d) \<and>
     (auxiliaryClusterRole name \<longrightarrow> metaLabels (crMeta r) = metaLabels (crMeta d))"

definition roleTarget :: "string \<Rightarrow> ArgoCD_beta \<Rightarrow> cluster_role \<Rightarrow> cluster_role \<Rightarrow> bool" where
  "roleTarget name cr = (if bSpec_AggregatedClusterRoles (spec cr) then matchedAggregated name else defaultRole name)"

lemma component_names_distinct [simp]:
  "applicationControllerComponent \<noteq> applicationControllerComponentAdmin"
  "applicationControllerComponent \<noteq> applicationControllerComponentView"
  "applicationControllerComponentView \<noteq> applicationControllerComponentAdmin"
  "applicationControllerComponentAdmin \<noteq> applicationControllerComponent"
  "applicationControllerComponentView \<noteq> applicationControllerComponent"
  "applicationControllerComponentAdmin \<noteq> applicationControllerComponentView"
  by code_simp+

lemma matchClusterRole_spec:
  assumes "(if bSpec_AggregatedClusterRoles (spec cr) then matchAggregatedClusterRoleFields d name r
            else matchDefaultClusterRoleFields d name r) = (changed, r')"
  shows "roleTarget name cr d r'" and "okey (OClusterRole r') = okey (OClusterRole r)" and "\<not> changed \<Longrightarrow> r' = r"
  using assms component_names_distinct
  by (auto simp: roleTarget_def matchAggregatedClusterRoleFields_def matchDefaultClusterRoleFields_def sync_defs
      matchedAggregated_def defaultRole_def auxiliaryClusterRole_def okey_def Let_def split: if_splits)

lemma roleTarget_self [simp]: "roleTarget name cr d d"
  by (simp add: roleTarget_def matchedAggregated_def defaultRole_def)

lemma aggregated_target:
  "matchedAggregated name (configureAggregatedClusterRole cr name (newInstanceClusterRole n rules cr)) r \<Longrightarrow>
   aggregatedRole name cr (configureAggregatedClusterRole cr name (newInstanceClusterRole n rules cr)) r"
  by (auto simp: matchedAggregated_def aggregatedRole_def configureAggregatedClusterRole_def auxiliaryClusterRole_def
      withClusterRoleLabel_def newInstanceClusterRole_def annotatedMeta_def rbacMeta_def split: if_splits)

text \<open>Reading a result off a triple: the computation is stopped unless it is the one looked for.\<close>

definition expecting :: "'a \<Rightarrow> 'a \<Rightarrow> ('w, unit) act" where
  "expecting b x = (if x = b then ret () else fail (ErrorText ''another result''))"

lemma bindG_handle: "bindG (handle m h k) n = handle m (\<lambda>err. bindG (h err) n) (\<lambda>a. bindG (k a) n)"
  by (auto simp: bindG_def handle_def fun_eq_iff split: prod.split outcome.split)

lemma bindG_thenG: "bindG (thenG a b) n = thenG a (bindG b n)"
  by (auto simp: thenG_def bindG_def handle_def fun_eq_iff split: prod.split outcome.split)

lemma bindG_bindG: "bindG (bindG a b) n = bindG a (\<lambda>x. bindG (b x) n)"
  by (auto simp: bindG_def handle_def fun_eq_iff split: prod.split outcome.split)

lemma bindG_if: "bindG (if b then m else m') n = (if b then bindG m n else bindG m' n)"
  by simp

lemma bindG_prod: "bindG (case x of (a, b) \<Rightarrow> m a b) n = (case x of (a, b) \<Rightarrow> bindG (m a b) n)"
  by (cases x) simp

lemma bindG_Pair: "bindG (Pair (Ok a)) n = n a"
  by (simp add: bindG_def handle_def fun_eq_iff)

lemma liftE_Inr: "liftE (Inr a) = ret a"
  by (simp add: liftE_def)

lemmas bindG_push = liftE_Inr bindG_Pair bindG_handle bindG_thenG bindG_bindG bindG_if bindG_prod bindG_simps

lemma triple_result:
  assumes "triple view F k Q (P b) (bindG m (expecting b))" and "m w = (Ok b, w')" and "Q (view w k)"
  shows "P b (view w' k)"
  using tripleD[OF assms(1), of w w'] assms(2,3) by (simp add: bindG_apply expecting_def ret_def)

lemma act_rel_bind: "act_rel R (bindG m (expecting b)) \<Longrightarrow> m w = (r, w') \<Longrightarrow> R w w'"
proof -
  assume rel: "act_rel R (bindG m (expecting b))" and m: "m w = (r, w')"
  then have "snd (bindG m (expecting b) w) = w'"
    by (cases r) (auto simp: bindG_apply expecting_def ret_def fail_def)
  then show "R w w'" using rel by (auto simp: act_rel_def)
qed

lemma triple_expecting: "(\<And>v. b = x \<Longrightarrow> Q v \<Longrightarrow> P v) \<Longrightarrow> triple view F k Q P (expecting b x)"
  unfolding expecting_def by (auto intro!: triple_ret triple_fail)

context verbatim_client
begin

lemma triple_applyClusterRole:
  assumes "okey (OClusterRole d) = k" and "\<not> refreshable (fst k)"
    and "\<And>v. (if \<not> allowed then \<not> b \<and> (gone v \<or> theirs cr v) else b \<and> clusterRoleWith (roleTarget name cr d) v) \<Longrightarrow> P v"
  shows "triple view F k (\<lambda>_. True) P (bindG (applyClusterRole c cr name allowed d) (expecting b))"
  unfolding applyClusterRole_def Let_def assms(1) bindG_push
proof (rule triple_get[OF assms(2)])
  fix existing x
  assume "as_cluster_role x = Some existing" and xk: "okey x = k"
  then have x: "x = OClusterRole existing" by simp
  obtain changed r where m: "(if bSpec_AggregatedClusterRoles (spec cr) then matchAggregatedClusterRoleFields d name existing
      else matchDefaultClusterRoleFields d name existing) = (changed, r)" by force
  note spec = matchClusterRole_spec[OF m]
  have rk: "okey (OClusterRole r) = k" using spec(2) xk x by simp
  let ?T = "\<lambda>v. v = Some (OClusterRole r)"
  have sync: "triple view F k (\<lambda>v. v = Some x \<and> True) P
      (thenG (if changed then updateO c (OClusterRole r) else ret ()) (expecting b True))" if "allowed"
  proof (rule triple_seq[where R = ?T])
    show "triple view F k (\<lambda>v. v = Some x \<and> True) ?T (if changed then updateO c (OClusterRole r) else ret ())"
      by (intro triple_if triple_update triple_ret) (use rk spec(3) x in auto)
    show "triple view F k ?T P (expecting b True)"
      by (rule triple_expecting, rule assms(3)) (use that spec(1) in auto)
  qed
  show "triple view F k (\<lambda>v. v = Some x \<and> True) P
     (if \<not> allowed
      then (if CheckOwnership (crMeta existing) cr then thenG (deleteO c k) (expecting b False) else expecting b False)
      else (case (if bSpec_AggregatedClusterRoles (spec cr)
                  then matchAggregatedClusterRoleFields d name existing
                  else matchDefaultClusterRoleFields d name existing) of
          (changed, r) \<Rightarrow> thenG (if changed then updateO c (OClusterRole r) else ret ()) (expecting b True)))"
    unfolding m prod.case
    by (intro triple_if sync triple_seq[OF triple_delete[of gone]] triple_expecting)
      (auto simp: x theirs_def intro!: assms(3))
next
  fix err
  show "triple view F k (\<lambda>v. v = None \<and> True) P
    (if \<not> IsNotFound err
     then fail (Formatted (''failed to reconcile the cluster role for the service account associated with '' @ name) err)
     else if \<not> allowed then expecting b False else thenG (createO c (OClusterRole d)) (expecting b True))"
    by (intro triple_if triple_fail triple_expecting
        triple_seq[OF triple_create[where P = "\<lambda>v. v = Some (OClusterRole d)"] triple_expecting])
      (auto simp: assms(1) intro!: assms(3))
qed (auto intro: triple_fail)

end

context verbatim_client
begin

lemma triple_deleteClusterRole: "\<not> refreshable (fst k) \<Longrightarrow> triple view F k Q gone (deleteClusterRole c g k)"
  unfolding deleteClusterRole_def
  by (rule triple_get) (auto intro!: triple_ret triple_fail triple_mapErr triple_delete)

lemma clusterRoleKey_simps [simp]: "\<not> refreshable (fst (clusterRoleKey name cr))" "\<not> refreshable (fst (clusterBindingKey name cr))"
  by (simp_all add: clusterRoleKey_def clusterBindingKey_def refreshable_def)

lemma triple_reconcileClusterRole:
  assumes "keepsClusterName hook"
  shows "triple view F (clusterRoleKey name cr) (\<lambda>_. True) (clusterRoleMeant e hook cr name rules b)
     (bindG (reconcileClusterRole e hook c cr name rules) (expecting b))"
  (is "triple _ _ ?k _ ?P _")
proof -
  let ?allowed = "IsNamespaceClusterConfigNamespace e (crNamespace cr)"
  let ?expected = "newInstanceClusterRole name rules cr"
  let ?configured = "configureAggregatedClusterRole cr name ?expected"
  note drop = triple_seq[OF triple_deleteClusterRole triple_expecting]
  have hook: "okey (OClusterRole d) = ?k" if "hook ?expected = Inr d" for d
    using assms that by (auto simp: keepsClusterName_def)
  show ?thesis
  proof (cases "?allowed \<and> bSpec_DefaultClusterScopedRoleDisabled (spec cr)")
    case custom: True
    show ?thesis
    proof (cases "bSpec_AggregatedClusterRoles (spec cr)")
      case True
      with custom show ?thesis
        by (simp add: reconcileClusterRole_def verifyInstallationMode_def liftE_def Let_def thenG_def triple_fail)
    next
      case False
      with custom have run: "bindG (reconcileClusterRole e hook c cr name rules) (expecting b) =
          thenG (deleteClusterRole c (Formatted (''failed to delete existing cluster role for the service account associated with '' @ name)) ?k)
            (expecting b False)"
        by (simp add: reconcileClusterRole_def verifyInstallationMode_def checkCustomClusterRoleMode_def Let_def bindG_push)
      show ?thesis
        unfolding run by (rule drop) (use custom False in \<open>auto simp: clusterRoleMeant_def Let_def\<close>)
    qed
  next
    case False
    then have plainMode: "checkCustomClusterRoleMode e c cr name ?allowed = ret False" "verifyInstallationMode cr ?allowed = Inr ()"
      by (auto simp: checkCustomClusterRoleMode_def verifyInstallationMode_def)
    have run: "bindG (reconcileClusterRole e hook c cr name rules) (expecting b) =
        (if ?allowed \<and> bSpec_AggregatedClusterRoles (spec cr)
         then bindG (applyClusterRole c cr name ?allowed ?configured) (expecting b)
         else if auxiliaryClusterRole name
         then thenG (deleteClusterRole c (\<lambda>_. ErrorText (''failed to delete aggregated ClusterRoles: '' @ uniqueName name cr)) ?k)
                (expecting b False)
         else bindG (liftE (hook ?expected)) (\<lambda>d. bindG (applyClusterRole c cr name ?allowed d) (expecting b)))"
      by (simp add: reconcileClusterRole_def plainMode Let_def bindG_push)
    show ?thesis
      unfolding run
    proof (intro triple_if)
      assume agg: "?allowed \<and> bSpec_AggregatedClusterRoles (spec cr)"
      show "triple view F ?k (\<lambda>_. True) ?P (bindG (applyClusterRole c cr name ?allowed ?configured) (expecting b))"
        by (rule triple_applyClusterRole)
          (use agg False in \<open>auto simp: clusterRoleMeant_def Let_def roleTarget_def clusterRoleWith_def dest: aggregated_target\<close>)
    next
      assume "\<not> (?allowed \<and> bSpec_AggregatedClusterRoles (spec cr))" and "auxiliaryClusterRole name"
      then show "triple view F ?k (\<lambda>_. True) ?P
          (thenG (deleteClusterRole c (\<lambda>_. ErrorText (''failed to delete aggregated ClusterRoles: '' @ uniqueName name cr)) ?k)
             (expecting b False))"
        using False by (intro drop) (auto simp: clusterRoleMeant_def Let_def)
    next
      assume plain: "\<not> (?allowed \<and> bSpec_AggregatedClusterRoles (spec cr))" "\<not> auxiliaryClusterRole name"
      show "triple view F ?k (\<lambda>_. True) ?P
          (bindG (liftE (hook ?expected)) (\<lambda>d. bindG (applyClusterRole c cr name ?allowed d) (expecting b)))"
      proof (rule triple_liftE)
        fix d assume d: "hook ?expected = Inr d"
        show "triple view F ?k (\<lambda>_. True) ?P (bindG (applyClusterRole c cr name ?allowed d) (expecting b))"
          by (rule triple_applyClusterRole[OF hook[OF d]])
            (use plain False d in \<open>auto simp: clusterRoleMeant_def Let_def roleTarget_def split: if_splits\<close>)
      qed
    qed
  qed
qed

lemma reconcileClusterRole_run:
  assumes "keepsClusterName hook" and "reconcileClusterRole e hook c cr name rules w = (r, w')"
  shows "same_outside view {clusterRoleKey name cr} w w'"
    and "r = Ok b \<Longrightarrow> clusterRoleMeant e hook cr name rules b (view w' (clusterRoleKey name cr))"
proof -
  from triple_fp[OF triple_reconcileClusterRole[OF assms(1), where F = "{}"]]
  show "same_outside view {clusterRoleKey name cr} w w'" by (rule act_rel_bind) (use assms(2) in simp_all)
  assume "r = Ok b"
  with assms(2) show "clusterRoleMeant e hook cr name rules b (view w' (clusterRoleKey name cr))"
    by (intro triple_result[OF triple_reconcileClusterRole[OF assms(1), where F = "{}"]]) auto
qed

end

section \<open>The binding of a ClusterRole\<close>

definition clusterBinds :: "env \<Rightarrow> string \<Rightarrow> ArgoCD_beta \<Rightarrow> obj option \<Rightarrow> bool" where
  "clusterBinds e name cr v \<longleftrightarrow> (\<exists>b. v = Some (OClusterRoleBinding b) \<and>
     rbRoleRef b = refersTo ''ClusterRole'' (uniqueName name cr) \<and>
     rbSubjects b = Some [serviceAccountSubject (nameWithSuffix e name cr) (crNamespace cr)])"

definition foreignBinding :: "ArgoCD_beta \<Rightarrow> obj option \<Rightarrow> bool" where
  "foreignBinding cr v \<longleftrightarrow> (\<exists>b. v = Some (OClusterRoleBinding b) \<and> \<not> CheckOwnership (rbMeta b) cr)"

text \<open>The binding after a pass that found it as \<open>old\<close>. If both modes are asked for it is left as it is: the code logs that
  and returns.\<close>

definition clusterBindingMeant :: "env \<Rightarrow> string \<Rightarrow> ArgoCD_beta \<Rightarrow> bool \<Rightarrow> obj option \<Rightarrow> obj option \<Rightarrow> bool" where
  "clusterBindingMeant e name cr hasRole old v \<longleftrightarrow>
     (if auxiliaryClusterRole name \<or> verifyInstallationMode cr True \<noteq> Inr () then v = old
      else if bSpec_DefaultClusterScopedRoleDisabled (spec cr) then gone v
      else if hasRole then clusterBinds e name cr v
      else gone v \<or> foreignBinding cr v)"

context reliable_client
begin

text \<open>Where reads do not fail, the look-up has no other error than that there is no such object.\<close>

lemma getAs_reliable:
  assumes "\<not> refreshable (fst k)" and "getAs c cast k w = (Err err, w')"
  shows "IsNotFound err"
proof -
  obtain w1 where "getO c k w = ((case view w k of None \<Rightarrow> Err (ApiErr NotFound) | Some x \<Rightarrow> Ok x), w1)"
    using getO_reliable[OF assms(1)] by blast
  with assms(2) show ?thesis
    by (auto simp: getAs_def bindG_def handle_def panic_def ret_def split: option.splits)
qed

lemma triple_reliable:
  assumes "\<not> refreshable (fst k)" and "\<And>err. triple view F k (\<lambda>v. v = None) P (h err)"
    and "\<And>a x. cast x = Some a \<Longrightarrow> okey x = k \<Longrightarrow> triple view F k (\<lambda>v. v = Some x) P (n a)"
  shows "triple view F k (\<lambda>_. True) P (handle (getAs c cast k) h n)"
proof -
  have "triple view F k (\<lambda>_. True) P (handle (getAs c cast k) (\<lambda>err. if IsNotFound err then h err else fail err) n)"
    by (rule triple_get) (use assms in \<open>auto intro: triple_fail\<close>)
  moreover have "handle (getAs c cast k) (\<lambda>err. if IsNotFound err then h err else fail err) n = handle (getAs c cast k) h n"
    using getAs_reliable[OF assms(1)] by (auto simp: handle_def fun_eq_iff split: prod.split outcome.split)
  ultimately show ?thesis by simp
qed

end

lemma desiredClusterBinding_simps [simp]:
  "rbMeta (desiredClusterBinding e name cr b) = rbMeta b"
  "okey (OClusterRoleBinding (newInstanceClusterRoleBinding name cr)) = clusterBindingKey name cr"
  by (simp_all add: desiredClusterBinding_def okey_def newInstanceClusterRoleBinding_def clusterBindingKey_def)

lemma clusterBinds_desired: "clusterBinds e name cr (Some (OClusterRoleBinding ((desiredClusterBinding e name cr b)\<lparr>rbMeta := m\<rparr>)))"
  by (simp add: clusterBinds_def desiredClusterBinding_def)

lemma clusterBinds_desired': "clusterBinds e name cr (Some (OClusterRoleBinding (desiredClusterBinding e name cr b)))"
  by (simp add: clusterBinds_def desiredClusterBinding_def)

context reliable_client
begin

lemma triple_reconcileClusterRoleBinding:
  assumes one: "\<not> (auxiliaryClusterRole name \<or> verifyInstallationMode cr True \<noteq> Inr ())"
  shows "triple view F (clusterBindingKey name cr) (\<lambda>_. True) (clusterBindingMeant e name cr hasRole old)
     (reconcileClusterRoleBinding e c cr name hasRole)"
proof -
  let ?k = "clusterBindingKey name cr"
  have meant: "clusterBindingMeant e name cr h old v \<longleftrightarrow>
      (if bSpec_DefaultClusterScopedRoleDisabled (spec cr) then gone v
       else if h then clusterBinds e name cr v else gone v \<or> foreignBinding cr v)" for h v
    using one by (simp add: clusterBindingMeant_def)
  let ?owned = "\<lambda>b. if crNamespace cr = metaNamespace (rbMeta b)
             then bindG (mapErr (Formatted ''failed to set ArgoCD CR as owner for roleBinding'') (controlledBy e cr (rbMeta b)))
                    (\<lambda>m. ret (b\<lparr>rbMeta := m\<rparr>))
             else ret b"
  have nr: "\<not> refreshable (fst ?k)" by (simp add: clusterBindingKey_def refreshable_def)
  have wrtr: "triple view F ?k Q (clusterBindingMeant e name cr hasRole old) (bindG (?owned (desiredClusterBinding e name cr b)) wr)"
    if wr: "\<And>b' Q. okey (OClusterRoleBinding b') = ?k \<Longrightarrow> clusterBinds e name cr (Some (OClusterRoleBinding b')) \<Longrightarrow>
        triple view F ?k Q (clusterBinds e name cr) (wr b')"
      and b: "okey (OClusterRoleBinding b) = ?k" and "hasRole" and "\<not> bSpec_DefaultClusterScopedRoleDisabled (spec cr)" for wr b Q
  proof -
    have "triple view F ?k Q (clusterBinds e name cr) (bindG (?owned (desiredClusterBinding e name cr b)) wr)"
      unfolding bindG_if bindG_bindG bindG_simps
    proof (intro triple_if triple_owner wr)
      fix m assume "m = (rbMeta (desiredClusterBinding e name cr b))\<lparr>metaOwners := metaOwners m\<rparr>"
      from owned_meta[OF this] b show "okey (OClusterRoleBinding ((desiredClusterBinding e name cr b)\<lparr>rbMeta := m\<rparr>)) = ?k"
        by (simp add: okey_def)
    qed (use b in \<open>simp_all add: clusterBinds_desired clusterBinds_desired' okey_def\<close>)
    then show ?thesis
      by (rule triple_conseq) (use that in \<open>auto simp: meant\<close>)
  qed
  show ?thesis
    unfolding reconcileClusterRoleBinding_def Let_def
  proof (intro triple_if)
    assume disabled: "bSpec_DefaultClusterScopedRoleDisabled (spec cr)"
    show "triple view F ?k (\<lambda>_. True) (clusterBindingMeant e name cr hasRole old)
      (handle (getAs c as_cluster_role_binding ?k) (\<lambda>_. ret ())
         (\<lambda>_. mapErr (Formatted (''failed to delete existing cluster role binding for the service account associated with '' @ name))
                (deleteO c ?k)))"
    proof (rule triple_reliable[OF nr])
      show "triple view F ?k (\<lambda>v. v = None) (clusterBindingMeant e name cr hasRole old) (ret ())"
        using disabled by (intro triple_ret) (auto simp: meant)
      show "triple view F ?k (\<lambda>v. v = Some x) (clusterBindingMeant e name cr hasRole old)
          (mapErr (Formatted (''failed to delete existing cluster role binding for the service account associated with '' @ name))
             (deleteO c ?k))" for x
        using disabled by (intro triple_mapErr triple_delete) (auto simp: meant)
    qed
  next
    assume enabled: "\<not> bSpec_DefaultClusterScopedRoleDisabled (spec cr)"
    show "triple view F ?k (\<lambda>_. True) (clusterBindingMeant e name cr hasRole old)
      (handle (getAs c as_cluster_role_binding ?k)
         (\<lambda>err. if \<not> IsNotFound err then fail err
            else if \<not> hasRole then ret ()
            else bindG (?owned (desiredClusterBinding e name cr (newInstanceClusterRoleBinding name cr)))
                   (\<lambda>b. createO c (OClusterRoleBinding b)))
         (\<lambda>existing. if \<not> hasRole
            then (if CheckOwnership (rbMeta existing) cr then deleteO c ?k else ret ())
            else bindG (?owned (desiredClusterBinding e name cr existing)) (\<lambda>b. updateO c (OClusterRoleBinding b))))"
    proof (rule triple_reliable[OF nr])
      fix err
      show "triple view F ?k (\<lambda>v. v = None) (clusterBindingMeant e name cr hasRole old)
        (if \<not> IsNotFound err then fail err
            else if \<not> hasRole then ret ()
            else bindG (?owned (desiredClusterBinding e name cr (newInstanceClusterRoleBinding name cr)))
                   (\<lambda>b. createO c (OClusterRoleBinding b)))"
        by (intro triple_if triple_fail triple_ret wrtr triple_create)
          (use enabled in \<open>auto simp: meant\<close>)
    next
      fix existing x
      assume "as_cluster_role_binding x = Some existing" and xk: "okey x = ?k"
      then have x: "x = OClusterRoleBinding existing" by simp
      show "triple view F ?k (\<lambda>v. v = Some x) (clusterBindingMeant e name cr hasRole old)
        (if \<not> hasRole
            then (if CheckOwnership (rbMeta existing) cr then deleteO c ?k else ret ())
            else bindG (?owned (desiredClusterBinding e name cr existing)) (\<lambda>b. updateO c (OClusterRoleBinding b)))"
        by (intro triple_if triple_delete triple_ret wrtr triple_update)
          (use enabled x xk in \<open>auto simp: meant foreignBinding_def\<close>)
    qed
  qed (use one in auto)
qed

lemma reconcileClusterRoleBinding_run:
  assumes "reconcileClusterRoleBinding e c cr name hasRole w = (Ok (), w')"
  shows "clusterBindingMeant e name cr hasRole (view w (clusterBindingKey name cr)) (view w' (clusterBindingKey name cr))"
    and "same_outside view {clusterBindingKey name cr} w w'"
proof -
  let ?both = "auxiliaryClusterRole name \<or> verifyInstallationMode cr True \<noteq> Inr ()"
  have same: "w' = w" if ?both using that assms by (auto simp: reconcileClusterRoleBinding_def Let_def split: if_splits)
  show "clusterBindingMeant e name cr hasRole (view w (clusterBindingKey name cr)) (view w' (clusterBindingKey name cr))"
  proof (cases ?both)
    case True
    then show ?thesis by (simp add: clusterBindingMeant_def same)
  next
    case False
    from tripleD[OF triple_reconcileClusterRoleBinding[OF this, where F = "{}"] assms] show ?thesis by simp
  qed
  show "same_outside view {clusterBindingKey name cr} w w'"
  proof (cases ?both)
    case True
    then show ?thesis by (simp add: same same_outside_eq)
  next
    case False
    from act_relD[OF triple_fp[OF triple_reconcileClusterRoleBinding[OF this, where F = "{}"] subset_refl] assms]
    show ?thesis by simp
  qed
qed

end

context reliable_client
begin

lemma reconcileServiceAccountClusterPermissions_run:
  assumes "keepsClusterName hook" and "act_rel (same_outside view {}) refs" and "\<not> auxiliaryClusterRole name"
    and "reconcileServiceAccountClusterPermissions e f hook refs c cr name rules w = (Ok (), w')"
  shows "accountSettled name cr (view w' (accountOf e name cr))"
    and "\<exists>b. clusterRoleMeant e hook cr name rules b (view w' (clusterRoleKey name cr)) \<and>
      clusterBindingMeant e name cr b (view w (clusterBindingKey name cr)) (view w' (clusterBindingKey name cr))"
    and "same_outside view {accountOf e name cr, clusterRoleKey name cr, clusterBindingKey name cr} w w'"
proof -
  let ?a = "accountOf e name cr" let ?r = "clusterRoleKey name cr" let ?b = "clusterBindingKey name cr"
  from assms(3,4) obtain sa w1 b w2 where sa: "reconcileServiceAccount e f refs c cr name w = (Ok sa, w1)"
    and r: "reconcileClusterRole e hook c cr name rules w1 = (Ok b, w2)"
    and rb: "reconcileClusterRoleBinding e c cr name b w2 = (Ok (), w')"
    by (auto simp: reconcileServiceAccountClusterPermissions_def bindG_Ok_iff)
  note settles = reconcileServiceAccount_settles[OF assms(2) sa]
  from act_relD[OF reconcileServiceAccount_fp[OF assms(2)] sa] have f1: "same_outside view {?a} w w1" .
  note role = reconcileClusterRole_run[OF assms(1) r]
  note binding = reconcileClusterRoleBinding_run[OF rb]
  have f3: "same_outside view {?b} w2 w'" by (rule binding(2))
  have keys: "?a \<noteq> ?r" "?a \<noteq> ?b" "?r \<noteq> ?b" by (simp_all add: accountOf_def clusterRoleKey_def clusterBindingKey_def)
  show "same_outside view {?a, ?r, ?b} w w'" using f1 role(1) f3 by (auto simp: same_outside_def)
  have "view w' ?a = view w1 ?a" using keys same_outsideD[OF role(1), of ?a] same_outsideD[OF f3, of ?a] by simp
  with settles(1) show "accountSettled name cr (view w' ?a)" by simp
  have "view w' ?r = view w2 ?r" using keys same_outsideD[OF f3, of ?r] by simp
  moreover have "view w2 ?b = view w ?b" using keys same_outsideD[OF f1, of ?b] same_outsideD[OF role(1), of ?b] by simp
  ultimately show "\<exists>b. clusterRoleMeant e hook cr name rules b (view w' ?r) \<and>
      clusterBindingMeant e name cr b (view w ?b) (view w' ?b)"
    using role(2)[of b] binding(1) by auto
qed

end

section \<open>The clean-up of an instance\<close>

text \<open>Every object of a kind that carries the label of the instance's name is gone, everything else as it was.\<close>

definition deletedKinds :: "kind set \<Rightarrow> string \<Rightarrow> (key \<Rightarrow> obj option) \<Rightarrow> (key \<Rightarrow> obj option) \<Rightarrow> bool" where
  "deletedKinds kds name v v' \<longleftrightarrow> (\<forall>k.
     if \<exists>x. v k = Some x \<and> fst k \<in> kds \<and> gget (obj_labels x) ArgoCDKeyManagedBy = Some name then gone (v' k) else v' k = v k)"

lemma deletedKinds_trans:
  "deletedKinds A name v v1 \<Longrightarrow> deletedKinds B name v1 v2 \<Longrightarrow> A \<inter> B = {} \<Longrightarrow> deletedKinds (A \<union> B) name v v2"
  unfolding deletedKinds_def
proof (intro allI)
  fix k
  assume a: "\<forall>k. if \<exists>x. v k = Some x \<and> fst k \<in> A \<and> gget (obj_labels x) ArgoCDKeyManagedBy = Some name then gone (v1 k) else v1 k = v k"
    and b: "\<forall>k. if \<exists>x. v1 k = Some x \<and> fst k \<in> B \<and> gget (obj_labels x) ArgoCDKeyManagedBy = Some name then gone (v2 k) else v2 k = v1 k"
    and disjoint: "A \<inter> B = {}"
  show "if \<exists>x. v k = Some x \<and> fst k \<in> A \<union> B \<and> gget (obj_labels x) ArgoCDKeyManagedBy = Some name then gone (v2 k) else v2 k = v k"
  proof (cases "fst k \<in> A")
    case True
    with disjoint b[rule_format, of k] have "v2 k = v1 k" by (auto split: if_splits)
    with True a[rule_format, of k] show ?thesis by simp
  next
    case False
    with a[rule_format, of k] have "v1 k = v k" by (simp split: if_splits)
    with False b[rule_format, of k] show ?thesis by simp
  qed
qed

context k8s_client
begin

lemma deleteAll_Ok:
  assumes "forG (\<lambda>x. mapErr g (deleteO c (okey x))) xs w = (Ok (), w')"
  shows "\<forall>k. if k \<in> okey ` set xs then gone (view w' k) else view w' k = view w k"
  using assms
proof (induction xs arbitrary: w)
  case (Cons x xs)
  then obtain w1 where d: "deleteO c (okey x) w = (Ok (), w1)" and r: "forG (\<lambda>x. mapErr g (deleteO c (okey x))) xs w1 = (Ok (), w')"
    by (auto simp: ok_iff)
  from deleteO_Ok[OF d] obtain v where "view w1 = (view w)(okey x := v)" "gone v" .
  with Cons.IH[OF r] show ?case by (auto split: if_splits)
qed simp

lemma deleteListed_Ok:
  assumes "deleteListed c kd what one name w = (Ok (), w')" and "\<not> refreshable kd"
  shows "deletedKinds {kd} name (view w) (view w')"
proof -
  let ?del = "\<lambda>x. mapErr (Wrapped (''failed to delete '' @ one @ '' during cleanup'')) (deleteO c (okey x))"
  from assms(1) obtain ys w1 where ys: "listManagedBy c kd name w = (Ok ys, w1)" and fy: "forG ?del ys w1 = (Ok (), w')"
    unfolding deleteListed_def bindG_Ok_iff mapErr_Ok_iff by blast
  from ys obtain xs where l: "cList c w kd = (Inr xs, w1)"
    and yx: "ys = filter (\<lambda>x. gget (obj_labels x) ArgoCDKeyManagedBy = Some name) xs"
    by (auto simp: listManagedBy_def bindG_Ok_iff listO_def ret_def split: prod.splits sum.splits)
  note d = fy[unfolded yx]
  note v = list_view[OF l] and found = list_found[OF l assms(2)]
  have keys: "k \<in> okey ` set (filter (\<lambda>x. gget (obj_labels x) ArgoCDKeyManagedBy = Some name) xs) \<longleftrightarrow>
      (\<exists>x. view w k = Some x \<and> fst k \<in> {kd} \<and> gget (obj_labels x) ArgoCDKeyManagedBy = Some name)" for k
  proof
    assume "k \<in> okey ` set (filter (\<lambda>x. gget (obj_labels x) ArgoCDKeyManagedBy = Some name) xs)"
    then obtain x where x: "k = okey x" "x \<in> set xs" "gget (obj_labels x) ArgoCDKeyManagedBy = Some name" by auto
    from x(2) found have "obj_kind x = kd" "view w (okey x) = Some x" by simp_all
    with x have "view w k = Some x" "fst k = kd" by (simp_all add: okey_def)
    with x(3) show "\<exists>x. view w k = Some x \<and> fst k \<in> {kd} \<and> gget (obj_labels x) ArgoCDKeyManagedBy = Some name" by blast
  next
    assume "\<exists>x. view w k = Some x \<and> fst k \<in> {kd} \<and> gget (obj_labels x) ArgoCDKeyManagedBy = Some name"
    then obtain x where x: "view w k = Some x" "fst k = kd" "gget (obj_labels x) ArgoCDKeyManagedBy = Some name" by auto
    from view_key[OF x(1)] have k: "k = okey x" by simp
    with x(2) have "obj_kind x = kd" by (simp add: okey_def)
    with x k found have "x \<in> set xs" by simp
    with k x(3) show "k \<in> okey ` set (filter (\<lambda>x. gget (obj_labels x) ArgoCDKeyManagedBy = Some name) xs)" by simp
  qed
  show ?thesis
    unfolding deletedKinds_def using deleteAll_Ok[OF d] unfolding keys v .
qed

lemma deleteClusterResources_Ok:
  assumes "deleteClusterResources requirement promoter c cr w = (Ok (), w')" and "act_rel (same_outside view S) promoter"
  shows "\<exists>v. deletedKinds {KClusterRole, KClusterRoleBinding, KRoleBinding} (crName cr) (view w) v \<and> (\<forall>k. k \<notin> S \<longrightarrow> view w' k = v k)"
proof -
  from assms(1) obtain w1 w2 w3 where a: "deleteListed c KClusterRole ''ClusterRoles'' ''ClusterRole'' (crName cr) w = (Ok (), w1)"
    and b: "deleteListed c KClusterRoleBinding ''ClusterRoleBindings'' ''ClusterRoleBinding'' (crName cr) w1 = (Ok (), w2)"
    and d: "deleteListed c KRoleBinding ''RoleBindings'' ''RoleBinding'' (crName cr) w2 = (Ok (), w3)"
    and p: "promoter w3 = (Ok (), w')"
    unfolding deleteClusterResources_def thenG_Ok_iff liftE_Ok_iff by auto
  have "deletedKinds ({KClusterRole} \<union> {KClusterRoleBinding}) (crName cr) (view w) (view w2)"
    by (rule deletedKinds_trans[OF deleteListed_Ok[OF a] deleteListed_Ok[OF b]]) (simp_all add: refreshable_def)
  from deletedKinds_trans[OF this deleteListed_Ok[OF d]]
  have "deletedKinds {KClusterRole, KClusterRoleBinding, KRoleBinding} (crName cr) (view w) (view w3)"
    by (simp add: refreshable_def insert_commute)
  moreover from act_relD[OF assms(2) p] have "\<forall>k. k \<notin> S \<longrightarrow> view w' k = view w3 k" by (simp add: same_outside_def)
  ultimately show ?thesis by blast
qed

end

section \<open>Source namespaces that are given up\<close>

text \<open>What happens to the source namespaces of an instance: one it no longer counts as its own has neither the
  Role nor the RoleBinding any more (unless the namespace itself was not there), and neither comes back.\<close>

definition sourceCleaned :: "(key \<Rightarrow> obj option) \<Rightarrow> env \<Rightarrow> ArgoCD_beta \<Rightarrow> string \<Rightarrow> bool" where
  "sourceCleaned v e cr ns \<longleftrightarrow> gone (v (sourceRoleKey ns cr)) \<and> gone (v (sourceBindingKey e ns cr))"

definition givesUp ::
  "('w \<Rightarrow> key \<Rightarrow> obj option) \<Rightarrow> env \<Rightarrow> ArgoCD_beta \<Rightarrow> 'w source_world \<Rightarrow> 'w source_world \<Rightarrow> bool" where
  "givesUp view e cr s s' \<longleftrightarrow> set (swManaged s') \<subseteq> set (swManaged s) \<and>
     (\<forall>ns \<in> set (swManaged s) - set (swManaged s').
        view (swWorld s) (KNamespace, '''', ns) = None \<or> sourceCleaned (view (swWorld s')) e cr ns) \<and>
     (\<forall>k. fst k \<in> {KRole, KRoleBinding} \<longrightarrow> gone (view (swWorld s) k) \<longrightarrow> gone (view (swWorld s') k)) \<and>
     (\<forall>ns. view (swWorld s) (KNamespace, '''', ns) \<noteq> None \<longrightarrow> view (swWorld s') (KNamespace, '''', ns) \<noteq> None)"

text \<open>The part of it that concerns the cluster.\<close>

definition onlyDeletes :: "('w \<Rightarrow> key \<Rightarrow> obj option) \<Rightarrow> 'w \<Rightarrow> 'w \<Rightarrow> bool" where
  "onlyDeletes view w w' \<longleftrightarrow>
     (\<forall>k. fst k \<in> {KRole, KRoleBinding} \<longrightarrow> gone (view w k) \<longrightarrow> gone (view w' k)) \<and>
     (\<forall>ns. view w (KNamespace, '''', ns) \<noteq> None \<longrightarrow> view w' (KNamespace, '''', ns) \<noteq> None)"

interpretation od: world_relation "onlyDeletes view" for view
  by unfold_locales (auto simp: onlyDeletes_def)

lemma source_kinds [simp]: "fst (sourceRoleKey ns cr) = KRole" "fst (sourceBindingKey e ns cr) = KRoleBinding"
  by (simp_all add: sourceRoleKey_def sourceBindingKey_def)

interpretation gu: world_relation "givesUp view e cr" for view e cr
proof
  show "givesUp view e cr s s" for s by (simp add: givesUp_def)
  fix s s' s'' assume a: "givesUp view e cr s s'" and b: "givesUp view e cr s' s''"
  have "view (swWorld s) (KNamespace, '''', ns) = None \<or> sourceCleaned (view (swWorld s'')) e cr ns"
    if "ns \<in> set (swManaged s)" "ns \<notin> set (swManaged s'')" for ns
  proof (cases "ns \<in> set (swManaged s')")
    case True
    with that a b show ?thesis unfolding givesUp_def by blast
  next
    case False
    with that a have "view (swWorld s) (KNamespace, '''', ns) = None \<or> sourceCleaned (view (swWorld s')) e cr ns"
      unfolding givesUp_def by blast
    moreover from b have kept: "\<forall>k. fst k \<in> {KRole, KRoleBinding} \<longrightarrow> gone (view (swWorld s') k) \<longrightarrow> gone (view (swWorld s'') k)"
      unfolding givesUp_def by blast
    from kept[rule_format, of "sourceRoleKey ns cr"] kept[rule_format, of "sourceBindingKey e ns cr"]
    have "sourceCleaned (view (swWorld s')) e cr ns \<Longrightarrow> sourceCleaned (view (swWorld s'')) e cr ns"
      by (simp add: sourceCleaned_def)
    ultimately show ?thesis by blast
  qed
  with a b show "givesUp view e cr s s''" unfolding givesUp_def by blast
qed

lemma onSW_gives_up: "act_rel (onlyDeletes view) m \<Longrightarrow> act_rel (givesUp view e cr) (onSW m)"
  unfolding act_rel_def onSW_def givesUp_def onlyDeletes_def
  by (auto split: prod.splits dest: spec) (metis snd_conv)+

lemma pure_only_deletes: "act_rel (same_outside view {}) m \<Longrightarrow> act_rel (onlyDeletes view) m"
  by (auto simp: act_rel_def same_outside_def onlyDeletes_def)

context k8s_client
begin

lemma listO_only_deletes: "act_rel (onlyDeletes view) (listO c kd)"
  by (auto simp: act_rel_def onlyDeletes_def listO_def dest: list_view split: prod.split sum.split)

lemma getAs_only_deletes: "\<not> refreshable (fst k) \<Longrightarrow> act_rel (onlyDeletes view) (getAs c cast k)"
  by (rule pure_only_deletes, rule getAs_fp) simp

lemma deleteO_only_deletes: "fst k \<in> {KRole, KRoleBinding} \<Longrightarrow> act_rel (onlyDeletes view) (deleteO c k)"
  unfolding act_rel_def
proof
  fix w assume k: "fst k \<in> {KRole, KRoleBinding}"
  obtain r w' where d: "cDelete c w k = (r, w')" by force
  have "\<exists>v. view w' = (view w)(k := v) \<and> (v = view w k \<or> gone v)"
    using delete_ok[of w k w'] delete_err[of w k _ w'] d by (cases r) auto
  with k show "onlyDeletes view w (snd (deleteO c k w))"
    by (auto simp: onlyDeletes_def deleteO_def write_result_snd d)
qed

lemma updateNamespace_only_deletes: "act_rel (onlyDeletes view) (updateO c (ONamespace n))"
  unfolding act_rel_def
proof
  fix w
  from updateO_cases[of "ONamespace n" w] obtain v where
    "view (snd (updateO c (ONamespace n) w)) = (view w)(okey (ONamespace n) := v)" and "v = view w (okey (ONamespace n)) \<or> v \<noteq> None"
    by blast
  then show "onlyDeletes view w (snd (updateO c (ONamespace n) w))"
    by (auto simp: onlyDeletes_def okey_def)
qed

lemma source_refreshable [simp]:
  "\<not> refreshable (fst (sourceRoleKey ns cr))" "\<not> refreshable (fst (sourceBindingKey e ns cr))"
  by (simp_all add: refreshable_def)

lemma deleteFound_Ok:
  assumes "deleteFound c cast msg k w = (Ok (), w')" and "\<not> refreshable (fst k)" and "snd (snd k) \<noteq> ''''"
  shows "gone (view w' k)"
proof -
  from assms(1) consider (err) err w1 where "getAs c cast k w = (Err err, w1)" "(if IsNotFound err then ret () else fail (Formatted msg err)) w1 = (Ok (), w')"
    | (ok) a w1 where "deleteO c k w1 = (Ok (), w')"
    unfolding deleteFound_def handle_Ok_iff using assms(3) by auto
  then show ?thesis
  proof cases
    case err
    then have "IsNotFound err" "w' = w1" by (auto simp: ret_def split: if_splits)
    with getAs_NotFound[OF err(1)] show ?thesis by simp
  qed (auto elim: deleteO_Ok)
qed

lemma deleteFound_only_deletes:
  "fst k \<in> {KRole, KRoleBinding} \<Longrightarrow> act_rel (onlyDeletes view) (deleteFound c cast msg k)"
  unfolding deleteFound_def
  by (intro od.rel_handle od.rel_if od.rel_ret od.rel_fail getAs_only_deletes deleteO_only_deletes) (auto simp: refreshable_def)

lemma cleanup_only_deletes: "act_rel (onlyDeletes view) (cleanupUnmanagedSourceNamespaceResources e c cr ns)"
  unfolding cleanupUnmanagedSourceNamespaceResources_def
  by (intro od.rel_handle od.rel_if od.rel_ret od.rel_fail od.rel_thenG od.rel_logged getAs_only_deletes
      updateNamespace_only_deletes deleteFound_only_deletes) (auto simp: refreshable_def)

lemma cleanup_Ok:
  assumes "cleanupUnmanagedSourceNamespaceResources e c cr ns w = (Ok (), w')"
  shows "view w (KNamespace, '''', ns) = None \<or> sourceCleaned (view w') e cr ns"
proof -
  have names: "snd (snd (sourceRoleKey n cr)) \<noteq> ''''" "snd (snd (sourceBindingKey e n cr)) \<noteq> ''''" for n
    by (auto simp: sourceRoleKey_def sourceBindingKey_def getRoleNameForApplicationSourceNamespaces_def
        getRoleBindingNameForSourceNamespaces_def TruncateWithHash_def Let_def hashLabelLength_def)
  from assms consider (err) err w1 where "getAs c as_namespace (KNamespace, '''', ns) w = (Err err, w1)" "IsNotFound err"
    | (ok) n w1 w2 w3 where "getAs c as_namespace (KNamespace, '''', ns) w = (Ok n, w1)"
        "deleteFound c as_role ''failed to fetch the role for the service account associated with argocd-server''
           (sourceRoleKey (namespaceName n) cr) w2 = (Ok (), w3)"
        "deleteFound c as_role_binding ''failed to get the rolebinding associated with argocd-server''
           (sourceBindingKey e (namespaceName n) cr) w3 = (Ok (), w')"
    unfolding cleanupUnmanagedSourceNamespaceResources_def handle_Ok_iff thenG_Ok_iff
    by (auto simp: fail_def split: if_splits)
  then show ?thesis
  proof cases
    case err
    then show ?thesis using getAs_NotFound(1) by blast
  next
    case ok
    from getAs_key[OF ok(1)] have n: "namespaceName n = ns" by (auto simp: okey_def namespaceName_def elim!: as_namespace.elims)
    from deleteFound_Ok[OF ok(2)] names have r: "gone (view w3 (sourceRoleKey ns cr))" by (simp add: n refreshable_def)
    from deleteFound_Ok[OF ok(3)] names have b: "gone (view w' (sourceBindingKey e ns cr))" by (simp add: n refreshable_def)
    have "onlyDeletes view w3 w'"
      by (rule act_relD[OF deleteFound_only_deletes ok(3)]) simp
    with r have "gone (view w' (sourceRoleKey ns cr))"
      unfolding onlyDeletes_def using source_kinds(1)[of ns cr] by blast
    with b show ?thesis by (simp add: sourceCleaned_def)
  qed
qed

lemma dropSource_gives_up: "act_rel (givesUp view e cr) (dropSource e c cr ns)"
  unfolding act_rel_def
proof
  fix s :: "'w source_world"
  obtain r w' where run: "cleanupUnmanagedSourceNamespaceResources e c cr ns (swWorld s) = (r, w')" by force
  from act_relD[OF cleanup_only_deletes run] have od: "onlyDeletes view (swWorld s) w'" .
  show "givesUp view e cr s (snd (dropSource e c cr ns s))"
  proof (cases r)
    case (Ok u)
    with cleanup_Ok[of e cr ns "swWorld s" w'] run have "view (swWorld s) (KNamespace, '''', ns) = None \<or> sourceCleaned (view w') e cr ns"
      by simp
    with od show ?thesis
      by (auto simp: dropSource_def handle_def onSW_def run Ok forgetSource_def givesUp_def onlyDeletes_def)
  qed (use od in \<open>auto simp: dropSource_def handle_def onSW_def run ret_def givesUp_def onlyDeletes_def\<close>)
qed

lemma getSourceNamespaces_gives_up: "act_rel (givesUp view e cr) (getSourceNamespaces e match order c cr)"
  unfolding getSourceNamespaces_def ensureSourceNamespacesAllowed_def cleanupAllSourceNamespaces_def listNamespaceNames_def
  by (intro gu.rel_thenG gu.rel_bindG gu.rel_if gu.rel_ret gu.rel_forG dropSource_gives_up onSW_gives_up
      od.rel_bindG od.rel_ret listO_only_deletes) (auto simp: act_rel_def readManaged_def gu.R_refl)

lemma removeUnmanagedFrom_gives_up: "act_rel (givesUp view e cr) (removeUnmanagedFrom e match order c cr nss)"
proof (induction nss)
  case (Cons ns nss)
  have "act_rel (givesUp view e cr) readManaged" by (simp add: act_rel_def readManaged_def gu.R_refl)
  with Cons show ?case
    by (simp only: removeUnmanagedFrom.simps)
      (intro gu.rel_bindG gu.rel_if gu.rel_thenG gu.rel_ret dropSource_gives_up getSourceNamespaces_gives_up)
qed (simp only: removeUnmanagedFrom.simps gu.rel_ret)

lemma removeUnmanaged_gives_up: "act_rel (givesUp view e cr) (removeUnmanagedSourceNamespaceResources e match order c cr)"
  unfolding removeUnmanagedSourceNamespaceResources_def
  by (intro gu.rel_bindG removeUnmanagedFrom_gives_up) (simp add: act_rel_def readManaged_def gu.R_refl)

end

section \<open>Source namespaces of another instance\<close>

definition foreignSource :: "(key \<Rightarrow> obj option) \<Rightarrow> ArgoCD_beta \<Rightarrow> string \<Rightarrow> bool" where
  "foreignSource v cr ns \<longleftrightarrow> (\<exists>n. v (KNamespace, '''', ns) = Some (ONamespace n) \<and>
     nsLabel n ArgoCDManagedByClusterArgoCDLabel \<notin> {None, Some (crNamespace cr)})"

definition ofNamespace :: "string \<Rightarrow> key set" where
  "ofNamespace ns = {k. k = (KNamespace, '''', ns) \<or> fst k \<noteq> KNamespace \<and> fst (snd k) = ns}"

definition sparesForeign :: "('w \<Rightarrow> key \<Rightarrow> obj option) \<Rightarrow> ArgoCD_beta \<Rightarrow> 'w source_world \<Rightarrow> 'w source_world \<Rightarrow> bool" where
  "sparesForeign view cr s s' \<longleftrightarrow> (\<forall>ns. foreignSource (view (swWorld s)) cr ns \<longrightarrow>
     (\<forall>k \<in> ofNamespace ns. view (swWorld s') k = view (swWorld s) k))"

lemma sparesForeign_keeps:
  "sparesForeign view cr s s' \<Longrightarrow> foreignSource (view (swWorld s)) cr ns \<Longrightarrow> foreignSource (view (swWorld s')) cr ns"
  unfolding sparesForeign_def foreignSource_def ofNamespace_def by auto

interpretation sf: world_relation "sparesForeign view cr" for view cr
proof
  show "sparesForeign view cr s s" for s by (simp add: sparesForeign_def)
  show "sparesForeign view cr s s''" if "sparesForeign view cr s s'" "sparesForeign view cr s' s''" for s s' s''
    using that sparesForeign_keeps[OF that(1)] unfolding sparesForeign_def by metis
qed

lemma ofNamespace_disjoint: "ns \<noteq> ns' \<Longrightarrow> ofNamespace ns \<inter> ofNamespace ns' = {}"
  by (auto simp: ofNamespace_def)

text \<open>Whoever stays in one namespace that is not another instance's spares the others.\<close>

lemma inside_spares:
  assumes "same_outside view (ofNamespace ns) (swWorld s) (swWorld s')" and "\<not> foreignSource (view (swWorld s)) cr ns"
  shows "sparesForeign view cr s s'"
  unfolding sparesForeign_def
proof (intro allI impI ballI)
  fix ns' k assume f: "foreignSource (view (swWorld s)) cr ns'" and "k \<in> ofNamespace ns'"
  with assms(2) ofNamespace_disjoint[of ns ns'] have "k \<notin> ofNamespace ns" by auto
  with assms(1) show "view (swWorld s') k = view (swWorld s) k" by (rule same_outsideD)
qed

context k8s_client
begin

lemma namespace_found:
  assumes "getAs c as_namespace (KNamespace, '''', ns) w = (Ok n, w')"
  shows "view w (KNamespace, '''', ns) = Some (ONamespace n)" and "view w' = view w" and "namespaceName n = ns"
    and "okey (ONamespace (withNsLabels g n)) = (KNamespace, '''', ns)"
proof -
  have "\<not> refreshable (fst (KNamespace, '''', ns))" by (simp add: refreshable_def)
  from getAs_Ok[OF assms this] obtain x where x: "view w (KNamespace, '''', ns) = Some x" "as_namespace x = Some n" "view w' = view w" .
  then have n: "x = ONamespace n" by (auto elim!: as_namespace.elims)
  with x show "view w (KNamespace, '''', ns) = Some (ONamespace n)" and "view w' = view w" by simp_all
  from view_key[OF x(1)] n show "namespaceName n = ns" "okey (ONamespace (withNsLabels g n)) = (KNamespace, '''', ns)"
    by (auto simp: okey_def namespaceName_def withNsLabels_def)
qed

lemma ofNamespace_simps [simp]:
  "(KNamespace, '''', ns) \<in> ofNamespace ns" "sourceRoleKey ns cr \<in> ofNamespace ns" "sourceBindingKey e ns cr \<in> ofNamespace ns"
  by (simp_all add: ofNamespace_def sourceRoleKey_def sourceBindingKey_def)

lemma deleteFound_fp: "k \<in> S \<Longrightarrow> act_rel (same_outside view S) (deleteFound c cast msg k)"
  unfolding deleteFound_def by (intro fp.rel_handle fp.rel_if fp.rel_ret fp.rel_fail getAs_fp deleteO_fp) auto

lemma cleanup_fp: "act_rel (same_outside view (ofNamespace ns)) (cleanupUnmanagedSourceNamespaceResources e c cr ns)"
  unfolding cleanupUnmanagedSourceNamespaceResources_def
proof (intro fp.rel_handle fp.rel_if fp.rel_ret fp.rel_fail getAs_fp)
  fix n w w1 assume g: "getAs c as_namespace (KNamespace, '''', ns) w = (Ok n, w1)"
  show "act_rel (same_outside view (ofNamespace ns))
      (thenG (logged (updateO c (ONamespace (withNsLabels (\<lambda>m. gdelete m ArgoCDManagedByClusterArgoCDLabel) n))))
         (thenG (deleteFound c as_role ''failed to fetch the role for the service account associated with argocd-server''
             (sourceRoleKey (namespaceName n) cr))
           (deleteFound c as_role_binding ''failed to get the rolebinding associated with argocd-server''
             (sourceBindingKey e (namespaceName n) cr))))"
    unfolding namespace_found(3)[OF g]
    by (intro fp.rel_thenG fp.rel_logged updateO_fp deleteFound_fp) (simp_all add: namespace_found(4)[OF g])
qed simp

lemma labelSourceNamespace_fp: "act_rel (same_outside view (ofNamespace ns)) (labelSourceNamespace c cr ns)"
  unfolding labelSourceNamespace_def
proof (intro fp.rel_bindG fp.rel_logged getAs_fp updateO_fp)
  fix n w w1 assume g: "getAs c as_namespace (KNamespace, '''', ns) w = (Ok n, w1)"
  show "okey (ONamespace (withNsLabels (\<lambda>m. gput m ArgoCDManagedByClusterArgoCDLabel (crNamespace cr)) n)) \<in> ofNamespace ns"
    by (simp add: namespace_found(4)[OF g])
qed simp

lemma appsets_fp: "act_rel (same_outside view {}) (getApplicationSetSourceNamespaces match c cr)"
  unfolding getApplicationSetSourceNamespaces_def listNamespaceNames_def
  by (auto intro!: fp.rel_bindG fp.rel_ret split: option.split)
    (auto simp: act_rel_def same_outside_def listO_def dest: list_view split: prod.split sum.split)

lemma sourceRole_ns:
  assumes "sourceRole hook match c cr ns rules w = (Ok r, w')"
  shows "metaNamespace (roleMeta r) = ns"
  using assms by (auto simp: sourceRole_def ok_iff ret_def inNamespace_def split: if_splits)

lemma roleInSourceNamespace_fp: "act_rel (same_outside view (ofNamespace ns)) (roleInSourceNamespace e hook match c cr name rules ns)"
proof -
  have source: "act_rel (same_outside view (ofNamespace ns)) (sourceRole hook match c cr ns rules)"
    unfolding sourceRole_def
    by (intro fp.rel_bindG fp.rel_liftE fp.rel_handle fp.rel_ret fp_mono[OF appsets_fp]) simp
  have key: "roleKeyOf r \<in> ofNamespace ns" if "metaNamespace (roleMeta r) = ns" for r
    using that by (simp add: roleKeyOf_def okey_def ofNamespace_def)
  show ?thesis
    unfolding roleInSourceNamespace_def
  proof (rule fp.rel_bindG[OF source])
    fix r w w1 assume "sourceRole hook match c cr ns rules w = (Ok r, w1)"
    note k = key[OF sourceRole_ns[OF this]]
    have found: "okey (ORole (existing\<lparr>roleRules := x\<rparr>)) \<in> ofNamespace ns"
      if "getAs c as_role (roleKeyOf r) w2 = (Ok existing, w3)" for existing x w2 w3
      using getAs_key[OF that] k by (auto simp: okey_def)
    show "act_rel (same_outside view (ofNamespace ns)) (handle (getAs c as_role (roleKeyOf r))
       (\<lambda>err. if \<not> IsNotFound err
          then fail (Formatted (''failed to reconcile the role for the service account associated with '' @ name) err)
          else thenG (createO c (ORole r)) (labelSourceNamespace c cr ns))
       (\<lambda>existing. thenG (labelSourceNamespace c cr ns)
          (if roleRules existing \<noteq> roleRules r then updateO c (ORole (existing\<lparr>roleRules := roleRules r\<rparr>)) else ret ())))"
      by (intro fp.rel_handle fp.rel_if fp.rel_thenG fp.rel_ret fp.rel_fail getAs_fp createO_fp updateO_fp labelSourceNamespace_fp found)
        (use k in \<open>auto simp: roleKeyOf_def\<close>)
  qed
qed

end

definition insideOnly :: "('w \<Rightarrow> key \<Rightarrow> obj option) \<Rightarrow> key set \<Rightarrow> 'w source_world \<Rightarrow> 'w source_world \<Rightarrow> bool" where
  "insideOnly view S s s' \<longleftrightarrow> same_outside view S (swWorld s) (swWorld s')"

interpretation io: world_relation "insideOnly view S" for view S
  by unfold_locales (simp_all add: insideOnly_def same_outside_def)

lemma onSW_inside: "act_rel (same_outside view S) m \<Longrightarrow> act_rel (insideOnly view S) (onSW m)"
  by (auto simp: act_rel_def onSW_def insideOnly_def split: prod.split) (metis snd_conv)

context k8s_client
begin

lemma onSW_run: "onSW m s = (r, s') \<Longrightarrow> \<exists>w'. m (swWorld s) = (r, w') \<and> s' = s\<lparr>swWorld := w'\<rparr>"
  by (auto simp: onSW_def split: prod.splits)

lemma onSW_pure_spares:
  fixes m :: "('w, 'a) act"
  assumes "act_rel (same_outside view {}) m"
  shows "act_rel (sparesForeign view cr) (onSW m)"
  unfolding act_rel_def
proof
  fix s :: "'w source_world"
  obtain r w' where m: "m (swWorld s) = (r, w')" by force
  from fp_empty_view[OF assms m] show "sparesForeign view cr s (snd (onSW m s))"
    by (simp add: onSW_def m sparesForeign_def)
qed

lemma sameWorld_spares:
  fixes s s' :: "'w source_world"
  shows "swWorld s' = swWorld s \<Longrightarrow> sparesForeign view cr s s'"
  by (simp add: sparesForeign_def)

lemma getSourceNamespaces_spares:
  assumes "IsNamespaceClusterConfigNamespace e (crNamespace cr)"
  shows "act_rel (sparesForeign view cr) (getSourceNamespaces e match order c cr)"
proof -
  have "act_rel (same_outside view {}) (listNamespaceNames c)"
    unfolding listNamespaceNames_def
    by (intro fp.rel_bindG fp.rel_ret)
      (auto simp: act_rel_def same_outside_def listO_def dest: list_view split: prod.split sum.split)
  with assms show ?thesis
    unfolding getSourceNamespaces_def ensureSourceNamespacesAllowed_def
    by (auto intro!: sf.rel_thenG sf.rel_bindG sf.rel_ret onSW_pure_spares)
qed

text \<open>One turn of the loop over the source namespaces.\<close>

lemma sourceTurn_spares:
  fixes s s' :: "'w source_world"
  assumes "bindG (onSW (getAs c as_namespace (KNamespace, '''', ns))) (\<lambda>n.
      if metaDeleting (nsMeta n) then ret ()
      else if nsLabel n ArgoCDManagedByLabel \<notin> {None, Some ''''}
      then (if nsLabel n ArgoCDManagedByClusterArgoCDLabel = Some (crNamespace cr)
            then thenG (forgetSource (namespaceName n))
                   (logged (onSW (cleanupUnmanagedSourceNamespaceResources e c cr (namespaceName n))))
            else ret ())
      else if nsLabel n ArgoCDManagedByClusterArgoCDLabel \<notin> {None, Some (crNamespace cr)} then ret ()
      else thenG (onSW (roleInSourceNamespace e hook amatch c cr name rules (namespaceName n))) (rememberSource ns)) s = (r, s')"
    (is "bindG _ ?body s = _")
  shows "sparesForeign view cr s s'"
proof -
  obtain g s1 where g: "onSW (getAs c as_namespace (KNamespace, '''', ns)) s = (g, s1)" by force
  from onSW_run[OF g] obtain w1 where gw: "getAs c as_namespace (KNamespace, '''', ns) (swWorld s) = (g, w1)"
    and s1: "s1 = s\<lparr>swWorld := w1\<rparr>" by blast
  have "view w1 = view (swWorld s)"
    by (rule fp_empty_view[OF getAs_fp gw]) (simp add: refreshable_def)
  then have pure: "sparesForeign view cr s s1" by (simp add: s1 sparesForeign_def)
  show ?thesis
  proof (cases g)
    case (Ok n)
    note ns = namespace_found[OF gw[unfolded Ok]]
    from assms g Ok have body: "?body n s1 = (r, s')" by (simp add: bindG_apply)
    have inside: "sparesForeign view cr s1 s'" if "same_outside view (ofNamespace ns) (swWorld s1) (swWorld s')"
      "nsLabel n ArgoCDManagedByClusterArgoCDLabel \<in> {None, Some (crNamespace cr)}"
      by (rule inside_spares[OF that(1)]) (use that(2) ns(1,2) s1 in \<open>auto simp: foreignSource_def\<close>)
    show ?thesis
    proof (cases "nsLabel n ArgoCDManagedByClusterArgoCDLabel \<in> {None, Some (crNamespace cr)}")
      case True
      have "act_rel (insideOnly view (ofNamespace ns)) (?body n)"
        unfolding ns(3)
        by (intro io.rel_if io.rel_ret io.rel_thenG io.rel_logged onSW_inside cleanup_fp roleInSourceNamespace_fp)
          (simp_all add: act_rel_def insideOnly_def forgetSource_def rememberSource_def same_outside_def)
      from act_relD[OF this body] inside True have "sparesForeign view cr s1 s'" by (simp add: insideOnly_def)
      with pure show ?thesis by (rule sf.R_trans)
    next
      case False
      with body have "s' = s1" by (auto simp: ret_def split: if_splits)
      with pure show ?thesis by simp
    qed
  qed (use assms g pure in \<open>auto simp: bindG_apply\<close>)
qed

lemma act_relI: "(\<And>s r s'. m s = (r, s') \<Longrightarrow> R s s') \<Longrightarrow> act_rel R m"
  by (metis act_rel_def prod.collapse)

lemma reconcileRoleForApplicationSourceNamespaces_spares:
  "act_rel (sparesForeign view cr) (reconcileRoleForApplicationSourceNamespaces e hook match amatch order c cr name rules)"
  unfolding reconcileRoleForApplicationSourceNamespaces_def
proof (rule sf.rel_if[OF sf.rel_ret sf.rel_bindG[OF _ sf.rel_forG[OF act_relI[OF sourceTurn_spares]]]])
  assume "\<not> \<not> IsNamespaceClusterConfigNamespace e (crNamespace cr)"
  then show "act_rel (sparesForeign view cr) (getSourceNamespaces e match order c cr)"
    by (intro getSourceNamespaces_spares) simp
qed

end

end
