(* ===== verification/Instance_Permissions.thy ===== *)
theory Instance_Permissions
  imports Instance_Rbac_Correct
begin

text \<open>
  What the permissions of an instance promise, as theorems about the passes of \<open>role.go\<close>, \<open>rolebinding.go\<close>,
  \<open>service_account.go\<close> and \<open>util.go\<close> over any API server that satisfies the laws of the client, each with a
  run on the API server in memory. The lemmas are in Instance_Rbac_Correct.
\<close>

section \<open>The promises\<close>

text \<open>C17. The permissions of a component hold together. The component is not the server of an instance that may manage
  the whole cluster (its pass goes on to the source namespaces), the managed namespaces are listed once each, and the
  hook keeps the name of a Role. When a pass over its permissions returns without an error, then in each managed
  namespace where it is served: if its account and its Role are wanted, both are there, the Role has the rules the
  hook makes of the component's, and the RoleBinding binds that account to that Role; otherwise a Role that is not
  wanted is gone (or, for a component that is switched off, at worst the one that its finalizers held back), a wanted
  one has the rules, and the binding is gone if the component is off and else refers to the Role or the ClusterRole
  the user named for it. The account is there or, if it is not wanted, gone. Only the account and, in each managed
  namespace, the Role, the binding or (where it is being deleted) the namespace's label are touched.\<close>

theorem component_permissions:
  assumes "verbatim_client c view admit refresh" and "keepsName hook" and "hook (newRole e name rules cr) = Inr r0"
    and "distinct (map namespaceName managed)"
    and "name \<noteq> serverComponent \<or> \<not> IsNamespaceClusterConfigNamespace e (crNamespace cr)"
    and "reconcileRoleBinding e f hook match order (getImagePullSecretRefs e controlled c cr) c managed cr name rules s = (Ok (), s')"
  shows "accountSettled name cr (view (swWorld s') (accountOf e name cr)) \<and>
    (\<forall>ns \<in> set managed. served (view (swWorld s)) name cr ns \<longrightarrow>
       permissionsSettled (view (swWorld s')) e name cr (roleRules r0) (namespaceName ns)) \<and>
    same_outside view (permissionKeys e name cr managed) (swWorld s) (swWorld s')"
proof -
  note vc = assms(1)
  note refs = k8s_client.getImagePullSecretRefs_fp[OF verbatim_client.axioms(1)[OF vc], of e controlled cr]
  from verbatim_client.reconcileRoleBinding_permissions[OF vc assms(2-5) refs assms(6)] show ?thesis by blast
qed

definition sampleTeam :: namespace_obj where
  "sampleTeam = \<lparr>nsMeta = mkMeta ''team'' ''''\<rparr>"

definition sampleApps :: namespace_obj where
  "sampleApps = \<lparr>nsMeta = (mkMeta ''apps'' '''')\<lparr>metaLabels := gmap [(ArgoCDManagedByLabel, ''team'')]\<rparr>\<rparr>"

definition sampleRbacFlags :: argo_flags where
  "sampleRbacFlags = samplePolicyFlags\<lparr>versionFound := True\<rparr>"

definition sampleSource :: "obj list source_world" where
  "sampleSource = \<lparr>swWorld = [ONamespace sampleTeam, ONamespace sampleApps], swManaged = []\<rparr>"

definition sampleRoleRun :: "unit outcome \<times> obj list source_world" where
  "sampleRoleRun = reconcileRoleBinding sampleEnv sampleRbacFlags Inr (\<lambda>_ _. False) id
     (getImagePullSecretRefs sampleEnv (\<lambda>_. False) mem_client samplePolicyCR) mem_client [sampleTeam, sampleApps] samplePolicyCR
     applicationControllerComponent [] sampleSource"

theorem component_permissions_witness:
  "boundTogether (mem_view (swWorld (snd sampleRoleRun))) sampleEnv applicationControllerComponent samplePolicyCR (Some []) ''apps''"
proof -
  have "fst sampleRoleRun = Ok ()" by code_simp
  then have run: "sampleRoleRun = (Ok (), snd sampleRoleRun)" by (rule run_result)
  have wanted: "roleWanted sampleEnv applicationControllerComponent samplePolicyCR" "saWanted applicationControllerComponent samplePolicyCR"
    and names: "applicationControllerComponent \<noteq> serverComponent" "distinct (map namespaceName [sampleTeam, sampleApps])"
      "namespaceName sampleApps = ''apps''"
    by code_simp+
  have served: "served (mem_view (swWorld sampleSource)) applicationControllerComponent samplePolicyCR sampleApps"
    by (simp add: served_def internalComponent_def sampleApps_def mkMeta_def)
  have r0: "roleRules (newRole sampleEnv applicationControllerComponent [] samplePolicyCR) = Some []"
    by (simp add: newRole_def)
  from names served r0 have "permissionsSettled (mem_view (swWorld (snd sampleRoleRun))) sampleEnv applicationControllerComponent samplePolicyCR (Some []) ''apps''"
    using component_permissions[OF mem.verbatim_client_axioms _ refl _ _ run[unfolded sampleRoleRun_def]]
    by (auto simp: keepsName_def sampleRoleRun_def)
  with wanted show ?thesis by (simp add: permissionsSettled_def)
qed

text \<open>C18. The cluster-wide permissions of a component follow the installation mode: when the pass returns without an
  error on an API server whose reads do not fail, the component's account is there (or gone if it is not wanted) and, in a namespace that may host a
  cluster-scoped instance, the ClusterRole is the default one bound to that account, or the aggregated one, bound, or
  (with the default role disabled) gone with its binding, and the two modes have not been asked for at once, which makes
  the pass fail there. In any other namespace the ClusterRole is gone or another instance's and so is the binding,
  except that the binding is left as it was if both modes are asked for. The component is one that has an account
  of its own, not the view or admin part of the aggregated role; nothing but the account, the role and the binding is
  touched.\<close>

theorem cluster_permissions:
  assumes "reliable_client c view admit refresh" and "keepsClusterName hook" and "\<not> auxiliaryClusterRole name"
    and "reconcileServiceAccountClusterPermissions e f hook (getImagePullSecretRefs e controlled c cr) c cr name rules w = (Ok (), w')"
  shows "accountSettled name cr (view w' (accountOf e name cr)) \<and>
    (\<exists>b. clusterRoleMeant e hook cr name rules b (view w' (clusterRoleKey name cr)) \<and>
         clusterBindingMeant e name cr b (view w (clusterBindingKey name cr)) (view w' (clusterBindingKey name cr))) \<and>
    \<not> (IsNamespaceClusterConfigNamespace e (crNamespace cr) \<and> bSpec_DefaultClusterScopedRoleDisabled (spec cr) \<and>
       bSpec_AggregatedClusterRoles (spec cr)) \<and>
    same_outside view {accountOf e name cr, clusterRoleKey name cr, clusterBindingKey name cr} w w'"
proof -
  note rc = assms(1)
  note kc = verbatim_client.axioms(1)[OF reliable_client.axioms(1)[OF rc]]
  note refs = k8s_client.getImagePullSecretRefs_fp[OF kc, of e controlled cr]
  from reliable_client.reconcileServiceAccountClusterPermissions_run[OF rc assms(2) refs assms(3,4)] show ?thesis
    by (auto simp: clusterRoleMeant_def Let_def split: if_splits)
qed

definition sampleClusterEnv :: env where
  "sampleClusterEnv = sampleEnv\<lparr>getenv := (\<lambda>v. if v = ''ARGOCD_CLUSTER_CONFIG_NAMESPACES'' then ''team'' else '''')\<rparr>"

definition sampleClusterRun :: "ArgoCD_beta \<Rightarrow> unit outcome \<times> obj list" where
  "sampleClusterRun cr = reconcileServiceAccountClusterPermissions sampleClusterEnv sampleRbacFlags Inr
     (getImagePullSecretRefs sampleClusterEnv (\<lambda>_. False) mem_client cr) mem_client cr serverComponent [] []"

theorem cluster_permissions_witness:
  "clusterRoleWith (\<lambda>r. crRules r = Some []) (mem_view (snd (sampleClusterRun samplePolicyCR)) (clusterRoleKey serverComponent samplePolicyCR)) \<and>
   clusterBinds sampleClusterEnv serverComponent samplePolicyCR
     (mem_view (snd (sampleClusterRun samplePolicyCR)) (clusterBindingKey serverComponent samplePolicyCR))"
proof -
  have "fst (sampleClusterRun samplePolicyCR) = Ok ()" by code_simp
  then have run: "sampleClusterRun samplePolicyCR = (Ok (), snd (sampleClusterRun samplePolicyCR))" by (rule run_result)
  have mode: "\<not> auxiliaryClusterRole serverComponent" "IsNamespaceClusterConfigNamespace sampleClusterEnv (crNamespace samplePolicyCR)"
    "\<not> bSpec_AggregatedClusterRoles (spec samplePolicyCR)" "\<not> bSpec_DefaultClusterScopedRoleDisabled (spec samplePolicyCR)"
    by code_simp+
  from cluster_permissions[OF mem.reliable_client_axioms _ mode(1) run[unfolded sampleClusterRun_def]]
  obtain b where "clusterRoleMeant sampleClusterEnv Inr samplePolicyCR serverComponent [] b
      (mem_view (snd (sampleClusterRun samplePolicyCR)) (clusterRoleKey serverComponent samplePolicyCR))"
    and "clusterBindingMeant sampleClusterEnv serverComponent samplePolicyCR b
      (mem_view [] (clusterBindingKey serverComponent samplePolicyCR)) (mem_view (snd (sampleClusterRun samplePolicyCR)) (clusterBindingKey serverComponent samplePolicyCR))"
    by (auto simp: keepsClusterName_def sampleClusterRun_def)
  with mode show ?thesis
    by (auto simp: clusterRoleMeant_def clusterBindingMeant_def Let_def verifyInstallationMode_def defaultRole_def
        clusterRoleWith_def newInstanceClusterRole_def)
qed

text \<open>C21. Deleting an instance cleans up by name only: when the clean-up returns without an error, every ClusterRole,
  ClusterRoleBinding and RoleBinding of the cluster whose label names the instance is gone, the RoleBindings of an instance
  of the same name in another namespace with them, and, but for the objects of the promoter, everything else is as
  it was.\<close>

theorem deleteClusterResources_exact:
  assumes "k8s_client c view admit refresh" and "act_rel (same_outside view S) promoter"
    and "deleteClusterResources requirement promoter c cr w = (Ok (), w')" and "k \<notin> S"
  shows "if \<exists>x. view w k = Some x \<and> fst k \<in> {KClusterRole, KClusterRoleBinding, KRoleBinding} \<and>
           gget (obj_labels x) ArgoCDKeyManagedBy = Some (crName cr)
         then gone (view w' k) else view w' k = view w k"
proof -
  from k8s_client.deleteClusterResources_Ok[OF assms(1,3,2)] obtain v
    where "deletedKinds {KClusterRole, KClusterRoleBinding, KRoleBinding} (crName cr) (view w) v" "view w' k = v k"
    using assms(4) by blast
  then show ?thesis unfolding deletedKinds_def by metis
qed

definition sampleOtherBinding :: role_binding where
  "sampleOtherBinding = (newRoleBindingWithname sampleEnv serverComponent samplePolicyCR)\<lparr>
     rbMeta := (mkMeta ''argocd-argocd-server'' ''elsewhere'')\<lparr>metaLabels := clusterLabels samplePolicyCR\<rparr>\<rparr>"

theorem deleteClusterResources_exact_witness:
  "gone (mem_view (snd (deleteClusterResources (\<lambda>_. None) (ret ()) mem_client samplePolicyCR [ORoleBinding sampleOtherBinding]))
     (bindingKeyOf sampleOtherBinding))"
proof -
  have run: "fst (deleteClusterResources (\<lambda>_. None) (ret ()) mem_client samplePolicyCR [ORoleBinding sampleOtherBinding]) = Ok ()" by code_simp
  have "mem_view [ORoleBinding sampleOtherBinding] (bindingKeyOf sampleOtherBinding) = Some (ORoleBinding sampleOtherBinding)"
    and "gget (obj_labels (ORoleBinding sampleOtherBinding)) ArgoCDKeyManagedBy = Some (crName samplePolicyCR)"
    and "fst (bindingKeyOf sampleOtherBinding) = KRoleBinding"
    by code_simp+
  with deleteClusterResources_exact[OF mem.k8s_client_axioms fp.rel_ret run_result[OF run], of "bindingKeyOf sampleOtherBinding" "{}"]
  show ?thesis by simp
qed

text \<open>C19. A source namespace that an instance gives up is left clean: whatever the outcome of the pass, a namespace that
  the instance counted as a source namespace and no longer does, and that exists, holds neither the server's Role nor its
  RoleBinding any more; one whose clean-up failed stays counted.\<close>

theorem given_up_sources_are_clean:
  assumes "k8s_client c view admit refresh"
    and "removeUnmanagedSourceNamespaceResources e match order c cr s = (r, s')"
    and "ns \<in> set (swManaged s)" and "ns \<notin> set (swManaged s')" and "view (swWorld s) (KNamespace, '''', ns) \<noteq> None"
  shows "gone (view (swWorld s') (sourceRoleKey ns cr)) \<and> gone (view (swWorld s') (sourceBindingKey e ns cr))"
proof -
  from act_relD[OF k8s_client.removeUnmanaged_gives_up[OF assms(1)] assms(2)] have "givesUp view e cr s s'" .
  then have "\<forall>ns \<in> set (swManaged s) - set (swManaged s').
      view (swWorld s) (KNamespace, '''', ns) = None \<or> sourceCleaned (view (swWorld s')) e cr ns"
    by (simp add: givesUp_def)
  from this[rule_format, of ns] assms(3-5) show ?thesis by (auto simp: sourceCleaned_def)
qed

definition sampleSourceNS :: "string \<Rightarrow> namespace_obj" where
  "sampleSourceNS owner = \<lparr>nsMeta = (mkMeta ''apps'' '''')\<lparr>metaLabels := gmap [(ArgoCDManagedByClusterArgoCDLabel, owner)]\<rparr>\<rparr>"

definition sampleGivenUp :: "obj list source_world" where
  "sampleGivenUp = \<lparr>swWorld = [ONamespace (sampleSourceNS ''team''),
      ORole (newRoleForApplicationSourceNamespaces ''apps'' [] samplePolicyCR), ORoleBinding (sourceBinding sampleEnv samplePolicyCR ''apps'')],
    swManaged = [''apps'']\<rparr>"

definition sampleRemoval :: "unit outcome \<times> obj list source_world" where
  "sampleRemoval = removeUnmanagedSourceNamespaceResources sampleEnv (\<lambda>_ _. False) id mem_client samplePolicyCR sampleGivenUp"

theorem given_up_sources_are_clean_witness:
  "gone (mem_view (swWorld (snd sampleRemoval)) (sourceRoleKey ''apps'' samplePolicyCR)) \<and>
   gone (mem_view (swWorld (snd sampleRemoval)) (sourceBindingKey sampleEnv ''apps'' samplePolicyCR))"
proof -
  have facts: "''apps'' \<in> set (swManaged sampleGivenUp)" "''apps'' \<notin> set (swManaged (snd sampleRemoval))"
    "mem_view (swWorld sampleGivenUp) (KNamespace, '''', ''apps'') \<noteq> None"
    by code_simp+
  have "removeUnmanagedSourceNamespaceResources sampleEnv (\<lambda>_ _. False) id mem_client samplePolicyCR sampleGivenUp =
      (fst sampleRemoval, snd sampleRemoval)"
    by (simp add: sampleRemoval_def)
  from given_up_sources_are_clean[OF mem.k8s_client_axioms this facts] show ?thesis .
qed

text \<open>C20. The Roles of source namespaces respect other instances: whatever the outcome of the pass, nothing in a
  namespace that carries the label of another cluster-scoped instance is changed, nor the namespace itself.\<close>

theorem foreign_sources_are_spared:
  assumes "k8s_client c view admit refresh"
    and "reconcileRoleForApplicationSourceNamespaces e hook match amatch order c cr name rules s = (r, s')"
    and "view (swWorld s) (KNamespace, '''', ns) = Some (ONamespace n)"
    and "nsLabel n ArgoCDManagedByClusterArgoCDLabel = Some other" and "other \<noteq> crNamespace cr"
  shows "\<forall>k \<in> ofNamespace ns. view (swWorld s') k = view (swWorld s) k"
proof -
  from act_relD[OF k8s_client.reconcileRoleForApplicationSourceNamespaces_spares[OF assms(1)] assms(2)]
  have "sparesForeign view cr s s'" .
  moreover from assms(3-5) have "foreignSource (view (swWorld s)) cr ns" by (auto simp: foreignSource_def)
  ultimately show ?thesis unfolding sparesForeign_def by blast
qed

definition sampleSourcesCR :: ArgoCD_beta where
  "sampleSourcesCR = samplePolicyCR\<lparr>bArgoCD_Spec := (spec samplePolicyCR)\<lparr>bSpec_SourceNamespaces := Some [''apps'']\<rparr>\<rparr>"

definition sampleForeign :: "obj list source_world" where
  "sampleForeign = \<lparr>swWorld = [ONamespace (sampleSourceNS ''other'')], swManaged = []\<rparr>"

definition sampleForeignRun :: "unit outcome \<times> obj list source_world" where
  "sampleForeignRun = reconcileRoleForApplicationSourceNamespaces sampleClusterEnv Inr (\<lambda>patterns n. n \<in> set patterns) (\<lambda>_ _. False) id
     mem_client sampleSourcesCR serverComponent policyRuleForServerApplicationSourceNamespaces sampleForeign"

theorem foreign_sources_are_spared_witness:
  "fst sampleForeignRun = Ok () \<and>
   mem_view (swWorld (snd sampleForeignRun)) (sourceRoleKey ''apps'' sampleSourcesCR) = None"
proof -
  have ok: "fst sampleForeignRun = Ok ()" by code_simp
  have facts: "mem_view (swWorld sampleForeign) (KNamespace, '''', ''apps'') = Some (ONamespace (sampleSourceNS ''other''))"
    "nsLabel (sampleSourceNS ''other'') ArgoCDManagedByClusterArgoCDLabel = Some ''other''" "''other'' \<noteq> crNamespace sampleSourcesCR"
    "mem_view (swWorld sampleForeign) (sourceRoleKey ''apps'' sampleSourcesCR) = None"
    by code_simp+
  from foreign_sources_are_spared[OF mem.k8s_client_axioms run_result[OF ok, unfolded sampleForeignRun_def] facts(1-3)]
  have "mem_view (swWorld (snd sampleForeignRun)) (sourceRoleKey ''apps'' sampleSourcesCR) =
      mem_view (swWorld sampleForeign) (sourceRoleKey ''apps'' sampleSourcesCR)"
    by (auto simp: ofNamespace_def sourceRoleKey_def sampleForeignRun_def)
  with facts(4) ok show ?thesis by simp
qed

text \<open>The RoleBindings of source namespaces do not respect other instances: in a namespace that carries the label
  of another instance, and holds no such binding yet, the pass creates one, to a Role that the pass for Roles does not
  create there.\<close>

theorem binding_in_foreign_source:
  assumes "verbatim_client c view admit refresh" and "bindingInSourceNamespace e c cr ns w = (Ok (), w')"
    and "view w (KNamespace, '''', ns) = Some (ONamespace n)" and "\<not> metaDeleting (nsMeta n)" and "nsLabel n ArgoCDManagedByLabel = None"
    and "view w (sourceBindingKey e ns cr) = None"
  shows "view w' = (view w)(sourceBindingKey e ns cr \<mapsto> ORoleBinding (sourceBinding e cr ns))"
proof -
  note kc = verbatim_client.axioms(1)[OF assms(1)]
  have key: "bindingKeyOf (sourceBinding e cr ns) = sourceBindingKey e ns cr"
    by (simp add: bindingKeyOf_def okey_def sourceBinding_def newRoleBindingForSource_def sourceBindingKey_def)
  from assms(2) obtain n' w1 where g: "getAs c as_namespace (KNamespace, '''', ns) w = (Ok n', w1)"
    unfolding bindingInSourceNamespace_def bindG_Ok_iff by blast
  note found = k8s_client.namespace_found[OF kc g]
  from found(1) assms(3) have n: "n' = n" by simp
  from assms(2) g n assms(4,5) found(3) obtain here w2 where h: "hasInstance c ns w1 = (Ok here, w2)"
    and run: "handle (getAs c as_role_binding (sourceBindingKey e ns cr))
           (\<lambda>err. if \<not> IsNotFound err then fail (Formatted (''failed to get the rolebinding associated with '' @ serverComponent) err)
              else createO c (ORoleBinding (sourceBinding e cr ns)))
           (\<lambda>existing. if nsLabel n ArgoCDManagedByClusterArgoCDLabel \<noteq> Some (crNamespace cr) then ret ()
              else syncBinding c (sourceBinding e cr ns) (createO c (ORoleBinding (sourceBinding e cr ns))) existing) w2 = (Ok (), w')"
    by (auto simp: bindingInSourceNamespace_def bindG_apply bindG_Ok_iff key Let_def)
  from k8s_client.hasInstance_Ok(1)[OF kc h] found(2) have v: "view w2 = view w" by simp
  have nr: "\<not> refreshable (fst (sourceBindingKey e ns cr))" by (simp add: refreshable_def)
  from run consider (err) err w3 where "getAs c as_role_binding (sourceBindingKey e ns cr) w2 = (Err err, w3)" "IsNotFound err"
      "createO c (ORoleBinding (sourceBinding e cr ns)) w3 = (Ok (), w')"
    | (ok) x w3 where "getAs c as_role_binding (sourceBindingKey e ns cr) w2 = (Ok x, w3)"
    unfolding handle_Ok_iff by (auto simp: fail_def split: if_splits)
  then show ?thesis
  proof cases
    case err
    from verbatim_client.admit_id[OF assms(1)] k8s_client.createO_Ok(1)[OF kc err(3)] k8s_client.getAs_NotFound(2)[OF kc err(1,2)] v key
    show ?thesis by (simp add: bindingKeyOf_def)
  next
    case ok
    from k8s_client.getAs_Ok[OF kc ok nr] v assms(6) show ?thesis by auto
  qed
qed

theorem binding_in_foreign_source_witness:
  "mem_view (snd (bindingInSourceNamespace sampleClusterEnv mem_client sampleSourcesCR ''apps'' (swWorld sampleForeign)))
     (sourceBindingKey sampleClusterEnv ''apps'' sampleSourcesCR) = Some (ORoleBinding (sourceBinding sampleClusterEnv sampleSourcesCR ''apps''))"
proof -
  have run: "fst (bindingInSourceNamespace sampleClusterEnv mem_client sampleSourcesCR ''apps'' (swWorld sampleForeign)) = Ok ()"
    by code_simp
  have facts: "mem_view (swWorld sampleForeign) (KNamespace, '''', ''apps'') = Some (ONamespace (sampleSourceNS ''other''))"
    "\<not> metaDeleting (nsMeta (sampleSourceNS ''other''))" "nsLabel (sampleSourceNS ''other'') ArgoCDManagedByLabel = None"
    "mem_view (swWorld sampleForeign) (sourceBindingKey sampleClusterEnv ''apps'' sampleSourcesCR) = None"
    by code_simp+
  from binding_in_foreign_source[OF mem.verbatim_client_axioms run_result[OF run] facts] show ?thesis by simp
qed

end
