(* ===== verification/Instance_Secrets.thy ===== *)
theory Instance_Secrets
  imports Instance_Rbac
begin

text \<open>
  The secrets of an instance (\<open>argocd-operator/controllers/argocd/secret.go\<close>, the token of Dex in \<open>dex.go\<close>,
  of \<open>controllers/argoutil\<close> the constructors of secrets and the data of the Redis secret): the admin password,
  the CA and TLS certificates, the Redis password, the cluster secret with the managed namespaces, the secret
  \<open>argocd-secret\<close> with the webhook secrets it collects, and the copies of image pull secrets. Key and
  certificate generation, hashing, random passwords and the clock are in the record \<open>secret_tools\<close>. A byte
  slice in the data of a secret is a string; an absent key stands for nil. Definitions only; the lemmas
  are in Instance_Secrets_Correct and the properties in Instance_Credentials.
\<close>

section \<open>Constructors\<close>

definition ArgoCDKeyAdminPassword :: string where "ArgoCDKeyAdminPassword = ''admin.password''"
definition ArgoCDKeyAdminPasswordMTime :: string where "ArgoCDKeyAdminPasswordMTime = ''admin.passwordMtime''"
definition ArgoCDKeyServerSecretKey :: string where "ArgoCDKeyServerSecretKey = ''server.secretkey''"
definition ArgoCDKeyTLSCert :: string where "ArgoCDKeyTLSCert = ''tls.crt''"
definition ArgoCDKeyTLSPrivateKey :: string where "ArgoCDKeyTLSPrivateKey = ''tls.key''"
definition ArgoCDDexSecretKey :: string where "ArgoCDDexSecretKey = ''oidc.dex.clientSecret''"

text \<open>\<open>argoutil.NewSecretWithName\<close> and \<open>NewSecretWithSuffix\<close> for the full resource.\<close>

definition secretNamed :: "env \<Rightarrow> string \<Rightarrow> ArgoCD_beta \<Rightarrow> secret" where
  "secretNamed e name cr =
     (let truncatedName = TruncateWithHash e name maxLabelLength;
          m = AddTrackedByOperatorLabel ((mkMeta '''' '''')\<lparr>metaLabels := clusterLabels cr\<rparr>)
      in \<lparr>secMeta = m\<lparr>metaName := truncatedName, metaNamespace := crNamespace cr,
             metaLabels := gput (metaLabels m) ArgoCDKeyName truncatedName\<rparr>,
           secType = ''Opaque'', secData = None, secStringData = None\<rparr>)"

definition GetSecretNameWithSuffix :: "env \<Rightarrow> ArgoCD_beta \<Rightarrow> string \<Rightarrow> string" where
  "GetSecretNameWithSuffix e cr sfx = TruncateCRName e (crName cr) @ ''-'' @ sfx"

definition secretWithSuffix :: "env \<Rightarrow> string \<Rightarrow> ArgoCD_beta \<Rightarrow> secret" where
  "secretWithSuffix e sfx cr = secretNamed e (GetSecretNameWithSuffix e cr sfx) cr"

definition newTLSSecret :: "env \<Rightarrow> string \<Rightarrow> ArgoCD_beta \<Rightarrow> secret" where
  "newTLSSecret e sfx cr = (secretWithSuffix e sfx cr)\<lparr>secType := ''kubernetes.io/tls''\<rparr>"

definition secKeyOf :: "secret \<Rightarrow> key" where "secKeyOf s = okey (OSecret s)"

definition findSecret :: "'w client \<Rightarrow> secret \<Rightarrow> ('w, secret option) act" where
  "findSecret c s = IsObjectFound c as_secret (secKeyOf s)"

definition createOwnedSecret :: "env \<Rightarrow> 'w client \<Rightarrow> ArgoCD_beta \<Rightarrow> secret \<Rightarrow> ('w, unit) act" where
  "createOwnedSecret e c cr s = bindG (controlledBy e cr (secMeta s)) (\<lambda>m. createO c (OSecret (s\<lparr>secMeta := m\<rparr>)))"

definition putData :: "string \<Rightarrow> string \<Rightarrow> secret \<Rightarrow> secret" where
  "putData k v s = s\<lparr>secData := gput (secData s) k v\<rparr>"

text \<open>What a certificate is asked for with.\<close>

record cert_request =
  reqName :: string
  reqOrganization :: string
  reqDNSNames :: "string list"

record secret_tools =
  verifyPassword :: "string \<Rightarrow> string \<Rightarrow> bool"
  hashPassword :: "string \<Rightarrow> go_error + string"
  generateArgoAdminPassword :: "go_error + string"
  generateRedisAdminPassword :: "go_error + string"
  generateArgoServerSessionKey :: "go_error + string"
  nowBytes :: string
  newPrivateKey :: "go_error + string"
  selfSignedCACertificate :: "string \<Rightarrow> string \<Rightarrow> go_error + string"
  signedCertificate :: "cert_request \<Rightarrow> string \<Rightarrow> string \<Rightarrow> string \<Rightarrow> go_error + string"
  parseCert :: "string \<Rightarrow> go_error + string"
  parsePrivateKey :: "string \<Rightarrow> go_error + string"

section \<open>The cluster's secrets\<close>

definition getCASecretName :: "env \<Rightarrow> ArgoCD_beta \<Rightarrow> string" where
  "getCASecretName e cr = (let n = CA_SecretName (TLS_CA (bSpec_TLS (spec cr))) in
     if n \<noteq> '''' then n else nameWithSuffix e ''ca'' cr)"

definition reconcileClusterMainSecret :: "env \<Rightarrow> secret_tools \<Rightarrow> 'w client \<Rightarrow> ArgoCD_beta \<Rightarrow> ('w, unit) act" where
  "reconcileClusterMainSecret e t c cr =
     (let s = secretWithSuffix e ''cluster'' cr
      in bindG (findSecret c s) (\<lambda>found. case found of Some _ \<Rightarrow> ret ()
         | None \<Rightarrow> bindG (liftE (generateArgoAdminPassword t)) (\<lambda>p.
             createOwnedSecret e c cr (s\<lparr>secData := gmap [(ArgoCDKeyAdminPassword, p)]\<rparr>))))"

definition trimNewlines :: "string \<Rightarrow> string" where
  "trimNewlines s = rev (dropWhile (\<lambda>x. x = CHR 0x0A) (rev s))"

definition GetRedisSecretData :: "string \<Rightarrow> gomap" where
  "GetRedisSecretData p = gmap [(''immutable'', ''true''), (ArgoCDKeyAdminPassword, p), (''auth'', p),
     (''auth_username'', ''default''),
     (''users.acl'', ''user default on >'' @ trimNewlines p @ '' allchannels allkeys allcommands'' @ newline)]"

definition redisSecretHealthy :: "gomap \<Rightarrow> bool" where
  "redisSecretHealthy d \<longleftrightarrow> (\<forall>k \<in> set [ArgoCDKeyAdminPassword, ''auth'', ''auth_username'', ''users.acl'']. gget d k \<noteq> None)"

text \<open>A secret without its keys is replaced by a new one.\<close>

definition reconcileRedisInitialPasswordSecret :: "env \<Rightarrow> secret_tools \<Rightarrow> 'w client \<Rightarrow> ArgoCD_beta \<Rightarrow> ('w, unit) act" where
  "reconcileRedisInitialPasswordSecret e t c cr =
     (let s = secretWithSuffix e ''redis-initial-password'' cr;
          renew = (\<lambda>write. bindG (liftE (generateRedisAdminPassword t)) (\<lambda>p.
             bindG (controlledBy e cr (secMeta s)) (\<lambda>m. write (OSecret (s\<lparr>secData := GetRedisSecretData p, secMeta := m\<rparr>)))))
      in handle (getAs c as_secret (secKeyOf s))
        (\<lambda>err. if \<not> IsNotFound err then fail err else renew (createO c))
        (\<lambda>found. if redisSecretHealthy (secData found) then ret () else renew (updateO c)))"

definition newCASecret :: "env \<Rightarrow> secret_tools \<Rightarrow> ArgoCD_beta \<Rightarrow> go_error + secret" where
  "newCASecret e t cr = (case newPrivateKey t of Inl err \<Rightarrow> Inl err | Inr key \<Rightarrow>
     (case selfSignedCACertificate t (crName cr) key of Inl err \<Rightarrow> Inl err | Inr cert \<Rightarrow>
        Inr ((secretNamed e (getCASecretName e cr) cr)\<lparr>secType := ''kubernetes.io/tls'',
          secData := gmap [(ArgoCDKeyTLSCert, cert), (''ca.crt'', cert), (ArgoCDKeyTLSPrivateKey, key)]\<rparr>)))"

definition reconcileClusterCASecret :: "env \<Rightarrow> secret_tools \<Rightarrow> 'w client \<Rightarrow> ArgoCD_beta \<Rightarrow> ('w, unit) act" where
  "reconcileClusterCASecret e t c cr =
     (if getCASecretName e cr = GetSecretNameWithSuffix e cr ''tls''
      then fail (ErrorText (''spec.tls.ca.secretName '' @ getCASecretName e cr @
             '' conflicts with the operator-managed cluster TLS secret '' @ GetSecretNameWithSuffix e cr ''tls''))
      else bindG (findSecret c (secretNamed e (getCASecretName e cr) cr)) (\<lambda>found. case found of Some _ \<Rightarrow> ret ()
         | None \<Rightarrow> bindG (liftE (newCASecret e t cr)) (createOwnedSecret e c cr)))"

definition getPrometheusHost :: "env \<Rightarrow> ArgoCD_beta \<Rightarrow> string" where
  "getPrometheusHost e cr = (if Prometheus_Host (bSpec_Prometheus (spec cr)) \<noteq> '''' then Prometheus_Host (bSpec_Prometheus (spec cr))
     else nameWithSuffix e ''prometheus'' cr)"

definition certificateRequest :: "env \<Rightarrow> string \<Rightarrow> ArgoCD_beta \<Rightarrow> cert_request" where
  "certificateRequest e name cr = \<lparr>reqName = name, reqOrganization = crNamespace cr,
     reqDNSNames = [crName cr, nameWithSuffix e ''grpc'' cr, crName cr @ ''.'' @ crNamespace cr @ ''.svc.'' @ GetClusterDomain cr] @
       (if Prometheus_Enabled (bSpec_Prometheus (spec cr)) then [getPrometheusHost e cr] else [])\<rparr>"

definition newCertificateSecret :: "env \<Rightarrow> secret_tools \<Rightarrow> string \<Rightarrow> string \<Rightarrow> string \<Rightarrow> ArgoCD_beta \<Rightarrow> go_error + secret" where
  "newCertificateSecret e t sfx caCert caKey cr =
     (let s = newTLSSecret e sfx cr
      in case newPrivateKey t of Inl err \<Rightarrow> Inl err | Inr key \<Rightarrow>
        (case signedCertificate t (certificateRequest e (metaName (secMeta s)) cr) key caCert caKey of Inl err \<Rightarrow> Inl err
         | Inr cert \<Rightarrow> Inr (s\<lparr>secData := gmap [(ArgoCDKeyTLSCert, cert), (ArgoCDKeyTLSPrivateKey, key)]\<rparr>)))"


definition reconcileClusterTLSSecret :: "env \<Rightarrow> secret_tools \<Rightarrow> 'w client \<Rightarrow> ArgoCD_beta \<Rightarrow> ('w, unit) act" where
  "reconcileClusterTLSSecret e t c cr =
     bindG (findSecret c (newTLSSecret e ''tls'' cr)) (\<lambda>found. case found of Some _ \<Rightarrow> ret ()
       | None \<Rightarrow>
         bindG (getAs c as_secret (secKeyOf (secretNamed e (getCASecretName e cr) cr))) (\<lambda>ca.
         bindG (liftE (parseCert t (gindex (secData ca) ArgoCDKeyTLSCert))) (\<lambda>caCert.
         bindG (liftE (parsePrivateKey t (gindex (secData ca) ArgoCDKeyTLSPrivateKey))) (\<lambda>caKey.
         bindG (liftE (newCertificateSecret e t ''tls'' caCert caKey cr)) (createOwnedSecret e c cr)))))"

section \<open>The token of Dex\<close>

text \<open>The clock, in nanoseconds; the formats of times; the TokenRequest API, which gives a token and when it expires;
  and the table of durations after which the controller runs again.\<close>

record 'w dex_tools =
  dexNow :: int
  parseRFC3339 :: "string \<Rightarrow> int option"
  formatRFC3339 :: "int \<Rightarrow> string"
  createToken :: "string \<Rightarrow> string \<Rightarrow> int \<Rightarrow> ('w, string \<times> int) act"
  storeRequeueAfter :: "string \<Rightarrow> int \<Rightarrow> ('w, unit) act"

definition ArgoCDDexServerTokenExpirySecs :: int where "ArgoCDDexServerTokenExpirySecs = 3600"

definition dexServerTokenRenewalThreshold :: int where
  "dexServerTokenRenewalThreshold = (ArgoCDDexServerTokenExpirySecs * 33 div 100) * 1000000000"

definition getDexServerTokenSecretName :: "env \<Rightarrow> ArgoCD_beta \<Rightarrow> string" where
  "getDexServerTokenSecretName e cr = GetSecretNameWithSuffix e cr (dexServerComponent @ ''-token'')"

definition needsDexTokenRenewal :: "'w dex_tools \<Rightarrow> secret \<Rightarrow> bool" where
  "needsDexTokenRenewal d s \<longleftrightarrow> gindex (secData s) ''token'' = '''' \<or>
     (case gget (secData s) ''expiry'' of None \<Rightarrow> True
      | Some expiry \<Rightarrow> (case parseRFC3339 d expiry of None \<Rightarrow> True
          | Some at \<Rightarrow> at - dexNow d < dexServerTokenRenewalThreshold))"

definition requeueBefore :: "'w dex_tools \<Rightarrow> ArgoCD_beta \<Rightarrow> int option \<Rightarrow> ('w, unit) act" where
  "requeueBefore d cr expiry = (case expiry of None \<Rightarrow> ret ()
     | Some at \<Rightarrow> if at - dexNow d - dexServerTokenRenewalThreshold > 0
         then storeRequeueAfter d (crNamespace cr) (at - dexNow d - dexServerTokenRenewalThreshold) else ret ())"

definition saveDexToken :: "env \<Rightarrow> 'w client \<Rightarrow> ArgoCD_beta \<Rightarrow> secret option \<Rightarrow> gomap \<Rightarrow> ('w, unit) act" where
  "saveDexToken e c cr found tokenData = (case found of
       None \<Rightarrow> createOwnedSecret e c cr ((secretWithSuffix e (dexServerComponent @ ''-token'') cr)\<lparr>secData := tokenData\<rparr>)
     | Some s \<Rightarrow> updateO c (OSecret (s\<lparr>secData := tokenData\<rparr>)))"

definition getDexOAuthClientSecret :: "env \<Rightarrow> 'w dex_tools \<Rightarrow> 'w client \<Rightarrow> ArgoCD_beta \<Rightarrow> ('w, string) act" where
  "getDexOAuthClientSecret e d c cr =
     bindG (getAs c as_service_account (saKeyOf (newServiceAccountWithName e dexServerComponent cr))) (\<lambda>sa.
     bindG (IsObjectFound c as_secret (KSecret, crNamespace cr, getDexServerTokenSecretName e cr)) (\<lambda>found.
       case (case found of None \<Rightarrow> None | Some s \<Rightarrow> if needsDexTokenRenewal d s then None else Some s) of
         Some s \<Rightarrow> thenG (requeueBefore d cr (parseRFC3339 d (gindex (secData s) ''expiry''))) (ret (gindex (secData s) ''token''))
       | None \<Rightarrow>
           bindG (mapErr (Wrapped (''failed to create token for dex service account '' @ metaName (saMeta sa)))
             (createToken d (crNamespace cr) (metaName (saMeta sa)) ArgoCDDexServerTokenExpirySecs)) (\<lambda>(token, expiry).
           thenG (saveDexToken e c cr found (gmap [(''token'', token), (''expiry'', formatRFC3339 d expiry)]))
             (thenG (requeueBefore d cr (Some expiry)) (ret token)))))"

section \<open>Webhook secrets\<close>

text \<open>The value a reference leads to; none for no reference, no name, no secret, or no value at the key.\<close>

definition resolveWebhookSecretKeyBytes ::
  "'w client \<Rightarrow> ArgoCD_beta \<Rightarrow> WebhookSecretKeySelector option \<Rightarrow> ('w, string option) act" where
  "resolveWebhookSecretKeyBytes c cr ref = (case ref of None \<Rightarrow> ret None
     | Some r \<Rightarrow> if WebhookSecretKeySelector_Name r = '''' then ret None
         else handle (getAs c as_secret (KSecret, crNamespace cr, WebhookSecretKeySelector_Name r))
           (\<lambda>err. if \<not> IsNotFound err then fail err else ret None)
           (\<lambda>src. ret (if gindex (secData src) (WebhookSecretKeySelector_Key r) = '''' then None
              else gget (secData src) (WebhookSecretKeySelector_Key r))))"

text \<open>The secret being put together, and whether anything about it has changed.\<close>

type_synonym pending = "secret \<times> bool"

definition deleteManagedWebhookKey :: "string \<Rightarrow> pending \<Rightarrow> pending" where
  "deleteManagedWebhookKey k p = (case p of (s, changed) \<Rightarrow>
     if gget (secData s) k = None then (s, changed) else (s\<lparr>secData := gdelete (secData s) k\<rparr>, True))"

definition putWebhookKey :: "string \<Rightarrow> string \<Rightarrow> pending \<Rightarrow> pending" where
  "putWebhookKey k v p = (case p of (s, changed) \<Rightarrow>
     if gindex (secData s) k = v then (s, changed) else (putData k v s, True))"

definition applyWebhookSecretFromRef ::
  "'w client \<Rightarrow> ArgoCD_beta \<Rightarrow> WebhookSecretKeySelector option \<Rightarrow> string \<Rightarrow> pending \<Rightarrow> ('w, pending) act" where
  "applyWebhookSecretFromRef c cr ref destKey p =
     bindG (resolveWebhookSecretKeyBytes c cr ref) (\<lambda>val. case val of
         None \<Rightarrow> ret (deleteManagedWebhookKey destKey p)
       | Some v \<Rightarrow> ret (putWebhookKey destKey v p))"

definition webhookSingleRefProviders :: "ArgoCDWebhookSecretsSpec \<Rightarrow> (string \<times> WebhookSecretKeySelector option) list" where
  "webhookSingleRefProviders w = [
     (''webhook.github.secret'', Option.bind (Hooks_GitHub w) HooksGitHub_WebhookSecretRef),
     (''webhook.gitlab.secret'', Option.bind (Hooks_GitLab w) HooksGitLab_WebhookSecretRef),
     (''webhook.bitbucket.uuid'', Option.bind (Hooks_Bitbucket w) HooksBitbucket_WebhookUUIDSecretRef),
     (''webhook.bitbucketserver.secret'', Option.bind (Hooks_BitbucketServer w) HooksBitbucketServer_WebhookSecretRef),
     (''webhook.gogs.secret'', Option.bind (Hooks_Gogs w) HooksGogs_WebhookSecretRef)]"

fun applyAllSingleRefDeclarativeWebhookSecrets ::
  "'w client \<Rightarrow> ArgoCD_beta \<Rightarrow> (string \<times> WebhookSecretKeySelector option) list \<Rightarrow> pending \<Rightarrow> ('w, pending) act" where
  "applyAllSingleRefDeclarativeWebhookSecrets c cr [] p = ret p"
| "applyAllSingleRefDeclarativeWebhookSecrets c cr ((k, ref) # refs) p =
     bindG (applyWebhookSecretFromRef c cr ref k p) (applyAllSingleRefDeclarativeWebhookSecrets c cr refs)"

definition azureUser :: string where "azureUser = ''webhook.azuredevops.username''"
definition azurePassword :: string where "azurePassword = ''webhook.azuredevops.password''"

text \<open>The two keys of Azure DevOps are set together or not at all.\<close>

definition applyAzureDevOpsWebhookSecretRefs ::
  "'w client \<Rightarrow> ArgoCD_beta \<Rightarrow> ArgoCDWebhookSecretsSpec \<Rightarrow> pending \<Rightarrow> ('w, pending) act" where
  "applyAzureDevOpsWebhookSecretRefs c cr w p =
     (let drop_both = deleteManagedWebhookKey azurePassword (deleteManagedWebhookKey azureUser p)
      in case Hooks_AzureDevOps w of None \<Rightarrow> ret drop_both
       | Some ado \<Rightarrow>
           bindG (resolveWebhookSecretKeyBytes c cr (HooksAzureDevOps_UsernameSecretRef ado)) (\<lambda>u.
           bindG (resolveWebhookSecretKeyBytes c cr (HooksAzureDevOps_PasswordSecretRef ado)) (\<lambda>pw.
             case (u, pw) of
               (Some uv, Some pv) \<Rightarrow> ret (putWebhookKey azurePassword pv (putWebhookKey azureUser uv p))
             | _ \<Rightarrow> ret drop_both)))"

definition applyDeclarativeWebhookSecrets :: "'w client \<Rightarrow> ArgoCD_beta \<Rightarrow> pending \<Rightarrow> ('w, pending) act" where
  "applyDeclarativeWebhookSecrets c cr p = (case bSpec_WebhookSecrets (spec cr) of None \<Rightarrow> ret p
     | Some w \<Rightarrow> bindG (applyAllSingleRefDeclarativeWebhookSecrets c cr (webhookSingleRefProviders w) p)
         (applyAzureDevOpsWebhookSecretRefs c cr w))"

section \<open>The secret of Argo CD\<close>

definition usesDex :: "ArgoCD_beta \<Rightarrow> bool" where "usesDex cr \<longleftrightarrow> ssoProviderOf cr = Some ''dex''"

text \<open>\<open>dexToken\<close> is \<open>getDexOAuthClientSecret\<close>.\<close>

definition addDexToken :: "('w, string) act \<Rightarrow> ArgoCD_beta \<Rightarrow> pending \<Rightarrow> ('w, pending) act" where
  "addDexToken dexToken cr p = (if usesDex cr
     then bindG dexToken (\<lambda>token. ret (putWebhookKey ArgoCDDexSecretKey token p)) else ret p)"

definition hasArgoAdminPasswordChanged :: "secret_tools \<Rightarrow> secret \<Rightarrow> secret \<Rightarrow> bool" where
  "hasArgoAdminPasswordChanged t actual expected \<longleftrightarrow>
     \<not> verifyPassword t (gindex (secData expected) ArgoCDKeyAdminPassword) (gindex (secData actual) ArgoCDKeyAdminPassword)"

definition hasArgoTLSChanged :: "secret \<Rightarrow> secret \<Rightarrow> bool" where
  "hasArgoTLSChanged actual expected \<longleftrightarrow>
     gindex (secData actual) ArgoCDKeyTLSCert \<noteq> gindex (secData expected) ArgoCDKeyTLSCert \<or>
     gindex (secData actual) ArgoCDKeyTLSPrivateKey \<noteq> gindex (secData expected) ArgoCDKeyTLSPrivateKey"

definition copyTLS :: "secret \<Rightarrow> secret \<Rightarrow> secret" where
  "copyTLS tls s = putData ArgoCDKeyTLSPrivateKey (gindex (secData tls) ArgoCDKeyTLSPrivateKey)
     (putData ArgoCDKeyTLSCert (gindex (secData tls) ArgoCDKeyTLSCert) s)"

text \<open>A session key that was missing does not count as a change.\<close>

definition ensureSessionKey :: "secret_tools \<Rightarrow> secret \<Rightarrow> go_error + pending" where
  "ensureSessionKey t s =
     (if gget (secData s) ArgoCDKeyServerSecretKey = None
      then (case generateArgoServerSessionKey t of Inl err \<Rightarrow> Inl err | Inr key \<Rightarrow> Inr (putData ArgoCDKeyServerSecretKey key s, False))
      else Inr (s\<lparr>secData := gmake (secData s)\<rparr>, False))"

definition ensureAdminPassword :: "secret_tools \<Rightarrow> secret \<Rightarrow> pending \<Rightarrow> go_error + pending" where
  "ensureAdminPassword t clusterSecret p = (case p of (s, changed) \<Rightarrow>
     if hasArgoAdminPasswordChanged t s clusterSecret
     then (case gget (secData clusterSecret) ArgoCDKeyAdminPassword of None \<Rightarrow> Inr p
       | Some pw \<Rightarrow> if gget (secData s) ArgoCDKeyAdminPassword \<noteq> None then Inr p
           else (case hashPassword t (trimNewlines pw) of Inl err \<Rightarrow> Inl err
             | Inr hash \<Rightarrow> Inr (putData ArgoCDKeyAdminPasswordMTime (nowBytes t) (putData ArgoCDKeyAdminPassword hash s), True)))
     else Inr p)"

definition syncTLS :: "secret \<Rightarrow> pending \<Rightarrow> pending" where
  "syncTLS tls p = (case p of (s, changed) \<Rightarrow> if hasArgoTLSChanged s tls then (copyTLS tls s, True) else p)"

definition reconcileExistingArgoSecret ::
  "secret_tools \<Rightarrow> ('w, string) act \<Rightarrow> 'w client \<Rightarrow> ArgoCD_beta \<Rightarrow> secret \<Rightarrow> secret \<Rightarrow> secret \<Rightarrow> ('w, unit) act" where
  "reconcileExistingArgoSecret t dexToken c cr s clusterSecret tls =
     bindG (liftE (ensureSessionKey t s)) (\<lambda>p1.
     bindG (liftE (ensureAdminPassword t clusterSecret p1)) (\<lambda>p2.
     bindG (addDexToken dexToken cr (syncTLS tls p2)) (\<lambda>p3.
     bindG (applyDeclarativeWebhookSecrets c cr p3) (\<lambda>(s', changed).
       if changed then updateO c (OSecret s') else ret ()))))"

definition newArgoSecret :: "secret_tools \<Rightarrow> secret \<Rightarrow> secret \<Rightarrow> secret \<Rightarrow> go_error + secret" where
  "newArgoSecret t s clusterSecret tls =
     (case hashPassword t (gindex (secData clusterSecret) ArgoCDKeyAdminPassword) of Inl err \<Rightarrow> Inl err
      | Inr hash \<Rightarrow> (case generateArgoServerSessionKey t of Inl err \<Rightarrow> Inl err
          | Inr key \<Rightarrow> Inr (copyTLS tls (s\<lparr>secData := gmap [(ArgoCDKeyAdminPassword, hash),
              (ArgoCDKeyAdminPasswordMTime, nowBytes t), (ArgoCDKeyServerSecretKey, key)]\<rparr>))))"

definition createArgoSecret ::
  "env \<Rightarrow> secret_tools \<Rightarrow> ('w, string) act \<Rightarrow> 'w client \<Rightarrow> ArgoCD_beta \<Rightarrow> secret \<Rightarrow> secret \<Rightarrow> ('w, unit) act" where
  "createArgoSecret e t dexToken c cr clusterSecret tls =
     bindG (liftE (newArgoSecret t (secretNamed e ArgoCDSecretName cr) clusterSecret tls)) (\<lambda>s.
     bindG (if usesDex cr then bindG dexToken (\<lambda>token. ret (putData ArgoCDDexSecretKey token s)) else ret s) (\<lambda>s1.
     bindG (applyDeclarativeWebhookSecrets c cr (s1, False)) (\<lambda>(s2, _). createOwnedSecret e c cr s2)))"

definition reconcileArgoSecret ::
  "env \<Rightarrow> secret_tools \<Rightarrow> ('w, string) act \<Rightarrow> 'w client \<Rightarrow> ArgoCD_beta \<Rightarrow> ('w, unit) act" where
  "reconcileArgoSecret e t dexToken c cr =
     bindG (findSecret c (secretWithSuffix e ''cluster'' cr)) (\<lambda>cluster. case cluster of None \<Rightarrow> ret ()
     | Some clusterSecret \<Rightarrow>
     bindG (findSecret c (secretWithSuffix e ''tls'' cr)) (\<lambda>tlsFound. case tlsFound of None \<Rightarrow> ret ()
     | Some tls \<Rightarrow>
     bindG (findSecret c (secretNamed e ArgoCDSecretName cr)) (\<lambda>found. case found of
       None \<Rightarrow> createArgoSecret e t dexToken c cr clusterSecret tls
     | Some s \<Rightarrow> reconcileExistingArgoSecret t dexToken c cr s clusterSecret tls)))"

section \<open>The cluster secret with the managed namespaces\<close>

definition permittedManagements :: "glob_match \<Rightarrow> ArgoCD_beta \<Rightarrow> NamespaceManagement list \<Rightarrow> string list" where
  "permittedManagements match cr items =
     filter (match (allowedNsPatterns cr)) (map (\<lambda>nm. metaNamespace (nmMeta nm)) (filter (targetsInstance cr) items))"

definition generateSortedManagedNamespaceListForArgoCDCR ::
  "env \<Rightarrow> glob_match \<Rightarrow> 'w client \<Rightarrow> ArgoCD_beta \<Rightarrow> ('w, string list) act" where
  "generateSortedManagedNamespaceListForArgoCDCR e match c cr =
     bindG (listO c KNamespace) (\<lambda>xs.
     let labelled = map namespaceName (filter (\<lambda>ns. isNamespaceLabelledManagedBy ns (crNamespace cr)) (List.map_filter as_namespace xs))
     in bindG (if isNamespaceManagementEnabled e
               then bindG (listNamespaceManagement c) (\<lambda>items. ret (permittedManagements match cr items)) else ret []) (\<lambda>permitted.
        ret (sort (remdups (labelled @ permitted @ [crNamespace cr])))))"

text \<open>No entry of the secret is dropped; the value of a secret without the key splits into one empty name.\<close>

definition combineClusterSecretNamespacesWithManagedNamespaces :: "secret \<Rightarrow> string list \<Rightarrow> string" where
  "combineClusterSecretNamespacesWithManagedNamespaces s managed =
     joinStr '','' (sort (remdups (managed @ map TrimSpace (splitOn (CHR '','') (gindex (secData s) ''namespaces'')))))"

text \<open>\<open>argoutil.IsNamespaceClusterConfigNamespace\<close> is \<open>clusterScoped\<close>.\<close>

definition updateClusterSecret :: "bool \<Rightarrow> 'w client \<Rightarrow> string list \<Rightarrow> secret \<Rightarrow> ('w, unit) act" where
  "updateClusterSecret clusterScoped c managed s =
     (if clusterScoped
      then (if gget (secData s) ''namespaces'' \<noteq> None
            then updateO c (OSecret (s\<lparr>secData := gdelete (secData s) ''namespaces''\<rparr>)) else ret ())
      else (let value = combineClusterSecretNamespacesWithManagedNamespaces s managed
            in if gindex (secData s) ''namespaces'' \<noteq> value
               then updateO c (OSecret (putData ''namespaces'' value s)) else ret ()))"

definition newClusterSecret :: "env \<Rightarrow> ArgoCD_beta \<Rightarrow> string list \<Rightarrow> secret" where
  "newClusterSecret e cr managed =
     (let s = secretWithSuffix e ''default-cluster-config'' cr
      in s\<lparr>secMeta := (secMeta s)\<lparr>metaLabels := gput (metaLabels (secMeta s)) ArgoCDSecretTypeLabel ''cluster''\<rparr>,
           secData := gmap [
             (''config'', ''{'' @ [CHR 0x22] @ ''tlsClientConfig'' @ [CHR 0x22] @ '':{'' @ [CHR 0x22] @ ''insecure'' @ [CHR 0x22] @ '':false}}''),
             (''name'', ''in-cluster''), (''server'', ArgoCDDefaultServer), (''namespaces'', joinStr '','' managed)]\<rparr>)"

definition reconcileClusterPermissionsSecret ::
  "env \<Rightarrow> glob_match \<Rightarrow> 'w client \<Rightarrow> ArgoCD_beta \<Rightarrow> ('w, unit) act" where
  "reconcileClusterPermissionsSecret e match c cr =
     bindG (generateSortedManagedNamespaceListForArgoCDCR e match c cr) (\<lambda>managed.
     bindG (listSelected c KSecret (crNamespace cr) ArgoCDSecretTypeLabel ''cluster'') (\<lambda>xs.
       case localClusterSecret (List.map_filter as_secret xs) of
         Some s \<Rightarrow> updateClusterSecret (IsNamespaceClusterConfigNamespace e (crNamespace cr)) c managed s
       | None \<Rightarrow> if IsNamespaceClusterConfigNamespace e (crNamespace cr) then ret ()
           else createOwnedSecret e c cr (newClusterSecret e cr managed)))"

section \<open>Copies of image pull secrets\<close>

definition copiedLabel :: string where "copiedLabel = ''operator.argoproj.io/image-pull-secret-source''"

definition copyOf :: "ArgoCD_beta \<Rightarrow> secret \<Rightarrow> secret" where
  "copyOf cr src = \<lparr>secMeta = (mkMeta (metaName (secMeta src)) (crNamespace cr))\<lparr>
       metaLabels := gmap [(copiedLabel, metaName (secMeta src)), (ArgoCDTrackedByOperatorLabel, ArgoCDAppName)]\<rparr>,
     secType = secType src, secData = secData src, secStringData = None\<rparr>"

text \<open>A secret of the same name that is not the instance's own copy is left alone.\<close>

definition copyImagePullSecret ::
  "env \<Rightarrow> (object_meta \<Rightarrow> bool) \<Rightarrow> 'w client \<Rightarrow> ArgoCD_beta \<Rightarrow> secret \<Rightarrow> ('w, unit) act" where
  "copyImagePullSecret e controlled c cr src =
     (let name = metaName (secMeta src)
      in handle (getAs c as_secret (KSecret, crNamespace cr, name))
        (\<lambda>err. if \<not> IsNotFound err
           then fail (Wrapped (''failed to get secret '' @ name @ '' in namespace '' @ crNamespace cr) err)
           else bindG (mapErr (Wrapped (''failed to set owner on copied secret '' @ name)) (controlledBy e cr (secMeta (copyOf cr src))))
             (\<lambda>m. mapErr (Wrapped (''failed to create copied secret '' @ name)) (createO c (OSecret ((copyOf cr src)\<lparr>secMeta := m\<rparr>)))))
        (\<lambda>existing.
           if gindex (metaLabels (secMeta existing)) copiedLabel \<noteq> name \<or> \<not> controlled (secMeta existing) then ret ()
           else if secData existing \<noteq> secData src \<or> secType existing \<noteq> secType src
           then mapErr (Wrapped (''failed to update copied secret '' @ name))
             (updateO c (OSecret (existing\<lparr>secData := secData src, secType := secType src\<rparr>)))
           else ret ()))"

definition deleteStaleCopy :: "(object_meta \<Rightarrow> bool) \<Rightarrow> 'w client \<Rightarrow> string list \<Rightarrow> obj \<Rightarrow> ('w, unit) act" where
  "deleteStaleCopy controlled c desired x =
     (if controlled (obj_meta x) \<and> gindex (obj_labels x) copiedLabel \<notin> set desired
      then handle (deleteO c (okey x))
        (\<lambda>err. if IsNotFound err then ret ()
           else fail (Wrapped (''failed to delete stale copied secret '' @ metaName (obj_meta x)) err)) ret
      else ret ())"

definition reconcileImagePullSecrets ::
  "env \<Rightarrow> argo_flags \<Rightarrow> (object_meta \<Rightarrow> bool) \<Rightarrow> 'w client \<Rightarrow> ArgoCD_beta \<Rightarrow> ('w, unit) act" where
  "reconcileImagePullSecrets e f controlled c cr =
     (if versionFound f then ret ()
      else bindG (liftE (argoOperatorNamespace e)) (\<lambda>operatorNS.
        if operatorNS = crNamespace cr then ret ()
        else bindG (mapErr (Wrapped ''failed to list image pull secrets in operator namespace'')
            (listSelected c KSecret operatorNS ArgoCDImagePullSecretPropagateLabel ''true'')) (\<lambda>xs.
          let sources = (if length xs > 1 then [] else List.map_filter as_secret xs)
          in thenG (forG (copyImagePullSecret e controlled c cr) sources)
            (bindG (mapErr (Wrapped ''failed to list copied image pull secrets'') (listO c KSecret)) (\<lambda>ys.
              forG (deleteStaleCopy controlled c (map (\<lambda>s. metaName (secMeta s)) sources))
                (filter (\<lambda>x. metaNamespace (obj_meta x) = crNamespace cr \<and> gget (obj_labels x) copiedLabel \<noteq> None) ys))))))"

section \<open>Tokens of Dex that never expire\<close>

definition isLegacyDexToken :: "string \<Rightarrow> string \<Rightarrow> secret \<Rightarrow> bool" where
  "isLegacyDexToken ns dexAccount s \<longleftrightarrow> metaNamespace (secMeta s) = ns \<and>
     secType s = ''kubernetes.io/service-account-token'' \<and>
     gindex (metaAnnotations (secMeta s)) ''kubernetes.io/service-account.name'' = dexAccount"

text \<open>The errors of the deletions and the names of the secrets that are no more.\<close>

fun deleteLegacyTokens :: "'w client \<Rightarrow> secret list \<Rightarrow> ('w, go_error list \<times> string list) act" where
  "deleteLegacyTokens c [] = ret ([], [])"
| "deleteLegacyTokens c (s # ss) =
     bindG (handle (deleteO c (secKeyOf s))
        (\<lambda>err. ret (if IsNotFound err then ([], [metaName (secMeta s)])
           else ([Wrapped (''delete legacy dex token secret '' @ metaNamespace (secMeta s) @ ''/'' @ metaName (secMeta s)) err], [])))
        (\<lambda>_. ret ([], [metaName (secMeta s)]))) (\<lambda>(errs, names).
     bindG (deleteLegacyTokens c ss) (\<lambda>(errs', names'). ret (errs @ errs', names @ names')))"

definition joinedErrors :: "go_error list \<Rightarrow> ('w, unit) act" where
  "joinedErrors errs = (if errs = [] then ret () else fail (Joined errs))"

definition reconcileDexLegacySATokenSecrets :: "env \<Rightarrow> 'w client \<Rightarrow> ArgoCD_beta \<Rightarrow> ('w, unit) act" where
  "reconcileDexLegacySATokenSecrets e c cr =
     (let sa = newServiceAccountWithName e dexServerComponent cr
      in bindG (listO c KSecret) (\<lambda>xs.
         bindG (deleteLegacyTokens c (filter (isLegacyDexToken (crNamespace cr) (metaName (saMeta sa))) (List.map_filter as_secret xs)))
           (\<lambda>(errs, deleted).
         handle (getAs c as_service_account (saKeyOf sa))
           (\<lambda>err. if IsNotFound err then joinedErrors errs else fail (Joined (err # errs)))
           (\<lambda>found. let kept = filter (\<lambda>n. n \<notin> set deleted) (elems (saSecrets found))
              in if length kept \<noteq> length (elems (saSecrets found))
                 then handle (updateO c (OServiceAccount (found\<lparr>saSecrets := Some kept\<rparr>)))
                   (\<lambda>err. fail (Joined (err # errs))) (\<lambda>_. joinedErrors errs)
                 else joinedErrors errs))))"

section \<open>All secrets of an instance\<close>

text \<open>\<open>reconcileGrafanaSecret\<close> only logs.\<close>

definition reconcileClusterSecrets :: "env \<Rightarrow> secret_tools \<Rightarrow> glob_match \<Rightarrow> 'w client \<Rightarrow> ArgoCD_beta \<Rightarrow> ('w, unit) act" where
  "reconcileClusterSecrets e t match c cr =
     thenG (reconcileClusterMainSecret e t c cr) (thenG (reconcileRedisInitialPasswordSecret e t c cr)
     (thenG (reconcileClusterCASecret e t c cr) (thenG (reconcileClusterTLSSecret e t c cr)
       (reconcileClusterPermissionsSecret e match c cr))))"

definition reconcileSecrets ::
  "env \<Rightarrow> secret_tools \<Rightarrow> 'w dex_tools \<Rightarrow> glob_match \<Rightarrow> 'w client \<Rightarrow> ArgoCD_beta \<Rightarrow> ('w, unit) act" where
  "reconcileSecrets e t d match c cr =
     thenG (reconcileClusterSecrets e t match c cr) (thenG (reconcileDexLegacySATokenSecrets e c cr)
       (reconcileArgoSecret e t (getDexOAuthClientSecret e d c cr) c cr))"

end
