(* ===== verification/Instance_Secrets_Correct.thy ===== *)
theory Instance_Secrets_Correct
  imports Instance_Secrets Instance_Rbac_Correct
begin

text \<open>
  The secrets of an instance (\<open>secret.go\<close>, \<open>dex.go\<close>): lemmas on the operations of Instance_Secrets, and what
  the operator relies on when it lists Secrets (the locale \<open>tracked_lister\<close>). Reads may label a Secret, so the
  statements speak of the data of Secrets (\<open>secret_data\<close>, \<open>secret_value\<close>). The properties are in
  Instance_Credentials.
\<close>

section \<open>Maps\<close>

lemma gget_gput [simp]: "gget (gput m k v) k' = (if k' = k then Some v else gget m k')"
  by (cases m) (simp_all add: gput_def gget_def)

lemma gget_gdelete [simp]: "gget (gdelete m k) k' = (if k' = k then None else gget m k')"
  by (cases m) (simp_all add: gdelete_def gget_def)

lemma gget_gmake [simp]: "gget (gmake m) k = gget m k"
  by (cases m) (simp_all add: gmake_def gget_def)

section \<open>Listing secrets\<close>

text \<open>The cache keeps tracked Secrets whole, and of the others all but the data; a read adds the tracking label
  at most.\<close>

locale tracked_lister = secret_lister +
  assumes list_whole: "cList c w KSecret = (Inr xs, w') \<Longrightarrow> x \<in> set xs \<Longrightarrow> IsTrackedByOperator x \<Longrightarrow>
      view w (okey x) = Some x"
    and list_heads: "cList c w KSecret = (Inr xs, w') \<Longrightarrow> view w k = Some (OSecret s) \<Longrightarrow>
      \<exists>s'. OSecret s' \<in> set xs \<and> secMeta s' = secMeta s \<and> secType s' = secType s"
    and list_known: "cList c w KSecret = (Inr xs, w') \<Longrightarrow> x \<in> set xs \<Longrightarrow>
      \<exists>s s'. x = OSecret s' \<and> view w (okey x) = Some (OSecret s) \<and> secMeta s' = secMeta s \<and> secType s' = secType s"
    and refresh_adds: "l \<noteq> ArgoCDTrackedByOperatorLabel \<Longrightarrow> gget (obj_labels (refresh x)) l = gget (obj_labels x) l"

interpretation mem_tracked: tracked_lister mem_client mem_view id id
proof
  show "gget (obj_labels (id x)) l = gget (obj_labels x) l" for x l by simp
  fix w xs w' x k s
  assume l: "cList mem_client w KSecret = (Inr xs, w')"
  show "mem_view w (okey x) = Some x" if "x \<in> set xs" "IsTrackedByOperator x" using l that by (auto simp: mem_client_def)
  show "\<exists>s'. OSecret s' \<in> set xs \<and> secMeta s' = secMeta s \<and> secType s' = secType s" if "mem_view w k = Some (OSecret s)"
    using l that mem_view_in[OF that] mem_view_key[OF that] by (auto simp: mem_client_def)
  show "\<exists>s s'. x = OSecret s' \<and> mem_view w (okey x) = Some (OSecret s) \<and> secMeta s' = secMeta s \<and> secType s' = secType s"
    if "x \<in> set xs" using l that by (cases x) (auto simp: mem_client_def)
qed

interpretation wrapped_tracked:
  tracked_lister "NewClientWrapper (strip_cache mem_client) mem_client" mem_view id track
proof (intro tracked_lister.intro tracked_lister_axioms.intro wrapped_lister.secret_lister_axioms)
  show "gget (obj_labels (track x)) l = gget (obj_labels x) l" if "l \<noteq> ArgoCDTrackedByOperatorLabel" for x l
    using that by (simp add: track_def addTrackingLabel_def)
  fix w xs w' x k s
  assume "cList (NewClientWrapper (strip_cache mem_client) mem_client) w KSecret = (Inr xs, w')"
  then obtain ys where l: "cList mem_client w KSecret = (Inr ys, w')"
    and xs: "xs = map StripDataFromSecretOrConfigMapTransform ys"
    by (auto simp: NewClientWrapper_def strip_cache_def mem_client_def)
  have strip: "\<exists>s'. StripDataFromSecretOrConfigMapTransform (OSecret s) = OSecret s' \<and> secMeta s' = secMeta s \<and> secType s' = secType s"
    for s by auto
  show "mem_view w (okey x) = Some x" if x: "x \<in> set xs" and tr: "IsTrackedByOperator x"
  proof -
    from x xs obtain y where y: "y \<in> set ys" "x = StripDataFromSecretOrConfigMapTransform y" by auto
    with tr have "IsTrackedByOperator y" by (simp add: tracked_strip)
    moreover from mem_tracked.list_known[OF l y(1)] obtain s where "y = OSecret s" by blast
    ultimately have "x = y" using y(2) by simp
    with mem_tracked.list_whole[OF l y(1)] \<open>IsTrackedByOperator y\<close> show ?thesis by simp
  qed
  show "\<exists>s'. OSecret s' \<in> set xs \<and> secMeta s' = secMeta s \<and> secType s' = secType s" if v: "mem_view w k = Some (OSecret s)"
  proof -
    from mem_tracked.list_heads[OF l v] obtain s1 where s1: "OSecret s1 \<in> set ys" "secMeta s1 = secMeta s" "secType s1 = secType s"
      by blast
    from strip[of s1] obtain s' where "StripDataFromSecretOrConfigMapTransform (OSecret s1) = OSecret s'"
      "secMeta s' = secMeta s1" "secType s' = secType s1" by blast
    with s1 show ?thesis unfolding xs by (auto intro!: exI[of _ s'] image_eqI[of _ _ "OSecret s1"])
  qed
  show "\<exists>s s'. x = OSecret s' \<and> mem_view w (okey x) = Some (OSecret s) \<and> secMeta s' = secMeta s \<and> secType s' = secType s"
    if x: "x \<in> set xs"
  proof -
    from x xs obtain y where y: "y \<in> set ys" "x = StripDataFromSecretOrConfigMapTransform y" by auto
    from mem_tracked.list_known[OF l y(1)] obtain s s1 where s: "y = OSecret s1" "mem_view w (okey y) = Some (OSecret s)"
      "secMeta s1 = secMeta s" "secType s1 = secType s" by blast
    from strip[of s1] y(2) s(1) obtain s' where "x = OSecret s'" "secMeta s' = secMeta s1" "secType s' = secType s1" by auto
    moreover have "okey x = okey y" using y(2) by simp
    ultimately show ?thesis using s by auto
  qed
qed

section \<open>Secrets through the client\<close>

lemma as_secret_iff [simp]: "as_secret x = Some s \<longleftrightarrow> x = OSecret s"
  by (cases x) auto

lemma okey_putData [simp]: "okey (OSecret (putData k v s)) = okey (OSecret s)"
  by (simp add: putData_def)

lemma putData_get [simp]: "gget (secData (putData k v s)) k' = (if k' = k then Some v else gget (secData s) k')"
  by (simp add: putData_def)

lemma putData_meta [simp]: "secMeta (putData k v s) = secMeta s" "secType (putData k v s) = secType s"
  by (simp_all add: putData_def)

lemma gindex_Some: "gget m k = Some v \<Longrightarrow> gindex m k = v"
  by (simp add: gindex_def)

lemma secKeyOf_meta: "secKeyOf s = (KSecret, metaNamespace (secMeta s), metaName (secMeta s))"
  by (simp add: secKeyOf_def okey_def)

lemma secretNamed_fields [simp]:
  "metaNamespace (secMeta (secretNamed e name cr)) = crNamespace cr"
  "metaName (secMeta (secretNamed e name cr)) = TruncateWithHash e name maxLabelLength"
  "secData (secretNamed e name cr) = None"
  by (simp_all add: secretNamed_def Let_def)

context k8s_client begin

lemma secret_at: "fst k = KSecret \<Longrightarrow> view w k = Some x \<Longrightarrow> \<exists>s. x = OSecret s"
  by (cases x) (auto dest: view_key simp: okey_def)

lemma secret_data_None: "fst k = KSecret \<Longrightarrow> secret_data view w k = None \<longleftrightarrow> view w k = None"
  using secret_at[of k w] by (cases "view w k") (auto simp: secret_data_def)

lemma findSecretAt_Ok:
  assumes "IsObjectFound c as_secret k w = (Ok r, w')"
  shows "secret_data view w' = secret_data view w" and "r = None \<Longrightarrow> secret_data view w (k) = None"
    and "r = Some a \<Longrightarrow> secret_data view w (k) = Some (secData a) \<and> okey (OSecret a) = k"
proof -
  from assms show "secret_data view w' = secret_data view w"
    unfolding IsObjectFound_def
    by (auto simp: handle_Ok_iff split: if_splits dest!: getAs_data)
  show "r = None \<Longrightarrow> secret_data view w (k) = None"
    using assms unfolding IsObjectFound_def
    by (auto simp: handle_Ok_iff secret_data_def split: if_splits dest!: getAs_NotFound(1))
  show "secret_data view w (k) = Some (secData a) \<and> okey (OSecret a) = k" if "r = Some a"
    using assms that unfolding IsObjectFound_def
    by (auto simp: handle_Ok_iff split: if_splits dest: getAs_secret)
qed

lemma findSecret_Ok:
  assumes "findSecret c s w = (Ok r, w')"
  shows "secret_data view w' = secret_data view w" and "r = None \<Longrightarrow> secret_data view w (secKeyOf s) = None"
    and "r = Some a \<Longrightarrow> secret_data view w (secKeyOf s) = Some (secData a) \<and> okey (OSecret a) = secKeyOf s"
  using findSecretAt_Ok[OF assms[unfolded findSecret_def]] by simp_all

end

context verbatim_client begin

lemma createOwnedSecret_Ok:
  assumes "createOwnedSecret e c cr s w = (Ok u, w')"
  shows "secret_data view w' = (secret_data view w)(secKeyOf s := Some (secData s))"
    and "secret_data view w (secKeyOf s) = None"
proof -
  from assms obtain m w1 where m: "controlledBy e cr (secMeta s) w = (Ok m, w1)"
    and c: "createO c (OSecret (s\<lparr>secMeta := m\<rparr>)) w1 = (Ok u, w')"
    by (auto simp: createOwnedSecret_def bindG_Ok_iff)
  from m have w1: "w1 = w" and k: "okey (OSecret (s\<lparr>secMeta := m\<rparr>)) = secKeyOf s"
    by (auto simp: controlledBy_Ok_iff secKeyOf_def okey_def dest: SetControllerReference_Inr)
  from createO_secret(2,3)[OF c] w1 k
  show "secret_data view w' = (secret_data view w)(secKeyOf s := Some (secData s))" "secret_data view w (secKeyOf s) = None"
    by (simp_all add: secret_data_def)
qed

end

section \<open>Secrets that are made once\<close>

context verbatim_client begin

text \<open>Look for a secret, and make it if it is not there.\<close>

lemma makeOnce_Ok:
  assumes "bindG (findSecret c s) (\<lambda>found. case found of Some _ \<Rightarrow> ret () | None \<Rightarrow> m) w = (Ok (), w')"
    and "\<And>w1 w'. m w1 = (Ok (), w') \<Longrightarrow> \<exists>d. secret_data view w' = (secret_data view w1)(secKeyOf s := Some d) \<and> P d"
  shows "secret_data view w (secKeyOf s) = Some d \<Longrightarrow> secret_data view w' = secret_data view w"
    and "secret_data view w (secKeyOf s) = None \<Longrightarrow>
      \<exists>d. secret_data view w' = (secret_data view w)(secKeyOf s := Some d) \<and> P d"
proof -
  from assms(1) obtain r w1 where f: "findSecret c s w = (Ok r, w1)"
    and n: "(case r of Some _ \<Rightarrow> ret () | None \<Rightarrow> m) w1 = (Ok (), w')" by (auto simp: bindG_Ok_iff)
  note found = findSecret_Ok[OF f]
  show "secret_data view w' = secret_data view w" if "secret_data view w (secKeyOf s) = Some d"
    using n found(1) found(2) that by (cases r) auto
  show "\<exists>d. secret_data view w' = (secret_data view w)(secKeyOf s := Some d) \<and> P d" if "secret_data view w (secKeyOf s) = None"
    using n found(1) found(3) that assms(2)[of w1 w'] by (cases r) auto
qed

lemma reconcileClusterMainSecret_Ok:
  assumes "reconcileClusterMainSecret e t c cr w = (Ok (), w')"
  defines "k \<equiv> secKeyOf (secretWithSuffix e ''cluster'' cr)"
  shows "secret_data view w k = Some d \<Longrightarrow> secret_data view w' = secret_data view w"
    and "secret_data view w k = None \<Longrightarrow> \<exists>d. secret_data view w' = (secret_data view w)(k := Some d) \<and>
      (\<exists>p. generateArgoAdminPassword t = Inr p \<and> gget d ArgoCDKeyAdminPassword = Some p)"
proof -
  let ?m = "bindG (liftE (generateArgoAdminPassword t)) (\<lambda>p. createOwnedSecret e c cr
     ((secretWithSuffix e ''cluster'' cr)\<lparr>secData := gmap [(ArgoCDKeyAdminPassword, p)]\<rparr>))"
  have m: "\<exists>d. secret_data view w' = (secret_data view w1)(k := Some d) \<and>
      (\<exists>p. generateArgoAdminPassword t = Inr p \<and> gget d ArgoCDKeyAdminPassword = Some p)" if "?m w1 = (Ok (), w')" for w1 w'
    using that by (auto simp: ok_iff k_def gmap_def gget_def secKeyOf_meta dest!: createOwnedSecret_Ok(1))
  from assms(1) have r: "bindG (findSecret c (secretWithSuffix e ''cluster'' cr))
      (\<lambda>found. case found of Some _ \<Rightarrow> ret () | None \<Rightarrow> ?m) w = (Ok (), w')"
    by (simp add: reconcileClusterMainSecret_def Let_def cong: option.case_cong)
  note o = makeOnce_Ok[OF r, folded k_def, OF m]
  show "secret_data view w k = Some d \<Longrightarrow> secret_data view w' = secret_data view w" using o(1) .
  show "secret_data view w k = None \<Longrightarrow> \<exists>d. secret_data view w' = (secret_data view w)(k := Some d) \<and>
      (\<exists>p. generateArgoAdminPassword t = Inr p \<and> gget d ArgoCDKeyAdminPassword = Some p)" using o(2) .
qed

lemma newCASecret_Inr:
  assumes "newCASecret e t cr = Inr s"
  shows "secKeyOf s = secKeyOf (secretNamed e (getCASecretName e cr) cr)"
    and "\<exists>key cert. selfSignedCACertificate t (crName cr) key = Inr cert \<and> gget (secData s) ArgoCDKeyTLSCert = Some cert \<and>
      gget (secData s) ArgoCDKeyTLSPrivateKey = Some key"
  using assms by (auto simp: newCASecret_def secKeyOf_meta gmap_def gget_def ArgoCDKeyTLSCert_def ArgoCDKeyTLSPrivateKey_def
      split: sum.splits)

lemma reconcileClusterCASecret_Ok:
  assumes "reconcileClusterCASecret e t c cr w = (Ok (), w')"
  defines "k \<equiv> secKeyOf (secretNamed e (getCASecretName e cr) cr)"
  shows "getCASecretName e cr \<noteq> GetSecretNameWithSuffix e cr ''tls''"
    and "secret_data view w k = Some d \<Longrightarrow> secret_data view w' = secret_data view w"
    and "secret_data view w k = None \<Longrightarrow> \<exists>d. secret_data view w' = (secret_data view w)(k := Some d) \<and>
      (\<exists>key cert. selfSignedCACertificate t (crName cr) key = Inr cert \<and> gget d ArgoCDKeyTLSCert = Some cert \<and>
        gget d ArgoCDKeyTLSPrivateKey = Some key)"
proof -
  let ?P = "\<lambda>d. \<exists>key cert. selfSignedCACertificate t (crName cr) key = Inr cert \<and> gget d ArgoCDKeyTLSCert = Some cert \<and>
      gget d ArgoCDKeyTLSPrivateKey = Some key"
  let ?m = "bindG (liftE (newCASecret e t cr)) (createOwnedSecret e c cr)"
  have m: "\<exists>d. secret_data view w' = (secret_data view w1)(k := Some d) \<and> ?P d" if "?m w1 = (Ok (), w')" for w1 w'
  proof -
    from that obtain s where s: "newCASecret e t cr = Inr s" and c: "createOwnedSecret e c cr s w1 = (Ok (), w')"
      by (auto simp: ok_iff)
    from createOwnedSecret_Ok(1)[OF c] newCASecret_Inr[OF s] show ?thesis by (auto simp: k_def)
  qed
  show "getCASecretName e cr \<noteq> GetSecretNameWithSuffix e cr ''tls''" using assms(1)
    by (auto simp: reconcileClusterCASecret_def)
  with assms(1) have r: "bindG (findSecret c (secretNamed e (getCASecretName e cr) cr))
      (\<lambda>found. case found of Some _ \<Rightarrow> ret () | None \<Rightarrow> ?m) w = (Ok (), w')"
    by (simp add: reconcileClusterCASecret_def cong: option.case_cong)
  note o = makeOnce_Ok[OF r, folded k_def, OF m]
  show "secret_data view w k = Some d \<Longrightarrow> secret_data view w' = secret_data view w" using o(1) .
  show "secret_data view w k = None \<Longrightarrow> \<exists>d. secret_data view w' = (secret_data view w)(k := Some d) \<and> ?P d" using o(2) .
qed

lemma newCertificateSecret_Inr:
  assumes "newCertificateSecret e t sfx caCert caKey cr = Inr s"
  shows "secKeyOf s = secKeyOf (newTLSSecret e sfx cr)"
    and "\<exists>key cert. signedCertificate t (certificateRequest e (metaName (secMeta (newTLSSecret e sfx cr))) cr) key caCert caKey = Inr cert \<and>
      gget (secData s) ArgoCDKeyTLSCert = Some cert \<and> gget (secData s) ArgoCDKeyTLSPrivateKey = Some key"
  using assms by (auto simp: newCertificateSecret_def Let_def secKeyOf_meta gmap_def gget_def ArgoCDKeyTLSCert_def
      ArgoCDKeyTLSPrivateKey_def split: sum.splits)

lemma reconcileClusterTLSSecret_Ok:
  assumes "reconcileClusterTLSSecret e t c cr w = (Ok (), w')"
  defines "k \<equiv> secKeyOf (newTLSSecret e ''tls'' cr)" and "ca \<equiv> secKeyOf (secretNamed e (getCASecretName e cr) cr)"
  shows "secret_data view w k = Some d \<Longrightarrow> secret_data view w' = secret_data view w"
    and "secret_data view w k = None \<Longrightarrow> \<exists>d. secret_data view w' = (secret_data view w)(k := Some d) \<and>
      (\<exists>a caCert caKey key cert. secret_data view w ca = Some a \<and>
        parseCert t (gindex a ArgoCDKeyTLSCert) = Inr caCert \<and> parsePrivateKey t (gindex a ArgoCDKeyTLSPrivateKey) = Inr caKey \<and>
        signedCertificate t (certificateRequest e (metaName (secMeta (newTLSSecret e ''tls'' cr))) cr) key caCert caKey = Inr cert \<and>
        gget d ArgoCDKeyTLSCert = Some cert \<and> gget d ArgoCDKeyTLSPrivateKey = Some key)"
proof -
  from assms(1) obtain r w1 where f: "findSecret c (newTLSSecret e ''tls'' cr) w = (Ok r, w1)"
    and n: "(case r of Some _ \<Rightarrow> ret () | None \<Rightarrow> bindG (getAs c as_secret ca) (\<lambda>ca.
         bindG (liftE (parseCert t (gindex (secData ca) ArgoCDKeyTLSCert))) (\<lambda>caCert.
         bindG (liftE (parsePrivateKey t (gindex (secData ca) ArgoCDKeyTLSPrivateKey))) (\<lambda>caKey.
         bindG (liftE (newCertificateSecret e t ''tls'' caCert caKey cr)) (createOwnedSecret e c cr))))) w1 = (Ok (), w')"
    by (auto simp: bindG_Ok_iff reconcileClusterTLSSecret_def ca_def cong: option.case_cong)
  note found = findSecret_Ok[OF f, folded k_def]
  show "secret_data view w k = Some d \<Longrightarrow> secret_data view w' = secret_data view w"
    using n found(1,2) by (cases r) auto
  assume none: "secret_data view w k = None"
  with found(3) have "r = None" by (cases r) auto
  with n obtain a w2 caCert caKey s where g: "getAs c as_secret ca w1 = (Ok a, w2)"
    and p: "parseCert t (gindex (secData a) ArgoCDKeyTLSCert) = Inr caCert"
      "parsePrivateKey t (gindex (secData a) ArgoCDKeyTLSPrivateKey) = Inr caKey"
    and s: "newCertificateSecret e t ''tls'' caCert caKey cr = Inr s" and c: "createOwnedSecret e c cr s w2 = (Ok (), w')"
    by (auto simp: ok_iff)
  from createOwnedSecret_Ok(1)[OF c] newCertificateSecret_Inr(1)[OF s] getAs_data[OF g] found(1)
  have "secret_data view w' = (secret_data view w)(k := Some (secData s))" by (simp add: k_def)
  moreover from getAs_secret(1)[OF g] found(1) have "secret_data view w ca = Some (secData a)" by simp
  moreover note newCertificateSecret_Inr(2)[OF s] p
  ultimately show "\<exists>d. secret_data view w' = (secret_data view w)(k := Some d) \<and>
      (\<exists>a caCert caKey key cert. secret_data view w ca = Some a \<and>
        parseCert t (gindex a ArgoCDKeyTLSCert) = Inr caCert \<and> parsePrivateKey t (gindex a ArgoCDKeyTLSPrivateKey) = Inr caKey \<and>
        signedCertificate t (certificateRequest e (metaName (secMeta (newTLSSecret e ''tls'' cr))) cr) key caCert caKey = Inr cert \<and>
        gget d ArgoCDKeyTLSCert = Some cert \<and> gget d ArgoCDKeyTLSPrivateKey = Some key)" by blast
qed

end

context verbatim_client begin

lemma reconcileRedisInitialPasswordSecret_Ok:
  assumes "reconcileRedisInitialPasswordSecret e t c cr w = (Ok (), w')"
  defines "k \<equiv> secKeyOf (secretWithSuffix e ''redis-initial-password'' cr)"
  shows "secret_data view w k = Some d \<Longrightarrow> redisSecretHealthy d \<Longrightarrow> secret_data view w' = secret_data view w"
    and "\<not> (\<exists>d. secret_data view w k = Some d \<and> redisSecretHealthy d) \<Longrightarrow>
      \<exists>p. generateRedisAdminPassword t = Inr p \<and> secret_data view w' = (secret_data view w)(k := Some (GetRedisSecretData p))"
proof -
  let ?s = "secretWithSuffix e ''redis-initial-password'' cr"
  define renew where "renew wr = bindG (liftE (generateRedisAdminPassword t)) (\<lambda>p.
     bindG (controlledBy e cr (secMeta ?s)) (\<lambda>m. wr (OSecret (?s\<lparr>secData := GetRedisSecretData p, secMeta := m\<rparr>))))"
    for wr :: "obj \<Rightarrow> ('a, unit) act"
  have renewed: "\<exists>p. generateRedisAdminPassword t = Inr p \<and>
      secret_data view w' = (secret_data view w1)(k := Some (GetRedisSecretData p))"
    if "renew wr w1 = (Ok (), w')" and "wr = createO c \<or> wr = updateO c" for wr w1
  proof -
    from that(1) obtain p m where p: "generateRedisAdminPassword t = Inr p" and m: "controlledBy e cr (secMeta ?s) w1 = (Ok m, w1)"
      and saved: "wr (OSecret (?s\<lparr>secData := GetRedisSecretData p, secMeta := m\<rparr>)) w1 = (Ok (), w')"
      by (auto simp: renew_def ok_iff controlledBy_Ok_iff)
    from m have "okey (OSecret (?s\<lparr>secData := GetRedisSecretData p, secMeta := m\<rparr>)) = k"
      by (auto simp: controlledBy_Ok_iff k_def secKeyOf_def okey_def dest: SetControllerReference_Inr)
    with p saved that(2) show ?thesis by (auto dest!: createO_secret(2) updateO_secret(2))
  qed
  from assms(1) have run: "handle (getAs c as_secret k)
      (\<lambda>err. if \<not> IsNotFound err then fail err else renew (createO c))
      (\<lambda>found. if redisSecretHealthy (secData found) then ret () else renew (updateO c)) w = (Ok (), w')"
    unfolding renew_def k_def reconcileRedisInitialPasswordSecret_def Let_def .
  consider (found) a w1 where "getAs c as_secret k w = (Ok a, w1)"
      "(if redisSecretHealthy (secData a) then ret () else renew (updateO c)) w1 = (Ok (), w')"
    | (none) err w1 where "getAs c as_secret k w = (Err err, w1)" "IsNotFound err" "renew (createO c) w1 = (Ok (), w')"
    using run by (auto simp: handle_Ok_iff split: if_splits)
  then show "secret_data view w k = Some d \<Longrightarrow> redisSecretHealthy d \<Longrightarrow> secret_data view w' = secret_data view w"
    "\<not> (\<exists>d. secret_data view w k = Some d \<and> redisSecretHealthy d) \<Longrightarrow>
      \<exists>p. generateRedisAdminPassword t = Inr p \<and> secret_data view w' = (secret_data view w)(k := Some (GetRedisSecretData p))"
  proof (atomize (full), cases)
    case found
    from getAs_secret(1)[OF found(1)] getAs_data[OF found(1)] found(2) renewed[of "updateO c" w1]
    show "(secret_data view w k = Some d \<longrightarrow> redisSecretHealthy d \<longrightarrow> secret_data view w' = secret_data view w) \<and>
      (\<not> (\<exists>d. secret_data view w k = Some d \<and> redisSecretHealthy d) \<longrightarrow>
       (\<exists>p. generateRedisAdminPassword t = Inr p \<and> secret_data view w' = (secret_data view w)(k := Some (GetRedisSecretData p))))"
      by (auto split: if_splits)
  next
    case none
    from getAs_NotFound[OF none(1,2)] have "secret_data view w k = None" "secret_data view w1 = secret_data view w"
      by (simp_all add: secret_data_def fun_eq_iff)
    with renewed[OF none(3)]
    show "(secret_data view w k = Some d \<longrightarrow> redisSecretHealthy d \<longrightarrow> secret_data view w' = secret_data view w) \<and>
      (\<not> (\<exists>d. secret_data view w k = Some d \<and> redisSecretHealthy d) \<longrightarrow>
       (\<exists>p. generateRedisAdminPassword t = Inr p \<and> secret_data view w' = (secret_data view w)(k := Some (GetRedisSecretData p))))"
      by auto
  qed
qed

end

section \<open>The namespaces of the cluster secret\<close>

text \<open>Which namespaces the instance manages.\<close>

definition managedHere :: "('w \<Rightarrow> key \<Rightarrow> obj option) \<Rightarrow> env \<Rightarrow> glob_match \<Rightarrow> 'w \<Rightarrow> ArgoCD_beta \<Rightarrow> string \<Rightarrow> bool" where
  "managedHere view e match w cr n \<longleftrightarrow> n = crNamespace cr \<or>
     (\<exists>ns. view w (okey (ONamespace ns)) = Some (ONamespace ns) \<and> namespaceName ns = n \<and> isNamespaceLabelledManagedBy ns (crNamespace cr)) \<or>
     isNamespaceManagementEnabled e \<and>
     (\<exists>nm. managementIn view w nm \<and> targetsInstance cr nm \<and> metaNamespace (nmMeta nm) = n \<and> match (allowedNsPatterns cr) n)"

definition sortedSet :: "string set \<Rightarrow> string list \<Rightarrow> bool" where
  "sortedSet S xs \<longleftrightarrow> set xs = S \<and> sorted xs \<and> distinct xs"

lemma sortedSet_sort [simp]: "sortedSet S (sort (remdups xs)) \<longleftrightarrow> set xs = S"
  by (simp add: sortedSet_def)

context verbatim_client begin

lemma generateSorted_Ok:
  assumes "generateSortedManagedNamespaceListForArgoCDCR e match c cr w = (Ok xs, w')"
  shows "view w' = view w" and "sortedSet {n. managedHere view e match w cr n} xs"
proof -
  from assms obtain os w1 ps where l: "listO c KNamespace w = (Ok os, w1)"
    and p: "(if isNamespaceManagementEnabled e
        then bindG (listNamespaceManagement c) (\<lambda>items. ret (permittedManagements match cr items)) else ret []) w1 = (Ok ps, w')"
    and xs: "xs = sort (remdups (map namespaceName (filter (\<lambda>ns. isNamespaceLabelledManagedBy ns (crNamespace cr))
        (List.map_filter as_namespace os)) @ ps @ [crNamespace cr]))"
    by (auto simp: generateSortedManagedNamespaceListForArgoCDCR_def bindG_Ok_iff Let_def)
  from listO_view[OF l] have w1: "view w1 = view w" .
  from l have "cList c w KNamespace = (Inr os, w1)" by (auto simp: listO_def split: prod.splits sum.splits)
  from list_found[OF this] have os: "set os = {x. obj_kind x = KNamespace \<and> view w (okey x) = Some x}"
    by (simp add: refreshable_def)
  have nss: "ns \<in> set (List.map_filter as_namespace os) \<longleftrightarrow> view w (okey (ONamespace ns)) = Some (ONamespace ns)" for ns
  proof -
    have "as_namespace y = Some ns \<longleftrightarrow> y = ONamespace ns" for y by (cases y) auto
    then have "ns \<in> set (List.map_filter as_namespace os) \<longleftrightarrow> ONamespace ns \<in> set os" by (force simp: List.map_filter_def)
    then show ?thesis by (simp add: os)
  qed
  have "view w' = view w \<and> (isNamespaceManagementEnabled e \<longrightarrow> set ps =
      {metaNamespace (nmMeta nm) | nm. managementIn view w nm \<and> targetsInstance cr nm \<and> match (allowedNsPatterns cr) (metaNamespace (nmMeta nm))})
      \<and> (\<not> isNamespaceManagementEnabled e \<longrightarrow> ps = [])"
  proof (cases "isNamespaceManagementEnabled e")
    case True
    with p obtain items where i: "listNamespaceManagement c w1 = (Ok items, w')" and ps: "ps = permittedManagements match cr items"
      by (auto simp: bindG_Ok_iff)
    note i = listNamespaceManagement_Ok[OF i]
    show ?thesis using i w1 True unfolding ps permittedManagements_def by (auto simp: managementIn_def)
  next
    case False
    with p w1 show ?thesis by simp
  qed
  then show "view w' = view w" "sortedSet {n. managedHere view e match w cr n} xs"
    unfolding xs by (auto simp: managedHere_def nss)
qed

end

text \<open>The names in the value of the key are a set, in order.\<close>

definition listsNamespaces :: "string set \<Rightarrow> gomap \<Rightarrow> bool" where
  "listsNamespaces S d \<longleftrightarrow> sortedSet S (splitOn (CHR '','') (gindex d ''namespaces''))"

definition namesIn :: "gomap \<Rightarrow> string set" where
  "namesIn d = set (map TrimSpace (splitOn (CHR '','') (gindex d ''namespaces'')))"

lemma namesIn_no_comma: "n \<in> namesIn d \<Longrightarrow> CHR '','' \<notin> set n"
  using set_TrimSpace splitOn_no_comma by (fastforce simp: namesIn_def)

lemma split_sortedSet:
  assumes "sortedSet S xs" and "\<And>n. n \<in> S \<Longrightarrow> CHR '','' \<notin> set n" and "S \<noteq> {}"
  shows "sortedSet S (splitOn (CHR '','') (joinStr '','' xs))"
proof -
  from assms have "xs \<noteq> []" "\<forall>x\<in>set xs. CHR '','' \<notin> set x" by (auto simp: sortedSet_def)
  with splitOn_joinStr[of xs "CHR '',''"] assms(1) show ?thesis by simp
qed

lemma combine_lists:
  assumes "sortedSet S managed" and "\<And>n. n \<in> S \<Longrightarrow> CHR '','' \<notin> set n"
  shows "sortedSet (S \<union> namesIn (secData s)) (splitOn (CHR '','') (combineClusterSecretNamespacesWithManagedNamespaces s managed))"
  unfolding combineClusterSecretNamespacesWithManagedNamespaces_def
proof (rule split_sortedSet)
  show "sortedSet (S \<union> namesIn (secData s))
      (sort (remdups (managed @ map TrimSpace (splitOn (CHR '','') (gindex (secData s) ''namespaces'')))))"
    using assms(1) by (auto simp: sortedSet_def namesIn_def)
  show "CHR '','' \<notin> set n" if "n \<in> S \<union> namesIn (secData s)" for n using that assms(2) namesIn_no_comma by blast
  have "splitOn ch x \<noteq> []" for ch x by (cases x) (auto split: list.split)
  then show "S \<union> namesIn (secData s) \<noteq> {}" by (simp add: namesIn_def)
qed

context tracked_lister begin

lemma listClusterSecrets_Ok:
  assumes "listSelected c KSecret ns ArgoCDSecretTypeLabel ''cluster'' w = (Ok xs, w')"
  shows "view w' = view w"
    and "z \<in> set (List.map_filter as_secret xs) \<longleftrightarrow> view w (okey (OSecret z)) = Some (OSecret z) \<and>
      metaNamespace (secMeta z) = ns \<and> gget (metaLabels (secMeta z)) ArgoCDSecretTypeLabel = Some ''cluster''"
proof -
  from assms obtain ys where l: "listO c KSecret w = (Ok ys, w')"
    and xs: "xs = filter (\<lambda>x. metaNamespace (obj_meta x) = ns \<and> gget (obj_labels x) ArgoCDSecretTypeLabel = Some ''cluster'') ys"
    by (auto simp: listSelected_def bindG_Ok_iff)
  from listO_view[OF l] show "view w' = view w" .
  from l have c: "cList c w KSecret = (Inr ys, w')" by (auto simp: listO_def split: prod.splits sum.splits)
  have tr: "IsTrackedByOperator x" if "gget (obj_labels x) ArgoCDSecretTypeLabel = Some ''cluster''" for x
    using that by (auto simp: IsTrackedByOperator_def trackedLabels_def)
  have "z \<in> set (List.map_filter as_secret xs) \<longleftrightarrow> OSecret z \<in> set xs" by (force simp: List.map_filter_def)
  also have "\<dots> \<longleftrightarrow> view w (okey (OSecret z)) = Some (OSecret z) \<and>
      metaNamespace (secMeta z) = ns \<and> gget (metaLabels (secMeta z)) ArgoCDSecretTypeLabel = Some ''cluster''"
    unfolding xs using list_whole[OF c, of "OSecret z"] list_tracked[OF c, of "okey (OSecret z)" z] tr[of "OSecret z"]
    by (auto simp: obj_labels_def)
  finally show "z \<in> set (List.map_filter as_secret xs) \<longleftrightarrow> view w (okey (OSecret z)) = Some (OSecret z) \<and>
      metaNamespace (secMeta z) = ns \<and> gget (metaLabels (secMeta z)) ArgoCDSecretTypeLabel = Some ''cluster''" .
qed

lemma localClusterSecret_is:
  assumes "listSelected c KSecret ns ArgoCDSecretTypeLabel ''cluster'' w = (Ok xs, w')"
  shows "localClusterSecret (List.map_filter as_secret xs) = Some s \<Longrightarrow> clusterSecretOf view w ns s"
    and "localClusterSecret (List.map_filter as_secret xs) = None \<Longrightarrow> \<not> clusterSecretOf view w ns s"
  using listClusterSecrets_Ok(2)[OF assms, of s] localClusterSecret_Some[of "List.map_filter as_secret xs" s]
  by (auto simp: clusterSecretOf_def localClusterSecret_def filter_empty_conv split: list.splits)

end

text \<open>What becomes of the data of the cluster secret.\<close>

definition clusterSecretUpdated :: "bool \<Rightarrow> string set \<Rightarrow> gomap \<Rightarrow> gomap \<Rightarrow> bool" where
  "clusterSecretUpdated clusterScoped S d d' \<longleftrightarrow> (\<forall>k. k \<noteq> ''namespaces'' \<longrightarrow> gget d' k = gget d k) \<and>
     (if clusterScoped then gget d' ''namespaces'' = None else listsNamespaces (S \<union> namesIn d) d')"

context verbatim_client begin

lemma updateClusterSecret_Ok:
  assumes "updateClusterSecret scoped c managed s w = (Ok (), w')" and "view w (okey (OSecret s)) = Some (OSecret s)"
    and "sortedSet S managed" and "\<And>n. n \<in> S \<Longrightarrow> CHR '','' \<notin> set n"
  shows "\<exists>s'. view w' = (view w)(okey (OSecret s) \<mapsto> OSecret s') \<and> secMeta s' = secMeta s \<and>
    clusterSecretUpdated scoped S (secData s) (secData s')"
proof -
  let ?joined = "combineClusterSecretNamespacesWithManagedNamespaces s managed"
  let ?new = "if scoped then s\<lparr>secData := gdelete (secData s) ''namespaces''\<rparr> else putData ''namespaces'' ?joined s"
  from assms(1) consider (same) "w' = w" "if scoped then gget (secData s) ''namespaces'' = None else gindex (secData s) ''namespaces'' = ?joined"
    | (new) "updateO c (OSecret ?new) w = (Ok (), w')"
    by (auto simp: updateClusterSecret_def Let_def split: if_splits)
  then show ?thesis
  proof cases
    case same
    with combine_lists[OF assms(3,4), of s] have "clusterSecretUpdated scoped S (secData s) (secData s)"
      by (auto simp: clusterSecretUpdated_def listsNamespaces_def split: if_splits)
    with same assms(2) show ?thesis by (intro exI[of _ s]) auto
  next
    case new
    have "okey (OSecret ?new) = okey (OSecret s)" by simp
    with updateO_secret(1)[OF new] have "view w' = (view w)(okey (OSecret s) \<mapsto> OSecret ?new)" by simp
    moreover have "clusterSecretUpdated scoped S (secData s) (secData ?new)"
      using combine_lists[OF assms(3,4), of s]
      by (simp add: clusterSecretUpdated_def listsNamespaces_def gindex_def putData_def)
    ultimately show ?thesis by (intro exI[of _ ?new]) simp
  qed
qed

end

lemma newClusterSecret_fields:
  "secMeta (newClusterSecret e cr managed) = (secMeta (secretWithSuffix e ''default-cluster-config'' cr))\<lparr>
     metaLabels := gput (metaLabels (secMeta (secretWithSuffix e ''default-cluster-config'' cr))) ArgoCDSecretTypeLabel ''cluster''\<rparr>"
  "gget (secData (newClusterSecret e cr managed)) ''server'' = Some ArgoCDDefaultServer"
  "gget (secData (newClusterSecret e cr managed)) ''namespaces'' = Some (joinStr '','' managed)"
  by (simp_all add: newClusterSecret_def Let_def gmap_def gget_def)

context tracked_lister begin

lemma reconcileClusterPermissionsSecret_Ok:
  assumes "reconcileClusterPermissionsSecret e match c cr w = (Ok (), w')"
    and "\<And>n. managedHere view e match w cr n \<Longrightarrow> CHR '','' \<notin> set n"
  defines "scoped \<equiv> IsNamespaceClusterConfigNamespace e (crNamespace cr)" and "S \<equiv> {n. managedHere view e match w cr n}"
  shows "(\<exists>s s'. clusterSecretOf view w (crNamespace cr) s \<and> view w' = (view w)(okey (OSecret s) \<mapsto> OSecret s') \<and>
      secMeta s' = secMeta s \<and> clusterSecretUpdated scoped S (secData s) (secData s')) \<or>
    (\<forall>s. \<not> clusterSecretOf view w (crNamespace cr) s) \<and> scoped \<and> view w' = view w \<or>
    (\<forall>s. \<not> clusterSecretOf view w (crNamespace cr) s) \<and> \<not> scoped \<and>
      (\<exists>s'. clusterSecretOf view w' (crNamespace cr) s' \<and> okey (OSecret s') = secKeyOf (secretWithSuffix e ''default-cluster-config'' cr) \<and>
        view w (okey (OSecret s')) = None \<and> view w' = (view w)(okey (OSecret s') \<mapsto> OSecret s') \<and> listsNamespaces S (secData s'))"
proof -
  from assms(1) obtain managed w1 xs w2 where g: "generateSortedManagedNamespaceListForArgoCDCR e match c cr w = (Ok managed, w1)"
    and l: "listSelected c KSecret (crNamespace cr) ArgoCDSecretTypeLabel ''cluster'' w1 = (Ok xs, w2)"
    and n: "(case localClusterSecret (List.map_filter as_secret xs) of
         Some s \<Rightarrow> updateClusterSecret scoped c managed s
       | None \<Rightarrow> if scoped then ret () else createOwnedSecret e c cr (newClusterSecret e cr managed)) w2 = (Ok (), w')"
    by (auto simp: reconcileClusterPermissionsSecret_def bindG_Ok_iff scoped_def cong: option.case_cong)
  note g = generateSorted_Ok[OF g, folded S_def]
  from listClusterSecrets_Ok(1)[OF l] g(1) have v: "view w1 = view w" "view w2 = view w" by simp_all
  have same: "clusterSecretOf view w1 = clusterSecretOf view w" by (intro ext) (simp only: clusterSecretOf_def v(1))
  have comma: "CHR '','' \<notin> set n" if "n \<in> S" for n using that assms(2) by (simp add: S_def)
  show ?thesis
  proof (cases "localClusterSecret (List.map_filter as_secret xs)")
    case (Some s)
    with localClusterSecret_is(1)[OF l Some] same have s: "clusterSecretOf view w (crNamespace cr) s" by simp
    then have "view w2 (okey (OSecret s)) = Some (OSecret s)" using v(2) by (simp add: clusterSecretOf_def)
    with updateClusterSecret_Ok[of scoped managed s w2 w' S] n Some g(2) comma v(2) s show ?thesis by auto
  next
    case None
    with localClusterSecret_is(2)[OF l None] same have none: "\<And>s. \<not> clusterSecretOf view w (crNamespace cr) s" by simp
    show ?thesis
    proof (cases scoped)
      case True
      with n None v none show ?thesis by auto
    next
      case False
      let ?s = "newClusterSecret e cr managed"
      from n None False obtain m where m: "SetControllerReference e (bArgoCD_Meta cr) (secMeta ?s) = Inr m"
        and c: "createO c (OSecret (?s\<lparr>secMeta := m\<rparr>)) w2 = (Ok (), w')"
        by (auto simp: createOwnedSecret_def bindG_Ok_iff controlledBy_Ok_iff)
      note m = SetControllerReference_Inr[OF m]
      have k: "okey (OSecret (?s\<lparr>secMeta := m\<rparr>)) = secKeyOf (secretWithSuffix e ''default-cluster-config'' cr)"
        using m by (simp add: okey_def secKeyOf_def newClusterSecret_fields)
      note c = createO_secret(1,3)[OF c]
      have "listsNamespaces S (secData (?s\<lparr>secMeta := m\<rparr>))"
        using split_sortedSet[OF g(2) comma] managedHere_def[of view e match w cr "crNamespace cr"]
        by (auto simp: listsNamespaces_def gindex_def newClusterSecret_fields S_def)
      moreover have "clusterSecretOf view w' (crNamespace cr) (?s\<lparr>secMeta := m\<rparr>)"
        using c(1) m by (simp add: clusterSecretOf_def newClusterSecret_fields gindex_def secretWithSuffix_def)
      ultimately show ?thesis using c v none False k by auto
    qed
  qed
qed

end

section \<open>Webhook secrets\<close>

text \<open>The value a reference leads to.\<close>

definition hookValue :: "('w \<Rightarrow> key \<Rightarrow> obj option) \<Rightarrow> 'w \<Rightarrow> string \<Rightarrow> WebhookSecretKeySelector option \<Rightarrow> string option" where
  "hookValue view w ns ref = (case ref of None \<Rightarrow> None
     | Some r \<Rightarrow> if WebhookSecretKeySelector_Name r = '''' then None
         else (case secret_value view w (KSecret, ns, WebhookSecretKeySelector_Name r) (WebhookSecretKeySelector_Key r) of
             None \<Rightarrow> None | Some v \<Rightarrow> if v = '''' then None else Some v))"

text \<open>One step on the secret being put together: it changes the key \<open>k\<close> to \<open>v\<close>, and says so.\<close>

definition setsKey :: "string \<Rightarrow> string option \<Rightarrow> pending \<Rightarrow> pending \<Rightarrow> bool" where
  "setsKey k v p p' \<longleftrightarrow> secMeta (fst p') = secMeta (fst p) \<and> gget (secData (fst p')) k = v \<and>
     (\<forall>k'. k' \<noteq> k \<longrightarrow> gget (secData (fst p')) k' = gget (secData (fst p)) k') \<and>
     (\<not> snd p' \<longrightarrow> p' = p)"

lemma putWebhookKey_sets: "v \<noteq> '''' \<Longrightarrow> setsKey k (Some v) p (putWebhookKey k v p)"
  by (cases p) (auto simp: putWebhookKey_def setsKey_def intro: gget_of_gindex)

lemma deleteManagedWebhookKey_sets: "setsKey k None p (deleteManagedWebhookKey k p)"
  by (cases p) (auto simp: deleteManagedWebhookKey_def setsKey_def)

text \<open>Several steps.\<close>

definition setsKeys :: "string set \<Rightarrow> (string \<Rightarrow> string option) \<Rightarrow> pending \<Rightarrow> pending \<Rightarrow> bool" where
  "setsKeys K f p p' \<longleftrightarrow> secMeta (fst p') = secMeta (fst p) \<and> (\<forall>k\<in>K. gget (secData (fst p')) k = f k) \<and>
     (\<forall>k. k \<notin> K \<longrightarrow> gget (secData (fst p')) k = gget (secData (fst p)) k) \<and>
     (\<not> snd p' \<longrightarrow> p' = p)"

lemma setsKeys_empty: "setsKeys {} f p p"
  by (simp add: setsKeys_def)

lemma setsKeys_one: "setsKey k v p p' \<Longrightarrow> f k = v \<Longrightarrow> setsKeys {k} f p p'"
  by (auto simp: setsKeys_def setsKey_def)

lemma setsKeys_trans: "setsKeys K f p p1 \<Longrightarrow> setsKeys L f p1 p2 \<Longrightarrow> setsKeys (K \<union> L) f p p2"
  unfolding setsKeys_def by (metis Un_iff)

lemma setsKeys_two:
  assumes "setsKey k v p p1" and "setsKey l u p1 p2" and "f k = v" and "f l = u"
  shows "setsKeys {k, l} f p p2"
  using setsKeys_trans[OF setsKeys_one[of k v p p1 f, OF assms(1,3)] setsKeys_one[of l u p1 p2 f, OF assms(2,4)]]
  by (simp add: insert_commute)

lemma azure_keys: "azureUser \<noteq> azurePassword"
  by (simp add: azureUser_def azurePassword_def)

context k8s_client begin

lemma resolveWebhookSecretKeyBytes_Ok:
  assumes "resolveWebhookSecretKeyBytes c cr ref w = (Ok v, w')"
  shows "secret_data view w' = secret_data view w" and "v = hookValue view w (crNamespace cr) ref"
proof (atomize (full), cases ref)
  case None
  with assms show "secret_data view w' = secret_data view w \<and> v = hookValue view w (crNamespace cr) ref"
    by (simp add: resolveWebhookSecretKeyBytes_def hookValue_def)
next
  case (Some r)
  let ?k = "(KSecret, crNamespace cr, WebhookSecretKeySelector_Name r)"
  show "secret_data view w' = secret_data view w \<and> v = hookValue view w (crNamespace cr) ref"
  proof (cases "WebhookSecretKeySelector_Name r = ''''")
    case True
    with assms Some show ?thesis by (simp add: resolveWebhookSecretKeyBytes_def hookValue_def)
  next
    case False
    with assms Some consider
      (found) a where "getAs c as_secret ?k w = (Ok a, w')" "v = (if gindex (secData a) (WebhookSecretKeySelector_Key r) = '''' then None
          else gget (secData a) (WebhookSecretKeySelector_Key r))"
      | (none) err where "getAs c as_secret ?k w = (Err err, w')" "IsNotFound err" "v = None"
      by (auto simp: resolveWebhookSecretKeyBytes_def handle_Ok_iff split: if_splits)
    then show ?thesis
    proof cases
      case found
      from getAs_data[OF found(1)] getAs_secret(1)[OF found(1)] found(2) Some False show ?thesis
        by (auto simp: hookValue_def secret_value_def gindex_def split: option.splits)
    next
      case none
      from getAs_NotFound[OF none(1,2)] have "view w ?k = None" and v: "view w' = view w" by auto
      then have "secret_data view w ?k = None" by (simp add: secret_data_def)
      moreover have "secret_data view w' = secret_data view w" using v by (simp add: secret_data_def fun_eq_iff)
      ultimately show ?thesis using none(3) Some by (simp add: hookValue_def secret_value_def)
    qed
  qed
qed

lemma hookValue_nonempty: "hookValue view w ns ref = Some v \<Longrightarrow> v \<noteq> ''''"
  by (auto simp: hookValue_def split: option.splits if_splits)

lemma hookValue_cong: "secret_data view w' = secret_data view w \<Longrightarrow> hookValue view w' = hookValue view w"
  by (intro ext) (simp only: hookValue_def secret_value_def)

lemma applyWebhookSecretFromRef_Ok:
  assumes "applyWebhookSecretFromRef c cr ref k p w = (Ok p', w')"
  shows "secret_data view w' = secret_data view w" and "setsKey k (hookValue view w (crNamespace cr) ref) p p'"
proof -
  from assms obtain v where r: "resolveWebhookSecretKeyBytes c cr ref w = (Ok v, w')"
    and p': "p' = (case v of None \<Rightarrow> deleteManagedWebhookKey k p | Some x \<Rightarrow> putWebhookKey k x p)"
    by (auto simp: applyWebhookSecretFromRef_def bindG_Ok_iff split: option.splits)
  from resolveWebhookSecretKeyBytes_Ok[OF r] show "secret_data view w' = secret_data view w" by simp
  from resolveWebhookSecretKeyBytes_Ok(2)[OF r]
  show "setsKey k (hookValue view w (crNamespace cr) ref) p p'"
    using p' putWebhookKey_sets[of _ k p] deleteManagedWebhookKey_sets[of k p] hookValue_nonempty[of w "crNamespace cr" ref]
    by (auto split: option.splits)
qed

lemma applyAllSingleRef_Ok:
  assumes "applyAllSingleRefDeclarativeWebhookSecrets c cr refs p w = (Ok p', w')" and "distinct (map fst refs)"
    and "\<And>k ref. (k, ref) \<in> set refs \<Longrightarrow> f k = hookValue view w (crNamespace cr) ref"
  shows "secret_data view w' = secret_data view w \<and> setsKeys (fst ` set refs) f p p'"
  using assms
proof (induction refs arbitrary: p w)
  case Nil
  then show ?case by (simp add: setsKeys_empty)
next
  case (Cons a refs)
  obtain k ref where a: "a = (k, ref)" by (cases a)
  with Cons.prems(1) obtain p1 w1 where s: "applyWebhookSecretFromRef c cr ref k p w = (Ok p1, w1)"
    and r: "applyAllSingleRefDeclarativeWebhookSecrets c cr refs p1 w1 = (Ok p', w')" by (auto simp: bindG_Ok_iff)
  note s = applyWebhookSecretFromRef_Ok[OF s]
  have f: "f k = hookValue view w (crNamespace cr) ref" using Cons.prems(3) a by simp
  have "secret_data view w' = secret_data view w1 \<and> setsKeys (fst ` set refs) f p1 p'"
    by (rule Cons.IH[OF r]) (use Cons.prems(2,3) hookValue_cong[OF s(1)] in auto)
  with setsKeys_trans[OF setsKeys_one[of k _ p p1 f, OF s(2) f]] s(1) a show ?case by simp
qed

end

text \<open>The keys of the webhooks, and what they are to hold.\<close>

definition singleHookKeys :: "string list" where
  "singleHookKeys = [''webhook.github.secret'', ''webhook.gitlab.secret'', ''webhook.bitbucket.uuid'',
     ''webhook.bitbucketserver.secret'', ''webhook.gogs.secret'']"

definition hookKeys :: "string list" where
  "hookKeys = singleHookKeys @ [azureUser, azurePassword]"

definition azureValue :: "('w \<Rightarrow> key \<Rightarrow> obj option) \<Rightarrow> 'w \<Rightarrow> string \<Rightarrow> ArgoCDWebhookSecretsSpec \<Rightarrow> string \<Rightarrow> string option" where
  "azureValue view w ns h k = (case Hooks_AzureDevOps h of None \<Rightarrow> None
     | Some ado \<Rightarrow>
         (let u = hookValue view w ns (HooksAzureDevOps_UsernameSecretRef ado); pw = hookValue view w ns (HooksAzureDevOps_PasswordSecretRef ado)
          in if u = None \<or> pw = None then None else if k = azureUser then u else pw))"

definition wantedHook :: "('w \<Rightarrow> key \<Rightarrow> obj option) \<Rightarrow> 'w \<Rightarrow> string \<Rightarrow> ArgoCDWebhookSecretsSpec \<Rightarrow> string \<Rightarrow> string option" where
  "wantedHook view w ns h k = (case map_of (webhookSingleRefProviders h) k of
       Some ref \<Rightarrow> hookValue view w ns ref | None \<Rightarrow> azureValue view w ns h k)"

lemma singleHookKeys_eq: "map fst (webhookSingleRefProviders h) = singleHookKeys"
  by (simp add: webhookSingleRefProviders_def singleHookKeys_def)

lemma azure_not_single:
  "map_of (webhookSingleRefProviders h) azureUser = None" "map_of (webhookSingleRefProviders h) azurePassword = None"
  by (simp_all add: webhookSingleRefProviders_def azureUser_def azurePassword_def)

lemma hookKeys_distinct: "distinct hookKeys"
  by (simp add: hookKeys_def singleHookKeys_def azureUser_def azurePassword_def)

context k8s_client begin

lemma azureValue_cong: "secret_data view w' = secret_data view w \<Longrightarrow> azureValue view w' = azureValue view w"
  unfolding azureValue_def[abs_def] by (drule hookValue_cong) (simp only:)

lemma applyAzure_Ok:
  assumes "applyAzureDevOpsWebhookSecretRefs c cr h p w = (Ok p', w')"
  shows "secret_data view w' = secret_data view w"
    and "setsKeys {azureUser, azurePassword} (azureValue view w (crNamespace cr) h) p p'"
proof -
  let ?drop = "deleteManagedWebhookKey azurePassword (deleteManagedWebhookKey azureUser p)"
  have drop: "setsKeys {azureUser, azurePassword} f p ?drop" if "f azureUser = None" "f azurePassword = None" for f
    using setsKeys_two[OF deleteManagedWebhookKey_sets deleteManagedWebhookKey_sets that] .
  have put: "setsKeys {azureUser, azurePassword} f p (putWebhookKey azurePassword pv (putWebhookKey azureUser uv p))"
    if "f azureUser = Some uv" "f azurePassword = Some pv" "uv \<noteq> ''''" "pv \<noteq> ''''" for f uv pv
    using setsKeys_two[OF putWebhookKey_sets[OF that(3)] putWebhookKey_sets[OF that(4)] that(1,2)] .
  show "secret_data view w' = secret_data view w"
    and "setsKeys {azureUser, azurePassword} (azureValue view w (crNamespace cr) h) p p'"
  proof (atomize (full), cases "Hooks_AzureDevOps h")
    case None
    with assms drop[of "azureValue view w (crNamespace cr) h"]
    show "secret_data view w' = secret_data view w \<and> setsKeys {azureUser, azurePassword} (azureValue view w (crNamespace cr) h) p p'"
      by (simp add: applyAzureDevOpsWebhookSecretRefs_def Let_def azureValue_def)
  next
    case (Some ado)
    with assms obtain u w1 pw where u: "resolveWebhookSecretKeyBytes c cr (HooksAzureDevOps_UsernameSecretRef ado) w = (Ok u, w1)"
      and pw: "resolveWebhookSecretKeyBytes c cr (HooksAzureDevOps_PasswordSecretRef ado) w1 = (Ok pw, w')"
      and p': "p' = (case (u, pw) of (Some uv, Some pv) \<Rightarrow> putWebhookKey azurePassword pv (putWebhookKey azureUser uv p) | _ \<Rightarrow> ?drop)"
      by (auto simp: applyAzureDevOpsWebhookSecretRefs_def Let_def bindG_Ok_iff split: option.splits)
    note u = resolveWebhookSecretKeyBytes_Ok[OF u] and pw = resolveWebhookSecretKeyBytes_Ok[OF pw]
    have vals: "u = hookValue view w (crNamespace cr) (HooksAzureDevOps_UsernameSecretRef ado)"
      "pw = hookValue view w (crNamespace cr) (HooksAzureDevOps_PasswordSecretRef ado)"
      using u(2) pw(2) hookValue_cong[OF u(1)] by simp_all
    have "setsKeys {azureUser, azurePassword} (azureValue view w (crNamespace cr) h) p p'"
    proof (cases "u = None \<or> pw = None")
      case True
      then have "p' = ?drop" using p' by (auto split: option.splits)
      with drop[of "azureValue view w (crNamespace cr) h"] True Some vals show ?thesis
        by (simp add: azureValue_def Let_def)
    next
      case False
      then obtain uv pv where uv: "u = Some uv" "pw = Some pv" by auto
      have "uv \<noteq> []" "pv \<noteq> []" using uv vals hookValue_nonempty[of w "crNamespace cr"] by metis+
      moreover have "azureValue view w (crNamespace cr) h azureUser = Some uv" "azureValue view w (crNamespace cr) h azurePassword = Some pv"
        using Some uv azure_keys by (simp_all add: azureValue_def Let_def flip: vals)
      moreover have "p' = putWebhookKey azurePassword pv (putWebhookKey azureUser uv p)" using p' uv by simp
      ultimately show ?thesis using put by blast
    qed
    with u(1) pw(1) show "secret_data view w' = secret_data view w \<and>
        setsKeys {azureUser, azurePassword} (azureValue view w (crNamespace cr) h) p p'" by simp
  qed
qed

lemma applyDeclarativeWebhookSecrets_Ok:
  assumes "applyDeclarativeWebhookSecrets c cr p w = (Ok p', w')"
  shows "secret_data view w' = secret_data view w"
    and "bSpec_WebhookSecrets (spec cr) = None \<Longrightarrow> p' = p"
    and "bSpec_WebhookSecrets (spec cr) = Some h \<Longrightarrow> setsKeys (set hookKeys) (wantedHook view w (crNamespace cr) h) p p'"
proof (atomize (full), cases "bSpec_WebhookSecrets (spec cr)")
  case None
  with assms show "secret_data view w' = secret_data view w \<and> (bSpec_WebhookSecrets (spec cr) = None \<longrightarrow> p' = p) \<and>
      (bSpec_WebhookSecrets (spec cr) = Some h \<longrightarrow> setsKeys (set hookKeys) (wantedHook view w (crNamespace cr) h) p p')"
    by (simp add: applyDeclarativeWebhookSecrets_def)
next
  case (Some g)
  let ?f = "wantedHook view w (crNamespace cr) g"
  from assms Some obtain p1 w1 where s: "applyAllSingleRefDeclarativeWebhookSecrets c cr (webhookSingleRefProviders g) p w = (Ok p1, w1)"
    and a: "applyAzureDevOpsWebhookSecretRefs c cr g p1 w1 = (Ok p', w')"
    by (auto simp: applyDeclarativeWebhookSecrets_def bindG_Ok_iff)
  have dist: "distinct (map fst (webhookSingleRefProviders g))"
    unfolding singleHookKeys_eq using hookKeys_distinct by (simp add: hookKeys_def)
  have s: "secret_data view w1 = secret_data view w" "setsKeys (set singleHookKeys) ?f p p1"
    using applyAllSingleRef_Ok[OF s dist, of ?f] map_of_is_SomeI[OF dist] singleHookKeys_eq[of g]
    by (auto simp: wantedHook_def simp flip: set_map)
  note a = applyAzure_Ok[OF a]
  have "?f azureUser = azureValue view w1 (crNamespace cr) g azureUser" "?f azurePassword = azureValue view w1 (crNamespace cr) g azurePassword"
    by (simp_all add: wantedHook_def azure_not_single azureValue_cong[OF s(1)])
  with a(2) have "setsKeys {azureUser, azurePassword} ?f p1 p'" by (simp add: setsKeys_def)
  from setsKeys_trans[OF s(2) this] have "setsKeys (set hookKeys) ?f p p'" by (simp add: hookKeys_def)
  with s(1) a(1) Some show "secret_data view w' = secret_data view w \<and> (bSpec_WebhookSecrets (spec cr) = None \<longrightarrow> p' = p) \<and>
      (bSpec_WebhookSecrets (spec cr) = Some h \<longrightarrow> setsKeys (set hookKeys) (wantedHook view w (crNamespace cr) h) p p')"
    by auto
qed

end

section \<open>The secret of Argo CD\<close>

definition argoSecretKey :: "ArgoCD_beta \<Rightarrow> key" where
  "argoSecretKey cr = (KSecret, crNamespace cr, ArgoCDSecretName)"

lemma argoSecretKey_eq: "secKeyOf (secretNamed e ArgoCDSecretName cr) = argoSecretKey cr"
proof -
  have "TruncateWithHash e ArgoCDSecretName maxLabelLength = ArgoCDSecretName"
    by (rule TruncateWithHash_id) (simp add: ArgoCDSecretName_def maxLabelLength_def)
  then show ?thesis by (simp add: secKeyOf_meta argoSecretKey_def)
qed

text \<open>The keys the operator writes.\<close>

definition managedArgoKeys :: "ArgoCD_beta \<Rightarrow> string set" where
  "managedArgoKeys cr = {ArgoCDKeyServerSecretKey, ArgoCDKeyAdminPassword, ArgoCDKeyAdminPasswordMTime, ArgoCDKeyTLSCert,
     ArgoCDKeyTLSPrivateKey} \<union> (if usesDex cr then {ArgoCDDexSecretKey} else {}) \<union>
     (if bSpec_WebhookSecrets (spec cr) \<noteq> None then set hookKeys else {})"

lemmas argo_key_defs = ArgoCDKeyServerSecretKey_def ArgoCDKeyAdminPassword_def ArgoCDKeyAdminPasswordMTime_def
  ArgoCDKeyTLSCert_def ArgoCDKeyTLSPrivateKey_def ArgoCDDexSecretKey_def

lemma argo_keys_distinct:
  "distinct ([ArgoCDKeyServerSecretKey, ArgoCDKeyAdminPassword, ArgoCDKeyAdminPasswordMTime, ArgoCDKeyTLSCert,
     ArgoCDKeyTLSPrivateKey, ArgoCDDexSecretKey] @ hookKeys)"
  by (simp add: argo_key_defs hookKeys_def singleHookKeys_def azureUser_def azurePassword_def)

text \<open>As long as nothing counts as changed, the secret being put together has the data it was read with, the
  session key apart.\<close>

definition unchangedBut :: "gomap \<Rightarrow> pending \<Rightarrow> bool" where
  "unchangedBut d p \<longleftrightarrow> snd p \<or> (\<forall>k. k \<noteq> ArgoCDKeyServerSecretKey \<longrightarrow> gget (secData (fst p)) k = gget d k)"

definition agreeOutside :: "string set \<Rightarrow> gomap \<Rightarrow> pending \<Rightarrow> bool" where
  "agreeOutside K d p \<longleftrightarrow> (\<forall>k. k \<notin> K \<longrightarrow> gget (secData (fst p)) k = gget d k)"

lemma ensureSessionKey_Inr:
  assumes "ensureSessionKey t s = Inr p"
  shows "secMeta (fst p) = secMeta s" and "\<not> snd p" and "agreeOutside {ArgoCDKeyServerSecretKey} (secData s) p"
  using assms by (auto simp: ensureSessionKey_def agreeOutside_def split: if_splits sum.splits)

text \<open>A password that is there stays; a missing one is the hash of the cluster's.\<close>

definition passwordKept :: "secret_tools \<Rightarrow> secret \<Rightarrow> gomap \<Rightarrow> gomap \<Rightarrow> bool" where
  "passwordKept t clusterSecret d d' \<longleftrightarrow>
     (gget d' ArgoCDKeyAdminPassword = gget d ArgoCDKeyAdminPassword \<and>
      gget d' ArgoCDKeyAdminPasswordMTime = gget d ArgoCDKeyAdminPasswordMTime) \<or>
     (gget d ArgoCDKeyAdminPassword = None \<and> gget d' ArgoCDKeyAdminPasswordMTime = Some (nowBytes t) \<and>
      (\<exists>pw hash. gget (secData clusterSecret) ArgoCDKeyAdminPassword = Some pw \<and>
         hashPassword t (trimNewlines pw) = Inr hash \<and> gget d' ArgoCDKeyAdminPassword = Some hash))"

lemma ensureAdminPassword_Inr:
  assumes "ensureAdminPassword t clusterSecret p = Inr p'"
  shows "secMeta (fst p') = secMeta (fst p)" and "snd p \<Longrightarrow> snd p'" and "\<not> snd p' \<Longrightarrow> p' = p"
    and "agreeOutside {ArgoCDKeyAdminPassword, ArgoCDKeyAdminPasswordMTime} (secData (fst p)) p'"
    and "passwordKept t clusterSecret (secData (fst p)) (secData (fst p'))"
  using assms by (cases p; auto simp: ensureAdminPassword_def agreeOutside_def passwordKept_def argo_key_defs
      split: if_splits option.splits sum.splits)+

lemma syncTLS_facts:
  shows "secMeta (fst (syncTLS tls p)) = secMeta (fst p)" and "\<not> snd (syncTLS tls p) \<Longrightarrow> syncTLS tls p = p"
    and "agreeOutside {ArgoCDKeyTLSCert, ArgoCDKeyTLSPrivateKey} (secData (fst p)) (syncTLS tls p)"
    and "gindex (secData (fst (syncTLS tls p))) ArgoCDKeyTLSCert = gindex (secData tls) ArgoCDKeyTLSCert"
    and "gindex (secData (fst (syncTLS tls p))) ArgoCDKeyTLSPrivateKey = gindex (secData tls) ArgoCDKeyTLSPrivateKey"
  by (cases p; auto simp: syncTLS_def hasArgoTLSChanged_def copyTLS_def agreeOutside_def gindex_def argo_key_defs
      split: if_splits)+

lemma putWebhookKey_facts:
  shows "secMeta (fst (putWebhookKey k v p)) = secMeta (fst p)" and "\<not> snd (putWebhookKey k v p) \<Longrightarrow> putWebhookKey k v p = p"
    and "agreeOutside {k} (secData (fst p)) (putWebhookKey k v p)"
    and "gindex (secData (fst (putWebhookKey k v p))) k = v"
  by (cases p; auto simp: putWebhookKey_def agreeOutside_def gindex_def split: if_splits)+

lemma addDexToken_Ok:
  assumes "addDexToken m cr p w = (Ok p', w')"
  shows "secMeta (fst p') = secMeta (fst p)" and "\<not> snd p' \<Longrightarrow> p' = p"
    and "agreeOutside (if usesDex cr then {ArgoCDDexSecretKey} else {}) (secData (fst p)) p'"
    and "usesDex cr \<Longrightarrow> \<exists>token. m w = (Ok token, w') \<and> gindex (secData (fst p')) ArgoCDDexSecretKey = token"
    and "\<not> usesDex cr \<Longrightarrow> w' = w"
proof -
  show "\<not> usesDex cr \<Longrightarrow> w' = w" using assms by (simp add: addDexToken_def)
  have "usesDex cr \<Longrightarrow> \<exists>token. m w = (Ok token, w') \<and> p' = putWebhookKey ArgoCDDexSecretKey token p"
    using assms by (auto simp: addDexToken_def bindG_Ok_iff)
  moreover have "\<not> usesDex cr \<Longrightarrow> p' = p" using assms by (simp add: addDexToken_def)
  moreover note putWebhookKey_facts[where k = ArgoCDDexSecretKey and p = p]
  ultimately show "secMeta (fst p') = secMeta (fst p)" "\<not> snd p' \<Longrightarrow> p' = p"
    "agreeOutside (if usesDex cr then {ArgoCDDexSecretKey} else {}) (secData (fst p)) p'"
    "usesDex cr \<Longrightarrow> \<exists>token. m w = (Ok token, w') \<and> gindex (secData (fst p')) ArgoCDDexSecretKey = token"
    by (cases "usesDex cr"; force simp: agreeOutside_def)+
qed

lemma setsKeys_agree: "setsKeys K f p p' \<Longrightarrow> agreeOutside K (secData (fst p)) p'"
  by (simp add: setsKeys_def agreeOutside_def)

lemma agree_trans: "agreeOutside K d p \<Longrightarrow> agreeOutside L (secData (fst p)) p' \<Longrightarrow> agreeOutside (K \<union> L) d p'"
  by (simp add: agreeOutside_def)

text \<open>What a run on an existing secret makes of its data \<open>d\<close>: \<open>d'\<close> is what the secret holds in the end.\<close>

definition argoSecretInStep ::
  "secret_tools \<Rightarrow> secret \<Rightarrow> secret \<Rightarrow> ArgoCD_beta \<Rightarrow> (string \<Rightarrow> string option) \<Rightarrow> string option \<Rightarrow> gomap \<Rightarrow> gomap \<Rightarrow> bool" where
  "argoSecretInStep t clusterSecret tls cr hooks token d d' \<longleftrightarrow>
     (\<forall>k. k \<notin> managedArgoKeys cr \<longrightarrow> gget d' k = gget d k) \<and>
     passwordKept t clusterSecret d d' \<and>
     gindex d' ArgoCDKeyTLSCert = gindex (secData tls) ArgoCDKeyTLSCert \<and>
     gindex d' ArgoCDKeyTLSPrivateKey = gindex (secData tls) ArgoCDKeyTLSPrivateKey \<and>
     (usesDex cr \<longrightarrow> token = Some (gindex d' ArgoCDDexSecretKey)) \<and>
     (bSpec_WebhookSecrets (spec cr) \<noteq> None \<longrightarrow> (\<forall>k\<in>set hookKeys. gget d' k = hooks k))"

lemma argoSecretInStep_cong:
  assumes "\<And>k. k \<noteq> ArgoCDKeyServerSecretKey \<Longrightarrow> gget d'' k = gget d' k"
  shows "argoSecretInStep t clusterSecret tls cr hooks token d d'' = argoSecretInStep t clusterSecret tls cr hooks token d d'"
proof -
  have "gget d'' k = gget d' k" if "k \<notin> managedArgoKeys cr \<or> k \<in> set (tl (map id [ArgoCDKeyServerSecretKey, ArgoCDKeyAdminPassword,
      ArgoCDKeyAdminPasswordMTime, ArgoCDKeyTLSCert, ArgoCDKeyTLSPrivateKey, ArgoCDDexSecretKey] @ hookKeys))" for k
    using that assms[of k] argo_keys_distinct by (auto simp: managedArgoKeys_def)
  then show ?thesis by (simp add: argoSecretInStep_def passwordKept_def gindex_def)
qed

definition hooksWanted :: "('w \<Rightarrow> key \<Rightarrow> obj option) \<Rightarrow> 'w \<Rightarrow> ArgoCD_beta \<Rightarrow> string \<Rightarrow> string option" where
  "hooksWanted view w cr k = (case bSpec_WebhookSecrets (spec cr) of None \<Rightarrow> None | Some h \<Rightarrow> wantedHook view w (crNamespace cr) h k)"

lemma agree_at: "agreeOutside K d p \<Longrightarrow> k \<notin> K \<Longrightarrow> gget (secData (fst p)) k = gget d k"
  by (simp add: agreeOutside_def)

lemma argoSecretInStep_steps:
  assumes p1: "agreeOutside {ArgoCDKeyServerSecretKey} d p1"
    and p2: "agreeOutside {ArgoCDKeyAdminPassword, ArgoCDKeyAdminPasswordMTime} (secData (fst p1)) p2"
      "passwordKept t clusterSecret (secData (fst p1)) (secData (fst p2))"
    and p4: "agreeOutside (if usesDex cr then {ArgoCDDexSecretKey} else {}) (secData (fst (syncTLS tls p2))) p4"
      "usesDex cr \<Longrightarrow> token = Some (gindex (secData (fst p4)) ArgoCDDexSecretKey)"
    and p5: "agreeOutside (if bSpec_WebhookSecrets (spec cr) \<noteq> None then set hookKeys else {}) (secData (fst p4)) p5"
      "\<And>k. bSpec_WebhookSecrets (spec cr) \<noteq> None \<Longrightarrow> k \<in> set hookKeys \<Longrightarrow> gget (secData (fst p5)) k = hooks k"
  shows "argoSecretInStep t clusterSecret tls cr hooks token d (secData (fst p5))"
proof -
  let ?H = "if bSpec_WebhookSecrets (spec cr) \<noteq> None then set hookKeys else {}"
  note tls = syncTLS_facts[where tls = tls and p = p2]
  note at1 = agree_at[OF p1] and at2 = agree_at[OF p2(1)] and at3 = agree_at[OF tls(3)] and at4 = agree_at[OF p4(1)]
    and at5 = agree_at[OF p5(1)]
  have "gget (secData (fst p5)) k = gget d k" if "k \<notin> managedArgoKeys cr" for k
    using at1[of k] at2[of k] at3[of k] at4[of k] at5[of k] that by (auto simp: managedArgoKeys_def split: if_splits)
  moreover
  have late: "gget (secData (fst p5)) k = gget (secData (fst (syncTLS tls p2))) k"
    if "k \<in> {ArgoCDKeyAdminPassword, ArgoCDKeyAdminPasswordMTime, ArgoCDKeyTLSCert, ArgoCDKeyTLSPrivateKey}" for k
    using at4[of k] at5[of k] that argo_keys_distinct by (auto split: if_splits)
  have "gget (secData (fst p5)) k = gget (secData (fst p2)) k" "gget (secData (fst p1)) k = gget d k"
    if "k \<in> {ArgoCDKeyAdminPassword, ArgoCDKeyAdminPasswordMTime}" for k
    using late[of k] at3[of k] at1[of k] that argo_keys_distinct by auto
  then have "passwordKept t clusterSecret d (secData (fst p5))"
    using p2(2) unfolding passwordKept_def by (metis insertCI)
  moreover have "gindex (secData (fst p5)) k = gindex (secData tls) k" if "k \<in> {ArgoCDKeyTLSCert, ArgoCDKeyTLSPrivateKey}" for k
    using late[of k] tls(4,5) that by (auto simp: gindex_def)
  moreover have "gindex (secData (fst p5)) ArgoCDDexSecretKey = gindex (secData (fst p4)) ArgoCDDexSecretKey"
    using at5[of ArgoCDDexSecretKey] argo_keys_distinct by (simp add: gindex_def split: if_splits)
  ultimately show ?thesis using p4(2) p5(2) by (simp add: argoSecretInStep_def)
qed

context verbatim_client begin

lemma reconcileExistingArgoSecret_Ok:
  assumes run: "reconcileExistingArgoSecret t m c cr s clusterSecret tls w = (Ok (), w')"
    and d: "secret_data view w (argoSecretKey cr) = Some d" "okey (OSecret s) = argoSecretKey cr" "secData s = d"
    and m: "\<And>w r w'. m w = (r, w') \<Longrightarrow> secret_data view w' (argoSecretKey cr) = secret_data view w (argoSecretKey cr)"
  obtains w2 d' token where "secret_data view w' = (secret_data view w2)(argoSecretKey cr := Some d')"
    and "argoSecretInStep t clusterSecret tls cr (hooksWanted view w2 cr) token d d'"
    and "usesDex cr \<Longrightarrow> \<exists>w1 tok. m w1 = (Ok tok, w2) \<and> token = Some tok" and "\<not> usesDex cr \<Longrightarrow> w2 = w"
proof -
  from run obtain p1 p2 p4 w2 p5 w3 where p1: "ensureSessionKey t s = Inr p1" and p2: "ensureAdminPassword t clusterSecret p1 = Inr p2"
    and p4: "addDexToken m cr (syncTLS tls p2) w = (Ok p4, w2)" and p5: "applyDeclarativeWebhookSecrets c cr p4 w2 = (Ok p5, w3)"
    and u: "(if snd p5 then updateO c (OSecret (fst p5)) else ret ()) w3 = (Ok (), w')"
    unfolding reconcileExistingArgoSecret_def bindG_Ok_iff liftE_Ok_iff case_prod_beta by blast
  note p1 = ensureSessionKey_Inr[OF p1] and p2 = ensureAdminPassword_Inr[OF p2] and p4 = addDexToken_Ok[OF p4]
    and p5' = applyDeclarativeWebhookSecrets_Ok[OF p5] and tls = syncTLS_facts[where tls = tls and p = p2]
  have hooks: "agreeOutside (if bSpec_WebhookSecrets (spec cr) \<noteq> None then set hookKeys else {}) (secData (fst p4)) p5"
    "\<And>k. bSpec_WebhookSecrets (spec cr) \<noteq> None \<Longrightarrow> k \<in> set hookKeys \<Longrightarrow> gget (secData (fst p5)) k = hooksWanted view w2 cr k"
    "secMeta (fst p5) = secMeta (fst p4)" "\<not> snd p5 \<Longrightarrow> p5 = p4"
    using p5'(2,3) setsKeys_agree by (cases "bSpec_WebhookSecrets (spec cr)"; force simp: setsKeys_def hooksWanted_def agreeOutside_def)+
  obtain token where token: "usesDex cr \<Longrightarrow> token = Some (gindex (secData (fst p4)) ArgoCDDexSecretKey)"
      "usesDex cr \<Longrightarrow> \<exists>w1 tok. m w1 = (Ok tok, w2) \<and> token = Some tok"
    using p4(4) by blast
  from p1(3) d(3) have "agreeOutside {ArgoCDKeyServerSecretKey} d p1" by simp
  from argoSecretInStep_steps[OF this p2(4,5) p4(3) token(1) hooks(1,2)]
  have step: "argoSecretInStep t clusterSecret tls cr (hooksWanted view w2 cr) token d (secData (fst p5))" .
  have k: "okey (OSecret (fst p5)) = argoSecretKey cr"
    using d(2) hooks(3) p4(1) tls(1) p2(1) p1(1) by (simp add: okey_def)
  have w2: "secret_data view w2 (argoSecretKey cr) = Some d"
    using p4(4,5) m[of w _ w2] d(1) by (cases "usesDex cr") auto
  show thesis
  proof (cases "snd p5")
    case True
    with updateO_secret(2)[of "fst p5" w3 "()" w'] u p5'(1) k
    have "secret_data view w' = (secret_data view w2)(argoSecretKey cr := Some (secData (fst p5)))" by simp
    from that[OF this step token(2) p4(5)] show thesis .
  next
    case False
    then have "p5 = p1" using hooks(4) p4(2) tls(2) p2(3) by metis
    then have "gget d k = gget (secData (fst p5)) k" if "k \<noteq> ArgoCDKeyServerSecretKey" for k
      using that p1(3) d(3) by (simp add: agreeOutside_def)
    from argoSecretInStep_cong[OF this] step
    have "argoSecretInStep t clusterSecret tls cr (hooksWanted view w2 cr) token d d" by blast
    moreover have "secret_data view w' = (secret_data view w2)(argoSecretKey cr := Some d)"
      using u False p5'(1) w2 by (simp add: fun_upd_idem)
    ultimately show thesis using that token(2) p4(5) by blast
  qed
qed

end

section \<open>What stays of the secrets that are there\<close>

definition agreesBut :: "gomap \<Rightarrow> gomap \<Rightarrow> bool" where
  "agreesBut d d' \<longleftrightarrow> (\<forall>x. x \<noteq> ''namespaces'' \<longrightarrow> gget d' x = gget d x)"

text \<open>Every secret but an unhealthy one at \<open>rk\<close> keeps its data.\<close>

definition keepsSecrets :: "('w \<Rightarrow> key \<Rightarrow> obj option) \<Rightarrow> key \<Rightarrow> 'w \<Rightarrow> 'w \<Rightarrow> bool" where
  "keepsSecrets view rk w w' \<longleftrightarrow> (\<forall>k d. secret_data view w k = Some d \<longrightarrow> (k = rk \<longrightarrow> redisSecretHealthy d) \<longrightarrow>
     secret_data view w' k = Some d)"

lemma agreesBut_simps [simp]: "agreesBut d d"
  by (simp add: agreesBut_def)

lemma agreesBut_healthy: "agreesBut d d' \<Longrightarrow> redisSecretHealthy d' = redisSecretHealthy d"
  by (simp add: agreesBut_def redisSecretHealthy_def ArgoCDKeyAdminPassword_def)

lemma keepsSecretsD:
  "keepsSecrets view rk w w' \<Longrightarrow> secret_data view w k = Some d \<Longrightarrow> (k = rk \<Longrightarrow> redisSecretHealthy d) \<Longrightarrow>
   secret_data view w' k = Some d"
  unfolding keepsSecrets_def by blast

interpretation ks: world_relation "keepsSecrets view rk" for view rk
  by unfold_locales (auto simp: keepsSecrets_def)

lemma keeps_same: "secret_data view w' = secret_data view w \<Longrightarrow> keepsSecrets view rk w w'"
  by (auto simp: keepsSecrets_def)

lemma keeps_upd:
  "secret_data view w' = (secret_data view w)(k := Some d') \<Longrightarrow>
   (\<And>d. secret_data view w k = Some d \<Longrightarrow> (k = rk \<Longrightarrow> redisSecretHealthy d) \<Longrightarrow> d' = d) \<Longrightarrow> keepsSecrets view rk w w'"
  by (auto simp: keepsSecrets_def)

lemma GetRedisSecretData_healthy: "redisSecretHealthy (GetRedisSecretData p)"
  by (simp add: redisSecretHealthy_def GetRedisSecretData_def gmap_def gget_def ArgoCDKeyAdminPassword_def)

text \<open>What each of the generated secrets holds.\<close>

definition adminMade :: "secret_tools \<Rightarrow> gomap \<Rightarrow> bool" where
  "adminMade t d \<longleftrightarrow> (\<exists>p. generateArgoAdminPassword t = Inr p \<and> gget d ArgoCDKeyAdminPassword = Some p)"

definition caMade :: "secret_tools \<Rightarrow> ArgoCD_beta \<Rightarrow> gomap \<Rightarrow> bool" where
  "caMade t cr d \<longleftrightarrow> (\<exists>key cert. selfSignedCACertificate t (crName cr) key = Inr cert \<and>
     gget d ArgoCDKeyTLSCert = Some cert \<and> gget d ArgoCDKeyTLSPrivateKey = Some key)"

text \<open>\<open>a\<close> is the data of the CA secret the certificate in \<open>d\<close> is signed with.\<close>

definition tlsMade :: "env \<Rightarrow> secret_tools \<Rightarrow> ArgoCD_beta \<Rightarrow> gomap \<Rightarrow> gomap \<Rightarrow> bool" where
  "tlsMade e t cr a d \<longleftrightarrow> (\<exists>caCert caKey key cert.
     parseCert t (gindex a ArgoCDKeyTLSCert) = Inr caCert \<and> parsePrivateKey t (gindex a ArgoCDKeyTLSPrivateKey) = Inr caKey \<and>
     signedCertificate t (certificateRequest e (metaName (secMeta (newTLSSecret e ''tls'' cr))) cr) key caCert caKey = Inr cert \<and>
     gget d ArgoCDKeyTLSCert = Some cert \<and> gget d ArgoCDKeyTLSPrivateKey = Some key)"

definition redisMade :: "secret_tools \<Rightarrow> gomap \<Rightarrow> bool" where
  "redisMade t d \<longleftrightarrow> (\<exists>p. generateRedisAdminPassword t = Inr p \<and> agreesBut (GetRedisSecretData p) d)"

lemmas made_defs = adminMade_def caMade_def tlsMade_def redisMade_def

lemma made_agrees:
  assumes "agreesBut d d'"
  shows "adminMade t d \<Longrightarrow> adminMade t d'" and "caMade t cr d \<Longrightarrow> caMade t cr d'"
    and "agreesBut a a' \<Longrightarrow> tlsMade e t cr a d \<Longrightarrow> tlsMade e t cr a' d'"
    and "redisMade t d \<Longrightarrow> redisMade t d'"
  using assms
  by (auto simp: made_defs agreesBut_def gindex_def ArgoCDKeyAdminPassword_def ArgoCDKeyTLSCert_def ArgoCDKeyTLSPrivateKey_def)

context tracked_lister begin

text \<open>The cluster secret is the only one whose data reconciling the cluster secret changes, and only its list.\<close>

lemma permissionsSecret_keeps:
  assumes "reconcileClusterPermissionsSecret e match c cr w = (Ok (), w')" and "secret_data view w k = Some d"
  shows "\<exists>d'. secret_data view w' k = Some d' \<and> agreesBut d d' \<and>
    (d' = d \<or> (\<exists>s. clusterSecretOf view w' (crNamespace cr) s \<and> okey (OSecret s) = k))"
proof -
  let ?scoped = "IsNamespaceClusterConfigNamespace e (crNamespace cr)"
  from assms(1) obtain managed w1 xs w2 where g: "generateSortedManagedNamespaceListForArgoCDCR e match c cr w = (Ok managed, w1)"
    and l: "listSelected c KSecret (crNamespace cr) ArgoCDSecretTypeLabel ''cluster'' w1 = (Ok xs, w2)"
    and n: "(case localClusterSecret (List.map_filter as_secret xs) of
         Some s \<Rightarrow> updateClusterSecret ?scoped c managed s
       | None \<Rightarrow> if ?scoped then ret () else createOwnedSecret e c cr (newClusterSecret e cr managed)) w2 = (Ok (), w')"
    by (auto simp: reconcileClusterPermissionsSecret_def bindG_Ok_iff cong: option.case_cong)
  from generateSorted_Ok(1)[OF g] listClusterSecrets_Ok(1)[OF l] have v: "secret_data view w2 = secret_data view w"
    by (simp add: secret_data_def fun_eq_iff)
  with assms(2) have d: "secret_data view w2 k = Some d" by simp
  show ?thesis
  proof (cases "localClusterSecret (List.map_filter as_secret xs)")
    case (Some s)
    from localClusterSecret_is(1)[OF l Some] listClusterSecrets_Ok(1)[OF l] have s: "clusterSecretOf view w2 (crNamespace cr) s"
      by (simp add: clusterSecretOf_def)
    then have old: "secret_data view w2 (okey (OSecret s)) = Some (secData s)" by (simp add: secret_data_def clusterSecretOf_def)
    from n Some have "updateClusterSecret ?scoped c managed s w2 = (Ok (), w')" by simp
    then consider "w' = w2" | d' where "updateO c (OSecret (s\<lparr>secData := d'\<rparr>)) w2 = (Ok (), w')" "agreesBut (secData s) d'"
      by (auto simp: updateClusterSecret_def Let_def agreesBut_def putData_def split: if_splits)
    then show ?thesis
    proof cases
      case 2
      have ok: "okey (OSecret (s\<lparr>secData := d'\<rparr>)) = okey (OSecret s)" by simp
      from updateO_secret[OF 2(1)] ok have v': "view w' = (view w2)(okey (OSecret s) \<mapsto> OSecret (s\<lparr>secData := d'\<rparr>))"
        and u: "secret_data view w' = (secret_data view w2)(okey (OSecret s) := Some d')" by simp_all
      have "gindex d' ''server'' = gindex (secData s) ''server''" using 2(2) by (simp add: agreesBut_def gindex_def)
      with s v' ok have "clusterSecretOf view w' (crNamespace cr) (s\<lparr>secData := d'\<rparr>)" by (simp add: clusterSecretOf_def)
      with u ok d old 2(2) show ?thesis by (cases "k = okey (OSecret s)") auto
    qed (use d in auto)
  next
    case None
    with n createOwnedSecret_Ok[of e cr "newClusterSecret e cr managed" w2 "()" w'] d show ?thesis
      by (cases ?scoped) auto
  qed
qed

lemma reconcileClusterSecrets_Ok:
  assumes "reconcileClusterSecrets e t match c cr w = (Ok (), w')"
  defines "rk \<equiv> secKeyOf (secretWithSuffix e ''redis-initial-password'' cr)"
    and "mk \<equiv> secKeyOf (secretWithSuffix e ''cluster'' cr)"
    and "ak \<equiv> secKeyOf (secretNamed e (getCASecretName e cr) cr)" and "tk \<equiv> secKeyOf (newTLSSecret e ''tls'' cr)"
  shows "secret_data view w k = Some d \<Longrightarrow> (k = rk \<Longrightarrow> redisSecretHealthy d) \<Longrightarrow>
      \<exists>d'. secret_data view w' k = Some d' \<and> agreesBut d d' \<and>
        (d' = d \<or> (\<exists>s. clusterSecretOf view w' (crNamespace cr) s \<and> okey (OSecret s) = k))"
    and "getCASecretName e cr \<noteq> GetSecretNameWithSuffix e cr ''tls''"
    and "\<exists>d. secret_data view w' rk = Some d \<and> redisSecretHealthy d"
    and "\<forall>k \<in> {mk, ak, tk}. secret_data view w' k \<noteq> None"
    and "distinct [mk, rk, ak, tk] \<Longrightarrow>
      (secret_data view w mk = None \<longrightarrow> (\<exists>d. secret_data view w' mk = Some d \<and> adminMade t d)) \<and>
      (\<not> (\<exists>d. secret_data view w rk = Some d \<and> redisSecretHealthy d) \<longrightarrow> (\<exists>d. secret_data view w' rk = Some d \<and> redisMade t d)) \<and>
      (secret_data view w ak = None \<longrightarrow> (\<exists>d. secret_data view w' ak = Some d \<and> caMade t cr d)) \<and>
      (secret_data view w tk = None \<longrightarrow> (\<exists>a d. secret_data view w' ak = Some a \<and> secret_data view w' tk = Some d \<and> tlsMade e t cr a d))"
proof -
  from assms(1) obtain w1 w2 w3 w4 where m: "reconcileClusterMainSecret e t c cr w = (Ok (), w1)"
    and r: "reconcileRedisInitialPasswordSecret e t c cr w1 = (Ok (), w2)"
    and ca: "reconcileClusterCASecret e t c cr w2 = (Ok (), w3)" and tls: "reconcileClusterTLSSecret e t c cr w3 = (Ok (), w4)"
    and p: "reconcileClusterPermissionsSecret e match c cr w4 = (Ok (), w')"
    by (auto simp: reconcileClusterSecrets_def thenG_Ok_iff)
  note m = reconcileClusterMainSecret_Ok[OF m, folded mk_def adminMade_def]
    and r = reconcileRedisInitialPasswordSecret_Ok[OF r, folded rk_def]
    and ca = reconcileClusterCASecret_Ok[OF ca, folded ak_def caMade_def]
    and tls = reconcileClusterTLSSecret_Ok[OF tls, folded ak_def tk_def]
    and p = permissionsSecret_keeps[OF p]
  have once: "keepsSecrets view rk u v \<and> secret_data view v k \<noteq> None"
    if "\<forall>d. secret_data view u k = Some d \<longrightarrow> secret_data view v = secret_data view u"
      "secret_data view u k = None \<longrightarrow> (\<exists>d. secret_data view v = (secret_data view u)(k := Some d))" for u v k
    using that keeps_same[of view v u rk] keeps_upd[of view v u k _ rk] by (cases "secret_data view u k") auto
  have 1: "keepsSecrets view rk w w1" "secret_data view w1 mk \<noteq> None"
    using once[of w mk w1] m(1) m(2) by blast+
  have 3: "keepsSecrets view rk w2 w3" "secret_data view w3 ak \<noteq> None"
    using once[of w2 ak w3] ca(2) ca(3) by blast+
  have 4: "keepsSecrets view rk w3 w4" "secret_data view w4 tk \<noteq> None"
    using once[of w3 tk w4] tls(1) tls(2) by blast+
  have 2: "keepsSecrets view rk w1 w2 \<and> (\<exists>d. secret_data view w2 rk = Some d \<and> redisSecretHealthy d) \<and>
      (\<forall>k. k \<noteq> rk \<longrightarrow> secret_data view w2 k = secret_data view w1 k) \<and>
      (\<not> (\<exists>d. secret_data view w1 rk = Some d \<and> redisSecretHealthy d) \<longrightarrow> (\<exists>d. secret_data view w2 rk = Some d \<and> redisMade t d))"
  proof (cases "\<exists>d. secret_data view w1 rk = Some d \<and> redisSecretHealthy d")
    case True
    with r(1) have "secret_data view w2 = secret_data view w1" by blast
    with True show ?thesis by (auto intro: keeps_same)
  next
    case False
    with r(2) obtain p where gen: "generateRedisAdminPassword t = Inr p"
      and p: "secret_data view w2 = (secret_data view w1)(rk := Some (GetRedisSecretData p))" by blast
    have "keepsSecrets view rk w1 w2" by (rule keeps_upd[OF p]) (use False in blast)
    moreover have "redisMade t (GetRedisSecretData p)" using gen by (auto simp: redisMade_def)
    ultimately show ?thesis using p GetRedisSecretData_healthy[of p] by auto
  qed
  then have k12: "keepsSecrets view rk w1 w2" and has: "\<exists>d. secret_data view w2 rk = Some d \<and> redisSecretHealthy d"
    and rest: "\<And>k. k \<noteq> rk \<Longrightarrow> secret_data view w2 k = secret_data view w1 k"
    and renewed: "\<not> (\<exists>d. secret_data view w1 rk = Some d \<and> redisSecretHealthy d) \<Longrightarrow>
      \<exists>d. secret_data view w2 rk = Some d \<and> redisMade t d" by blast+
  note k34 = ks.R_trans[OF 3(1) 4(1)]
  note k14 = ks.R_trans[OF k12 k34] and kall = ks.R_trans[OF 1(1) ks.R_trans[OF k12 k34]]
  have kept: "\<exists>d'. secret_data view w' k = Some d' \<and> agreesBut d d' \<and>
      (d' = d \<or> (\<exists>s. clusterSecretOf view w' (crNamespace cr) s \<and> okey (OSecret s) = k))"
    if "secret_data view w k = Some d" "k = rk \<Longrightarrow> redisSecretHealthy d" for k d
    using p[OF keepsSecretsD[OF kall that]] .
  show "\<exists>d'. secret_data view w' k = Some d' \<and> agreesBut d d' \<and>
      (d' = d \<or> (\<exists>s. clusterSecretOf view w' (crNamespace cr) s \<and> okey (OSecret s) = k))"
    if "secret_data view w k = Some d" "k = rk \<Longrightarrow> redisSecretHealthy d"
    using kept[OF that] .
  show "getCASecretName e cr \<noteq> GetSecretNameWithSuffix e cr ''tls''" by (rule ca(1))
  from has obtain dr where dr: "secret_data view w2 rk = Some dr" "redisSecretHealthy dr" by blast
  have late: "\<exists>d'. secret_data view w' k = Some d' \<and> agreesBut d d'"
    if "keepsSecrets view rk u w4" "secret_data view u k = Some d" "k = rk \<Longrightarrow> redisSecretHealthy d" for u k d
    using p[OF keepsSecretsD[OF that]] by blast
  from late[OF k34 dr] agreesBut_healthy dr(2) show redis: "\<exists>d. secret_data view w' rk = Some d \<and> redisSecretHealthy d" by metis
  then have present: "secret_data view w' k \<noteq> None" if "keepsSecrets view rk u w4" "secret_data view u k \<noteq> None" for k u
    using late[OF that(1), of k] that(2) by (cases "k = rk") auto
  show "\<forall>k \<in> {mk, ak, tk}. secret_data view w' k \<noteq> None"
    using present[OF k14 1(2)] present[OF 4(1) 3(2)] present[OF ks.R_refl 4(2)] by simp
  assume dist: "distinct [mk, rk, ak, tk]"
  have "\<exists>d. secret_data view w' mk = Some d \<and> adminMade t d" if "secret_data view w mk = None"
  proof -
    from m(2)[OF that] obtain d where "secret_data view w1 mk = Some d" "adminMade t d" by fastforce
    with late[OF k14, of mk d] dist made_agrees(1) show ?thesis by fastforce
  qed
  moreover have "\<exists>d. secret_data view w' rk = Some d \<and> redisMade t d"
    if "\<not> (\<exists>d. secret_data view w rk = Some d \<and> redisSecretHealthy d)"
  proof -
    have "secret_data view w1 rk = secret_data view w rk"
      using m(1) m(2) dist by (cases "secret_data view w mk") auto
    with renewed that obtain d where d: "secret_data view w2 rk = Some d" "redisMade t d" by auto
    with late[OF k34, of rk d] dr made_agrees(4) show ?thesis by fastforce
  qed
  moreover have "\<exists>d. secret_data view w' ak = Some d \<and> caMade t cr d" if "secret_data view w ak = None"
  proof -
    have "secret_data view w2 ak = None"
      using m(1) m(2) rest[of ak] dist that by (cases "secret_data view w mk") auto
    from ca(3)[OF this] obtain d where "secret_data view w3 ak = Some d" "caMade t cr d" by fastforce
    with late[OF 4(1), of ak d] dist made_agrees(2) show ?thesis by fastforce
  qed
  moreover have "\<exists>a d. secret_data view w' ak = Some a \<and> secret_data view w' tk = Some d \<and> tlsMade e t cr a d"
    if "secret_data view w tk = None"
  proof -
    have "secret_data view w3 tk = None"
      using m(1) m(2) rest[of tk] ca(2) ca(3) dist that
      by (cases "secret_data view w mk"; cases "secret_data view w2 ak") auto
    from tls(2)[OF this] obtain a d where a: "secret_data view w3 ak = Some a" and d: "secret_data view w4 tk = Some d"
      and t: "tlsMade e t cr a d" unfolding tlsMade_def by fastforce
    from late[OF 4(1) a] late[OF ks.R_refl d] dist obtain a' d' where "secret_data view w' ak = Some a'" "agreesBut a a'"
      "secret_data view w' tk = Some d'" "agreesBut d d'" by auto
    with made_agrees(3) t show ?thesis by blast
  qed
  ultimately show "(secret_data view w mk = None \<longrightarrow> (\<exists>d. secret_data view w' mk = Some d \<and> adminMade t d)) \<and>
      (\<not> (\<exists>d. secret_data view w rk = Some d \<and> redisSecretHealthy d) \<longrightarrow> (\<exists>d. secret_data view w' rk = Some d \<and> redisMade t d)) \<and>
      (secret_data view w ak = None \<longrightarrow> (\<exists>d. secret_data view w' ak = Some d \<and> caMade t cr d)) \<and>
      (secret_data view w tk = None \<longrightarrow> (\<exists>a d. secret_data view w' ak = Some a \<and> secret_data view w' tk = Some d \<and> tlsMade e t cr a d))"
    by blast
qed

end

section \<open>Copies of image pull secrets\<close>

text \<open>Who controls an object is in its owner references.\<close>

definition byOwners :: "(object_meta \<Rightarrow> bool) \<Rightarrow> bool" where
  "byOwners controlled \<longleftrightarrow> (\<forall>m m'. metaOwners m = metaOwners m' \<longrightarrow> controlled m = controlled m')"

text \<open>A copy the instance made of the image pull secret \<open>name\<close>, or of some.\<close>

definition copyFrom :: "(object_meta \<Rightarrow> bool) \<Rightarrow> string \<Rightarrow> obj \<Rightarrow> bool" where
  "copyFrom controlled name x \<longleftrightarrow> gget (obj_labels x) copiedLabel = Some name \<and> controlled (obj_meta x)"

definition someCopy :: "(object_meta \<Rightarrow> bool) \<Rightarrow> ArgoCD_beta \<Rightarrow> obj \<Rightarrow> bool" where
  "someCopy controlled cr x \<longleftrightarrow> metaNamespace (obj_meta x) = crNamespace cr \<and> (\<exists>name. copyFrom controlled name x)"

lemma copiedLabel_untracked: "copiedLabel \<noteq> ArgoCDTrackedByOperatorLabel"
  by (simp add: copiedLabel_def ArgoCDTrackedByOperatorLabel_def)

context tracked_lister begin

lemma refresh_owners: "metaOwners (obj_meta (refresh x)) = metaOwners (obj_meta x)"
proof -
  have "metaOwners (obj_meta (set_labels None (refresh x))) = metaOwners (obj_meta (set_labels None x))"
    by (simp only: refresh_labels)
  then show ?thesis by (simp add: set_labels_def)
qed

lemma refresh_copy: "byOwners controlled \<Longrightarrow> copyFrom controlled name (refresh x) = copyFrom controlled name x"
proof -
  assume "byOwners controlled"
  then have "controlled (obj_meta (refresh x)) = controlled (obj_meta x)"
    using refresh_owners[of x] unfolding byOwners_def by blast
  then show ?thesis by (simp add: copyFrom_def refresh_adds[OF copiedLabel_untracked])
qed

end

text \<open>What a turn of the copying loop leaves: nothing but a copy is changed, and copies keep their label and owner.\<close>

definition sparesOthers :: "('w \<Rightarrow> key \<Rightarrow> obj option) \<Rightarrow> (object_meta \<Rightarrow> bool) \<Rightarrow> ArgoCD_beta \<Rightarrow> 'w \<Rightarrow> 'w \<Rightarrow> bool" where
  "sparesOthers view controlled cr w w' \<longleftrightarrow> (\<forall>k x. view w k = Some x \<longrightarrow> \<not> someCopy controlled cr x \<longrightarrow>
     (\<exists>x'. view w' k = Some x' \<and> \<not> someCopy controlled cr x') \<and> secret_data view w' k = secret_data view w k)"

interpretation so: world_relation "sparesOthers view controlled cr" for view controlled cr
proof
  show "sparesOthers view controlled cr w w" for w by (simp add: sparesOthers_def)
  show "sparesOthers view controlled cr u w" if "sparesOthers view controlled cr u v" "sparesOthers view controlled cr v w" for u v w
    using that unfolding sparesOthers_def by metis
qed

context tracked_lister begin

lemma read_spares:
  assumes "byOwners controlled" and "view w' = view w \<or> view w' = (view w)(k := map_option refresh (view w k))"
  shows "sparesOthers view controlled cr w w'"
proof -
  have "someCopy controlled cr (refresh x) = someCopy controlled cr x" for x
    using refresh_copy[OF assms(1)] refresh_key[of x] by (simp add: someCopy_def okey_def)
  moreover have "map_option secData (as_secret (refresh x)) = map_option secData (as_secret x)" for x by (rule refresh_secret)
  ultimately show ?thesis using assms(2) by (auto simp: sparesOthers_def secret_data_def)
qed

lemma getAs_read:
  assumes "getAs c cast k w = (r, w')"
  shows "view w' = view w \<or> view w' = (view w)(k := map_option refresh (view w k))"
proof -
  from assms obtain g where "cGet c w k = (g, w')"
    by (auto simp: getAs_def getO_def bindG_def handle_def split: prod.splits sum.splits outcome.splits option.splits)
  from get_view[OF this] show ?thesis .
qed

lemma copyImagePullSecret_Ok:
  assumes run: "copyImagePullSecret e controlled c cr src w = (Ok (), w')" and own: "byOwners controlled"
    and name: "metaName (secMeta src) \<noteq> ''''"
  defines "k \<equiv> (KSecret, crNamespace cr, metaName (secMeta src))"
  shows "sparesOthers view controlled cr w w'" and "same_outside view {k} w w'"
    and "(\<And>x. view w k = Some x \<Longrightarrow> copyFrom controlled (metaName (secMeta src)) x) \<Longrightarrow> secret_data view w' k = Some (secData src) \<and>
      (\<exists>x'. view w' k = Some x' \<and> gget (obj_labels x') copiedLabel = Some (metaName (secMeta src)))"
    and "view w k = Some x \<Longrightarrow> \<not> copyFrom controlled (metaName (secMeta src)) x \<Longrightarrow> view w' = view w \<or> view w' = (view w)(k \<mapsto> refresh x)"
proof -
  let ?n = "metaName (secMeta src)"
  from run consider
    (none) err w1 m where "getAs c as_secret k w = (Err err, w1)" "IsNotFound err"
      "SetControllerReference e (bArgoCD_Meta cr) (secMeta (copyOf cr src)) = Inr m"
      "createO c (OSecret ((copyOf cr src)\<lparr>secMeta := m\<rparr>)) w1 = (Ok (), w')"
    | (other) a where "getAs c as_secret k w = (Ok a, w')" "\<not> copyFrom controlled ?n (OSecret a)"
    | (same) a where "getAs c as_secret k w = (Ok a, w')" "copyFrom controlled ?n (OSecret a)" "secData a = secData src"
    | (update) a w1 where "getAs c as_secret k w = (Ok a, w1)" "copyFrom controlled ?n (OSecret a)"
      "updateO c (OSecret (a\<lparr>secData := secData src, secType := secType src\<rparr>)) w1 = (Ok (), w')"
    using name by (auto simp: copyImagePullSecret_def Let_def k_def copyFrom_def obj_labels_def gindex_def ok_iff controlledBy_Ok_iff
        split: if_splits option.splits)
  then have "sparesOthers view controlled cr w w' \<and> same_outside view {k} w w' \<and>
    ((\<forall>x. view w k = Some x \<longrightarrow> copyFrom controlled ?n x) \<longrightarrow> secret_data view w' k = Some (secData src) \<and>
      (\<exists>x'. view w' k = Some x' \<and> gget (obj_labels x') copiedLabel = Some ?n)) \<and>
    (view w k = Some x \<longrightarrow> \<not> copyFrom controlled ?n x \<longrightarrow> view w' = view w \<or> view w' = (view w)(k \<mapsto> refresh x))"
  proof cases
    case none
    let ?s = "(copyOf cr src)\<lparr>secMeta := m\<rparr>"
    from getAs_NotFound[OF none(1,2)] have n: "view w k = None" and v: "view w1 = view w" .
    from SetControllerReference_Inr[OF none(3)] have k: "okey (OSecret ?s) = k" and d: "secData ?s = secData src"
      by (simp_all add: okey_def copyOf_def k_def)
    from createO_secret(1,2)[OF none(4)] v k d have u: "view w' = (view w)(k \<mapsto> OSecret ?s)"
      and u2: "secret_data view w' k = Some (secData src)" by simp_all
    have "sparesOthers view controlled cr w w'" using u n by (auto simp: sparesOthers_def secret_data_def)
    moreover have "gget (obj_labels (OSecret ?s)) copiedLabel = Some ?n"
      using SetControllerReference_Inr(3)[OF none(3)] by (simp add: obj_labels_def copyOf_def gmap_def gget_def)
    ultimately show ?thesis using u u2 n by (simp add: same_outside_def)
  next
    case other
    from getAs_read[OF other(1)] have r: "view w' = view w \<or> view w' = (view w)(k := map_option refresh (view w k))" .
    from getAs_found[OF other(1)] obtain x0 x1 where x0: "view w k = Some x0" "x1 = x0 \<or> x1 = refresh x0" "as_secret x1 = Some a" by metis
    then have "\<not> copyFrom controlled ?n x0" using other(2) refresh_copy[OF own] by auto
    with read_spares[OF own r] r x0(1) show ?thesis by (auto simp: same_outside_def)
  next
    case same
    from getAs_read[OF same(1)] have r: "view w' = view w \<or> view w' = (view w)(k := map_option refresh (view w k))" .
    from getAs_found[OF same(1)] obtain x0 x1 where x0: "view w k = Some x0" "x1 = x0 \<or> x1 = refresh x0" "as_secret x1 = Some a" by metis
    then have copy: "copyFrom controlled ?n x0" using same(2) refresh_copy[OF own] by auto
    have "secret_data view w' k = Some (secData src)"
      using getAs_secret(1)[OF same(1)] getAs_data[OF same(1)] same(3) by simp
    moreover from copy r x0(1) have "\<exists>x'. view w' k = Some x' \<and> gget (obj_labels x') copiedLabel = Some ?n"
      by (auto simp: copyFrom_def refresh_adds[OF copiedLabel_untracked])
    ultimately show ?thesis using read_spares[OF own r] r x0(1) copy by (auto simp: same_outside_def)
  next
    case update
    let ?s = "a\<lparr>secData := secData src, secType := secType src\<rparr>"
    from getAs_read[OF update(1)] have r: "view w1 = view w \<or> view w1 = (view w)(k := map_option refresh (view w k))" .
    from getAs_found[OF update(1)] obtain x0 x1 where x0: "view w k = Some x0" "x1 = x0 \<or> x1 = refresh x0" "as_secret x1 = Some a" by metis
    then have copy: "copyFrom controlled ?n x0" using update(2) refresh_copy[OF own] by auto
    have k: "okey (OSecret ?s) = k" using getAs_secret(2)[OF update(1)] by (simp add: okey_def)
    from updateO_secret(1,2)[OF update(3)] k have u: "view w' = (view w1)(k \<mapsto> OSecret ?s)"
      and u2: "secret_data view w' k = Some (secData src)" by simp_all
    have w': "view w' = (view w)(k \<mapsto> OSecret ?s)" using r u by auto
    have "metaNamespace (obj_meta x0) = crNamespace cr" using view_key[OF x0(1)] by (simp add: k_def okey_def)
    with copy have "someCopy controlled cr x0" by (auto simp: someCopy_def)
    then have "sparesOthers view controlled cr w w'" using w' x0(1) by (auto simp: sparesOthers_def secret_data_def)
    moreover have "gget (obj_labels (OSecret ?s)) copiedLabel = Some ?n" using update(2) by (simp add: copyFrom_def obj_labels_def)
    ultimately show ?thesis using u2 w' copy x0(1) by (auto simp: same_outside_def)
  qed
  then show "sparesOthers view controlled cr w w'" and "same_outside view {k} w w'"
    and "(\<And>x. view w k = Some x \<Longrightarrow> copyFrom controlled ?n x) \<Longrightarrow> secret_data view w' k = Some (secData src) \<and>
      (\<exists>x'. view w' k = Some x' \<and> gget (obj_labels x') copiedLabel = Some ?n)"
    and "view w k = Some x \<Longrightarrow> \<not> copyFrom controlled ?n x \<Longrightarrow> view w' = view w \<or> view w' = (view w)(k \<mapsto> refresh x)" by auto
qed

end

context tracked_lister begin

lemma copyLoop_Ok:
  assumes "forG (copyImagePullSecret e controlled c cr) srcs w = (Ok (), w')" and own: "byOwners controlled"
    and "\<And>s. s \<in> set srcs \<Longrightarrow> metaName (secMeta s) \<noteq> '''' \<and> metaName (secMeta s) \<noteq> name"
    and "view w k = Some x" and "copyFrom controlled name x"
  shows "\<exists>x'. view w' k = Some x' \<and> copyFrom controlled name x'"
  using assms(1,3,4,5)
proof (induction srcs arbitrary: w x)
  case (Cons s srcs)
  then obtain w1 where s: "copyImagePullSecret e controlled c cr s w = (Ok (), w1)"
    and r: "forG (copyImagePullSecret e controlled c cr) srcs w1 = (Ok (), w')" by (auto simp: thenG_Ok_iff)
  from Cons.prems(2) have n: "metaName (secMeta s) \<noteq> ''''" "metaName (secMeta s) \<noteq> name" by auto
  note o = copyImagePullSecret_Ok[OF s own n(1)]
  have "\<exists>x1. view w1 k = Some x1 \<and> copyFrom controlled name x1"
  proof (cases "k = (KSecret, crNamespace cr, metaName (secMeta s))")
    case True
    have "\<not> copyFrom controlled (metaName (secMeta s)) x" using Cons.prems(4) n(2) by (simp add: copyFrom_def)
    from o(4)[OF _ this] Cons.prems(3,4) True refresh_copy[OF own] show ?thesis by auto
  next
    case False
    with same_outsideD[OF o(2), of k] Cons.prems(3,4) show ?thesis by simp
  qed
  then obtain x1 where "view w1 k = Some x1" "copyFrom controlled name x1" by blast
  from Cons.IH[OF r _ this] Cons.prems(2) show ?case by simp
qed auto

lemma copyLoop_spares:
  assumes "forG (copyImagePullSecret e controlled c cr) srcs w = (Ok (), w')" and "byOwners controlled"
    and "\<And>s. s \<in> set srcs \<Longrightarrow> metaName (secMeta s) \<noteq> ''''"
  shows "sparesOthers view controlled cr w w'"
  using assms(1,3)
proof (induction srcs arbitrary: w)
  case (Cons s srcs)
  then obtain w1 where s: "copyImagePullSecret e controlled c cr s w = (Ok (), w1)"
    and r: "forG (copyImagePullSecret e controlled c cr) srcs w1 = (Ok (), w')" by (auto simp: thenG_Ok_iff)
  from so.R_trans[OF copyImagePullSecret_Ok(1)[OF s assms(2)] Cons.IH[OF r]] Cons.prems(2) show ?case by simp
qed (simp add: so.R_refl)

end

definition staleFor :: "(object_meta \<Rightarrow> bool) \<Rightarrow> string list \<Rightarrow> obj \<Rightarrow> bool" where
  "staleFor controlled desired x \<longleftrightarrow> controlled (obj_meta x) \<and> gindex (obj_labels x) copiedLabel \<notin> set desired"

context tracked_lister begin

lemma delete_not_there: "deleteO c k w = (Err err, w') \<Longrightarrow> IsNotFound err \<Longrightarrow> view w' k = None"
  using deleteO_NotFound[of k w err w'] by simp

lemma deleteStaleCopy_Ok:
  assumes "deleteStaleCopy controlled c desired x w = (Ok (), w')"
  shows "gone (view w k) \<Longrightarrow> gone (view w' k)" and "staleFor controlled desired x \<Longrightarrow> gone (view w' (okey x))"
proof -
  show "staleFor controlled desired x \<Longrightarrow> gone (view w' (okey x))"
    using assms by (auto simp: deleteStaleCopy_def staleFor_def handle_Ok_iff gone_def elim!: deleteO_Ok
        split: if_splits dest: delete_not_there)
  show "gone (view w' k)" if "gone (view w k)"
    using assms that by (auto simp: deleteStaleCopy_def handle_Ok_iff elim!: deleteO_Ok
        split: if_splits dest: deleteO_NotFound(1))
qed

lemma deleteLoop_Ok:
  assumes "forG (deleteStaleCopy controlled c desired) xs w = (Ok (), w')"
  shows "gone (view w k) \<Longrightarrow> gone (view w' k)" and "x \<in> set xs \<Longrightarrow> staleFor controlled desired x \<Longrightarrow> gone (view w' (okey x))"
proof -
  show g: "gone (view w k) \<Longrightarrow> gone (view w' k)" for k
    using assms by (induction xs arbitrary: w) (auto simp: thenG_Ok_iff dest: deleteStaleCopy_Ok(1))
  show "x \<in> set xs \<Longrightarrow> staleFor controlled desired x \<Longrightarrow> gone (view w' (okey x))"
    using assms
  proof (induction xs arbitrary: w)
    case (Cons y ys)
    then obtain w1 where y: "deleteStaleCopy controlled c desired y w = (Ok (), w1)"
      and r: "forG (deleteStaleCopy controlled c desired) ys w1 = (Ok (), w')" by (auto simp: thenG_Ok_iff)
    have later: "gone (view w1 k) \<Longrightarrow> gone (view w' k)" for k
      using r by (induction ys arbitrary: w1) (auto simp: thenG_Ok_iff dest: deleteStaleCopy_Ok(1))
    from Cons.IH[OF _ _ r] later[of "okey y"] deleteStaleCopy_Ok(2)[OF y] Cons.prems(1,2) show ?case by auto
  qed simp
qed

lemma deleteLoop_fp:
  "okey ` {x \<in> set xs. staleFor controlled desired x} \<subseteq> S \<Longrightarrow> act_rel (same_outside view S) (forG (deleteStaleCopy controlled c desired) xs)"
  by (intro fp.rel_forG) (auto simp: deleteStaleCopy_def staleFor_def intro!: fp.rel_intros deleteO_fp)

end

text \<open>The secrets that are copied: the labelled one, if it is the only one.\<close>

definition copiedSources :: "obj list \<Rightarrow> secret list" where
  "copiedSources xs = (if length xs > 1 then [] else List.map_filter as_secret xs)"

context tracked_lister begin

lemma reconcileImagePullSecrets_parts:
  assumes "reconcileImagePullSecrets e f controlled c cr w = (Ok (), w')"
    and "\<not> versionFound f" and "argoOperatorNamespace e = Inr operatorNS" and "operatorNS \<noteq> crNamespace cr"
    and "listSelected c KSecret operatorNS ArgoCDImagePullSecretPropagateLabel ''true'' w = (Ok xs, w0)"
  obtains w1 w2 ys where "forG (copyImagePullSecret e controlled c cr) (copiedSources xs) w0 = (Ok (), w1)"
    and "cList c w1 KSecret = (Inr ys, w2)" and "view w0 = view w" and "view w2 = view w1"
    and "forG (deleteStaleCopy controlled c (map (\<lambda>s. metaName (secMeta s)) (copiedSources xs)))
      (filter (\<lambda>x. metaNamespace (obj_meta x) = crNamespace cr \<and> gget (obj_labels x) copiedLabel \<noteq> None) ys) w2 = (Ok (), w')"
proof -
  from assms(5) have v0: "view w0 = view w"
    by (auto simp: listSelected_def bindG_Ok_iff dest: listO_view)
  from assms obtain w1 w2 ys where copy: "forG (copyImagePullSecret e controlled c cr) (copiedSources xs) w0 = (Ok (), w1)"
    and l: "listO c KSecret w1 = (Ok ys, w2)"
    and d: "forG (deleteStaleCopy controlled c (map (\<lambda>s. metaName (secMeta s)) (copiedSources xs)))
      (filter (\<lambda>x. metaNamespace (obj_meta x) = crNamespace cr \<and> gget (obj_labels x) copiedLabel \<noteq> None) ys) w2 = (Ok (), w')"
    by (auto simp: reconcileImagePullSecrets_def Let_def ok_iff copiedSources_def)
  from l have "cList c w1 KSecret = (Inr ys, w2)" by (auto simp: listO_def split: prod.splits sum.splits)
  with copy v0 listO_view[OF l] d that show thesis by blast
qed

lemma reconcileImagePullSecrets_Ok:
  assumes run: "reconcileImagePullSecrets e f controlled c cr w = (Ok (), w')"
    and mode: "\<not> versionFound f" "argoOperatorNamespace e = Inr operatorNS" "operatorNS \<noteq> crNamespace cr"
    and labelled: "listSelected c KSecret operatorNS ArgoCDImagePullSecretPropagateLabel ''true'' w = (Ok xs, w0)"
    and own: "byOwners controlled" and names: "\<And>s. s \<in> set (copiedSources xs) \<Longrightarrow> metaName (secMeta s) \<noteq> ''''"
  shows "view w k = Some x \<Longrightarrow> \<not> someCopy controlled cr x \<Longrightarrow> secret_data view w' k = secret_data view w k"
    and "copiedSources xs = [src] \<Longrightarrow> k = (KSecret, crNamespace cr, metaName (secMeta src)) \<Longrightarrow>
      (\<And>x. view w k = Some x \<Longrightarrow> copyFrom controlled (metaName (secMeta src)) x) \<Longrightarrow> secret_data view w' k = Some (secData src)"
    and "view w k = Some x \<Longrightarrow> fst k = KSecret \<Longrightarrow> fst (snd k) = crNamespace cr \<Longrightarrow> copyFrom controlled name x \<Longrightarrow>
      name \<notin> (\<lambda>s. metaName (secMeta s)) ` set (copiedSources xs) \<Longrightarrow> gone (view w' k)"
proof -
  let ?desired = "map (\<lambda>s. metaName (secMeta s)) (copiedSources xs)"
  obtain w1 w2 ys where copy: "forG (copyImagePullSecret e controlled c cr) (copiedSources xs) w0 = (Ok (), w1)"
    and l: "cList c w1 KSecret = (Inr ys, w2)" and v: "view w0 = view w" "view w2 = view w1"
    and d: "forG (deleteStaleCopy controlled c ?desired)
      (filter (\<lambda>x. metaNamespace (obj_meta x) = crNamespace cr \<and> gget (obj_labels x) copiedLabel \<noteq> None) ys) w2 = (Ok (), w')"
    by (rule reconcileImagePullSecrets_parts[OF run mode labelled])
  define zs where "zs = filter (\<lambda>x. metaNamespace (obj_meta x) = crNamespace cr \<and> gget (obj_labels x) copiedLabel \<noteq> None) ys"
  note d = d[folded zs_def]
  have known: "\<exists>y. view w2 (okey z) = Some y \<and> obj_meta y = obj_meta z" if "z \<in> set zs" for z
    using list_known[OF l, of z] that v(2) by (auto simp: zs_def)
  let ?S = "okey ` {z \<in> set zs. staleFor controlled ?desired z}"
  have kept: "view w' k = view w2 k" if "k \<notin> ?S" for k
    by (rule same_outsideD[OF act_relD[OF deleteLoop_fp[OF order.refl] d] that])
  have inS: "\<exists>y. view w2 k = Some y \<and> someCopy controlled cr y \<and> gindex (obj_labels y) copiedLabel \<notin> set ?desired"
    if "k \<in> ?S" for k
  proof -
    from that obtain z where z: "z \<in> set zs" "staleFor controlled ?desired z" "k = okey z" by auto
    with known[OF z(1)] obtain y where y: "view w2 k = Some y" "obj_meta y = obj_meta z" by blast
    from z(1) have "metaNamespace (obj_meta y) = crNamespace cr" "gget (obj_labels y) copiedLabel \<noteq> None"
      using y(2) by (simp_all add: zs_def obj_labels_def)
    moreover have "controlled (obj_meta y)" "gindex (obj_labels y) copiedLabel \<notin> set ?desired"
      using z(2) y(2) by (simp_all add: staleFor_def obj_labels_def)
    ultimately show ?thesis using y(1) unfolding someCopy_def copyFrom_def by blast
  qed
  have spares: "sparesOthers view controlled cr w w1"
    using copyLoop_spares[OF copy own names] v(1) by (simp add: sparesOthers_def secret_data_def)
  show "secret_data view w' k = secret_data view w k" if x: "view w k = Some x" "\<not> someCopy controlled cr x"
  proof -
    from spares x obtain x1 where x1: "view w1 k = Some x1" "\<not> someCopy controlled cr x1" "secret_data view w1 k = secret_data view w k"
      unfolding sparesOthers_def by blast
    with inS[of k] v(2) have "k \<notin> ?S" by auto
    with kept[of k] x1(3) v(2) show ?thesis by (simp add: secret_data_def)
  qed
  show "secret_data view w' k = Some (secData src)"
    if one: "copiedSources xs = [src]" and k: "k = (KSecret, crNamespace cr, metaName (secMeta src))"
      and free: "\<And>x. view w k = Some x \<Longrightarrow> copyFrom controlled (metaName (secMeta src)) x"
  proof -
    from copy one have c1: "copyImagePullSecret e controlled c cr src w0 = (Ok (), w1)" by (simp add: thenG_Ok_iff)
    from copyImagePullSecret_Ok(3)[OF c1 own names] one free k v(1)
    have o: "secret_data view w1 k = Some (secData src)" "\<exists>y. view w1 k = Some y \<and> gget (obj_labels y) copiedLabel = Some (metaName (secMeta src))"
      by auto
    then have "k \<notin> ?S" using inS[of k] v(2) one by (auto simp: gindex_def)
    with kept[of k] o(1) v(2) show ?thesis by (simp add: secret_data_def)
  qed
  show "gone (view w' k)"
    if x: "view w k = Some x" "fst k = KSecret" "fst (snd k) = crNamespace cr" "copyFrom controlled name x"
      and stale: "name \<notin> (\<lambda>s. metaName (secMeta s)) ` set (copiedSources xs)"
  proof -
    have "view w0 k = Some x" using x(1) v(1) by simp
    from copyLoop_Ok[OF copy own _ this x(4)] names stale
    obtain x1 where x1: "view w1 k = Some x1" "copyFrom controlled name x1" by blast
    from secret_at[OF x(2) x1(1)] obtain s where s: "x1 = OSecret s" ..
    with list_heads[OF l] x1(1) obtain s' where s': "OSecret s' \<in> set ys" "secMeta s' = secMeta s" by blast
    have k: "okey (OSecret s') = k" using view_key[OF x1(1)] s s'(2) by (simp add: okey_def)
    then have ns: "metaNamespace (secMeta s') = crNamespace cr" using x(3) by (auto simp: okey_def)
    have "OSecret s' \<in> set zs" using s' ns x1(2) s by (simp add: zs_def copyFrom_def obj_labels_def)
    moreover have "staleFor controlled ?desired (OSecret s')"
      using s'(2) x1(2) s stale by (auto simp: staleFor_def copyFrom_def obj_labels_def gindex_def)
    ultimately show ?thesis using deleteLoop_Ok(2)[OF d] k by blast
  qed
qed

end

section \<open>The token of Dex\<close>

lemma fp_quiet: "act_rel (same_outside view {}) m \<Longrightarrow> act_rel (same_outside view S) m"
  by (erule fp_mono) simp

text \<open>Tokens and the table of requeues are not objects of the cluster.\<close>

definition quietDex :: "('w \<Rightarrow> key \<Rightarrow> obj option) \<Rightarrow> 'w dex_tools \<Rightarrow> bool" where
  "quietDex view d \<longleftrightarrow> (\<forall>ns sa n. act_rel (same_outside view {}) (createToken d ns sa n)) \<and>
     (\<forall>ns n. act_rel (same_outside view {}) (storeRequeueAfter d ns n))"

definition dexTokenKey :: "env \<Rightarrow> ArgoCD_beta \<Rightarrow> key" where
  "dexTokenKey e cr = (KSecret, crNamespace cr, getDexServerTokenSecretName e cr)"

lemma dexTokenKey_eq: "secKeyOf (secretWithSuffix e (dexServerComponent @ ''-token'') cr) = dexTokenKey e cr"
proof -
  have "length (GetSecretNameWithSuffix e cr (dexServerComponent @ ''-token'')) \<le> maxLabelLength"
    using TruncateCRName_length[of e "crName cr"]
    by (simp add: GetSecretNameWithSuffix_def dexServerComponent_def maxLabelLength_def maxCRNameLength_def maxSuffixLength_def)
  then show ?thesis
    by (simp add: secKeyOf_meta dexTokenKey_def secretWithSuffix_def getDexServerTokenSecretName_def TruncateWithHash_id)
qed

lemma dexTokenKey_other: "dexTokenKey e cr \<noteq> argoSecretKey cr"
proof -
  have "last (getDexServerTokenSecretName e cr) = CHR ''n''"
    by (simp add: getDexServerTokenSecretName_def GetSecretNameWithSuffix_def)
  moreover have "last ArgoCDSecretName = CHR ''t''" by (simp add: ArgoCDSecretName_def)
  ultimately show ?thesis by (auto simp: dexTokenKey_def argoSecretKey_def)
qed

context k8s_client begin

lemma requeueBefore_quiet: "quietDex view d \<Longrightarrow> act_rel (same_outside view {}) (requeueBefore d cr x)"
  by (auto simp: requeueBefore_def quietDex_def intro!: fp.rel_intros split: option.split)

lemma createOwnedSecret_fp: "secKeyOf s \<in> S \<Longrightarrow> act_rel (same_outside view S) (createOwnedSecret e c cr s)"
  unfolding createOwnedSecret_def
proof (intro fp.rel_bindG createO_fp)
  show "act_rel (same_outside view S) (controlledBy e cr (secMeta s))" by (simp add: controlledBy_def fp.rel_liftE)
  show "okey (OSecret (s\<lparr>secMeta := m\<rparr>)) \<in> S" if "secKeyOf s \<in> S" "controlledBy e cr (secMeta s) w = (Ok m, w1)" for m w w1
    using that SetControllerReference_Inr(1,2)[of e "bArgoCD_Meta cr" "secMeta s" m]
    by (simp add: controlledBy_Ok_iff secKeyOf_def okey_def)
qed

end

context verbatim_client begin

lemma getDexOAuthClientSecret_fp:
  assumes "quietDex view d"
  shows "act_rel (same_outside view {dexTokenKey e cr}) (getDexOAuthClientSecret e d c cr)"
proof -
  let ?S = "{dexTokenKey e cr}"
  have save: "act_rel (same_outside view ?S) (saveDexToken e c cr found data)"
    if "\<And>a. found = Some a \<Longrightarrow> okey (OSecret a) = dexTokenKey e cr" for found data
    using that dexTokenKey_eq[of e cr]
    by (auto simp: saveDexToken_def secKeyOf_meta secretNamed_def secretWithSuffix_def Let_def okey_def split: option.split
        intro!: createOwnedSecret_fp updateO_fp)
  have fresh: "act_rel (same_outside view ?S) (bindG (mapErr f (createToken d ns sa n)) (\<lambda>(token, expiry).
      thenG (saveDexToken e c cr found (g token expiry)) (thenG (requeueBefore d cr (Some expiry)) (ret token))))"
    if "\<And>a. found = Some a \<Longrightarrow> okey (OSecret a) = dexTokenKey e cr" for f ns sa n found g
  proof -
    have s: "act_rel (same_outside view ?S) (saveDexToken e c cr found data)" for data by (rule save) (rule that)
    show ?thesis using assms s fp_quiet[OF requeueBefore_quiet[OF assms]]
      by (auto simp: quietDex_def intro!: fp.rel_bindG fp.rel_mapErr fp.rel_thenG fp.rel_ret intro: fp_quiet split: prod.split)
  qed
  show ?thesis
    unfolding getDexOAuthClientSecret_def dexTokenKey_def[symmetric]
  proof (intro fp.rel_bindG)
    show "act_rel (same_outside view ?S) (getAs c as_service_account (saKeyOf (newServiceAccountWithName e dexServerComponent cr)))"
      by (rule getAs_fp) (simp add: saKeyOf_def okey_def refreshable_def)
    show "act_rel (same_outside view ?S) (IsObjectFound c as_secret (dexTokenKey e cr))" by (rule IsObjectFound_fp) simp
    fix sa w w1 found w2 w3
    assume "IsObjectFound c as_secret (dexTokenKey e cr) w2 = (Ok found, w3)"
    then have key: "okey (OSecret a) = dexTokenKey e cr" if "found = Some a" for a using findSecretAt_Ok(3) that by blast
    show "act_rel (same_outside view ?S)
      (case (case found of None \<Rightarrow> None | Some s \<Rightarrow> if needsDexTokenRenewal d s then None else Some s) of
         Some s \<Rightarrow> thenG (requeueBefore d cr (parseRFC3339 d (gindex (secData s) ''expiry''))) (ret (gindex (secData s) ''token''))
       | None \<Rightarrow> bindG (mapErr (Wrapped (''failed to create token for dex service account '' @ metaName (saMeta sa)))
             (createToken d (crNamespace cr) (metaName (saMeta sa)) ArgoCDDexServerTokenExpirySecs)) (\<lambda>(token, expiry).
           thenG (saveDexToken e c cr found (gmap [(''token'', token), (''expiry'', formatRFC3339 d expiry)]))
             (thenG (requeueBefore d cr (Some expiry)) (ret token))))"
      using fresh[of found, OF key] fp_quiet[OF requeueBefore_quiet[OF assms]]
      by (auto intro!: fp.rel_thenG fp.rel_ret split: option.split)
  qed
qed

text \<open>A token that is handed out is stored, and one that was stored is not about to expire.\<close>

lemma getDexOAuthClientSecret_Ok:
  assumes run: "getDexOAuthClientSecret e d c cr w = (Ok token, w')" and quiet: "quietDex view d"
  defines "k \<equiv> dexTokenKey e cr"
  obtains (cached) data expiry "at" where "secret_data view w k = Some data" and "gget data ''token'' = Some token" and "token \<noteq> ''''"
      and "gget data ''expiry'' = Some expiry" and "parseRFC3339 d expiry = Some at" and "at - dexNow d \<ge> dexServerTokenRenewalThreshold"
      and "secret_data view w' = secret_data view w"
    | (fresh) sa w1 w2 expiry where "createToken d (crNamespace cr) sa ArgoCDDexServerTokenExpirySecs w1 = (Ok (token, expiry), w2)"
      and "secret_data view w' = (secret_data view w)(k := Some (gmap [(''token'', token), (''expiry'', formatRFC3339 d expiry)]))"
proof -
  from run obtain sa w1 found w2 where a: "getAs c as_service_account (saKeyOf (newServiceAccountWithName e dexServerComponent cr)) w = (Ok sa, w1)"
    and f: "IsObjectFound c as_secret k w1 = (Ok found, w2)"
    and n: "(case (case found of None \<Rightarrow> None | Some s \<Rightarrow> if needsDexTokenRenewal d s then None else Some s) of
         Some s \<Rightarrow> thenG (requeueBefore d cr (parseRFC3339 d (gindex (secData s) ''expiry''))) (ret (gindex (secData s) ''token''))
       | None \<Rightarrow> bindG (mapErr (Wrapped (''failed to create token for dex service account '' @ metaName (saMeta sa)))
             (createToken d (crNamespace cr) (metaName (saMeta sa)) ArgoCDDexServerTokenExpirySecs)) (\<lambda>(token, expiry).
           thenG (saveDexToken e c cr found (gmap [(''token'', token), (''expiry'', formatRFC3339 d expiry)]))
             (thenG (requeueBefore d cr (Some expiry)) (ret token)))) w2 = (Ok token, w')"
    unfolding getDexOAuthClientSecret_def bindG_Ok_iff k_def dexTokenKey_def by blast
  note found = findSecretAt_Ok[OF f]
  have v: "secret_data view w2 = secret_data view w" using getAs_data[OF a] found(1) by simp
  show thesis
  proof (cases "\<exists>s. found = Some s \<and> \<not> needsDexTokenRenewal d s")
    case True
    then obtain s where s: "found = Some s" "\<not> needsDexTokenRenewal d s" by blast
    with n obtain u where q: "requeueBefore d cr (parseRFC3339 d (gindex (secData s) ''expiry'')) w2 = (Ok u, w')"
      and tok: "token = gindex (secData s) ''token''" by (auto simp: thenG_Ok_iff)
    have "secret_data view w' = secret_data view w"
      using fp_empty_view[OF requeueBefore_quiet[OF quiet] q] v by (simp add: secret_data_def fun_eq_iff)
    moreover from found(3)[OF s(1)] v found(1) have "secret_data view w k = Some (secData s)" by simp
    moreover from s(2) obtain expiry "at" where "gget (secData s) ''expiry'' = Some expiry" "parseRFC3339 d expiry = Some at"
      "at - dexNow d \<ge> dexServerTokenRenewalThreshold" "token \<noteq> ''''"
      by (auto simp: needsDexTokenRenewal_def tok split: option.splits)
    moreover have "gget (secData s) ''token'' = Some token" using tok \<open>token \<noteq> ''''\<close> gget_of_gindex by metis
    ultimately show thesis using cached by blast
  next
    case False
    then have "(case found of None \<Rightarrow> None | Some s \<Rightarrow> if needsDexTokenRenewal d s then None else Some s) = None"
      by (auto split: option.split)
    with n obtain expiry w3 w4 u where t: "createToken d (crNamespace cr) (metaName (saMeta sa)) ArgoCDDexServerTokenExpirySecs w2 = (Ok (token, expiry), w3)"
      and sv: "saveDexToken e c cr found (gmap [(''token'', token), (''expiry'', formatRFC3339 d expiry)]) w3 = (Ok (), w4)"
      and q: "requeueBefore d cr (Some expiry) w4 = (Ok u, w')"
      by (auto simp: ok_iff)
    from quiet t have v3: "secret_data view w3 = secret_data view w"
      using fp_empty_view[of view "createToken d _ _ _" w2 _ w3] v by (simp add: quietDex_def secret_data_def fun_eq_iff)
    have "secret_data view w4 = (secret_data view w3)(k := Some (gmap [(''token'', token), (''expiry'', formatRFC3339 d expiry)]))"
    proof (cases found)
      case None
      with createOwnedSecret_Ok(1)[of e cr _ w3 "()" w4] sv dexTokenKey_eq[of e cr] show ?thesis
        by (simp add: saveDexToken_def k_def secKeyOf_meta)
    next
      case (Some s)
      with updateO_secret(2)[of _ w3 "()" w4] sv found(3)[OF Some] show ?thesis by (simp add: saveDexToken_def)
    qed
    moreover have "secret_data view w' = secret_data view w4"
      using fp_empty_view[OF requeueBefore_quiet[OF quiet] q] by (simp add: secret_data_def fun_eq_iff)
    ultimately show thesis using fresh[OF t] v3 by simp
  qed
qed

end

end
