(* ===== verification/Instance_Credentials.thy ===== *)
theory Instance_Credentials
  imports Instance_Secrets_Correct
begin

text \<open>
  What holds of the secrets of an instance (\<open>secret.go\<close>, \<open>dex.go\<close>): passwords, keys and certificates are made
  once and then left alone, the cluster secret lists the managed namespaces, \<open>argocd-secret\<close> follows the
  secrets it is made from, image pull secrets are copied and their stale copies removed, and the token of Dex
  is stored and renewed in time. The lemmas are in Instance_Secrets_Correct.
\<close>

section \<open>A sample\<close>

definition sampleSecretTools :: secret_tools where
  "sampleSecretTools = \<lparr>verifyPassword = (\<lambda>pw hash. hash = ''hash '' @ pw), hashPassword = (\<lambda>pw. Inr (''hash '' @ pw)),
     generateArgoAdminPassword = Inr ''admin'', generateRedisAdminPassword = Inr ''redis'',
     generateArgoServerSessionKey = Inr ''session'', nowBytes = ''now'', newPrivateKey = Inr ''key'',
     selfSignedCACertificate = (\<lambda>cn key. Inr (''ca '' @ cn)), signedCertificate = (\<lambda>req key ca caKey. Inr (''cert '' @ reqName req)),
     parseCert = (\<lambda>c. if c = '''' then Inl (ErrorText ''no certificate'') else Inr c), parsePrivateKey = Inr\<rparr>"

definition sampleDexTools :: "'w dex_tools" where
  "sampleDexTools = \<lparr>dexNow = 0, parseRFC3339 = (\<lambda>s. if s = ''late'' then Some 9000000000000 else None), formatRFC3339 = (\<lambda>_. ''late''),
     createToken = (\<lambda>_ _ _. ret (''token'', 9000000000000)), storeRequeueAfter = (\<lambda>_ _. ret ())\<rparr>"

definition sampleSecret :: "string \<Rightarrow> (string \<times> string) list \<Rightarrow> secret" where
  "sampleSecret name xs = \<lparr>secMeta = mkMeta name ''team'', secType = ''Opaque'', secData = gmap xs, secStringData = None\<rparr>"

text \<open>A main secret that is there, and one of Redis that lacks its keys.\<close>

definition sampleBrokenRedis :: "obj list" where
  "sampleBrokenRedis = [OSecret (sampleSecret ''argocd-cluster'' [(ArgoCDKeyAdminPassword, ''chosen'')]),
     OSecret (sampleSecret ''argocd-redis-initial-password'' [(ArgoCDKeyAdminPassword, ''old'')])]"

section \<open>The secrets of the cluster\<close>

text \<open>C23. What the operator generates it generates once. When reconciling the cluster's secrets returns without an
  error, every secret that was there keeps its data, except that the list of namespaces of the cluster secret of the
  instance's namespace (labelled as one, for the default server) may change, and except for a Redis secret that lacked
  one of its keys. The main secret, the Redis secret, the CA secret and the TLS secret exist afterwards, the Redis
  secret with all of its keys. Provided their names differ, each of them that was missing, or for Redis incomplete, holds
  what was generated: the main secret the admin password, the Redis secret all that is derived from a new password,
  the CA secret a self-signed certificate with the key it was made with, and the TLS secret a certificate with its
  key, signed with what the CA secret holds. (Those that were there are not inspected.) A CA secret named like the
  TLS secret of the operator is refused.\<close>

theorem cluster_secrets_made_once:
  assumes "tracked_lister c view admit refresh" and "reconcileClusterSecrets e t match c cr w = (Ok (), w')"
    and "rk = secKeyOf (secretWithSuffix e ''redis-initial-password'' cr)" and "mk = secKeyOf (secretWithSuffix e ''cluster'' cr)"
    and "ak = secKeyOf (secretNamed e (getCASecretName e cr) cr)" and "tk = secKeyOf (newTLSSecret e ''tls'' cr)"
  shows "(\<forall>k d. secret_data view w k = Some d \<longrightarrow> (k = rk \<longrightarrow> redisSecretHealthy d) \<longrightarrow>
      (\<exists>d'. secret_data view w' k = Some d' \<and> (\<forall>x. x \<noteq> ''namespaces'' \<longrightarrow> gget d' x = gget d x) \<and>
        (d' = d \<or> (\<exists>s. clusterSecretOf view w' (crNamespace cr) s \<and> okey (OSecret s) = k)))) \<and>
    (\<forall>k \<in> {mk, ak, tk}. secret_data view w' k \<noteq> None) \<and>
    (\<exists>d. secret_data view w' rk = Some d \<and> redisSecretHealthy d) \<and>
    (distinct [mk, rk, ak, tk] \<longrightarrow>
      (secret_data view w mk = None \<longrightarrow> (\<exists>d. secret_data view w' mk = Some d \<and> adminMade t d)) \<and>
      (\<not> (\<exists>d. secret_data view w rk = Some d \<and> redisSecretHealthy d) \<longrightarrow> (\<exists>d. secret_data view w' rk = Some d \<and> redisMade t d)) \<and>
      (secret_data view w ak = None \<longrightarrow> (\<exists>d. secret_data view w' ak = Some d \<and> caMade t cr d)) \<and>
      (secret_data view w tk = None \<longrightarrow> (\<exists>a d. secret_data view w' ak = Some a \<and> secret_data view w' tk = Some d \<and> tlsMade e t cr a d))) \<and>
    getCASecretName e cr \<noteq> GetSecretNameWithSuffix e cr ''tls''"
proof -
  note f = tracked_lister.reconcileClusterSecrets_Ok[OF assms(1,2), folded assms(3-6)]
  have "secret_data view w k = Some d \<longrightarrow> (k = rk \<longrightarrow> redisSecretHealthy d) \<longrightarrow>
      (\<exists>d'. secret_data view w' k = Some d' \<and> (\<forall>x. x \<noteq> ''namespaces'' \<longrightarrow> gget d' x = gget d x) \<and>
        (d' = d \<or> (\<exists>s. clusterSecretOf view w' (crNamespace cr) s \<and> okey (OSecret s) = k)))" for k d
    using f(1)[of k d, unfolded agreesBut_def] by (intro impI) simp
  then show ?thesis using f(2,3,4) impI[OF f(5)] by (intro conjI allI) assumption+
qed

definition sampleSecretRun :: "unit outcome \<times> obj list" where
  "sampleSecretRun = reconcileClusterSecrets sampleEnv sampleSecretTools literalMatch mem_client samplePolicyCR sampleBrokenRedis"

theorem cluster_secrets_made_once_witness:
  "secret_value mem_view (snd sampleSecretRun) (KSecret, ''team'', ''argocd-cluster'') ArgoCDKeyAdminPassword = Some ''chosen'' \<and>
   (\<exists>d. secret_data mem_view (snd sampleSecretRun) (KSecret, ''team'', ''argocd-redis-initial-password'') = Some d \<and>
      redisMade sampleSecretTools d) \<and>
   (\<exists>d. secret_data mem_view (snd sampleSecretRun) (KSecret, ''team'', ''argocd-ca'') = Some d \<and>
      caMade sampleSecretTools samplePolicyCR d) \<and>
   \<not> redisSecretHealthy (gmap [(ArgoCDKeyAdminPassword, ''old'')])"
proof -
  have "fst sampleSecretRun = Ok ()" by code_simp
  note run = run_result[OF this, unfolded sampleSecretRun_def]
  note keys = cluster_secrets_made_once[OF mem_tracked.tracked_lister_axioms run refl refl refl refl, folded sampleSecretRun_def]
  have rk: "secKeyOf (secretWithSuffix sampleEnv ''redis-initial-password'' samplePolicyCR) = (KSecret, ''team'', ''argocd-redis-initial-password'')"
    and mk: "secKeyOf (secretWithSuffix sampleEnv ''cluster'' samplePolicyCR) = (KSecret, ''team'', ''argocd-cluster'')"
    and ak: "secKeyOf (secretNamed sampleEnv (getCASecretName sampleEnv samplePolicyCR) samplePolicyCR) = (KSecret, ''team'', ''argocd-ca'')"
    and tk: "secKeyOf (newTLSSecret sampleEnv ''tls'' samplePolicyCR) = (KSecret, ''team'', ''argocd-tls'')"
    by code_simp+
  have d: "secret_data mem_view sampleBrokenRedis (KSecret, ''team'', ''argocd-cluster'') = Some (gmap [(ArgoCDKeyAdminPassword, ''chosen'')])"
    and r: "secret_data mem_view sampleBrokenRedis (KSecret, ''team'', ''argocd-redis-initial-password'') = Some (gmap [(ArgoCDKeyAdminPassword, ''old'')])"
    and a: "secret_data mem_view sampleBrokenRedis (KSecret, ''team'', ''argocd-ca'') = None"
    by code_simp+
  have u: "\<not> redisSecretHealthy (gmap [(ArgoCDKeyAdminPassword, ''old'')])" by code_simp
  from keys d have "secret_value mem_view (snd sampleSecretRun) (KSecret, ''team'', ''argocd-cluster'') ArgoCDKeyAdminPassword = Some ''chosen''"
    unfolding rk by (fastforce simp: secret_value_def gmap_def gget_def ArgoCDKeyAdminPassword_def)
  with keys[unfolded rk mk ak tk] r a u show ?thesis by simp
qed

text \<open>C26. When reconciling the cluster secret of a namespace-scoped instance returns without an error, the cluster
  secret lists, sorted and without duplicates, the namespaces the instance manages and every name the secret listed
  before: reconciling never takes a name out. That of an instance that manages the cluster loses its list, and
  nothing else of an existing secret changes. A namespace-scoped instance without such a secret gets one with exactly
  the namespaces it manages.\<close>

theorem cluster_secret_namespaces:
  assumes "tracked_lister c view admit refresh"
    and "reconcileClusterPermissionsSecret e match c cr w = (Ok (), w')"
    and "\<And>n. managedHere view e match w cr n \<Longrightarrow> CHR '','' \<notin> set n"
  shows "let managed = {n. managedHere view e match w cr n}; ns = crNamespace cr;
      lists = (\<lambda>S s. let names = splitOn (CHR '','') (gindex (secData s) ''namespaces'') in set names = S \<and> sorted names \<and> distinct names)
    in (\<exists>s s'. clusterSecretOf view w ns s \<and> view w' = (view w)(okey (OSecret s) \<mapsto> OSecret s') \<and> secMeta s' = secMeta s \<and>
          (\<forall>k. k \<noteq> ''namespaces'' \<longrightarrow> gget (secData s') k = gget (secData s) k) \<and>
          (if IsNamespaceClusterConfigNamespace e ns then gget (secData s') ''namespaces'' = None
           else lists (managed \<union> set (map TrimSpace (splitOn (CHR '','') (gindex (secData s) ''namespaces'')))) s')) \<or>
       (\<forall>s. \<not> clusterSecretOf view w ns s) \<and>
       (if IsNamespaceClusterConfigNamespace e ns then view w' = view w
        else \<exists>s. clusterSecretOf view w' ns s \<and> view w (okey (OSecret s)) = None \<and>
          view w' = (view w)(okey (OSecret s) \<mapsto> OSecret s) \<and> lists managed s)"
proof -
  let ?ns = "crNamespace cr" and ?S = "{n. managedHere view e match w cr n}"
  have lists: "listsNamespaces S d \<longleftrightarrow> (let names = splitOn (CHR '','') (gindex d ''namespaces'') in set names = S \<and> sorted names \<and> distinct names)"
    for S d by (simp only: listsNamespaces_def sortedSet_def Let_def)
  from tracked_lister.reconcileClusterPermissionsSecret_Ok[OF assms]
  consider (found) s s' where "clusterSecretOf view w ?ns s" "view w' = (view w)(okey (OSecret s) \<mapsto> OSecret s')" "secMeta s' = secMeta s"
      "clusterSecretUpdated (IsNamespaceClusterConfigNamespace e ?ns) ?S (secData s) (secData s')"
    | (none) "\<forall>s. \<not> clusterSecretOf view w ?ns s" "IsNamespaceClusterConfigNamespace e ?ns" "view w' = view w"
    | (new) s' where "\<forall>s. \<not> clusterSecretOf view w ?ns s" "\<not> IsNamespaceClusterConfigNamespace e ?ns" "clusterSecretOf view w' ?ns s'"
      "view w (okey (OSecret s')) = None" "view w' = (view w)(okey (OSecret s') \<mapsto> OSecret s')" "listsNamespaces ?S (secData s')"
    by blast
  then show ?thesis
  proof cases
    case found
    then show ?thesis unfolding Let_def clusterSecretUpdated_def lists namesIn_def by (intro disjI1 exI[of _ s] exI[of _ s'] conjI) simp_all
  next
    case none
    then show ?thesis unfolding Let_def by (intro disjI2 conjI) simp_all
  next
    case new
    then have "\<exists>s. clusterSecretOf view w' ?ns s \<and> view w (okey (OSecret s)) = None \<and> view w' = (view w)(okey (OSecret s) \<mapsto> OSecret s) \<and>
        listsNamespaces ?S (secData s)" by blast
    with new(1,2) show ?thesis unfolding Let_def lists by (intro disjI2 conjI) simp_all
  qed
qed

definition sampleNamespaceRun :: "obj list \<Rightarrow> unit outcome \<times> obj list" where
  "sampleNamespaceRun w = reconcileClusterPermissionsSecret sampleEnv literalMatch mem_client sampleNsCR w"

theorem cluster_secret_namespaces_witness:
  "\<exists>s'. mem_view (snd (sampleNamespaceRun sampleNamespaces)) (okey (OSecret sampleClusterSecret)) = Some (OSecret s') \<and>
     set (splitOn (CHR '','') (gindex (secData s') ''namespaces'')) = {''argo'', ''team-a'', ''team-b''}"
proof -
  have "fst (sampleNamespaceRun sampleNamespaces) = Ok ()" by code_simp
  note run = run_result[OF this, unfolded sampleNamespaceRun_def]
  have managed: "managedHere mem_view sampleEnv literalMatch sampleNamespaces sampleNsCR n \<longleftrightarrow> n \<in> {''argo'', ''team-b''}" for n
  proof -
    have off: "\<not> isNamespaceManagementEnabled sampleEnv" by code_simp
    have "view = mem_view sampleNamespaces \<Longrightarrow> (\<exists>ns. view (okey (ONamespace ns)) = Some (ONamespace ns) \<and> namespaceName ns = n \<and>
        isNamespaceLabelledManagedBy ns ''argo'') \<longleftrightarrow> n = ''team-b''" for view
    proof
      assume v: "view = mem_view sampleNamespaces" and "n = ''team-b''"
      moreover have "mem_view sampleNamespaces (okey (ONamespace (sampleLabelled ''team-b''))) = Some (ONamespace (sampleLabelled ''team-b''))"
        by code_simp
      ultimately show "\<exists>ns. view (okey (ONamespace ns)) = Some (ONamespace ns) \<and> namespaceName ns = n \<and> isNamespaceLabelledManagedBy ns ''argo''"
        by (intro exI[of _ "sampleLabelled ''team-b''"]) (simp add: namespaceName_def sampleLabelled_def isNamespaceLabelledManagedBy_def)
    qed (auto simp: sampleNamespaces_def namespaceName_def sampleLabelled_def namedNamespace_def isNamespaceLabelledManagedBy_def
        gget_def gmap_def dest!: mem_view_in)
    with off show ?thesis by (auto simp: managedHere_def)
  qed
  have unique: "clusterSecretOf mem_view sampleNamespaces ''argo'' s \<longleftrightarrow> s = sampleClusterSecret" for s
  proof
    show "clusterSecretOf mem_view sampleNamespaces ''argo'' s" if "s = sampleClusterSecret" unfolding that by code_simp
  qed (auto simp: clusterSecretOf_def sampleNamespaces_def dest!: mem_view_in)
  have old: "map TrimSpace (splitOn (CHR '','') (gindex (secData sampleClusterSecret) ''namespaces'')) = [''argo'', ''team-b'', ''team-a'']"
    and scoped: "\<not> IsNamespaceClusterConfigNamespace sampleEnv ''argo''" by code_simp+
  have S: "{n. managedHere mem_view sampleEnv literalMatch sampleNamespaces sampleNsCR n} = {''argo'', ''team-b''}"
    using managed by blast
  have comma: "CHR '','' \<notin> set n" if "managedHere mem_view sampleEnv literalMatch sampleNamespaces sampleNsCR n" for n
    using that managed[of n] by auto
  have ns: "crNamespace sampleNsCR = ''argo''" by code_simp
  note facts = cluster_secret_namespaces[OF mem_tracked.tracked_lister_axioms run comma, unfolded Let_def S ns unique if_not_P[OF scoped],
      folded sampleNamespaceRun_def]
  show ?thesis
  proof (rule disjE[OF facts], assumption, elim exE conjE)
    fix s s' assume "s = sampleClusterSecret"
      and v: "mem_view (snd (sampleNamespaceRun sampleNamespaces)) = (mem_view sampleNamespaces)(okey (OSecret s) \<mapsto> OSecret s')"
      and names: "set (splitOn (CHR '','') (gindex (secData s') ''namespaces'')) =
        {''argo'', ''team-b''} \<union> set (map TrimSpace (splitOn (CHR '','') (gindex (secData s) ''namespaces'')))"
    then have "mem_view (snd (sampleNamespaceRun sampleNamespaces)) (okey (OSecret sampleClusterSecret)) = Some (OSecret s')" by simp
    with names show ?thesis unfolding \<open>s = sampleClusterSecret\<close> old by (intro exI[of _ s']) auto
  qed blast
qed

text \<open>A cluster secret without a list, as one has that managed the cluster before: the list that is written starts
  with the empty name, which stays.\<close>

theorem cluster_secret_empty_name:
  assumes "gget (secData s) ''namespaces'' = None"
  shows "'''' \<in> set (sort (remdups (managed @ map TrimSpace (splitOn (CHR '','') (gindex (secData s) ''namespaces''))))) \<and>
    combineClusterSecretNamespacesWithManagedNamespaces s managed =
      joinStr '','' (sort (remdups (managed @ map TrimSpace (splitOn (CHR '','') (gindex (secData s) ''namespaces'')))))"
  using assms by (simp add: combineClusterSecretNamespacesWithManagedNamespaces_def gindex_def TrimSpace_def)

theorem cluster_secret_empty_name_witness:
  "combineClusterSecretNamespacesWithManagedNamespaces (sampleSecret ''c'' []) [''argo''] = '',argo'' \<and>
   '''' \<in> set (sort (remdups ([''argo''] @ map TrimSpace (splitOn (CHR '','') (gindex (secData (sampleSecret ''c'' [])) ''namespaces'')))))"
proof -
  have "combineClusterSecretNamespacesWithManagedNamespaces (sampleSecret ''c'' []) [''argo''] = '',argo''" by code_simp
  moreover have "gget (secData (sampleSecret ''c'' [])) ''namespaces'' = None" by code_simp
  ultimately show ?thesis using cluster_secret_empty_name[of "sampleSecret ''c'' []" "[''argo'']"] by blast
qed

section \<open>The secret of Argo CD\<close>

text \<open>No webhook secret is taken from the secret of Argo CD itself.\<close>

definition hookRefs :: "ArgoCDWebhookSecretsSpec \<Rightarrow> WebhookSecretKeySelector option list" where
  "hookRefs h = map snd (webhookSingleRefProviders h) @ (case Hooks_AzureDevOps h of None \<Rightarrow> []
     | Some ado \<Rightarrow> [HooksAzureDevOps_UsernameSecretRef ado, HooksAzureDevOps_PasswordSecretRef ado])"

definition hooksElsewhere :: "ArgoCDWebhookSecretsSpec \<Rightarrow> bool" where
  "hooksElsewhere h \<longleftrightarrow> (\<forall>ref \<in> set (hookRefs h). case ref of None \<Rightarrow> True | Some r \<Rightarrow> WebhookSecretKeySelector_Name r \<noteq> ArgoCDSecretName)"

lemma hookValue_elsewhere:
  assumes "secret_data view w' = (secret_data view w)(argoSecretKey cr := x)" and "ref \<in> set (hookRefs h)" and "hooksElsewhere h"
  shows "hookValue view w' (crNamespace cr) ref = hookValue view w (crNamespace cr) ref"
proof (cases ref)
  case (Some r)
  with assms(2,3) have "WebhookSecretKeySelector_Name r \<noteq> ArgoCDSecretName" by (force simp: hooksElsewhere_def)
  with assms(1) Some show ?thesis by (simp add: hookValue_def secret_value_def argoSecretKey_def)
qed (simp add: hookValue_def)

lemma wantedHook_elsewhere:
  assumes "secret_data view w' = (secret_data view w)(argoSecretKey cr := x)" and "hooksElsewhere h"
  shows "wantedHook view w' (crNamespace cr) h k = wantedHook view w (crNamespace cr) h k"
proof -
  note same = hookValue_elsewhere[OF assms(1) _ assms(2)]
  have "hookValue view w' (crNamespace cr) ref = hookValue view w (crNamespace cr) ref"
    if "map_of (webhookSingleRefProviders h) k = Some ref" for ref
    by (rule same) (use map_of_SomeD[OF that] in \<open>force simp: hookRefs_def\<close>)
  moreover have "azureValue view w' (crNamespace cr) h k = azureValue view w (crNamespace cr) h k"
    using same by (auto simp: azureValue_def hookRefs_def Let_def split: option.splits)
  ultimately show ?thesis by (simp add: wantedHook_def split: option.split)
qed

context verbatim_client
begin

lemma present_step:
  assumes "bindG (findSecret c s0) (\<lambda>r. case r of None \<Rightarrow> m | Some a \<Rightarrow> n a) w = (Ok x, w')"
    and "secret_data view w (secKeyOf s0) = Some d"
  shows "\<exists>a w1. secret_data view w1 = secret_data view w \<and> secData a = d \<and> okey (OSecret a) = secKeyOf s0 \<and> n a w1 = (Ok x, w')"
proof -
  from assms(1) obtain r w1 where f: "findSecret c s0 w = (Ok r, w1)"
    and n: "(case r of None \<Rightarrow> m | Some a \<Rightarrow> n a) w1 = (Ok x, w')" unfolding bindG_Ok_iff by blast
  note f = findSecret_Ok[OF f]
  from f(2) assms(2) obtain a where "r = Some a" by (cases r) auto
  with f(1) f(3)[of a] n assms(2) show ?thesis by auto
qed

lemma reconcileArgoSecret_existing:
  assumes "reconcileArgoSecret e t m c cr w = (Ok (), w')"
    and "secret_data view w (secKeyOf (secretWithSuffix e ''cluster'' cr)) = Some cd"
    and "secret_data view w (secKeyOf (secretWithSuffix e ''tls'' cr)) = Some td"
    and "secret_data view w (argoSecretKey cr) = Some d"
  obtains w1 s clusterSecret tls where "secret_data view w1 = secret_data view w"
    and "reconcileExistingArgoSecret t m c cr s clusterSecret tls w1 = (Ok (), w')"
    and "secData s = d" and "okey (OSecret s) = argoSecretKey cr" and "secData clusterSecret = cd" and "secData tls = td"
proof -
  from assms(1) have run: "bindG (findSecret c (secretWithSuffix e ''cluster'' cr)) (\<lambda>r. case r of None \<Rightarrow> ret ()
     | Some clusterSecret \<Rightarrow> bindG (findSecret c (secretWithSuffix e ''tls'' cr)) (\<lambda>r. case r of None \<Rightarrow> ret ()
     | Some tls \<Rightarrow> bindG (findSecret c (secretNamed e ArgoCDSecretName cr)) (\<lambda>r. case r of
         None \<Rightarrow> createArgoSecret e t m c cr clusterSecret tls
       | Some s \<Rightarrow> reconcileExistingArgoSecret t m c cr s clusterSecret tls))) w = (Ok (), w')"
    by (simp only: reconcileArgoSecret_def)
  from present_step[OF run assms(2)] obtain cs w1 where w1: "secret_data view w1 = secret_data view w" "secData cs = cd"
    and run1: "bindG (findSecret c (secretWithSuffix e ''tls'' cr)) (\<lambda>r. case r of None \<Rightarrow> ret ()
     | Some tls \<Rightarrow> bindG (findSecret c (secretNamed e ArgoCDSecretName cr)) (\<lambda>r. case r of
         None \<Rightarrow> createArgoSecret e t m c cr cs tls
       | Some s \<Rightarrow> reconcileExistingArgoSecret t m c cr s cs tls)) w1 = (Ok (), w')" by blast
  from present_step[OF run1, of td] w1(1) assms(3) obtain tls w2 where w2: "secret_data view w2 = secret_data view w1" "secData tls = td"
    and run2: "bindG (findSecret c (secretNamed e ArgoCDSecretName cr)) (\<lambda>r. case r of
         None \<Rightarrow> createArgoSecret e t m c cr cs tls
       | Some s \<Rightarrow> reconcileExistingArgoSecret t m c cr s cs tls) w2 = (Ok (), w')" by auto
  from present_step[OF run2, unfolded argoSecretKey_eq, of d] w1(1) w2(1) assms(4) obtain s w3
    where w3: "secret_data view w3 = secret_data view w2" "secData s = d" "okey (OSecret s) = argoSecretKey cr"
    and run3: "reconcileExistingArgoSecret t m c cr s cs tls w3 = (Ok (), w')" by auto
  show thesis by (rule that[OF _ run3 w3(2,3) w1(2) w2(2)]) (simp add: w3(1) w2(1) w1(1))
qed

end

context verbatim_client
begin

lemma reconcileArgoSecret_waits:
  assumes "reconcileArgoSecret e t m c cr w = (Ok (), w')"
    and "secret_data view w (secKeyOf (secretWithSuffix e ''cluster'' cr)) = None \<or>
      secret_data view w (secKeyOf (secretWithSuffix e ''tls'' cr)) = None"
  shows "secret_data view w' = secret_data view w"
proof -
  from assms(1) obtain r w1 where f: "findSecret c (secretWithSuffix e ''cluster'' cr) w = (Ok r, w1)"
    and n: "(case r of None \<Rightarrow> ret () | Some cs \<Rightarrow>
      bindG (findSecret c (secretWithSuffix e ''tls'' cr)) (\<lambda>tlsFound. case tlsFound of None \<Rightarrow> ret ()
      | Some tls \<Rightarrow> bindG (findSecret c (secretNamed e ArgoCDSecretName cr)) (\<lambda>found. case found of
          None \<Rightarrow> createArgoSecret e t m c cr cs tls
        | Some s \<Rightarrow> reconcileExistingArgoSecret t m c cr s cs tls))) w1 = (Ok (), w')"
    unfolding reconcileArgoSecret_def bindG_Ok_iff by blast
  note f = findSecret_Ok[OF f]
  show ?thesis
  proof (cases r)
    case (Some cs)
    with f(3) assms(2) have none: "secret_data view w (secKeyOf (secretWithSuffix e ''tls'' cr)) = None" by auto
    from n Some obtain q w2 where g: "findSecret c (secretWithSuffix e ''tls'' cr) w1 = (Ok q, w2)"
      and q: "q = None \<Longrightarrow> w' = w2" by (auto simp: bindG_Ok_iff split: option.splits)
    note g = findSecret_Ok[OF g]
    from g(3) f(1) none have "q = None" by (cases q) auto
    with q g(1) f(1) show ?thesis by simp
  qed (use n f(1) in simp)
qed

lemma existing_in_step:
  assumes "quietDex view d"
    and "reconcileArgoSecret e t (getDexOAuthClientSecret e d c cr) c cr w = (Ok (), w')"
    and "secret_data view w (secKeyOf (secretWithSuffix e ''cluster'' cr)) = Some cd"
    and "secret_data view w (secKeyOf (secretWithSuffix e ''tls'' cr)) = Some td"
    and "secret_data view w (argoSecretKey cr) = Some a"
    and "\<And>h. bSpec_WebhookSecrets (spec cr) = Some h \<Longrightarrow> hooksElsewhere h"
  shows "\<exists>a'. secret_data view w' (argoSecretKey cr) = Some a' \<and>
    (\<forall>k. k \<notin> managedArgoKeys cr \<longrightarrow> gget a' k = gget a k) \<and>
    (gget a ArgoCDKeyAdminPassword \<noteq> None \<longrightarrow> gget a' ArgoCDKeyAdminPassword = gget a ArgoCDKeyAdminPassword) \<and>
    gindex a' ArgoCDKeyTLSCert = gindex td ArgoCDKeyTLSCert \<and> gindex a' ArgoCDKeyTLSPrivateKey = gindex td ArgoCDKeyTLSPrivateKey \<and>
    (usesDex cr \<longrightarrow> secret_value view w' (dexTokenKey e cr) ''token'' = Some (gindex a' ArgoCDDexSecretKey)) \<and>
    (\<forall>h. bSpec_WebhookSecrets (spec cr) = Some h \<longrightarrow>
       (\<forall>k \<in> set hookKeys. gget a' k = wantedHook view w' (crNamespace cr) h k))"
proof -
  let ?m = "getDexOAuthClientSecret e d c cr"
  obtain w1 s cs tls where w1: "secret_data view w1 = secret_data view w"
    and run: "reconcileExistingArgoSecret t ?m c cr s cs tls w1 = (Ok (), w')"
    and s: "secData s = a" "okey (OSecret s) = argoSecretKey cr" and tls: "secData tls = td"
    by (rule reconcileArgoSecret_existing[OF assms(2-5)])
  have quiet: "secret_data view w' (argoSecretKey cr) = secret_data view w (argoSecretKey cr)" if "?m w = (r, w')" for w r w'
    using same_outsideD[OF act_relD[OF getDexOAuthClientSecret_fp[OF assms(1)] that], of "argoSecretKey cr"]
      dexTokenKey_other[of e cr] by (simp add: secret_data_def)
  have here: "secret_data view w1 (argoSecretKey cr) = Some a" using w1 assms(5) by simp
  obtain w2 a' token where upd: "secret_data view w' = (secret_data view w2)(argoSecretKey cr := Some a')"
    and step: "argoSecretInStep t cs tls cr (hooksWanted view w2 cr) token a a'"
    and dex: "usesDex cr \<Longrightarrow> \<exists>w1 tok. ?m w1 = (Ok tok, w2) \<and> token = Some tok"
    by (rule reconcileExistingArgoSecret_Ok[OF run here s(2,1)], erule quiet, blast)
  have "secret_value view w' (dexTokenKey e cr) ''token'' = Some (gindex a' ArgoCDDexSecretKey)" if "usesDex cr"
  proof -
    from dex[OF that] step that obtain w3 where "?m w3 = (Ok (gindex a' ArgoCDDexSecretKey), w2)" by (auto simp: argoSecretInStep_def)
    from getDexOAuthClientSecret_Ok[OF this assms(1)]
    have "secret_value view w2 (dexTokenKey e cr) ''token'' = Some (gindex a' ArgoCDDexSecretKey)"
      by cases (simp_all add: secret_value_def gmap_def gget_def)
    with upd dexTokenKey_other[of e cr] show ?thesis by (simp add: secret_value_def)
  qed
  moreover have "gget a' k = wantedHook view w' (crNamespace cr) h k" if "bSpec_WebhookSecrets (spec cr) = Some h" "k \<in> set hookKeys" for h k
    using step that wantedHook_elsewhere[OF upd assms(6)[OF that(1)]] by (simp add: argoSecretInStep_def hooksWanted_def)
  moreover have "gget a ArgoCDKeyAdminPassword \<noteq> None \<longrightarrow> gget a' ArgoCDKeyAdminPassword = gget a ArgoCDKeyAdminPassword"
    using step by (auto simp: argoSecretInStep_def passwordKept_def)
  ultimately show ?thesis using upd step tls unfolding argoSecretInStep_def by (intro exI[of _ a']) simp
qed


end

text \<open>C24. Let reconciling an \<open>argocd-secret\<close> that exists return without an error. If the main secret or the
  TLS secret of the instance is missing the operator waits: no secret has changed its data. Otherwise the
  certificate and key of \<open>argocd-secret\<close> are those of the TLS secret, with Dex it holds the token that is stored
  for Dex, with \<open>spec.webhookSecrets\<close> each webhook key holds the value its reference leads to, or is gone
  when there is none, the two keys of Azure DevOps only together; an admin password that is there stays, and every
  key the operator does not manage is as it was. Assumed: the token request and the requeue of Dex change no object,
  and the references of \<open>spec.webhookSecrets\<close> lead to other secrets than \<open>argocd-secret\<close> itself.\<close>

theorem argo_secret_in_step:
  assumes "verbatim_client c view admit refresh" and "quietDex view d"
    and "reconcileArgoSecret e t (getDexOAuthClientSecret e d c cr) c cr w = (Ok (), w')"
    and "secret_data view w (argoSecretKey cr) = Some a"
    and "\<And>h. bSpec_WebhookSecrets (spec cr) = Some h \<Longrightarrow> hooksElsewhere h"
    and "mk = secKeyOf (secretWithSuffix e ''cluster'' cr)" and "tk = secKeyOf (secretWithSuffix e ''tls'' cr)"
  shows "(secret_data view w mk = None \<or> secret_data view w tk = None \<longrightarrow> secret_data view w' = secret_data view w) \<and>
    (\<forall>td. secret_data view w mk \<noteq> None \<longrightarrow> secret_data view w tk = Some td \<longrightarrow>
     (\<exists>a'. secret_data view w' (argoSecretKey cr) = Some a' \<and>
      (\<forall>k. k \<notin> managedArgoKeys cr \<longrightarrow> gget a' k = gget a k) \<and>
      (gget a ArgoCDKeyAdminPassword \<noteq> None \<longrightarrow> gget a' ArgoCDKeyAdminPassword = gget a ArgoCDKeyAdminPassword) \<and>
      gindex a' ArgoCDKeyTLSCert = gindex td ArgoCDKeyTLSCert \<and> gindex a' ArgoCDKeyTLSPrivateKey = gindex td ArgoCDKeyTLSPrivateKey \<and>
      (usesDex cr \<longrightarrow> secret_value view w' (dexTokenKey e cr) ''token'' = Some (gindex a' ArgoCDDexSecretKey)) \<and>
      (\<forall>h. bSpec_WebhookSecrets (spec cr) = Some h \<longrightarrow>
         (\<forall>k \<in> set hookKeys. gget a' k = wantedHook view w' (crNamespace cr) h k))))"
proof (intro conjI impI allI)
  assume "secret_data view w mk = None \<or> secret_data view w tk = None"
  then show "secret_data view w' = secret_data view w"
    unfolding assms(6,7) by (rule verbatim_client.reconcileArgoSecret_waits[OF assms(1,3)])
next
  fix td assume "secret_data view w mk \<noteq> None" and td: "secret_data view w tk = Some td"
  then obtain cd where cd: "secret_data view w mk = Some cd" by blast
  show "\<exists>a'. secret_data view w' (argoSecretKey cr) = Some a' \<and>
    (\<forall>k. k \<notin> managedArgoKeys cr \<longrightarrow> gget a' k = gget a k) \<and>
    (gget a ArgoCDKeyAdminPassword \<noteq> None \<longrightarrow> gget a' ArgoCDKeyAdminPassword = gget a ArgoCDKeyAdminPassword) \<and>
    gindex a' ArgoCDKeyTLSCert = gindex td ArgoCDKeyTLSCert \<and> gindex a' ArgoCDKeyTLSPrivateKey = gindex td ArgoCDKeyTLSPrivateKey \<and>
    (usesDex cr \<longrightarrow> secret_value view w' (dexTokenKey e cr) ''token'' = Some (gindex a' ArgoCDDexSecretKey)) \<and>
    (\<forall>h. bSpec_WebhookSecrets (spec cr) = Some h \<longrightarrow>
       (\<forall>k \<in> set hookKeys. gget a' k = wantedHook view w' (crNamespace cr) h k))"
    using verbatim_client.existing_in_step[OF assms(1-3) cd[unfolded assms(6)] td[unfolded assms(7)] assms(4,5)] .
qed

definition sampleHooks :: ArgoCDWebhookSecretsSpec where
  "sampleHooks = \<lparr>
     Hooks_GitHub = Some \<lparr>HooksGitHub_WebhookSecretRef = Some \<lparr>WebhookSecretKeySelector_Name = ''hooks'', WebhookSecretKeySelector_Key = ''github''\<rparr>\<rparr>,
     Hooks_GitLab = None, Hooks_Bitbucket = None, Hooks_BitbucketServer = None, Hooks_Gogs = None,
     Hooks_AzureDevOps = Some \<lparr>HooksAzureDevOps_UsernameSecretRef = Some \<lparr>WebhookSecretKeySelector_Name = ''hooks'', WebhookSecretKeySelector_Key = ''user''\<rparr>,
       HooksAzureDevOps_PasswordSecretRef = None\<rparr>\<rparr>"

definition sampleHookCR :: ArgoCD_beta where
  "sampleHookCR = samplePolicyCR\<lparr>bArgoCD_Spec := (bArgoCD_Spec samplePolicyCR)\<lparr>bSpec_WebhookSecrets := Some sampleHooks\<rparr>\<rparr>"

text \<open>A secret of Argo CD with an old certificate, a password the user has set, and a left-over key of Azure DevOps.\<close>

definition sampleArgoEntries :: "(string \<times> string) list" where
  "sampleArgoEntries = [(ArgoCDKeyAdminPassword, ''hash own''), (ArgoCDKeyServerSecretKey, ''session''),
     (ArgoCDKeyTLSCert, ''old''), (azureUser, ''left''), (''mine'', ''kept'')]"

definition sampleArgoWorld :: "obj list" where
  "sampleArgoWorld = [
     OSecret (sampleSecret ''argocd-cluster'' [(ArgoCDKeyAdminPassword, ''admin'')]),
     OSecret (sampleSecret ''argocd-tls'' [(ArgoCDKeyTLSCert, ''new''), (ArgoCDKeyTLSPrivateKey, ''key'')]),
     OSecret (sampleSecret ''argocd-secret'' sampleArgoEntries),
     OSecret (sampleSecret ''hooks'' [(''github'', ''secret''), (''user'', ''someone'')]),
     OServiceAccount (newServiceAccountWithName sampleEnv dexServerComponent samplePolicyCR)]"

definition sampleArgoRun :: "ArgoCD_beta \<Rightarrow> obj list \<Rightarrow> unit outcome \<times> obj list" where
  "sampleArgoRun cr w = reconcileArgoSecret sampleEnv sampleSecretTools (getDexOAuthClientSecret sampleEnv sampleDexTools mem_client cr) mem_client cr w"

lemma sampleDexTools_quiet: "quietDex view sampleDexTools"
  by (simp add: quietDex_def sampleDexTools_def fp.rel_ret)

theorem argo_secret_in_step_witness:
  "\<exists>a'. secret_data mem_view (snd (sampleArgoRun sampleHookCR sampleArgoWorld)) (argoSecretKey sampleHookCR) = Some a' \<and>
     gget a' ArgoCDKeyAdminPassword = Some ''hash own'' \<and> gget a' ''mine'' = Some ''kept'' \<and> gindex a' ArgoCDKeyTLSCert = ''new'' \<and>
     gget a' ''webhook.github.secret'' = Some ''secret'' \<and> gget a' azureUser = None"
proof -
  let ?w = "snd (sampleArgoRun sampleHookCR sampleArgoWorld)"
  have "fst (sampleArgoRun sampleHookCR sampleArgoWorld) = Ok ()" by code_simp
  note run = run_result[OF this, unfolded sampleArgoRun_def]
  have cluster: "secret_data mem_view sampleArgoWorld (secKeyOf (secretWithSuffix sampleEnv ''cluster'' sampleHookCR)) =
      Some (gmap [(ArgoCDKeyAdminPassword, ''admin'')])"
    and tls: "secret_data mem_view sampleArgoWorld (secKeyOf (secretWithSuffix sampleEnv ''tls'' sampleHookCR)) =
      Some (gmap [(ArgoCDKeyTLSCert, ''new''), (ArgoCDKeyTLSPrivateKey, ''key'')])"
    and argo: "secret_data mem_view sampleArgoWorld (argoSecretKey sampleHookCR) =
      Some (gmap sampleArgoEntries)"
    by code_simp+
  have there: "secret_data mem_view sampleArgoWorld (secKeyOf (secretWithSuffix sampleEnv ''cluster'' sampleHookCR)) \<noteq> None"
    using cluster by simp
  have hooks: "bSpec_WebhookSecrets (spec sampleHookCR) = Some sampleHooks" by (simp add: sampleHookCR_def)
  have elsewhere: "hooksElsewhere sampleHooks" by code_simp
  have hooksElsewhere: "hooksElsewhere h" if "bSpec_WebhookSecrets (spec sampleHookCR) = Some h" for h
    using that hooks elsewhere by simp
  have wanted: "wantedHook mem_view ?w (crNamespace sampleHookCR) sampleHooks ''webhook.github.secret'' = Some ''secret''"
    "wantedHook mem_view ?w (crNamespace sampleHookCR) sampleHooks azureUser = None"
    by code_simp+
  have keys: "''mine'' \<notin> managedArgoKeys sampleHookCR" "''webhook.github.secret'' \<in> set hookKeys" "azureUser \<in> set hookKeys"
    by code_simp+
  obtain a' where a': "secret_data mem_view ?w (argoSecretKey sampleHookCR) = Some a'"
    and facts: "\<forall>k. k \<notin> managedArgoKeys sampleHookCR \<longrightarrow> gget a' k = gget (gmap sampleArgoEntries) k"
      "gget (gmap sampleArgoEntries) ArgoCDKeyAdminPassword \<noteq> None \<longrightarrow>
        gget a' ArgoCDKeyAdminPassword = gget (gmap sampleArgoEntries) ArgoCDKeyAdminPassword"
      "gindex a' ArgoCDKeyTLSCert = gindex (gmap [(ArgoCDKeyTLSCert, ''new''), (ArgoCDKeyTLSPrivateKey, ''key'')]) ArgoCDKeyTLSCert"
      "\<forall>h. bSpec_WebhookSecrets (spec sampleHookCR) = Some h \<longrightarrow>
        (\<forall>k \<in> set hookKeys. gget a' k = wantedHook mem_view ?w (crNamespace sampleHookCR) h k)"
    using argo_secret_in_step[OF mem.verbatim_client_axioms sampleDexTools_quiet run argo hooksElsewhere refl refl,
      THEN conjunct2, THEN spec, THEN mp, THEN mp, OF _ there tls]
    unfolding sampleArgoRun_def by blast
  have vals: "gget (gmap sampleArgoEntries) ''mine'' = Some ''kept''"
    "gget (gmap sampleArgoEntries) ArgoCDKeyAdminPassword = Some ''hash own''"
    "gindex (gmap [(ArgoCDKeyTLSCert, ''new''), (ArgoCDKeyTLSPrivateKey, ''key'')]) ArgoCDKeyTLSCert = ''new''"
    by code_simp+
  show ?thesis
    using a' facts(1)[rule_format, OF keys(1)] facts(2,3) facts(4)[rule_format, OF hooks keys(2)] facts(4)[rule_format, OF hooks keys(3)]
    unfolding vals wanted by (intro exI[of _ a']) simp
qed

text \<open>Reading a Secret that is there succeeds.\<close>

definition answersReads :: "'w client \<Rightarrow> ('w \<Rightarrow> key \<Rightarrow> obj option) \<Rightarrow> bool" where
  "answersReads c view \<longleftrightarrow> (\<forall>w k. secret_data view w k \<noteq> None \<longrightarrow> (\<exists>s w'. getAs c as_secret k w = (Ok s, w')))"

context verbatim_client
begin

lemma find_present:
  assumes "answersReads c view" and "secret_data view w (secKeyOf s0) = Some d"
  shows "\<exists>a w1. findSecret c s0 w = (Ok (Some a), w1) \<and> secret_data view w1 = secret_data view w \<and> secData a = d"
proof -
  from assms obtain a w1 where g: "getAs c as_secret (secKeyOf s0) w = (Ok a, w1)" unfolding answersReads_def by blast
  then have f: "findSecret c s0 w = (Ok (Some a), w1)" by (simp add: findSecret_def IsObjectFound_def handle_def ret_def)
  from findSecret_Ok(1)[OF f] findSecret_Ok(3)[OF f refl] assms(2) f show ?thesis by auto
qed

end

lemma keyless_pass:
  assumes "generateArgoServerSessionKey t = Inr key" and "gget (secData s) ArgoCDKeyServerSecretKey = None"
    and "gget (secData s) ArgoCDKeyAdminPassword \<noteq> None"
    and "gindex (secData s) ArgoCDKeyTLSCert = gindex (secData tls) ArgoCDKeyTLSCert"
    and "gindex (secData s) ArgoCDKeyTLSPrivateKey = gindex (secData tls) ArgoCDKeyTLSPrivateKey"
    and "\<not> usesDex cr" and "bSpec_WebhookSecrets (spec cr) = None"
  shows "reconcileExistingArgoSecret t dexToken c cr s cs tls w = (Ok (), w)"
proof -
  obtain p where p: "ensureSessionKey t s = Inr p" using assms(1,2) by (simp add: ensureSessionKey_def)
  note session = ensureSessionKey_Inr[OF p]
  have same: "gget (secData (fst p)) k = gget (secData s) k" if "k \<noteq> ArgoCDKeyServerSecretKey" for k
    using agree_at[OF session(3)] that by simp
  have "ensureAdminPassword t cs p = Inr p" using same[of ArgoCDKeyAdminPassword] assms(3)
    by (cases p) (auto simp: ensureAdminPassword_def argo_key_defs split: option.split)
  moreover have "syncTLS tls p = p"
    using same[of ArgoCDKeyTLSCert] same[of ArgoCDKeyTLSPrivateKey] assms(4,5)
    by (cases p) (simp add: syncTLS_def hasArgoTLSChanged_def gindex_def argo_key_defs)
  moreover have "\<not> snd p" by (rule session(2))
  ultimately show ?thesis using p assms(6,7)
    by (cases p) (simp add: reconcileExistingArgoSecret_def addDexToken_def applyDeclarativeWebhookSecrets_def bindG_apply liftE_def ret_def)
qed

text \<open>C25. A session key that an existing \<open>argocd-secret\<close> lacks is generated but does not count as a change. Take an
  instance with neither Dex nor \<open>spec.webhookSecrets\<close> whose main secret and TLS secret exist and whose
  \<open>argocd-secret\<close> has an admin password and the certificate and key of the TLS secret, but no session key. If reads
  of Secrets succeed and a key can be generated, reconciling the secret returns without an error, no secret has
  changed its data, and \<open>argocd-secret\<close> still has no session key.\<close>

theorem missing_session_key_is_not_written:
  assumes "verbatim_client c view admit refresh" and "answersReads c view" and "generateArgoServerSessionKey t = Inr key"
    and "secret_data view w (secKeyOf (secretWithSuffix e ''cluster'' cr)) = Some cd"
    and "secret_data view w (secKeyOf (secretWithSuffix e ''tls'' cr)) = Some td"
    and "secret_data view w (argoSecretKey cr) = Some a" and "gget a ArgoCDKeyServerSecretKey = None"
    and "gget a ArgoCDKeyAdminPassword \<noteq> None" and "gindex a ArgoCDKeyTLSCert = gindex td ArgoCDKeyTLSCert"
    and "gindex a ArgoCDKeyTLSPrivateKey = gindex td ArgoCDKeyTLSPrivateKey" and "\<not> usesDex cr" and "bSpec_WebhookSecrets (spec cr) = None"
  shows "\<exists>w'. reconcileArgoSecret e t dexToken c cr w = (Ok (), w') \<and> secret_data view w' = secret_data view w \<and>
    secret_value view w' (argoSecretKey cr) ArgoCDKeyServerSecretKey = None"
proof -
  note found = verbatim_client.find_present[OF assms(1,2)]
  obtain cs w1 where 1: "findSecret c (secretWithSuffix e ''cluster'' cr) w = (Ok (Some cs), w1)" "secret_data view w1 = secret_data view w"
    using found[OF assms(4)] by blast
  obtain tls w2 where 2: "findSecret c (secretWithSuffix e ''tls'' cr) w1 = (Ok (Some tls), w2)" "secret_data view w2 = secret_data view w"
    "secData tls = td" using found[of w1 "secretWithSuffix e ''tls'' cr" td] 1(2) assms(5) by auto
  obtain s w3 where 3: "findSecret c (secretNamed e ArgoCDSecretName cr) w2 = (Ok (Some s), w3)" "secret_data view w3 = secret_data view w"
    "secData s = a" using found[of w2 "secretNamed e ArgoCDSecretName cr" a] 2(2) assms(6) by (auto simp: argoSecretKey_eq)
  have "reconcileExistingArgoSecret t dexToken c cr s cs tls w3 = (Ok (), w3)"
    by (rule keyless_pass[OF assms(3) _ _ _ _ assms(11,12)]) (use assms(7-10) 2(3) 3(3) in auto)
  with 1(1) 2(1) 3(1) have "reconcileArgoSecret e t dexToken c cr w = (Ok (), w3)"
    by (simp add: reconcileArgoSecret_def bindG_apply)
  with 3(2) assms(6,7) show ?thesis by (auto simp: secret_value_def)
qed

definition sampleNoDexCR :: ArgoCD_beta where
  "sampleNoDexCR = samplePolicyCR\<lparr>bArgoCD_Spec := zero_ArgoCDSpec_beta\<rparr>"

definition sampleKeyless :: "obj list" where
  "sampleKeyless = [
     OSecret (sampleSecret ''argocd-cluster'' [(ArgoCDKeyAdminPassword, ''admin'')]),
     OSecret (sampleSecret ''argocd-tls'' [(ArgoCDKeyTLSCert, ''new''), (ArgoCDKeyTLSPrivateKey, ''key'')]),
     OSecret (sampleSecret ''argocd-secret'' [(ArgoCDKeyAdminPassword, ''hash own''), (ArgoCDKeyTLSCert, ''new''), (ArgoCDKeyTLSPrivateKey, ''key'')])]"

theorem missing_session_key_is_not_written_witness:
  "fst (sampleArgoRun sampleNoDexCR sampleKeyless) = Ok () \<and>
   secret_value mem_view (snd (sampleArgoRun sampleNoDexCR sampleKeyless)) (argoSecretKey sampleNoDexCR) ArgoCDKeyServerSecretKey = None"
proof -
  have reads: "answersReads mem_client mem_view"
    unfolding answersReads_def
  proof (intro allI impI)
    fix w k
    assume "secret_data mem_view w k \<noteq> None"
    then obtain s where "mem_view w k = Some (OSecret s)" by (auto simp: secret_data_def bind_eq_Some_conv)
    then show "\<exists>s w'. getAs mem_client as_secret k w = (Ok s, w')"
      by (simp add: getAs_def getO_def mem_client_def bindG_def handle_def ret_def liftO_def)
  qed
  have key: "generateArgoServerSessionKey sampleSecretTools = Inr ''session''" by (simp add: sampleSecretTools_def)
  have data: "secret_data mem_view sampleKeyless (secKeyOf (secretWithSuffix sampleEnv ''cluster'' sampleNoDexCR)) =
      Some (gmap [(ArgoCDKeyAdminPassword, ''admin'')])"
    "secret_data mem_view sampleKeyless (secKeyOf (secretWithSuffix sampleEnv ''tls'' sampleNoDexCR)) =
      Some (gmap [(ArgoCDKeyTLSCert, ''new''), (ArgoCDKeyTLSPrivateKey, ''key'')])"
    "secret_data mem_view sampleKeyless (argoSecretKey sampleNoDexCR) =
      Some (gmap [(ArgoCDKeyAdminPassword, ''hash own''), (ArgoCDKeyTLSCert, ''new''), (ArgoCDKeyTLSPrivateKey, ''key'')])"
    by code_simp+
  let ?a = "gmap [(ArgoCDKeyAdminPassword, ''hash own''), (ArgoCDKeyTLSCert, ''new''), (ArgoCDKeyTLSPrivateKey, ''key'')]"
    and ?td = "gmap [(ArgoCDKeyTLSCert, ''new''), (ArgoCDKeyTLSPrivateKey, ''key'')]"
  have facts: "gget ?a ArgoCDKeyServerSecretKey = None" "gget ?a ArgoCDKeyAdminPassword \<noteq> None"
    "gindex ?a ArgoCDKeyTLSCert = gindex ?td ArgoCDKeyTLSCert" "gindex ?a ArgoCDKeyTLSPrivateKey = gindex ?td ArgoCDKeyTLSPrivateKey"
    "\<not> usesDex sampleNoDexCR"
    by code_simp+
  have "bSpec_WebhookSecrets (spec sampleNoDexCR) = None" by (simp add: sampleNoDexCR_def zero_ArgoCDSpec_beta_def)
  then show ?thesis unfolding sampleArgoRun_def
    using missing_session_key_is_not_written[OF mem.verbatim_client_axioms reads key data facts] by (metis fst_conv snd_conv)
qed

section \<open>Image pull secrets\<close>

text \<open>C27. Let propagating image pull secrets return without an error. On OpenShift, and when the instance lives in the
  operator's own namespace, nothing is done at all. Otherwise, a secret that is not a copy the instance made keeps
  its data; if exactly one secret of the operator's namespace is labelled for propagation, its data has been copied
  under its name, unless a secret that is not the instance's own copy has that name; and a copy whose source is not,
  or not alone, labelled is gone or on its way out. (Whether the instance controls an object depends on the owner
  references only; secrets have names.)\<close>

theorem image_pull_secret_copies:
  assumes "tracked_lister c view admit refresh" and "reconcileImagePullSecrets e f controlled c cr w = (Ok (), w')"
    and "byOwners controlled" and "argoOperatorNamespace e = Inr operatorNS"
    and "listSelected c KSecret operatorNS ArgoCDImagePullSecretPropagateLabel ''true'' w = (Ok xs, w0)"
    and "\<forall>s \<in> set (copiedSources xs). metaName (secMeta s) \<noteq> ''''"
  shows "if versionFound f \<or> operatorNS = crNamespace cr then w' = w
    else (\<forall>k x. view w k = Some x \<longrightarrow> \<not> someCopy controlled cr x \<longrightarrow> secret_data view w' k = secret_data view w k) \<and>
      (\<forall>src. copiedSources xs = [src] \<longrightarrow> (let k = (KSecret, crNamespace cr, metaName (secMeta src)) in
        (\<forall>x. view w k = Some x \<longrightarrow> copyFrom controlled (metaName (secMeta src)) x) \<longrightarrow> secret_data view w' k = Some (secData src))) \<and>
      (\<forall>n x name. view w (KSecret, crNamespace cr, n) = Some x \<longrightarrow> copyFrom controlled name x \<longrightarrow>
        name \<notin> (\<lambda>s. metaName (secMeta s)) ` set (copiedSources xs) \<longrightarrow> gone (view w' (KSecret, crNamespace cr, n)))"
proof (cases "versionFound f \<or> operatorNS = crNamespace cr")
  case True
  with assms(2,4) show ?thesis by (auto simp: reconcileImagePullSecrets_def liftE_def bindG_def handle_def ret_def split: if_splits)
next
  case False
  then have mode: "\<not> versionFound f" "operatorNS \<noteq> crNamespace cr" by simp_all
  show ?thesis
    using tracked_lister.reconcileImagePullSecrets_Ok[OF assms(1,2) mode(1) assms(4) mode(2) assms(5,3)] assms(6)
    unfolding if_not_P[OF False] Let_def by (metis fst_conv snd_conv)
qed

definition samplePull :: "string \<Rightarrow> string \<Rightarrow> (string \<times> string) list \<Rightarrow> string \<Rightarrow> secret" where
  "samplePull name ns labels dat = \<lparr>secMeta = (mkMeta name ns)\<lparr>metaLabels := gmap labels, metaOwners := [\<lparr>ownerKind = ''ArgoCD'', ownerName = ''argocd''\<rparr>]\<rparr>,
     secType = ''kubernetes.io/dockerconfigjson'', secData = gmap [(''dat'', dat)], secStringData = None\<rparr>"

definition sampleControlled :: "object_meta \<Rightarrow> bool" where
  "sampleControlled m \<longleftrightarrow> metaOwners m \<noteq> []"

definition samplePullEnv :: env where
  "samplePullEnv = sampleEnv\<lparr>getenv := (\<lambda>v. if v = ''ARGOCD_OPERATOR_NAMESPACE'' then ''ops'' else '''')\<rparr>"

definition samplePulls :: "obj list" where
  "samplePulls = [OSecret (samplePull ''pull'' ''ops'' [(ArgoCDImagePullSecretPropagateLabel, ''true'')] ''new''),
     OSecret (samplePull ''other'' ''team'' [(copiedLabel, ''other'')] ''stale''), OSecret (sampleSecret ''mine'' [(''dat'', ''kept'')])]"

definition samplePullRun :: "unit outcome \<times> obj list" where
  "samplePullRun = reconcileImagePullSecrets samplePullEnv samplePolicyFlags sampleControlled mem_client samplePolicyCR samplePulls"

theorem image_pull_secret_copies_witness:
  "secret_data mem_view (snd samplePullRun) (KSecret, ''team'', ''pull'') = Some (gmap [(''dat'', ''new'')]) \<and>
   gone (mem_view (snd samplePullRun) (KSecret, ''team'', ''other'')) \<and>
   secret_data mem_view (snd samplePullRun) (KSecret, ''team'', ''mine'') = Some (gmap [(''dat'', ''kept'')])"
proof -
  have "fst samplePullRun = Ok ()" by code_simp
  note run = run_result[OF this, unfolded samplePullRun_def]
  let ?src = "samplePull ''pull'' ''ops'' [(ArgoCDImagePullSecretPropagateLabel, ''true'')] ''new''"
  have mode: "\<not> versionFound samplePolicyFlags" "argoOperatorNamespace samplePullEnv = Inr ''ops''" "''ops'' \<noteq> crNamespace samplePolicyCR"
    and list: "listSelected mem_client KSecret ''ops'' ArgoCDImagePullSecretPropagateLabel ''true'' samplePulls = (Ok [OSecret ?src], samplePulls)"
    by code_simp+
  from mode have elsewhere: "\<not> (versionFound samplePolicyFlags \<or> ''ops'' = crNamespace samplePolicyCR)" by simp
  have own: "byOwners sampleControlled" by (simp add: byOwners_def sampleControlled_def)
  have src: "copiedSources [OSecret ?src] = [?src]" by (simp add: copiedSources_def List.map_filter_def)
  have names: "\<forall>s \<in> set (copiedSources [OSecret ?src]). metaName (secMeta s) \<noteq> ''''"
    unfolding src by (auto simp: samplePull_def)
  have ns: "crNamespace samplePolicyCR = ''team''" and n: "metaName (secMeta ?src) = ''pull''" "secData ?src = gmap [(''dat'', ''new'')]"
    by code_simp+
  have views: "mem_view samplePulls (KSecret, ''team'', ''pull'') = None"
    "mem_view samplePulls (KSecret, ''team'', ''other'') = Some (OSecret (samplePull ''other'' ''team'' [(copiedLabel, ''other'')] ''stale''))"
    "mem_view samplePulls (KSecret, ''team'', ''mine'') = Some (OSecret (sampleSecret ''mine'' [(''dat'', ''kept'')]))"
    by code_simp+
  have other: "copyFrom sampleControlled ''other'' (OSecret (samplePull ''other'' ''team'' [(copiedLabel, ''other'')] ''stale''))" by code_simp
  have foreign: "\<not> someCopy sampleControlled samplePolicyCR (OSecret (sampleSecret ''mine'' [(''dat'', ''kept'')]))"
    by (simp add: someCopy_def copyFrom_def sampleSecret_def sampleControlled_def)
  have mine: "secret_data mem_view samplePulls (KSecret, ''team'', ''mine'') = Some (gmap [(''dat'', ''kept'')])" by code_simp
  note all = image_pull_secret_copies[OF mem_tracked.tracked_lister_axioms run own mode(2) list names, folded samplePullRun_def,
      unfolded if_not_P[OF elsewhere], unfolded ns src]
  note facts = all[THEN conjunct1] all[unfolded Let_def, THEN conjunct2]
  have "secret_data mem_view (snd samplePullRun) (KSecret, ''team'', ''pull'') = Some (gmap [(''dat'', ''new'')])"
    using facts(2) views(1) n by auto
  moreover have "gone (mem_view (snd samplePullRun) (KSecret, ''team'', ''other''))"
    using facts(2) views(2) other n(1) by auto
  moreover have "secret_data mem_view (snd samplePullRun) (KSecret, ''team'', ''mine'') = Some (gmap [(''dat'', ''kept'')])"
    using facts(1) views(3) foreign mine by metis
  ultimately show ?thesis by blast
qed

section \<open>The token of Dex\<close>

text \<open>C28. The token Dex is given is the one that is stored, and no other secret changes; it is either one that was stored
  and does not expire within the renewal window, or one the API server has just issued.\<close>

theorem dex_token_is_current:
  assumes "verbatim_client c view admit refresh" and "quietDex view d"
    and "getDexOAuthClientSecret e d c cr w = (Ok token, w')"
  shows "secret_value view w' (dexTokenKey e cr) ''token'' = Some token \<and>
    (\<forall>k. k \<noteq> dexTokenKey e cr \<longrightarrow> secret_data view w' k = secret_data view w k) \<and>
    ((\<exists>expiry at. secret_value view w' (dexTokenKey e cr) ''expiry'' = Some expiry \<and> parseRFC3339 d expiry = Some at \<and>
        at - dexNow d \<ge> dexServerTokenRenewalThreshold \<and> secret_data view w' = secret_data view w) \<or>
     (\<exists>account w1 w2 at. createToken d (crNamespace cr) account ArgoCDDexServerTokenExpirySecs w1 = (Ok (token, at), w2) \<and>
        secret_value view w' (dexTokenKey e cr) ''expiry'' = Some (formatRFC3339 d at)))"
  using verbatim_client.getDexOAuthClientSecret_Ok[OF assms(1,3,2)]
proof cases
  case (1 data expiry "at")
  then show ?thesis by (auto simp: secret_value_def)
next
  case (2 sa w1 w2 expiry)
  have "secret_value view w' (dexTokenKey e cr) ''token'' = Some token"
    "secret_value view w' (dexTokenKey e cr) ''expiry'' = Some (formatRFC3339 d expiry)"
    using 2(2) by (simp_all add: secret_value_def gmap_def gget_def)
  moreover have "secret_data view w' k = secret_data view w k" if "k \<noteq> dexTokenKey e cr" for k using 2(2) that by simp
  ultimately show ?thesis using 2(1) by blast
qed

theorem dex_token_is_current_witness:
  "secret_value mem_view (snd (getDexOAuthClientSecret sampleEnv sampleDexTools mem_client samplePolicyCR sampleArgoWorld))
     (KSecret, ''team'', ''argocd-argocd-dex-server-token'') ''token'' = Some ''token''"
proof -
  have "fst (getDexOAuthClientSecret sampleEnv sampleDexTools mem_client samplePolicyCR sampleArgoWorld) = Ok ''token''" by code_simp
  note run = run_result[OF this]
  have "dexTokenKey sampleEnv samplePolicyCR = (KSecret, ''team'', ''argocd-argocd-dex-server-token'')" by code_simp
  with dex_token_is_current[OF mem.verbatim_client_axioms sampleDexTools_quiet run] show ?thesis by simp
qed

end
