(* ===== verification/Spec2Isabelle.thy ===== *)
theory Spec2Isabelle
  imports Operator_Runs OpenShift_Hook Conversion_Correct Local_Users_Correct Managed_Namespaces_Correct
    Network_Policies_Correct Instance_Services_Correct Instance_Routes_Correct Instance_Status_Correct Instance_Permissions
    Instance_Credentials
begin

text \<open>
  A verification library for the OpenShift GitOps operator (\<open>src/\<close>): a Kubernetes operator in Go that
  installs a default Argo CD instance with a backend service and a console plugin, keeps a link to it
  in the OpenShift console, sets up its monitoring, and adapts what the embedded Argo CD operator
  (\<open>src/argocd-operator\<close>) builds to OpenShift.

  \<^bold>\<open>Shape of the model.\<close> A handler is a state-passing action \<open>('w, 'a) act\<close> over a world \<open>'w\<close>, the API
  server and what it holds (theory Prelude). It returns \<open>Ok\<close>, a Go error (\<open>Err\<close>) or a panic (nil
  dereference, index out of range); \<open>handle\<close>, \<open>bindG\<close>, \<open>thenG\<close>, \<open>forG\<close>, \<open>logged\<close> and \<open>mapErr\<close> are the
  shapes of error handling in the source. Pointers are options, maps and slices may be nil. Objects are
  records with the fields the code reads or writes (K8s_Objects). The Kubernetes client is not code of
  the repository: it is the record \<open>client\<close>, a parameter of every handler, whose documented behaviour
  is the locale \<open>k8s_client\<close> (K8s_Client): what a successful or failed read, create, update, delete,
  list and patch says of and does to the objects, with failed writes that may or may not have been
  applied, admission (\<open>admit\<close>) and objects that wait for finalizers (\<open>gone\<close>). \<open>verbatim_client\<close> adds
  that the server stores what it is sent and \<open>reliable_client\<close> that reads succeed. An API server in
  memory interprets all three; the witnesses run the handlers on it. Environment variables, files and
  library functions (semver and version comparison, hashes, YAML, cipher names, owner references) are
  the record \<open>env\<close>, also a parameter. Every recursion is structural, so no fuel is needed.

  \<^bold>\<open>Theories and sources.\<close>
  \<^item> Prelude, K8s_Objects, K8s_Client, Sample_Cluster: the shared base described above; the locale
    \<open>world_relation\<close> composes footprint and preservation facts through the combinators, the locale
    \<open>field\<close> does so for the compare-and-set blocks.
  \<^item> Argo_Util: \<open>argocd-operator/controllers/argoutil\<close> (names and truncation, environment lists, TLS
    names). Cluster_Util: \<open>controllers/util/util.go\<close>. Default_Instance: \<open>controllers/argocd/argocd.go\<close>.
  \<^item> Gitops_Backend and Backend_Correct: the backend in \<open>controllers/gitopsservice_controller.go\<close>
    (\<open>reconcileBackend\<close>, \<open>cleanupBackendResources\<close> and the objects they build), and that it converges,
    settles, and is undone by its removal, in the stated order.
  \<^item> Argo_Instance: \<open>reconcileDefaultArgoCDInstance\<close>, \<open>ensureDefaultArgoCDInstanceDoesntExist\<close>,
    \<open>cleanKAMResources\<close> and the namespace steps, with the completion of an existing custom resource.
  \<^item> Console_Plugin and Plugin_Correct: \<open>controllers/consoleplugin.go\<close>. \<open>sort.Slice\<close> is modelled by a
    stable sort, and \<open>equality.Semantic.DeepEqual\<close> by equality after nil and empty, and equal quantities,
    are identified.
  \<^item> Gitops_Reconcile: \<open>Reconcile\<close> of \<open>controllers/gitopsservice_controller.go\<close> as a whole.
  \<^item> Argo_Route: \<open>controllers/argocd_controller.go\<close>. Metrics: \<open>controllers/argocd_metrics_controller.go\<close>.
    OpenShift_Hook: \<open>controllers/argocd/openshift/openshift.go\<close>.
  \<^item> Client_Wrapper: \<open>argocd-operator/pkg/clientwrapper\<close> and \<open>pkg/cacheutils\<close>: the client over the
    stripped cache meets the laws of \<open>k8s_client\<close>, so what is proved of the handlers holds on it.
  \<^item> Operator_Runs: the handlers interleaved with each other and with changes from outside, as a
    labelled step relation and its runs.
  \<^item> ArgoCD_API, Argo_Conversion and Conversion_Correct: the ArgoCD resource with every field in its two
    versions (\<open>argocd-operator/api/v1beta1\<close> and \<open>v1alpha1/argocd_types.go\<close>), the conversion webhook
    (\<open>api/v1alpha1/argocd_conversion.go\<close>) function by function, and what survives it in each direction,
    over the locales \<open>version_pair\<close> and \<open>pointer_pair\<close>.
  \<^item> Local_Users and Local_Users_Correct: \<open>argocd-operator/controllers/argocd/localusers.go\<close>, the API tokens
    of local users with the timers that renew them: revocation, issuing, clean-up and its order, the
    timers over every run, the footprint.
  \<^item> Command_Args: the merge of a user's command line arguments into a component's command
    (\<open>appendUniqueArgs\<close> of \<open>argocd-operator/controllers/argocd/util.go\<close>), shown to be that of a reference on
    flags with values. Argo_Command: the commands and images of the components (\<open>util.go\<close>,
    \<open>deployment.go\<close>, \<open>repo_server.go\<close>, \<open>commitserver.go\<close>, \<open>dexUtil.go\<close>, \<open>argoutil/redis.go\<close>).
  \<^item> Managed_Namespaces and Managed_Namespaces_Correct: \<open>argocd-operator/controllers/argocd/namespaceManagement.go\<close>
    and the event filters and clean-ups of \<open>util.go\<close>: which namespaces an instance manages and reports,
    what the clean-ups leave alone, the cluster secret, over the locale \<open>namespace_clients\<close> (the
    reconciler's client and the clientset on one cluster).
  \<^item> Instance_Common: what the reconcilers of an Argo CD instance share (names, labels, enabling conditions), and
    the notion \<open>ensures\<close>: a reconciler of one object leaves every other alone and establishes a condition.
    Object_Triples: the rules by which a reconciler is verified along its text.
  \<^item> Network_Policies and Network_Policies_Correct: \<open>argocd-operator/controllers/argocd/networkpolicies.go\<close> and the
    policy of the commit server: which policies are there after a pass, that a second pass changes
    nothing, which traffic into a component's pods the policies of an instance admit together (\<open>admits\<close>: the
    policies that isolate the pod and their rules), and which client of the commit server they cut off.
  \<^item> Instance_Services and Instance_Services_Correct: \<open>service.go\<close>, \<open>hpa.go\<close> and the services of \<open>dex.go\<close>,
    \<open>repo_server.go\<close> and \<open>commitserver.go\<close>: the services that are there, the TLS annotation, the
    autoscaler, and where a pass leaves things undone.
  \<^item> Instance_Routes and Instance_Routes_Correct: \<open>ingress.go\<close> and \<open>route.go\<close>: the Ingress and Route objects, the
    shortening of host names (with its termination and its bounds), the TLS data, the events.
  \<^item> Instance_Status and Instance_Status_Correct: \<open>status.go\<close>, the checks of \<open>sso.go\<close>, the write of the status
    (\<open>util.go\<close>), the wrapper \<open>Reconcile\<close> and the metrics of \<open>argocd_controller.go\<close>: the phase Available is
    only given when the components it is made from are ready, failures are reported, a written status is not written again, over the
    locale \<open>cr_server\<close>.
  \<^item> Policy_Rules: \<open>policyrule.go\<close>, the rules of the Roles and ClusterRoles, and what they permit: the table of each role, and over
    the whole lists that no role but the controller's grants a way to more rights.
    Instance_Rbac, Instance_Rbac_Correct and Instance_Permissions: \<open>role.go\<close>, \<open>rolebinding.go\<close>,
    \<open>service_account.go\<close> and the source namespaces of \<open>util.go\<close>: a component's account, Roles and bindings hold
    together, the ClusterRole follows the installation mode, given-up source namespaces are clean, those of
    other instances are left alone, and what deleting an instance deletes.
  \<^item> Instance_Secrets, Instance_Secrets_Correct and Instance_Credentials: \<open>secret.go\<close> and the token of \<open>dex.go\<close>: the
    generated secrets are made once and kept, \<open>argocd-secret\<close> follows its sources, the cluster secret lists the
    managed namespaces, copies of image pull secrets touch nothing else, and the token of Dex is never
    handed out near its expiry, over the locale \<open>tracked_lister\<close>.
  \<^bold>\<open>What the properties show.\<close> For each handler: what holds when it returns without an error (the
  managed objects are as desired, or gone), what it may touch and what it never deletes however it
  ends, that a converged state is left alone, and which inputs make it fail or panic. For the helpers:
  bounds of generated names, equivalence with a reference (generated configuration, order-insensitive
  comparison), and the error cases. For the whole: footprints and preservation over every run.

  \<^bold>\<open>Not modelled.\<close> Registration of controllers and watches with the manager and the start of the
  process in \<open>cmd/main.go\<close> (calls into controller-runtime), logging and metrics counters, generated deep
  copies, cryptographic material, and
  the workloads of the embedded Argo CD operator (deployments and stateful sets beyond their commands and images), its
  generated config maps and the rollouts a changed TLS secret of Redis starts, and its applicationset, notifications, agent, promoter and image updater
  reconcilers; with them the order of the reconcilers in \<open>reconcileResources\<close>.
\<close>

section \<open>Properties across components\<close>

text \<open>The main handler on the client it really runs on: over a live API server that keeps what it is
  sent, reached through the wrapper and the cache that drops the data of untracked Secrets and
  ConfigMaps, a pass that returns without an error with the default install enabled leaves the backend
  converged and the default instance complete, and nothing outside the managed objects has changed.\<close>

theorem Reconcile_on_wrapper:
  assumes "verbatim_client live view admit id" and "\<not> DisableDefaultInstall cfg"
    and "view w (KGitopsService, '''', serviceName) = Some (OGitopsService inst)"
    and "Reconcile e f (NewClientWrapper (strip_cache live) live) cfg w = (Ok (), w')"
  shows "backendConverged e (CentralTLSProfile cfg) (backendNameFor (versionOf (view w clusterVersionKey))) inst (view w') \<and>
    (\<exists>a. view w' argoInstanceKey = Some (OArgoCD a) \<and> argoInstanceOk inst a) \<and>
    same_outside view (managedKeys f cfg) w w'"
proof -
  have "live_api live view admit" by (rule live_api.intro[OF verbatim_client.axioms(1)[OF assms(1)]])
  then have cl: "k8s_client (NewClientWrapper (strip_cache live) live) view admit track" by (rule live_api.wrapped_laws)
  moreover have "verbatim_client_axioms admit" using assms(1) by (rule verbatim_client.axioms(2))
  ultimately have "verbatim_client (NewClientWrapper (strip_cache live) live) view admit track" by (rule verbatim_client.intro)
  from verbatim_client.Reconcile_Ok[OF this assms(2-4)] act_relD[OF k8s_client.Reconcile_fp[OF cl] assms(4)]
  show ?thesis by blast
qed

theorem Reconcile_on_wrapper_witness:
  "let w' = snd (Reconcile sampleEnv sampleFlags (NewClientWrapper (strip_cache mem_client) mem_client) (sampleConfig False) sampleCluster)
   in (\<exists>a. mem_view w' argoInstanceKey = Some (OArgoCD a) \<and> argoInstanceOk sampleService a) \<and>
      same_outside mem_view (managedKeys sampleFlags (sampleConfig False)) sampleCluster w'"
proof -
  have r: "fst (Reconcile sampleEnv sampleFlags (NewClientWrapper (strip_cache mem_client) mem_client) (sampleConfig False) sampleCluster) = Ok ()"
    by code_simp
  have d: "\<not> DisableDefaultInstall (sampleConfig False)" by (simp add: sampleConfig_def)
  from Reconcile_on_wrapper[OF mem.verbatim_client_axioms d sampleCluster_service run_result[OF r]]
  show ?thesis unfolding Let_def by blast
qed

end
